(* ===== verification/Prelude.thy ===== *)
theory Prelude
  imports Main "HOL-Library.Word" "HOL-Library.State_Monad"
begin

text \<open>
  Shared vocabulary of the development: the C integer types as machine words, little-endian byte
  encodings, byte buffers written at an offset, and a state monad with a weakest-precondition
  calculus.  The probe programs of \<^verbatim>\<open>bpf/\<close> are written in this monad; the locale
  \<open>step_relation\<close> packages the rules that lift a reflexive and transitive relation on
  states through a program, and is interpreted once for every such relation used below.
\<close>

unbundle bit_operations_syntax

section \<open>Machine integers\<close>

type_synonym u8 = "8 word"
type_synonym u16 = "16 word"
type_synonym u32 = "32 word"
type_synonym u64 = "64 word"
type_synonym s32 = "32 word"
type_synonym s64 = "64 word"
type_synonym bytes = "8 word list"

text \<open>The signed types share the words of the unsigned ones and are read with \<open>sint\<close>.\<close>

text \<open>A flag test \<open>x & m\<close> used as a C condition.\<close>

definition has_flag :: "'a::len word \<Rightarrow> 'a word \<Rightarrow> bool" where
  "has_flag x m \<longleftrightarrow> x AND m \<noteq> 0"

lemma has_flag_zero [simp]: "\<not> has_flag 0 m" "\<not> has_flag x 0"
  by (simp_all add: has_flag_def)

lemma has_flag_or: "has_flag (x OR y) m \<longleftrightarrow> has_flag x m \<or> has_flag y m"
  by (auto simp: has_flag_def bit_eq_iff bit_and_iff bit_or_iff)

section \<open>Little-endian encodings\<close>

primrec le_bytes :: "nat \<Rightarrow> 'a::len word \<Rightarrow> bytes" where
  "le_bytes 0 w = []"
| "le_bytes (Suc n) w = ucast w # le_bytes n (drop_bit 8 w)"

primrec le_word :: "bytes \<Rightarrow> 'a::len word" where
  "le_word [] = 0"
| "le_word (b # bs) = ucast b OR push_bit 8 (le_word bs)"

lemma length_le_bytes [simp]: "length (le_bytes n w) = n"
  by (induction n arbitrary: w) auto

lemma le_word_le_bytes_take: "le_word (le_bytes n w) = take_bit (8 * n) w"
proof (induction n arbitrary: w)
  case 0
  then show ?case by simp
next
  case (Suc n)
  have "ucast (ucast w :: u8) OR push_bit 8 (take_bit (8 * n) (drop_bit 8 w)) = take_bit (8 * Suc n) w"
    by (rule bit_word_eqI) (auto simp: bit_or_iff bit_push_bit_iff bit_take_bit_iff bit_drop_bit_eq bit_ucast_iff)
  then show ?case by (simp add: Suc.IH)
qed

lemma le_word_le_bytes: "LENGTH('a) \<le> 8 * n \<Longrightarrow> le_word (le_bytes n w) = (w :: 'a::len word)"
  by (simp add: le_word_le_bytes_take take_bit_word_eq_self)

lemma le_word_le_bytes_u16 [simp]: "le_word (le_bytes 2 w) = (w :: u16)"
  by (simp add: le_word_le_bytes)

lemma le_word_le_bytes_u32 [simp]: "le_word (le_bytes 4 w) = (w :: u32)"
  by (simp add: le_word_le_bytes)

lemma le_word_le_bytes_u64 [simp]: "le_word (le_bytes 8 w) = (w :: u64)"
  by (simp add: le_word_le_bytes)

text \<open>A fixed-size byte array: the given bytes, padded with zeros or cut at the array size.\<close>

definition pad_bytes :: "nat \<Rightarrow> bytes \<Rightarrow> bytes" where
  "pad_bytes n bs = take n (bs @ replicate n 0)"

lemma length_pad_bytes [simp]: "length (pad_bytes n bs) = n"
  by (simp add: pad_bytes_def)

lemma pad_bytes_id: "length bs = n \<Longrightarrow> pad_bytes n bs = bs"
  by (simp add: pad_bytes_def)

section \<open>Byte buffers\<close>

definition bslice :: "nat \<Rightarrow> nat \<Rightarrow> 'a list \<Rightarrow> 'a list" where
  "bslice off n xs = take n (drop off xs)"

definition poke :: "'a list \<Rightarrow> nat \<Rightarrow> 'a list \<Rightarrow> 'a list" where
  "poke xs off ys = take off xs @ ys @ drop (off + length ys) xs"

lemma length_poke [simp]: "off + length ys \<le> length xs \<Longrightarrow> length (poke xs off ys) = length xs"
  by (simp add: poke_def)

lemma length_bslice [simp]: "off + n \<le> length xs \<Longrightarrow> length (bslice off n xs) = n"
  by (simp add: bslice_def)

lemma bslice_0 [simp]: "bslice off 0 xs = []"
  by (simp add: bslice_def)

lemma bslice_slice: "m + k \<le> n \<Longrightarrow> bslice m k (bslice off n xs) = bslice (off + m) k xs"
  by (simp add: bslice_def drop_take min_def add.commute)

lemma bslice_poke_same:
  "off + length ys \<le> length xs \<Longrightarrow> bslice off (length ys) (poke xs off ys) = ys"
  by (simp add: bslice_def poke_def)

lemma bslice_poke_same':
  "off + length ys \<le> length xs \<Longrightarrow> n = length ys \<Longrightarrow> bslice off n (poke xs off ys) = ys"
  by (simp add: bslice_poke_same)

lemma bslice_poke_inside:
  assumes "off + length ys \<le> length xs" "off \<le> i" "i + n \<le> off + length ys"
  shows "bslice i n (poke xs off ys) = bslice (i - off) n ys"
proof -
  have "drop i (poke xs off ys) = drop (i - off) (ys @ drop (off + length ys) xs)"
    using assms by (simp add: poke_def)
  then show ?thesis using assms by (simp add: bslice_def)
qed

lemma bslice_poke_before:
  assumes "i + n \<le> off" "off + length ys \<le> length xs"
  shows "bslice i n (poke xs off ys) = bslice i n xs"
  using assms by (simp add: bslice_def poke_def drop_take[symmetric] min_def)
    (simp add: take_drop min_def)

lemma bslice_poke_after:
  assumes "off + length ys \<le> i" "off + length ys \<le> length xs"
  shows "bslice i n (poke xs off ys) = bslice i n xs"
  using assms by (simp add: bslice_def poke_def)

lemma bslice_append:
  assumes "off + m + n \<le> length xs"
  shows "bslice off (m + n) xs = bslice off m xs @ bslice (off + m) n xs"
  by (simp add: bslice_def take_add add.commute)

lemma bslice_all [simp]: "bslice 0 (length xs) xs = xs"
  by (simp add: bslice_def)

lemma bslice_append_left [simp]: "off + n \<le> length xs \<Longrightarrow> bslice off n (xs @ ys) = bslice off n xs"
  by (simp add: bslice_def)

lemma bslice_append_right:
  "length xs \<le> off \<Longrightarrow> bslice off n (xs @ ys) = bslice (off - length xs) n ys"
  by (simp add: bslice_def)

section \<open>Programs\<close>

text \<open>
  A probe program is a value of \<^typ>\<open>('s, 'a) state\<close>.  \<open>wp m Q s\<close> says that
  running \<open>m\<close> from \<open>s\<close> ends in a result and state that satisfy \<open>Q\<close>; programs are
  total, so this is total correctness.
\<close>

abbreviation result :: "('s, 'a) state \<Rightarrow> 's \<Rightarrow> 'a" where
  "result m s \<equiv> fst (run_state m s)"

abbreviation exec :: "('s, 'a) state \<Rightarrow> 's \<Rightarrow> 's" where
  "exec m s \<equiv> snd (run_state m s)"

abbreviation return :: "'a \<Rightarrow> ('s, 'a) state" where
  "return \<equiv> State_Monad.return"

definition gets :: "('s \<Rightarrow> 'a) \<Rightarrow> ('s, 'a) state" where
  "gets f = State (\<lambda>s. (f s, s))"

definition modify :: "('s \<Rightarrow> 's) \<Rightarrow> ('s, unit) state" where
  "modify f = State (\<lambda>s. ((), f s))"

definition only_if :: "bool \<Rightarrow> ('s, unit) state \<Rightarrow> ('s, unit) state" where
  "only_if b m = (if b then m else return ())"

definition wp :: "('s, 'a) state \<Rightarrow> ('a \<Rightarrow> 's \<Rightarrow> bool) \<Rightarrow> 's \<Rightarrow> bool" where
  "wp m Q s \<longleftrightarrow> Q (result m s) (exec m s)"

named_theorems wp_simps \<open>equations that evaluate wp on a program constructor\<close>

lemma run_gets [simp]: "run_state (gets f) s = (f s, s)"
  by (simp add: gets_def)

lemma run_modify [simp]: "run_state (modify f) s = ((), f s)"
  by (simp add: modify_def)

lemma run_bind_parts:
  "result (State_Monad.bind m f) s = result (f (result m s)) (exec m s)"
  "exec (State_Monad.bind m f) s = exec (f (result m s)) (exec m s)"
  by (simp_all split: prod.split)

lemma wp_return [wp_simps]: "wp (return x) Q s = Q x s"
  by (simp add: wp_def)

lemma wp_bind [wp_simps]: "wp (State_Monad.bind m f) Q s = wp m (\<lambda>x. wp (f x) Q) s"
  by (simp add: wp_def run_bind_parts del: run_state_bind)

lemma wp_gets [wp_simps]: "wp (gets f) Q s = Q (f s) s"
  by (simp add: wp_def)

lemma wp_modify [wp_simps]: "wp (modify f) Q s = Q () (f s)"
  by (simp add: wp_def)

lemma wp_only_if [wp_simps]: "wp (only_if b m) Q s = (if b then wp m Q s else Q () s)"
  by (simp add: only_if_def wp_simps)

lemma wp_if [wp_simps]: "wp (if b then m else n) Q s = (if b then wp m Q s else wp n Q s)"
  by simp

lemma wp_case_option [wp_simps]:
  "wp (case x of None \<Rightarrow> m | Some y \<Rightarrow> f y) Q s =
     (case x of None \<Rightarrow> wp m Q s | Some y \<Rightarrow> wp (f y) Q s)"
  by (simp split: option.split)

lemma wp_case_prod [wp_simps]:
  "wp (case x of (a, b) \<Rightarrow> f a b) Q s = (case x of (a, b) \<Rightarrow> wp (f a b) Q s)"
  by (simp split: prod.split)

lemma wp_mono: "wp m Q s \<Longrightarrow> (\<And>x t. Q x t \<Longrightarrow> Q' x t) \<Longrightarrow> wp m Q' s"
  by (simp add: wp_def)

lemma wp_conj: "wp m (\<lambda>x t. Q x t \<and> R x t) s \<longleftrightarrow> wp m Q s \<and> wp m R s"
  by (simp add: wp_def)

lemma wp_triv [simp]: "wp m (\<lambda>x t. True) s"
  by (simp add: wp_def)

section \<open>Relations lifted through programs\<close>

text \<open>
  \<open>state_io_rel R m\<close> (from the library's state monad) says that every run of \<open>m\<close> relates its
  start state to its end state by \<open>R\<close>.
\<close>

lemma state_io_rel_wp: "state_io_rel R m \<longleftrightarrow> (\<forall>s. wp m (\<lambda>_. R s) s)"
  by (simp add: state_io_rel_def wp_def)

lemma state_io_rel_exec: "state_io_rel R m \<Longrightarrow> R s (exec m s)"
  by (simp add: state_io_rel_def)

locale step_relation =
  fixes R :: "'s \<Rightarrow> 's \<Rightarrow> bool"
  assumes R_refl: "R s s"
    and R_trans: "R s t \<Longrightarrow> R t u \<Longrightarrow> R s u"
begin

lemma io_return: "state_io_rel R (return x)"
  by (simp add: state_io_rel_def R_refl)

lemma io_gets: "state_io_rel R (gets f)"
  by (simp add: state_io_rel_def R_refl)

lemma io_modify: "(\<And>s. R s (f s)) \<Longrightarrow> state_io_rel R (modify f)"
  by (simp add: state_io_rel_def)

lemma io_bind:
  assumes "state_io_rel R m" and "\<And>x. state_io_rel R (f x)"
  shows "state_io_rel R (State_Monad.bind m f)"
  using assms by (auto simp: state_io_rel_def run_bind_parts simp del: run_state_bind intro: R_trans)

lemma io_if:
  assumes "b \<Longrightarrow> state_io_rel R m" and "\<not> b \<Longrightarrow> state_io_rel R n"
  shows "state_io_rel R (if b then m else n)"
  using assms by simp

lemma io_only_if: "(b \<Longrightarrow> state_io_rel R m) \<Longrightarrow> state_io_rel R (only_if b m)"
  by (simp add: only_if_def io_return)

lemma io_case_option:
  assumes "x = None \<Longrightarrow> state_io_rel R m" and "\<And>y. x = Some y \<Longrightarrow> state_io_rel R (f y)"
  shows "state_io_rel R (case x of None \<Rightarrow> m | Some y \<Rightarrow> f y)"
  using assms by (cases x) auto

lemma io_case_prod:
  "(\<And>a b. state_io_rel R (f a b)) \<Longrightarrow> state_io_rel R (case x of (a, b) \<Rightarrow> f a b)"
  by (cases x) auto

lemma io_let: "state_io_rel R (f x) \<Longrightarrow> state_io_rel R (let y = x in f y)"
  by simp

lemmas io_rules = io_return io_gets io_bind io_if io_only_if io_case_option io_case_prod io_let

end

text \<open>The relation \<open>the observation f is unchanged\<close> is always such a relation.\<close>

definition same :: "('s \<Rightarrow> 'b) \<Rightarrow> 's \<Rightarrow> 's \<Rightarrow> bool" where
  "same f s t \<longleftrightarrow> f t = f s"

interpretation same: step_relation "same f"
  by unfold_locales (simp_all add: same_def)

lemma same_exec: "state_io_rel (same f) m \<Longrightarrow> f (exec m s) = f s"
  by (simp add: state_io_rel_def same_def)

lemma wp_same: "state_io_rel (same f) m \<Longrightarrow> wp m Q s \<longleftrightarrow> wp m (\<lambda>x t. f t = f s \<and> Q x t) s"
  by (simp add: wp_def same_exec)

end
