(* ===== verification/Syscall_Numbers.thy ===== *)
theory Syscall_Numbers
  imports Prelude
begin

text \<open>
  The syscall numbers of \<^verbatim>\<open>bpf/syscall_numbers_amd64_generated.h\<close> that the probe programs name, for the
  amd64 target.  They are abbreviations, so a comparison with a syscall number is a comparison of
  numerals for the simplifier.
\<close>

abbreviation (input) SYS_ACCEPT :: u32 where "SYS_ACCEPT \<equiv> 43"
abbreviation (input) SYS_ACCEPT4 :: u32 where "SYS_ACCEPT4 \<equiv> 288"
abbreviation (input) SYS_ACCESS :: u32 where "SYS_ACCESS \<equiv> 21"
abbreviation (input) SYS_ACCT :: u32 where "SYS_ACCT \<equiv> 163"
abbreviation (input) SYS_ADD_KEY :: u32 where "SYS_ADD_KEY \<equiv> 248"
abbreviation (input) SYS_ADJTIMEX :: u32 where "SYS_ADJTIMEX \<equiv> 159"
abbreviation (input) SYS_ARCH_PRCTL :: u32 where "SYS_ARCH_PRCTL \<equiv> 158"
abbreviation (input) SYS_BIND :: u32 where "SYS_BIND \<equiv> 49"
abbreviation (input) SYS_BPF :: u32 where "SYS_BPF \<equiv> 321"
abbreviation (input) SYS_CACHESTAT :: u32 where "SYS_CACHESTAT \<equiv> 451"
abbreviation (input) SYS_CAPGET :: u32 where "SYS_CAPGET \<equiv> 125"
abbreviation (input) SYS_CAPSET :: u32 where "SYS_CAPSET \<equiv> 126"
abbreviation (input) SYS_CHDIR :: u32 where "SYS_CHDIR \<equiv> 80"
abbreviation (input) SYS_CHMOD :: u32 where "SYS_CHMOD \<equiv> 90"
abbreviation (input) SYS_CHOWN :: u32 where "SYS_CHOWN \<equiv> 92"
abbreviation (input) SYS_CHROOT :: u32 where "SYS_CHROOT \<equiv> 161"
abbreviation (input) SYS_CLOCK_ADJTIME :: u32 where "SYS_CLOCK_ADJTIME \<equiv> 305"
abbreviation (input) SYS_CLOCK_GETRES :: u32 where "SYS_CLOCK_GETRES \<equiv> 229"
abbreviation (input) SYS_CLOCK_GETTIME :: u32 where "SYS_CLOCK_GETTIME \<equiv> 228"
abbreviation (input) SYS_CLOCK_NANOSLEEP :: u32 where "SYS_CLOCK_NANOSLEEP \<equiv> 230"
abbreviation (input) SYS_CLOCK_SETTIME :: u32 where "SYS_CLOCK_SETTIME \<equiv> 227"
abbreviation (input) SYS_CLONE :: u32 where "SYS_CLONE \<equiv> 56"
abbreviation (input) SYS_CLONE3 :: u32 where "SYS_CLONE3 \<equiv> 435"
abbreviation (input) SYS_CLOSE :: u32 where "SYS_CLOSE \<equiv> 3"
abbreviation (input) SYS_CLOSE_RANGE :: u32 where "SYS_CLOSE_RANGE \<equiv> 436"
abbreviation (input) SYS_CONNECT :: u32 where "SYS_CONNECT \<equiv> 42"
abbreviation (input) SYS_COPY_FILE_RANGE :: u32 where "SYS_COPY_FILE_RANGE \<equiv> 326"
abbreviation (input) SYS_CREAT :: u32 where "SYS_CREAT \<equiv> 85"
abbreviation (input) SYS_DUP :: u32 where "SYS_DUP \<equiv> 32"
abbreviation (input) SYS_DUP2 :: u32 where "SYS_DUP2 \<equiv> 33"
abbreviation (input) SYS_DUP3 :: u32 where "SYS_DUP3 \<equiv> 292"
abbreviation (input) SYS_EPOLL_CREATE :: u32 where "SYS_EPOLL_CREATE \<equiv> 213"
abbreviation (input) SYS_EPOLL_CREATE1 :: u32 where "SYS_EPOLL_CREATE1 \<equiv> 291"
abbreviation (input) SYS_EPOLL_CTL :: u32 where "SYS_EPOLL_CTL \<equiv> 233"
abbreviation (input) SYS_EPOLL_PWAIT :: u32 where "SYS_EPOLL_PWAIT \<equiv> 281"
abbreviation (input) SYS_EPOLL_PWAIT2 :: u32 where "SYS_EPOLL_PWAIT2 \<equiv> 441"
abbreviation (input) SYS_EPOLL_WAIT :: u32 where "SYS_EPOLL_WAIT \<equiv> 232"
abbreviation (input) SYS_EVENTFD :: u32 where "SYS_EVENTFD \<equiv> 284"
abbreviation (input) SYS_EVENTFD2 :: u32 where "SYS_EVENTFD2 \<equiv> 290"
abbreviation (input) SYS_EXECVE :: u32 where "SYS_EXECVE \<equiv> 59"
abbreviation (input) SYS_EXECVEAT :: u32 where "SYS_EXECVEAT \<equiv> 322"
abbreviation (input) SYS_EXIT :: u32 where "SYS_EXIT \<equiv> 60"
abbreviation (input) SYS_EXIT_GROUP :: u32 where "SYS_EXIT_GROUP \<equiv> 231"
abbreviation (input) SYS_FACCESSAT :: u32 where "SYS_FACCESSAT \<equiv> 269"
abbreviation (input) SYS_FACCESSAT2 :: u32 where "SYS_FACCESSAT2 \<equiv> 439"
abbreviation (input) SYS_FCHDIR :: u32 where "SYS_FCHDIR \<equiv> 81"
abbreviation (input) SYS_FCHMODAT :: u32 where "SYS_FCHMODAT \<equiv> 268"
abbreviation (input) SYS_FCHOWNAT :: u32 where "SYS_FCHOWNAT \<equiv> 260"
abbreviation (input) SYS_FCNTL :: u32 where "SYS_FCNTL \<equiv> 72"
abbreviation (input) SYS_FGETXATTR :: u32 where "SYS_FGETXATTR \<equiv> 193"
abbreviation (input) SYS_FILE_GETATTR :: u32 where "SYS_FILE_GETATTR \<equiv> 468"
abbreviation (input) SYS_FILE_SETATTR :: u32 where "SYS_FILE_SETATTR \<equiv> 469"
abbreviation (input) SYS_FLISTXATTR :: u32 where "SYS_FLISTXATTR \<equiv> 196"
abbreviation (input) SYS_FORK :: u32 where "SYS_FORK \<equiv> 57"
abbreviation (input) SYS_FREMOVEXATTR :: u32 where "SYS_FREMOVEXATTR \<equiv> 199"
abbreviation (input) SYS_FSCONFIG :: u32 where "SYS_FSCONFIG \<equiv> 431"
abbreviation (input) SYS_FSETXATTR :: u32 where "SYS_FSETXATTR \<equiv> 190"
abbreviation (input) SYS_FSOPEN :: u32 where "SYS_FSOPEN \<equiv> 430"
abbreviation (input) SYS_FSPICK :: u32 where "SYS_FSPICK \<equiv> 433"
abbreviation (input) SYS_FSTAT :: u32 where "SYS_FSTAT \<equiv> 5"
abbreviation (input) SYS_FSTATFS :: u32 where "SYS_FSTATFS \<equiv> 138"
abbreviation (input) SYS_FUTEX :: u32 where "SYS_FUTEX \<equiv> 202"
abbreviation (input) SYS_FUTEX_REQUEUE :: u32 where "SYS_FUTEX_REQUEUE \<equiv> 456"
abbreviation (input) SYS_FUTEX_WAIT :: u32 where "SYS_FUTEX_WAIT \<equiv> 455"
abbreviation (input) SYS_FUTEX_WAITV :: u32 where "SYS_FUTEX_WAITV \<equiv> 449"
abbreviation (input) SYS_FUTIMESAT :: u32 where "SYS_FUTIMESAT \<equiv> 261"
abbreviation (input) SYS_GETCWD :: u32 where "SYS_GETCWD \<equiv> 79"
abbreviation (input) SYS_GETDENTS :: u32 where "SYS_GETDENTS \<equiv> 78"
abbreviation (input) SYS_GETDENTS64 :: u32 where "SYS_GETDENTS64 \<equiv> 217"
abbreviation (input) SYS_GETITIMER :: u32 where "SYS_GETITIMER \<equiv> 36"
abbreviation (input) SYS_GETPEERNAME :: u32 where "SYS_GETPEERNAME \<equiv> 52"
abbreviation (input) SYS_GETPGID :: u32 where "SYS_GETPGID \<equiv> 121"
abbreviation (input) SYS_GETPID :: u32 where "SYS_GETPID \<equiv> 39"
abbreviation (input) SYS_GETRLIMIT :: u32 where "SYS_GETRLIMIT \<equiv> 97"
abbreviation (input) SYS_GETSOCKNAME :: u32 where "SYS_GETSOCKNAME \<equiv> 51"
abbreviation (input) SYS_GETSOCKOPT :: u32 where "SYS_GETSOCKOPT \<equiv> 55"
abbreviation (input) SYS_GETTID :: u32 where "SYS_GETTID \<equiv> 186"
abbreviation (input) SYS_GETTIMEOFDAY :: u32 where "SYS_GETTIMEOFDAY \<equiv> 96"
abbreviation (input) SYS_GETXATTR :: u32 where "SYS_GETXATTR \<equiv> 191"
abbreviation (input) SYS_GET_ROBUST_LIST :: u32 where "SYS_GET_ROBUST_LIST \<equiv> 274"
abbreviation (input) SYS_INOTIFY_INIT :: u32 where "SYS_INOTIFY_INIT \<equiv> 253"
abbreviation (input) SYS_INOTIFY_INIT1 :: u32 where "SYS_INOTIFY_INIT1 \<equiv> 294"
abbreviation (input) SYS_IOCTL :: u32 where "SYS_IOCTL \<equiv> 16"
abbreviation (input) SYS_IO_CANCEL :: u32 where "SYS_IO_CANCEL \<equiv> 210"
abbreviation (input) SYS_IO_GETEVENTS :: u32 where "SYS_IO_GETEVENTS \<equiv> 208"
abbreviation (input) SYS_IO_PGETEVENTS :: u32 where "SYS_IO_PGETEVENTS \<equiv> 333"
abbreviation (input) SYS_IO_SETUP :: u32 where "SYS_IO_SETUP \<equiv> 206"
abbreviation (input) SYS_IO_SUBMIT :: u32 where "SYS_IO_SUBMIT \<equiv> 209"
abbreviation (input) SYS_KEYCTL :: u32 where "SYS_KEYCTL \<equiv> 250"
abbreviation (input) SYS_LCHOWN :: u32 where "SYS_LCHOWN \<equiv> 94"
abbreviation (input) SYS_LGETXATTR :: u32 where "SYS_LGETXATTR \<equiv> 192"
abbreviation (input) SYS_LINK :: u32 where "SYS_LINK \<equiv> 86"
abbreviation (input) SYS_LINKAT :: u32 where "SYS_LINKAT \<equiv> 265"
abbreviation (input) SYS_LISTMOUNT :: u32 where "SYS_LISTMOUNT \<equiv> 458"
abbreviation (input) SYS_LISTXATTR :: u32 where "SYS_LISTXATTR \<equiv> 194"
abbreviation (input) SYS_LLISTXATTR :: u32 where "SYS_LLISTXATTR \<equiv> 195"
abbreviation (input) SYS_LREMOVEXATTR :: u32 where "SYS_LREMOVEXATTR \<equiv> 198"
abbreviation (input) SYS_LSETXATTR :: u32 where "SYS_LSETXATTR \<equiv> 189"
abbreviation (input) SYS_LSTAT :: u32 where "SYS_LSTAT \<equiv> 6"
abbreviation (input) SYS_MEMFD_CREATE :: u32 where "SYS_MEMFD_CREATE \<equiv> 319"
abbreviation (input) SYS_MKDIR :: u32 where "SYS_MKDIR \<equiv> 83"
abbreviation (input) SYS_MKDIRAT :: u32 where "SYS_MKDIRAT \<equiv> 258"
abbreviation (input) SYS_MKNOD :: u32 where "SYS_MKNOD \<equiv> 133"
abbreviation (input) SYS_MKNODAT :: u32 where "SYS_MKNODAT \<equiv> 259"
abbreviation (input) SYS_MOUNT :: u32 where "SYS_MOUNT \<equiv> 165"
abbreviation (input) SYS_MOUNT_SETATTR :: u32 where "SYS_MOUNT_SETATTR \<equiv> 442"
abbreviation (input) SYS_MOVE_MOUNT :: u32 where "SYS_MOVE_MOUNT \<equiv> 429"
abbreviation (input) SYS_NANOSLEEP :: u32 where "SYS_NANOSLEEP \<equiv> 35"
abbreviation (input) SYS_NEWFSTATAT :: u32 where "SYS_NEWFSTATAT \<equiv> 262"
abbreviation (input) SYS_OPEN :: u32 where "SYS_OPEN \<equiv> 2"
abbreviation (input) SYS_OPENAT :: u32 where "SYS_OPENAT \<equiv> 257"
abbreviation (input) SYS_OPENAT2 :: u32 where "SYS_OPENAT2 \<equiv> 437"
abbreviation (input) SYS_OPEN_TREE :: u32 where "SYS_OPEN_TREE \<equiv> 428"
abbreviation (input) SYS_PIDFD_OPEN :: u32 where "SYS_PIDFD_OPEN \<equiv> 434"
abbreviation (input) SYS_PIPE :: u32 where "SYS_PIPE \<equiv> 22"
abbreviation (input) SYS_PIPE2 :: u32 where "SYS_PIPE2 \<equiv> 293"
abbreviation (input) SYS_POLL :: u32 where "SYS_POLL \<equiv> 7"
abbreviation (input) SYS_PPOLL :: u32 where "SYS_PPOLL \<equiv> 271"
abbreviation (input) SYS_PRCTL :: u32 where "SYS_PRCTL \<equiv> 157"
abbreviation (input) SYS_PREAD64 :: u32 where "SYS_PREAD64 \<equiv> 17"
abbreviation (input) SYS_PREADV :: u32 where "SYS_PREADV \<equiv> 295"
abbreviation (input) SYS_PREADV2 :: u32 where "SYS_PREADV2 \<equiv> 327"
abbreviation (input) SYS_PRLIMIT64 :: u32 where "SYS_PRLIMIT64 \<equiv> 302"
abbreviation (input) SYS_PROCESS_MADVISE :: u32 where "SYS_PROCESS_MADVISE \<equiv> 440"
abbreviation (input) SYS_PROCESS_VM_READV :: u32 where "SYS_PROCESS_VM_READV \<equiv> 310"
abbreviation (input) SYS_PROCESS_VM_WRITEV :: u32 where "SYS_PROCESS_VM_WRITEV \<equiv> 311"
abbreviation (input) SYS_PSELECT6 :: u32 where "SYS_PSELECT6 \<equiv> 270"
abbreviation (input) SYS_PWRITE64 :: u32 where "SYS_PWRITE64 \<equiv> 18"
abbreviation (input) SYS_PWRITEV :: u32 where "SYS_PWRITEV \<equiv> 296"
abbreviation (input) SYS_PWRITEV2 :: u32 where "SYS_PWRITEV2 \<equiv> 328"
abbreviation (input) SYS_QUOTACTL :: u32 where "SYS_QUOTACTL \<equiv> 179"
abbreviation (input) SYS_QUOTACTL_FD :: u32 where "SYS_QUOTACTL_FD \<equiv> 443"
abbreviation (input) SYS_READ :: u32 where "SYS_READ \<equiv> 0"
abbreviation (input) SYS_READLINK :: u32 where "SYS_READLINK \<equiv> 89"
abbreviation (input) SYS_READLINKAT :: u32 where "SYS_READLINKAT \<equiv> 267"
abbreviation (input) SYS_READV :: u32 where "SYS_READV \<equiv> 19"
abbreviation (input) SYS_RECVFROM :: u32 where "SYS_RECVFROM \<equiv> 45"
abbreviation (input) SYS_RECVMMSG :: u32 where "SYS_RECVMMSG \<equiv> 299"
abbreviation (input) SYS_RECVMSG :: u32 where "SYS_RECVMSG \<equiv> 47"
abbreviation (input) SYS_REMOVEXATTR :: u32 where "SYS_REMOVEXATTR \<equiv> 197"
abbreviation (input) SYS_RENAME :: u32 where "SYS_RENAME \<equiv> 82"
abbreviation (input) SYS_RENAMEAT :: u32 where "SYS_RENAMEAT \<equiv> 264"
abbreviation (input) SYS_RENAMEAT2 :: u32 where "SYS_RENAMEAT2 \<equiv> 316"
abbreviation (input) SYS_REQUEST_KEY :: u32 where "SYS_REQUEST_KEY \<equiv> 249"
abbreviation (input) SYS_RMDIR :: u32 where "SYS_RMDIR \<equiv> 84"
abbreviation (input) SYS_RT_SIGACTION :: u32 where "SYS_RT_SIGACTION \<equiv> 13"
abbreviation (input) SYS_RT_SIGPROCMASK :: u32 where "SYS_RT_SIGPROCMASK \<equiv> 14"
abbreviation (input) SYS_RT_SIGRETURN :: u32 where "SYS_RT_SIGRETURN \<equiv> 15"
abbreviation (input) SYS_RT_SIGSUSPEND :: u32 where "SYS_RT_SIGSUSPEND \<equiv> 130"
abbreviation (input) SYS_SELECT :: u32 where "SYS_SELECT \<equiv> 23"
abbreviation (input) SYS_SENDFILE :: u32 where "SYS_SENDFILE \<equiv> 40"
abbreviation (input) SYS_SENDMMSG :: u32 where "SYS_SENDMMSG \<equiv> 307"
abbreviation (input) SYS_SENDMSG :: u32 where "SYS_SENDMSG \<equiv> 46"
abbreviation (input) SYS_SENDTO :: u32 where "SYS_SENDTO \<equiv> 44"
abbreviation (input) SYS_SETITIMER :: u32 where "SYS_SETITIMER \<equiv> 38"
abbreviation (input) SYS_SETNS :: u32 where "SYS_SETNS \<equiv> 308"
abbreviation (input) SYS_SETRLIMIT :: u32 where "SYS_SETRLIMIT \<equiv> 160"
abbreviation (input) SYS_SETSOCKOPT :: u32 where "SYS_SETSOCKOPT \<equiv> 54"
abbreviation (input) SYS_SETTIMEOFDAY :: u32 where "SYS_SETTIMEOFDAY \<equiv> 164"
abbreviation (input) SYS_SETXATTR :: u32 where "SYS_SETXATTR \<equiv> 188"
abbreviation (input) SYS_SIGNALFD :: u32 where "SYS_SIGNALFD \<equiv> 282"
abbreviation (input) SYS_SIGNALFD4 :: u32 where "SYS_SIGNALFD4 \<equiv> 289"
abbreviation (input) SYS_SOCKET :: u32 where "SYS_SOCKET \<equiv> 41"
abbreviation (input) SYS_SOCKETPAIR :: u32 where "SYS_SOCKETPAIR \<equiv> 53"
abbreviation (input) SYS_STAT :: u32 where "SYS_STAT \<equiv> 4"
abbreviation (input) SYS_STATFS :: u32 where "SYS_STATFS \<equiv> 137"
abbreviation (input) SYS_STATMOUNT :: u32 where "SYS_STATMOUNT \<equiv> 457"
abbreviation (input) SYS_STATX :: u32 where "SYS_STATX \<equiv> 332"
abbreviation (input) SYS_SWAPOFF :: u32 where "SYS_SWAPOFF \<equiv> 168"
abbreviation (input) SYS_SWAPON :: u32 where "SYS_SWAPON \<equiv> 167"
abbreviation (input) SYS_SYMLINK :: u32 where "SYS_SYMLINK \<equiv> 88"
abbreviation (input) SYS_SYMLINKAT :: u32 where "SYS_SYMLINKAT \<equiv> 266"
abbreviation (input) SYS_SYSINFO :: u32 where "SYS_SYSINFO \<equiv> 99"
abbreviation (input) SYS_TIME :: u32 where "SYS_TIME \<equiv> 201"
abbreviation (input) SYS_TIMERFD_CREATE :: u32 where "SYS_TIMERFD_CREATE \<equiv> 283"
abbreviation (input) SYS_TRUNCATE :: u32 where "SYS_TRUNCATE \<equiv> 76"
abbreviation (input) SYS_UMOUNT2 :: u32 where "SYS_UMOUNT2 \<equiv> 166"
abbreviation (input) SYS_UNAME :: u32 where "SYS_UNAME \<equiv> 63"
abbreviation (input) SYS_UNLINK :: u32 where "SYS_UNLINK \<equiv> 87"
abbreviation (input) SYS_UNLINKAT :: u32 where "SYS_UNLINKAT \<equiv> 263"
abbreviation (input) SYS_UNSHARE :: u32 where "SYS_UNSHARE \<equiv> 272"
abbreviation (input) SYS_UTIME :: u32 where "SYS_UTIME \<equiv> 132"
abbreviation (input) SYS_UTIMENSAT :: u32 where "SYS_UTIMENSAT \<equiv> 280"
abbreviation (input) SYS_UTIMES :: u32 where "SYS_UTIMES \<equiv> 235"
abbreviation (input) SYS_VFORK :: u32 where "SYS_VFORK \<equiv> 58"
abbreviation (input) SYS_VMSPLICE :: u32 where "SYS_VMSPLICE \<equiv> 278"
abbreviation (input) SYS_WAITID :: u32 where "SYS_WAITID \<equiv> 247"
abbreviation (input) SYS_WRITE :: u32 where "SYS_WRITE \<equiv> 1"
abbreviation (input) SYS_WRITEV :: u32 where "SYS_WRITEV \<equiv> 20"

end
