(* ===== verification/Event_Abi.thy ===== *)
theory Event_Abi
  imports Syscall_Numbers
begin

text \<open>
  The event-v2 ABI: the constants of \<^verbatim>\<open>bpf/event_abi_generated.h\<close>, the wire structures of
  \<^verbatim>\<open>bpf/runtime_abi.h\<close> and \<^verbatim>\<open>bpf/payload_tlv.h\<close> as records, and their byte images.  The
  \<^verbatim>\<open>_Static_assert\<close> lines of the headers become lemmas on the images: their sizes, and the
  offset at which every field stands.
\<close>

section \<open>Constants\<close>

abbreviation (input) EVENT_VERSION :: u16 where "EVENT_VERSION \<equiv> 2"
abbreviation (input) EVENT_TYPE_ENTER :: u16 where "EVENT_TYPE_ENTER \<equiv> 1"
abbreviation (input) EVENT_TYPE_EXIT :: u16 where "EVENT_TYPE_EXIT \<equiv> 2"
abbreviation (input) EVENT_TYPE_LIFECYCLE :: u16 where "EVENT_TYPE_LIFECYCLE \<equiv> 3"
abbreviation (input) EVENT_TYPE_SIGNAL :: u16 where "EVENT_TYPE_SIGNAL \<equiv> 4"
abbreviation (input) EVENT_TYPE_UNSUPPORTED_ABI :: u16 where "EVENT_TYPE_UNSUPPORTED_ABI \<equiv> 5"
abbreviation (input) EVENT_FLAG_GENERIC_ENTER :: u16 where "EVENT_FLAG_GENERIC_ENTER \<equiv> 1"
abbreviation (input) EVENT_FLAG_PAYLOAD_TLV :: u16 where "EVENT_FLAG_PAYLOAD_TLV \<equiv> 2"
abbreviation (input) EVENT_FLAG_TRUNCATED :: u16 where "EVENT_FLAG_TRUNCATED \<equiv> 4"
abbreviation (input) EVENT_FLAG_EXIT_FRAGMENT :: u16 where "EVENT_FLAG_EXIT_FRAGMENT \<equiv> 8"
abbreviation (input) EVENT_FLAG_COMPACT_ENTER :: u16 where "EVENT_FLAG_COMPACT_ENTER \<equiv> 16"
abbreviation (input) EVENT_FLAG_ENTER_FRAGMENT :: u16 where "EVENT_FLAG_ENTER_FRAGMENT \<equiv> 32"
abbreviation (input) EVENT_FLAG_KVM_EXIT :: u16 where "EVENT_FLAG_KVM_EXIT \<equiv> 64"
abbreviation (input) LIFECYCLE_FORK :: u32 where "LIFECYCLE_FORK \<equiv> 1"
abbreviation (input) LIFECYCLE_EXEC :: u32 where "LIFECYCLE_EXEC \<equiv> 2"
abbreviation (input) LIFECYCLE_EXIT :: u32 where "LIFECYCLE_EXIT \<equiv> 3"
abbreviation (input) LIFECYCLE_FREE :: u32 where "LIFECYCLE_FREE \<equiv> 4"
abbreviation (input) LIFECYCLE_UNKNOWN_DETACH :: u32 where "LIFECYCLE_UNKNOWN_DETACH \<equiv> 5"
abbreviation (input) LIFECYCLE_UNKNOWN_EXIT :: u32 where "LIFECYCLE_UNKNOWN_EXIT \<equiv> 6"
abbreviation (input) CONFIG_CAPTURE_STACK :: u32 where "CONFIG_CAPTURE_STACK \<equiv> 1"
abbreviation (input) CONFIG_FOLLOW_FORKS :: u32 where "CONFIG_FOLLOW_FORKS \<equiv> 2"
abbreviation (input) CONFIG_EMIT_ENTER :: u32 where "CONFIG_EMIT_ENTER \<equiv> 4"
abbreviation (input) CONFIG_SYSCALL_FILTER :: u32 where "CONFIG_SYSCALL_FILTER \<equiv> 8"
abbreviation (input) CONFIG_SYSCALL_FILTER_NEGATED :: u32 where "CONFIG_SYSCALL_FILTER_NEGATED \<equiv> 16"
abbreviation (input) CONFIG_EMIT_LIFECYCLE :: u32 where "CONFIG_EMIT_LIFECYCLE \<equiv> 32"
abbreviation (input) CONFIG_FD_STATE :: u32 where "CONFIG_FD_STATE \<equiv> 64"
abbreviation (input) CONFIG_ELIDE_PLAIN_ENTER :: u32 where "CONFIG_ELIDE_PLAIN_ENTER \<equiv> 128"
abbreviation (input) CONFIG_EMIT_SIGNAL :: u32 where "CONFIG_EMIT_SIGNAL \<equiv> 256"
abbreviation (input) CONFIG_DECODE_PID_COMM :: u32 where "CONFIG_DECODE_PID_COMM \<equiv> 512"
abbreviation (input) CONFIG_DECODE_PID_NS :: u32 where "CONFIG_DECODE_PID_NS \<equiv> 1024"
abbreviation (input) CONFIG_KVM_EXIT :: u32 where "CONFIG_KVM_EXIT \<equiv> 2048"
abbreviation (input) CONFIG_SYSCALL_FILTER_STRICT_UNKNOWN :: u32
  where "CONFIG_SYSCALL_FILTER_STRICT_UNKNOWN \<equiv> 4096"
abbreviation (input) FILTER_TASK_TRACKED :: u32 where "FILTER_TASK_TRACKED \<equiv> 1"
abbreviation (input) FILTER_TASK_PRE_EXEC :: u32 where "FILTER_TASK_PRE_EXEC \<equiv> 2"

text \<open>
  Record and section sizes are natural numbers: they index byte buffers.  Where a size is stored
  in a \<^verbatim>\<open>u32\<close> field it is converted with \<open>of_nat\<close>; every record is far below 4 GiB, so the
  conversion loses nothing.
\<close>

abbreviation (input) EVENT_V2_HEADER_LEN :: nat where "EVENT_V2_HEADER_LEN \<equiv> 80"
abbreviation (input) EVENT_V2_BASE_HEADER_LEN :: nat where "EVENT_V2_BASE_HEADER_LEN \<equiv> 56"
abbreviation (input) EVENT_V2_COMM_SIZE :: nat where "EVENT_V2_COMM_SIZE \<equiv> 16"
abbreviation (input) EVENT_V2_ENTER_BODY_LEN :: nat where "EVENT_V2_ENTER_BODY_LEN \<equiv> 72"
abbreviation (input) EVENT_V2_COMPACT_ENTER_BODY_LEN :: nat where "EVENT_V2_COMPACT_ENTER_BODY_LEN \<equiv> 48"
abbreviation (input) EVENT_V2_EXIT_BODY_LEN :: nat where "EVENT_V2_EXIT_BODY_LEN \<equiv> 88"
abbreviation (input) EVENT_V2_LIFECYCLE_BODY_LEN :: nat where "EVENT_V2_LIFECYCLE_BODY_LEN \<equiv> 56"
abbreviation (input) EVENT_V2_SIGNAL_BODY_LEN :: nat where "EVENT_V2_SIGNAL_BODY_LEN \<equiv> 56"
abbreviation (input) PAYLOAD_TLV_HEADER_SIZE :: nat where "PAYLOAD_TLV_HEADER_SIZE \<equiv> 32"
abbreviation (input) PAYLOAD_TLV_OPENAT_MAX :: nat where "PAYLOAD_TLV_OPENAT_MAX \<equiv> 512"
abbreviation (input) PAYLOAD_TLV_READ_MAX :: u32 where "PAYLOAD_TLV_READ_MAX \<equiv> 512"
abbreviation (input) PAYLOAD_TLV_WRITE_MAX :: u32 where "PAYLOAD_TLV_WRITE_MAX \<equiv> 512"
abbreviation (input) PAYLOAD_TLV_KIND_STRING :: u16 where "PAYLOAD_TLV_KIND_STRING \<equiv> 1"
abbreviation (input) PAYLOAD_TLV_KIND_BYTES :: u16 where "PAYLOAD_TLV_KIND_BYTES \<equiv> 2"
abbreviation (input) PAYLOAD_TLV_KIND_STRUCT :: u16 where "PAYLOAD_TLV_KIND_STRUCT \<equiv> 3"
abbreviation (input) PAYLOAD_TLV_KIND_IOVEC :: u16 where "PAYLOAD_TLV_KIND_IOVEC \<equiv> 4"
abbreviation (input) PAYLOAD_TLV_KIND_SOCKADDR :: u16 where "PAYLOAD_TLV_KIND_SOCKADDR \<equiv> 5"
abbreviation (input) PAYLOAD_TLV_KIND_EXEC_ARGS :: u16 where "PAYLOAD_TLV_KIND_EXEC_ARGS \<equiv> 6"
abbreviation (input) PAYLOAD_TLV_KIND_CMSG :: u16 where "PAYLOAD_TLV_KIND_CMSG \<equiv> 7"
abbreviation (input) PAYLOAD_TLV_KIND_FD_STATE :: u16 where "PAYLOAD_TLV_KIND_FD_STATE \<equiv> 8"
abbreviation (input) PAYLOAD_TLV_KIND_FD_PATH :: u16 where "PAYLOAD_TLV_KIND_FD_PATH \<equiv> 9"
abbreviation (input) PAYLOAD_TLV_KIND_EVENTFD_STATE :: u16 where "PAYLOAD_TLV_KIND_EVENTFD_STATE \<equiv> 10"
abbreviation (input) PAYLOAD_TLV_KIND_NAMESPACE :: u16 where "PAYLOAD_TLV_KIND_NAMESPACE \<equiv> 11"
abbreviation (input) PAYLOAD_TLV_KIND_PID_NAMESPACE :: u16 where "PAYLOAD_TLV_KIND_PID_NAMESPACE \<equiv> 12"
abbreviation (input) PAYLOAD_TLV_FD_STATE_ARG_INDEX :: u16 where "PAYLOAD_TLV_FD_STATE_ARG_INDEX \<equiv> 0xffff"
abbreviation (input) PAYLOAD_TLV_FD_PATH_CWD_ARG_INDEX :: u16
  where "PAYLOAD_TLV_FD_PATH_CWD_ARG_INDEX \<equiv> 0xfffe"
abbreviation (input) PAYLOAD_TLV_EVENTFD_STATE_ARG_INDEX :: u16
  where "PAYLOAD_TLV_EVENTFD_STATE_ARG_INDEX \<equiv> 0xfffc"
abbreviation (input) PAYLOAD_TLV_NAMESPACE_ARG_INDEX :: u16 where "PAYLOAD_TLV_NAMESPACE_ARG_INDEX \<equiv> 0xfffb"
abbreviation (input) PAYLOAD_TLV_PID_NAMESPACE_ARG_INDEX :: u16
  where "PAYLOAD_TLV_PID_NAMESPACE_ARG_INDEX \<equiv> 0xfffa"
abbreviation (input) PAYLOAD_TLV_FLAG_DIRECTION_OUT :: u16 where "PAYLOAD_TLV_FLAG_DIRECTION_OUT \<equiv> 1"
abbreviation (input) FD_STATE_SNAPSHOT_SIZE :: nat where "FD_STATE_SNAPSHOT_SIZE \<equiv> 48"
abbreviation (input) FD_STATE_FLAG_IDENTITY :: u32 where "FD_STATE_FLAG_IDENTITY \<equiv> 1"
abbreviation (input) FD_STATE_FLAG_OFFSET :: u32 where "FD_STATE_FLAG_OFFSET \<equiv> 2"
abbreviation (input) EVENTFD_STATE_SNAPSHOT_SIZE :: nat where "EVENTFD_STATE_SNAPSHOT_SIZE \<equiv> 16"
abbreviation (input) NAMESPACE_SNAPSHOT_SIZE :: nat where "NAMESPACE_SNAPSHOT_SIZE \<equiv> 40"
abbreviation (input) PID_NAMESPACE_SNAPSHOT_SIZE :: nat where "PID_NAMESPACE_SNAPSHOT_SIZE \<equiv> 8"

text \<open>The constants of \<^verbatim>\<open>runtime_abi.h\<close> itself.\<close>

abbreviation (input) EXEC_SNAPSHOT_MAGIC :: u32 where "EXEC_SNAPSHOT_MAGIC \<equiv> 0x45584543"
abbreviation (input) EXEC_PATH_SNAPSHOT_MAX :: nat where "EXEC_PATH_SNAPSHOT_MAX \<equiv> 512"
abbreviation (input) EXEC_ARG_MAX :: nat where "EXEC_ARG_MAX \<equiv> 48"
abbreviation (input) EXEC_ENV_MAX :: nat where "EXEC_ENV_MAX \<equiv> 64"
abbreviation (input) EXEC_ARG_DATA_SIZE :: nat where "EXEC_ARG_DATA_SIZE \<equiv> 50"
abbreviation (input) LIFECYCLE_SNAPSHOT_MAX :: nat where "LIFECYCLE_SNAPSHOT_MAX \<equiv> 4096"
abbreviation (input) KVM_RUN_IOCTL :: u64 where "KVM_RUN_IOCTL \<equiv> 0xae80"
abbreviation (input) KVM_EXIT_AUX_VALID :: u32 where "KVM_EXIT_AUX_VALID \<equiv> 0x80000000"
abbreviation (input) KVM_EXIT_AUX_REASON_MASK :: u32 where "KVM_EXIT_AUX_REASON_MASK \<equiv> 0x7fffffff"
abbreviation (input) ORPHAN_REASON_NO_PENDING :: u64 where "ORPHAN_REASON_NO_PENDING \<equiv> 1"

section \<open>Structures\<close>

text \<open>The six syscall arguments, \<^verbatim>\<open>u64 args[6]\<close>.\<close>

datatype args6 = Args (arg0: u64) (arg1: u64) (arg2: u64) (arg3: u64) (arg4: u64) (arg5: u64)

definition args_list :: "args6 \<Rightarrow> u64 list" where
  "args_list a = [arg0 a, arg1 a, arg2 a, arg3 a, arg4 a, arg5 a]"

text \<open>\<^verbatim>\<open>args[i]\<close> for an index below six.\<close>

definition arg_at :: "args6 \<Rightarrow> nat \<Rightarrow> u64" where
  "arg_at a i = args_list a ! i"

record event_v2_header =
  hdr_version :: u16
  hdr_event_type :: u16
  hdr_flags :: u16
  hdr_header_len :: u16
  hdr_size :: u32
  hdr_pid :: u32
  hdr_tid :: u32
  hdr_sys_id :: u32
  hdr_seq :: u64
  hdr_ts_ns :: u64
  hdr_comm :: bytes
  hdr_cpu :: u32
  hdr_reserved :: u32
  hdr_loss_epoch :: u64
  hdr_loss_time_ns :: u64

record syscall_enter_event_v2 =
  ent_ret :: s64
  ent_probe_ret_enter :: s32
  ent_probe_ret_exit :: s32
  ent_args :: args6
  ent_capture_len :: u32
  ent_capture_flags :: u32

record syscall_exit_event_v2 =
  ext_ret :: s64
  ext_duration_ns :: u64
  ext_args :: args6
  ext_capture_len :: u32
  ext_capture_flags :: u32
  ext_stack_id :: s32
  ext_reserved :: u32
  ext_cpu_duration_ns :: u64

record lifecycle_event_v2 =
  lif_action :: u32
  lif_snapshot_len :: u32
  lif_args :: args6

record signal_event_v2 =
  sig_signo :: u32
  sig_error :: s32
  sig_code :: s32
  sig_sender_pid :: u32
  sig_sender_uid :: u32
  sig_stack_id :: s32
  sig_address :: u64
  sig_child_status :: s32
  sig_reserved :: u32
  sig_child_user_time :: s64
  sig_child_system_time :: s64

record payload_tlv_header =
  tlv_kind :: u16
  tlv_arg_index :: u16
  tlv_flags :: u16
  tlv_reserved :: u16
  tlv_user_len :: u32
  tlv_copied_len :: u32
  tlv_probe_ret :: s32
  tlv_reserved2 :: u32
  tlv_user_ptr :: u64

record fd_state_snapshot =
  fds_fd :: s32
  fds_flags :: u32
  fds_mode :: u32
  fds_reserved :: u32
  fds_dev :: u64
  fds_rdev :: u64
  fds_inode :: u64
  fds_offset :: s64

record eventfd_state_snapshot =
  efd_count :: u64
  efd_id :: s32
  efd_semaphore :: u32

record namespace_snapshot =
  nss_flags :: u64
  nss_cgroup :: u32
  nss_ipc :: u32
  nss_mnt :: u32
  nss_net :: u32
  nss_pid :: u32
  nss_time :: u32
  nss_uts :: u32
  nss_user :: u32

record pid_namespace_snapshot =
  pns_tid :: u32
  pns_tgid :: u32

record exec_snapshot_header =
  esh_magic :: u32
  esh_argv_count :: u16
  esh_env_count :: u16
  esh_argv_status :: s32
  esh_env_status :: s32
  esh_argv_next :: u64
  esh_env_next :: u64

record exec_arg_snapshot =
  eas_ptr :: u64
  eas_len :: s32
  eas_data :: bytes

section \<open>Byte images\<close>

definition enc_args :: "args6 \<Rightarrow> bytes" where
  "enc_args a = concat (map (le_bytes 8) (args_list a))"

definition enc_header :: "event_v2_header \<Rightarrow> bytes" where
  "enc_header h =
     le_bytes 2 (hdr_version h) @ le_bytes 2 (hdr_event_type h) @ le_bytes 2 (hdr_flags h) @
     le_bytes 2 (hdr_header_len h) @ le_bytes 4 (hdr_size h) @ le_bytes 4 (hdr_pid h) @
     le_bytes 4 (hdr_tid h) @ le_bytes 4 (hdr_sys_id h) @ le_bytes 8 (hdr_seq h) @
     le_bytes 8 (hdr_ts_ns h) @ pad_bytes 16 (hdr_comm h) @ le_bytes 4 (hdr_cpu h) @
     le_bytes 4 (hdr_reserved h) @ le_bytes 8 (hdr_loss_epoch h) @ le_bytes 8 (hdr_loss_time_ns h)"

definition enc_enter_body :: "syscall_enter_event_v2 \<Rightarrow> bytes" where
  "enc_enter_body b =
     le_bytes 8 (ent_ret b) @ le_bytes 4 (ent_probe_ret_enter b) @ le_bytes 4 (ent_probe_ret_exit b) @
     enc_args (ent_args b) @ le_bytes 4 (ent_capture_len b) @ le_bytes 4 (ent_capture_flags b)"

definition enc_exit_body :: "syscall_exit_event_v2 \<Rightarrow> bytes" where
  "enc_exit_body b =
     le_bytes 8 (ext_ret b) @ le_bytes 8 (ext_duration_ns b) @ enc_args (ext_args b) @
     le_bytes 4 (ext_capture_len b) @ le_bytes 4 (ext_capture_flags b) @ le_bytes 4 (ext_stack_id b) @
     le_bytes 4 (ext_reserved b) @ le_bytes 8 (ext_cpu_duration_ns b)"

definition enc_lifecycle_body :: "lifecycle_event_v2 \<Rightarrow> bytes" where
  "enc_lifecycle_body b =
     le_bytes 4 (lif_action b) @ le_bytes 4 (lif_snapshot_len b) @ enc_args (lif_args b)"

definition enc_signal_body :: "signal_event_v2 \<Rightarrow> bytes" where
  "enc_signal_body b =
     le_bytes 4 (sig_signo b) @ le_bytes 4 (sig_error b) @ le_bytes 4 (sig_code b) @
     le_bytes 4 (sig_sender_pid b) @ le_bytes 4 (sig_sender_uid b) @ le_bytes 4 (sig_stack_id b) @
     le_bytes 8 (sig_address b) @ le_bytes 4 (sig_child_status b) @ le_bytes 4 (sig_reserved b) @
     le_bytes 8 (sig_child_user_time b) @ le_bytes 8 (sig_child_system_time b)"

definition enc_tlv_header :: "payload_tlv_header \<Rightarrow> bytes" where
  "enc_tlv_header t =
     le_bytes 2 (tlv_kind t) @ le_bytes 2 (tlv_arg_index t) @ le_bytes 2 (tlv_flags t) @
     le_bytes 2 (tlv_reserved t) @ le_bytes 4 (tlv_user_len t) @ le_bytes 4 (tlv_copied_len t) @
     le_bytes 4 (tlv_probe_ret t) @ le_bytes 4 (tlv_reserved2 t) @ le_bytes 8 (tlv_user_ptr t)"

definition enc_fd_state :: "fd_state_snapshot \<Rightarrow> bytes" where
  "enc_fd_state x =
     le_bytes 4 (fds_fd x) @ le_bytes 4 (fds_flags x) @ le_bytes 4 (fds_mode x) @
     le_bytes 4 (fds_reserved x) @ le_bytes 8 (fds_dev x) @ le_bytes 8 (fds_rdev x) @
     le_bytes 8 (fds_inode x) @ le_bytes 8 (fds_offset x)"

definition enc_eventfd_state :: "eventfd_state_snapshot \<Rightarrow> bytes" where
  "enc_eventfd_state x = le_bytes 8 (efd_count x) @ le_bytes 4 (efd_id x) @ le_bytes 4 (efd_semaphore x)"

definition enc_namespace :: "namespace_snapshot \<Rightarrow> bytes" where
  "enc_namespace x =
     le_bytes 8 (nss_flags x) @ le_bytes 4 (nss_cgroup x) @ le_bytes 4 (nss_ipc x) @
     le_bytes 4 (nss_mnt x) @ le_bytes 4 (nss_net x) @ le_bytes 4 (nss_pid x) @
     le_bytes 4 (nss_time x) @ le_bytes 4 (nss_uts x) @ le_bytes 4 (nss_user x)"

definition enc_pid_namespace :: "pid_namespace_snapshot \<Rightarrow> bytes" where
  "enc_pid_namespace x = le_bytes 4 (pns_tid x) @ le_bytes 4 (pns_tgid x)"

definition enc_exec_header :: "exec_snapshot_header \<Rightarrow> bytes" where
  "enc_exec_header x =
     le_bytes 4 (esh_magic x) @ le_bytes 2 (esh_argv_count x) @ le_bytes 2 (esh_env_count x) @
     le_bytes 4 (esh_argv_status x) @ le_bytes 4 (esh_env_status x) @
     le_bytes 8 (esh_argv_next x) @ le_bytes 8 (esh_env_next x)"

definition enc_exec_arg :: "exec_arg_snapshot \<Rightarrow> bytes" where
  "enc_exec_arg x =
     le_bytes 8 (eas_ptr x) @ le_bytes 4 (eas_len x) @ pad_bytes 50 (eas_data x) @ [0, 0]"

section \<open>The static assertions\<close>

lemma length_enc_args [simp]: "length (enc_args a) = 48"
  by (simp add: enc_args_def args_list_def)

lemma length_enc_header [simp]: "length (enc_header h) = EVENT_V2_HEADER_LEN"
  by (simp add: enc_header_def)

lemma length_enc_enter_body [simp]: "length (enc_enter_body b) = EVENT_V2_ENTER_BODY_LEN"
  by (simp add: enc_enter_body_def)

lemma length_enc_exit_body [simp]: "length (enc_exit_body b) = EVENT_V2_EXIT_BODY_LEN"
  by (simp add: enc_exit_body_def)

lemma length_enc_lifecycle_body [simp]: "length (enc_lifecycle_body b) = EVENT_V2_LIFECYCLE_BODY_LEN"
  by (simp add: enc_lifecycle_body_def)

lemma length_enc_signal_body [simp]: "length (enc_signal_body b) = EVENT_V2_SIGNAL_BODY_LEN"
  by (simp add: enc_signal_body_def)

lemma length_enc_tlv_header [simp]: "length (enc_tlv_header t) = PAYLOAD_TLV_HEADER_SIZE"
  by (simp add: enc_tlv_header_def)

lemma length_enc_fd_state [simp]: "length (enc_fd_state x) = FD_STATE_SNAPSHOT_SIZE"
  by (simp add: enc_fd_state_def)

lemma length_enc_eventfd_state [simp]: "length (enc_eventfd_state x) = EVENTFD_STATE_SNAPSHOT_SIZE"
  by (simp add: enc_eventfd_state_def)

lemma length_enc_namespace [simp]: "length (enc_namespace x) = NAMESPACE_SNAPSHOT_SIZE"
  by (simp add: enc_namespace_def)

lemma length_enc_pid_namespace [simp]: "length (enc_pid_namespace x) = PID_NAMESPACE_SNAPSHOT_SIZE"
  by (simp add: enc_pid_namespace_def)

lemma length_enc_exec_header [simp]: "length (enc_exec_header x) = 32"
  by (simp add: enc_exec_header_def)

lemma length_enc_exec_arg [simp]: "length (enc_exec_arg x) = 64"
  by (simp add: enc_exec_arg_def)

named_theorems layout \<open>the offsets of the fields of the wire structures\<close>

lemma bslice_at: "off = length xs \<Longrightarrow> n = length ys \<Longrightarrow> bslice off n (xs @ ys @ zs) = ys"
  by (simp add: bslice_def)

lemma bslice_at_end: "off = length xs \<Longrightarrow> n = length ys \<Longrightarrow> bslice off n (xs @ ys) = ys"
  by (simp add: bslice_def)

lemma header_layout [layout]:
  "bslice 0 2 (enc_header h) = le_bytes 2 (hdr_version h)"
  "bslice 2 2 (enc_header h) = le_bytes 2 (hdr_event_type h)"
  "bslice 4 2 (enc_header h) = le_bytes 2 (hdr_flags h)"
  "bslice 6 2 (enc_header h) = le_bytes 2 (hdr_header_len h)"
  "bslice 8 4 (enc_header h) = le_bytes 4 (hdr_size h)"
  "bslice 12 4 (enc_header h) = le_bytes 4 (hdr_pid h)"
  "bslice 16 4 (enc_header h) = le_bytes 4 (hdr_tid h)"
  "bslice 20 4 (enc_header h) = le_bytes 4 (hdr_sys_id h)"
  "bslice 24 8 (enc_header h) = le_bytes 8 (hdr_seq h)"
  "bslice 32 8 (enc_header h) = le_bytes 8 (hdr_ts_ns h)"
  "bslice 40 16 (enc_header h) = pad_bytes 16 (hdr_comm h)"
  "bslice 56 4 (enc_header h) = le_bytes 4 (hdr_cpu h)"
  "bslice 64 8 (enc_header h) = le_bytes 8 (hdr_loss_epoch h)"
  "bslice 72 8 (enc_header h) = le_bytes 8 (hdr_loss_time_ns h)"
  by (simp_all add: enc_header_def bslice_append_right bslice_def)

lemma enter_layout [layout]:
  "bslice 0 8 (enc_enter_body b) = le_bytes 8 (ent_ret b)"
  "bslice 8 4 (enc_enter_body b) = le_bytes 4 (ent_probe_ret_enter b)"
  "bslice 12 4 (enc_enter_body b) = le_bytes 4 (ent_probe_ret_exit b)"
  "bslice 16 48 (enc_enter_body b) = enc_args (ent_args b)"
  "bslice 64 4 (enc_enter_body b) = le_bytes 4 (ent_capture_len b)"
  "bslice 68 4 (enc_enter_body b) = le_bytes 4 (ent_capture_flags b)"
  by (simp_all add: enc_enter_body_def bslice_append_right bslice_def)

lemma exit_layout [layout]:
  "bslice 0 8 (enc_exit_body b) = le_bytes 8 (ext_ret b)"
  "bslice 8 8 (enc_exit_body b) = le_bytes 8 (ext_duration_ns b)"
  "bslice 16 48 (enc_exit_body b) = enc_args (ext_args b)"
  "bslice 64 4 (enc_exit_body b) = le_bytes 4 (ext_capture_len b)"
  "bslice 68 4 (enc_exit_body b) = le_bytes 4 (ext_capture_flags b)"
  "bslice 72 4 (enc_exit_body b) = le_bytes 4 (ext_stack_id b)"
  "bslice 76 4 (enc_exit_body b) = le_bytes 4 (ext_reserved b)"
  "bslice 80 8 (enc_exit_body b) = le_bytes 8 (ext_cpu_duration_ns b)"
  by (simp_all add: enc_exit_body_def bslice_append_right bslice_def)

lemma lifecycle_layout [layout]:
  "bslice 0 4 (enc_lifecycle_body b) = le_bytes 4 (lif_action b)"
  "bslice 4 4 (enc_lifecycle_body b) = le_bytes 4 (lif_snapshot_len b)"
  "bslice 8 48 (enc_lifecycle_body b) = enc_args (lif_args b)"
  by (simp_all add: enc_lifecycle_body_def bslice_append_right bslice_def)

lemma signal_layout [layout]:
  "bslice 0 4 (enc_signal_body b) = le_bytes 4 (sig_signo b)"
  "bslice 4 4 (enc_signal_body b) = le_bytes 4 (sig_error b)"
  "bslice 8 4 (enc_signal_body b) = le_bytes 4 (sig_code b)"
  "bslice 12 4 (enc_signal_body b) = le_bytes 4 (sig_sender_pid b)"
  "bslice 16 4 (enc_signal_body b) = le_bytes 4 (sig_sender_uid b)"
  "bslice 20 4 (enc_signal_body b) = le_bytes 4 (sig_stack_id b)"
  "bslice 24 8 (enc_signal_body b) = le_bytes 8 (sig_address b)"
  "bslice 32 4 (enc_signal_body b) = le_bytes 4 (sig_child_status b)"
  "bslice 40 8 (enc_signal_body b) = le_bytes 8 (sig_child_user_time b)"
  "bslice 48 8 (enc_signal_body b) = le_bytes 8 (sig_child_system_time b)"
  by (simp_all add: enc_signal_body_def bslice_append_right bslice_def)

lemma tlv_layout [layout]:
  "bslice 0 2 (enc_tlv_header t) = le_bytes 2 (tlv_kind t)"
  "bslice 2 2 (enc_tlv_header t) = le_bytes 2 (tlv_arg_index t)"
  "bslice 4 2 (enc_tlv_header t) = le_bytes 2 (tlv_flags t)"
  "bslice 8 4 (enc_tlv_header t) = le_bytes 4 (tlv_user_len t)"
  "bslice 12 4 (enc_tlv_header t) = le_bytes 4 (tlv_copied_len t)"
  "bslice 16 4 (enc_tlv_header t) = le_bytes 4 (tlv_probe_ret t)"
  "bslice 24 8 (enc_tlv_header t) = le_bytes 8 (tlv_user_ptr t)"
  by (simp_all add: enc_tlv_header_def bslice_append_right bslice_def)

lemma args_layout [layout]:
  "bslice 0 8 (enc_args a) = le_bytes 8 (arg0 a)"
  "bslice 8 8 (enc_args a) = le_bytes 8 (arg1 a)"
  "bslice 16 8 (enc_args a) = le_bytes 8 (arg2 a)"
  "bslice 24 8 (enc_args a) = le_bytes 8 (arg3 a)"
  "bslice 32 8 (enc_args a) = le_bytes 8 (arg4 a)"
  "bslice 40 8 (enc_args a) = le_bytes 8 (arg5 a)"
  by (simp_all add: enc_args_def args_list_def bslice_append_right bslice_def)

end
