(* ===== verification/Bpf_Runtime.thy ===== *)
theory Bpf_Runtime
  imports Event_Abi
begin

text \<open>
  The machine the probe programs run on.  \<open>machine\<close> holds the BPF maps declared in
  \<^verbatim>\<open>bpf/runtime_abi.h\<close>, the records submitted to the ring buffer and the one reservation a program
  may have open.  The kernel behind the BPF helpers is not part of the repository: it is the
  parameter \<open>kernel\<close>, which answers every helper call of one program run.  The field \<open>tick\<close>
  counts the calls, so two calls of the same helper may get different answers (time passes, user
  memory changes, a reservation succeeds and the next one fails).

  What is fixed here is the documented contract of the helpers: a map lookup returns what the last
  successful update stored, a dynptr write is bounds checked against the reservation, a failing
  probe read returns a negative error and clears the destination, a string read stops after the
  first zero byte and always terminates what it copied.
\<close>

section \<open>State\<close>

record pending_syscall =
  ps_enter_time :: u64
  ps_cpu_enter_time :: u64
  ps_args :: args6
  ps_pid :: u32
  ps_sys_id :: u32
  ps_tid :: u32
  ps_stack_id :: s32

record pending_task_state =
  pts_syscall :: pending_syscall
  pts_namespace_snapshot :: namespace_snapshot
  pts_aux0 :: u32
  pts_valid :: u32

record pid_namespace_config =
  pnc_nonce :: u32
  pnc_level :: u32
  pnc_inum :: u32
  pnc_ready :: u32

record bpf_stats =
  st_ringbuf_reserve_fail :: u64
  st_ringbuf_copy_fail :: u64
  st_payload_truncated_events :: u64
  st_pending_update_fail :: u64
  st_orphan_exit :: u64
  st_orphan_first_pid :: u64
  st_orphan_first_tid :: u64
  st_orphan_first_sys_id :: u64
  st_orphan_first_ret :: s64
  st_orphan_first_reason :: u64
  st_orphan_first_time_ns :: u64
  st_orphan_last_pid :: u64
  st_orphan_last_tid :: u64
  st_orphan_last_sys_id :: u64
  st_orphan_last_ret :: s64
  st_orphan_last_reason :: u64
  st_orphan_last_time_ns :: u64
  st_pending_mismatch :: u64
  st_lifecycle_map_update_fail :: u64
  st_lifecycle_fork_seen :: u64
  st_lifecycle_fork_parent_tracked :: u64
  st_lifecycle_fork_parent_untracked :: u64
  st_lifecycle_fork_child_filter_installed :: u64
  st_lifecycle_fork_child_filter_failed :: u64
  st_lifecycle_exec_seen :: u64
  st_lifecycle_exec_untracked :: u64
  st_lifecycle_exit_seen :: u64
  st_lifecycle_exit_untracked :: u64
  st_event_seq :: u64
  st_integrity_first_time_ns :: u64

record event_loss_state =
  els_epoch :: u64
  els_first_time_ns :: u64

text \<open>The part of \<^verbatim>\<open>struct fd_path_scratch\<close> that carries information between calls.\<close>

record fd_path_scratch =
  fps_components :: "nat \<Rightarrow> u64"
  fps_args :: args6
  fps_nested_fd0 :: s32
  fps_nested_fd1 :: s32
  fps_nested_fd2 :: s32
  fps_nested_fd3 :: s32
  fps_nested_fd_count :: u32

text \<open>
  The maps, by their names in \<^verbatim>\<open>runtime_abi.h\<close>.  Arrays with one entry are options, hash maps are
  partial functions, per-CPU arrays are indexed by the CPU, task storage is keyed by the task.
\<close>

record machine =
  tick :: nat
  events :: "bytes list"
  reservation :: "bytes option"
  stats_map :: "u32 \<rightharpoonup> bpf_stats"
  event_loss_map :: "event_loss_state option"
  fd_path_scratch_map :: "u32 \<rightharpoonup> fd_path_scratch"
  config_map :: "u32 option"
  pid_namespace_config_map :: "pid_namespace_config option"
  pending_task_storage :: "u64 \<rightharpoonup> pending_task_state"
  pending_stack_map :: "u32 \<rightharpoonup> s32"
  filter_map :: "u32 \<rightharpoonup> u32"
  attach_exited_map :: "u32 \<rightharpoonup> u32"
  attach_roots_map :: "u32 \<rightharpoonup> u32"
  pending_fork_flags_map :: "u32 \<rightharpoonup> u64"
  unknown_children_map :: "u32 \<rightharpoonup> u32"
  syscall_filter_map :: "u32 \<rightharpoonup> u32"
  plain_enter_elide_map :: "u32 \<rightharpoonup> u32"
  arm_fork_map :: "u32 option"
  pending_exec_map :: "u32 \<rightharpoonup> u32"
  main_exited_map :: "u32 \<rightharpoonup> u32"
  runtime_meta_map :: "u32 option"

type_synonym 'a bpf = "(machine, 'a) state"

text \<open>The contexts the raw syscall tracepoints pass to a program.\<close>

record sys_enter_ctx =
  sec_id :: s64
  sec_args :: args6

record sys_exit_ctx =
  sxc_id :: s64
  sxc_ret :: s64

section \<open>The kernel\<close>

text \<open>\<open>k_offset\<close> is the offset of a structure member, which CO-RE relocates to the running kernel.\<close>

record kernel =
  k_cpu :: u32
  k_task :: u64
  k_pid_tgid :: u64
  k_time :: "nat \<Rightarrow> u64"
  k_comm :: "nat \<Rightarrow> u8"
  k_reserve :: "nat \<Rightarrow> nat \<Rightarrow> bool"
  k_stale :: "nat \<Rightarrow> nat \<Rightarrow> u8"
  k_map_update :: "nat \<Rightarrow> bool"
  k_storage_create :: "nat \<Rightarrow> bool"
  k_user_fault :: "nat \<Rightarrow> u64 \<Rightarrow> nat \<Rightarrow> int"
  k_user_mem :: "nat \<Rightarrow> u64 \<Rightarrow> u8"
  k_kernel_fault :: "nat \<Rightarrow> u64 \<Rightarrow> nat \<Rightarrow> int"
  k_kernel_mem :: "nat \<Rightarrow> u64 \<Rightarrow> u8"
  k_core :: "nat \<Rightarrow> string \<Rightarrow> u64 \<Rightarrow> u64"
  k_core_fault :: "nat \<Rightarrow> string \<Rightarrow> u64 \<Rightarrow> int"
  k_stackid :: "nat \<Rightarrow> s32"
  k_offset :: "string \<Rightarrow> u64"

text \<open>The two halves of \<^verbatim>\<open>bpf_get_current_pid_tgid()\<close> as every program takes them apart.\<close>

definition cur_tid :: "kernel \<Rightarrow> u32" where
  "cur_tid k = ucast (k_pid_tgid k)"

definition cur_pid :: "kernel \<Rightarrow> u32" where
  "cur_pid k = ucast (drop_bit 32 (k_pid_tgid k))"

section \<open>Helpers\<close>

definition next_tick :: "nat bpf" where
  "next_tick = do { t \<leftarrow> gets tick; modify (\<lambda>s. s\<lparr>tick := Suc t\<rparr>); return t }"

definition bpf_ktime_get_ns :: "kernel \<Rightarrow> u64 bpf" where
  "bpf_ktime_get_ns k = do { t \<leftarrow> next_tick; return (k_time k t) }"

definition bpf_get_stackid :: "kernel \<Rightarrow> s32 bpf" where
  "bpf_get_stackid k = do { t \<leftarrow> next_tick; return (k_stackid k t) }"

text \<open>\<^verbatim>\<open>BPF_CORE_READ(base, field)\<close> and \<^verbatim>\<open>BPF_CORE_READ_INTO\<close>, the field given by its path.\<close>

definition core_read :: "kernel \<Rightarrow> string \<Rightarrow> u64 \<Rightarrow> u64 bpf" where
  "core_read k f p = do { t \<leftarrow> next_tick; return (k_core k t f p) }"

definition core_read_into :: "kernel \<Rightarrow> string \<Rightarrow> u64 \<Rightarrow> (int \<times> u64) bpf" where
  "core_read_into k f p = do {
     t \<leftarrow> next_tick;
     return (if k_core_fault k t f p < 0 then (k_core_fault k t f p, 0) else (0, k_core k t f p)) }"

text \<open>
  \<^verbatim>\<open>bpf_probe_read_user\<close> and \<^verbatim>\<open>bpf_probe_read_kernel\<close>: the error and the bytes stored at the
  destination (zeros on a fault).
\<close>

definition probe_bytes :: "(u64 \<Rightarrow> u8) \<Rightarrow> u64 \<Rightarrow> nat \<Rightarrow> bytes" where
  "probe_bytes mem p n = map (\<lambda>i. mem (p + of_nat i)) [0..<n]"

definition bpf_probe_read_user :: "kernel \<Rightarrow> nat \<Rightarrow> u64 \<Rightarrow> (int \<times> bytes) bpf" where
  "bpf_probe_read_user k n p = do {
     t \<leftarrow> next_tick;
     return (if k_user_fault k t p n < 0 then (k_user_fault k t p n, replicate n 0)
             else (0, probe_bytes (k_user_mem k t) p n)) }"

definition bpf_probe_read_kernel :: "kernel \<Rightarrow> nat \<Rightarrow> u64 \<Rightarrow> (int \<times> bytes) bpf" where
  "bpf_probe_read_kernel k n p = do {
     t \<leftarrow> next_tick;
     return (if k_kernel_fault k t p n < 0 then (k_kernel_fault k t p n, replicate n 0)
             else (0, probe_bytes (k_kernel_mem k t) p n)) }"

text \<open>
  \<^verbatim>\<open>bpf_probe_read_user_str\<close>: at most \<open>n\<close> bytes with the terminator, which is always written; the
  return value counts it.  On a fault the whole destination is cleared.
\<close>

definition str_bytes :: "(u64 \<Rightarrow> u8) \<Rightarrow> u64 \<Rightarrow> nat \<Rightarrow> bytes" where
  "str_bytes mem p n = takeWhile (\<lambda>b. b \<noteq> 0) (probe_bytes mem p (n - 1)) @ [0]"

definition bpf_probe_read_user_str :: "kernel \<Rightarrow> nat \<Rightarrow> u64 \<Rightarrow> (int \<times> bytes) bpf" where
  "bpf_probe_read_user_str k n p = do {
     t \<leftarrow> next_tick;
     return (if k_user_fault k t p n < 0 then (k_user_fault k t p n, replicate n 0)
             else (int (length (str_bytes (k_user_mem k t) p n)), str_bytes (k_user_mem k t) p n)) }"

definition bpf_probe_read_kernel_str :: "kernel \<Rightarrow> nat \<Rightarrow> u64 \<Rightarrow> (int \<times> bytes) bpf" where
  "bpf_probe_read_kernel_str k n p = do {
     t \<leftarrow> next_tick;
     return (if k_kernel_fault k t p n < 0 then (k_kernel_fault k t p n, replicate n 0)
             else (int (length (str_bytes (k_kernel_mem k t) p n)), str_bytes (k_kernel_mem k t) p n)) }"

text \<open>
  Map updates: the kernel may refuse (a full map, no memory); the program sees the return code and
  the map is unchanged.  The first argument is the map's update function.
\<close>

definition bpf_map_update :: "kernel \<Rightarrow> (machine \<Rightarrow> machine) \<Rightarrow> bool bpf" where
  "bpf_map_update k upd = do {
     t \<leftarrow> next_tick;
     if k_map_update k t then do { modify upd; return True } else return False }"

text \<open>
  The ring buffer.  A fresh reservation holds whatever the buffer held before (\<open>k_stale\<close>).
\<close>

definition bpf_ringbuf_reserve :: "kernel \<Rightarrow> nat \<Rightarrow> bool bpf" where
  "bpf_ringbuf_reserve k n = do {
     t \<leftarrow> next_tick;
     if k_reserve k t n
     then do { modify (\<lambda>s. s\<lparr>reservation := Some (map (k_stale k t) [0..<n])\<rparr>); return True }
     else do { modify (\<lambda>s. s\<lparr>reservation := None\<rparr>); return False } }"

definition bpf_ringbuf_submit :: "unit bpf" where
  "bpf_ringbuf_submit = modify (\<lambda>s. case reservation s of
       None \<Rightarrow> s
     | Some d \<Rightarrow> s\<lparr>events := events s @ [d], reservation := None\<rparr>)"

definition bpf_ringbuf_discard :: "unit bpf" where
  "bpf_ringbuf_discard = modify (\<lambda>s. s\<lparr>reservation := None\<rparr>)"

definition bpf_ringbuf_output :: "kernel \<Rightarrow> bytes \<Rightarrow> bool bpf" where
  "bpf_ringbuf_output k bs = do {
     t \<leftarrow> next_tick;
     if k_reserve k t (length bs)
     then do { modify (\<lambda>s. s\<lparr>events := events s @ [bs]\<rparr>); return True }
     else return False }"

text \<open>Dynptr access is bounds checked; a null dynptr refuses everything.\<close>

definition dynptr_fits :: "bytes option \<Rightarrow> nat \<Rightarrow> nat \<Rightarrow> bool" where
  "dynptr_fits r off n = (case r of None \<Rightarrow> False | Some d \<Rightarrow> off + n \<le> length d)"

text \<open>
  A store through a pointer into the reservation.  The verifier admits only stores inside the bounds
  that a non-null \<^verbatim>\<open>bpf_dynptr_data\<close> has established, so a store that does not fit cannot happen; the
  definition leaves the buffer alone there.
\<close>

definition store_at :: "nat \<Rightarrow> bytes \<Rightarrow> bytes \<Rightarrow> bytes" where
  "store_at off bs d = (if off + length bs \<le> length d then poke d off bs else d)"

definition mem_store :: "nat \<Rightarrow> bytes \<Rightarrow> unit bpf" where
  "mem_store off bs = modify (\<lambda>s. s\<lparr>reservation := map_option (store_at off bs) (reservation s)\<rparr>)"

definition bpf_dynptr_write :: "nat \<Rightarrow> bytes \<Rightarrow> bool bpf" where
  "bpf_dynptr_write off bs = do {
     r \<leftarrow> gets reservation;
     if dynptr_fits r off (length bs) then do { mem_store off bs; return True } else return False }"

text \<open>\<^verbatim>\<open>bpf_dynptr_data(ptr, off, len)\<close>: whether the pointer is non-null; it then points at \<open>off\<close>.\<close>

definition bpf_dynptr_data :: "nat \<Rightarrow> nat \<Rightarrow> bool bpf" where
  "bpf_dynptr_data off n = gets (\<lambda>s. dynptr_fits (reservation s) off n)"

section \<open>What the helpers guarantee\<close>

lemma length_probe_bytes [simp]: "length (probe_bytes mem p n) = n"
  by (simp add: probe_bytes_def)

lemma length_str_bytes_le: "0 < n \<Longrightarrow> length (str_bytes mem p n) \<le> n"
proof -
  assume n: "0 < n"
  have "length (takeWhile (\<lambda>b. b \<noteq> 0) (probe_bytes mem p (n - 1))) \<le> n - 1"
    using length_takeWhile_le [of "\<lambda>b. b \<noteq> 0" "probe_bytes mem p (n - 1)"] by simp
  then show ?thesis using n by (simp add: str_bytes_def)
qed

lemma length_str_bytes_pos: "0 < length (str_bytes mem p n)"
  by (simp add: str_bytes_def)

lemma last_str_bytes: "last (str_bytes mem p n) = 0"
  by (simp add: str_bytes_def)

lemma wp_next_tick [wp_simps]: "wp next_tick Q s = Q (tick s) (s\<lparr>tick := Suc (tick s)\<rparr>)"
  by (simp add: next_tick_def wp_simps)

lemma wp_ktime [wp_simps]:
  "wp (bpf_ktime_get_ns k) Q s = Q (k_time k (tick s)) (s\<lparr>tick := Suc (tick s)\<rparr>)"
  by (simp add: bpf_ktime_get_ns_def wp_simps)

lemma wp_stackid [wp_simps]:
  "wp (bpf_get_stackid k) Q s = Q (k_stackid k (tick s)) (s\<lparr>tick := Suc (tick s)\<rparr>)"
  by (simp add: bpf_get_stackid_def wp_simps)

lemma wp_core_read [wp_simps]:
  "wp (core_read k f p) Q s = Q (k_core k (tick s) f p) (s\<lparr>tick := Suc (tick s)\<rparr>)"
  by (simp add: core_read_def wp_simps)

lemma wp_map_update [wp_simps]:
  "wp (bpf_map_update k upd) Q s =
     (if k_map_update k (tick s) then Q True (upd (s\<lparr>tick := Suc (tick s)\<rparr>))
      else Q False (s\<lparr>tick := Suc (tick s)\<rparr>))"
  by (simp add: bpf_map_update_def wp_simps)

lemma wp_probe_read_user [wp_simps]:
  "wp (bpf_probe_read_user k n p) Q s =
     Q (if k_user_fault k (tick s) p n < 0 then (k_user_fault k (tick s) p n, replicate n 0)
        else (0, probe_bytes (k_user_mem k (tick s)) p n)) (s\<lparr>tick := Suc (tick s)\<rparr>)"
  by (simp add: bpf_probe_read_user_def wp_simps)

lemma wp_probe_read_user_str [wp_simps]:
  "wp (bpf_probe_read_user_str k n p) Q s =
     Q (if k_user_fault k (tick s) p n < 0 then (k_user_fault k (tick s) p n, replicate n 0)
        else (int (length (str_bytes (k_user_mem k (tick s)) p n)), str_bytes (k_user_mem k (tick s)) p n))
       (s\<lparr>tick := Suc (tick s)\<rparr>)"
  by (simp add: bpf_probe_read_user_str_def wp_simps)

lemma wp_mem_store [wp_simps]:
  "wp (mem_store off bs) Q s =
     Q () (s\<lparr>reservation := map_option (store_at off bs) (reservation s)\<rparr>)"
  by (simp add: mem_store_def wp_simps)

lemma wp_dynptr_data [wp_simps]:
  "wp (bpf_dynptr_data off n) Q s = Q (dynptr_fits (reservation s) off n) s"
  by (simp add: bpf_dynptr_data_def wp_simps)

lemma wp_dynptr_write [wp_simps]:
  "wp (bpf_dynptr_write off bs) Q s =
     (if dynptr_fits (reservation s) off (length bs)
      then Q True (s\<lparr>reservation := map_option (store_at off bs) (reservation s)\<rparr>)
      else Q False s)"
  by (simp add: bpf_dynptr_write_def wp_simps)

lemma wp_submit [wp_simps]:
  "wp bpf_ringbuf_submit Q s = Q () (case reservation s of None \<Rightarrow> s
     | Some d \<Rightarrow> s\<lparr>events := events s @ [d], reservation := None\<rparr>)"
  by (simp add: bpf_ringbuf_submit_def wp_simps)

lemma wp_discard [wp_simps]: "wp bpf_ringbuf_discard Q s = Q () (s\<lparr>reservation := None\<rparr>)"
  by (simp add: bpf_ringbuf_discard_def wp_simps)

lemma wp_reserve [wp_simps]:
  "wp (bpf_ringbuf_reserve k n) Q s =
     (if k_reserve k (tick s) n
      then Q True (s\<lparr>tick := Suc (tick s), reservation := Some (map (k_stale k (tick s)) [0..<n])\<rparr>)
      else Q False (s\<lparr>tick := Suc (tick s), reservation := None\<rparr>))"
  by (simp add: bpf_ringbuf_reserve_def wp_simps)

lemma length_store_at [simp]: "length (store_at off bs d) = length d"
  by (simp add: store_at_def)

lemma store_at_poke [simp]: "off + length bs \<le> length d \<Longrightarrow> store_at off bs d = poke d off bs"
  by (simp add: store_at_def)

lemma dynptr_fits_Some [simp]: "dynptr_fits (Some d) off n \<longleftrightarrow> off + n \<le> length d"
  by (simp add: dynptr_fits_def)

lemma dynptr_fits_None [simp]: "\<not> dynptr_fits None off n"
  by (simp add: dynptr_fits_def)

lemma wp_output [wp_simps]:
  "wp (bpf_ringbuf_output k bs) Q s =
     (if k_reserve k (tick s) (length bs)
      then Q True (s\<lparr>tick := Suc (tick s), events := events s @ [bs]\<rparr>)
      else Q False (s\<lparr>tick := Suc (tick s)\<rparr>))"
  by (simp add: bpf_ringbuf_output_def wp_simps)

section \<open>Control state\<close>

text \<open>
  \<open>control\<close> forgets the ring buffer, the telemetry and the scratch memory: what is left is the
  state the probes take decisions on.  A program that only reports leaves it unchanged.
\<close>

definition control :: "machine \<Rightarrow> machine" where
  "control s = s\<lparr>tick := 0, events := [], reservation := None, stats_map := Map.empty,
     event_loss_map := None, fd_path_scratch_map := Map.empty\<rparr>"

definition reports :: "'a bpf \<Rightarrow> bool" where
  "reports m \<longleftrightarrow> state_io_rel (same control) m"

named_theorems reports_intros \<open>programs that leave the control state unchanged\<close>

lemma reports_control: "reports m \<Longrightarrow> control (exec m s) = control s"
  by (simp add: reports_def same_exec)

lemma reports_return: "reports (return x)"
  unfolding reports_def by (rule same.io_return)

lemma reports_gets: "reports (gets f)"
  unfolding reports_def by (rule same.io_gets)

lemma reports_bind: "reports m \<Longrightarrow> (\<And>x. reports (g x)) \<Longrightarrow> reports (State_Monad.bind m g)"
  unfolding reports_def by (rule same.io_bind)

lemma reports_if: "(b \<Longrightarrow> reports m) \<Longrightarrow> (\<not> b \<Longrightarrow> reports n) \<Longrightarrow> reports (if b then m else n)"
  unfolding reports_def by (rule same.io_if)

lemma reports_only_if: "(b \<Longrightarrow> reports m) \<Longrightarrow> reports (only_if b m)"
  unfolding reports_def by (rule same.io_only_if)

lemma reports_case_option:
  "(y = None \<Longrightarrow> reports m) \<Longrightarrow> (\<And>x. y = Some x \<Longrightarrow> reports (g x)) \<Longrightarrow>
     reports (case y of None \<Rightarrow> m | Some x \<Rightarrow> g x)"
  unfolding reports_def by (rule same.io_case_option)

lemma reports_case_prod: "(\<And>a b. reports (h a b)) \<Longrightarrow> reports (case z of (a, b) \<Rightarrow> h a b)"
  unfolding reports_def by (rule same.io_case_prod)

lemma reports_let: "reports (g x) \<Longrightarrow> reports (let v = x in g v)"
  unfolding reports_def by (rule same.io_let)

lemmas reports_rules = reports_return reports_gets reports_bind reports_if reports_only_if
  reports_case_option reports_case_prod reports_let

lemma reports_modify: "(\<And>s. control (f s) = control s) \<Longrightarrow> reports (modify f)"
  unfolding reports_def by (rule same.io_modify) (simp add: same_def)

lemma reports_next_tick [reports_intros]: "reports next_tick"
  unfolding next_tick_def by (intro reports_rules reports_modify) (simp add: control_def)

lemma reports_helpers [reports_intros]:
  "reports (bpf_ktime_get_ns k)"
  "reports (bpf_get_stackid k)"
  "reports (core_read k f p)"
  "reports (core_read_into k f p)"
  "reports (bpf_probe_read_user k n p)"
  "reports (bpf_probe_read_kernel k n p)"
  "reports (bpf_probe_read_user_str k n p)"
  "reports (bpf_probe_read_kernel_str k n p)"
  "reports (bpf_dynptr_data off n)"
  unfolding bpf_ktime_get_ns_def bpf_get_stackid_def core_read_def core_read_into_def
    bpf_probe_read_user_def bpf_probe_read_kernel_def bpf_probe_read_user_str_def
    bpf_probe_read_kernel_str_def bpf_dynptr_data_def
  by (intro reports_rules reports_intros)+

lemma reports_ringbuf [reports_intros]:
  "reports (mem_store off bs)"
  "reports (bpf_ringbuf_reserve k n)"
  "reports bpf_ringbuf_submit"
  "reports bpf_ringbuf_discard"
  "reports (bpf_ringbuf_output k bs)"
  unfolding mem_store_def bpf_ringbuf_reserve_def bpf_ringbuf_submit_def bpf_ringbuf_discard_def
    bpf_ringbuf_output_def
  by (intro reports_rules reports_intros reports_modify; simp add: control_def split: option.split)+

lemma reports_dynptr_write [reports_intros]: "reports (bpf_dynptr_write off bs)"
  unfolding bpf_dynptr_write_def by (intro reports_rules reports_intros)

lemma control_sel [simp]:
  "config_map (control s) = config_map s"
  "pid_namespace_config_map (control s) = pid_namespace_config_map s"
  "pending_task_storage (control s) = pending_task_storage s"
  "pending_stack_map (control s) = pending_stack_map s"
  "filter_map (control s) = filter_map s"
  "attach_exited_map (control s) = attach_exited_map s"
  "attach_roots_map (control s) = attach_roots_map s"
  "pending_fork_flags_map (control s) = pending_fork_flags_map s"
  "unknown_children_map (control s) = unknown_children_map s"
  "syscall_filter_map (control s) = syscall_filter_map s"
  "plain_enter_elide_map (control s) = plain_enter_elide_map s"
  "arm_fork_map (control s) = arm_fork_map s"
  "pending_exec_map (control s) = pending_exec_map s"
  "main_exited_map (control s) = main_exited_map s"
  by (simp_all add: control_def)

text \<open>What the equality of control states gives, field by field.\<close>

lemma control_fields:
  assumes "control t = control s"
  shows
    "config_map t = config_map s"
    "pid_namespace_config_map t = pid_namespace_config_map s"
    "pending_task_storage t = pending_task_storage s"
    "pending_stack_map t = pending_stack_map s"
    "filter_map t = filter_map s"
    "attach_exited_map t = attach_exited_map s"
    "attach_roots_map t = attach_roots_map s"
    "pending_fork_flags_map t = pending_fork_flags_map s"
    "unknown_children_map t = unknown_children_map s"
    "syscall_filter_map t = syscall_filter_map s"
    "plain_enter_elide_map t = plain_enter_elide_map s"
    "arm_fork_map t = arm_fork_map s"
    "pending_exec_map t = pending_exec_map s"
    "main_exited_map t = main_exited_map s"
  by (metis assms control_sel)+

lemma reports_same:
  assumes "reports m" "\<And>s t. control t = control s \<Longrightarrow> f t = f s"
  shows "state_io_rel (same f) m"
  unfolding state_io_rel_def same_def by (blast intro: assms(2) reports_control [OF assms(1)])

lemma reports_fields:
  assumes "reports m"
  shows
    "state_io_rel (same config_map) m"
    "state_io_rel (same pid_namespace_config_map) m"
    "state_io_rel (same pending_task_storage) m"
    "state_io_rel (same pending_stack_map) m"
    "state_io_rel (same filter_map) m"
    "state_io_rel (same attach_exited_map) m"
    "state_io_rel (same attach_roots_map) m"
    "state_io_rel (same pending_fork_flags_map) m"
    "state_io_rel (same unknown_children_map) m"
    "state_io_rel (same syscall_filter_map) m"
    "state_io_rel (same plain_enter_elide_map) m"
    "state_io_rel (same arm_fork_map) m"
    "state_io_rel (same pending_exec_map) m"
    "state_io_rel (same main_exited_map) m"
  by (rule reports_same [OF assms]; erule control_fields)+

lemma wp_reports:
  assumes "reports m" "\<And>x t. control t = control s \<Longrightarrow> Q x t"
  shows "wp m Q s"
  unfolding wp_def by (rule assms(2)) (rule reports_control [OF assms(1)])

lemma io_map_update:
  assumes "\<And>s. f (upd s) = f s" "\<And>s n. f (s\<lparr>tick := n\<rparr>) = f s"
  shows "state_io_rel (same f) (bpf_map_update k upd)"
  using assms by (simp add: state_io_rel_def same_def bpf_map_update_def next_tick_def run_bind_parts)

section \<open>The loaded programs\<close>

text \<open>
  The maps right after loading: arrays are zeroed, hash maps and task storage are empty; the loader
  stores the configuration word.
\<close>

definition zero_stats :: bpf_stats where
  "zero_stats = \<lparr>st_ringbuf_reserve_fail = 0, st_ringbuf_copy_fail = 0,
     st_payload_truncated_events = 0, st_pending_update_fail = 0, st_orphan_exit = 0,
     st_orphan_first_pid = 0, st_orphan_first_tid = 0, st_orphan_first_sys_id = 0,
     st_orphan_first_ret = 0, st_orphan_first_reason = 0, st_orphan_first_time_ns = 0,
     st_orphan_last_pid = 0, st_orphan_last_tid = 0, st_orphan_last_sys_id = 0,
     st_orphan_last_ret = 0, st_orphan_last_reason = 0, st_orphan_last_time_ns = 0,
     st_pending_mismatch = 0, st_lifecycle_map_update_fail = 0, st_lifecycle_fork_seen = 0,
     st_lifecycle_fork_parent_tracked = 0, st_lifecycle_fork_parent_untracked = 0,
     st_lifecycle_fork_child_filter_installed = 0, st_lifecycle_fork_child_filter_failed = 0,
     st_lifecycle_exec_seen = 0, st_lifecycle_exec_untracked = 0, st_lifecycle_exit_seen = 0,
     st_lifecycle_exit_untracked = 0, st_event_seq = 0, st_integrity_first_time_ns = 0\<rparr>"

definition zero_fd_path_scratch :: fd_path_scratch where
  "zero_fd_path_scratch = \<lparr>fps_components = (\<lambda>_. 0), fps_args = Args 0 0 0 0 0 0, fps_nested_fd0 = 0,
     fps_nested_fd1 = 0, fps_nested_fd2 = 0, fps_nested_fd3 = 0, fps_nested_fd_count = 0\<rparr>"

definition boot_machine :: "u32 \<Rightarrow> machine" where
  "boot_machine config = \<lparr>tick = 0, events = [], reservation = None,
     stats_map = (\<lambda>_. Some zero_stats),
     event_loss_map = Some \<lparr>els_epoch = 0, els_first_time_ns = 0\<rparr>,
     fd_path_scratch_map = (\<lambda>_. Some zero_fd_path_scratch),
     config_map = Some config,
     pid_namespace_config_map = Some \<lparr>pnc_nonce = 0, pnc_level = 0, pnc_inum = 0, pnc_ready = 0\<rparr>,
     pending_task_storage = Map.empty, pending_stack_map = Map.empty, filter_map = Map.empty,
     attach_exited_map = Map.empty, attach_roots_map = Map.empty, pending_fork_flags_map = Map.empty,
     unknown_children_map = Map.empty, syscall_filter_map = Map.empty,
     plain_enter_elide_map = Map.empty, arm_fork_map = Some 0, pending_exec_map = Map.empty,
     main_exited_map = Map.empty, runtime_meta_map = None\<rparr>"

text \<open>A kernel on which every helper succeeds: thread \<open>tid\<close> of process \<open>pid\<close> on CPU 0.\<close>

definition sample_kernel :: "u32 \<Rightarrow> u32 \<Rightarrow> kernel" where
  "sample_kernel pid tid = \<lparr>k_cpu = 0, k_task = 0x1000 + ucast tid,
     k_pid_tgid = push_bit 32 (ucast pid) OR ucast tid,
     k_time = (\<lambda>t. 100 + of_nat t), k_comm = (\<lambda>_. 0), k_reserve = (\<lambda>_ _. True),
     k_stale = (\<lambda>_ _. 0xaa), k_map_update = (\<lambda>_. True), k_storage_create = (\<lambda>_. True),
     k_user_fault = (\<lambda>_ _ _. 0), k_user_mem = (\<lambda>_ a. ucast a), k_kernel_fault = (\<lambda>_ _ _. 0),
     k_kernel_mem = (\<lambda>_ a. ucast a), k_core = (\<lambda>_ _ _. 0), k_core_fault = (\<lambda>_ _ _. 0),
     k_stackid = (\<lambda>_. 7), k_offset = (\<lambda>_. 96)\<rparr>"

lemma sample_kernel_sel [simp]:
  "k_cpu (sample_kernel pid tid) = 0"
  "k_task (sample_kernel pid tid) = 0x1000 + ucast tid"
  "k_time (sample_kernel pid tid) t = 100 + of_nat t"
  "k_reserve (sample_kernel pid tid) t n"
  "k_map_update (sample_kernel pid tid) t"
  "k_storage_create (sample_kernel pid tid) t"
  "k_user_fault (sample_kernel pid tid) t p n = 0"
  "k_user_mem (sample_kernel pid tid) t p = ucast p"
  "k_kernel_fault (sample_kernel pid tid) t p n = 0"
  by (simp_all add: sample_kernel_def)

lemma sample_cur [simp]: "cur_pid (sample_kernel pid tid) = pid" "cur_tid (sample_kernel pid tid) = tid"
  by (auto simp: sample_kernel_def cur_pid_def cur_tid_def bit_eq_iff bit_simps dest: bit_imp_le_length)

lemma boot_machine_sel [simp]:
  "tick (boot_machine c) = 0" "events (boot_machine c) = []" "reservation (boot_machine c) = None"
  "stats_map (boot_machine c) cpu = Some zero_stats" "config_map (boot_machine c) = Some c"
  "event_loss_map (boot_machine c) = Some \<lparr>els_epoch = 0, els_first_time_ns = 0\<rparr>"
  "filter_map (boot_machine c) = Map.empty" "pending_task_storage (boot_machine c) = Map.empty"
  "pending_exec_map (boot_machine c) = Map.empty"
  by (simp_all add: boot_machine_def)

end
