(* ===== verification/Runtime_Stats.thy ===== *)
theory Runtime_Stats
  imports Bpf_Runtime
begin

text \<open>
  \<^verbatim>\<open>bpf/runtime_stats.h\<close> and \<^verbatim>\<open>bpf/event_integrity.h\<close>: the syscall filter, the per-CPU statistics,
  the per-CPU event sequence and the shared loss epoch, with the balance that ties the epoch to the
  classified failure counters.
\<close>

section \<open>Syscall filter\<close>

definition should_trace_syscall :: "u32 \<Rightarrow> u32 option \<Rightarrow> bool bpf" where
  "should_trace_syscall sys_id cfg =
     (case cfg of
        None \<Rightarrow> return True
      | Some c \<Rightarrow>
          if \<not> has_flag c CONFIG_SYSCALL_FILTER then return True
          else do {
            sel \<leftarrow> gets (\<lambda>s. syscall_filter_map s sys_id);
            case sel of
              None \<Rightarrow> return (\<not> has_flag c CONFIG_SYSCALL_FILTER_STRICT_UNKNOWN)
            | Some selected \<Rightarrow>
                if has_flag c CONFIG_SYSCALL_FILTER_NEGATED then return (selected = 0)
                else return (selected \<noteq> 0) })"

definition is_fd_state_direct_syscall :: "u32 \<Rightarrow> bool" where
  "is_fd_state_direct_syscall sys_id \<longleftrightarrow> sys_id \<in> set
     [SYS_OPEN, SYS_OPENAT, SYS_OPENAT2, SYS_OPEN_TREE, SYS_CREAT, SYS_CLOSE, SYS_CLOSE_RANGE,
      SYS_DUP, SYS_DUP2, SYS_DUP3, SYS_EPOLL_CREATE, SYS_TIMERFD_CREATE, SYS_EVENTFD, SYS_EVENTFD2,
      SYS_EPOLL_CREATE1, SYS_INOTIFY_INIT, SYS_INOTIFY_INIT1, SYS_SIGNALFD, SYS_SIGNALFD4,
      SYS_FCNTL, SYS_PIPE, SYS_PIPE2, SYS_SOCKETPAIR, SYS_SOCKET, SYS_CHDIR, SYS_FCHDIR,
      SYS_FACCESSAT, SYS_FACCESSAT2, SYS_FCHMODAT, SYS_MKDIRAT, SYS_NEWFSTATAT, SYS_FSTAT,
      SYS_READ, SYS_WRITE, SYS_PIDFD_OPEN]"

definition is_fd_state_tracked :: "u32 \<Rightarrow> u32 option \<Rightarrow> bool" where
  "is_fd_state_tracked sys_id cfg =
     (case cfg of None \<Rightarrow> False
      | Some c \<Rightarrow> has_flag c CONFIG_FD_STATE \<and> is_fd_state_direct_syscall sys_id)"

section \<open>Statistics\<close>

definition lookup_stats :: "kernel \<Rightarrow> bpf_stats option bpf" where
  "lookup_stats k = gets (\<lambda>s. stats_map s (k_cpu k))"

text \<open>A store through the pointer that \<^verbatim>\<open>lookup_stats\<close> returned.\<close>

definition store_stats :: "kernel \<Rightarrow> bpf_stats \<Rightarrow> unit bpf" where
  "store_stats k st = modify (\<lambda>s. s\<lparr>stats_map := (stats_map s)(k_cpu k \<mapsto> st)\<rparr>)"

text \<open>\<^verbatim>\<open>if (stats) { stats->field++; }\<close>, the shape of most recorders.\<close>

definition bump_stats :: "kernel \<Rightarrow> (bpf_stats \<Rightarrow> bpf_stats) \<Rightarrow> unit bpf" where
  "bump_stats k f = do {
     stats \<leftarrow> lookup_stats k;
     case stats of None \<Rightarrow> return () | Some st \<Rightarrow> store_stats k (f st) }"

section \<open>Event integrity\<close>

definition next_event_sequence :: "kernel \<Rightarrow> u64 bpf" where
  "next_event_sequence k = do {
     stats \<leftarrow> lookup_stats k;
     case stats of
       None \<Rightarrow> return 0
     | Some st \<Rightarrow> do {
         store_stats k (st\<lparr>st_event_seq := st_event_seq st + 1\<rparr>);
         return (st_event_seq st + 1) } }"

text \<open>\<^verbatim>\<open>__sync_val_compare_and_swap(&x, 0, now)\<close>: only a zero cell takes the new value.\<close>

definition cas_zero :: "u64 \<Rightarrow> u64 \<Rightarrow> u64" where
  "cas_zero old new = (if old = 0 then new else old)"

definition record_event_integrity_loss :: "kernel \<Rightarrow> unit bpf" where
  "record_event_integrity_loss k = do {
     now \<leftarrow> bpf_ktime_get_ns k;
     bump_stats k (\<lambda>st. st\<lparr>st_integrity_first_time_ns := cas_zero (st_integrity_first_time_ns st) now\<rparr>);
     loss \<leftarrow> gets event_loss_map;
     case loss of
       None \<Rightarrow> return ()
     | Some l \<Rightarrow> modify (\<lambda>s. s\<lparr>event_loss_map := Some
           \<lparr>els_epoch = els_epoch l + 1, els_first_time_ns = cas_zero (els_first_time_ns l) now\<rparr>\<rparr>) }"

definition capture_event_integrity :: "kernel \<Rightarrow> event_v2_header \<Rightarrow> event_v2_header bpf" where
  "capture_event_integrity k header = do {
     loss \<leftarrow> gets event_loss_map;
     return (case loss of
        None \<Rightarrow> header\<lparr>hdr_cpu := k_cpu k, hdr_reserved := 0, hdr_loss_epoch := 0, hdr_loss_time_ns := 0\<rparr>
      | Some l \<Rightarrow> header\<lparr>hdr_cpu := k_cpu k, hdr_reserved := 0, hdr_loss_epoch := els_epoch l,
                    hdr_loss_time_ns := els_first_time_ns l\<rparr>) }"

definition capture_event_v2_comm :: "kernel \<Rightarrow> event_v2_header \<Rightarrow> event_v2_header bpf" where
  "capture_event_v2_comm k header = do {
     config \<leftarrow> gets config_map;
     return (case config of
        None \<Rightarrow> header\<lparr>hdr_comm := replicate EVENT_V2_COMM_SIZE 0\<rparr>
      | Some c \<Rightarrow>
          if has_flag c CONFIG_DECODE_PID_COMM
          then header\<lparr>hdr_comm := map (k_comm k) [0..<EVENT_V2_COMM_SIZE]\<rparr>
          else header\<lparr>hdr_comm := replicate EVENT_V2_COMM_SIZE 0\<rparr>) }"

section \<open>Recorders\<close>

definition record_ringbuf_reserve_fail :: "kernel \<Rightarrow> unit bpf" where
  "record_ringbuf_reserve_fail k = do {
     record_event_integrity_loss k;
     bump_stats k (\<lambda>st. st\<lparr>st_ringbuf_reserve_fail := st_ringbuf_reserve_fail st + 1\<rparr>) }"

definition record_ringbuf_copy_fail :: "kernel \<Rightarrow> unit bpf" where
  "record_ringbuf_copy_fail k = do {
     record_event_integrity_loss k;
     bump_stats k (\<lambda>st. st\<lparr>st_ringbuf_copy_fail := st_ringbuf_copy_fail st + 1\<rparr>) }"

definition record_payload_truncated_event :: "kernel \<Rightarrow> unit bpf" where
  "record_payload_truncated_event k =
     bump_stats k (\<lambda>st. st\<lparr>st_payload_truncated_events := st_payload_truncated_events st + 1\<rparr>)"

definition record_pending_update_fail :: "kernel \<Rightarrow> unit bpf" where
  "record_pending_update_fail k = do {
     record_event_integrity_loss k;
     bump_stats k (\<lambda>st. st\<lparr>st_pending_update_fail := st_pending_update_fail st + 1\<rparr>) }"

definition record_lifecycle_map_update_fail :: "kernel \<Rightarrow> unit bpf" where
  "record_lifecycle_map_update_fail k = do {
     record_event_integrity_loss k;
     bump_stats k (\<lambda>st. st\<lparr>st_lifecycle_map_update_fail := st_lifecycle_map_update_fail st + 1\<rparr>) }"

definition record_lifecycle_fork_seen :: "kernel \<Rightarrow> unit bpf" where
  "record_lifecycle_fork_seen k =
     bump_stats k (\<lambda>st. st\<lparr>st_lifecycle_fork_seen := st_lifecycle_fork_seen st + 1\<rparr>)"

definition record_lifecycle_fork_parent_tracked :: "kernel \<Rightarrow> unit bpf" where
  "record_lifecycle_fork_parent_tracked k =
     bump_stats k (\<lambda>st. st\<lparr>st_lifecycle_fork_parent_tracked := st_lifecycle_fork_parent_tracked st + 1\<rparr>)"

definition record_lifecycle_fork_parent_untracked :: "kernel \<Rightarrow> unit bpf" where
  "record_lifecycle_fork_parent_untracked k =
     bump_stats k (\<lambda>st. st\<lparr>st_lifecycle_fork_parent_untracked := st_lifecycle_fork_parent_untracked st + 1\<rparr>)"

definition record_lifecycle_fork_child_filter :: "kernel \<Rightarrow> bool \<Rightarrow> unit bpf" where
  "record_lifecycle_fork_child_filter k installed = do {
     stats \<leftarrow> lookup_stats k;
     case stats of
       None \<Rightarrow> return ()
     | Some st \<Rightarrow>
         if installed
         then store_stats k (st\<lparr>st_lifecycle_fork_child_filter_installed :=
                st_lifecycle_fork_child_filter_installed st + 1\<rparr>)
         else do {
           store_stats k (st\<lparr>st_lifecycle_fork_child_filter_failed :=
             st_lifecycle_fork_child_filter_failed st + 1\<rparr>);
           record_event_integrity_loss k } }"

definition record_lifecycle_exec_seen :: "kernel \<Rightarrow> unit bpf" where
  "record_lifecycle_exec_seen k =
     bump_stats k (\<lambda>st. st\<lparr>st_lifecycle_exec_seen := st_lifecycle_exec_seen st + 1\<rparr>)"

definition record_lifecycle_exec_untracked :: "kernel \<Rightarrow> unit bpf" where
  "record_lifecycle_exec_untracked k =
     bump_stats k (\<lambda>st. st\<lparr>st_lifecycle_exec_untracked := st_lifecycle_exec_untracked st + 1\<rparr>)"

definition record_lifecycle_exit_seen :: "kernel \<Rightarrow> unit bpf" where
  "record_lifecycle_exit_seen k =
     bump_stats k (\<lambda>st. st\<lparr>st_lifecycle_exit_seen := st_lifecycle_exit_seen st + 1\<rparr>)"

definition record_lifecycle_exit_untracked :: "kernel \<Rightarrow> unit bpf" where
  "record_lifecycle_exit_untracked k =
     bump_stats k (\<lambda>st. st\<lparr>st_lifecycle_exit_untracked := st_lifecycle_exit_untracked st + 1\<rparr>)"

definition record_orphan_exit :: "kernel \<Rightarrow> u32 \<Rightarrow> u32 \<Rightarrow> u32 \<Rightarrow> s64 \<Rightarrow> u64 \<Rightarrow> unit bpf" where
  "record_orphan_exit k pid tid sys_id ret_value reason = do {
     stats \<leftarrow> lookup_stats k;
     case stats of
       None \<Rightarrow> return ()
     | Some st0 \<Rightarrow> do {
         let st1 = st0\<lparr>st_orphan_exit := st_orphan_exit st0 + 1\<rparr>;
         timestamp_ns \<leftarrow> bpf_ktime_get_ns k;
         let st2 = (if st_orphan_first_time_ns st1 = 0
                    then st1\<lparr>st_orphan_first_pid := ucast pid,
                             st_orphan_first_tid := ucast tid,
                             st_orphan_first_sys_id := ucast sys_id,
                             st_orphan_first_ret := ret_value,
                             st_orphan_first_reason := reason,
                             st_orphan_first_time_ns := timestamp_ns\<rparr>
                    else st1);
         store_stats k (st2\<lparr>st_orphan_last_pid := ucast pid,
                            st_orphan_last_tid := ucast tid,
                            st_orphan_last_sys_id := ucast sys_id,
                            st_orphan_last_ret := ret_value,
                            st_orphan_last_reason := reason,
                            st_orphan_last_time_ns := timestamp_ns\<rparr>) } }"

definition record_pending_mismatch :: "kernel \<Rightarrow> unit bpf" where
  "record_pending_mismatch k = do {
     record_event_integrity_loss k;
     bump_stats k (\<lambda>st. st\<lparr>st_pending_mismatch := st_pending_mismatch st + 1\<rparr>) }"

section \<open>Recorders only report\<close>

lemma reports_stats [reports_intros]:
  "reports (lookup_stats k)"
  "reports (store_stats k st)"
  unfolding lookup_stats_def store_stats_def
  by (intro reports_rules reports_modify; simp add: control_def)+

lemma reports_bump_stats [reports_intros]: "reports (bump_stats k f)"
  unfolding bump_stats_def by (intro reports_rules reports_intros)

lemma reports_integrity [reports_intros]:
  "reports (next_event_sequence k)"
  "reports (record_event_integrity_loss k)"
  "reports (capture_event_integrity k h)"
  "reports (capture_event_v2_comm k h)"
  unfolding next_event_sequence_def record_event_integrity_loss_def capture_event_integrity_def
    capture_event_v2_comm_def
  by (intro reports_rules reports_intros reports_modify; simp add: control_def)+

lemmas counter_recorder_defs = record_ringbuf_reserve_fail_def record_ringbuf_copy_fail_def
  record_payload_truncated_event_def record_pending_update_fail_def
  record_lifecycle_map_update_fail_def record_lifecycle_fork_seen_def
  record_lifecycle_fork_parent_tracked_def record_lifecycle_fork_parent_untracked_def
  record_lifecycle_exec_seen_def record_lifecycle_exec_untracked_def record_lifecycle_exit_seen_def
  record_lifecycle_exit_untracked_def record_pending_mismatch_def

lemma reports_recorders [reports_intros]:
  "reports (record_ringbuf_reserve_fail k)"
  "reports (record_ringbuf_copy_fail k)"
  "reports (record_payload_truncated_event k)"
  "reports (record_pending_update_fail k)"
  "reports (record_lifecycle_map_update_fail k)"
  "reports (record_lifecycle_fork_seen k)"
  "reports (record_lifecycle_fork_parent_tracked k)"
  "reports (record_lifecycle_fork_parent_untracked k)"
  "reports (record_lifecycle_exec_seen k)"
  "reports (record_lifecycle_exec_untracked k)"
  "reports (record_lifecycle_exit_seen k)"
  "reports (record_lifecycle_exit_untracked k)"
  "reports (record_pending_mismatch k)"
  unfolding counter_recorder_defs by (intro reports_rules reports_intros)+

lemma reports_recorders2 [reports_intros]:
  "reports (record_lifecycle_fork_child_filter k installed)"
  "reports (record_orphan_exit k pid tid sys_id ret_value reason)"
  "reports (should_trace_syscall sys_id cfg)"
  unfolding record_lifecycle_fork_child_filter_def record_orphan_exit_def should_trace_syscall_def
  by (intro reports_rules reports_intros)+

end
