(* ===== verification/Event_Decoder.thy ===== *)
theory Event_Decoder
  imports Event_Abi
begin

text \<open>
  The consumer's view of the wire format: the ABI validation and decoding of
  \<^verbatim>\<open>cmd/strace-go/trace_event_v2_decoder.go\<close> and the TLV framing of
  \<^verbatim>\<open>cmd/strace-go/event_payload_tlv.go\<close>, byte for byte.  Producers and consumer share nothing but
  the bytes, so a record written by the probes means what this decoder reads.
\<close>

section \<open>Reading integers\<close>

definition rd16 :: "nat \<Rightarrow> bytes \<Rightarrow> u16" where
  "rd16 off bs = le_word (bslice off 2 bs)"

definition rd32 :: "nat \<Rightarrow> bytes \<Rightarrow> u32" where
  "rd32 off bs = le_word (bslice off 4 bs)"

definition rd64 :: "nat \<Rightarrow> bytes \<Rightarrow> u64" where
  "rd64 off bs = le_word (bslice off 8 bs)"

lemmas rd_defs = rd16_def rd32_def rd64_def

section \<open>Payload sections\<close>

datatype payload_kind =
    PayloadKindString | PayloadKindBytes | PayloadKindStruct | PayloadKindIovec
  | PayloadKindSockaddr | PayloadKindExecArgs | PayloadKindCmsg | PayloadKindFDState
  | PayloadKindFDPath | PayloadKindEventFDState | PayloadKindNamespace | PayloadKindPIDNamespace

datatype payload_direction = PayloadDirectionIn | PayloadDirectionOut

record payload_section =
  sec_kind :: payload_kind
  sec_direction :: payload_direction
  sec_arg_index :: nat
  sec_user_ptr :: u64
  sec_user_len :: u32
  sec_copied_len :: u32
  sec_probe_ret :: s32
  sec_data :: bytes

definition payloadKindFromTLV :: "u16 \<Rightarrow> payload_kind option" where
  "payloadKindFromTLV kind =
     (if kind = PAYLOAD_TLV_KIND_STRING then Some PayloadKindString
      else if kind = PAYLOAD_TLV_KIND_BYTES then Some PayloadKindBytes
      else if kind = PAYLOAD_TLV_KIND_STRUCT then Some PayloadKindStruct
      else if kind = PAYLOAD_TLV_KIND_IOVEC then Some PayloadKindIovec
      else if kind = PAYLOAD_TLV_KIND_SOCKADDR then Some PayloadKindSockaddr
      else if kind = PAYLOAD_TLV_KIND_EXEC_ARGS then Some PayloadKindExecArgs
      else if kind = PAYLOAD_TLV_KIND_CMSG then Some PayloadKindCmsg
      else if kind = PAYLOAD_TLV_KIND_FD_STATE then Some PayloadKindFDState
      else if kind = PAYLOAD_TLV_KIND_FD_PATH then Some PayloadKindFDPath
      else if kind = PAYLOAD_TLV_KIND_EVENTFD_STATE then Some PayloadKindEventFDState
      else if kind = PAYLOAD_TLV_KIND_NAMESPACE then Some PayloadKindNamespace
      else if kind = PAYLOAD_TLV_KIND_PID_NAMESPACE then Some PayloadKindPIDNamespace
      else None)"

definition payloadDirectionFromTLV :: "u16 \<Rightarrow> payload_direction" where
  "payloadDirectionFromTLV flags =
     (if has_flag flags PAYLOAD_TLV_FLAG_DIRECTION_OUT then PayloadDirectionOut else PayloadDirectionIn)"

definition decodePayloadTLVSection :: "bytes \<Rightarrow> (payload_section \<times> bytes) option" where
  "decodePayloadTLVSection data =
     (case payloadKindFromTLV (rd16 0 data) of
        None \<Rightarrow> None
      | Some kind \<Rightarrow>
          let copied_len = rd32 12 data
          in if unat copied_len > length data - PAYLOAD_TLV_HEADER_SIZE then None
             else let total_len = PAYLOAD_TLV_HEADER_SIZE + unat copied_len
                  in Some (\<lparr>sec_kind = kind,
                        sec_direction = payloadDirectionFromTLV (rd16 4 data),
                        sec_arg_index = unat (rd16 2 data),
                        sec_user_ptr = rd64 24 data,
                        sec_user_len = rd32 8 data,
                        sec_copied_len = copied_len,
                        sec_probe_ret = rd32 16 data,
                        sec_data = bslice PAYLOAD_TLV_HEADER_SIZE (unat copied_len) data\<rparr>,
                      drop total_len data))"

function decodePayloadTLVSections :: "bytes \<Rightarrow> payload_section list option" where
  "decodePayloadTLVSections data =
     (if data = [] then Some []
      else if length data < PAYLOAD_TLV_HEADER_SIZE then None
      else case decodePayloadTLVSection data of
             None \<Rightarrow> None
           | Some (section, rest) \<Rightarrow> map_option (Cons section) (decodePayloadTLVSections rest))"
  by pat_completeness auto
termination
  by (relation "measure length")
     (auto simp: decodePayloadTLVSection_def Let_def split: option.splits if_splits)

declare decodePayloadTLVSections.simps [simp del]

text \<open>
  \<^verbatim>\<open>payloadTLVSectionsForRawInto\<close> below \<^verbatim>\<open>payloadSectionsForRawPayloadEventInto\<close>: without the TLV flag
  there are no sections, and a payload whose framing is broken gives no sections either.
\<close>

definition payloadSectionsForRawPayloadEvent :: "u16 \<Rightarrow> bytes \<Rightarrow> payload_section list" where
  "payloadSectionsForRawPayloadEvent flags data =
     (if \<not> has_flag flags EVENT_FLAG_PAYLOAD_TLV then []
      else case decodePayloadTLVSections data of None \<Rightarrow> [] | Some sections \<Rightarrow> sections)"

section \<open>Records\<close>

record trace_event_v2_header =
  tvh_legacy :: bool
  tvh_seq :: u64
  tvh_cpu :: u32
  tvh_loss_epoch :: u64
  tvh_loss_time_ns :: u64
  tvh_version :: u16
  tvh_event_type :: u16
  tvh_flags :: u16
  tvh_pid :: u32
  tvh_tid :: u32
  tvh_sys_id :: u32
  tvh_ts_ns :: u64
  tvh_comm :: bytes

record trace_event_envelope =
  env_legacy_integrity :: bool
  env_seq :: u64
  env_cpu :: u32
  env_loss_epoch :: u64
  env_loss_time_ns :: u64
  env_event_version :: u16
  env_pid :: u32
  env_tid :: u32
  env_sys_id :: u32
  env_event_type :: u16
  env_event_flags :: u16
  env_lifecycle_action :: u32
  env_record_time :: u64
  env_enter_time :: u64
  env_args :: args6
  env_ret :: s64
  env_duration :: u64
  env_cpu_duration :: u64
  env_stack_id :: s32
  env_kvm_exit_reason :: u32
  env_probe_ret_enter :: s32
  env_probe_ret_exit :: s32
  env_snapshot_text :: bytes
  env_signal :: u32
  env_signal_err :: s32
  env_signal_code :: s32
  env_sender_pid :: u32
  env_sender_uid :: u32
  env_signal_address :: u64
  env_signal_status :: s32
  env_signal_user_time :: s64
  env_signal_system_time :: s64
  env_comm :: bytes
  env_payload :: "payload_section list"

text \<open>Go's zero value of the envelope.\<close>

definition zero_envelope :: trace_event_envelope where
  "zero_envelope = \<lparr>env_legacy_integrity = False, env_seq = 0, env_cpu = 0, env_loss_epoch = 0,
     env_loss_time_ns = 0, env_event_version = 0, env_pid = 0, env_tid = 0, env_sys_id = 0,
     env_event_type = 0, env_event_flags = 0, env_lifecycle_action = 0, env_record_time = 0,
     env_enter_time = 0, env_args = Args 0 0 0 0 0 0, env_ret = 0, env_duration = 0,
     env_cpu_duration = 0, env_stack_id = 0, env_kvm_exit_reason = 0, env_probe_ret_enter = 0,
     env_probe_ret_exit = 0, env_snapshot_text = [], env_signal = 0, env_signal_err = 0,
     env_signal_code = 0, env_sender_pid = 0, env_sender_uid = 0, env_signal_address = 0,
     env_signal_status = 0, env_signal_user_time = 0, env_signal_system_time = 0, env_comm = [],
     env_payload = []\<rparr>"

text \<open>\<^verbatim>\<open>decodeTraceEventV2Comm\<close> and \<^verbatim>\<open>lifecycleSnapshotString\<close>: the bytes before the first zero.\<close>

definition c_string :: "bytes \<Rightarrow> bytes" where
  "c_string raw = takeWhile (\<lambda>b. b \<noteq> 0) raw"

definition traceEventV2Args :: "bytes \<Rightarrow> args6" where
  "traceEventV2Args data =
     Args (rd64 0 data) (rd64 8 data) (rd64 16 data) (rd64 24 data) (rd64 32 data) (rd64 40 data)"

definition traceEventV2Payload :: "bytes \<Rightarrow> nat \<Rightarrow> u32 \<Rightarrow> bytes option" where
  "traceEventV2Payload body off capture_len =
     (if off > length body then None
      else if unat capture_len > length body - off then None
      else Some (bslice off (unat capture_len) body))"

definition traceEventV2EnterTime :: "u64 \<Rightarrow> u64 \<Rightarrow> u64" where
  "traceEventV2EnterTime ts_ns duration = (if duration > ts_ns then ts_ns else ts_ns - duration)"

definition decodeTraceEventV2Header :: "bytes \<Rightarrow> (trace_event_v2_header \<times> bytes) option" where
  "decodeTraceEventV2Header raw =
     (if length raw < EVENT_V2_BASE_HEADER_LEN then None
      else
        let version = rd16 0 raw; event_type = rd16 2 raw; header_len = rd16 6 raw; size = rd32 8 raw
        in if version \<noteq> EVENT_VERSION \<or>
              (event_type \<noteq> EVENT_TYPE_ENTER \<and> event_type \<noteq> EVENT_TYPE_EXIT \<and>
               event_type \<noteq> EVENT_TYPE_LIFECYCLE \<and> event_type \<noteq> EVENT_TYPE_SIGNAL \<and>
               event_type \<noteq> EVENT_TYPE_UNSUPPORTED_ABI) \<or>
              (unat header_len \<noteq> EVENT_V2_BASE_HEADER_LEN \<and> unat header_len < EVENT_V2_HEADER_LEN) \<or>
              unat header_len > unat size \<or> unat size > length raw
           then None
           else
             let legacy = (unat header_len = EVENT_V2_BASE_HEADER_LEN)
             in Some (\<lparr>tvh_legacy = legacy,
                   tvh_seq = rd64 24 raw,
                   tvh_cpu = (if legacy then 0 else rd32 56 raw),
                   tvh_loss_epoch = (if legacy then 0 else rd64 64 raw),
                   tvh_loss_time_ns = (if legacy then 0 else rd64 72 raw),
                   tvh_version = version,
                   tvh_event_type = event_type,
                   tvh_flags = rd16 4 raw,
                   tvh_pid = rd32 12 raw,
                   tvh_tid = rd32 16 raw,
                   tvh_sys_id = rd32 20 raw,
                   tvh_ts_ns = rd64 32 raw,
                   tvh_comm = c_string (bslice 40 EVENT_V2_COMM_SIZE raw)\<rparr>,
                 bslice (unat header_len) (unat size - unat header_len) raw))"

definition decodeTraceEventV2CompactEnterEnvelope ::
    "trace_event_v2_header \<Rightarrow> bytes \<Rightarrow> trace_event_envelope option" where
  "decodeTraceEventV2CompactEnterEnvelope header body =
     (if length body \<noteq> EVENT_V2_COMPACT_ENTER_BODY_LEN \<or>
         \<not> has_flag (tvh_flags header) EVENT_FLAG_GENERIC_ENTER \<or>
         has_flag (tvh_flags header) EVENT_FLAG_PAYLOAD_TLV
      then None
      else Some (zero_envelope\<lparr>
        env_event_version := tvh_version header,
        env_pid := tvh_pid header,
        env_tid := tvh_tid header,
        env_comm := tvh_comm header,
        env_sys_id := tvh_sys_id header,
        env_event_type := tvh_event_type header,
        env_event_flags := tvh_flags header,
        env_enter_time := tvh_ts_ns header,
        env_args := traceEventV2Args (bslice 0 48 body),
        env_ret := 0,
        env_probe_ret_enter := -1,
        env_probe_ret_exit := -1\<rparr>))"

definition decodeTraceEventV2EnterEnvelope ::
    "trace_event_v2_header \<Rightarrow> bytes \<Rightarrow> trace_event_envelope option" where
  "decodeTraceEventV2EnterEnvelope header body =
     (if has_flag (tvh_flags header) EVENT_FLAG_COMPACT_ENTER
      then decodeTraceEventV2CompactEnterEnvelope header body
      else if length body < EVENT_V2_ENTER_BODY_LEN then None
      else case traceEventV2Payload body EVENT_V2_ENTER_BODY_LEN (rd32 64 body) of
             None \<Rightarrow> None
           | Some payload \<Rightarrow> Some (zero_envelope\<lparr>
               env_event_version := tvh_version header,
               env_pid := tvh_pid header,
               env_tid := tvh_tid header,
               env_comm := tvh_comm header,
               env_sys_id := tvh_sys_id header,
               env_event_type := tvh_event_type header,
               env_event_flags := tvh_flags header,
               env_enter_time := tvh_ts_ns header,
               env_args := traceEventV2Args (bslice 16 48 body),
               env_ret := rd64 0 body,
               env_probe_ret_enter := rd32 8 body,
               env_probe_ret_exit := rd32 12 body,
               env_payload := payloadSectionsForRawPayloadEvent (tvh_flags header) payload\<rparr>))"

definition decodeTraceEventV2ExitEnvelope ::
    "trace_event_v2_header \<Rightarrow> bytes \<Rightarrow> trace_event_envelope option" where
  "decodeTraceEventV2ExitEnvelope header body =
     (if length body < EVENT_V2_EXIT_BODY_LEN then None
      else case traceEventV2Payload body EVENT_V2_EXIT_BODY_LEN (rd32 64 body) of
             None \<Rightarrow> None
           | Some payload \<Rightarrow> Some (zero_envelope\<lparr>
               env_event_version := tvh_version header,
               env_pid := tvh_pid header,
               env_tid := tvh_tid header,
               env_comm := tvh_comm header,
               env_sys_id := tvh_sys_id header,
               env_event_type := tvh_event_type header,
               env_event_flags := tvh_flags header,
               env_enter_time := traceEventV2EnterTime (tvh_ts_ns header) (rd64 8 body),
               env_args := traceEventV2Args (bslice 16 48 body),
               env_ret := rd64 0 body,
               env_duration := rd64 8 body,
               env_cpu_duration := rd64 80 body,
               env_stack_id := rd32 72 body,
               env_kvm_exit_reason := rd32 76 body,
               env_payload := payloadSectionsForRawPayloadEvent (tvh_flags header) payload\<rparr>))"

definition decodeTraceEventV2LifecycleEnvelope ::
    "trace_event_v2_header \<Rightarrow> bytes \<Rightarrow> trace_event_envelope option" where
  "decodeTraceEventV2LifecycleEnvelope header body =
     (if length body < EVENT_V2_LIFECYCLE_BODY_LEN then None
      else
        let action = rd32 0 body;
            args = traceEventV2Args (bslice 8 48 body);
            args' = (if action = LIFECYCLE_FORK
                     then Args (ucast (ucast (arg0 args) :: u32)) (arg1 args) (arg2 args) (arg3 args)
                            (arg4 args) (arg5 args)
                     else args)
        in case traceEventV2Payload body EVENT_V2_LIFECYCLE_BODY_LEN (rd32 4 body) of
             None \<Rightarrow> None
           | Some payload \<Rightarrow> Some (zero_envelope\<lparr>
               env_event_version := tvh_version header,
               env_pid := tvh_pid header,
               env_tid := tvh_tid header,
               env_comm := tvh_comm header,
               env_event_type := tvh_event_type header,
               env_event_flags := tvh_flags header,
               env_lifecycle_action := action,
               env_enter_time := tvh_ts_ns header,
               env_args := args',
               env_snapshot_text := c_string payload\<rparr>))"

definition decodeTraceEventV2SignalEnvelope ::
    "trace_event_v2_header \<Rightarrow> bytes \<Rightarrow> trace_event_envelope option" where
  "decodeTraceEventV2SignalEnvelope header body =
     (if length body \<noteq> EVENT_V2_SIGNAL_BODY_LEN then None
      else Some (zero_envelope\<lparr>
        env_event_version := tvh_version header,
        env_pid := tvh_pid header,
        env_tid := tvh_tid header,
        env_comm := tvh_comm header,
        env_event_type := tvh_event_type header,
        env_enter_time := tvh_ts_ns header,
        env_signal := rd32 0 body,
        env_signal_err := rd32 4 body,
        env_signal_code := rd32 8 body,
        env_sender_pid := rd32 12 body,
        env_sender_uid := rd32 16 body,
        env_stack_id := rd32 20 body,
        env_signal_address := rd64 24 body,
        env_signal_status := rd32 32 body,
        env_signal_user_time := rd64 40 body,
        env_signal_system_time := rd64 48 body\<rparr>))"

definition decodeTraceEventV2Envelope :: "bytes \<Rightarrow> trace_event_envelope option" where
  "decodeTraceEventV2Envelope raw =
     (case decodeTraceEventV2Header raw of
        None \<Rightarrow> None
      | Some (header, body) \<Rightarrow>
          let envelope =
            (if tvh_event_type header = EVENT_TYPE_UNSUPPORTED_ABI then
               (if length body \<noteq> 0 then None
                else Some (zero_envelope\<lparr>env_event_type := tvh_event_type header,
                       env_pid := tvh_pid header, env_tid := tvh_tid header,
                       env_sys_id := tvh_sys_id header\<rparr>))
             else if tvh_event_type header = EVENT_TYPE_ENTER then
               decodeTraceEventV2EnterEnvelope header body
             else if tvh_event_type header = EVENT_TYPE_EXIT then
               decodeTraceEventV2ExitEnvelope header body
             else if tvh_event_type header = EVENT_TYPE_LIFECYCLE then
               decodeTraceEventV2LifecycleEnvelope header body
             else if tvh_event_type header = EVENT_TYPE_SIGNAL then
               decodeTraceEventV2SignalEnvelope header body
             else None)
          in map_option (\<lambda>e. e\<lparr>env_seq := tvh_seq header,
                env_legacy_integrity := tvh_legacy header,
                env_cpu := tvh_cpu header,
                env_loss_epoch := tvh_loss_epoch header,
                env_loss_time_ns := tvh_loss_time_ns header,
                env_record_time := tvh_ts_ns header\<rparr>) envelope)"

section \<open>What the decoder reads from a record the probes lay out\<close>

text \<open>
  A producer lays a record out as the image of a header, the image of a body and the payload area.
  \<open>header_view\<close> is the decoder's header for it, the other views are the envelopes.
\<close>

definition header_view :: "event_v2_header \<Rightarrow> trace_event_v2_header" where
  "header_view h = \<lparr>tvh_legacy = False, tvh_seq = hdr_seq h, tvh_cpu = hdr_cpu h,
     tvh_loss_epoch = hdr_loss_epoch h, tvh_loss_time_ns = hdr_loss_time_ns h,
     tvh_version = hdr_version h, tvh_event_type = hdr_event_type h, tvh_flags = hdr_flags h,
     tvh_pid = hdr_pid h, tvh_tid = hdr_tid h, tvh_sys_id = hdr_sys_id h, tvh_ts_ns = hdr_ts_ns h,
     tvh_comm = c_string (pad_bytes 16 (hdr_comm h))\<rparr>"

definition event_type_known :: "u16 \<Rightarrow> bool" where
  "event_type_known t \<longleftrightarrow> t = EVENT_TYPE_ENTER \<or> t = EVENT_TYPE_EXIT \<or> t = EVENT_TYPE_LIFECYCLE \<or>
     t = EVENT_TYPE_SIGNAL \<or> t = EVENT_TYPE_UNSUPPORTED_ABI"

text \<open>A header that describes the record it starts.\<close>

definition header_for :: "event_v2_header \<Rightarrow> nat \<Rightarrow> bool" where
  "header_for h n \<longleftrightarrow> hdr_version h = EVENT_VERSION \<and> event_type_known (hdr_event_type h) \<and>
     hdr_header_len h = 80 \<and> hdr_size h = of_nat n \<and> n < 2 ^ 32"

lemma decode_header_of:
  assumes "header_for h (length raw)" and raw: "raw = enc_header h @ rest"
  shows "decodeTraceEventV2Header raw = Some (header_view h, rest)"
proof -
  have size: "unat (hdr_size h) = length raw"
    using assms(1) by (simp add: header_for_def unat_of_nat take_bit_nat_eq_self)
  have len: "length raw = 80 + length rest" by (simp add: raw)
  have field: "\<And>off n. off + n \<le> 80 \<Longrightarrow> bslice off n raw = bslice off n (enc_header h)"
    by (simp add: raw)
  have rest': "bslice 80 (length rest) raw = rest" by (simp add: raw bslice_def)
  show ?thesis
    using assms(1) size len
    by (simp add: decodeTraceEventV2Header_def rd_defs field layout header_view_def header_for_def
        event_type_known_def Let_def rest')
qed

lemma traceEventV2Args_enc [simp]: "traceEventV2Args (enc_args a) = a"
  by (cases a) (simp add: traceEventV2Args_def rd_defs layout)

definition enter_view :: "event_v2_header \<Rightarrow> syscall_enter_event_v2 \<Rightarrow> bytes \<Rightarrow> trace_event_envelope" where
  "enter_view h b payload = zero_envelope\<lparr>env_event_version := hdr_version h, env_pid := hdr_pid h,
     env_tid := hdr_tid h, env_comm := c_string (pad_bytes 16 (hdr_comm h)), env_sys_id := hdr_sys_id h,
     env_event_type := hdr_event_type h, env_event_flags := hdr_flags h, env_enter_time := hdr_ts_ns h,
     env_args := ent_args b, env_ret := ent_ret b, env_probe_ret_enter := ent_probe_ret_enter b,
     env_probe_ret_exit := ent_probe_ret_exit b,
     env_payload := payloadSectionsForRawPayloadEvent (hdr_flags h) payload,
     env_seq := hdr_seq h, env_legacy_integrity := False, env_cpu := hdr_cpu h,
     env_loss_epoch := hdr_loss_epoch h, env_loss_time_ns := hdr_loss_time_ns h,
     env_record_time := hdr_ts_ns h\<rparr>"

definition exit_view :: "event_v2_header \<Rightarrow> syscall_exit_event_v2 \<Rightarrow> bytes \<Rightarrow> trace_event_envelope" where
  "exit_view h b payload = zero_envelope\<lparr>env_event_version := hdr_version h, env_pid := hdr_pid h,
     env_tid := hdr_tid h, env_comm := c_string (pad_bytes 16 (hdr_comm h)), env_sys_id := hdr_sys_id h,
     env_event_type := hdr_event_type h, env_event_flags := hdr_flags h,
     env_enter_time := traceEventV2EnterTime (hdr_ts_ns h) (ext_duration_ns b),
     env_args := ext_args b, env_ret := ext_ret b, env_duration := ext_duration_ns b,
     env_cpu_duration := ext_cpu_duration_ns b, env_stack_id := ext_stack_id b,
     env_kvm_exit_reason := ext_reserved b,
     env_payload := payloadSectionsForRawPayloadEvent (hdr_flags h) payload,
     env_seq := hdr_seq h, env_legacy_integrity := False, env_cpu := hdr_cpu h,
     env_loss_epoch := hdr_loss_epoch h, env_loss_time_ns := hdr_loss_time_ns h,
     env_record_time := hdr_ts_ns h\<rparr>"

lemma body_fields:
  assumes "length img = n"
  shows "\<And>off m. off + m \<le> n \<Longrightarrow> bslice off m (img @ rest) = bslice off m img"
    and "bslice n m (img @ rest) = take m rest"
  using assms by (simp_all add: bslice_append_right) (simp add: bslice_def)

lemma enter_body_parts [simp]:
  "rd64 0 (enc_enter_body b @ rest) = ent_ret b"
  "rd32 8 (enc_enter_body b @ rest) = ent_probe_ret_enter b"
  "rd32 12 (enc_enter_body b @ rest) = ent_probe_ret_exit b"
  "rd32 64 (enc_enter_body b @ rest) = ent_capture_len b"
  "traceEventV2Args (bslice 16 48 (enc_enter_body b @ rest)) = ent_args b"
  by (simp_all add: rd_defs body_fields(1) [OF length_enc_enter_body] layout)

lemma exit_body_parts [simp]:
  "rd64 0 (enc_exit_body b @ rest) = ext_ret b"
  "rd64 8 (enc_exit_body b @ rest) = ext_duration_ns b"
  "rd32 64 (enc_exit_body b @ rest) = ext_capture_len b"
  "rd32 72 (enc_exit_body b @ rest) = ext_stack_id b"
  "rd32 76 (enc_exit_body b @ rest) = ext_reserved b"
  "rd64 80 (enc_exit_body b @ rest) = ext_cpu_duration_ns b"
  "traceEventV2Args (bslice 16 48 (enc_exit_body b @ rest)) = ext_args b"
  by (simp_all add: rd_defs body_fields(1) [OF length_enc_exit_body] layout)

lemma payload_of_enter:
  "unat n \<le> length rest \<Longrightarrow>
     traceEventV2Payload (enc_enter_body b @ rest) EVENT_V2_ENTER_BODY_LEN n = Some (take (unat n) rest)"
  by (simp add: traceEventV2Payload_def body_fields(2) [OF length_enc_enter_body])

lemma payload_of_exit:
  "unat n \<le> length rest \<Longrightarrow>
     traceEventV2Payload (enc_exit_body b @ rest) EVENT_V2_EXIT_BODY_LEN n = Some (take (unat n) rest)"
  by (simp add: traceEventV2Payload_def body_fields(2) [OF length_enc_exit_body])

lemma decode_exit_of:
  assumes "header_for h (length raw)" "raw = enc_header h @ enc_exit_body b @ area"
    and "hdr_event_type h = EVENT_TYPE_EXIT" "unat (ext_capture_len b) \<le> length area"
  shows "decodeTraceEventV2Envelope raw = Some (exit_view h b (take (unat (ext_capture_len b)) area))"
  using assms
  by (simp add: decodeTraceEventV2Envelope_def decode_header_of header_view_def
      decodeTraceEventV2ExitEnvelope_def payload_of_exit exit_view_def layout)

lemma decode_enter_of:
  assumes "header_for h (length raw)" "raw = enc_header h @ enc_enter_body b @ area"
    and "hdr_event_type h = EVENT_TYPE_ENTER" "\<not> has_flag (hdr_flags h) EVENT_FLAG_COMPACT_ENTER"
    and "unat (ent_capture_len b) \<le> length area"
  shows "decodeTraceEventV2Envelope raw = Some (enter_view h b (take (unat (ent_capture_len b)) area))"
  using assms
  by (simp add: decodeTraceEventV2Envelope_def decode_header_of header_view_def
      decodeTraceEventV2EnterEnvelope_def payload_of_enter enter_view_def layout)

end
