(* ===== verification/Accounting.thy ===== *)
theory Accounting
  imports Runtime_Stats Event_Decoder
begin

text \<open>
  The accounting contract of the producers (\<^verbatim>\<open>doc/arch.md\<close> section 8.2, \<^verbatim>\<open>doc/event-integrity.md\<close>):
  every emission attempt takes one number of its CPU's sequence and ends as a submitted record, a
  reserve failure or a discarded record, and every failure moves the shared loss epoch.  The
  relations below state it for one program run; they are reflexive and transitive, so the rules of
  \<open>step_relation\<close> lift them from the helpers to whole probes.
\<close>

section \<open>The loss balance\<close>

text \<open>
  The classified failures.  The epoch minus their sum is the same before and after every program,
  so no failure is counted without moving the epoch and the epoch moves for nothing else.
\<close>

definition fail_total :: "bpf_stats \<Rightarrow> u64" where
  "fail_total st = st_ringbuf_reserve_fail st + st_ringbuf_copy_fail st + st_pending_update_fail st +
     st_pending_mismatch st + st_lifecycle_map_update_fail st + st_lifecycle_fork_child_filter_failed st"

definition loss_balance :: "u32 \<Rightarrow> machine \<Rightarrow> u64 option" where
  "loss_balance c s =
     (case event_loss_map s of None \<Rightarrow> None
      | Some l \<Rightarrow> (case stats_map s c of None \<Rightarrow> None | Some st \<Rightarrow> Some (els_epoch l - fail_total st)))"

section \<open>The ledger of one CPU\<close>

text \<open>
  \<open>flow c a new rf disc m\<close>: the CPU's sequence advanced by \<open>a\<close>, the records \<open>new\<close> were
  submitted, \<open>rf\<close> reservations failed, \<open>disc\<close> reserved records were discarded and \<open>m\<close> failures were
  recorded in all; the counters of the other CPUs did not move.  Counters are 64-bit words and wrap; the
  quantities themselves are natural numbers.
\<close>

definition fail_view :: "bpf_stats \<Rightarrow> u64 list" where
  "fail_view st = [st_ringbuf_reserve_fail st, st_ringbuf_copy_fail st, st_pending_update_fail st,
     st_pending_mismatch st, st_lifecycle_map_update_fail st, st_lifecycle_fork_child_filter_failed st,
     st_integrity_first_time_ns st]"

definition stats_flow :: "nat \<Rightarrow> nat \<Rightarrow> nat \<Rightarrow> nat \<Rightarrow> bpf_stats option \<Rightarrow> bpf_stats option \<Rightarrow> bool" where
  "stats_flow a rf disc m x y \<longleftrightarrow>
     (case x of None \<Rightarrow> y = None
      | Some p \<Rightarrow> (case y of None \<Rightarrow> False
          | Some q \<Rightarrow> st_event_seq q = st_event_seq p + of_nat a \<and>
              st_ringbuf_reserve_fail q = st_ringbuf_reserve_fail p + of_nat rf \<and>
              (\<exists>cf\<ge>disc. st_ringbuf_copy_fail q = st_ringbuf_copy_fail p + of_nat cf) \<and>
              (m = 0 \<longrightarrow> fail_view q = fail_view p)))"

definition loss_flow :: "nat \<Rightarrow> event_loss_state option \<Rightarrow> event_loss_state option \<Rightarrow> bool" where
  "loss_flow m x y \<longleftrightarrow>
     (case x of None \<Rightarrow> y = None
      | Some p \<Rightarrow> (case y of None \<Rightarrow> False
          | Some q \<Rightarrow> els_epoch q = els_epoch p + of_nat m \<and> (m = 0 \<longrightarrow> q = p)))"

definition flow :: "u32 \<Rightarrow> nat \<Rightarrow> bytes list \<Rightarrow> nat \<Rightarrow> nat \<Rightarrow> nat \<Rightarrow> machine \<Rightarrow> machine \<Rightarrow> bool" where
  "flow c a new rf disc m s t \<longleftrightarrow>
     events t = events s @ new \<and> stats_flow a rf disc m (stats_map s c) (stats_map t c) \<and>
     rf + disc \<le> m \<and> loss_flow m (event_loss_map s) (event_loss_map t) \<and>
     (\<forall>c'. c' \<noteq> c \<longrightarrow> stats_map t c' = stats_map s c')"

text \<open>
  A record the consumer's decoder accepts.  The decoder keeps a record whose payload framing is broken
  and drops its sections without notice, so acceptance alone is too weak: \<open>framed\<close> asks in
  addition that the payload of a record with the TLV flag parses to its last byte.
\<close>

definition raw_payload :: "bytes \<Rightarrow> bytes" where
  "raw_payload r =
     (if rd16 2 r = EVENT_TYPE_ENTER then take (unat (rd32 144 r)) (drop 152 r)
      else if rd16 2 r = EVENT_TYPE_EXIT then take (unat (rd32 144 r)) (drop 168 r)
      else [])"

definition framed :: "bytes \<Rightarrow> bool" where
  "framed r \<longleftrightarrow> (if has_flag (rd16 4 r) EVENT_FLAG_PAYLOAD_TLV
                   then decodePayloadTLVSections (raw_payload r) \<noteq> None else True)"

definition accepted :: "bytes \<Rightarrow> bool" where
  "accepted r \<longleftrightarrow> decodeTraceEventV2Envelope r \<noteq> None \<and> framed r"

lemma header_flags [simp]: "rd16 4 (enc_header h @ xs) = hdr_flags h" "rd16 2 (enc_header h @ xs) = hdr_event_type h"
  by (simp_all add: rd_defs layout)

lemma rd_behind_header: "rd32 (80 + off) (enc_header h @ xs) = rd32 off xs"
  by (simp add: rd_defs bslice_append_right)

lemma framed_plain: "\<not> has_flag (hdr_flags h) EVENT_FLAG_PAYLOAD_TLV \<Longrightarrow> framed (enc_header h @ xs)"
  by (simp add: framed_def)

section \<open>The stamps of a record\<close>

text \<open>
  Every record carries the number of its attempt, its CPU, and the loss cell at the time its header was filled.
  \<open>later m x y\<close>: the cell \<open>y\<close> is reached from \<open>x\<close> by at most \<open>m\<close> failures.
\<close>

definition stamped :: "u32 \<Rightarrow> u64 \<Rightarrow> bytes \<Rightarrow> bool" where
  "stamped c q r \<longleftrightarrow> rd16 6 r = 80 \<and> rd32 56 r = c \<and> rd64 24 r = q"

definition loss_stamp :: "bytes \<Rightarrow> u64 \<times> u64" where
  "loss_stamp r = (rd64 64 r, rd64 72 r)"

definition cell :: "machine \<Rightarrow> u64 \<times> u64" where
  "cell s = (case event_loss_map s of None \<Rightarrow> (0, 0) | Some l \<Rightarrow> (els_epoch l, els_first_time_ns l))"

definition later :: "nat \<Rightarrow> u64 \<times> u64 \<Rightarrow> u64 \<times> u64 \<Rightarrow> bool" where
  "later m x y \<longleftrightarrow> (\<exists>j\<le>m. fst y = fst x + of_nat j \<and> (j = 0 \<longrightarrow> y = x))"

definition dated :: "(u64 \<times> u64) set \<Rightarrow> nat \<Rightarrow> u64 \<times> u64 \<Rightarrow> bytes \<Rightarrow> bool" where
  "dated L m x r \<longleftrightarrow> loss_stamp r \<in> L \<or> later m x (loss_stamp r)"

definition numbered :: "u32 \<Rightarrow> nat \<Rightarrow> u64 \<Rightarrow> bytes list \<Rightarrow> bool" where
  "numbered c a base new \<longleftrightarrow>
     (\<exists>ns. distinct ns \<and> set ns \<subseteq> {1..a} \<and> list_all2 (\<lambda>n. stamped c (base + of_nat n)) ns new)"

definition seq_base :: "u32 \<Rightarrow> machine \<Rightarrow> u64" where
  "seq_base c s = (case stats_map s c of None \<Rightarrow> 0 | Some st \<Rightarrow> st_event_seq st)"

lemma header_stamps [simp]:
  "rd16 6 (enc_header h @ xs) = hdr_header_len h" "rd32 56 (enc_header h @ xs) = hdr_cpu h"
  "rd64 24 (enc_header h @ xs) = hdr_seq h" "loss_stamp (enc_header h @ xs) = (hdr_loss_epoch h, hdr_loss_time_ns h)"
  by (simp_all add: rd_defs layout loss_stamp_def)

lemma later_refl: "later m x x"
  by (auto simp: later_def)

lemma later_mono: "later m x y \<Longrightarrow> m \<le> n \<Longrightarrow> later n x y"
  unfolding later_def by (meson order_trans)

lemma later_trans:
  assumes "later m x y" "later n y z"
  shows "later (m + n) x z"
proof -
  obtain i j where "i \<le> m" "fst y = fst x + of_nat i" "i = 0 \<longrightarrow> y = x" "j \<le> n" "fst z = fst y + of_nat j" "j = 0 \<longrightarrow> z = y"
    using assms by (auto simp: later_def)
  then show ?thesis unfolding later_def by (intro exI [of _ "i + j"]) auto
qed

lemma dated_mono: "dated L m x r \<Longrightarrow> m \<le> n \<Longrightarrow> L \<subseteq> M \<Longrightarrow> dated M n x r"
  unfolding dated_def by (auto intro: later_mono)

lemma dated_shift: "later m x y \<Longrightarrow> dated L n y r \<Longrightarrow> dated L (m + n) x r"
  unfolding dated_def by (auto intro: later_trans)

lemma dated_here: "dated (insert x L) m y r \<Longrightarrow> later m y x \<Longrightarrow> dated L m y r"
  unfolding dated_def by auto

lemma numbered_Nil: "numbered c a base []"
  unfolding numbered_def by (intro exI [of _ "[]"]) simp

lemma numbered_one: "stamped c (base + 1) r \<Longrightarrow> numbered c 1 base [r]"
  unfolding numbered_def by (intro exI [of _ "[1]"]) simp

lemma numbered_append:
  assumes "numbered c a base new" "numbered c a' (base + of_nat a) new'"
  shows "numbered c (a + a') base (new @ new')"
proof -
  obtain ns ns' where n: "distinct ns" "set ns \<subseteq> {1..a}" "list_all2 (\<lambda>n. stamped c (base + of_nat n)) ns new"
    "distinct ns'" "set ns' \<subseteq> {1..a'}" "list_all2 (\<lambda>n. stamped c (base + of_nat a + of_nat n)) ns' new'"
    using assms by (auto simp: numbered_def)
  have "distinct (ns @ map ((+) a) ns')"
    using n(1,2,4,5) by (fastforce simp: distinct_map)
  moreover have "set (ns @ map ((+) a) ns') \<subseteq> {1..a + a'}" using n(2,5) by fastforce
  moreover have "list_all2 (\<lambda>n. stamped c (base + of_nat n)) (ns @ map ((+) a) ns') (new @ new')"
    using n(3,6) by (auto simp: list_all2_map1 add.assoc intro: list_all2_appendI)
  ultimately show ?thesis unfolding numbered_def by blast
qed

text \<open>The numbers identify the records, not their places: two neighbours may change places.\<close>

lemma numbered_swap:
  assumes "numbered c a base (xs @ x # y # ys)"
  shows "numbered c a base (xs @ y # x # ys)"
proof -
  let ?S = "\<lambda>n. stamped c (base + of_nat n)"
  obtain ns where ns: "distinct ns" "set ns \<subseteq> {1..a}" "list_all2 ?S ns (xs @ x # y # ys)"
    using assms by (auto simp: numbered_def)
  then obtain ks n m ms where "ns = ks @ n # m # ms" "list_all2 ?S ks xs" "?S n x" "?S m y" "list_all2 ?S ms ys"
    by (auto simp: list_all2_append2 list_all2_Cons2)
  with ns(1,2) show ?thesis
    unfolding numbered_def by (intro exI [of _ "ks @ m # n # ms"]) (auto intro!: list_all2_appendI)
qed

section \<open>Steps that keep the books\<close>

text \<open>
  \<open>entry\<close>: one page of the ledger, with the records, the failed reservations, the discarded records and the failures in
  all.  \<open>ledger\<close>: what a program does to the books is some entry, and it leaves no reservation behind.
\<close>

definition quiet :: "u32 \<Rightarrow> machine \<Rightarrow> machine \<Rightarrow> bool" where
  "quiet c s t \<longleftrightarrow> (\<exists>m. flow c 0 [] 0 0 m s t) \<and> map_option length (reservation t) = map_option length (reservation s)"

definition entry :: "u32 \<Rightarrow> bytes list \<Rightarrow> nat \<Rightarrow> nat \<Rightarrow> nat \<Rightarrow> machine \<Rightarrow> machine \<Rightarrow> bool" where
  "entry c new rf disc m s t \<longleftrightarrow>
     flow c (length new + rf + disc) new rf disc m s t \<and> list_all accepted new \<and>
     list_all (dated {} m (cell s)) new \<and>
     (stats_map s c \<noteq> None \<longrightarrow> numbered c (length new + rf + disc) (seq_base c s) new)"

definition ledger :: "u32 \<Rightarrow> machine \<Rightarrow> machine \<Rightarrow> bool" where
  "ledger c s t \<longleftrightarrow> (\<exists>new rf disc m. entry c new rf disc m s t) \<and> (reservation s = None \<longrightarrow> reservation t = None)"

lemma stats_flow_refl: "stats_flow 0 0 0 m x x"
  by (auto simp: stats_flow_def split: option.split intro: exI [of _ 0])

lemma stats_flow_trans:
  assumes "stats_flow a rf d m x y" "stats_flow a' rf' d' m' y z"
  shows "stats_flow (a + a') (rf + rf') (d + d') (m + m') x z"
proof (cases x)
  case (Some p)
  then obtain q where q: "y = Some q" using assms(1) by (auto simp: stats_flow_def split: option.splits)
  then obtain r where r: "z = Some r" using assms(2) by (auto simp: stats_flow_def split: option.splits)
  obtain cf cf' where "cf \<ge> d" "st_ringbuf_copy_fail q = st_ringbuf_copy_fail p + of_nat cf"
    "cf' \<ge> d'" "st_ringbuf_copy_fail r = st_ringbuf_copy_fail q + of_nat cf'"
    using assms Some q r by (auto simp: stats_flow_def)
  then have "\<exists>cf\<ge>d + d'. st_ringbuf_copy_fail r = st_ringbuf_copy_fail p + of_nat cf"
    by (intro exI [of _ "cf + cf'"]) (simp add: add_mono)
  then show ?thesis using assms Some q r by (simp add: stats_flow_def)
qed (use assms in \<open>auto simp: stats_flow_def split: option.splits\<close>)

lemma loss_flow_refl: "loss_flow 0 x x"
  by (auto simp: loss_flow_def split: option.split)

lemma loss_flow_trans: "loss_flow m x y \<Longrightarrow> loss_flow m' y z \<Longrightarrow> loss_flow (m + m') x z"
  unfolding loss_flow_def by (auto simp: algebra_simps split: option.splits)

lemma flow_refl: "flow c 0 [] 0 0 0 s s"
  by (simp add: flow_def stats_flow_refl loss_flow_refl)

lemma flow_trans:
  assumes "flow c a new rf d m s t" "flow c a' new' rf' d' m' t u"
  shows "flow c (a + a') (new @ new') (rf + rf') (d + d') (m + m') s u"
  using assms stats_flow_trans loss_flow_trans by (fastforce simp: flow_def)

lemma flow_later: "flow c a new rf d m s t \<Longrightarrow> later m (cell s) (cell t)"
  by (auto simp: flow_def loss_flow_def cell_def later_def split: option.splits intro: exI [of _ 0] exI [of _ m])

lemma flow_seq_base:
  "flow c a new rf d m s t \<Longrightarrow> stats_map s c \<noteq> None \<Longrightarrow> seq_base c t = seq_base c s + of_nat a \<and> stats_map t c \<noteq> None"
  by (auto simp: flow_def stats_flow_def seq_base_def split: option.splits)

interpretation quiet: step_relation "quiet c"
proof
  show "quiet c s s" for s using flow_refl by (auto simp: quiet_def)
  show "quiet c s u" if "quiet c s t" "quiet c t u" for s t u
    using that flow_trans [of c 0 "[]" 0 0 _ s t 0 "[]" 0 0 _ u] by (auto simp: quiet_def)
qed

interpretation ledger: step_relation "ledger c"
proof
  show "ledger c s s" for s
    unfolding ledger_def entry_def
    by (intro conjI exI [of _ "[]"] exI [of _ 0]) (simp_all add: flow_refl numbered_Nil)
  show "ledger c s u" if st: "ledger c s t" and tu: "ledger c t u" for s t u
  proof -
    obtain new rf d m new' rf' d' m' where
      f: "flow c (length new + rf + d) new rf d m s t" "list_all accepted new" "list_all (dated {} m (cell s)) new"
         "stats_map s c \<noteq> None \<longrightarrow> numbered c (length new + rf + d) (seq_base c s) new"
         "flow c (length new' + rf' + d') new' rf' d' m' t u" "list_all accepted new'" "list_all (dated {} m' (cell t)) new'"
         "stats_map t c \<noteq> None \<longrightarrow> numbered c (length new' + rf' + d') (seq_base c t) new'"
      using st tu by (auto simp: ledger_def entry_def)
    have sum: "length (new @ new') + (rf + rf') + (d + d') = (length new + rf + d) + (length new' + rf' + d')" by simp
    have "flow c (length (new @ new') + (rf + rf') + (d + d')) (new @ new') (rf + rf') (d + d') (m + m') s u"
      unfolding sum by (rule flow_trans [OF f(1) f(5)])
    moreover have "list_all accepted (new @ new')" using f by simp
    moreover have "list_all (dated {} (m + m') (cell s)) (new @ new')"
      using f(3,7) dated_shift [OF flow_later [OF f(1)]] by (auto simp: list_all_iff intro: dated_mono)
    moreover have "stats_map s c \<noteq> None \<longrightarrow>
        numbered c (length (new @ new') + (rf + rf') + (d + d')) (seq_base c s) (new @ new')"
      unfolding sum using f(4,8) flow_seq_base [OF f(1)] by (auto intro: numbered_append)
    ultimately have "entry c (new @ new') (rf + rf') (d + d') (m + m') s u" by (simp add: entry_def)
    then show ?thesis using st tu unfolding ledger_def by blast
  qed
qed

lemma ledgerI:
  "flow c (length new + rf + disc) new rf disc m s t \<Longrightarrow> list_all accepted new \<Longrightarrow>
     list_all (dated {} m (cell s)) new \<Longrightarrow>
     (stats_map s c \<noteq> None \<Longrightarrow> numbered c (length new + rf + disc) (seq_base c s) new) \<Longrightarrow>
     (reservation s = None \<Longrightarrow> reservation t = None) \<Longrightarrow> ledger c s t"
  unfolding ledger_def entry_def by blast

lemma quiet_ledger: "quiet c s t \<Longrightarrow> ledger c s t"
  unfolding quiet_def by (auto intro: ledgerI [of c "[]" 0 0] numbered_Nil)

section \<open>Programs that keep the books\<close>

text \<open>
  \<open>silent k m\<close>: the program emits nothing, keeps the loss balance and keeps the size of an open
  reservation.  \<open>accounted k m\<close>: the program keeps the ledger and the loss balance.
\<close>

definition silent :: "kernel \<Rightarrow> 'a bpf \<Rightarrow> bool" where
  "silent k m \<longleftrightarrow> state_io_rel (quiet (k_cpu k)) m \<and> state_io_rel (same (loss_balance (k_cpu k))) m"

definition accounted :: "kernel \<Rightarrow> 'a bpf \<Rightarrow> bool" where
  "accounted k m \<longleftrightarrow> state_io_rel (ledger (k_cpu k)) m \<and> state_io_rel (same (loss_balance (k_cpu k))) m"

named_theorems silent_intros \<open>programs that emit nothing\<close>
named_theorems accounted_intros \<open>programs that keep the ledger\<close>

lemma silent_accounted: "silent k m \<Longrightarrow> accounted k m"
  unfolding silent_def accounted_def state_io_rel_def using quiet_ledger by blast

lemma silent_return: "silent k (return x)"
  unfolding silent_def by (intro conjI quiet.io_return same.io_return)

lemma silent_gets: "silent k (gets f)"
  unfolding silent_def by (intro conjI quiet.io_gets same.io_gets)

lemma silent_bind: "silent k m \<Longrightarrow> (\<And>x. silent k (g x)) \<Longrightarrow> silent k (State_Monad.bind m g)"
  unfolding silent_def by (intro conjI quiet.io_bind same.io_bind) auto

lemma silent_if: "(b \<Longrightarrow> silent k m) \<Longrightarrow> (\<not> b \<Longrightarrow> silent k n) \<Longrightarrow> silent k (if b then m else n)"
  by simp

lemma silent_only_if: "(b \<Longrightarrow> silent k m) \<Longrightarrow> silent k (only_if b m)"
  by (simp add: only_if_def silent_return)

lemma silent_case_option:
  "(y = None \<Longrightarrow> silent k m) \<Longrightarrow> (\<And>x. y = Some x \<Longrightarrow> silent k (g x)) \<Longrightarrow>
     silent k (case y of None \<Rightarrow> m | Some x \<Rightarrow> g x)"
  by (cases y) auto

lemma silent_case_prod: "(\<And>a b. silent k (h a b)) \<Longrightarrow> silent k (case z of (a, b) \<Rightarrow> h a b)"
  by (cases z) auto

lemma silent_let: "silent k (g x) \<Longrightarrow> silent k (let v = x in g v)"
  by simp

lemmas silent_rules = silent_return silent_gets silent_bind silent_if silent_only_if
  silent_case_option silent_case_prod silent_let

lemma accounted_bind: "accounted k m \<Longrightarrow> (\<And>x. accounted k (g x)) \<Longrightarrow> accounted k (State_Monad.bind m g)"
  unfolding accounted_def by (intro conjI ledger.io_bind same.io_bind) auto

lemma accounted_return: "accounted k (return x)"
  by (rule silent_accounted [OF silent_return])

lemma accounted_gets: "accounted k (gets f)"
  by (rule silent_accounted [OF silent_gets])

lemma accounted_if: "(b \<Longrightarrow> accounted k m) \<Longrightarrow> (\<not> b \<Longrightarrow> accounted k n) \<Longrightarrow> accounted k (if b then m else n)"
  by simp

lemma accounted_only_if: "(b \<Longrightarrow> accounted k m) \<Longrightarrow> accounted k (only_if b m)"
  by (simp add: only_if_def accounted_return)

lemma accounted_case_option:
  "(y = None \<Longrightarrow> accounted k m) \<Longrightarrow> (\<And>x. y = Some x \<Longrightarrow> accounted k (g x)) \<Longrightarrow>
     accounted k (case y of None \<Rightarrow> m | Some x \<Rightarrow> g x)"
  by (cases y) auto

lemma accounted_case_prod: "(\<And>a b. accounted k (h a b)) \<Longrightarrow> accounted k (case z of (a, b) \<Rightarrow> h a b)"
  by (cases z) auto

lemma accounted_let: "accounted k (g x) \<Longrightarrow> accounted k (let v = x in g v)"
  by simp

lemmas accounted_rules = accounted_return accounted_gets accounted_bind accounted_if
  accounted_only_if accounted_case_option accounted_case_prod accounted_let

text \<open>A write to the maps the probes decide on touches no counter.\<close>

lemma silent_modify:
  assumes "\<And>s. events (f s) = events s \<and> stats_map (f s) = stats_map s \<and>
      event_loss_map (f s) = event_loss_map s \<and> map_option length (reservation (f s)) = map_option length (reservation s)"
  shows "silent k (modify f)"
proof -
  have "quiet (k_cpu k) s (f s)" for s
    using assms [of s] by (auto simp: quiet_def flow_def stats_flow_refl loss_flow_refl intro!: exI [of _ 0])
  moreover have "same (loss_balance (k_cpu k)) s (f s)" for s
    using assms [of s] by (simp add: same_def loss_balance_def split: option.split)
  ultimately show ?thesis
    unfolding silent_def by (intro conjI quiet.io_modify same.io_modify)
qed

lemma silent_next_tick [silent_intros]: "silent k next_tick"
  unfolding next_tick_def by (intro silent_rules silent_modify) simp

lemma silent_helpers [silent_intros]:
  "silent k (bpf_ktime_get_ns k')"
  "silent k (bpf_get_stackid k')"
  "silent k (core_read k' f p)"
  "silent k (core_read_into k' f p)"
  "silent k (bpf_probe_read_user k' n p)"
  "silent k (bpf_probe_read_kernel k' n p)"
  "silent k (bpf_probe_read_user_str k' n p)"
  "silent k (bpf_probe_read_kernel_str k' n p)"
  "silent k (bpf_dynptr_data off n)"
  unfolding bpf_ktime_get_ns_def bpf_get_stackid_def core_read_def core_read_into_def
    bpf_probe_read_user_def bpf_probe_read_kernel_def bpf_probe_read_user_str_def
    bpf_probe_read_kernel_str_def bpf_dynptr_data_def
  by (intro silent_rules silent_intros)+

lemma silent_mem_store [silent_intros]: "silent k (mem_store off bs)"
  unfolding mem_store_def by (intro silent_modify) (simp add: option.map_comp comp_def)

lemma silent_dynptr_write [silent_intros]: "silent k (bpf_dynptr_write off bs)"
  unfolding bpf_dynptr_write_def by (intro silent_rules silent_intros)

lemma silent_map_update:
  assumes "\<And>s. events (f s) = events s \<and> stats_map (f s) = stats_map s \<and>
      event_loss_map (f s) = event_loss_map s \<and> reservation (f s) = reservation s"
  shows "silent k (bpf_map_update k' f)"
  unfolding bpf_map_update_def by (intro silent_rules silent_intros silent_modify) (use assms in simp)

section \<open>The recorders\<close>

text \<open>
  A recorder is a loss followed by an increment; \<open>counted f\<close> says that the increment \<open>f\<close> moves
  exactly one classified failure and not the sequence.
\<close>

definition counted :: "(bpf_stats \<Rightarrow> bpf_stats) \<Rightarrow> bool" where
  "counted f \<longleftrightarrow> (\<forall>st. fail_total (f st) = fail_total st + 1 \<and> st_event_seq (f st) = st_event_seq st)"

definition uncounted :: "(bpf_stats \<Rightarrow> bpf_stats) \<Rightarrow> bool" where
  "uncounted f \<longleftrightarrow> (\<forall>st. fail_total (f st) = fail_total st \<and> st_event_seq (f st) = st_event_seq st \<and>
     fail_view (f st) = fail_view st)"

lemma wp_lookup_stats [wp_simps]: "wp (lookup_stats k) Q s = Q (stats_map s (k_cpu k)) s"
  by (simp add: lookup_stats_def wp_simps)

lemma wp_store_stats [wp_simps]:
  "wp (store_stats k st) Q s = Q () (s\<lparr>stats_map := (stats_map s)(k_cpu k \<mapsto> st)\<rparr>)"
  by (simp add: store_stats_def wp_simps)

lemma wp_bump_stats [wp_simps]:
  "wp (bump_stats k f) Q s = Q () (case stats_map s (k_cpu k) of None \<Rightarrow> s
     | Some st \<Rightarrow> s\<lparr>stats_map := (stats_map s)(k_cpu k \<mapsto> f st)\<rparr>)"
  by (simp add: bump_stats_def wp_simps split: option.split)

lemma silent_bump_stats:
  assumes "uncounted f"
  shows "silent k (bump_stats k f)"
  unfolding silent_def state_io_rel_wp wp_bump_stats
  using assms
  by (auto simp: quiet_def flow_def stats_flow_def stats_flow_refl loss_flow_refl same_def
      loss_balance_def uncounted_def fail_view_def split: option.splits intro!: exI [of _ 0])

text \<open>One loss with its counter, seen as one step.\<close>

definition loss_counted :: "kernel \<Rightarrow> (bpf_stats \<Rightarrow> bpf_stats) \<Rightarrow> unit bpf" where
  "loss_counted k f = do { record_event_integrity_loss k; bump_stats k f }"

lemma loss_counted_flow:
  assumes "counted f"
    and "\<And>st. st_ringbuf_reserve_fail (f st) = st_ringbuf_reserve_fail st + of_nat rf"
    and "\<And>st. st_ringbuf_copy_fail (f st) = st_ringbuf_copy_fail st + of_nat cf"
    and "rf + cf \<le> 1"
  shows "wp (loss_counted k f) (\<lambda>_ t. flow (k_cpu k) 0 [] rf cf 1 s t \<and> reservation t = reservation s \<and>
      loss_balance (k_cpu k) t = loss_balance (k_cpu k) s) s"
  unfolding loss_counted_def record_event_integrity_loss_def
  using assms
  by (auto simp: wp_simps flow_def stats_flow_def loss_flow_def loss_balance_def counted_def
      fail_total_def algebra_simps split: option.splits)

lemma flow_weaken: "flow c a new rf d m s t \<Longrightarrow> d' \<le> d \<Longrightarrow> flow c a new rf d' m s t"
  unfolding flow_def stats_flow_def by (auto split: option.splits intro: order_trans)

lemma silent_loss_counted:
  assumes "counted f" "\<And>st. st_ringbuf_reserve_fail (f st) = st_ringbuf_reserve_fail st"
    and "\<And>st. st_ringbuf_copy_fail (f st) = st_ringbuf_copy_fail st + of_nat cf" "cf \<le> 1"
  shows "silent k (loss_counted k f)"
proof -
  have "wp (loss_counted k f) (\<lambda>_ t. flow (k_cpu k) 0 [] 0 cf 1 s t \<and> reservation t = reservation s \<and>
      loss_balance (k_cpu k) t = loss_balance (k_cpu k) s) s" for s
    using assms loss_counted_flow [of f 0 cf k s] by simp
  then have "wp (loss_counted k f) (\<lambda>_ t. quiet (k_cpu k) s t \<and> same (loss_balance (k_cpu k)) s t) s" for s
    by (rule wp_mono) (auto simp: quiet_def same_def dest: flow_weaken [of _ _ _ _ _ _ _ _ 0])
  then show ?thesis unfolding silent_def state_io_rel_wp by (simp add: wp_conj)
qed

lemma silent_failures [silent_intros]:
  "silent k (record_ringbuf_copy_fail k)"
  "silent k (record_pending_update_fail k)"
  "silent k (record_lifecycle_map_update_fail k)"
  "silent k (record_pending_mismatch k)"
proof -
  show "silent k (record_ringbuf_copy_fail k)"
    unfolding record_ringbuf_copy_fail_def loss_counted_def [symmetric]
    by (rule silent_loss_counted [where cf = 1]) (simp_all add: counted_def fail_total_def)
  show "silent k (record_pending_update_fail k)"
    unfolding record_pending_update_fail_def loss_counted_def [symmetric]
    by (rule silent_loss_counted [where cf = 0]) (simp_all add: counted_def fail_total_def)
  show "silent k (record_lifecycle_map_update_fail k)"
    unfolding record_lifecycle_map_update_fail_def loss_counted_def [symmetric]
    by (rule silent_loss_counted [where cf = 0]) (simp_all add: counted_def fail_total_def)
  show "silent k (record_pending_mismatch k)"
    unfolding record_pending_mismatch_def loss_counted_def [symmetric]
    by (rule silent_loss_counted [where cf = 0]) (simp_all add: counted_def fail_total_def)
qed

lemma silent_counts [silent_intros]:
  "silent k (record_payload_truncated_event k)"
  "silent k (record_lifecycle_fork_seen k)"
  "silent k (record_lifecycle_fork_parent_tracked k)"
  "silent k (record_lifecycle_fork_parent_untracked k)"
  "silent k (record_lifecycle_exec_seen k)"
  "silent k (record_lifecycle_exec_untracked k)"
  "silent k (record_lifecycle_exit_seen k)"
  "silent k (record_lifecycle_exit_untracked k)"
  unfolding counter_recorder_defs
  by (rule silent_bump_stats; simp add: uncounted_def fail_total_def fail_view_def)+

lemma silent_store_stats:
  assumes "\<And>s. wp m (\<lambda>_ t. (\<exists>n. flow (k_cpu k) 0 [] 0 0 n s t) \<and> reservation t = reservation s \<and>
      loss_balance (k_cpu k) t = loss_balance (k_cpu k) s) s"
  shows "silent k m"
proof -
  have "wp m (\<lambda>_ t. quiet (k_cpu k) s t \<and> same (loss_balance (k_cpu k)) s t) s" for s
    using assms [of s] by (rule wp_mono) (auto simp: quiet_def same_def)
  then show ?thesis unfolding silent_def state_io_rel_wp by (simp add: wp_conj)
qed

lemma silent_fork_child_filter [silent_intros]: "silent k (record_lifecycle_fork_child_filter k installed)"
proof (rule silent_store_stats)
  fix s
  have "wp (record_lifecycle_fork_child_filter k installed) (\<lambda>_ t. flow (k_cpu k) 0 [] 0 0
      (if installed \<or> stats_map s (k_cpu k) = None then 0 else 1) s t \<and>
      reservation t = reservation s \<and> loss_balance (k_cpu k) t = loss_balance (k_cpu k) s) s"
    by (auto simp: record_lifecycle_fork_child_filter_def record_event_integrity_loss_def wp_simps flow_def
       stats_flow_def stats_flow_refl loss_flow_def loss_flow_refl loss_balance_def fail_total_def fail_view_def algebra_simps
       split: option.splits intro: exI [of _ 0])
  then show "wp (record_lifecycle_fork_child_filter k installed) (\<lambda>_ t. (\<exists>n. flow (k_cpu k) 0 [] 0 0 n s t) \<and>
      reservation t = reservation s \<and> loss_balance (k_cpu k) t = loss_balance (k_cpu k) s) s"
    by (rule wp_mono) blast
qed

lemma silent_orphan_exit [silent_intros]: "silent k (record_orphan_exit k pid tid sys_id ret_value reason)"
  by (rule silent_store_stats)
     (auto simp: record_orphan_exit_def wp_simps flow_def stats_flow_def stats_flow_refl loss_flow_refl loss_balance_def
       fail_total_def fail_view_def Let_def split: option.splits intro!: exI [of _ 0])

lemma silent_reads [silent_intros]:
  "silent k (lookup_stats k')"
  "silent k (capture_event_integrity k' h)"
  "silent k (capture_event_v2_comm k' h)"
  "silent k (should_trace_syscall sys_id cfg)"
  unfolding lookup_stats_def capture_event_integrity_def capture_event_v2_comm_def should_trace_syscall_def
  by (intro silent_rules)+

section \<open>Emission\<close>

text \<open>
  Every emitter opens with the same statements: it takes a sequence number, reserves the record and,
  when the reservation fails, records that and returns.
\<close>

definition attempt :: "kernel \<Rightarrow> nat \<Rightarrow> 'a bpf \<Rightarrow> (u64 \<Rightarrow> 'a bpf) \<Rightarrow> 'a bpf" where
  "attempt k out_size on_fail body = do {
     sequence \<leftarrow> next_event_sequence k;
     ok \<leftarrow> bpf_ringbuf_reserve k out_size;
     if \<not> ok then do {
       record_ringbuf_reserve_fail k;
       on_fail }
     else body sequence }"

text \<open>The dynptr interface wants even a failed reservation discarded.\<close>

definition with_reservation :: "kernel \<Rightarrow> nat \<Rightarrow> (u64 \<Rightarrow> unit bpf) \<Rightarrow> unit bpf" where
  "with_reservation k out_size body = attempt k out_size bpf_ringbuf_discard body"

text \<open>And closes with the same: header, body, submit, each failed write discarding the record.\<close>

definition commit_event :: "kernel \<Rightarrow> event_v2_header bpf \<Rightarrow> bytes bpf \<Rightarrow> unit bpf" where
  "commit_event k header body = do {
     h \<leftarrow> header;
     ok \<leftarrow> bpf_dynptr_write 0 (enc_header h);
     if \<not> ok then do {
       record_ringbuf_copy_fail k;
       bpf_ringbuf_discard }
     else do {
       b \<leftarrow> body;
       ok \<leftarrow> bpf_dynptr_write EVENT_V2_HEADER_LEN b;
       if \<not> ok then do {
         record_ringbuf_copy_fail k;
         bpf_ringbuf_discard }
       else bpf_ringbuf_submit } }"

text \<open>
  \<open>closes\<close>: from an open reservation, one record submitted, with the number \<open>q\<close>, or discarded.  The loss cell it
  carries is one of \<open>L\<close> (read before) or one the cell takes on the way.
\<close>

definition closes :: "u32 \<Rightarrow> u64 \<Rightarrow> (u64 \<times> u64) set \<Rightarrow> machine \<Rightarrow> machine \<Rightarrow> bool" where
  "closes c q L s t \<longleftrightarrow> reservation t = None \<and> loss_balance c t = loss_balance c s \<and>
     (\<exists>new disc m. length new + disc = 1 \<and> list_all accepted new \<and> list_all (stamped c q) new \<and>
        list_all (dated L m (cell s)) new \<and> flow c 0 new 0 disc m s t)"

lemma closes_prepend:
  assumes "quiet c s t" "loss_balance c t = loss_balance c s" "closes c q L t u"
  shows "closes c q L s u"
proof -
  obtain new disc m m0 where n: "length new + disc = 1" "list_all accepted new" "list_all (stamped c q) new"
    "list_all (dated L m (cell t)) new" "flow c 0 new 0 disc m t u" "flow c 0 [] 0 0 m0 s t"
    using assms(1,3) by (auto simp: closes_def quiet_def)
  have "flow c 0 new 0 disc (m0 + m) s u"
    using flow_trans [OF n(6,5)] by simp
  moreover have "list_all (dated L (m0 + m) (cell s)) new"
    using n(4) dated_shift [OF flow_later [OF n(6)]] by (auto simp: list_all_iff)
  ultimately show ?thesis using n assms by (auto simp: closes_def)
qed

lemma closes_mono: "closes c q L s t \<Longrightarrow> L \<subseteq> M \<Longrightarrow> closes c q M s t"
  unfolding closes_def by (fastforce simp: list_all_iff intro: dated_mono)

lemma closes_now: "closes c q (insert (cell s) L) s t \<Longrightarrow> closes c q L s t"
  unfolding closes_def by (fastforce simp: list_all_iff intro: dated_here later_refl)

lemma silent_wp:
  assumes "silent k m"
  shows "wp m (\<lambda>x t. quiet (k_cpu k) s t \<and> loss_balance (k_cpu k) t = loss_balance (k_cpu k) s) s"
  using assms unfolding silent_def state_io_rel_def same_def wp_def by auto

lemma closes_bind:
  assumes "silent k m"
    and "quiet (k_cpu k) s (exec m s) \<Longrightarrow> wp (g (result m s)) (\<lambda>_. closes (k_cpu k) q L (exec m s)) (exec m s)"
  shows "wp (State_Monad.bind m g) (\<lambda>_. closes (k_cpu k) q L s) s"
  using silent_wp [OF assms(1), of s] assms(2) closes_prepend [of "k_cpu k" s "exec m s"]
  unfolding wp_bind by (auto simp: wp_def)

lemma quiet_reservation: "quiet c s t \<Longrightarrow> reservation s = Some d \<Longrightarrow> \<exists>d'. reservation t = Some d' \<and> length d' = length d"
  by (cases "reservation t") (auto simp: quiet_def)

lemma closes_copy_fail:
  assumes "reservation s = Some d"
  shows "wp (do { record_ringbuf_copy_fail k; bpf_ringbuf_discard }) (\<lambda>_. closes (k_cpu k) q L s) s"
proof -
  have "wp (record_ringbuf_copy_fail k) (\<lambda>_ t. flow (k_cpu k) 0 [] 0 1 1 s t \<and> reservation t = reservation s \<and>
      loss_balance (k_cpu k) t = loss_balance (k_cpu k) s) s"
    unfolding record_ringbuf_copy_fail_def loss_counted_def [symmetric]
    by (rule loss_counted_flow) (simp_all add: counted_def fail_total_def)
  then show ?thesis
    unfolding wp_bind
    by (rule wp_mono)
       (auto simp: wp_simps closes_def flow_def loss_balance_def intro!: exI [of _ "[]"] exI [of _ 1]
         split: option.splits)
qed

lemma poke_twice:
  assumes "length h + length b \<le> length d"
  shows "poke (poke d 0 h) (length h) b = h @ b @ drop (length h + length b) d"
  using assms by (simp add: poke_def add.commute)

lemma closes_submit:
  assumes "reservation s = Some r" "accepted r" "stamped (k_cpu k) q r" "loss_stamp r \<in> L"
  shows "wp bpf_ringbuf_submit (\<lambda>_. closes (k_cpu k) q L s) s"
  using assms
  by (auto simp: wp_simps closes_def flow_def stats_flow_refl loss_flow_refl loss_balance_def dated_def
      intro!: exI [of _ "[r]"] exI [of _ 0] split: option.split)

section \<open>Emitters\<close>

text \<open>
  \<open>yields n m P\<close>: from an open reservation of \<open>n\<close> bytes, \<open>m\<close> returns a value with \<open>P\<close>.
  \<open>emits k n m\<close>: from an open reservation of \<open>n\<close> bytes, \<open>m\<close> ends it, with one accepted record
  or one counted discard.
\<close>

definition yields :: "nat \<Rightarrow> 'a bpf \<Rightarrow> ('a \<Rightarrow> bool) \<Rightarrow> bool" where
  "yields n m P \<longleftrightarrow> (\<forall>s d. reservation s = Some d \<longrightarrow> length d = n \<longrightarrow> P (result m s))"

definition emits :: "kernel \<Rightarrow> u64 \<Rightarrow> (u64 \<times> u64) set \<Rightarrow> nat \<Rightarrow> 'a bpf \<Rightarrow> bool" where
  "emits k q L n m \<longleftrightarrow>
     (\<forall>s d. reservation s = Some d \<longrightarrow> length d = n \<longrightarrow> wp m (\<lambda>_. closes (k_cpu k) q L s) s)"

lemma emits_bind:
  assumes "silent k m" "yields n m P" "\<And>x. P x \<Longrightarrow> emits k q L n (g x)"
  shows "emits k q L n (State_Monad.bind m g)"
  unfolding emits_def
proof (intro allI impI)
  fix s :: machine and d assume r: "reservation s = Some d" "length d = n"
  show "wp (State_Monad.bind m g) (\<lambda>_. closes (k_cpu k) q L s) s"
  proof (rule closes_bind [OF assms(1)])
    assume b: "quiet (k_cpu k) s (exec m s)"
    have "P (result m s)" using assms(2) r by (auto simp: yields_def)
    then show "wp (g (result m s)) (\<lambda>_. closes (k_cpu k) q L (exec m s)) (exec m s)"
      using assms(3) quiet_reservation [OF b r(1)] r(2) unfolding emits_def by blast
  qed
qed

lemma yields_triv: "yields n m (\<lambda>_. True)"
  by (simp add: yields_def)

lemmas emits_bind_any = emits_bind [OF _ yields_triv]

text \<open>\<open>stamps k q header\<close>: the program fills a header with this CPU, the number \<open>q\<close> and the loss cell it finds.\<close>

definition stamps :: "kernel \<Rightarrow> u64 \<Rightarrow> event_v2_header bpf \<Rightarrow> bool" where
  "stamps k q header \<longleftrightarrow> (\<forall>s. let h = result header s in hdr_header_len h = 80 \<and> hdr_cpu h = k_cpu k \<and> hdr_seq h = q \<and>
     (hdr_loss_epoch h, hdr_loss_time_ns h) = cell s \<and> cell (exec header s) = cell s)"

lemma stamps_header:
  "stamps k q header \<Longrightarrow> stamped (k_cpu k) q (enc_header (result header s) @ xs) \<and>
     loss_stamp (enc_header (result header s) @ xs) = cell s"
  by (simp add: stamps_def stamped_def Let_def)

lemma emits_bind_header:
  assumes "silent k m" "stamps k q m" "\<And>h. P h \<Longrightarrow> hdr_header_len h = 80 \<Longrightarrow> hdr_cpu h = k_cpu k \<Longrightarrow> hdr_seq h = q \<Longrightarrow>
      emits k q {(hdr_loss_epoch h, hdr_loss_time_ns h)} n (g h)" "yields n m P"
  shows "emits k q {} n (State_Monad.bind m g)"
  unfolding emits_def
proof (intro allI impI)
  fix s :: machine and d assume r: "reservation s = Some d" "length d = n"
  show "wp (State_Monad.bind m g) (\<lambda>_. closes (k_cpu k) q {} s) s"
  proof (rule closes_bind [OF assms(1)])
    assume b: "quiet (k_cpu k) s (exec m s)"
    let ?h = "result m s"
    have h: "hdr_header_len ?h = 80" "hdr_cpu ?h = k_cpu k" "hdr_seq ?h = q" "P ?h"
      "(hdr_loss_epoch ?h, hdr_loss_time_ns ?h) = cell (exec m s)"
      using assms(2,4) r by (auto simp: stamps_def Let_def yields_def)
    then have "wp (g ?h) (\<lambda>_. closes (k_cpu k) q {cell (exec m s)} (exec m s)) (exec m s)"
      using assms(3) [of ?h] quiet_reservation [OF b r(1)] r(2) unfolding emits_def by auto
    then show "wp (g ?h) (\<lambda>_. closes (k_cpu k) q {} (exec m s)) (exec m s)"
      by (rule wp_mono) (rule closes_now)
  qed
qed

lemma emits_if: "(b \<Longrightarrow> emits k q L n m) \<Longrightarrow> (\<not> b \<Longrightarrow> emits k q L n m') \<Longrightarrow> emits k q L n (if b then m else m')"
  by simp

lemma emits_let: "emits k q L n (g x) \<Longrightarrow> emits k q L n (let v = x in g v)"
  by simp

lemma emits_copy_fail: "emits k q L n (do { record_ringbuf_copy_fail k; bpf_ringbuf_discard })"
  by (simp add: emits_def closes_copy_fail)

lemma next_event_sequence_flow:
  "wp (next_event_sequence k) (\<lambda>q t. flow (k_cpu k) 1 [] 0 0 0 s t \<and> reservation t = reservation s \<and>
     loss_balance (k_cpu k) t = loss_balance (k_cpu k) s \<and> cell t = cell s \<and>
     (stats_map s (k_cpu k) \<noteq> None \<longrightarrow> q = seq_base (k_cpu k) s + 1)) s"
  by (auto simp: next_event_sequence_def wp_simps flow_def stats_flow_def loss_flow_refl loss_balance_def
      fail_total_def fail_view_def cell_def seq_base_def split: option.splits intro: exI [of _ 0])

lemma reserve_fail_flow:
  "wp (record_ringbuf_reserve_fail k) (\<lambda>_ t. flow (k_cpu k) 0 [] 1 0 1 s t \<and> reservation t = reservation s \<and>
     loss_balance (k_cpu k) t = loss_balance (k_cpu k) s) s"
  unfolding record_ringbuf_reserve_fail_def loss_counted_def [symmetric]
  by (rule loss_counted_flow) (simp_all add: counted_def fail_total_def)

text \<open>The balance, the cell and the flow do not see the tick and the reservation.\<close>

lemma books_ignore [simp]:
  "flow c a new rf d m s (t\<lparr>reservation := x\<rparr>) = flow c a new rf d m s t"
  "flow c a new rf d m s (t\<lparr>tick := n\<rparr>) = flow c a new rf d m s t"
  "flow c a new rf d m (s\<lparr>reservation := x\<rparr>) t = flow c a new rf d m s t"
  "flow c a new rf d m (s\<lparr>tick := n\<rparr>) t = flow c a new rf d m s t"
  "loss_balance c (t\<lparr>reservation := x\<rparr>) = loss_balance c t"
  "loss_balance c (t\<lparr>tick := n\<rparr>) = loss_balance c t"
  "loss_balance c (t\<lparr>events := es\<rparr>) = loss_balance c t"
  "cell (t\<lparr>reservation := x\<rparr>) = cell t"
  "cell (t\<lparr>tick := n\<rparr>) = cell t"
  by (simp_all add: flow_def loss_balance_def cell_def split: option.split)

lemma accountedI:
  assumes "\<And>s. wp m (\<lambda>_ t. ledger (k_cpu k) s t \<and> loss_balance (k_cpu k) t = loss_balance (k_cpu k) s) s"
  shows "accounted k m"
  using assms unfolding accounted_def state_io_rel_def same_def wp_def by auto

text \<open>A number taken, then a record with that number or a failure, is a step of the ledger.\<close>

lemma ledger_attempt:
  assumes "flow c 1 [] 0 0 0 s t" "cell t = cell s" "stats_map s c \<noteq> None \<longrightarrow> q = seq_base c s + 1"
    and "flow c 0 new rf disc m t u" "length new + rf + disc = 1" "list_all accepted new" "list_all (stamped c q) new"
    and "list_all (dated {} m (cell t)) new" "reservation s = None \<Longrightarrow> reservation u = None"
  shows "ledger c s u"
proof (rule ledgerI)
  show "flow c (length new + rf + disc) new rf disc m s u"
    using flow_trans [OF assms(1,4)] assms(5) by simp
  show "numbered c (length new + rf + disc) (seq_base c s) new" if "stats_map s c \<noteq> None"
    using assms(3,5,7) that by (cases new) (auto simp: numbered_Nil intro: numbered_one [simplified])
qed (use assms in auto)

lemma accounted_attempt:
  assumes "\<And>q. emits k q {} n (body q)"
    and "\<And>s Q. reservation s = None \<Longrightarrow> Q r s \<Longrightarrow> wp on_fail Q s"
  shows "accounted k (attempt k n on_fail body)"
proof -
  let ?c = "k_cpu k"
  show ?thesis
    unfolding attempt_def
  proof (rule accountedI, unfold wp_bind, rule wp_mono [OF next_event_sequence_flow],
      unfold wp_reserve, goal_cases)
    case (1 s q t)
    then have t: "flow ?c 1 [] 0 0 0 s t" "cell t = cell s" "stats_map s ?c \<noteq> None \<longrightarrow> q = seq_base ?c s + 1"
      and bal: "loss_balance ?c t = loss_balance ?c s" by auto
    define u where "u = t\<lparr>tick := Suc (tick t)\<rparr>"
    define v where "v = t\<lparr>tick := Suc (tick t), reservation := Some (map (k_stale k (tick t)) [0..<n])\<rparr>"
    have "wp (body q) (\<lambda>_. closes ?c q {} v) v"
      using assms(1) [of q] by (simp add: emits_def v_def)
    then have ok: "wp (body q) (\<lambda>_ w. ledger ?c s w \<and> loss_balance ?c w = loss_balance ?c s) v"
    proof (rule wp_mono)
      fix x w assume w: "closes ?c q {} v w"
      then show "ledger ?c s w \<and> loss_balance ?c w = loss_balance ?c s"
        using bal unfolding closes_def v_def by (auto intro!: ledger_attempt [OF t])
    qed
    have bad: "wp (record_ringbuf_reserve_fail k) (\<lambda>_. wp on_fail (\<lambda>_ w. ledger ?c s w \<and>
        loss_balance ?c w = loss_balance ?c s)) (u\<lparr>reservation := None\<rparr>)"
    proof (rule wp_mono [OF reserve_fail_flow])
      fix x w assume "flow ?c 0 [] 1 0 1 (u\<lparr>reservation := None\<rparr>) w \<and>
        reservation w = reservation (u\<lparr>reservation := None\<rparr>) \<and>
        loss_balance ?c w = loss_balance ?c (u\<lparr>reservation := None\<rparr>)"
      with bal show "wp on_fail (\<lambda>_ w. ledger ?c s w \<and> loss_balance ?c w = loss_balance ?c s) w"
        by (intro assms(2) conjI ledger_attempt [OF t, of "[]" 1 0 1]) (auto simp: u_def)
    qed
    show ?case using ok bad by (simp add: u_def v_def wp_if wp_bind)
  qed
qed

lemma no_reservation: "reservation s = None \<Longrightarrow> s\<lparr>reservation := None\<rparr> = (s :: machine)"
  by (cases s) simp

lemma accounted_with_reservation:
  assumes "\<And>q. emits k q {} n (body q)"
  shows "accounted k (with_reservation k n body)"
  unfolding with_reservation_def
proof (rule accounted_attempt [OF assms, where r = "()"])
  fix s :: machine and Q :: "unit \<Rightarrow> machine \<Rightarrow> bool"
  assume "reservation s = None" "Q () s"
  then show "wp bpf_ringbuf_discard Q s" by (simp add: wp_discard no_reservation)
qed

lemma closes_ignore [simp]: "closes c q L (s\<lparr>reservation := x\<rparr>) = closes c q L s"
  by (intro ext) (simp add: closes_def)

text \<open>The same with a condition on the bytes of the open reservation.\<close>

definition emits_on :: "kernel \<Rightarrow> u64 \<Rightarrow> (bytes \<Rightarrow> bool) \<Rightarrow> 'a bpf \<Rightarrow> bool" where
  "emits_on k q A m \<longleftrightarrow> (\<forall>s d. reservation s = Some d \<longrightarrow> A d \<longrightarrow> wp m (\<lambda>_. closes (k_cpu k) q {} s) s)"

lemma emits_eq_on: "emits k q {} n m \<longleftrightarrow> emits_on k q (\<lambda>d. length d = n) m"
  by (simp add: emits_def emits_on_def)

lemma emits_on_mono: "emits_on k q B m \<Longrightarrow> (\<And>d. A d \<Longrightarrow> B d) \<Longrightarrow> emits_on k q A m"
  by (simp add: emits_on_def)

lemma emits_on_return: "emits_on k q A m \<Longrightarrow> emits_on k q A (do { m; return v })"
  by (simp add: emits_on_def wp_def run_bind_parts del: run_state_bind)

lemma emits_on_bind:
  assumes "silent k m"
    and "\<And>s d. reservation s = Some d \<Longrightarrow> A d \<Longrightarrow> wp m (\<lambda>x t. \<exists>d'. reservation t = Some d' \<and> B x d') s"
    and "\<And>x. emits_on k q (B x) (g x)"
  shows "emits_on k q A (State_Monad.bind m g)"
  unfolding emits_on_def
proof (intro allI impI)
  fix s :: machine and d assume r: "reservation s = Some d" "A d"
  show "wp (State_Monad.bind m g) (\<lambda>_. closes (k_cpu k) q {} s) s"
  proof (rule closes_bind [OF assms(1)])
    obtain d' where "reservation (exec m s) = Some d'" "B (result m s) d'"
      using assms(2) [OF r] by (auto simp: wp_def)
    then show "wp (g (result m s)) (\<lambda>_. closes (k_cpu k) q {} (exec m s)) (exec m s)"
      using assms(3) [of "result m s"] by (simp add: emits_on_def)
  qed
qed

lemma emits_on_commit:
  assumes header: "silent k header" "\<And>s. H (result header s)" "state_io_rel (same reservation) header" "stamps k q header"
    and body: "silent k body" "\<And>s. B (result body s)" "state_io_rel (same reservation) body"
    and acc: "\<And>h b d. H h \<Longrightarrow> B b \<Longrightarrow> A d \<Longrightarrow> 80 + length b \<le> length d \<Longrightarrow>
      accepted (enc_header h @ b @ drop (80 + length b) d)"
  shows "emits_on k q A (commit_event k header body)"
  unfolding commit_event_def emits_on_def
proof (intro allI impI, rule closes_bind [OF header(1)])
  fix s0 :: machine and d assume d: "reservation s0 = Some d" "A d"
  let ?h = "result header s0" and ?s = "exec header s0"
  let ?fail = "do { record_ringbuf_copy_fail k; bpf_ringbuf_discard }"
  let ?tail = "do { b \<leftarrow> body; ok \<leftarrow> bpf_dynptr_write 80 b; if \<not> ok then ?fail else bpf_ringbuf_submit }"
  have st: "stamped (k_cpu k) q (enc_header ?h @ xs)" "loss_stamp (enc_header ?h @ xs) = cell ?s" for xs
    using header(4) stamps_header [OF header(4)] by (simp_all add: stamps_def Let_def)
  have tail: "wp ?tail (\<lambda>_. closes (k_cpu k) q {cell ?s} s) s"
    if s: "reservation s = Some (poke d 0 (enc_header ?h))" "80 \<le> length d" for s
  proof (rule closes_bind [OF body(1)])
    let ?t = "exec body s" and ?b = "result body s"
    have t: "reservation ?t = Some (poke d 0 (enc_header ?h))" using same_exec [OF body(3), of s] s by simp
    have "wp bpf_ringbuf_submit (\<lambda>_. closes (k_cpu k) q {cell ?s} u) u"
      if u: "reservation u = Some (poke (poke d 0 (enc_header ?h)) 80 ?b)" "80 + length ?b \<le> length d" for u
    proof (rule closes_submit [OF u(1)])
      have "poke (poke d 0 (enc_header ?h)) 80 ?b = enc_header ?h @ ?b @ drop (80 + length ?b) d"
        using poke_twice [of "enc_header ?h" ?b d] u(2) by simp
      then show "accepted (poke (poke d 0 (enc_header ?h)) 80 ?b)"
        "stamped (k_cpu k) q (poke (poke d 0 (enc_header ?h)) 80 ?b)"
        "loss_stamp (poke (poke d 0 (enc_header ?h)) 80 ?b) \<in> {cell ?s}"
        using acc [OF header(2) body(2) d(2) u(2)] st by simp_all
    qed
    from this [of "?t\<lparr>reservation := Some (poke (poke d 0 (enc_header ?h)) 80 ?b)\<rparr>"]
    show "wp (do { ok \<leftarrow> bpf_dynptr_write 80 ?b; if \<not> ok then ?fail else bpf_ringbuf_submit })
        (\<lambda>_. closes (k_cpu k) q {cell ?s} ?t) ?t"
      using closes_copy_fail [OF t, of k] t s
      by (simp add: wp_bind [of "bpf_dynptr_write 80 ?b"] wp_dynptr_write wp_if)
  qed
  have s: "reservation ?s = Some d" using same_exec [OF header(3), of s0] d(1) by simp
  have "wp (do { ok \<leftarrow> bpf_dynptr_write 0 (enc_header ?h); if \<not> ok then ?fail else ?tail })
      (\<lambda>_. closes (k_cpu k) q {cell ?s} ?s) ?s"
    using closes_copy_fail [OF s, of k] tail [of "?s\<lparr>reservation := Some (poke d 0 (enc_header ?h))\<rparr>"] s
    by (simp add: wp_bind [of "bpf_dynptr_write 0 (enc_header ?h)"] wp_dynptr_write wp_if)
  then show "wp (do { ok \<leftarrow> bpf_dynptr_write 0 (enc_header ?h); if \<not> ok then ?fail else ?tail })
      (\<lambda>_. closes (k_cpu k) q {} ?s) ?s"
    by (rule wp_mono) (rule closes_now)
qed

lemma emits_commit:
  assumes header: "silent k header" "\<And>s. H (result header s)" "state_io_rel (same reservation) header" "stamps k q header"
    and body: "silent k body" "\<And>s. B (result body s)" "state_io_rel (same reservation) body"
    and acc: "\<And>h b area. H h \<Longrightarrow> B b \<Longrightarrow> 80 + length b + length area = n \<Longrightarrow>
      accepted (enc_header h @ b @ area)"
  shows "emits k q {} n (commit_event k header body)"
  unfolding emits_eq_on by (rule emits_on_commit [where H = H and B = B]) (use header body in \<open>auto intro!: acc\<close>)

end
