(* ===== verification/Syscall_Event_Core.thy ===== *)
theory Syscall_Event_Core
  imports Accounting
begin

text \<open>
  \<^verbatim>\<open>bpf/syscall_event_core_v2.h\<close> and \<^verbatim>\<open>bpf/payload_tlv.h\<close>: the syscall classes with their own
  capture path, the task-local state of the syscall in flight, the headers and bodies of the syscall
  records, the TLV framing of payloads and the emitters of records without payload.
\<close>

section \<open>Syscall classes\<close>

definition is_scalar_direct_syscall :: "u32 \<Rightarrow> bool" where
  "is_scalar_direct_syscall sys_id \<longleftrightarrow> sys_id = SYS_GETPID \<or> sys_id = SYS_CLOSE \<or> sys_id = SYS_CLOSE_RANGE"

definition is_terminating_direct_syscall :: "u32 \<Rightarrow> bool" where
  "is_terminating_direct_syscall sys_id \<longleftrightarrow> sys_id = SYS_EXIT \<or> sys_id = SYS_EXIT_GROUP"

definition is_process_creation_direct_syscall :: "u32 \<Rightarrow> bool" where
  "is_process_creation_direct_syscall sys_id \<longleftrightarrow>
     sys_id = SYS_CLONE \<or> sys_id = SYS_CLONE3 \<or> sys_id = SYS_FORK \<or> sys_id = SYS_VFORK"

definition is_open_creat_path_direct_syscall :: "u32 \<Rightarrow> bool" where
  "is_open_creat_path_direct_syscall sys_id \<longleftrightarrow> sys_id = SYS_OPEN \<or> sys_id = SYS_CREAT \<or> sys_id = SYS_OPENAT"

definition is_payload_direct_syscall :: "u32 \<Rightarrow> bool" where
  "is_payload_direct_syscall sys_id \<longleftrightarrow>
     is_open_creat_path_direct_syscall sys_id \<or> sys_id = SYS_WRITE \<or> sys_id = SYS_PWRITE64 \<or>
     sys_id = SYS_EXECVE \<or> sys_id = SYS_EXECVEAT"

definition is_exec_payload_direct_syscall :: "u32 \<Rightarrow> bool" where
  "is_exec_payload_direct_syscall sys_id \<longleftrightarrow> sys_id = SYS_EXECVE \<or> sys_id = SYS_EXECVEAT"

definition is_write_payload_direct_syscall :: "u32 \<Rightarrow> bool" where
  "is_write_payload_direct_syscall sys_id \<longleftrightarrow> sys_id = SYS_WRITE \<or> sys_id = SYS_PWRITE64"

definition is_exit_payload_direct_syscall :: "u32 \<Rightarrow> bool" where
  "is_exit_payload_direct_syscall sys_id \<longleftrightarrow> sys_id = SYS_READ \<or> sys_id = SYS_PREAD64"

definition is_direct_syscall :: "u32 \<Rightarrow> bool" where
  "is_direct_syscall sys_id \<longleftrightarrow> is_scalar_direct_syscall sys_id \<or> is_payload_direct_syscall sys_id \<or>
     is_exit_payload_direct_syscall sys_id"

section \<open>Task-local pending state\<close>

definition zero_pending_syscall :: pending_syscall where
  "zero_pending_syscall = \<lparr>ps_enter_time = 0, ps_cpu_enter_time = 0, ps_args = Args 0 0 0 0 0 0,
     ps_pid = 0, ps_sys_id = 0, ps_tid = 0, ps_stack_id = 0\<rparr>"

definition zero_namespace_snapshot :: namespace_snapshot where
  "zero_namespace_snapshot = \<lparr>nss_flags = 0, nss_cgroup = 0, nss_ipc = 0, nss_mnt = 0, nss_net = 0,
     nss_pid = 0, nss_time = 0, nss_uts = 0, nss_user = 0\<rparr>"

definition zero_pending_task_state :: pending_task_state where
  "zero_pending_task_state = \<lparr>pts_syscall = zero_pending_syscall,
     pts_namespace_snapshot = zero_namespace_snapshot, pts_aux0 = 0, pts_valid = 0\<rparr>"

text \<open>
  \<^verbatim>\<open>bpf_task_storage_get\<close>: the task's storage; with \<^verbatim>\<open>BPF_LOCAL_STORAGE_GET_F_CREATE\<close> a missing one
  is created zeroed, unless the kernel refuses.
\<close>

definition bpf_task_storage_get :: "kernel \<Rightarrow> u64 \<Rightarrow> bool \<Rightarrow> pending_task_state option bpf" where
  "bpf_task_storage_get k task create = do {
     st \<leftarrow> gets (\<lambda>s. pending_task_storage s task);
     case st of
       Some x \<Rightarrow> return (Some x)
     | None \<Rightarrow>
         if \<not> create then return None
         else do {
           t \<leftarrow> next_tick;
           if k_storage_create k t then do {
             modify (\<lambda>s. s\<lparr>pending_task_storage := (pending_task_storage s)(task \<mapsto> zero_pending_task_state)\<rparr>);
             return (Some zero_pending_task_state) }
           else return None } }"

definition lookup_pending_task_state :: "kernel \<Rightarrow> bool \<Rightarrow> pending_task_state option bpf" where
  "lookup_pending_task_state k create =
     (if k_task k = 0 then return None else bpf_task_storage_get k (k_task k) create)"

definition current_pending_task_state :: "kernel \<Rightarrow> pending_task_state option bpf" where
  "current_pending_task_state k = lookup_pending_task_state k False"

text \<open>A store through the pointer that the lookup returned.\<close>

definition store_pending_task_state :: "kernel \<Rightarrow> pending_task_state \<Rightarrow> unit bpf" where
  "store_pending_task_state k st =
     modify (\<lambda>s. s\<lparr>pending_task_storage := (pending_task_storage s)(k_task k \<mapsto> st)\<rparr>)"

definition current_pending_syscall :: "kernel \<Rightarrow> pending_syscall option bpf" where
  "current_pending_syscall k = do {
     state \<leftarrow> current_pending_task_state k;
     return (case state of None \<Rightarrow> None
             | Some st \<Rightarrow> if pts_valid st \<noteq> 0 then Some (pts_syscall st) else None) }"

definition current_task_cpu_runtime :: "kernel \<Rightarrow> u64 bpf" where
  "current_task_cpu_runtime k =
     (if k_task k = 0 then return 0 else core_read k ''se.sum_exec_runtime'' (k_task k))"

definition pending_syscall_cpu_duration :: "kernel \<Rightarrow> pending_syscall \<Rightarrow> u64 bpf" where
  "pending_syscall_cpu_duration k pending = do {
     cpu_exit_time \<leftarrow> current_task_cpu_runtime k;
     if cpu_exit_time \<le> ps_cpu_enter_time pending then return 0
     else return (cpu_exit_time - ps_cpu_enter_time pending) }"

definition delete_pending_stack :: "u32 \<Rightarrow> unit bpf" where
  "delete_pending_stack tid = modify (\<lambda>s. s\<lparr>pending_stack_map := (pending_stack_map s)(tid := None)\<rparr>)"

definition clear_pending_task_state :: "kernel \<Rightarrow> unit bpf" where
  "clear_pending_task_state k = do {
     state \<leftarrow> current_pending_task_state k;
     case state of
       None \<Rightarrow> return ()
     | Some st \<Rightarrow> do {
         only_if (pts_valid st \<noteq> 0 \<and> 0 \<le> sint (ps_stack_id (pts_syscall st)))
           (delete_pending_stack (ps_tid (pts_syscall st)));
         store_pending_task_state k (st\<lparr>pts_aux0 := 0, pts_valid := 0\<rparr>) } }"

definition save_pending_syscall_value :: "kernel \<Rightarrow> pending_syscall \<Rightarrow> bool bpf" where
  "save_pending_syscall_value k pending0 = do {
     state \<leftarrow> lookup_pending_task_state k True;
     case state of
       None \<Rightarrow> do { record_pending_update_fail k; return False }
     | Some _ \<Rightarrow> do {
         cpu \<leftarrow> current_task_cpu_runtime k;
         let pending = pending0\<lparr>ps_cpu_enter_time := cpu\<rparr>;
         store_pending_task_state k \<lparr>pts_syscall = pending,
           pts_namespace_snapshot = zero_namespace_snapshot, pts_aux0 = 0, pts_valid = 1\<rparr>;
         only_if (0 \<le> sint (ps_stack_id pending)) (do {
           ok \<leftarrow> bpf_map_update k (\<lambda>s. s\<lparr>pending_stack_map :=
             (pending_stack_map s)(ps_tid pending \<mapsto> ps_stack_id pending)\<rparr>);
           only_if (\<not> ok) (record_pending_update_fail k) });
         return True } }"

definition save_pending_syscall_args ::
    "kernel \<Rightarrow> u32 \<Rightarrow> u32 \<Rightarrow> u32 \<Rightarrow> sys_enter_ctx \<Rightarrow> u64 \<Rightarrow> s32 \<Rightarrow> unit bpf" where
  "save_pending_syscall_args k tid pid sys_id ctx enter_time stack_id = do {
     _ \<leftarrow> save_pending_syscall_value k (zero_pending_syscall\<lparr>ps_enter_time := enter_time,
       ps_args := sec_args ctx, ps_pid := pid, ps_sys_id := sys_id, ps_tid := tid,
       ps_stack_id := stack_id\<rparr>);
     return () }"

definition save_pending_syscall_aux :: "kernel \<Rightarrow> u32 \<Rightarrow> u32 \<Rightarrow> unit bpf" where
  "save_pending_syscall_aux k tid aux0 = do {
     state \<leftarrow> current_pending_task_state k;
     case state of
       None \<Rightarrow> record_pending_update_fail k
     | Some st \<Rightarrow>
         if pts_valid st = 0 then record_pending_update_fail k
         else store_pending_task_state k (st\<lparr>pts_aux0 := aux0\<rparr>) }"

definition lookup_pending_syscall_aux0 :: "kernel \<Rightarrow> u32 \<Rightarrow> u32 bpf" where
  "lookup_pending_syscall_aux0 k tid = do {
     state \<leftarrow> current_pending_task_state k;
     return (case state of None \<Rightarrow> 0 | Some st \<Rightarrow> if pts_valid st \<noteq> 0 then pts_aux0 st else 0) }"

section \<open>Headers and bodies\<close>

text \<open>\<^verbatim>\<open>struct event_v2_header header = {.seq = sequence}\<close>.\<close>

definition zero_header :: "u64 \<Rightarrow> event_v2_header" where
  "zero_header sequence = \<lparr>hdr_version = 0, hdr_event_type = 0, hdr_flags = 0, hdr_header_len = 0,
     hdr_size = 0, hdr_pid = 0, hdr_tid = 0, hdr_sys_id = 0, hdr_seq = sequence, hdr_ts_ns = 0,
     hdr_comm = replicate EVENT_V2_COMM_SIZE 0, hdr_cpu = 0, hdr_reserved = 0, hdr_loss_epoch = 0,
     hdr_loss_time_ns = 0\<rparr>"

definition init_syscall_event_v2_header_direct ::
    "kernel \<Rightarrow> event_v2_header \<Rightarrow> u16 \<Rightarrow> u16 \<Rightarrow> u32 \<Rightarrow> u32 \<Rightarrow> u32 \<Rightarrow> nat \<Rightarrow> u64 \<Rightarrow> event_v2_header bpf" where
  "init_syscall_event_v2_header_direct k header event_type flags pid tid sys_id out_size ts_ns = do {
     h \<leftarrow> capture_event_integrity k (header\<lparr>hdr_version := EVENT_VERSION, hdr_event_type := event_type,
       hdr_flags := flags, hdr_header_len := 80, hdr_size := of_nat out_size,
       hdr_pid := pid, hdr_tid := tid, hdr_sys_id := sys_id\<rparr>);
     capture_event_v2_comm k (h\<lparr>hdr_ts_ns := ts_ns\<rparr>) }"

text \<open>
  The same initialisation through a pointer into the reservation: one store per assignment, at the offset of the field,
  over whatever the buffer holds.  \<^verbatim>\<open>event_v2_header_from_dynptr_direct\<close> returns whether the
  pointer is non-null and stores the sequence number only.
\<close>

definition event_v2_header_from_dynptr_direct :: "kernel \<Rightarrow> u64 \<Rightarrow> bool bpf" where
  "event_v2_header_from_dynptr_direct k sequence = do {
     ok \<leftarrow> bpf_dynptr_data 0 EVENT_V2_HEADER_LEN;
     if \<not> ok then do { record_ringbuf_copy_fail k; return False }
     else do { mem_store 24 (le_bytes 8 sequence); return True } }"

definition capture_event_integrity_in_place :: "kernel \<Rightarrow> unit bpf" where
  "capture_event_integrity_in_place k = do {
     mem_store 56 (le_bytes 4 (k_cpu k));
     mem_store 60 (le_bytes 4 (0 :: u32));
     mem_store 64 (le_bytes 8 (0 :: u64));
     mem_store 72 (le_bytes 8 (0 :: u64));
     loss \<leftarrow> gets event_loss_map;
     case loss of None \<Rightarrow> return ()
     | Some l \<Rightarrow> do { mem_store 64 (le_bytes 8 (els_epoch l)); mem_store 72 (le_bytes 8 (els_first_time_ns l)) } }"

definition capture_event_v2_comm_in_place :: "kernel \<Rightarrow> unit bpf" where
  "capture_event_v2_comm_in_place k = do {
     mem_store 40 (replicate EVENT_V2_COMM_SIZE 0);
     config \<leftarrow> gets config_map;
     only_if (case config of None \<Rightarrow> False | Some c \<Rightarrow> has_flag c CONFIG_DECODE_PID_COMM)
       (mem_store 40 (map (k_comm k) [0..<EVENT_V2_COMM_SIZE])) }"

definition init_syscall_event_v2_header_in_place ::
    "kernel \<Rightarrow> u16 \<Rightarrow> u16 \<Rightarrow> u32 \<Rightarrow> u32 \<Rightarrow> u32 \<Rightarrow> nat \<Rightarrow> u64 \<Rightarrow> unit bpf" where
  "init_syscall_event_v2_header_in_place k event_type flags pid tid sys_id out_size ts_ns = do {
     mem_store 0 (le_bytes 2 EVENT_VERSION);
     mem_store 2 (le_bytes 2 event_type);
     mem_store 4 (le_bytes 2 flags);
     mem_store 6 (le_bytes 2 (80 :: u16));
     mem_store 8 (le_bytes 4 (of_nat out_size :: u32));
     mem_store 12 (le_bytes 4 pid);
     mem_store 16 (le_bytes 4 tid);
     mem_store 20 (le_bytes 4 sys_id);
     capture_event_integrity_in_place k;
     mem_store 32 (le_bytes 8 ts_ns);
     capture_event_v2_comm_in_place k }"

definition init_syscall_enter_event_v2_from_ctx ::
    "sys_enter_ctx \<Rightarrow> u32 \<Rightarrow> s64 \<Rightarrow> s32 \<Rightarrow> s32 \<Rightarrow> syscall_enter_event_v2" where
  "init_syscall_enter_event_v2_from_ctx ctx payload_size ret_value probe_ret_enter probe_ret_exit =
     \<lparr>ent_ret = ret_value, ent_probe_ret_enter = probe_ret_enter, ent_probe_ret_exit = probe_ret_exit,
      ent_args = sec_args ctx, ent_capture_len = payload_size, ent_capture_flags = 0\<rparr>"

definition copy_syscall_enter_args :: "sys_enter_ctx \<Rightarrow> args6" where
  "copy_syscall_enter_args ctx = sec_args ctx"

definition init_syscall_enter_event_v2_from_args ::
    "args6 \<Rightarrow> u32 \<Rightarrow> s64 \<Rightarrow> s32 \<Rightarrow> s32 \<Rightarrow> syscall_enter_event_v2" where
  "init_syscall_enter_event_v2_from_args args payload_size ret_value probe_ret_enter probe_ret_exit =
     \<lparr>ent_ret = ret_value, ent_probe_ret_enter = probe_ret_enter, ent_probe_ret_exit = probe_ret_exit,
      ent_args = args, ent_capture_len = payload_size, ent_capture_flags = 0\<rparr>"

definition init_syscall_exit_event_v2_from_pending ::
    "kernel \<Rightarrow> pending_syscall \<Rightarrow> s64 \<Rightarrow> u64 \<Rightarrow> u32 \<Rightarrow> syscall_exit_event_v2 bpf" where
  "init_syscall_exit_event_v2_from_pending k p ret_value duration payload_size = do {
     cpu \<leftarrow> pending_syscall_cpu_duration k p;
     return \<lparr>ext_ret = ret_value, ext_duration_ns = duration, ext_args = ps_args p,
       ext_capture_len = payload_size, ext_capture_flags = 0, ext_stack_id = ps_stack_id p,
       ext_reserved = 0, ext_cpu_duration_ns = cpu\<rparr> }"

definition init_syscall_exit_event_v2_from_ctx ::
    "sys_enter_ctx \<Rightarrow> s64 \<Rightarrow> u64 \<Rightarrow> u32 \<Rightarrow> s32 \<Rightarrow> syscall_exit_event_v2" where
  "init_syscall_exit_event_v2_from_ctx ctx ret_value duration payload_size stack_id =
     \<lparr>ext_ret = ret_value, ext_duration_ns = duration, ext_args = sec_args ctx,
      ext_capture_len = payload_size, ext_capture_flags = 0, ext_stack_id = stack_id,
      ext_reserved = 0, ext_cpu_duration_ns = 0\<rparr>"

section \<open>TLV framing\<close>

definition payload_tlv_clamp_u32 :: "u64 \<Rightarrow> u32" where
  "payload_tlv_clamp_u32 value = (if value > 0xffffffff then 0xffffffff else ucast value)"

definition payload_tlv_copy_len :: "u64 \<Rightarrow> u32 \<Rightarrow> u32" where
  "payload_tlv_copy_len value max_len = (if value > ucast max_len then max_len else ucast value)"

definition payload_tlv_data_bucket :: "u32 \<Rightarrow> u32" where
  "payload_tlv_data_bucket copied_len =
     (if copied_len = 0 then 0
      else if copied_len \<le> 64 then 64
      else if copied_len \<le> 128 then 128
      else if copied_len \<le> 256 then 256
      else 512)"

text \<open>\<^verbatim>\<open>payload_tlv_data_direct\<close>: whether the pointer it returns is non-null.\<close>

definition payload_tlv_data_direct :: "nat \<Rightarrow> u32 \<Rightarrow> bool bpf" where
  "payload_tlv_data_direct data_offset copied_len =
     (if copied_len = 0 then return False
      else if copied_len \<le> 64 then bpf_dynptr_data data_offset 64
      else if copied_len \<le> 128 then bpf_dynptr_data data_offset 128
      else if copied_len \<le> 256 then bpf_dynptr_data data_offset 256
      else bpf_dynptr_data data_offset 512)"

definition payload_tlv_write_header_direct ::
    "kernel \<Rightarrow> nat \<Rightarrow> u16 \<Rightarrow> u16 \<Rightarrow> u16 \<Rightarrow> u32 \<Rightarrow> u32 \<Rightarrow> s32 \<Rightarrow> u64 \<Rightarrow> bool bpf" where
  "payload_tlv_write_header_direct k payload_offset kind arg_index flags user_len copied_len probe_ret user_ptr = do {
     ok \<leftarrow> bpf_dynptr_write payload_offset (enc_tlv_header \<lparr>tlv_kind = kind, tlv_arg_index = arg_index,
       tlv_flags = flags, tlv_reserved = 0, tlv_user_len = user_len, tlv_copied_len = copied_len,
       tlv_probe_ret = probe_ret, tlv_reserved2 = 0, tlv_user_ptr = user_ptr\<rparr>);
     if \<not> ok then do { record_ringbuf_copy_fail k; return False } else return True }"

section \<open>Emitters of records without payload\<close>

definition emit_syscall_enter_event_v2_direct ::
    "kernel \<Rightarrow> u32 \<Rightarrow> u32 \<Rightarrow> u32 \<Rightarrow> sys_enter_ctx \<Rightarrow> u16 \<Rightarrow> u64 \<Rightarrow> unit bpf" where
  "emit_syscall_enter_event_v2_direct k pid tid sys_id ctx flags ts_ns =
     (let out_size = EVENT_V2_HEADER_LEN + EVENT_V2_ENTER_BODY_LEN
      in with_reservation k out_size (\<lambda>sequence.
           commit_event k
             (init_syscall_event_v2_header_direct k (zero_header sequence) EVENT_TYPE_ENTER flags pid tid
                sys_id out_size ts_ns)
             (return (enc_enter_body (init_syscall_enter_event_v2_from_ctx ctx 0 0 (-1) (-1))))))"

definition emit_compact_syscall_enter_event_v2_direct ::
    "kernel \<Rightarrow> u32 \<Rightarrow> u32 \<Rightarrow> u32 \<Rightarrow> sys_enter_ctx \<Rightarrow> u64 \<Rightarrow> unit bpf" where
  "emit_compact_syscall_enter_event_v2_direct k pid tid sys_id ctx ts_ns =
     (let out_size = EVENT_V2_HEADER_LEN + EVENT_V2_COMPACT_ENTER_BODY_LEN
      in with_reservation k out_size (\<lambda>sequence.
           commit_event k
             (init_syscall_event_v2_header_direct k (zero_header sequence) EVENT_TYPE_ENTER
                (EVENT_FLAG_GENERIC_ENTER OR EVENT_FLAG_COMPACT_ENTER) pid tid sys_id out_size ts_ns)
             (return (enc_args (sec_args ctx)))))"

definition emit_no_payload_enter_event_v2_direct ::
    "kernel \<Rightarrow> u32 \<Rightarrow> u32 \<Rightarrow> u32 \<Rightarrow> sys_enter_ctx \<Rightarrow> u32 option \<Rightarrow> u64 \<Rightarrow> unit bpf" where
  "emit_no_payload_enter_event_v2_direct k pid tid sys_id ctx cfg ts_ns =
     (case cfg of
        None \<Rightarrow> return ()
      | Some c \<Rightarrow> only_if (has_flag c CONFIG_EMIT_ENTER)
          (emit_syscall_enter_event_v2_direct k pid tid sys_id ctx EVENT_FLAG_GENERIC_ENTER ts_ns))"

definition emit_plain_no_payload_enter_event_v2_direct ::
    "kernel \<Rightarrow> u32 \<Rightarrow> u32 \<Rightarrow> u32 \<Rightarrow> sys_enter_ctx \<Rightarrow> u32 option \<Rightarrow> u64 \<Rightarrow> unit bpf" where
  "emit_plain_no_payload_enter_event_v2_direct k pid tid sys_id ctx cfg ts_ns =
     (case cfg of
        None \<Rightarrow> return ()
      | Some c \<Rightarrow>
          if \<not> has_flag c CONFIG_EMIT_ENTER then return ()
          else do {
            elide \<leftarrow> gets (\<lambda>s. plain_enter_elide_map s sys_id);
            if has_flag c CONFIG_ELIDE_PLAIN_ENTER \<and> elide \<noteq> None then return ()
            else emit_compact_syscall_enter_event_v2_direct k pid tid sys_id ctx ts_ns })"

definition emit_terminating_exit_event_v2_direct ::
    "kernel \<Rightarrow> u32 \<Rightarrow> u32 \<Rightarrow> u32 \<Rightarrow> sys_enter_ctx \<Rightarrow> u64 \<Rightarrow> s32 \<Rightarrow> unit bpf" where
  "emit_terminating_exit_event_v2_direct k pid tid sys_id ctx ts_ns stack_id =
     (let out_size = EVENT_V2_HEADER_LEN + EVENT_V2_EXIT_BODY_LEN
      in with_reservation k out_size (\<lambda>sequence.
           commit_event k
             (init_syscall_event_v2_header_direct k (zero_header sequence) EVENT_TYPE_EXIT 0 pid tid sys_id
                out_size ts_ns)
             (return (enc_exit_body (init_syscall_exit_event_v2_from_ctx ctx 0 0 0 stack_id)))))"

section \<open>Reporting and accounting of the core\<close>

lemma reports_with_reservation [reports_intros]:
  "(\<And>sequence. reports (body sequence)) \<Longrightarrow> reports (with_reservation k n body)"
  unfolding with_reservation_def attempt_def by (intro reports_rules reports_intros)

lemma reports_commit_event [reports_intros]:
  "reports header \<Longrightarrow> reports body \<Longrightarrow> reports (commit_event k header body)"
  unfolding commit_event_def by (intro reports_rules reports_intros)

lemma reports_core_reads [reports_intros]:
  "reports (current_task_cpu_runtime k)"
  "reports (current_pending_task_state k)"
  "reports (init_syscall_event_v2_header_direct k h ty flags pid tid sys_id n ts)"
  "reports (payload_tlv_data_direct off len)"
  "reports (payload_tlv_write_header_direct k off kind arg flags ul cl pr up)"
  "reports (event_v2_header_from_dynptr_direct k sequence)"
  unfolding current_task_cpu_runtime_def current_pending_task_state_def lookup_pending_task_state_def
    bpf_task_storage_get_def init_syscall_event_v2_header_direct_def payload_tlv_data_direct_def
    payload_tlv_write_header_direct_def event_v2_header_from_dynptr_direct_def
  by (intro reports_rules reports_intros reports_modify; simp)+

lemma reports_core_reads2 [reports_intros]:
  "reports (current_pending_syscall k)"
  "reports (pending_syscall_cpu_duration k p)"
  "reports (lookup_pending_syscall_aux0 k tid)"
  unfolding current_pending_syscall_def pending_syscall_cpu_duration_def lookup_pending_syscall_aux0_def
  by (intro reports_rules reports_intros)+

lemma reports_exit_body [reports_intros]:
  "reports (init_syscall_exit_event_v2_from_pending k p ret dur n)"
  unfolding init_syscall_exit_event_v2_from_pending_def by (intro reports_rules reports_intros)

lemma reports_core_emitters [reports_intros]:
  "reports (emit_syscall_enter_event_v2_direct k pid tid sys_id ctx flags ts)"
  "reports (emit_compact_syscall_enter_event_v2_direct k pid tid sys_id ctx ts)"
  "reports (emit_terminating_exit_event_v2_direct k pid tid sys_id ctx ts stack_id)"
  unfolding emit_syscall_enter_event_v2_direct_def emit_compact_syscall_enter_event_v2_direct_def
    emit_terminating_exit_event_v2_direct_def Let_def
  by (intro reports_rules reports_intros)+

lemma reports_core_emitters2 [reports_intros]:
  "reports (emit_no_payload_enter_event_v2_direct k pid tid sys_id ctx cfg ts)"
  "reports (emit_plain_no_payload_enter_event_v2_direct k pid tid sys_id ctx cfg ts)"
  unfolding emit_no_payload_enter_event_v2_direct_def emit_plain_no_payload_enter_event_v2_direct_def
  by (intro reports_rules reports_intros)+

lemma silent_core [silent_intros]:
  "silent k (bpf_task_storage_get k' task create)"
  "silent k (store_pending_task_state k' st)"
  "silent k (delete_pending_stack tid)"
  "silent k (current_task_cpu_runtime k')"
  "silent k (init_syscall_event_v2_header_direct k' h ty flags pid tid sys_id n ts)"
  "silent k (payload_tlv_data_direct off len)"
  unfolding bpf_task_storage_get_def store_pending_task_state_def delete_pending_stack_def
    current_task_cpu_runtime_def init_syscall_event_v2_header_direct_def payload_tlv_data_direct_def
  by (intro silent_rules silent_intros silent_modify; simp)+

lemma silent_core2 [silent_intros]:
  "silent k (lookup_pending_task_state k' create)"
  "silent k (pending_syscall_cpu_duration k' p)"
  "silent k (payload_tlv_write_header_direct k off kind arg flags ul cl pr up)"
  "silent k (event_v2_header_from_dynptr_direct k sequence)"
  unfolding lookup_pending_task_state_def pending_syscall_cpu_duration_def
    payload_tlv_write_header_direct_def event_v2_header_from_dynptr_direct_def
  by (intro silent_rules silent_intros)+

lemma silent_core3 [silent_intros]:
  "silent k (current_pending_task_state k')"
  "silent k (init_syscall_exit_event_v2_from_pending k' p ret dur n)"
  unfolding current_pending_task_state_def init_syscall_exit_event_v2_from_pending_def
  by (intro silent_rules silent_intros)+

lemma silent_core4 [silent_intros]:
  "silent k (current_pending_syscall k')"
  "silent k (lookup_pending_syscall_aux0 k' tid)"
  "silent k (clear_pending_task_state k')"
  "silent k (save_pending_syscall_aux k tid aux)"
  unfolding current_pending_syscall_def lookup_pending_syscall_aux0_def clear_pending_task_state_def
    save_pending_syscall_aux_def
  by (intro silent_rules silent_intros)+

lemma silent_save [silent_intros]:
  "silent k (save_pending_syscall_value k p)"
  unfolding save_pending_syscall_value_def by (intro silent_rules silent_intros silent_map_update) simp

lemma silent_save_args [silent_intros]:
  "silent k (save_pending_syscall_args k tid pid sys_id ctx enter_time stack_id)"
  unfolding save_pending_syscall_args_def by (intro silent_rules silent_intros)

text \<open>Programs that keep the bytes of the open reservation.\<close>

definition keeps :: "'a bpf \<Rightarrow> bool" where
  "keeps m \<longleftrightarrow> state_io_rel (same (\<lambda>s. (reservation s, events s))) m"

named_theorems keeps_intros \<open>programs that leave the ring buffer alone\<close>

lemma keeps_return: "keeps (return x)" unfolding keeps_def by (rule same.io_return)
lemma keeps_gets: "keeps (gets f)" unfolding keeps_def by (rule same.io_gets)
lemma keeps_bind: "keeps m \<Longrightarrow> (\<And>x. keeps (g x)) \<Longrightarrow> keeps (State_Monad.bind m g)"
  unfolding keeps_def by (rule same.io_bind)
lemma keeps_if: "(b \<Longrightarrow> keeps m) \<Longrightarrow> (\<not> b \<Longrightarrow> keeps n) \<Longrightarrow> keeps (if b then m else n)"
  by simp
lemma keeps_only_if: "(b \<Longrightarrow> keeps m) \<Longrightarrow> keeps (only_if b m)"
  by (simp add: only_if_def keeps_return)
lemma keeps_case_option:
  "(y = None \<Longrightarrow> keeps m) \<Longrightarrow> (\<And>x. y = Some x \<Longrightarrow> keeps (g x)) \<Longrightarrow>
     keeps (case y of None \<Rightarrow> m | Some x \<Rightarrow> g x)"
  by (cases y) auto
lemma keeps_case_prod: "(\<And>a b. keeps (h a b)) \<Longrightarrow> keeps (case z of (a, b) \<Rightarrow> h a b)"
  by (cases z) auto
lemma keeps_let: "keeps (g x) \<Longrightarrow> keeps (let v = x in g v)"
  by simp
lemma keeps_modify:
  "(\<And>s. reservation (f s) = reservation s \<and> events (f s) = events s) \<Longrightarrow> keeps (modify f)"
  unfolding keeps_def by (rule same.io_modify) (simp add: same_def)

lemmas keeps_rules = keeps_return keeps_gets keeps_bind keeps_if keeps_only_if keeps_case_option
  keeps_case_prod keeps_let

lemma keeps_reservation: "keeps m \<Longrightarrow> state_io_rel (same reservation) m"
  by (simp add: keeps_def state_io_rel_def same_def)

lemma keeps_exec [simp]:
  "keeps m \<Longrightarrow> reservation (exec m s) = reservation s"
  "keeps m \<Longrightarrow> events (exec m s) = events s"
  by (simp_all add: keeps_def state_io_rel_def same_def)

lemma keeps_next_tick [keeps_intros]: "keeps next_tick"
  unfolding next_tick_def by (intro keeps_rules keeps_modify) simp

lemma keeps_helpers [keeps_intros]:
  "keeps (bpf_ktime_get_ns k')"
  "keeps (bpf_get_stackid k')"
  "keeps (core_read k' f p)"
  "keeps (core_read_into k' f p)"
  "keeps (bpf_probe_read_user k' n p)"
  "keeps (bpf_probe_read_kernel k' n p)"
  "keeps (bpf_probe_read_user_str k' n p)"
  "keeps (bpf_probe_read_kernel_str k' n p)"
  "keeps (bpf_dynptr_data off n)"
  unfolding bpf_ktime_get_ns_def bpf_get_stackid_def core_read_def core_read_into_def
    bpf_probe_read_user_def bpf_probe_read_kernel_def bpf_probe_read_user_str_def
    bpf_probe_read_kernel_str_def bpf_dynptr_data_def
  by (intro keeps_rules keeps_intros)+

lemma keeps_core [keeps_intros]:
  "keeps (capture_event_integrity k h)"
  "keeps (capture_event_v2_comm k h)"
  "keeps (current_task_cpu_runtime k)"
  unfolding capture_event_integrity_def capture_event_v2_comm_def current_task_cpu_runtime_def
  by (intro keeps_rules keeps_intros)+

lemma keeps_core2 [keeps_intros]:
  "keeps (init_syscall_event_v2_header_direct k h ty flags pid tid sys_id n ts)"
  "keeps (pending_syscall_cpu_duration k p)"
  unfolding init_syscall_event_v2_header_direct_def pending_syscall_cpu_duration_def
  by (intro keeps_rules keeps_intros)+

lemma keeps_exit_body [keeps_intros]:
  "keeps (init_syscall_exit_event_v2_from_pending k p ret dur n)"
  unfolding init_syscall_exit_event_v2_from_pending_def by (intro keeps_rules keeps_intros)

text \<open>What a header and an exit body say, whatever the kernel answers.\<close>

definition header_spec :: "u16 \<Rightarrow> u16 \<Rightarrow> u32 \<Rightarrow> u32 \<Rightarrow> u32 \<Rightarrow> nat \<Rightarrow> u64 \<Rightarrow> u64 \<Rightarrow> event_v2_header \<Rightarrow> bool" where
  "header_spec ty flags pid tid sys_id n ts sequence h \<longleftrightarrow>
     hdr_version h = EVENT_VERSION \<and> hdr_event_type h = ty \<and> hdr_flags h = flags \<and> hdr_header_len h = 80 \<and>
     hdr_size h = of_nat n \<and> hdr_pid h = pid \<and> hdr_tid h = tid \<and> hdr_sys_id h = sys_id \<and>
     hdr_ts_ns h = ts \<and> hdr_seq h = sequence"

lemma init_header_spec:
  "header_spec ty flags pid tid sys_id n ts (hdr_seq h0)
     (result (init_syscall_event_v2_header_direct k h0 ty flags pid tid sys_id n ts) s)"
  by (simp add: init_syscall_event_v2_header_direct_def header_spec_def capture_event_integrity_def
      capture_event_v2_comm_def split: option.split)

lemma hdr_seq_zero_header [simp]: "hdr_seq (zero_header sequence) = sequence"
  by (simp add: zero_header_def)

lemma header_spec_for:
  "header_spec ty flags pid tid sys_id n ts sequence h \<Longrightarrow> event_type_known ty \<Longrightarrow> n < 2 ^ 32 \<Longrightarrow> header_for h n"
  by (simp add: header_spec_def header_for_def)

definition exit_body_spec :: "pending_syscall \<Rightarrow> s64 \<Rightarrow> u64 \<Rightarrow> u32 \<Rightarrow> syscall_exit_event_v2 \<Rightarrow> bool" where
  "exit_body_spec p ret dur n b \<longleftrightarrow> ext_ret b = ret \<and> ext_duration_ns b = dur \<and> ext_args b = ps_args p \<and>
     ext_capture_len b = n \<and> ext_stack_id b = ps_stack_id p \<and> ext_reserved b = 0"

lemma init_exit_body_spec:
  "exit_body_spec p ret dur n (result (init_syscall_exit_event_v2_from_pending k p ret dur n) s)"
  by (simp add: init_syscall_exit_event_v2_from_pending_def exit_body_spec_def run_bind_parts
      del: run_state_bind)

section \<open>Records the consumer accepts\<close>

lemma accepted_exit:
  assumes "header_spec EVENT_TYPE_EXIT flags pid tid sys_id n ts sequence h" "n < 2 ^ 32"
    and "80 + length (enc_exit_body x) + length area = n" "unat (ext_capture_len x) \<le> n - 168"
    and "has_flag flags EVENT_FLAG_PAYLOAD_TLV \<Longrightarrow>
      decodePayloadTLVSections (take (unat (ext_capture_len x)) area) \<noteq> None"
  shows "accepted (enc_header h @ enc_exit_body x @ area)"
proof -
  have "header_for h (length (enc_header h @ enc_exit_body x @ area))"
    using header_spec_for [OF assms(1)] assms(2,3) by (simp add: event_type_known_def)
  moreover have "raw_payload (enc_header h @ enc_exit_body x @ area) = take (unat (ext_capture_len x)) area"
    using assms(1) rd_behind_header [of 64 h "enc_exit_body x @ area"] by (simp add: raw_payload_def header_spec_def)
  ultimately show ?thesis
    using decode_exit_of [OF _ refl, of h x area] assms by (simp add: accepted_def framed_def header_spec_def)
qed

lemma accepted_enter:
  assumes "header_spec EVENT_TYPE_ENTER flags pid tid sys_id n ts sequence h" "n < 2 ^ 32"
    and "\<not> has_flag flags EVENT_FLAG_COMPACT_ENTER"
    and "80 + length (enc_enter_body x) + length area = n" "unat (ent_capture_len x) \<le> n - 152"
    and "has_flag flags EVENT_FLAG_PAYLOAD_TLV \<Longrightarrow>
      decodePayloadTLVSections (take (unat (ent_capture_len x)) area) \<noteq> None"
  shows "accepted (enc_header h @ enc_enter_body x @ area)"
proof -
  have "header_for h (length (enc_header h @ enc_enter_body x @ area))"
    using header_spec_for [OF assms(1)] assms(2,4) by (simp add: event_type_known_def)
  moreover have "raw_payload (enc_header h @ enc_enter_body x @ area) = take (unat (ent_capture_len x)) area"
    using assms(1) rd_behind_header [of 64 h "enc_enter_body x @ area"] by (simp add: raw_payload_def header_spec_def)
  ultimately show ?thesis
    using decode_enter_of [OF _ refl, of h x area] assms by (simp add: accepted_def framed_def header_spec_def)
qed

lemma stamps_init_header:
  "stamps k (hdr_seq h0) (init_syscall_event_v2_header_direct k h0 ty flags pid tid sys_id n ts)"
  by (simp add: stamps_def Let_def init_syscall_event_v2_header_direct_def capture_event_integrity_def
      capture_event_v2_comm_def cell_def split: option.split)

lemma emits_on_header:
  assumes "silent k body" "\<And>s. B (result body s)" "keeps body"
    and "\<And>h b d. header_spec ty flags pid tid sys_id n ts q h \<Longrightarrow> B b \<Longrightarrow> A d \<Longrightarrow>
      80 + length b \<le> length d \<Longrightarrow> accepted (enc_header h @ b @ drop (80 + length b) d)"
  shows "emits_on k q A (commit_event k
      (init_syscall_event_v2_header_direct k (zero_header q) ty flags pid tid sys_id n ts) body)"
  by (rule emits_on_commit [where H = "header_spec ty flags pid tid sys_id n ts q" and B = B])
     (use assms in \<open>auto simp: init_header_spec [of _ _ _ _ _ _ _ "zero_header q", simplified]
      stamps_init_header [of k "zero_header q", simplified] intro!: silent_intros keeps_reservation keeps_intros\<close>)

text \<open>A reservation of \<open>n\<close> bytes whose payload, \<open>m\<close> bytes from \<open>off\<close> on, parses.\<close>

definition holds_payload :: "nat \<Rightarrow> nat \<Rightarrow> nat \<Rightarrow> bytes \<Rightarrow> bool" where
  "holds_payload n off m d \<longleftrightarrow> length d = n \<and> decodePayloadTLVSections (take m (drop off d)) \<noteq> None"

lemma holds_no_payload: "length d = n \<Longrightarrow> holds_payload n off 0 d"
  by (simp add: holds_payload_def decodePayloadTLVSections.simps)

lemma emits_exit_payload:
  assumes "unat payload_size \<le> n - 168" "n < 2 ^ 32"
  shows "emits_on k q (holds_payload n 168 (unat payload_size)) (commit_event k
      (init_syscall_event_v2_header_direct k (zero_header q) EVENT_TYPE_EXIT flags pid tid sys_id n ts)
      (do { b \<leftarrow> init_syscall_exit_event_v2_from_pending k p ret dur payload_size; return (enc_exit_body b) }))"
proof (rule emits_on_header [where B = "\<lambda>b. \<exists>x. b = enc_exit_body x \<and> ext_capture_len x = payload_size"])
  show "\<exists>x. result (do { b \<leftarrow> init_syscall_exit_event_v2_from_pending k p ret dur payload_size;
      return (enc_exit_body b) }) s = enc_exit_body x \<and> ext_capture_len x = payload_size" for s
    using init_exit_body_spec [of p ret dur payload_size k s]
    by (auto simp: exit_body_spec_def run_bind_parts simp del: run_state_bind)
qed (use assms in \<open>auto simp: holds_payload_def intro!: accepted_exit silent_rules silent_intros keeps_rules keeps_intros\<close>)

lemma emits_enter_payload:
  assumes "unat (ent_capture_len b) \<le> n - 152" "n < 2 ^ 32" "\<not> has_flag flags EVENT_FLAG_COMPACT_ENTER"
  shows "emits_on k q (holds_payload n 152 (unat (ent_capture_len b))) (commit_event k
      (init_syscall_event_v2_header_direct k (zero_header q) EVENT_TYPE_ENTER flags pid tid sys_id n ts)
      (return (enc_enter_body b)))"
  by (rule emits_on_header [where B = "\<lambda>x. x = enc_enter_body b"])
     (use assms in \<open>auto simp: holds_payload_def intro!: accepted_enter silent_rules keeps_rules\<close>)

lemma emits_exit:
  assumes "168 \<le> n" "n < 2 ^ 32"
  shows "emits k q {} n (commit_event k
      (init_syscall_event_v2_header_direct k (zero_header q) EVENT_TYPE_EXIT flags pid tid sys_id n ts)
      (do { b \<leftarrow> init_syscall_exit_event_v2_from_pending k p ret dur 0; return (enc_exit_body b) }))"
  unfolding emits_eq_on
  by (rule emits_on_mono [OF emits_exit_payload]) (use assms in \<open>simp_all add: holds_no_payload\<close>)

lemma emits_exit_pure:
  assumes "ext_capture_len b = 0" "168 \<le> n" "n < 2 ^ 32"
  shows "emits k q {} n (commit_event k
      (init_syscall_event_v2_header_direct k (zero_header q) EVENT_TYPE_EXIT flags pid tid sys_id n ts)
      (return (enc_exit_body b)))"
  unfolding emits_eq_on
  by (rule emits_on_header [where B = "\<lambda>x. x = enc_exit_body b"])
     (use assms in \<open>auto simp: decodePayloadTLVSections.simps intro!: accepted_exit silent_rules keeps_rules\<close>)

lemma emits_enter:
  assumes "ent_capture_len b = 0" "152 \<le> n" "n < 2 ^ 32" "\<not> has_flag flags EVENT_FLAG_COMPACT_ENTER"
  shows "emits k q {} n (commit_event k
      (init_syscall_event_v2_header_direct k (zero_header q) EVENT_TYPE_ENTER flags pid tid sys_id n ts)
      (return (enc_enter_body b)))"
  unfolding emits_eq_on
  by (rule emits_on_mono [OF emits_enter_payload]) (use assms in \<open>simp_all add: holds_no_payload\<close>)

lemma decode_compact_of:
  assumes "header_spec EVENT_TYPE_ENTER (EVENT_FLAG_GENERIC_ENTER OR EVENT_FLAG_COMPACT_ENTER) pid tid sys_id 128 ts sequence h"
  shows "\<exists>env. decodeTraceEventV2Envelope (enc_header h @ enc_args a) = Some env \<and> env_args env = a \<and>
     env_pid env = pid \<and> env_tid env = tid \<and> env_sys_id env = sys_id \<and> env_seq env = sequence \<and>
     env_enter_time env = ts \<and> env_event_type env = EVENT_TYPE_ENTER"
proof -
  have "header_for h (length (enc_header h @ enc_args a))"
    using header_spec_for [OF assms] by (simp add: event_type_known_def)
  then show ?thesis
    using assms
    by (simp add: decodeTraceEventV2Envelope_def decode_header_of header_view_def header_spec_def
        decodeTraceEventV2EnterEnvelope_def decodeTraceEventV2CompactEnterEnvelope_def has_flag_def
        bslice_def)
qed

lemma emits_compact:
  "emits k q {} 128 (commit_event k
     (init_syscall_event_v2_header_direct k (zero_header q) EVENT_TYPE_ENTER
        (EVENT_FLAG_GENERIC_ENTER OR EVENT_FLAG_COMPACT_ENTER) pid tid sys_id 128 ts)
     (return (enc_args a)))"
  unfolding emits_eq_on
proof (rule emits_on_header [where B = "\<lambda>x. x = enc_args a"])
  fix h and b d :: bytes
  assume a: "header_spec EVENT_TYPE_ENTER (EVENT_FLAG_GENERIC_ENTER OR EVENT_FLAG_COMPACT_ENTER) pid tid sys_id
      128 ts q h" "b = enc_args a" "length d = 128"
  then have "framed (enc_header h @ enc_args a)"
    by (intro framed_plain) (simp add: header_spec_def has_flag_def)
  then show "accepted (enc_header h @ b @ drop (80 + length b) d)"
    using decode_compact_of [of pid tid sys_id ts q h a] a by (auto simp: accepted_def)
qed (auto intro!: silent_rules keeps_rules)

lemma accounted_core_emitters [accounted_intros]:
  "accounted k (emit_compact_syscall_enter_event_v2_direct k pid tid sys_id ctx ts)"
  "\<not> has_flag flags EVENT_FLAG_COMPACT_ENTER \<Longrightarrow>
     accounted k (emit_syscall_enter_event_v2_direct k pid tid sys_id ctx flags ts)"
  "accounted k (emit_terminating_exit_event_v2_direct k pid tid sys_id ctx ts stack_id)"
  unfolding emit_compact_syscall_enter_event_v2_direct_def emit_syscall_enter_event_v2_direct_def
    emit_terminating_exit_event_v2_direct_def Let_def
  by (auto intro!: accounted_with_reservation emits_compact [simplified] emits_enter emits_exit_pure
      simp: init_syscall_enter_event_v2_from_ctx_def init_syscall_exit_event_v2_from_ctx_def)

lemma accounted_core_emitters2 [accounted_intros]:
  "accounted k (emit_no_payload_enter_event_v2_direct k pid tid sys_id ctx cfg ts)"
  "accounted k (emit_plain_no_payload_enter_event_v2_direct k pid tid sys_id ctx cfg ts)"
  unfolding emit_no_payload_enter_event_v2_direct_def emit_plain_no_payload_enter_event_v2_direct_def
  by (intro accounted_rules accounted_intros; simp add: has_flag_def)+

section \<open>The record that is written\<close>

text \<open>The number the next attempt of this CPU takes.\<close>

definition next_seq :: "kernel \<Rightarrow> machine \<Rightarrow> u64" where
  "next_seq k s = (case stats_map s (k_cpu k) of None \<Rightarrow> 0 | Some st \<Rightarrow> st_event_seq st + 1)"

lemma with_reservation_content:
  assumes "k_reserve k (tick s) n"
    and "\<And>u d. reservation u = Some d \<Longrightarrow> length d = n \<Longrightarrow> events u = events s \<Longrightarrow> control u = control s \<Longrightarrow>
      tick u = Suc (tick s) \<Longrightarrow> wp (body (next_seq k s)) Q u"
  shows "wp (with_reservation k n body) Q s"
  using assms
  by (auto simp: with_reservation_def attempt_def next_event_sequence_def wp_simps next_seq_def control_def
      split: option.split)

lemma commit_content:
  assumes "keeps header" "keeps body" "reservation s = Some d"
    and "\<And>u. H (result header u)" "\<And>u. B (result body u)"
    and "\<And>b. B b \<Longrightarrow> 80 + length b \<le> length d"
  shows "wp (commit_event k header body)
     (\<lambda>_ t. \<exists>h b. H h \<and> B b \<and> events t = events s @ [enc_header h @ b @ drop (80 + length b) d]) s"
proof -
  let ?h = "result header s" and ?t = "exec header s"
  let ?u = "?t\<lparr>reservation := Some (poke d 0 (enc_header ?h))\<rparr>"
  let ?b = "result body ?u"
  have len: "80 + length ?b \<le> length d" by (rule assms(6)) (rule assms(5))
  have "wp (commit_event k header body)
     (\<lambda>_ t. events t = events s @ [enc_header ?h @ ?b @ drop (80 + length ?b) d]) s"
    using assms(1-3) len poke_twice [of "enc_header ?h" ?b d]
    by (simp add: commit_event_def wp_def run_bind_parts bpf_dynptr_write_def mem_store_def
        bpf_ringbuf_submit_def del: run_state_bind)
  then show ?thesis
    by (rule wp_mono) (use assms(4,5) in blast)
qed

section \<open>Properties of the core\<close>

lemmas pending_defs = current_pending_task_state_def lookup_pending_task_state_def
  bpf_task_storage_get_def store_pending_task_state_def current_pending_syscall_def
  delete_pending_stack_def lookup_pending_syscall_aux0_def

lemma wp_current_pending_task_state [wp_simps]:
  "wp (current_pending_task_state k) Q s =
     Q (if k_task k = 0 then None else pending_task_storage s (k_task k)) s"
  by (simp add: pending_defs wp_simps split: option.split)

lemma wp_current_pending_syscall [wp_simps]:
  "wp (current_pending_syscall k) Q s = Q (case (if k_task k = 0 then None else pending_task_storage s (k_task k)) of
     None \<Rightarrow> None | Some st \<Rightarrow> if pts_valid st \<noteq> 0 then Some (pts_syscall st) else None) s"
  by (simp add: current_pending_syscall_def wp_simps)

text \<open>The syscall in flight of the current task.\<close>

definition in_flight :: "kernel \<Rightarrow> machine \<Rightarrow> pending_syscall option" where
  "in_flight k s = result (current_pending_syscall k) s"

lemma in_flight_eq:
  "in_flight k s = (if k_task k = 0 then None else case pending_task_storage s (k_task k) of
     None \<Rightarrow> None | Some st \<Rightarrow> if pts_valid st \<noteq> 0 then Some (pts_syscall st) else None)"
  using wp_current_pending_syscall [of k "\<lambda>x _. x = in_flight k s" s]
  by (auto simp: wp_def in_flight_def split: option.splits if_splits)

lemma current_pending_syscall_keeps [simp]: "exec (current_pending_syscall k) s = s"
  using wp_current_pending_syscall [of k "\<lambda>_ t. t = s" s] by (simp add: wp_def)

lemma save_stack_storage:
  "state_io_rel (same pending_task_storage) (only_if b (do {
     ok \<leftarrow> bpf_map_update k (\<lambda>s. s\<lparr>pending_stack_map := f s\<rparr>);
     only_if (\<not> ok) (record_pending_update_fail k) }))"
  by (intro same.io_rules io_map_update reports_fields reports_intros) simp_all

lemma save_pending_value_spec:
  assumes "k_task k \<noteq> 0" "pending_task_storage s (k_task k) \<noteq> None \<or> k_storage_create k (tick s)"
  shows "wp (save_pending_syscall_value k p) (\<lambda>ok t. ok \<and>
     (\<exists>cpu. pending_task_storage t = (pending_task_storage s)(k_task k \<mapsto>
        \<lparr>pts_syscall = p\<lparr>ps_cpu_enter_time := cpu\<rparr>, pts_namespace_snapshot = zero_namespace_snapshot,
         pts_aux0 = 0, pts_valid = 1\<rparr>))) s"
  unfolding save_pending_syscall_value_def using assms save_stack_storage
  by (auto simp: wp_def run_bind_parts only_if_def [symmetric] pending_defs current_task_cpu_runtime_def
      Let_def next_tick_def core_read_def same_exec simp del: run_state_bind split: option.split)

lemma save_pending_value_refused:
  assumes "k_task k = 0 \<or> (pending_task_storage s (k_task k) = None \<and> \<not> k_storage_create k (tick s))"
  shows "wp (save_pending_syscall_value k p) (\<lambda>ok t. \<not> ok \<and>
     pending_task_storage t = pending_task_storage s) s"
proof -
  have "pending_task_storage (exec (record_pending_update_fail k) u) = pending_task_storage u" for u
    by (rule same_exec [OF reports_fields(3)]) (rule reports_intros)
  then show ?thesis
    using assms by (auto simp: save_pending_syscall_value_def wp_def run_bind_parts pending_defs
        next_tick_def simp del: run_state_bind)
qed

text \<open>
  Saving at syscall enter and looking up at syscall exit agree.  When the task has (or gets)
  its storage, the syscall in flight afterwards is the one saved, with all its arguments, the auxiliary
  word is reset and no other task's state changes; when the kernel refuses the storage, nothing is
  stored for any task.
\<close>

theorem save_pending_syscall_args_in_flight:
  assumes "k_task k \<noteq> 0"
  shows "let t = exec (save_pending_syscall_args k tid pid sys_id ctx enter_time stack_id) s in
    if pending_task_storage s (k_task k) \<noteq> None \<or> k_storage_create k (tick s)
    then (\<exists>cpu. in_flight k t = Some \<lparr>ps_enter_time = enter_time, ps_cpu_enter_time = cpu,
            ps_args = sec_args ctx, ps_pid = pid, ps_sys_id = sys_id, ps_tid = tid, ps_stack_id = stack_id\<rparr>) \<and>
         result (lookup_pending_syscall_aux0 k tid) t = 0 \<and>
         (\<forall>task. task \<noteq> k_task k \<longrightarrow> pending_task_storage t task = pending_task_storage s task)
    else pending_task_storage t = pending_task_storage s"
proof (cases "pending_task_storage s (k_task k) \<noteq> None \<or> k_storage_create k (tick s)")
  case True
  note save_pending_value_spec [OF assms True, of "zero_pending_syscall\<lparr>ps_enter_time := enter_time,
       ps_args := sec_args ctx, ps_pid := pid, ps_sys_id := sys_id, ps_tid := tid, ps_stack_id := stack_id\<rparr>"]
  with True show ?thesis
    by (auto simp: save_pending_syscall_args_def wp_def run_bind_parts in_flight_eq assms Let_def
        zero_pending_syscall_def pending_defs simp del: run_state_bind)
next
  case False
  note save_pending_value_refused [of k s "zero_pending_syscall\<lparr>ps_enter_time := enter_time,
       ps_args := sec_args ctx, ps_pid := pid, ps_sys_id := sys_id, ps_tid := tid, ps_stack_id := stack_id\<rparr>"]
  with False show ?thesis
    by (simp add: Let_def save_pending_syscall_args_def wp_def run_bind_parts del: run_state_bind)
qed

theorem save_pending_syscall_args_in_flight_witness:
  "result (lookup_pending_syscall_aux0 (sample_kernel 1 2) 2)
     (exec (save_pending_syscall_args (sample_kernel 1 2) 2 1 257 \<lparr>sec_id = 257, sec_args = Args 1 2 3 4 5 6\<rparr> 9 3)
       (boot_machine 0)) = 0"
  using save_pending_syscall_args_in_flight [of "sample_kernel 1 2" 2 1 257
      "\<lparr>sec_id = 257, sec_args = Args 1 2 3 4 5 6\<rparr>" 9 3 "boot_machine 0"]
  by (simp add: Let_def sample_kernel_def boot_machine_def split: if_splits)

text \<open>
  Clearing the pending state leaves no syscall in flight and a zero auxiliary word, and drops the
  stack entry of the cleared syscall exactly when it had one.
\<close>

theorem clear_pending_task_state_spec:
  "let t = exec (clear_pending_task_state k) s in
    in_flight k t = None \<and> result (lookup_pending_syscall_aux0 k tid) t = 0 \<and>
    pending_stack_map t = (case in_flight k s of
       None \<Rightarrow> pending_stack_map s
     | Some p \<Rightarrow> if 0 \<le> sint (ps_stack_id p) then (pending_stack_map s)(ps_tid p := None)
                 else pending_stack_map s)"
  by (auto simp: Let_def clear_pending_task_state_def in_flight_eq pending_defs run_bind_parts only_if_def
      simp del: run_state_bind split: option.splits)

text \<open>
  A compact enter record reaches the consumer whole: when the ring buffer has room, exactly one
  record is appended, and the decoder reads from it the task, the syscall, the six arguments, the
  enter time and the sequence number of this CPU.
\<close>

theorem compact_enter_roundtrip:
  assumes "k_reserve k (tick s) 128"
  shows "\<exists>r env. events (exec (emit_compact_syscall_enter_event_v2_direct k pid tid sys_id ctx ts) s) = events s @ [r] \<and>
     decodeTraceEventV2Envelope r = Some env \<and> env_event_type env = EVENT_TYPE_ENTER \<and>
     env_pid env = pid \<and> env_tid env = tid \<and> env_sys_id env = sys_id \<and> env_args env = sec_args ctx \<and>
     env_enter_time env = ts \<and> env_seq env = next_seq k s"
proof -
  let ?Q = "\<lambda>_ t. \<exists>h. header_spec EVENT_TYPE_ENTER (EVENT_FLAG_GENERIC_ENTER OR EVENT_FLAG_COMPACT_ENTER)
       pid tid sys_id 128 ts (next_seq k s) h \<and> events t = events s @ [enc_header h @ enc_args (sec_args ctx)]"
  have "wp (emit_compact_syscall_enter_event_v2_direct k pid tid sys_id ctx ts) ?Q s"
    unfolding emit_compact_syscall_enter_event_v2_direct_def Let_def
  proof (rule with_reservation_content)
    fix u :: machine and d assume u: "reservation u = Some d" "length d = 80 + 48" "events u = events s"
    show "wp (commit_event k (init_syscall_event_v2_header_direct k (zero_header (next_seq k s)) EVENT_TYPE_ENTER
        (EVENT_FLAG_GENERIC_ENTER OR EVENT_FLAG_COMPACT_ENTER) pid tid sys_id (80 + 48) ts)
        (return (enc_args (sec_args ctx)))) ?Q u"
      by (rule wp_mono [OF commit_content [OF keeps_core2(1) keeps_return u(1),
          where H = "header_spec EVENT_TYPE_ENTER (EVENT_FLAG_GENERIC_ENTER OR EVENT_FLAG_COMPACT_ENTER)
             pid tid sys_id 128 ts (next_seq k s)" and B = "\<lambda>b. b = enc_args (sec_args ctx)"]])
         (use u init_header_spec [of _ _ pid tid sys_id 128 ts "zero_header (next_seq k s)"] in auto)
  qed (use assms in simp)
  then obtain h where h: "header_spec EVENT_TYPE_ENTER (EVENT_FLAG_GENERIC_ENTER OR EVENT_FLAG_COMPACT_ENTER)
       pid tid sys_id 128 ts (next_seq k s) h"
      "events (exec (emit_compact_syscall_enter_event_v2_direct k pid tid sys_id ctx ts) s) =
         events s @ [enc_header h @ enc_args (sec_args ctx)]"
    by (auto simp: wp_def)
  with decode_compact_of [OF h(1), of "sec_args ctx"] show ?thesis by auto
qed

theorem compact_enter_roundtrip_witness:
  "\<exists>r env. events (exec (emit_compact_syscall_enter_event_v2_direct (sample_kernel 1 2) 1 2 39
       \<lparr>sec_id = 39, sec_args = Args 1 2 3 4 5 6\<rparr> 50) (boot_machine 4)) = [] @ [r] \<and>
     decodeTraceEventV2Envelope r = Some env \<and> env_args env = Args 1 2 3 4 5 6 \<and> env_seq env = 1"
  using compact_enter_roundtrip [of "sample_kernel 1 2" "boot_machine 4" 1 2 39
      "\<lparr>sec_id = 39, sec_args = Args 1 2 3 4 5 6\<rparr>" 50]
  by (auto simp: sample_kernel_def boot_machine_def next_seq_def zero_stats_def)

end
