(* ===== verification/Lifecycle_Event.thy ===== *)
theory Lifecycle_Event
  imports Syscall_Event_Core
begin

text \<open>
  \<^verbatim>\<open>bpf/lifecycle_event_v2.h\<close>, \<^verbatim>\<open>bpf/signal_event_v2.h\<close>, \<^verbatim>\<open>bpf/signal_dispatch.h\<close> and
  \<^verbatim>\<open>bpf/unsupported_abi.h\<close>: the lifecycle and signal records, the test whether a task is tracked, and
  the two signal tracepoint programs.
\<close>

section \<open>Lifecycle records\<close>

definition init_lifecycle_event_v2_header ::
    "kernel \<Rightarrow> event_v2_header \<Rightarrow> u32 \<Rightarrow> u32 \<Rightarrow> nat \<Rightarrow> u64 \<Rightarrow> event_v2_header bpf" where
  "init_lifecycle_event_v2_header k header pid tid out_size ts_ns = do {
     h \<leftarrow> capture_event_integrity k (header\<lparr>hdr_version := EVENT_VERSION,
       hdr_event_type := EVENT_TYPE_LIFECYCLE, hdr_flags := 0, hdr_header_len := 80,
       hdr_size := of_nat out_size, hdr_pid := pid, hdr_tid := tid, hdr_sys_id := 0\<rparr>);
     capture_event_v2_comm k (h\<lparr>hdr_ts_ns := ts_ns\<rparr>) }"

definition init_lifecycle_event_v2_body :: "u32 \<Rightarrow> u32 \<Rightarrow> u64 \<Rightarrow> u64 \<Rightarrow> lifecycle_event_v2" where
  "init_lifecycle_event_v2_body kind snapshot_len a0 a1 =
     \<lparr>lif_action = kind, lif_snapshot_len = snapshot_len, lif_args = Args a0 a1 0 0 0 0\<rparr>"

text \<open>The snapshot string, copied behind the body; the result is the number of bytes copied.\<close>

definition capture_lifecycle_snapshot :: "kernel \<Rightarrow> nat \<Rightarrow> u64 \<Rightarrow> nat bpf" where
  "capture_lifecycle_snapshot k payload_offset snapshot_str =
     (if snapshot_str = 0 then return 0
      else do {
        payload \<leftarrow> bpf_dynptr_data payload_offset LIFECYCLE_SNAPSHOT_MAX;
        if \<not> payload then do { record_ringbuf_copy_fail k; return 0 }
        else do {
          (n, bs) \<leftarrow> bpf_probe_read_kernel_str k LIFECYCLE_SNAPSHOT_MAX snapshot_str;
          mem_store payload_offset bs;
          return (if n > 0 then nat n else 0) } })"

definition emit_lifecycle_event_v2_direct ::
    "kernel \<Rightarrow> u32 \<Rightarrow> u32 \<Rightarrow> u32 \<Rightarrow> u64 \<Rightarrow> u64 \<Rightarrow> u64 \<Rightarrow> unit bpf" where
  "emit_lifecycle_event_v2_direct k kind pid tid a0 a1 snapshot_str =
     (let payload_capacity = (if snapshot_str \<noteq> 0 then LIFECYCLE_SNAPSHOT_MAX else 0);
          payload_offset = EVENT_V2_HEADER_LEN + EVENT_V2_LIFECYCLE_BODY_LEN;
          out_size = EVENT_V2_HEADER_LEN + EVENT_V2_LIFECYCLE_BODY_LEN + payload_capacity
      in with_reservation k out_size (\<lambda>sequence. do {
           payload_size \<leftarrow> capture_lifecycle_snapshot k payload_offset snapshot_str;
           commit_event k
             (do { ts_ns \<leftarrow> bpf_ktime_get_ns k;
                   init_lifecycle_event_v2_header k (zero_header sequence) pid tid out_size ts_ns })
             (return (enc_lifecycle_body (init_lifecycle_event_v2_body kind (of_nat payload_size) a0 a1))) }))"

definition emit_lifecycle_event ::
    "kernel \<Rightarrow> u32 \<Rightarrow> u32 \<Rightarrow> u32 \<Rightarrow> u64 \<Rightarrow> u64 \<Rightarrow> u64 \<Rightarrow> unit bpf" where
  "emit_lifecycle_event k kind pid tid a0 a1 snapshot_str = do {
     cfg \<leftarrow> gets config_map;
     case cfg of
       None \<Rightarrow> return ()
     | Some c \<Rightarrow>
         if \<not> has_flag c CONFIG_EMIT_LIFECYCLE then return ()
         else emit_lifecycle_event_v2_direct k kind pid tid a0 a1 snapshot_str }"

section \<open>Tracked tasks\<close>

definition tracked_flags :: "(u32 \<rightharpoonup> u32) \<Rightarrow> u32 \<Rightarrow> u32 option" where
  "tracked_flags m key = (case m key of
     None \<Rightarrow> None | Some flags \<Rightarrow> if has_flag flags FILTER_TASK_TRACKED then Some flags else None)"

definition lookup_lifecycle_task_filter_flags :: "u32 \<Rightarrow> u32 \<Rightarrow> u32 option bpf" where
  "lookup_lifecycle_task_filter_flags pid tid = do {
     m \<leftarrow> gets filter_map;
     return (case tracked_flags m pid of
        Some flags \<Rightarrow> Some flags
      | None \<Rightarrow> if tid \<noteq> pid then tracked_flags m tid else None) }"

definition is_lifecycle_task_tracked :: "u32 \<Rightarrow> u32 \<Rightarrow> bool bpf" where
  "is_lifecycle_task_tracked pid tid = do {
     flags \<leftarrow> lookup_lifecycle_task_filter_flags pid tid;
     return (flags \<noteq> None) }"

definition mark_attach_task_exited :: "kernel \<Rightarrow> u32 \<Rightarrow> unit bpf" where
  "mark_attach_task_exited k tid =
     (if tid = 0 then return ()
      else do {
        root \<leftarrow> gets (\<lambda>s. attach_roots_map s tid);
        case root of
          None \<Rightarrow> return ()
        | Some _ \<Rightarrow> do {
            ok \<leftarrow> bpf_map_update k (\<lambda>s. s\<lparr>attach_exited_map := (attach_exited_map s)(tid \<mapsto> 1)\<rparr>);
            only_if (\<not> ok) (record_lifecycle_map_update_fail k) } })"

section \<open>Signals\<close>

text \<open>
  \<^verbatim>\<open>bpf_ringbuf_reserve\<close> gives a pointer: every field of header and body is assigned through it, so that the whole
  record is what is stored here.
\<close>

definition emit_signal_event_v2 :: "kernel \<Rightarrow> u32 \<Rightarrow> u32 \<Rightarrow> signal_event_v2 \<Rightarrow> unit bpf" where
  "emit_signal_event_v2 k pid tid body =
     attempt k (EVENT_V2_HEADER_LEN + EVENT_V2_SIGNAL_BODY_LEN) (return ()) (\<lambda>sequence. do {
       h \<leftarrow> capture_event_integrity k ((zero_header sequence)\<lparr>hdr_version := EVENT_VERSION,
         hdr_event_type := EVENT_TYPE_SIGNAL, hdr_flags := 0, hdr_header_len := 80,
         hdr_size := 136, hdr_pid := pid, hdr_tid := tid, hdr_sys_id := 0\<rparr>);
       ts_ns \<leftarrow> bpf_ktime_get_ns k;
       h' \<leftarrow> capture_event_v2_comm k (h\<lparr>hdr_ts_ns := ts_ns\<rparr>);
       mem_store 0 (enc_header h');
       mem_store EVENT_V2_HEADER_LEN (enc_signal_body body);
       bpf_ringbuf_submit })"

abbreviation (input) SIGNAL_NUMBER_CHLD :: u32 where "SIGNAL_NUMBER_CHLD \<equiv> 17"

definition target_pending_stack_id :: "u32 \<Rightarrow> s32 bpf" where
  "target_pending_stack_id tid = do {
     stack_id \<leftarrow> gets (\<lambda>s. pending_stack_map s tid);
     return (case stack_id of None \<Rightarrow> -1 | Some x \<Rightarrow> x) }"

definition zero_signal_event :: signal_event_v2 where
  "zero_signal_event = \<lparr>sig_signo = 0, sig_error = 0, sig_code = 0, sig_sender_pid = 0,
     sig_sender_uid = 0, sig_stack_id = 0, sig_address = 0, sig_child_status = 0, sig_reserved = 0,
     sig_child_user_time = 0, sig_child_system_time = 0\<rparr>"

text \<open>
  \<^verbatim>\<open>bpf_core_read(&field, sizeof(field), &info->member)\<close>: a faulting read leaves zero.  The result is
  None where the C function returns -1.
\<close>

definition populate_signal_event_v2 ::
    "kernel \<Rightarrow> u64 \<Rightarrow> u32 \<Rightarrow> u32 \<Rightarrow> signal_event_v2 \<Rightarrow> signal_event_v2 option bpf" where
  "populate_signal_event_v2 k info_address signo config body =
     (if info_address \<le> 1 then return None
      else do {
        stack_id \<leftarrow> (if has_flag config CONFIG_CAPTURE_STACK then bpf_get_stackid k else return (-1));
        (_, err) \<leftarrow> core_read_into k ''si_errno'' info_address;
        (_, code) \<leftarrow> core_read_into k ''si_code'' info_address;
        (_, pid) \<leftarrow> core_read_into k ''_sifields._kill._pid'' info_address;
        (_, uid) \<leftarrow> core_read_into k ''_sifields._kill._uid'' info_address;
        (_, addr) \<leftarrow> core_read_into k ''_sifields._sigfault._addr'' info_address;
        let b = body\<lparr>sig_signo := signo, sig_stack_id := stack_id, sig_error := ucast err,
          sig_code := ucast code, sig_sender_pid := ucast pid, sig_sender_uid := ucast uid,
          sig_address := addr\<rparr>;
        if signo = SIGNAL_NUMBER_CHLD then do {
          (_, status) \<leftarrow> core_read_into k ''_sifields._sigchld._status'' info_address;
          (_, utime) \<leftarrow> core_read_into k ''_sifields._sigchld._utime'' info_address;
          (_, stime) \<leftarrow> core_read_into k ''_sifields._sigchld._stime'' info_address;
          return (Some (b\<lparr>sig_child_status := ucast status, sig_child_user_time := utime,
            sig_child_system_time := stime\<rparr>)) }
        else return (Some b) })"

text \<open>\<^verbatim>\<open>struct bpf_raw_tracepoint_args\<close> of the two programs: signal number, siginfo, target task.\<close>

record signal_ctx =
  sgc_arg0 :: u64
  sgc_arg1 :: u64
  sgc_arg2 :: u64

definition trace_signal_deliver :: "kernel \<Rightarrow> signal_ctx \<Rightarrow> unit bpf" where
  "trace_signal_deliver k ctx = do {
     tracked \<leftarrow> is_lifecycle_task_tracked (cur_pid k) (cur_tid k);
     if \<not> tracked then return ()
     else do {
       config \<leftarrow> gets config_map;
       case config of
         None \<Rightarrow> return ()
       | Some c \<Rightarrow>
           if \<not> has_flag c CONFIG_EMIT_SIGNAL then return ()
           else let signo = ucast (sgc_arg0 ctx) in
             if signo = SIGNAL_NUMBER_CHLD then return ()
             else do {
               body \<leftarrow> populate_signal_event_v2 k (sgc_arg1 ctx) signo c zero_signal_event;
               case body of
                 None \<Rightarrow> return ()
               | Some b \<Rightarrow> emit_signal_event_v2 k (cur_pid k) (cur_tid k) b } } }"

definition trace_signal_generate :: "kernel \<Rightarrow> signal_ctx \<Rightarrow> unit bpf" where
  "trace_signal_generate k ctx =
     (let signo = ucast (sgc_arg0 ctx); target = sgc_arg2 ctx in
      if signo \<noteq> SIGNAL_NUMBER_CHLD then return ()
      else if target = 0 then return ()
      else do {
        pid \<leftarrow> core_read k ''tgid'' target;
        tid \<leftarrow> core_read k ''pid'' target;
        tracked \<leftarrow> is_lifecycle_task_tracked (ucast pid) (ucast tid);
        if \<not> tracked then return ()
        else do {
          config \<leftarrow> gets config_map;
          case config of
            None \<Rightarrow> return ()
          | Some c \<Rightarrow>
              if \<not> has_flag c CONFIG_EMIT_SIGNAL then return ()
              else do {
                body \<leftarrow> populate_signal_event_v2 k (sgc_arg1 ctx) signo
                  (c AND NOT CONFIG_CAPTURE_STACK) zero_signal_event;
                case body of
                  None \<Rightarrow> return ()
                | Some b \<Rightarrow> do {
                    stack_id \<leftarrow> target_pending_stack_id (ucast tid);
                    emit_signal_event_v2 k (ucast pid) (ucast tid) (b\<lparr>sig_stack_id := stack_id\<rparr>) } } } })"

section \<open>Unsupported syscall ABIs\<close>

abbreviation (input) NATIVE_X86_TS_COMPAT :: u32 where "NATIVE_X86_TS_COMPAT \<equiv> 2"
abbreviation (input) NATIVE_X86_X32_SYSCALL_BIT :: u32 where "NATIVE_X86_X32_SYSCALL_BIT \<equiv> 0x40000000"

definition current_syscall_has_native_abi :: "kernel \<Rightarrow> u32 \<Rightarrow> bool bpf" where
  "current_syscall_has_native_abi k sys_id =
     (if has_flag sys_id NATIVE_X86_X32_SYSCALL_BIT then return False
      else do {
        (err, status) \<leftarrow> core_read_into k ''thread_info.status'' (k_task k);
        if err < 0 then return False
        else return (\<not> has_flag (ucast status) NATIVE_X86_TS_COMPAT) })"

definition delete_pending_exec :: "u32 \<Rightarrow> unit bpf" where
  "delete_pending_exec pid = modify (\<lambda>s. s\<lparr>pending_exec_map := (pending_exec_map s)(pid := None)\<rparr>)"

definition reject_unsupported_syscall_abi :: "kernel \<Rightarrow> u32 \<Rightarrow> u32 \<Rightarrow> u32 \<Rightarrow> bool bpf" where
  "reject_unsupported_syscall_abi k pid tid sys_id = do {
     native \<leftarrow> current_syscall_has_native_abi k sys_id;
     if native then return False
     else do {
       clear_pending_task_state k;
       delete_pending_exec pid;
       sequence \<leftarrow> next_event_sequence k;
       ts_ns \<leftarrow> bpf_ktime_get_ns k;
       header \<leftarrow> init_lifecycle_event_v2_header k (zero_header sequence) pid tid EVENT_V2_HEADER_LEN ts_ns;
       ok \<leftarrow> bpf_ringbuf_output k (enc_header (header\<lparr>hdr_event_type := EVENT_TYPE_UNSUPPORTED_ABI,
         hdr_sys_id := sys_id\<rparr>));
       only_if (\<not> ok) (record_ringbuf_reserve_fail k);
       return True } }"

section \<open>Reporting and accounting\<close>

lemma reports_lifecycle_headers [reports_intros]:
  "reports (init_lifecycle_event_v2_header k h pid tid n ts)"
  "reports (capture_lifecycle_snapshot k off str)"
  "reports (lookup_lifecycle_task_filter_flags pid tid)"
  "reports (target_pending_stack_id tid)"
  "reports (populate_signal_event_v2 k info signo config body)"
  "reports (current_syscall_has_native_abi k sys_id)"
  unfolding init_lifecycle_event_v2_header_def capture_lifecycle_snapshot_def
    lookup_lifecycle_task_filter_flags_def target_pending_stack_id_def populate_signal_event_v2_def
    current_syscall_has_native_abi_def
  by (intro reports_rules reports_intros)+

lemma reports_attempt [reports_intros]:
  "reports on_fail \<Longrightarrow> (\<And>sequence. reports (body sequence)) \<Longrightarrow> reports (attempt k n on_fail body)"
  unfolding attempt_def by (intro reports_rules reports_intros)

lemma reports_lifecycle_emitters [reports_intros]:
  "reports (is_lifecycle_task_tracked pid tid)"
  "reports (emit_lifecycle_event_v2_direct k kind pid tid a0 a1 str)"
  "reports (emit_signal_event_v2 k pid tid sg)"
  unfolding is_lifecycle_task_tracked_def emit_lifecycle_event_v2_direct_def emit_signal_event_v2_def Let_def
  by (intro reports_rules reports_intros)+

lemma reports_lifecycle_emitters2 [reports_intros]:
  "reports (emit_lifecycle_event k kind pid tid a0 a1 str)"
  "reports (trace_signal_deliver k sctx)"
  "reports (trace_signal_generate k sctx)"
  unfolding emit_lifecycle_event_def trace_signal_deliver_def trace_signal_generate_def Let_def
  by (intro reports_rules reports_intros)+

lemma silent_lifecycle [silent_intros]:
  "silent k (init_lifecycle_event_v2_header k' h pid tid n ts)"
  "silent k (capture_lifecycle_snapshot k off str)"
  "silent k (lookup_lifecycle_task_filter_flags pid tid)"
  "silent k (target_pending_stack_id tid)"
  "silent k (populate_signal_event_v2 k' info signo config body)"
  "silent k (current_syscall_has_native_abi k' sys_id)"
  "silent k (delete_pending_exec pid)"
  unfolding init_lifecycle_event_v2_header_def capture_lifecycle_snapshot_def delete_pending_exec_def
    lookup_lifecycle_task_filter_flags_def target_pending_stack_id_def populate_signal_event_v2_def
    current_syscall_has_native_abi_def
  by (intro silent_rules silent_intros silent_modify; simp)+

lemma silent_lifecycle2 [silent_intros]:
  "silent k (is_lifecycle_task_tracked pid tid)"
  "silent k (mark_attach_task_exited k tid)"
  unfolding is_lifecycle_task_tracked_def mark_attach_task_exited_def
  by (intro silent_rules silent_intros silent_map_update; simp)+

lemma keeps_lifecycle [keeps_intros]:
  "keeps (init_lifecycle_event_v2_header k h pid tid n ts)"
  unfolding init_lifecycle_event_v2_header_def by (intro keeps_rules keeps_intros)

lemma init_lifecycle_header_spec:
  "header_spec EVENT_TYPE_LIFECYCLE 0 pid tid 0 n ts (hdr_seq h0)
     (result (init_lifecycle_event_v2_header k h0 pid tid n ts) s)"
  by (simp add: init_lifecycle_event_v2_header_def header_spec_def capture_event_integrity_def
      capture_event_v2_comm_def split: option.split)

lemma stamps_lifecycle_header:
  "stamps k (hdr_seq h0) (do { ts_ns \<leftarrow> bpf_ktime_get_ns k; init_lifecycle_event_v2_header k h0 pid tid n ts_ns })"
  by (simp add: stamps_def Let_def init_lifecycle_event_v2_header_def capture_event_integrity_def
      capture_event_v2_comm_def bpf_ktime_get_ns_def next_tick_def cell_def split: option.split)

lemma snapshot_size:
  "yields (136 + (if str \<noteq> 0 then 4096 else 0)) (capture_lifecycle_snapshot k 136 str)
     (\<lambda>n. n \<le> (if str \<noteq> 0 then 4096 else 0))"
  using length_str_bytes_le [of 4096]
  by (auto simp: yields_def capture_lifecycle_snapshot_def run_bind_parts bpf_probe_read_kernel_str_def
      bpf_dynptr_data_def nat_le_iff simp del: run_state_bind)

text \<open>What the decoder reads from a lifecycle record.\<close>

lemma lifecycle_body_parts [simp]:
  "rd32 0 (enc_lifecycle_body b @ rest) = lif_action b"
  "rd32 4 (enc_lifecycle_body b @ rest) = lif_snapshot_len b"
  "traceEventV2Args (bslice 8 48 (enc_lifecycle_body b @ rest)) = lif_args b"
  by (simp_all add: rd_defs body_fields(1) [OF length_enc_lifecycle_body] layout)

lemma payload_of_lifecycle:
  "unat n \<le> length rest \<Longrightarrow>
     traceEventV2Payload (enc_lifecycle_body b @ rest) EVENT_V2_LIFECYCLE_BODY_LEN n = Some (take (unat n) rest)"
  by (simp add: traceEventV2Payload_def body_fields(2) [OF length_enc_lifecycle_body])

lemma decode_lifecycle_of:
  assumes "header_spec EVENT_TYPE_LIFECYCLE flags pid tid sys_id n ts sequence h" "n < 2 ^ 32"
    and "136 + length area = n" "unat (lif_snapshot_len b) \<le> length area"
  shows "\<exists>env. decodeTraceEventV2Envelope (enc_header h @ enc_lifecycle_body b @ area) = Some env \<and>
    env_event_type env = EVENT_TYPE_LIFECYCLE \<and> env_pid env = pid \<and> env_tid env = tid \<and>
    env_lifecycle_action env = lif_action b \<and> env_seq env = sequence \<and>
    env_args env = (if lif_action b = LIFECYCLE_FORK
      then Args (ucast (ucast (arg0 (lif_args b)) :: u32)) (arg1 (lif_args b)) (arg2 (lif_args b))
             (arg3 (lif_args b)) (arg4 (lif_args b)) (arg5 (lif_args b))
      else lif_args b) \<and>
    env_snapshot_text env = c_string (take (unat (lif_snapshot_len b)) area)"
proof -
  have "header_for h (length (enc_header h @ enc_lifecycle_body b @ area))"
    using header_spec_for [OF assms(1)] assms(2,3) by (simp add: event_type_known_def)
  then show ?thesis
    using assms
    by (simp add: decodeTraceEventV2Envelope_def decode_header_of header_view_def header_spec_def
        decodeTraceEventV2LifecycleEnvelope_def payload_of_lifecycle Let_def layout)
qed

lemma emits_lifecycle:
  assumes "n = 136 + cap" "m \<le> cap" "cap \<le> 4096"
  shows "emits k q {} n (commit_event k
     (do { ts_ns \<leftarrow> bpf_ktime_get_ns k; init_lifecycle_event_v2_header k (zero_header q) pid tid n ts_ns })
     (return (enc_lifecycle_body (init_lifecycle_event_v2_body kind (of_nat m) a0 a1))))"
proof (rule emits_commit [where H = "\<lambda>h. \<exists>ts. header_spec EVENT_TYPE_LIFECYCLE 0 pid tid 0 n ts q h"
      and B = "\<lambda>b. b = enc_lifecycle_body (init_lifecycle_event_v2_body kind (of_nat m) a0 a1)"])
  fix h and b area :: bytes
  assume h: "\<exists>ts. header_spec EVENT_TYPE_LIFECYCLE 0 pid tid 0 n ts q h"
    and b: "b = enc_lifecycle_body (init_lifecycle_event_v2_body kind (of_nat m) a0 a1)"
    and len: "80 + length b + length area = n"
  obtain ts where h: "header_spec EVENT_TYPE_LIFECYCLE 0 pid tid 0 n ts q h" using h by blast
  have "unat (of_nat m :: u32) \<le> length area"
    using assms b len by (simp add: unat_of_nat take_bit_nat_eq_self)
  then show "accepted (enc_header h @ b @ area)"
    using b len assms h framed_plain [of h "b @ area"]
      decode_lifecycle_of [OF h, of area "init_lifecycle_event_v2_body kind (of_nat m) a0 a1"]
    by (auto simp: accepted_def init_lifecycle_event_v2_body_def header_spec_def)
qed (use init_lifecycle_header_spec [of _ _ _ _ "zero_header q"] stamps_lifecycle_header [of k "zero_header q"] in \<open>auto simp: run_bind_parts init_lifecycle_event_v2_header_def
      intro!: silent_rules silent_intros exI keeps_reservation keeps_rules keeps_intros simp del: run_state_bind\<close>)

lemma accounted_lifecycle_direct [accounted_intros]:
  "accounted k (emit_lifecycle_event_v2_direct k kind pid tid a0 a1 str)"
  unfolding emit_lifecycle_event_v2_direct_def Let_def
proof (rule accounted_with_reservation, rule emits_bind)
  show "yields (80 + 56 + (if str \<noteq> 0 then 4096 else 0)) (capture_lifecycle_snapshot k (80 + 56) str)
     (\<lambda>n. n \<le> (if str \<noteq> 0 then 4096 else 0))"
    using snapshot_size [of str k] by simp
  show "silent k (capture_lifecycle_snapshot k (80 + 56) str)" by (rule silent_intros)
qed (auto intro!: emits_lifecycle)

lemma accounted_lifecycle [accounted_intros]: "accounted k (emit_lifecycle_event k kind pid tid a0 a1 str)"
  unfolding emit_lifecycle_event_def by (intro accounted_rules accounted_intros)

text \<open>The signal record is stored through a pointer; the two stores cover it whole.\<close>

lemma accepted_signal:
  assumes "header_spec EVENT_TYPE_SIGNAL 0 pid tid 0 136 ts sequence h"
  shows "accepted (enc_header h @ enc_signal_body b)"
proof -
  have "header_for h (length (enc_header h @ enc_signal_body b))"
    using header_spec_for [OF assms] by (simp add: event_type_known_def)
  then show ?thesis
    using assms framed_plain [of h "enc_signal_body b"]
    by (simp add: accepted_def decodeTraceEventV2Envelope_def decode_header_of header_view_def header_spec_def
        decodeTraceEventV2SignalEnvelope_def)
qed

lemma closes_stored_record:
  assumes "reservation s = Some d" "length d = length r1 + length r2" "accepted (r1 @ r2)"
    and "stamped (k_cpu k) q (r1 @ r2)" "loss_stamp (r1 @ r2) \<in> L"
  shows "wp (do { mem_store 0 r1; mem_store (length r1) r2; bpf_ringbuf_submit }) (\<lambda>_. closes (k_cpu k) q L s) s"
proof -
  have "poke (poke d 0 r1) (length r1) r2 = r1 @ r2"
    using poke_twice [of r1 r2 d] assms(2) by simp
  moreover have "wp bpf_ringbuf_submit (\<lambda>_. closes (k_cpu k) q L u) u" if "reservation u = Some (r1 @ r2)" for u
    by (rule closes_submit [OF that assms(3-5)])
  from this [of "s\<lparr>reservation := Some (r1 @ r2)\<rparr>"]
  have "wp bpf_ringbuf_submit (\<lambda>_. closes (k_cpu k) q L s) (s\<lparr>reservation := Some (r1 @ r2)\<rparr>)" by simp
  ultimately show ?thesis using assms by (simp add: wp_bind wp_mem_store)
qed

lemma emits_stored_record:
  "n = length r1 + length r2 \<Longrightarrow> accepted (r1 @ r2) \<Longrightarrow> stamped (k_cpu k) q (r1 @ r2) \<Longrightarrow> loss_stamp (r1 @ r2) \<in> L \<Longrightarrow>
     emits k q L n (do { mem_store 0 r1; mem_store (length r1) r2; bpf_ringbuf_submit })"
  using closes_stored_record by (auto simp: emits_def)

lemma stamps_capture: "hdr_header_len h = 80 \<Longrightarrow> stamps k (hdr_seq h) (capture_event_integrity k h)"
  by (simp add: stamps_def Let_def capture_event_integrity_def cell_def split: option.split)

lemma accounted_signal [accounted_intros]: "accounted k (emit_signal_event_v2 k pid tid b)"
  unfolding emit_signal_event_v2_def
proof (rule accounted_attempt)
  fix q
  let ?h0 = "(zero_header q)\<lparr>hdr_version := EVENT_VERSION, hdr_event_type := EVENT_TYPE_SIGNAL, hdr_flags := 0,
    hdr_header_len := 80, hdr_size := 136, hdr_pid := pid, hdr_tid := tid, hdr_sys_id := 0\<rparr>"
  let ?P = "\<lambda>h. hdr_version h = EVENT_VERSION \<and> hdr_event_type h = EVENT_TYPE_SIGNAL \<and> hdr_flags h = 0 \<and>
    hdr_size h = 136 \<and> hdr_pid h = pid \<and> hdr_tid h = tid \<and> hdr_sys_id h = 0"
  show "emits k q {} (80 + 56) (do {
       h \<leftarrow> capture_event_integrity k ?h0;
       ts_ns \<leftarrow> bpf_ktime_get_ns k;
       h' \<leftarrow> capture_event_v2_comm k (h\<lparr>hdr_ts_ns := ts_ns\<rparr>);
       mem_store 0 (enc_header h');
       mem_store EVENT_V2_HEADER_LEN (enc_signal_body b);
       bpf_ringbuf_submit })"
  proof (rule emits_bind_header [where P = ?P], rule silent_intros)
    show "stamps k q (capture_event_integrity k ?h0)" using stamps_capture [of ?h0 k] by (simp add: zero_header_def)
    fix h :: event_v2_header
    assume h: "?P h" "hdr_header_len h = 80" "hdr_cpu h = k_cpu k" "hdr_seq h = q"
    let ?Q = "\<lambda>h'. ?P h' \<and> hdr_header_len h' = 80 \<and> hdr_cpu h' = k_cpu k \<and> hdr_seq h' = q \<and>
      (hdr_loss_epoch h', hdr_loss_time_ns h') = (hdr_loss_epoch h, hdr_loss_time_ns h)"
    show "emits k q {(hdr_loss_epoch h, hdr_loss_time_ns h)} (80 + 56) (do {
       ts_ns \<leftarrow> bpf_ktime_get_ns k;
       h' \<leftarrow> capture_event_v2_comm k (h\<lparr>hdr_ts_ns := ts_ns\<rparr>);
       mem_store 0 (enc_header h');
       mem_store EVENT_V2_HEADER_LEN (enc_signal_body b);
       bpf_ringbuf_submit })"
    proof (rule emits_bind_any, rule silent_intros, rule emits_bind [where P = ?Q], rule silent_intros)
      fix h' :: event_v2_header assume h': "?Q h'"
      then have "accepted (enc_header h' @ enc_signal_body b)"
        by (intro accepted_signal [where pid = pid and tid = tid and ts = "hdr_ts_ns h'" and sequence = q])
           (simp add: header_spec_def)
      then show "emits k q {(hdr_loss_epoch h, hdr_loss_time_ns h)} (80 + 56) (do { mem_store 0 (enc_header h');
          mem_store EVENT_V2_HEADER_LEN (enc_signal_body b); bpf_ringbuf_submit })"
        using emits_stored_record [of "80 + 56" "enc_header h'" "enc_signal_body b" k q] h'
        by (simp add: stamped_def)
    qed (use h in \<open>auto simp: yields_def capture_event_v2_comm_def split: option.split\<close>)
  qed (auto simp: yields_def capture_event_integrity_def zero_header_def split: option.split)
qed (simp add: wp_return)

lemma accounted_signal_programs [accounted_intros]:
  "accounted k (trace_signal_deliver k sctx)"
  "accounted k (trace_signal_generate k sctx)"
  unfolding trace_signal_deliver_def trace_signal_generate_def Let_def
  by (rule accounted_rules accounted_intros | rule silent_accounted, rule silent_intros)+

text \<open>One attempt through \<^verbatim>\<open>bpf_ringbuf_output\<close>.\<close>

lemma accounted_output:
  assumes "\<And>q. silent k (mk q)" "\<And>q s. accepted (result (mk q) s) \<and> stamped (k_cpu k) q (result (mk q) s) \<and>
      loss_stamp (result (mk q) s) = cell s"
  shows "accounted k (do {
     sequence \<leftarrow> next_event_sequence k;
     bs \<leftarrow> mk sequence;
     ok \<leftarrow> bpf_ringbuf_output k bs;
     only_if (\<not> ok) (record_ringbuf_reserve_fail k);
     return x })"
proof (rule accountedI, unfold wp_bind, rule wp_mono [OF next_event_sequence_flow], goal_cases)
  case (1 s q t)
  let ?c = "k_cpu k"
  have t: "flow ?c 1 [] 0 0 0 s t" "cell t = cell s" "stats_map s ?c \<noteq> None \<longrightarrow> q = seq_base ?c s + 1"
    and bal: "loss_balance ?c t = loss_balance ?c s" and res: "reservation t = reservation s" using 1 by auto
  let ?u = "exec (mk q) t" and ?bs = "result (mk q) t"
  let ?v = "?u\<lparr>tick := Suc (tick ?u)\<rparr>"
  have u: "quiet ?c t ?u" "loss_balance ?c ?u = loss_balance ?c t"
    using silent_wp [OF assms(1), of q t] by (auto simp: wp_def)
  obtain m where m: "flow ?c 0 [] 0 0 m t ?u" using u(1) by (auto simp: quiet_def)
  have r: "reservation s = None \<Longrightarrow> reservation ?u = None" using u res by (simp add: quiet_def)
  have "flow ?c 0 [?bs] 0 0 m t (?v\<lparr>events := events ?u @ [?bs]\<rparr>)" using m by (simp add: flow_def)
  then have "ledger ?c s (?v\<lparr>events := events ?u @ [?bs]\<rparr>)"
    using assms(2) [of q t] r
    by (intro ledger_attempt [OF t, of "[?bs]" 0 0 m]) (auto simp: dated_def later_refl)
  moreover have bad: "wp (record_ringbuf_reserve_fail k) (\<lambda>_ w. ledger ?c s w \<and> loss_balance ?c w = loss_balance ?c s) ?v"
  proof (rule wp_mono [OF reserve_fail_flow])
    fix y w assume "flow ?c 0 [] 1 0 1 ?v w \<and> reservation w = reservation ?v \<and> loss_balance ?c w = loss_balance ?c ?v"
    with flow_trans [OF m, of 0 "[]" 1 0 1 w] r u bal
    show "ledger ?c s w \<and> loss_balance ?c w = loss_balance ?c s"
      by (intro conjI ledger_attempt [OF t, of "[]" 1 0 "m + 1"]) auto
  qed
  moreover have "loss_balance ?c (?v\<lparr>events := events ?u @ [?bs]\<rparr>) = loss_balance ?c s" using u bal by simp
  ultimately show ?case
    by (simp add: wp_def [of "mk q"] wp_output wp_only_if wp_return [abs_def] split_beta)
qed

lemma accepted_unsupported:
  assumes "header_spec EVENT_TYPE_LIFECYCLE 0 pid tid 0 80 ts sequence h"
  shows "accepted (enc_header (h\<lparr>hdr_event_type := EVENT_TYPE_UNSUPPORTED_ABI, hdr_sys_id := sys_id\<rparr>))"
  using assms decode_header_of [OF _ append_Nil2 [symmetric],
      of "h\<lparr>hdr_event_type := EVENT_TYPE_UNSUPPORTED_ABI, hdr_sys_id := sys_id\<rparr>"]
    framed_plain [of "h\<lparr>hdr_event_type := EVENT_TYPE_UNSUPPORTED_ABI, hdr_sys_id := sys_id\<rparr>" "[]"]
  by (simp add: accepted_def decodeTraceEventV2Envelope_def header_view_def header_spec_def header_for_def
      event_type_known_def)

lemma unsupported_stamps:
  "let r = enc_header ((result (do { ts_ns \<leftarrow> bpf_ktime_get_ns k; init_lifecycle_event_v2_header k (zero_header q) pid tid n ts_ns }) s)
     \<lparr>hdr_event_type := EVENT_TYPE_UNSUPPORTED_ABI, hdr_sys_id := sys_id\<rparr>)
   in stamped (k_cpu k) q r \<and> loss_stamp r = cell s"
  using stamps_lifecycle_header [of k "zero_header q" pid tid n, unfolded stamps_def Let_def, rule_format, of s]
    header_stamps [where xs = "[]"]
  by (simp add: Let_def stamped_def del: run_state_bind)

lemma accounted_reject [accounted_intros]: "accounted k (reject_unsupported_syscall_abi k pid tid sys_id)"
proof -
  let ?mk = "\<lambda>sequence. do {
     ts_ns \<leftarrow> bpf_ktime_get_ns k;
     header \<leftarrow> init_lifecycle_event_v2_header k (zero_header sequence) pid tid EVENT_V2_HEADER_LEN ts_ns;
     return (enc_header (header\<lparr>hdr_event_type := EVENT_TYPE_UNSUPPORTED_ABI, hdr_sys_id := sys_id\<rparr>)) }"
  have "accepted (result (?mk sequence) s) \<and> stamped (k_cpu k) sequence (result (?mk sequence) s) \<and>
      loss_stamp (result (?mk sequence) s) = cell s" for sequence s
    using accepted_unsupported [OF init_lifecycle_header_spec] unsupported_stamps [where k = k and q = sequence and n = 80, unfolded Let_def]
    by (simp add: run_bind_parts del: run_state_bind)
  then have "accounted k (do { sequence \<leftarrow> next_event_sequence k; bs \<leftarrow> ?mk sequence;
      ok \<leftarrow> bpf_ringbuf_output k bs; only_if (\<not> ok) (record_ringbuf_reserve_fail k); return True })"
    by (intro accounted_output silent_rules silent_intros)
  then show ?thesis
    unfolding reject_unsupported_syscall_abi_def
    by (intro accounted_bind [OF silent_accounted [OF silent_lifecycle(6)]] accounted_if accounted_return
        accounted_bind [OF silent_accounted [OF silent_core4(3)]]
        accounted_bind [OF silent_accounted [OF silent_lifecycle(7)]]) simp
qed

section \<open>Properties of lifecycle records\<close>

text \<open>
  A task is tracked exactly when the filter map has the tracked bit for its process or for the
  thread itself.
\<close>

theorem is_lifecycle_task_tracked_iff:
  "result (is_lifecycle_task_tracked pid tid) s \<longleftrightarrow>
     (\<exists>key flags. key \<in> {pid, tid} \<and> filter_map s key = Some flags \<and> has_flag flags FILTER_TASK_TRACKED)"
  by (auto simp: is_lifecycle_task_tracked_def lookup_lifecycle_task_filter_flags_def tracked_flags_def
      run_bind_parts simp del: run_state_bind split: option.splits if_splits)

lemma c_string_str_bytes: "c_string (str_bytes mem p n) = takeWhile (\<lambda>b. b \<noteq> 0) (probe_bytes mem p (n - 1))"
  unfolding c_string_def str_bytes_def
  by (subst takeWhile_append2) (auto dest: set_takeWhileD)

lemma capture_snapshot_content:
  assumes "reservation u = Some d" "length d = 4232" "str \<noteq> 0" "0 \<le> k_kernel_fault k (tick u) str 4096"
  defines "bs \<equiv> str_bytes (k_kernel_mem k (tick u)) str 4096"
  shows "wp (capture_lifecycle_snapshot k 136 str)
     (\<lambda>n t. n = length bs \<and> reservation t = Some (poke d 136 bs) \<and> events t = events u) u"
  using assms length_str_bytes_le [of 4096 "k_kernel_mem k (tick u)" str]
  by (simp add: capture_lifecycle_snapshot_def wp_simps bpf_probe_read_kernel_str_def str_bytes_def)

text \<open>
  C21: The exec record carries the file name: when the ring buffer has room and the kernel can read the
  string, one record is appended from which the decoder reads the action, both arguments and the bytes
  of the string up to its terminator, at most 4095 of them.
\<close>

theorem lifecycle_snapshot_roundtrip:
  assumes "k_reserve k (tick s) 4232" "str \<noteq> 0" "0 \<le> k_kernel_fault k (Suc (tick s)) str 4096"
    and "kind \<noteq> LIFECYCLE_FORK"
  shows "\<exists>r env. events (exec (emit_lifecycle_event_v2_direct k kind pid tid a0 a1 str) s) = events s @ [r] \<and>
     decodeTraceEventV2Envelope r = Some env \<and> env_event_type env = EVENT_TYPE_LIFECYCLE \<and>
     env_pid env = pid \<and> env_tid env = tid \<and> env_lifecycle_action env = kind \<and>
     env_args env = Args a0 a1 0 0 0 0 \<and> env_seq env = next_seq k s \<and>
     env_snapshot_text env = takeWhile (\<lambda>b. b \<noteq> 0) (probe_bytes (k_kernel_mem k (Suc (tick s))) str 4095)"
proof -
  let ?bs = "str_bytes (k_kernel_mem k (Suc (tick s))) str 4096"
  have bs: "length ?bs \<le> 4096" by (rule length_str_bytes_le) simp
  let ?body = "init_lifecycle_event_v2_body kind (of_nat (length ?bs)) a0 a1"
  let ?H = "\<lambda>h. \<exists>ts. header_spec EVENT_TYPE_LIFECYCLE 0 pid tid 0 4232 ts (next_seq k s) h"
  let ?Q = "\<lambda>_ t. \<exists>h rest. ?H h \<and> length rest = 4096 - length ?bs \<and>
     events t = events s @ [enc_header h @ enc_lifecycle_body ?body @ ?bs @ rest]"
  have "wp (emit_lifecycle_event_v2_direct k kind pid tid a0 a1 str) ?Q s"
    unfolding emit_lifecycle_event_v2_direct_def Let_def
  proof (rule with_reservation_content)
    fix u :: machine and d
    assume u: "reservation u = Some d" "length d = 80 + 56 + (if str \<noteq> 0 then 4096 else 0)"
      "events u = events s" "tick u = Suc (tick s)"
    show "wp (do {
           payload_size \<leftarrow> capture_lifecycle_snapshot k (80 + 56) str;
           commit_event k
             (do { ts_ns \<leftarrow> bpf_ktime_get_ns k;
                   init_lifecycle_event_v2_header k (zero_header (next_seq k s)) pid tid
                     (80 + 56 + (if str \<noteq> 0 then 4096 else 0)) ts_ns })
             (return (enc_lifecycle_body (init_lifecycle_event_v2_body kind (of_nat payload_size) a0 a1))) }) ?Q u"
      unfolding wp_bind
    proof (rule wp_mono)
      show "wp (capture_lifecycle_snapshot k (80 + 56) str)
        (\<lambda>n t. n = length ?bs \<and> reservation t = Some (poke d 136 ?bs) \<and> events t = events u) u"
        using capture_snapshot_content [OF u(1), of str k] u assms by simp
      fix n and t :: machine assume t: "n = length ?bs \<and> reservation t = Some (poke d 136 ?bs) \<and> events t = events u"
      show "wp (commit_event k
             (do { ts_ns \<leftarrow> bpf_ktime_get_ns k;
                   init_lifecycle_event_v2_header k (zero_header (next_seq k s)) pid tid
                     (80 + 56 + (if str \<noteq> 0 then 4096 else 0)) ts_ns })
             (return (enc_lifecycle_body (init_lifecycle_event_v2_body kind (of_nat n) a0 a1)))) ?Q t"
        by (rule wp_mono [OF commit_content [OF _ keeps_return conjunct1 [OF conjunct2 [OF t]],
            where H = ?H and B = "\<lambda>b. b = enc_lifecycle_body ?body"]])
           (use t u bs assms(2) init_lifecycle_header_spec [of pid tid 4232 _ "zero_header (next_seq k s)" k] in
             \<open>auto simp: run_bind_parts poke_def simp del: run_state_bind intro!: keeps_rules keeps_intros
               exI [of _ "drop (136 + length ?bs) d"]\<close>)
    qed
  qed (use assms in simp)
  then obtain h rest ts where h: "header_spec EVENT_TYPE_LIFECYCLE 0 pid tid 0 4232 ts (next_seq k s) h"
    "length rest = 4096 - length ?bs"
    "events (exec (emit_lifecycle_event_v2_direct k kind pid tid a0 a1 str) s) =
       events s @ [enc_header h @ enc_lifecycle_body ?body @ ?bs @ rest]"
    by (auto simp: wp_def)
  have n: "unat (of_nat (length ?bs) :: u32) = length ?bs"
    using bs by (simp add: unat_of_nat take_bit_nat_eq_self)
  with c_string_str_bytes [of "k_kernel_mem k (Suc (tick s))" str 4096] decode_lifecycle_of [OF h(1), of "?bs @ rest" ?body] h bs n assms(4) show ?thesis
    by (auto simp: init_lifecycle_event_v2_body_def)
qed

theorem lifecycle_snapshot_roundtrip_witness:
  "\<exists>r env. events (exec (emit_lifecycle_event_v2_direct (sample_kernel 1 2) LIFECYCLE_EXEC 1 2 5 6 0x41)
       (boot_machine 32)) = [] @ [r] \<and>
     decodeTraceEventV2Envelope r = Some env \<and> env_args env = Args 5 6 0 0 0 0 \<and> env_seq env = 1"
  using lifecycle_snapshot_roundtrip [of "sample_kernel 1 2" "boot_machine 32" "0x41" LIFECYCLE_EXEC 1 2 5 6]
  by (auto simp: sample_kernel_def boot_machine_def next_seq_def zero_stats_def)

end
