(* ===== verification/Pending_State.thy ===== *)
theory Pending_State
  imports Lifecycle_Event
begin

text \<open>
  \<^verbatim>\<open>bpf/pending_state.h\<close>: matching a raw syscall exit with the enter that is in flight, the exits
  that may come without one, and the handoff of a successful exec from a thread to its process.
\<close>

section \<open>Operations\<close>

definition is_pre_exec_suppressed_syscall :: "u32 option \<Rightarrow> u32 \<Rightarrow> bool" where
  "is_pre_exec_suppressed_syscall filter_flags sys_id =
     (case filter_flags of None \<Rightarrow> False
      | Some flags \<Rightarrow> has_flag flags FILTER_TASK_PRE_EXEC \<and> \<not> is_exec_payload_direct_syscall sys_id)"

definition is_exec_restart_return :: "s64 \<Rightarrow> bool" where
  "is_exec_restart_return ret_value \<longleftrightarrow>
     sint ret_value = -512 \<or> sint ret_value = -513 \<or> sint ret_value = -514 \<or> sint ret_value = -516"

definition is_expected_unmatched_exit :: "u32 \<Rightarrow> s64 \<Rightarrow> bool" where
  "is_expected_unmatched_exit sys_id ret_value =
     (if is_terminating_direct_syscall sys_id then True
      else if is_process_creation_direct_syscall sys_id \<and> ret_value = 0 then True
      else if is_exec_payload_direct_syscall sys_id \<and> ret_value = 0 then True
      else is_exec_payload_direct_syscall sys_id \<and> is_exec_restart_return ret_value)"

definition record_unmatched_exit_if_needed :: "kernel \<Rightarrow> u32 \<Rightarrow> u32 \<Rightarrow> u32 \<Rightarrow> s64 \<Rightarrow> unit bpf" where
  "record_unmatched_exit_if_needed k pid tid sys_id ret_value = do {
     tracked \<leftarrow> is_lifecycle_task_tracked pid tid;
     if \<not> tracked then return ()
     else do {
       attach_exited \<leftarrow> gets (\<lambda>s. attach_exited_map s tid);
       if (case attach_exited of None \<Rightarrow> False | Some v \<Rightarrow> v \<noteq> 0) then return ()
       else do {
         cfg \<leftarrow> gets config_map;
         selected \<leftarrow> should_trace_syscall sys_id cfg;
         if \<not> selected \<and> \<not> is_fd_state_tracked sys_id cfg then return ()
         else if is_expected_unmatched_exit sys_id ret_value then return ()
         else record_orphan_exit k pid tid sys_id ret_value ORPHAN_REASON_NO_PENDING } } }"

text \<open>The out parameters \<^verbatim>\<open>pending_tid\<close> and \<^verbatim>\<open>pending_exec_lookup\<close> are the last two results.\<close>

definition lookup_pending_syscall_for_exit ::
    "kernel \<Rightarrow> u32 \<Rightarrow> u32 \<Rightarrow> s64 \<Rightarrow> (pending_syscall option \<times> u32 \<times> bool) bpf" where
  "lookup_pending_syscall_for_exit k pid tid ret_value = do {
     state \<leftarrow> current_pending_task_state k;
     case state of
       None \<Rightarrow> return (None, tid, False)
     | Some st \<Rightarrow>
         if pts_valid st = 0 then return (None, tid, False)
         else let pending = pts_syscall st in
           if ps_tid pending = tid then return (Some pending, tid, False)
           else if ret_value = 0 \<and> is_exec_payload_direct_syscall (ps_sys_id pending) then do {
             exec_tid \<leftarrow> gets (\<lambda>s. pending_exec_map s pid);
             case exec_tid of
               None \<Rightarrow> return (Some pending, tid, False)
             | Some x \<Rightarrow> if x = ps_tid pending then return (Some pending, x, True)
                         else return (Some pending, tid, False) }
           else return (Some pending, tid, False) }"

definition validate_pending_syscall_exit :: "kernel \<Rightarrow> pending_syscall \<Rightarrow> u32 \<Rightarrow> u32 \<Rightarrow> u32 \<Rightarrow> bool bpf" where
  "validate_pending_syscall_exit k pending sys_id pid pending_tid =
     (if ps_sys_id pending = sys_id \<and> ps_tid pending = pending_tid then return True
      else do {
        record_pending_mismatch k;
        clear_pending_task_state k;
        delete_pending_exec pid;
        return False })"

definition pending_syscall_duration :: "kernel \<Rightarrow> pending_syscall \<Rightarrow> u64 bpf" where
  "pending_syscall_duration k p =
     (if ps_enter_time p = 0 then return 0
      else do {
        exit_time \<leftarrow> bpf_ktime_get_ns k;
        if exit_time \<le> ps_enter_time p then return 0
        else return (exit_time - ps_enter_time p) })"

definition delete_main_exited :: "u32 \<Rightarrow> unit bpf" where
  "delete_main_exited pid = modify (\<lambda>s. s\<lparr>main_exited_map := (main_exited_map s)(pid := None)\<rparr>)"

definition consume_pending_syscall :: "kernel \<Rightarrow> u32 \<Rightarrow> u32 \<Rightarrow> pending_syscall \<Rightarrow> bool \<Rightarrow> unit bpf" where
  "consume_pending_syscall k pid pending_tid pending pending_exec_lookup =
     (let pending_sys_id = ps_sys_id pending; pending_pid = ps_pid pending in do {
        clear_pending_task_state k;
        if pending_exec_lookup then do {
          delete_pending_exec pid;
          delete_main_exited pid }
        else only_if (is_exec_payload_direct_syscall pending_sys_id \<and> pending_tid \<noteq> pending_pid)
          (delete_pending_exec pid) })"

section \<open>Accounting and frames\<close>

lemma silent_pending [silent_intros]:
  "silent k (record_unmatched_exit_if_needed k pid tid sys_id ret)"
  "silent k (lookup_pending_syscall_for_exit k' pid tid ret)"
  "silent k (validate_pending_syscall_exit k p sys_id pid pending_tid)"
  "silent k (pending_syscall_duration k' p)"
  "silent k (delete_main_exited pid)"
  unfolding record_unmatched_exit_if_needed_def lookup_pending_syscall_for_exit_def
    validate_pending_syscall_exit_def pending_syscall_duration_def delete_main_exited_def Let_def
  by (intro silent_rules silent_intros silent_modify; simp)+

lemma silent_consume [silent_intros]: "silent k (consume_pending_syscall k' pid pending_tid p handoff)"
  unfolding consume_pending_syscall_def Let_def by (intro silent_rules silent_intros)

lemma reports_pending [reports_intros]:
  "reports (record_unmatched_exit_if_needed k pid tid sys_id ret)"
  "reports (lookup_pending_syscall_for_exit k pid tid ret)"
  "reports (pending_syscall_duration k p)"
  unfolding record_unmatched_exit_if_needed_def lookup_pending_syscall_for_exit_def
    pending_syscall_duration_def Let_def
  by (intro reports_rules reports_intros)+

lemma wp_lookup_for_exit:
  "wp (lookup_pending_syscall_for_exit k pid tid ret) Q s =
     (case in_flight k s of
        None \<Rightarrow> Q (None, tid, False) s
      | Some p \<Rightarrow>
          if ps_tid p \<noteq> tid \<and> ret = 0 \<and> is_exec_payload_direct_syscall (ps_sys_id p) \<and>
             pending_exec_map s pid = Some (ps_tid p)
          then Q (Some p, ps_tid p, True) s else Q (Some p, tid, False) s)"
  by (auto simp: lookup_pending_syscall_for_exit_def wp_simps in_flight_eq Let_def split: option.splits)

text \<open>The exec-handoff entries are untouched by clearing the task state.\<close>

lemma clear_pending_frame:
  "state_io_rel (same (\<lambda>s. (pending_exec_map s, main_exited_map s, filter_map s, attach_roots_map s,
     attach_exited_map s, pending_fork_flags_map s, unknown_children_map s, arm_fork_map s, config_map s,
     syscall_filter_map s, events s))) (clear_pending_task_state k)"
  by (auto simp: state_io_rel_def same_def clear_pending_task_state_def pending_defs run_bind_parts only_if_def
      simp del: run_state_bind split: option.splits)

lemmas clear_pending_frame_exec = same_exec [OF clear_pending_frame, simplified]

lemma in_flight_update [simp]:
  "in_flight k (s\<lparr>pending_exec_map := x\<rparr>) = in_flight k s"
  "in_flight k (s\<lparr>main_exited_map := y\<rparr>) = in_flight k s"
  "in_flight k (s\<lparr>filter_map := z\<rparr>) = in_flight k s"
  by (simp_all add: in_flight_eq split: option.split)

lemma clear_pending_in_flight [simp]: "in_flight k (exec (clear_pending_task_state k) s) = None"
  by (auto simp: clear_pending_task_state_def in_flight_eq pending_defs run_bind_parts only_if_def
      simp del: run_state_bind split: option.splits)

lemma clear_pending_books:
  "stats_map (exec (clear_pending_task_state k) s) = stats_map s"
  "event_loss_map (exec (clear_pending_task_state k) s) = event_loss_map s"
  by (auto simp: clear_pending_task_state_def pending_defs run_bind_parts only_if_def
      simp del: run_state_bind split: option.splits)

lemma mismatch_effect:
  "map_option st_pending_mismatch (stats_map (exec (record_pending_mismatch k) s) (k_cpu k)) =
     map_option (\<lambda>st. st_pending_mismatch st + 1) (stats_map s (k_cpu k))"
  "map_option els_epoch (event_loss_map (exec (record_pending_mismatch k) s)) =
     map_option (\<lambda>l. els_epoch l + 1) (event_loss_map s)"
  "pending_exec_map (exec (record_pending_mismatch k) s) = pending_exec_map s"
  by (auto simp: record_pending_mismatch_def record_event_integrity_loss_def bump_stats_def lookup_stats_def
      store_stats_def bpf_ktime_get_ns_def next_tick_def run_bind_parts simp del: run_state_bind
      split: option.splits)

lemma state_readers [simp]:
  "exec (lookup_lifecycle_task_filter_flags pid tid) s = s"
  "exec (is_lifecycle_task_tracked pid tid) s = s"
  "exec (should_trace_syscall sys_id cfg) s = s"
  by (auto simp: is_lifecycle_task_tracked_def lookup_lifecycle_task_filter_flags_def should_trace_syscall_def
      run_bind_parts simp del: run_state_bind split: option.splits)

section \<open>Properties\<close>

text \<open>
  Only a successful non-leader exec leaves the task-local path: the lookup at exit returns the
  syscall in flight, and takes the thread of another task only when the return value is 0, that syscall
  is an exec and the process-scoped handoff names exactly that thread.
\<close>

theorem lookup_pending_syscall_for_exit_spec:
  "result (lookup_pending_syscall_for_exit k pid tid ret) s =
     (case in_flight k s of
        None \<Rightarrow> (None, tid, False)
      | Some p \<Rightarrow>
          if ps_tid p \<noteq> tid \<and> ret = 0 \<and> is_exec_payload_direct_syscall (ps_sys_id p) \<and>
             pending_exec_map s pid = Some (ps_tid p)
          then (Some p, ps_tid p, True) else (Some p, tid, False))"
  using wp_lookup_for_exit [of k pid tid ret "\<lambda>x _. x = result (lookup_pending_syscall_for_exit k pid tid ret) s" s]
  by (auto simp: wp_def split: option.splits if_splits)

text \<open>
  C22: Exit validation accepts exactly the pending syscall of the same number and thread and then
  changes nothing; any other exit is counted as one mismatch and one loss, leaves no syscall in flight
  and no exec handoff for the process.
\<close>

theorem validate_pending_syscall_exit_spec:
  "let t = exec (validate_pending_syscall_exit k p sys_id pid pending_tid) s;
       ok = result (validate_pending_syscall_exit k p sys_id pid pending_tid) s in
   (ok \<longleftrightarrow> ps_sys_id p = sys_id \<and> ps_tid p = pending_tid) \<and>
   (if ok then t = s
    else in_flight k t = None \<and> pending_exec_map t = (pending_exec_map s)(pid := None) \<and>
      map_option st_pending_mismatch (stats_map t (k_cpu k)) =
        map_option (\<lambda>st. st_pending_mismatch st + 1) (stats_map s (k_cpu k)) \<and>
      map_option els_epoch (event_loss_map t) = map_option (\<lambda>l. els_epoch l + 1) (event_loss_map s))"
  unfolding Let_def validate_pending_syscall_exit_def
  by (auto simp: run_bind_parts delete_pending_exec_def mismatch_effect clear_pending_in_flight
      clear_pending_frame_exec clear_pending_books simp del: run_state_bind)

text \<open>
  C23: Consuming a completed exit empties the task's in-flight slot; the exec handoff of the process is
  dropped when this exit used it or belongs to a thread's exec, and the main-exited mark only when the
  handoff was used.
\<close>

theorem consume_pending_syscall_spec:
  "let t = exec (consume_pending_syscall k pid pending_tid p handoff) s in
     in_flight k t = None \<and>
     pending_exec_map t =
       (if handoff \<or> (is_exec_payload_direct_syscall (ps_sys_id p) \<and> pending_tid \<noteq> ps_pid p)
        then (pending_exec_map s)(pid := None) else pending_exec_map s) \<and>
     main_exited_map t = (if handoff then (main_exited_map s)(pid := None) else main_exited_map s) \<and>
     filter_map t = filter_map s"
  by (auto simp: Let_def consume_pending_syscall_def run_bind_parts delete_pending_exec_def
      delete_main_exited_def only_if_def clear_pending_frame_exec in_flight_update clear_pending_in_flight
      simp del: run_state_bind)

text \<open>
  Durations never wrap: the wall-clock duration is the time from enter to exit, and zero when the
  enter time is unknown or the clock did not advance.
\<close>

theorem pending_syscall_duration_spec:
  "result (pending_syscall_duration k p) s =
     (if ps_enter_time p = 0 then 0 else of_nat (unat (k_time k (tick s)) - unat (ps_enter_time p)))"
  by (auto simp: pending_syscall_duration_def run_bind_parts bpf_ktime_get_ns_def next_tick_def
      word_le_nat_alt unat_sub of_nat_diff simp del: run_state_bind)

text \<open>
  C24: An exit without a matching enter is counted as an orphan exactly when its task is tracked and not
  already torn down, its syscall is selected (or followed for descriptor state) and the exit is not one
  of the expected unmatched ones; in every other case the counters stay as they are.
\<close>

theorem record_unmatched_exit_spec:
  "map_option st_orphan_exit (stats_map (exec (record_unmatched_exit_if_needed k pid tid sys_id ret) s) (k_cpu k)) =
     map_option (\<lambda>st. st_orphan_exit st +
        (if result (is_lifecycle_task_tracked pid tid) s \<and>
            attach_exited_map s tid \<in> {None, Some 0} \<and>
            (result (should_trace_syscall sys_id (config_map s)) s \<or> is_fd_state_tracked sys_id (config_map s)) \<and>
            \<not> is_expected_unmatched_exit sys_id ret
         then 1 else 0)) (stats_map s (k_cpu k))"
  unfolding record_unmatched_exit_if_needed_def
  by (auto simp: run_bind_parts record_orphan_exit_def lookup_stats_def store_stats_def bpf_ktime_get_ns_def
      next_tick_def Let_def state_readers simp del: run_state_bind split: option.splits)

end
