(* ===== verification/Tlv_Emit.thy ===== *)
theory Tlv_Emit
  imports Pending_State
begin

text \<open>
  The statements all payload emitters share.  An emitter of \<^verbatim>\<open>bpf/syscall_*_direct_event_v2.h\<close>
  reserves the record with the capacity of its payload, captures the payload sections behind the body,
  sets the TLV flag when there are any, and writes header and body.  Emitters differ in the capacity
  and in the capture; \<open>emit_enter_tlv\<close> and \<open>emit_exit_tlv\<close> take both as arguments.  A capture
  gets the payload offset and returns the number of payload bytes and the event flags it leaves.
\<close>

section \<open>The emission sequence\<close>

definition payload_flags :: "nat \<Rightarrow> u16 \<Rightarrow> u16" where
  "payload_flags payload_size flags = (if payload_size > 0 then flags OR EVENT_FLAG_PAYLOAD_TLV else flags)"

definition emit_enter_tlv :: "kernel \<Rightarrow> u32 \<Rightarrow> u32 \<Rightarrow> u32 \<Rightarrow> args6 \<Rightarrow> u64 \<Rightarrow> s64 \<Rightarrow> s32 \<Rightarrow> nat \<Rightarrow>
    (nat \<Rightarrow> (nat \<times> u16) bpf) \<Rightarrow> unit bpf" where
  "emit_enter_tlv k pid tid sys_id args ts_ns ret_value probe_ret_enter payload_capacity capture =
     (let payload_offset = EVENT_V2_HEADER_LEN + EVENT_V2_ENTER_BODY_LEN;
          out_size = payload_offset + payload_capacity
      in with_reservation k out_size (\<lambda>sequence. do {
           (payload_size, flags) \<leftarrow> capture payload_offset;
           commit_event k
             (init_syscall_event_v2_header_direct k (zero_header sequence) EVENT_TYPE_ENTER
                (payload_flags payload_size flags) pid tid sys_id out_size ts_ns)
             (return (enc_enter_body (init_syscall_enter_event_v2_from_args args (of_nat payload_size)
                ret_value probe_ret_enter (-1)))) }))"

definition emit_exit_tlv :: "kernel \<Rightarrow> pending_syscall \<Rightarrow> s64 \<Rightarrow> u64 \<Rightarrow> nat \<Rightarrow>
    (nat \<Rightarrow> (nat \<times> u16) bpf) \<Rightarrow> unit bpf" where
  "emit_exit_tlv k p ret_value duration payload_capacity capture =
     (let payload_offset = EVENT_V2_HEADER_LEN + EVENT_V2_EXIT_BODY_LEN;
          out_size = payload_offset + payload_capacity;
          ts_ns = ps_enter_time p + duration
      in with_reservation k out_size (\<lambda>sequence. do {
           (payload_size, flags) \<leftarrow> capture payload_offset;
           commit_event k
             (init_syscall_event_v2_header_direct k (zero_header sequence) EVENT_TYPE_EXIT
                (payload_flags payload_size flags) (ps_pid p) (ps_tid p) (ps_sys_id p) out_size ts_ns)
             (do { b \<leftarrow> init_syscall_exit_event_v2_from_pending k p ret_value duration (of_nat payload_size);
                   return (enc_exit_body b) }) }))"

text \<open>The same when the probe result of the enter body is decided by the capture.\<close>

definition emit_enter_tlv_probe :: "kernel \<Rightarrow> u32 \<Rightarrow> u32 \<Rightarrow> u32 \<Rightarrow> args6 \<Rightarrow> u64 \<Rightarrow> s64 \<Rightarrow> nat \<Rightarrow>
    (nat \<Rightarrow> (nat \<times> u16 \<times> s32) bpf) \<Rightarrow> unit bpf" where
  "emit_enter_tlv_probe k pid tid sys_id args ts_ns ret_value payload_capacity capture =
     (let payload_offset = EVENT_V2_HEADER_LEN + EVENT_V2_ENTER_BODY_LEN;
          out_size = payload_offset + payload_capacity
      in with_reservation k out_size (\<lambda>sequence. do {
           (payload_size, flags, probe_ret_enter) \<leftarrow> capture payload_offset;
           commit_event k
             (init_syscall_event_v2_header_direct k (zero_header sequence) EVENT_TYPE_ENTER
                (payload_flags payload_size flags) pid tid sys_id out_size ts_ns)
             (return (enc_enter_body (init_syscall_enter_event_v2_from_args args (of_nat payload_size)
                ret_value probe_ret_enter (-1)))) }))"

text \<open>The same when the capture hands a value to the caller; \<open>initial\<close> is what a failed reservation leaves of it.\<close>

definition emit_enter_tlv_value :: "kernel \<Rightarrow> u32 \<Rightarrow> u32 \<Rightarrow> u32 \<Rightarrow> args6 \<Rightarrow> u64 \<Rightarrow> nat \<Rightarrow> 'v \<Rightarrow>
    (nat \<Rightarrow> (nat \<times> u16 \<times> 'v) bpf) \<Rightarrow> 'v bpf" where
  "emit_enter_tlv_value k pid tid sys_id args ts_ns payload_capacity initial capture =
     (let payload_offset = EVENT_V2_HEADER_LEN + EVENT_V2_ENTER_BODY_LEN;
          out_size = payload_offset + payload_capacity
      in attempt k out_size (do { bpf_ringbuf_discard; return initial }) (\<lambda>sequence. do {
           (payload_size, flags, value) \<leftarrow> capture payload_offset;
           commit_event k
             (init_syscall_event_v2_header_direct k (zero_header sequence) EVENT_TYPE_ENTER
                (payload_flags payload_size flags) pid tid sys_id out_size ts_ns)
             (return (enc_enter_body (init_syscall_enter_event_v2_from_args args (of_nat payload_size) 0 (-1) (-1))));
           return value }))"

text \<open>A capture that leaves the event flags as they were.\<close>

definition with_flags :: "u16 \<Rightarrow> nat bpf \<Rightarrow> (nat \<times> u16) bpf" where
  "with_flags flags m = do { n \<leftarrow> m; return (n, flags) }"

section \<open>What a program may return\<close>

definition gives :: "'a bpf \<Rightarrow> ('a \<Rightarrow> bool) \<Rightarrow> bool" where
  "gives m P \<longleftrightarrow> (\<forall>s. P (result m s))"

lemma gives_return: "P x \<Longrightarrow> gives (return x) P"
  by (simp add: gives_def)

lemma gives_bind: "gives m P \<Longrightarrow> (\<And>x. P x \<Longrightarrow> gives (g x) Q) \<Longrightarrow> gives (State_Monad.bind m g) Q"
  by (simp add: gives_def run_bind_parts del: run_state_bind)

lemma gives_any: "gives m (\<lambda>_. True)"
  by (simp add: gives_def)

lemma gives_bind_any: "(\<And>x. gives (g x) Q) \<Longrightarrow> gives (State_Monad.bind m g) Q"
  by (rule gives_bind [OF gives_any])

lemma gives_if: "(b \<Longrightarrow> gives m P) \<Longrightarrow> (\<not> b \<Longrightarrow> gives n P) \<Longrightarrow> gives (if b then m else n) P"
  by simp

lemma gives_case_option:
  "(x = None \<Longrightarrow> gives m P) \<Longrightarrow> (\<And>y. x = Some y \<Longrightarrow> gives (f y) P) \<Longrightarrow>
     gives (case x of None \<Rightarrow> m | Some y \<Rightarrow> f y) P"
  by (cases x) auto

lemma gives_case_prod: "(\<And>a b. z = (a, b) \<Longrightarrow> gives (h a b) P) \<Longrightarrow> gives (case z of (a, b) \<Rightarrow> h a b) P"
  by (cases z) auto

lemma gives_let: "gives (g x) P \<Longrightarrow> gives (let v = x in g v) P"
  by simp

lemma gives_mono: "gives m P \<Longrightarrow> (\<And>x. P x \<Longrightarrow> Q x) \<Longrightarrow> gives m Q"
  by (simp add: gives_def)

lemma gives_yields: "gives m P \<Longrightarrow> yields n m P"
  by (simp add: gives_def yields_def)

lemma gives_str:
  "0 < n \<Longrightarrow> gives (bpf_probe_read_user_str k n p) (\<lambda>(r, bs). r \<le> int n \<and> length bs \<le> n)"
  using length_str_bytes_le [of n]
  by (auto simp: gives_def bpf_probe_read_user_str_def run_bind_parts simp del: run_state_bind)

lemma gives_str_len: "0 < n \<Longrightarrow> gives (bpf_probe_read_user_str k n p) (\<lambda>x. fst x \<le> int n)"
  by (rule gives_mono [OF gives_str]) auto

lemma gives_with_flags:
  "gives m (\<lambda>n. n \<le> cap) \<Longrightarrow> \<not> has_flag flags EVENT_FLAG_COMPACT_ENTER \<Longrightarrow>
     gives (with_flags flags m) (\<lambda>(n, fl). n \<le> cap \<and> \<not> has_flag fl EVENT_FLAG_COMPACT_ENTER)"
  unfolding with_flags_def by (erule gives_bind) (simp add: gives_return)

section \<open>TLV sections on the wire\<close>

definition tlv_section :: "payload_tlv_header \<Rightarrow> bytes \<Rightarrow> payload_kind \<Rightarrow> payload_section" where
  "tlv_section t data kind = \<lparr>sec_kind = kind, sec_direction = payloadDirectionFromTLV (tlv_flags t),
     sec_arg_index = unat (tlv_arg_index t), sec_user_ptr = tlv_user_ptr t, sec_user_len = tlv_user_len t,
     sec_copied_len = tlv_copied_len t, sec_probe_ret = tlv_probe_ret t, sec_data = data\<rparr>"

lemma decode_tlv_cons:
  assumes "payloadKindFromTLV (tlv_kind t) = Some kind" "unat (tlv_copied_len t) = length data"
  shows "decodePayloadTLVSections (enc_tlv_header t @ data @ rest) =
    map_option (Cons (tlv_section t data kind)) (decodePayloadTLVSections rest)"
proof -
  let ?x = "enc_tlv_header t @ data @ rest"
  have f: "rd16 0 ?x = tlv_kind t" "rd16 2 ?x = tlv_arg_index t" "rd16 4 ?x = tlv_flags t"
    "rd32 8 ?x = tlv_user_len t" "rd32 12 ?x = tlv_copied_len t" "rd32 16 ?x = tlv_probe_ret t"
    "rd64 24 ?x = tlv_user_ptr t"
    by (simp_all add: rd_defs layout)
  have "bslice 32 (length data) ?x = data" by (simp add: bslice_append_right)
  then have "decodePayloadTLVSection ?x = Some (tlv_section t data kind, rest)"
    using assms by (simp add: decodePayloadTLVSection_def f tlv_section_def)
  moreover have "enc_tlv_header t \<noteq> []"
    using length_enc_tlv_header [of t] by (metis list.size(3) zero_neq_numeral)
  ultimately show ?thesis
    by (simp add: decodePayloadTLVSections.simps [of ?x])
qed

lemma decode_tlv_nil [simp]: "decodePayloadTLVSections [] = Some []"
  by (simp add: decodePayloadTLVSections.simps)

section \<open>Well-framed payloads\<close>

lemma decode_section_append:
  assumes "PAYLOAD_TLV_HEADER_SIZE \<le> length xs" "decodePayloadTLVSection xs = Some (sec, rest)"
  shows "decodePayloadTLVSection (xs @ ys) = Some (sec, rest @ ys)"
proof -
  have f: "rd16 0 (xs @ ys) = rd16 0 xs" "rd16 2 (xs @ ys) = rd16 2 xs" "rd16 4 (xs @ ys) = rd16 4 xs"
    "rd32 8 (xs @ ys) = rd32 8 xs" "rd32 12 (xs @ ys) = rd32 12 xs" "rd32 16 (xs @ ys) = rd32 16 xs"
    "rd64 24 (xs @ ys) = rd64 24 xs"
    using assms(1) by (simp_all add: rd_defs)
  show ?thesis
    using assms by (auto simp: decodePayloadTLVSection_def f Let_def split: option.splits if_splits)
qed

definition parses :: "bytes \<Rightarrow> bool" where
  "parses xs \<longleftrightarrow> decodePayloadTLVSections xs \<noteq> None"

lemma parses_nil [simp]: "parses []"
  by (simp add: parses_def decodePayloadTLVSections.simps)

lemma parses_append: "parses xs \<Longrightarrow> parses ys \<Longrightarrow> parses (xs @ ys)"
proof (induction xs rule: decodePayloadTLVSections.induct)
  case (1 xs)
  show ?case
  proof (cases "xs = []")
    case False
    with 1(2) obtain sec rest where s: "32 \<le> length xs" "decodePayloadTLVSection xs = Some (sec, rest)" "parses rest"
      by (auto simp: parses_def decodePayloadTLVSections.simps [of xs] split: if_splits option.splits)
    with 1(1) [OF False] 1(3) have "parses (rest @ ys)" by auto
    moreover have "length xs + length ys \<ge> 32" using s(1) by simp
    ultimately show ?thesis
      using decode_section_append [OF s(1,2), of ys] False
      by (auto simp: parses_def decodePayloadTLVSections.simps [of "xs @ ys"])
  qed (use 1 in simp)
qed

lemma parses_section:
  "payloadKindFromTLV (tlv_kind t) \<noteq> None \<Longrightarrow> unat (tlv_copied_len t) = length data \<Longrightarrow>
     parses (enc_tlv_header t @ data)"
  using decode_tlv_cons [of t _ data "[]"] by (auto simp: parses_def)

section \<open>Captures\<close>

text \<open>
  \<open>above off m\<close>: the program leaves the first \<open>off\<close> bytes of the open reservation alone.
\<close>

definition below :: "nat \<Rightarrow> machine \<Rightarrow> bytes option" where
  "below off s = map_option (take off) (reservation s)"

definition above :: "nat \<Rightarrow> 'a bpf \<Rightarrow> bool" where
  "above off m \<longleftrightarrow> state_io_rel (same (below off)) m"

named_theorems above_intros \<open>programs that leave the front of the reservation alone\<close>

lemma above_return: "above off (return x)" unfolding above_def by (rule same.io_return)
lemma above_gets: "above off (gets f)" unfolding above_def by (rule same.io_gets)
lemma above_bind: "above off m \<Longrightarrow> (\<And>x. above off (g x)) \<Longrightarrow> above off (State_Monad.bind m g)"
  unfolding above_def by (rule same.io_bind)
lemma above_if: "(b \<Longrightarrow> above off m) \<Longrightarrow> (\<not> b \<Longrightarrow> above off n) \<Longrightarrow> above off (if b then m else n)"
  by simp
lemma above_only_if: "(b \<Longrightarrow> above off m) \<Longrightarrow> above off (only_if b m)"
  by (simp add: only_if_def above_return)
lemma above_case_option:
  "(y = None \<Longrightarrow> above off m) \<Longrightarrow> (\<And>x. y = Some x \<Longrightarrow> above off (g x)) \<Longrightarrow>
     above off (case y of None \<Rightarrow> m | Some x \<Rightarrow> g x)"
  by (cases y) auto
lemma above_case_prod: "(\<And>a b. above off (h a b)) \<Longrightarrow> above off (case z of (a, b) \<Rightarrow> h a b)"
  by (cases z) auto
lemma above_let: "above off (g x) \<Longrightarrow> above off (let v = x in g v)"
  by simp

lemmas above_rules = above_return above_gets above_bind above_if above_only_if above_case_option
  above_case_prod above_let

lemma keeps_above: "keeps m \<Longrightarrow> above off m"
  unfolding above_def state_io_rel_def same_def below_def by (simp only: keeps_exec) simp

lemma above_mono: "above off' m \<Longrightarrow> off \<le> off' \<Longrightarrow> above off m"
proof -
  assume a: "above off' m" and le: "off \<le> off'"
  have "below off s = map_option (take off) (below off' s)" for s :: machine
    using le by (simp add: below_def option.map_comp comp_def min_def)
  then show ?thesis using a by (simp add: above_def state_io_rel_def same_def)
qed

lemma take_store_at: "off \<le> i \<Longrightarrow> take off (store_at i bs d) = take off d"
  by (simp add: store_at_def poke_def min_def)

lemma above_store:
  "off \<le> i \<Longrightarrow> above off (mem_store i bs)"
  "off \<le> i \<Longrightarrow> above off (bpf_dynptr_write i bs)"
proof -
  assume i: "off \<le> i"
  show "above off (mem_store i bs)"
    unfolding above_def mem_store_def
    by (rule same.io_modify) (simp add: same_def below_def option.map_comp comp_def take_store_at [OF i])
  then show "above off (bpf_dynptr_write i bs)"
    unfolding bpf_dynptr_write_def by (intro above_rules)
qed

lemma keeps_stats [keeps_intros]:
  "keeps (bump_stats k f)"
  "keeps (record_event_integrity_loss k)"
  unfolding bump_stats_def record_event_integrity_loss_def lookup_stats_def store_stats_def
  by (intro keeps_rules keeps_intros keeps_modify; simp)+

lemma keeps_recorders [keeps_intros]:
  "keeps (record_ringbuf_copy_fail k)"
  "keeps (record_payload_truncated_event k)"
  unfolding record_ringbuf_copy_fail_def record_payload_truncated_event_def
  by (intro keeps_rules keeps_intros)+

lemma above_helpers [above_intros]:
  "above off (bpf_ktime_get_ns k')"
  "above off (core_read k' f p)"
  "above off (core_read_into k' f p)"
  "above off (bpf_probe_read_user k' n p)"
  "above off (bpf_probe_read_kernel k' n p)"
  "above off (bpf_probe_read_user_str k' n p)"
  "above off (bpf_probe_read_kernel_str k' n p)"
  "above off (bpf_dynptr_data i n)"
  "above off (record_ringbuf_copy_fail k)"
  "above off (record_payload_truncated_event k)"
  by (rule keeps_above, rule keeps_intros)+

lemma above_data_direct [above_intros]: "above off (payload_tlv_data_direct i n)"
  unfolding payload_tlv_data_direct_def by (intro above_rules above_intros)

lemma above_header:
  "off \<le> i \<Longrightarrow> above off (payload_tlv_write_header_direct k i kind arg fl ul cl pr up)"
  unfolding payload_tlv_write_header_direct_def by (intro above_rules above_intros above_store)

lemma io_bind_gives:
  assumes "state_io_rel (same f) m" "gives m P" "\<And>x. P x \<Longrightarrow> state_io_rel (same f) (g x)"
  shows "state_io_rel (same f) (State_Monad.bind m g)"
  using assms by (simp add: state_io_rel_def same_def gives_def run_bind_parts del: run_state_bind)

lemma silent_bind_gives:
  assumes "silent k m" "gives m P" "\<And>x. P x \<Longrightarrow> silent k (g x)"
  shows "silent k (State_Monad.bind m g)"
proof -
  have "quiet (k_cpu k) s (exec (g (result m s)) (exec m s))" for s
    using assms quiet.R_trans [of "k_cpu k" s "exec m s" "exec (g (result m s)) (exec m s)"]
    by (simp add: silent_def state_io_rel_def gives_def)
  then show ?thesis
    using assms io_bind_gives [of "loss_balance (k_cpu k)" m P g]
    by (simp add: silent_def state_io_rel_def [of "quiet (k_cpu k)"] run_bind_parts del: run_state_bind)
qed

text \<open>
  \<open>extends k off base cap sz m\<close>: when the \<open>base\<close> payload bytes at \<open>off\<close> parse and \<open>cap\<close> bytes of
  room are left behind them, \<open>m\<close> leaves \<open>sz x\<close> bytes that parse, within that room.  A capture is the
  case of an empty base.  The program emits nothing, changes no control state and writes behind the
  base only.
\<close>

definition extends :: "kernel \<Rightarrow> nat \<Rightarrow> nat \<Rightarrow> nat \<Rightarrow> ('a \<Rightarrow> nat) \<Rightarrow> 'a bpf \<Rightarrow> bool" where
  "extends k off base cap sz m \<longleftrightarrow> silent k m \<and> reports m \<and> above (off + base) m \<and>
     (\<forall>s d. reservation s = Some d \<longrightarrow> off + base + cap \<le> length d \<longrightarrow> parses (take base (drop off d)) \<longrightarrow>
        wp m (\<lambda>x t. sz x \<le> base + cap \<and> (\<exists>d'. reservation t = Some d' \<and> parses (take (sz x) (drop off d')))) s)"

definition captures :: "kernel \<Rightarrow> nat \<Rightarrow> nat \<Rightarrow> ('a \<Rightarrow> nat) \<Rightarrow> 'a bpf \<Rightarrow> bool" where
  "captures k off cap sz m \<longleftrightarrow> extends k off 0 cap sz m"

named_theorems captures_intros \<open>captures that leave a well-framed payload\<close>

lemma captures_extends: "captures k off cap sz m \<Longrightarrow> extends k off 0 cap sz m"
  by (simp add: captures_def)

lemma captures_frame:
  assumes "captures k off cap sz m"
  shows "silent k m" "reports m" "above off m"
  using assms by (simp_all add: captures_def extends_def)

lemma captures_mono:
  assumes "captures k off a sz m" "a \<le> b"
  shows "captures k off b sz m"
  using assms unfolding captures_def extends_def wp_def by fastforce

lemma extends_mono:
  assumes "extends k off base a sz m" "a \<le> b"
  shows "extends k off base b sz m"
  using assms unfolding extends_def wp_def by fastforce

lemma extends_return: "sz x = base \<Longrightarrow> extends k off base cap sz (return x)"
  unfolding extends_def by (auto intro: silent_rules reports_rules above_rules simp: wp_return)

lemma captures_return: "sz x = 0 \<Longrightarrow> captures k off cap sz (return x)"
  unfolding captures_def by (rule extends_return) simp

lemma extends_if:
  "(b \<Longrightarrow> extends k off base cap sz m) \<Longrightarrow> (\<not> b \<Longrightarrow> extends k off base cap sz n) \<Longrightarrow>
     extends k off base cap sz (if b then m else n)"
  by simp

lemma captures_if:
  "(b \<Longrightarrow> captures k off cap sz m) \<Longrightarrow> (\<not> b \<Longrightarrow> captures k off cap sz n) \<Longrightarrow>
     captures k off cap sz (if b then m else n)"
  by simp

lemma captures_case_option:
  "(y = None \<Longrightarrow> captures k off cap sz m) \<Longrightarrow> (\<And>x. y = Some x \<Longrightarrow> captures k off cap sz (g x)) \<Longrightarrow>
     captures k off cap sz (case y of None \<Rightarrow> m | Some x \<Rightarrow> g x)"
  by (cases y) auto

lemma captures_case_prod:
  "(\<And>a b. z = (a, b) \<Longrightarrow> captures k off cap sz (h a b)) \<Longrightarrow> captures k off cap sz (case z of (a, b) \<Rightarrow> h a b)"
  by (cases z) auto

lemma extends_case_prod:
  "(\<And>a b. z = (a, b) \<Longrightarrow> extends k off base cap sz (h a b)) \<Longrightarrow>
     extends k off base cap sz (case z of (a, b) \<Rightarrow> h a b)"
  by (cases z) auto

text \<open>A step that leaves the payload so far alone.\<close>

lemma extends_pre:
  assumes m: "silent k m" "reports m" "above (off + base) m" "gives m P"
    and g: "\<And>x. P x \<Longrightarrow> extends k off base cap sz (g x)"
  shows "extends k off base cap sz (State_Monad.bind m g)"
  unfolding extends_def
proof (intro conjI allI impI)
  fix s :: machine and d assume s: "reservation s = Some d" "off + base + cap \<le> length d" "parses (take base (drop off d))"
  obtain d' where d': "reservation (exec m s) = Some d'" "length d' = length d"
    using silent_wp [OF m(1), of s] quiet_reservation [OF _ s(1)] unfolding wp_def by blast
  have "take (off + base) d' = take (off + base) d"
    using same_exec [OF m(3) [unfolded above_def], of s] s(1) d'(1) by (simp add: below_def)
  then have "take base (drop off d') = take base (drop off d)" by (metis drop_take add_diff_cancel_left')
  then show "wp (State_Monad.bind m g) (\<lambda>x t. sz x \<le> base + cap \<and> (\<exists>d'. reservation t = Some d' \<and>
      parses (take (sz x) (drop off d')))) s"
    using g [of "result m s"] m(4) d' s unfolding wp_bind by (auto simp: extends_def gives_def wp_def)
qed (use m g in \<open>auto simp: extends_def reports_def above_def intro: silent_bind_gives io_bind_gives\<close>)

text \<open>A section behind the payload so far.\<close>

lemma extends_capture:
  assumes m: "captures k (off + base) a sy m" "a \<le> cap"
    and g: "\<And>x. extends k off (base + sy x) (cap - a) sz (g x)"
  shows "extends k off base cap sz (State_Monad.bind m g)"
  unfolding extends_def
proof (intro conjI allI impI)
  note fm = captures_frame [OF m(1)]
  fix s :: machine and d assume s: "reservation s = Some d" "off + base + cap \<le> length d" "parses (take base (drop off d))"
  let ?n = "sy (result m s)"
  have room: "off + base + a \<le> length d" using m(2) s(2) by simp
  have "wp m (\<lambda>x t. sy x \<le> 0 + a \<and> (\<exists>d'. reservation t = Some d' \<and> parses (take (sy x) (drop (off + base) d')))) s"
    using m(1) s(1) room unfolding captures_def extends_def by auto
  then obtain d' where d': "reservation (exec m s) = Some d'" "?n \<le> a" "parses (take ?n (drop (off + base) d'))"
    by (auto simp: wp_def)
  have len: "length d' = length d"
    using silent_wp [OF fm(1), of s] quiet_reservation [of "k_cpu k" s "exec m s" d] s(1) d'(1) by (auto simp: wp_def)
  have "take (off + base) d' = take (off + base) d"
    using same_exec [OF fm(3) [unfolded above_def], of s] s(1) d'(1) by (simp add: below_def)
  then have "take base (drop off d') = take base (drop off d)" by (metis drop_take add_diff_cancel_left')
  moreover have "take (base + ?n) (drop off d') = take base (drop off d') @ take ?n (drop (off + base) d')"
    by (simp add: take_add add.commute)
  ultimately have "parses (take (base + ?n) (drop off d'))" using s(3) d'(3) by (simp add: parses_append)
  moreover have "off + (base + ?n) + (cap - a) \<le> length d'" using s(2) len d'(2) m(2) by simp
  ultimately have "wp (g (result m s)) (\<lambda>x t. sz x \<le> base + ?n + (cap - a) \<and> (\<exists>d'. reservation t = Some d' \<and>
      parses (take (sz x) (drop off d')))) (exec m s)"
    using g [of "result m s"] d'(1) unfolding extends_def by blast
  then have "wp (g (result m s)) (\<lambda>x t. sz x \<le> base + cap \<and> (\<exists>d'. reservation t = Some d' \<and>
      parses (take (sz x) (drop off d')))) (exec m s)"
    by (rule wp_mono) (use d'(2) m(2) in auto)
  then show "wp (State_Monad.bind m g) (\<lambda>x t. sz x \<le> base + cap \<and> (\<exists>d'. reservation t = Some d' \<and>
      parses (take (sz x) (drop off d')))) s"
    unfolding wp_bind by (simp add: wp_def)
next
  have "above (off + base) (g x)" for x
    using g [of x] above_mono [of "off + (base + sy x)" "g x" "off + base"] by (simp add: extends_def)
  then show "above (off + base) (State_Monad.bind m g)"
    using captures_frame [OF m(1)] by (intro above_bind)
qed (use g captures_frame [OF m(1)] in \<open>auto simp: extends_def intro: silent_bind reports_bind\<close>)

lemma extends_capture_flags:
  assumes "captures k (off + base) a fst m" "a \<le> cap" "\<And>n fl. extends k off (base + n) (cap - a) sz (g n fl)"
  shows "extends k off base cap sz (State_Monad.bind m (\<lambda>(n, fl). g n fl))"
  by (rule extends_capture [OF assms(1,2)]) (auto simp: split_beta intro: assms(3))

lemma captures_pre:
  assumes "silent k m" "reports m" "above off m" "gives m P" "\<And>x. P x \<Longrightarrow> captures k off cap sz (g x)"
  shows "captures k off cap sz (State_Monad.bind m g)"
  unfolding captures_def by (rule extends_pre [where P = P]) (use assms in \<open>auto simp: captures_def\<close>)

lemma captures_pre_any:
  assumes "silent k m" "reports m" "above off m" "\<And>x. captures k off cap sz (g x)"
  shows "captures k off cap sz (State_Monad.bind m g)"
  by (rule captures_pre [OF assms(1-3) gives_any]) (rule assms(4))

lemma captures_then:
  assumes "captures k off a sy m" "a \<le> cap" "\<And>x. extends k off (sy x) (cap - a) sz (g x)"
  shows "captures k off cap sz (State_Monad.bind m g)"
  unfolding captures_def by (rule extends_capture [where a = a and sy = sy]) (use assms in auto)

text \<open>
  A section is finished by its header: whatever stands behind it, the header and the bytes it counts
  parse.
\<close>

lemma extends_header:
  assumes kind: "payloadKindFromTLV kind \<noteq> None" and sz: "sz (x True) = base + (32 + unat cl)" "32 + unat cl \<le> cap"
  shows "extends k off base cap sz (do {
     ok \<leftarrow> payload_tlv_write_header_direct k (off + base) kind arg fl ul cl pr up; return (x ok) })"
  unfolding extends_def
proof (intro conjI allI impI)
  fix s :: machine and d
  assume s: "reservation s = Some d" "off + base + cap \<le> length d" "parses (take base (drop off d))"
  let ?h = "enc_tlv_header \<lparr>tlv_kind = kind, tlv_arg_index = arg, tlv_flags = fl, tlv_reserved = 0,
     tlv_user_len = ul, tlv_copied_len = cl, tlv_probe_ret = pr, tlv_reserved2 = 0, tlv_user_ptr = up\<rparr>"
  let ?o = "off + base" and ?data = "take (unat cl) (drop (off + base + 32) d)"
  have "take (32 + unat cl) (drop ?o (poke d ?o ?h)) = ?h @ ?data"
    using s sz(2) by (simp add: poke_def)
  moreover have "parses (?h @ ?data)" using s sz(2) kind by (intro parses_section) simp_all
  moreover have "take base (drop off (poke d ?o ?h)) = take base (drop off d)"
    using s sz(2) by (simp add: poke_def drop_take)
  ultimately have "parses (take (base + (32 + unat cl)) (drop off (poke d ?o ?h)))"
    using s(3) by (simp add: take_add parses_append add.commute)
  then show "wp (do { ok \<leftarrow> payload_tlv_write_header_direct k ?o kind arg fl ul cl pr up; return (x ok) })
     (\<lambda>x t. sz x \<le> base + cap \<and> (\<exists>d'. reservation t = Some d' \<and> parses (take (sz x) (drop off d')))) s"
    using s sz by (simp add: payload_tlv_write_header_direct_def wp_simps)
qed (auto intro!: silent_rules silent_intros reports_rules reports_intros above_rules above_header)

lemma captures_header:
  assumes "payloadKindFromTLV kind \<noteq> None" "sz (x True) = 32 + unat cl" "32 + unat cl \<le> cap"
  shows "captures k off cap sz (do {
     ok \<leftarrow> payload_tlv_write_header_direct k off kind arg fl ul cl pr up; return (x ok) })"
  using extends_header [of kind sz x 0 cl cap k off] assms by (simp add: captures_def)

lemma extends_header_nat:
  assumes "payloadKindFromTLV kind \<noteq> None" "sz (x True) = base + (32 + n)" "32 + n \<le> cap" "cap < 2 ^ 32"
  shows "extends k off base cap sz (do {
     ok \<leftarrow> payload_tlv_write_header_direct k (off + base) kind arg fl ul (of_nat n) pr up; return (x ok) })"
proof (rule extends_header [OF assms(1)])
  show "sz (x True) = base + (32 + unat (of_nat n :: u32))" "32 + unat (of_nat n :: u32) \<le> cap"
    using assms by (simp_all add: unat_of_nat take_bit_nat_eq_self)
qed

lemma captures_header_nat:
  assumes "payloadKindFromTLV kind \<noteq> None" "sz (x True) = 32 + n" "32 + n \<le> cap" "cap < 2 ^ 32"
  shows "captures k off cap sz (do {
     ok \<leftarrow> payload_tlv_write_header_direct k off kind arg fl ul (of_nat n) pr up; return (x ok) })"
proof (rule captures_header [OF assms(1)])
  show "sz (x True) = 32 + unat (of_nat n :: u32)" "32 + unat (of_nat n :: u32) \<le> cap"
    using assms by (simp_all add: unat_of_nat take_bit_nat_eq_self)
qed

lemma captures_with_flags:
  "captures k off cap (\<lambda>n. n) m \<Longrightarrow> captures k off cap fst (with_flags fl m)"
proof -
  assume m: "captures k off cap (\<lambda>n. n) m"
  show ?thesis
    unfolding with_flags_def
    by (rule captures_then [OF m order_refl], rule extends_return) simp
qed

text \<open>A copy that stays behind the section header and reports at most \<open>m\<close> bytes.\<close>

definition copies :: "kernel \<Rightarrow> nat \<Rightarrow> nat \<Rightarrow> (nat \<times> s32) bpf \<Rightarrow> bool" where
  "copies k off m c \<longleftrightarrow> silent k c \<and> reports c \<and> above off c \<and> gives c (\<lambda>(n, r). n \<le> m)"

named_theorems copies_intros \<open>copies into a section\<close>

lemma captures_copy:
  assumes "copies k (off + 32) m c" "\<And>n r. n \<le> m \<Longrightarrow> captures k off cap sz (g n r)"
  shows "captures k off cap sz (State_Monad.bind c (\<lambda>(n, r). g n r))"
proof (rule captures_pre [where P = "\<lambda>(n, r). n \<le> m"])
  show "above off c" by (rule above_mono [of "off + 32"]) (use assms(1) in \<open>auto simp: copies_def\<close>)
qed (use assms in \<open>auto simp: copies_def\<close>)

lemma copies_return: "n \<le> m \<Longrightarrow> copies k off m (return (n, r))"
  unfolding copies_def by (auto intro: silent_rules reports_rules above_rules gives_return)

lemma copies_if:
  "(b \<Longrightarrow> copies k off m x) \<Longrightarrow> (\<not> b \<Longrightarrow> copies k off m y) \<Longrightarrow> copies k off m (if b then x else y)"
  by simp

lemma copies_case_prod: "(\<And>a b. z = (a, b) \<Longrightarrow> copies k off m (h a b)) \<Longrightarrow> copies k off m (case z of (a, b) \<Rightarrow> h a b)"
  by (cases z) auto

lemma copies_bind:
  assumes "silent k c" "reports c" "above off c" "gives c P" "\<And>x. P x \<Longrightarrow> copies k off m (g x)"
  shows "copies k off m (State_Monad.bind c g)"
  using assms unfolding copies_def reports_def above_def
  by (auto intro: silent_bind_gives io_bind_gives gives_bind)

lemma copies_step:
  assumes "silent k c" "reports c" "above off c" "\<And>x. copies k off m (g x)"
  shows "copies k off m (State_Monad.bind c g)"
  by (rule copies_bind [OF assms(1-3) gives_any]) (rule assms(4))

lemma copy_len_le: "unat (payload_tlv_copy_len v m) \<le> unat m"
  by (simp add: payload_tlv_copy_len_def unsigned_ucast_eq word_less_nat_alt not_less) (meson order.trans take_bit_nat_less_eq_self)

lemma truncated_compact [simp]:
  "has_flag (fl OR EVENT_FLAG_TRUNCATED) EVENT_FLAG_COMPACT_ENTER = has_flag fl EVENT_FLAG_COMPACT_ENTER"
  by (simp add: has_flag_or) (simp add: has_flag_def)

text \<open>A program that reports and keeps the books: what the dispatchers need of an emitter.\<close>

definition emitter :: "kernel \<Rightarrow> 'a bpf \<Rightarrow> bool" where
  "emitter k m \<longleftrightarrow> accounted k m \<and> reports m"

named_theorems emitter_intros \<open>emitters\<close>

section \<open>Accounting of the emission sequence\<close>

lemma payload_flags_compact [simp]:
  "has_flag (payload_flags n flags) EVENT_FLAG_COMPACT_ENTER = has_flag flags EVENT_FLAG_COMPACT_ENTER"
  by (simp add: payload_flags_def has_flag_or) (simp add: has_flag_def)

text \<open>
  What a capture leaves in the reservation of the record it was made for.
\<close>

lemma captures_holds:
  assumes "captures k off cap sz m" "reservation s = Some d" "length d = off + cap"
  shows "wp m (\<lambda>x t. \<exists>d'. reservation t = Some d' \<and> sz x \<le> cap \<and> holds_payload (off + cap) off (sz x) d') s"
proof -
  have "wp m (\<lambda>x t. sz x \<le> cap \<and> (\<exists>d'. reservation t = Some d' \<and> parses (take (sz x) (drop off d')))) s"
    using assms unfolding captures_def extends_def by auto
  moreover have "map_option length (reservation (exec m s)) = map_option length (reservation s)"
    using silent_wp [OF captures_frame(1) [OF assms(1)], of s] by (simp add: wp_def quiet_def)
  ultimately show ?thesis using assms(2,3) by (auto simp: wp_def holds_payload_def parses_def)
qed

lemma emits_enter_tail:
  assumes "cap < 2 ^ 31"
  shows "emits_on k sequence (\<lambda>d. n \<le> cap \<and> holds_payload (152 + cap) 152 n d \<and> \<not> has_flag flags EVENT_FLAG_COMPACT_ENTER)
     (commit_event k
        (init_syscall_event_v2_header_direct k (zero_header sequence) EVENT_TYPE_ENTER
           (payload_flags n flags) pid tid sys_id (152 + cap) ts)
        (return (enc_enter_body (init_syscall_enter_event_v2_from_args args (of_nat n) ret pre (-1)))))"
proof (cases "n \<le> cap \<and> \<not> has_flag flags EVENT_FLAG_COMPACT_ENTER")
  case True
  then have "unat (of_nat n :: u32) = n" using assms by (simp add: unat_of_nat take_bit_nat_eq_self)
  with True assms show ?thesis
    by (intro emits_on_mono [OF emits_enter_payload])
       (simp_all add: init_syscall_enter_event_v2_from_args_def)
qed (auto simp: emits_on_def)

text \<open>A capture in front of that tail, whatever else it returns.\<close>

lemma emits_enter_capture:
  assumes "captures k 152 cap fst m"
    and "gives m (\<lambda>(n, fl, v). \<not> has_flag fl EVENT_FLAG_COMPACT_ENTER)"
    and "\<And>n fl v. emits_on k sequence (\<lambda>d. n \<le> cap \<and> holds_payload (152 + cap) 152 n d \<and>
       \<not> has_flag fl EVENT_FLAG_COMPACT_ENTER) (g n fl v)"
  shows "emits_on k sequence (\<lambda>d. length d = 152 + cap) (do { (n, fl, v) \<leftarrow> m; g n fl v })"
proof (rule emits_on_bind [OF captures_frame(1) [OF assms(1)], where
    B = "\<lambda>x d. fst x \<le> cap \<and> holds_payload (152 + cap) 152 (fst x) d \<and>
       \<not> has_flag (fst (snd x)) EVENT_FLAG_COMPACT_ENTER"])
  show "wp m (\<lambda>x t. \<exists>d'. reservation t = Some d' \<and> fst x \<le> cap \<and> holds_payload (152 + cap) 152 (fst x) d' \<and>
       \<not> has_flag (fst (snd x)) EVENT_FLAG_COMPACT_ENTER) s"
    if "reservation s = Some d" "length d = 152 + cap" for s d
    using captures_holds [OF assms(1) that] assms(2) by (auto simp: wp_def gives_def split_beta)
qed (use assms(3) in \<open>auto split: prod.split\<close>)

lemma accounted_enter_tlv_probe:
  assumes "captures k 152 cap fst (capture 152)" "cap < 2 ^ 31"
    and "gives (capture 152) (\<lambda>(n, fl, pre). \<not> has_flag fl EVENT_FLAG_COMPACT_ENTER)"
  shows "accounted k (emit_enter_tlv_probe k pid tid sys_id args ts ret cap capture)"
proof -
  have e: "(80 :: nat) + 72 = 152" by simp
  show ?thesis
    unfolding emit_enter_tlv_probe_def Let_def e
    by (intro accounted_with_reservation, unfold emits_eq_on,
        rule emits_enter_capture [OF assms(1,3)], rule emits_enter_tail [OF assms(2)])
qed

lemma accounted_enter_tlv_value:
  assumes "captures k 152 cap fst (capture 152)" "cap < 2 ^ 31"
    and "gives (capture 152) (\<lambda>(n, fl, v). \<not> has_flag fl EVENT_FLAG_COMPACT_ENTER)"
  shows "accounted k (emit_enter_tlv_value k pid tid sys_id args ts cap initial capture)"
proof -
  have e: "(80 :: nat) + 72 = 152" by simp
  show ?thesis
    unfolding emit_enter_tlv_value_def Let_def e
    by (rule accounted_attempt [where r = initial], unfold emits_eq_on,
        rule emits_enter_capture [OF assms(1,3)], rule emits_on_return, rule emits_enter_tail [OF assms(2)])
       (simp add: wp_simps no_reservation)
qed

lemma emit_enter_tlv_eq:
  "emit_enter_tlv k pid tid sys_id args ts ret pre cap capture =
     emit_enter_tlv_probe k pid tid sys_id args ts ret cap (\<lambda>off. do { (n, fl) \<leftarrow> capture off; return (n, fl, pre) })"
  by (simp add: emit_enter_tlv_def emit_enter_tlv_probe_def Let_def case_prod_unfold)

lemma accounted_enter_tlv:
  assumes "captures k 152 cap fst (capture 152)" "cap < 2 ^ 31"
    and "gives (capture 152) (\<lambda>(n, fl). \<not> has_flag fl EVENT_FLAG_COMPACT_ENTER)"
  shows "accounted k (emit_enter_tlv k pid tid sys_id args ts ret pre cap capture)"
  unfolding emit_enter_tlv_eq
proof (rule accounted_enter_tlv_probe)
  show "captures k 152 cap fst (do { (n, fl) \<leftarrow> capture 152; return (n, fl, pre) })"
    by (rule captures_then [OF assms(1) order_refl]) (auto intro: extends_return split: prod.split)
  show "gives (do { (n, fl) \<leftarrow> capture 152; return (n, fl, pre) })
      (\<lambda>(n, fl, pre). \<not> has_flag fl EVENT_FLAG_COMPACT_ENTER)"
    by (rule gives_bind [OF assms(3)]) (auto intro: gives_return)
qed (rule assms(2))

text \<open>The exit records share the tail behind their capture.\<close>

lemma emits_exit_tail:
  assumes "cap < 2 ^ 31"
  shows "emits_on k q (\<lambda>d. n \<le> cap \<and> holds_payload (168 + cap) 168 n d) (commit_event k
      (init_syscall_event_v2_header_direct k (zero_header q) EVENT_TYPE_EXIT flags pid tid sys_id (168 + cap) ts)
      (do { b \<leftarrow> init_syscall_exit_event_v2_from_pending k p ret dur (of_nat n); return (enc_exit_body b) }))"
proof (cases "n \<le> cap")
  case True
  then have "unat (of_nat n :: u32) = n" using assms by (simp add: unat_of_nat take_bit_nat_eq_self)
  with True assms show ?thesis by (intro emits_on_mono [OF emits_exit_payload]) simp_all
qed (simp add: emits_on_def)

lemma accounted_exit_tlv:
  assumes "captures k 168 cap fst (capture 168)" "cap < 2 ^ 31"
  shows "accounted k (emit_exit_tlv k p ret dur cap capture)"
proof -
  have e: "(80 :: nat) + 88 = 168" by simp
  let ?B = "\<lambda>x d. fst x \<le> cap \<and> holds_payload (168 + cap) 168 (fst x) d"
  have "emits_on k sequence (\<lambda>d. length d = 168 + cap) (do {
      (payload_size, flags) \<leftarrow> capture 168;
      commit_event k
             (init_syscall_event_v2_header_direct k (zero_header sequence) EVENT_TYPE_EXIT
                (payload_flags payload_size flags) (ps_pid p) (ps_tid p) (ps_sys_id p) (168 + cap)
                (ps_enter_time p + dur))
             (do { b \<leftarrow> init_syscall_exit_event_v2_from_pending k p ret dur (of_nat payload_size);
                   return (enc_exit_body b) }) })" for sequence
  proof (rule emits_on_bind [OF captures_frame(1) [OF assms(1)], where B = ?B])
    show "wp (capture 168) (\<lambda>x t. \<exists>d'. reservation t = Some d' \<and> ?B x d') s"
      if "reservation s = Some d" "length d = 168 + cap" for s d
      by (rule captures_holds [OF assms(1) that])
  qed (use emits_exit_tail [OF assms(2)] in \<open>auto split: prod.split\<close>)
  then show ?thesis
    unfolding emit_exit_tlv_def Let_def e by (intro accounted_with_reservation) (simp add: emits_eq_on)
qed

lemma reports_emit_tlv [reports_intros]:
  "reports (capture 152) \<Longrightarrow> reports (emit_enter_tlv k pid tid sys_id args ts ret pre cap capture)"
  "reports (capture 168) \<Longrightarrow> reports (emit_exit_tlv k p rv dur cap capture)"
  "reports (capture' 152) \<Longrightarrow> reports (emit_enter_tlv_probe k pid tid sys_id args ts ret cap capture')"
  "reports (capture'' 152) \<Longrightarrow> reports (emit_enter_tlv_value k pid tid sys_id args ts cap initial capture'')"
  unfolding emit_enter_tlv_def emit_enter_tlv_probe_def emit_enter_tlv_value_def emit_exit_tlv_def Let_def
  by (auto intro!: reports_rules reports_intros)

lemma silent_with_flags [silent_intros]: "silent k m \<Longrightarrow> silent k (with_flags flags m)"
  unfolding with_flags_def by (intro silent_rules)

lemma reports_with_flags [reports_intros]: "reports m \<Longrightarrow> reports (with_flags flags m)"
  unfolding with_flags_def by (intro reports_rules)

lemma accounted_exit_sections:
  "captures k 168 cap (\<lambda>n. n) (capture 168) \<Longrightarrow> cap < 2 ^ 31 \<Longrightarrow>
     accounted k (emit_exit_tlv k p ret dur cap (\<lambda>off. with_flags flags (capture off)))"
  by (rule accounted_exit_tlv [OF captures_with_flags])

lemma accounted_enter_sections:
  assumes "captures k 152 cap (\<lambda>n. n) (capture 152)" "cap < 2 ^ 31"
    and "\<not> has_flag flags EVENT_FLAG_COMPACT_ENTER"
  shows "accounted k (emit_enter_tlv k pid tid sys_id args ts ret pre cap (\<lambda>off. with_flags flags (capture off)))"
  by (rule accounted_enter_tlv [OF captures_with_flags])
     (use assms in \<open>auto simp: with_flags_def intro!: gives_bind_any gives_return\<close>)

lemma emitter_exit_tlv:
  "captures k 168 cap fst (capture 168) \<Longrightarrow> cap < 2 ^ 31 \<Longrightarrow> emitter k (emit_exit_tlv k p ret dur cap capture)"
  unfolding emitter_def by (blast intro: accounted_exit_tlv reports_emit_tlv captures_frame)

lemma emitter_enter_tlv:
  "captures k 152 cap fst (capture 152) \<Longrightarrow> cap < 2 ^ 31 \<Longrightarrow>
   gives (capture 152) (\<lambda>(n, fl). \<not> has_flag fl EVENT_FLAG_COMPACT_ENTER) \<Longrightarrow>
     emitter k (emit_enter_tlv k pid tid sys_id args ts ret pre cap capture)"
  unfolding emitter_def by (blast intro: accounted_enter_tlv reports_emit_tlv captures_frame)

lemma emitter_enter_tlv_probe:
  "captures k 152 cap fst (capture 152) \<Longrightarrow> cap < 2 ^ 31 \<Longrightarrow>
   gives (capture 152) (\<lambda>(n, fl, pre). \<not> has_flag fl EVENT_FLAG_COMPACT_ENTER) \<Longrightarrow>
     emitter k (emit_enter_tlv_probe k pid tid sys_id args ts ret cap capture)"
  unfolding emitter_def by (blast intro: accounted_enter_tlv_probe reports_emit_tlv captures_frame)

lemma emitter_enter_tlv_value:
  "captures k 152 cap fst (capture 152) \<Longrightarrow> cap < 2 ^ 31 \<Longrightarrow>
   gives (capture 152) (\<lambda>(n, fl, v). \<not> has_flag fl EVENT_FLAG_COMPACT_ENTER) \<Longrightarrow>
     emitter k (emit_enter_tlv_value k pid tid sys_id args ts cap initial capture)"
  unfolding emitter_def by (blast intro: accounted_enter_tlv_value reports_emit_tlv captures_frame)

lemma emitter_exit_sections:
  "captures k 168 cap (\<lambda>n. n) (capture 168) \<Longrightarrow> cap < 2 ^ 31 \<Longrightarrow>
     emitter k (emit_exit_tlv k p ret dur cap (\<lambda>off. with_flags flags (capture off)))"
  by (rule emitter_exit_tlv [OF captures_with_flags])

lemma emitter_enter_sections:
  assumes "captures k 152 cap (\<lambda>n. n) (capture 152)" "cap < 2 ^ 31" "\<not> has_flag flags EVENT_FLAG_COMPACT_ENTER"
  shows "emitter k (emit_enter_tlv k pid tid sys_id args ts ret pre cap (\<lambda>off. with_flags flags (capture off)))"
  by (rule emitter_enter_tlv [OF captures_with_flags])
     (use assms in \<open>auto simp: with_flags_def intro!: gives_bind_any gives_return\<close>)

lemma emitter_rules:
  "emitter k (return x)"
  "emitter k m \<Longrightarrow> (\<And>x. emitter k (g x)) \<Longrightarrow> emitter k (State_Monad.bind m g)"
  "(b \<Longrightarrow> emitter k u) \<Longrightarrow> (\<not> b \<Longrightarrow> emitter k v) \<Longrightarrow> emitter k (if b then u else v)"
  "(b \<Longrightarrow> emitter k w) \<Longrightarrow> emitter k (only_if b w)"
  "(y = None \<Longrightarrow> emitter k q) \<Longrightarrow> (\<And>x. y = Some x \<Longrightarrow> emitter k (r x)) \<Longrightarrow>
     emitter k (case y of None \<Rightarrow> q | Some x \<Rightarrow> r x)"
  unfolding emitter_def by (auto intro: accounted_rules reports_rules split: option.split)

lemma emitter_accounted: "emitter k m \<Longrightarrow> accounted k m"
  by (simp add: emitter_def)

lemma emitter_reports: "emitter k m \<Longrightarrow> reports m"
  by (simp add: emitter_def)

lemma silent_emitter: "silent k m \<Longrightarrow> reports m \<Longrightarrow> emitter k m"
  by (simp add: emitter_def silent_accounted)

section \<open>The record of an emission\<close>

text \<open>
  \<open>captured cap off n fl payload\<close>: a capture at offset \<open>off\<close> of a record with capacity \<open>cap\<close> that
  reported \<open>n\<close> bytes and the flags \<open>fl\<close> and left \<open>payload\<close> there.
\<close>

definition captured :: "nat \<Rightarrow> nat \<Rightarrow> nat \<Rightarrow> u16 \<Rightarrow> bytes \<Rightarrow> machine \<Rightarrow> (nat \<times> u16) \<Rightarrow> machine \<Rightarrow> bool" where
  "captured cap off n fl payload u x t \<longleftrightarrow> x = (n, fl) \<and> events t = events u \<and>
     (\<exists>d. reservation t = Some d \<and> length d = off + cap \<and> take n (drop off d) = payload)"

lemma commit_exit_content:
  assumes "captured cap 168 n fl payload u (n, fl) t" "n \<le> cap" "cap < 2 ^ 31"
  shows "wp (commit_event k
             (init_syscall_event_v2_header_direct k (zero_header sequence) EVENT_TYPE_EXIT flags pid tid sys_id
                (168 + cap) ts)
             (do { b \<leftarrow> init_syscall_exit_event_v2_from_pending k p ret dur (of_nat n);
                   return (enc_exit_body b) }))
     (\<lambda>_ v. \<exists>r h b. events v = events u @ [r] \<and>
        header_spec EVENT_TYPE_EXIT flags pid tid sys_id (168 + cap) ts sequence h \<and>
        exit_body_spec p ret dur (of_nat n) b \<and> decodeTraceEventV2Envelope r = Some (exit_view h b payload)) t"
proof -
  obtain d where d: "reservation t = Some d" "length d = 168 + cap" "take n (drop 168 d) = payload"
    and ev: "events t = events u" using assms(1) by (auto simp: captured_def)
  let ?H = "header_spec EVENT_TYPE_EXIT flags pid tid sys_id (168 + cap) ts sequence"
  let ?B = "\<lambda>x. \<exists>b. x = enc_exit_body b \<and> exit_body_spec p ret dur (of_nat n) b"
  have n: "unat (of_nat n :: u32) = n" using assms by (simp add: unat_of_nat take_bit_nat_eq_self)
  show ?thesis
  proof (rule wp_mono [OF commit_content [OF _ _ d(1), where H = ?H and B = ?B]])
    fix x v
    assume "\<exists>h b. ?H h \<and> ?B b \<and> events v = events t @ [enc_header h @ b @ drop (80 + length b) d]"
    then obtain h b where h: "?H h" "exit_body_spec p ret dur (of_nat n) b"
      and v: "events v = events u @ [enc_header h @ enc_exit_body b @ drop 168 d]"
      using ev by auto
    let ?r = "enc_header h @ enc_exit_body b @ drop 168 d"
    have "header_for h (length ?r)"
      using header_spec_for [OF h(1)] assms d by (simp add: event_type_known_def)
    moreover have "unat (ext_capture_len b) = n" using h(2) n by (simp add: exit_body_spec_def)
    ultimately have "decodeTraceEventV2Envelope ?r = Some (exit_view h b payload)"
      using decode_exit_of [OF _ refl, of h b "drop 168 d"] h(1) d assms(2) by (simp add: header_spec_def)
    with h v show "\<exists>r h b. events v = events u @ [r] \<and> ?H h \<and> exit_body_spec p ret dur (of_nat n) b \<and>
        decodeTraceEventV2Envelope r = Some (exit_view h b payload)" by blast
  qed (use d init_exit_body_spec [of p ret dur "of_nat n" k]
        init_header_spec [of EVENT_TYPE_EXIT flags pid tid sys_id "168 + cap" ts "zero_header sequence" k] in
      \<open>auto simp: run_bind_parts simp del: run_state_bind intro!: keeps_rules keeps_intros\<close>)
qed

lemma exit_tlv_content:
  assumes "k_reserve k (tick s) (168 + cap)" "cap < 2 ^ 31" "n \<le> cap"
    and cap: "\<And>u d. reservation u = Some d \<Longrightarrow> length d = 168 + cap \<Longrightarrow> tick u = Suc (tick s) \<Longrightarrow>
       events u = events s \<Longrightarrow> control u = control s \<Longrightarrow>
       wp (capture 168) (captured cap 168 n fl payload u) u"
  shows "\<exists>r h b. events (exec (emit_exit_tlv k p ret dur cap capture) s) = events s @ [r] \<and>
     header_spec EVENT_TYPE_EXIT (payload_flags n fl) (ps_pid p) (ps_tid p) (ps_sys_id p) (168 + cap)
       (ps_enter_time p + dur) (next_seq k s) h \<and>
     exit_body_spec p ret dur (of_nat n) b \<and> decodeTraceEventV2Envelope r = Some (exit_view h b payload)"
    (is "\<exists>r h b. _ r \<and> ?H h \<and> ?B b \<and> ?D r h b")
proof -
  have "wp (emit_exit_tlv k p ret dur cap capture)
      (\<lambda>_ t. \<exists>r h b. events t = events s @ [r] \<and> ?H h \<and> ?B b \<and> ?D r h b) s"
    unfolding emit_exit_tlv_def Let_def
  proof (rule with_reservation_content)
    fix u d assume u: "reservation u = Some d" "length d = 80 + 88 + cap" "events u = events s"
      "control u = control s" "tick u = Suc (tick s)"
    have c: "wp (capture (80 + 88)) (captured cap 168 n fl payload u) u" using cap [of u d] u by simp
    show "wp (do { (payload_size, flags) \<leftarrow> capture (80 + 88);
           commit_event k
             (init_syscall_event_v2_header_direct k (zero_header (next_seq k s)) EVENT_TYPE_EXIT
                (payload_flags payload_size flags) (ps_pid p) (ps_tid p) (ps_sys_id p) (80 + 88 + cap)
                (ps_enter_time p + dur))
             (do { b \<leftarrow> init_syscall_exit_event_v2_from_pending k p ret dur (of_nat payload_size);
                   return (enc_exit_body b) }) })
        (\<lambda>_ t. \<exists>r h b. events t = events s @ [r] \<and> ?H h \<and> ?B b \<and> ?D r h b) u"
      unfolding wp_bind
    proof (rule wp_mono [OF c])
      fix x t assume "captured cap 168 n fl payload u x t"
      then have x: "captured cap 168 n fl payload u (n, fl) t" "x = (n, fl)" by (auto simp: captured_def)
      show "wp (case x of (payload_size, flags) \<Rightarrow> commit_event k
             (init_syscall_event_v2_header_direct k (zero_header (next_seq k s)) EVENT_TYPE_EXIT
                (payload_flags payload_size flags) (ps_pid p) (ps_tid p) (ps_sys_id p) (80 + 88 + cap)
                (ps_enter_time p + dur))
             (do { b \<leftarrow> init_syscall_exit_event_v2_from_pending k p ret dur (of_nat payload_size);
                   return (enc_exit_body b) }))
        (\<lambda>_ t. \<exists>r h b. events t = events s @ [r] \<and> ?H h \<and> ?B b \<and> ?D r h b) t"
        using commit_exit_content [OF x(1) assms(3,2)] u(3) x(2) by simp
    qed
  qed (use assms in simp)
  then show ?thesis by (simp add: wp_def)
qed

lemma commit_enter_content:
  assumes "captured cap 152 n fl payload u (n, fl) t" "n \<le> cap" "cap < 2 ^ 31"
    and "\<not> has_flag flags EVENT_FLAG_COMPACT_ENTER"
  shows "wp (commit_event k
             (init_syscall_event_v2_header_direct k (zero_header sequence) EVENT_TYPE_ENTER flags pid tid sys_id
                (152 + cap) ts)
             (return (enc_enter_body (init_syscall_enter_event_v2_from_args args (of_nat n) ret pre (-1)))))
     (\<lambda>_ v. \<exists>r h. events v = events u @ [r] \<and>
        header_spec EVENT_TYPE_ENTER flags pid tid sys_id (152 + cap) ts sequence h \<and>
        decodeTraceEventV2Envelope r =
          Some (enter_view h (init_syscall_enter_event_v2_from_args args (of_nat n) ret pre (-1)) payload)) t"
proof -
  obtain d where d: "reservation t = Some d" "length d = 152 + cap" "take n (drop 152 d) = payload"
    and ev: "events t = events u" using assms(1) by (auto simp: captured_def)
  let ?H = "header_spec EVENT_TYPE_ENTER flags pid tid sys_id (152 + cap) ts sequence"
  let ?b = "init_syscall_enter_event_v2_from_args args (of_nat n) ret pre (-1)"
  have n: "unat (ent_capture_len ?b) = n"
    using assms by (simp add: unat_of_nat take_bit_nat_eq_self init_syscall_enter_event_v2_from_args_def)
  show ?thesis
  proof (rule wp_mono [OF commit_content [OF _ _ d(1), where H = ?H and B = "\<lambda>b. b = enc_enter_body ?b"]])
    fix x v
    assume "\<exists>h b. ?H h \<and> b = enc_enter_body ?b \<and> events v = events t @ [enc_header h @ b @ drop (80 + length b) d]"
    then obtain h where h: "?H h" and v: "events v = events u @ [enc_header h @ enc_enter_body ?b @ drop 152 d]"
      using ev by auto
    let ?r = "enc_header h @ enc_enter_body ?b @ drop 152 d"
    have "header_for h (length ?r)"
      using header_spec_for [OF h] assms d by (simp add: event_type_known_def)
    then have "decodeTraceEventV2Envelope ?r = Some (enter_view h ?b payload)"
      using decode_enter_of [OF _ refl, of h ?b "drop 152 d"] h d n assms(2,4) by (simp add: header_spec_def)
    with h v show "\<exists>r h. events v = events u @ [r] \<and> ?H h \<and>
        decodeTraceEventV2Envelope r = Some (enter_view h ?b payload)" by blast
  qed (use d init_header_spec [of EVENT_TYPE_ENTER flags pid tid sys_id "152 + cap" ts "zero_header sequence" k] in
      \<open>auto intro!: keeps_rules keeps_intros\<close>)
qed

lemma enter_tlv_content:
  assumes "k_reserve k (tick s) (152 + cap)" "cap < 2 ^ 31" "n \<le> cap" "\<not> has_flag fl EVENT_FLAG_COMPACT_ENTER"
    and cap: "\<And>u d. reservation u = Some d \<Longrightarrow> length d = 152 + cap \<Longrightarrow> tick u = Suc (tick s) \<Longrightarrow>
       events u = events s \<Longrightarrow> control u = control s \<Longrightarrow>
       wp (capture 152) (captured cap 152 n fl payload u) u"
  shows "\<exists>r h. events (exec (emit_enter_tlv k pid tid sys_id args ts ret pre cap capture) s) = events s @ [r] \<and>
     header_spec EVENT_TYPE_ENTER (payload_flags n fl) pid tid sys_id (152 + cap) ts (next_seq k s) h \<and>
     decodeTraceEventV2Envelope r =
       Some (enter_view h (init_syscall_enter_event_v2_from_args args (of_nat n) ret pre (-1)) payload)"
    (is "\<exists>r h. _ r \<and> ?H h \<and> ?D r h")
proof -
  have "wp (emit_enter_tlv k pid tid sys_id args ts ret pre cap capture)
      (\<lambda>_ t. \<exists>r h. events t = events s @ [r] \<and> ?H h \<and> ?D r h) s"
    unfolding emit_enter_tlv_def Let_def
  proof (rule with_reservation_content)
    fix u d assume u: "reservation u = Some d" "length d = 80 + 72 + cap" "events u = events s"
      "control u = control s" "tick u = Suc (tick s)"
    have c: "wp (capture (80 + 72)) (captured cap 152 n fl payload u) u" using cap [of u d] u by simp
    show "wp (do { (payload_size, flags) \<leftarrow> capture (80 + 72);
           commit_event k
             (init_syscall_event_v2_header_direct k (zero_header (next_seq k s)) EVENT_TYPE_ENTER
                (payload_flags payload_size flags) pid tid sys_id (80 + 72 + cap) ts)
             (return (enc_enter_body (init_syscall_enter_event_v2_from_args args (of_nat payload_size)
                ret pre (-1)))) })
        (\<lambda>_ t. \<exists>r h. events t = events s @ [r] \<and> ?H h \<and> ?D r h) u"
      unfolding wp_bind
    proof (rule wp_mono [OF c])
      fix x t assume "captured cap 152 n fl payload u x t"
      then have x: "captured cap 152 n fl payload u (n, fl) t" "x = (n, fl)" by (auto simp: captured_def)
      show "wp (case x of (payload_size, flags) \<Rightarrow> commit_event k
             (init_syscall_event_v2_header_direct k (zero_header (next_seq k s)) EVENT_TYPE_ENTER
                (payload_flags payload_size flags) pid tid sys_id (80 + 72 + cap) ts)
             (return (enc_enter_body (init_syscall_enter_event_v2_from_args args (of_nat payload_size)
                ret pre (-1)))))
        (\<lambda>_ t. \<exists>r h. events t = events s @ [r] \<and> ?H h \<and> ?D r h) t"
        using commit_enter_content [OF x(1) assms(3,2)] assms(4) u(3) x(2) by simp
    qed
  qed (use assms in simp)
  then show ?thesis by (simp add: wp_def)
qed

end
