(* ===== verification/Fd_State.thy ===== *)
theory Fd_State
  imports Tlv_Emit
begin

text \<open>
  \<^verbatim>\<open>bpf/syscall_fd_state_direct_event_v2.h\<close>: the kernel objects behind a file descriptor of the
  current task, the descriptor-state and eventfd sections and the exit record that carries them.
\<close>

abbreviation (input) FD_STATE_MAX_FD :: u32 where "FD_STATE_MAX_FD \<equiv> 0x100000"
abbreviation (input) FD_STATE_PROBE_INVALID_FD :: s32 where "FD_STATE_PROBE_INVALID_FD \<equiv> -9"
abbreviation (input) FD_STATE_PROBE_READ_FAILED :: s32 where "FD_STATE_PROBE_READ_FAILED \<equiv> -14"

section \<open>Reading descriptors\<close>

definition is_fd_state_exit_direct_syscall :: "u32 \<Rightarrow> bool" where
  "is_fd_state_exit_direct_syscall sys_id \<longleftrightarrow> sys_id \<in> set
     [SYS_OPEN, SYS_OPENAT, SYS_OPENAT2, SYS_OPEN_TREE, SYS_CREAT, SYS_DUP, SYS_DUP2, SYS_DUP3,
      SYS_EPOLL_CREATE, SYS_TIMERFD_CREATE, SYS_EVENTFD, SYS_EVENTFD2, SYS_EPOLL_CREATE1,
      SYS_INOTIFY_INIT, SYS_INOTIFY_INIT1, SYS_SIGNALFD, SYS_SIGNALFD4, SYS_SOCKET, SYS_PIDFD_OPEN]"

text \<open>The kernel pointer is 0 where the C function returns NULL.\<close>

definition lookup_current_fd_file :: "kernel \<Rightarrow> s32 \<Rightarrow> u64 bpf" where
  "lookup_current_fd_file k fd =
     (if sint fd < 0 \<or> fd \<ge> FD_STATE_MAX_FD then return 0
      else do {
        files \<leftarrow> core_read k ''files'' (k_task k);
        if files = 0 then return 0
        else do {
          fdt \<leftarrow> core_read k ''fdt'' files;
          if fdt = 0 then return 0
          else do {
            max_fds \<leftarrow> core_read k ''max_fds'' fdt;
            if fd \<ge> ucast max_fds then return 0
            else do {
              fd_array \<leftarrow> core_read k ''fd'' fdt;
              if fd_array = 0 then return 0
              else do {
                (read_ret, bs) \<leftarrow> bpf_probe_read_kernel k 8 (fd_array + 8 * ucast fd);
                if read_ret < 0 \<or> (le_word bs :: u64) = 0 then return 0
                else return (le_word bs) } } } } })"

definition zero_fd_state :: fd_state_snapshot where
  "zero_fd_state = \<lparr>fds_fd = 0, fds_flags = 0, fds_mode = 0, fds_reserved = 0, fds_dev = 0, fds_rdev = 0,
     fds_inode = 0, fds_offset = 0\<rparr>"

text \<open>The return code and the snapshot, which stays zero on an error.\<close>

definition read_fd_state_snapshot_from_file :: "kernel \<Rightarrow> u64 \<Rightarrow> s32 \<Rightarrow> (s32 \<times> fd_state_snapshot) bpf" where
  "read_fd_state_snapshot_from_file k file fd =
     (if file = 0 then return (FD_STATE_PROBE_READ_FAILED, zero_fd_state)
      else do {
        inode \<leftarrow> core_read k ''f_inode'' file;
        if inode = 0 then return (FD_STATE_PROBE_READ_FAILED, zero_fd_state)
        else do {
          super \<leftarrow> core_read k ''i_sb'' inode;
          mode \<leftarrow> core_read k ''i_mode'' inode;
          dev \<leftarrow> (if super \<noteq> 0 then core_read k ''s_dev'' super else return 0);
          rdev \<leftarrow> core_read k ''i_rdev'' inode;
          ino \<leftarrow> core_read k ''i_ino'' inode;
          pos \<leftarrow> core_read k ''f_pos'' file;
          return (0, \<lparr>fds_fd = fd, fds_flags = FD_STATE_FLAG_IDENTITY OR FD_STATE_FLAG_OFFSET,
            fds_mode = ucast mode, fds_reserved = 0, fds_dev = dev, fds_rdev = rdev, fds_inode = ino,
            fds_offset = pos\<rparr>) } })"

definition read_fd_state_snapshot :: "kernel \<Rightarrow> s32 \<Rightarrow> (s32 \<times> fd_state_snapshot) bpf" where
  "read_fd_state_snapshot k fd =
     (if sint fd < 0 \<or> fd \<ge> FD_STATE_MAX_FD then return (FD_STATE_PROBE_INVALID_FD, zero_fd_state)
      else do {
        file \<leftarrow> lookup_current_fd_file k fd;
        if file = 0 then return (FD_STATE_PROBE_READ_FAILED, zero_fd_state)
        else read_fd_state_snapshot_from_file k file fd })"

section \<open>Sections\<close>

text \<open>
  The tail of every snapshot capture: the bytes are written behind the section header unless the probe
  failed, a refused write turns into a probe failure, and the header is written last.
\<close>

definition snapshot_section ::
    "kernel \<Rightarrow> nat \<Rightarrow> u16 \<Rightarrow> u16 \<Rightarrow> u16 \<Rightarrow> s32 \<Rightarrow> s32 \<Rightarrow> bytes \<Rightarrow> nat bpf" where
  "snapshot_section k payload_offset kind arg_index flags probe_ret fail_ret bs = do {
     (copied_len, probe_ret') \<leftarrow> (if probe_ret = 0 then do {
          ok \<leftarrow> bpf_dynptr_write (payload_offset + PAYLOAD_TLV_HEADER_SIZE) bs;
          if \<not> ok then do { record_ringbuf_copy_fail k; return (0, fail_ret) }
          else return (length bs, probe_ret) }
        else return (0, probe_ret));
     ok \<leftarrow> payload_tlv_write_header_direct k payload_offset kind arg_index flags (of_nat (length bs))
       (of_nat copied_len) probe_ret' 0;
     return (if ok then PAYLOAD_TLV_HEADER_SIZE + copied_len else 0) }"

definition capture_fd_state_tlv_direct :: "kernel \<Rightarrow> nat \<Rightarrow> s32 \<Rightarrow> nat bpf" where
  "capture_fd_state_tlv_direct k payload_offset fd = do {
     (probe_ret, snapshot) \<leftarrow> read_fd_state_snapshot k fd;
     snapshot_section k payload_offset PAYLOAD_TLV_KIND_FD_STATE PAYLOAD_TLV_FD_STATE_ARG_INDEX
       PAYLOAD_TLV_FLAG_DIRECTION_OUT probe_ret FD_STATE_PROBE_READ_FAILED (enc_fd_state snapshot) }"

definition zero_eventfd_state :: eventfd_state_snapshot where
  "zero_eventfd_state = \<lparr>efd_count = 0, efd_id = 0, efd_semaphore = 0\<rparr>"

definition read_eventfd_state_snapshot :: "kernel \<Rightarrow> s32 \<Rightarrow> (s32 \<times> eventfd_state_snapshot) bpf" where
  "read_eventfd_state_snapshot k fd = do {
     file \<leftarrow> lookup_current_fd_file k fd;
     if file = 0 then return (FD_STATE_PROBE_READ_FAILED, zero_eventfd_state)
     else do {
       eventfd \<leftarrow> core_read k ''private_data'' file;
       if eventfd = 0 then return (FD_STATE_PROBE_READ_FAILED, zero_eventfd_state)
       else do {
         flags \<leftarrow> core_read k ''flags'' eventfd;
         count \<leftarrow> core_read k ''count'' eventfd;
         ident \<leftarrow> core_read k ''id'' eventfd;
         return (0, \<lparr>efd_count = count, efd_id = ucast ident,
           efd_semaphore = (if has_flag (ucast flags) (1 :: u32) then 1 else 0)\<rparr>) } } }"

definition capture_eventfd_state_tlv_direct :: "kernel \<Rightarrow> nat \<Rightarrow> s32 \<Rightarrow> nat bpf" where
  "capture_eventfd_state_tlv_direct k payload_offset fd = do {
     (probe_ret, snapshot) \<leftarrow> read_eventfd_state_snapshot k fd;
     snapshot_section k payload_offset PAYLOAD_TLV_KIND_EVENTFD_STATE PAYLOAD_TLV_EVENTFD_STATE_ARG_INDEX
       PAYLOAD_TLV_FLAG_DIRECTION_OUT probe_ret FD_STATE_PROBE_READ_FAILED (enc_eventfd_state snapshot) }"

definition is_eventfd_state_syscall :: "u32 \<Rightarrow> bool" where
  "is_eventfd_state_syscall sys_id \<longleftrightarrow> sys_id = SYS_EVENTFD \<or> sys_id = SYS_EVENTFD2"

definition emit_fd_state_exit_event_v2_direct :: "kernel \<Rightarrow> pending_syscall \<Rightarrow> s64 \<Rightarrow> u64 \<Rightarrow> unit bpf" where
  "emit_fd_state_exit_event_v2_direct k p ret_value duration =
     (let payload_capacity = PAYLOAD_TLV_HEADER_SIZE + FD_STATE_SNAPSHOT_SIZE +
            (if is_eventfd_state_syscall (ps_sys_id p)
             then PAYLOAD_TLV_HEADER_SIZE + EVENTFD_STATE_SNAPSHOT_SIZE else 0)
      in emit_exit_tlv k p ret_value duration payload_capacity (\<lambda>payload_offset. with_flags 0 (do {
           payload_size \<leftarrow> capture_fd_state_tlv_direct k payload_offset (ucast ret_value);
           if is_eventfd_state_syscall (ps_sys_id p) then do {
             n \<leftarrow> capture_eventfd_state_tlv_direct k (payload_offset + payload_size) (ucast ret_value);
             return (payload_size + n) }
           else return payload_size })))"

section \<open>Reporting and accounting\<close>

lemma reports_fd [reports_intros]:
  "reports (lookup_current_fd_file k fd)"
  "reports (read_fd_state_snapshot_from_file k file fd)"
  "reports (snapshot_section k off kind arg flags pr fr bs)"
  unfolding lookup_current_fd_file_def read_fd_state_snapshot_from_file_def snapshot_section_def
  by (intro reports_rules reports_intros)+

lemma reports_fd2 [reports_intros]:
  "reports (read_fd_state_snapshot k fd)"
  "reports (read_eventfd_state_snapshot k fd)"
  unfolding read_fd_state_snapshot_def read_eventfd_state_snapshot_def
  by (intro reports_rules reports_intros)+

lemma reports_fd3 [reports_intros]:
  "reports (capture_fd_state_tlv_direct k off fd)"
  "reports (capture_eventfd_state_tlv_direct k off fd)"
  unfolding capture_fd_state_tlv_direct_def capture_eventfd_state_tlv_direct_def
  by (intro reports_rules reports_intros)+

lemma reports_fd_exit [reports_intros]: "reports (emit_fd_state_exit_event_v2_direct k p rv dur)"
  unfolding emit_fd_state_exit_event_v2_direct_def Let_def by (intro reports_rules reports_intros)

lemma silent_fd [silent_intros]:
  "silent k (lookup_current_fd_file k' fd)"
  "silent k (read_fd_state_snapshot_from_file k' file fd)"
  "silent k (snapshot_section k off kind arg flags pr fr bs)"
  unfolding lookup_current_fd_file_def read_fd_state_snapshot_from_file_def snapshot_section_def
  by (intro silent_rules silent_intros)+

lemma silent_fd2 [silent_intros]:
  "silent k (read_fd_state_snapshot k' fd)"
  "silent k (read_eventfd_state_snapshot k' fd)"
  unfolding read_fd_state_snapshot_def read_eventfd_state_snapshot_def
  by (intro silent_rules silent_intros)+

lemma silent_fd3 [silent_intros]:
  "silent k (capture_fd_state_tlv_direct k off fd)"
  "silent k (capture_eventfd_state_tlv_direct k off fd)"
  unfolding capture_fd_state_tlv_direct_def capture_eventfd_state_tlv_direct_def
  by (intro silent_rules silent_intros)+

lemma above_fd [above_intros]:
  "above off (lookup_current_fd_file k' fd)"
  "above off (read_fd_state_snapshot_from_file k' file fd)"
  unfolding lookup_current_fd_file_def read_fd_state_snapshot_from_file_def
  by (intro above_rules above_intros)+

lemma above_fd2 [above_intros]:
  "above off (read_fd_state_snapshot k' fd)"
  "above off (read_eventfd_state_snapshot k' fd)"
  unfolding read_fd_state_snapshot_def read_eventfd_state_snapshot_def
  by (intro above_rules above_intros)+

lemma captures_snapshot_section:
  assumes "payloadKindFromTLV kind \<noteq> None" "length bs < 2 ^ 31"
  shows "captures k off (32 + length bs) (\<lambda>n. n) (snapshot_section k off kind arg flags pr fr bs)"
  unfolding snapshot_section_def
  by (rule captures_copy [where m = "length bs"])
     (use assms in \<open>auto intro!: captures_header_nat copies_step copies_return silent_intros reports_intros
        above_intros above_store\<close>)

lemma captures_fd_state [captures_intros]: "captures k off 80 (\<lambda>n. n) (capture_fd_state_tlv_direct k off fd)"
proof -
  have "captures k off 80 (\<lambda>n. n) (snapshot_section k off PAYLOAD_TLV_KIND_FD_STATE
      PAYLOAD_TLV_FD_STATE_ARG_INDEX PAYLOAD_TLV_FLAG_DIRECTION_OUT pr fr (enc_fd_state x))" for pr fr x
    using captures_snapshot_section [of PAYLOAD_TLV_KIND_FD_STATE "enc_fd_state x" k off]
    by (simp add: payloadKindFromTLV_def)
  then show ?thesis
    unfolding capture_fd_state_tlv_direct_def
    by (intro captures_pre_any captures_case_prod silent_intros reports_intros above_intros)
qed

lemma captures_eventfd_state [captures_intros]:
  "captures k off 48 (\<lambda>n. n) (capture_eventfd_state_tlv_direct k off fd)"
proof -
  have "captures k off 48 (\<lambda>n. n) (snapshot_section k off PAYLOAD_TLV_KIND_EVENTFD_STATE
      PAYLOAD_TLV_EVENTFD_STATE_ARG_INDEX PAYLOAD_TLV_FLAG_DIRECTION_OUT pr fr (enc_eventfd_state x))" for pr fr x
    using captures_snapshot_section [of PAYLOAD_TLV_KIND_EVENTFD_STATE "enc_eventfd_state x" k off]
    by (simp add: payloadKindFromTLV_def)
  then show ?thesis
    unfolding capture_eventfd_state_tlv_direct_def
    by (intro captures_pre_any captures_case_prod silent_intros reports_intros above_intros)
qed

lemma accounted_fd_exit [accounted_intros]:
  "accounted k (emit_fd_state_exit_event_v2_direct k p rv dur)"
  unfolding emit_fd_state_exit_event_v2_direct_def Let_def
proof (rule accounted_exit_sections)
  show "captures k 168 (32 + 48 + (if is_eventfd_state_syscall (ps_sys_id p) then 32 + 16 else 0)) (\<lambda>n. n) (do {
      payload_size \<leftarrow> capture_fd_state_tlv_direct k 168 (ucast rv);
      if is_eventfd_state_syscall (ps_sys_id p)
      then capture_eventfd_state_tlv_direct k (168 + payload_size) (ucast rv) \<bind> (\<lambda>n. return (payload_size + n))
      else return payload_size })"
    by (rule captures_then [OF captures_fd_state])
       (auto intro!: extends_capture [OF captures_eventfd_state] extends_return)
qed auto

end
