(* ===== verification/Syscall_Payload.thy ===== *)
theory Syscall_Payload
  imports Fd_State
begin

text \<open>
  \<^verbatim>\<open>bpf/syscall_payload_capture_direct_event_v2.h\<close>, \<^verbatim>\<open>bpf/syscall_exec_capture_direct_event_v2.h\<close>
  and \<^verbatim>\<open>bpf/syscall_payload_emit_direct_event_v2.h\<close>: paths of open and creat, the data of read and
  write, the argument and environment vectors of exec, and the enter and exit records that carry them.
\<close>

section \<open>Path strings\<close>

text \<open>
  The body of \<^verbatim>\<open>capture_openat_path_tlv_direct\<close> and \<^verbatim>\<open>capture_exec_path_tlv_direct\<close>, which differ in
  the name of their (equal) bound only.
\<close>

definition string_section :: "kernel \<Rightarrow> nat \<Rightarrow> nat \<Rightarrow> u16 \<Rightarrow> u64 \<Rightarrow> nat bpf" where
  "string_section k max_len payload_offset arg_index user_ptr = (let data_offset = payload_offset + PAYLOAD_TLV_HEADER_SIZE in do {
     (copied_len, probe_ret) \<leftarrow> (if user_ptr = 0 then return (0, -1)
       else do {
         payload_data \<leftarrow> bpf_dynptr_data data_offset max_len;
         if \<not> payload_data then do { record_ringbuf_copy_fail k; return (0, -1) }
         else do {
           (n, bs) \<leftarrow> bpf_probe_read_user_str k max_len user_ptr;
           mem_store data_offset bs;
           if n < 0 then return (0, of_int n)
           else if n > int max_len then return (max_len, 0)
           else return (nat n, 0) } });
     ok \<leftarrow> payload_tlv_write_header_direct k payload_offset PAYLOAD_TLV_KIND_STRING arg_index 0
       (of_nat copied_len) (of_nat copied_len) probe_ret user_ptr;
     return (if ok then PAYLOAD_TLV_HEADER_SIZE + copied_len else 0) })"

definition capture_openat_path_tlv_direct :: "kernel \<Rightarrow> nat \<Rightarrow> u16 \<Rightarrow> u64 \<Rightarrow> nat bpf" where
  "capture_openat_path_tlv_direct k payload_offset arg_index user_ptr =
     string_section k PAYLOAD_TLV_OPENAT_MAX payload_offset arg_index user_ptr"

definition capture_exec_path_tlv_direct :: "kernel \<Rightarrow> nat \<Rightarrow> u32 \<Rightarrow> u64 \<Rightarrow> nat bpf" where
  "capture_exec_path_tlv_direct k payload_offset path_index user_ptr =
     string_section k EXEC_PATH_SNAPSHOT_MAX payload_offset (ucast path_index) user_ptr"

section \<open>Exec vectors\<close>

text \<open>
  The loop of \<^verbatim>\<open>capture_exec_argv_records_direct\<close> and \<^verbatim>\<open>capture_exec_env_records_direct\<close>: \<open>rest\<close>
  iterations are left, the accumulator is \<^verbatim>\<open>count\<close>, \<^verbatim>\<open>status\<close> and \<^verbatim>\<open>next\<close> of the request.  After the
  last slot the one behind it is read to tell a full vector from a cut one.
\<close>

primrec exec_records_loop ::
    "kernel \<Rightarrow> nat \<Rightarrow> nat \<Rightarrow> u64 \<Rightarrow> nat \<Rightarrow> (nat \<times> s32 \<times> u64) \<Rightarrow> (nat \<times> s32 \<times> u64) bpf" where
  "exec_records_loop k max_records records_offset arr 0 acc = return acc"
| "exec_records_loop k max_records records_offset arr (Suc rest) acc =
     (let i = max_records - Suc rest; slot = arr + of_nat i * 8; (count, status, nxt) = acc in do {
        (err, bs) \<leftarrow> bpf_probe_read_user k 8 slot;
        if err < 0 then return (count, -1, slot)
        else let user_ptr = le_word bs in
          if user_ptr = 0 then return (count, 0, nxt)
          else do {
            (len, data) \<leftarrow> bpf_probe_read_user_str k EXEC_ARG_DATA_SIZE user_ptr;
            ok \<leftarrow> bpf_dynptr_write (records_offset + i * 64)
              (enc_exec_arg \<lparr>eas_ptr = user_ptr, eas_len = of_int len, eas_data = data\<rparr>);
            if \<not> ok then do { record_ringbuf_copy_fail k; return (count, -1, nxt) }
            else if i = max_records - 1 then do {
              let next_slot = arr + of_nat max_records * 8;
              (err', bs') \<leftarrow> bpf_probe_read_user k 8 next_slot;
              exec_records_loop k max_records records_offset arr rest
                (if err' < 0 then (i + 1, -1, next_slot)
                 else if (le_word bs' :: u64) = 0 then (i + 1, 0, nxt)
                 else (i + 1, 1, nxt)) }
            else exec_records_loop k max_records records_offset arr rest (i + 1, status, nxt) } })"

definition capture_exec_argv_records_direct :: "kernel \<Rightarrow> nat \<Rightarrow> u64 \<Rightarrow> (nat \<times> s32 \<times> u64) bpf" where
  "capture_exec_argv_records_direct k records_offset arr =
     (if arr = 0 then return (0, 0, arr)
      else exec_records_loop k EXEC_ARG_MAX records_offset arr EXEC_ARG_MAX (0, -1, arr))"

definition capture_exec_env_records_direct :: "kernel \<Rightarrow> nat \<Rightarrow> u64 \<Rightarrow> (nat \<times> s32 \<times> u64) bpf" where
  "capture_exec_env_records_direct k records_offset arr =
     (if arr = 0 then return (0, 0, arr)
      else exec_records_loop k EXEC_ENV_MAX records_offset arr EXEC_ENV_MAX (0, -1, arr))"

definition capture_exec_snapshot_direct :: "kernel \<Rightarrow> nat \<Rightarrow> u64 \<Rightarrow> u64 \<Rightarrow> nat bpf" where
  "capture_exec_snapshot_direct k snapshot_offset argv_ptr env_ptr =
     (let argv_records_offset = snapshot_offset + 32;
          env_records_offset = snapshot_offset + 32 + EXEC_ARG_MAX * 64 in do {
        (argv_count, argv_status, argv_next) \<leftarrow> capture_exec_argv_records_direct k argv_records_offset argv_ptr;
        (env_count, env_status, env_next) \<leftarrow> capture_exec_env_records_direct k env_records_offset env_ptr;
        ok \<leftarrow> bpf_dynptr_write snapshot_offset (enc_exec_header \<lparr>esh_magic = EXEC_SNAPSHOT_MAGIC,
          esh_argv_count = of_nat argv_count, esh_env_count = of_nat env_count,
          esh_argv_status = argv_status, esh_env_status = env_status,
          esh_argv_next = argv_next, esh_env_next = env_next\<rparr>);
        if \<not> ok then do { record_ringbuf_copy_fail k; return 0 }
        else return (32 + EXEC_ARG_MAX * 64 + env_count * 64) })"

text \<open>\<^verbatim>\<open>sizeof(struct exec_snapshot)\<close>: the header and the argument and environment slots.\<close>

definition exec_snapshot_size :: nat where
  "exec_snapshot_size = 32 + EXEC_ARG_MAX * 64 + EXEC_ENV_MAX * 64"

record exec_capture_request =
  ecr_payload_offset :: nat
  ecr_path_index :: u32
  ecr_argv_index :: u32
  ecr_path_ptr :: u64
  ecr_argv_ptr :: u64
  ecr_env_ptr :: u64

definition capture_exec_tlv_direct :: "kernel \<Rightarrow> exec_capture_request \<Rightarrow> nat bpf" where
  "capture_exec_tlv_direct k request = do {
     path_size \<leftarrow> capture_exec_path_tlv_direct k (ecr_payload_offset request) (ecr_path_index request)
       (ecr_path_ptr request);
     let exec_offset = ecr_payload_offset request + path_size;
     copied_len \<leftarrow> capture_exec_snapshot_direct k (exec_offset + PAYLOAD_TLV_HEADER_SIZE)
       (ecr_argv_ptr request) (ecr_env_ptr request);
     let probe_ret = (if copied_len > 0 then 0 else -1);
     ok \<leftarrow> payload_tlv_write_header_direct k exec_offset PAYLOAD_TLV_KIND_EXEC_ARGS
       (ucast (ecr_argv_index request)) 0 (of_nat exec_snapshot_size) (of_nat copied_len) probe_ret
       (ecr_argv_ptr request);
     return (if ok then path_size + PAYLOAD_TLV_HEADER_SIZE + copied_len else 0) }"

section \<open>Buffers\<close>

text \<open>
  The copy both buffer captures make: \<open>copied_len\<close> bytes from \<open>user_ptr\<close> behind the section header,
  and the truncation mark when less was copied than the call transferred.
\<close>

definition copy_user_bytes :: "kernel \<Rightarrow> nat \<Rightarrow> u64 \<Rightarrow> u32 \<Rightarrow> (u32 \<times> s32) bpf" where
  "copy_user_bytes k data_offset user_ptr copied_len =
     (if user_ptr = 0 then return (0, -1)
      else do {
        payload_data \<leftarrow> payload_tlv_data_direct data_offset copied_len;
        if \<not> payload_data then do { record_ringbuf_copy_fail k; return (0, -1) }
        else do {
          (err, bs) \<leftarrow> bpf_probe_read_user k (unat copied_len) user_ptr;
          mem_store data_offset bs;
          if err < 0 then return (0, of_int err) else return (copied_len, 0) } })"

definition bytes_section ::
    "kernel \<Rightarrow> nat \<Rightarrow> u16 \<Rightarrow> u16 \<Rightarrow> u32 \<Rightarrow> u64 \<Rightarrow> u32 \<times> s32 \<Rightarrow> (nat \<times> u16) bpf" where
  "bytes_section k payload_offset dir_flags event_flags user_len user_ptr copy = (let (copied_len, probe_ret) = copy in do {
     let truncated = (probe_ret = 0 \<and> copied_len > 0 \<and> copied_len < user_len);
     only_if truncated (record_payload_truncated_event k);
     ok \<leftarrow> payload_tlv_write_header_direct k payload_offset PAYLOAD_TLV_KIND_BYTES 1 dir_flags user_len
       copied_len probe_ret user_ptr;
     return (if ok then PAYLOAD_TLV_HEADER_SIZE + unat copied_len else 0,
             if truncated then event_flags OR EVENT_FLAG_TRUNCATED else event_flags) })"

definition capture_write_bytes_tlv_direct :: "kernel \<Rightarrow> nat \<Rightarrow> args6 \<Rightarrow> u16 \<Rightarrow> (nat \<times> u16) bpf" where
  "capture_write_bytes_tlv_direct k payload_offset args event_flags =
     (let user_ptr = arg1 args;
          user_len = payload_tlv_clamp_u32 (arg2 args);
          copied_len = payload_tlv_copy_len (arg2 args) PAYLOAD_TLV_WRITE_MAX in do {
        copy \<leftarrow> (if copied_len > 0 then copy_user_bytes k (payload_offset + PAYLOAD_TLV_HEADER_SIZE) user_ptr copied_len
                 else return (copied_len, 0));
        bytes_section k payload_offset 0 event_flags user_len user_ptr copy })"

definition capture_read_bytes_tlv_direct :: "kernel \<Rightarrow> nat \<Rightarrow> pending_syscall \<Rightarrow> s64 \<Rightarrow> u16 \<Rightarrow> (nat \<times> u16) bpf" where
  "capture_read_bytes_tlv_direct k payload_offset p ret_value event_flags =
     (if sint ret_value \<le> 0 then return (0, event_flags)
      else let user_ptr = arg1 (ps_args p);
               user_len = payload_tlv_clamp_u32 ret_value;
               copied_len = payload_tlv_copy_len ret_value PAYLOAD_TLV_READ_MAX in do {
        copy \<leftarrow> copy_user_bytes k (payload_offset + PAYLOAD_TLV_HEADER_SIZE) user_ptr copied_len;
        bytes_section k payload_offset PAYLOAD_TLV_FLAG_DIRECTION_OUT event_flags user_len user_ptr copy })"

definition capture_payload_tlv_direct :: "kernel \<Rightarrow> nat \<Rightarrow> u32 \<Rightarrow> args6 \<Rightarrow> u16 \<Rightarrow> (nat \<times> u16) bpf" where
  "capture_payload_tlv_direct k payload_offset sys_id args event_flags =
     (if sys_id = SYS_OPEN \<or> sys_id = SYS_CREAT then
        with_flags event_flags (capture_openat_path_tlv_direct k payload_offset 0 (arg0 args))
      else if sys_id = SYS_OPENAT then
        with_flags event_flags (capture_openat_path_tlv_direct k payload_offset 1 (arg1 args))
      else if sys_id = SYS_EXECVE then
        with_flags event_flags (capture_exec_tlv_direct k \<lparr>ecr_payload_offset = payload_offset,
          ecr_path_index = 0, ecr_argv_index = 1, ecr_path_ptr = arg0 args, ecr_argv_ptr = arg1 args,
          ecr_env_ptr = arg2 args\<rparr>)
      else if sys_id = SYS_EXECVEAT then
        with_flags event_flags (capture_exec_tlv_direct k \<lparr>ecr_payload_offset = payload_offset,
          ecr_path_index = 1, ecr_argv_index = 2, ecr_path_ptr = arg1 args, ecr_argv_ptr = arg2 args,
          ecr_env_ptr = arg3 args\<rparr>)
      else if is_write_payload_direct_syscall sys_id then
        capture_write_bytes_tlv_direct k payload_offset args event_flags
      else return (0, event_flags))"

section \<open>Emitters\<close>

definition exec_payload_capacity :: nat where
  "exec_payload_capacity = PAYLOAD_TLV_HEADER_SIZE + exec_snapshot_size + PAYLOAD_TLV_HEADER_SIZE + EXEC_PATH_SNAPSHOT_MAX"

definition emit_payload_enter_event_v2_direct ::
    "kernel \<Rightarrow> u32 \<Rightarrow> u32 \<Rightarrow> u32 \<Rightarrow> sys_enter_ctx \<Rightarrow> u64 \<Rightarrow> unit bpf" where
  "emit_payload_enter_event_v2_direct k pid tid sys_id ctx ts_ns =
     (let args = copy_syscall_enter_args ctx;
          payload_capacity =
            (if is_write_payload_direct_syscall sys_id then
               PAYLOAD_TLV_HEADER_SIZE +
                 unat (payload_tlv_data_bucket (payload_tlv_copy_len (arg2 args) PAYLOAD_TLV_WRITE_MAX))
             else if is_exec_payload_direct_syscall sys_id then exec_payload_capacity
             else PAYLOAD_TLV_HEADER_SIZE + PAYLOAD_TLV_OPENAT_MAX)
      in emit_enter_tlv k pid tid sys_id args ts_ns 0 (-1) payload_capacity (\<lambda>payload_offset.
           capture_payload_tlv_direct k payload_offset sys_id args EVENT_FLAG_GENERIC_ENTER))"

text \<open>The scratch lookup of \<^verbatim>\<open>syscall_fd_path_walk_direct_event_v2.h\<close> and a store into its arguments.\<close>

definition lookup_fd_path_scratch :: "kernel \<Rightarrow> fd_path_scratch option bpf" where
  "lookup_fd_path_scratch k = gets (\<lambda>s. fd_path_scratch_map s (k_cpu k))"

definition store_fd_path_scratch :: "kernel \<Rightarrow> fd_path_scratch \<Rightarrow> unit bpf" where
  "store_fd_path_scratch k x = modify (\<lambda>s. s\<lparr>fd_path_scratch_map := (fd_path_scratch_map s)(k_cpu k \<mapsto> x)\<rparr>)"

definition emit_exec_enter_event_v2_direct_with_status ::
    "kernel \<Rightarrow> u32 \<Rightarrow> u32 \<Rightarrow> u32 \<Rightarrow> sys_enter_ctx \<Rightarrow> u64 \<Rightarrow> u16 \<Rightarrow> s64 \<Rightarrow> s32 \<Rightarrow> unit bpf" where
  "emit_exec_enter_event_v2_direct_with_status k pid tid sys_id ctx ts_ns base_flags ret_value probe_ret_enter = do {
     scratch \<leftarrow> lookup_fd_path_scratch k;
     case scratch of
       None \<Rightarrow> return ()
     | Some x \<Rightarrow> do {
         let args = copy_syscall_enter_args ctx;
         store_fd_path_scratch k (x\<lparr>fps_args := args\<rparr>);
         emit_enter_tlv k pid tid sys_id args ts_ns ret_value probe_ret_enter exec_payload_capacity
           (\<lambda>payload_offset. capture_payload_tlv_direct k payload_offset sys_id args base_flags) } }"

definition emit_exec_enter_event_v2_direct ::
    "kernel \<Rightarrow> u32 \<Rightarrow> u32 \<Rightarrow> u32 \<Rightarrow> sys_enter_ctx \<Rightarrow> u32 option \<Rightarrow> u64 \<Rightarrow> s32 \<Rightarrow> unit bpf" where
  "emit_exec_enter_event_v2_direct k pid tid sys_id ctx cfg ts_ns probe_ret_enter = do {
     only_if (case cfg of None \<Rightarrow> False | Some c \<Rightarrow> has_flag c CONFIG_EMIT_ENTER)
       (emit_exec_enter_event_v2_direct_with_status k pid tid sys_id ctx ts_ns EVENT_FLAG_GENERIC_ENTER 0 (-1));
     emit_exec_enter_event_v2_direct_with_status k pid tid sys_id ctx ts_ns 0 (-514) probe_ret_enter }"

definition emit_syscall_exit_event_v2_direct :: "kernel \<Rightarrow> pending_syscall \<Rightarrow> s64 \<Rightarrow> u64 \<Rightarrow> u16 \<Rightarrow> unit bpf" where
  "emit_syscall_exit_event_v2_direct k p ret_value duration flags =
     (let out_size = EVENT_V2_HEADER_LEN + EVENT_V2_EXIT_BODY_LEN;
          ts_ns = ps_enter_time p + duration
      in with_reservation k out_size (\<lambda>sequence.
           commit_event k
             (init_syscall_event_v2_header_direct k (zero_header sequence) EVENT_TYPE_EXIT flags
                (ps_pid p) (ps_tid p) (ps_sys_id p) out_size ts_ns)
             (do { b \<leftarrow> init_syscall_exit_event_v2_from_pending k p ret_value duration 0;
                   return (enc_exit_body b) })))"

definition emit_open_creat_fd_state_path_exit_event_v2_direct ::
    "kernel \<Rightarrow> pending_syscall \<Rightarrow> s64 \<Rightarrow> u64 \<Rightarrow> unit bpf" where
  "emit_open_creat_fd_state_path_exit_event_v2_direct k p ret_value duration =
     (let path_arg = (if ps_sys_id p = SYS_OPENAT then 1 else 0);
          payload_capacity = PAYLOAD_TLV_HEADER_SIZE + PAYLOAD_TLV_OPENAT_MAX +
            (if 0 \<le> sint ret_value then PAYLOAD_TLV_HEADER_SIZE + FD_STATE_SNAPSHOT_SIZE else 0)
      in emit_exit_tlv k p ret_value duration payload_capacity (\<lambda>payload_offset. with_flags 0 (do {
           payload_size \<leftarrow> capture_openat_path_tlv_direct k payload_offset (of_nat path_arg)
             (arg_at (ps_args p) path_arg);
           if 0 \<le> sint ret_value then do {
             n \<leftarrow> capture_fd_state_tlv_direct k (payload_offset + payload_size) (ucast ret_value);
             return (payload_size + n) }
           else return payload_size })))"

definition emit_payload_exit_event_v2_direct :: "kernel \<Rightarrow> pending_syscall \<Rightarrow> s64 \<Rightarrow> u64 \<Rightarrow> unit bpf" where
  "emit_payload_exit_event_v2_direct k p ret_value duration =
     (let payload_capacity =
            (if 0 < sint ret_value
             then PAYLOAD_TLV_HEADER_SIZE +
               unat (payload_tlv_data_bucket (payload_tlv_copy_len ret_value PAYLOAD_TLV_READ_MAX))
             else 0)
      in emit_exit_tlv k p ret_value duration payload_capacity (\<lambda>payload_offset.
           capture_read_bytes_tlv_direct k payload_offset p ret_value 0))"

definition emit_exec_exit_event_v2_direct :: "kernel \<Rightarrow> pending_syscall \<Rightarrow> s64 \<Rightarrow> u64 \<Rightarrow> unit bpf" where
  "emit_exec_exit_event_v2_direct k p ret_value duration =
     emit_exit_tlv k p ret_value duration exec_payload_capacity (\<lambda>payload_offset. with_flags 0
       (if ps_sys_id p = SYS_EXECVE then
          capture_exec_tlv_direct k \<lparr>ecr_payload_offset = payload_offset, ecr_path_index = 0,
            ecr_argv_index = 1, ecr_path_ptr = arg0 (ps_args p), ecr_argv_ptr = arg1 (ps_args p),
            ecr_env_ptr = arg2 (ps_args p)\<rparr>
        else if ps_sys_id p = SYS_EXECVEAT then
          capture_exec_tlv_direct k \<lparr>ecr_payload_offset = payload_offset, ecr_path_index = 1,
            ecr_argv_index = 2, ecr_path_ptr = arg1 (ps_args p), ecr_argv_ptr = arg2 (ps_args p),
            ecr_env_ptr = arg3 (ps_args p)\<rparr>
        else return 0))"

section \<open>Reporting and accounting\<close>

lemma reports_exec_loop [reports_intros]:
  "reports (exec_records_loop k max_records off arr rest acc)"
  by (induction rest arbitrary: acc) (auto simp: Let_def intro!: reports_rules reports_intros split: prod.split)

lemma silent_exec_loop [silent_intros]:
  "silent k (exec_records_loop k max_records off arr rest acc)"
  by (induction rest arbitrary: acc) (auto simp: Let_def intro!: silent_rules silent_intros split: prod.split)

lemma reports_payload_parts [reports_intros]:
  "reports (string_section k m off arg up)"
  "reports (capture_exec_argv_records_direct k off arr)"
  "reports (capture_exec_env_records_direct k off arr)"
  "reports (copy_user_bytes k off up n)"
  "reports (bytes_section k off df ef ul up copy)"
  unfolding string_section_def capture_exec_argv_records_direct_def capture_exec_env_records_direct_def
    copy_user_bytes_def bytes_section_def Let_def
  by (intro reports_rules reports_intros)+

lemma silent_payload_parts [silent_intros]:
  "silent k (string_section k m off arg up)"
  "silent k (capture_exec_argv_records_direct k off arr)"
  "silent k (capture_exec_env_records_direct k off arr)"
  "silent k (copy_user_bytes k off up n)"
  "silent k (bytes_section k off df ef ul up copy)"
  unfolding string_section_def capture_exec_argv_records_direct_def capture_exec_env_records_direct_def
    copy_user_bytes_def bytes_section_def Let_def
  by (intro silent_rules silent_intros)+

lemmas payload_capture_defs = capture_openat_path_tlv_direct_def capture_exec_path_tlv_direct_def
  capture_exec_snapshot_direct_def capture_write_bytes_tlv_direct_def capture_read_bytes_tlv_direct_def

lemma reports_payload_captures [reports_intros]:
  "reports (capture_openat_path_tlv_direct k off arg up)"
  "reports (capture_exec_path_tlv_direct k off idx up)"
  "reports (capture_exec_snapshot_direct k off argv env)"
  "reports (capture_write_bytes_tlv_direct k off args fl)"
  "reports (capture_read_bytes_tlv_direct k off p rv fl)"
  unfolding payload_capture_defs Let_def by (intro reports_rules reports_intros)+

lemma silent_payload_captures [silent_intros]:
  "silent k (capture_openat_path_tlv_direct k off arg up)"
  "silent k (capture_exec_path_tlv_direct k off idx up)"
  "silent k (capture_exec_snapshot_direct k off argv env)"
  "silent k (capture_write_bytes_tlv_direct k off args fl)"
  "silent k (capture_read_bytes_tlv_direct k off p rv fl)"
  unfolding payload_capture_defs Let_def by (intro silent_rules silent_intros)+

lemma reports_exec_tlv [reports_intros]: "reports (capture_exec_tlv_direct k req)"
  unfolding capture_exec_tlv_direct_def Let_def by (intro reports_rules reports_intros)

lemma silent_exec_tlv [silent_intros]: "silent k (capture_exec_tlv_direct k req)"
  unfolding capture_exec_tlv_direct_def Let_def by (intro silent_rules silent_intros)

lemma reports_payload_tlv [reports_intros]: "reports (capture_payload_tlv_direct k off sys_id args fl)"
  unfolding capture_payload_tlv_direct_def by (intro reports_rules reports_intros)

lemma silent_payload_tlv [silent_intros]: "silent k (capture_payload_tlv_direct k off sys_id args fl)"
  unfolding capture_payload_tlv_direct_def by (intro silent_rules silent_intros)

lemma reports_scratch [reports_intros]:
  "reports (lookup_fd_path_scratch k)" "reports (store_fd_path_scratch k x)"
  unfolding lookup_fd_path_scratch_def store_fd_path_scratch_def
  by (intro reports_rules reports_modify; simp add: control_def)+

lemma silent_scratch [silent_intros]:
  "silent k (lookup_fd_path_scratch k')" "silent k (store_fd_path_scratch k' x)"
  unfolding lookup_fd_path_scratch_def store_fd_path_scratch_def
  by (intro silent_rules silent_modify; simp)+

lemma reports_payload_emitters [reports_intros]:
  "reports (emit_payload_enter_event_v2_direct k pid tid sys_id ctx ts)"
  "reports (emit_exec_enter_event_v2_direct_with_status k pid tid sys_id ctx ts bf rv pre)"
  "reports (emit_syscall_exit_event_v2_direct k p rv dur fl)"
  "reports (emit_open_creat_fd_state_path_exit_event_v2_direct k p rv dur)"
  "reports (emit_payload_exit_event_v2_direct k p rv dur)"
  "reports (emit_exec_exit_event_v2_direct k p rv dur)"
  unfolding emit_payload_enter_event_v2_direct_def emit_exec_enter_event_v2_direct_with_status_def
    emit_syscall_exit_event_v2_direct_def emit_open_creat_fd_state_path_exit_event_v2_direct_def
    emit_payload_exit_event_v2_direct_def emit_exec_exit_event_v2_direct_def Let_def
  by (intro reports_rules reports_intros)+

lemma reports_exec_enter [reports_intros]:
  "reports (emit_exec_enter_event_v2_direct k pid tid sys_id ctx cfg ts pre)"
  unfolding emit_exec_enter_event_v2_direct_def by (intro reports_rules reports_intros)

section \<open>Bounds\<close>

text \<open>Every section fits in the part of the record reserved for it.\<close>

lemma copies_string:
  assumes "0 < m"
  shows "copies k off m (do {
           (n, bs) \<leftarrow> bpf_probe_read_user_str k m up;
           mem_store off bs;
           if n < 0 then return (0, of_int n)
           else if n > int m then return (m, 0)
           else return (nat n, 0) })"
  by (rule copies_step copies_case_prod copies_if copies_return silent_intros reports_intros above_intros above_store
     | simp)+

lemma captures_string_section:
  assumes "0 < m" "m < 2 ^ 31"
  shows "captures k off (32 + m) (\<lambda>n. n) (string_section k m off arg up)"
  unfolding string_section_def Let_def
proof (rule captures_copy [where m = m])
  show "copies k (off + 32) m (if up = 0 then return (0, -1)
       else do {
         payload_data \<leftarrow> bpf_dynptr_data (off + 32) m;
         if \<not> payload_data then do { record_ringbuf_copy_fail k; return (0, -1) }
         else do {
           (n, bs) \<leftarrow> bpf_probe_read_user_str k m up;
           mem_store (off + 32) bs;
           if n < 0 then return (0, of_int n)
           else if n > int m then return (m, 0)
           else return (nat n, 0) } })"
    by (rule copies_if copies_return copies_string [OF assms(1)]
        copies_step [OF silent_helpers(9) reports_helpers(9) above_helpers(8)]
        copies_step [OF silent_failures(1) reports_recorders(2) above_helpers(9)] | simp)+
qed (use assms in \<open>auto intro!: captures_header_nat simp: payloadKindFromTLV_def\<close>)

lemma captures_string_512: "captures k off 544 (\<lambda>n. n) (string_section k 512 off arg up)"
  using captures_string_section [of 512] by simp

lemma gives_exec_loop:
  assumes "rest \<le> max_records" "fst acc \<le> max_records"
  shows "gives (exec_records_loop k max_records off arr rest acc) (\<lambda>x. fst x \<le> max_records)"
  using assms
proof (induction rest arbitrary: acc)
  case 0
  then show ?case by (simp add: gives_return)
next
  case (Suc rest)
  obtain c st nx where acc: "acc = (c, st, nx)" by (cases acc)
  have next_ok: "gives (exec_records_loop k max_records off arr rest (c', st', nx')) (\<lambda>x. fst x \<le> max_records)"
    if "c' \<le> max_records" for c' st' nx'
    using Suc.IH [of "(c', st', nx')"] Suc.prems that by simp
  show ?case
    using Suc.prems
    by (auto simp: acc Let_def intro!: gives_bind_any gives_if gives_return gives_case_prod next_ok)
qed

lemma gives_exec_records:
  "gives (capture_exec_env_records_direct k off arr) (\<lambda>x. fst x \<le> 64)"
  unfolding capture_exec_env_records_direct_def by (intro gives_if gives_return gives_exec_loop) simp_all

lemma gives_exec_snapshot: "gives (capture_exec_snapshot_direct k off argv env) (\<lambda>n. n \<le> exec_snapshot_size)"
  unfolding capture_exec_snapshot_direct_def Let_def exec_snapshot_size_def
  by (intro gives_bind_any gives_case_prod gives_bind [OF gives_exec_records] gives_if gives_return) auto

lemma above_exec_loop: "o' \<le> off \<Longrightarrow> above o' (exec_records_loop k max_records off arr rest acc)"
  by (induction rest arbitrary: acc)
     (auto simp: Let_def intro!: above_rules above_intros above_store split: prod.split)

lemma above_exec_snapshot: "o' \<le> off \<Longrightarrow> above o' (capture_exec_snapshot_direct k off argv env)"
  unfolding capture_exec_snapshot_direct_def capture_exec_argv_records_direct_def
    capture_exec_env_records_direct_def Let_def
  by (intro above_rules above_intros above_store above_exec_loop; simp)

lemma exec_capacity: "exec_payload_capacity = 7776" "exec_snapshot_size = 7200"
  by (simp_all add: exec_payload_capacity_def exec_snapshot_size_def)

lemma captures_exec_tlv [captures_intros]:
  assumes "ecr_payload_offset req = off"
  shows "captures k off 7776 (\<lambda>n. n) (capture_exec_tlv_direct k req)"
  unfolding capture_exec_tlv_direct_def Let_def capture_exec_path_tlv_direct_def assms
  by (rule captures_then [OF captures_string_512], simp,
      rule extends_pre [OF silent_payload_captures(3) reports_payload_captures(3) above_exec_snapshot gives_exec_snapshot],
      simp, rule extends_header_nat) (simp_all add: payloadKindFromTLV_def exec_capacity)

lemma unat_copy_len: "unat (payload_tlv_copy_len v 512) = min (unat v) 512"
proof (cases "unat v \<le> 512")
  case True
  then have "unat (ucast v :: u32) = unat v" by (simp add: unsigned_ucast_eq take_bit_nat_eq_self)
  with True show ?thesis by (simp add: payload_tlv_copy_len_def word_less_nat_alt)
next
  case False
  then show ?thesis by (simp add: payload_tlv_copy_len_def word_less_nat_alt)
qed

lemma copy_len_bucket:
  "unat (payload_tlv_copy_len v 512) \<le> unat (payload_tlv_data_bucket (payload_tlv_copy_len v 512))"
proof -
  have "unat (payload_tlv_copy_len v 512) \<le> 512" by (simp add: unat_copy_len)
  then show ?thesis unfolding payload_tlv_data_bucket_def by (auto simp: word_le_nat_alt)
qed

lemma bucket_le: "unat (payload_tlv_data_bucket n) \<le> 512"
  by (simp add: payload_tlv_data_bucket_def)

lemma gives_copy: "gives (copy_user_bytes k off up n) (\<lambda>x. unat (fst x) \<le> unat n)"
  unfolding copy_user_bytes_def
  by (intro gives_bind_any gives_if gives_case_prod gives_return) simp_all

lemma captures_bytes_section:
  assumes "unat (fst copy) \<le> m" "32 + m \<le> cap"
  shows "captures k off cap fst (bytes_section k off df fl ul up copy)"
  using assms unfolding bytes_section_def Let_def
  by (cases copy) (auto intro!: captures_pre_any captures_header silent_rules silent_intros reports_rules
      reports_intros above_rules above_intros simp: payloadKindFromTLV_def)

lemma gives_bytes_section:
  "\<not> has_flag fl EVENT_FLAG_COMPACT_ENTER \<Longrightarrow>
     gives (bytes_section k off df fl ul up copy) (\<lambda>(n, fl'). \<not> has_flag fl' EVENT_FLAG_COMPACT_ENTER)"
  unfolding bytes_section_def Let_def by (cases copy) (auto intro!: gives_bind_any gives_return)

lemma above_copy: "o' \<le> off \<Longrightarrow> above o' (copy_user_bytes k off up n)"
  unfolding copy_user_bytes_def by (intro above_rules above_intros above_store)

lemma captures_read:
  "captures k off (if 0 < sint rv then 32 + unat (payload_tlv_data_bucket (payload_tlv_copy_len rv 512)) else 0) fst
     (capture_read_bytes_tlv_direct k off p rv fl)"
  unfolding capture_read_bytes_tlv_direct_def Let_def
  using copy_len_bucket [of rv]
  by (auto intro!: captures_return captures_pre [OF _ _ _ gives_copy] silent_intros reports_intros above_copy
      captures_bytes_section)

lemma captures_write:
  "captures k off (32 + unat (payload_tlv_data_bucket (payload_tlv_copy_len (arg2 args) 512))) fst
     (capture_write_bytes_tlv_direct k off args fl)"
  unfolding capture_write_bytes_tlv_direct_def Let_def
proof (rule captures_pre [where P = "\<lambda>x. unat (fst x) \<le> unat (payload_tlv_copy_len (arg2 args) 512)"])
  show "captures k off (32 + unat (payload_tlv_data_bucket (payload_tlv_copy_len (arg2 args) 512))) fst
      (bytes_section k off 0 fl (payload_tlv_clamp_u32 (arg2 args)) (arg1 args) x)"
    if "unat (fst x) \<le> unat (payload_tlv_copy_len (arg2 args) 512)" for x
    by (rule captures_bytes_section [OF that]) (simp add: copy_len_bucket)
qed (auto intro!: silent_rules silent_intros reports_rules reports_intros above_rules above_copy gives_if gives_copy
      gives_return)

lemma accounted_syscall_exit [accounted_intros]: "accounted k (emit_syscall_exit_event_v2_direct k p rv dur fl)"
  unfolding emit_syscall_exit_event_v2_direct_def Let_def
  by (rule accounted_with_reservation, rule emits_exit) simp_all

lemma accounted_payload_exit [accounted_intros]: "accounted k (emit_payload_exit_event_v2_direct k p rv dur)"
  unfolding emit_payload_exit_event_v2_direct_def Let_def
  using bucket_le [of "payload_tlv_copy_len rv 512"]
  by (intro accounted_exit_tlv captures_read) auto

lemma accounted_exec_exit [accounted_intros]: "accounted k (emit_exec_exit_event_v2_direct k p rv dur)"
  unfolding emit_exec_exit_event_v2_direct_def
  by (rule accounted_exit_sections)
     (auto intro!: captures_return captures_exec_tlv simp: exec_capacity(1))

lemma accounted_open_exit [accounted_intros]:
  "accounted k (emit_open_creat_fd_state_path_exit_event_v2_direct k p rv dur)"
  unfolding emit_open_creat_fd_state_path_exit_event_v2_direct_def Let_def capture_openat_path_tlv_direct_def
  by (rule accounted_exit_sections, rule captures_then [OF captures_string_512])
     (auto intro!: extends_capture [OF captures_fd_state] extends_return)

lemma captures_payload_tlv:
  "captures k off (if is_write_payload_direct_syscall sys_id
          then 32 + unat (payload_tlv_data_bucket (payload_tlv_copy_len (arg2 args) 512))
          else if is_exec_payload_direct_syscall sys_id then exec_payload_capacity else 32 + 512) fst
     (capture_payload_tlv_direct k off sys_id args fl)"
  unfolding capture_payload_tlv_direct_def capture_openat_path_tlv_direct_def
  by (auto intro!: captures_return captures_with_flags captures_exec_tlv captures_string_512 captures_write
      simp: exec_capacity(1) is_write_payload_direct_syscall_def is_exec_payload_direct_syscall_def)

lemma gives_payload_tlv:
  assumes "\<not> has_flag fl EVENT_FLAG_COMPACT_ENTER"
  shows "gives (capture_payload_tlv_direct k off sys_id args fl) (\<lambda>(n, fl'). \<not> has_flag fl' EVENT_FLAG_COMPACT_ENTER)"
  using assms unfolding capture_payload_tlv_direct_def capture_write_bytes_tlv_direct_def with_flags_def Let_def
  by (auto intro!: gives_if gives_bind_any gives_return gives_bytes_section)

lemma accounted_payload_enter [accounted_intros]:
  "accounted k (emit_payload_enter_event_v2_direct k pid tid sys_id ctx ts)"
  unfolding emit_payload_enter_event_v2_direct_def Let_def
proof (rule accounted_enter_tlv, rule captures_payload_tlv)
  show "(if is_write_payload_direct_syscall sys_id
      then 32 + unat (payload_tlv_data_bucket (payload_tlv_copy_len (arg2 (copy_syscall_enter_args ctx)) 512))
      else if is_exec_payload_direct_syscall sys_id then exec_payload_capacity else 32 + 512) < 2 ^ 31"
    using bucket_le [of "payload_tlv_copy_len (arg2 (copy_syscall_enter_args ctx)) 512"]
    by (simp add: exec_capacity(1))
qed (rule gives_payload_tlv, simp add: has_flag_def)

lemma accounted_exec_enter_status [accounted_intros]:
  assumes "\<not> has_flag bf EVENT_FLAG_COMPACT_ENTER"
  shows "accounted k (emit_exec_enter_event_v2_direct_with_status k pid tid sys_id ctx ts bf rv pre)"
proof -
  have "captures k 152 exec_payload_capacity fst (capture_payload_tlv_direct k 152 sys_id args bf)" for args
    using bucket_le [of "payload_tlv_copy_len (arg2 args) 512"]
    by (intro captures_mono [OF captures_payload_tlv]) (simp add: exec_capacity(1))
  then have "accounted k (emit_enter_tlv k pid tid sys_id args ts rv pre exec_payload_capacity
      (\<lambda>off. capture_payload_tlv_direct k off sys_id args bf))" for args
    by (intro accounted_enter_tlv gives_payload_tlv) (use assms in \<open>auto simp: exec_capacity(1)\<close>)
  then show ?thesis
    unfolding emit_exec_enter_event_v2_direct_with_status_def Let_def
    by (intro accounted_rules silent_accounted [OF silent_scratch(1)] silent_accounted [OF silent_scratch(2)])
qed

lemma accounted_exec_enter [accounted_intros]:
  "accounted k (emit_exec_enter_event_v2_direct k pid tid sys_id ctx cfg ts pre)"
  unfolding emit_exec_enter_event_v2_direct_def
  by (intro accounted_rules accounted_exec_enter_status) (simp_all add: has_flag_def)

section \<open>Properties\<close>

lemma enter_time_recovered:
  "unat (e :: u64) + unat d < 2 ^ 64 \<Longrightarrow> traceEventV2EnterTime (e + d) d = e"
  by (simp add: traceEventV2EnterTime_def word_less_nat_alt unat_word_ariths)

lemma syscall_exit_content:
  assumes "k_reserve k (tick s) 168"
  shows "\<exists>r h b. events (exec (emit_syscall_exit_event_v2_direct k p ret dur fl) s) = events s @ [r] \<and>
     header_spec EVENT_TYPE_EXIT fl (ps_pid p) (ps_tid p) (ps_sys_id p) 168
       (ps_enter_time p + dur) (next_seq k s) h \<and>
     exit_body_spec p ret dur 0 b \<and> decodeTraceEventV2Envelope r = Some (exit_view h b [])"
    (is "\<exists>r h b. _ r \<and> ?H h \<and> ?B b \<and> ?D r h b")
proof -
  have "wp (emit_syscall_exit_event_v2_direct k p ret dur fl)
      (\<lambda>_ t. \<exists>r h b. events t = events s @ [r] \<and> ?H h \<and> ?B b \<and> ?D r h b) s"
    unfolding emit_syscall_exit_event_v2_direct_def Let_def
  proof (rule with_reservation_content)
    fix u :: machine and d assume u: "reservation u = Some d" "length d = 80 + 88" "events u = events s"
    then have "captured 0 168 0 fl [] u (0, fl) u" by (simp add: captured_def)
    from commit_exit_content [OF this, where sequence = "next_seq k s" and k = k and flags = fl and p = p
        and pid = "ps_pid p" and tid = "ps_tid p" and sys_id = "ps_sys_id p" and ret = ret and dur = dur
        and ts = "ps_enter_time p + dur"] u(3)
    show "wp (commit_event k
             (init_syscall_event_v2_header_direct k (zero_header (next_seq k s)) EVENT_TYPE_EXIT fl
                (ps_pid p) (ps_tid p) (ps_sys_id p) (80 + 88) (ps_enter_time p + dur))
             (do { b \<leftarrow> init_syscall_exit_event_v2_from_pending k p ret dur 0;
                   return (enc_exit_body b) }))
        (\<lambda>_ t. \<exists>r h b. events t = events s @ [r] \<and> ?H h \<and> ?B b \<and> ?D r h b) u"
      by simp
  qed (use assms in simp)
  then show ?thesis by (simp add: wp_def)
qed

text \<open>
  C12: The exit record pairs with its enter: when the ring buffer has room, one record is appended from
  which the decoder reads the task, syscall and arguments saved at enter, the return value, the duration
  and, unless the sum of both times wraps, exactly the enter time.
\<close>

theorem syscall_exit_roundtrip:
  assumes "k_reserve k (tick s) 168" "unat (ps_enter_time p) + unat dur < 2 ^ 64"
  shows "\<exists>r env. events (exec (emit_syscall_exit_event_v2_direct k p ret dur fl) s) = events s @ [r] \<and>
     decodeTraceEventV2Envelope r = Some env \<and> env_event_type env = EVENT_TYPE_EXIT \<and>
     env_pid env = ps_pid p \<and> env_tid env = ps_tid p \<and> env_sys_id env = ps_sys_id p \<and>
     env_args env = ps_args p \<and> env_ret env = ret \<and> env_duration env = dur \<and>
     env_stack_id env = ps_stack_id p \<and> env_enter_time env = ps_enter_time p \<and> env_seq env = next_seq k s"
  using syscall_exit_content [OF assms(1), of p ret dur fl] enter_time_recovered [OF assms(2)]
  by (fastforce simp: header_spec_def exit_body_spec_def exit_view_def)

theorem syscall_exit_roundtrip_witness:
  "\<exists>r env. events (exec (emit_syscall_exit_event_v2_direct (sample_kernel 1 2) (zero_pending_syscall\<lparr>ps_enter_time := 7,
       ps_args := Args 1 2 3 4 5 6\<rparr>) 42 5 0) (boot_machine 4)) = [] @ [r] \<and>
     decodeTraceEventV2Envelope r = Some env \<and> env_ret env = 42 \<and> env_enter_time env = 7"
  using syscall_exit_roundtrip [of "sample_kernel 1 2" "boot_machine 4"
      "zero_pending_syscall\<lparr>ps_enter_time := 7, ps_args := Args 1 2 3 4 5 6\<rparr>" 5 42 0]
  by (auto simp: zero_pending_syscall_def)

text \<open>One TLV section whose data stands behind its header.\<close>

lemma poke_section:
  assumes "off + 32 + length data \<le> length d" "length hb = 32"
  shows "take (32 + length data) (drop off (poke (poke d (off + 32) data) off hb)) = hb @ data"
  using assms by (simp add: poke_def add.commute)

lemma wp_tlv_header:
  assumes "reservation t = Some d" "off + 32 \<le> length d"
  shows "wp (payload_tlv_write_header_direct k off kind arg flags ul cl pr up) Q t =
    Q True (t\<lparr>reservation := Some (poke d off (enc_tlv_header \<lparr>tlv_kind = kind, tlv_arg_index = arg,
       tlv_flags = flags, tlv_reserved = 0, tlv_user_len = ul, tlv_copied_len = cl,
       tlv_probe_ret = pr, tlv_reserved2 = 0, tlv_user_ptr = up\<rparr>))\<rparr>)"
  using assms by (simp add: payload_tlv_write_header_direct_def wp_simps)

lemma wp_data_direct:
  "wp (payload_tlv_data_direct off n) Q s =
     Q (n \<noteq> 0 \<and> dynptr_fits (reservation s) off (unat (payload_tlv_data_bucket n))) s"
  by (simp add: payload_tlv_data_direct_def payload_tlv_data_bucket_def wp_simps)

lemma copy_user_bytes_content:
  assumes "reservation u = Some d" "off + unat (payload_tlv_data_bucket n) \<le> length d"
    and "unat n \<le> unat (payload_tlv_data_bucket n)" "up \<noteq> 0" "n \<noteq> 0"
    and "0 \<le> k_user_fault k (tick u) up (unat n)"
  shows "wp (copy_user_bytes k off up n) (\<lambda>x t. x = (n, 0) \<and> events t = events u \<and>
     reservation t = Some (poke d off (probe_bytes (k_user_mem k (tick u)) up (unat n)))) u"
  using assms by (simp add: copy_user_bytes_def wp_simps wp_data_direct)

lemma bytes_section_content:
  assumes "reservation t = Some d" "off + 32 \<le> length d"
  shows "wp (bytes_section k off df fl ul up (n, 0)) (\<lambda>x v. events v = events t \<and>
     x = (32 + unat n, if n > 0 \<and> n < ul then fl OR EVENT_FLAG_TRUNCATED else fl) \<and>
     reservation v = Some (poke d off (enc_tlv_header \<lparr>tlv_kind = PAYLOAD_TLV_KIND_BYTES, tlv_arg_index = 1,
       tlv_flags = df, tlv_reserved = 0, tlv_user_len = ul, tlv_copied_len = n,
       tlv_probe_ret = 0, tlv_reserved2 = 0, tlv_user_ptr = up\<rparr>))) t"
proof -
  have "reservation (exec (only_if b (record_payload_truncated_event k)) t) = Some d"
    "events (exec (only_if b (record_payload_truncated_event k)) t) = events t" for b
    using assms(1) by (simp_all add: keeps_only_if keeps_recorders)
  then show ?thesis
    using assms(2)
    by (simp add: bytes_section_def Let_def wp_def run_bind_parts payload_tlv_write_header_direct_def
        bpf_dynptr_write_def mem_store_def del: run_state_bind)
qed

lemma unat_clamp: "unat (payload_tlv_clamp_u32 v) = min (unat v) (2 ^ 32 - 1)"
proof (cases "unat v \<le> 2 ^ 32 - 1")
  case True
  then have "unat (ucast v :: u32) = unat v" by (simp add: unsigned_ucast_eq take_bit_nat_eq_self)
  with True show ?thesis by (simp add: payload_tlv_clamp_u32_def word_less_nat_alt)
next
  case False
  then show ?thesis by (simp add: payload_tlv_clamp_u32_def word_less_nat_alt)
qed

lemma copy_cut:
  "payload_tlv_copy_len v 512 < payload_tlv_clamp_u32 v \<longleftrightarrow> 512 < unat v"
  "0 < payload_tlv_copy_len v 512 \<longleftrightarrow> 0 < unat v"
  "payload_tlv_copy_len v 512 = 0 \<longleftrightarrow> unat v = 0"
  by (auto simp: word_less_nat_alt unat_clamp unat_copy_len unat_eq_zero [symmetric] simp del: unat_eq_zero)

lemma sint_pos: "0 < sint (v :: s64) \<Longrightarrow> 0 < unat v"
  by (cases "v = 0") (auto simp: unat_gt_0)

lemma read_capture_content:
  assumes "reservation u = Some d" "length d = 168 + (32 + unat (payload_tlv_data_bucket n))"
    and n: "n = payload_tlv_copy_len ret 512" "0 < sint ret" "arg1 (ps_args p) \<noteq> 0"
    and "0 \<le> k_user_fault k (tick u) (arg1 (ps_args p)) (unat n)"
  shows "wp (capture_read_bytes_tlv_direct k 168 p ret 0)
     (captured (32 + unat (payload_tlv_data_bucket n)) 168 (32 + unat n)
        (if 512 < unat ret then EVENT_FLAG_TRUNCATED else 0)
        (enc_tlv_header \<lparr>tlv_kind = PAYLOAD_TLV_KIND_BYTES, tlv_arg_index = 1,
           tlv_flags = PAYLOAD_TLV_FLAG_DIRECTION_OUT, tlv_reserved = 0,
           tlv_user_len = payload_tlv_clamp_u32 ret, tlv_copied_len = n,
           tlv_probe_ret = 0, tlv_reserved2 = 0, tlv_user_ptr = arg1 (ps_args p)\<rparr> @
         probe_bytes (k_user_mem k (tick u)) (arg1 (ps_args p)) (unat n)) u) u"
proof -
  let ?up = "arg1 (ps_args p)" and ?data = "probe_bytes (k_user_mem k (tick u)) (arg1 (ps_args p)) (unat n)"
  have pos: "0 < unat ret" using sint_pos n by simp
  have nb: "unat n \<le> unat (payload_tlv_data_bucket n)" using copy_len_bucket n(1) by simp
  have copy: "wp (copy_user_bytes k (168 + 32) ?up n) (\<lambda>x t. x = (n, 0) \<and> events t = events u \<and>
     reservation t = Some (poke d (168 + 32) ?data)) u"
    using assms pos nb copy_cut(3) [of ret] by (intro copy_user_bytes_content) auto
  have "wp (do { copy \<leftarrow> copy_user_bytes k (168 + 32) ?up n;
      bytes_section k 168 PAYLOAD_TLV_FLAG_DIRECTION_OUT 0 (payload_tlv_clamp_u32 ret) ?up copy })
    (captured (32 + unat (payload_tlv_data_bucket n)) 168 (32 + unat n)
        (if 512 < unat ret then EVENT_FLAG_TRUNCATED else 0)
        (enc_tlv_header \<lparr>tlv_kind = PAYLOAD_TLV_KIND_BYTES, tlv_arg_index = 1,
           tlv_flags = PAYLOAD_TLV_FLAG_DIRECTION_OUT, tlv_reserved = 0,
           tlv_user_len = payload_tlv_clamp_u32 ret, tlv_copied_len = n,
           tlv_probe_ret = 0, tlv_reserved2 = 0, tlv_user_ptr = ?up\<rparr> @ ?data) u) u"
    unfolding wp_bind
  proof (rule wp_mono [OF copy])
    fix x :: "u32 \<times> s32" and t :: machine
    assume t: "x = (n, 0) \<and> events t = events u \<and> reservation t = Some (poke d (168 + 32) ?data)"
    have len: "168 + 32 \<le> length (poke d (168 + 32) ?data)" using assms(2) nb by simp
    show "wp (bytes_section k 168 PAYLOAD_TLV_FLAG_DIRECTION_OUT 0 (payload_tlv_clamp_u32 ret) ?up x)
      (captured (32 + unat (payload_tlv_data_bucket n)) 168 (32 + unat n)
        (if 512 < unat ret then EVENT_FLAG_TRUNCATED else 0)
        (enc_tlv_header \<lparr>tlv_kind = PAYLOAD_TLV_KIND_BYTES, tlv_arg_index = 1,
           tlv_flags = PAYLOAD_TLV_FLAG_DIRECTION_OUT, tlv_reserved = 0,
           tlv_user_len = payload_tlv_clamp_u32 ret, tlv_copied_len = n,
           tlv_probe_ret = 0, tlv_reserved2 = 0, tlv_user_ptr = ?up\<rparr> @ ?data) u) t"
      unfolding t [THEN conjunct1]
      by (rule wp_mono [OF bytes_section_content [OF t [THEN conjunct2, THEN conjunct2] len]])
         (use t assms(2) nb n(1) pos copy_cut(1,2) [of ret] poke_section [of 168 ?data d] in
           \<open>auto simp: captured_def\<close>)
  qed
  then show ?thesis using n by (simp add: capture_read_bytes_tlv_direct_def Let_def)
qed

text \<open>
  C13: The data of a successful read reaches the consumer.  When the ring buffer has room and the buffer
  can be read, one exit record is appended whose only payload section holds the first
  \<open>min ret 512\<close> bytes of the buffer with the full length beside it, and the record is marked truncated
  exactly when the call returned more.
\<close>

theorem read_payload_roundtrip:
  assumes "0 < sint ret" "arg1 (ps_args p) \<noteq> 0"
    and "k_reserve k (tick s) (200 + unat (payload_tlv_data_bucket (payload_tlv_copy_len ret 512)))"
    and "0 \<le> k_user_fault k (Suc (tick s)) (arg1 (ps_args p)) (min (unat ret) 512)"
  shows "\<exists>r env. events (exec (emit_payload_exit_event_v2_direct k p ret dur) s) = events s @ [r] \<and>
     decodeTraceEventV2Envelope r = Some env \<and> env_ret env = ret \<and> env_args env = ps_args p \<and>
     env_payload env = [\<lparr>sec_kind = PayloadKindBytes, sec_direction = PayloadDirectionOut,
       sec_arg_index = 1, sec_user_ptr = arg1 (ps_args p), sec_user_len = payload_tlv_clamp_u32 ret,
       sec_copied_len = payload_tlv_copy_len ret 512, sec_probe_ret = 0,
       sec_data = probe_bytes (k_user_mem k (Suc (tick s))) (arg1 (ps_args p)) (min (unat ret) 512)\<rparr>] \<and>
     (has_flag (env_event_flags env) EVENT_FLAG_TRUNCATED \<longleftrightarrow> 512 < unat ret)"
proof -
  let ?n = "payload_tlv_copy_len ret 512" and ?fl = "if 512 < unat ret then EVENT_FLAG_TRUNCATED else 0"
  let ?cap = "32 + unat (payload_tlv_data_bucket ?n)"
  let ?t = "\<lparr>tlv_kind = PAYLOAD_TLV_KIND_BYTES, tlv_arg_index = 1,
           tlv_flags = PAYLOAD_TLV_FLAG_DIRECTION_OUT, tlv_reserved = 0,
           tlv_user_len = payload_tlv_clamp_u32 ret, tlv_copied_len = ?n,
           tlv_probe_ret = 0, tlv_reserved2 = 0, tlv_user_ptr = arg1 (ps_args p)\<rparr>"
  let ?data = "probe_bytes (k_user_mem k (Suc (tick s))) (arg1 (ps_args p)) (unat ?n)"
  have n: "unat ?n = min (unat ret) 512" by (rule unat_copy_len)
  have cap: "?cap < 2 ^ 31" using bucket_le [of ?n] by simp
  have "\<exists>r h b. events (exec (emit_exit_tlv k p ret dur ?cap (\<lambda>off. capture_read_bytes_tlv_direct k off p ret 0)) s)
        = events s @ [r] \<and>
     header_spec EVENT_TYPE_EXIT (payload_flags (32 + unat ?n) ?fl) (ps_pid p) (ps_tid p) (ps_sys_id p)
       (168 + ?cap) (ps_enter_time p + dur) (next_seq k s) h \<and>
     exit_body_spec p ret dur (of_nat (32 + unat ?n)) b \<and>
     decodeTraceEventV2Envelope r = Some (exit_view h b (enc_tlv_header ?t @ ?data))"
  proof (rule exit_tlv_content [OF _ cap])
    show "32 + unat ?n \<le> ?cap" using copy_len_bucket by simp
    show "k_reserve k (tick s) (168 + ?cap)" using assms(3) by (simp add: add.assoc)
    show "wp (capture_read_bytes_tlv_direct k 168 p ret 0)
       (captured ?cap 168 (32 + unat ?n) ?fl (enc_tlv_header ?t @ ?data) u) u"
      if "reservation u = Some d" "length d = 168 + ?cap" "tick u = Suc (tick s)" for u :: machine and d
      using read_capture_content [OF that(1) that(2) refl assms(1,2), of k] assms(4) that(3) n by simp
  qed
  then obtain r h b where r:
    "events (exec (emit_payload_exit_event_v2_direct k p ret dur) s) = events s @ [r]"
    "hdr_flags h = payload_flags (32 + unat ?n) ?fl" "exit_body_spec p ret dur (of_nat (32 + unat ?n)) b"
    "decodeTraceEventV2Envelope r = Some (exit_view h b (enc_tlv_header ?t @ ?data))"
    using assms(1) by (auto simp: emit_payload_exit_event_v2_direct_def header_spec_def)
  have flags: "has_flag (hdr_flags h) EVENT_FLAG_PAYLOAD_TLV"
    "has_flag (hdr_flags h) EVENT_FLAG_TRUNCATED \<longleftrightarrow> 512 < unat ret"
    by (auto simp: r(2) payload_flags_def has_flag_def)
  have "decodePayloadTLVSections (enc_tlv_header ?t @ ?data) = Some [tlv_section ?t ?data PayloadKindBytes]"
    using decode_tlv_cons [of ?t PayloadKindBytes ?data "[]"] by (simp add: payloadKindFromTLV_def)
  with r flags show ?thesis
    by (auto simp: exit_view_def exit_body_spec_def payloadSectionsForRawPayloadEvent_def tlv_section_def
        payloadDirectionFromTLV_def has_flag_def n)
qed

theorem read_payload_roundtrip_witness:
  "\<exists>r env. events (exec (emit_payload_exit_event_v2_direct (sample_kernel 1 2) (zero_pending_syscall\<lparr>ps_sys_id := SYS_READ,
       ps_args := Args 3 0x20 100 0 0 0\<rparr>) 3 5) (boot_machine 4)) = [] @ [r] \<and>
     decodeTraceEventV2Envelope r = Some env \<and> map sec_data (env_payload env) = [[0x20, 0x21, 0x22]]"
  using read_payload_roundtrip [of 3 "zero_pending_syscall\<lparr>ps_sys_id := SYS_READ, ps_args := Args 3 0x20 100 0 0 0\<rparr>"
      "sample_kernel 1 2" "boot_machine 4" 5]
  by (fastforce simp: probe_bytes_def upt_conv_Cons)

end
