(* ===== verification/Lifecycle_State.thy ===== *)
theory Lifecycle_State
  imports Syscall_Payload
begin

text \<open>
  \<^verbatim>\<open>bpf/lifecycle_state.h\<close> and \<^verbatim>\<open>bpf/lifecycle_dispatch.h\<close>: the per-process and per-thread maps that
  decide which tasks are traced, and the four scheduler tracepoint programs that maintain them.
\<close>

section \<open>Fork flags and unknown children\<close>

abbreviation (input) CLONE_PTRACE_FLAG :: u64 where "CLONE_PTRACE_FLAG \<equiv> 0x2000"
abbreviation (input) CLONE_PARENT_FLAG :: u64 where "CLONE_PARENT_FLAG \<equiv> 0x8000"

definition update_or_record :: "kernel \<Rightarrow> (machine \<Rightarrow> machine) \<Rightarrow> bool bpf" where
  "update_or_record k upd = do {
     ok \<leftarrow> bpf_map_update k upd;
     if \<not> ok then do { record_lifecycle_map_update_fail k; return False } else return True }"

definition capture_pending_fork_flags :: "kernel \<Rightarrow> u32 \<Rightarrow> u32 \<Rightarrow> sys_enter_ctx \<Rightarrow> unit bpf" where
  "capture_pending_fork_flags k tid sys_id ctx =
     (let store = (\<lambda>flags :: u64. do {
        _ \<leftarrow> update_or_record k (\<lambda>s. s\<lparr>pending_fork_flags_map := (pending_fork_flags_map s)(tid \<mapsto> flags)\<rparr>);
        return () })
      in if sys_id = SYS_CLONE then store (arg0 (sec_args ctx))
         else if sys_id = SYS_CLONE3 then
           (if arg0 (sec_args ctx) = 0 then return ()
            else do {
              (err, bs) \<leftarrow> bpf_probe_read_user k 8 (arg0 (sec_args ctx));
              if err \<noteq> 0 then return () else store (le_word bs) })
         else return ())"

definition pending_fork_flags :: "u32 \<Rightarrow> u64 bpf" where
  "pending_fork_flags tid = do {
     flags \<leftarrow> gets (\<lambda>s. pending_fork_flags_map s tid);
     return (case flags of None \<Rightarrow> 0 | Some x \<Rightarrow> x) }"

definition delete_pending_fork_flags :: "u32 \<Rightarrow> unit bpf" where
  "delete_pending_fork_flags tid =
     modify (\<lambda>s. s\<lparr>pending_fork_flags_map := (pending_fork_flags_map s)(tid := None)\<rparr>)"

definition clear_pending_fork_flags :: "u32 \<Rightarrow> u32 \<Rightarrow> unit bpf" where
  "clear_pending_fork_flags tid sys_id =
     only_if (sys_id = SYS_CLONE \<or> sys_id = SYS_CLONE3) (delete_pending_fork_flags tid)"

definition mark_unknown_child :: "kernel \<Rightarrow> u32 \<Rightarrow> u32 \<Rightarrow> unit bpf" where
  "mark_unknown_child k tid parent_tgid = do {
     _ \<leftarrow> update_or_record k (\<lambda>s. s\<lparr>unknown_children_map := (unknown_children_map s)(tid \<mapsto> parent_tgid)\<rparr>);
     return () }"

definition delete_unknown_child :: "u32 \<Rightarrow> unit bpf" where
  "delete_unknown_child tid = modify (\<lambda>s. s\<lparr>unknown_children_map := (unknown_children_map s)(tid := None)\<rparr>)"

definition take_unknown_child :: "u32 \<Rightarrow> u32 bpf" where
  "take_unknown_child tid = do {
     parent \<leftarrow> gets (\<lambda>s. unknown_children_map s tid);
     case parent of
       None \<Rightarrow> return 0
     | Some x \<Rightarrow> do { delete_unknown_child tid; return x } }"

section \<open>Filters\<close>

definition clear_armed_fork_parent :: "kernel \<Rightarrow> u32 \<Rightarrow> unit bpf" where
  "clear_armed_fork_parent k pid = do {
     armed_parent \<leftarrow> gets arm_fork_map;
     if armed_parent \<noteq> Some pid then return ()
     else do { _ \<leftarrow> update_or_record k (\<lambda>s. s\<lparr>arm_fork_map := Some 0\<rparr>); return () } }"

definition install_pre_exec_filter :: "kernel \<Rightarrow> u32 \<Rightarrow> bool bpf" where
  "install_pre_exec_filter k tid =
     update_or_record k (\<lambda>s. s\<lparr>filter_map := (filter_map s)(tid \<mapsto> FILTER_TASK_TRACKED OR FILTER_TASK_PRE_EXEC)\<rparr>)"

definition install_tracked_filter :: "kernel \<Rightarrow> u32 \<Rightarrow> bool bpf" where
  "install_tracked_filter k tid = do {
     existing \<leftarrow> gets (\<lambda>s. filter_map s tid);
     let v = (case existing of None \<Rightarrow> FILTER_TASK_TRACKED
              | Some x \<Rightarrow> FILTER_TASK_TRACKED OR (x AND FILTER_TASK_PRE_EXEC));
     update_or_record k (\<lambda>s. s\<lparr>filter_map := (filter_map s)(tid \<mapsto> v)\<rparr>) }"

definition clear_pre_exec_filter :: "kernel \<Rightarrow> u32 \<Rightarrow> bool bpf" where
  "clear_pre_exec_filter k tid = do {
     flags \<leftarrow> gets (\<lambda>s. filter_map s tid);
     case flags of
       None \<Rightarrow> return False
     | Some x \<Rightarrow>
         if \<not> has_flag x FILTER_TASK_PRE_EXEC then return False
         else update_or_record k (\<lambda>s. s\<lparr>filter_map := (filter_map s)(tid \<mapsto> x AND NOT FILTER_TASK_PRE_EXEC)\<rparr>) }"

definition delete_filter :: "u32 \<Rightarrow> unit bpf" where
  "delete_filter key = modify (\<lambda>s. s\<lparr>filter_map := (filter_map s)(key := None)\<rparr>)"

definition adopt_exec_task_tracking :: "kernel \<Rightarrow> u32 \<Rightarrow> u32 \<Rightarrow> u32 \<Rightarrow> bool bpf" where
  "adopt_exec_task_tracking k pid tid old_tid = do {
     tracked \<leftarrow> is_lifecycle_task_tracked pid tid;
     if tracked then return True
     else if old_tid = 0 \<or> old_tid = tid then return False
     else do {
       old_flags \<leftarrow> gets (\<lambda>s. filter_map s old_tid);
       case old_flags of
         None \<Rightarrow> return False
       | Some v \<Rightarrow>
           if \<not> has_flag v FILTER_TASK_TRACKED then return False
           else do {
             ok \<leftarrow> update_or_record k (\<lambda>s. s\<lparr>filter_map := (filter_map s)(pid \<mapsto> v)\<rparr>);
             if \<not> ok then return False
             else do { delete_filter old_tid; return True } } } }"

definition delete_attach_root :: "u32 \<Rightarrow> unit bpf" where
  "delete_attach_root key = modify (\<lambda>s. s\<lparr>attach_roots_map := (attach_roots_map s)(key := None)\<rparr>)"

definition clear_process_lifecycle_state :: "kernel \<Rightarrow> u32 \<Rightarrow> unit bpf" where
  "clear_process_lifecycle_state k pid = do {
     delete_filter pid;
     delete_attach_root pid;
     delete_pending_exec pid;
     delete_main_exited pid;
     delete_pending_fork_flags pid;
     delete_unknown_child pid;
     clear_armed_fork_parent k pid }"

definition is_exec_replaced_leader :: "u64 \<Rightarrow> u32 \<Rightarrow> u32 \<Rightarrow> bool bpf" where
  "is_exec_replaced_leader task pid tid =
     (if task = 0 \<or> tid \<noteq> pid then return False
      else do {
        pending_tid \<leftarrow> gets (\<lambda>s. pending_exec_map s pid);
        return (case pending_tid of None \<Rightarrow> False | Some x \<Rightarrow> x \<noteq> pid) })"

definition arm_pending_exec_replacement :: "kernel \<Rightarrow> u32 \<Rightarrow> u32 \<Rightarrow> u32 \<Rightarrow> unit bpf" where
  "arm_pending_exec_replacement k pid tid sys_id =
     (if \<not> is_exec_payload_direct_syscall sys_id \<or> tid = pid then return ()
      else do {
        tracked \<leftarrow> is_lifecycle_task_tracked pid tid;
        if \<not> tracked then return ()
        else do {
          _ \<leftarrow> update_or_record k (\<lambda>s. s\<lparr>pending_exec_map := (pending_exec_map s)(pid \<mapsto> tid)\<rparr>);
          return () } })"

definition clear_replaced_leader_task_state :: "kernel \<Rightarrow> u32 \<Rightarrow> unit bpf" where
  "clear_replaced_leader_task_state k tid = clear_pending_task_state k"

definition clear_lifecycle_task_state :: "kernel \<Rightarrow> u32 \<Rightarrow> u32 \<Rightarrow> unit bpf" where
  "clear_lifecycle_task_state k pid tid = do {
     clear_pending_task_state k;
     if tid \<noteq> pid then do {
       pending_tid \<leftarrow> gets (\<lambda>s. pending_exec_map s pid);
       only_if (pending_tid = Some tid) (delete_pending_exec pid);
       delete_filter tid;
       delete_attach_root tid;
       delete_pending_fork_flags tid;
       delete_unknown_child tid }
     else clear_process_lifecycle_state k pid }"

section \<open>Tracepoint programs\<close>

text \<open>The fields the programs read from their tracepoint contexts.\<close>

record sched_process_fork_ctx =
  spf_child_pid :: u32

record sched_process_exec_ctx =
  spe_data_loc_filename :: u32
  spe_pid :: u32
  spe_old_pid :: s32
  spe_address :: u64

record sched_process_template_ctx =
  spt_pid :: u32

definition emit_successful_exec_completion :: "kernel \<Rightarrow> u32 \<Rightarrow> unit bpf" where
  "emit_successful_exec_completion k pid = do {
     state \<leftarrow> current_pending_task_state k;
     case state of
       None \<Rightarrow> return ()
     | Some st \<Rightarrow>
         if pts_valid st = 0 then return ()
         else let pending = pts_syscall st in
           if \<not> is_exec_payload_direct_syscall (ps_sys_id pending) then return ()
           else do {
             duration \<leftarrow> pending_syscall_duration k pending;
             emit_syscall_exit_event_v2_direct k pending 0 duration 0;
             consume_pending_syscall k pid (ps_tid pending) pending False } }"

definition trace_sched_process_fork :: "kernel \<Rightarrow> sched_process_fork_ctx \<Rightarrow> unit bpf" where
  "trace_sched_process_fork k ctx = do {
     record_lifecycle_fork_seen k;
     let child_pid = spf_child_pid ctx;
     let parent_tgid = cur_pid k;
     let parent_tid = cur_tid k;
     fork_flags \<leftarrow> pending_fork_flags parent_tid;
     arm_parent \<leftarrow> gets arm_fork_map;
     only_if (case arm_parent of None \<Rightarrow> False | Some x \<Rightarrow> x \<noteq> 0 \<and> x = parent_tgid)
       (do { _ \<leftarrow> install_pre_exec_filter k child_pid; return () });
     tracked \<leftarrow> is_lifecycle_task_tracked parent_tgid parent_tid;
     if \<not> tracked then record_lifecycle_fork_parent_untracked k
     else do {
       record_lifecycle_fork_parent_tracked k;
       cfg \<leftarrow> gets config_map;
       let follows_child = (case cfg of None \<Rightarrow> False | Some c \<Rightarrow> has_flag c CONFIG_FOLLOW_FORKS);
       only_if follows_child (do {
         installed \<leftarrow> install_tracked_filter k child_pid;
         record_lifecycle_fork_child_filter k installed });
       let fork_identity = push_bit 32 (fork_flags AND 0xffffffff) OR ucast parent_tgid;
       emit_lifecycle_event k LIFECYCLE_FORK parent_tgid parent_tid fork_identity (ucast child_pid) 0;
       only_if (\<not> follows_child \<and> has_flag fork_flags CLONE_PTRACE_FLAG)
         (emit_lifecycle_event k LIFECYCLE_UNKNOWN_DETACH parent_tgid parent_tid (ucast child_pid) 0 0);
       only_if (\<not> follows_child \<and> has_flag fork_flags CLONE_PARENT_FLAG)
         (mark_unknown_child k child_pid parent_tgid) } }"

definition trace_sched_process_exec :: "kernel \<Rightarrow> sched_process_exec_ctx \<Rightarrow> unit bpf" where
  "trace_sched_process_exec k ctx = do {
     record_lifecycle_exec_seen k;
     let pid = cur_pid k;
     let tid = cur_tid k;
     arm_parent \<leftarrow> gets arm_fork_map;
     tracked \<leftarrow> adopt_exec_task_tracking k pid tid (spe_old_pid ctx);
     only_if tracked (do {
       pre_exec_owner \<leftarrow> clear_pre_exec_filter k tid;
       only_if (pre_exec_owner \<and> (case arm_parent of None \<Rightarrow> False | Some x \<Rightarrow> x \<noteq> 0))
         (do { _ \<leftarrow> update_or_record k (\<lambda>s. s\<lparr>arm_fork_map := Some 0\<rparr>); return () }) });
     if \<not> tracked then record_lifecycle_exec_untracked k
     else do {
       emit_successful_exec_completion k pid;
       let filename_offset = spe_data_loc_filename ctx AND 0xffff;
       let filename = (if filename_offset > 0 then spe_address ctx + ucast filename_offset else 0);
       emit_lifecycle_event k LIFECYCLE_EXEC pid tid (scast (spe_old_pid ctx)) (ucast tid) filename;
       delete_pending_exec pid } }"

definition trace_sched_process_exit :: "kernel \<Rightarrow> sched_process_template_ctx \<Rightarrow> unit bpf" where
  "trace_sched_process_exit k ctx = do {
     record_lifecycle_exit_seen k;
     let pid = cur_pid k;
     let tid = cur_tid k;
     unknown_parent \<leftarrow> take_unknown_child tid;
     only_if (unknown_parent \<noteq> 0)
       (emit_lifecycle_event k LIFECYCLE_UNKNOWN_EXIT unknown_parent unknown_parent (ucast tid) 0 0);
     tracked \<leftarrow> is_lifecycle_task_tracked pid tid;
     if \<not> tracked then record_lifecycle_exit_untracked k
     else do {
       let task = k_task k;
       replaced \<leftarrow> is_exec_replaced_leader task pid tid;
       if replaced then clear_replaced_leader_task_state k tid
       else do {
         mark_attach_task_exited k tid;
         clear_lifecycle_task_state k pid tid;
         exit_code \<leftarrow> (if task \<noteq> 0 then do {
             (_, code) \<leftarrow> core_read_into k ''exit_code'' task;
             return (ucast code :: s32) }
           else return 0);
         emit_lifecycle_event k LIFECYCLE_EXIT pid tid (scast exit_code) 0 0 } } }"

definition trace_sched_process_free :: "kernel \<Rightarrow> sched_process_template_ctx \<Rightarrow> unit bpf" where
  "trace_sched_process_free k ctx = (let tid = spt_pid ctx in
     if tid = 0 then return ()
     else do {
       tracked \<leftarrow> is_lifecycle_task_tracked tid tid;
       if \<not> tracked then return ()
       else do {
         clear_lifecycle_task_state k tid tid;
         emit_lifecycle_event k LIFECYCLE_FREE tid tid (ucast tid) 0 0 } })"

section \<open>Accounting\<close>

lemma silent_update_or_record:
  assumes "\<And>s. events (f s) = events s \<and> stats_map (f s) = stats_map s \<and>
      event_loss_map (f s) = event_loss_map s \<and> reservation (f s) = reservation s"
  shows "silent k (update_or_record k f)"
  unfolding update_or_record_def by (intro silent_rules silent_intros silent_map_update assms)

lemma silent_deletes [silent_intros]:
  "silent k (delete_pending_fork_flags tid)"
  "silent k (delete_unknown_child tid)"
  "silent k (delete_filter tid)"
  "silent k (delete_attach_root tid)"
  unfolding delete_pending_fork_flags_def delete_unknown_child_def delete_filter_def delete_attach_root_def
  by (intro silent_modify; simp)+

lemma silent_lifecycle_state [silent_intros]:
  "silent k (capture_pending_fork_flags k tid sys_id ctx)"
  "silent k (pending_fork_flags tid)"
  "silent k (clear_pending_fork_flags tid sys_id)"
  "silent k (mark_unknown_child k tid parent)"
  "silent k (take_unknown_child tid)"
  "silent k (clear_armed_fork_parent k pid)"
  "silent k (install_pre_exec_filter k tid)"
  "silent k (install_tracked_filter k tid)"
  "silent k (clear_pre_exec_filter k tid)"
  "silent k (adopt_exec_task_tracking k pid tid old_tid)"
  "silent k (is_exec_replaced_leader task pid tid)"
  "silent k (arm_pending_exec_replacement k pid tid sys_id)"
  "silent k (clear_replaced_leader_task_state k' tid)"
  unfolding capture_pending_fork_flags_def pending_fork_flags_def clear_pending_fork_flags_def
    mark_unknown_child_def take_unknown_child_def clear_armed_fork_parent_def install_pre_exec_filter_def
    install_tracked_filter_def clear_pre_exec_filter_def adopt_exec_task_tracking_def
    is_exec_replaced_leader_def arm_pending_exec_replacement_def clear_replaced_leader_task_state_def Let_def
  by (intro silent_rules silent_intros silent_update_or_record; simp)+

lemma silent_clear_process [silent_intros]: "silent k (clear_process_lifecycle_state k pid)"
  unfolding clear_process_lifecycle_state_def by (intro silent_rules silent_intros)

lemma silent_clear_task [silent_intros]: "silent k (clear_lifecycle_task_state k pid tid)"
  unfolding clear_lifecycle_task_state_def by (intro silent_rules silent_intros)

lemma accounted_exec_completion [accounted_intros]: "accounted k (emit_successful_exec_completion k pid)"
  unfolding emit_successful_exec_completion_def Let_def
  by (rule accounted_rules accounted_intros | rule silent_accounted, rule silent_intros)+

lemma accounted_sched_programs [accounted_intros]:
  "accounted k (trace_sched_process_fork k fctx)"
  "accounted k (trace_sched_process_exec k ectx)"
  "accounted k (trace_sched_process_exit k tctx)"
  "accounted k (trace_sched_process_free k tctx)"
  unfolding trace_sched_process_fork_def trace_sched_process_exec_def trace_sched_process_exit_def
    trace_sched_process_free_def Let_def
  by (rule accounted_rules accounted_intros
      | rule silent_accounted, rule silent_intros
      | rule silent_accounted, rule silent_update_or_record, simp)+

section \<open>Frames\<close>

definition tracked_in :: "(u32 \<rightharpoonup> u32) \<Rightarrow> u32 \<Rightarrow> u32 \<Rightarrow> bool" where
  "tracked_in m pid tid \<longleftrightarrow> tracked_flags m pid \<noteq> None \<or> tracked_flags m tid \<noteq> None"

lemma result_tracked [simp]: "result (is_lifecycle_task_tracked pid tid) s = tracked_in (filter_map s) pid tid"
  by (auto simp: is_lifecycle_task_tracked_def lookup_lifecycle_task_filter_flags_def tracked_in_def
      run_bind_parts simp del: run_state_bind split: option.splits)

lemma reports_frame:
  assumes "reports m"
  shows "filter_map (exec m s) = filter_map s" "arm_fork_map (exec m s) = arm_fork_map s"
    "main_exited_map (exec m s) = main_exited_map s"
    "pending_exec_map (exec m s) = pending_exec_map s" "config_map (exec m s) = config_map s"
    "pending_task_storage (exec m s) = pending_task_storage s"
    "attach_roots_map (exec m s) = attach_roots_map s"
    "pending_fork_flags_map (exec m s) = pending_fork_flags_map s"
    "unknown_children_map (exec m s) = unknown_children_map s"
  by (rule control_fields [OF reports_control [OF assms]])+

lemma update_or_record_frame:
  "k_map_update k (tick s) \<Longrightarrow> exec (update_or_record k f) s = f (s\<lparr>tick := Suc (tick s)\<rparr>)"
  "k_map_update k (tick s) \<Longrightarrow> result (update_or_record k f) s"
  by (simp_all add: update_or_record_def bpf_map_update_def next_tick_def run_bind_parts del: run_state_bind)

text \<open>Whatever the kernel answers, an update either happens or leaves the decisions as they were.\<close>

lemma update_or_record_cases:
  "result (update_or_record k f) s \<and> control (exec (update_or_record k f) s) = control (f (s\<lparr>tick := Suc (tick s)\<rparr>)) \<or>
   \<not> result (update_or_record k f) s \<and> control (exec (update_or_record k f) s) = control s"
proof -
  have c: "control (s\<lparr>tick := n\<rparr>) = control s" for s n by (simp add: control_def)
  have "control (exec (record_lifecycle_map_update_fail k) u) = control u" for u
    by (rule reports_control) (rule reports_intros)
  then show ?thesis
    by (simp add: update_or_record_def bpf_map_update_def next_tick_def run_bind_parts c del: run_state_bind)
qed

lemma filter_map_tick [simp]: "filter_map (s\<lparr>tick := n\<rparr>) = filter_map s" by simp

text \<open>The programs of this file that leave the filter map alone.\<close>

abbreviation keeps_filter :: "'a bpf \<Rightarrow> bool" where
  "keeps_filter m \<equiv> state_io_rel (same filter_map) m"

named_theorems filter_frame \<open>programs that do not touch the filter map\<close>

lemma keeps_filter_update [filter_frame]:
  "(\<And>s. filter_map (f s) = filter_map s) \<Longrightarrow> keeps_filter (update_or_record k f)"
  unfolding update_or_record_def
  by (intro same.io_rules io_map_update reports_fields reports_intros) simp_all

lemma keeps_filter_deletes [filter_frame]:
  "keeps_filter (delete_pending_fork_flags tid)" "keeps_filter (delete_unknown_child tid)"
  "keeps_filter (delete_attach_root tid)" "keeps_filter (delete_pending_exec pid)"
  "keeps_filter (delete_main_exited pid)" "keeps_filter (delete_pending_stack tid)"
  "keeps_filter (store_pending_task_state k st)"
  unfolding delete_pending_fork_flags_def delete_unknown_child_def delete_attach_root_def
    delete_pending_exec_def delete_main_exited_def delete_pending_stack_def store_pending_task_state_def
  by (simp_all add: state_io_rel_def same_def)

lemma keeps_filter_state [filter_frame]:
  "keeps_filter (clear_pending_task_state k)"
  "keeps_filter (pending_fork_flags tid)"
  "keeps_filter (mark_unknown_child k tid parent)"
  "keeps_filter (take_unknown_child tid)"
  "keeps_filter (clear_armed_fork_parent k pid)"
  "keeps_filter (mark_attach_task_exited k tid)"
  unfolding clear_pending_task_state_def pending_fork_flags_def mark_unknown_child_def take_unknown_child_def
    clear_armed_fork_parent_def mark_attach_task_exited_def
  by (intro same.io_rules filter_frame reports_fields reports_intros io_map_update; simp)+

lemma keeps_filter_consume [filter_frame]:
  "keeps_filter (consume_pending_syscall k pid pending_tid p handoff)"
  unfolding consume_pending_syscall_def Let_def by (intro same.io_rules filter_frame)

lemma keeps_filter_exec_completion [filter_frame]: "keeps_filter (emit_successful_exec_completion k pid)"
  unfolding emit_successful_exec_completion_def Let_def
  by (intro same.io_rules filter_frame reports_fields reports_intros)

lemma reports_unfold: "reports (pending_fork_flags tid)" "reports (is_exec_replaced_leader task pid tid)"
  unfolding pending_fork_flags_def is_exec_replaced_leader_def by (intro reports_rules)+

lemmas frame_simps = reports_frame reports_intros reports_unfold same_exec [OF keeps_filter_deletes(1)]
  same_exec [OF keeps_filter_deletes(2)] same_exec [OF keeps_filter_deletes(3)] same_exec [OF keeps_filter_deletes(4)]
  same_exec [OF keeps_filter_deletes(5)]
  same_exec [OF keeps_filter_state(1)] same_exec [OF keeps_filter_state(3)] same_exec [OF keeps_filter_state(4)]
  same_exec [OF keeps_filter_state(5)] same_exec [OF keeps_filter_state(6)] same_exec [OF keeps_filter_consume]
  same_exec [OF keeps_filter_exec_completion]

lemma exec_only_if: "exec (only_if b m) s = (if b then exec m s else s)"
  by (simp add: only_if_def)

text \<open>The value the child's entry gets: tracked, and still waiting for its exec if it was.\<close>

definition inherited_flags :: "u32 option \<Rightarrow> u32" where
  "inherited_flags existing = (case existing of None \<Rightarrow> FILTER_TASK_TRACKED
     | Some x \<Rightarrow> FILTER_TASK_TRACKED OR (x AND FILTER_TASK_PRE_EXEC))"

lemma tracked_bit [simp]:
  "has_flag (1 OR y :: u32) 1" "has_flag (1 :: u32) 1" "has_flag (3 :: u32) 1" "has_flag (3 :: u32) 2"
  "has_flag (inherited_flags x) 1"
  by (simp_all add: has_flag_or inherited_flags_def split: option.split) (simp_all add: has_flag_def)

lemma install_filter_ok:
  assumes "k_map_update k (tick s)"
  shows "exec (install_pre_exec_filter k tid) s = s\<lparr>tick := Suc (tick s), filter_map := (filter_map s)(tid \<mapsto> 3)\<rparr>"
    and "exec (install_tracked_filter k tid) s =
      s\<lparr>tick := Suc (tick s), filter_map := (filter_map s)(tid \<mapsto> inherited_flags (filter_map s tid))\<rparr>"
  using assms
  by (simp_all add: install_pre_exec_filter_def install_tracked_filter_def run_bind_parts update_or_record_frame
      Let_def inherited_flags_def del: run_state_bind split: option.split)

lemma update_or_record_control:
  assumes "control (exec (update_or_record k f) s) \<noteq> control s"
  shows "control (exec (update_or_record k f) s) = control (f (s\<lparr>tick := Suc (tick s)\<rparr>))"
  using update_or_record_cases [of k f s] assms by auto

lemma install_filter_frame:
  assumes "key \<noteq> tid"
  shows "filter_map (exec (install_pre_exec_filter k tid) s) key = filter_map s key"
    and "filter_map (exec (install_tracked_filter k tid) s) key = filter_map s key"
proof -
  have "filter_map (exec (update_or_record k (\<lambda>s. s\<lparr>filter_map := (filter_map s)(tid \<mapsto> v)\<rparr>)) s) key = filter_map s key"
    for v s
    using update_or_record_cases [of k "\<lambda>s. s\<lparr>filter_map := (filter_map s)(tid \<mapsto> v)\<rparr>" s] assms
    by (auto dest!: control_fields(5))
  then show "filter_map (exec (install_pre_exec_filter k tid) s) key = filter_map s key"
    "filter_map (exec (install_tracked_filter k tid) s) key = filter_map s key"
    by (simp_all add: install_pre_exec_filter_def install_tracked_filter_def run_bind_parts Let_def
        del: run_state_bind)
qed

lemma tracked_in_upd: "has_flag v 1 \<Longrightarrow> tracked_in (m(x \<mapsto> v)) pid tid \<longleftrightarrow> x \<in> {pid, tid} \<or> tracked_in m pid tid"
  by (auto simp: tracked_in_def tracked_flags_def)

text \<open>
  The outcome of the child's filter update is counted: the pair of counters, and what leaves it alone.
\<close>

definition fork_counts :: "kernel \<Rightarrow> machine \<Rightarrow> (u64 \<times> u64) option" where
  "fork_counts k s = map_option (\<lambda>st. (st_lifecycle_fork_child_filter_installed st, st_lifecycle_fork_child_filter_failed st))
     (stats_map s (k_cpu k))"

abbreviation keeps_counts :: "kernel \<Rightarrow> 'a bpf \<Rightarrow> bool" where
  "keeps_counts k m \<equiv> state_io_rel (same (fork_counts k)) m"

named_theorems counts_frame \<open>programs that do not touch the fork counters\<close>

lemma keeps_counts_modify: "(\<And>s. stats_map (f s) = stats_map s) \<Longrightarrow> keeps_counts k (modify f)"
  by (rule same.io_modify) (simp add: same_def fork_counts_def)

lemma keeps_counts_bump:
  "(\<And>st. st_lifecycle_fork_child_filter_installed (f st) = st_lifecycle_fork_child_filter_installed st \<and>
     st_lifecycle_fork_child_filter_failed (f st) = st_lifecycle_fork_child_filter_failed st) \<Longrightarrow> keeps_counts k (bump_stats k f)"
  by (auto simp: state_io_rel_def same_def fork_counts_def bump_stats_def lookup_stats_def store_stats_def run_bind_parts
      simp del: run_state_bind split: option.split)

lemma keeps_counts_helpers [counts_frame]:
  "keeps_counts k next_tick" "keeps_counts k (mem_store off bs)" "keeps_counts k bpf_ringbuf_submit"
  "keeps_counts k bpf_ringbuf_discard"
  unfolding next_tick_def mem_store_def bpf_ringbuf_submit_def bpf_ringbuf_discard_def
  by (intro same.io_rules keeps_counts_modify; simp split: option.split)+

lemma keeps_counts_sequence [counts_frame]: "keeps_counts k (next_event_sequence k)"
  by (auto simp: state_io_rel_def same_def fork_counts_def next_event_sequence_def lookup_stats_def store_stats_def run_bind_parts
      simp del: run_state_bind split: option.split)

lemma keeps_counts_loss [counts_frame]: "keeps_counts k (record_event_integrity_loss k)"
  unfolding record_event_integrity_loss_def bpf_ktime_get_ns_def
  by (intro same.io_rules counts_frame keeps_counts_bump keeps_counts_modify) simp_all

lemma keeps_counts_records [counts_frame]:
  "keeps_counts k (record_ringbuf_reserve_fail k)" "keeps_counts k (record_ringbuf_copy_fail k)"
  "keeps_counts k (record_lifecycle_map_update_fail k)" "keeps_counts k (record_lifecycle_fork_seen k)"
  "keeps_counts k (record_lifecycle_fork_parent_tracked k)"
  unfolding record_ringbuf_reserve_fail_def record_ringbuf_copy_fail_def record_lifecycle_map_update_fail_def
    record_lifecycle_fork_seen_def record_lifecycle_fork_parent_tracked_def
  by (intro same.io_rules counts_frame keeps_counts_bump; simp)+

lemma keeps_counts_updates [counts_frame]:
  "(\<And>s. stats_map (f s) = stats_map s) \<Longrightarrow> keeps_counts k (bpf_map_update k f)"
  "(\<And>s. stats_map (f s) = stats_map s) \<Longrightarrow> keeps_counts k (update_or_record k f)"
  unfolding update_or_record_def bpf_map_update_def
  by (intro same.io_rules counts_frame keeps_counts_modify; simp)+

lemma keeps_counts_emit [counts_frame]: "keeps_counts k (emit_lifecycle_event k kind pid tid a0 a1 snapshot)"
  unfolding emit_lifecycle_event_def emit_lifecycle_event_v2_direct_def with_reservation_def attempt_def commit_event_def
    capture_lifecycle_snapshot_def bpf_ringbuf_reserve_def bpf_dynptr_write_def bpf_dynptr_data_def bpf_probe_read_kernel_str_def
    bpf_ktime_get_ns_def init_lifecycle_event_v2_header_def capture_event_integrity_def capture_event_v2_comm_def Let_def
  by (intro same.io_rules counts_frame keeps_counts_modify; simp)

lemma keeps_counts_fork [counts_frame]:
  "keeps_counts k (mark_unknown_child k tid parent)" "keeps_counts k (pending_fork_flags tid)"
  "keeps_counts k (install_pre_exec_filter k tid)" "keeps_counts k (install_tracked_filter k tid)"
  "keeps_counts k (is_lifecycle_task_tracked pid tid)"
  unfolding mark_unknown_child_def pending_fork_flags_def install_pre_exec_filter_def install_tracked_filter_def
    is_lifecycle_task_tracked_def lookup_lifecycle_task_filter_flags_def Let_def
  by (intro same.io_rules counts_frame; simp)+

lemma fork_child_counted:
  fixes k :: kernel and child :: u32 and s :: machine
  assumes "fork_counts k s = Some (i, f)"
  defines "ok \<equiv> result (install_tracked_filter k child) s"
    and "t \<equiv> exec (do { installed \<leftarrow> install_tracked_filter k child; record_lifecycle_fork_child_filter k installed }) s"
  shows "ok \<and> filter_map t child = Some (inherited_flags (filter_map s child)) \<and> fork_counts k t = Some (i + 1, f) \<or>
    \<not> ok \<and> fork_counts k t = Some (i, f + 1)"
proof -
  let ?u = "exec (install_tracked_filter k child) s"
  have c: "fork_counts k ?u = Some (i, f)" using same_exec [OF keeps_counts_fork(4), of k child s] assms(1) by simp
  have "fork_counts k (exec (record_lifecycle_fork_child_filter k b) ?u) = Some (if b then (i + 1, f) else (i, f + 1))" for b
  proof -
    obtain st where st: "stats_map ?u (k_cpu k) = Some st" "st_lifecycle_fork_child_filter_installed st = i"
      "st_lifecycle_fork_child_filter_failed st = f" using c by (auto simp: fork_counts_def)
    then show ?thesis
      by (cases b) (simp_all add: record_lifecycle_fork_child_filter_def run_bind_parts lookup_stats_def store_stats_def
          same_exec [OF keeps_counts_loss] del: run_state_bind, simp_all add: fork_counts_def)
  qed
  moreover have "filter_map ?u child = Some (inherited_flags (filter_map s child))" if ok
    using that update_or_record_cases [of k "\<lambda>s'. s'\<lparr>filter_map := (filter_map s')(child \<mapsto> inherited_flags (filter_map s child))\<rparr>" s]
    unfolding ok_def by (auto simp: install_tracked_filter_def run_bind_parts inherited_flags_def Let_def simp del: run_state_bind
        dest!: control_fields(5))
  moreover have "filter_map (exec (record_lifecycle_fork_child_filter k b) ?u) = filter_map ?u" for b
    by (simp add: frame_simps)
  ultimately show ?thesis unfolding t_def ok_def by (simp add: run_bind_parts del: run_state_bind)
qed

text \<open>Where a followed fork of a tracked parent ends: the child's filter, its count, and the record.\<close>

lemma pre_exec_tracks: "tracked_in (filter_map s) pid tid \<Longrightarrow> tracked_in (filter_map (exec (install_pre_exec_filter k child) s)) pid tid"
  using update_or_record_cases [of k "\<lambda>s. s\<lparr>filter_map := (filter_map s)(child \<mapsto> 3)\<rparr>" s]
  by (auto simp: install_pre_exec_filter_def tracked_in_upd dest!: control_fields(5))

lemma followed_fork:
  assumes "tracked_in (filter_map s) (cur_pid k) (cur_tid k)" "config_map s = Some c" "has_flag c CONFIG_FOLLOW_FORKS"
  obtains u x where "fork_counts k u = fork_counts k s"
    "exec (trace_sched_process_fork k \<lparr>spf_child_pid = child\<rparr>) s =
     exec (emit_lifecycle_event k LIFECYCLE_FORK (cur_pid k) (cur_tid k) x (ucast child) 0)
       (exec (do { installed \<leftarrow> install_tracked_filter k child; record_lifecycle_fork_child_filter k installed }) u)"
proof -
  define p where "p = exec (record_lifecycle_fork_seen k) s"
  define q where "q = exec (only_if (case arm_fork_map p of None \<Rightarrow> False | Some x \<Rightarrow> x \<noteq> 0 \<and> x = cur_pid k)
       (do { _ \<leftarrow> install_pre_exec_filter k child; return () })) p"
  define u where "u = exec (record_lifecycle_fork_parent_tracked k) q"
  have p: "filter_map p = filter_map s" "config_map p = config_map s" "fork_counts k p = fork_counts k s"
    by (simp_all add: p_def frame_simps same_exec [OF keeps_counts_records(4)])
  have q: "tracked_in (filter_map q) (cur_pid k) (cur_tid k)"
    using assms(1) pre_exec_tracks p(1) by (auto simp: q_def only_if_def run_bind_parts simp del: run_state_bind)
  have "config_map (exec (install_pre_exec_filter k child) p) = config_map p"
    using update_or_record_cases [of k "\<lambda>s. s\<lparr>filter_map := (filter_map s)(child \<mapsto> 3)\<rparr>" p]
    by (auto simp: install_pre_exec_filter_def dest!: control_fields(1))
  then have "config_map q = config_map p"
    by (simp add: q_def only_if_def run_bind_parts del: run_state_bind)
  moreover have "fork_counts k q = fork_counts k p"
    by (simp add: q_def only_if_def run_bind_parts same_exec [OF keeps_counts_fork(3)] del: run_state_bind)
  ultimately have "fork_counts k u = fork_counts k s" "config_map u = Some c"
    using p assms(2) by (simp_all add: u_def frame_simps same_exec [OF keeps_counts_records(5)])
  moreover have "exec (trace_sched_process_fork k \<lparr>spf_child_pid = child\<rparr>) s =
     exec (emit_lifecycle_event k LIFECYCLE_FORK (cur_pid k) (cur_tid k)
         (push_bit 32 (result (pending_fork_flags (cur_tid k)) p AND 0xffffffff) OR ucast (cur_pid k)) (ucast child) 0)
       (exec (do { installed \<leftarrow> install_tracked_filter k child; record_lifecycle_fork_child_filter k installed }) u)"
    using q calculation(2) assms(3)
    by (simp add: trace_sched_process_fork_def run_bind_parts Let_def frame_simps pending_fork_flags_def
        only_if_def [where b = True] only_if_def [where b = False] flip: p_def q_def u_def del: run_state_bind)
  ultimately show ?thesis using that by blast
qed

text \<open>
  C28: A followed fork is followed or reported.  When the parent is tracked and forks are followed, the fork program makes the child
  tracked and counts it as installed, or, when the map refuses the update, counts the child as failed, which is one
  of the failures the loss epoch and the final verdict show; it is never one of the two silently.  If the map takes every update
  the child is tracked.
\<close>

theorem fork_follows_child:
  assumes "tracked_in (filter_map s) (cur_pid k) (cur_tid k)" "config_map s = Some c"
    "has_flag c CONFIG_FOLLOW_FORKS" "stats_map s (k_cpu k) = Some st"
  shows "let t = exec (trace_sched_process_fork k \<lparr>spf_child_pid = child\<rparr>) s in
    \<exists>st'. stats_map t (k_cpu k) = Some st' \<and>
     (result (is_lifecycle_task_tracked child child) t \<and>
        st_lifecycle_fork_child_filter_installed st' = st_lifecycle_fork_child_filter_installed st + 1 \<and>
        st_lifecycle_fork_child_filter_failed st' = st_lifecycle_fork_child_filter_failed st \<or>
      st_lifecycle_fork_child_filter_failed st' = st_lifecycle_fork_child_filter_failed st + 1 \<and>
        st_lifecycle_fork_child_filter_installed st' = st_lifecycle_fork_child_filter_installed st) \<and>
     ((\<forall>n. k_map_update k n) \<longrightarrow> result (is_lifecycle_task_tracked child child) t)"
proof -
  obtain u x where u: "fork_counts k u = fork_counts k s"
    "exec (trace_sched_process_fork k \<lparr>spf_child_pid = child\<rparr>) s =
     exec (emit_lifecycle_event k LIFECYCLE_FORK (cur_pid k) (cur_tid k) x (ucast child) 0)
       (exec (do { installed \<leftarrow> install_tracked_filter k child; record_lifecycle_fork_child_filter k installed }) u)"
    using followed_fork [OF assms(1-3)] by blast
  let ?t = "exec (trace_sched_process_fork k \<lparr>spf_child_pid = child\<rparr>) s"
  let ?v = "exec (do { installed \<leftarrow> install_tracked_filter k child; record_lifecycle_fork_child_filter k installed }) u"
  have "fork_counts k u = Some (st_lifecycle_fork_child_filter_installed st, st_lifecycle_fork_child_filter_failed st)"
    using u(1) assms(4) by (simp add: fork_counts_def)
  note counted = fork_child_counted [OF this, of child]
  have t: "fork_counts k ?t = fork_counts k ?v" "filter_map ?t = filter_map ?v"
    unfolding u(2) by (simp_all add: same_exec [OF keeps_counts_emit] frame_simps)
  have "result (is_lifecycle_task_tracked child child) ?t" if "filter_map ?v child = Some (inherited_flags (filter_map u child))"
    using that t(2) by (simp add: tracked_in_def tracked_flags_def)
  moreover have "result (install_tracked_filter k child) u" if "\<forall>n. k_map_update k n"
    using that by (simp add: install_tracked_filter_def run_bind_parts update_or_record_frame Let_def del: run_state_bind)
  ultimately show ?thesis
    using counted t(1) unfolding Let_def by (auto simp: fork_counts_def)
qed

theorem fork_follows_child_witness:
  "result (is_lifecycle_task_tracked 9 9)
     (exec (trace_sched_process_fork (sample_kernel 7 8) \<lparr>spf_child_pid = 9\<rparr>)
       (boot_machine 2 \<lparr>filter_map := [7 \<mapsto> 1]\<rparr>))"
  using fork_follows_child [of "boot_machine 2 \<lparr>filter_map := [7 \<mapsto> 1]\<rparr>" "sample_kernel 7 8" 2 zero_stats 9]
  by (auto simp: tracked_in_def tracked_flags_def has_flag_def Let_def)

text \<open>
  A fork decides about its child only: whatever the kernel answers, the filter entry of every other
  task is the one it was.
\<close>

theorem fork_touches_child_only:
  "filter_map (exec (trace_sched_process_fork k \<lparr>spf_child_pid = child\<rparr>) s) =
     (filter_map s)(child := filter_map (exec (trace_sched_process_fork k \<lparr>spf_child_pid = child\<rparr>) s) child)"
proof (rule ext)
  fix key
  show "filter_map (exec (trace_sched_process_fork k \<lparr>spf_child_pid = child\<rparr>) s) key =
     ((filter_map s)(child := filter_map (exec (trace_sched_process_fork k \<lparr>spf_child_pid = child\<rparr>) s) child)) key"
    by (cases "key = child")
       (simp_all add: trace_sched_process_fork_def run_bind_parts exec_only_if Let_def frame_simps
         install_filter_frame del: run_state_bind)
qed

text \<open>The decisions about one process, as one value, and what leaves them alone.\<close>

definition lifecycle_view where
  "lifecycle_view s = (filter_map s, attach_roots_map s, pending_exec_map s, pending_fork_flags_map s,
     pending_task_storage s, main_exited_map s, unknown_children_map s)"

abbreviation keeps_view :: "'a bpf \<Rightarrow> bool" where
  "keeps_view m \<equiv> state_io_rel (same lifecycle_view) m"

lemma keeps_view_reports: "reports m \<Longrightarrow> keeps_view m"
  unfolding lifecycle_view_def
  by (erule reports_same) (simp, intro conjI; erule control_fields)

lemma keeps_view_frames:
  "keeps_view (clear_armed_fork_parent k pid)"
  "keeps_view (mark_attach_task_exited k tid)"
  unfolding clear_armed_fork_parent_def mark_attach_task_exited_def update_or_record_def
  by (intro same.io_rules keeps_view_reports reports_intros io_map_update; simp add: lifecycle_view_def)+

lemmas view_exec = keeps_view_frames [THEN same_exec, unfolded lifecycle_view_def prod.inject]

lemma in_flight_storage:
  "in_flight k s = None \<longleftrightarrow> k_task k = 0 \<or> (case pending_task_storage s (k_task k) of None \<Rightarrow> True
     | Some st \<Rightarrow> pts_valid st = 0)"
  by (simp add: in_flight_eq split: option.split)

lemma clear_pending_storage:
  "k_task k = 0 \<or> (case pending_task_storage (exec (clear_pending_task_state k) s) (k_task k) of None \<Rightarrow> True
     | Some st \<Rightarrow> pts_valid st = 0)"
  using clear_pending_in_flight [of k s] unfolding in_flight_storage .

lemmas delete_defs = delete_filter_def delete_attach_root_def delete_pending_exec_def delete_main_exited_def
  delete_pending_fork_flags_def delete_unknown_child_def

text \<open>What is left of a process after its state is cleared.\<close>

definition process_forgotten :: "kernel \<Rightarrow> u32 \<Rightarrow> machine \<Rightarrow> machine \<Rightarrow> bool" where
  "process_forgotten k pid s t \<longleftrightarrow>
     filter_map t = (filter_map s)(pid := None) \<and> attach_roots_map t = (attach_roots_map s)(pid := None) \<and>
     pending_exec_map t = (pending_exec_map s)(pid := None) \<and>
     pending_fork_flags_map t = (pending_fork_flags_map s)(pid := None) \<and>
     main_exited_map t = (main_exited_map s)(pid := None) \<and>
     unknown_children_map t = (unknown_children_map s)(pid := None) \<and> in_flight k t = None"

lemma clear_lifecycle_process: "process_forgotten k pid s (exec (clear_lifecycle_task_state k pid pid) s)"
  using clear_pending_storage [of k s]
  by (simp add: process_forgotten_def clear_lifecycle_task_state_def clear_process_lifecycle_state_def
      run_bind_parts delete_defs view_exec clear_pending_frame_exec in_flight_storage del: run_state_bind)

lemma process_forgotten_view:
  assumes "lifecycle_view t' = lifecycle_view t"
  shows "process_forgotten k pid s t' = process_forgotten k pid s t"
  using assms by (simp add: process_forgotten_def in_flight_storage lifecycle_view_def)

lemma process_forgotten_reports:
  "reports m \<Longrightarrow> process_forgotten k pid s (exec m t) = process_forgotten k pid s t"
  by (rule process_forgotten_view, rule same_exec, erule keeps_view_reports)

lemma process_forgotten_from:
  assumes "lifecycle_view s' = lifecycle_view s"
  shows "process_forgotten k pid s' t = process_forgotten k pid s t"
  using assms by (simp add: process_forgotten_def lifecycle_view_def)

text \<open>The exit marks of attached roots, and what leaves them alone.\<close>

abbreviation keeps_exited :: "'a bpf \<Rightarrow> bool" where
  "keeps_exited m \<equiv> state_io_rel (same attach_exited_map) m"

lemmas exited_reports = same_exec [OF reports_fields(6)]

lemma mark_attach_exited:
  "attach_exited_map (exec (mark_attach_task_exited k tid) s) =
     (if k_map_update k (tick s) \<and> tid \<noteq> 0 \<and> attach_roots_map s tid \<noteq> None
      then (attach_exited_map s)(tid \<mapsto> 1) else attach_exited_map s)"
  by (auto simp: mark_attach_task_exited_def bpf_map_update_def next_tick_def only_if_def run_bind_parts exited_reports reports_intros
      simp del: run_state_bind split: option.split)

lemma keeps_exited_deletes:
  "keeps_exited (delete_filter pid)" "keeps_exited (delete_attach_root pid)" "keeps_exited (delete_pending_exec pid)"
  "keeps_exited (delete_main_exited pid)" "keeps_exited (delete_pending_fork_flags pid)" "keeps_exited (delete_unknown_child pid)"
  "keeps_exited (delete_pending_stack pid)" "keeps_exited (store_pending_task_state k st)"
  unfolding delete_defs delete_pending_stack_def store_pending_task_state_def by (simp_all add: state_io_rel_def same_def)

lemma keeps_exited_state: "keeps_exited (clear_pending_task_state k)" "keeps_exited (clear_armed_fork_parent k pid)"
  unfolding clear_pending_task_state_def clear_armed_fork_parent_def update_or_record_def
  by (intro same.io_rules keeps_exited_deletes reports_fields(6) reports_intros io_map_update; simp)+

lemma keeps_exited_clear: "keeps_exited (clear_lifecycle_task_state k pid tid)"
  unfolding clear_lifecycle_task_state_def clear_process_lifecycle_state_def
  by (intro same.io_rules keeps_exited_deletes keeps_exited_state)

text \<open>
  C29: The end of a traced process clears its entries.  When the leader of a tracked thread group ends and no exec of another thread is
  replacing it, the exit program deletes the entry of the process in the maps of filters, attach roots, exec handoffs, main
  exits, fork flags and unknown children and leaves their other entries as they are, and the task has no syscall in flight.
  What it adds is the exit mark of an attached root, which user space reads: only a process that was one is marked, and it is
  marked unless the map refuses the update.
\<close>

theorem process_exit_clears:
  assumes "cur_tid k = cur_pid k" "tracked_in (filter_map s) (cur_pid k) (cur_pid k)"
    and "k_task k = 0 \<or> pending_exec_map s (cur_pid k) \<in> {None, Some (cur_pid k)}"
  shows "let t = exec (trace_sched_process_exit k ctx) s in process_forgotten k (cur_pid k) s t \<and>
    (\<exists>took. ((\<forall>n. k_map_update k n) \<longrightarrow> took) \<and>
       attach_exited_map t = (if took \<and> cur_pid k \<noteq> 0 \<and> attach_roots_map s (cur_pid k) \<noteq> None
         then (attach_exited_map s)(cur_pid k \<mapsto> 1) else attach_exited_map s))"
proof -
  let ?pid = "cur_pid k"
  let ?seen = "exec (record_lifecycle_exit_seen k) s"
  let ?u = "exec (take_unknown_child ?pid) ?seen"
  have u: "filter_map ?u = filter_map s" "pending_exec_map ?u = pending_exec_map s"
      "attach_roots_map ?u = attach_roots_map s" "pending_fork_flags_map ?u = pending_fork_flags_map s"
      "main_exited_map ?u = main_exited_map s" "unknown_children_map ?u = (unknown_children_map s)(?pid := None)"
      "attach_exited_map ?u = attach_exited_map s"
    by (auto simp: exited_reports take_unknown_child_def delete_unknown_child_def run_bind_parts reports_frame reports_intros
        simp del: run_state_bind split: option.split)
  have f: "process_forgotten k ?pid ?u t = process_forgotten k ?pid s t" for t
    by (simp add: process_forgotten_def u)
  have r: "reports (only_if b (emit_lifecycle_event k x p q a0 a1 f))" for b x p q a0 a1 f
    by (intro reports_rules reports_intros)
  have c: "reports (if b then do { (_, code) \<leftarrow> core_read_into k f p; return (ucast code :: s32) } else return 0)"
    for b f p by (intro reports_rules reports_intros)
  let ?parent = "result (take_unknown_child ?pid) ?seen"
  define v where "v = exec (only_if (?parent \<noteq> 0)
    (emit_lifecycle_event k LIFECYCLE_UNKNOWN_EXIT ?parent ?parent (ucast ?pid) 0 0)) ?u"
  define w where "w = exec (mark_attach_task_exited k ?pid) v"
  have v: "filter_map v = filter_map s" "pending_exec_map v = pending_exec_map s" "attach_exited_map v = attach_exited_map s"
      "attach_roots_map v = attach_roots_map s"
    unfolding v_def by (simp_all add: reports_frame [OF r] exited_reports [OF r] u)
  have "lifecycle_view v = lifecycle_view ?u" unfolding v_def by (rule same_exec, rule keeps_view_reports, rule r)
  moreover have "lifecycle_view w = lifecycle_view v" unfolding w_def by (rule same_exec, rule keeps_view_frames)
  ultimately have "process_forgotten k ?pid w t = process_forgotten k ?pid s t" for t
    by (simp add: process_forgotten_from [of w ?u] f)
  with clear_lifecycle_process [of k ?pid w]
  have "process_forgotten k ?pid s (exec (clear_lifecycle_task_state k ?pid ?pid) w)" by simp
  with assms have "process_forgotten k ?pid s (exec (trace_sched_process_exit k ctx) s)"
    by (simp add: trace_sched_process_exit_def run_bind_parts Let_def is_exec_replaced_leader_def
       process_forgotten_reports c reports_intros flip: v_def w_def del: run_state_bind) (auto simp: v)
  moreover have "attach_exited_map (exec (trace_sched_process_exit k ctx) s) = attach_exited_map w"
    using assms
    by (simp add: trace_sched_process_exit_def run_bind_parts Let_def is_exec_replaced_leader_def same_exec [OF keeps_exited_clear]
       exited_reports c reports_intros flip: v_def w_def del: run_state_bind) (auto simp: v)
  ultimately show ?thesis
    unfolding Let_def w_def mark_attach_exited v by (intro conjI exI [of _ "k_map_update k (tick v)"]) simp_all
qed

theorem process_exit_clears_witness:
  "process_forgotten (sample_kernel 7 7) 7 (boot_machine 2 \<lparr>filter_map := [7 \<mapsto> 1]\<rparr>)
     (exec (trace_sched_process_exit (sample_kernel 7 7) \<lparr>spt_pid = 7\<rparr>) (boot_machine 2 \<lparr>filter_map := [7 \<mapsto> 1]\<rparr>))"
  using process_exit_clears [of "sample_kernel 7 7" "boot_machine 2 \<lparr>filter_map := [7 \<mapsto> 1]\<rparr>" "\<lparr>spt_pid = 7\<rparr>"]
  by (simp add: tracked_in_def tracked_flags_def Let_def)

text \<open>
  C30: When a tracked task is freed its filter and process entries go; with them goes the syscall in flight
  of the task the tracepoint happens to run on, whichever task that is.
\<close>

theorem process_free_clears:
  assumes "tid \<noteq> 0" "tracked_in (filter_map s) tid tid"
  shows "process_forgotten k tid s (exec (trace_sched_process_free k \<lparr>spt_pid = tid\<rparr>) s)"
  using assms clear_lifecycle_process [of k tid s]
  by (simp add: trace_sched_process_free_def Let_def run_bind_parts process_forgotten_reports reports_intros
      del: run_state_bind)

theorem process_free_clears_witness:
  "process_forgotten (sample_kernel 7 7) 9 (boot_machine 2 \<lparr>filter_map := [9 \<mapsto> 1]\<rparr>)
     (exec (trace_sched_process_free (sample_kernel 7 7) \<lparr>spt_pid = 9\<rparr>) (boot_machine 2 \<lparr>filter_map := [9 \<mapsto> 1]\<rparr>))"
  by (rule process_free_clears) (simp_all add: tracked_in_def tracked_flags_def)

lemma arm_frames:
  "state_io_rel (same arm_fork_map) (emit_successful_exec_completion k pid)"
  "state_io_rel (same arm_fork_map) (mark_unknown_child k tid parent)"
proof -
  have "state_io_rel (same arm_fork_map) (clear_pending_task_state k)" for k
    by (auto simp: state_io_rel_def same_def clear_pending_frame_exec)
  moreover have "state_io_rel (same arm_fork_map) (delete_pending_exec pid)"
    "state_io_rel (same arm_fork_map) (delete_main_exited pid)" for pid
    by (simp_all add: state_io_rel_def same_def delete_pending_exec_def delete_main_exited_def)
  ultimately have c: "state_io_rel (same arm_fork_map) (consume_pending_syscall k pid tid p h)" for k pid tid p h
    unfolding consume_pending_syscall_def Let_def by (intro same.io_rules)
  show "state_io_rel (same arm_fork_map) (emit_successful_exec_completion k pid)"
    unfolding emit_successful_exec_completion_def Let_def
    by (rule same.io_rules c | rule reports_fields, rule reports_intros)+
  show "state_io_rel (same arm_fork_map) (mark_unknown_child k tid parent)"
    unfolding mark_unknown_child_def update_or_record_def
    by (intro same.io_rules reports_fields reports_intros io_map_update) simp_all
qed

lemmas arm_simps = arm_frames [THEN same_exec]

text \<open>
  C27: The launched tracee is traced from its own exec on, whatever else the launcher forks: a child forked
  by the armed parent waits for its exec (tracked, other syscalls suppressed), and that exec makes it an
  ordinary tracked task and disarms the parent.
\<close>

theorem armed_fork_then_exec:
  assumes "arm_fork_map s = Some (cur_pid parent)" "cur_pid parent \<noteq> 0" "cur_tid child = c"
    "\<And>n. k_map_update parent n" "\<And>n. k_map_update child n"
  shows "let t = exec (trace_sched_process_fork parent \<lparr>spf_child_pid = c\<rparr>) s;
      u = exec (trace_sched_process_exec child ctx) t in
    filter_map t c = Some (FILTER_TASK_TRACKED OR FILTER_TASK_PRE_EXEC) \<and>
    filter_map u c = Some FILTER_TASK_TRACKED \<and> arm_fork_map u = Some 0"
proof -
  let ?t = "exec (trace_sched_process_fork parent \<lparr>spf_child_pid = c\<rparr>) s"
  have t: "filter_map ?t c = Some 3" "arm_fork_map ?t = Some (cur_pid parent)"
    using assms
    by (simp_all add: trace_sched_process_fork_def run_bind_parts exec_only_if Let_def frame_simps install_filter_ok
      inherited_flags_def arm_simps del: run_state_bind)
  have "filter_map (exec (trace_sched_process_exec child ctx) ?t) c = Some 1 \<and>
      arm_fork_map (exec (trace_sched_process_exec child ctx) ?t) = Some 0"
    using t assms
    by (simp add: trace_sched_process_exec_def adopt_exec_task_tracking_def clear_pre_exec_filter_def
       run_bind_parts exec_only_if Let_def frame_simps arm_simps update_or_record_frame delete_pending_exec_def
       tracked_in_def tracked_flags_def del: run_state_bind)
  with t show ?thesis by (simp add: Let_def)
qed

theorem armed_fork_then_exec_witness:
  "filter_map (exec (trace_sched_process_exec (sample_kernel 9 9)
      \<lparr>spe_data_loc_filename = 0, spe_pid = 9, spe_old_pid = 9, spe_address = 0\<rparr>)
     (exec (trace_sched_process_fork (sample_kernel 7 8) \<lparr>spf_child_pid = 9\<rparr>)
       (boot_machine 0 \<lparr>arm_fork_map := Some 7\<rparr>))) 9 = Some 1"
  using armed_fork_then_exec [of "boot_machine 0 \<lparr>arm_fork_map := Some 7\<rparr>" "sample_kernel 7 8" "sample_kernel 9 9" 9
      "\<lparr>spe_data_loc_filename = 0, spe_pid = 9, spe_old_pid = 9, spe_address = 0\<rparr>"]
  by (simp add: Let_def)

end
