(* ===== verification/Namespace.thy ===== *)
theory Namespace
  imports Lifecycle_State
begin

text \<open>
  \<^verbatim>\<open>bpf/syscall_namespace_direct_event_v2.h\<close>, \<^verbatim>\<open>bpf/syscall_pidns_direct_event_v2.h\<close>,
  \<^verbatim>\<open>bpf/namespace_dispatch.h\<close> and \<^verbatim>\<open>bpf/kvm_dispatch.h\<close>: the namespaces of a task, process numbers
  as the tracer's namespace sees them, and the two programs that add to the syscall in flight between
  its enter and its exit.
\<close>

abbreviation (input) NAMESPACE_FLAG_MASK :: u64 where "NAMESPACE_FLAG_MASK \<equiv> 0x27e020080"
abbreviation (input) NAMESPACE_PROBE_READ_FAILED :: s32 where "NAMESPACE_PROBE_READ_FAILED \<equiv> -14"
abbreviation (input) PID_NAMESPACE_MAX_LEVEL :: u32 where "PID_NAMESPACE_MAX_LEVEL \<equiv> 32"

section \<open>Namespaces of a task\<close>

text \<open>The address of \<^verbatim>\<open>pid->numbers[level]\<close>; an element is a 16-byte \<^verbatim>\<open>struct upid\<close>, its namespace at 8.\<close>

definition upid_address :: "kernel \<Rightarrow> u64 \<Rightarrow> u32 \<Rightarrow> u64" where
  "upid_address k pid level = pid + k_offset k ''pid.numbers'' + 16 * ucast level"

text \<open>The return code and the number stored through the pointer (None where nothing is stored).\<close>

definition read_active_pid_namespace_id :: "kernel \<Rightarrow> u64 \<Rightarrow> (s32 \<times> u32 option) bpf" where
  "read_active_pid_namespace_id k task = do {
     pid \<leftarrow> core_read k ''thread_pid'' task;
     if pid = 0 then return (NAMESPACE_PROBE_READ_FAILED, None)
     else do {
       level \<leftarrow> core_read k ''level'' pid;
       if (ucast level :: u32) > PID_NAMESPACE_MAX_LEVEL then return (NAMESPACE_PROBE_READ_FAILED, None)
       else do {
         (ret, bs) \<leftarrow> bpf_probe_read_kernel k 8 (upid_address k pid (ucast level) + 8);
         if ret < 0 \<or> (le_word bs :: u64) = 0 then return (NAMESPACE_PROBE_READ_FAILED, None)
         else do {
           inum \<leftarrow> core_read k ''ns.inum'' (le_word bs);
           return (0, Some (ucast inum)) } } } }"

text \<open>\<^verbatim>\<open>x ? BPF_CORE_READ(x, ns.inum) : 0\<close>.\<close>

definition namespace_inum :: "kernel \<Rightarrow> u64 \<Rightarrow> u32 bpf" where
  "namespace_inum k ns = (if ns \<noteq> 0 then do { x \<leftarrow> core_read k ''ns.inum'' ns; return (ucast x) } else return 0)"

text \<open>The snapshot, or None where the C function returns an error and stores nothing.\<close>

definition read_namespace_snapshot :: "kernel \<Rightarrow> u64 \<Rightarrow> u64 \<Rightarrow> namespace_snapshot option bpf" where
  "read_namespace_snapshot k task flags =
     (if task = 0 then return None
      else do {
        proxy \<leftarrow> core_read k ''nsproxy'' task;
        cred \<leftarrow> core_read k ''cred'' task;
        if proxy = 0 \<or> cred = 0 then return None
        else do {
          cgroup \<leftarrow> core_read k ''cgroup_ns'' proxy;
          ipc \<leftarrow> core_read k ''ipc_ns'' proxy;
          mnt \<leftarrow> core_read k ''mnt_ns'' proxy;
          net \<leftarrow> core_read k ''net_ns'' proxy;
          time \<leftarrow> core_read k ''time_ns'' proxy;
          uts \<leftarrow> core_read k ''uts_ns'' proxy;
          user \<leftarrow> core_read k ''user_ns'' cred;
          cgroup_id \<leftarrow> namespace_inum k cgroup;
          ipc_id \<leftarrow> namespace_inum k ipc;
          mnt_id \<leftarrow> namespace_inum k mnt;
          net_id \<leftarrow> namespace_inum k net;
          time_id \<leftarrow> namespace_inum k time;
          uts_id \<leftarrow> namespace_inum k uts;
          user_id \<leftarrow> namespace_inum k user;
          (ret, pid_id) \<leftarrow> read_active_pid_namespace_id k task;
          return (Some \<lparr>nss_flags = flags, nss_cgroup = cgroup_id, nss_ipc = ipc_id, nss_mnt = mnt_id,
            nss_net = net_id,
            nss_pid = (case pid_id of None \<Rightarrow> 0 | Some x \<Rightarrow> if sint ret < 0 then 0 else x),
            nss_time = time_id, nss_uts = uts_id, nss_user = user_id\<rparr>) } })"

definition namespace_snapshot_for_exit :: "kernel \<Rightarrow> pending_syscall \<Rightarrow> namespace_snapshot option bpf" where
  "namespace_snapshot_for_exit k pending =
     (if ps_sys_id pending = SYS_CLONE \<or> ps_sys_id pending = SYS_CLONE3 then do {
        state \<leftarrow> current_pending_task_state k;
        return (case state of None \<Rightarrow> None
          | Some st \<Rightarrow> if pts_valid st \<noteq> 0 \<and> has_flag (nss_flags (pts_namespace_snapshot st)) NAMESPACE_FLAG_MASK
              then Some (pts_namespace_snapshot st) else None) }
      else let from_flags = (\<lambda>flags. if \<not> has_flag flags NAMESPACE_FLAG_MASK then return None
             else read_namespace_snapshot k (k_task k) flags)
        in if ps_sys_id pending = SYS_SETNS then from_flags (arg1 (ps_args pending))
           else if ps_sys_id pending = SYS_UNSHARE then from_flags (arg0 (ps_args pending))
           else return None)"

section \<open>Records with one fixed-size section\<close>

text \<open>
  The capture and the emitter that the namespace and the process-number records share; a section that
  does not fit discards the record.
\<close>

definition fixed_section :: "kernel \<Rightarrow> nat \<Rightarrow> u16 \<Rightarrow> u16 \<Rightarrow> bytes \<Rightarrow> bool bpf" where
  "fixed_section k payload_offset kind arg_index bs = do {
     ok \<leftarrow> bpf_dynptr_write (payload_offset + PAYLOAD_TLV_HEADER_SIZE) bs;
     if \<not> ok then do { record_ringbuf_copy_fail k; return False }
     else payload_tlv_write_header_direct k payload_offset kind arg_index PAYLOAD_TLV_FLAG_DIRECTION_OUT
       (of_nat (length bs)) (of_nat (length bs)) 0 0 }"

definition emit_fixed_exit ::
    "kernel \<Rightarrow> pending_syscall \<Rightarrow> s64 \<Rightarrow> u64 \<Rightarrow> nat \<Rightarrow> (nat \<Rightarrow> bool bpf) \<Rightarrow> unit bpf" where
  "emit_fixed_exit k p ret_value duration payload_size capture =
     (let payload_offset = EVENT_V2_HEADER_LEN + EVENT_V2_EXIT_BODY_LEN;
          out_size = payload_offset + payload_size
      in with_reservation k out_size (\<lambda>sequence. do {
           ok \<leftarrow> capture payload_offset;
           if \<not> ok then bpf_ringbuf_discard
           else commit_event k
             (init_syscall_event_v2_header_direct k (zero_header sequence) EVENT_TYPE_EXIT
                EVENT_FLAG_PAYLOAD_TLV (ps_pid p) (ps_tid p) (ps_sys_id p) out_size (ps_enter_time p + duration))
             (do { b \<leftarrow> init_syscall_exit_event_v2_from_pending k p ret_value duration (of_nat payload_size);
                   return (enc_exit_body b) }) }))"

definition capture_namespace_tlv_direct :: "kernel \<Rightarrow> nat \<Rightarrow> namespace_snapshot \<Rightarrow> bool bpf" where
  "capture_namespace_tlv_direct k payload_offset snapshot =
     fixed_section k payload_offset PAYLOAD_TLV_KIND_NAMESPACE PAYLOAD_TLV_NAMESPACE_ARG_INDEX (enc_namespace snapshot)"

definition emit_namespace_exit_event_v2_direct :: "kernel \<Rightarrow> pending_syscall \<Rightarrow> s64 \<Rightarrow> u64 \<Rightarrow> unit bpf" where
  "emit_namespace_exit_event_v2_direct k p ret_value duration = do {
     snapshot \<leftarrow> (if sint ret_value < 0 then return None else namespace_snapshot_for_exit k p);
     case snapshot of
       None \<Rightarrow> emit_syscall_exit_event_v2_direct k p ret_value duration 0
     | Some x \<Rightarrow> emit_fixed_exit k p ret_value duration (PAYLOAD_TLV_HEADER_SIZE + NAMESPACE_SNAPSHOT_SIZE)
         (\<lambda>payload_offset. capture_namespace_tlv_direct k payload_offset x) }"

section \<open>Process numbers in the tracer's namespace\<close>

definition read_pid_namespace_number :: "kernel \<Rightarrow> u64 \<Rightarrow> pid_namespace_config option \<Rightarrow> u32 option bpf" where
  "read_pid_namespace_number k pid config =
     (case config of None \<Rightarrow> return None
      | Some c \<Rightarrow>
          if pid = 0 \<or> pnc_ready c = 0 \<or> pnc_level c > PID_NAMESPACE_MAX_LEVEL then return None
          else do {
            pid_level \<leftarrow> core_read k ''level'' pid;
            if pnc_level c > ucast pid_level then return None
            else do {
              (ret, bs) \<leftarrow> bpf_probe_read_kernel k 16 (upid_address k pid (pnc_level c));
              let nr = (le_word (take 4 bs) :: s32);
              let ns = (le_word (drop 8 bs) :: u64);
              if ret < 0 \<or> ns = 0 \<or> sint nr \<le> 0 then return None
              else do {
                inum \<leftarrow> core_read k ''ns.inum'' ns;
                return (if (ucast inum :: u32) \<noteq> pnc_inum c then None else Some nr) } } })"

definition capture_tracer_pid_namespace :: "kernel \<Rightarrow> sys_enter_ctx \<Rightarrow> u32 \<Rightarrow> unit bpf" where
  "capture_tracer_pid_namespace k ctx sys_id = do {
     config \<leftarrow> gets pid_namespace_config_map;
     case config of
       None \<Rightarrow> return ()
     | Some c \<Rightarrow>
         if pnc_nonce c = 0 \<or> pnc_ready c \<noteq> 0 \<or> sys_id \<noteq> SYS_GETPGID \<or>
            ucast (arg0 (sec_args ctx)) \<noteq> pnc_nonce c then return ()
         else do {
           let task = k_task k;
           pid \<leftarrow> (if task \<noteq> 0 then core_read k ''thread_pid'' task else return 0);
           if pid = 0 then return ()
           else do {
             level \<leftarrow> core_read k ''level'' pid;
             if (ucast level :: u32) > PID_NAMESPACE_MAX_LEVEL then return ()
             else do {
               (ret, bs) \<leftarrow> bpf_probe_read_kernel k 16 (upid_address k pid (ucast level));
               let ns = (le_word (drop 8 bs) :: u64);
               if ret < 0 \<or> ns = 0 then return ()
               else do {
                 inum \<leftarrow> core_read k ''ns.inum'' ns;
                 modify (\<lambda>s. s\<lparr>pid_namespace_config_map := Some (c\<lparr>pnc_level := ucast level,
                   pnc_inum := ucast inum, pnc_ready := (if (ucast inum :: u32) \<noteq> 0 then 1 else 0)\<rparr>)\<rparr>) } } } } }"

definition capture_pid_namespace_fork_child ::
    "kernel \<Rightarrow> pending_task_state \<Rightarrow> u64 \<Rightarrow> pending_task_state bpf" where
  "capture_pid_namespace_fork_child k st child =
     (if pts_valid st = 0 \<or> child = 0 \<or>
         (ps_sys_id (pts_syscall st) \<noteq> SYS_FORK \<and> ps_sys_id (pts_syscall st) \<noteq> SYS_VFORK) then return st
      else do {
        config \<leftarrow> gets pid_namespace_config_map;
        child_pid \<leftarrow> core_read k ''thread_pid'' child;
        translated \<leftarrow> read_pid_namespace_number k child_pid config;
        case translated of
          None \<Rightarrow> return st
        | Some x \<Rightarrow> do { let st' = st\<lparr>pts_aux0 := x\<rparr>; store_pending_task_state k st'; return st' } })"

definition read_pid_namespace_snapshot :: "kernel \<Rightarrow> pending_syscall \<Rightarrow> pid_namespace_snapshot option bpf" where
  "read_pid_namespace_snapshot k pending =
     (if ps_sys_id pending = SYS_FORK \<or> ps_sys_id pending = SYS_VFORK then do {
        tgid \<leftarrow> lookup_pending_syscall_aux0 k (ps_tid pending);
        return (if tgid \<noteq> 0 then Some \<lparr>pns_tid = 0, pns_tgid = tgid\<rparr> else None) }
      else do {
        config \<leftarrow> gets pid_namespace_config_map;
        case config of
          None \<Rightarrow> return None
        | Some c \<Rightarrow>
            if pnc_ready c = 0 then return None
            else if pnc_level c = 0 then return (Some \<lparr>pns_tid = ps_tid pending, pns_tgid = ps_pid pending\<rparr>)
            else do {
              let task = k_task k;
              tid_pid \<leftarrow> (if task \<noteq> 0 then core_read k ''thread_pid'' task else return 0);
              if ps_sys_id pending = SYS_GETTID then do {
                n \<leftarrow> read_pid_namespace_number k tid_pid config;
                return (map_option (\<lambda>x. \<lparr>pns_tid = x, pns_tgid = 0\<rparr>) n) }
              else do {
                leader \<leftarrow> (if task \<noteq> 0 then core_read k ''group_leader'' task else return 0);
                tgid_pid \<leftarrow> (if leader \<noteq> 0 then core_read k ''thread_pid'' leader else return 0);
                n \<leftarrow> read_pid_namespace_number k tgid_pid config;
                return (map_option (\<lambda>x. \<lparr>pns_tid = 0, pns_tgid = x\<rparr>) n) } } })"

definition capture_pid_namespace_tlv_direct :: "kernel \<Rightarrow> nat \<Rightarrow> pid_namespace_snapshot \<Rightarrow> bool bpf" where
  "capture_pid_namespace_tlv_direct k payload_offset snapshot =
     fixed_section k payload_offset PAYLOAD_TLV_KIND_PID_NAMESPACE PAYLOAD_TLV_PID_NAMESPACE_ARG_INDEX
       (enc_pid_namespace snapshot)"

definition emit_pid_namespace_exit_event_v2_direct :: "kernel \<Rightarrow> pending_syscall \<Rightarrow> s64 \<Rightarrow> u64 \<Rightarrow> unit bpf" where
  "emit_pid_namespace_exit_event_v2_direct k p ret_value duration = do {
     snapshot \<leftarrow> (if sint ret_value \<le> 0 then return None else read_pid_namespace_snapshot k p);
     case snapshot of
       None \<Rightarrow> emit_syscall_exit_event_v2_direct k p ret_value duration 0
     | Some x \<Rightarrow> emit_fixed_exit k p ret_value duration (PAYLOAD_TLV_HEADER_SIZE + PID_NAMESPACE_SNAPSHOT_SIZE)
         (\<lambda>payload_offset. capture_pid_namespace_tlv_direct k payload_offset x) }"

section \<open>Programs between enter and exit\<close>

text \<open>The flags, or None where the C function returns 0.\<close>

definition namespace_clone_flags :: "kernel \<Rightarrow> pending_syscall \<Rightarrow> u64 option bpf" where
  "namespace_clone_flags k pending =
     (if ps_sys_id pending = SYS_CLONE then return (Some (arg0 (ps_args pending)))
      else if ps_sys_id pending \<noteq> SYS_CLONE3 \<or> arg1 (ps_args pending) < 8 \<or> arg0 (ps_args pending) = 0 then return None
      else do {
        (err, bs) \<leftarrow> bpf_probe_read_user k 8 (arg0 (ps_args pending));
        return (if err = 0 then Some (le_word bs) else None) })"

text \<open>The raw tracepoint passes parent and child; the program uses the child.\<close>

definition trace_namespace_fork :: "kernel \<Rightarrow> u64 \<Rightarrow> unit bpf" where
  "trace_namespace_fork k child = do {
     state \<leftarrow> current_pending_task_state k;
     case state of
       None \<Rightarrow> return ()
     | Some st0 \<Rightarrow>
         if pts_valid st0 = 0 then return ()
         else do {
           st \<leftarrow> capture_pid_namespace_fork_child k st0 child;
           flags \<leftarrow> namespace_clone_flags k (pts_syscall st);
           case flags of
             None \<Rightarrow> return ()
           | Some f \<Rightarrow>
               if \<not> has_flag f NAMESPACE_FLAG_MASK then return ()
               else do {
                 snapshot \<leftarrow> read_namespace_snapshot k child f;
                 store_pending_task_state k (st\<lparr>pts_namespace_snapshot :=
                   (case snapshot of None \<Rightarrow> zero_namespace_snapshot | Some x \<Rightarrow> x)\<rparr>) } } }"

record kvm_userspace_exit_tracepoint =
  kvm_reason :: u32
  kvm_error :: s32

definition trace_kvm_userspace_exit :: "kernel \<Rightarrow> kvm_userspace_exit_tracepoint \<Rightarrow> unit bpf" where
  "trace_kvm_userspace_exit k ctx = do {
     config \<leftarrow> gets config_map;
     if \<not> (case config of None \<Rightarrow> False | Some c \<Rightarrow> has_flag c CONFIG_KVM_EXIT) then return ()
     else do {
       state \<leftarrow> current_pending_task_state k;
       case state of
         None \<Rightarrow> return ()
       | Some st \<Rightarrow>
           if pts_valid st = 0 \<or> ps_sys_id (pts_syscall st) \<noteq> SYS_IOCTL \<or>
              arg1 (ps_args (pts_syscall st)) \<noteq> KVM_RUN_IOCTL then return ()
           else if sint (kvm_error ctx) < 0 then store_pending_task_state k (st\<lparr>pts_aux0 := 0\<rparr>)
           else store_pending_task_state k (st\<lparr>pts_aux0 := KVM_EXIT_AUX_VALID OR
             (kvm_reason ctx AND KVM_EXIT_AUX_REASON_MASK)\<rparr>) } }"

section \<open>Reporting and accounting\<close>

lemma reports_namespace_reads [reports_intros]:
  "reports (read_active_pid_namespace_id k task)"
  "reports (namespace_inum k ns)"
  "reports (read_pid_namespace_number k pid config)"
  "reports (fixed_section k off kind arg bs)"
  "reports (namespace_clone_flags k p)"
  unfolding read_active_pid_namespace_id_def namespace_inum_def read_pid_namespace_number_def fixed_section_def
    namespace_clone_flags_def Let_def
  by (intro reports_rules reports_intros)+

lemma reports_namespace_snapshots [reports_intros]:
  "reports (read_namespace_snapshot k task flags)"
  "reports (read_pid_namespace_snapshot k p)"
  unfolding read_namespace_snapshot_def read_pid_namespace_snapshot_def Let_def
  by (intro reports_rules reports_intros)+

lemma reports_namespace_exit [reports_intros]:
  "reports (namespace_snapshot_for_exit k p)"
  "(\<And>off. reports (capture off)) \<Longrightarrow> reports (emit_fixed_exit k p ret dur n capture)"
  unfolding namespace_snapshot_for_exit_def emit_fixed_exit_def Let_def
  by (intro reports_rules reports_intros; simp)+

lemma reports_namespace_emit [reports_intros]:
  "reports (emit_namespace_exit_event_v2_direct k p ret dur)"
  "reports (emit_pid_namespace_exit_event_v2_direct k p ret dur)"
  unfolding emit_namespace_exit_event_v2_direct_def emit_pid_namespace_exit_event_v2_direct_def
    capture_namespace_tlv_direct_def capture_pid_namespace_tlv_direct_def
  by (intro reports_rules reports_intros)+

lemma silent_namespace_reads [silent_intros]:
  "silent k (read_active_pid_namespace_id k' task)"
  "silent k (namespace_inum k' ns)"
  "silent k (read_pid_namespace_number k' pid config)"
  "silent k (fixed_section k off kind arg bs)"
  "silent k (namespace_clone_flags k' p)"
  "silent k (capture_tracer_pid_namespace k' ctx sys_id)"
  unfolding read_active_pid_namespace_id_def namespace_inum_def read_pid_namespace_number_def fixed_section_def
    namespace_clone_flags_def capture_tracer_pid_namespace_def Let_def
  by (intro silent_rules silent_intros silent_modify; simp)+

lemma silent_namespace_snapshots [silent_intros]:
  "silent k (read_namespace_snapshot k' task flags)"
  "silent k (read_pid_namespace_snapshot k' p)"
  "silent k (capture_pid_namespace_fork_child k' st child)"
  "silent k (trace_kvm_userspace_exit k' kctx)"
  unfolding read_namespace_snapshot_def read_pid_namespace_snapshot_def capture_pid_namespace_fork_child_def
    trace_kvm_userspace_exit_def Let_def
  by (intro silent_rules silent_intros)+

lemma silent_namespace_exit [silent_intros]:
  "silent k (namespace_snapshot_for_exit k' p)"
  "silent k (trace_namespace_fork k' child)"
  unfolding namespace_snapshot_for_exit_def trace_namespace_fork_def Let_def
  by (intro silent_rules silent_intros)+

text \<open>The record is reserved with exactly the room its section needs, so the section always fits.\<close>

lemma yields_fixed_section:
  "off + 32 + length bs \<le> n \<Longrightarrow> yields n (fixed_section k off kind arg bs) (\<lambda>ok. ok)"
  by (auto simp: yields_def fixed_section_def payload_tlv_write_header_direct_def run_bind_parts
      bpf_dynptr_write_def mem_store_def simp del: run_state_bind)

lemma captures_fixed_section:
  assumes "payloadKindFromTLV kind \<noteq> None" "length bs < 2 ^ 31"
  shows "captures k off (32 + length bs) (\<lambda>_. 32 + length bs) (fixed_section k off kind arg bs)"
  unfolding captures_def extends_def
proof (intro conjI allI impI)
  fix s :: machine and d assume s: "reservation s = Some d" "off + 0 + (32 + length bs) \<le> length d"
  let ?h = "enc_tlv_header \<lparr>tlv_kind = kind, tlv_arg_index = arg, tlv_flags = PAYLOAD_TLV_FLAG_DIRECTION_OUT,
     tlv_reserved = 0, tlv_user_len = of_nat (length bs), tlv_copied_len = of_nat (length bs),
     tlv_probe_ret = 0, tlv_reserved2 = 0, tlv_user_ptr = 0\<rparr>"
  have "take (32 + length bs) (drop off (poke (poke d (off + 32) bs) off ?h)) = ?h @ bs"
    using s(2) by (intro poke_section) simp_all
  moreover have "parses (?h @ bs)"
    using assms by (intro parses_section) (simp_all add: unat_of_nat take_bit_nat_eq_self)
  ultimately show "wp (fixed_section k off kind arg bs) (\<lambda>x t. 32 + length bs \<le> 0 + (32 + length bs) \<and>
      (\<exists>d'. reservation t = Some d' \<and> parses (take (32 + length bs) (drop off d')))) s"
    using s by (simp add: fixed_section_def wp_simps payload_tlv_write_header_direct_def)
qed (auto simp: fixed_section_def intro!: silent_rules silent_intros reports_rules reports_intros above_rules
      above_intros above_header above_store)

lemma accounted_fixed_exit:
  assumes "captures k 168 n (\<lambda>_. n) (capture 168)" "yields (168 + n) (capture 168) (\<lambda>ok. ok)" "n < 2 ^ 31"
  shows "accounted k (emit_fixed_exit k p ret dur n capture)"
proof -
  have e: "(80 :: nat) + 88 = 168" by simp
  let ?B = "\<lambda>ok d. ok \<and> n \<le> n \<and> holds_payload (168 + n) 168 n d"
  have "emits_on k sequence (\<lambda>d. length d = 168 + n) (State_Monad.bind (capture 168) (\<lambda>ok. if \<not> ok then bpf_ringbuf_discard
      else commit_event k
             (init_syscall_event_v2_header_direct k (zero_header sequence) EVENT_TYPE_EXIT
                EVENT_FLAG_PAYLOAD_TLV (ps_pid p) (ps_tid p) (ps_sys_id p) (168 + n) (ps_enter_time p + dur))
             (do { b \<leftarrow> init_syscall_exit_event_v2_from_pending k p ret dur (of_nat n);
                   return (enc_exit_body b) })))" for sequence
  proof (rule emits_on_bind [OF captures_frame(1) [OF assms(1)], where B = ?B])
    show "wp (capture 168) (\<lambda>ok t. \<exists>d'. reservation t = Some d' \<and> ?B ok d') s"
      if "reservation s = Some d" "length d = 168 + n" for s d
      using captures_holds [OF assms(1) that] assms(2) that by (auto simp: wp_def yields_def)
  qed (use emits_exit_tail [OF assms(3)] in \<open>auto simp: emits_on_def\<close>)
  then show ?thesis
    unfolding emit_fixed_exit_def Let_def e by (intro accounted_with_reservation) (simp add: emits_eq_on)
qed

lemma accounted_namespace [accounted_intros]:
  "accounted k (emit_namespace_exit_event_v2_direct k p ret dur)"
  "accounted k (emit_pid_namespace_exit_event_v2_direct k p ret dur)"
proof -
  have a: "accounted k (emit_fixed_exit k p ret dur (32 + length bs) (\<lambda>off. fixed_section k off kind arg bs))"
    if "payloadKindFromTLV kind \<noteq> None" "length bs < 2 ^ 30" for kind arg bs
    using that by (intro accounted_fixed_exit captures_fixed_section yields_fixed_section) simp_all
  have "accounted k (emit_fixed_exit k p ret dur (32 + 40) (\<lambda>off.
      fixed_section k off PAYLOAD_TLV_KIND_NAMESPACE PAYLOAD_TLV_NAMESPACE_ARG_INDEX (enc_namespace x)))" for x
    using a [of PAYLOAD_TLV_KIND_NAMESPACE "enc_namespace x"] by (simp add: payloadKindFromTLV_def)
  then show "accounted k (emit_namespace_exit_event_v2_direct k p ret dur)"
    unfolding emit_namespace_exit_event_v2_direct_def capture_namespace_tlv_direct_def
    by (intro accounted_rules accounted_intros silent_accounted [OF silent_namespace_exit(1)])
  have "accounted k (emit_fixed_exit k p ret dur (32 + 8) (\<lambda>off.
      fixed_section k off PAYLOAD_TLV_KIND_PID_NAMESPACE PAYLOAD_TLV_PID_NAMESPACE_ARG_INDEX (enc_pid_namespace x)))" for x
    using a [of PAYLOAD_TLV_KIND_PID_NAMESPACE "enc_pid_namespace x"] by (simp add: payloadKindFromTLV_def)
  then show "accounted k (emit_pid_namespace_exit_event_v2_direct k p ret dur)"
    unfolding emit_pid_namespace_exit_event_v2_direct_def capture_pid_namespace_tlv_direct_def
    by (intro accounted_rules accounted_intros silent_accounted [OF silent_namespace_snapshots(2)])
qed

section \<open>Properties\<close>

text \<open>The section every fixed-size capture leaves, and the record it ends up in.\<close>

definition out_section :: "payload_kind \<Rightarrow> u16 \<Rightarrow> bytes \<Rightarrow> payload_section" where
  "out_section kind arg bs = \<lparr>sec_kind = kind, sec_direction = PayloadDirectionOut,
     sec_arg_index = unat arg, sec_user_ptr = 0, sec_user_len = of_nat (length bs),
     sec_copied_len = of_nat (length bs), sec_probe_ret = 0, sec_data = bs\<rparr>"

lemma fixed_section_content:
  assumes "reservation u = Some d" "length d = 168 + (32 + length bs)"
  shows "wp (fixed_section k 168 kind arg bs) (\<lambda>ok t. ok \<and>
     captured (32 + length bs) 168 (32 + length bs) fl
      (enc_tlv_header \<lparr>tlv_kind = kind, tlv_arg_index = arg, tlv_flags = PAYLOAD_TLV_FLAG_DIRECTION_OUT,
         tlv_reserved = 0, tlv_user_len = of_nat (length bs), tlv_copied_len = of_nat (length bs),
         tlv_probe_ret = 0, tlv_reserved2 = 0, tlv_user_ptr = 0\<rparr> @ bs) u (32 + length bs, fl) t) u"
  using assms poke_section [of 168 bs d]
  by (simp add: fixed_section_def wp_simps payload_tlv_write_header_direct_def captured_def)

lemma fixed_exit_content:
  assumes "k_reserve k (tick s) (200 + length bs)" "length bs < 2 ^ 30" "payloadKindFromTLV kind = Some pk"
  shows "\<exists>r env. events (exec (emit_fixed_exit k p ret dur (32 + length bs)
       (\<lambda>off. fixed_section k off kind arg bs)) s) = events s @ [r] \<and>
     decodeTraceEventV2Envelope r = Some env \<and> env_event_type env = EVENT_TYPE_EXIT \<and>
     env_ret env = ret \<and> env_tid env = ps_tid p \<and> env_sys_id env = ps_sys_id p \<and>
     env_payload env = [out_section pk arg bs]"
proof -
  let ?n = "32 + length bs"
  let ?t = "\<lparr>tlv_kind = kind, tlv_arg_index = arg, tlv_flags = PAYLOAD_TLV_FLAG_DIRECTION_OUT,
         tlv_reserved = 0, tlv_user_len = of_nat (length bs), tlv_copied_len = of_nat (length bs),
         tlv_probe_ret = 0, tlv_reserved2 = 0, tlv_user_ptr = 0\<rparr>"
  let ?H = "header_spec EVENT_TYPE_EXIT EVENT_FLAG_PAYLOAD_TLV (ps_pid p) (ps_tid p) (ps_sys_id p)
     (168 + ?n) (ps_enter_time p + dur) (next_seq k s)"
  let ?Q = "\<lambda>_ v. \<exists>r h b. events v = events s @ [r] \<and> ?H h \<and> exit_body_spec p ret dur (of_nat ?n) b \<and>
     decodeTraceEventV2Envelope r = Some (exit_view h b (enc_tlv_header ?t @ bs))"
  have e: "(80 :: nat) + 88 = 168" by simp
  have "wp (emit_fixed_exit k p ret dur ?n (\<lambda>off. fixed_section k off kind arg bs)) ?Q s"
    unfolding emit_fixed_exit_def Let_def e
  proof (rule with_reservation_content, goal_cases)
    case 1 show ?case using assms(1) by simp
  next
    case (2 u d)
    show ?case
      unfolding wp_bind [of "fixed_section k 168 kind arg bs"]
    proof (rule wp_mono [OF fixed_section_content [OF 2(1,2), of k kind arg EVENT_FLAG_PAYLOAD_TLV]], elim conjE)
      fix ok t assume ok: ok "captured ?n 168 ?n EVENT_FLAG_PAYLOAD_TLV (enc_tlv_header ?t @ bs) u (?n, EVENT_FLAG_PAYLOAD_TLV) t"
      from commit_exit_content [OF ok(2), where k = k and sequence = "next_seq k s" and flags = EVENT_FLAG_PAYLOAD_TLV
          and pid = "ps_pid p" and tid = "ps_tid p" and sys_id = "ps_sys_id p" and ts = "ps_enter_time p + dur"
          and p = p and ret = ret and dur = dur] ok(1) assms(2) 2(3)
      show "wp (if \<not> ok then bpf_ringbuf_discard else commit_event k
             (init_syscall_event_v2_header_direct k (zero_header (next_seq k s)) EVENT_TYPE_EXIT
                EVENT_FLAG_PAYLOAD_TLV (ps_pid p) (ps_tid p) (ps_sys_id p) (168 + ?n) (ps_enter_time p + dur))
             (do { b \<leftarrow> init_syscall_exit_event_v2_from_pending k p ret dur (of_nat ?n);
                   return (enc_exit_body b) })) ?Q t" by simp
    qed
  qed
  then obtain r h b where r: "events (exec (emit_fixed_exit k p ret dur ?n (\<lambda>off. fixed_section k off kind arg bs)) s)
      = events s @ [r]" "?H h" "exit_body_spec p ret dur (of_nat ?n) b"
      "decodeTraceEventV2Envelope r = Some (exit_view h b (enc_tlv_header ?t @ bs))"
    unfolding wp_def by blast
  have "decodePayloadTLVSections (enc_tlv_header ?t @ bs) = Some [tlv_section ?t bs pk]"
    using decode_tlv_cons [of ?t pk bs "[]"] assms(2,3) by (simp add: unat_of_nat take_bit_nat_eq_self)
  with r show ?thesis
    by (auto simp: exit_view_def exit_body_spec_def header_spec_def payloadSectionsForRawPayloadEvent_def
        tlv_section_def payloadDirectionFromTLV_def out_section_def has_flag_def)
qed

lemma namespace_snapshot_flags:
  "gives (read_namespace_snapshot k task flags) (\<lambda>x. case x of None \<Rightarrow> True | Some y \<Rightarrow> nss_flags y = flags)"
  unfolding read_namespace_snapshot_def
  by (intro gives_if gives_bind_any gives_case_prod gives_return) simp_all

text \<open>What the fork hook leaves of the clone in flight.\<close>

lemma namespace_fork_storage:
  assumes "in_flight k s = Some p" "ps_sys_id p = SYS_CLONE" "has_flag (arg0 (ps_args p)) NAMESPACE_FLAG_MASK"
    and "result (read_namespace_snapshot k child (arg0 (ps_args p))) s = Some x"
  shows "\<exists>st. pending_task_storage (exec (trace_namespace_fork k child) s) (k_task k) = Some st \<and>
     pts_valid st \<noteq> 0 \<and> pts_namespace_snapshot st = x \<and> k_task k \<noteq> 0"
    and "events (exec (trace_namespace_fork k child) s) = events s"
proof -
  have k: "k_task k \<noteq> 0" using assms(1) by (auto simp: in_flight_eq split: if_splits)
  with assms(1) obtain st where st: "pending_task_storage s (k_task k) = Some st" "pts_valid st \<noteq> 0" "pts_syscall st = p"
    by (auto simp: in_flight_eq split: option.splits if_splits)
  have pend: "result (current_pending_task_state k) s = Some st" "exec (current_pending_task_state k) s = s"
    using st k by (simp_all add: pending_defs run_bind_parts del: run_state_bind)
  have ev: "events (exec (read_namespace_snapshot k child f) s) = events s" for f
    using silent_wp [of k "read_namespace_snapshot k child f" s, OF silent_namespace_snapshots(1)]
    by (simp add: wp_def quiet_def flow_def)
  show "\<exists>st. pending_task_storage (exec (trace_namespace_fork k child) s) (k_task k) = Some st \<and>
     pts_valid st \<noteq> 0 \<and> pts_namespace_snapshot st = x \<and> k_task k \<noteq> 0"
    "events (exec (trace_namespace_fork k child) s) = events s"
    using st pend assms k
    by (simp_all add: trace_namespace_fork_def run_bind_parts capture_pid_namespace_fork_child_def
        namespace_clone_flags_def store_pending_task_state_def ev del: run_state_bind)
qed

text \<open>
  C35: The namespaces of a clone's child reach the consumer with the clone: when the fork hook could read
  the child's namespaces, the exit record of that clone carries one namespace section with exactly what was
  read (the requested flags first), and is otherwise an ordinary exit record.
\<close>

theorem clone_namespace_roundtrip:
  assumes "in_flight k s = Some p" "ps_sys_id p = SYS_CLONE" "has_flag (arg0 (ps_args p)) NAMESPACE_FLAG_MASK"
    and "result (read_namespace_snapshot k child (arg0 (ps_args p))) s = Some x"
    and "k_task k' = k_task k" "\<And>n. k_reserve k' n 240" "0 \<le> sint ret"
  shows "nss_flags x = arg0 (ps_args p) \<and>
    (\<exists>r env. events (exec (emit_namespace_exit_event_v2_direct k' p ret dur) (exec (trace_namespace_fork k child) s))
        = events s @ [r] \<and> decodeTraceEventV2Envelope r = Some env \<and> env_ret env = ret \<and>
      env_tid env = ps_tid p \<and>
      env_payload env = [out_section PayloadKindNamespace PAYLOAD_TLV_NAMESPACE_ARG_INDEX (enc_namespace x)])"
proof -
  let ?t = "exec (trace_namespace_fork k child) s"
  have x: "nss_flags x = arg0 (ps_args p)"
    using namespace_snapshot_flags [of k child "arg0 (ps_args p)"] assms(4) by (auto simp: gives_def dest: spec [of _ s])
  obtain st where st: "pending_task_storage ?t (k_task k) = Some st" "pts_valid st \<noteq> 0"
    "pts_namespace_snapshot st = x" "k_task k \<noteq> 0"
    using namespace_fork_storage(1) [OF assms(1-4)] by blast
  have n: "result (namespace_snapshot_for_exit k' p) ?t = Some x" "exec (namespace_snapshot_for_exit k' p) ?t = ?t"
    using st x assms by (simp_all add: namespace_snapshot_for_exit_def run_bind_parts pending_defs del: run_state_bind)
  have "events (exec (emit_namespace_exit_event_v2_direct k' p ret dur) ?t) =
     events (exec (emit_fixed_exit k' p ret dur (32 + length (enc_namespace x)) (\<lambda>off.
       fixed_section k' off PAYLOAD_TLV_KIND_NAMESPACE PAYLOAD_TLV_NAMESPACE_ARG_INDEX (enc_namespace x))) ?t)"
    using n assms by (simp add: emit_namespace_exit_event_v2_direct_def capture_namespace_tlv_direct_def
        run_bind_parts del: run_state_bind)
  with fixed_exit_content [of k' ?t "enc_namespace x" PAYLOAD_TLV_KIND_NAMESPACE PayloadKindNamespace p ret dur
      PAYLOAD_TLV_NAMESPACE_ARG_INDEX] x assms namespace_fork_storage(2) [OF assms(1-4)]
  show ?thesis by (fastforce simp: payloadKindFromTLV_def)
qed

theorem clone_namespace_roundtrip_witness:
  "let k = (sample_kernel 1 2)\<lparr>k_core := (\<lambda>_ _ _. 5)\<rparr>;
       p = zero_pending_syscall\<lparr>ps_sys_id := SYS_CLONE, ps_args := Args 0x20000 0 0 0 0 0\<rparr>;
       s = boot_machine 4 \<lparr>pending_task_storage := [0x1002 \<mapsto> zero_pending_task_state\<lparr>pts_syscall := p, pts_valid := 1\<rparr>]\<rparr>
   in \<exists>r env. events (exec (emit_namespace_exit_event_v2_direct k p 9 5) (exec (trace_namespace_fork k 7) s)) = [] @ [r] \<and>
        decodeTraceEventV2Envelope r = Some env \<and> env_ret env = 9 \<and> length (env_payload env) = 1"
proof -
  define k where "k = (sample_kernel 1 2)\<lparr>k_core := (\<lambda>_ _ _. 5)\<rparr>"
  define p where "p = zero_pending_syscall\<lparr>ps_sys_id := SYS_CLONE, ps_args := Args 0x20000 0 0 0 0 0\<rparr>"
  define s where "s = boot_machine 4 \<lparr>pending_task_storage := [0x1002 \<mapsto> zero_pending_task_state\<lparr>pts_syscall := p, pts_valid := 1\<rparr>]\<rparr>"
  have t: "k_task k = 0x1002" by (simp add: k_def)
  have f: "in_flight k s = Some p" by (simp add: in_flight_eq t s_def)
  have r: "\<exists>x. result (read_namespace_snapshot k 7 0x20000) s = Some x"
    by (simp add: read_namespace_snapshot_def run_bind_parts core_read_def next_tick_def k_def case_prod_beta
        del: run_state_bind)
  then obtain x where x: "result (read_namespace_snapshot k 7 0x20000) s = Some x" by blast
  have "\<exists>r env. events (exec (emit_namespace_exit_event_v2_direct k p 9 5) (exec (trace_namespace_fork k 7) s)) =
      events s @ [r] \<and> decodeTraceEventV2Envelope r = Some env \<and> env_ret env = 9 \<and> length (env_payload env) = 1"
    using clone_namespace_roundtrip [OF f, of 7 x k 9 5] x by (fastforce simp: p_def has_flag_def k_def)
  then show ?thesis unfolding Let_def k_def p_def s_def by simp
qed

end
