(* ===== verification/Fd_Path.thy ===== *)
theory Fd_Path
  imports Namespace
begin

text \<open>
  \<^verbatim>\<open>bpf/syscall_fd_path_direct_event_v2.h\<close> and its \<^verbatim>\<open>walk\<close>, \<^verbatim>\<open>capture\<close> and \<^verbatim>\<open>emit\<close> parts: the
  path of a descriptor argument, rebuilt by walking the dentries to the root of the mount tree, and the
  records that carry it.
\<close>

abbreviation (input) FD_PATH_DIRECT_MAX :: nat where "FD_PATH_DIRECT_MAX \<equiv> 512"
abbreviation (input) FD_PATH_DIRECT_MAX_ARGS :: nat where "FD_PATH_DIRECT_MAX_ARGS \<equiv> 2"
abbreviation (input) FD_PATH_AT_FDCWD :: s32 where "FD_PATH_AT_FDCWD \<equiv> -100"
abbreviation (input) FD_PATH_STATE_PREFIX_SIZE :: nat where "FD_PATH_STATE_PREFIX_SIZE \<equiv> 48"
abbreviation (input) FD_PATH_DENTRY_MAX :: nat where "FD_PATH_DENTRY_MAX \<equiv> 8"
abbreviation (input) FD_PATH_PROBE_PATH_FAILED :: int where "FD_PATH_PROBE_PATH_FAILED \<equiv> -36"
abbreviation (input) FD_PATH_DIRECT_SECTION_MAX :: nat where "FD_PATH_DIRECT_SECTION_MAX \<equiv> 592"
abbreviation (input) FD_PATH_NESTED_MAX :: u32 where "FD_PATH_NESTED_MAX \<equiv> 4"

section \<open>Which arguments are descriptors\<close>

definition fd_path_arg_mask :: "u32 \<Rightarrow> u32" where
  "fd_path_arg_mask sys_id =
     (if sys_id \<in> set [SYS_READ, SYS_WRITE, SYS_PREAD64, SYS_PWRITE64, SYS_READV, SYS_WRITEV, SYS_PREADV,
          SYS_PWRITEV, SYS_PREADV2, SYS_PWRITEV2, SYS_CLOSE, SYS_FSTAT, SYS_FCHDIR, SYS_FSTATFS, SYS_FCNTL,
          SYS_EPOLL_WAIT, SYS_EPOLL_PWAIT, SYS_EPOLL_PWAIT2, SYS_CACHESTAT, SYS_OPEN_TREE, SYS_FSPICK] then 1
      else if sys_id = SYS_DUP2 \<or> sys_id = SYS_DUP3 then 3
      else if sys_id = SYS_EPOLL_CTL then 5
      else if sys_id \<in> set [SYS_OPENAT, SYS_OPENAT2, SYS_FCHOWNAT, SYS_FUTIMESAT, SYS_NEWFSTATAT, SYS_UNLINKAT,
          SYS_RENAMEAT, SYS_LINKAT, SYS_SYMLINKAT, SYS_READLINKAT, SYS_FCHMODAT, SYS_FACCESSAT, SYS_MKDIRAT,
          SYS_FACCESSAT2] then 1
      else if sys_id = SYS_DUP then 1
      else 0)"

definition fd_path_arg_count :: "u32 \<Rightarrow> nat" where
  "fd_path_arg_count sys_id =
     (let arg_mask = fd_path_arg_mask sys_id;
          count = length (filter (\<lambda>i. has_flag arg_mask (push_bit i 1)) [0..<6])
      in if count > FD_PATH_DIRECT_MAX_ARGS then FD_PATH_DIRECT_MAX_ARGS else count)"

definition fd_path_payload_capacity :: "u32 \<Rightarrow> nat" where
  "fd_path_payload_capacity sys_id = fd_path_arg_count sys_id * FD_PATH_DIRECT_SECTION_MAX"

section \<open>Walking the dentries\<close>

text \<open>
  \<^verbatim>\<open>BPF_CORE_READ_INTO\<close> of a two-word structure (\<^verbatim>\<open>struct qstr\<close>, \<^verbatim>\<open>struct path\<close>): the error and the
  two members, zero on a fault.
\<close>

definition core_read_pair :: "kernel \<Rightarrow> string \<Rightarrow> string \<Rightarrow> string \<Rightarrow> u64 \<Rightarrow> (int \<times> u64 \<times> u64) bpf" where
  "core_read_pair k f f1 f2 p = do {
     t \<leftarrow> next_tick;
     return (if k_core_fault k t f p < 0 then (k_core_fault k t f p, 0, 0)
             else (0, k_core k t f1 p, k_core k t f2 p)) }"

text \<open>The new path length, or None where the C function returns \<^verbatim>\<open>FD_PATH_PROBE_PATH_FAILED\<close>.\<close>

definition append_dentry_name_direct :: "kernel \<Rightarrow> nat \<Rightarrow> nat \<Rightarrow> u64 \<Rightarrow> nat option bpf" where
  "append_dentry_name_direct k data_offset path_len dentry = do {
     (err, name, len) \<leftarrow> core_read_pair k ''d_name'' ''d_name.name'' ''d_name.len'' dentry;
     if err < 0 \<or> name = 0 then return None
     else let name_len = unat (ucast len :: u32) in
       if name_len = 0 \<or> name_len > 255 \<or> path_len > 255 then return None
       else do {
         ok \<leftarrow> bpf_dynptr_write (data_offset + path_len) [0x2f];
         if \<not> ok then do { record_ringbuf_copy_fail k; return None }
         else do {
           (read_ret, bs) \<leftarrow> bpf_probe_read_kernel k name_len name;
           if read_ret < 0 then return None
           else do {
             ok \<leftarrow> bpf_dynptr_write (data_offset + (path_len + 1)) bs;
             if \<not> ok then do { record_ringbuf_copy_fail k; return None }
             else return (Some (path_len + 1 + name_len)) } } } }"

definition store_dentry_component :: "(nat \<Rightarrow> u64) \<Rightarrow> nat \<Rightarrow> u64 \<Rightarrow> (nat \<Rightarrow> u64)" where
  "store_dentry_component components index dentry =
     (if index < FD_PATH_DENTRY_MAX then components(index := dentry) else components)"

definition load_dentry_component :: "(nat \<Rightarrow> u64) \<Rightarrow> nat \<Rightarrow> u64" where
  "load_dentry_component components index = (if index < FD_PATH_DENTRY_MAX then components index else 0)"

definition fd_path_mount_from_vfsmount_direct :: "kernel \<Rightarrow> u64 \<Rightarrow> u64" where
  "fd_path_mount_from_vfsmount_direct k mnt = (if mnt = 0 then 0 else mnt - k_offset k ''mount.mnt'')"

definition fd_path_vfsmount_from_mount_direct :: "kernel \<Rightarrow> u64 \<Rightarrow> u64" where
  "fd_path_vfsmount_from_mount_direct k mount = (if mount = 0 then 0 else mount + k_offset k ''mount.mnt'')"

text \<open>The component list of the scratch, which the walk fills through the pointer it looked up.\<close>

definition scratch_components :: "kernel \<Rightarrow> (nat \<Rightarrow> u64) bpf" where
  "scratch_components k = do {
     x \<leftarrow> lookup_fd_path_scratch k;
     return (case x of None \<Rightarrow> (\<lambda>_. 0) | Some y \<Rightarrow> fps_components y) }"

definition push_dentry_component :: "kernel \<Rightarrow> nat \<Rightarrow> u64 \<Rightarrow> unit bpf" where
  "push_dentry_component k index dentry = do {
     x \<leftarrow> lookup_fd_path_scratch k;
     case x of
       None \<Rightarrow> return ()
     | Some y \<Rightarrow> store_fd_path_scratch k (y\<lparr>fps_components := store_dentry_component (fps_components y) index dentry\<rparr>) }"

text \<open>
  The first loop of \<^verbatim>\<open>read_dentry_path_direct\<close>, with the number of iterations left: whether the root
  was reached, and the number of components stored.
\<close>

primrec dentry_walk :: "kernel \<Rightarrow> nat \<Rightarrow> u64 \<Rightarrow> u64 \<Rightarrow> u64 \<Rightarrow> nat \<Rightarrow> (bool \<times> nat) bpf" where
  "dentry_walk k 0 dentry mnt root component_count = return (False, component_count)"
| "dentry_walk k (Suc rest) dentry mnt root component_count =
     (if dentry = 0 then return (False, component_count)
      else if dentry = root then do {
        let mount = fd_path_mount_from_vfsmount_direct k mnt;
        parent_mount \<leftarrow> (if mount \<noteq> 0 then core_read k ''mnt_parent'' mount else return 0);
        if parent_mount = 0 \<or> parent_mount = mount then return (True, component_count)
        else do {
          dentry' \<leftarrow> (if mount \<noteq> 0 then core_read k ''mnt_mountpoint'' mount else return 0);
          let mnt' = fd_path_vfsmount_from_mount_direct k parent_mount;
          root' \<leftarrow> (if mnt' \<noteq> 0 then core_read k ''mnt_root'' mnt' else return 0);
          dentry_walk k rest dentry' mnt' root' component_count } }
      else if component_count \<ge> FD_PATH_DENTRY_MAX then return (False, component_count)
      else do {
        push_dentry_component k component_count dentry;
        parent \<leftarrow> core_read k ''d_parent'' dentry;
        if parent = 0 \<or> parent = dentry then return (False, component_count + 1)
        else dentry_walk k rest parent mnt root (component_count + 1) })"

text \<open>The second loop: the names from the outermost component inwards.\<close>

primrec dentry_names :: "kernel \<Rightarrow> nat \<Rightarrow> nat \<Rightarrow> nat \<Rightarrow> nat \<Rightarrow> nat option bpf" where
  "dentry_names k data_offset component_count 0 path_len = return (Some path_len)"
| "dentry_names k data_offset component_count (Suc rest) path_len =
     (let i = FD_PATH_DENTRY_MAX - Suc rest in
      if i \<ge> component_count then return (Some path_len)
      else do {
        components \<leftarrow> scratch_components k;
        r \<leftarrow> append_dentry_name_direct k data_offset path_len
          (load_dentry_component components (component_count - i - 1));
        case r of None \<Rightarrow> return None
        | Some n \<Rightarrow> dentry_names k data_offset component_count rest n })"

text \<open>
  The path structure is a copy on the program's stack, so reading its members back is no kernel access.
  The result is the return value of the C function.
\<close>

definition read_dentry_path_direct :: "kernel \<Rightarrow> nat \<Rightarrow> u64 \<Rightarrow> u64 \<Rightarrow> int bpf" where
  "read_dentry_path_direct k data_offset dentry mnt = do {
     scratch \<leftarrow> lookup_fd_path_scratch k;
     if scratch = None then return FD_PATH_PROBE_PATH_FAILED
     else do {
       root \<leftarrow> (if mnt \<noteq> 0 then core_read k ''mnt_root'' mnt else return 0);
       (reached_root, component_count) \<leftarrow> dentry_walk k FD_PATH_DENTRY_MAX dentry mnt root 0;
       if \<not> reached_root then return FD_PATH_PROBE_PATH_FAILED
       else do {
         r \<leftarrow> dentry_names k data_offset component_count FD_PATH_DENTRY_MAX 0;
         case r of
           None \<Rightarrow> return FD_PATH_PROBE_PATH_FAILED
         | Some path_len0 \<Rightarrow> do {
             r \<leftarrow> (if path_len0 = 0 then do {
                 ok \<leftarrow> bpf_dynptr_write data_offset [0x2f];
                 if \<not> ok then do { record_ringbuf_copy_fail k; return None } else return (Some 1) }
               else return (Some path_len0));
             case r of
               None \<Rightarrow> return FD_PATH_PROBE_PATH_FAILED
             | Some path_len \<Rightarrow> do {
                 ok \<leftarrow> bpf_dynptr_write (data_offset + path_len) [0];
                 if \<not> ok then do { record_ringbuf_copy_fail k; return FD_PATH_PROBE_PATH_FAILED }
                 else return (int path_len + 1) } } } } }"

section \<open>Nested descriptors\<close>

definition fd_path_nested_candidate_exists :: "fd_path_scratch \<Rightarrow> s32 \<Rightarrow> bool" where
  "fd_path_nested_candidate_exists scratch fd =
     (let count = fps_nested_fd_count scratch in
      (count > 0 \<and> fps_nested_fd0 scratch = fd) \<or> (count > 1 \<and> fps_nested_fd1 scratch = fd) \<or>
      (count > 2 \<and> fps_nested_fd2 scratch = fd) \<or> (count > 3 \<and> fps_nested_fd3 scratch = fd))"

definition fd_path_nested_add_candidate :: "fd_path_scratch \<Rightarrow> s32 \<Rightarrow> fd_path_scratch" where
  "fd_path_nested_add_candidate scratch fd =
     (let count = fps_nested_fd_count scratch in
      if count \<ge> FD_PATH_NESTED_MAX \<or> fd_path_nested_candidate_exists scratch fd then scratch
      else (if count = 0 then scratch\<lparr>fps_nested_fd0 := fd\<rparr>
            else if count = 1 then scratch\<lparr>fps_nested_fd1 := fd\<rparr>
            else if count = 2 then scratch\<lparr>fps_nested_fd2 := fd\<rparr>
            else scratch\<lparr>fps_nested_fd3 := fd\<rparr>)\<lparr>fps_nested_fd_count := count + 1\<rparr>)"

definition fd_path_nested_add_window_candidate :: "fd_path_scratch \<Rightarrow> s32 \<Rightarrow> fd_path_scratch" where
  "fd_path_nested_add_window_candidate scratch fd =
     (let count = fps_nested_fd_count scratch in
      if count < FD_PATH_NESTED_MAX - 1 then fd_path_nested_add_candidate scratch fd
      else if fd_path_nested_candidate_exists scratch fd then scratch
      else scratch\<lparr>fps_nested_fd3 := fd, fps_nested_fd_count := FD_PATH_NESTED_MAX\<rparr>)"

section \<open>Sections\<close>

text \<open>A section without data, whose header is written for the probe result alone.\<close>

definition failed_path_section :: "kernel \<Rightarrow> nat \<Rightarrow> u16 \<Rightarrow> s32 \<Rightarrow> nat bpf" where
  "failed_path_section k payload_offset arg_index probe_ret = do {
     _ \<leftarrow> payload_tlv_write_header_direct k payload_offset PAYLOAD_TLV_KIND_FD_PATH arg_index 0 0 0 probe_ret 0;
     return PAYLOAD_TLV_HEADER_SIZE }"

definition capture_fd_cwd_path_tlv_direct :: "kernel \<Rightarrow> nat \<Rightarrow> nat bpf" where
  "capture_fd_cwd_path_tlv_direct k payload_offset = (let data_offset = payload_offset + PAYLOAD_TLV_HEADER_SIZE in do {
     fs \<leftarrow> (if k_task k \<noteq> 0 then core_read k ''fs'' (k_task k) else return 0);
     (read_ret, dentry, mnt) \<leftarrow> (if fs \<noteq> 0 then core_read_pair k ''pwd'' ''pwd.dentry'' ''pwd.mnt'' fs
                                 else return (-1, 0, 0));
     if read_ret < 0 then failed_path_section k payload_offset PAYLOAD_TLV_FD_PATH_CWD_ARG_INDEX (of_int read_ret)
     else do {
       path_ret \<leftarrow> read_dentry_path_direct k data_offset dentry mnt;
       if path_ret \<le> 0 \<or> path_ret \<ge> int FD_PATH_DIRECT_MAX
       then failed_path_section k payload_offset PAYLOAD_TLV_FD_PATH_CWD_ARG_INDEX (of_int path_ret)
       else do {
         let path_len = nat path_ret;
         ok \<leftarrow> payload_tlv_write_header_direct k payload_offset PAYLOAD_TLV_KIND_FD_PATH
           PAYLOAD_TLV_FD_PATH_CWD_ARG_INDEX 0 (of_nat path_len) (of_nat path_len) 0 0;
         return (if ok then PAYLOAD_TLV_HEADER_SIZE + path_len else 0) } } })"

definition capture_fd_path_tlv_direct :: "kernel \<Rightarrow> nat \<Rightarrow> u16 \<Rightarrow> s32 \<Rightarrow> nat bpf" where
  "capture_fd_path_tlv_direct k payload_offset arg_index fd =
     (if fd = FD_PATH_AT_FDCWD then capture_fd_cwd_path_tlv_direct k payload_offset
      else do {
        file \<leftarrow> lookup_current_fd_file k fd;
        if file = 0 then failed_path_section k payload_offset arg_index FD_STATE_PROBE_READ_FAILED
        else do {
          (ret, state) \<leftarrow> read_fd_state_snapshot_from_file k file fd;
          state_len \<leftarrow> (if ret = 0 then do {
              ok \<leftarrow> bpf_dynptr_write (payload_offset + PAYLOAD_TLV_HEADER_SIZE) (enc_fd_state state);
              if ok then return FD_PATH_STATE_PREFIX_SIZE
              else do { record_ringbuf_copy_fail k; return 0 } }
            else return 0);
          let data_offset = payload_offset + PAYLOAD_TLV_HEADER_SIZE + state_len;
          (read_ret, dentry, mnt) \<leftarrow> core_read_pair k ''f_path'' ''f_path.dentry'' ''f_path.mnt'' file;
          if read_ret < 0 then failed_path_section k payload_offset arg_index (of_int FD_PATH_PROBE_PATH_FAILED)
          else do {
            path_ret \<leftarrow> read_dentry_path_direct k data_offset dentry mnt;
            if path_ret \<le> 0 \<or> path_ret \<ge> int FD_PATH_DIRECT_MAX
            then failed_path_section k payload_offset arg_index (of_int path_ret)
            else do {
              let path_len = nat path_ret;
              let copied_len = state_len + path_len;
              ok \<leftarrow> payload_tlv_write_header_direct k payload_offset PAYLOAD_TLV_KIND_FD_PATH arg_index 0
                (of_nat path_len) (of_nat copied_len) 0 0;
              return (if ok then PAYLOAD_TLV_HEADER_SIZE + copied_len else 0) } } } })"

text \<open>The loop over the six arguments, with the indices left.\<close>

primrec fd_paths_loop :: "kernel \<Rightarrow> nat \<Rightarrow> u32 \<Rightarrow> args6 \<Rightarrow> nat list \<Rightarrow> nat \<Rightarrow> nat bpf" where
  "fd_paths_loop k payload_offset arg_mask args [] payload_size = return payload_size"
| "fd_paths_loop k payload_offset arg_mask args (i # rest) payload_size =
     (if \<not> has_flag arg_mask (push_bit i 1) then fd_paths_loop k payload_offset arg_mask args rest payload_size
      else do {
        n \<leftarrow> capture_fd_path_tlv_direct k (payload_offset + payload_size) (of_nat i) (ucast (arg_at args i));
        if payload_size + n \<ge> FD_PATH_DIRECT_MAX_ARGS * FD_PATH_DIRECT_SECTION_MAX
        then return (payload_size + n)
        else fd_paths_loop k payload_offset arg_mask args rest (payload_size + n) })"

definition capture_fd_paths_tlv_direct :: "kernel \<Rightarrow> nat \<Rightarrow> u32 \<Rightarrow> args6 \<Rightarrow> nat bpf" where
  "capture_fd_paths_tlv_direct k payload_offset sys_id args =
     fd_paths_loop k payload_offset (fd_path_arg_mask sys_id) args [0..<6] 0"

section \<open>Emitters\<close>

definition emit_fd_path_enter_event_v2_direct ::
    "kernel \<Rightarrow> u32 \<Rightarrow> u32 \<Rightarrow> u32 \<Rightarrow> sys_enter_ctx \<Rightarrow> u64 \<Rightarrow> unit bpf" where
  "emit_fd_path_enter_event_v2_direct k pid tid sys_id ctx ts_ns = do {
     scratch \<leftarrow> lookup_fd_path_scratch k;
     case scratch of
       None \<Rightarrow> return ()
     | Some x \<Rightarrow> do {
         let args = copy_syscall_enter_args ctx;
         store_fd_path_scratch k (x\<lparr>fps_args := args\<rparr>);
         emit_enter_tlv k pid tid sys_id args ts_ns 0 (-1) (fd_path_payload_capacity sys_id)
           (\<lambda>payload_offset. with_flags EVENT_FLAG_GENERIC_ENTER
              (capture_fd_paths_tlv_direct k payload_offset sys_id args)) } }"

definition emit_fd_path_or_no_payload_enter_event_v2_direct ::
    "kernel \<Rightarrow> u32 \<Rightarrow> u32 \<Rightarrow> sys_enter_ctx \<Rightarrow> u32 option \<Rightarrow> u64 \<Rightarrow> unit bpf" where
  "emit_fd_path_or_no_payload_enter_event_v2_direct k pid tid ctx cfg ts_ns =
     (let sys_id = ucast (sec_id ctx) in
      case cfg of None \<Rightarrow> return ()
      | Some c \<Rightarrow>
          if \<not> has_flag c CONFIG_EMIT_ENTER then return ()
          else if has_flag c CONFIG_FD_STATE \<and> fd_path_arg_count sys_id > 0
          then emit_fd_path_enter_event_v2_direct k pid tid sys_id ctx ts_ns
          else emit_syscall_enter_event_v2_direct k pid tid sys_id ctx EVENT_FLAG_GENERIC_ENTER ts_ns)"

abbreviation (input) PAYLOAD_TLV_FD_PATH_NESTED_ARG_INDEX :: u16 where
  "PAYLOAD_TLV_FD_PATH_NESTED_ARG_INDEX \<equiv> 0xfffd"

definition emit_nested_fd_path_fragment_event_v2_direct :: "kernel \<Rightarrow> pending_syscall \<Rightarrow> s32 \<Rightarrow> unit bpf" where
  "emit_nested_fd_path_fragment_event_v2_direct k p fd =
     (let payload_offset = EVENT_V2_HEADER_LEN + EVENT_V2_EXIT_BODY_LEN;
          out_size = payload_offset + FD_PATH_DIRECT_SECTION_MAX
      in with_reservation k out_size (\<lambda>sequence. do {
           payload_size \<leftarrow> capture_fd_path_tlv_direct k payload_offset PAYLOAD_TLV_FD_PATH_NESTED_ARG_INDEX fd;
           ts_ns \<leftarrow> bpf_ktime_get_ns k;
           commit_event k
             (init_syscall_event_v2_header_direct k (zero_header sequence) EVENT_TYPE_EXIT
                (payload_flags payload_size EVENT_FLAG_EXIT_FRAGMENT) (ps_pid p) (ps_tid p) (ps_sys_id p)
                out_size ts_ns)
             (do { b \<leftarrow> init_syscall_exit_event_v2_from_pending k p 0 0 (of_nat payload_size);
                   return (enc_exit_body b) }) }))"

section \<open>Reporting and accounting\<close>

lemma reports_walk_parts [reports_intros]:
  "reports (core_read_pair k f f1 f2 p)"
  "reports (scratch_components k)"
  "reports (push_dentry_component k i d)"
  "reports (failed_path_section k off arg pr)"
  "reports (append_dentry_name_direct k off n d)"
  unfolding core_read_pair_def scratch_components_def push_dentry_component_def failed_path_section_def
    append_dentry_name_direct_def Let_def
  by (intro reports_rules reports_intros)+

lemma silent_walk_parts [silent_intros]:
  "silent k (core_read_pair k' f f1 f2 p)"
  "silent k (scratch_components k')"
  "silent k (push_dentry_component k' i d)"
  "silent k (failed_path_section k off arg pr)"
  "silent k (append_dentry_name_direct k off n d)"
  unfolding core_read_pair_def scratch_components_def push_dentry_component_def failed_path_section_def
    append_dentry_name_direct_def Let_def
  by (intro silent_rules silent_intros)+

lemma reports_walk [reports_intros]:
  "reports (dentry_walk k n dentry mnt root count)"
  "reports (dentry_names k off count n len)"
  by (induction n arbitrary: dentry mnt root count len) (auto simp: Let_def intro!: reports_rules reports_intros)

lemma silent_walk [silent_intros]:
  "silent k (dentry_walk k' n dentry mnt root count)"
  "silent k (dentry_names k off count n len)"
  by (induction n arbitrary: dentry mnt root count len) (auto simp: Let_def intro!: silent_rules silent_intros)

lemma reports_path [reports_intros]: "reports (read_dentry_path_direct k off dentry mnt)"
  unfolding read_dentry_path_direct_def by (intro reports_rules reports_intros)

lemma silent_path [silent_intros]: "silent k (read_dentry_path_direct k off dentry mnt)"
  unfolding read_dentry_path_direct_def by (intro silent_rules silent_intros)

lemma reports_cwd [reports_intros]: "reports (capture_fd_cwd_path_tlv_direct k off)"
  unfolding capture_fd_cwd_path_tlv_direct_def Let_def by (intro reports_rules reports_intros)

lemma silent_cwd [silent_intros]: "silent k (capture_fd_cwd_path_tlv_direct k off)"
  unfolding capture_fd_cwd_path_tlv_direct_def Let_def by (intro silent_rules silent_intros)

lemma reports_fd_path [reports_intros]: "reports (capture_fd_path_tlv_direct k off arg fd)"
  unfolding capture_fd_path_tlv_direct_def Let_def by (intro reports_rules reports_intros)

lemma silent_fd_path [silent_intros]: "silent k (capture_fd_path_tlv_direct k off arg fd)"
  unfolding capture_fd_path_tlv_direct_def Let_def by (intro silent_rules silent_intros)

lemma reports_fd_paths [reports_intros]: "reports (fd_paths_loop k off m args is n)"
  by (induction "is" arbitrary: n) (auto intro!: reports_rules reports_intros)

lemma silent_fd_paths [silent_intros]: "silent k (fd_paths_loop k off m args is n)"
  by (induction "is" arbitrary: n) (auto intro!: silent_rules silent_intros)

lemma reports_fd_path_emit [reports_intros]:
  "reports (emit_fd_path_enter_event_v2_direct k pid tid sys_id ctx ts)"
  "reports (emit_nested_fd_path_fragment_event_v2_direct k p fd)"
  unfolding emit_fd_path_enter_event_v2_direct_def emit_nested_fd_path_fragment_event_v2_direct_def
    capture_fd_paths_tlv_direct_def Let_def
  by (intro reports_rules reports_intros)+

lemma reports_fd_path_or_no_payload [reports_intros]:
  "reports (emit_fd_path_or_no_payload_enter_event_v2_direct k pid tid ctx cfg ts)"
  unfolding emit_fd_path_or_no_payload_enter_event_v2_direct_def Let_def
  by (intro reports_rules reports_intros)

text \<open>A path is at most 511 characters, so a section stays within \<^verbatim>\<open>FD_PATH_DIRECT_SECTION_MAX\<close>.\<close>

lemma above_scratch [above_intros]:
  "above off (lookup_fd_path_scratch k)"
  "above off (store_fd_path_scratch k x)"
  "above off (core_read_pair k f f1 f2 p)"
  unfolding lookup_fd_path_scratch_def store_fd_path_scratch_def core_read_pair_def
  by (rule keeps_above, intro keeps_rules keeps_intros keeps_modify; simp)+

lemma above_components [above_intros]:
  "above off (scratch_components k)"
  "above off (push_dentry_component k i d)"
  unfolding scratch_components_def push_dentry_component_def by (intro above_rules above_intros)+

lemma above_append: "o' \<le> off \<Longrightarrow> above o' (append_dentry_name_direct k off n d)"
  unfolding append_dentry_name_direct_def Let_def by (intro above_rules above_intros above_store) simp_all

lemma above_walk [above_intros]: "above off (dentry_walk k n dentry mnt root count)"
  by (induction n arbitrary: dentry mnt root count) (auto simp: Let_def intro!: above_rules above_intros)

lemma above_names: "o' \<le> off \<Longrightarrow> above o' (dentry_names k off count n len)"
  by (induction n arbitrary: len) (auto simp: Let_def intro!: above_rules above_intros above_append)

lemma above_path: "o' \<le> off \<Longrightarrow> above o' (read_dentry_path_direct k off dentry mnt)"
  unfolding read_dentry_path_direct_def
  by (intro above_rules above_intros above_store above_names) simp_all

lemma captures_failed_path: "32 \<le> cap \<Longrightarrow> captures k off cap (\<lambda>n. n) (failed_path_section k off arg pr)"
  unfolding failed_path_section_def
  by (rule captures_header) (simp_all add: payloadKindFromTLV_def)

lemma captures_fd_path_header:
  assumes "32 + n \<le> cap" "cap < 2 ^ 32"
  shows "captures k off cap (\<lambda>n. n) (do {
     ok \<leftarrow> payload_tlv_write_header_direct k off PAYLOAD_TLV_KIND_FD_PATH arg 0 ul (of_nat n) 0 0;
     return (if ok then 32 + n else 0) })"
  by (rule captures_header_nat) (use assms in \<open>simp_all add: payloadKindFromTLV_def\<close>)

lemma captures_cwd: "captures k off 592 (\<lambda>n. n) (capture_fd_cwd_path_tlv_direct k off)"
  unfolding capture_fd_cwd_path_tlv_direct_def Let_def
  by (rule captures_pre_any captures_if captures_case_prod captures_failed_path captures_fd_path_header above_path
      silent_rules silent_intros reports_rules reports_intros above_rules above_intros | (simp; linarith) | simp)+

lemma captures_fd_path [captures_intros]: "captures k off 592 (\<lambda>n. n) (capture_fd_path_tlv_direct k off arg fd)"
proof -
  let ?st = "\<lambda>ret state. if ret = (0 :: s32) then do {
              ok \<leftarrow> bpf_dynptr_write (off + 32) (enc_fd_state state);
              if ok then return (48 :: nat)
              else do { record_ringbuf_copy_fail k; return 0 } }
            else return 0"
  have st: "silent k (?st ret state)" "reports (?st ret state)" "above off (?st ret state)"
    "gives (?st ret state) (\<lambda>n. n \<le> 48)" for ret state
    by (intro silent_rules silent_intros reports_rules reports_intros above_rules above_intros above_store
        gives_if gives_bind_any gives_return; simp)+
  show ?thesis
    unfolding capture_fd_path_tlv_direct_def Let_def
    by (rule captures_pre [OF st] captures_pre_any captures_if captures_case_prod captures_failed_path captures_cwd
        captures_fd_path_header above_path silent_rules silent_intros reports_rules reports_intros above_rules
        above_intros | (simp; linarith) | simp)+
qed

lemma extends_fd_paths:
  "extends k off n (length (filter (\<lambda>i. has_flag m (push_bit i 1)) is) * 592) (\<lambda>n. n)
     (fd_paths_loop k off m args is n)"
proof (induction "is" arbitrary: n)
  case Nil show ?case by (simp add: extends_return)
next
  case (Cons i "is")
  let ?c = "length (filter (\<lambda>i. has_flag m (push_bit i 1)) is) * 592"
  have "extends k off (n + x) ?c (\<lambda>n. n)
      (if n + x \<ge> 2 * 592 then return (n + x) else fd_paths_loop k off m args is (n + x))" for x
    by (intro extends_if extends_return Cons.IH refl)
  then have "extends k off n (592 + ?c) (\<lambda>n. n) (do {
      x \<leftarrow> capture_fd_path_tlv_direct k (off + n) (of_nat i) (ucast (arg_at args i));
      if n + x \<ge> 2 * 592 then return (n + x) else fd_paths_loop k off m args is (n + x) })"
    by (intro extends_capture [OF captures_fd_path]) simp_all
  with Cons.IH show ?case by (simp add: add.commute)
qed

lemma arg_count_le: "fd_path_arg_count sys_id \<le> 2"
  by (simp add: fd_path_arg_count_def Let_def)

lemma arg_count_eq: "fd_path_arg_count sys_id = length (filter (\<lambda>i. has_flag (fd_path_arg_mask sys_id) (push_bit i 1)) [0..<6])"
proof -
  have "fd_path_arg_mask sys_id \<in> {0, 1, 3, 5}" by (simp add: fd_path_arg_mask_def)
  then show ?thesis
    by (auto simp: fd_path_arg_count_def Let_def upt_conv_Cons has_flag_def)
qed

lemma captures_fd_paths:
  "captures k off (fd_path_payload_capacity sys_id) (\<lambda>n. n) (capture_fd_paths_tlv_direct k off sys_id args)"
  using extends_fd_paths [of k off 0 "fd_path_arg_mask sys_id" "[0..<6]" args]
  by (simp add: captures_def capture_fd_paths_tlv_direct_def fd_path_payload_capacity_def arg_count_eq)

lemma accounted_fd_path_enter [accounted_intros]:
  "accounted k (emit_fd_path_enter_event_v2_direct k pid tid sys_id ctx ts)"
proof -
  have c: "fd_path_payload_capacity sys_id < 2 ^ 31"
    using arg_count_le [of sys_id] by (simp add: fd_path_payload_capacity_def)
  have e: "accounted k (emit_enter_tlv k pid tid sys_id args ts 0 (-1) (fd_path_payload_capacity sys_id)
      (\<lambda>off. with_flags EVENT_FLAG_GENERIC_ENTER (capture_fd_paths_tlv_direct k off sys_id args)))" for args
    by (rule accounted_enter_sections, rule captures_fd_paths) (simp_all add: c [simplified] has_flag_def)
  show ?thesis
    unfolding emit_fd_path_enter_event_v2_direct_def Let_def
    by (rule accounted_rules e | rule silent_accounted, rule silent_intros)+
qed

lemma accounted_fd_path_or_no_payload [accounted_intros]:
  "accounted k (emit_fd_path_or_no_payload_enter_event_v2_direct k pid tid ctx cfg ts)"
  unfolding emit_fd_path_or_no_payload_enter_event_v2_direct_def Let_def
  by (intro accounted_rules accounted_intros) (simp add: has_flag_def)

lemma accounted_nested_fragment [accounted_intros]:
  "accounted k (emit_nested_fd_path_fragment_event_v2_direct k p fd)"
proof -
  have e: "(80 :: nat) + 88 = 168" by simp
  let ?B = "\<lambda>n d. n \<le> 592 \<and> holds_payload (168 + 592) 168 n d"
  have "emits_on k sequence (\<lambda>d. length d = 168 + 592) (do {
           payload_size \<leftarrow> capture_fd_path_tlv_direct k 168 PAYLOAD_TLV_FD_PATH_NESTED_ARG_INDEX fd;
           ts_ns \<leftarrow> bpf_ktime_get_ns k;
           commit_event k
             (init_syscall_event_v2_header_direct k (zero_header sequence) EVENT_TYPE_EXIT
                (payload_flags payload_size EVENT_FLAG_EXIT_FRAGMENT) (ps_pid p) (ps_tid p) (ps_sys_id p)
                (168 + 592) ts_ns)
             (do { b \<leftarrow> init_syscall_exit_event_v2_from_pending k p 0 0 (of_nat payload_size);
                   return (enc_exit_body b) }) })" for sequence
    by (rule emits_on_bind [OF captures_frame(1) [OF captures_fd_path], where B = ?B],
        rule captures_holds [OF captures_fd_path], assumption, assumption,
        rule emits_on_bind [OF silent_helpers(1), where B = "\<lambda>_. ?B _"],
        simp add: wp_ktime, rule emits_exit_tail) simp
  then show ?thesis
    unfolding emit_nested_fd_path_fragment_event_v2_direct_def Let_def e
    by (intro accounted_with_reservation) (simp add: emits_eq_on)
qed

section \<open>The nested candidates\<close>

text \<open>The list the four candidate fields and their count stand for.\<close>

definition nested_list :: "fd_path_scratch \<Rightarrow> s32 list" where
  "nested_list x = take (unat (fps_nested_fd_count x))
     [fps_nested_fd0 x, fps_nested_fd1 x, fps_nested_fd2 x, fps_nested_fd3 x]"

lemma small_count:
  assumes "(c :: u32) < 4"
  obtains "c = 0" | "c = 1" | "c = 2" | "c = 3"
proof -
  have "unat c < 4" using assms by (simp add: word_less_nat_alt)
  then have "unat c = 0 \<or> unat c = 1 \<or> unat c = 2 \<or> unat c = 3" by linarith
  then have "unat c = unat (0 :: u32) \<or> unat c = unat (1 :: u32) \<or> unat c = unat (2 :: u32) \<or> unat c = unat (3 :: u32)"
    by simp
  then show thesis using that by (simp only: word_unat_eq_iff [symmetric]) blast
qed

lemma nested_list_full:
  "4 \<le> fps_nested_fd_count x \<Longrightarrow>
     nested_list x = [fps_nested_fd0 x, fps_nested_fd1 x, fps_nested_fd2 x, fps_nested_fd3 x]"
  by (simp add: nested_list_def word_le_nat_alt)

lemma nested_list_small:
  "fps_nested_fd_count x = 0 \<Longrightarrow> nested_list x = []"
  "fps_nested_fd_count x = 1 \<Longrightarrow> nested_list x = [fps_nested_fd0 x]"
  "fps_nested_fd_count x = 2 \<Longrightarrow> nested_list x = [fps_nested_fd0 x, fps_nested_fd1 x]"
  "fps_nested_fd_count x = 3 \<Longrightarrow> nested_list x = [fps_nested_fd0 x, fps_nested_fd1 x, fps_nested_fd2 x]"
  by (simp_all add: nested_list_def)

lemma nested_exists: "fd_path_nested_candidate_exists x fd \<longleftrightarrow> fd \<in> set (nested_list x)"
proof (cases "4 \<le> fps_nested_fd_count x")
  case True
  then have "0 < fps_nested_fd_count x" "1 < fps_nested_fd_count x" "2 < fps_nested_fd_count x" "3 < fps_nested_fd_count x"
    by (auto intro: less_le_trans [rotated])
  with True show ?thesis by (auto simp: fd_path_nested_candidate_exists_def nested_list_full Let_def)
next
  case False
  then have "fps_nested_fd_count x < 4" by simp
  then show ?thesis
    by (cases rule: small_count) (auto simp: fd_path_nested_candidate_exists_def nested_list_small Let_def)
qed

lemma nested_length: "length (nested_list x) = min 4 (unat (fps_nested_fd_count x))"
  by (simp add: nested_list_def)

text \<open>
  C34: The candidate fields are a bounded list without repetitions: adding a descriptor appends it unless
  it is there or four are, and adding through the window replaces the last of four instead, so the latest
  descriptor is always among the candidates.
\<close>

theorem nested_candidates_refine:
  "nested_list (fd_path_nested_add_candidate x fd) =
     (if length (nested_list x) = 4 \<or> fd \<in> set (nested_list x) then nested_list x else nested_list x @ [fd]) \<and>
   nested_list (fd_path_nested_add_window_candidate x fd) =
     (if fd \<in> set (nested_list x) then nested_list x else take 3 (nested_list x) @ [fd])"
proof (rule conjI)
  show add: "nested_list (fd_path_nested_add_candidate x fd) =
     (if length (nested_list x) = 4 \<or> fd \<in> set (nested_list x) then nested_list x else nested_list x @ [fd])"
  proof (cases "4 \<le> fps_nested_fd_count x")
    case True
    then show ?thesis by (simp add: fd_path_nested_add_candidate_def nested_list_full)
  next
    case False
    then have c: "fps_nested_fd_count x < 4" by simp
    then show ?thesis
      by (cases rule: small_count)
         (auto simp: fd_path_nested_add_candidate_def nested_exists Let_def nested_list_def word_le_nat_alt)
  qed
  show "nested_list (fd_path_nested_add_window_candidate x fd) =
     (if fd \<in> set (nested_list x) then nested_list x else take 3 (nested_list x) @ [fd])"
  proof (cases "4 \<le> fps_nested_fd_count x")
    case True
    then have "\<not> fps_nested_fd_count x < 3" by (simp add: word_le_nat_alt word_less_nat_alt)
    with True show ?thesis
      using nested_list_full [OF True]
      by (simp add: fd_path_nested_add_window_candidate_def nested_exists Let_def)
        (simp add: nested_list_def)
  next
    case False
    then have c: "fps_nested_fd_count x < 4" by simp
    then show ?thesis
      by (cases rule: small_count)
         (auto simp: fd_path_nested_add_window_candidate_def fd_path_nested_add_candidate_def nested_exists Let_def
           nested_list_def word_less_nat_alt word_le_nat_alt)
  qed
qed

end
