(* ===== verification/Path.thy ===== *)
theory Path
  imports Fd_Path
begin

text \<open>
  \<^verbatim>\<open>bpf/syscall_path_{direct,capture,emit}_event_v2.h\<close>, \<^verbatim>\<open>bpf/syscall_path_stat_direct_event_v2.h\<close> and
  \<^verbatim>\<open>bpf/syscall_openat2_direct_event_v2.h\<close>: syscalls with one or two path arguments.  A single path is
  copied in two overlapping chunks, up to \<^verbatim>\<open>PATH_MAX\<close> bytes.
\<close>

abbreviation (input) PATH_ONLY_DIRECT_PATH_MAX :: nat where "PATH_ONLY_DIRECT_PATH_MAX \<equiv> 4096"
abbreviation (input) PATH_ONLY_DIRECT_FIRST_CHUNK :: nat where "PATH_ONLY_DIRECT_FIRST_CHUNK \<equiv> 2048"
abbreviation (input) PATH_ONLY_DIRECT_SECOND_CHUNK :: nat where "PATH_ONLY_DIRECT_SECOND_CHUNK \<equiv> 2049"
abbreviation (input) DUAL_PATH_DIRECT_PATH_MAX :: nat where "DUAL_PATH_DIRECT_PATH_MAX \<equiv> 512"
abbreviation (input) PATH_STAT_DIRECT_PATH_MAX :: nat where "PATH_STAT_DIRECT_PATH_MAX \<equiv> 512"
abbreviation (input) OPENAT2_DIRECT_PATH_MAX :: nat where "OPENAT2_DIRECT_PATH_MAX \<equiv> 4096"
abbreviation (input) OPENAT2_DIRECT_HOW_MIN :: nat where "OPENAT2_DIRECT_HOW_MIN \<equiv> 24"
abbreviation (input) OPENAT2_DIRECT_HOW_MAX :: nat where "OPENAT2_DIRECT_HOW_MAX \<equiv> 64"
abbreviation (input) OPENAT2_DIRECT_PAYLOAD_CAPACITY :: nat where "OPENAT2_DIRECT_PAYLOAD_CAPACITY \<equiv> 4224"
abbreviation (input) OPENAT2_DIRECT_EXIT_PAYLOAD_CAPACITY :: nat
  where "OPENAT2_DIRECT_EXIT_PAYLOAD_CAPACITY \<equiv> 4304"

section \<open>Syscall classes\<close>

definition is_path_only_arg0_direct_syscall :: "u32 \<Rightarrow> bool" where
  "is_path_only_arg0_direct_syscall sys_id \<longleftrightarrow> sys_id \<in> set
     [SYS_ACCESS, SYS_CHDIR, SYS_CHROOT, SYS_CHMOD, SYS_CHOWN, SYS_LCHOWN, SYS_MKDIR, SYS_MKNOD, SYS_RMDIR,
      SYS_UNLINK, SYS_SWAPON, SYS_SWAPOFF, SYS_ACCT, SYS_TRUNCATE, SYS_FSOPEN]"

definition is_path_only_arg1_direct_syscall :: "u32 \<Rightarrow> bool" where
  "is_path_only_arg1_direct_syscall sys_id \<longleftrightarrow> sys_id \<in> set
     [SYS_MKDIRAT, SYS_MKNODAT, SYS_FCHOWNAT, SYS_UNLINKAT, SYS_FCHMODAT, SYS_FACCESSAT, SYS_FACCESSAT2,
      SYS_FSPICK, SYS_OPEN_TREE, SYS_FILE_GETATTR]"

definition is_path_only_direct_syscall :: "u32 \<Rightarrow> bool" where
  "is_path_only_direct_syscall sys_id \<longleftrightarrow>
     is_path_only_arg0_direct_syscall sys_id \<or> is_path_only_arg1_direct_syscall sys_id"

definition is_dual_path_0_1_direct_syscall :: "u32 \<Rightarrow> bool" where
  "is_dual_path_0_1_direct_syscall sys_id \<longleftrightarrow> sys_id = SYS_RENAME \<or> sys_id = SYS_LINK \<or> sys_id = SYS_SYMLINK"

definition is_dual_path_0_2_direct_syscall :: "u32 \<Rightarrow> bool" where
  "is_dual_path_0_2_direct_syscall sys_id \<longleftrightarrow> sys_id = SYS_SYMLINKAT"

definition is_dual_path_1_3_direct_syscall :: "u32 \<Rightarrow> bool" where
  "is_dual_path_1_3_direct_syscall sys_id \<longleftrightarrow> sys_id = SYS_RENAMEAT \<or> sys_id = SYS_RENAMEAT2 \<or> sys_id = SYS_LINKAT"

definition is_dual_path_direct_syscall :: "u32 \<Rightarrow> bool" where
  "is_dual_path_direct_syscall sys_id \<longleftrightarrow> is_dual_path_0_1_direct_syscall sys_id \<or>
     is_dual_path_0_2_direct_syscall sys_id \<or> is_dual_path_1_3_direct_syscall sys_id"

definition is_path_stat_direct_syscall :: "u32 \<Rightarrow> bool" where
  "is_path_stat_direct_syscall sys_id \<longleftrightarrow> sys_id = SYS_STAT \<or> sys_id = SYS_LSTAT \<or> sys_id = SYS_STATFS \<or>
     sys_id = SYS_NEWFSTATAT \<or> sys_id = SYS_STATX"

definition is_openat2_direct_syscall :: "u32 \<Rightarrow> bool" where
  "is_openat2_direct_syscall sys_id \<longleftrightarrow> sys_id = SYS_OPENAT2"

section \<open>Captures\<close>

text \<open>
  The copy of \<^verbatim>\<open>capture_path_only_tlv_direct\<close>: \<^verbatim>\<open>copied_len\<close> and \<^verbatim>\<open>probe_ret\<close>.  The second chunk starts on
  the terminator of the first; when both are full the byte at the boundary, which the string read replaced
  by a terminator, is read again.
\<close>

definition copy_long_path :: "kernel \<Rightarrow> nat \<Rightarrow> u64 \<Rightarrow> (nat \<times> s32) bpf" where
  "copy_long_path k data_offset user_ptr = do {
     payload_data \<leftarrow> bpf_dynptr_data data_offset PATH_ONLY_DIRECT_PATH_MAX;
     if \<not> payload_data then do { record_ringbuf_copy_fail k; return (0, -1) }
     else do {
       (n, bs) \<leftarrow> bpf_probe_read_user_str k PATH_ONLY_DIRECT_FIRST_CHUNK user_ptr;
       mem_store data_offset bs;
       if n < 0 then return (0, of_int n)
       else if n \<ge> int PATH_ONLY_DIRECT_FIRST_CHUNK then do {
         tl \<leftarrow> bpf_dynptr_data (data_offset + PATH_ONLY_DIRECT_FIRST_CHUNK - 1) PATH_ONLY_DIRECT_SECOND_CHUNK;
         if \<not> tl then do { record_ringbuf_copy_fail k; return (0, -1) }
         else do {
           (tail_len, tail_bs) \<leftarrow> bpf_probe_read_user_str k PATH_ONLY_DIRECT_SECOND_CHUNK
             (user_ptr + of_nat PATH_ONLY_DIRECT_FIRST_CHUNK - 1);
           mem_store (data_offset + PATH_ONLY_DIRECT_FIRST_CHUNK - 1) tail_bs;
           if tail_len < 0 then return (PATH_ONLY_DIRECT_FIRST_CHUNK - 1, of_int tail_len)
           else if PATH_ONLY_DIRECT_FIRST_CHUNK - 1 + nat tail_len \<ge> PATH_ONLY_DIRECT_PATH_MAX then do {
             (_, last_byte) \<leftarrow> bpf_probe_read_user k 1 (user_ptr + of_nat PATH_ONLY_DIRECT_PATH_MAX - 1);
             lst \<leftarrow> bpf_dynptr_data (data_offset + PATH_ONLY_DIRECT_PATH_MAX - 1) 1;
             only_if lst (mem_store (data_offset + PATH_ONLY_DIRECT_PATH_MAX - 1) last_byte);
             only_if (last_byte \<noteq> [0]) (record_payload_truncated_event k);
             return (PATH_ONLY_DIRECT_PATH_MAX, 0) }
           else return (PATH_ONLY_DIRECT_FIRST_CHUNK - 1 + nat tail_len, 0) } }
       else return (nat n, 0) } }"

definition capture_path_only_tlv_direct :: "kernel \<Rightarrow> nat \<Rightarrow> u16 \<Rightarrow> u64 \<Rightarrow> nat bpf" where
  "capture_path_only_tlv_direct k payload_offset arg_index user_ptr = do {
     (copied_len, probe_ret) \<leftarrow> (if user_ptr = 0 then return (0, -1)
       else copy_long_path k (payload_offset + PAYLOAD_TLV_HEADER_SIZE) user_ptr);
     ok \<leftarrow> payload_tlv_write_header_direct k payload_offset PAYLOAD_TLV_KIND_STRING arg_index 0
       (of_nat copied_len) (of_nat copied_len) probe_ret user_ptr;
     return (if ok then PAYLOAD_TLV_HEADER_SIZE + copied_len else 0) }"

definition capture_dual_path_tlv_direct :: "kernel \<Rightarrow> nat \<Rightarrow> u16 \<Rightarrow> u64 \<Rightarrow> nat bpf" where
  "capture_dual_path_tlv_direct k payload_offset arg_index user_ptr =
     string_section k DUAL_PATH_DIRECT_PATH_MAX payload_offset arg_index user_ptr"

definition capture_path_stat_path_tlv_direct :: "kernel \<Rightarrow> nat \<Rightarrow> u16 \<Rightarrow> u64 \<Rightarrow> nat bpf" where
  "capture_path_stat_path_tlv_direct k payload_offset path_arg user_ptr =
     string_section k PATH_STAT_DIRECT_PATH_MAX payload_offset path_arg user_ptr"

definition capture_openat2_path_tlv_direct :: "kernel \<Rightarrow> nat \<Rightarrow> u64 \<Rightarrow> nat bpf" where
  "capture_openat2_path_tlv_direct k payload_offset user_ptr =
     string_section k OPENAT2_DIRECT_PATH_MAX payload_offset 1 user_ptr"

text \<open>The second component is the event flags the capture leaves.\<close>

definition capture_openat2_how_tlv_direct :: "kernel \<Rightarrow> nat \<Rightarrow> u64 \<Rightarrow> u64 \<Rightarrow> u16 \<Rightarrow> (nat \<times> u16) bpf" where
  "capture_openat2_how_tlv_direct k payload_offset user_ptr requested_len event_flags =
     (if user_ptr = 0 \<or> requested_len < of_nat OPENAT2_DIRECT_HOW_MIN then return (0, event_flags)
      else let user_len = payload_tlv_clamp_u32 requested_len;
               wanted_len = unat (payload_tlv_copy_len requested_len (of_nat OPENAT2_DIRECT_HOW_MAX));
               data_offset = payload_offset + PAYLOAD_TLV_HEADER_SIZE in do {
        (copied_len, probe_ret) \<leftarrow> do {
          payload_data \<leftarrow> bpf_dynptr_data data_offset OPENAT2_DIRECT_HOW_MAX;
          if \<not> payload_data then do { record_ringbuf_copy_fail k; return (0, -1) }
          else do {
            (err, bs) \<leftarrow> bpf_probe_read_user k OPENAT2_DIRECT_HOW_MIN user_ptr;
            mem_store data_offset bs;
            if err < 0 then return (0, of_int err)
            else if wanted_len > OPENAT2_DIRECT_HOW_MIN then do {
              (extra_err, extra) \<leftarrow> bpf_probe_read_user k (wanted_len - OPENAT2_DIRECT_HOW_MIN)
                (user_ptr + of_nat OPENAT2_DIRECT_HOW_MIN);
              mem_store (data_offset + OPENAT2_DIRECT_HOW_MIN) extra;
              return (if extra_err = 0 then wanted_len else OPENAT2_DIRECT_HOW_MIN, 0) }
            else return (OPENAT2_DIRECT_HOW_MIN, 0) } };
        let truncated = (probe_ret = 0 \<and> copied_len > 0 \<and> of_nat copied_len < user_len);
        only_if truncated (record_payload_truncated_event k);
        ok \<leftarrow> payload_tlv_write_header_direct k payload_offset PAYLOAD_TLV_KIND_STRUCT 2 0 user_len
          (of_nat copied_len) probe_ret user_ptr;
        return (if ok then PAYLOAD_TLV_HEADER_SIZE + copied_len else 0,
                if truncated then event_flags OR EVENT_FLAG_TRUNCATED else event_flags) })"

section \<open>Emitters\<close>

record path_only_emit_request =
  por_path_arg :: u16
  por_user_ptr :: u64

record dual_path_emit_request =
  dpr_first_arg :: u16
  dpr_second_arg :: u16
  dpr_first_ptr :: u64
  dpr_second_ptr :: u64

definition emit_path_only_enter_event_v2_direct_with_path ::
    "kernel \<Rightarrow> u32 \<Rightarrow> u32 \<Rightarrow> sys_enter_ctx \<Rightarrow> u64 \<Rightarrow> path_only_emit_request \<Rightarrow> unit bpf" where
  "emit_path_only_enter_event_v2_direct_with_path k pid tid ctx ts_ns request =
     emit_enter_tlv k pid tid (ucast (sec_id ctx)) (sec_args ctx) ts_ns 0 (-1)
       (PAYLOAD_TLV_HEADER_SIZE + PATH_ONLY_DIRECT_PATH_MAX)
       (\<lambda>payload_offset. with_flags EVENT_FLAG_GENERIC_ENTER
          (capture_path_only_tlv_direct k payload_offset (por_path_arg request) (por_user_ptr request)))"

definition emit_path_only_enter_event_v2_direct ::
    "kernel \<Rightarrow> u32 \<Rightarrow> u32 \<Rightarrow> u32 \<Rightarrow> sys_enter_ctx \<Rightarrow> u64 \<Rightarrow> unit bpf" where
  "emit_path_only_enter_event_v2_direct k pid tid sys_id ctx ts_ns =
     (if is_path_only_arg1_direct_syscall sys_id
      then emit_path_only_enter_event_v2_direct_with_path k pid tid ctx ts_ns
        \<lparr>por_path_arg = 1, por_user_ptr = arg1 (sec_args ctx)\<rparr>
      else emit_path_only_enter_event_v2_direct_with_path k pid tid ctx ts_ns
        \<lparr>por_path_arg = 0, por_user_ptr = arg0 (sec_args ctx)\<rparr>)"

definition emit_path_only_exit_event_v2_direct :: "kernel \<Rightarrow> pending_syscall \<Rightarrow> s64 \<Rightarrow> u64 \<Rightarrow> unit bpf" where
  "emit_path_only_exit_event_v2_direct k p ret_value duration =
     (let path_arg = (if is_path_only_arg1_direct_syscall (ps_sys_id p) then 1 else 0)
      in emit_exit_tlv k p ret_value duration (PAYLOAD_TLV_HEADER_SIZE + PATH_ONLY_DIRECT_PATH_MAX)
           (\<lambda>payload_offset. with_flags 0
              (capture_path_only_tlv_direct k payload_offset (of_nat path_arg) (arg_at (ps_args p) path_arg))))"

text \<open>The two sections of a dual-path record, one behind the other.\<close>

definition capture_two_paths :: "kernel \<Rightarrow> nat \<Rightarrow> dual_path_emit_request \<Rightarrow> nat bpf" where
  "capture_two_paths k payload_offset request = do {
     payload_size \<leftarrow> capture_dual_path_tlv_direct k payload_offset (dpr_first_arg request) (dpr_first_ptr request);
     n \<leftarrow> capture_dual_path_tlv_direct k (payload_offset + payload_size) (dpr_second_arg request)
       (dpr_second_ptr request);
     return (payload_size + n) }"

definition emit_dual_path_exit_event_v2_direct :: "kernel \<Rightarrow> pending_syscall \<Rightarrow> s64 \<Rightarrow> u64 \<Rightarrow> unit bpf" where
  "emit_dual_path_exit_event_v2_direct k p ret_value duration =
     (let a = ps_args p;
          request =
            (if is_dual_path_0_2_direct_syscall (ps_sys_id p)
             then \<lparr>dpr_first_arg = 0, dpr_second_arg = 2, dpr_first_ptr = arg0 a, dpr_second_ptr = arg2 a\<rparr>
             else if is_dual_path_1_3_direct_syscall (ps_sys_id p)
             then \<lparr>dpr_first_arg = 1, dpr_second_arg = 3, dpr_first_ptr = arg1 a, dpr_second_ptr = arg3 a\<rparr>
             else \<lparr>dpr_first_arg = 0, dpr_second_arg = 1, dpr_first_ptr = arg0 a, dpr_second_ptr = arg1 a\<rparr>)
      in emit_exit_tlv k p ret_value duration (2 * (PAYLOAD_TLV_HEADER_SIZE + DUAL_PATH_DIRECT_PATH_MAX))
           (\<lambda>payload_offset. with_flags 0 (capture_two_paths k payload_offset request)))"

definition emit_dual_path_enter_event_v2_direct_with_paths ::
    "kernel \<Rightarrow> u32 \<Rightarrow> u32 \<Rightarrow> sys_enter_ctx \<Rightarrow> u64 \<Rightarrow> dual_path_emit_request \<Rightarrow> unit bpf" where
  "emit_dual_path_enter_event_v2_direct_with_paths k pid tid ctx ts_ns request =
     emit_enter_tlv k pid tid (ucast (sec_id ctx)) (sec_args ctx) ts_ns 0 (-1)
       (2 * (PAYLOAD_TLV_HEADER_SIZE + DUAL_PATH_DIRECT_PATH_MAX))
       (\<lambda>payload_offset. with_flags EVENT_FLAG_GENERIC_ENTER (capture_two_paths k payload_offset request))"

definition emit_dual_path_enter_event_v2_direct ::
    "kernel \<Rightarrow> u32 \<Rightarrow> u32 \<Rightarrow> u32 \<Rightarrow> sys_enter_ctx \<Rightarrow> u64 \<Rightarrow> unit bpf" where
  "emit_dual_path_enter_event_v2_direct k pid tid sys_id ctx ts_ns =
     (let a = sec_args ctx in
      if is_dual_path_0_2_direct_syscall sys_id
      then emit_dual_path_enter_event_v2_direct_with_paths k pid tid ctx ts_ns
        \<lparr>dpr_first_arg = 0, dpr_second_arg = 2, dpr_first_ptr = arg0 a, dpr_second_ptr = arg2 a\<rparr>
      else if is_dual_path_1_3_direct_syscall sys_id
      then emit_dual_path_enter_event_v2_direct_with_paths k pid tid ctx ts_ns
        \<lparr>dpr_first_arg = 1, dpr_second_arg = 3, dpr_first_ptr = arg1 a, dpr_second_ptr = arg3 a\<rparr>
      else emit_dual_path_enter_event_v2_direct_with_paths k pid tid ctx ts_ns
        \<lparr>dpr_first_arg = 0, dpr_second_arg = 1, dpr_first_ptr = arg0 a, dpr_second_ptr = arg1 a\<rparr>)"

definition emit_path_stat_enter_event_v2_direct_with_path ::
    "kernel \<Rightarrow> u32 \<Rightarrow> u32 \<Rightarrow> u32 \<Rightarrow> sys_enter_ctx \<Rightarrow> u64 \<Rightarrow> u16 \<Rightarrow> u64 \<Rightarrow> unit bpf" where
  "emit_path_stat_enter_event_v2_direct_with_path k pid tid sys_id ctx ts_ns path_arg user_ptr =
     emit_enter_tlv k pid tid sys_id (sec_args ctx) ts_ns 0 (-1)
       (PAYLOAD_TLV_HEADER_SIZE + PATH_STAT_DIRECT_PATH_MAX)
       (\<lambda>payload_offset. with_flags EVENT_FLAG_GENERIC_ENTER
          (capture_path_stat_path_tlv_direct k payload_offset path_arg user_ptr))"

definition emit_path_stat_enter_event_v2_direct ::
    "kernel \<Rightarrow> u32 \<Rightarrow> u32 \<Rightarrow> u32 \<Rightarrow> sys_enter_ctx \<Rightarrow> u64 \<Rightarrow> unit bpf" where
  "emit_path_stat_enter_event_v2_direct k pid tid sys_id ctx ts_ns =
     (if sys_id = SYS_NEWFSTATAT \<or> sys_id = SYS_STATX
      then emit_path_stat_enter_event_v2_direct_with_path k pid tid sys_id ctx ts_ns 1 (arg1 (sec_args ctx))
      else emit_path_stat_enter_event_v2_direct_with_path k pid tid sys_id ctx ts_ns 0 (arg0 (sec_args ctx)))"

definition emit_openat2_enter_event_v2_direct ::
    "kernel \<Rightarrow> u32 \<Rightarrow> u32 \<Rightarrow> u32 \<Rightarrow> sys_enter_ctx \<Rightarrow> u32 option \<Rightarrow> u64 \<Rightarrow> unit bpf" where
  "emit_openat2_enter_event_v2_direct k pid tid sys_id ctx cfg ts_ns =
     (let a = sec_args ctx;
          fd_path_capacity = (case cfg of None \<Rightarrow> 0
            | Some c \<Rightarrow> if has_flag c CONFIG_FD_STATE then FD_PATH_DIRECT_SECTION_MAX else 0)
      in emit_enter_tlv k pid tid sys_id a ts_ns 0 (-1) (fd_path_capacity + OPENAT2_DIRECT_PAYLOAD_CAPACITY)
           (\<lambda>payload_offset. do {
              n0 \<leftarrow> (if fd_path_capacity > 0 then capture_fd_path_tlv_direct k payload_offset 0 (ucast (arg0 a))
                     else return 0);
              n1 \<leftarrow> capture_openat2_path_tlv_direct k (payload_offset + n0) (arg1 a);
              (n2, flags) \<leftarrow> capture_openat2_how_tlv_direct k (payload_offset + (n0 + n1)) (arg2 a) (arg3 a)
                EVENT_FLAG_GENERIC_ENTER;
              return (n0 + n1 + n2, flags) }))"

definition emit_openat2_exit_event_v2_direct :: "kernel \<Rightarrow> pending_syscall \<Rightarrow> s64 \<Rightarrow> u64 \<Rightarrow> unit bpf" where
  "emit_openat2_exit_event_v2_direct k p ret_value duration =
     (let a = ps_args p in
      emit_exit_tlv k p ret_value duration OPENAT2_DIRECT_EXIT_PAYLOAD_CAPACITY
        (\<lambda>payload_offset. do {
           n1 \<leftarrow> capture_openat2_path_tlv_direct k payload_offset (arg1 a);
           (n2, flags) \<leftarrow> capture_openat2_how_tlv_direct k (payload_offset + n1) (arg2 a) (arg3 a) 0;
           n3 \<leftarrow> (if 0 \<le> sint ret_value
                  then capture_fd_state_tlv_direct k (payload_offset + (n1 + n2)) (ucast ret_value)
                  else return 0);
           return (n1 + n2 + n3, flags) }))"

section \<open>Reporting and accounting\<close>

lemma copies_long_path: "copies k off 4096 (copy_long_path k off up)"
  unfolding copy_long_path_def
  by (rule copies_bind [OF silent_helpers(7) reports_helpers(7) above_helpers(6) gives_str_len]
      copies_step copies_case_prod copies_if copies_return
      silent_rules silent_intros reports_rules reports_intros above_rules above_intros above_store | (simp; fail) | arith)+

lemma captures_path_only [captures_intros]:
  "captures k off 4128 (\<lambda>n. n) (capture_path_only_tlv_direct k off arg up)"
  unfolding capture_path_only_tlv_direct_def
  by (rule captures_copy [where m = 4096])
     (auto intro!: copies_if copies_return copies_long_path captures_header_nat simp: payloadKindFromTLV_def)

lemma captures_string_4096: "captures k off 4128 (\<lambda>n. n) (string_section k 4096 off arg up)"
  using captures_string_section [of 4096] by simp

lemma captures_two_paths: "captures k off 1088 (\<lambda>n. n) (capture_two_paths k off request)"
  unfolding capture_two_paths_def capture_dual_path_tlv_direct_def
  by (rule captures_then [OF captures_string_512], simp, rule extends_capture [OF captures_string_512])
     (simp_all add: extends_return)

lemma captures_how:
  "captures k off 96 fst (capture_openat2_how_tlv_direct k off up len fl)"
proof -
  have w: "unat (payload_tlv_copy_len len 64) \<le> 64" using copy_len_le [of len 64] by simp
  show ?thesis
    unfolding capture_openat2_how_tlv_direct_def Let_def
  proof (rule captures_if, simp add: captures_return, rule captures_copy [where m = 64])
    show "copies k (off + 32) 64 (do {
          payload_data \<leftarrow> bpf_dynptr_data (off + 32) 64;
          if \<not> payload_data then do { record_ringbuf_copy_fail k; return (0, -1) }
          else do {
            (err, bs) \<leftarrow> bpf_probe_read_user k 24 up;
            mem_store (off + 32) bs;
            if err < 0 then return (0, of_int err)
            else if unat (payload_tlv_copy_len len (of_nat 64)) > 24 then do {
              (extra_err, extra) \<leftarrow> bpf_probe_read_user k (unat (payload_tlv_copy_len len (of_nat 64)) - 24)
                (up + of_nat 24);
              mem_store (off + 32 + 24) extra;
              return (if extra_err = 0 then unat (payload_tlv_copy_len len (of_nat 64)) else 24, 0) }
            else return (24, 0) } })"
      by (rule copies_step copies_case_prod copies_if copies_return
          silent_rules silent_intros reports_rules reports_intros above_rules above_intros above_store
          | use w in \<open>simp; fail\<close>)+
  qed (auto intro!: captures_pre_any captures_header_nat silent_rules silent_intros reports_rules reports_intros
        above_rules above_intros simp: payloadKindFromTLV_def)
qed

lemma gives_how:
  "\<not> has_flag fl EVENT_FLAG_COMPACT_ENTER \<Longrightarrow> gives (capture_openat2_how_tlv_direct k off up len fl)
     (\<lambda>(n, f). \<not> has_flag f EVENT_FLAG_COMPACT_ENTER)"
  unfolding capture_openat2_how_tlv_direct_def Let_def
  by (auto intro!: gives_if gives_return gives_bind_any gives_case_prod split: if_splits)

lemma path_emitters [emitter_intros]:
  "emitter k (emit_path_only_enter_event_v2_direct k pid tid sys_id ctx ts)"
  "emitter k (emit_path_only_exit_event_v2_direct k p ret dur)"
  "emitter k (emit_dual_path_enter_event_v2_direct k pid tid sys_id ctx ts)"
  "emitter k (emit_dual_path_exit_event_v2_direct k p ret dur)"
  "emitter k (emit_path_stat_enter_event_v2_direct k pid tid sys_id ctx ts)"
  unfolding emit_path_only_enter_event_v2_direct_def emit_path_only_enter_event_v2_direct_with_path_def
    emit_path_only_exit_event_v2_direct_def emit_dual_path_enter_event_v2_direct_def
    emit_dual_path_enter_event_v2_direct_with_paths_def emit_dual_path_exit_event_v2_direct_def
    emit_path_stat_enter_event_v2_direct_def emit_path_stat_enter_event_v2_direct_with_path_def
    capture_path_stat_path_tlv_direct_def Let_def
  by (simp add: has_flag_def captures_path_only captures_two_paths captures_string_512
      emitter_enter_sections emitter_exit_sections)+

lemma openat2_enter_emitter [emitter_intros]:
  "emitter k (emit_openat2_enter_event_v2_direct k pid tid sys_id ctx cfg ts)"
  unfolding emit_openat2_enter_event_v2_direct_def Let_def capture_openat2_path_tlv_direct_def
proof (rule emitter_enter_tlv, goal_cases)
  case 1
  let ?c = "case cfg of None \<Rightarrow> (0 :: nat) | Some c \<Rightarrow> if has_flag c CONFIG_FD_STATE then 592 else 0"
  have f: "captures k 152 ?c (\<lambda>n. n) (if ?c > 0
      then capture_fd_path_tlv_direct k 152 0 (ucast (arg0 (sec_args ctx))) else return 0)"
    by (cases cfg) (simp_all add: captures_fd_path captures_return)
  show ?case
    by (rule captures_then [OF f], simp, rule extends_capture [OF captures_string_4096], simp,
        rule extends_capture_flags [OF captures_how]) (auto intro!: extends_return)
next
  case 3
  show ?case
    by (rule gives_bind_any, rule gives_bind_any, rule gives_bind [OF gives_how])
       (auto simp: has_flag_def intro: gives_return)
qed (auto split: option.split)


lemma openat2_exit_emitter [emitter_intros]: "emitter k (emit_openat2_exit_event_v2_direct k p ret dur)"
  unfolding emit_openat2_exit_event_v2_direct_def Let_def capture_openat2_path_tlv_direct_def
proof (rule emitter_exit_tlv, goal_cases)
  case 1
  have fd: "captures k off 80 (\<lambda>n. n) (if 0 \<le> sint ret then capture_fd_state_tlv_direct k off (ucast ret)
      else return 0)" for off
    by (auto intro!: captures_fd_state captures_return)
  show ?case
    by (rule captures_then [OF captures_string_4096], simp, rule extends_capture_flags [OF captures_how], simp,
        rule extends_capture [OF fd]) (simp_all add: extends_return)
qed simp

section \<open>The chunked copy of a path\<close>

text \<open>
  What one copy of the path would store: the bytes up to and including the first terminator, all of
  them when there is none.
\<close>

definition path_prefix :: "bytes \<Rightarrow> bytes" where
  "path_prefix bs = take (Suc (length (takeWhile (\<lambda>b. b \<noteq> 0) bs))) bs"

lemma probe_bytes_append: "probe_bytes M p (a + b) = probe_bytes M p a @ probe_bytes M (p + of_nat a) b"
proof -
  have "map (\<lambda>i. M (p + of_nat i)) [a..<a + b] = map (\<lambda>i. M (p + of_nat a + of_nat i)) [0..<b]"
    by (rule nth_equalityI) (simp_all add: add.assoc)
  then show ?thesis unfolding probe_bytes_def using upt_add_eq_append [of 0 a b] by simp
qed

lemma path_prefix_terminated:
  assumes "length (takeWhile (\<lambda>b. b \<noteq> 0) xs) < length xs"
  shows "path_prefix (xs @ ys) = takeWhile (\<lambda>b. b \<noteq> 0) xs @ [0]"
proof -
  let ?n = "length (takeWhile (\<lambda>b. b \<noteq> 0) xs)"
  have z: "xs ! ?n = 0" using nth_length_takeWhile [OF assms] by simp
  have "xs ! ?n \<in> set xs" using assms by simp
  then have "takeWhile (\<lambda>b. b \<noteq> 0) (xs @ ys) = takeWhile (\<lambda>b. b \<noteq> 0) xs"
    using z by (intro takeWhile_append1) simp_all
  moreover have "take (Suc ?n) xs = takeWhile (\<lambda>b. b \<noteq> 0) xs @ [0]"
    using assms z by (simp add: take_Suc_conv_app_nth takeWhile_eq_take [symmetric])
  ultimately show ?thesis using assms by (simp add: path_prefix_def)
qed

lemma path_prefix_full:
  assumes "length (takeWhile (\<lambda>b. b \<noteq> 0) xs) = length xs"
  shows "path_prefix (xs @ ys) = xs @ path_prefix ys"
proof -
  have "takeWhile (\<lambda>b. b \<noteq> 0) xs = xs" using assms by (metis takeWhile_eq_take take_all_iff order_refl)
  then have "\<forall>x\<in>set xs. x \<noteq> 0" by (simp add: takeWhile_eq_all_conv)
  then have "takeWhile (\<lambda>b. b \<noteq> 0) (xs @ ys) = xs @ takeWhile (\<lambda>b. b \<noteq> 0) ys" by simp
  then show ?thesis by (simp add: path_prefix_def)
qed

lemma path_prefix_single [simp]: "path_prefix [b] = [b]"
  by (simp add: path_prefix_def)

lemma take_drop_poke:
  "off + length ys \<le> length d \<Longrightarrow> take (length ys) (drop off (poke d off ys)) = ys"
  by (simp add: poke_def)

lemma poke_overlap:
  assumes "off + length xs + length ys \<le> length d"
  shows "take (length xs + length ys) (drop off (poke (poke d off (xs @ [z])) (off + length xs) ys)) = xs @ ys"
  using assms by (simp add: poke_def)

lemma poke_twice_overlap:
  assumes "off + length xs + length ys + 1 \<le> length d"
  shows "take (length xs + length ys + 1) (drop off (poke (poke (poke d off (xs @ [a])) (off + length xs) (ys @ [b]))
     (off + length xs + length ys) [c])) = xs @ ys @ [c]"
  using assms by (simp add: poke_def)

text \<open>With stable and readable user memory the two chunks and the last byte are that one copy.\<close>

lemma copy_long_path_content:
  assumes mem: "\<And>t. k_user_mem k t = M" "\<And>t p n. 0 \<le> k_user_fault k t p n"
    and d: "reservation u = Some d" "off + 4096 \<le> length d"
  shows "wp (copy_long_path k off up) (\<lambda>x t. x = (length (path_prefix (probe_bytes M up 4096)), 0) \<and>
     events t = events u \<and> (\<exists>d'. reservation t = Some d' \<and> length d' = length d \<and>
       take (length (path_prefix (probe_bytes M up 4096))) (drop off d') = path_prefix (probe_bytes M up 4096))) u"
proof -
  let ?X = "probe_bytes M up 2047" and ?Z = "probe_bytes M (2047 + up) 2048" and ?z = "M (4095 + up)"
  let ?tw = "takeWhile (\<lambda>b :: u8. b \<noteq> 0)"
  have split: "probe_bytes M up 4096 = ?X @ ?Z @ [?z]"
    using probe_bytes_append [of M up 2047 2049] probe_bytes_append [of M "2047 + up" 2048 1]
    by (simp add: probe_bytes_def [of _ _ "Suc 0"] add.commute)
  have f: "\<not> k_user_fault k t p n < 0" for t p n using mem(2) [of t p n] by simp
  have s1: "str_bytes M up 2048 = ?tw ?X @ [0]" and s2: "str_bytes M (2047 + up) 2049 = ?tw ?Z @ [0]"
    by (simp_all add: str_bytes_def)
  have z1: "probe_bytes M (4095 + up) (Suc 0) = [?z]" by (simp add: probe_bytes_def)
  have n1: "nat (1 + int m) = Suc m" for m by simp
  have lX: "length (?tw ?X) \<le> 2047" and lZ: "length (?tw ?Z) \<le> 2048"
    using length_takeWhile_le [of _ ?X] length_takeWhile_le [of _ ?Z] by simp_all
  consider (first) "length (?tw ?X) < 2047" | (second) "length (?tw ?X) = 2047" "length (?tw ?Z) < 2048"
    | (both) "length (?tw ?X) = 2047" "length (?tw ?Z) = 2048" using lX lZ by linarith
  then show ?thesis
  proof cases
    case first
    then have p: "path_prefix (probe_bytes M up 4096) = ?tw ?X @ [0]"
      unfolding split by (intro path_prefix_terminated) simp
    show ?thesis
      using d first take_drop_poke [of off "?tw ?X @ [0]" d]
      by (simp add: copy_long_path_def wp_simps f mem(1) s1 p)
  next
    case second
    then have p: "path_prefix (probe_bytes M up 4096) = ?X @ ?tw ?Z @ [0]"
      unfolding split by (simp add: path_prefix_full path_prefix_terminated)
    have tX: "?tw ?X = ?X" using second(1) by (metis takeWhile_eq_take take_all_iff length_probe_bytes order_refl)
    have "take (2048 + length (?tw ?Z)) (drop off (poke (poke d off (?X @ [0])) (2047 + off) (?tw ?Z @ [0]))) =
        ?X @ ?tw ?Z @ [0]"
      using d second poke_overlap [of off ?X "?tw ?Z @ [0]" d 0] by (simp add: add.commute)
    then show ?thesis
      using d second by (simp add: copy_long_path_def wp_simps f mem(1) s1 s2 p tX n1)
  next
    case both
    then have p: "path_prefix (probe_bytes M up 4096) = ?X @ ?Z @ [?z]"
      unfolding split by (simp add: path_prefix_full)
    have tX: "?tw ?X = ?X" using both(1) by (metis takeWhile_eq_take take_all_iff length_probe_bytes order_refl)
    have tZ: "?tw ?Z = ?Z" using both(2) by (metis takeWhile_eq_take take_all_iff length_probe_bytes order_refl)
    have "take 4096 (drop off (poke (poke (poke d off (?X @ [0])) (2047 + off) (?Z @ [0])) (4095 + off) [?z])) =
        ?X @ ?Z @ [?z]"
      using d poke_twice_overlap [of off ?X ?Z d 0 0 ?z] by (simp add: add.commute)
    then show ?thesis
      using d both
      by (cases "?z = 0") (simp_all add: copy_long_path_def wp_simps f mem(1) s1 s2 p tX tZ z1 n1
          record_payload_truncated_event_def split: option.split)
  qed
qed


lemma length_path_prefix: "length (path_prefix bs) \<le> length bs"
  by (simp add: path_prefix_def)

lemma path_capture_content:
  assumes mem: "\<And>t. k_user_mem k t = M" "\<And>t p n. 0 \<le> k_user_fault k t p n"
    and d: "reservation u = Some d" "length d = 152 + 4128" and up: "up \<noteq> 0"
    and n: "n = length (path_prefix (probe_bytes M up 4096))"
  shows "wp (with_flags fl (capture_path_only_tlv_direct k 152 arg up))
     (captured 4128 152 (32 + n) fl
        (enc_tlv_header \<lparr>tlv_kind = PAYLOAD_TLV_KIND_STRING, tlv_arg_index = arg, tlv_flags = 0, tlv_reserved = 0,
           tlv_user_len = of_nat n, tlv_copied_len = of_nat n, tlv_probe_ret = 0, tlv_reserved2 = 0,
           tlv_user_ptr = up\<rparr> @ path_prefix (probe_bytes M up 4096)) u) u"
proof -
  let ?P = "path_prefix (probe_bytes M up 4096)"
  have le: "n \<le> 4096" using length_path_prefix [of "probe_bytes M up 4096"] n by simp
  show ?thesis
    unfolding with_flags_def capture_path_only_tlv_direct_def wp_bind
  proof (simp only: up if_False, rule wp_mono [OF copy_long_path_content [OF mem d(1)]], goal_cases)
    case 1 show ?case using d by simp
  next
    case (2 x t)
    then obtain d' where t: "x = (n, 0)" "events t = events u" "reservation t = Some d'" "length d' = 152 + 4128"
      "take n (drop (152 + 32) d') = ?P" using d n by auto
    have "take n (drop 32 (drop 152 d')) = ?P" using t(5) by simp
    then show ?case
      using t le by (simp add: wp_simps payload_tlv_write_header_direct_def captured_def poke_def n)
  qed
qed

text \<open>
  C14: The path of a single-path syscall reaches the consumer.  With room in the ring buffer and stable,
  readable user memory, the record carries one string section with exactly the bytes one copy of the
  path would have: up to and including the terminator, and the first \<^verbatim>\<open>PATH_MAX\<close> bytes when there is
  none there.  The two overlapping chunks and the repaired last byte are invisible, and the record is not
  marked truncated even when the terminator is missing.
\<close>

theorem path_only_roundtrip:
  assumes mem: "\<And>t. k_user_mem k t = M" "\<And>t p n. 0 \<le> k_user_fault k t p n" "k_reserve k (tick s) 4280"
    and arg: "up = (if is_path_only_arg1_direct_syscall sys_id then arg1 (sec_args ctx) else arg0 (sec_args ctx))" "up \<noteq> 0"
  shows "\<exists>r env sec. events (exec (emit_path_only_enter_event_v2_direct k pid tid sys_id ctx ts) s) = events s @ [r] \<and>
     decodeTraceEventV2Envelope r = Some env \<and> env_payload env = [sec] \<and> sec_kind sec = PayloadKindString \<and>
     sec_arg_index sec = (if is_path_only_arg1_direct_syscall sys_id then 1 else 0) \<and> sec_user_ptr sec = up \<and>
     sec_data sec = path_prefix (probe_bytes M up 4096) \<and> \<not> has_flag (env_event_flags env) EVENT_FLAG_TRUNCATED"
proof -
  define n where "n = length (path_prefix (probe_bytes M up 4096))"
  define arg where "arg = (if is_path_only_arg1_direct_syscall sys_id then 1 else 0 :: u16)"
  let ?t = "\<lparr>tlv_kind = PAYLOAD_TLV_KIND_STRING, tlv_arg_index = arg, tlv_flags = 0, tlv_reserved = 0,
           tlv_user_len = of_nat n, tlv_copied_len = of_nat n, tlv_probe_ret = 0, tlv_reserved2 = 0,
           tlv_user_ptr = up\<rparr>"
  let ?P = "path_prefix (probe_bytes M up 4096)"
  have le: "n \<le> 4096" using length_path_prefix [of "probe_bytes M up 4096"] n_def by simp
  have e: "emit_path_only_enter_event_v2_direct k pid tid sys_id ctx ts =
     emit_enter_tlv k pid tid (ucast (sec_id ctx)) (sec_args ctx) ts 0 (-1) 4128
       (\<lambda>off. with_flags EVENT_FLAG_GENERIC_ENTER (capture_path_only_tlv_direct k off arg up))"
    using arg by (simp add: emit_path_only_enter_event_v2_direct_def
        emit_path_only_enter_event_v2_direct_with_path_def arg_def)
  obtain r h where r: "events (exec (emit_path_only_enter_event_v2_direct k pid tid sys_id ctx ts) s) = events s @ [r]"
    "hdr_flags h = payload_flags (32 + n) EVENT_FLAG_GENERIC_ENTER"
    "decodeTraceEventV2Envelope r = Some (enter_view h (init_syscall_enter_event_v2_from_args (sec_args ctx)
        (of_nat (32 + n)) 0 (-1) (-1)) (enc_tlv_header ?t @ ?P))"
    using enter_tlv_content [where k = k and s = s and cap = 4128 and n = "32 + n" and fl = EVENT_FLAG_GENERIC_ENTER
        and capture = "\<lambda>off. with_flags EVENT_FLAG_GENERIC_ENTER (capture_path_only_tlv_direct k off arg up)"
        and payload = "enc_tlv_header ?t @ ?P" and pid = pid and tid = tid and sys_id = "ucast (sec_id ctx)"
        and args = "sec_args ctx" and ts = ts and ret = 0 and pre = "-1"]
      path_capture_content [OF mem(1,2) _ _ arg(2) n_def] mem(3) le
    by (auto simp: e header_spec_def has_flag_def)
  have "decodePayloadTLVSections (enc_tlv_header ?t @ ?P) = Some [tlv_section ?t ?P PayloadKindString]"
    using decode_tlv_cons [of ?t PayloadKindString ?P "[]"] le
    by (simp add: payloadKindFromTLV_def unat_of_nat take_bit_nat_eq_self n_def)
  with r show ?thesis
    by (auto simp: enter_view_def payloadSectionsForRawPayloadEvent_def tlv_section_def payload_flags_def
        has_flag_def arg_def)
qed

theorem path_only_roundtrip_witness:
  "\<exists>r env sec. events (exec (emit_path_only_enter_event_v2_direct (sample_kernel 1 2) 1 2 SYS_CHDIR
       \<lparr>sec_id = ucast SYS_CHDIR, sec_args = Args 0xfe 0 0 0 0 0\<rparr> 7) (boot_machine 4)) = [] @ [r] \<and>
     decodeTraceEventV2Envelope r = Some env \<and> env_payload env = [sec] \<and>
     sec_data sec = [0xfe, 0xff, 0]"
proof -
  have z: "(256 :: u8) = 0" by (simp add: word_eq_iff_unsigned)
  have "path_prefix (probe_bytes (\<lambda>a. ucast a) 0xfe 4096) = [0xfe, 0xff, 0]"
    using probe_bytes_append [of "\<lambda>a. ucast a" "0xfe" 3 4093] path_prefix_terminated [of "[0xfe, 0xff, 0]"]
    by (simp add: probe_bytes_def [of _ _ 3] upt_conv_Cons z)
  then show ?thesis
  using path_only_roundtrip [of "sample_kernel 1 2" "\<lambda>a. ucast a" "boot_machine 4" "0xfe" SYS_CHDIR
      "\<lparr>sec_id = ucast SYS_CHDIR, sec_args = Args 0xfe 0 0 0 0 0\<rparr>" 1 2 7]
  by (fastforce simp: is_path_only_arg1_direct_syscall_def)
qed

end
