(* ===== verification/Tlv_Capture.thy ===== *)
theory Tlv_Capture
  imports Path
begin

text \<open>
  The shapes that the captures of the structure, string and buffer families share.  A family copies
  something behind the place of the section header, remembers how much it copied and the probe result,
  and writes the header last; an emitter puts its sections one behind the other.
\<close>

section \<open>Copies\<close>

text \<open>
  \<^verbatim>\<open>payload_data = bpf_dynptr_data(ptr, data_offset, window)\<close> and a read of \<open>read_len\<close> bytes into it,
  which counts as \<open>n\<close> copied bytes: \<^verbatim>\<open>copied_len\<close> and \<^verbatim>\<open>probe_ret\<close>.
\<close>

definition copy_user :: "kernel \<Rightarrow> nat \<Rightarrow> nat \<Rightarrow> nat \<Rightarrow> u64 \<Rightarrow> nat \<Rightarrow> (nat \<times> s32) bpf" where
  "copy_user k window read_len n user_ptr data_offset = do {
     payload_data \<leftarrow> bpf_dynptr_data data_offset window;
     if \<not> payload_data then do { record_ringbuf_copy_fail k; return (0, -1) }
     else do {
       (err, bs) \<leftarrow> bpf_probe_read_user k read_len user_ptr;
       mem_store data_offset bs;
       if err < 0 then return (0, of_int err) else return (n, 0) } }"

text \<open>The same with a null pointer reported as a failed probe.\<close>

definition copy_user_checked :: "kernel \<Rightarrow> nat \<Rightarrow> nat \<Rightarrow> u64 \<Rightarrow> nat \<Rightarrow> (nat \<times> s32) bpf" where
  "copy_user_checked k window n user_ptr data_offset =
     (if user_ptr = 0 then return (0, -1) else copy_user k window n n user_ptr data_offset)"

lemma copies_user [copies_intros]: "n \<le> m \<Longrightarrow> copies k off m (copy_user k window r n up off)"
  unfolding copy_user_def
  by (rule copies_step copies_case_prod copies_if copies_return silent_intros reports_intros above_intros
      above_store | simp)+

lemma copies_user_checked [copies_intros]: "n \<le> m \<Longrightarrow> copies k off m (copy_user_checked k window n up off)"
  unfolding copy_user_checked_def by (intro copies_if copies_return copies_user) simp_all

section \<open>Sections\<close>

text \<open>A section whose recorded length does not depend on the copy.\<close>

definition copied_section ::
    "kernel \<Rightarrow> nat \<Rightarrow> u16 \<Rightarrow> u16 \<Rightarrow> u16 \<Rightarrow> u32 \<Rightarrow> u64 \<Rightarrow> (nat \<Rightarrow> (nat \<times> s32) bpf) \<Rightarrow> nat bpf" where
  "copied_section k payload_offset kind arg_index dir_flags user_len user_ptr copy = do {
     (copied_len, probe_ret) \<leftarrow> copy (payload_offset + PAYLOAD_TLV_HEADER_SIZE);
     ok \<leftarrow> payload_tlv_write_header_direct k payload_offset kind arg_index dir_flags user_len
       (of_nat copied_len) probe_ret user_ptr;
     return (if ok then PAYLOAD_TLV_HEADER_SIZE + copied_len else 0) }"

text \<open>The structure of \<open>n\<close> bytes at \<open>user_ptr\<close>; nothing for a null pointer.\<close>

definition struct_section :: "kernel \<Rightarrow> nat \<Rightarrow> u16 \<Rightarrow> u16 \<Rightarrow> u64 \<Rightarrow> nat \<Rightarrow> nat \<Rightarrow> nat \<Rightarrow> nat bpf" where
  "struct_section k payload_offset arg_index dir_flags user_ptr window read_len n =
     (if user_ptr = 0 then return 0
      else copied_section k payload_offset PAYLOAD_TLV_KIND_STRUCT arg_index dir_flags (of_nat n) user_ptr
        (copy_user k window read_len n user_ptr))"

text \<open>The string at \<open>user_ptr\<close>, with a window that need not be the bound of the read.\<close>

definition copy_string :: "kernel \<Rightarrow> nat \<Rightarrow> nat \<Rightarrow> u64 \<Rightarrow> nat \<Rightarrow> (nat \<times> s32) bpf" where
  "copy_string k window max_len user_ptr data_offset = do {
     payload_data \<leftarrow> bpf_dynptr_data data_offset window;
     if \<not> payload_data then do { record_ringbuf_copy_fail k; return (0, -1) }
     else do {
       (n, bs) \<leftarrow> bpf_probe_read_user_str k max_len user_ptr;
       mem_store data_offset bs;
       if n < 0 then return (0, of_int n)
       else if n > int max_len then return (max_len, 0)
       else return (nat n, 0) } }"

text \<open>A section whose recorded length is what was copied.\<close>

definition sized_section ::
    "kernel \<Rightarrow> nat \<Rightarrow> u16 \<Rightarrow> u16 \<Rightarrow> u16 \<Rightarrow> u64 \<Rightarrow> (nat \<Rightarrow> (nat \<times> s32) bpf) \<Rightarrow> nat bpf" where
  "sized_section k payload_offset kind arg_index dir_flags user_ptr copy = do {
     (copied_len, probe_ret) \<leftarrow> copy (payload_offset + PAYLOAD_TLV_HEADER_SIZE);
     ok \<leftarrow> payload_tlv_write_header_direct k payload_offset kind arg_index dir_flags (of_nat copied_len)
       (of_nat copied_len) probe_ret user_ptr;
     return (if ok then PAYLOAD_TLV_HEADER_SIZE + copied_len else 0) }"

text \<open>
  A section that may hold less than the call transferred.  The second component of the result is the event
  flags, with the truncation mark set when \<open>truncated copied_len probe_ret\<close> holds.
\<close>

definition flagged_section ::
    "kernel \<Rightarrow> nat \<Rightarrow> u16 \<Rightarrow> u16 \<Rightarrow> u16 \<Rightarrow> u16 \<Rightarrow> u32 \<Rightarrow> u64 \<Rightarrow> (nat \<Rightarrow> s32 \<Rightarrow> bool) \<Rightarrow>
       (nat \<Rightarrow> (nat \<times> s32) bpf) \<Rightarrow> (nat \<times> u16) bpf" where
  "flagged_section k payload_offset kind arg_index dir_flags event_flags user_len user_ptr truncated copy = do {
     (copied_len, probe_ret) \<leftarrow> copy (payload_offset + PAYLOAD_TLV_HEADER_SIZE);
     only_if (truncated copied_len probe_ret) (record_payload_truncated_event k);
     ok \<leftarrow> payload_tlv_write_header_direct k payload_offset kind arg_index dir_flags user_len
       (of_nat copied_len) probe_ret user_ptr;
     return (if ok then PAYLOAD_TLV_HEADER_SIZE + copied_len else 0,
             if truncated copied_len probe_ret then event_flags OR EVENT_FLAG_TRUNCATED else event_flags) }"

text \<open>The usual condition: the probe succeeded, something was copied and something is missing.\<close>

definition truncating_section ::
    "kernel \<Rightarrow> nat \<Rightarrow> u16 \<Rightarrow> u16 \<Rightarrow> u16 \<Rightarrow> u16 \<Rightarrow> u32 \<Rightarrow> u64 \<Rightarrow> (nat \<Rightarrow> (nat \<times> s32) bpf) \<Rightarrow> (nat \<times> u16) bpf" where
  "truncating_section k payload_offset kind arg_index dir_flags event_flags user_len user_ptr copy =
     flagged_section k payload_offset kind arg_index dir_flags event_flags user_len user_ptr
       (\<lambda>copied_len probe_ret. probe_ret = 0 \<and> copied_len > 0 \<and> of_nat copied_len < user_len) copy"

text \<open>Sections one behind the other: \<^verbatim>\<open>payload_size += capture(ptr, payload_offset + payload_size, ..)\<close>.\<close>

primrec sections :: "nat \<Rightarrow> (nat \<Rightarrow> nat bpf) list \<Rightarrow> nat bpf" where
  "sections payload_offset [] = return 0"
| "sections payload_offset (c # cs) = do {
     n \<leftarrow> c payload_offset;
     m \<leftarrow> sections (payload_offset + n) cs;
     return (n + m) }"

lemma captures_copied_section:
  assumes "copies k (off + 32) m (copy (off + 32))" "payloadKindFromTLV kind \<noteq> None" "32 + m \<le> cap" "cap < 2 ^ 32"
  shows "captures k off cap (\<lambda>n. n) (copied_section k off kind arg fl ul up copy)"
  unfolding copied_section_def
  by (rule captures_copy [OF assms(1)], rule captures_header_nat) (use assms in auto)

lemma captures_struct_section:
  "32 + n \<le> cap \<Longrightarrow> cap < 2 ^ 32 \<Longrightarrow> captures k off cap (\<lambda>n. n) (struct_section k off arg fl up window r n)"
  unfolding struct_section_def
  by (auto intro!: captures_return captures_copied_section copies_user simp: payloadKindFromTLV_def)

lemma copies_copy_string [copies_intros]: "m \<le> n \<Longrightarrow> copies k off n (copy_string k window m up off)"
  unfolding copy_string_def
  by (rule copies_step copies_case_prod copies_if copies_return silent_intros reports_intros above_intros
      above_store | simp; linarith)+

lemma captures_sized_section:
  assumes "copies k (off + 32) m (copy (off + 32))" "payloadKindFromTLV kind \<noteq> None" "32 + m \<le> cap" "cap < 2 ^ 32"
  shows "captures k off cap (\<lambda>n. n) (sized_section k off kind arg fl up copy)"
  unfolding sized_section_def
  by (rule captures_copy [OF assms(1)], rule captures_header_nat) (use assms in auto)

lemma captures_flagged_section:
  assumes "copies k (off + 32) m (copy (off + 32))" "payloadKindFromTLV kind \<noteq> None" "32 + m \<le> cap" "cap < 2 ^ 32"
  shows "captures k off cap fst (flagged_section k off kind arg fl ef ul up trunc copy)"
  unfolding flagged_section_def
  by (rule captures_copy [OF assms(1)])
     (use assms in \<open>auto intro!: captures_pre_any captures_header_nat silent_rules silent_intros reports_rules
        reports_intros above_rules above_intros\<close>)

lemma captures_truncating_section:
  assumes "copies k (off + 32) m (copy (off + 32))" "payloadKindFromTLV kind \<noteq> None" "32 + m \<le> cap" "cap < 2 ^ 32"
  shows "captures k off cap fst (truncating_section k off kind arg fl ef ul up copy)"
  unfolding truncating_section_def by (rule captures_flagged_section, rule assms(1)) (use assms in auto)

lemma gives_flagged_section:
  "\<not> has_flag ef EVENT_FLAG_COMPACT_ENTER \<Longrightarrow>
     gives (flagged_section k off kind arg fl ef ul up trunc copy) (\<lambda>(n, f). \<not> has_flag f EVENT_FLAG_COMPACT_ENTER)"
  unfolding flagged_section_def
  by (auto intro!: gives_bind_any gives_case_prod gives_return split: if_splits)

text \<open>\<open>fits k cap cs\<close>: the sections parse and need at most \<open>cap\<close> bytes, wherever they start.\<close>

definition fits :: "kernel \<Rightarrow> nat \<Rightarrow> (nat \<Rightarrow> nat bpf) list \<Rightarrow> bool" where
  "fits k cap cs \<longleftrightarrow> (\<forall>off. captures k off cap (\<lambda>n. n) (sections off cs))"

lemma fits_nil: "fits k cap []"
  by (simp add: fits_def captures_return)

lemma fits_cons:
  assumes "\<And>off. captures k off a (\<lambda>n. n) (c off)" "a \<le> cap" "fits k (cap - a) cs"
  shows "fits k cap (c # cs)"
  unfolding fits_def
proof
  fix off
  have c: "captures k (off + n) (cap - a) (\<lambda>n. n) (sections (off + n) cs)" for n
    using assms(3) by (simp add: fits_def)
  show "captures k off cap (\<lambda>n. n) (sections off (c # cs))"
    by (simp, rule captures_then [OF assms(1,2)], rule extends_capture [OF c]) (simp_all add: extends_return)
qed

lemma fits_if: "(b \<Longrightarrow> fits k cap cs) \<Longrightarrow> (\<not> b \<Longrightarrow> fits k cap ds) \<Longrightarrow> fits k cap (if b then cs else ds)"
  by simp

lemma fits_one: "(\<And>off. captures k off cap (\<lambda>n. n) (c off)) \<Longrightarrow> fits k cap [c]"
  by (rule fits_cons [of k cap]) (auto intro: fits_nil)

lemmas fits_rules = fits_nil fits_one fits_if

section \<open>Captures that may set the truncation mark\<close>

text \<open>
  A capture that reads and updates the event flags.  \<open>flagged k cap c\<close>: it leaves a payload of at most
  \<open>cap\<close> bytes that parses and never turns the record into a compact one.
\<close>

type_synonym flag_capture = "nat \<Rightarrow> u16 \<Rightarrow> (nat \<times> u16) bpf"

definition unmarked :: "(nat \<Rightarrow> nat bpf) \<Rightarrow> flag_capture" where
  "unmarked c = (\<lambda>payload_offset event_flags. with_flags event_flags (c payload_offset))"

primrec flag_sections :: "flag_capture list \<Rightarrow> flag_capture" where
  "flag_sections [] = (\<lambda>payload_offset event_flags. return (0, event_flags))"
| "flag_sections (c # cs) = (\<lambda>payload_offset event_flags. do {
     (n, flags) \<leftarrow> c payload_offset event_flags;
     (m, flags) \<leftarrow> flag_sections cs (payload_offset + n) flags;
     return (n + m, flags) })"

definition flagged :: "kernel \<Rightarrow> nat \<Rightarrow> flag_capture \<Rightarrow> bool" where
  "flagged k cap c \<longleftrightarrow> (\<forall>off ef. captures k off cap fst (c off ef) \<and>
     (\<not> has_flag ef EVENT_FLAG_COMPACT_ENTER \<longrightarrow> gives (c off ef) (\<lambda>(n, f). \<not> has_flag f EVENT_FLAG_COMPACT_ENTER)))"

lemma flagged_none: "flagged k cap (\<lambda>off ef. return (0, ef))"
  by (simp add: flagged_def captures_return gives_return)

lemma flagged_if: "(b \<Longrightarrow> flagged k cap c) \<Longrightarrow> (\<not> b \<Longrightarrow> flagged k cap d) \<Longrightarrow> flagged k cap (if b then c else d)"
  by simp

lemma flagged_cond:
  "(b \<Longrightarrow> flagged k cap (\<lambda>off ef. c off ef)) \<Longrightarrow> (\<not> b \<Longrightarrow> flagged k cap (\<lambda>off ef. d off ef)) \<Longrightarrow>
     flagged k cap (\<lambda>off ef. if b then c off ef else d off ef)"
  by (cases b) simp_all

lemma flagged_mono: "flagged k a c \<Longrightarrow> a \<le> b \<Longrightarrow> flagged k b c"
  unfolding flagged_def using captures_mono by blast

lemma flagged_unmarked: "(\<And>off. captures k off cap (\<lambda>n. n) (c off)) \<Longrightarrow> flagged k cap (unmarked c)"
  unfolding flagged_def unmarked_def
  using captures_with_flags by (auto simp: with_flags_def intro!: gives_bind_any gives_return)

lemma flagged_flagged_section:
  assumes "\<And>off. copies k off m (copy off)" "payloadKindFromTLV kind \<noteq> None" "32 + m \<le> cap" "cap < 2 ^ 32"
  shows "flagged k cap (\<lambda>off ef. flagged_section k off kind arg fl ef ul up trunc copy)"
proof -
  have "captures k off cap fst (flagged_section k off kind arg fl ef ul up trunc copy)" for off ef
    by (rule captures_flagged_section, rule assms(1)) (use assms in auto)
  then show ?thesis unfolding flagged_def using gives_flagged_section by blast
qed

lemma flagged_truncating_section:
  assumes "\<And>off. copies k off m (copy off)" "payloadKindFromTLV kind \<noteq> None" "32 + m \<le> cap" "cap < 2 ^ 32"
  shows "flagged k cap (\<lambda>off ef. truncating_section k off kind arg fl ef ul up copy)"
  unfolding truncating_section_def by (rule flagged_flagged_section [OF assms(1)]) (use assms in auto)

text \<open>A bounded copy of the bytes at a user pointer.\<close>

lemma copies_clamped:
  "m < 2 ^ 32 \<Longrightarrow> copies k off m (copy_user k w r (unat (payload_tlv_copy_len v (of_nat m))) up off)"
  using copy_len_le [of v "of_nat m"] by (intro copies_user) (simp add: unat_of_nat take_bit_nat_eq_self)

lemma flagged_then:
  assumes "flagged k a c" "flagged k b d" "a + b \<le> cap"
  shows "flagged k cap (\<lambda>off ef. do { (n, fl) \<leftarrow> c off ef; (m, fl) \<leftarrow> d (off + n) fl; return (n + m, fl) })"
  unfolding flagged_def
proof (intro allI conjI impI)
  fix off ef
  have c: "captures k off a fst (c off ef)" using assms(1) by (simp add: flagged_def)
  have d: "captures k (off + n) b fst (d (off + n) fl)" for n fl using assms(2) by (simp add: flagged_def)
  show "captures k off cap fst (do { (n, fl) \<leftarrow> c off ef; (m, fl) \<leftarrow> d (off + n) fl; return (n + m, fl) })"
    by (rule captures_then [OF c])
       (use assms(3) in \<open>auto simp: split_beta intro!: extends_capture [OF d] extends_return\<close>)
  let ?P = "\<lambda>(n, f). \<not> has_flag f EVENT_FLAG_COMPACT_ENTER"
  assume ef: "\<not> has_flag ef EVENT_FLAG_COMPACT_ENTER"
  show "gives (do { (n, fl) \<leftarrow> c off ef; (m, fl) \<leftarrow> d (off + n) fl; return (n + m, fl) }) ?P"
    by (rule gives_bind [where P = ?P], use assms(1) ef in \<open>simp add: flagged_def\<close>,
        clarsimp, rule gives_bind [where P = ?P], use assms(2) in \<open>simp add: flagged_def\<close>)
       (auto intro: gives_return)
qed

lemma flagged_sections_nil: "flagged k cap (flag_sections [])"
  by (simp add: flagged_none)

lemma flagged_sections_cons:
  "flagged k a c \<Longrightarrow> a \<le> cap \<Longrightarrow> flagged k (cap - a) (flag_sections cs) \<Longrightarrow> flagged k cap (flag_sections (c # cs))"
  by (simp, erule flagged_then, assumption) simp

lemma flagged_sections_one: "flagged k cap c \<Longrightarrow> flagged k cap (flag_sections [c])"
  by (rule flagged_sections_cons [of _ cap]) (auto intro: flagged_none)

section \<open>Records made of sections\<close>

definition emit_enter_sections ::
    "kernel \<Rightarrow> u32 \<Rightarrow> u32 \<Rightarrow> u32 \<Rightarrow> args6 \<Rightarrow> u64 \<Rightarrow> nat \<Rightarrow> (nat \<Rightarrow> nat bpf) list \<Rightarrow> unit bpf" where
  "emit_enter_sections k pid tid sys_id args ts_ns payload_capacity cs =
     emit_enter_tlv k pid tid sys_id args ts_ns 0 (-1) payload_capacity
       (\<lambda>payload_offset. with_flags EVENT_FLAG_GENERIC_ENTER (sections payload_offset cs))"

definition emit_exit_sections ::
    "kernel \<Rightarrow> pending_syscall \<Rightarrow> s64 \<Rightarrow> u64 \<Rightarrow> nat \<Rightarrow> (nat \<Rightarrow> nat bpf) list \<Rightarrow> unit bpf" where
  "emit_exit_sections k p ret_value duration payload_capacity cs =
     emit_exit_tlv k p ret_value duration payload_capacity
       (\<lambda>payload_offset. with_flags 0 (sections payload_offset cs))"

lemma emitter_enter_list:
  assumes "fits k cap cs" "cap < 2 ^ 31"
  shows "emitter k (emit_enter_sections k pid tid sys_id args ts cap cs)"
  unfolding emit_enter_sections_def
  by (rule emitter_enter_sections) (use assms in \<open>simp_all add: fits_def has_flag_def\<close>)

lemma emitter_exit_list:
  assumes "fits k cap cs" "cap < 2 ^ 31"
  shows "emitter k (emit_exit_sections k p ret dur cap cs)"
  unfolding emit_exit_sections_def
  by (rule emitter_exit_sections) (use assms in \<open>simp_all add: fits_def\<close>)

definition emit_enter_flagged ::
    "kernel \<Rightarrow> u32 \<Rightarrow> u32 \<Rightarrow> u32 \<Rightarrow> args6 \<Rightarrow> u64 \<Rightarrow> nat \<Rightarrow> flag_capture \<Rightarrow> unit bpf" where
  "emit_enter_flagged k pid tid sys_id args ts_ns payload_capacity capture =
     emit_enter_tlv k pid tid sys_id args ts_ns 0 (-1) payload_capacity
       (\<lambda>payload_offset. capture payload_offset EVENT_FLAG_GENERIC_ENTER)"

definition emit_exit_flagged ::
    "kernel \<Rightarrow> pending_syscall \<Rightarrow> s64 \<Rightarrow> u64 \<Rightarrow> nat \<Rightarrow> flag_capture \<Rightarrow> unit bpf" where
  "emit_exit_flagged k p ret_value duration payload_capacity capture =
     emit_exit_tlv k p ret_value duration payload_capacity (\<lambda>payload_offset. capture payload_offset 0)"

lemma emitter_enter_flagged:
  "flagged k cap c \<Longrightarrow> cap < 2 ^ 31 \<Longrightarrow> emitter k (emit_enter_flagged k pid tid sys_id args ts cap c)"
  unfolding emit_enter_flagged_def flagged_def by (intro emitter_enter_tlv) (auto simp: has_flag_def)

lemma emitter_exit_flagged:
  "flagged k cap c \<Longrightarrow> cap < 2 ^ 31 \<Longrightarrow> emitter k (emit_exit_flagged k p ret dur cap c)"
  unfolding emit_exit_flagged_def flagged_def by (intro emitter_exit_tlv) auto

end
