(* ===== verification/Struct_Events.thy ===== *)
theory Struct_Events
  imports Tlv_Capture
begin

text \<open>
  The families that copy structures of a fixed size: \<^verbatim>\<open>bpf/syscall_{stat,waitid,getcwd,readlink_*,fd_array,
  misc_struct,file_attr,signal,small_struct_*,cachestat,capability}_direct_event_v2.h\<close>.
\<close>

section \<open>stat\<close>

abbreviation (input) STAT_DIRECT_STRUCT_SIZE :: nat where "STAT_DIRECT_STRUCT_SIZE \<equiv> 144"
abbreviation (input) STATFS_DIRECT_STRUCT_SIZE :: nat where "STATFS_DIRECT_STRUCT_SIZE \<equiv> 120"
abbreviation (input) STATX_DIRECT_STRUCT_SIZE :: nat where "STATX_DIRECT_STRUCT_SIZE \<equiv> 256"

definition is_stat_struct_direct_syscall :: "u32 \<Rightarrow> bool" where
  "is_stat_struct_direct_syscall sys_id \<longleftrightarrow> sys_id \<in> set
     [SYS_STAT, SYS_LSTAT, SYS_FSTAT, SYS_NEWFSTATAT, SYS_STATX, SYS_STATFS, SYS_FSTATFS]"

definition stat_direct_struct_size :: "u32 \<Rightarrow> nat" where
  "stat_direct_struct_size sys_id =
     (if sys_id = SYS_STATFS \<or> sys_id = SYS_FSTATFS then STATFS_DIRECT_STRUCT_SIZE
      else if sys_id = SYS_STATX then STATX_DIRECT_STRUCT_SIZE
      else STAT_DIRECT_STRUCT_SIZE)"

definition stat_direct_struct_arg_index :: "u32 \<Rightarrow> u16" where
  "stat_direct_struct_arg_index sys_id =
     (if sys_id = SYS_STATX then 4 else if sys_id = SYS_NEWFSTATAT then 2 else 1)"

definition stat_direct_struct_user_ptr :: "pending_syscall \<Rightarrow> u64" where
  "stat_direct_struct_user_ptr p =
     (if ps_sys_id p = SYS_STATX then arg4 (ps_args p)
      else if ps_sys_id p = SYS_NEWFSTATAT then arg2 (ps_args p)
      else arg1 (ps_args p))"

definition capture_stat_struct_tlv_direct :: "kernel \<Rightarrow> nat \<Rightarrow> pending_syscall \<Rightarrow> nat bpf" where
  "capture_stat_struct_tlv_direct k payload_offset p =
     (let read_len = (if ps_sys_id p = SYS_STATX then STATX_DIRECT_STRUCT_SIZE
                      else if ps_sys_id p = SYS_STATFS \<or> ps_sys_id p = SYS_FSTATFS then STATFS_DIRECT_STRUCT_SIZE
                      else STAT_DIRECT_STRUCT_SIZE)
      in struct_section k payload_offset (stat_direct_struct_arg_index (ps_sys_id p))
           PAYLOAD_TLV_FLAG_DIRECTION_OUT (stat_direct_struct_user_ptr p) STATX_DIRECT_STRUCT_SIZE read_len
           (stat_direct_struct_size (ps_sys_id p)))"

definition emit_stat_struct_exit_event_v2_direct :: "kernel \<Rightarrow> pending_syscall \<Rightarrow> s64 \<Rightarrow> u64 \<Rightarrow> unit bpf" where
  "emit_stat_struct_exit_event_v2_direct k p ret_value duration =
     emit_exit_sections k p ret_value duration (PAYLOAD_TLV_HEADER_SIZE + STATX_DIRECT_STRUCT_SIZE)
       (if 0 \<le> sint ret_value then [\<lambda>off. capture_stat_struct_tlv_direct k off p] else [])"

section \<open>waitid\<close>

abbreviation (input) WAITID_DIRECT_SIGINFO_SIZE :: nat where "WAITID_DIRECT_SIGINFO_SIZE \<equiv> 128"
abbreviation (input) WAITID_DIRECT_RUSAGE_SIZE :: nat where "WAITID_DIRECT_RUSAGE_SIZE \<equiv> 144"

definition is_waitid_direct_syscall :: "u32 \<Rightarrow> bool" where
  "is_waitid_direct_syscall sys_id \<longleftrightarrow> sys_id = SYS_WAITID"

definition capture_waitid_struct_tlv_direct :: "kernel \<Rightarrow> nat \<Rightarrow> u16 \<Rightarrow> u64 \<Rightarrow> nat \<Rightarrow> nat bpf" where
  "capture_waitid_struct_tlv_direct k payload_offset arg_index user_ptr struct_size =
     (let window = (if struct_size = WAITID_DIRECT_SIGINFO_SIZE then WAITID_DIRECT_SIGINFO_SIZE
                    else WAITID_DIRECT_RUSAGE_SIZE)
      in struct_section k payload_offset arg_index PAYLOAD_TLV_FLAG_DIRECTION_OUT user_ptr window window struct_size)"

definition emit_waitid_exit_event_v2_direct :: "kernel \<Rightarrow> pending_syscall \<Rightarrow> s64 \<Rightarrow> u64 \<Rightarrow> unit bpf" where
  "emit_waitid_exit_event_v2_direct k p ret_value duration =
     emit_exit_sections k p ret_value duration
       (PAYLOAD_TLV_HEADER_SIZE + WAITID_DIRECT_SIGINFO_SIZE + PAYLOAD_TLV_HEADER_SIZE + WAITID_DIRECT_RUSAGE_SIZE)
       (if 0 \<le> sint ret_value
        then [\<lambda>off. capture_waitid_struct_tlv_direct k off 2 (arg2 (ps_args p)) WAITID_DIRECT_SIGINFO_SIZE,
              \<lambda>off. capture_waitid_struct_tlv_direct k off 4 (arg4 (ps_args p)) WAITID_DIRECT_RUSAGE_SIZE]
        else [])"

section \<open>getcwd and readlink\<close>

abbreviation (input) GETCWD_DIRECT_BYTES_MAX :: nat where "GETCWD_DIRECT_BYTES_MAX \<equiv> 512"
abbreviation (input) READLINK_DIRECT_PATH_MAX :: nat where "READLINK_DIRECT_PATH_MAX \<equiv> 512"
abbreviation (input) READLINK_DIRECT_BYTES_MAX :: nat where "READLINK_DIRECT_BYTES_MAX \<equiv> 512"

definition is_getcwd_direct_syscall :: "u32 \<Rightarrow> bool" where
  "is_getcwd_direct_syscall sys_id \<longleftrightarrow> sys_id = SYS_GETCWD"

definition capture_getcwd_bytes_tlv_direct :: "kernel \<Rightarrow> nat \<Rightarrow> pending_syscall \<Rightarrow> s64 \<Rightarrow> u16 \<Rightarrow> (nat \<times> u16) bpf" where
  "capture_getcwd_bytes_tlv_direct k payload_offset p ret_value event_flags =
     (if sint ret_value \<le> 0 then return (0, event_flags)
      else let user_ptr = arg0 (ps_args p);
               copied_len = unat (payload_tlv_copy_len ret_value (of_nat GETCWD_DIRECT_BYTES_MAX))
        in truncating_section k payload_offset PAYLOAD_TLV_KIND_BYTES 0 PAYLOAD_TLV_FLAG_DIRECTION_OUT event_flags
             (payload_tlv_clamp_u32 ret_value) user_ptr
             (copy_user_checked k GETCWD_DIRECT_BYTES_MAX copied_len user_ptr))"

definition emit_getcwd_exit_event_v2_direct :: "kernel \<Rightarrow> pending_syscall \<Rightarrow> s64 \<Rightarrow> u64 \<Rightarrow> unit bpf" where
  "emit_getcwd_exit_event_v2_direct k p ret_value duration =
     emit_exit_tlv k p ret_value duration (PAYLOAD_TLV_HEADER_SIZE + GETCWD_DIRECT_BYTES_MAX)
       (\<lambda>payload_offset. capture_getcwd_bytes_tlv_direct k payload_offset p ret_value 0)"

definition is_readlink_direct_syscall :: "u32 \<Rightarrow> bool" where
  "is_readlink_direct_syscall sys_id \<longleftrightarrow> sys_id = SYS_READLINK \<or> sys_id = SYS_READLINKAT"

definition readlink_direct_buf_arg_index :: "u32 \<Rightarrow> u16" where
  "readlink_direct_buf_arg_index sys_id = (if sys_id = SYS_READLINKAT then 2 else 1)"

definition readlink_direct_buf_user_ptr :: "pending_syscall \<Rightarrow> u64" where
  "readlink_direct_buf_user_ptr p =
     (if ps_sys_id p = SYS_READLINKAT then arg2 (ps_args p) else arg1 (ps_args p))"

definition capture_readlink_path_tlv_direct :: "kernel \<Rightarrow> nat \<Rightarrow> u16 \<Rightarrow> u64 \<Rightarrow> nat bpf" where
  "capture_readlink_path_tlv_direct k payload_offset path_arg user_ptr =
     string_section k READLINK_DIRECT_PATH_MAX payload_offset path_arg user_ptr"

definition capture_readlink_bytes_tlv_direct :: "kernel \<Rightarrow> nat \<Rightarrow> pending_syscall \<Rightarrow> s64 \<Rightarrow> u16 \<Rightarrow> (nat \<times> u16) bpf" where
  "capture_readlink_bytes_tlv_direct k payload_offset p ret_value event_flags =
     (if sint ret_value \<le> 0 then return (0, event_flags)
      else let user_ptr = readlink_direct_buf_user_ptr p;
               copied_len = unat (payload_tlv_copy_len ret_value (of_nat READLINK_DIRECT_BYTES_MAX))
        in truncating_section k payload_offset PAYLOAD_TLV_KIND_BYTES (readlink_direct_buf_arg_index (ps_sys_id p))
             PAYLOAD_TLV_FLAG_DIRECTION_OUT event_flags (payload_tlv_clamp_u32 ret_value) user_ptr
             (copy_user_checked k READLINK_DIRECT_BYTES_MAX copied_len user_ptr))"

record readlink_enter_request =
  rer_args :: args6
  rer_path_arg :: u16
  rer_user_ptr :: u64

definition emit_readlink_enter_event_v2_direct ::
    "kernel \<Rightarrow> u32 \<Rightarrow> u32 \<Rightarrow> u32 \<Rightarrow> sys_enter_ctx \<Rightarrow> u64 \<Rightarrow> unit bpf" where
  "emit_readlink_enter_event_v2_direct k pid tid sys_id ctx ts_ns =
     (let args = sec_args ctx;
          request = (if sys_id = SYS_READLINKAT
                     then \<lparr>rer_args = args, rer_path_arg = 1, rer_user_ptr = arg1 args\<rparr>
                     else \<lparr>rer_args = args, rer_path_arg = 0, rer_user_ptr = arg0 args\<rparr>)
      in emit_enter_sections k pid tid sys_id (rer_args request) ts_ns
           (PAYLOAD_TLV_HEADER_SIZE + READLINK_DIRECT_PATH_MAX)
           [\<lambda>off. capture_readlink_path_tlv_direct k off (rer_path_arg request) (rer_user_ptr request)])"

definition emit_readlink_exit_event_v2_direct :: "kernel \<Rightarrow> pending_syscall \<Rightarrow> s64 \<Rightarrow> u64 \<Rightarrow> unit bpf" where
  "emit_readlink_exit_event_v2_direct k p ret_value duration =
     emit_exit_tlv k p ret_value duration (PAYLOAD_TLV_HEADER_SIZE + READLINK_DIRECT_BYTES_MAX)
       (\<lambda>payload_offset. capture_readlink_bytes_tlv_direct k payload_offset p ret_value 0)"

section \<open>pipe and socketpair\<close>

abbreviation (input) FD_ARRAY_DIRECT_SIZE :: nat where "FD_ARRAY_DIRECT_SIZE \<equiv> 8"
abbreviation (input) FD_ARRAY_DIRECT_PAYLOAD_CAPACITY :: nat where "FD_ARRAY_DIRECT_PAYLOAD_CAPACITY \<equiv> 200"

definition is_fd_array_direct_syscall :: "u32 \<Rightarrow> bool" where
  "is_fd_array_direct_syscall sys_id \<longleftrightarrow> sys_id = SYS_PIPE \<or> sys_id = SYS_PIPE2 \<or> sys_id = SYS_SOCKETPAIR"

definition fd_array_direct_arg_index :: "u32 \<Rightarrow> u16" where
  "fd_array_direct_arg_index sys_id = (if sys_id = SYS_SOCKETPAIR then 3 else 0)"

definition fd_array_direct_user_ptr :: "pending_syscall \<Rightarrow> u64" where
  "fd_array_direct_user_ptr p =
     (if ps_sys_id p = SYS_SOCKETPAIR then arg3 (ps_args p) else arg0 (ps_args p))"

text \<open>The probe result and the bytes of the array.\<close>

definition read_fd_array_values_direct :: "kernel \<Rightarrow> pending_syscall \<Rightarrow> (s32 \<times> bytes) bpf" where
  "read_fd_array_values_direct k p = do {
     (err, bs) \<leftarrow> bpf_probe_read_user k FD_ARRAY_DIRECT_SIZE (fd_array_direct_user_ptr p);
     return (of_int err, bs) }"

definition capture_fd_array_tlv_direct :: "kernel \<Rightarrow> nat \<Rightarrow> pending_syscall \<Rightarrow> bytes \<Rightarrow> s32 \<Rightarrow> nat bpf" where
  "capture_fd_array_tlv_direct k payload_offset p fds probe_ret =
     copied_section k payload_offset PAYLOAD_TLV_KIND_STRUCT (fd_array_direct_arg_index (ps_sys_id p))
       PAYLOAD_TLV_FLAG_DIRECTION_OUT (of_nat FD_ARRAY_DIRECT_SIZE) (fd_array_direct_user_ptr p)
       (\<lambda>data_offset. if probe_ret = 0 then do {
            ok \<leftarrow> bpf_dynptr_write data_offset fds;
            if \<not> ok then do { record_ringbuf_copy_fail k; return (0, -1) }
            else return (FD_ARRAY_DIRECT_SIZE, probe_ret) }
          else return (0, probe_ret))"

primrec fd_state_sections :: "kernel \<Rightarrow> nat \<Rightarrow> s32 list \<Rightarrow> nat \<Rightarrow> nat bpf" where
  "fd_state_sections k payload_offset [] payload_size = return payload_size"
| "fd_state_sections k payload_offset (fd # fds) payload_size = do {
     section_size \<leftarrow> capture_fd_state_tlv_direct k (payload_offset + payload_size) fd;
     if section_size = 0 then return payload_size
     else fd_state_sections k payload_offset fds (payload_size + section_size) }"

definition capture_fd_state_array_tlvs_direct :: "kernel \<Rightarrow> nat \<Rightarrow> bytes \<Rightarrow> nat bpf" where
  "capture_fd_state_array_tlvs_direct k payload_offset fds =
     fd_state_sections k payload_offset [le_word (take 4 fds), le_word (drop 4 fds)] 0"

definition emit_fd_array_exit_event_v2_direct :: "kernel \<Rightarrow> pending_syscall \<Rightarrow> s64 \<Rightarrow> u64 \<Rightarrow> unit bpf" where
  "emit_fd_array_exit_event_v2_direct k p ret_value duration =
     emit_exit_tlv k p ret_value duration FD_ARRAY_DIRECT_PAYLOAD_CAPACITY (\<lambda>payload_offset. with_flags 0
       (if ret_value \<noteq> 0 \<or> fd_array_direct_user_ptr p = 0 then return 0
        else do {
          (probe_ret, fds) \<leftarrow> read_fd_array_values_direct k p;
          payload_size \<leftarrow> capture_fd_array_tlv_direct k payload_offset p fds probe_ret;
          if probe_ret = 0 \<and> payload_size > 0 then do {
            n \<leftarrow> capture_fd_state_array_tlvs_direct k (payload_offset + payload_size) fds;
            return (payload_size + n) }
          else return payload_size }))"

section \<open>File attributes\<close>

abbreviation (input) FILE_ATTR_DIRECT_BASE_SIZE :: nat where "FILE_ATTR_DIRECT_BASE_SIZE \<equiv> 24"
abbreviation (input) FILE_ATTR_DIRECT_EXTENSION_MAX :: nat where "FILE_ATTR_DIRECT_EXTENSION_MAX \<equiv> 256"
abbreviation (input) FILE_ATTR_DIRECT_PAGE_SIZE :: u64 where "FILE_ATTR_DIRECT_PAGE_SIZE \<equiv> 4096"

definition capture_file_attr_base_tlv_direct :: "kernel \<Rightarrow> nat \<Rightarrow> u16 \<Rightarrow> u64 \<Rightarrow> u64 \<Rightarrow> u16 \<Rightarrow> nat bpf" where
  "capture_file_attr_base_tlv_direct k payload_offset arg_index user_ptr raw_size dir_flags =
     (if raw_size < of_nat FILE_ATTR_DIRECT_BASE_SIZE \<or> raw_size > FILE_ATTR_DIRECT_PAGE_SIZE then return 0
      else copied_section k payload_offset PAYLOAD_TLV_KIND_STRUCT arg_index dir_flags
        (of_nat FILE_ATTR_DIRECT_BASE_SIZE) user_ptr
        (copy_user_checked k FILE_ATTR_DIRECT_BASE_SIZE FILE_ATTR_DIRECT_BASE_SIZE user_ptr))"

definition capture_file_attr_extension_tlv_direct ::
    "kernel \<Rightarrow> nat \<Rightarrow> u16 \<Rightarrow> u64 \<Rightarrow> u64 \<Rightarrow> u16 \<Rightarrow> u16 \<Rightarrow> (nat \<times> u16) bpf" where
  "capture_file_attr_extension_tlv_direct k payload_offset arg_index user_ptr raw_size event_flags dir_flags =
     (if raw_size \<le> of_nat FILE_ATTR_DIRECT_BASE_SIZE \<or> raw_size > FILE_ATTR_DIRECT_PAGE_SIZE
      then return (0, event_flags)
      else let raw_extension_len = raw_size - of_nat FILE_ATTR_DIRECT_BASE_SIZE;
               user_len = payload_tlv_clamp_u32 raw_extension_len;
               wanted_len = unat (payload_tlv_copy_len raw_extension_len (of_nat FILE_ATTR_DIRECT_EXTENSION_MAX));
               extension_ptr = (if user_ptr \<noteq> 0 then user_ptr + of_nat FILE_ATTR_DIRECT_BASE_SIZE else 0)
        in flagged_section k payload_offset PAYLOAD_TLV_KIND_BYTES arg_index dir_flags event_flags user_len
             extension_ptr (\<lambda>copied_len probe_ret. probe_ret = 0 \<and> of_nat copied_len < user_len)
             (\<lambda>data_offset. if user_ptr = 0 \<or> extension_ptr < user_ptr then return (0, -1)
                else copy_user k FILE_ATTR_DIRECT_EXTENSION_MAX wanted_len wanted_len extension_ptr data_offset))"

definition capture_file_attr_tlvs_direct ::
    "kernel \<Rightarrow> nat \<Rightarrow> u16 \<Rightarrow> u64 \<Rightarrow> u64 \<Rightarrow> u16 \<Rightarrow> u16 \<Rightarrow> (nat \<times> u16) bpf" where
  "capture_file_attr_tlvs_direct k payload_offset arg_index user_ptr raw_size event_flags dir_flags =
     (if raw_size < of_nat FILE_ATTR_DIRECT_BASE_SIZE \<or> raw_size > FILE_ATTR_DIRECT_PAGE_SIZE
      then return (0, event_flags)
      else do {
        payload_size \<leftarrow> capture_file_attr_base_tlv_direct k payload_offset arg_index user_ptr raw_size dir_flags;
        if payload_size = 0 then return (0, event_flags)
        else do {
          (n, flags) \<leftarrow> capture_file_attr_extension_tlv_direct k (payload_offset + payload_size) arg_index
            user_ptr raw_size event_flags dir_flags;
          return (payload_size + n, flags) } })"

section \<open>Other structures\<close>

abbreviation (input) MISC_DIRECT_RLIMIT_SIZE :: nat where "MISC_DIRECT_RLIMIT_SIZE \<equiv> 16"
abbreviation (input) MISC_DIRECT_SYSINFO_SIZE :: nat where "MISC_DIRECT_SYSINFO_SIZE \<equiv> 112"
abbreviation (input) MISC_DIRECT_UTSNAME_SIZE :: nat where "MISC_DIRECT_UTSNAME_SIZE \<equiv> 390"
abbreviation (input) MISC_DIRECT_MAX_SIZE :: nat where "MISC_DIRECT_MAX_SIZE \<equiv> 390"

definition is_misc_struct_direct_syscall :: "u32 \<Rightarrow> bool" where
  "is_misc_struct_direct_syscall sys_id \<longleftrightarrow> sys_id \<in> set
     [SYS_UNAME, SYS_SYSINFO, SYS_GETRLIMIT, SYS_SETRLIMIT, SYS_PRLIMIT64, SYS_FILE_GETATTR]"

definition is_misc_struct_enter_direct_syscall :: "u32 \<Rightarrow> bool" where
  "is_misc_struct_enter_direct_syscall sys_id \<longleftrightarrow> sys_id = SYS_SETRLIMIT \<or> sys_id = SYS_PRLIMIT64"

definition is_misc_struct_exit_direct_syscall :: "u32 \<Rightarrow> bool" where
  "is_misc_struct_exit_direct_syscall sys_id \<longleftrightarrow> sys_id \<in> set
     [SYS_UNAME, SYS_SYSINFO, SYS_GETRLIMIT, SYS_PRLIMIT64, SYS_FILE_GETATTR]"

definition misc_struct_direct_size :: "u32 \<Rightarrow> nat" where
  "misc_struct_direct_size sys_id =
     (if sys_id = SYS_FILE_GETATTR then FILE_ATTR_DIRECT_BASE_SIZE
      else if sys_id = SYS_UNAME then MISC_DIRECT_UTSNAME_SIZE
      else if sys_id = SYS_SYSINFO then MISC_DIRECT_SYSINFO_SIZE
      else MISC_DIRECT_RLIMIT_SIZE)"

definition misc_struct_exit_arg_index :: "u32 \<Rightarrow> u16" where
  "misc_struct_exit_arg_index sys_id =
     (if sys_id = SYS_FILE_GETATTR then 2 else if sys_id = SYS_GETRLIMIT then 1
      else if sys_id = SYS_PRLIMIT64 then 3 else 0)"

definition misc_struct_exit_user_ptr :: "pending_syscall \<Rightarrow> u64" where
  "misc_struct_exit_user_ptr p =
     (if ps_sys_id p = SYS_FILE_GETATTR then arg2 (ps_args p)
      else if ps_sys_id p = SYS_GETRLIMIT then arg1 (ps_args p)
      else if ps_sys_id p = SYS_PRLIMIT64 then arg3 (ps_args p)
      else arg0 (ps_args p))"

definition capture_misc_struct_tlv_direct :: "kernel \<Rightarrow> nat \<Rightarrow> u32 \<Rightarrow> u16 \<Rightarrow> u64 \<Rightarrow> u16 \<Rightarrow> nat bpf" where
  "capture_misc_struct_tlv_direct k payload_offset sys_id arg_index user_ptr dir_flags =
     (let read_len = (if sys_id = SYS_UNAME then MISC_DIRECT_UTSNAME_SIZE
                      else if sys_id = SYS_SYSINFO then MISC_DIRECT_SYSINFO_SIZE
                      else MISC_DIRECT_RLIMIT_SIZE)
      in struct_section k payload_offset arg_index dir_flags user_ptr MISC_DIRECT_MAX_SIZE read_len
           (misc_struct_direct_size sys_id))"

definition emit_misc_struct_enter_event_v2_direct_with_arg ::
    "kernel \<Rightarrow> u32 \<Rightarrow> u32 \<Rightarrow> u32 \<Rightarrow> sys_enter_ctx \<Rightarrow> u64 \<Rightarrow> u16 \<Rightarrow> u64 \<Rightarrow> unit bpf" where
  "emit_misc_struct_enter_event_v2_direct_with_arg k pid tid sys_id ctx ts_ns arg_index user_ptr =
     emit_enter_sections k pid tid sys_id (sec_args ctx) ts_ns (PAYLOAD_TLV_HEADER_SIZE + MISC_DIRECT_MAX_SIZE)
       [\<lambda>off. capture_misc_struct_tlv_direct k off sys_id arg_index user_ptr 0]"

definition emit_misc_struct_enter_event_v2_direct ::
    "kernel \<Rightarrow> u32 \<Rightarrow> u32 \<Rightarrow> u32 \<Rightarrow> sys_enter_ctx \<Rightarrow> u64 \<Rightarrow> unit bpf" where
  "emit_misc_struct_enter_event_v2_direct k pid tid sys_id ctx ts_ns =
     (if sys_id = SYS_PRLIMIT64
      then emit_misc_struct_enter_event_v2_direct_with_arg k pid tid sys_id ctx ts_ns 2 (arg2 (sec_args ctx))
      else emit_misc_struct_enter_event_v2_direct_with_arg k pid tid sys_id ctx ts_ns 1 (arg1 (sec_args ctx)))"

definition emit_misc_struct_exit_event_v2_direct :: "kernel \<Rightarrow> pending_syscall \<Rightarrow> s64 \<Rightarrow> u64 \<Rightarrow> unit bpf" where
  "emit_misc_struct_exit_event_v2_direct k p ret_value duration =
     (let arg_index = misc_struct_exit_arg_index (ps_sys_id p); user_ptr = misc_struct_exit_user_ptr p
      in emit_exit_tlv k p ret_value duration (PAYLOAD_TLV_HEADER_SIZE + MISC_DIRECT_MAX_SIZE) (\<lambda>payload_offset.
           if ps_sys_id p = SYS_FILE_GETATTR
           then capture_file_attr_tlvs_direct k payload_offset arg_index user_ptr (arg3 (ps_args p)) 0
             PAYLOAD_TLV_FLAG_DIRECTION_OUT
           else with_flags 0 (capture_misc_struct_tlv_direct k payload_offset (ps_sys_id p) arg_index user_ptr
             PAYLOAD_TLV_FLAG_DIRECTION_OUT)))"

section \<open>Signal masks and actions\<close>

abbreviation (input) SIGNAL_DIRECT_SIGSET_SIZE :: nat where "SIGNAL_DIRECT_SIGSET_SIZE \<equiv> 8"
abbreviation (input) SIGNAL_DIRECT_SIGACTION_SIZE :: nat where "SIGNAL_DIRECT_SIGACTION_SIZE \<equiv> 32"

definition is_signal_direct_syscall :: "u32 \<Rightarrow> bool" where
  "is_signal_direct_syscall sys_id \<longleftrightarrow> sys_id \<in> set
     [SYS_RT_SIGACTION, SYS_RT_SIGPROCMASK, SYS_RT_SIGSUSPEND, SYS_SIGNALFD, SYS_SIGNALFD4]"

definition is_signal_enter_direct_syscall :: "u32 \<Rightarrow> bool" where
  "is_signal_enter_direct_syscall sys_id = is_signal_direct_syscall sys_id"

definition is_signal_exit_payload_direct_syscall :: "u32 \<Rightarrow> bool" where
  "is_signal_exit_payload_direct_syscall sys_id \<longleftrightarrow> sys_id = SYS_RT_SIGACTION \<or> sys_id = SYS_RT_SIGPROCMASK"

definition signal_direct_enter_arg_index :: "u32 \<Rightarrow> u16" where
  "signal_direct_enter_arg_index sys_id = (if sys_id = SYS_RT_SIGSUSPEND then 0 else 1)"

definition signal_direct_struct_size :: "u32 \<Rightarrow> nat" where
  "signal_direct_struct_size sys_id =
     (if sys_id = SYS_RT_SIGACTION then SIGNAL_DIRECT_SIGACTION_SIZE else SIGNAL_DIRECT_SIGSET_SIZE)"

definition capture_signal_struct_tlv_direct :: "kernel \<Rightarrow> nat \<Rightarrow> u16 \<Rightarrow> u64 \<Rightarrow> nat \<Rightarrow> u16 \<Rightarrow> nat bpf" where
  "capture_signal_struct_tlv_direct k payload_offset arg_index user_ptr struct_size dir_flags =
     (let window = (if struct_size = SIGNAL_DIRECT_SIGACTION_SIZE then SIGNAL_DIRECT_SIGACTION_SIZE
                    else SIGNAL_DIRECT_SIGSET_SIZE)
      in struct_section k payload_offset arg_index dir_flags user_ptr window window struct_size)"

definition emit_signal_enter_event_v2_direct ::
    "kernel \<Rightarrow> u32 \<Rightarrow> u32 \<Rightarrow> u32 \<Rightarrow> sys_enter_ctx \<Rightarrow> u64 \<Rightarrow> s32 \<Rightarrow> unit bpf" where
  "emit_signal_enter_event_v2_direct k pid tid sys_id ctx ts_ns probe_ret_enter =
     (let user_ptr = (if sys_id = SYS_RT_SIGSUSPEND then arg0 (sec_args ctx) else arg1 (sec_args ctx))
      in emit_enter_tlv k pid tid sys_id (sec_args ctx) ts_ns 0 probe_ret_enter
           (PAYLOAD_TLV_HEADER_SIZE + SIGNAL_DIRECT_SIGACTION_SIZE) (\<lambda>payload_offset.
           with_flags EVENT_FLAG_GENERIC_ENTER (capture_signal_struct_tlv_direct k payload_offset
             (signal_direct_enter_arg_index sys_id) user_ptr (signal_direct_struct_size sys_id) 0)))"

definition emit_signal_sigsuspend_marker_event_v2_direct ::
    "kernel \<Rightarrow> u32 \<Rightarrow> u32 \<Rightarrow> u32 \<Rightarrow> sys_enter_ctx \<Rightarrow> u64 \<Rightarrow> unit bpf" where
  "emit_signal_sigsuspend_marker_event_v2_direct k pid tid sys_id ctx ts_ns =
     emit_signal_enter_event_v2_direct k pid tid sys_id ctx ts_ns 3"

definition should_emit_signal_sigsuspend_marker :: "kernel \<Rightarrow> u32 \<Rightarrow> u32 \<Rightarrow> bool bpf" where
  "should_emit_signal_sigsuspend_marker k tid pid = do {
     nr_threads \<leftarrow> (if k_task k \<noteq> 0 then core_read k ''signal.nr_threads'' (k_task k) else return 0);
     return ((ucast nr_threads :: u32) > 1 \<and> tid = pid) }"

definition emit_signal_exit_event_v2_direct :: "kernel \<Rightarrow> pending_syscall \<Rightarrow> s64 \<Rightarrow> u64 \<Rightarrow> unit bpf" where
  "emit_signal_exit_event_v2_direct k p ret_value duration =
     emit_exit_sections k p ret_value duration (PAYLOAD_TLV_HEADER_SIZE + SIGNAL_DIRECT_SIGACTION_SIZE)
       (if 0 \<le> sint ret_value \<and> is_signal_exit_payload_direct_syscall (ps_sys_id p)
        then [\<lambda>off. capture_signal_struct_tlv_direct k off 2 (arg2 (ps_args p))
                (signal_direct_struct_size (ps_sys_id p)) PAYLOAD_TLV_FLAG_DIRECTION_OUT]
        else [])"

section \<open>Single words\<close>

abbreviation (input) SMALL_STRUCT_DIRECT_WORD_SIZE :: nat where "SMALL_STRUCT_DIRECT_WORD_SIZE \<equiv> 8"
abbreviation (input) SMALL_STRUCT_DIRECT_MAX_PAYLOAD :: nat where "SMALL_STRUCT_DIRECT_MAX_PAYLOAD \<equiv> 80"

definition is_arch_prctl_get_direct_option :: "u64 \<Rightarrow> bool" where
  "is_arch_prctl_get_direct_option opt \<longleftrightarrow> opt \<in> set [0x1003, 0x1004, 0x1011, 0x1021, 0x1022, 0x1024]"

definition is_small_struct_direct_syscall :: "u32 \<Rightarrow> bool" where
  "is_small_struct_direct_syscall sys_id \<longleftrightarrow> sys_id \<in> set
     [SYS_SENDFILE, SYS_ARCH_PRCTL, SYS_GET_ROBUST_LIST, SYS_COPY_FILE_RANGE]"

definition is_small_struct_enter_direct_syscall :: "u32 \<Rightarrow> bool" where
  "is_small_struct_enter_direct_syscall sys_id \<longleftrightarrow> sys_id = SYS_SENDFILE \<or> sys_id = SYS_COPY_FILE_RANGE"

definition is_small_struct_exit_direct_syscall :: "u32 \<Rightarrow> bool" where
  "is_small_struct_exit_direct_syscall sys_id \<longleftrightarrow>
     sys_id = SYS_SENDFILE \<or> sys_id = SYS_ARCH_PRCTL \<or> sys_id = SYS_GET_ROBUST_LIST"

definition capture_small_struct_word_tlv_direct :: "kernel \<Rightarrow> nat \<Rightarrow> u16 \<Rightarrow> u64 \<Rightarrow> u16 \<Rightarrow> nat bpf" where
  "capture_small_struct_word_tlv_direct k payload_offset arg_index user_ptr dir_flags =
     struct_section k payload_offset arg_index dir_flags user_ptr SMALL_STRUCT_DIRECT_WORD_SIZE
       SMALL_STRUCT_DIRECT_WORD_SIZE SMALL_STRUCT_DIRECT_WORD_SIZE"

definition emit_small_struct_enter_word_event_v2_direct ::
    "kernel \<Rightarrow> u32 \<Rightarrow> u32 \<Rightarrow> u32 \<Rightarrow> sys_enter_ctx \<Rightarrow> u64 \<Rightarrow> unit bpf" where
  "emit_small_struct_enter_word_event_v2_direct k pid tid sys_id ctx ts_ns =
     emit_enter_sections k pid tid sys_id (sec_args ctx) ts_ns SMALL_STRUCT_DIRECT_MAX_PAYLOAD
       [\<lambda>off. capture_small_struct_word_tlv_direct k off 2 (arg2 (sec_args ctx)) 0]"

definition emit_copy_file_range_enter_event_v2_direct ::
    "kernel \<Rightarrow> u32 \<Rightarrow> u32 \<Rightarrow> u32 \<Rightarrow> sys_enter_ctx \<Rightarrow> u64 \<Rightarrow> unit bpf" where
  "emit_copy_file_range_enter_event_v2_direct k pid tid sys_id ctx ts_ns =
     emit_enter_sections k pid tid sys_id (sec_args ctx) ts_ns SMALL_STRUCT_DIRECT_MAX_PAYLOAD
       [\<lambda>off. capture_small_struct_word_tlv_direct k off 1 (arg1 (sec_args ctx)) 0,
        \<lambda>off. capture_small_struct_word_tlv_direct k off 3 (arg3 (sec_args ctx)) 0]"

definition emit_small_struct_enter_event_v2_direct ::
    "kernel \<Rightarrow> u32 \<Rightarrow> u32 \<Rightarrow> u32 \<Rightarrow> sys_enter_ctx \<Rightarrow> u64 \<Rightarrow> unit bpf" where
  "emit_small_struct_enter_event_v2_direct k pid tid sys_id ctx ts_ns =
     (if sys_id = SYS_COPY_FILE_RANGE then emit_copy_file_range_enter_event_v2_direct k pid tid sys_id ctx ts_ns
      else emit_small_struct_enter_word_event_v2_direct k pid tid sys_id ctx ts_ns)"

definition emit_small_struct_exit_event_v2_direct :: "kernel \<Rightarrow> pending_syscall \<Rightarrow> s64 \<Rightarrow> u64 \<Rightarrow> unit bpf" where
  "emit_small_struct_exit_event_v2_direct k p ret_value duration =
     (let word = (\<lambda>arg_index user_ptr off.
            capture_small_struct_word_tlv_direct k off arg_index user_ptr PAYLOAD_TLV_FLAG_DIRECTION_OUT)
      in emit_exit_sections k p ret_value duration SMALL_STRUCT_DIRECT_MAX_PAYLOAD
           (if ps_sys_id p = SYS_GET_ROBUST_LIST
            then [word 1 (arg1 (ps_args p)), word 2 (arg2 (ps_args p))]
            else if ps_sys_id p = SYS_SENDFILE then [word 2 (arg2 (ps_args p))]
            else if ps_sys_id p = SYS_ARCH_PRCTL \<and> is_arch_prctl_get_direct_option (arg0 (ps_args p))
            then [word 1 (arg1 (ps_args p))]
            else []))"

section \<open>Descriptor paths and a section\<close>

text \<open>
  The statements the enter emitters of \<^verbatim>\<open>cachestat\<close> and \<^verbatim>\<open>epoll\<close> share: the arguments go through the
  scratch entry, and the paths of the descriptor arguments come first when they are wanted.
\<close>

definition emit_fd_paths_and_section ::
    "kernel \<Rightarrow> u32 \<Rightarrow> u32 \<Rightarrow> u32 \<Rightarrow> sys_enter_ctx \<Rightarrow> u32 option \<Rightarrow> u64 \<Rightarrow> nat \<Rightarrow> (nat \<Rightarrow> args6 \<Rightarrow> nat bpf) \<Rightarrow> unit bpf" where
  "emit_fd_paths_and_section k pid tid sys_id ctx cfg ts_ns section_capacity capture = do {
     scratch \<leftarrow> lookup_fd_path_scratch k;
     case scratch of
       None \<Rightarrow> return ()
     | Some x \<Rightarrow> do {
         let args = copy_syscall_enter_args ctx;
         store_fd_path_scratch k (x\<lparr>fps_args := args\<rparr>);
         let fd_path_capacity = (case cfg of None \<Rightarrow> 0
           | Some c \<Rightarrow> if has_flag c CONFIG_FD_STATE then fd_path_payload_capacity sys_id else 0);
         emit_enter_sections k pid tid sys_id args ts_ns (fd_path_capacity + section_capacity)
           [\<lambda>off. if fd_path_capacity > 0 then capture_fd_paths_tlv_direct k off sys_id args else return 0,
            \<lambda>off. capture off args] } }"

section \<open>cachestat\<close>

abbreviation (input) CACHESTAT_DIRECT_RANGE_SIZE :: nat where "CACHESTAT_DIRECT_RANGE_SIZE \<equiv> 16"
abbreviation (input) CACHESTAT_DIRECT_STATS_SIZE :: nat where "CACHESTAT_DIRECT_STATS_SIZE \<equiv> 40"

definition is_cachestat_direct_syscall :: "u32 \<Rightarrow> bool" where
  "is_cachestat_direct_syscall sys_id \<longleftrightarrow> sys_id = SYS_CACHESTAT"

text \<open>The window \<^verbatim>\<open>cachestat_direct_dynptr_data\<close> asks for.\<close>

definition cachestat_direct_dynptr_data :: "nat \<Rightarrow> nat" where
  "cachestat_direct_dynptr_data struct_size =
     (if struct_size = CACHESTAT_DIRECT_STATS_SIZE then CACHESTAT_DIRECT_STATS_SIZE else CACHESTAT_DIRECT_RANGE_SIZE)"

definition capture_cachestat_struct_tlv_direct :: "kernel \<Rightarrow> nat \<Rightarrow> u16 \<Rightarrow> u16 \<Rightarrow> u64 \<Rightarrow> nat \<Rightarrow> nat bpf" where
  "capture_cachestat_struct_tlv_direct k payload_offset arg_index dir_flags user_ptr struct_size =
     struct_section k payload_offset arg_index dir_flags user_ptr (cachestat_direct_dynptr_data struct_size)
       struct_size struct_size"

definition emit_cachestat_enter_event_v2_direct ::
    "kernel \<Rightarrow> u32 \<Rightarrow> u32 \<Rightarrow> u32 \<Rightarrow> sys_enter_ctx \<Rightarrow> u32 option \<Rightarrow> u64 \<Rightarrow> unit bpf" where
  "emit_cachestat_enter_event_v2_direct k pid tid sys_id ctx cfg ts_ns =
     emit_fd_paths_and_section k pid tid sys_id ctx cfg ts_ns (PAYLOAD_TLV_HEADER_SIZE + CACHESTAT_DIRECT_RANGE_SIZE)
       (\<lambda>off args. capture_cachestat_struct_tlv_direct k off 1 0 (arg1 args) CACHESTAT_DIRECT_RANGE_SIZE)"

definition emit_cachestat_exit_event_v2_direct :: "kernel \<Rightarrow> pending_syscall \<Rightarrow> s64 \<Rightarrow> u64 \<Rightarrow> unit bpf" where
  "emit_cachestat_exit_event_v2_direct k p ret_value duration =
     emit_exit_sections k p ret_value duration (PAYLOAD_TLV_HEADER_SIZE + CACHESTAT_DIRECT_STATS_SIZE)
       [\<lambda>off. capture_cachestat_struct_tlv_direct k off 2 PAYLOAD_TLV_FLAG_DIRECTION_OUT (arg2 (ps_args p))
          CACHESTAT_DIRECT_STATS_SIZE]"

section \<open>Capabilities\<close>

abbreviation (input) CAPABILITY_DIRECT_HEADER_SIZE :: nat where "CAPABILITY_DIRECT_HEADER_SIZE \<equiv> 8"
abbreviation (input) CAPABILITY_DIRECT_WORD_SIZE :: nat where "CAPABILITY_DIRECT_WORD_SIZE \<equiv> 12"
abbreviation (input) CAPABILITY_DIRECT_DATA_SIZE :: nat where "CAPABILITY_DIRECT_DATA_SIZE \<equiv> 24"
abbreviation (input) CAPABILITY_VERSION_1 :: u32 where "CAPABILITY_VERSION_1 \<equiv> 0x19980330"
abbreviation (input) CAPABILITY_VERSION_2 :: u32 where "CAPABILITY_VERSION_2 \<equiv> 0x20071026"
abbreviation (input) CAPABILITY_VERSION_3 :: u32 where "CAPABILITY_VERSION_3 \<equiv> 0x20080522"

definition is_capability_direct_syscall :: "u32 \<Rightarrow> bool" where
  "is_capability_direct_syscall sys_id \<longleftrightarrow> sys_id = SYS_CAPGET \<or> sys_id = SYS_CAPSET"

definition capability_direct_data_size :: "u32 \<Rightarrow> nat" where
  "capability_direct_data_size version =
     (if version = CAPABILITY_VERSION_1 then CAPABILITY_DIRECT_WORD_SIZE
      else if version = CAPABILITY_VERSION_2 \<or> version = CAPABILITY_VERSION_3 then CAPABILITY_DIRECT_DATA_SIZE
      else 0)"

definition capability_direct_probe_ret_for_arg :: "u16 \<Rightarrow> s32" where
  "capability_direct_probe_ret_for_arg arg_index = - (push_bit (unat arg_index) 1 + 1)"

text \<open>The window \<^verbatim>\<open>capability_direct_dynptr_data\<close> asks for.\<close>

definition capability_direct_dynptr_data :: "nat \<Rightarrow> nat" where
  "capability_direct_dynptr_data struct_size =
     (if struct_size = CAPABILITY_DIRECT_HEADER_SIZE then CAPABILITY_DIRECT_HEADER_SIZE
      else if struct_size = CAPABILITY_DIRECT_WORD_SIZE then CAPABILITY_DIRECT_WORD_SIZE
      else CAPABILITY_DIRECT_DATA_SIZE)"

definition capture_capability_struct_tlv_direct :: "kernel \<Rightarrow> nat \<Rightarrow> u16 \<Rightarrow> u16 \<Rightarrow> u64 \<Rightarrow> nat \<Rightarrow> nat bpf" where
  "capture_capability_struct_tlv_direct k payload_offset arg_index dir_flags user_ptr struct_size =
     (if struct_size = 0 then return 0
      else struct_section k payload_offset arg_index dir_flags user_ptr (capability_direct_dynptr_data struct_size)
        struct_size struct_size)"

text \<open>The section size, the version and the probe result; the version stays 0 where it is not read.\<close>

definition capture_capability_header_tlv_direct :: "kernel \<Rightarrow> nat \<Rightarrow> u64 \<Rightarrow> (nat \<times> u32 \<times> s32) bpf" where
  "capture_capability_header_tlv_direct k payload_offset user_ptr = do {
     n \<leftarrow> capture_capability_struct_tlv_direct k payload_offset 0 0 user_ptr CAPABILITY_DIRECT_HEADER_SIZE;
     if n = PAYLOAD_TLV_HEADER_SIZE + CAPABILITY_DIRECT_HEADER_SIZE then do {
       (err, bs) \<leftarrow> bpf_probe_read_user k 4 user_ptr;
       return (n, le_word bs, if err < 0 then capability_direct_probe_ret_for_arg 0 else 0) }
     else if user_ptr \<noteq> 0 then return (n, 0, capability_direct_probe_ret_for_arg 0)
     else return (n, 0, -1) }"

definition emit_capability_enter_event_v2_direct ::
    "kernel \<Rightarrow> u32 \<Rightarrow> u32 \<Rightarrow> u32 \<Rightarrow> sys_enter_ctx \<Rightarrow> u64 \<Rightarrow> unit bpf" where
  "emit_capability_enter_event_v2_direct k pid tid sys_id ctx ts_ns =
     (let payload_capacity = PAYLOAD_TLV_HEADER_SIZE + CAPABILITY_DIRECT_HEADER_SIZE +
            (if sys_id = SYS_CAPSET then PAYLOAD_TLV_HEADER_SIZE + CAPABILITY_DIRECT_DATA_SIZE else 0)
      in emit_enter_tlv_probe k pid tid sys_id (sec_args ctx) ts_ns 0 payload_capacity (\<lambda>payload_offset. do {
           (payload_size, header_version, probe_ret_enter) \<leftarrow>
             capture_capability_header_tlv_direct k payload_offset (arg0 (sec_args ctx));
           n \<leftarrow> (if sys_id = SYS_CAPSET \<and> probe_ret_enter = 0
                 then capture_capability_struct_tlv_direct k (payload_offset + payload_size) 1 0
                   (arg1 (sec_args ctx)) (capability_direct_data_size header_version)
                 else return 0);
           return (payload_size + n, EVENT_FLAG_GENERIC_ENTER, probe_ret_enter) }))"

definition emit_capability_exit_event_v2_direct :: "kernel \<Rightarrow> pending_syscall \<Rightarrow> s64 \<Rightarrow> u64 \<Rightarrow> unit bpf" where
  "emit_capability_exit_event_v2_direct k p ret_value duration =
     emit_exit_sections k p ret_value duration (PAYLOAD_TLV_HEADER_SIZE + CAPABILITY_DIRECT_DATA_SIZE)
       [\<lambda>off. capture_capability_struct_tlv_direct k off 1 PAYLOAD_TLV_FLAG_DIRECTION_OUT (arg1 (ps_args p))
          CAPABILITY_DIRECT_DATA_SIZE]"

section \<open>Accounting\<close>

lemma captures_stat: "captures k off 288 (\<lambda>n. n) (capture_stat_struct_tlv_direct k off p)"
  unfolding capture_stat_struct_tlv_direct_def Let_def
  by (rule captures_struct_section) (simp_all add: stat_direct_struct_size_def)

lemma captures_waitid:
  "32 + n \<le> cap \<Longrightarrow> cap < 2 ^ 32 \<Longrightarrow> captures k off cap (\<lambda>n. n) (capture_waitid_struct_tlv_direct k off arg up n)"
  unfolding capture_waitid_struct_tlv_direct_def Let_def by (rule captures_struct_section)

lemma captures_clamped_bytes:
  "32 + m \<le> cap \<Longrightarrow> cap < 2 ^ 31 \<Longrightarrow>
     captures k off cap fst (truncating_section k off PAYLOAD_TLV_KIND_BYTES arg fl ef ul up
       (copy_user_checked k w (unat (payload_tlv_copy_len v (of_nat m))) up))"
  by (rule captures_truncating_section, rule copies_user_checked, rule copy_len_le)
     (simp_all add: payloadKindFromTLV_def unat_of_nat take_bit_nat_eq_self)

lemma captures_readlink_path: "captures k off 544 (\<lambda>n. n) (capture_readlink_path_tlv_direct k off arg up)"
  unfolding capture_readlink_path_tlv_direct_def using captures_string_section [of 512] by simp

lemma stat_emitters [emitter_intros]:
  "emitter k (emit_stat_struct_exit_event_v2_direct k p ret dur)"
  "emitter k (emit_waitid_exit_event_v2_direct k p ret dur)"
  "emitter k (emit_getcwd_exit_event_v2_direct k p ret dur)"
  "emitter k (emit_readlink_enter_event_v2_direct k pid tid sys_id ctx ts)"
  "emitter k (emit_readlink_exit_event_v2_direct k p ret dur)"
proof -
  show "emitter k (emit_stat_struct_exit_event_v2_direct k p ret dur)"
    unfolding emit_stat_struct_exit_event_v2_direct_def
    by (intro emitter_exit_list fits_rules) (simp_all add: captures_stat)
  show "emitter k (emit_waitid_exit_event_v2_direct k p ret dur)"
    unfolding emit_waitid_exit_event_v2_direct_def
    by (intro emitter_exit_list fits_if fits_nil fits_cons [where a = 160] fits_one captures_waitid) simp_all
  show "emitter k (emit_getcwd_exit_event_v2_direct k p ret dur)"
    unfolding emit_getcwd_exit_event_v2_direct_def capture_getcwd_bytes_tlv_direct_def Let_def
    by (intro emitter_exit_tlv captures_if captures_return captures_clamped_bytes) simp_all
  show "emitter k (emit_readlink_enter_event_v2_direct k pid tid sys_id ctx ts)"
    unfolding emit_readlink_enter_event_v2_direct_def Let_def
    by (intro emitter_enter_list fits_one) (simp_all add: captures_readlink_path)
  show "emitter k (emit_readlink_exit_event_v2_direct k p ret dur)"
    unfolding emit_readlink_exit_event_v2_direct_def capture_readlink_bytes_tlv_direct_def Let_def
    by (intro emitter_exit_tlv captures_if captures_return captures_clamped_bytes) simp_all
qed

lemma captures_fd_array: "captures k off 40 (\<lambda>n. n) (capture_fd_array_tlv_direct k off p fds r)"
  unfolding capture_fd_array_tlv_direct_def
  by (rule captures_copied_section [where m = 8])
     (auto simp: payloadKindFromTLV_def intro!: copies_step copies_if copies_return silent_rules silent_intros
        reports_rules reports_intros above_rules above_intros above_store)

lemma extends_fd_state_sections:
  "extends k off n (length fds * 80) (\<lambda>n. n) (fd_state_sections k off fds n)"
proof (induction fds arbitrary: n)
  case Nil show ?case by (simp add: extends_return)
next
  case (Cons fd fds)
  have "extends k off (n + x) (length fds * 80) (\<lambda>n. n)
      (if x = 0 then return n else fd_state_sections k off fds (n + x))" for x
    by (intro extends_if extends_return Cons.IH) simp
  then show ?case by (simp, intro extends_capture [OF captures_fd_state]) simp_all
qed

lemma captures_fd_state_array: "captures k off 160 (\<lambda>n. n) (capture_fd_state_array_tlvs_direct k off fds)"
  unfolding capture_fd_state_array_tlvs_direct_def
  using extends_fd_state_sections [of k off 0 "[le_word (take 4 fds), le_word (drop 4 fds)]"]
  by (simp add: captures_def)

lemma fd_array_emitter [emitter_intros]: "emitter k (emit_fd_array_exit_event_v2_direct k p ret dur)"
proof -
  have c: "captures k off 200 (\<lambda>n. n) (do {
          payload_size \<leftarrow> capture_fd_array_tlv_direct k off p fds r;
          if r = 0 \<and> payload_size > 0 then do {
            n \<leftarrow> capture_fd_state_array_tlvs_direct k (off + payload_size) fds;
            return (payload_size + n) }
          else return payload_size })" for off r fds
    by (rule captures_then [OF captures_fd_array], simp, rule extends_if,
        rule extends_capture [OF captures_fd_state_array]) (auto intro: extends_return)
  show ?thesis
    unfolding emit_fd_array_exit_event_v2_direct_def read_fd_array_values_direct_def
    by (rule c emitter_exit_sections captures_if captures_return captures_case_prod captures_pre_any
        silent_rules silent_intros reports_rules reports_intros above_rules above_intros | simp)+
qed

lemma captures_file_attr_base: "captures k off 56 (\<lambda>n. n) (capture_file_attr_base_tlv_direct k off arg up raw fl)"
  unfolding capture_file_attr_base_tlv_direct_def
  by (intro captures_if captures_return captures_copied_section copies_user_checked)
     (auto simp: payloadKindFromTLV_def)

lemma flagged_file_attr_extension:
  "flagged k 288 (\<lambda>off ef. capture_file_attr_extension_tlv_direct k off arg up raw ef fl)"
proof -
  let ?n = "unat (payload_tlv_copy_len (raw - 24) 256)"
  have "copies k off 256 (copy_user k 256 ?n ?n q off)" for q off
    using copies_user [OF copy_len_le [of "raw - 24" 256], of k off 256 ?n q] by simp
  then show ?thesis
    unfolding capture_file_attr_extension_tlv_direct_def Let_def
    by (intro flagged_cond flagged_none flagged_flagged_section [where m = 256] copies_if copies_return)
       (simp_all add: payloadKindFromTLV_def)
qed

lemma flagged_file_attr: "flagged k 344 (\<lambda>off ef. capture_file_attr_tlvs_direct k off arg up raw ef fl)"
  unfolding flagged_def
proof (intro allI conjI impI)
  fix off ef
  have x: "captures k off 288 fst (capture_file_attr_extension_tlv_direct k off arg up raw ef fl)" for off
    using flagged_file_attr_extension by (simp add: flagged_def)
  show "captures k off 344 fst (capture_file_attr_tlvs_direct k off arg up raw ef fl)"
    unfolding capture_file_attr_tlvs_direct_def
    by (intro captures_if captures_return captures_then [OF captures_file_attr_base] extends_if extends_return
        extends_capture_flags [OF x]) simp_all
  assume ef: "\<not> has_flag ef EVENT_FLAG_COMPACT_ENTER"
  have "gives (capture_file_attr_extension_tlv_direct k off arg up raw ef fl)
      (\<lambda>(n, f). \<not> has_flag f EVENT_FLAG_COMPACT_ENTER)" for off
    using flagged_file_attr_extension ef by (simp add: flagged_def)
  note x = gives_bind [OF this]
  show "gives (capture_file_attr_tlvs_direct k off arg up raw ef fl) (\<lambda>(n, f). \<not> has_flag f EVENT_FLAG_COMPACT_ENTER)"
    unfolding capture_file_attr_tlvs_direct_def using ef
    by (intro gives_if gives_return gives_bind_any x) (auto intro: gives_return)
qed

lemma captures_file_attr: "captures k off 344 fst (capture_file_attr_tlvs_direct k off arg up raw ef fl)"
  using flagged_file_attr by (simp add: flagged_def)

lemma captures_misc: "captures k off 422 (\<lambda>n. n) (capture_misc_struct_tlv_direct k off sys_id arg up fl)"
  unfolding capture_misc_struct_tlv_direct_def Let_def
  by (rule captures_struct_section) (simp_all add: misc_struct_direct_size_def)

lemma captures_signal:
  "32 + n \<le> cap \<Longrightarrow> cap < 2 ^ 32 \<Longrightarrow> captures k off cap (\<lambda>n. n) (capture_signal_struct_tlv_direct k off arg up n fl)"
  unfolding capture_signal_struct_tlv_direct_def Let_def by (rule captures_struct_section)

lemma captures_word: "captures k off 40 (\<lambda>n. n) (capture_small_struct_word_tlv_direct k off arg up fl)"
  unfolding capture_small_struct_word_tlv_direct_def by (rule captures_struct_section) simp_all

lemma captures_cachestat:
  "32 + n \<le> cap \<Longrightarrow> cap < 2 ^ 32 \<Longrightarrow> captures k off cap (\<lambda>n. n) (capture_cachestat_struct_tlv_direct k off arg fl up n)"
  unfolding capture_cachestat_struct_tlv_direct_def by (rule captures_struct_section)

lemma captures_capability:
  "32 + n \<le> cap \<Longrightarrow> cap < 2 ^ 32 \<Longrightarrow> captures k off cap (\<lambda>n. n) (capture_capability_struct_tlv_direct k off arg fl up n)"
  unfolding capture_capability_struct_tlv_direct_def by (intro captures_if captures_return captures_struct_section) simp_all

lemma misc_emitters [emitter_intros]:
  "emitter k (emit_misc_struct_enter_event_v2_direct k pid tid sys_id ctx ts)"
  "emitter k (emit_misc_struct_exit_event_v2_direct k p ret dur)"
proof -
  show "emitter k (emit_misc_struct_enter_event_v2_direct k pid tid sys_id ctx ts)"
    unfolding emit_misc_struct_enter_event_v2_direct_def emit_misc_struct_enter_event_v2_direct_with_arg_def
    by (intro emitter_rules emitter_enter_list fits_one) (simp_all add: captures_misc)
  show "emitter k (emit_misc_struct_exit_event_v2_direct k p ret dur)"
    unfolding emit_misc_struct_exit_event_v2_direct_def Let_def
    by (intro emitter_exit_tlv captures_if captures_with_flags captures_mono [OF captures_file_attr])
       (simp_all add: captures_misc)
qed

lemma signal_emitters [emitter_intros]:
  "emitter k (emit_signal_enter_event_v2_direct k pid tid sys_id ctx ts pre)"
  "emitter k (emit_signal_sigsuspend_marker_event_v2_direct k pid tid sys_id ctx ts)"
  "emitter k (emit_signal_exit_event_v2_direct k p ret dur)"
proof -
  show e: "emitter k (emit_signal_enter_event_v2_direct k pid tid sys_id ctx ts pre)" for pre
    unfolding emit_signal_enter_event_v2_direct_def Let_def
    by (intro emitter_enter_sections captures_signal) (simp_all add: signal_direct_struct_size_def has_flag_def)
  then show "emitter k (emit_signal_sigsuspend_marker_event_v2_direct k pid tid sys_id ctx ts)"
    by (simp add: emit_signal_sigsuspend_marker_event_v2_direct_def)
  show "emitter k (emit_signal_exit_event_v2_direct k p ret dur)"
    unfolding emit_signal_exit_event_v2_direct_def
    by (intro emitter_exit_list fits_rules captures_signal) (simp_all add: signal_direct_struct_size_def)
qed

lemma small_struct_emitters [emitter_intros]:
  "emitter k (emit_small_struct_enter_event_v2_direct k pid tid sys_id ctx ts)"
  "emitter k (emit_small_struct_exit_event_v2_direct k p ret dur)"
  unfolding emit_small_struct_enter_event_v2_direct_def emit_small_struct_exit_event_v2_direct_def Let_def
    emit_small_struct_enter_word_event_v2_direct_def emit_copy_file_range_enter_event_v2_direct_def
  by (intro emitter_rules emitter_exit_list emitter_enter_list fits_if fits_nil
      fits_cons [where a = 40, OF captures_word]; simp)+

lemma emitter_fd_paths_and_section:
  assumes "\<And>off args. captures k off cap (\<lambda>n. n) (capture off args)" "cap < 2 ^ 30"
  shows "emitter k (emit_fd_paths_and_section k pid tid sys_id ctx cfg ts cap capture)"
proof -
  have c: "fd_path_payload_capacity sys_id \<le> 1184"
    using arg_count_le [of sys_id] by (simp add: fd_path_payload_capacity_def)
  let ?c = "case cfg of None \<Rightarrow> 0 | Some c \<Rightarrow> if has_flag c CONFIG_FD_STATE then fd_path_payload_capacity sys_id else 0"
  have b: "?c \<le> 1184" using c by (auto split: option.split)
  have p: "captures k off ?c (\<lambda>n. n) (if ?c > 0 then capture_fd_paths_tlv_direct k off sys_id args else return 0)" for off args
    by (auto split: option.split simp: captures_fd_paths captures_return)
  have e: "emitter k (emit_enter_sections k pid tid sys_id args ts (?c + cap)
      [\<lambda>off. if ?c > 0 then capture_fd_paths_tlv_direct k off sys_id args else return 0,
       \<lambda>off. capture off args])" for args
    by (intro emitter_enter_list fits_cons [OF p] fits_one) (use b assms in simp_all)
  show ?thesis
    unfolding emit_fd_paths_and_section_def Let_def
    by (rule e emitter_rules | rule silent_emitter, rule silent_intros, rule reports_intros)+
qed

lemma cachestat_emitters [emitter_intros]:
  "emitter k (emit_cachestat_enter_event_v2_direct k pid tid sys_id ctx cfg ts)"
  "emitter k (emit_cachestat_exit_event_v2_direct k p ret dur)"
  unfolding emit_cachestat_enter_event_v2_direct_def emit_cachestat_exit_event_v2_direct_def
  by (intro emitter_fd_paths_and_section emitter_exit_list fits_one captures_cachestat; simp)+

lemma captures_capability_header:
  "captures k off 40 fst (capture_capability_header_tlv_direct k off up)"
proof -
  have "extends k off n 0 fst (do { (err, bs) \<leftarrow> bpf_probe_read_user k 4 up;
      return (n, le_word bs, if err < 0 then capability_direct_probe_ret_for_arg 0 else 0) })" for n
    by (rule extends_pre [OF _ _ _ gives_any]) (auto intro!: silent_intros reports_intros above_intros extends_return)
  then show ?thesis
    unfolding capture_capability_header_tlv_direct_def
    by (intro captures_then [where a = 40 and sy = "\<lambda>n. n"] captures_capability extends_if extends_return) simp_all
qed

lemma capability_emitters [emitter_intros]:
  "emitter k (emit_capability_enter_event_v2_direct k pid tid sys_id ctx ts)"
  "emitter k (emit_capability_exit_event_v2_direct k p ret dur)"
proof -
  let ?cap = "32 + 8 + (if sys_id = SYS_CAPSET then 32 + 24 else 0)"
  have d: "captures k off (if sys_id = SYS_CAPSET then 56 else 0) (\<lambda>n. n)
     (if sys_id = SYS_CAPSET \<and> pr = 0 then capture_capability_struct_tlv_direct k off 1 0 up (capability_direct_data_size v)
      else return 0)" for off up v and pr :: s32
    by (auto intro!: captures_return captures_capability simp: capability_direct_data_size_def)
  show "emitter k (emit_capability_enter_event_v2_direct k pid tid sys_id ctx ts)"
    unfolding emit_capability_enter_event_v2_direct_def Let_def
  proof (rule emitter_enter_tlv_probe, goal_cases)
    case 1
    show ?case
      by (rule captures_then [OF captures_capability_header], simp, simp only: split_beta,
          rule extends_capture [OF d]) (auto intro: extends_return)
  next
    case 3
    show ?case
      by (rule gives_bind_any gives_case_prod gives_return | simp add: has_flag_def)+
  qed simp
  show "emitter k (emit_capability_exit_event_v2_direct k p ret dur)"
    unfolding emit_capability_exit_event_v2_direct_def
    by (intro emitter_exit_list fits_one captures_capability) simp_all
qed

end
