(* ===== verification/Time_Events.thy ===== *)
theory Time_Events
  imports Struct_Events
begin

text \<open>
  The families that copy times: \<^verbatim>\<open>bpf/syscall_{time,time_emit,sleep,timex,file_time}_direct_event_v2.h\<close>.
\<close>

section \<open>Clocks and timers\<close>

abbreviation (input) TIME_DIRECT_TIMESPEC_SIZE :: nat where "TIME_DIRECT_TIMESPEC_SIZE \<equiv> 16"
abbreviation (input) TIME_DIRECT_TIME_T_SIZE :: nat where "TIME_DIRECT_TIME_T_SIZE \<equiv> 8"
abbreviation (input) TIME_DIRECT_TIMEZONE_SIZE :: nat where "TIME_DIRECT_TIMEZONE_SIZE \<equiv> 8"
abbreviation (input) TIME_DIRECT_ITIMERVAL_SIZE :: nat where "TIME_DIRECT_ITIMERVAL_SIZE \<equiv> 32"
abbreviation (input) TIME_DIRECT_TIMEX_SIZE :: nat where "TIME_DIRECT_TIMEX_SIZE \<equiv> 208"

definition is_clock_time_struct_direct_syscall :: "u32 \<Rightarrow> bool" where
  "is_clock_time_struct_direct_syscall sys_id \<longleftrightarrow> sys_id = SYS_CLOCK_GETTIME \<or> sys_id = SYS_CLOCK_GETRES"

definition is_gettimeofday_direct_syscall :: "u32 \<Rightarrow> bool" where
  "is_gettimeofday_direct_syscall sys_id \<longleftrightarrow> sys_id = SYS_GETTIMEOFDAY"

definition is_time_direct_syscall :: "u32 \<Rightarrow> bool" where
  "is_time_direct_syscall sys_id \<longleftrightarrow> sys_id = SYS_TIME"

definition is_settimeofday_direct_syscall :: "u32 \<Rightarrow> bool" where
  "is_settimeofday_direct_syscall sys_id \<longleftrightarrow> sys_id = SYS_SETTIMEOFDAY"

definition is_clock_time_enter_direct_syscall :: "u32 \<Rightarrow> bool" where
  "is_clock_time_enter_direct_syscall sys_id \<longleftrightarrow> sys_id = SYS_CLOCK_SETTIME"

definition is_time_struct_enter_direct_syscall :: "u32 \<Rightarrow> bool" where
  "is_time_struct_enter_direct_syscall sys_id \<longleftrightarrow>
     is_clock_time_enter_direct_syscall sys_id \<or> is_settimeofday_direct_syscall sys_id"

definition is_itimer_direct_syscall :: "u32 \<Rightarrow> bool" where
  "is_itimer_direct_syscall sys_id \<longleftrightarrow> sys_id = SYS_GETITIMER \<or> sys_id = SYS_SETITIMER"

definition is_itimer_enter_direct_syscall :: "u32 \<Rightarrow> bool" where
  "is_itimer_enter_direct_syscall sys_id \<longleftrightarrow> sys_id = SYS_SETITIMER"

definition is_itimer_exit_direct_syscall :: "u32 \<Rightarrow> bool" where
  "is_itimer_exit_direct_syscall sys_id \<longleftrightarrow> sys_id = SYS_GETITIMER \<or> sys_id = SYS_SETITIMER"

definition is_timex_exit_direct_syscall :: "u32 \<Rightarrow> bool" where
  "is_timex_exit_direct_syscall sys_id \<longleftrightarrow> sys_id = SYS_ADJTIMEX \<or> sys_id = SYS_CLOCK_ADJTIME"

definition is_sleep_direct_syscall :: "u32 \<Rightarrow> bool" where
  "is_sleep_direct_syscall sys_id \<longleftrightarrow> sys_id = SYS_NANOSLEEP \<or> sys_id = SYS_CLOCK_NANOSLEEP"

definition is_futex_direct_syscall :: "u32 \<Rightarrow> bool" where
  "is_futex_direct_syscall sys_id \<longleftrightarrow>
     sys_id \<in> set [SYS_FUTEX, SYS_FUTEX_WAIT, SYS_FUTEX_WAITV, SYS_FUTEX_REQUEUE]"

definition capture_time_struct_tlv_direct_from_ptr ::
    "kernel \<Rightarrow> nat \<Rightarrow> u16 \<Rightarrow> u64 \<Rightarrow> nat \<Rightarrow> u16 \<Rightarrow> nat bpf" where
  "capture_time_struct_tlv_direct_from_ptr k payload_offset arg_index user_ptr struct_size dir_flags =
     (let window = (if struct_size = TIME_DIRECT_TIMEZONE_SIZE then TIME_DIRECT_TIMEZONE_SIZE
                    else if struct_size = TIME_DIRECT_ITIMERVAL_SIZE then TIME_DIRECT_ITIMERVAL_SIZE
                    else if struct_size = TIME_DIRECT_TIMEX_SIZE then TIME_DIRECT_TIMEX_SIZE
                    else TIME_DIRECT_TIMESPEC_SIZE)
      in if struct_size = 0 then return 0
         else struct_section k payload_offset arg_index dir_flags user_ptr window struct_size struct_size)"

definition capture_time_struct_tlv_direct ::
    "kernel \<Rightarrow> nat \<Rightarrow> pending_syscall \<Rightarrow> nat \<Rightarrow> nat \<Rightarrow> nat bpf" where
  "capture_time_struct_tlv_direct k payload_offset p arg_index struct_size =
     (if arg_index \<ge> 6 then return 0
      else capture_time_struct_tlv_direct_from_ptr k payload_offset (of_nat arg_index)
        (arg_at (ps_args p) arg_index) struct_size PAYLOAD_TLV_FLAG_DIRECTION_OUT)"

definition emit_time_exit_event_v2_direct :: "kernel \<Rightarrow> pending_syscall \<Rightarrow> s64 \<Rightarrow> u64 \<Rightarrow> unit bpf" where
  "emit_time_exit_event_v2_direct k p ret_value duration =
     emit_exit_sections k p ret_value duration (PAYLOAD_TLV_HEADER_SIZE + TIME_DIRECT_TIME_T_SIZE)
       (if 0 \<le> sint ret_value then [\<lambda>off. capture_time_struct_tlv_direct k off p 0 TIME_DIRECT_TIME_T_SIZE] else [])"

definition emit_time_struct_exit_event_v2_direct :: "kernel \<Rightarrow> pending_syscall \<Rightarrow> s64 \<Rightarrow> u64 \<Rightarrow> unit bpf" where
  "emit_time_struct_exit_event_v2_direct k p ret_value duration =
     emit_exit_sections k p ret_value duration (PAYLOAD_TLV_HEADER_SIZE + TIME_DIRECT_TIMESPEC_SIZE)
       (if 0 \<le> sint ret_value then [\<lambda>off. capture_time_struct_tlv_direct k off p 1 TIME_DIRECT_TIMESPEC_SIZE] else [])"

definition emit_time_struct_enter_event_v2_direct ::
    "kernel \<Rightarrow> u32 \<Rightarrow> u32 \<Rightarrow> u32 \<Rightarrow> sys_enter_ctx \<Rightarrow> u64 \<Rightarrow> unit bpf" where
  "emit_time_struct_enter_event_v2_direct k pid tid sys_id ctx ts_ns =
     (let args = sec_args ctx;
          payload_capacity =
            (if sys_id = SYS_SETTIMEOFDAY
             then PAYLOAD_TLV_HEADER_SIZE + TIME_DIRECT_TIMESPEC_SIZE + PAYLOAD_TLV_HEADER_SIZE + TIME_DIRECT_TIMEZONE_SIZE
             else PAYLOAD_TLV_HEADER_SIZE + TIME_DIRECT_TIMESPEC_SIZE)
      in emit_enter_sections k pid tid sys_id args ts_ns payload_capacity
           (if sys_id = SYS_SETTIMEOFDAY
            then [\<lambda>off. capture_time_struct_tlv_direct_from_ptr k off 0 (arg0 args) TIME_DIRECT_TIMESPEC_SIZE 0,
                  \<lambda>off. capture_time_struct_tlv_direct_from_ptr k off 1 (arg1 args) TIME_DIRECT_TIMEZONE_SIZE 0]
            else [\<lambda>off. capture_time_struct_tlv_direct_from_ptr k off 1 (arg1 args) TIME_DIRECT_TIMESPEC_SIZE 0]))"

definition emit_itimer_enter_event_v2_direct ::
    "kernel \<Rightarrow> u32 \<Rightarrow> u32 \<Rightarrow> u32 \<Rightarrow> sys_enter_ctx \<Rightarrow> u64 \<Rightarrow> unit bpf" where
  "emit_itimer_enter_event_v2_direct k pid tid sys_id ctx ts_ns =
     emit_enter_sections k pid tid sys_id (sec_args ctx) ts_ns (PAYLOAD_TLV_HEADER_SIZE + TIME_DIRECT_ITIMERVAL_SIZE)
       [\<lambda>off. capture_time_struct_tlv_direct_from_ptr k off 1 (arg1 (sec_args ctx)) TIME_DIRECT_ITIMERVAL_SIZE 0]"

definition emit_itimer_exit_event_v2_direct :: "kernel \<Rightarrow> pending_syscall \<Rightarrow> s64 \<Rightarrow> u64 \<Rightarrow> unit bpf" where
  "emit_itimer_exit_event_v2_direct k p ret_value duration =
     emit_exit_sections k p ret_value duration (PAYLOAD_TLV_HEADER_SIZE + TIME_DIRECT_ITIMERVAL_SIZE)
       (if 0 \<le> sint ret_value
        then if ps_sys_id p = SYS_SETITIMER
             then [\<lambda>off. capture_time_struct_tlv_direct k off p 2 TIME_DIRECT_ITIMERVAL_SIZE]
             else [\<lambda>off. capture_time_struct_tlv_direct k off p 1 TIME_DIRECT_ITIMERVAL_SIZE]
        else [])"

definition emit_gettimeofday_exit_event_v2_direct :: "kernel \<Rightarrow> pending_syscall \<Rightarrow> s64 \<Rightarrow> u64 \<Rightarrow> unit bpf" where
  "emit_gettimeofday_exit_event_v2_direct k p ret_value duration =
     emit_exit_sections k p ret_value duration
       (PAYLOAD_TLV_HEADER_SIZE + TIME_DIRECT_TIMESPEC_SIZE + PAYLOAD_TLV_HEADER_SIZE + TIME_DIRECT_TIMEZONE_SIZE)
       (if 0 \<le> sint ret_value
        then [\<lambda>off. capture_time_struct_tlv_direct k off p 0 TIME_DIRECT_TIMESPEC_SIZE,
              \<lambda>off. capture_time_struct_tlv_direct k off p 1 TIME_DIRECT_TIMEZONE_SIZE]
        else [])"

section \<open>adjtimex\<close>

definition timex_payload_arg_index :: "u32 \<Rightarrow> nat" where
  "timex_payload_arg_index sys_id = (if sys_id = SYS_CLOCK_ADJTIME then 1 else 0)"

definition emit_timex_exit_event_v2_direct :: "kernel \<Rightarrow> pending_syscall \<Rightarrow> s64 \<Rightarrow> u64 \<Rightarrow> unit bpf" where
  "emit_timex_exit_event_v2_direct k p ret_value duration =
     emit_exit_sections k p ret_value duration (PAYLOAD_TLV_HEADER_SIZE + TIME_DIRECT_TIMEX_SIZE)
       (if 0 \<le> sint ret_value
        then [\<lambda>off. capture_time_struct_tlv_direct k off p (timex_payload_arg_index (ps_sys_id p)) TIME_DIRECT_TIMEX_SIZE]
        else [])"

section \<open>Sleeping\<close>

definition sleep_request_arg_index :: "u32 \<Rightarrow> u16" where
  "sleep_request_arg_index sys_id = (if sys_id = SYS_CLOCK_NANOSLEEP then 2 else 0)"

definition sleep_remaining_arg_index :: "u32 \<Rightarrow> u16" where
  "sleep_remaining_arg_index sys_id = (if sys_id = SYS_CLOCK_NANOSLEEP then 3 else 1)"

definition is_sleep_interrupted_ret :: "s64 \<Rightarrow> bool" where
  "is_sleep_interrupted_ret ret_value \<longleftrightarrow> ret_value = -516 \<or> ret_value = -4"

definition should_emit_nanosleep_suspended_marker :: "kernel \<Rightarrow> u32 \<Rightarrow> u32 \<Rightarrow> bool bpf" where
  "should_emit_nanosleep_suspended_marker k tid pid =
     (if tid \<noteq> pid then return False
      else if k_task k = 0 then return False
      else do {
        nr_threads \<leftarrow> core_read k ''signal.nr_threads'' (k_task k);
        return ((ucast nr_threads :: u32) > 1) })"

definition emit_sleep_enter_event_v2_direct ::
    "kernel \<Rightarrow> u32 \<Rightarrow> u32 \<Rightarrow> u32 \<Rightarrow> sys_enter_ctx \<Rightarrow> u64 \<Rightarrow> u16 \<Rightarrow> u64 \<Rightarrow> s32 \<Rightarrow> unit bpf" where
  "emit_sleep_enter_event_v2_direct k pid tid sys_id ctx ts_ns request_arg_index request_user_ptr probe_ret_enter =
     emit_enter_tlv k pid tid sys_id (sec_args ctx) ts_ns 0 probe_ret_enter
       (PAYLOAD_TLV_HEADER_SIZE + TIME_DIRECT_TIMESPEC_SIZE) (\<lambda>payload_offset.
       with_flags EVENT_FLAG_GENERIC_ENTER (capture_time_struct_tlv_direct_from_ptr k payload_offset
         request_arg_index request_user_ptr TIME_DIRECT_TIMESPEC_SIZE 0))"

definition sleep_remaining_user_ptr :: "pending_syscall \<Rightarrow> u64" where
  "sleep_remaining_user_ptr p =
     (if ps_sys_id p = SYS_CLOCK_NANOSLEEP then arg3 (ps_args p) else arg1 (ps_args p))"

definition emit_sleep_exit_event_v2_direct :: "kernel \<Rightarrow> pending_syscall \<Rightarrow> s64 \<Rightarrow> u64 \<Rightarrow> unit bpf" where
  "emit_sleep_exit_event_v2_direct k p ret_value duration =
     emit_exit_sections k p ret_value duration (PAYLOAD_TLV_HEADER_SIZE + TIME_DIRECT_TIMESPEC_SIZE)
       (if is_sleep_interrupted_ret ret_value
        then [\<lambda>off. capture_time_struct_tlv_direct_from_ptr k off (sleep_remaining_arg_index (ps_sys_id p))
                (sleep_remaining_user_ptr p) TIME_DIRECT_TIMESPEC_SIZE PAYLOAD_TLV_FLAG_DIRECTION_OUT]
        else [])"

section \<open>File times\<close>

abbreviation (input) FILE_TIME_DIRECT_UTIMBUF_SIZE :: nat where "FILE_TIME_DIRECT_UTIMBUF_SIZE \<equiv> 16"
abbreviation (input) FILE_TIME_DIRECT_TIMEVALS_SIZE :: nat where "FILE_TIME_DIRECT_TIMEVALS_SIZE \<equiv> 32"
abbreviation (input) FILE_TIME_DIRECT_PAYLOAD_MAX :: nat where
  "FILE_TIME_DIRECT_PAYLOAD_MAX \<equiv>
     PAYLOAD_TLV_HEADER_SIZE + PATH_STAT_DIRECT_PATH_MAX + PAYLOAD_TLV_HEADER_SIZE + FILE_TIME_DIRECT_TIMEVALS_SIZE"

definition is_file_time_direct_syscall :: "u32 \<Rightarrow> bool" where
  "is_file_time_direct_syscall sys_id \<longleftrightarrow>
     sys_id \<in> set [SYS_UTIME, SYS_UTIMES, SYS_FUTIMESAT, SYS_UTIMENSAT]"

definition file_time_direct_value_size :: "u32 \<Rightarrow> nat" where
  "file_time_direct_value_size sys_id =
     (if sys_id = SYS_UTIME then FILE_TIME_DIRECT_UTIMBUF_SIZE else FILE_TIME_DIRECT_TIMEVALS_SIZE)"

definition capture_file_time_value_tlv_direct :: "kernel \<Rightarrow> nat \<Rightarrow> u16 \<Rightarrow> u64 \<Rightarrow> nat \<Rightarrow> nat bpf" where
  "capture_file_time_value_tlv_direct k payload_offset arg_index user_ptr value_size =
     (let window = (if value_size = FILE_TIME_DIRECT_UTIMBUF_SIZE then FILE_TIME_DIRECT_UTIMBUF_SIZE
                    else FILE_TIME_DIRECT_TIMEVALS_SIZE)
      in struct_section k payload_offset arg_index 0 user_ptr window window value_size)"

definition capture_file_time_payloads_tlv_direct ::
    "kernel \<Rightarrow> nat \<Rightarrow> u16 \<Rightarrow> u64 \<Rightarrow> u16 \<Rightarrow> u64 \<Rightarrow> nat \<Rightarrow> nat bpf" where
  "capture_file_time_payloads_tlv_direct k payload_offset path_arg path_ptr value_arg value_ptr value_size =
     sections payload_offset
       [\<lambda>off. capture_path_stat_path_tlv_direct k off path_arg path_ptr,
        \<lambda>off. capture_file_time_value_tlv_direct k off value_arg value_ptr value_size]"

definition emit_file_time_enter_event_v2_direct ::
    "kernel \<Rightarrow> u32 \<Rightarrow> u32 \<Rightarrow> u32 \<Rightarrow> sys_enter_ctx \<Rightarrow> u64 \<Rightarrow> unit bpf" where
  "emit_file_time_enter_event_v2_direct k pid tid sys_id ctx ts_ns =
     (let args = sec_args ctx;
          at = (sys_id = SYS_FUTIMESAT \<or> sys_id = SYS_UTIMENSAT);
          path_arg = (if at then 1 else 0); path_ptr = (if at then arg1 args else arg0 args);
          value_arg = (if at then 2 else 1); value_ptr = (if at then arg2 args else arg1 args)
      in emit_enter_sections k pid tid sys_id args ts_ns FILE_TIME_DIRECT_PAYLOAD_MAX
           [\<lambda>off. capture_file_time_payloads_tlv_direct k off path_arg path_ptr value_arg value_ptr
              (file_time_direct_value_size sys_id)])"

definition is_time_struct_direct_syscall :: "u32 \<Rightarrow> bool" where
  "is_time_struct_direct_syscall sys_id \<longleftrightarrow>
     is_clock_time_struct_direct_syscall sys_id \<or> is_time_direct_syscall sys_id \<or>
     is_gettimeofday_direct_syscall sys_id \<or> is_time_struct_enter_direct_syscall sys_id \<or>
     is_file_time_direct_syscall sys_id \<or> is_itimer_direct_syscall sys_id \<or>
     is_timex_exit_direct_syscall sys_id \<or> is_sleep_direct_syscall sys_id"

section \<open>Accounting\<close>

lemma captures_time:
  "32 + n \<le> cap \<Longrightarrow> cap < 2 ^ 32 \<Longrightarrow>
     captures k off cap (\<lambda>n. n) (capture_time_struct_tlv_direct_from_ptr k off arg up n fl)"
  unfolding capture_time_struct_tlv_direct_from_ptr_def Let_def
  by (intro captures_if captures_return captures_struct_section) simp_all

lemma captures_time_arg:
  "32 + n \<le> cap \<Longrightarrow> cap < 2 ^ 32 \<Longrightarrow> captures k off cap (\<lambda>n. n) (capture_time_struct_tlv_direct k off p arg n)"
  unfolding capture_time_struct_tlv_direct_def
  by (intro captures_if captures_return captures_time) simp_all

lemma time_emitters [emitter_intros]:
  "emitter k (emit_time_exit_event_v2_direct k p ret dur)"
  "emitter k (emit_time_struct_exit_event_v2_direct k p ret dur)"
  "emitter k (emit_itimer_enter_event_v2_direct k pid tid sys_id ctx ts)"
  "emitter k (emit_itimer_exit_event_v2_direct k p ret dur)"
  "emitter k (emit_timex_exit_event_v2_direct k p ret dur)"
  "emitter k (emit_sleep_exit_event_v2_direct k p ret dur)"
  unfolding emit_time_exit_event_v2_direct_def emit_time_struct_exit_event_v2_direct_def
    emit_itimer_enter_event_v2_direct_def emit_itimer_exit_event_v2_direct_def emit_timex_exit_event_v2_direct_def
    emit_sleep_exit_event_v2_direct_def
  by (intro emitter_exit_list emitter_enter_list fits_rules captures_time captures_time_arg; simp)+

lemma time_pair_emitters [emitter_intros]:
  "emitter k (emit_gettimeofday_exit_event_v2_direct k p ret dur)"
  "emitter k (emit_time_struct_enter_event_v2_direct k pid tid sys_id ctx ts)"
proof -
  show "emitter k (emit_gettimeofday_exit_event_v2_direct k p ret dur)"
    unfolding emit_gettimeofday_exit_event_v2_direct_def
    by (intro emitter_exit_list fits_if fits_nil fits_cons [where a = 48] fits_one captures_time_arg) simp_all
  show "emitter k (emit_time_struct_enter_event_v2_direct k pid tid sys_id ctx ts)"
    unfolding emit_time_struct_enter_event_v2_direct_def Let_def
    by (cases "sys_id = SYS_SETTIMEOFDAY")
       (auto intro!: emitter_enter_list fits_cons [where a = 48] fits_one captures_time)
qed

lemma sleep_enter_emitter [emitter_intros]:
  "emitter k (emit_sleep_enter_event_v2_direct k pid tid sys_id ctx ts arg up pre)"
  unfolding emit_sleep_enter_event_v2_direct_def
  by (intro emitter_enter_sections captures_time) (simp_all add: has_flag_def)

lemma file_time_emitter [emitter_intros]:
  "emitter k (emit_file_time_enter_event_v2_direct k pid tid sys_id ctx ts)"
proof -
  have v: "captures k off 64 (\<lambda>n. n) (capture_file_time_value_tlv_direct k off arg up (file_time_direct_value_size sys_id))"
    for off arg up
    unfolding capture_file_time_value_tlv_direct_def Let_def
    by (rule captures_struct_section) (simp_all add: file_time_direct_value_size_def)
  have "fits k 608 [\<lambda>off. capture_path_stat_path_tlv_direct k off a p,
     \<lambda>off. capture_file_time_value_tlv_direct k off b q (file_time_direct_value_size sys_id)]" for a p b q
    by (rule fits_cons [where a = 544], unfold capture_path_stat_path_tlv_direct_def, rule captures_string_512)
       (auto intro: fits_one v)
  then show ?thesis
    unfolding emit_file_time_enter_event_v2_direct_def capture_file_time_payloads_tlv_direct_def Let_def
    by (intro emitter_enter_list fits_one) (simp_all add: fits_def)
qed

end
