(* ===== verification/Control_Events.thy ===== *)
theory Control_Events
  imports Time_Events
begin

text \<open>
  The families of process and descriptor control:
  \<^verbatim>\<open>bpf/syscall_{memfd,prctl,prctl_capture,prctl_emit,clone3,fcntl,ioctl,futex,futex_capture,futex_emit}_direct_event_v2.h\<close>.
\<close>

section \<open>memfd\<close>

abbreviation (input) MEMFD_CREATE_DIRECT_NAME_MAX :: nat where "MEMFD_CREATE_DIRECT_NAME_MAX \<equiv> 250"

definition is_memfd_create_direct_syscall :: "u32 \<Rightarrow> bool" where
  "is_memfd_create_direct_syscall sys_id \<longleftrightarrow> sys_id = SYS_MEMFD_CREATE"

text \<open>A name that does not end within the window, or cannot be read as a string, is read as bytes.\<close>

definition capture_memfd_create_name_tlv_direct :: "kernel \<Rightarrow> nat \<Rightarrow> u64 \<Rightarrow> nat bpf" where
  "capture_memfd_create_name_tlv_direct k payload_offset user_ptr =
     (if user_ptr = 0 then return 0
      else sized_section k payload_offset PAYLOAD_TLV_KIND_STRING 0 0 user_ptr (\<lambda>data_offset. do {
        payload_data \<leftarrow> bpf_dynptr_data data_offset MEMFD_CREATE_DIRECT_NAME_MAX;
        if \<not> payload_data then do { record_ringbuf_copy_fail k; return (0, -1) }
        else do {
          (n, bs) \<leftarrow> bpf_probe_read_user_str k MEMFD_CREATE_DIRECT_NAME_MAX user_ptr;
          mem_store data_offset bs;
          if n > 0 \<and> n < int MEMFD_CREATE_DIRECT_NAME_MAX then return (nat n, 0)
          else do {
            (err, bs) \<leftarrow> bpf_probe_read_user k MEMFD_CREATE_DIRECT_NAME_MAX user_ptr;
            mem_store data_offset bs;
            if err < 0 then return (0, of_int err) else return (MEMFD_CREATE_DIRECT_NAME_MAX, 0) } } }))"

definition emit_memfd_create_enter_event_v2_direct ::
    "kernel \<Rightarrow> u32 \<Rightarrow> u32 \<Rightarrow> u32 \<Rightarrow> sys_enter_ctx \<Rightarrow> u64 \<Rightarrow> unit bpf" where
  "emit_memfd_create_enter_event_v2_direct k pid tid sys_id ctx ts_ns =
     emit_enter_sections k pid tid sys_id (sec_args ctx) ts_ns (PAYLOAD_TLV_HEADER_SIZE + MEMFD_CREATE_DIRECT_NAME_MAX)
       [\<lambda>off. capture_memfd_create_name_tlv_direct k off (arg0 (sec_args ctx))]"

section \<open>prctl\<close>

abbreviation (input) PRCTL_DIRECT_NAME_SIZE :: nat where "PRCTL_DIRECT_NAME_SIZE \<equiv> 16"
abbreviation (input) PRCTL_DIRECT_UINT32_SIZE :: nat where "PRCTL_DIRECT_UINT32_SIZE \<equiv> 4"
abbreviation (input) PRCTL_OPTION_GET_PDEATHSIG :: u64 where "PRCTL_OPTION_GET_PDEATHSIG \<equiv> 1"
abbreviation (input) PRCTL_OPTION_SET_NAME :: u64 where "PRCTL_OPTION_SET_NAME \<equiv> 15"
abbreviation (input) PRCTL_OPTION_GET_NAME :: u64 where "PRCTL_OPTION_GET_NAME \<equiv> 16"

definition is_prctl_direct_syscall :: "u32 \<Rightarrow> bool" where
  "is_prctl_direct_syscall sys_id \<longleftrightarrow> sys_id = SYS_PRCTL"

definition is_prctl_set_name_option :: "u64 \<Rightarrow> bool" where
  "is_prctl_set_name_option opt \<longleftrightarrow> opt = PRCTL_OPTION_SET_NAME"

definition is_prctl_get_name_option :: "u64 \<Rightarrow> bool" where
  "is_prctl_get_name_option opt \<longleftrightarrow> opt = PRCTL_OPTION_GET_NAME"

definition is_prctl_uint32_out_option :: "u64 \<Rightarrow> bool" where
  "is_prctl_uint32_out_option opt \<longleftrightarrow> opt \<in> set [PRCTL_OPTION_GET_PDEATHSIG, 5, 9, 11, 19, 25, 37]"

text \<open>The recorded length, the copied length and the probe result.\<close>

definition copy_prctl_name :: "kernel \<Rightarrow> nat \<Rightarrow> u64 \<Rightarrow> u16 \<Rightarrow> (nat \<times> nat \<times> s32) bpf" where
  "copy_prctl_name k data_offset user_ptr dir_flags = do {
     payload_data \<leftarrow> bpf_dynptr_data data_offset PRCTL_DIRECT_NAME_SIZE;
     if \<not> payload_data then do { record_ringbuf_copy_fail k; return (0, 0, -1) }
     else do {
       (n, bs) \<leftarrow> bpf_probe_read_user_str k PRCTL_DIRECT_NAME_SIZE user_ptr;
       mem_store data_offset bs;
       if n < 0 then
         if has_flag dir_flags PAYLOAD_TLV_FLAG_DIRECTION_OUT then return (0, 0, of_int n)
         else do {
           (raw_n, bs) \<leftarrow> bpf_probe_read_user k (PRCTL_DIRECT_NAME_SIZE - 1) user_ptr;
           mem_store data_offset bs;
           if raw_n < 0 then return (0, 0, of_int n)
           else return (PRCTL_DIRECT_NAME_SIZE, PRCTL_DIRECT_NAME_SIZE - 1, 0) }
       else if n \<ge> int PRCTL_DIRECT_NAME_SIZE \<and> \<not> has_flag dir_flags PAYLOAD_TLV_FLAG_DIRECTION_OUT
       then return (PRCTL_DIRECT_NAME_SIZE, PRCTL_DIRECT_NAME_SIZE - 1, 0)
       else return (nat n, nat n, 0) } }"

definition capture_prctl_name_tlv_direct :: "kernel \<Rightarrow> nat \<Rightarrow> u64 \<Rightarrow> u16 \<Rightarrow> nat bpf" where
  "capture_prctl_name_tlv_direct k payload_offset user_ptr dir_flags =
     (if user_ptr = 0 then return 0
      else do {
        (user_len, copied_len, probe_ret) \<leftarrow>
          copy_prctl_name k (payload_offset + PAYLOAD_TLV_HEADER_SIZE) user_ptr dir_flags;
        ok \<leftarrow> payload_tlv_write_header_direct k payload_offset PAYLOAD_TLV_KIND_STRING 1 dir_flags
          (of_nat user_len) (of_nat copied_len) probe_ret user_ptr;
        return (if ok then PAYLOAD_TLV_HEADER_SIZE + copied_len else 0) })"

definition capture_prctl_uint32_tlv_direct :: "kernel \<Rightarrow> nat \<Rightarrow> u64 \<Rightarrow> nat bpf" where
  "capture_prctl_uint32_tlv_direct k payload_offset user_ptr =
     struct_section k payload_offset 1 PAYLOAD_TLV_FLAG_DIRECTION_OUT user_ptr PRCTL_DIRECT_UINT32_SIZE
       PRCTL_DIRECT_UINT32_SIZE PRCTL_DIRECT_UINT32_SIZE"

definition emit_prctl_enter_event_v2_direct ::
    "kernel \<Rightarrow> u32 \<Rightarrow> u32 \<Rightarrow> u32 \<Rightarrow> sys_enter_ctx \<Rightarrow> u64 \<Rightarrow> unit bpf" where
  "emit_prctl_enter_event_v2_direct k pid tid sys_id ctx ts_ns =
     emit_enter_sections k pid tid sys_id (sec_args ctx) ts_ns (PAYLOAD_TLV_HEADER_SIZE + PRCTL_DIRECT_NAME_SIZE)
       (if is_prctl_set_name_option (arg0 (sec_args ctx))
        then [\<lambda>off. capture_prctl_name_tlv_direct k off (arg1 (sec_args ctx)) 0] else [])"

definition emit_prctl_exit_event_v2_direct :: "kernel \<Rightarrow> pending_syscall \<Rightarrow> s64 \<Rightarrow> u64 \<Rightarrow> unit bpf" where
  "emit_prctl_exit_event_v2_direct k p ret_value duration =
     emit_exit_sections k p ret_value duration (PAYLOAD_TLV_HEADER_SIZE + PRCTL_DIRECT_NAME_SIZE)
       (if 0 \<le> sint ret_value \<and> is_prctl_get_name_option (arg0 (ps_args p))
        then [\<lambda>off. capture_prctl_name_tlv_direct k off (arg1 (ps_args p)) PAYLOAD_TLV_FLAG_DIRECTION_OUT]
        else if 0 \<le> sint ret_value \<and> is_prctl_uint32_out_option (arg0 (ps_args p))
        then [\<lambda>off. capture_prctl_uint32_tlv_direct k off (arg1 (ps_args p))]
        else [])"

section \<open>clone3\<close>

abbreviation (input) CLONE3_DIRECT_ARGS_MAX :: nat where "CLONE3_DIRECT_ARGS_MAX \<equiv> 256"
abbreviation (input) CLONE3_DIRECT_KNOWN_ARGS_SIZE :: nat where "CLONE3_DIRECT_KNOWN_ARGS_SIZE \<equiv> 88"
abbreviation (input) CLONE3_DIRECT_SET_TID_MAX_ENTRIES :: nat where "CLONE3_DIRECT_SET_TID_MAX_ENTRIES \<equiv> 32"
abbreviation (input) CLONE3_DIRECT_SET_TID_BYTES_MAX :: nat where "CLONE3_DIRECT_SET_TID_BYTES_MAX \<equiv> 128"
abbreviation (input) PAYLOAD_TLV_CLONE3_SET_TID_ARG_INDEX :: u16
  where "PAYLOAD_TLV_CLONE3_SET_TID_ARG_INDEX \<equiv> 0xfff9"

text \<open>The pointer and the number of entries; nothing when a read fails, which the second read presumes.\<close>

definition read_clone3_set_tid :: "kernel \<Rightarrow> u64 \<Rightarrow> (u64 \<times> u64) option bpf" where
  "read_clone3_set_tid k args_ptr = do {
     (err, bs) \<leftarrow> bpf_probe_read_user k 8 (args_ptr + 64);
     if err \<noteq> 0 then return None
     else do {
       (err', bs') \<leftarrow> bpf_probe_read_user k 8 (args_ptr + 72);
       if err' \<noteq> 0 then return None else return (Some (le_word bs, le_word bs')) } }"

definition capture_clone3_set_tid_tlv_direct :: "kernel \<Rightarrow> nat \<Rightarrow> u64 \<Rightarrow> u64 \<Rightarrow> nat bpf" where
  "capture_clone3_set_tid_tlv_direct k payload_offset args_ptr args_len =
     (if args_ptr = 0 \<or> args_len < 80 \<or> args_ptr > 0xffffffffffffffff - 80 then return 0
      else do {
        set_tid \<leftarrow> read_clone3_set_tid k args_ptr;
        case set_tid of None \<Rightarrow> return 0
        | Some st \<Rightarrow> let (set_tid_ptr, set_tid_size) = st in
          if set_tid_ptr = 0 \<or> set_tid_size = 0 \<or> set_tid_size > of_nat CLONE3_DIRECT_SET_TID_MAX_ENTRIES
          then return 0
          else let user_len = unat set_tid_size * 4 in
            if set_tid_ptr > 0xffffffffffffffff - of_nat user_len then return 0
            else copied_section k payload_offset PAYLOAD_TLV_KIND_BYTES PAYLOAD_TLV_CLONE3_SET_TID_ARG_INDEX 0
              (of_nat user_len) set_tid_ptr
              (copy_user k CLONE3_DIRECT_SET_TID_BYTES_MAX user_len user_len set_tid_ptr) })"

definition is_clone3_direct_syscall :: "u32 \<Rightarrow> bool" where
  "is_clone3_direct_syscall sys_id \<longleftrightarrow> sys_id = SYS_CLONE3"

text \<open>
  The third component tells that the whole structure could not be read but its known part could; this is
  recorded as a truncation here and, because the known part is shorter than the structure, once more below.
\<close>

definition copy_clone3_args :: "kernel \<Rightarrow> nat \<Rightarrow> u64 \<Rightarrow> u64 \<Rightarrow> (nat \<times> s32 \<times> bool) bpf" where
  "copy_clone3_args k data_offset user_ptr requested_len =
     (let copied_len = unat (payload_tlv_copy_len requested_len (of_nat CLONE3_DIRECT_ARGS_MAX)) in do {
        payload_data \<leftarrow> bpf_dynptr_data data_offset CLONE3_DIRECT_ARGS_MAX;
        if \<not> payload_data then do { record_ringbuf_copy_fail k; return (0, -1, False) }
        else do {
          (err, bs) \<leftarrow> bpf_probe_read_user k copied_len user_ptr;
          mem_store data_offset bs;
          if err < 0 then
            if requested_len > of_nat CLONE3_DIRECT_KNOWN_ARGS_SIZE then do {
              (prefix_err, bs) \<leftarrow> bpf_probe_read_user k CLONE3_DIRECT_KNOWN_ARGS_SIZE user_ptr;
              mem_store data_offset bs;
              if prefix_err = 0 then do {
                record_payload_truncated_event k;
                return (CLONE3_DIRECT_KNOWN_ARGS_SIZE, 0, True) }
              else return (0, of_int err, False) }
            else return (0, of_int err, False)
          else return (copied_len, 0, False) } })"

definition capture_clone3_args_tlv_direct :: "kernel \<Rightarrow> nat \<Rightarrow> u64 \<Rightarrow> u64 \<Rightarrow> u16 \<Rightarrow> (nat \<times> u16) bpf" where
  "capture_clone3_args_tlv_direct k payload_offset user_ptr requested_len event_flags =
     (if user_ptr = 0 \<or> requested_len = 0 then return (0, event_flags)
      else let user_len = payload_tlv_clamp_u32 requested_len in do {
        (copied_len, probe_ret, prefix) \<leftarrow>
          copy_clone3_args k (payload_offset + PAYLOAD_TLV_HEADER_SIZE) user_ptr requested_len;
        let truncated = (probe_ret = 0 \<and> copied_len > 0 \<and> of_nat copied_len < user_len);
        only_if truncated (record_payload_truncated_event k);
        ok \<leftarrow> payload_tlv_write_header_direct k payload_offset PAYLOAD_TLV_KIND_STRUCT 0 0 user_len
          (of_nat copied_len) probe_ret user_ptr;
        return (if ok then PAYLOAD_TLV_HEADER_SIZE + copied_len else 0,
                if prefix \<or> truncated then event_flags OR EVENT_FLAG_TRUNCATED else event_flags) })"

definition emit_clone3_enter_event_v2_direct ::
    "kernel \<Rightarrow> u32 \<Rightarrow> u32 \<Rightarrow> u32 \<Rightarrow> sys_enter_ctx \<Rightarrow> u64 \<Rightarrow> unit bpf" where
  "emit_clone3_enter_event_v2_direct k pid tid sys_id ctx ts_ns =
     (let args = sec_args ctx
      in emit_enter_flagged k pid tid sys_id args ts_ns
           (PAYLOAD_TLV_HEADER_SIZE + CLONE3_DIRECT_ARGS_MAX + PAYLOAD_TLV_HEADER_SIZE + CLONE3_DIRECT_SET_TID_BYTES_MAX)
           (flag_sections
             [\<lambda>off ef. capture_clone3_args_tlv_direct k off (arg0 args) (arg1 args) ef,
              unmarked (\<lambda>off. capture_clone3_set_tid_tlv_direct k off (arg0 args) (arg1 args))]))"

section \<open>fcntl\<close>

abbreviation (input) FCNTL_DIRECT_SMALL_SIZE :: nat where "FCNTL_DIRECT_SMALL_SIZE \<equiv> 8"
abbreviation (input) FCNTL_DIRECT_FLOCK_SIZE :: nat where "FCNTL_DIRECT_FLOCK_SIZE \<equiv> 32"
abbreviation (input) FCNTL_DIRECT_F_DUPFD :: u32 where "FCNTL_DIRECT_F_DUPFD \<equiv> 0"
abbreviation (input) FCNTL_DIRECT_F_DUPFD_CLOEXEC :: u32 where "FCNTL_DIRECT_F_DUPFD_CLOEXEC \<equiv> 1030"
abbreviation (input) FCNTL_DIRECT_MAX_PAYLOAD :: nat where
  "FCNTL_DIRECT_MAX_PAYLOAD \<equiv> PAYLOAD_TLV_HEADER_SIZE + FD_STATE_SNAPSHOT_SIZE"

definition is_fcntl_direct_syscall :: "u32 \<Rightarrow> bool" where
  "is_fcntl_direct_syscall sys_id \<longleftrightarrow> sys_id = SYS_FCNTL"

definition is_fcntl_fd_state_cmd :: "u64 \<Rightarrow> bool" where
  "is_fcntl_fd_state_cmd cmd \<longleftrightarrow>
     (ucast cmd :: u32) = FCNTL_DIRECT_F_DUPFD \<or> (ucast cmd :: u32) = FCNTL_DIRECT_F_DUPFD_CLOEXEC"

definition fcntl_direct_payload_size :: "u64 \<Rightarrow> nat" where
  "fcntl_direct_payload_size cmd = (let fcmd = (ucast cmd :: u32) in
     if fcmd \<in> set [15, 16, 1035, 1036, 1037, 1038, 1039, 1040, 1043, 1044, 19, 20, 21, 22, 23, 24]
     then FCNTL_DIRECT_SMALL_SIZE
     else if fcmd \<in> set [5, 6, 7, 12, 13, 14, 36, 37, 38] then FCNTL_DIRECT_FLOCK_SIZE
     else 0)"

definition capture_fcntl_struct_tlv_direct :: "kernel \<Rightarrow> nat \<Rightarrow> u64 \<Rightarrow> u64 \<Rightarrow> u16 \<Rightarrow> nat bpf" where
  "capture_fcntl_struct_tlv_direct k payload_offset cmd user_ptr dir_flags =
     (let struct_size = fcntl_direct_payload_size cmd;
          window = (if struct_size = FCNTL_DIRECT_SMALL_SIZE then FCNTL_DIRECT_SMALL_SIZE else FCNTL_DIRECT_FLOCK_SIZE)
      in if struct_size = 0 then return 0
         else struct_section k payload_offset 2 dir_flags user_ptr window struct_size struct_size)"

definition emit_fcntl_enter_event_v2_direct ::
    "kernel \<Rightarrow> u32 \<Rightarrow> u32 \<Rightarrow> u32 \<Rightarrow> sys_enter_ctx \<Rightarrow> u64 \<Rightarrow> unit bpf" where
  "emit_fcntl_enter_event_v2_direct k pid tid sys_id ctx ts_ns =
     emit_enter_sections k pid tid sys_id (sec_args ctx) ts_ns FCNTL_DIRECT_MAX_PAYLOAD
       [\<lambda>off. capture_fcntl_struct_tlv_direct k off (arg1 (sec_args ctx)) (arg2 (sec_args ctx)) 0]"

definition emit_fcntl_exit_event_v2_direct :: "kernel \<Rightarrow> pending_syscall \<Rightarrow> s64 \<Rightarrow> u64 \<Rightarrow> unit bpf" where
  "emit_fcntl_exit_event_v2_direct k p ret_value duration =
     emit_exit_sections k p ret_value duration FCNTL_DIRECT_MAX_PAYLOAD
       (if 0 \<le> sint ret_value
        then if is_fcntl_fd_state_cmd (arg1 (ps_args p))
             then [\<lambda>off. capture_fd_state_tlv_direct k off (ucast ret_value)]
             else [\<lambda>off. capture_fcntl_struct_tlv_direct k off (arg1 (ps_args p)) (arg2 (ps_args p))
                     PAYLOAD_TLV_FLAG_DIRECTION_OUT]
        else [])"

section \<open>ioctl\<close>

abbreviation (input) NATIVE_KERNEL_TERMIOS_SIZE :: u32 where "NATIVE_KERNEL_TERMIOS_SIZE \<equiv> 36"
abbreviation (input) IOCTL_DIRECT_BYTES_MAX :: nat where "IOCTL_DIRECT_BYTES_MAX \<equiv> 512"
abbreviation (input) IOCTL_DIRECT_ZERO_SIZE_LEN :: u32 where "IOCTL_DIRECT_ZERO_SIZE_LEN \<equiv> 128"
abbreviation (input) IOCTL_DIRECT_SIZE_SHIFT :: nat where "IOCTL_DIRECT_SIZE_SHIFT \<equiv> 16"
abbreviation (input) IOCTL_DIRECT_SIZE_MASK :: u64 where "IOCTL_DIRECT_SIZE_MASK \<equiv> 0x3fff"

definition ioctl_direct_known_size :: "u64 \<Rightarrow> u32" where
  "ioctl_direct_known_size cmd = (let c = (ucast cmd :: u32) in
     if c = 0x541b then 4
     else if c = 0x5413 then 8
     else if c \<in> set [0x5401, 0x5402, 0x5403, 0x5404] then NATIVE_KERNEL_TERMIOS_SIZE
     else 0)"

definition is_ioctl_direct_syscall :: "u32 \<Rightarrow> bool" where
  "is_ioctl_direct_syscall sys_id \<longleftrightarrow> sys_id = SYS_IOCTL"

definition ioctl_direct_user_len :: "u64 \<Rightarrow> u32" where
  "ioctl_direct_user_len cmd =
     (let known_size = ioctl_direct_known_size cmd;
          sz = (ucast (drop_bit IOCTL_DIRECT_SIZE_SHIFT cmd AND IOCTL_DIRECT_SIZE_MASK) :: u32)
      in if known_size > 0 then known_size else if sz = 0 then IOCTL_DIRECT_ZERO_SIZE_LEN else sz)"

definition ioctl_kvm_exit_reason :: "kernel \<Rightarrow> pending_syscall \<Rightarrow> s64 \<Rightarrow> u32 option bpf" where
  "ioctl_kvm_exit_reason k pending ret_value =
     (if sint ret_value < 0 \<or> arg1 (ps_args pending) \<noteq> KVM_RUN_IOCTL then return None
      else do {
        aux \<leftarrow> lookup_pending_syscall_aux0 k (ps_tid pending);
        return (if has_flag aux KVM_EXIT_AUX_VALID then Some (aux AND KVM_EXIT_AUX_REASON_MASK) else None) })"

definition capture_ioctl_arg_tlv_direct :: "kernel \<Rightarrow> nat \<Rightarrow> u64 \<Rightarrow> u64 \<Rightarrow> u16 \<Rightarrow> u16 \<Rightarrow> (nat \<times> u16) bpf" where
  "capture_ioctl_arg_tlv_direct k payload_offset cmd user_ptr dir_flags event_flags =
     (if user_ptr = 0 then return (0, event_flags)
      else let user_len = ioctl_direct_user_len cmd;
               copied_len = unat (payload_tlv_copy_len (ucast user_len) (of_nat IOCTL_DIRECT_BYTES_MAX))
        in truncating_section k payload_offset PAYLOAD_TLV_KIND_BYTES 2 dir_flags event_flags user_len user_ptr
             (copy_user k IOCTL_DIRECT_BYTES_MAX copied_len copied_len user_ptr))"

definition emit_ioctl_enter_event_v2_direct ::
    "kernel \<Rightarrow> u32 \<Rightarrow> u32 \<Rightarrow> u32 \<Rightarrow> sys_enter_ctx \<Rightarrow> u64 \<Rightarrow> unit bpf" where
  "emit_ioctl_enter_event_v2_direct k pid tid sys_id ctx ts_ns =
     emit_enter_flagged k pid tid sys_id (sec_args ctx) ts_ns (PAYLOAD_TLV_HEADER_SIZE + IOCTL_DIRECT_BYTES_MAX)
       (\<lambda>off ef. capture_ioctl_arg_tlv_direct k off (arg1 (sec_args ctx)) (arg2 (sec_args ctx)) 0 ef)"

text \<open>An exit record whose reserved word is set by the capture.\<close>

definition emit_exit_tlv_reserved :: "kernel \<Rightarrow> pending_syscall \<Rightarrow> s64 \<Rightarrow> u64 \<Rightarrow> nat \<Rightarrow>
    (nat \<Rightarrow> (nat \<times> u16 \<times> u32) bpf) \<Rightarrow> unit bpf" where
  "emit_exit_tlv_reserved k p ret_value duration payload_capacity capture =
     (let payload_offset = EVENT_V2_HEADER_LEN + EVENT_V2_EXIT_BODY_LEN;
          out_size = payload_offset + payload_capacity;
          ts_ns = ps_enter_time p + duration
      in with_reservation k out_size (\<lambda>sequence. do {
           (payload_size, flags, reserved) \<leftarrow> capture payload_offset;
           commit_event k
             (init_syscall_event_v2_header_direct k (zero_header sequence) EVENT_TYPE_EXIT
                (payload_flags payload_size flags) (ps_pid p) (ps_tid p) (ps_sys_id p) out_size ts_ns)
             (do { b \<leftarrow> init_syscall_exit_event_v2_from_pending k p ret_value duration (of_nat payload_size);
                   return (enc_exit_body (b\<lparr>ext_reserved := reserved\<rparr>)) }) }))"

definition emit_ioctl_exit_event_v2_direct :: "kernel \<Rightarrow> pending_syscall \<Rightarrow> s64 \<Rightarrow> u64 \<Rightarrow> unit bpf" where
  "emit_ioctl_exit_event_v2_direct k p ret_value duration =
     emit_exit_tlv_reserved k p ret_value duration (PAYLOAD_TLV_HEADER_SIZE + IOCTL_DIRECT_BYTES_MAX)
       (\<lambda>payload_offset. do {
          reason \<leftarrow> ioctl_kvm_exit_reason k p ret_value;
          let flags = (case reason of None \<Rightarrow> 0 | Some _ \<Rightarrow> EVENT_FLAG_KVM_EXIT);
          (n, flags) \<leftarrow> (if 0 \<le> sint ret_value
            then capture_ioctl_arg_tlv_direct k payload_offset (arg1 (ps_args p)) (arg2 (ps_args p))
              PAYLOAD_TLV_FLAG_DIRECTION_OUT flags
            else return (0, flags));
          return (n, flags, case reason of None \<Rightarrow> 0 | Some r \<Rightarrow> r) })"

section \<open>futex\<close>

abbreviation (input) FUTEX_DIRECT_CMD_MASK :: u64 where "FUTEX_DIRECT_CMD_MASK \<equiv> 0x7f"
abbreviation (input) FUTEX_DIRECT_WAIT :: u64 where "FUTEX_DIRECT_WAIT \<equiv> 0"
abbreviation (input) FUTEX_DIRECT_LOCK_PI :: u64 where "FUTEX_DIRECT_LOCK_PI \<equiv> 6"
abbreviation (input) FUTEX_DIRECT_WAIT_BITSET :: u64 where "FUTEX_DIRECT_WAIT_BITSET \<equiv> 9"
abbreviation (input) FUTEX_DIRECT_WAIT_REQUEUE_PI :: u64 where "FUTEX_DIRECT_WAIT_REQUEUE_PI \<equiv> 11"
abbreviation (input) FUTEX_DIRECT_LOCK_PI2 :: u64 where "FUTEX_DIRECT_LOCK_PI2 \<equiv> 13"
abbreviation (input) FUTEX_DIRECT_WAITV_ELEM_SIZE :: nat where "FUTEX_DIRECT_WAITV_ELEM_SIZE \<equiv> 24"
abbreviation (input) FUTEX_DIRECT_WAITV_MAX :: u32 where "FUTEX_DIRECT_WAITV_MAX \<equiv> 128"
abbreviation (input) FUTEX_DIRECT_WAITV_MAX_BYTES :: nat where "FUTEX_DIRECT_WAITV_MAX_BYTES \<equiv> 3072"
abbreviation (input) FUTEX_DIRECT_REQUEUE_WAITERS_SIZE :: nat where "FUTEX_DIRECT_REQUEUE_WAITERS_SIZE \<equiv> 48"

definition futex_has_timeout_direct :: "u64 \<Rightarrow> bool" where
  "futex_has_timeout_direct op \<longleftrightarrow> op AND FUTEX_DIRECT_CMD_MASK \<in> set
     [FUTEX_DIRECT_WAIT, FUTEX_DIRECT_LOCK_PI, FUTEX_DIRECT_WAIT_BITSET, FUTEX_DIRECT_WAIT_REQUEUE_PI,
      FUTEX_DIRECT_LOCK_PI2]"

definition capture_futex_requeue_waiters_tlv_direct :: "kernel \<Rightarrow> nat \<Rightarrow> u64 \<Rightarrow> nat bpf" where
  "capture_futex_requeue_waiters_tlv_direct k payload_offset user_ptr =
     struct_section k payload_offset 0 0 user_ptr FUTEX_DIRECT_REQUEUE_WAITERS_SIZE FUTEX_DIRECT_REQUEUE_WAITERS_SIZE
       FUTEX_DIRECT_REQUEUE_WAITERS_SIZE"

definition futex_waitv_user_len_direct :: "u32 \<Rightarrow> u32" where
  "futex_waitv_user_len_direct count =
     (if count > 0xffffffff div of_nat FUTEX_DIRECT_WAITV_ELEM_SIZE then 0xffffffff
      else count * of_nat FUTEX_DIRECT_WAITV_ELEM_SIZE)"

definition futex_waitv_copy_len_direct :: "u32 \<Rightarrow> nat" where
  "futex_waitv_copy_len_direct count =
     unat (if count > FUTEX_DIRECT_WAITV_MAX then FUTEX_DIRECT_WAITV_MAX else count) * FUTEX_DIRECT_WAITV_ELEM_SIZE"

text \<open>The first waiter decides the probe result; the others are copied with it or not at all.\<close>

definition copy_futex_waitv :: "kernel \<Rightarrow> u64 \<Rightarrow> nat \<Rightarrow> nat \<Rightarrow> (nat \<times> s32) bpf" where
  "copy_futex_waitv k user_ptr requested_len data_offset = do {
     payload_data \<leftarrow> bpf_dynptr_data data_offset FUTEX_DIRECT_WAITV_ELEM_SIZE;
     if \<not> payload_data then do { record_ringbuf_copy_fail k; return (0, -1) }
     else do {
       (err, bs) \<leftarrow> bpf_probe_read_user k FUTEX_DIRECT_WAITV_ELEM_SIZE user_ptr;
       mem_store data_offset bs;
       if err < 0 then return (0, of_int err)
       else if requested_len > FUTEX_DIRECT_WAITV_ELEM_SIZE then do {
         let rest_len = min (requested_len - FUTEX_DIRECT_WAITV_ELEM_SIZE)
           (FUTEX_DIRECT_WAITV_MAX_BYTES - FUTEX_DIRECT_WAITV_ELEM_SIZE);
         payload_rest \<leftarrow> bpf_dynptr_data (data_offset + FUTEX_DIRECT_WAITV_ELEM_SIZE)
           (FUTEX_DIRECT_WAITV_MAX_BYTES - FUTEX_DIRECT_WAITV_ELEM_SIZE);
         if \<not> payload_rest then do { record_ringbuf_copy_fail k; return (FUTEX_DIRECT_WAITV_ELEM_SIZE, 0) }
         else do {
           (rest_err, bs) \<leftarrow> bpf_probe_read_user k rest_len (user_ptr + of_nat FUTEX_DIRECT_WAITV_ELEM_SIZE);
           mem_store (data_offset + FUTEX_DIRECT_WAITV_ELEM_SIZE) bs;
           return (if rest_err = 0 then requested_len else FUTEX_DIRECT_WAITV_ELEM_SIZE, 0) } }
       else return (FUTEX_DIRECT_WAITV_ELEM_SIZE, 0) } }"

definition capture_futex_waitv_waiters_tlv_direct :: "kernel \<Rightarrow> nat \<Rightarrow> u64 \<Rightarrow> u32 \<Rightarrow> u16 \<Rightarrow> (nat \<times> u16) bpf" where
  "capture_futex_waitv_waiters_tlv_direct k payload_offset user_ptr count event_flags =
     (let user_len = futex_waitv_user_len_direct count; requested_len = futex_waitv_copy_len_direct count
      in if user_ptr = 0 then return (0, event_flags)
         else if requested_len = 0 then return (0, event_flags)
         else flagged_section k payload_offset PAYLOAD_TLV_KIND_STRUCT 0 0 event_flags user_len user_ptr
           (\<lambda>copied_len probe_ret. probe_ret = 0 \<and> copied_len > 0 \<and> of_nat requested_len < user_len)
           (copy_futex_waitv k user_ptr requested_len))"

definition emit_futex_enter_event_v2_direct ::
    "kernel \<Rightarrow> u32 \<Rightarrow> u32 \<Rightarrow> u32 \<Rightarrow> sys_enter_ctx \<Rightarrow> u64 \<Rightarrow> unit bpf" where
  "emit_futex_enter_event_v2_direct k pid tid sys_id ctx ts_ns =
     emit_enter_sections k pid tid sys_id (sec_args ctx) ts_ns (PAYLOAD_TLV_HEADER_SIZE + TIME_DIRECT_TIMESPEC_SIZE)
       (if futex_has_timeout_direct (arg1 (sec_args ctx))
        then [\<lambda>off. capture_time_struct_tlv_direct_from_ptr k off 3 (arg3 (sec_args ctx)) TIME_DIRECT_TIMESPEC_SIZE 0]
        else [])"

definition emit_futex_wait_enter_event_v2_direct ::
    "kernel \<Rightarrow> u32 \<Rightarrow> u32 \<Rightarrow> u32 \<Rightarrow> sys_enter_ctx \<Rightarrow> u64 \<Rightarrow> unit bpf" where
  "emit_futex_wait_enter_event_v2_direct k pid tid sys_id ctx ts_ns =
     emit_enter_sections k pid tid sys_id (sec_args ctx) ts_ns (PAYLOAD_TLV_HEADER_SIZE + TIME_DIRECT_TIMESPEC_SIZE)
       [\<lambda>off. capture_time_struct_tlv_direct_from_ptr k off 4 (arg4 (sec_args ctx)) TIME_DIRECT_TIMESPEC_SIZE 0]"

definition emit_futex_waitv_enter_event_v2_direct ::
    "kernel \<Rightarrow> u32 \<Rightarrow> u32 \<Rightarrow> u32 \<Rightarrow> sys_enter_ctx \<Rightarrow> u64 \<Rightarrow> unit bpf" where
  "emit_futex_waitv_enter_event_v2_direct k pid tid sys_id ctx ts_ns =
     (let args = sec_args ctx
      in emit_enter_flagged k pid tid sys_id args ts_ns
           (PAYLOAD_TLV_HEADER_SIZE + FUTEX_DIRECT_WAITV_MAX_BYTES + PAYLOAD_TLV_HEADER_SIZE + TIME_DIRECT_TIMESPEC_SIZE)
           (flag_sections
             [\<lambda>off ef. capture_futex_waitv_waiters_tlv_direct k off (arg0 args) (ucast (arg1 args)) ef,
              unmarked (\<lambda>off. capture_time_struct_tlv_direct_from_ptr k off 3 (arg3 args) TIME_DIRECT_TIMESPEC_SIZE 0)]))"

definition emit_futex_requeue_enter_event_v2_direct ::
    "kernel \<Rightarrow> u32 \<Rightarrow> u32 \<Rightarrow> u32 \<Rightarrow> sys_enter_ctx \<Rightarrow> u64 \<Rightarrow> unit bpf" where
  "emit_futex_requeue_enter_event_v2_direct k pid tid sys_id ctx ts_ns =
     emit_enter_sections k pid tid sys_id (sec_args ctx) ts_ns
       (PAYLOAD_TLV_HEADER_SIZE + FUTEX_DIRECT_REQUEUE_WAITERS_SIZE)
       [\<lambda>off. capture_futex_requeue_waiters_tlv_direct k off (arg0 (sec_args ctx))]"

section \<open>Accounting\<close>

lemma memfd_emitter [emitter_intros]: "emitter k (emit_memfd_create_enter_event_v2_direct k pid tid sys_id ctx ts)"
proof -
  have "captures k off 282 (\<lambda>n. n) (capture_memfd_create_name_tlv_direct k off up)" for off up
    unfolding capture_memfd_create_name_tlv_direct_def
    by (intro captures_if captures_return captures_sized_section [where m = 250], simp)
       (rule copies_step copies_case_prod copies_if copies_return silent_intros reports_intros above_intros
         above_store | simp add: payloadKindFromTLV_def | linarith)+
  then show ?thesis
    unfolding emit_memfd_create_enter_event_v2_direct_def by (intro emitter_enter_list fits_one) simp_all
qed

lemma captures_prctl_name: "captures k off 48 (\<lambda>n. n) (capture_prctl_name_tlv_direct k off up fl)"
proof -
  let ?c = "copy_prctl_name k (off + 32) up fl"
  have f: "silent k ?c" "reports ?c" "above off ?c"
    unfolding copy_prctl_name_def
    by (intro silent_rules silent_intros reports_rules reports_intros above_rules above_intros above_store; simp)+
  have g: "gives ?c (\<lambda>(u, n, r). n \<le> 16)"
    unfolding copy_prctl_name_def
    by (intro gives_bind_any gives_if gives_return gives_case_prod gives_bind [OF gives_str_len]) auto
  show ?thesis
    unfolding capture_prctl_name_tlv_direct_def
    by (intro captures_if captures_return captures_pre [OF f g])
       (auto intro!: captures_header_nat simp: payloadKindFromTLV_def)
qed

lemma prctl_emitters [emitter_intros]:
  "emitter k (emit_prctl_enter_event_v2_direct k pid tid sys_id ctx ts)"
  "emitter k (emit_prctl_exit_event_v2_direct k p ret dur)"
  unfolding emit_prctl_enter_event_v2_direct_def emit_prctl_exit_event_v2_direct_def capture_prctl_uint32_tlv_direct_def
  by (intro emitter_enter_list emitter_exit_list fits_rules captures_struct_section;
      simp add: captures_prctl_name)+

lemma flagged_clone3_args: "flagged k 288 (\<lambda>off ef. capture_clone3_args_tlv_direct k off up rl ef)"
  unfolding flagged_def
proof (intro allI conjI impI)
  fix off :: nat and ef
  let ?c = "copy_clone3_args k (off + 32) up rl"
  have f: "silent k ?c" "reports ?c" "above off ?c"
    unfolding copy_clone3_args_def Let_def
    by (intro silent_rules silent_intros reports_rules reports_intros above_rules above_intros above_store; simp)+
  have "unat (payload_tlv_copy_len rl 256) \<le> 256" using copy_len_le [of rl 256] by simp
  then have g: "gives ?c (\<lambda>(n, r, b). n \<le> 256)"
    unfolding copy_clone3_args_def Let_def
    by (intro gives_bind_any gives_if gives_return gives_case_prod) auto
  show "captures k off 288 fst (capture_clone3_args_tlv_direct k off up rl ef)"
    unfolding capture_clone3_args_tlv_direct_def Let_def
    by (intro captures_if captures_return captures_pre [OF f g] captures_case_prod, simp)
       (rule captures_header_nat captures_pre_any silent_rules silent_intros reports_rules reports_intros
         above_rules above_intros | simp add: payloadKindFromTLV_def)+
  assume "\<not> has_flag ef EVENT_FLAG_COMPACT_ENTER"
  then show "gives (capture_clone3_args_tlv_direct k off up rl ef) (\<lambda>(n, f). \<not> has_flag f EVENT_FLAG_COMPACT_ENTER)"
    unfolding capture_clone3_args_tlv_direct_def Let_def
    by (intro gives_bind_any gives_if gives_return gives_case_prod) auto
qed

lemma captures_clone3_set_tid: "captures k off 160 (\<lambda>n. n) (capture_clone3_set_tid_tlv_direct k off ap al)"
proof -
  let ?r = "read_clone3_set_tid k ap"
  have r: "silent k ?r" "reports ?r" "above off ?r"
    unfolding read_clone3_set_tid_def
    by (intro silent_rules silent_intros reports_rules reports_intros above_rules above_intros; simp)+
  have "unat n * 4 \<le> 128" if "\<not> (32 :: u64) < n" for n
    using that by (simp add: word_less_nat_alt)
  then show ?thesis
    unfolding capture_clone3_set_tid_tlv_direct_def Let_def
    by (intro captures_if captures_return captures_pre_any [OF r] captures_case_option captures_case_prod
        captures_copied_section [where m = 128] copies_user) (auto simp: payloadKindFromTLV_def)
qed

lemma clone3_emitter [emitter_intros]: "emitter k (emit_clone3_enter_event_v2_direct k pid tid sys_id ctx ts)"
  unfolding emit_clone3_enter_event_v2_direct_def Let_def
  by (intro emitter_enter_flagged flagged_sections_cons [OF flagged_clone3_args] flagged_sections_one flagged_unmarked)
     (simp_all add: captures_clone3_set_tid)

lemma fcntl_emitters [emitter_intros]:
  "emitter k (emit_fcntl_enter_event_v2_direct k pid tid sys_id ctx ts)"
  "emitter k (emit_fcntl_exit_event_v2_direct k p ret dur)"
proof -
  have c: "captures k off 80 (\<lambda>n. n) (capture_fcntl_struct_tlv_direct k off cmd up fl)" for off cmd up fl
    unfolding capture_fcntl_struct_tlv_direct_def Let_def fcntl_direct_payload_size_def
    by (intro captures_if captures_return captures_struct_section) simp_all
  show "emitter k (emit_fcntl_enter_event_v2_direct k pid tid sys_id ctx ts)"
    "emitter k (emit_fcntl_exit_event_v2_direct k p ret dur)"
    unfolding emit_fcntl_enter_event_v2_direct_def emit_fcntl_exit_event_v2_direct_def
    by (intro emitter_enter_list emitter_exit_list fits_rules; simp add: c captures_fd_state)+
qed

lemma flagged_ioctl: "flagged k 544 (\<lambda>off ef. capture_ioctl_arg_tlv_direct k off cmd up fl ef)"
  unfolding capture_ioctl_arg_tlv_direct_def Let_def
  by (intro flagged_cond flagged_none flagged_truncating_section [where m = 512] copies_clamped)
     (simp_all add: payloadKindFromTLV_def)

lemma ioctl_enter_emitter [emitter_intros]: "emitter k (emit_ioctl_enter_event_v2_direct k pid tid sys_id ctx ts)"
  unfolding emit_ioctl_enter_event_v2_direct_def by (intro emitter_enter_flagged) (simp_all add: flagged_ioctl)

lemma emits_exit_reserved:
  assumes "cap < 2 ^ 31"
  shows "emits_on k q (\<lambda>d. n \<le> cap \<and> holds_payload (168 + cap) 168 n d) (commit_event k
      (init_syscall_event_v2_header_direct k (zero_header q) EVENT_TYPE_EXIT flags pid tid sys_id (168 + cap) ts)
      (do { b \<leftarrow> init_syscall_exit_event_v2_from_pending k p ret dur (of_nat n);
            return (enc_exit_body (b\<lparr>ext_reserved := r\<rparr>)) }))"
proof (cases "n \<le> cap")
  case True
  then have n: "unat (of_nat n :: u32) = n" using assms by (simp add: unat_of_nat take_bit_nat_eq_self)
  show ?thesis
  proof (rule emits_on_header [where B = "\<lambda>b. \<exists>x. b = enc_exit_body x \<and> ext_capture_len x = of_nat n"])
    show "\<exists>x. result (do { b \<leftarrow> init_syscall_exit_event_v2_from_pending k p ret dur (of_nat n);
        return (enc_exit_body (b\<lparr>ext_reserved := r\<rparr>)) }) s = enc_exit_body x \<and> ext_capture_len x = of_nat n" for s
      using init_exit_body_spec [of p ret dur "of_nat n" k s]
      by (auto simp: exit_body_spec_def run_bind_parts simp del: run_state_bind
          intro!: exI [where x = "result (init_syscall_exit_event_v2_from_pending k p ret dur (word_of_nat n)) s
            \<lparr>ext_reserved := r\<rparr>"])
  qed (use assms True n in \<open>auto simp: holds_payload_def intro!: accepted_exit silent_rules silent_intros keeps_rules
        keeps_intros\<close>)
qed (simp add: emits_on_def)

lemma emitter_exit_tlv_reserved:
  assumes "captures k 168 cap fst (capture 168)" "cap < 2 ^ 31"
  shows "emitter k (emit_exit_tlv_reserved k p ret dur cap capture)"
proof -
  have e: "(80 :: nat) + 88 = 168" by simp
  let ?B = "\<lambda>x d. fst x \<le> cap \<and> holds_payload (168 + cap) 168 (fst x) d"
  have "emits_on k sequence (\<lambda>d. length d = 168 + cap) (do {
      (payload_size, flags, reserved) \<leftarrow> capture 168;
      commit_event k
             (init_syscall_event_v2_header_direct k (zero_header sequence) EVENT_TYPE_EXIT
                (payload_flags payload_size flags) (ps_pid p) (ps_tid p) (ps_sys_id p) (168 + cap)
                (ps_enter_time p + dur))
             (do { b \<leftarrow> init_syscall_exit_event_v2_from_pending k p ret dur (of_nat payload_size);
                   return (enc_exit_body (b\<lparr>ext_reserved := reserved\<rparr>)) }) })" for sequence
  proof (rule emits_on_bind [OF captures_frame(1) [OF assms(1)], where B = ?B])
    show "wp (capture 168) (\<lambda>x t. \<exists>d'. reservation t = Some d' \<and> ?B x d') s"
      if "reservation s = Some d" "length d = 168 + cap" for s d
      by (rule captures_holds [OF assms(1) that])
  qed (use emits_exit_reserved [OF assms(2)] in \<open>auto split: prod.split\<close>)
  then have "accounted k (emit_exit_tlv_reserved k p ret dur cap capture)"
    unfolding emit_exit_tlv_reserved_def Let_def e by (intro accounted_with_reservation) (simp add: emits_eq_on)
  moreover have "reports (emit_exit_tlv_reserved k p ret dur cap capture)"
    unfolding emit_exit_tlv_reserved_def Let_def e
    by (intro reports_rules reports_intros captures_frame(2) [OF assms(1)])
  ultimately show ?thesis by (simp add: emitter_def)
qed

lemma ioctl_exit_emitter [emitter_intros]: "emitter k (emit_ioctl_exit_event_v2_direct k p ret dur)"
proof -
  let ?r = "ioctl_kvm_exit_reason k p ret"
  have r: "silent k ?r" "reports ?r"
    unfolding ioctl_kvm_exit_reason_def
    by (intro silent_rules silent_intros reports_rules reports_intros)+
  have a: "above off ?r" for off
    unfolding ioctl_kvm_exit_reason_def lookup_pending_syscall_aux0_def current_pending_task_state_def lookup_pending_task_state_def
      bpf_task_storage_get_def
    by (intro keeps_above keeps_rules keeps_intros) simp_all
  have c: "captures k 168 544 fst (if 0 \<le> sint ret then capture_ioctl_arg_tlv_direct k 168 cmd up fl ef else return (0, ef))"
    for cmd up fl ef
    using flagged_ioctl by (auto simp: flagged_def intro: captures_return)
  show ?thesis
    unfolding emit_ioctl_exit_event_v2_direct_def Let_def
    by (rule emitter_exit_tlv_reserved, simp, rule captures_pre_any [OF r a], rule captures_then [OF c])
       (auto intro!: extends_return split: prod.split)
qed

lemma copies_futex_waitv: "n \<le> 3072 \<Longrightarrow> copies k off 3072 (copy_futex_waitv k up n off)"
  unfolding copy_futex_waitv_def Let_def
  by (rule copies_step copies_case_prod copies_if copies_return silent_intros reports_intros above_intros
      above_store | simp)+

lemma futex_emitters [emitter_intros]:
  "emitter k (emit_futex_enter_event_v2_direct k pid tid sys_id ctx ts)"
  "emitter k (emit_futex_wait_enter_event_v2_direct k pid tid sys_id ctx ts)"
  "emitter k (emit_futex_requeue_enter_event_v2_direct k pid tid sys_id ctx ts)"
  unfolding emit_futex_enter_event_v2_direct_def emit_futex_wait_enter_event_v2_direct_def
    emit_futex_requeue_enter_event_v2_direct_def capture_futex_requeue_waiters_tlv_direct_def
  by (intro emitter_enter_list fits_rules captures_time captures_struct_section; simp)+

lemma futex_waitv_emitter [emitter_intros]: "emitter k (emit_futex_waitv_enter_event_v2_direct k pid tid sys_id ctx ts)"
proof -
  have n: "futex_waitv_copy_len_direct c \<le> 3072" for c
    by (simp add: futex_waitv_copy_len_direct_def word_less_nat_alt)
  have "flagged k 3104 (\<lambda>off ef. capture_futex_waitv_waiters_tlv_direct k off up c ef)" for up c
    unfolding capture_futex_waitv_waiters_tlv_direct_def Let_def
    by (intro flagged_cond flagged_none flagged_flagged_section [where m = 3072] copies_futex_waitv n)
       (simp_all add: payloadKindFromTLV_def)
  then show ?thesis
    unfolding emit_futex_waitv_enter_event_v2_direct_def Let_def
    by (intro emitter_enter_flagged flagged_sections_cons [where a = 3104] flagged_sections_one flagged_unmarked
        captures_time) simp_all
qed

end
