(* ===== verification/File_System_Events.thy ===== *)
theory File_System_Events
  imports Control_Events
begin

text \<open>
  The families of mounts, extended attributes, keys and quotas:
  \<^verbatim>\<open>bpf/syscall_{mount_path,mount_setattr,mount_query*,fs*,xattr*,key*,quota*}_direct_event_v2.h\<close>.
\<close>

section \<open>move_mount\<close>

abbreviation (input) MOUNT_PATH_DIRECT_PAYLOAD_CAPACITY :: nat where
  "MOUNT_PATH_DIRECT_PAYLOAD_CAPACITY \<equiv> 2 * (PAYLOAD_TLV_HEADER_SIZE + PATH_ONLY_DIRECT_PATH_MAX)"

definition is_mount_path_direct_syscall :: "u32 \<Rightarrow> bool" where
  "is_mount_path_direct_syscall sys_id \<longleftrightarrow> sys_id = SYS_MOVE_MOUNT"

definition emit_mount_path_enter_event_v2_direct ::
    "kernel \<Rightarrow> u32 \<Rightarrow> u32 \<Rightarrow> u32 \<Rightarrow> sys_enter_ctx \<Rightarrow> u64 \<Rightarrow> unit bpf" where
  "emit_mount_path_enter_event_v2_direct k pid tid sys_id ctx ts_ns =
     emit_enter_sections k pid tid sys_id (sec_args ctx) ts_ns MOUNT_PATH_DIRECT_PAYLOAD_CAPACITY
       [\<lambda>off. capture_path_only_tlv_direct k off 1 (arg1 (sec_args ctx)),
        \<lambda>off. capture_path_only_tlv_direct k off 3 (arg3 (sec_args ctx))]"

section \<open>mount_setattr\<close>

abbreviation (input) MOUNT_SETATTR_BASE_SIZE :: nat where "MOUNT_SETATTR_BASE_SIZE \<equiv> 32"
abbreviation (input) MOUNT_SETATTR_EXTENSION_MAX :: nat where "MOUNT_SETATTR_EXTENSION_MAX \<equiv> 256"
abbreviation (input) MOUNT_SETATTR_DIRECT_PAYLOAD_CAPACITY :: nat where
  "MOUNT_SETATTR_DIRECT_PAYLOAD_CAPACITY \<equiv> FD_PATH_DIRECT_SECTION_MAX + 3 * PAYLOAD_TLV_HEADER_SIZE +
     PATH_ONLY_DIRECT_PATH_MAX + MOUNT_SETATTR_BASE_SIZE + MOUNT_SETATTR_EXTENSION_MAX"

definition capture_mount_setattr_base_tlv_direct :: "kernel \<Rightarrow> nat \<Rightarrow> sys_enter_ctx \<Rightarrow> nat bpf" where
  "capture_mount_setattr_base_tlv_direct k payload_offset ctx =
     (let user_ptr = arg3 (sec_args ctx); raw_size = arg4 (sec_args ctx)
      in if raw_size < of_nat MOUNT_SETATTR_BASE_SIZE then return 0
         else copied_section k payload_offset PAYLOAD_TLV_KIND_STRUCT 3 0 (of_nat MOUNT_SETATTR_BASE_SIZE) user_ptr
           (copy_user_checked k MOUNT_SETATTR_BASE_SIZE MOUNT_SETATTR_BASE_SIZE user_ptr))"

definition capture_mount_setattr_extension_tlv_direct ::
    "kernel \<Rightarrow> nat \<Rightarrow> sys_enter_ctx \<Rightarrow> u16 \<Rightarrow> (nat \<times> u16) bpf" where
  "capture_mount_setattr_extension_tlv_direct k payload_offset ctx event_flags =
     (let user_ptr = arg3 (sec_args ctx); raw_size = arg4 (sec_args ctx)
      in if raw_size \<le> of_nat MOUNT_SETATTR_BASE_SIZE then return (0, event_flags)
         else let raw_extension_len = raw_size - of_nat MOUNT_SETATTR_BASE_SIZE;
                  user_len = payload_tlv_clamp_u32 raw_extension_len;
                  wanted_len = unat (payload_tlv_copy_len raw_extension_len (of_nat MOUNT_SETATTR_EXTENSION_MAX));
                  extension_ptr = (if user_ptr \<noteq> 0 then user_ptr + of_nat MOUNT_SETATTR_BASE_SIZE else 0)
           in flagged_section k payload_offset PAYLOAD_TLV_KIND_BYTES 3 0 event_flags user_len extension_ptr
                (\<lambda>copied_len probe_ret. probe_ret = 0 \<and> of_nat copied_len < user_len)
                (\<lambda>data_offset. if user_ptr = 0 \<or> extension_ptr < user_ptr then return (0, -1)
                   else copy_user k MOUNT_SETATTR_EXTENSION_MAX wanted_len wanted_len extension_ptr data_offset))"

definition capture_mount_setattr_enter_payload_tlv_direct ::
    "kernel \<Rightarrow> nat \<Rightarrow> sys_enter_ctx \<Rightarrow> u32 option \<Rightarrow> u16 \<Rightarrow> (nat \<times> u16) bpf" where
  "capture_mount_setattr_enter_payload_tlv_direct k payload_offset ctx cfg event_flags =
     (let args = sec_args ctx; fd_state = (case cfg of None \<Rightarrow> False | Some c \<Rightarrow> has_flag c CONFIG_FD_STATE)
      in flag_sections
           [unmarked (\<lambda>off. if fd_state then capture_fd_path_tlv_direct k off 0 (ucast (arg0 args)) else return 0),
            unmarked (\<lambda>off. capture_path_only_tlv_direct k off 1 (arg1 args)),
            unmarked (\<lambda>off. capture_mount_setattr_base_tlv_direct k off ctx),
            \<lambda>off ef. capture_mount_setattr_extension_tlv_direct k off ctx ef] payload_offset event_flags)"

section \<open>statmount and listmount\<close>

abbreviation (input) MNT_ID_REQ_SIZE_FIELD_SIZE :: nat where "MNT_ID_REQ_SIZE_FIELD_SIZE \<equiv> 4"
abbreviation (input) MNT_ID_REQ_SIZE_VER0 :: nat where "MNT_ID_REQ_SIZE_VER0 \<equiv> 24"
abbreviation (input) MNT_ID_REQ_SIZE_VER1 :: nat where "MNT_ID_REQ_SIZE_VER1 \<equiv> 32"
abbreviation (input) MNT_ID_REQ_EXTENSION_MAX :: nat where "MNT_ID_REQ_EXTENSION_MAX \<equiv> 256"
abbreviation (input) STATMOUNT_FIXED_SIZE :: nat where "STATMOUNT_FIXED_SIZE \<equiv> 512"
abbreviation (input) STATMOUNT_STRING_MAX :: nat where "STATMOUNT_STRING_MAX \<equiv> 4096"
abbreviation (input) LISTMOUNT_ID_MAX :: nat where "LISTMOUNT_ID_MAX \<equiv> 32"
abbreviation (input) LISTMOUNT_ID_SIZE :: nat where "LISTMOUNT_ID_SIZE \<equiv> 8"
abbreviation (input) STATMOUNT_EXIT_PAYLOAD_CAPACITY :: nat where
  "STATMOUNT_EXIT_PAYLOAD_CAPACITY \<equiv>
     3 * PAYLOAD_TLV_HEADER_SIZE + MNT_ID_REQ_SIZE_FIELD_SIZE + STATMOUNT_FIXED_SIZE + STATMOUNT_STRING_MAX"
abbreviation (input) LISTMOUNT_EXIT_PAYLOAD_CAPACITY :: nat where
  "LISTMOUNT_EXIT_PAYLOAD_CAPACITY \<equiv> PAYLOAD_TLV_HEADER_SIZE + LISTMOUNT_ID_MAX * LISTMOUNT_ID_SIZE"

definition is_mount_query_direct_syscall :: "u32 \<Rightarrow> bool" where
  "is_mount_query_direct_syscall sys_id \<longleftrightarrow> sys_id = SYS_STATMOUNT \<or> sys_id = SYS_LISTMOUNT"

text \<open>
  The 32-bit word at \<open>user_ptr\<close>, written behind its header: the section size, the word (0 unless it was
  read) and the probe result.  A failed write of the word drops the section.
\<close>

definition capture_word_section :: "kernel \<Rightarrow> nat \<Rightarrow> u16 \<Rightarrow> u16 \<Rightarrow> u64 \<Rightarrow> (nat \<times> u32 \<times> s32) bpf" where
  "capture_word_section k payload_offset arg_index dir_flags user_ptr = do {
     (err, bs) \<leftarrow> bpf_probe_read_user k 4 user_ptr;
     let copied_len = (if err < 0 then 0 else (4 :: nat));
     let probe_ret = (if err \<ge> 0 then 0 else of_int err);
     let result_size = (if err \<ge> 0 then le_word bs else 0);
     ok \<leftarrow> payload_tlv_write_header_direct k payload_offset PAYLOAD_TLV_KIND_STRUCT arg_index dir_flags 4
       (of_nat copied_len) probe_ret user_ptr;
     if \<not> ok then return (0, result_size, probe_ret)
     else if copied_len > 0 then do {
       ok \<leftarrow> bpf_dynptr_write (payload_offset + PAYLOAD_TLV_HEADER_SIZE) bs;
       if \<not> ok then do { record_ringbuf_copy_fail k; return (0, result_size, probe_ret) }
       else return (PAYLOAD_TLV_HEADER_SIZE + copied_len, result_size, probe_ret) }
     else return (PAYLOAD_TLV_HEADER_SIZE + copied_len, result_size, probe_ret) }"

definition capture_mnt_id_req_size_tlv_direct :: "kernel \<Rightarrow> nat \<Rightarrow> u64 \<Rightarrow> (nat \<times> u32 \<times> s32) bpf" where
  "capture_mnt_id_req_size_tlv_direct k payload_offset user_ptr =
     (if user_ptr = 0 then return (0, 0, -1) else capture_word_section k payload_offset 0 0 user_ptr)"

definition capture_mnt_id_req_base_tlv_direct :: "kernel \<Rightarrow> nat \<Rightarrow> u64 \<Rightarrow> u32 \<Rightarrow> nat bpf" where
  "capture_mnt_id_req_base_tlv_direct k payload_offset user_ptr request_size =
     (if unat request_size < MNT_ID_REQ_SIZE_VER0 then return 0
      else let len = min (unat request_size) MNT_ID_REQ_SIZE_VER1
        in copied_section k payload_offset PAYLOAD_TLV_KIND_STRUCT 0 0 (of_nat len) user_ptr
             (copy_user k MNT_ID_REQ_SIZE_VER1 len len user_ptr))"

text \<open>
  The tail of a structure behind its fixed part.  The window is asked for first, so a missing window is
  counted even when the pointer wraps.
\<close>

definition copy_tail :: "kernel \<Rightarrow> nat \<Rightarrow> nat \<Rightarrow> u64 \<Rightarrow> u64 \<Rightarrow> nat \<Rightarrow> (nat \<times> s32) bpf" where
  "copy_tail k window n user_ptr tail_ptr data_offset = do {
     payload_data \<leftarrow> bpf_dynptr_data data_offset window;
     if tail_ptr < user_ptr \<or> \<not> payload_data then do {
       only_if (\<not> payload_data) (record_ringbuf_copy_fail k);
       return (0, -1) }
     else do {
       (err, bs) \<leftarrow> bpf_probe_read_user k n tail_ptr;
       mem_store data_offset bs;
       if err < 0 then return (0, of_int err) else return (n, 0) } }"

definition capture_mnt_id_req_extension_tlv_direct ::
    "kernel \<Rightarrow> nat \<Rightarrow> u64 \<Rightarrow> u32 \<Rightarrow> u16 \<Rightarrow> (nat \<times> u16) bpf" where
  "capture_mnt_id_req_extension_tlv_direct k payload_offset user_ptr request_size event_flags =
     (if request_size \<le> of_nat MNT_ID_REQ_SIZE_VER1 then return (0, event_flags)
      else let user_len = request_size - of_nat MNT_ID_REQ_SIZE_VER1;
               wanted_len = unat (payload_tlv_copy_len (ucast user_len) (of_nat MNT_ID_REQ_EXTENSION_MAX));
               extension_ptr = user_ptr + of_nat MNT_ID_REQ_SIZE_VER1
        in flagged_section k payload_offset PAYLOAD_TLV_KIND_BYTES 0 0 event_flags user_len extension_ptr
             (\<lambda>copied_len probe_ret. probe_ret = 0 \<and> of_nat copied_len < user_len)
             (copy_tail k MNT_ID_REQ_EXTENSION_MAX wanted_len user_ptr extension_ptr))"

definition capture_mnt_id_req_enter_tlv_direct :: "kernel \<Rightarrow> nat \<Rightarrow> sys_enter_ctx \<Rightarrow> u16 \<Rightarrow> (nat \<times> u16) bpf" where
  "capture_mnt_id_req_enter_tlv_direct k payload_offset ctx event_flags =
     (let user_ptr = arg0 (sec_args ctx) in do {
        (payload_size, request_size, size_probe_ret) \<leftarrow> capture_mnt_id_req_size_tlv_direct k payload_offset user_ptr;
        if sint size_probe_ret < 0 then return (payload_size, event_flags)
        else do {
          (n, flags) \<leftarrow> flag_sections
            [unmarked (\<lambda>off. capture_mnt_id_req_base_tlv_direct k off user_ptr request_size),
             \<lambda>off ef. capture_mnt_id_req_extension_tlv_direct k off user_ptr request_size ef]
            (payload_offset + payload_size) event_flags;
          return (payload_size + n, flags) } })"

definition capture_statmount_size_tlv_direct :: "kernel \<Rightarrow> nat \<Rightarrow> pending_syscall \<Rightarrow> (nat \<times> u32 \<times> s32) bpf" where
  "capture_statmount_size_tlv_direct k payload_offset p =
     (let user_ptr = arg1 (ps_args p); buffer_size = arg2 (ps_args p)
      in if user_ptr = 0 \<or> buffer_size < of_nat MNT_ID_REQ_SIZE_FIELD_SIZE then return (0, 0, -1)
         else capture_word_section k payload_offset 1 PAYLOAD_TLV_FLAG_DIRECTION_OUT user_ptr)"

definition capture_statmount_fixed_tlv_direct :: "kernel \<Rightarrow> nat \<Rightarrow> pending_syscall \<Rightarrow> nat bpf" where
  "capture_statmount_fixed_tlv_direct k payload_offset p =
     (let user_ptr = arg1 (ps_args p); buffer_size = arg2 (ps_args p);
          user_len = unat (payload_tlv_copy_len buffer_size (of_nat STATMOUNT_FIXED_SIZE))
      in if user_ptr = 0 \<or> buffer_size < of_nat MNT_ID_REQ_SIZE_FIELD_SIZE then return 0
         else copied_section k payload_offset PAYLOAD_TLV_KIND_STRUCT 1 PAYLOAD_TLV_FLAG_DIRECTION_OUT
           (of_nat user_len) user_ptr (copy_user k STATMOUNT_FIXED_SIZE user_len user_len user_ptr))"

definition capture_statmount_strings_tlv_direct ::
    "kernel \<Rightarrow> nat \<Rightarrow> pending_syscall \<Rightarrow> u32 \<Rightarrow> u16 \<Rightarrow> (nat \<times> u16) bpf" where
  "capture_statmount_strings_tlv_direct k payload_offset p result_size event_flags =
     (let user_ptr = arg1 (ps_args p); buffer_size = arg2 (ps_args p)
      in if result_size \<le> of_nat STATMOUNT_FIXED_SIZE \<or> ucast result_size > buffer_size then return (0, event_flags)
         else let user_len = result_size - of_nat STATMOUNT_FIXED_SIZE;
                  wanted_len = unat (payload_tlv_copy_len (ucast user_len) (of_nat STATMOUNT_STRING_MAX));
                  string_ptr = user_ptr + of_nat STATMOUNT_FIXED_SIZE
           in flagged_section k payload_offset PAYLOAD_TLV_KIND_BYTES 1 PAYLOAD_TLV_FLAG_DIRECTION_OUT event_flags
                user_len string_ptr (\<lambda>copied_len probe_ret. probe_ret = 0 \<and> of_nat copied_len < user_len)
                (copy_tail k STATMOUNT_STRING_MAX wanted_len user_ptr string_ptr))"

definition capture_statmount_exit_tlv_direct :: "kernel \<Rightarrow> nat \<Rightarrow> pending_syscall \<Rightarrow> u16 \<Rightarrow> (nat \<times> u16) bpf" where
  "capture_statmount_exit_tlv_direct k payload_offset p event_flags = do {
     (payload_size, result_size, size_probe_ret) \<leftarrow> capture_statmount_size_tlv_direct k payload_offset p;
     (n, flags) \<leftarrow> flag_sections
       [unmarked (\<lambda>off. capture_statmount_fixed_tlv_direct k off p),
        \<lambda>off ef. if 0 \<le> sint size_probe_ret then capture_statmount_strings_tlv_direct k off p result_size ef
                 else return (0, ef)]
       (payload_offset + payload_size) event_flags;
     return (payload_size + n, flags) }"

definition capture_listmount_ids_tlv_direct ::
    "kernel \<Rightarrow> nat \<Rightarrow> pending_syscall \<Rightarrow> s64 \<Rightarrow> u16 \<Rightarrow> (nat \<times> u16) bpf" where
  "capture_listmount_ids_tlv_direct k payload_offset p ret_value event_flags =
     (let user_ptr = arg1 (ps_args p); count = arg2 (ps_args p)
      in if user_ptr = 0 \<or> sint ret_value \<le> 0 \<or> count = 0 then return (0, event_flags)
         else let returned = (if ret_value < count then ret_value else count);
                  user_len = (if returned > 0x1fffffff then 0xffffffff
                              else ucast (returned * of_nat LISTMOUNT_ID_SIZE));
                  copied_ids = (if returned < of_nat LISTMOUNT_ID_MAX then returned else of_nat LISTMOUNT_ID_MAX);
                  wanted_len = unat copied_ids * LISTMOUNT_ID_SIZE
           in flagged_section k payload_offset PAYLOAD_TLV_KIND_BYTES 1 PAYLOAD_TLV_FLAG_DIRECTION_OUT event_flags
                user_len user_ptr (\<lambda>copied_len probe_ret. probe_ret = 0 \<and> of_nat copied_len < user_len)
                (copy_user k (LISTMOUNT_ID_MAX * LISTMOUNT_ID_SIZE) wanted_len wanted_len user_ptr))"

definition emit_mount_query_exit_event_v2_direct :: "kernel \<Rightarrow> pending_syscall \<Rightarrow> s64 \<Rightarrow> u64 \<Rightarrow> unit bpf" where
  "emit_mount_query_exit_event_v2_direct k p ret_value duration =
     emit_exit_flagged k p ret_value duration
       (if ps_sys_id p = SYS_STATMOUNT then STATMOUNT_EXIT_PAYLOAD_CAPACITY else LISTMOUNT_EXIT_PAYLOAD_CAPACITY)
       (\<lambda>off ef. if ps_sys_id p = SYS_STATMOUNT then capture_statmount_exit_tlv_direct k off p ef
          else capture_listmount_ids_tlv_direct k off p ret_value ef)"

section \<open>Mounts and directories\<close>

abbreviation (input) FS_DIRECT_MOUNT_STRING_MAX :: nat where "FS_DIRECT_MOUNT_STRING_MAX \<equiv> 512"
abbreviation (input) FS_DIRECT_MOUNT_TYPE_MAX :: nat where "FS_DIRECT_MOUNT_TYPE_MAX \<equiv> 128"
abbreviation (input) FS_DIRECT_FSCONFIG_KEY_MAX :: nat where "FS_DIRECT_FSCONFIG_KEY_MAX \<equiv> 257"
abbreviation (input) FS_DIRECT_FSCONFIG_VALUE_MAX :: nat where "FS_DIRECT_FSCONFIG_VALUE_MAX \<equiv> 4096"
abbreviation (input) FS_DIRECT_FSCONFIG_SET_BINARY :: u32 where "FS_DIRECT_FSCONFIG_SET_BINARY \<equiv> 2"
abbreviation (input) FS_DIRECT_FSCONFIG_VALUE_LEN_MASK :: u64 where "FS_DIRECT_FSCONFIG_VALUE_LEN_MASK \<equiv> 8191"
abbreviation (input) FS_DIRECT_GETDENTS_BYTES_MAX :: nat where "FS_DIRECT_GETDENTS_BYTES_MAX \<equiv> 512"
abbreviation (input) FS_DIRECT_PAYLOAD_CAPACITY :: nat where
  "FS_DIRECT_PAYLOAD_CAPACITY \<equiv> MOUNT_SETATTR_DIRECT_PAYLOAD_CAPACITY"

definition is_fs_enter_direct_syscall :: "u32 \<Rightarrow> bool" where
  "is_fs_enter_direct_syscall sys_id \<longleftrightarrow>
     sys_id \<in> set [SYS_MOUNT, SYS_UMOUNT2, SYS_FSCONFIG, SYS_MOUNT_SETATTR, SYS_FILE_SETATTR] \<or>
     is_mount_query_direct_syscall sys_id"

definition is_getdents_direct_syscall :: "u32 \<Rightarrow> bool" where
  "is_getdents_direct_syscall sys_id \<longleftrightarrow> sys_id = SYS_GETDENTS \<or> sys_id = SYS_GETDENTS64"

definition is_fs_direct_syscall :: "u32 \<Rightarrow> bool" where
  "is_fs_direct_syscall sys_id \<longleftrightarrow> is_fs_enter_direct_syscall sys_id \<or> is_getdents_direct_syscall sys_id"

text \<open>A string section for a pointer that is not null.\<close>

definition string_or_none :: "kernel \<Rightarrow> nat \<Rightarrow> u16 \<Rightarrow> u64 \<Rightarrow> nat \<Rightarrow> nat \<Rightarrow> nat bpf" where
  "string_or_none k payload_offset arg_index user_ptr window max_len =
     (if user_ptr = 0 then return 0
      else sized_section k payload_offset PAYLOAD_TLV_KIND_STRING arg_index 0 user_ptr
        (copy_string k window max_len user_ptr))"

definition capture_fs_string_tlv_direct :: "kernel \<Rightarrow> nat \<Rightarrow> u16 \<Rightarrow> u64 \<Rightarrow> nat \<Rightarrow> nat bpf" where
  "capture_fs_string_tlv_direct k payload_offset arg_index user_ptr max_len =
     (let window = (if max_len = FS_DIRECT_FSCONFIG_VALUE_MAX then FS_DIRECT_FSCONFIG_VALUE_MAX
                    else if max_len = FS_DIRECT_FSCONFIG_KEY_MAX then FS_DIRECT_FSCONFIG_KEY_MAX
                    else if max_len = FS_DIRECT_MOUNT_TYPE_MAX then FS_DIRECT_MOUNT_TYPE_MAX
                    else FS_DIRECT_MOUNT_STRING_MAX)
      in string_or_none k payload_offset arg_index user_ptr window max_len)"

definition capture_fs_bytes_tlv_direct :: "kernel \<Rightarrow> nat \<Rightarrow> u16 \<Rightarrow> u64 \<Rightarrow> u64 \<Rightarrow> u16 \<Rightarrow> (nat \<times> u16) bpf" where
  "capture_fs_bytes_tlv_direct k payload_offset arg_index user_ptr raw_user_len event_flags =
     (let masked_len = raw_user_len AND FS_DIRECT_FSCONFIG_VALUE_LEN_MASK;
          user_len = payload_tlv_clamp_u32 masked_len;
          copied_len = unat (payload_tlv_copy_len masked_len (of_nat FS_DIRECT_FSCONFIG_VALUE_MAX))
      in if user_ptr = 0 \<or> user_len = 0 then return (0, event_flags)
         else truncating_section k payload_offset PAYLOAD_TLV_KIND_BYTES arg_index 0 event_flags user_len user_ptr
           (copy_user k FS_DIRECT_FSCONFIG_VALUE_MAX copied_len copied_len user_ptr))"

definition capture_mount_payload_tlv_direct :: "kernel \<Rightarrow> nat \<Rightarrow> sys_enter_ctx \<Rightarrow> nat bpf" where
  "capture_mount_payload_tlv_direct k payload_offset ctx =
     sections payload_offset
       [\<lambda>off. capture_fs_string_tlv_direct k off 0 (arg0 (sec_args ctx)) FS_DIRECT_MOUNT_STRING_MAX,
        \<lambda>off. capture_fs_string_tlv_direct k off 1 (arg1 (sec_args ctx)) FS_DIRECT_MOUNT_STRING_MAX,
        \<lambda>off. capture_fs_string_tlv_direct k off 2 (arg2 (sec_args ctx)) FS_DIRECT_MOUNT_TYPE_MAX,
        \<lambda>off. capture_fs_string_tlv_direct k off 4 (arg4 (sec_args ctx)) FS_DIRECT_MOUNT_STRING_MAX]"

definition capture_fsconfig_payload_tlv_direct :: "kernel \<Rightarrow> nat \<Rightarrow> sys_enter_ctx \<Rightarrow> u16 \<Rightarrow> (nat \<times> u16) bpf" where
  "capture_fsconfig_payload_tlv_direct k payload_offset ctx event_flags =
     (let args = sec_args ctx
      in flag_sections
           [unmarked (\<lambda>off. capture_fs_string_tlv_direct k off 2 (arg2 args) FS_DIRECT_FSCONFIG_KEY_MAX),
            if (ucast (arg1 args) :: u32) = FS_DIRECT_FSCONFIG_SET_BINARY
            then \<lambda>off ef. capture_fs_bytes_tlv_direct k off 3 (arg3 args) (arg4 args) ef
            else unmarked (\<lambda>off. capture_fs_string_tlv_direct k off 3 (arg3 args) FS_DIRECT_FSCONFIG_VALUE_MAX)]
           payload_offset event_flags)"

definition capture_fs_enter_payload_tlv_direct ::
    "kernel \<Rightarrow> nat \<Rightarrow> u32 \<Rightarrow> sys_enter_ctx \<Rightarrow> u32 option \<Rightarrow> u16 \<Rightarrow> (nat \<times> u16) bpf" where
  "capture_fs_enter_payload_tlv_direct k payload_offset sys_id ctx cfg event_flags =
     (let args = sec_args ctx
      in if sys_id = SYS_MOUNT
         then unmarked (\<lambda>off. capture_mount_payload_tlv_direct k off ctx) payload_offset event_flags
         else if sys_id = SYS_UMOUNT2
         then unmarked (\<lambda>off. capture_fs_string_tlv_direct k off 0 (arg0 args) FS_DIRECT_MOUNT_STRING_MAX)
           payload_offset event_flags
         else if sys_id = SYS_FSCONFIG then capture_fsconfig_payload_tlv_direct k payload_offset ctx event_flags
         else if sys_id = SYS_FILE_SETATTR
         then flag_sections
           [unmarked (\<lambda>off. capture_path_only_tlv_direct k off 1 (arg1 args)),
            \<lambda>off ef. capture_file_attr_tlvs_direct k off 2 (arg2 args) (arg3 args) ef 0] payload_offset event_flags
         else if sys_id = SYS_MOUNT_SETATTR
         then capture_mount_setattr_enter_payload_tlv_direct k payload_offset ctx cfg event_flags
         else if is_mount_query_direct_syscall sys_id
         then capture_mnt_id_req_enter_tlv_direct k payload_offset ctx event_flags
         else return (0, event_flags))"

definition capture_getdents_bytes_tlv_direct ::
    "kernel \<Rightarrow> nat \<Rightarrow> pending_syscall \<Rightarrow> s64 \<Rightarrow> u16 \<Rightarrow> (nat \<times> u16) bpf" where
  "capture_getdents_bytes_tlv_direct k payload_offset p ret_value event_flags =
     (if sint ret_value \<le> 0 then return (0, event_flags)
      else let user_ptr = arg1 (ps_args p);
               copied_len = unat (payload_tlv_copy_len ret_value (of_nat FS_DIRECT_GETDENTS_BYTES_MAX))
        in truncating_section k payload_offset PAYLOAD_TLV_KIND_BYTES 1 PAYLOAD_TLV_FLAG_DIRECTION_OUT event_flags
             (payload_tlv_clamp_u32 ret_value) user_ptr
             (copy_user_checked k FS_DIRECT_GETDENTS_BYTES_MAX (min copied_len FS_DIRECT_GETDENTS_BYTES_MAX) user_ptr))"

definition emit_fs_enter_event_v2_direct ::
    "kernel \<Rightarrow> u32 \<Rightarrow> u32 \<Rightarrow> u32 \<Rightarrow> sys_enter_ctx \<Rightarrow> u32 option \<Rightarrow> u64 \<Rightarrow> unit bpf" where
  "emit_fs_enter_event_v2_direct k pid tid sys_id ctx cfg ts_ns =
     (let fd_state = (case cfg of None \<Rightarrow> False | Some c \<Rightarrow> has_flag c CONFIG_FD_STATE);
          payload_capacity = (if sys_id = SYS_MOUNT_SETATTR \<and> \<not> fd_state
            then FS_DIRECT_PAYLOAD_CAPACITY - FD_PATH_DIRECT_SECTION_MAX else FS_DIRECT_PAYLOAD_CAPACITY)
      in emit_enter_flagged k pid tid sys_id (sec_args ctx) ts_ns payload_capacity
           (\<lambda>off ef. capture_fs_enter_payload_tlv_direct k off sys_id ctx cfg ef))"

definition emit_getdents_exit_event_v2_direct :: "kernel \<Rightarrow> pending_syscall \<Rightarrow> s64 \<Rightarrow> u64 \<Rightarrow> unit bpf" where
  "emit_getdents_exit_event_v2_direct k p ret_value duration =
     emit_exit_flagged k p ret_value duration (PAYLOAD_TLV_HEADER_SIZE + FS_DIRECT_GETDENTS_BYTES_MAX)
       (\<lambda>off ef. capture_getdents_bytes_tlv_direct k off p ret_value ef)"

section \<open>Extended attributes\<close>

abbreviation (input) XATTR_DIRECT_PATH_MAX :: nat where "XATTR_DIRECT_PATH_MAX \<equiv> 512"
abbreviation (input) XATTR_DIRECT_NAME_MAX :: nat where "XATTR_DIRECT_NAME_MAX \<equiv> 256"
abbreviation (input) XATTR_DIRECT_VALUE_MAX :: nat where "XATTR_DIRECT_VALUE_MAX \<equiv> 256"
abbreviation (input) XATTR_DIRECT_PAYLOAD_CAPACITY :: nat where
  "XATTR_DIRECT_PAYLOAD_CAPACITY \<equiv>
     3 * PAYLOAD_TLV_HEADER_SIZE + XATTR_DIRECT_PATH_MAX + XATTR_DIRECT_NAME_MAX + XATTR_DIRECT_VALUE_MAX"

definition is_xattr_set_direct_syscall :: "u32 \<Rightarrow> bool" where
  "is_xattr_set_direct_syscall sys_id \<longleftrightarrow> sys_id \<in> set [SYS_SETXATTR, SYS_LSETXATTR, SYS_FSETXATTR]"

definition is_xattr_get_direct_syscall :: "u32 \<Rightarrow> bool" where
  "is_xattr_get_direct_syscall sys_id \<longleftrightarrow> sys_id \<in> set [SYS_GETXATTR, SYS_LGETXATTR, SYS_FGETXATTR]"

definition is_xattr_list_direct_syscall :: "u32 \<Rightarrow> bool" where
  "is_xattr_list_direct_syscall sys_id \<longleftrightarrow> sys_id \<in> set [SYS_LISTXATTR, SYS_LLISTXATTR, SYS_FLISTXATTR]"

definition is_xattr_remove_direct_syscall :: "u32 \<Rightarrow> bool" where
  "is_xattr_remove_direct_syscall sys_id \<longleftrightarrow> sys_id \<in> set [SYS_REMOVEXATTR, SYS_LREMOVEXATTR, SYS_FREMOVEXATTR]"

definition is_xattr_direct_syscall :: "u32 \<Rightarrow> bool" where
  "is_xattr_direct_syscall sys_id \<longleftrightarrow>
     is_xattr_set_direct_syscall sys_id \<or> is_xattr_get_direct_syscall sys_id \<or>
     is_xattr_list_direct_syscall sys_id \<or> is_xattr_remove_direct_syscall sys_id"

definition xattr_direct_has_path :: "u32 \<Rightarrow> bool" where
  "xattr_direct_has_path sys_id \<longleftrightarrow> sys_id \<in> set
     [SYS_SETXATTR, SYS_LSETXATTR, SYS_GETXATTR, SYS_LGETXATTR, SYS_LISTXATTR, SYS_LLISTXATTR,
      SYS_REMOVEXATTR, SYS_LREMOVEXATTR]"

definition xattr_direct_has_name :: "u32 \<Rightarrow> bool" where
  "xattr_direct_has_name sys_id \<longleftrightarrow>
     is_xattr_set_direct_syscall sys_id \<or> is_xattr_get_direct_syscall sys_id \<or> is_xattr_remove_direct_syscall sys_id"

record xattr_bytes_capture_request =
  xbr_arg_index :: u16
  xbr_tlv_flags :: u16
  xbr_user_ptr :: u64
  xbr_raw_user_len :: u64

definition capture_xattr_string_tlv_direct :: "kernel \<Rightarrow> nat \<Rightarrow> u16 \<Rightarrow> u64 \<Rightarrow> nat \<Rightarrow> nat bpf" where
  "capture_xattr_string_tlv_direct k payload_offset arg_index user_ptr max_len =
     string_or_none k payload_offset arg_index user_ptr
       (if max_len = XATTR_DIRECT_PATH_MAX then XATTR_DIRECT_PATH_MAX else XATTR_DIRECT_NAME_MAX) max_len"

definition capture_xattr_bytes_tlv_direct ::
    "kernel \<Rightarrow> nat \<Rightarrow> xattr_bytes_capture_request \<Rightarrow> u16 \<Rightarrow> (nat \<times> u16) bpf" where
  "capture_xattr_bytes_tlv_direct k payload_offset request event_flags =
     (let user_len = payload_tlv_clamp_u32 (xbr_raw_user_len request); user_ptr = xbr_user_ptr request;
          copied_len = unat (payload_tlv_copy_len (xbr_raw_user_len request) (of_nat XATTR_DIRECT_VALUE_MAX))
      in if user_ptr = 0 \<or> user_len = 0 then return (0, event_flags)
         else truncating_section k payload_offset PAYLOAD_TLV_KIND_BYTES (xbr_arg_index request)
           (xbr_tlv_flags request) event_flags user_len user_ptr
           (copy_user k XATTR_DIRECT_VALUE_MAX (min copied_len XATTR_DIRECT_VALUE_MAX)
             (min copied_len XATTR_DIRECT_VALUE_MAX) user_ptr))"

definition capture_xattr_enter_payload_tlv_direct ::
    "kernel \<Rightarrow> nat \<Rightarrow> u32 \<Rightarrow> sys_enter_ctx \<Rightarrow> u16 \<Rightarrow> (nat \<times> u16) bpf" where
  "capture_xattr_enter_payload_tlv_direct k payload_offset sys_id ctx event_flags =
     (let args = sec_args ctx
      in flag_sections
           [unmarked (\<lambda>off. if xattr_direct_has_path sys_id
              then capture_xattr_string_tlv_direct k off 0 (arg0 args) XATTR_DIRECT_PATH_MAX else return 0),
            unmarked (\<lambda>off. if xattr_direct_has_name sys_id
              then capture_xattr_string_tlv_direct k off 1 (arg1 args) XATTR_DIRECT_NAME_MAX else return 0),
            \<lambda>off ef. if is_xattr_set_direct_syscall sys_id
              then capture_xattr_bytes_tlv_direct k off \<lparr>xbr_arg_index = 2, xbr_tlv_flags = 0,
                     xbr_user_ptr = arg2 args, xbr_raw_user_len = arg3 args\<rparr> ef
              else return (0, ef)] payload_offset event_flags)"

definition emit_xattr_enter_event_v2_direct ::
    "kernel \<Rightarrow> u32 \<Rightarrow> u32 \<Rightarrow> u32 \<Rightarrow> sys_enter_ctx \<Rightarrow> u64 \<Rightarrow> unit bpf" where
  "emit_xattr_enter_event_v2_direct k pid tid sys_id ctx ts_ns =
     emit_enter_flagged k pid tid sys_id (sec_args ctx) ts_ns XATTR_DIRECT_PAYLOAD_CAPACITY
       (\<lambda>off ef. capture_xattr_enter_payload_tlv_direct k off sys_id ctx ef)"

definition emit_xattr_bytes_exit_event_v2_direct ::
    "kernel \<Rightarrow> pending_syscall \<Rightarrow> s64 \<Rightarrow> u64 \<Rightarrow> u16 \<Rightarrow> u64 \<Rightarrow> unit bpf" where
  "emit_xattr_bytes_exit_event_v2_direct k p ret_value duration arg_index user_ptr =
     emit_exit_flagged k p ret_value duration (PAYLOAD_TLV_HEADER_SIZE + XATTR_DIRECT_VALUE_MAX)
       (\<lambda>off ef. capture_xattr_bytes_tlv_direct k off \<lparr>xbr_arg_index = arg_index,
          xbr_tlv_flags = PAYLOAD_TLV_FLAG_DIRECTION_OUT, xbr_user_ptr = user_ptr, xbr_raw_user_len = ret_value\<rparr> ef)"

definition emit_xattr_get_exit_event_v2_direct :: "kernel \<Rightarrow> pending_syscall \<Rightarrow> s64 \<Rightarrow> u64 \<Rightarrow> unit bpf" where
  "emit_xattr_get_exit_event_v2_direct k p ret_value duration =
     emit_xattr_bytes_exit_event_v2_direct k p ret_value duration 2 (arg2 (ps_args p))"

definition emit_xattr_list_exit_event_v2_direct :: "kernel \<Rightarrow> pending_syscall \<Rightarrow> s64 \<Rightarrow> u64 \<Rightarrow> unit bpf" where
  "emit_xattr_list_exit_event_v2_direct k p ret_value duration =
     emit_xattr_bytes_exit_event_v2_direct k p ret_value duration 1 (arg1 (ps_args p))"

section \<open>Keys\<close>

abbreviation (input) KEY_DIRECT_TYPE_MAX :: nat where "KEY_DIRECT_TYPE_MAX \<equiv> 64"
abbreviation (input) KEY_DIRECT_DESCRIPTION_MAX :: nat where "KEY_DIRECT_DESCRIPTION_MAX \<equiv> 128"
abbreviation (input) KEY_DIRECT_PAYLOAD_MAX :: nat where "KEY_DIRECT_PAYLOAD_MAX \<equiv> 256"
abbreviation (input) KEY_DIRECT_PAYLOAD_CAPACITY :: nat where
  "KEY_DIRECT_PAYLOAD_CAPACITY \<equiv>
     3 * PAYLOAD_TLV_HEADER_SIZE + KEY_DIRECT_TYPE_MAX + KEY_DIRECT_DESCRIPTION_MAX + KEY_DIRECT_PAYLOAD_MAX"
abbreviation (input) KEYCTL_DIRECT_PAYLOAD_CAPACITY :: nat where
  "KEYCTL_DIRECT_PAYLOAD_CAPACITY \<equiv> 2 * (PAYLOAD_TLV_HEADER_SIZE + KEY_DIRECT_PAYLOAD_MAX)"
abbreviation (input) KEYCTL_JOIN_SESSION_KEYRING :: u64 where "KEYCTL_JOIN_SESSION_KEYRING \<equiv> 1"
abbreviation (input) KEYCTL_UPDATE :: u64 where "KEYCTL_UPDATE \<equiv> 2"
abbreviation (input) KEYCTL_DESCRIBE :: u64 where "KEYCTL_DESCRIBE \<equiv> 6"
abbreviation (input) KEYCTL_SEARCH :: u64 where "KEYCTL_SEARCH \<equiv> 10"
abbreviation (input) KEYCTL_READ :: u64 where "KEYCTL_READ \<equiv> 11"
abbreviation (input) KEYCTL_INSTANTIATE :: u64 where "KEYCTL_INSTANTIATE \<equiv> 12"
abbreviation (input) KEYCTL_GET_SECURITY :: u64 where "KEYCTL_GET_SECURITY \<equiv> 17"
abbreviation (input) KEYCTL_CAPABILITIES :: u64 where "KEYCTL_CAPABILITIES \<equiv> 31"

definition is_keyctl_direct_syscall :: "u32 \<Rightarrow> bool" where
  "is_keyctl_direct_syscall sys_id \<longleftrightarrow> sys_id = SYS_KEYCTL"

definition is_keyctl_output_operation :: "u64 \<Rightarrow> bool" where
  "is_keyctl_output_operation operation \<longleftrightarrow>
     operation \<in> set [KEYCTL_DESCRIBE, KEYCTL_READ, KEYCTL_GET_SECURITY, KEYCTL_CAPABILITIES]"

definition keyctl_output_arg_index :: "u64 \<Rightarrow> u16" where
  "keyctl_output_arg_index operation = (if operation = KEYCTL_CAPABILITIES then 1 else 2)"

definition keyctl_output_user_ptr :: "pending_syscall \<Rightarrow> u64" where
  "keyctl_output_user_ptr p =
     (if arg0 (ps_args p) = KEYCTL_CAPABILITIES then arg1 (ps_args p) else arg2 (ps_args p))"

definition keyctl_output_user_len :: "pending_syscall \<Rightarrow> s64 \<Rightarrow> u64" where
  "keyctl_output_user_len p ret_value =
     (let requested_len = (if arg0 (ps_args p) = KEYCTL_CAPABILITIES then arg2 (ps_args p) else arg3 (ps_args p))
      in if requested_len < ret_value then requested_len else ret_value)"

definition is_key_direct_syscall :: "u32 \<Rightarrow> bool" where
  "is_key_direct_syscall sys_id \<longleftrightarrow>
     sys_id = SYS_ADD_KEY \<or> sys_id = SYS_REQUEST_KEY \<or> is_keyctl_direct_syscall sys_id"

record key_bytes_capture_request =
  kbr_arg_index :: u16
  kbr_tlv_flags :: u16
  kbr_user_ptr :: u64
  kbr_raw_user_len :: u64

definition capture_key_string_tlv_direct :: "kernel \<Rightarrow> nat \<Rightarrow> u16 \<Rightarrow> u64 \<Rightarrow> nat \<Rightarrow> nat bpf" where
  "capture_key_string_tlv_direct k payload_offset arg_index user_ptr max_len =
     string_or_none k payload_offset arg_index user_ptr
       (if max_len = KEY_DIRECT_TYPE_MAX then KEY_DIRECT_TYPE_MAX
        else if max_len = KEY_DIRECT_DESCRIPTION_MAX then KEY_DIRECT_DESCRIPTION_MAX
        else KEY_DIRECT_PAYLOAD_MAX) max_len"

definition capture_key_bytes_tlv_direct ::
    "kernel \<Rightarrow> nat \<Rightarrow> key_bytes_capture_request \<Rightarrow> u16 \<Rightarrow> (nat \<times> u16) bpf" where
  "capture_key_bytes_tlv_direct k payload_offset request event_flags =
     (let user_len = payload_tlv_clamp_u32 (kbr_raw_user_len request); user_ptr = kbr_user_ptr request;
          copied_len = unat (payload_tlv_copy_len (kbr_raw_user_len request) (of_nat KEY_DIRECT_PAYLOAD_MAX))
      in if user_ptr = 0 \<or> user_len = 0 then return (0, event_flags)
         else truncating_section k payload_offset PAYLOAD_TLV_KIND_BYTES (kbr_arg_index request)
           (kbr_tlv_flags request) event_flags user_len user_ptr
           (copy_user k KEY_DIRECT_PAYLOAD_MAX (min copied_len KEY_DIRECT_PAYLOAD_MAX)
             (min copied_len KEY_DIRECT_PAYLOAD_MAX) user_ptr))"

definition capture_keyctl_payload_tlv_direct :: "kernel \<Rightarrow> nat \<Rightarrow> sys_enter_ctx \<Rightarrow> u16 \<Rightarrow> (nat \<times> u16) bpf" where
  "capture_keyctl_payload_tlv_direct k payload_offset ctx event_flags =
     (let args = sec_args ctx; operation = arg0 args
      in if operation = KEYCTL_JOIN_SESSION_KEYRING
         then unmarked (\<lambda>off. capture_key_string_tlv_direct k off 1 (arg1 args) KEY_DIRECT_DESCRIPTION_MAX)
           payload_offset event_flags
         else if operation = KEYCTL_UPDATE \<or> operation = KEYCTL_INSTANTIATE
         then capture_key_bytes_tlv_direct k payload_offset \<lparr>kbr_arg_index = 2, kbr_tlv_flags = 0,
           kbr_user_ptr = arg2 args, kbr_raw_user_len = arg3 args\<rparr> event_flags
         else if operation = KEYCTL_SEARCH
         then flag_sections
           [unmarked (\<lambda>off. capture_key_string_tlv_direct k off 2 (arg2 args) KEY_DIRECT_TYPE_MAX),
            unmarked (\<lambda>off. capture_key_string_tlv_direct k off 3 (arg3 args) KEY_DIRECT_DESCRIPTION_MAX)]
           payload_offset event_flags
         else return (0, event_flags))"

definition capture_key_payload_tlv_direct :: "kernel \<Rightarrow> nat \<Rightarrow> u32 \<Rightarrow> sys_enter_ctx \<Rightarrow> u16 \<Rightarrow> (nat \<times> u16) bpf" where
  "capture_key_payload_tlv_direct k payload_offset sys_id ctx event_flags =
     (let args = sec_args ctx
      in if sys_id = SYS_KEYCTL then capture_keyctl_payload_tlv_direct k payload_offset ctx event_flags
         else flag_sections
           [unmarked (\<lambda>off. capture_key_string_tlv_direct k off 0 (arg0 args) KEY_DIRECT_TYPE_MAX),
            unmarked (\<lambda>off. capture_key_string_tlv_direct k off 1 (arg1 args) KEY_DIRECT_DESCRIPTION_MAX),
            if sys_id = SYS_ADD_KEY
            then \<lambda>off ef. capture_key_bytes_tlv_direct k off \<lparr>kbr_arg_index = 2, kbr_tlv_flags = 0,
              kbr_user_ptr = arg2 args, kbr_raw_user_len = arg3 args\<rparr> ef
            else unmarked (\<lambda>off. capture_key_string_tlv_direct k off 2 (arg2 args) KEY_DIRECT_PAYLOAD_MAX)]
           payload_offset event_flags)"

definition capture_keyctl_output_tlv_direct ::
    "kernel \<Rightarrow> nat \<Rightarrow> pending_syscall \<Rightarrow> s64 \<Rightarrow> u16 \<Rightarrow> (nat \<times> u16) bpf" where
  "capture_keyctl_output_tlv_direct k payload_offset p ret_value event_flags =
     (let operation = arg0 (ps_args p)
      in if \<not> is_keyctl_output_operation operation \<or> sint ret_value \<le> 0 then return (0, event_flags)
         else capture_key_bytes_tlv_direct k payload_offset \<lparr>kbr_arg_index = keyctl_output_arg_index operation,
           kbr_tlv_flags = PAYLOAD_TLV_FLAG_DIRECTION_OUT, kbr_user_ptr = keyctl_output_user_ptr p,
           kbr_raw_user_len = keyctl_output_user_len p ret_value\<rparr> event_flags)"

definition emit_key_enter_event_v2_direct ::
    "kernel \<Rightarrow> u32 \<Rightarrow> u32 \<Rightarrow> u32 \<Rightarrow> sys_enter_ctx \<Rightarrow> u64 \<Rightarrow> unit bpf" where
  "emit_key_enter_event_v2_direct k pid tid sys_id ctx ts_ns =
     emit_enter_flagged k pid tid sys_id (sec_args ctx) ts_ns
       (if is_keyctl_direct_syscall sys_id then KEYCTL_DIRECT_PAYLOAD_CAPACITY else KEY_DIRECT_PAYLOAD_CAPACITY)
       (\<lambda>off ef. capture_key_payload_tlv_direct k off sys_id ctx ef)"

text \<open>Whether the operation has an output to report, in which case it is reported or its loss recorded.\<close>

definition emit_keyctl_exit_event_v2_direct :: "kernel \<Rightarrow> pending_syscall \<Rightarrow> s64 \<Rightarrow> u64 \<Rightarrow> bool bpf" where
  "emit_keyctl_exit_event_v2_direct k p ret_value duration =
     (if \<not> is_keyctl_output_operation (arg0 (ps_args p)) \<or> sint ret_value \<le> 0 then return False
      else do {
        emit_exit_flagged k p ret_value duration (PAYLOAD_TLV_HEADER_SIZE + KEY_DIRECT_PAYLOAD_MAX)
          (\<lambda>off ef. capture_keyctl_output_tlv_direct k off p ret_value ef);
        return True })"

section \<open>Quotas\<close>

abbreviation (input) QUOTA_DIRECT_DQBLK_SIZE :: nat where "QUOTA_DIRECT_DQBLK_SIZE \<equiv> 72"
abbreviation (input) QUOTA_DIRECT_DQINFO_SIZE :: nat where "QUOTA_DIRECT_DQINFO_SIZE \<equiv> 24"
abbreviation (input) QUOTA_DIRECT_FORMAT_SIZE :: nat where "QUOTA_DIRECT_FORMAT_SIZE \<equiv> 4"
abbreviation (input) QUOTA_DIRECT_ON :: u32 where "QUOTA_DIRECT_ON \<equiv> 0x800002"
abbreviation (input) QUOTA_DIRECT_GETFMT :: u32 where "QUOTA_DIRECT_GETFMT \<equiv> 0x800004"
abbreviation (input) QUOTA_DIRECT_GETINFO :: u32 where "QUOTA_DIRECT_GETINFO \<equiv> 0x800005"
abbreviation (input) QUOTA_DIRECT_SETINFO :: u32 where "QUOTA_DIRECT_SETINFO \<equiv> 0x800006"
abbreviation (input) QUOTA_DIRECT_GETQUOTA :: u32 where "QUOTA_DIRECT_GETQUOTA \<equiv> 0x800007"
abbreviation (input) QUOTA_DIRECT_SETQUOTA :: u32 where "QUOTA_DIRECT_SETQUOTA \<equiv> 0x800008"
abbreviation (input) QUOTA_DIRECT_GETNEXTQUOTA :: u32 where "QUOTA_DIRECT_GETNEXTQUOTA \<equiv> 0x800009"
abbreviation (input) QUOTA_XFS_ON :: u32 where "QUOTA_XFS_ON \<equiv> 0x5801"
abbreviation (input) QUOTA_XFS_OFF :: u32 where "QUOTA_XFS_OFF \<equiv> 0x5802"
abbreviation (input) QUOTA_XFS_GET_QUOTA :: u32 where "QUOTA_XFS_GET_QUOTA \<equiv> 0x5803"
abbreviation (input) QUOTA_XFS_SET_QLIM :: u32 where "QUOTA_XFS_SET_QLIM \<equiv> 0x5804"
abbreviation (input) QUOTA_XFS_GET_QSTAT :: u32 where "QUOTA_XFS_GET_QSTAT \<equiv> 0x5805"
abbreviation (input) QUOTA_XFS_QUOTA_RM :: u32 where "QUOTA_XFS_QUOTA_RM \<equiv> 0x5806"
abbreviation (input) QUOTA_XFS_GET_QSTATV :: u32 where "QUOTA_XFS_GET_QSTATV \<equiv> 0x5808"
abbreviation (input) QUOTA_XFS_GET_NEXT :: u32 where "QUOTA_XFS_GET_NEXT \<equiv> 0x5809"
abbreviation (input) QUOTA_XFS_FLAGS_SIZE :: nat where "QUOTA_XFS_FLAGS_SIZE \<equiv> 4"
abbreviation (input) QUOTA_XFS_DISK_SIZE :: nat where "QUOTA_XFS_DISK_SIZE \<equiv> 112"
abbreviation (input) QUOTA_XFS_STAT_SIZE :: nat where "QUOTA_XFS_STAT_SIZE \<equiv> 80"
abbreviation (input) QUOTA_XFS_STATV_SIZE :: nat where "QUOTA_XFS_STATV_SIZE \<equiv> 160"

definition quota_xfs_enter_struct_size :: "u32 \<Rightarrow> nat" where
  "quota_xfs_enter_struct_size command =
     (if command = QUOTA_XFS_ON \<or> command = QUOTA_XFS_OFF \<or> command = QUOTA_XFS_QUOTA_RM then QUOTA_XFS_FLAGS_SIZE
      else if command = QUOTA_XFS_SET_QLIM then QUOTA_XFS_DISK_SIZE
      else 0)"

definition quota_xfs_exit_struct_size :: "u32 \<Rightarrow> nat" where
  "quota_xfs_exit_struct_size command =
     (if command = QUOTA_XFS_GET_QUOTA \<or> command = QUOTA_XFS_GET_NEXT then QUOTA_XFS_DISK_SIZE
      else if command = QUOTA_XFS_GET_QSTAT then QUOTA_XFS_STAT_SIZE
      else if command = QUOTA_XFS_GET_QSTATV then QUOTA_XFS_STATV_SIZE
      else 0)"

text \<open>The window asked for; a size that is none of the four is not served.\<close>

definition quota_xfs_dynptr_data :: "nat \<Rightarrow> nat \<Rightarrow> bool bpf" where
  "quota_xfs_dynptr_data data_offset struct_size =
     (if struct_size \<in> set [QUOTA_XFS_FLAGS_SIZE, QUOTA_XFS_DISK_SIZE, QUOTA_XFS_STAT_SIZE, QUOTA_XFS_STATV_SIZE]
      then bpf_dynptr_data data_offset struct_size else return False)"

definition capture_quota_xfs_struct_tlv_direct :: "kernel \<Rightarrow> nat \<Rightarrow> u64 \<Rightarrow> nat \<Rightarrow> u16 \<Rightarrow> nat bpf" where
  "capture_quota_xfs_struct_tlv_direct k payload_offset user_ptr struct_size dir_flags =
     (if user_ptr = 0 \<or> struct_size = 0 then return 0
      else copied_section k payload_offset PAYLOAD_TLV_KIND_STRUCT 3 dir_flags (of_nat struct_size) user_ptr
        (\<lambda>data_offset. do {
          payload_data \<leftarrow> quota_xfs_dynptr_data data_offset struct_size;
          if \<not> payload_data then do { record_ringbuf_copy_fail k; return (0, -1) }
          else do {
            (err, bs) \<leftarrow> bpf_probe_read_user k struct_size user_ptr;
            mem_store data_offset bs;
            if err < 0 then return (0, of_int err) else return (struct_size, 0) } }))"

definition is_quota_direct_syscall :: "u32 \<Rightarrow> bool" where
  "is_quota_direct_syscall sys_id \<longleftrightarrow> sys_id = SYS_QUOTACTL \<or> sys_id = SYS_QUOTACTL_FD"

definition quota_direct_command :: "u64 \<Rightarrow> u32" where
  "quota_direct_command qcmd = drop_bit 8 (ucast qcmd :: u32)"

definition quota_direct_enter_command :: "sys_enter_ctx \<Rightarrow> u32 \<Rightarrow> u32" where
  "quota_direct_enter_command ctx sys_id =
     quota_direct_command (if sys_id = SYS_QUOTACTL_FD then arg1 (sec_args ctx) else arg0 (sec_args ctx))"

definition quota_direct_pending_command :: "pending_syscall \<Rightarrow> u32" where
  "quota_direct_pending_command p =
     quota_direct_command (if ps_sys_id p = SYS_QUOTACTL_FD then arg1 (ps_args p) else arg0 (ps_args p))"

definition quota_direct_has_exit_payload :: "u32 \<Rightarrow> bool" where
  "quota_direct_has_exit_payload command \<longleftrightarrow>
     command \<in> set [QUOTA_DIRECT_GETFMT, QUOTA_DIRECT_GETINFO, QUOTA_DIRECT_GETQUOTA, QUOTA_DIRECT_GETNEXTQUOTA] \<or>
     quota_xfs_exit_struct_size command > 0"

definition quota_direct_struct_size :: "u32 \<Rightarrow> nat" where
  "quota_direct_struct_size command =
     (if command = QUOTA_DIRECT_GETFMT then QUOTA_DIRECT_FORMAT_SIZE
      else if command = QUOTA_DIRECT_GETINFO \<or> command = QUOTA_DIRECT_SETINFO then QUOTA_DIRECT_DQINFO_SIZE
      else QUOTA_DIRECT_DQBLK_SIZE)"

text \<open>The window \<^verbatim>\<open>quota_direct_dynptr_data\<close> asks for.\<close>

definition quota_direct_dynptr_data :: "nat \<Rightarrow> nat" where
  "quota_direct_dynptr_data struct_size =
     (if struct_size = QUOTA_DIRECT_FORMAT_SIZE then QUOTA_DIRECT_FORMAT_SIZE
      else if struct_size = QUOTA_DIRECT_DQINFO_SIZE then QUOTA_DIRECT_DQINFO_SIZE
      else QUOTA_DIRECT_DQBLK_SIZE)"

definition capture_quota_struct_tlv_direct :: "kernel \<Rightarrow> nat \<Rightarrow> u64 \<Rightarrow> nat \<Rightarrow> u16 \<Rightarrow> nat bpf" where
  "capture_quota_struct_tlv_direct k payload_offset user_ptr struct_size dir_flags =
     struct_section k payload_offset 3 dir_flags user_ptr (quota_direct_dynptr_data struct_size) struct_size struct_size"

definition quota_direct_enter_capacity :: "u32 \<Rightarrow> u32 \<Rightarrow> nat" where
  "quota_direct_enter_capacity sys_id command =
     (if sys_id = SYS_QUOTACTL then PAYLOAD_TLV_HEADER_SIZE + PATH_ONLY_DIRECT_PATH_MAX else 0) +
     (if command = QUOTA_DIRECT_ON then PAYLOAD_TLV_HEADER_SIZE + PATH_ONLY_DIRECT_PATH_MAX
      else if command = QUOTA_DIRECT_SETINFO \<or> command = QUOTA_DIRECT_SETQUOTA
      then PAYLOAD_TLV_HEADER_SIZE + quota_direct_struct_size command
      else if quota_xfs_enter_struct_size command > 0
      then PAYLOAD_TLV_HEADER_SIZE + quota_xfs_enter_struct_size command
      else 0)"

definition capture_quota_enter_tlvs :: "kernel \<Rightarrow> nat \<Rightarrow> u32 \<Rightarrow> sys_enter_ctx \<Rightarrow> nat bpf" where
  "capture_quota_enter_tlvs k payload_offset sys_id ctx =
     (let args = sec_args ctx; command = quota_direct_enter_command ctx sys_id;
          xfs_size = quota_xfs_enter_struct_size command
      in sections payload_offset
           [\<lambda>off. if sys_id = SYS_QUOTACTL then capture_path_only_tlv_direct k off 1 (arg1 args) else return 0,
            \<lambda>off. if command = QUOTA_DIRECT_ON then capture_path_only_tlv_direct k off 3 (arg3 args)
              else if command = QUOTA_DIRECT_SETINFO \<or> command = QUOTA_DIRECT_SETQUOTA
              then capture_quota_struct_tlv_direct k off (arg3 args) (quota_direct_struct_size command) 0
              else if xfs_size > 0 then capture_quota_xfs_struct_tlv_direct k off (arg3 args) xfs_size 0
              else return 0])"

definition emit_quota_enter_event_v2_direct ::
    "kernel \<Rightarrow> u32 \<Rightarrow> u32 \<Rightarrow> u32 \<Rightarrow> sys_enter_ctx \<Rightarrow> u64 \<Rightarrow> unit bpf" where
  "emit_quota_enter_event_v2_direct k pid tid sys_id ctx ts_ns =
     emit_enter_sections k pid tid sys_id (sec_args ctx) ts_ns
       (quota_direct_enter_capacity sys_id (quota_direct_enter_command ctx sys_id))
       [\<lambda>off. capture_quota_enter_tlvs k off sys_id ctx]"

definition emit_quota_exit_event_v2_direct :: "kernel \<Rightarrow> pending_syscall \<Rightarrow> s64 \<Rightarrow> u64 \<Rightarrow> unit bpf" where
  "emit_quota_exit_event_v2_direct k p ret_value duration =
     (let command = quota_direct_pending_command p;
          xfs_size = quota_xfs_exit_struct_size command;
          struct_size = (if xfs_size > 0 then xfs_size else quota_direct_struct_size command);
          user_ptr = arg3 (ps_args p)
      in emit_exit_sections k p ret_value duration (PAYLOAD_TLV_HEADER_SIZE + struct_size)
           [\<lambda>off. if xfs_size > 0
              then capture_quota_xfs_struct_tlv_direct k off user_ptr struct_size PAYLOAD_TLV_FLAG_DIRECTION_OUT
              else capture_quota_struct_tlv_direct k off user_ptr struct_size PAYLOAD_TLV_FLAG_DIRECTION_OUT])"

section \<open>Accounting\<close>

lemma captures_string_or_none:
  "32 + n \<le> cap \<Longrightarrow> cap < 2 ^ 32 \<Longrightarrow> captures k off cap (\<lambda>n. n) (string_or_none k off arg up w n)"
  unfolding string_or_none_def
  by (intro captures_if captures_return captures_sized_section [where m = n] copies_copy_string)
     (simp_all add: payloadKindFromTLV_def)

lemma mount_path_emitter [emitter_intros]: "emitter k (emit_mount_path_enter_event_v2_direct k pid tid sys_id ctx ts)"
  unfolding emit_mount_path_enter_event_v2_direct_def
  by (intro emitter_enter_list fits_cons [OF captures_path_only] fits_nil) simp_all

lemma copies_checked_tail:
  "m < 2 ^ 32 \<Longrightarrow> copies k off m (if b then return (0, - 1)
     else copy_user k w r (unat (payload_tlv_copy_len v (of_nat m))) q off)"
  by (intro copies_if copies_return copies_clamped) simp_all

lemma flagged_mount_setattr_extension:
  "flagged k 288 (\<lambda>off ef. capture_mount_setattr_extension_tlv_direct k off ctx ef)"
  unfolding capture_mount_setattr_extension_tlv_direct_def Let_def
  by (intro flagged_cond flagged_none flagged_flagged_section [where m = 256] copies_checked_tail)
     (simp_all add: payloadKindFromTLV_def)

lemma flagged_mount_setattr:
  assumes "(case cfg of None \<Rightarrow> False | Some c \<Rightarrow> has_flag c CONFIG_FD_STATE) \<Longrightarrow> 592 \<le> a" "a + 4480 \<le> cap"
  shows "flagged k cap (\<lambda>off ef. capture_mount_setattr_enter_payload_tlv_direct k off ctx cfg ef)"
proof -
  have base: "captures k off 64 (\<lambda>n. n) (capture_mount_setattr_base_tlv_direct k off ctx)" for off
    unfolding capture_mount_setattr_base_tlv_direct_def Let_def
    by (intro captures_if captures_return captures_copied_section copies_user_checked)
       (auto simp: payloadKindFromTLV_def)
  let ?b = "case cfg of None \<Rightarrow> False | Some c \<Rightarrow> has_flag c CONFIG_FD_STATE"
  have fd: "captures k off a (\<lambda>n. n) (if ?b then capture_fd_path_tlv_direct k off 0 fd else return 0)" for off fd
    using captures_mono [OF captures_fd_path assms(1)] by (auto intro: captures_return)
  show ?thesis
    unfolding capture_mount_setattr_enter_payload_tlv_direct_def Let_def
    by (intro flagged_sections_cons [OF flagged_unmarked [OF fd]] flagged_sections_cons [OF flagged_unmarked [OF captures_path_only]]
        flagged_sections_cons [OF flagged_unmarked [OF base]] flagged_sections_one
        flagged_mono [OF flagged_mount_setattr_extension]) (use assms(2) in simp_all)
qed

text \<open>A section whose data is written behind its header.\<close>

lemma captures_word_section: "captures k off 36 fst (capture_word_section k off arg fl up)"
proof -
  let ?w = "\<lambda>err bs. do {
     ok \<leftarrow> payload_tlv_write_header_direct k off PAYLOAD_TLV_KIND_STRUCT arg fl 4
       (of_nat (if err < 0 then 0 else 4)) (if 0 \<le> err then 0 else of_int err) up;
     if \<not> ok then return (0, if 0 \<le> err then le_word bs else 0 :: u32, if 0 \<le> err then 0 else of_int err :: s32)
     else if (if err < 0 then 0 else 4) > (0 :: nat) then do {
       ok \<leftarrow> bpf_dynptr_write (off + 32) bs;
       if \<not> ok then do { record_ringbuf_copy_fail k; return (0, if 0 \<le> err then le_word bs else 0, if 0 \<le> err then 0 else of_int err) }
       else return (32 + (if err < 0 then 0 else 4), if 0 \<le> err then le_word bs else 0, if 0 \<le> err then 0 else of_int err) }
     else return (32 + (if err < 0 then 0 else 4), if 0 \<le> err then le_word bs else 0, if 0 \<le> err then 0 else of_int err) }"
  have "captures k off 36 fst (?w err bs)" if "length bs = 4" for err :: int and bs
    unfolding captures_def extends_def
  proof (intro conjI allI impI)
    fix s :: machine and d assume s: "reservation s = Some d" "off + 0 + 36 \<le> length d"
    let ?c = "if err < 0 then 0 else (4 :: u32)" and ?r = "if 0 \<le> err then 0 else (of_int err :: s32)"
    let ?h = "enc_tlv_header \<lparr>tlv_kind = PAYLOAD_TLV_KIND_STRUCT, tlv_arg_index = arg, tlv_flags = fl, tlv_reserved = 0,
       tlv_user_len = 4, tlv_copied_len = ?c, tlv_probe_ret = ?r, tlv_reserved2 = 0, tlv_user_ptr = up\<rparr>"
    have "parses (take 32 (drop off (poke d off ?h)))" if "err < 0"
      using s that parses_section [of "\<lparr>tlv_kind = PAYLOAD_TLV_KIND_STRUCT, tlv_arg_index = arg, tlv_flags = fl,
        tlv_reserved = 0, tlv_user_len = 4, tlv_copied_len = ?c, tlv_probe_ret = ?r, tlv_reserved2 = 0,
        tlv_user_ptr = up\<rparr>" "[]"] by (simp add: poke_def payloadKindFromTLV_def)
    moreover have "parses (take 36 (drop off (poke (poke d off ?h) (off + 32) bs)))" if "\<not> err < 0"
      using s that \<open>length bs = 4\<close> parses_section [of "\<lparr>tlv_kind = PAYLOAD_TLV_KIND_STRUCT, tlv_arg_index = arg,
        tlv_flags = fl, tlv_reserved = 0, tlv_user_len = 4, tlv_copied_len = ?c, tlv_probe_ret = ?r,
        tlv_reserved2 = 0, tlv_user_ptr = up\<rparr>" bs] by (simp add: poke_def payloadKindFromTLV_def)
    ultimately show "wp (?w err bs) (\<lambda>x t. fst x \<le> 0 + 36 \<and> (\<exists>d'. reservation t = Some d' \<and>
        parses (take (fst x) (drop off d')))) s"
      using s \<open>length bs = 4\<close> by (simp add: payload_tlv_write_header_direct_def wp_simps add.commute)
  qed (auto intro!: silent_rules silent_intros reports_rules reports_intros above_rules above_header above_store above_intros)
  moreover have "gives (bpf_probe_read_user k 4 up) (\<lambda>(err, bs). length bs = 4)"
    by (simp add: gives_def bpf_probe_read_user_def run_bind_parts del: run_state_bind)
  ultimately show ?thesis
    unfolding capture_word_section_def Let_def
    by (intro captures_pre [where P = "\<lambda>(err, bs). length bs = 4"])
       (auto intro!: silent_intros reports_intros above_intros)
qed

lemma captures_mnt_id_req_size: "captures k off 36 fst (capture_mnt_id_req_size_tlv_direct k off up)"
  unfolding capture_mnt_id_req_size_tlv_direct_def by (intro captures_if captures_return captures_word_section) simp

lemma copies_tail: "n \<le> m \<Longrightarrow> copies k off m (copy_tail k w n up q off)"
  unfolding copy_tail_def
  by (rule copies_step copies_case_prod copies_if copies_return silent_rules silent_intros reports_rules reports_intros
      above_rules above_intros above_store | simp)+

lemma copy_len_bound: "m < 2 ^ 32 \<Longrightarrow> unat (payload_tlv_copy_len v (of_nat m)) \<le> m"
  using copy_len_le [of v "of_nat m"] by (simp add: unat_of_nat take_bit_nat_eq_self)

lemma flagged_mnt_id_req:
  "flagged k 352 (flag_sections
     [unmarked (\<lambda>off. capture_mnt_id_req_base_tlv_direct k off up n),
      \<lambda>off ef. capture_mnt_id_req_extension_tlv_direct k off up n ef])"
proof (rule flagged_sections_cons)
  show "flagged k 64 (unmarked (\<lambda>off. capture_mnt_id_req_base_tlv_direct k off up n))"
    unfolding capture_mnt_id_req_base_tlv_direct_def Let_def
    by (intro flagged_unmarked captures_if captures_return captures_copied_section [where m = 32] copies_user)
       (simp_all add: payloadKindFromTLV_def)
  show "flagged k (352 - 64) (flag_sections [\<lambda>off ef. capture_mnt_id_req_extension_tlv_direct k off up n ef])"
    unfolding capture_mnt_id_req_extension_tlv_direct_def Let_def
    by (intro flagged_sections_one flagged_cond flagged_none flagged_flagged_section [where m = 256] copies_tail
        copy_len_bound) (simp_all add: payloadKindFromTLV_def)
qed simp

text \<open>A first section with a result that selects the sections behind it.\<close>

lemma flagged_prefix:
  assumes m: "\<And>off. captures k off a fst (m off)" and g: "\<And>x. flagged k b (g x)" and "a + b \<le> cap"
  shows "flagged k cap (\<lambda>off ef. do {
     x \<leftarrow> m off; (n, fl) \<leftarrow> g x (off + fst x) ef; return (fst x + n, fl) })"
  unfolding flagged_def
proof (intro allI conjI impI)
  fix off ef
  have c: "captures k (off + n) b fst (g x (off + n) fl)" for x n fl using g [of x] by (simp add: flagged_def)
  show "captures k off cap fst (do { x \<leftarrow> m off; (n, fl) \<leftarrow> g x (off + fst x) ef; return (fst x + n, fl) })"
    by (rule captures_then [OF m])
       (use assms(3) in \<open>auto simp: split_beta intro!: extends_capture [OF c] extends_return\<close>)
  assume ef: "\<not> has_flag ef EVENT_FLAG_COMPACT_ENTER"
  let ?P = "\<lambda>(n, f). \<not> has_flag f EVENT_FLAG_COMPACT_ENTER"
  have "gives (g x (off + n) ef) ?P" for x n using g [of x] ef by (simp add: flagged_def)
  then show "gives (do { x \<leftarrow> m off; (n, fl) \<leftarrow> g x (off + fst x) ef; return (fst x + n, fl) }) ?P"
    by (intro gives_bind_any gives_bind [where P = ?P]) (auto intro: gives_return)
qed

lemma flagged_mnt_id_req_enter: "flagged k 388 (\<lambda>off ef. capture_mnt_id_req_enter_tlv_direct k off ctx ef)"
proof -
  let ?up = "arg0 (sec_args ctx)"
  have "flagged k 352 (\<lambda>off ef. if sint (snd (snd x)) < 0 then return (0, ef) else flag_sections
     [unmarked (\<lambda>off. capture_mnt_id_req_base_tlv_direct k off ?up (fst (snd x))),
      \<lambda>off ef. capture_mnt_id_req_extension_tlv_direct k off ?up (fst (snd x)) ef] off ef)" for x :: "nat \<times> u32 \<times> s32"
    by (intro flagged_cond flagged_none flagged_mnt_id_req)
  from flagged_prefix [OF captures_mnt_id_req_size this, of 388]
  have "flagged k 388 (\<lambda>off ef. do { x \<leftarrow> capture_mnt_id_req_size_tlv_direct k off ?up;
     (n, fl) \<leftarrow> (if sint (snd (snd x)) < 0 then return (0, ef) else flag_sections
     [unmarked (\<lambda>off. capture_mnt_id_req_base_tlv_direct k off ?up (fst (snd x))),
      \<lambda>off ef. capture_mnt_id_req_extension_tlv_direct k off ?up (fst (snd x)) ef] (off + fst x) ef);
     return (fst x + n, fl) })" by simp
  moreover have "(\<lambda>off ef. capture_mnt_id_req_enter_tlv_direct k off ctx ef) = (\<lambda>off ef. do {
     x \<leftarrow> capture_mnt_id_req_size_tlv_direct k off ?up;
     (n, fl) \<leftarrow> (if sint (snd (snd x)) < 0 then return (0, ef) else flag_sections
     [unmarked (\<lambda>off. capture_mnt_id_req_base_tlv_direct k off ?up (fst (snd x))),
      \<lambda>off ef. capture_mnt_id_req_extension_tlv_direct k off ?up (fst (snd x)) ef] (off + fst x) ef);
     return (fst x + n, fl) })"
    by (intro ext) (auto simp: capture_mnt_id_req_enter_tlv_direct_def Let_def split_beta intro!: arg_cong2 [where f = State_Monad.bind] ext)
  ultimately show ?thesis by simp
qed

lemma flagged_statmount: "flagged k 4708 (\<lambda>off ef. capture_statmount_exit_tlv_direct k off p ef)"
proof -
  have sz: "captures k off 36 fst (capture_statmount_size_tlv_direct k off p)" for off
    unfolding capture_statmount_size_tlv_direct_def Let_def
    by (intro captures_if captures_return captures_word_section) simp
  have fixed: "captures k off 544 (\<lambda>n. n) (capture_statmount_fixed_tlv_direct k off p)" for off
    unfolding capture_statmount_fixed_tlv_direct_def Let_def
    by (intro captures_if captures_return captures_copied_section [where m = 512] copies_clamped)
       (simp_all add: payloadKindFromTLV_def)
  have "flagged k 4128 (\<lambda>off ef. capture_statmount_strings_tlv_direct k off p n ef)" for n
    unfolding capture_statmount_strings_tlv_direct_def Let_def
    by (intro flagged_cond flagged_none flagged_flagged_section [where m = 4096] copies_tail copy_len_bound)
       (simp_all add: payloadKindFromTLV_def)
  note strings = this
  let ?g = "\<lambda>x :: nat \<times> u32 \<times> s32. flag_sections [unmarked (\<lambda>off. capture_statmount_fixed_tlv_direct k off p),
      \<lambda>off ef. if 0 \<le> sint (snd (snd x)) then capture_statmount_strings_tlv_direct k off p (fst (snd x)) ef
               else return (0, ef)]"
  have "flagged k 4672 (?g x)" for x
    by (intro flagged_sections_cons [OF flagged_unmarked [OF fixed]] flagged_sections_one flagged_cond flagged_none)
       (simp_all add: strings)
  from flagged_prefix [of k 36 "\<lambda>off. capture_statmount_size_tlv_direct k off p" 4672 ?g 4708, OF sz this]
  show ?thesis by (simp add: capture_statmount_exit_tlv_direct_def case_prod_unfold)
qed

lemma flagged_listmount: "flagged k 288 (\<lambda>off ef. capture_listmount_ids_tlv_direct k off p ret ef)"
proof -
  show ?thesis
    unfolding capture_listmount_ids_tlv_direct_def Let_def
    by (intro flagged_cond flagged_none flagged_flagged_section [where m = 256] copies_user)
       (simp_all add: payloadKindFromTLV_def word_less_nat_alt)
qed

lemma mount_query_emitter [emitter_intros]: "emitter k (emit_mount_query_exit_event_v2_direct k p ret dur)"
  unfolding emit_mount_query_exit_event_v2_direct_def
  by (intro emitter_exit_flagged) (auto intro: flagged_mono [OF flagged_statmount] flagged_mono [OF flagged_listmount])

lemma captures_fs_string:
  "32 + n \<le> cap \<Longrightarrow> cap < 2 ^ 32 \<Longrightarrow> captures k off cap (\<lambda>n. n) (capture_fs_string_tlv_direct k off arg up n)"
  unfolding capture_fs_string_tlv_direct_def Let_def by (rule captures_string_or_none)

lemma flagged_fs_bytes: "flagged k 4128 (\<lambda>off ef. capture_fs_bytes_tlv_direct k off arg up rl ef)"
  unfolding capture_fs_bytes_tlv_direct_def Let_def
  by (intro flagged_cond flagged_none flagged_truncating_section [where m = 4096] copies_clamped)
     (simp_all add: payloadKindFromTLV_def)

lemma flagged_mount_payload: "flagged k 1792 (unmarked (\<lambda>off. capture_mount_payload_tlv_direct k off ctx))"
proof -
  have "fits k 1792
       [\<lambda>off. capture_fs_string_tlv_direct k off 0 (arg0 (sec_args ctx)) 512,
        \<lambda>off. capture_fs_string_tlv_direct k off 1 (arg1 (sec_args ctx)) 512,
        \<lambda>off. capture_fs_string_tlv_direct k off 2 (arg2 (sec_args ctx)) 128,
        \<lambda>off. capture_fs_string_tlv_direct k off 4 (arg4 (sec_args ctx)) 512]"
    by (rule fits_cons [where a = 544], rule captures_fs_string, simp_all,
        rule fits_cons [where a = 544], rule captures_fs_string, simp_all,
        rule fits_cons [where a = 160], rule captures_fs_string, simp_all,
        rule fits_one, rule captures_fs_string) simp_all
  then show ?thesis
    by (intro flagged_unmarked) (simp add: fits_def capture_mount_payload_tlv_direct_def)
qed

lemma flagged_fsconfig: "flagged k 4417 (\<lambda>off ef. capture_fsconfig_payload_tlv_direct k off ctx ef)"
  unfolding capture_fsconfig_payload_tlv_direct_def Let_def
  by (rule flagged_sections_cons [where a = 289], rule flagged_unmarked, rule captures_fs_string)
     (auto intro!: flagged_sections_one flagged_fs_bytes flagged_unmarked captures_fs_string)

lemma flagged_fs_enter:
  assumes "sys_id = SYS_MOUNT_SETATTR \<Longrightarrow> (case cfg of None \<Rightarrow> False | Some c \<Rightarrow> has_flag c CONFIG_FD_STATE) \<Longrightarrow> 5072 \<le> cap"
    and "4480 \<le> cap" "cap < 2 ^ 31"
  shows "flagged k cap (\<lambda>off ef. capture_fs_enter_payload_tlv_direct k off sys_id ctx cfg ef)"
  unfolding capture_fs_enter_payload_tlv_direct_def Let_def
proof (intro flagged_cond flagged_none)
  show "flagged k cap (unmarked (\<lambda>off. capture_mount_payload_tlv_direct k off ctx))"
    by (rule flagged_mono [OF flagged_mount_payload]) (use assms in simp)
  show "flagged k cap (unmarked (\<lambda>off. capture_fs_string_tlv_direct k off 0 (arg0 (sec_args ctx)) 512))"
    by (intro flagged_unmarked captures_fs_string) (use assms in simp_all)
  show "flagged k cap (\<lambda>off ef. capture_fsconfig_payload_tlv_direct k off ctx ef)"
    by (rule flagged_mono [OF flagged_fsconfig]) (use assms in simp)
  show "flagged k cap (flag_sections [unmarked (\<lambda>off. capture_path_only_tlv_direct k off 1 (arg1 (sec_args ctx))),
      \<lambda>off ef. capture_file_attr_tlvs_direct k off 2 (arg2 (sec_args ctx)) (arg3 (sec_args ctx)) ef 0])"
    by (intro flagged_sections_cons [OF flagged_unmarked [OF captures_path_only]] flagged_sections_one
        flagged_mono [OF flagged_file_attr]) (use assms in simp_all)
  show "flagged k cap (\<lambda>off ef. capture_mnt_id_req_enter_tlv_direct k off ctx ef)"
    by (rule flagged_mono [OF flagged_mnt_id_req_enter]) (use assms in simp)
  assume "sys_id = SYS_MOUNT_SETATTR"
  then show "flagged k cap (\<lambda>off ef. capture_mount_setattr_enter_payload_tlv_direct k off ctx cfg ef)"
    using assms by (intro flagged_mount_setattr [where a = "cap - 4480"]) auto
qed

lemma fs_emitters [emitter_intros]:
  "emitter k (emit_fs_enter_event_v2_direct k pid tid sys_id ctx cfg ts)"
  "emitter k (emit_getdents_exit_event_v2_direct k p ret dur)"
proof -
  show "emitter k (emit_fs_enter_event_v2_direct k pid tid sys_id ctx cfg ts)"
    unfolding emit_fs_enter_event_v2_direct_def Let_def
    by (intro emitter_enter_flagged flagged_fs_enter) (simp_all split: option.split)
  show "emitter k (emit_getdents_exit_event_v2_direct k p ret dur)"
    unfolding emit_getdents_exit_event_v2_direct_def capture_getdents_bytes_tlv_direct_def Let_def
    by (intro emitter_exit_flagged flagged_cond flagged_none flagged_truncating_section [where m = 512]
        copies_user_checked) (simp_all add: payloadKindFromTLV_def)
qed

lemma captures_xattr_string:
  "32 + n \<le> cap \<Longrightarrow> cap < 2 ^ 32 \<Longrightarrow> captures k off cap (\<lambda>n. n) (capture_xattr_string_tlv_direct k off arg up n)"
  unfolding capture_xattr_string_tlv_direct_def by (rule captures_string_or_none)

lemma flagged_xattr_bytes: "flagged k 288 (\<lambda>off ef. capture_xattr_bytes_tlv_direct k off r ef)"
  unfolding capture_xattr_bytes_tlv_direct_def Let_def
  by (intro flagged_cond flagged_none flagged_truncating_section [where m = 256] copies_user)
     (simp_all add: payloadKindFromTLV_def)

lemma xattr_emitters [emitter_intros]:
  "emitter k (emit_xattr_enter_event_v2_direct k pid tid sys_id ctx ts)"
  "emitter k (emit_xattr_get_exit_event_v2_direct k p ret dur)"
  "emitter k (emit_xattr_list_exit_event_v2_direct k p ret dur)"
proof -
  have p: "captures k off 544 (\<lambda>n. n) (if b then capture_xattr_string_tlv_direct k off 0 up 512 else return 0)" for off b up
    by (intro captures_if captures_return captures_xattr_string) simp_all
  have n: "captures k off 288 (\<lambda>n. n) (if b then capture_xattr_string_tlv_direct k off 1 up 256 else return 0)" for off b up
    by (intro captures_if captures_return captures_xattr_string) simp_all
  show "emitter k (emit_xattr_enter_event_v2_direct k pid tid sys_id ctx ts)"
    unfolding emit_xattr_enter_event_v2_direct_def capture_xattr_enter_payload_tlv_direct_def Let_def
    by (intro emitter_enter_flagged flagged_sections_cons [OF flagged_unmarked [OF p]]
        flagged_sections_cons [OF flagged_unmarked [OF n]] flagged_sections_one flagged_cond flagged_none)
       (simp_all add: flagged_xattr_bytes)
  show "emitter k (emit_xattr_get_exit_event_v2_direct k p ret dur)"
    "emitter k (emit_xattr_list_exit_event_v2_direct k p ret dur)"
    unfolding emit_xattr_get_exit_event_v2_direct_def emit_xattr_list_exit_event_v2_direct_def
      emit_xattr_bytes_exit_event_v2_direct_def
    by (intro emitter_exit_flagged; simp add: flagged_xattr_bytes)+
qed

lemma captures_key_string:
  "32 + n \<le> cap \<Longrightarrow> cap < 2 ^ 32 \<Longrightarrow> captures k off cap (\<lambda>n. n) (capture_key_string_tlv_direct k off arg up n)"
  unfolding capture_key_string_tlv_direct_def by (rule captures_string_or_none)

lemma flagged_key_bytes: "flagged k 288 (\<lambda>off ef. capture_key_bytes_tlv_direct k off r ef)"
  unfolding capture_key_bytes_tlv_direct_def Let_def
  by (intro flagged_cond flagged_none flagged_truncating_section [where m = 256] copies_user)
     (simp_all add: payloadKindFromTLV_def)

lemma flagged_keyctl: "flagged k 576 (\<lambda>off ef. capture_keyctl_payload_tlv_direct k off ctx ef)"
  unfolding capture_keyctl_payload_tlv_direct_def Let_def
  by (intro flagged_cond flagged_none flagged_mono [OF flagged_key_bytes]
      flagged_sections_cons [where a = 96] flagged_sections_one flagged_unmarked captures_key_string) simp_all

lemma flagged_key:
  "flagged k (if is_keyctl_direct_syscall sys_id then 576 else 544)
     (\<lambda>off ef. capture_key_payload_tlv_direct k off sys_id ctx ef)"
  unfolding capture_key_payload_tlv_direct_def Let_def is_keyctl_direct_syscall_def
proof (intro flagged_cond)
  assume "sys_id \<noteq> SYS_KEYCTL"
  then show "flagged k (if sys_id = SYS_KEYCTL then 576 else 544) (flag_sections
      [unmarked (\<lambda>off. capture_key_string_tlv_direct k off 0 (arg0 (sec_args ctx)) 64),
       unmarked (\<lambda>off. capture_key_string_tlv_direct k off 1 (arg1 (sec_args ctx)) 128),
       if sys_id = SYS_ADD_KEY
       then \<lambda>off ef. capture_key_bytes_tlv_direct k off \<lparr>kbr_arg_index = 2, kbr_tlv_flags = 0,
         kbr_user_ptr = arg2 (sec_args ctx), kbr_raw_user_len = arg3 (sec_args ctx)\<rparr> ef
       else unmarked (\<lambda>off. capture_key_string_tlv_direct k off 2 (arg2 (sec_args ctx)) 256)])"
    by (simp only: if_False, intro flagged_sections_cons [where a = 96 and c = "unmarked _"]
        flagged_sections_cons [where a = 160 and c = "unmarked _"] flagged_sections_one flagged_if flagged_unmarked
        captures_key_string) (simp_all add: flagged_key_bytes)
qed (simp add: flagged_keyctl)

lemma key_emitters [emitter_intros]:
  "emitter k (emit_key_enter_event_v2_direct k pid tid sys_id ctx ts)"
  "emitter k (emit_keyctl_exit_event_v2_direct k p ret dur)"
proof -
  show "emitter k (emit_key_enter_event_v2_direct k pid tid sys_id ctx ts)"
    unfolding emit_key_enter_event_v2_direct_def using flagged_key [of k sys_id ctx]
    by (cases "is_keyctl_direct_syscall sys_id") (simp_all add: emitter_enter_flagged)
  show "emitter k (emit_keyctl_exit_event_v2_direct k p ret dur)"
    unfolding emit_keyctl_exit_event_v2_direct_def capture_keyctl_output_tlv_direct_def Let_def
    by (intro emitter_rules emitter_exit_flagged flagged_cond flagged_none) (simp_all add: flagged_key_bytes)
qed

lemma captures_quota:
  "32 + n \<le> cap \<Longrightarrow> cap < 2 ^ 32 \<Longrightarrow> captures k off cap (\<lambda>n. n) (capture_quota_struct_tlv_direct k off up n fl)"
  unfolding capture_quota_struct_tlv_direct_def by (rule captures_struct_section)

lemma captures_quota_xfs:
  assumes "32 + n \<le> cap" "cap < 2 ^ 32"
  shows "captures k off cap (\<lambda>n. n) (capture_quota_xfs_struct_tlv_direct k off up n fl)"
proof -
  have d: "silent k (quota_xfs_dynptr_data i n)" "reports (quota_xfs_dynptr_data i n)" "above i (quota_xfs_dynptr_data i n)" for i
    unfolding quota_xfs_dynptr_data_def
    by (intro silent_rules silent_intros reports_rules reports_intros above_rules above_intros)+
  have "copies k off n (do {
      payload_data \<leftarrow> quota_xfs_dynptr_data off n;
      if \<not> payload_data then do { record_ringbuf_copy_fail k; return (0, -1) }
      else do {
        (err, bs) \<leftarrow> bpf_probe_read_user k n up;
        mem_store off bs;
        if err < 0 then return (0, of_int err) else return (n, 0) } })" for off
    by (rule d copies_step copies_case_prod copies_if copies_return silent_intros reports_intros above_intros
        above_store | simp)+
  then show ?thesis
    unfolding capture_quota_xfs_struct_tlv_direct_def
    by (intro captures_if captures_return captures_copied_section [where m = n])
       (use assms in \<open>simp_all add: payloadKindFromTLV_def\<close>)
qed

lemma quota_emitters [emitter_intros]:
  "emitter k (emit_quota_enter_event_v2_direct k pid tid sys_id ctx ts)"
  "emitter k (emit_quota_exit_event_v2_direct k p ret dur)"
proof -
  let ?c = "quota_direct_enter_command ctx sys_id"
  let ?b = "if ?c = QUOTA_DIRECT_ON then 4128 else if ?c = QUOTA_DIRECT_SETINFO \<or> ?c = QUOTA_DIRECT_SETQUOTA
    then 32 + quota_direct_struct_size ?c else if quota_xfs_enter_struct_size ?c > 0
    then 32 + quota_xfs_enter_struct_size ?c else 0"
  have a: "captures k off (if sys_id = SYS_QUOTACTL then 4128 else 0) (\<lambda>n. n)
     (if sys_id = SYS_QUOTACTL then capture_path_only_tlv_direct k off 1 up else return 0)" for off up
    by (simp add: captures_path_only captures_return)
  have le: "quota_direct_struct_size c \<le> 72" "quota_xfs_enter_struct_size c \<le> 112" "quota_xfs_exit_struct_size c \<le> 160" for c
    by (simp_all add: quota_direct_struct_size_def quota_xfs_enter_struct_size_def quota_xfs_exit_struct_size_def)
  have b: "captures k off ?b (\<lambda>n. n) (if ?c = QUOTA_DIRECT_ON then capture_path_only_tlv_direct k off 3 up
      else if ?c = QUOTA_DIRECT_SETINFO \<or> ?c = QUOTA_DIRECT_SETQUOTA
      then capture_quota_struct_tlv_direct k off up (quota_direct_struct_size ?c) 0
      else if quota_xfs_enter_struct_size ?c > 0
      then capture_quota_xfs_struct_tlv_direct k off up (quota_xfs_enter_struct_size ?c) 0 else return 0)" for off up
    using le [of ?c] by (auto intro!: captures_path_only captures_return captures_quota captures_quota_xfs)
  have "fits k (quota_direct_enter_capacity sys_id ?c)
     [\<lambda>off. if sys_id = SYS_QUOTACTL then capture_path_only_tlv_direct k off 1 (arg1 (sec_args ctx)) else return 0,
      \<lambda>off. if ?c = QUOTA_DIRECT_ON then capture_path_only_tlv_direct k off 3 (arg3 (sec_args ctx))
      else if ?c = QUOTA_DIRECT_SETINFO \<or> ?c = QUOTA_DIRECT_SETQUOTA
      then capture_quota_struct_tlv_direct k off (arg3 (sec_args ctx)) (quota_direct_struct_size ?c) 0
      else if quota_xfs_enter_struct_size ?c > 0
      then capture_quota_xfs_struct_tlv_direct k off (arg3 (sec_args ctx)) (quota_xfs_enter_struct_size ?c) 0
      else return 0]"
    by (rule fits_cons [OF a], simp add: quota_direct_enter_capacity_def, rule fits_cons [OF b])
       (simp_all add: quota_direct_enter_capacity_def fits_nil)
  moreover have "quota_direct_enter_capacity sys_id ?c < 2 ^ 31"
  proof -
    have "quota_direct_enter_capacity sys_id ?c \<le> 4128 + 4128"
      unfolding quota_direct_enter_capacity_def using le(1,2) [of ?c] by (intro add_mono) simp_all
    then show ?thesis by simp
  qed
  ultimately show "emitter k (emit_quota_enter_event_v2_direct k pid tid sys_id ctx ts)"
    unfolding emit_quota_enter_event_v2_direct_def
    by (intro emitter_enter_list fits_one) (simp_all add: capture_quota_enter_tlvs_def fits_def Let_def)
  show "emitter k (emit_quota_exit_event_v2_direct k p ret dur)"
    unfolding emit_quota_exit_event_v2_direct_def Let_def using le [of "quota_direct_pending_command p"]
    by (intro emitter_exit_list fits_one captures_if captures_quota captures_quota_xfs) auto
qed

end
