(* ===== verification/Poll_Events.thy ===== *)
theory Poll_Events
  imports File_System_Events
begin

text \<open>
  The families that wait on descriptors, and the descriptors they collect for the path fragments:
  \<^verbatim>\<open>bpf/syscall_{epoll,poll,select}{,_capture,_emit}_direct_event_v2.h\<close>.
\<close>

section \<open>Arrays of structures\<close>

text \<open>
  The loop over the slots of an array in user memory: it stops behind the last slot wanted, at the first
  slot that cannot be read, and at the first that does not fit.  The probe result tells of an error on the
  first slot only; \<^verbatim>\<open>bpf_dynptr_write\<close> beyond the record fails with \<open>-E2BIG\<close>.
\<close>

abbreviation (input) E2BIG :: s32 where "E2BIG \<equiv> 7"

primrec copy_slots :: "kernel \<Rightarrow> u64 \<Rightarrow> nat \<Rightarrow> nat \<Rightarrow> nat list \<Rightarrow> nat \<Rightarrow> nat \<Rightarrow> (nat \<times> s32) bpf" where
  "copy_slots k user_ptr slot_size target_len [] copied_len data_offset = return (copied_len, 0)"
| "copy_slots k user_ptr slot_size target_len (i # is) copied_len data_offset =
     (if i * slot_size \<ge> target_len then return (copied_len, 0)
      else do {
        (err, bs) \<leftarrow> bpf_probe_read_user k slot_size (user_ptr + of_nat (i * slot_size));
        if err < 0 then return (copied_len, if copied_len = 0 then of_int err else 0)
        else do {
          ok \<leftarrow> bpf_dynptr_write (data_offset + copied_len) bs;
          if \<not> ok then do { record_ringbuf_copy_fail k; return (copied_len, if copied_len = 0 then - E2BIG else 0) }
          else copy_slots k user_ptr slot_size target_len is (copied_len + slot_size) data_offset } })"

section \<open>epoll\<close>

abbreviation (input) EPOLL_DIRECT_EVENT_SIZE :: nat where "EPOLL_DIRECT_EVENT_SIZE \<equiv> 12"
abbreviation (input) EPOLL_DIRECT_EVENT_DATA_OFFSET :: nat where "EPOLL_DIRECT_EVENT_DATA_OFFSET \<equiv> 4"
abbreviation (input) EPOLL_DIRECT_TIMEOUT_SIZE :: nat where "EPOLL_DIRECT_TIMEOUT_SIZE \<equiv> 16"
abbreviation (input) EPOLL_DIRECT_EVENT_SLOT_MAX :: nat where "EPOLL_DIRECT_EVENT_SLOT_MAX \<equiv> 42"
abbreviation (input) EPOLL_DIRECT_EVENTS_MAX :: nat where "EPOLL_DIRECT_EVENTS_MAX \<equiv> 504"

definition is_epoll_pwait2_direct_syscall :: "u32 \<Rightarrow> bool" where
  "is_epoll_pwait2_direct_syscall sys_id \<longleftrightarrow> sys_id = SYS_EPOLL_PWAIT2"

definition is_epoll_ctl_direct_syscall :: "u32 \<Rightarrow> bool" where
  "is_epoll_ctl_direct_syscall sys_id \<longleftrightarrow> sys_id = SYS_EPOLL_CTL"

definition is_epoll_wait_direct_syscall :: "u32 \<Rightarrow> bool" where
  "is_epoll_wait_direct_syscall sys_id \<longleftrightarrow>
     sys_id = SYS_EPOLL_WAIT \<or> sys_id = SYS_EPOLL_PWAIT \<or> is_epoll_pwait2_direct_syscall sys_id"

definition is_epoll_direct_syscall :: "u32 \<Rightarrow> bool" where
  "is_epoll_direct_syscall sys_id \<longleftrightarrow> is_epoll_ctl_direct_syscall sys_id \<or> is_epoll_wait_direct_syscall sys_id"

definition epoll_events_user_len :: "s64 \<Rightarrow> u32" where
  "epoll_events_user_len count =
     (if sint count \<le> 0 then 0
      else if count > 0xffffffff div of_nat EPOLL_DIRECT_EVENT_SIZE then 0xffffffff
      else ucast count * of_nat EPOLL_DIRECT_EVENT_SIZE)"

definition epoll_events_copy_len :: "s64 \<Rightarrow> nat" where
  "epoll_events_copy_len count =
     (if sint count \<le> 0 then 0
      else if count > of_nat EPOLL_DIRECT_EVENT_SLOT_MAX then EPOLL_DIRECT_EVENTS_MAX
      else unat count * EPOLL_DIRECT_EVENT_SIZE)"

text \<open>\<^verbatim>\<open>epoll_fd_path_scan_callback\<close> for the indices in turn; the loop ends when the callback returns 1.\<close>

primrec epoll_fd_path_scan_callback :: "kernel \<Rightarrow> u64 \<Rightarrow> nat \<Rightarrow> nat list \<Rightarrow> fd_path_scratch \<Rightarrow> fd_path_scratch bpf" where
  "epoll_fd_path_scan_callback k user_ptr count [] scratch = return scratch"
| "epoll_fd_path_scan_callback k user_ptr count (i # is) scratch =
     (if i \<ge> count then return scratch
      else do {
        (err, bs) \<leftarrow> bpf_probe_read_user k 4 (user_ptr + of_nat (i * EPOLL_DIRECT_EVENT_SIZE + EPOLL_DIRECT_EVENT_DATA_OFFSET));
        let fd = le_word bs;
        epoll_fd_path_scan_callback k user_ptr count is
          (if err < 0 \<or> sint fd < 0 \<or> fd \<ge> FD_STATE_MAX_FD then scratch
           else fd_path_nested_add_window_candidate scratch fd) })"

definition collect_epoll_fd_path_candidates_direct :: "kernel \<Rightarrow> pending_syscall \<Rightarrow> s64 \<Rightarrow> u32 bpf" where
  "collect_epoll_fd_path_candidates_direct k p ret_value = do {
     cfg \<leftarrow> gets config_map;
     if \<not> (case cfg of None \<Rightarrow> False | Some c \<Rightarrow> has_flag c CONFIG_FD_STATE) \<or>
        \<not> is_epoll_wait_direct_syscall (ps_sys_id p) \<or> sint ret_value \<le> 0 \<or> arg1 (ps_args p) = 0
     then return 0
     else do {
       scratch \<leftarrow> lookup_fd_path_scratch k;
       case scratch of None \<Rightarrow> return 0
       | Some x \<Rightarrow> do {
           let count = (if ret_value > of_nat EPOLL_DIRECT_EVENT_SLOT_MAX then EPOLL_DIRECT_EVENT_SLOT_MAX else unat ret_value);
           x \<leftarrow> epoll_fd_path_scan_callback k (arg1 (ps_args p)) count [0..<EPOLL_DIRECT_EVENT_SLOT_MAX]
             (x\<lparr>fps_nested_fd_count := 0\<rparr>);
           store_fd_path_scratch k x;
           return (fps_nested_fd_count x) } } }"

definition capture_epoll_events_tlv_direct ::
    "kernel \<Rightarrow> nat \<Rightarrow> pending_syscall \<Rightarrow> s64 \<Rightarrow> u16 \<Rightarrow> (nat \<times> u16) bpf" where
  "capture_epoll_events_tlv_direct k payload_offset p ret_value event_flags =
     (let user_ptr = arg1 (ps_args p);
          user_len = epoll_events_user_len ret_value;
          target_len = epoll_events_copy_len ret_value
      in if user_len = 0 \<or> user_ptr = 0 then return (0, event_flags)
         else truncating_section k payload_offset PAYLOAD_TLV_KIND_STRUCT 1 PAYLOAD_TLV_FLAG_DIRECTION_OUT event_flags
           user_len user_ptr
           (copy_slots k user_ptr EPOLL_DIRECT_EVENT_SIZE target_len [0..<EPOLL_DIRECT_EVENT_SLOT_MAX] 0))"

definition capture_epoll_timeout_tlv_direct :: "kernel \<Rightarrow> nat \<Rightarrow> args6 \<Rightarrow> nat bpf" where
  "capture_epoll_timeout_tlv_direct k payload_offset args =
     struct_section k payload_offset 3 0 (arg3 args) EPOLL_DIRECT_TIMEOUT_SIZE EPOLL_DIRECT_TIMEOUT_SIZE
       EPOLL_DIRECT_TIMEOUT_SIZE"

definition capture_epoll_ctl_event_tlv_direct :: "kernel \<Rightarrow> nat \<Rightarrow> args6 \<Rightarrow> nat bpf" where
  "capture_epoll_ctl_event_tlv_direct k payload_offset args =
     struct_section k payload_offset 3 0 (arg3 args) EPOLL_DIRECT_EVENT_SIZE EPOLL_DIRECT_EVENT_SIZE
       EPOLL_DIRECT_EVENT_SIZE"

definition emit_epoll_ctl_enter_event_v2_direct ::
    "kernel \<Rightarrow> u32 \<Rightarrow> u32 \<Rightarrow> u32 \<Rightarrow> sys_enter_ctx \<Rightarrow> u32 option \<Rightarrow> u64 \<Rightarrow> unit bpf" where
  "emit_epoll_ctl_enter_event_v2_direct k pid tid sys_id ctx cfg ts_ns =
     emit_fd_paths_and_section k pid tid sys_id ctx cfg ts_ns (PAYLOAD_TLV_HEADER_SIZE + EPOLL_DIRECT_EVENT_SIZE)
       (capture_epoll_ctl_event_tlv_direct k)"

definition emit_epoll_pwait2_enter_event_v2_direct ::
    "kernel \<Rightarrow> u32 \<Rightarrow> u32 \<Rightarrow> u32 \<Rightarrow> sys_enter_ctx \<Rightarrow> u32 option \<Rightarrow> u64 \<Rightarrow> unit bpf" where
  "emit_epoll_pwait2_enter_event_v2_direct k pid tid sys_id ctx cfg ts_ns =
     emit_fd_paths_and_section k pid tid sys_id ctx cfg ts_ns (PAYLOAD_TLV_HEADER_SIZE + EPOLL_DIRECT_TIMEOUT_SIZE)
       (capture_epoll_timeout_tlv_direct k)"

definition emit_epoll_wait_exit_event_v2_direct :: "kernel \<Rightarrow> pending_syscall \<Rightarrow> s64 \<Rightarrow> u64 \<Rightarrow> unit bpf" where
  "emit_epoll_wait_exit_event_v2_direct k p ret_value duration =
     emit_exit_flagged k p ret_value duration (PAYLOAD_TLV_HEADER_SIZE + EPOLL_DIRECT_EVENTS_MAX)
       (\<lambda>off ef. capture_epoll_events_tlv_direct k off p ret_value ef)"

section \<open>poll\<close>

abbreviation (input) POLL_DIRECT_FD_SIZE :: nat where "POLL_DIRECT_FD_SIZE \<equiv> 8"
abbreviation (input) POLL_DIRECT_FDS_MAX :: nat where "POLL_DIRECT_FDS_MAX \<equiv> 512"
abbreviation (input) POLL_DIRECT_FD_SLOT_MAX :: nat where "POLL_DIRECT_FD_SLOT_MAX \<equiv> 64"
abbreviation (input) POLL_DIRECT_TIMEOUT_SIZE :: nat where "POLL_DIRECT_TIMEOUT_SIZE \<equiv> 16"
abbreviation (input) POLL_DIRECT_SIGMASK_SIZE :: nat where "POLL_DIRECT_SIGMASK_SIZE \<equiv> 8"

definition is_poll_direct_syscall :: "u32 \<Rightarrow> bool" where
  "is_poll_direct_syscall sys_id \<longleftrightarrow> sys_id = SYS_POLL \<or> sys_id = SYS_PPOLL"

definition is_ppoll_direct_syscall :: "u32 \<Rightarrow> bool" where
  "is_ppoll_direct_syscall sys_id \<longleftrightarrow> sys_id = SYS_PPOLL"

definition poll_direct_count :: "u32 \<Rightarrow> u64 \<Rightarrow> u64" where
  "poll_direct_count sys_id raw_count =
     (if is_ppoll_direct_syscall sys_id then ucast (ucast raw_count :: u32) else raw_count)"

definition poll_fds_user_len :: "u64 \<Rightarrow> u32" where
  "poll_fds_user_len count =
     (if count > 0x1fffffff then 0xffffffff else ucast count * of_nat POLL_DIRECT_FD_SIZE)"

definition poll_fds_copy_len :: "u64 \<Rightarrow> nat" where
  "poll_fds_copy_len count =
     (if count > of_nat POLL_DIRECT_FD_SLOT_MAX then POLL_DIRECT_FDS_MAX else unat count * POLL_DIRECT_FD_SIZE)"

record poll_fd_capture_request =
  pfr_user_ptr :: u64
  pfr_count :: u64
  pfr_tlv_flags :: u16

primrec poll_fd_path_scan_callback :: "kernel \<Rightarrow> u64 \<Rightarrow> nat \<Rightarrow> nat list \<Rightarrow> fd_path_scratch \<Rightarrow> fd_path_scratch bpf" where
  "poll_fd_path_scan_callback k user_ptr count [] scratch = return scratch"
| "poll_fd_path_scan_callback k user_ptr count (i # is) scratch =
     (if i \<ge> count then return scratch
      else do {
        (err, bs) \<leftarrow> bpf_probe_read_user k 4 (user_ptr + of_nat (i * POLL_DIRECT_FD_SIZE));
        let fd = le_word bs;
        poll_fd_path_scan_callback k user_ptr count is
          (if err < 0 \<or> sint fd < 0 then scratch else fd_path_nested_add_window_candidate scratch fd) })"

definition collect_poll_fd_path_candidates_direct :: "kernel \<Rightarrow> u32 \<Rightarrow> u64 \<Rightarrow> u64 \<Rightarrow> u32 bpf" where
  "collect_poll_fd_path_candidates_direct k sys_id user_ptr raw_count = do {
     scratch \<leftarrow> lookup_fd_path_scratch k;
     case scratch of None \<Rightarrow> return 0
     | Some x \<Rightarrow>
         if \<not> is_poll_direct_syscall sys_id \<or> user_ptr = 0 then return 0
         else let count = poll_direct_count sys_id raw_count in
           if count = 0 then return 0
           else do {
             let count = (if count > of_nat POLL_DIRECT_FD_SLOT_MAX then POLL_DIRECT_FD_SLOT_MAX else unat count);
             x \<leftarrow> poll_fd_path_scan_callback k user_ptr count [0..<POLL_DIRECT_FD_SLOT_MAX] (x\<lparr>fps_nested_fd_count := 0\<rparr>);
             store_fd_path_scratch k x;
             return (fps_nested_fd_count x) } }"

definition capture_poll_fds_tlv_direct ::
    "kernel \<Rightarrow> nat \<Rightarrow> poll_fd_capture_request \<Rightarrow> u16 \<Rightarrow> (nat \<times> u16) bpf" where
  "capture_poll_fds_tlv_direct k payload_offset request event_flags =
     (let user_ptr = pfr_user_ptr request;
          user_len = poll_fds_user_len (pfr_count request);
          target_len = poll_fds_copy_len (pfr_count request)
      in if user_len = 0 \<or> user_ptr = 0 then return (0, event_flags)
         else truncating_section k payload_offset PAYLOAD_TLV_KIND_STRUCT 0 (pfr_tlv_flags request) event_flags
           user_len user_ptr
           (copy_slots k user_ptr POLL_DIRECT_FD_SIZE target_len [0..<POLL_DIRECT_FD_SLOT_MAX] 0))"

definition capture_poll_timeout_tlv_direct :: "kernel \<Rightarrow> nat \<Rightarrow> u64 \<Rightarrow> u16 \<Rightarrow> nat bpf" where
  "capture_poll_timeout_tlv_direct k payload_offset user_ptr dir_flags =
     struct_section k payload_offset 2 dir_flags user_ptr POLL_DIRECT_TIMEOUT_SIZE POLL_DIRECT_TIMEOUT_SIZE
       POLL_DIRECT_TIMEOUT_SIZE"

definition capture_poll_sigmask_tlv_direct :: "kernel \<Rightarrow> nat \<Rightarrow> u64 \<Rightarrow> u64 \<Rightarrow> nat bpf" where
  "capture_poll_sigmask_tlv_direct k payload_offset user_ptr sigset_size =
     (if user_ptr = 0 \<or> sigset_size = 0 then return 0
      else copied_section k payload_offset PAYLOAD_TLV_KIND_STRUCT 3 0 (payload_tlv_clamp_u32 sigset_size) user_ptr
        (copy_user k POLL_DIRECT_SIGMASK_SIZE POLL_DIRECT_SIGMASK_SIZE POLL_DIRECT_SIGMASK_SIZE user_ptr))"

definition emit_poll_enter_event_v2_direct ::
    "kernel \<Rightarrow> u32 \<Rightarrow> u32 \<Rightarrow> u32 \<Rightarrow> sys_enter_ctx \<Rightarrow> u64 \<Rightarrow> unit bpf" where
  "emit_poll_enter_event_v2_direct k pid tid sys_id ctx ts_ns =
     (let args = sec_args ctx;
          fd_request = \<lparr>pfr_user_ptr = arg0 args, pfr_count = poll_direct_count sys_id (arg1 args), pfr_tlv_flags = 0\<rparr>
      in emit_enter_flagged k pid tid sys_id args ts_ns
           (PAYLOAD_TLV_HEADER_SIZE + POLL_DIRECT_FDS_MAX +
            (if is_ppoll_direct_syscall sys_id
             then PAYLOAD_TLV_HEADER_SIZE + POLL_DIRECT_TIMEOUT_SIZE + PAYLOAD_TLV_HEADER_SIZE + POLL_DIRECT_SIGMASK_SIZE
             else 0))
           (flag_sections ((\<lambda>off ef. capture_poll_fds_tlv_direct k off fd_request ef) #
             (if is_ppoll_direct_syscall sys_id
              then [unmarked (\<lambda>off. capture_poll_timeout_tlv_direct k off (arg2 args) 0),
                    unmarked (\<lambda>off. capture_poll_sigmask_tlv_direct k off (arg3 args) (arg4 args))]
              else []))))"

definition emit_poll_exit_event_v2_direct :: "kernel \<Rightarrow> pending_syscall \<Rightarrow> s64 \<Rightarrow> u64 \<Rightarrow> unit bpf" where
  "emit_poll_exit_event_v2_direct k p ret_value duration =
     (let args = ps_args p;
          fd_request = \<lparr>pfr_user_ptr = arg0 args, pfr_count = poll_direct_count (ps_sys_id p) (arg1 args),
                        pfr_tlv_flags = PAYLOAD_TLV_FLAG_DIRECTION_OUT\<rparr>
      in emit_exit_flagged k p ret_value duration
           (PAYLOAD_TLV_HEADER_SIZE + POLL_DIRECT_FDS_MAX +
            (if is_ppoll_direct_syscall (ps_sys_id p) then PAYLOAD_TLV_HEADER_SIZE + POLL_DIRECT_TIMEOUT_SIZE else 0))
           (flag_sections ((\<lambda>off ef. capture_poll_fds_tlv_direct k off fd_request ef) #
             (if is_ppoll_direct_syscall (ps_sys_id p)
              then [unmarked (\<lambda>off. capture_poll_timeout_tlv_direct k off (arg2 args) PAYLOAD_TLV_FLAG_DIRECTION_OUT)]
              else []))))"

section \<open>select\<close>

abbreviation (input) FD_PATH_NESTED_SCAN_BYTES :: nat where "FD_PATH_NESTED_SCAN_BYTES \<equiv> 128"
abbreviation (input) SELECT_DIRECT_FDSET_SIZE :: nat where "SELECT_DIRECT_FDSET_SIZE \<equiv> 128"
abbreviation (input) SELECT_DIRECT_TIMEVAL_SIZE :: nat where "SELECT_DIRECT_TIMEVAL_SIZE \<equiv> 16"
abbreviation (input) SELECT_DIRECT_PSELECT6_WRAPPER_SIZE :: nat where "SELECT_DIRECT_PSELECT6_WRAPPER_SIZE \<equiv> 16"
abbreviation (input) SELECT_DIRECT_PSELECT6_SIGMASK_SIZE :: nat where "SELECT_DIRECT_PSELECT6_SIGMASK_SIZE \<equiv> 8"
abbreviation (input) SELECT_DIRECT_PSELECT6_SIGMASK_ARG_INDEX :: u16 where "SELECT_DIRECT_PSELECT6_SIGMASK_ARG_INDEX \<equiv> 6"
abbreviation (input) SELECT_DIRECT_FDSET_ARG_BASE :: u16 where "SELECT_DIRECT_FDSET_ARG_BASE \<equiv> 1"
abbreviation (input) SELECT_DIRECT_FDSET_ARG_LAST :: u16 where "SELECT_DIRECT_FDSET_ARG_LAST \<equiv> 3"
abbreviation (input) SELECT_DIRECT_CAPTURE_FDSETS :: u8 where "SELECT_DIRECT_CAPTURE_FDSETS \<equiv> 1"
abbreviation (input) SELECT_DIRECT_CAPTURE_TIMEOUT :: u8 where "SELECT_DIRECT_CAPTURE_TIMEOUT \<equiv> 2"
abbreviation (input) SELECT_DIRECT_CAPTURE_SIGMASK :: u8 where "SELECT_DIRECT_CAPTURE_SIGMASK \<equiv> 4"
abbreviation (input) SELECT_DIRECT_BASE_PAYLOAD_MAX :: nat where
  "SELECT_DIRECT_BASE_PAYLOAD_MAX \<equiv> 3 * (PAYLOAD_TLV_HEADER_SIZE + SELECT_DIRECT_FDSET_SIZE) +
     PAYLOAD_TLV_HEADER_SIZE + SELECT_DIRECT_TIMEVAL_SIZE"
abbreviation (input) SELECT_DIRECT_PSELECT6_PAYLOAD_MAX :: nat where
  "SELECT_DIRECT_PSELECT6_PAYLOAD_MAX \<equiv> SELECT_DIRECT_BASE_PAYLOAD_MAX +
     PAYLOAD_TLV_HEADER_SIZE + SELECT_DIRECT_PSELECT6_WRAPPER_SIZE +
     PAYLOAD_TLV_HEADER_SIZE + SELECT_DIRECT_PSELECT6_SIGMASK_SIZE"

definition is_select_direct_syscall :: "u32 \<Rightarrow> bool" where
  "is_select_direct_syscall sys_id \<longleftrightarrow> sys_id = SYS_SELECT \<or> sys_id = SYS_PSELECT6"

definition is_pselect6_direct_syscall :: "u32 \<Rightarrow> bool" where
  "is_pselect6_direct_syscall sys_id \<longleftrightarrow> sys_id = SYS_PSELECT6"

definition select_direct_payload_capacity :: "u32 \<Rightarrow> nat" where
  "select_direct_payload_capacity sys_id =
     (if is_pselect6_direct_syscall sys_id then SELECT_DIRECT_PSELECT6_PAYLOAD_MAX else SELECT_DIRECT_BASE_PAYLOAD_MAX)"

definition select_direct_fdset_user_len :: "u64 \<Rightarrow> nat" where
  "select_direct_fdset_user_len nfds_raw =
     (let nfds = (ucast nfds_raw :: s32)
      in if sint nfds \<le> 0 then 0
         else if sint nfds > int (SELECT_DIRECT_FDSET_SIZE * 8) then SELECT_DIRECT_FDSET_SIZE
         else (unat nfds + 7) div 8)"

record select_fdset_capture_request =
  sfr_user_ptr :: u64
  sfr_nfds :: u64
  sfr_arg_index :: u16
  sfr_tlv_flags :: u16

record pselect6_sigmask_wrapper =
  psw_sigmask_ptr :: u64
  psw_sigsetsize :: u64

record pselect6_sigmask_capture_request =
  psr_user_ptr :: u64
  psr_raw_user_len :: u64
  psr_arg_index :: u16
  psr_tlv_flags :: u16

text \<open>One constant-size read: \<^verbatim>\<open>-1\<close> without a window, which is not counted, else the result of the read.\<close>

definition read_fdset :: "kernel \<Rightarrow> nat \<Rightarrow> u64 \<Rightarrow> nat \<Rightarrow> int bpf" where
  "read_fdset k data_offset user_ptr n = do {
     payload_data \<leftarrow> bpf_dynptr_data data_offset n;
     if \<not> payload_data then return (-1)
     else do {
       (err, bs) \<leftarrow> bpf_probe_read_user k n user_ptr;
       mem_store data_offset bs;
       return err } }"

definition select_direct_read_fdset_small :: "kernel \<Rightarrow> nat \<Rightarrow> u64 \<Rightarrow> nat \<Rightarrow> int bpf" where
  "select_direct_read_fdset_small k data_offset user_ptr user_len =
     read_fdset k data_offset user_ptr
       (if user_len = 1 then 1 else if user_len = 2 then 2 else if user_len = 3 then 3 else 4)"

definition select_direct_read_fdset_medium :: "kernel \<Rightarrow> nat \<Rightarrow> u64 \<Rightarrow> nat \<Rightarrow> int bpf" where
  "select_direct_read_fdset_medium k data_offset user_ptr user_len =
     read_fdset k data_offset user_ptr
       (if user_len = 5 then 5 else if user_len = 6 then 6 else if user_len = 7 then 7 else 8)"

definition select_direct_read_fdset_wide :: "kernel \<Rightarrow> nat \<Rightarrow> u64 \<Rightarrow> nat \<Rightarrow> int bpf" where
  "select_direct_read_fdset_wide k data_offset user_ptr user_len =
     read_fdset k data_offset user_ptr
       (if user_len \<le> 16 then 16 else if user_len \<le> 32 then 32 else if user_len \<le> 64 then 64
        else SELECT_DIRECT_FDSET_SIZE)"

definition capture_select_fdset_tlv_direct :: "kernel \<Rightarrow> nat \<Rightarrow> select_fdset_capture_request \<Rightarrow> nat bpf" where
  "capture_select_fdset_tlv_direct k payload_offset request =
     (let user_len = select_direct_fdset_user_len (sfr_nfds request); user_ptr = sfr_user_ptr request
      in if user_len = 0 \<or> user_ptr = 0 then return 0
         else copied_section k payload_offset PAYLOAD_TLV_KIND_BYTES (sfr_arg_index request) (sfr_tlv_flags request)
           (of_nat user_len) user_ptr (\<lambda>data_offset. do {
             err \<leftarrow> (if user_len \<le> 4 then select_direct_read_fdset_small k data_offset user_ptr user_len
                     else if user_len \<le> 8 then select_direct_read_fdset_medium k data_offset user_ptr user_len
                     else select_direct_read_fdset_wide k data_offset user_ptr user_len);
             return (if err < 0 then (0, of_int err) else (user_len, 0)) }))"

definition capture_select_timeout_tlv_direct :: "kernel \<Rightarrow> nat \<Rightarrow> u64 \<Rightarrow> u16 \<Rightarrow> nat bpf" where
  "capture_select_timeout_tlv_direct k payload_offset user_ptr dir_flags =
     struct_section k payload_offset 4 dir_flags user_ptr SELECT_DIRECT_TIMEVAL_SIZE SELECT_DIRECT_TIMEVAL_SIZE
       SELECT_DIRECT_TIMEVAL_SIZE"

text \<open>The section size and the wrapper, which is zero where it could not be read.\<close>

definition capture_pselect6_sigmask_wrapper_tlv_direct ::
    "kernel \<Rightarrow> nat \<Rightarrow> u64 \<Rightarrow> u16 \<Rightarrow> (nat \<times> pselect6_sigmask_wrapper) bpf" where
  "capture_pselect6_sigmask_wrapper_tlv_direct k payload_offset user_ptr dir_flags =
     (if user_ptr = 0 then return (0, \<lparr>psw_sigmask_ptr = 0, psw_sigsetsize = 0\<rparr>)
      else do {
        (err, bs) \<leftarrow> bpf_probe_read_user k SELECT_DIRECT_PSELECT6_WRAPPER_SIZE user_ptr;
        n \<leftarrow> copied_section k payload_offset PAYLOAD_TLV_KIND_STRUCT 5 dir_flags
          (of_nat SELECT_DIRECT_PSELECT6_WRAPPER_SIZE) user_ptr (\<lambda>data_offset.
            if err < 0 then return (0, of_int err)
            else do {
              ok \<leftarrow> bpf_dynptr_write data_offset bs;
              if \<not> ok then do { record_ringbuf_copy_fail k; return (0, -1) }
              else return (SELECT_DIRECT_PSELECT6_WRAPPER_SIZE, 0) });
        return (n, \<lparr>psw_sigmask_ptr = le_word (take 8 bs), psw_sigsetsize = le_word (drop 8 bs)\<rparr>) })"

definition capture_pselect6_sigmask_tlv_direct :: "kernel \<Rightarrow> nat \<Rightarrow> pselect6_sigmask_capture_request \<Rightarrow> nat bpf" where
  "capture_pselect6_sigmask_tlv_direct k payload_offset request =
     (let user_len = payload_tlv_clamp_u32 (psr_raw_user_len request); user_ptr = psr_user_ptr request;
          copied_len = unat (payload_tlv_copy_len (psr_raw_user_len request) (of_nat SELECT_DIRECT_PSELECT6_SIGMASK_SIZE))
      in if user_ptr = 0 \<or> user_len = 0 then return 0
         else copied_section k payload_offset PAYLOAD_TLV_KIND_STRUCT (psr_arg_index request) (psr_tlv_flags request)
           user_len user_ptr (copy_user k SELECT_DIRECT_PSELECT6_SIGMASK_SIZE copied_len copied_len user_ptr))"

text \<open>The bytes of the set that are scanned; the scan looks at no others.\<close>

definition read_select_fdset_candidates_direct :: "kernel \<Rightarrow> u64 \<Rightarrow> nat \<Rightarrow> bytes option bpf" where
  "read_select_fdset_candidates_direct k user_ptr user_len =
     (let n = (if user_len = FD_PATH_NESTED_SCAN_BYTES then user_len
               else unat ((of_nat user_len :: u32) AND (of_nat FD_PATH_NESTED_SCAN_BYTES - 1)))
      in if n = 0 then return None
         else do {
           (err, bs) \<leftarrow> bpf_probe_read_user k n user_ptr;
           return (if err < 0 then None else Some bs) })"

primrec select_fd_scan_callback :: "bytes \<Rightarrow> nat \<Rightarrow> nat list \<Rightarrow> fd_path_scratch \<Rightarrow> fd_path_scratch" where
  "select_fd_scan_callback fdset bit_count [] scratch = scratch"
| "select_fd_scan_callback fdset bit_count (fd # fds) scratch =
     (if fd \<ge> bit_count \<or> fps_nested_fd_count scratch \<ge> FD_PATH_NESTED_MAX then scratch
      else select_fd_scan_callback fdset bit_count fds
        (if bit (fdset ! (fd div 8)) (fd mod 8) then fd_path_nested_add_candidate scratch (of_nat fd) else scratch))"

definition collect_select_fdset_candidates_direct :: "kernel \<Rightarrow> fd_path_scratch \<Rightarrow> u64 \<Rightarrow> u64 \<Rightarrow> fd_path_scratch bpf" where
  "collect_select_fdset_candidates_direct k scratch user_ptr nfds =
     (let user_len = select_direct_fdset_user_len nfds
      in if user_ptr = 0 \<or> user_len = 0 \<or> fps_nested_fd_count scratch \<ge> FD_PATH_NESTED_MAX then return scratch
         else do {
           fdset \<leftarrow> read_select_fdset_candidates_direct k user_ptr user_len;
           return (case fdset of None \<Rightarrow> scratch
             | Some bs \<Rightarrow> select_fd_scan_callback bs (user_len * 8) [0..<FD_PATH_NESTED_SCAN_BYTES * 8] scratch) })"

definition collect_select_fd_path_candidates_direct :: "kernel \<Rightarrow> u64 \<Rightarrow> u64 \<Rightarrow> u64 \<Rightarrow> u64 \<Rightarrow> u32 bpf" where
  "collect_select_fd_path_candidates_direct k nfds readfds writefds exceptfds = do {
     scratch \<leftarrow> lookup_fd_path_scratch k;
     case scratch of None \<Rightarrow> return 0
     | Some x \<Rightarrow> do {
         x \<leftarrow> collect_select_fdset_candidates_direct k (x\<lparr>fps_nested_fd_count := 0\<rparr>) readfds nfds;
         x \<leftarrow> collect_select_fdset_candidates_direct k x writefds nfds;
         x \<leftarrow> collect_select_fdset_candidates_direct k x exceptfds nfds;
         store_fd_path_scratch k x;
         return (fps_nested_fd_count x) } }"

definition capture_select_payloads_tlv_direct :: "kernel \<Rightarrow> nat \<Rightarrow> args6 \<Rightarrow> u16 \<Rightarrow> u8 \<Rightarrow> nat bpf" where
  "capture_select_payloads_tlv_direct k payload_offset args dir_flags capture_policy =
     (let fdset = (\<lambda>arg_index user_ptr off. capture_select_fdset_tlv_direct k off
            \<lparr>sfr_user_ptr = user_ptr, sfr_nfds = arg0 args, sfr_arg_index = arg_index, sfr_tlv_flags = dir_flags\<rparr>)
      in sections payload_offset
        ((if has_flag capture_policy SELECT_DIRECT_CAPTURE_FDSETS
          then [fdset SELECT_DIRECT_FDSET_ARG_BASE (arg1 args), fdset 2 (arg2 args),
                fdset SELECT_DIRECT_FDSET_ARG_LAST (arg3 args)] else []) @
         (if has_flag capture_policy SELECT_DIRECT_CAPTURE_TIMEOUT
          then [\<lambda>off. capture_select_timeout_tlv_direct k off (arg4 args) dir_flags] else []) @
         (if has_flag capture_policy SELECT_DIRECT_CAPTURE_SIGMASK
          then [\<lambda>off. do {
             (n, wrapper) \<leftarrow> capture_pselect6_sigmask_wrapper_tlv_direct k off (arg5 args) dir_flags;
             m \<leftarrow> (if psw_sigmask_ptr wrapper \<noteq> 0 \<and> psw_sigsetsize wrapper > 0
                   then capture_pselect6_sigmask_tlv_direct k (off + n)
                     \<lparr>psr_user_ptr = psw_sigmask_ptr wrapper, psr_raw_user_len = psw_sigsetsize wrapper,
                      psr_arg_index = SELECT_DIRECT_PSELECT6_SIGMASK_ARG_INDEX, psr_tlv_flags = dir_flags\<rparr>
                   else return 0);
             return (n + m) }] else [])))"

definition emit_select_enter_event_v2_direct :: "kernel \<Rightarrow> sys_enter_ctx \<Rightarrow> u32 \<Rightarrow> u32 \<Rightarrow> u64 \<Rightarrow> unit bpf" where
  "emit_select_enter_event_v2_direct k ctx pid tid ts_ns =
     (let sys_id = ucast (sec_id ctx);
          capture_policy = (if is_pselect6_direct_syscall sys_id
            then SELECT_DIRECT_CAPTURE_FDSETS OR SELECT_DIRECT_CAPTURE_TIMEOUT OR SELECT_DIRECT_CAPTURE_SIGMASK
            else SELECT_DIRECT_CAPTURE_FDSETS OR SELECT_DIRECT_CAPTURE_TIMEOUT)
      in emit_enter_sections k pid tid sys_id (sec_args ctx) ts_ns (select_direct_payload_capacity sys_id)
           [\<lambda>off. capture_select_payloads_tlv_direct k off (sec_args ctx) 0 capture_policy])"

definition emit_select_exit_event_v2_direct :: "kernel \<Rightarrow> pending_syscall \<Rightarrow> s64 \<Rightarrow> u64 \<Rightarrow> unit bpf" where
  "emit_select_exit_event_v2_direct k p ret_value duration =
     (let capture_policy = (if 0 < sint ret_value then SELECT_DIRECT_CAPTURE_TIMEOUT OR SELECT_DIRECT_CAPTURE_FDSETS
            else SELECT_DIRECT_CAPTURE_TIMEOUT)
      in emit_exit_sections k p ret_value duration (select_direct_payload_capacity (ps_sys_id p))
           [\<lambda>off. capture_select_payloads_tlv_direct k off (ps_args p) PAYLOAD_TLV_FLAG_DIRECTION_OUT capture_policy])"

section \<open>Accounting\<close>

lemma copies_slots:
  "c + length is * sz \<le> m \<Longrightarrow> copies k off m (copy_slots k up sz target is c off)"
proof (induction "is" arbitrary: c)
  case Nil then show ?case by (simp add: copies_return)
next
  case (Cons i "is")
  then have IH: "copies k off m (copy_slots k up sz target is (c + sz) off)" by simp
  from Cons(2) show ?case
    by (simp only: copy_slots.simps)
       (rule IH copies_step copies_case_prod copies_if copies_return silent_intros reports_intros above_intros
         above_store | simp)+
qed

lemma flagged_epoll_events: "flagged k 536 (\<lambda>off ef. capture_epoll_events_tlv_direct k off p ret ef)"
  unfolding capture_epoll_events_tlv_direct_def Let_def
  by (intro flagged_cond flagged_none flagged_truncating_section [where m = 504] copies_slots)
     (simp_all add: payloadKindFromTLV_def)

lemma flagged_poll_fds: "flagged k 544 (\<lambda>off ef. capture_poll_fds_tlv_direct k off r ef)"
  unfolding capture_poll_fds_tlv_direct_def Let_def
  by (intro flagged_cond flagged_none flagged_truncating_section [where m = 512] copies_slots)
     (simp_all add: payloadKindFromTLV_def)

lemma epoll_emitters [emitter_intros]:
  "emitter k (emit_epoll_ctl_enter_event_v2_direct k pid tid sys_id ctx cfg ts)"
  "emitter k (emit_epoll_pwait2_enter_event_v2_direct k pid tid sys_id ctx cfg ts)"
  "emitter k (emit_epoll_wait_exit_event_v2_direct k p ret dur)"
  unfolding emit_epoll_ctl_enter_event_v2_direct_def emit_epoll_pwait2_enter_event_v2_direct_def
    emit_epoll_wait_exit_event_v2_direct_def capture_epoll_ctl_event_tlv_direct_def capture_epoll_timeout_tlv_direct_def
  by (intro emitter_fd_paths_and_section emitter_exit_flagged captures_struct_section; simp add: flagged_epoll_events)+

lemma captures_poll:
  "captures k off 48 (\<lambda>n. n) (capture_poll_timeout_tlv_direct k off up fl)"
  "captures k off 40 (\<lambda>n. n) (capture_poll_sigmask_tlv_direct k off up sz)"
  unfolding capture_poll_timeout_tlv_direct_def capture_poll_sigmask_tlv_direct_def
  by (intro captures_if captures_return captures_struct_section captures_copied_section [where m = 8] copies_user;
      simp add: payloadKindFromTLV_def)+

lemma poll_emitters [emitter_intros]:
  "emitter k (emit_poll_enter_event_v2_direct k pid tid sys_id ctx ts)"
  "emitter k (emit_poll_exit_event_v2_direct k p ret dur)"
proof -
  note c = flagged_sections_cons [OF flagged_poll_fds] flagged_sections_cons [OF flagged_unmarked [OF captures_poll(1)]]
    flagged_sections_cons [OF flagged_unmarked [OF captures_poll(2)]] flagged_sections_nil
  show "emitter k (emit_poll_enter_event_v2_direct k pid tid sys_id ctx ts)"
    unfolding emit_poll_enter_event_v2_direct_def Let_def
    by (cases "is_ppoll_direct_syscall sys_id"; simp only: if_True if_False; intro emitter_enter_flagged c; simp)
  show "emitter k (emit_poll_exit_event_v2_direct k p ret dur)"
    unfolding emit_poll_exit_event_v2_direct_def Let_def
    by (cases "is_ppoll_direct_syscall (ps_sys_id p)"; simp only: if_True if_False; intro emitter_exit_flagged c; simp)
qed

lemma fdset_user_len_le: "select_direct_fdset_user_len nfds \<le> 128"
proof -
  have "unat x \<le> 1024" if "sint x \<le> 1024" "0 < sint x" for x :: s32
  proof -
    have "uint x = sint x" using that by (simp add: uint_sint take_bit_int_eq_self)
    then show ?thesis using that by (simp flip: of_nat_le_iff [where 'a = int])
  qed
  then show ?thesis by (fastforce simp: select_direct_fdset_user_len_def Let_def not_le not_less)
qed


lemma captures_select_fdset: "captures k off 160 (\<lambda>n. n) (capture_select_fdset_tlv_direct k off r)"
proof -
  let ?n = "select_direct_fdset_user_len (sfr_nfds r)"
  have f: "silent k (read_fdset k off q n)" "reports (read_fdset k off q n)" "above off (read_fdset k off q n)" for off q n
    unfolding read_fdset_def
    by (intro silent_rules silent_intros reports_rules reports_intros above_rules above_intros above_store order_refl)+
  have c: "copies k off 128 (do { err \<leftarrow> read_fdset k off q n; return (if err < 0 then (0, of_int err) else (?n, 0)) })" for off q n
    by (rule copies_step [OF f]) (simp add: copies_return fdset_user_len_le)
  show ?thesis
    unfolding capture_select_fdset_tlv_direct_def select_direct_read_fdset_small_def select_direct_read_fdset_medium_def
      select_direct_read_fdset_wide_def Let_def
    by (intro captures_if captures_return captures_copied_section [where m = 128])
       (simp_all add: c payloadKindFromTLV_def)
qed

lemma captures_sigmask_wrapper: "captures k off 48 fst (capture_pselect6_sigmask_wrapper_tlv_direct k off up fl)"
proof -
  have c: "captures k off 48 (\<lambda>n. n) (copied_section k off PAYLOAD_TLV_KIND_STRUCT 5 fl (of_nat 16) up (\<lambda>data_offset.
      if err < 0 then return (0, of_int err)
      else do {
        ok \<leftarrow> bpf_dynptr_write data_offset bs;
        if \<not> ok then do { record_ringbuf_copy_fail k; return (0, -1) } else return (16, 0) }))" for err :: int and bs
    by (rule captures_copied_section [where m = 16])
       (auto simp: payloadKindFromTLV_def intro!: copies_step copies_if copies_return silent_intros reports_intros
         above_intros above_store)
  show ?thesis
    unfolding capture_pselect6_sigmask_wrapper_tlv_direct_def
    by (rule captures_if, simp add: captures_return, rule captures_pre_any, rule silent_intros, rule reports_intros,
        rule above_intros, rule captures_case_prod, rule captures_then, rule c, simp, rule extends_return) simp
qed

lemma captures_sigmask: "captures k off 40 (\<lambda>n. n) (capture_pselect6_sigmask_tlv_direct k off r)"
  unfolding capture_pselect6_sigmask_tlv_direct_def Let_def
  by (intro captures_if captures_return captures_copied_section [where m = 8] copies_clamped)
     (simp_all add: payloadKindFromTLV_def)

lemma captures_select_sigmask:
  "captures k off 88 (\<lambda>n. n) (do {
     (n, wrapper) \<leftarrow> capture_pselect6_sigmask_wrapper_tlv_direct k off up fl;
     m \<leftarrow> (if psw_sigmask_ptr wrapper \<noteq> 0 \<and> psw_sigsetsize wrapper > 0
           then capture_pselect6_sigmask_tlv_direct k (off + n) (r wrapper) else return 0);
     return (n + m) })"
proof (rule captures_then [OF captures_sigmask_wrapper], simp, clarsimp simp only: prod.case fst_conv split_paired_all)
  fix n and w :: pselect6_sigmask_wrapper
  have "captures k (off + n) 40 (\<lambda>n. n) (if psw_sigmask_ptr w \<noteq> 0 \<and> psw_sigsetsize w > 0
      then capture_pselect6_sigmask_tlv_direct k (off + n) (r w) else return 0)"
    by (intro captures_if captures_return captures_sigmask refl)
  then show "extends k off n (88 - 48) (\<lambda>n. n) (do {
      m \<leftarrow> (if psw_sigmask_ptr w \<noteq> 0 \<and> psw_sigsetsize w > 0
           then capture_pselect6_sigmask_tlv_direct k (off + n) (r w) else return 0);
      return (n + m) })"
    by (rule extends_capture) (auto intro: extends_return)
qed

lemma captures_select_payloads:
  "captures k off (SELECT_DIRECT_BASE_PAYLOAD_MAX + (if has_flag pol SELECT_DIRECT_CAPTURE_SIGMASK then 88 else 0)) (\<lambda>n. n)
     (capture_select_payloads_tlv_direct k off args fl pol)"
proof -
  have t: "captures k off 48 (\<lambda>n. n) (capture_select_timeout_tlv_direct k off up fl)" for off up
    unfolding capture_select_timeout_tlv_direct_def by (rule captures_struct_section) simp_all
  note f = fits_cons [OF captures_select_fdset] fits_cons [OF t] fits_cons [OF captures_select_sigmask] fits_nil
  show ?thesis
    unfolding capture_select_payloads_tlv_direct_def Let_def
    by (cases "has_flag pol SELECT_DIRECT_CAPTURE_FDSETS"; cases "has_flag pol SELECT_DIRECT_CAPTURE_TIMEOUT";
        cases "has_flag pol SELECT_DIRECT_CAPTURE_SIGMASK"; simp only: if_True if_False append.simps;
        rule fits_def [THEN iffD1, rule_format]; intro f; simp)
qed

lemma select_emitters [emitter_intros]:
  "emitter k (emit_select_enter_event_v2_direct k ctx pid tid ts)"
  "emitter k (emit_select_exit_event_v2_direct k p ret dur)"
  unfolding emit_select_enter_event_v2_direct_def emit_select_exit_event_v2_direct_def Let_def
  by (rule emitter_enter_list emitter_exit_list, rule fits_one, rule captures_mono [OF captures_select_payloads],
      simp add: select_direct_payload_capacity_def has_flag_def, simp add: select_direct_payload_capacity_def)+

end
