(* ===== verification/Network_Events.thy ===== *)
theory Network_Events
  imports Poll_Events
begin

text \<open>
  Sockets: \<^verbatim>\<open>bpf/syscall_network_{,capture_,emit_}direct_event_v2.h\<close> and
  \<^verbatim>\<open>syscall_network_exit_{capture,emit}_direct_event_v2.h\<close>.  The address length an application passes
  in is read at enter, kept with the pending syscall, and bounds the address that is captured at exit.
\<close>

section \<open>Classification\<close>

definition is_network_accept_like_direct_syscall :: "u32 \<Rightarrow> bool" where
  "is_network_accept_like_direct_syscall sys_id \<longleftrightarrow>
     sys_id = SYS_ACCEPT \<or> sys_id = SYS_ACCEPT4 \<or> sys_id = SYS_GETSOCKNAME \<or> sys_id = SYS_GETPEERNAME"

definition is_network_sockopt_direct_syscall :: "u32 \<Rightarrow> bool" where
  "is_network_sockopt_direct_syscall sys_id \<longleftrightarrow> sys_id = SYS_SETSOCKOPT \<or> sys_id = SYS_GETSOCKOPT"

definition is_network_direct_syscall :: "u32 \<Rightarrow> bool" where
  "is_network_direct_syscall sys_id \<longleftrightarrow>
     sys_id = SYS_CONNECT \<or> sys_id = SYS_BIND \<or> sys_id = SYS_SENDTO \<or> sys_id = SYS_RECVFROM \<or>
     is_network_accept_like_direct_syscall sys_id \<or> is_network_sockopt_direct_syscall sys_id"

definition network_direct_enter_socklen_arg :: "u32 \<Rightarrow> nat" where
  "network_direct_enter_socklen_arg sys_id =
     (if sys_id = SYS_RECVFROM then 5
      else if is_network_accept_like_direct_syscall sys_id then 2
      else 6)"

definition network_direct_arg :: "args6 \<Rightarrow> nat \<Rightarrow> u64" where
  "network_direct_arg args arg_index =
     (if arg_index = 0 then arg0 args
      else if arg_index = 1 then arg1 args
      else if arg_index = 2 then arg2 args
      else if arg_index = 3 then arg3 args
      else if arg_index = 4 then arg4 args
      else if arg_index = 5 then arg5 args
      else 0)"

definition network_direct_pending_arg :: "pending_syscall \<Rightarrow> nat \<Rightarrow> u64" where
  "network_direct_pending_arg p arg_index =
     (if arg_index = 1 then arg1 (ps_args p)
      else if arg_index = 2 then arg2 (ps_args p)
      else if arg_index = 3 then arg3 (ps_args p)
      else if arg_index = 4 then arg4 (ps_args p)
      else if arg_index = 5 then arg5 (ps_args p)
      else 0)"

definition save_pending_network_syscall_args ::
    "kernel \<Rightarrow> u32 \<Rightarrow> u32 \<Rightarrow> u32 \<Rightarrow> args6 \<Rightarrow> u64 \<Rightarrow> s32 \<Rightarrow> u32 \<Rightarrow> unit bpf" where
  "save_pending_network_syscall_args k tid pid sys_id args enter_time stack_id sockaddr_len = do {
     ok \<leftarrow> save_pending_syscall_value k (zero_pending_syscall\<lparr>ps_enter_time := enter_time, ps_args := args,
       ps_pid := pid, ps_sys_id := sys_id, ps_tid := tid, ps_stack_id := stack_id\<rparr>);
     only_if ok (save_pending_syscall_aux k tid sockaddr_len) }"

section \<open>Captures\<close>

abbreviation (input) NETWORK_DIRECT_BYTES_MAX :: nat where "NETWORK_DIRECT_BYTES_MAX \<equiv> 512"
abbreviation (input) NETWORK_DIRECT_SOCKADDR_MAX :: nat where "NETWORK_DIRECT_SOCKADDR_MAX \<equiv> 128"
abbreviation (input) NETWORK_DIRECT_SOCKLEN_SIZE :: nat where "NETWORK_DIRECT_SOCKLEN_SIZE \<equiv> 4"
abbreviation (input) NETWORK_DIRECT_SOCKOPT_MAX :: nat where "NETWORK_DIRECT_SOCKOPT_MAX \<equiv> NETWORK_DIRECT_BYTES_MAX"
abbreviation (input) NETWORK_DIRECT_SENDTO_ENTER_MAX :: nat where
  "NETWORK_DIRECT_SENDTO_ENTER_MAX \<equiv> PAYLOAD_TLV_HEADER_SIZE + NETWORK_DIRECT_BYTES_MAX +
     PAYLOAD_TLV_HEADER_SIZE + NETWORK_DIRECT_SOCKADDR_MAX"
abbreviation (input) NETWORK_DIRECT_RECVFROM_EXIT_MAX :: nat where
  "NETWORK_DIRECT_RECVFROM_EXIT_MAX \<equiv> PAYLOAD_TLV_HEADER_SIZE + NETWORK_DIRECT_BYTES_MAX +
     PAYLOAD_TLV_HEADER_SIZE + NETWORK_DIRECT_SOCKADDR_MAX + PAYLOAD_TLV_HEADER_SIZE + NETWORK_DIRECT_SOCKLEN_SIZE"

record network_tlv_capture_request =
  ntr_kind :: u16
  ntr_arg_index :: u16
  ntr_tlv_flags :: u16
  ntr_user_ptr :: u64
  ntr_user_len :: u32
  ntr_copy_len :: u32
  ntr_storage_max :: nat

record network_socklen_capture_request =
  nsr_arg_index :: u16
  nsr_tlv_flags :: u16
  nsr_user_ptr :: u64
  nsr_value :: u32

definition network_direct_min_u32 :: "u32 \<Rightarrow> u32 \<Rightarrow> u32" where
  "network_direct_min_u32 a b = (if a < b then a else b)"

definition network_direct_sockopt_len :: "u64 \<Rightarrow> u32" where
  "network_direct_sockopt_len v = (let n = (ucast v :: s32) in if sint n \<le> 0 then 0 else n)"

definition network_direct_sockopt_fixed_int :: "u64 \<Rightarrow> u64 \<Rightarrow> bool" where
  "network_direct_sockopt_fixed_int level_value option_value \<longleftrightarrow>
     (let level = (ucast level_value :: u32); opt = (ucast option_value :: u32)
      in if level = 270 then opt \<noteq> 9
         else if level \<noteq> 1 then False
         else opt \<in> set [1, 2, 5, 6, 7, 8, 9, 10, 11, 12, 14, 15, 16, 18, 19, 27, 29, 30, 32, 33, 34, 35, 36, 37,
           40, 41, 42, 43, 44, 45, 46, 49, 53, 56, 60, 63, 64, 65, 68, 69, 70, 73, 74, 75, 76, 80, 82, 83, 84])"

definition network_direct_sockopt_membership_array :: "u64 \<Rightarrow> u64 \<Rightarrow> bool" where
  "network_direct_sockopt_membership_array level_value option_value \<longleftrightarrow>
     (ucast level_value :: u32) = 270 \<and> (ucast option_value :: u32) = 9"

definition network_direct_sockopt_payload_len :: "u64 \<Rightarrow> u64 \<Rightarrow> u64 \<Rightarrow> u32" where
  "network_direct_sockopt_payload_len level_value option_value optlen_value =
     (let n = network_direct_sockopt_len optlen_value
      in if network_direct_sockopt_membership_array level_value option_value then n AND NOT 3
         else if network_direct_sockopt_fixed_int level_value option_value \<and> n > 4 then 4
         else n)"

definition network_direct_read_socklen :: "kernel \<Rightarrow> u64 \<Rightarrow> (int \<times> u32) bpf" where
  "network_direct_read_socklen k user_ptr =
     (if user_ptr = 0 then return (-1, 0)
      else do {
        (err, bs) \<leftarrow> bpf_probe_read_user k NETWORK_DIRECT_SOCKLEN_SIZE user_ptr;
        return (if err < 0 then err else 0, le_word bs) })"

text \<open>\<^verbatim>\<open>network_direct_payload_data\<close>: the windows the verifier knows by constants.\<close>

definition network_direct_payload_data :: "nat \<Rightarrow> nat" where
  "network_direct_payload_data m =
     (if m = NETWORK_DIRECT_BYTES_MAX then NETWORK_DIRECT_BYTES_MAX
      else if m = NETWORK_DIRECT_SOCKADDR_MAX then NETWORK_DIRECT_SOCKADDR_MAX
      else NETWORK_DIRECT_SOCKLEN_SIZE)"

definition capture_network_tlv_direct ::
    "kernel \<Rightarrow> nat \<Rightarrow> network_tlv_capture_request \<Rightarrow> u16 \<Rightarrow> (nat \<times> u16) bpf" where
  "capture_network_tlv_direct k payload_offset request event_flags =
     (if ntr_user_len request = 0 \<or> ntr_user_ptr request = 0 then return (0, event_flags)
      else let copied_len = network_direct_min_u32
                 (network_direct_min_u32 (ntr_copy_len request) (of_nat (ntr_storage_max request)))
                 (ntr_user_len request)
           in truncating_section k payload_offset (ntr_kind request) (ntr_arg_index request) (ntr_tlv_flags request)
                event_flags (ntr_user_len request) (ntr_user_ptr request)
                (copy_user k (network_direct_payload_data (ntr_storage_max request)) (unat copied_len) (unat copied_len)
                  (ntr_user_ptr request)))"

text \<open>The length itself as a section; the value is handed back, as it was when the pointer is null.\<close>

definition capture_network_socklen_tlv_direct ::
    "kernel \<Rightarrow> nat \<Rightarrow> network_socklen_capture_request \<Rightarrow> (nat \<times> u32) bpf" where
  "capture_network_socklen_tlv_direct k payload_offset request =
     (if nsr_user_ptr request = 0 then return (0, nsr_value request)
      else do {
        (err, v) \<leftarrow> network_direct_read_socklen k (nsr_user_ptr request);
        n \<leftarrow> copied_section k payload_offset PAYLOAD_TLV_KIND_BYTES (nsr_arg_index request) (nsr_tlv_flags request)
          (of_nat NETWORK_DIRECT_SOCKLEN_SIZE) (nsr_user_ptr request)
          (\<lambda>data_offset.
             if err = 0 then do {
               ok \<leftarrow> bpf_dynptr_write data_offset (le_bytes NETWORK_DIRECT_SOCKLEN_SIZE v);
               if \<not> ok then do { record_ringbuf_copy_fail k; return (0, - E2BIG) }
               else return (NETWORK_DIRECT_SOCKLEN_SIZE, 0) }
             else return (0, of_int err));
        return (n, v) })"

text \<open>The sections of an enter record, the event flags and the length to keep for the exit.\<close>

definition capture_network_enter_payloads_tlv_direct ::
    "kernel \<Rightarrow> nat \<Rightarrow> u32 \<Rightarrow> args6 \<Rightarrow> u16 \<Rightarrow> (nat \<times> u16 \<times> u32) bpf" where
  "capture_network_enter_payloads_tlv_direct k payload_offset sys_id args event_flags =
     (if sys_id = SYS_SETSOCKOPT then
        let optlen = network_direct_sockopt_payload_len (arg1 args) (arg2 args) (arg4 args) in do {
          (n, flags) \<leftarrow> capture_network_tlv_direct k payload_offset
            \<lparr>ntr_kind = PAYLOAD_TLV_KIND_BYTES, ntr_arg_index = 3, ntr_tlv_flags = 0, ntr_user_ptr = arg3 args,
             ntr_user_len = optlen, ntr_copy_len = optlen, ntr_storage_max = NETWORK_DIRECT_SOCKOPT_MAX\<rparr> event_flags;
          return (n, flags, 0) }
      else if sys_id = SYS_GETSOCKOPT then do {
          (n, optlen) \<leftarrow> capture_network_socklen_tlv_direct k payload_offset
            \<lparr>nsr_arg_index = 4, nsr_tlv_flags = 0, nsr_user_ptr = arg4 args, nsr_value = 0\<rparr>;
          return (n, event_flags, optlen) }
      else if sys_id = SYS_CONNECT \<or> sys_id = SYS_BIND then do {
          (n, flags) \<leftarrow> capture_network_tlv_direct k payload_offset
            \<lparr>ntr_kind = PAYLOAD_TLV_KIND_STRUCT, ntr_arg_index = 1, ntr_tlv_flags = 0, ntr_user_ptr = arg1 args,
             ntr_user_len = payload_tlv_clamp_u32 (arg2 args), ntr_copy_len = payload_tlv_clamp_u32 (arg2 args),
             ntr_storage_max = NETWORK_DIRECT_SOCKADDR_MAX\<rparr> event_flags;
          return (n, flags, 0) }
      else if sys_id = SYS_SENDTO then do {
          (n, flags) \<leftarrow> flag_sections
            [\<lambda>off ef. capture_network_tlv_direct k off
               \<lparr>ntr_kind = PAYLOAD_TLV_KIND_BYTES, ntr_arg_index = 1, ntr_tlv_flags = 0, ntr_user_ptr = arg1 args,
                ntr_user_len = payload_tlv_clamp_u32 (arg2 args), ntr_copy_len = payload_tlv_clamp_u32 (arg2 args),
                ntr_storage_max = NETWORK_DIRECT_BYTES_MAX\<rparr> ef,
             \<lambda>off ef. capture_network_tlv_direct k off
               \<lparr>ntr_kind = PAYLOAD_TLV_KIND_STRUCT, ntr_arg_index = 4, ntr_tlv_flags = 0, ntr_user_ptr = arg4 args,
                ntr_user_len = payload_tlv_clamp_u32 (arg5 args), ntr_copy_len = payload_tlv_clamp_u32 (arg5 args),
                ntr_storage_max = NETWORK_DIRECT_SOCKADDR_MAX\<rparr> ef]
            payload_offset event_flags;
          return (n, flags, 0) }
      else let len_arg = network_direct_enter_socklen_arg sys_id in
        if len_arg < 6 then do {
          (n, sockaddr_len) \<leftarrow> capture_network_socklen_tlv_direct k payload_offset
            \<lparr>nsr_arg_index = of_nat len_arg, nsr_tlv_flags = 0, nsr_user_ptr = network_direct_arg args len_arg,
             nsr_value = 0\<rparr>;
          return (n, event_flags, sockaddr_len) }
        else return (0, event_flags, 0))"

definition init_network_enter_event_v2_from_args :: "args6 \<Rightarrow> u32 \<Rightarrow> syscall_enter_event_v2" where
  "init_network_enter_event_v2_from_args args payload_size =
     \<lparr>ent_ret = 0, ent_probe_ret_enter = -1, ent_probe_ret_exit = -1, ent_args = args,
      ent_capture_len = payload_size, ent_capture_flags = 0\<rparr>"

definition emit_network_enter_event_v2_direct ::
    "kernel \<Rightarrow> u32 \<Rightarrow> u32 \<Rightarrow> u32 \<Rightarrow> args6 \<Rightarrow> u64 \<Rightarrow> u32 \<Rightarrow> u32 bpf" where
  "emit_network_enter_event_v2_direct k pid tid sys_id args ts_ns sockaddr_len =
     emit_enter_tlv_value k pid tid sys_id args ts_ns NETWORK_DIRECT_SENDTO_ENTER_MAX sockaddr_len
       (\<lambda>payload_offset. capture_network_enter_payloads_tlv_direct k payload_offset sys_id args EVENT_FLAG_GENERIC_ENTER)"

lemma network_enter_body:
  "init_network_enter_event_v2_from_args args n = init_syscall_enter_event_v2_from_args args n 0 (-1) (-1)"
  by (simp add: init_network_enter_event_v2_from_args_def init_syscall_enter_event_v2_from_args_def)

section \<open>Exit\<close>

definition network_direct_out_sockaddr_arg :: "u32 \<Rightarrow> nat" where
  "network_direct_out_sockaddr_arg sys_id = (if sys_id = SYS_RECVFROM then 4 else 1)"

definition network_direct_out_socklen_arg :: "u32 \<Rightarrow> nat" where
  "network_direct_out_socklen_arg sys_id = (if sys_id = SYS_RECVFROM then 5 else 2)"

text \<open>The length section at exit; the value it reads is not used again.\<close>

definition out_socklen :: "kernel \<Rightarrow> u16 \<Rightarrow> u64 \<Rightarrow> u32 \<Rightarrow> nat \<Rightarrow> nat bpf" where
  "out_socklen k arg_index len_ptr out_len payload_offset = do {
     (n, _) \<leftarrow> capture_network_socklen_tlv_direct k payload_offset
       \<lparr>nsr_arg_index = arg_index, nsr_tlv_flags = PAYLOAD_TLV_FLAG_DIRECTION_OUT, nsr_user_ptr = len_ptr,
        nsr_value = out_len\<rparr>;
     return n }"

definition capture_network_getsockopt_exit_tlv_direct ::
    "kernel \<Rightarrow> nat \<Rightarrow> pending_syscall \<Rightarrow> s64 \<Rightarrow> u16 \<Rightarrow> (nat \<times> u16) bpf" where
  "capture_network_getsockopt_exit_tlv_direct k payload_offset p ret_value event_flags = do {
     aux0 \<leftarrow> lookup_pending_syscall_aux0 k (ps_tid p);
     let len_ptr = network_direct_pending_arg p 4;
     (read_ret, out_len) \<leftarrow> network_direct_read_socklen k len_ptr;
     let user_len = network_direct_min_u32 out_len aux0;
     flag_sections
       [\<lambda>off ef.
          if sint ret_value \<ge> 0 \<and> read_ret = 0 \<and> out_len > 0 \<and> aux0 > 0 then
            capture_network_tlv_direct k off
              \<lparr>ntr_kind = PAYLOAD_TLV_KIND_BYTES, ntr_arg_index = 3, ntr_tlv_flags = PAYLOAD_TLV_FLAG_DIRECTION_OUT,
               ntr_user_ptr = network_direct_pending_arg p 3, ntr_user_len = user_len,
               ntr_copy_len = network_direct_min_u32
                 (network_direct_sockopt_payload_len (arg1 (ps_args p)) (arg2 (ps_args p)) (ucast user_len))
                 (of_nat NETWORK_DIRECT_SOCKOPT_MAX),
               ntr_storage_max = NETWORK_DIRECT_SOCKOPT_MAX\<rparr> ef
          else return (0, ef),
        unmarked (out_socklen k 4 len_ptr out_len)]
       payload_offset event_flags }"

definition recvfrom_bytes :: "kernel \<Rightarrow> pending_syscall \<Rightarrow> s64 \<Rightarrow> flag_capture" where
  "recvfrom_bytes k p ret_value =
     (let ret_len = payload_tlv_clamp_u32 ret_value; count_len = payload_tlv_clamp_u32 (arg2 (ps_args p))
      in (\<lambda>off ef.
        if ps_sys_id p = SYS_RECVFROM \<and> sint ret_value > 0 then
          capture_network_tlv_direct k off
            \<lparr>ntr_kind = PAYLOAD_TLV_KIND_BYTES, ntr_arg_index = 1, ntr_tlv_flags = PAYLOAD_TLV_FLAG_DIRECTION_OUT,
             ntr_user_ptr = arg1 (ps_args p), ntr_user_len = ret_len,
             ntr_copy_len = (if count_len < ret_len then count_len else ret_len),
             ntr_storage_max = NETWORK_DIRECT_BYTES_MAX\<rparr> ef
        else return (0, ef)))"

definition out_sockaddr :: "kernel \<Rightarrow> pending_syscall \<Rightarrow> flag_capture" where
  "out_sockaddr k p payload_offset event_flags = do {
     aux0 \<leftarrow> lookup_pending_syscall_aux0 k (ps_tid p);
     let len_arg = network_direct_out_socklen_arg (ps_sys_id p);
     let len_ptr = network_direct_pending_arg p len_arg;
     (_, out_len) \<leftarrow> network_direct_read_socklen k len_ptr;
     let copy_len = (if aux0 > 0 \<and> aux0 < out_len then aux0 else out_len);
     let copy_len = network_direct_min_u32 copy_len (of_nat NETWORK_DIRECT_SOCKADDR_MAX);
     let addr_arg = network_direct_out_sockaddr_arg (ps_sys_id p);
     flag_sections
       [\<lambda>off ef.
          if copy_len > 0 then
            capture_network_tlv_direct k off
              \<lparr>ntr_kind = PAYLOAD_TLV_KIND_STRUCT, ntr_arg_index = of_nat addr_arg,
               ntr_tlv_flags = PAYLOAD_TLV_FLAG_DIRECTION_OUT, ntr_user_ptr = network_direct_pending_arg p addr_arg,
               ntr_user_len = copy_len, ntr_copy_len = copy_len, ntr_storage_max = NETWORK_DIRECT_SOCKADDR_MAX\<rparr> ef
          else return (0, ef),
        unmarked (out_socklen k (of_nat len_arg) len_ptr out_len)]
       payload_offset event_flags }"

definition capture_network_exit_payloads_tlv_direct ::
    "kernel \<Rightarrow> nat \<Rightarrow> pending_syscall \<Rightarrow> s64 \<Rightarrow> u16 \<Rightarrow> (nat \<times> u16) bpf" where
  "capture_network_exit_payloads_tlv_direct k payload_offset p ret_value event_flags =
     (if is_network_sockopt_direct_syscall (ps_sys_id p) then
        if ps_sys_id p = SYS_GETSOCKOPT
        then capture_network_getsockopt_exit_tlv_direct k payload_offset p ret_value event_flags
        else return (0, event_flags)
      else flag_sections
        (recvfrom_bytes k p ret_value #
         (if sint ret_value < 0 then []
          else if ps_sys_id p \<noteq> SYS_RECVFROM \<and> \<not> is_network_accept_like_direct_syscall (ps_sys_id p) then []
          else [out_sockaddr k p]))
        payload_offset event_flags)"

definition emit_network_exit_event_v2_direct :: "kernel \<Rightarrow> pending_syscall \<Rightarrow> s64 \<Rightarrow> u64 \<Rightarrow> unit bpf" where
  "emit_network_exit_event_v2_direct k p ret_value duration =
     emit_exit_flagged k p ret_value duration NETWORK_DIRECT_RECVFROM_EXIT_MAX
       (\<lambda>off ef. capture_network_exit_payloads_tlv_direct k off p ret_value ef)"

section \<open>Accounting\<close>

lemma network_min_le: "unat (network_direct_min_u32 a b) \<le> unat b" "unat (network_direct_min_u32 a b) \<le> unat a"
  by (simp_all add: network_direct_min_u32_def word_less_nat_alt word_le_nat_alt)

lemma flagged_network_tlv:
  assumes "payloadKindFromTLV (ntr_kind r) \<noteq> None" "32 + ntr_storage_max r \<le> cap" "cap < 2 ^ 31"
  shows "flagged k cap (\<lambda>off ef. capture_network_tlv_direct k off r ef)"
proof -
  let ?a = "network_direct_min_u32 (ntr_copy_len r) (of_nat (ntr_storage_max r))"
  let ?n = "network_direct_min_u32 ?a (ntr_user_len r)"
  have "unat ?n \<le> unat (of_nat (ntr_storage_max r) :: u32)" by (rule order_trans [OF network_min_le(2) network_min_le(1)])
  then have n: "unat ?n \<le> ntr_storage_max r" using assms by (simp add: unat_of_nat take_bit_nat_eq_self)
  show ?thesis
    unfolding capture_network_tlv_direct_def Let_def
    by (intro flagged_cond flagged_none flagged_truncating_section [where m = "ntr_storage_max r"] copies_user n)
       (use assms in simp_all)
qed

lemma read_socklen_frame [silent_intros, reports_intros, above_intros]:
  "silent k (network_direct_read_socklen k' p)"
  "reports (network_direct_read_socklen k' p)"
  "above off (network_direct_read_socklen k' p)"
  unfolding network_direct_read_socklen_def
  by (intro silent_rules silent_intros reports_rules reports_intros above_rules above_intros)+

lemma captures_socklen: "captures k off 36 fst (capture_network_socklen_tlv_direct k off r)"
proof -
  have c: "captures k off 36 (\<lambda>n. n) (copied_section k off PAYLOAD_TLV_KIND_BYTES arg fl (of_nat 4) up (\<lambda>data_offset.
      if err = 0 then do {
        ok \<leftarrow> bpf_dynptr_write data_offset bs;
        if \<not> ok then do { record_ringbuf_copy_fail k; return (0, - E2BIG) } else return (4, 0) }
      else return (0, of_int err)))" for err :: int and bs arg fl up
    by (rule captures_copied_section [where m = 4])
       (auto simp: payloadKindFromTLV_def intro!: copies_step copies_if copies_return silent_intros reports_intros
         above_intros above_store)
  show ?thesis
    unfolding capture_network_socklen_tlv_direct_def
    by (rule captures_if, simp add: captures_return, rule captures_pre_any, rule silent_intros, rule reports_intros,
        rule above_intros, rule captures_case_prod, rule captures_then, rule c, simp, rule extends_return) simp
qed

lemma captures_out_socklen: "captures k off 36 (\<lambda>n. n) (out_socklen k arg up v off)"
  unfolding out_socklen_def
  by (rule captures_then [OF captures_socklen order_refl]) (auto simp: split_beta intro: extends_return)

lemma above_lookup_aux0 [above_intros]: "above off (lookup_pending_syscall_aux0 k tid)"
  by (rule keeps_above)
     (auto simp: lookup_pending_syscall_aux0_def current_pending_task_state_def lookup_pending_task_state_def
       bpf_task_storage_get_def intro!: keeps_rules keeps_intros)

text \<open>A read in front of flagged sections.\<close>

lemma flagged_pre:
  assumes m: "silent k m" "reports m" "\<And>off. above off m" and g: "\<And>x. flagged k cap (g x)"
  shows "flagged k cap (\<lambda>off ef. do { x \<leftarrow> m; g x off ef })"
proof -
  have "captures k off cap fst (do { x \<leftarrow> m; g x off ef })" for off ef
    by (rule captures_pre_any [OF m(1,2,3)]) (use g in \<open>simp add: flagged_def\<close>)
  moreover have "gives (do { x \<leftarrow> m; g x off ef }) (\<lambda>(n, f). \<not> has_flag f EVENT_FLAG_COMPACT_ENTER)"
    if "\<not> has_flag ef EVENT_FLAG_COMPACT_ENTER" for off ef
    by (rule gives_bind_any) (use g that in \<open>simp add: flagged_def\<close>)
  ultimately show ?thesis unfolding flagged_def by blast
qed

lemma flagged_network_if:
  "payloadKindFromTLV (ntr_kind r) \<noteq> None \<Longrightarrow> 32 + ntr_storage_max r \<le> cap \<Longrightarrow> cap < 2 ^ 31 \<Longrightarrow>
     flagged k cap (\<lambda>off ef. if b then capture_network_tlv_direct k off r ef else return (0, ef))"
  by (intro flagged_cond flagged_none flagged_network_tlv)

lemma flagged_out_socklen: "flagged k 36 (unmarked (out_socklen k arg up v))"
  by (rule flagged_unmarked [OF captures_out_socklen])

lemma flagged_getsockopt_exit: "flagged k 580 (\<lambda>off ef. capture_network_getsockopt_exit_tlv_direct k off p ret ef)"
proof -
  note s = flagged_sections_cons [where a = 544, OF flagged_network_if] flagged_sections_one
  show ?thesis
    unfolding capture_network_getsockopt_exit_tlv_direct_def Let_def
    by (intro flagged_pre silent_intros reports_intros above_intros, unfold case_prod_unfold Let_def)
       (intro s; simp add: payloadKindFromTLV_def flagged_out_socklen)
qed

lemma flagged_recvfrom_bytes: "flagged k 544 (recvfrom_bytes k p ret)"
  unfolding recvfrom_bytes_def Let_def
  by (intro flagged_cond flagged_none flagged_network_tlv) (simp_all add: payloadKindFromTLV_def)

lemma flagged_out_sockaddr: "flagged k 196 (out_sockaddr k p)"
proof -
  note s = flagged_sections_cons [where a = 160, OF flagged_network_if] flagged_sections_one
  have e: "out_sockaddr k p = (\<lambda>off ef. out_sockaddr k p off ef)" by simp
  show ?thesis
    by (subst e, unfold out_sockaddr_def Let_def)
       (intro flagged_pre silent_intros reports_intros above_intros, unfold case_prod_unfold Let_def,
        intro s; simp add: payloadKindFromTLV_def flagged_out_socklen)
qed

lemma flagged_network_exit: "flagged k 740 (\<lambda>off ef. capture_network_exit_payloads_tlv_direct k off p ret ef)"
proof -
  have s: "flagged k 740 (flag_sections (recvfrom_bytes k p ret # cs))"
    if "cs = [] \<or> cs = [out_sockaddr k p]" for cs
    using that
    by (auto intro!: flagged_sections_cons [OF flagged_recvfrom_bytes] flagged_sections_one
        flagged_mono [OF flagged_out_sockaddr] flagged_sections_nil simp del: flag_sections.simps)
  show ?thesis
    unfolding capture_network_exit_payloads_tlv_direct_def
    by (intro flagged_cond flagged_none flagged_mono [OF flagged_getsockopt_exit] s) simp_all
qed

text \<open>A capture that hands a value to its caller besides the flags.\<close>

definition valued :: "kernel \<Rightarrow> nat \<Rightarrow> (nat \<Rightarrow> u16 \<Rightarrow> (nat \<times> u16 \<times> 'v) bpf) \<Rightarrow> bool" where
  "valued k cap c \<longleftrightarrow> (\<forall>off ef. captures k off cap fst (c off ef) \<and> (\<not> has_flag ef EVENT_FLAG_COMPACT_ENTER \<longrightarrow>
     gives (c off ef) (\<lambda>(n, f, v). \<not> has_flag f EVENT_FLAG_COMPACT_ENTER)))"

lemma valued_cond:
  "(b \<Longrightarrow> valued k cap (\<lambda>off ef. c off ef)) \<Longrightarrow> (\<not> b \<Longrightarrow> valued k cap (\<lambda>off ef. d off ef)) \<Longrightarrow>
     valued k cap (\<lambda>off ef. if b then c off ef else d off ef)"
  by (cases b) simp_all

lemma valued_none: "valued k cap (\<lambda>off ef. return (0, ef, v))"
  by (simp add: valued_def captures_return gives_return)

lemma valued_flagged:
  assumes "flagged k cap (\<lambda>off ef. c off ef)"
  shows "valued k cap (\<lambda>off ef. do { (n, fl) \<leftarrow> c off ef; return (n, fl, v) })"
proof -
  have "captures k off cap fst (do { (n, fl) \<leftarrow> c off ef; return (n, fl, v) })" for off ef
    by (rule captures_then [OF _ order_refl, where sy = fst])
       (use assms in \<open>auto simp: flagged_def split_beta intro: extends_return\<close>)
  moreover have "gives (do { (n, fl) \<leftarrow> c off ef; return (n, fl, v) }) (\<lambda>(n, f, v). \<not> has_flag f EVENT_FLAG_COMPACT_ENTER)"
    if "\<not> has_flag ef EVENT_FLAG_COMPACT_ENTER" for off ef
    by (rule gives_bind [where P = "\<lambda>(n, f). \<not> has_flag f EVENT_FLAG_COMPACT_ENTER"])
       (use assms that in \<open>auto simp: flagged_def intro: gives_return\<close>)
  ultimately show ?thesis by (simp add: valued_def)
qed

lemma valued_socklen:
  "36 \<le> cap \<Longrightarrow> valued k cap (\<lambda>off ef. do { (n, v) \<leftarrow> capture_network_socklen_tlv_direct k off r; return (n, ef, v) })"
  unfolding valued_def
  by (auto intro!: captures_then [OF captures_socklen] extends_return gives_bind_any gives_return simp: split_beta)

lemma valued_network_enter:
  "valued k 704 (\<lambda>off ef. capture_network_enter_payloads_tlv_direct k off sys_id args ef)"
  unfolding capture_network_enter_payloads_tlv_direct_def Let_def
  by (intro valued_cond valued_none valued_flagged valued_socklen flagged_network_tlv flagged_sections_cons [where a = 544]
      flagged_sections_one; simp add: payloadKindFromTLV_def)

lemma network_emitters [emitter_intros]:
  "emitter k (emit_network_enter_event_v2_direct k pid tid sys_id args ts len)"
  "emitter k (emit_network_exit_event_v2_direct k p ret dur)"
proof -
  note v = valued_network_enter [unfolded valued_def, rule_format]
  show "emitter k (emit_network_enter_event_v2_direct k pid tid sys_id args ts len)"
    unfolding emit_network_enter_event_v2_direct_def
    by (rule emitter_enter_tlv_value) (use v in \<open>simp_all add: has_flag_def\<close>)
  show "emitter k (emit_network_exit_event_v2_direct k p ret dur)"
    unfolding emit_network_exit_event_v2_direct_def
    by (rule emitter_exit_flagged) (simp_all add: flagged_network_exit)
qed

end
