(* ===== verification/Message_Events.thy ===== *)
theory Message_Events
  imports Network_Events
begin

text \<open>
  Scatter/gather lists and messages: \<^verbatim>\<open>bpf/syscall_iovec_{,capture_,base_exit_}direct_event_v2.h\<close>,
  \<^verbatim>\<open>syscall_msg_*_direct_event_v2.h\<close> and \<^verbatim>\<open>syscall_mmsg_*_direct_event_v2.h\<close>.  A list is captured as
  one section, and a short prefix of every buffer it points to as a section of its own, in records that
  follow the first.
\<close>

section \<open>iovec\<close>

abbreviation (input) IOVEC_DIRECT_ELEM_SIZE :: nat where "IOVEC_DIRECT_ELEM_SIZE \<equiv> 16"
abbreviation (input) IOVEC_DIRECT_BYTES_MAX :: nat where "IOVEC_DIRECT_BYTES_MAX \<equiv> 256"
abbreviation (input) IOVEC_DIRECT_SLOT_MAX :: nat where "IOVEC_DIRECT_SLOT_MAX \<equiv> 16"
abbreviation (input) IOVEC_BASE_PAYLOAD_SLOT_MAX :: nat where "IOVEC_BASE_PAYLOAD_SLOT_MAX \<equiv> 7"
abbreviation (input) IOVEC_BASE_PAYLOAD_BYTES_MAX :: nat where "IOVEC_BASE_PAYLOAD_BYTES_MAX \<equiv> 7"
abbreviation (input) IOVEC_BASE_PAYLOAD_ARG1_BASE :: u16 where "IOVEC_BASE_PAYLOAD_ARG1_BASE \<equiv> 120"
abbreviation (input) IOVEC_BASE_PAYLOAD_ARG3_BASE :: u16 where "IOVEC_BASE_PAYLOAD_ARG3_BASE \<equiv> 140"
abbreviation (input) IOVEC_BASE_PAYLOAD_ARG151_BASE :: u16 where "IOVEC_BASE_PAYLOAD_ARG151_BASE \<equiv> 160"
abbreviation (input) IOVEC_BASE_PAYLOAD_ARG181_BASE :: u16 where "IOVEC_BASE_PAYLOAD_ARG181_BASE \<equiv> 180"
abbreviation (input) IOVEC_BASE_PAYLOAD_ARG211_BASE :: u16 where "IOVEC_BASE_PAYLOAD_ARG211_BASE \<equiv> 200"
abbreviation (input) IOVEC_BASE_PAYLOAD_CAPACITY :: nat where
  "IOVEC_BASE_PAYLOAD_CAPACITY \<equiv> IOVEC_BASE_PAYLOAD_SLOT_MAX * (PAYLOAD_TLV_HEADER_SIZE + IOVEC_BASE_PAYLOAD_BYTES_MAX)"

definition is_process_vm_iovec_direct_syscall :: "u32 \<Rightarrow> bool" where
  "is_process_vm_iovec_direct_syscall sys_id \<longleftrightarrow> sys_id = SYS_PROCESS_VM_READV \<or> sys_id = SYS_PROCESS_VM_WRITEV"

definition is_iovec_direct_syscall :: "u32 \<Rightarrow> bool" where
  "is_iovec_direct_syscall sys_id \<longleftrightarrow>
     sys_id = SYS_READV \<or> sys_id = SYS_WRITEV \<or> sys_id = SYS_PREADV \<or> sys_id = SYS_PWRITEV \<or>
     sys_id = SYS_PREADV2 \<or> sys_id = SYS_PWRITEV2 \<or> sys_id = SYS_VMSPLICE \<or>
     is_process_vm_iovec_direct_syscall sys_id \<or> sys_id = SYS_PROCESS_MADVISE"

definition is_iovec_base_enter_direct_syscall :: "u32 \<Rightarrow> bool" where
  "is_iovec_base_enter_direct_syscall sys_id \<longleftrightarrow>
     sys_id = SYS_WRITEV \<or> sys_id = SYS_PWRITEV \<or> sys_id = SYS_PWRITEV2 \<or> sys_id = SYS_VMSPLICE \<or>
     sys_id = SYS_PROCESS_VM_WRITEV"

definition is_iovec_base_exit_direct_syscall :: "u32 \<Rightarrow> bool" where
  "is_iovec_base_exit_direct_syscall sys_id \<longleftrightarrow>
     sys_id = SYS_READV \<or> sys_id = SYS_PREADV \<or> sys_id = SYS_PREADV2 \<or> sys_id = SYS_PROCESS_VM_READV"

definition iovec_direct_user_len :: "u64 \<Rightarrow> u32" where
  "iovec_direct_user_len count =
     (if count > 0xfffffff then 0xffffffff else ucast count * of_nat IOVEC_DIRECT_ELEM_SIZE)"

definition iovec_direct_copy_len :: "u64 \<Rightarrow> nat" where
  "iovec_direct_copy_len count =
     (if count > of_nat IOVEC_DIRECT_SLOT_MAX then IOVEC_DIRECT_BYTES_MAX else unat count * IOVEC_DIRECT_ELEM_SIZE)"

definition iovec_base_payload_copy_len :: "u64 \<Rightarrow> nat" where
  "iovec_base_payload_copy_len n =
     (if n > of_nat IOVEC_BASE_PAYLOAD_BYTES_MAX then IOVEC_BASE_PAYLOAD_BYTES_MAX else unat n)"

definition iovec_base_payload_arg_index :: "u16 \<Rightarrow> nat \<Rightarrow> u16" where
  "iovec_base_payload_arg_index iovec_arg_index slot =
     (if iovec_arg_index = 3 then IOVEC_BASE_PAYLOAD_ARG3_BASE + of_nat slot
      else if iovec_arg_index = 151 then IOVEC_BASE_PAYLOAD_ARG151_BASE + of_nat slot
      else if iovec_arg_index = 181 then IOVEC_BASE_PAYLOAD_ARG181_BASE + of_nat slot
      else if iovec_arg_index = 211 then IOVEC_BASE_PAYLOAD_ARG211_BASE + of_nat slot
      else IOVEC_BASE_PAYLOAD_ARG1_BASE + of_nat slot)"

text \<open>Reads and writes by constant lengths through a local buffer.\<close>

definition probe_read_iovec_base_payload :: "kernel \<Rightarrow> nat \<Rightarrow> u64 \<Rightarrow> (int \<times> bytes) bpf" where
  "probe_read_iovec_base_payload k copied_len user_ptr =
     bpf_probe_read_user k (if copied_len \<in> set [1, 2, 3, 4, 5, 6, 7] then copied_len else IOVEC_BASE_PAYLOAD_BYTES_MAX)
       user_ptr"

definition dynptr_write_iovec_base_payload :: "nat \<Rightarrow> bytes \<Rightarrow> nat \<Rightarrow> bool bpf" where
  "dynptr_write_iovec_base_payload off payload_data copied_len =
     bpf_dynptr_write off
       (take (if copied_len \<in> set [1, 2, 3, 4, 5, 6, 7] then copied_len else IOVEC_BASE_PAYLOAD_BYTES_MAX)
         (pad_bytes IOVEC_BASE_PAYLOAD_BYTES_MAX payload_data))"

definition capture_iovec_tlv_direct :: "kernel \<Rightarrow> nat \<Rightarrow> u16 \<Rightarrow> u64 \<Rightarrow> u64 \<Rightarrow> u16 \<Rightarrow> (nat \<times> u16) bpf" where
  "capture_iovec_tlv_direct k payload_offset arg_index user_ptr count event_flags =
     (let user_len = iovec_direct_user_len count; target_len = iovec_direct_copy_len count
      in if user_len = 0 \<or> user_ptr = 0 then return (0, event_flags)
         else truncating_section k payload_offset PAYLOAD_TLV_KIND_IOVEC arg_index 0 event_flags user_len user_ptr
           (copy_slots k user_ptr IOVEC_DIRECT_ELEM_SIZE target_len [0..<IOVEC_DIRECT_SLOT_MAX] 0))"

definition capture_iovec_base_tlv_direct ::
    "kernel \<Rightarrow> nat \<Rightarrow> u16 \<Rightarrow> u16 \<Rightarrow> u64 \<Rightarrow> u64 \<Rightarrow> u16 \<Rightarrow> (nat \<times> u16) bpf" where
  "capture_iovec_base_tlv_direct k payload_offset payload_arg_index dir_flags user_ptr user_len event_flags =
     (if user_ptr = 0 \<or> user_len = 0 then return (0, event_flags)
      else flagged_section k payload_offset PAYLOAD_TLV_KIND_BYTES payload_arg_index dir_flags event_flags
        (ucast user_len) user_ptr
        (\<lambda>copied_len probe_ret. probe_ret = 0 \<and> copied_len > 0 \<and> copied_len < unat user_len)
        (\<lambda>data_offset. do {
           let copied_len = iovec_base_payload_copy_len user_len;
           (err, bs) \<leftarrow> probe_read_iovec_base_payload k copied_len user_ptr;
           if err < 0 then return (0, of_int err)
           else do {
             ok \<leftarrow> dynptr_write_iovec_base_payload data_offset bs copied_len;
             if \<not> ok then do { record_ringbuf_copy_fail k; return (0, - E2BIG) }
             else return (copied_len, 0) } }))"

text \<open>
  The loop over the elements of a list: each is read as a pointer and a length, and the loop ends at the
  end of the list, behind the last slot, or at the first element that cannot be read.  The enter side
  writes it as a loop, the exit side unrolled.
\<close>

primrec iovec_slots :: "kernel \<Rightarrow> (nat \<Rightarrow> u64 \<Rightarrow> u64 \<Rightarrow> flag_capture) \<Rightarrow> u64 \<Rightarrow> u64 \<Rightarrow> nat list \<Rightarrow> flag_capture" where
  "iovec_slots k capture iovec_ptr count [] = (\<lambda>payload_offset event_flags. return (0, event_flags))"
| "iovec_slots k capture iovec_ptr count (i # is) = (\<lambda>payload_offset event_flags.
     if of_nat i \<ge> count then return (0, event_flags)
     else do {
       let slot = iovec_ptr + of_nat (i * IOVEC_DIRECT_ELEM_SIZE);
       (err, base) \<leftarrow> bpf_probe_read_user k 8 slot;
       if err < 0 then return (0, event_flags)
       else do {
         (err, len) \<leftarrow> bpf_probe_read_user k 8 (slot + 8);
         if err < 0 then return (0, event_flags)
         else flag_sections [capture i (le_word base) (le_word len), iovec_slots k capture iovec_ptr count is]
           payload_offset event_flags } })"

definition capture_iovec_base_payloads_tlv_direct_for_arg ::
    "kernel \<Rightarrow> nat \<Rightarrow> u16 \<Rightarrow> u64 \<Rightarrow> u64 \<Rightarrow> u16 \<Rightarrow> (nat \<times> u16) bpf" where
  "capture_iovec_base_payloads_tlv_direct_for_arg k payload_offset iovec_arg_index iovec_ptr count event_flags =
     (if iovec_ptr = 0 \<or> count = 0 then return (0, event_flags)
      else iovec_slots k (\<lambda>i base len off ef. capture_iovec_base_tlv_direct k off
               (iovec_base_payload_arg_index iovec_arg_index i) 0 base len ef)
             iovec_ptr count [0..<IOVEC_BASE_PAYLOAD_SLOT_MAX] payload_offset event_flags)"

definition capture_iovec_base_payloads_tlv_direct ::
    "kernel \<Rightarrow> nat \<Rightarrow> u64 \<Rightarrow> u64 \<Rightarrow> u16 \<Rightarrow> (nat \<times> u16) bpf" where
  "capture_iovec_base_payloads_tlv_direct k payload_offset iovec_ptr count event_flags =
     capture_iovec_base_payloads_tlv_direct_for_arg k payload_offset 1 iovec_ptr count event_flags"

definition capture_iovec_payloads_tlv_direct ::
    "kernel \<Rightarrow> nat \<Rightarrow> u32 \<Rightarrow> sys_enter_ctx \<Rightarrow> u16 \<Rightarrow> (nat \<times> u16) bpf" where
  "capture_iovec_payloads_tlv_direct k payload_offset sys_id ctx event_flags =
     (let args = sec_args ctx
      in flag_sections
        ((\<lambda>off ef. capture_iovec_tlv_direct k off 1 (arg1 args) (arg2 args) ef) #
         (if is_process_vm_iovec_direct_syscall sys_id
          then [\<lambda>off ef. capture_iovec_tlv_direct k off 3 (arg3 args) (arg4 args) ef] else []))
        payload_offset event_flags)"

definition emit_iovec_enter_event_v2_direct ::
    "kernel \<Rightarrow> u32 \<Rightarrow> u32 \<Rightarrow> u32 \<Rightarrow> sys_enter_ctx \<Rightarrow> u64 \<Rightarrow> unit bpf" where
  "emit_iovec_enter_event_v2_direct k pid tid sys_id ctx ts_ns =
     emit_enter_flagged k pid tid sys_id (sec_args ctx) ts_ns
       (if is_process_vm_iovec_direct_syscall sys_id then 2 * (PAYLOAD_TLV_HEADER_SIZE + IOVEC_DIRECT_BYTES_MAX)
        else PAYLOAD_TLV_HEADER_SIZE + IOVEC_DIRECT_BYTES_MAX)
       (\<lambda>off ef. capture_iovec_payloads_tlv_direct k off sys_id ctx ef)"

definition emit_iovec_base_enter_event_v2_direct ::
    "kernel \<Rightarrow> u32 \<Rightarrow> u32 \<Rightarrow> u32 \<Rightarrow> sys_enter_ctx \<Rightarrow> u64 \<Rightarrow> unit bpf" where
  "emit_iovec_base_enter_event_v2_direct k pid tid sys_id ctx ts_ns =
     emit_enter_flagged k pid tid sys_id (sec_args ctx) ts_ns IOVEC_BASE_PAYLOAD_CAPACITY
       (\<lambda>off ef. capture_iovec_base_payloads_tlv_direct k off (arg1 (sec_args ctx)) (arg2 (sec_args ctx)) ef)"

section \<open>iovec at exit\<close>

abbreviation (input) IOVEC_BASE_EXIT_PAYLOAD_SLOT_MAX :: nat where "IOVEC_BASE_EXIT_PAYLOAD_SLOT_MAX \<equiv> 5"
abbreviation (input) IOVEC_BASE_EXIT_PAYLOAD_BYTES_MAX :: nat where "IOVEC_BASE_EXIT_PAYLOAD_BYTES_MAX \<equiv> 8"
abbreviation (input) IOVEC_BASE_EXIT_PAYLOAD_CAPACITY :: nat where
  "IOVEC_BASE_EXIT_PAYLOAD_CAPACITY \<equiv>
     IOVEC_BASE_EXIT_PAYLOAD_SLOT_MAX * (PAYLOAD_TLV_HEADER_SIZE + IOVEC_BASE_EXIT_PAYLOAD_BYTES_MAX)"

definition iovec_base_exit_payload_copy_len :: "u64 \<Rightarrow> nat" where
  "iovec_base_exit_payload_copy_len n =
     (if n > of_nat IOVEC_BASE_EXIT_PAYLOAD_BYTES_MAX then IOVEC_BASE_EXIT_PAYLOAD_BYTES_MAX else unat n)"

definition capture_iovec_base_exit_tlv_direct ::
    "kernel \<Rightarrow> nat \<Rightarrow> u16 \<Rightarrow> u64 \<Rightarrow> u64 \<Rightarrow> u16 \<Rightarrow> (nat \<times> u16) bpf" where
  "capture_iovec_base_exit_tlv_direct k payload_offset payload_arg_index user_ptr user_len event_flags =
     (if user_ptr = 0 \<or> user_len = 0 then return (0, event_flags)
      else let n = iovec_base_exit_payload_copy_len user_len in
        flagged_section k payload_offset PAYLOAD_TLV_KIND_BYTES payload_arg_index PAYLOAD_TLV_FLAG_DIRECTION_OUT
          event_flags (ucast user_len) user_ptr
          (\<lambda>copied_len probe_ret. probe_ret = 0 \<and> copied_len > 0 \<and> copied_len < unat user_len)
          (copy_user k IOVEC_BASE_EXIT_PAYLOAD_BYTES_MAX n n user_ptr))"

definition capture_iovec_base_exit_payloads_tlv_direct_for_arg ::
    "kernel \<Rightarrow> nat \<Rightarrow> u16 \<Rightarrow> u64 \<Rightarrow> u64 \<Rightarrow> u16 \<Rightarrow> (nat \<times> u16) bpf" where
  "capture_iovec_base_exit_payloads_tlv_direct_for_arg k payload_offset iovec_arg_index iovec_ptr count event_flags =
     (if iovec_ptr = 0 \<or> count = 0 then return (0, event_flags)
      else iovec_slots k (\<lambda>i base len off ef. capture_iovec_base_exit_tlv_direct k off
               (iovec_base_payload_arg_index iovec_arg_index i) base len ef)
             iovec_ptr count [0..<IOVEC_BASE_EXIT_PAYLOAD_SLOT_MAX] payload_offset event_flags)"

definition capture_iovec_base_exit_payloads_tlv_direct ::
    "kernel \<Rightarrow> nat \<Rightarrow> u64 \<Rightarrow> u64 \<Rightarrow> u16 \<Rightarrow> (nat \<times> u16) bpf" where
  "capture_iovec_base_exit_payloads_tlv_direct k payload_offset iovec_ptr count event_flags =
     capture_iovec_base_exit_payloads_tlv_direct_for_arg k payload_offset 1 iovec_ptr count event_flags"

text \<open>This record carries the time of its emission, not the end of the syscall.\<close>

definition emit_iovec_base_exit_event_v2_direct :: "kernel \<Rightarrow> pending_syscall \<Rightarrow> s64 \<Rightarrow> u64 \<Rightarrow> unit bpf" where
  "emit_iovec_base_exit_event_v2_direct k p ret_value duration =
     (let payload_offset = EVENT_V2_HEADER_LEN + EVENT_V2_EXIT_BODY_LEN;
          out_size = payload_offset + IOVEC_BASE_EXIT_PAYLOAD_CAPACITY
      in with_reservation k out_size (\<lambda>sequence. do {
           (payload_size, flags) \<leftarrow> capture_iovec_base_exit_payloads_tlv_direct k payload_offset (arg1 (ps_args p))
             (arg2 (ps_args p)) 0;
           now \<leftarrow> bpf_ktime_get_ns k;
           commit_event k
             (init_syscall_event_v2_header_direct k (zero_header sequence) EVENT_TYPE_EXIT
                (payload_flags payload_size flags) (ps_pid p) (ps_tid p) (ps_sys_id p) out_size now)
             (do { b \<leftarrow> init_syscall_exit_event_v2_from_pending k p ret_value duration (of_nat payload_size);
                   return (enc_exit_body b) }) }))"

section \<open>Messages\<close>

abbreviation (input) MSGHDR_USER_SIZE :: nat where "MSGHDR_USER_SIZE \<equiv> 56"
abbreviation (input) MMSGHDR_USER_SIZE :: nat where "MMSGHDR_USER_SIZE \<equiv> 64"
abbreviation (input) MMSGHDR_DIRECT_SLOT_MAX :: nat where "MMSGHDR_DIRECT_SLOT_MAX \<equiv> 4"
abbreviation (input) MMSGHDR_DIRECT_BYTES_MAX :: nat where
  "MMSGHDR_DIRECT_BYTES_MAX \<equiv> MMSGHDR_DIRECT_SLOT_MAX * MMSGHDR_USER_SIZE"
abbreviation (input) MMSGHDR_SECOND_IOV_ARG :: u16 where "MMSGHDR_SECOND_IOV_ARG \<equiv> 151"
abbreviation (input) MMSGHDR_THIRD_IOV_ARG :: u16 where "MMSGHDR_THIRD_IOV_ARG \<equiv> 181"
abbreviation (input) MMSGHDR_FOURTH_IOV_ARG :: u16 where "MMSGHDR_FOURTH_IOV_ARG \<equiv> 211"
abbreviation (input) MSGHDR_NAME_OFFSET :: u64 where "MSGHDR_NAME_OFFSET \<equiv> 0"
abbreviation (input) MSGHDR_NAMELEN_OFFSET :: u64 where "MSGHDR_NAMELEN_OFFSET \<equiv> 8"
abbreviation (input) MSGHDR_IOV_OFFSET :: u64 where "MSGHDR_IOV_OFFSET \<equiv> 16"
abbreviation (input) MSGHDR_IOVLEN_OFFSET :: u64 where "MSGHDR_IOVLEN_OFFSET \<equiv> 24"
abbreviation (input) MSGHDR_CONTROL_OFFSET :: u64 where "MSGHDR_CONTROL_OFFSET \<equiv> 32"
abbreviation (input) MSGHDR_CONTROLLEN_OFFSET :: u64 where "MSGHDR_CONTROLLEN_OFFSET \<equiv> 40"
abbreviation (input) MSG_DIRECT_SOCKADDR_MAX :: nat where "MSG_DIRECT_SOCKADDR_MAX \<equiv> 128"
abbreviation (input) MSG_DIRECT_CMSG_MAX :: nat where "MSG_DIRECT_CMSG_MAX \<equiv> 256"
abbreviation (input) MSG_DIRECT_CMSG_TLV_MAX :: nat where
  "MSG_DIRECT_CMSG_TLV_MAX \<equiv> PAYLOAD_TLV_HEADER_SIZE + MSG_DIRECT_CMSG_MAX"
abbreviation (input) MSG_DIRECT_TIMESPEC_SIZE :: nat where "MSG_DIRECT_TIMESPEC_SIZE \<equiv> 16"
abbreviation (input) MSG_DIRECT_TIMESPEC_MAX :: nat where
  "MSG_DIRECT_TIMESPEC_MAX \<equiv> PAYLOAD_TLV_HEADER_SIZE + MSG_DIRECT_TIMESPEC_SIZE"
abbreviation (input) MSG_DIRECT_MSGHDR_MAX :: nat where
  "MSG_DIRECT_MSGHDR_MAX \<equiv> PAYLOAD_TLV_HEADER_SIZE + MSGHDR_USER_SIZE"
abbreviation (input) MSG_DIRECT_MMSGHDR_MAX :: nat where
  "MSG_DIRECT_MMSGHDR_MAX \<equiv> PAYLOAD_TLV_HEADER_SIZE + MMSGHDR_DIRECT_BYTES_MAX"
abbreviation (input) MSG_DIRECT_MMSG_ENTER_MAX :: nat where
  "MSG_DIRECT_MMSG_ENTER_MAX \<equiv> MSG_DIRECT_MMSGHDR_MAX + MSG_DIRECT_TIMESPEC_MAX"
abbreviation (input) MSG_DIRECT_SINGLE_ENTER_MAX :: nat where
  "MSG_DIRECT_SINGLE_ENTER_MAX \<equiv> MSG_DIRECT_MSGHDR_MAX + (PAYLOAD_TLV_HEADER_SIZE + IOVEC_DIRECT_BYTES_MAX) +
     MSG_DIRECT_CMSG_TLV_MAX"
abbreviation (input) MSG_DIRECT_ENTER_MAX :: nat where "MSG_DIRECT_ENTER_MAX \<equiv> MSG_DIRECT_MMSG_ENTER_MAX"
abbreviation (input) MSG_DIRECT_SENDMSG_BASE_ENTER_MAX :: nat where
  "MSG_DIRECT_SENDMSG_BASE_ENTER_MAX \<equiv> IOVEC_BASE_PAYLOAD_CAPACITY"
abbreviation (input) MSG_DIRECT_MMSG_BASE_ENTER_MAX :: nat where
  "MSG_DIRECT_MMSG_BASE_ENTER_MAX \<equiv> PAYLOAD_TLV_HEADER_SIZE + IOVEC_DIRECT_BYTES_MAX"
abbreviation (input) MSG_DIRECT_MMSG_BYTES_ENTER_MAX :: nat where
  "MSG_DIRECT_MMSG_BYTES_ENTER_MAX \<equiv> IOVEC_BASE_PAYLOAD_CAPACITY"
abbreviation (input) MSG_DIRECT_RECVMSG_EXIT_MAX :: nat where
  "MSG_DIRECT_RECVMSG_EXIT_MAX \<equiv> MSG_DIRECT_MSGHDR_MAX + IOVEC_BASE_EXIT_PAYLOAD_CAPACITY"
abbreviation (input) MSG_DIRECT_MMSG_EXIT_MAX :: nat where
  "MSG_DIRECT_MMSG_EXIT_MAX \<equiv> MSG_DIRECT_MMSGHDR_MAX + MSG_DIRECT_TIMESPEC_MAX"
abbreviation (input) MSG_DIRECT_RECVMMSG_BASE_EXIT_MAX :: nat where
  "MSG_DIRECT_RECVMMSG_BASE_EXIT_MAX \<equiv> IOVEC_BASE_EXIT_PAYLOAD_CAPACITY"
abbreviation (input) MSG_DIRECT_RECVMSG_NAME_EXIT_MAX :: nat where
  "MSG_DIRECT_RECVMSG_NAME_EXIT_MAX \<equiv> PAYLOAD_TLV_HEADER_SIZE + MSG_DIRECT_SOCKADDR_MAX"
abbreviation (input) MSG_DIRECT_RECVMSG_CONTROL_EXIT_MAX :: nat where
  "MSG_DIRECT_RECVMSG_CONTROL_EXIT_MAX \<equiv> MSG_DIRECT_CMSG_TLV_MAX"

record msg_direct_iov =
  mdi_ptr :: u64
  mdi_count :: u64

record msg_direct_name =
  mdn_ptr :: u64
  mdn_len :: u32

record msg_direct_control =
  mdc_ptr :: u64
  mdc_len :: u64

definition is_msg_direct_syscall :: "u32 \<Rightarrow> bool" where
  "is_msg_direct_syscall sys_id \<longleftrightarrow>
     sys_id = SYS_SENDMSG \<or> sys_id = SYS_RECVMSG \<or> sys_id = SYS_SENDMMSG \<or> sys_id = SYS_RECVMMSG"

definition is_single_msg_direct_syscall :: "u32 \<Rightarrow> bool" where
  "is_single_msg_direct_syscall sys_id \<longleftrightarrow> sys_id = SYS_SENDMSG \<or> sys_id = SYS_RECVMSG"

definition is_mmsg_direct_syscall :: "u32 \<Rightarrow> bool" where
  "is_mmsg_direct_syscall sys_id \<longleftrightarrow> sys_id = SYS_SENDMMSG \<or> sys_id = SYS_RECVMMSG"

definition mmsg_iovec_arg_index_for_slot :: "nat \<Rightarrow> u16" where
  "mmsg_iovec_arg_index_for_slot slot =
     (if slot = 1 then MMSGHDR_SECOND_IOV_ARG
      else if slot = 2 then MMSGHDR_THIRD_IOV_ARG
      else if slot = 3 then MMSGHDR_FOURTH_IOV_ARG
      else 1)"

text \<open>Two fields of a message header; \<open>None\<close> when one of them cannot be read.\<close>

definition read_fields :: "kernel \<Rightarrow> u64 \<Rightarrow> u64 \<Rightarrow> nat \<Rightarrow> u64 \<Rightarrow> (bytes \<times> bytes) option bpf" where
  "read_fields k msg_ptr off1 size2 off2 =
     (if msg_ptr = 0 then return None
      else do {
        (err, a) \<leftarrow> bpf_probe_read_user k 8 (msg_ptr + off1);
        if err < 0 then return None
        else do {
          (err, b) \<leftarrow> bpf_probe_read_user k size2 (msg_ptr + off2);
          return (if err < 0 then None else Some (a, b)) } })"

definition msg_direct_read_iov :: "kernel \<Rightarrow> u64 \<Rightarrow> msg_direct_iov option bpf" where
  "msg_direct_read_iov k msg_ptr = do {
     r \<leftarrow> read_fields k msg_ptr MSGHDR_IOV_OFFSET 8 MSGHDR_IOVLEN_OFFSET;
     return (case r of None \<Rightarrow> None | Some (a, b) \<Rightarrow> Some \<lparr>mdi_ptr = le_word a, mdi_count = le_word b\<rparr>) }"

definition msg_direct_read_name :: "kernel \<Rightarrow> u64 \<Rightarrow> msg_direct_name option bpf" where
  "msg_direct_read_name k msg_ptr = do {
     r \<leftarrow> read_fields k msg_ptr MSGHDR_NAME_OFFSET 4 MSGHDR_NAMELEN_OFFSET;
     return (case r of None \<Rightarrow> None | Some (a, b) \<Rightarrow> Some \<lparr>mdn_ptr = le_word a, mdn_len = le_word b\<rparr>) }"

definition msg_direct_read_control :: "kernel \<Rightarrow> u64 \<Rightarrow> msg_direct_control option bpf" where
  "msg_direct_read_control k msg_ptr = do {
     r \<leftarrow> read_fields k msg_ptr MSGHDR_CONTROL_OFFSET 8 MSGHDR_CONTROLLEN_OFFSET;
     return (case r of None \<Rightarrow> None | Some (a, b) \<Rightarrow> Some \<lparr>mdc_ptr = le_word a, mdc_len = le_word b\<rparr>) }"

definition save_pending_msg_syscall_args ::
    "kernel \<Rightarrow> u32 \<Rightarrow> u32 \<Rightarrow> u32 \<Rightarrow> sys_enter_ctx \<Rightarrow> u64 \<Rightarrow> s32 \<Rightarrow> unit bpf" where
  "save_pending_msg_syscall_args k tid pid sys_id ctx enter_time stack_id = do {
     aux0 \<leftarrow> (if sys_id = SYS_RECVMSG then do {
                name \<leftarrow> msg_direct_read_name k (arg1 (sec_args ctx));
                return (case name of None \<Rightarrow> 0 | Some x \<Rightarrow> mdn_len x) }
              else return 0);
     ok \<leftarrow> save_pending_syscall_value k (zero_pending_syscall\<lparr>ps_enter_time := enter_time, ps_args := sec_args ctx,
       ps_pid := pid, ps_sys_id := sys_id, ps_tid := tid, ps_stack_id := stack_id\<rparr>);
     only_if (ok \<and> sys_id = SYS_RECVMSG) (save_pending_syscall_aux k tid aux0) }"

definition capture_msg_control_tlv_direct :: "kernel \<Rightarrow> nat \<Rightarrow> u16 \<Rightarrow> u64 \<Rightarrow> u16 \<Rightarrow> (nat \<times> u16) bpf" where
  "capture_msg_control_tlv_direct k payload_offset dir_flags msg_ptr event_flags = do {
     r \<leftarrow> msg_direct_read_control k msg_ptr;
     case r of None \<Rightarrow> return (0, event_flags)
     | Some c \<Rightarrow>
         if mdc_ptr c = 0 \<or> mdc_len c = 0 then return (0, event_flags)
         else let n = unat (payload_tlv_copy_len (mdc_len c) (of_nat MSG_DIRECT_CMSG_MAX)) in
           truncating_section k payload_offset PAYLOAD_TLV_KIND_CMSG 1 dir_flags event_flags
             (payload_tlv_clamp_u32 (mdc_len c)) (mdc_ptr c) (copy_user k MSG_DIRECT_CMSG_MAX n n (mdc_ptr c)) }"

definition capture_msghdr_tlv_direct :: "kernel \<Rightarrow> nat \<Rightarrow> u16 \<Rightarrow> u64 \<Rightarrow> nat bpf" where
  "capture_msghdr_tlv_direct k payload_offset dir_flags msg_ptr =
     struct_section k payload_offset 1 dir_flags msg_ptr MSGHDR_USER_SIZE MSGHDR_USER_SIZE MSGHDR_USER_SIZE"

definition capture_msg_name_tlv_direct :: "kernel \<Rightarrow> nat \<Rightarrow> u64 \<Rightarrow> u32 \<Rightarrow> u16 \<Rightarrow> (nat \<times> u16) bpf" where
  "capture_msg_name_tlv_direct k payload_offset msg_ptr copy_limit event_flags = do {
     r \<leftarrow> msg_direct_read_name k msg_ptr;
     case r of None \<Rightarrow> return (0, event_flags)
     | Some name \<Rightarrow>
         if mdn_ptr name = 0 \<or> mdn_len name = 0 then return (0, event_flags)
         else let user_len = mdn_len name;
                  copied_len = (if copy_limit > 0 \<and> copy_limit < user_len then copy_limit else user_len);
                  n = (if copied_len > of_nat MSG_DIRECT_SOCKADDR_MAX then MSG_DIRECT_SOCKADDR_MAX else unat copied_len)
              in truncating_section k payload_offset PAYLOAD_TLV_KIND_SOCKADDR 1 PAYLOAD_TLV_FLAG_DIRECTION_OUT
                   event_flags user_len (mdn_ptr name) (copy_user k MSG_DIRECT_SOCKADDR_MAX n n (mdn_ptr name)) }"

text \<open>Sections that need the list of a message; nothing when its header cannot be read.\<close>

definition with_iov :: "kernel \<Rightarrow> u64 \<Rightarrow> (msg_direct_iov \<Rightarrow> flag_capture) \<Rightarrow> flag_capture" where
  "with_iov k msg_ptr c = (\<lambda>payload_offset event_flags. do {
     r \<leftarrow> msg_direct_read_iov k msg_ptr;
     case r of None \<Rightarrow> return (0, event_flags) | Some iov \<Rightarrow> c iov payload_offset event_flags })"

definition capture_single_msg_enter_payloads_tlv_direct ::
    "kernel \<Rightarrow> nat \<Rightarrow> sys_enter_ctx \<Rightarrow> u16 \<Rightarrow> (nat \<times> u16) bpf" where
  "capture_single_msg_enter_payloads_tlv_direct k payload_offset ctx event_flags =
     (let msg_ptr = arg1 (sec_args ctx)
      in flag_sections
        [unmarked (\<lambda>off. capture_msghdr_tlv_direct k off 0 msg_ptr),
         with_iov k msg_ptr (\<lambda>iov. flag_sections
           [\<lambda>off ef. capture_iovec_tlv_direct k off 1 (mdi_ptr iov) (mdi_count iov) ef,
            \<lambda>off ef. capture_msg_control_tlv_direct k off 0 msg_ptr ef])]
        payload_offset event_flags)"

definition capture_sendmsg_base_enter_payloads_tlv_direct ::
    "kernel \<Rightarrow> nat \<Rightarrow> sys_enter_ctx \<Rightarrow> u16 \<Rightarrow> (nat \<times> u16) bpf" where
  "capture_sendmsg_base_enter_payloads_tlv_direct k payload_offset ctx event_flags =
     with_iov k (arg1 (sec_args ctx))
       (\<lambda>iov off ef. capture_iovec_base_payloads_tlv_direct k off (mdi_ptr iov) (mdi_count iov) ef)
       payload_offset event_flags"

definition capture_single_msg_exit_payloads_tlv_direct ::
    "kernel \<Rightarrow> nat \<Rightarrow> pending_syscall \<Rightarrow> u16 \<Rightarrow> (nat \<times> u16) bpf" where
  "capture_single_msg_exit_payloads_tlv_direct k payload_offset p event_flags =
     (let msg_ptr = arg1 (ps_args p)
      in flag_sections
        [unmarked (\<lambda>off. capture_msghdr_tlv_direct k off PAYLOAD_TLV_FLAG_DIRECTION_OUT msg_ptr),
         with_iov k msg_ptr
           (\<lambda>iov off ef. capture_iovec_base_exit_payloads_tlv_direct k off (mdi_ptr iov) (mdi_count iov) ef)]
        payload_offset event_flags)"

section \<open>Message vectors\<close>

definition capture_mmsghdr_tlv_direct :: "kernel \<Rightarrow> nat \<Rightarrow> u16 \<Rightarrow> u64 \<Rightarrow> u64 \<Rightarrow> u16 \<Rightarrow> (nat \<times> u16) bpf" where
  "capture_mmsghdr_tlv_direct k payload_offset dir_flags msg_ptr count event_flags =
     (if msg_ptr = 0 \<or> count = 0 then return (0, event_flags)
      else do {
        let copied_len = (if count = 1 then MMSGHDR_USER_SIZE
                          else if count = 2 then 2 * MMSGHDR_USER_SIZE
                          else if count = 3 then 3 * MMSGHDR_USER_SIZE
                          else MMSGHDR_DIRECT_BYTES_MAX);
        let more = (count > of_nat MMSGHDR_DIRECT_SLOT_MAX);
        only_if more (record_payload_truncated_event k);
        n \<leftarrow> copied_section k payload_offset PAYLOAD_TLV_KIND_STRUCT 1 dir_flags
          (of_nat (if more then (MMSGHDR_DIRECT_SLOT_MAX + 1) * MMSGHDR_USER_SIZE else copied_len)) msg_ptr
          (copy_user k MMSGHDR_DIRECT_BYTES_MAX copied_len copied_len msg_ptr);
        return (n, if more then event_flags OR EVENT_FLAG_TRUNCATED else event_flags) })"

definition capture_mmsg_timespec_tlv_direct :: "kernel \<Rightarrow> nat \<Rightarrow> u16 \<Rightarrow> u64 \<Rightarrow> nat bpf" where
  "capture_mmsg_timespec_tlv_direct k payload_offset dir_flags timeout_ptr =
     struct_section k payload_offset 4 dir_flags timeout_ptr MSG_DIRECT_TIMESPEC_SIZE MSG_DIRECT_TIMESPEC_SIZE
       MSG_DIRECT_TIMESPEC_SIZE"

definition capture_mmsg_iovec_tlv_direct :: "kernel \<Rightarrow> nat \<Rightarrow> u64 \<Rightarrow> u16 \<Rightarrow> u16 \<Rightarrow> (nat \<times> u16) bpf" where
  "capture_mmsg_iovec_tlv_direct k payload_offset msg_ptr iovec_arg_index event_flags =
     with_iov k msg_ptr
       (\<lambda>iov off ef. capture_iovec_tlv_direct k off iovec_arg_index (mdi_ptr iov) (mdi_count iov) ef)
       payload_offset event_flags"

definition capture_mmsg_enter_payloads_tlv_direct ::
    "kernel \<Rightarrow> nat \<Rightarrow> sys_enter_ctx \<Rightarrow> u16 \<Rightarrow> (nat \<times> u16) bpf" where
  "capture_mmsg_enter_payloads_tlv_direct k payload_offset ctx event_flags =
     (let args = sec_args ctx; sys_id = (ucast (sec_id ctx) :: u32)
      in if arg2 args = 0 then return (0, event_flags)
         else flag_sections
           ((\<lambda>off ef. capture_mmsghdr_tlv_direct k off 0 (arg1 args) (arg2 args) ef) #
            (if sys_id = SYS_RECVMMSG then [unmarked (\<lambda>off. capture_mmsg_timespec_tlv_direct k off 0 (arg4 args))] else []))
           payload_offset event_flags)"

definition capture_mmsg_base_slot_enter_payloads_tlv_direct ::
    "kernel \<Rightarrow> nat \<Rightarrow> sys_enter_ctx \<Rightarrow> nat \<Rightarrow> u16 \<Rightarrow> (nat \<times> u16) bpf" where
  "capture_mmsg_base_slot_enter_payloads_tlv_direct k payload_offset ctx slot event_flags =
     (if arg2 (sec_args ctx) \<le> of_nat slot then return (0, event_flags)
      else capture_mmsg_iovec_tlv_direct k payload_offset (arg1 (sec_args ctx) + of_nat (slot * MMSGHDR_USER_SIZE))
        (mmsg_iovec_arg_index_for_slot slot) event_flags)"

definition capture_mmsg_exit_payloads_tlv_direct ::
    "kernel \<Rightarrow> nat \<Rightarrow> pending_syscall \<Rightarrow> s64 \<Rightarrow> u16 \<Rightarrow> (nat \<times> u16) bpf" where
  "capture_mmsg_exit_payloads_tlv_direct k payload_offset p ret_value event_flags =
     (let args = ps_args p
      in if arg2 args = 0 then return (0, event_flags)
         else flag_sections
           ((\<lambda>off ef. capture_mmsghdr_tlv_direct k off PAYLOAD_TLV_FLAG_DIRECTION_OUT (arg1 args) (arg2 args) ef) #
            (if ps_sys_id p = SYS_RECVMMSG \<and> sint ret_value > 0
             then [unmarked (\<lambda>off. capture_mmsg_timespec_tlv_direct k off PAYLOAD_TLV_FLAG_DIRECTION_OUT (arg4 args))]
             else []))
           payload_offset event_flags)"

definition capture_mmsg_bytes_base_slot_enter_payloads_tlv_direct ::
    "kernel \<Rightarrow> nat \<Rightarrow> sys_enter_ctx \<Rightarrow> nat \<Rightarrow> u16 \<Rightarrow> (nat \<times> u16) bpf" where
  "capture_mmsg_bytes_base_slot_enter_payloads_tlv_direct k payload_offset ctx slot event_flags =
     (if arg2 (sec_args ctx) \<le> of_nat slot then return (0, event_flags)
      else with_iov k (arg1 (sec_args ctx) + of_nat (slot * MMSGHDR_USER_SIZE))
        (\<lambda>iov off ef. capture_iovec_base_payloads_tlv_direct_for_arg k off (mmsg_iovec_arg_index_for_slot slot)
           (mdi_ptr iov) (mdi_count iov) ef)
        payload_offset event_flags)"

definition capture_recvmmsg_base_slot_exit_payloads_tlv_direct ::
    "kernel \<Rightarrow> nat \<Rightarrow> pending_syscall \<Rightarrow> nat \<Rightarrow> u16 \<Rightarrow> (nat \<times> u16) bpf" where
  "capture_recvmmsg_base_slot_exit_payloads_tlv_direct k payload_offset p slot event_flags =
     (if arg2 (ps_args p) \<le> of_nat slot then return (0, event_flags)
      else with_iov k (arg1 (ps_args p) + of_nat (slot * MMSGHDR_USER_SIZE))
        (\<lambda>iov off ef. capture_iovec_base_exit_payloads_tlv_direct_for_arg k off (mmsg_iovec_arg_index_for_slot slot)
           (mdi_ptr iov) (mdi_count iov) ef)
        payload_offset event_flags)"

definition capture_mmsg_base0_enter_payloads_tlv_direct :: "kernel \<Rightarrow> nat \<Rightarrow> sys_enter_ctx \<Rightarrow> u16 \<Rightarrow> (nat \<times> u16) bpf" where
  "capture_mmsg_base0_enter_payloads_tlv_direct k payload_offset ctx event_flags =
     capture_mmsg_base_slot_enter_payloads_tlv_direct k payload_offset ctx 0 event_flags"

definition capture_mmsg_base1_enter_payloads_tlv_direct :: "kernel \<Rightarrow> nat \<Rightarrow> sys_enter_ctx \<Rightarrow> u16 \<Rightarrow> (nat \<times> u16) bpf" where
  "capture_mmsg_base1_enter_payloads_tlv_direct k payload_offset ctx event_flags =
     capture_mmsg_base_slot_enter_payloads_tlv_direct k payload_offset ctx 1 event_flags"

definition capture_mmsg_base2_enter_payloads_tlv_direct :: "kernel \<Rightarrow> nat \<Rightarrow> sys_enter_ctx \<Rightarrow> u16 \<Rightarrow> (nat \<times> u16) bpf" where
  "capture_mmsg_base2_enter_payloads_tlv_direct k payload_offset ctx event_flags =
     capture_mmsg_base_slot_enter_payloads_tlv_direct k payload_offset ctx 2 event_flags"

definition capture_mmsg_base3_enter_payloads_tlv_direct :: "kernel \<Rightarrow> nat \<Rightarrow> sys_enter_ctx \<Rightarrow> u16 \<Rightarrow> (nat \<times> u16) bpf" where
  "capture_mmsg_base3_enter_payloads_tlv_direct k payload_offset ctx event_flags =
     capture_mmsg_base_slot_enter_payloads_tlv_direct k payload_offset ctx 3 event_flags"

definition capture_mmsg_bytes_base0_enter_payloads_tlv_direct :: "kernel \<Rightarrow> nat \<Rightarrow> sys_enter_ctx \<Rightarrow> u16 \<Rightarrow> (nat \<times> u16) bpf" where
  "capture_mmsg_bytes_base0_enter_payloads_tlv_direct k payload_offset ctx event_flags =
     capture_mmsg_bytes_base_slot_enter_payloads_tlv_direct k payload_offset ctx 0 event_flags"

definition capture_mmsg_bytes_base1_enter_payloads_tlv_direct :: "kernel \<Rightarrow> nat \<Rightarrow> sys_enter_ctx \<Rightarrow> u16 \<Rightarrow> (nat \<times> u16) bpf" where
  "capture_mmsg_bytes_base1_enter_payloads_tlv_direct k payload_offset ctx event_flags =
     capture_mmsg_bytes_base_slot_enter_payloads_tlv_direct k payload_offset ctx 1 event_flags"

definition capture_mmsg_bytes_base2_enter_payloads_tlv_direct :: "kernel \<Rightarrow> nat \<Rightarrow> sys_enter_ctx \<Rightarrow> u16 \<Rightarrow> (nat \<times> u16) bpf" where
  "capture_mmsg_bytes_base2_enter_payloads_tlv_direct k payload_offset ctx event_flags =
     capture_mmsg_bytes_base_slot_enter_payloads_tlv_direct k payload_offset ctx 2 event_flags"

definition capture_mmsg_bytes_base3_enter_payloads_tlv_direct :: "kernel \<Rightarrow> nat \<Rightarrow> sys_enter_ctx \<Rightarrow> u16 \<Rightarrow> (nat \<times> u16) bpf" where
  "capture_mmsg_bytes_base3_enter_payloads_tlv_direct k payload_offset ctx event_flags =
     capture_mmsg_bytes_base_slot_enter_payloads_tlv_direct k payload_offset ctx 3 event_flags"

definition capture_recvmmsg_base0_exit_payloads_tlv_direct :: "kernel \<Rightarrow> nat \<Rightarrow> pending_syscall \<Rightarrow> u16 \<Rightarrow> (nat \<times> u16) bpf" where
  "capture_recvmmsg_base0_exit_payloads_tlv_direct k payload_offset p event_flags =
     capture_recvmmsg_base_slot_exit_payloads_tlv_direct k payload_offset p 0 event_flags"

definition capture_recvmmsg_base1_exit_payloads_tlv_direct :: "kernel \<Rightarrow> nat \<Rightarrow> pending_syscall \<Rightarrow> u16 \<Rightarrow> (nat \<times> u16) bpf" where
  "capture_recvmmsg_base1_exit_payloads_tlv_direct k payload_offset p event_flags =
     capture_recvmmsg_base_slot_exit_payloads_tlv_direct k payload_offset p 1 event_flags"

definition capture_recvmmsg_base2_exit_payloads_tlv_direct :: "kernel \<Rightarrow> nat \<Rightarrow> pending_syscall \<Rightarrow> u16 \<Rightarrow> (nat \<times> u16) bpf" where
  "capture_recvmmsg_base2_exit_payloads_tlv_direct k payload_offset p event_flags =
     capture_recvmmsg_base_slot_exit_payloads_tlv_direct k payload_offset p 2 event_flags"

definition capture_recvmmsg_base3_exit_payloads_tlv_direct :: "kernel \<Rightarrow> nat \<Rightarrow> pending_syscall \<Rightarrow> u16 \<Rightarrow> (nat \<times> u16) bpf" where
  "capture_recvmmsg_base3_exit_payloads_tlv_direct k payload_offset p event_flags =
     capture_recvmmsg_base_slot_exit_payloads_tlv_direct k payload_offset p 3 event_flags"

section \<open>Records\<close>

definition emit_msg_enter_event_v2_direct ::
    "kernel \<Rightarrow> u32 \<Rightarrow> u32 \<Rightarrow> u32 \<Rightarrow> sys_enter_ctx \<Rightarrow> u64 \<Rightarrow> unit bpf" where
  "emit_msg_enter_event_v2_direct k pid tid sys_id ctx ts_ns =
     emit_enter_flagged k pid tid sys_id (sec_args ctx) ts_ns MSG_DIRECT_SINGLE_ENTER_MAX
       (\<lambda>off ef. capture_single_msg_enter_payloads_tlv_direct k off ctx ef)"

definition emit_sendmsg_base_enter_event_v2_direct ::
    "kernel \<Rightarrow> u32 \<Rightarrow> u32 \<Rightarrow> u32 \<Rightarrow> sys_enter_ctx \<Rightarrow> u64 \<Rightarrow> unit bpf" where
  "emit_sendmsg_base_enter_event_v2_direct k pid tid sys_id ctx ts_ns =
     emit_enter_flagged k pid tid sys_id (sec_args ctx) ts_ns MSG_DIRECT_SENDMSG_BASE_ENTER_MAX
       (\<lambda>off ef. capture_sendmsg_base_enter_payloads_tlv_direct k off ctx ef)"

definition emit_mmsg_enter_event_v2_direct ::
    "kernel \<Rightarrow> u32 \<Rightarrow> u32 \<Rightarrow> u32 \<Rightarrow> sys_enter_ctx \<Rightarrow> u64 \<Rightarrow> unit bpf" where
  "emit_mmsg_enter_event_v2_direct k pid tid sys_id ctx ts_ns =
     emit_enter_flagged k pid tid sys_id (sec_args ctx) ts_ns MSG_DIRECT_ENTER_MAX
       (\<lambda>off ef. capture_mmsg_enter_payloads_tlv_direct k off ctx ef)"

definition emit_mmsg_base0_enter_event_v2_direct ::
    "kernel \<Rightarrow> u32 \<Rightarrow> u32 \<Rightarrow> u32 \<Rightarrow> sys_enter_ctx \<Rightarrow> u64 \<Rightarrow> unit bpf" where
  "emit_mmsg_base0_enter_event_v2_direct k pid tid sys_id ctx ts_ns =
     emit_enter_flagged k pid tid sys_id (sec_args ctx) ts_ns MSG_DIRECT_MMSG_BASE_ENTER_MAX
       (\<lambda>off ef. capture_mmsg_base0_enter_payloads_tlv_direct k off ctx ef)"

definition emit_mmsg_base1_enter_event_v2_direct ::
    "kernel \<Rightarrow> u32 \<Rightarrow> u32 \<Rightarrow> u32 \<Rightarrow> sys_enter_ctx \<Rightarrow> u64 \<Rightarrow> unit bpf" where
  "emit_mmsg_base1_enter_event_v2_direct k pid tid sys_id ctx ts_ns =
     emit_enter_flagged k pid tid sys_id (sec_args ctx) ts_ns MSG_DIRECT_MMSG_BASE_ENTER_MAX
       (\<lambda>off ef. capture_mmsg_base1_enter_payloads_tlv_direct k off ctx ef)"

definition emit_mmsg_base2_enter_event_v2_direct ::
    "kernel \<Rightarrow> u32 \<Rightarrow> u32 \<Rightarrow> u32 \<Rightarrow> sys_enter_ctx \<Rightarrow> u64 \<Rightarrow> unit bpf" where
  "emit_mmsg_base2_enter_event_v2_direct k pid tid sys_id ctx ts_ns =
     emit_enter_flagged k pid tid sys_id (sec_args ctx) ts_ns MSG_DIRECT_MMSG_BASE_ENTER_MAX
       (\<lambda>off ef. capture_mmsg_base2_enter_payloads_tlv_direct k off ctx ef)"

definition emit_mmsg_base3_enter_event_v2_direct ::
    "kernel \<Rightarrow> u32 \<Rightarrow> u32 \<Rightarrow> u32 \<Rightarrow> sys_enter_ctx \<Rightarrow> u64 \<Rightarrow> unit bpf" where
  "emit_mmsg_base3_enter_event_v2_direct k pid tid sys_id ctx ts_ns =
     emit_enter_flagged k pid tid sys_id (sec_args ctx) ts_ns MSG_DIRECT_MMSG_BASE_ENTER_MAX
       (\<lambda>off ef. capture_mmsg_base3_enter_payloads_tlv_direct k off ctx ef)"

definition emit_mmsg_bytes_base0_enter_event_v2_direct ::
    "kernel \<Rightarrow> u32 \<Rightarrow> u32 \<Rightarrow> u32 \<Rightarrow> sys_enter_ctx \<Rightarrow> u64 \<Rightarrow> unit bpf" where
  "emit_mmsg_bytes_base0_enter_event_v2_direct k pid tid sys_id ctx ts_ns =
     emit_enter_flagged k pid tid sys_id (sec_args ctx) ts_ns MSG_DIRECT_MMSG_BYTES_ENTER_MAX
       (\<lambda>off ef. capture_mmsg_bytes_base0_enter_payloads_tlv_direct k off ctx ef)"

definition emit_mmsg_bytes_base1_enter_event_v2_direct ::
    "kernel \<Rightarrow> u32 \<Rightarrow> u32 \<Rightarrow> u32 \<Rightarrow> sys_enter_ctx \<Rightarrow> u64 \<Rightarrow> unit bpf" where
  "emit_mmsg_bytes_base1_enter_event_v2_direct k pid tid sys_id ctx ts_ns =
     emit_enter_flagged k pid tid sys_id (sec_args ctx) ts_ns MSG_DIRECT_MMSG_BYTES_ENTER_MAX
       (\<lambda>off ef. capture_mmsg_bytes_base1_enter_payloads_tlv_direct k off ctx ef)"

definition emit_mmsg_bytes_base2_enter_event_v2_direct ::
    "kernel \<Rightarrow> u32 \<Rightarrow> u32 \<Rightarrow> u32 \<Rightarrow> sys_enter_ctx \<Rightarrow> u64 \<Rightarrow> unit bpf" where
  "emit_mmsg_bytes_base2_enter_event_v2_direct k pid tid sys_id ctx ts_ns =
     emit_enter_flagged k pid tid sys_id (sec_args ctx) ts_ns MSG_DIRECT_MMSG_BYTES_ENTER_MAX
       (\<lambda>off ef. capture_mmsg_bytes_base2_enter_payloads_tlv_direct k off ctx ef)"

definition emit_mmsg_bytes_base3_enter_event_v2_direct ::
    "kernel \<Rightarrow> u32 \<Rightarrow> u32 \<Rightarrow> u32 \<Rightarrow> sys_enter_ctx \<Rightarrow> u64 \<Rightarrow> unit bpf" where
  "emit_mmsg_bytes_base3_enter_event_v2_direct k pid tid sys_id ctx ts_ns =
     emit_enter_flagged k pid tid sys_id (sec_args ctx) ts_ns MSG_DIRECT_MMSG_BYTES_ENTER_MAX
       (\<lambda>off ef. capture_mmsg_bytes_base3_enter_payloads_tlv_direct k off ctx ef)"

text \<open>A further exit record of the same syscall.\<close>

definition emit_exit_fragment :: "kernel \<Rightarrow> pending_syscall \<Rightarrow> s64 \<Rightarrow> u64 \<Rightarrow> nat \<Rightarrow> flag_capture \<Rightarrow> unit bpf" where
  "emit_exit_fragment k p ret_value duration payload_capacity capture =
     emit_exit_tlv k p ret_value duration payload_capacity (\<lambda>payload_offset. capture payload_offset EVENT_FLAG_EXIT_FRAGMENT)"

definition emit_recvmsg_control_exit_fragment_event_v2_direct ::
    "kernel \<Rightarrow> pending_syscall \<Rightarrow> s64 \<Rightarrow> u64 \<Rightarrow> unit bpf" where
  "emit_recvmsg_control_exit_fragment_event_v2_direct k p ret_value duration =
     (if ps_sys_id p \<noteq> SYS_RECVMSG \<or> sint ret_value < 0 then return ()
      else emit_exit_fragment k p ret_value duration MSG_DIRECT_RECVMSG_CONTROL_EXIT_MAX
        (\<lambda>off ef. capture_msg_control_tlv_direct k off PAYLOAD_TLV_FLAG_DIRECTION_OUT (arg1 (ps_args p)) ef))"

definition emit_recvmsg_name_exit_fragment_event_v2_direct ::
    "kernel \<Rightarrow> pending_syscall \<Rightarrow> s64 \<Rightarrow> u64 \<Rightarrow> unit bpf" where
  "emit_recvmsg_name_exit_fragment_event_v2_direct k p ret_value duration =
     (if ps_sys_id p \<noteq> SYS_RECVMSG \<or> sint ret_value \<le> 0 then return ()
      else emit_exit_fragment k p ret_value duration MSG_DIRECT_RECVMSG_NAME_EXIT_MAX
        (\<lambda>off ef. do {
           aux0 \<leftarrow> lookup_pending_syscall_aux0 k (ps_tid p);
           capture_msg_name_tlv_direct k off (arg1 (ps_args p)) aux0 ef }))"

definition emit_single_msg_exit_event_v2_direct :: "kernel \<Rightarrow> pending_syscall \<Rightarrow> s64 \<Rightarrow> u64 \<Rightarrow> unit bpf" where
  "emit_single_msg_exit_event_v2_direct k p ret_value duration =
     (if ps_sys_id p \<noteq> SYS_RECVMSG \<or> sint ret_value \<le> 0
      then emit_syscall_exit_event_v2_direct k p ret_value duration 0
      else emit_exit_flagged k p ret_value duration MSG_DIRECT_RECVMSG_EXIT_MAX
        (\<lambda>off ef. capture_single_msg_exit_payloads_tlv_direct k off p ef))"

definition emit_mmsg_exit_event_v2_direct :: "kernel \<Rightarrow> pending_syscall \<Rightarrow> s64 \<Rightarrow> u64 \<Rightarrow> unit bpf" where
  "emit_mmsg_exit_event_v2_direct k p ret_value duration =
     (if sint ret_value \<le> 0 then emit_syscall_exit_event_v2_direct k p ret_value duration 0
      else emit_exit_flagged k p ret_value duration MSG_DIRECT_MMSG_EXIT_MAX
        (\<lambda>off ef. capture_mmsg_exit_payloads_tlv_direct k off p ret_value ef))"

definition emit_recvmmsg_base0_exit_fragment_event_v2_direct ::
    "kernel \<Rightarrow> pending_syscall \<Rightarrow> s64 \<Rightarrow> u64 \<Rightarrow> unit bpf" where
  "emit_recvmmsg_base0_exit_fragment_event_v2_direct k p ret_value duration =
     (if sint ret_value \<le> 0 then return ()
      else emit_exit_fragment k p ret_value duration MSG_DIRECT_RECVMMSG_BASE_EXIT_MAX
        (\<lambda>off ef. capture_recvmmsg_base0_exit_payloads_tlv_direct k off p ef))"

definition emit_recvmmsg_base1_exit_fragment_event_v2_direct ::
    "kernel \<Rightarrow> pending_syscall \<Rightarrow> s64 \<Rightarrow> u64 \<Rightarrow> unit bpf" where
  "emit_recvmmsg_base1_exit_fragment_event_v2_direct k p ret_value duration =
     (if sint ret_value \<le> 0 then return ()
      else emit_exit_fragment k p ret_value duration MSG_DIRECT_RECVMMSG_BASE_EXIT_MAX
        (\<lambda>off ef. capture_recvmmsg_base1_exit_payloads_tlv_direct k off p ef))"

definition emit_recvmmsg_base2_exit_fragment_event_v2_direct ::
    "kernel \<Rightarrow> pending_syscall \<Rightarrow> s64 \<Rightarrow> u64 \<Rightarrow> unit bpf" where
  "emit_recvmmsg_base2_exit_fragment_event_v2_direct k p ret_value duration =
     (if sint ret_value \<le> 0 then return ()
      else emit_exit_fragment k p ret_value duration MSG_DIRECT_RECVMMSG_BASE_EXIT_MAX
        (\<lambda>off ef. capture_recvmmsg_base2_exit_payloads_tlv_direct k off p ef))"

definition emit_recvmmsg_base3_exit_fragment_event_v2_direct ::
    "kernel \<Rightarrow> pending_syscall \<Rightarrow> s64 \<Rightarrow> u64 \<Rightarrow> unit bpf" where
  "emit_recvmmsg_base3_exit_fragment_event_v2_direct k p ret_value duration =
     (if sint ret_value \<le> 0 then return ()
      else emit_exit_fragment k p ret_value duration MSG_DIRECT_RECVMMSG_BASE_EXIT_MAX
        (\<lambda>off ef. capture_recvmmsg_base3_exit_payloads_tlv_direct k off p ef))"

section \<open>Accounting\<close>

lemma flagged_iovec: "flagged k 288 (\<lambda>off ef. capture_iovec_tlv_direct k off arg up count ef)"
  unfolding capture_iovec_tlv_direct_def Let_def
  by (intro flagged_cond flagged_none flagged_truncating_section [where m = 256] copies_slots)
     (simp_all add: payloadKindFromTLV_def)

lemma iovec_base_len: "iovec_base_payload_copy_len n \<le> 7" "iovec_base_exit_payload_copy_len n \<le> 8"
  by (simp_all add: iovec_base_payload_copy_len_def iovec_base_exit_payload_copy_len_def word_less_nat_alt)

lemma flagged_iovec_base: "flagged k 39 (\<lambda>off ef. capture_iovec_base_tlv_direct k off arg fl up len ef)"
proof -
  have c: "copies k off 7 (do {
      let copied_len = iovec_base_payload_copy_len len;
      (err, bs) \<leftarrow> probe_read_iovec_base_payload k copied_len up;
      if err < 0 then return (0, of_int err)
      else do {
        ok \<leftarrow> dynptr_write_iovec_base_payload off bs copied_len;
        if \<not> ok then do { record_ringbuf_copy_fail k; return (0, - E2BIG) } else return (copied_len, 0) } })" for off
    unfolding Let_def probe_read_iovec_base_payload_def dynptr_write_iovec_base_payload_def
    by (rule copies_step copies_case_prod copies_if copies_return silent_intros reports_intros above_intros
        above_store iovec_base_len | simp)+
  show ?thesis
    unfolding capture_iovec_base_tlv_direct_def
    by (intro flagged_cond flagged_none flagged_flagged_section [where m = 7] c) (simp_all add: payloadKindFromTLV_def)
qed

lemma flagged_iovec_base_exit: "flagged k 40 (\<lambda>off ef. capture_iovec_base_exit_tlv_direct k off arg up len ef)"
  unfolding capture_iovec_base_exit_tlv_direct_def Let_def
  by (intro flagged_cond flagged_none flagged_flagged_section [where m = 8] copies_user iovec_base_len)
     (simp_all add: payloadKindFromTLV_def)

lemma flagged_read:
  assumes "\<And>err bs. flagged k cap (\<lambda>off ef. g err bs off ef)"
  shows "flagged k cap (\<lambda>off ef. do { (err, bs) \<leftarrow> bpf_probe_read_user k n p; g err bs off ef })"
proof (rule flagged_pre)
  show "flagged k cap (\<lambda>off ef. case x of (err, bs) \<Rightarrow> g err bs off ef)" for x
    using assms by (cases x) simp
qed (intro silent_intros reports_intros above_intros)+

lemma flagged_iovec_slots:
  assumes "\<And>i b l. flagged k a (c i b l)"
  shows "flagged k (length is * a) (iovec_slots k c up count is)"
proof (induction "is")
  case Nil then show ?case by (simp add: flagged_none)
next
  case (Cons i "is")
  have "flagged k (length (i # is) * a) (flag_sections [c i b l, iovec_slots k c up count is])" for b l
    by (intro flagged_sections_cons [OF assms] flagged_sections_one) (use Cons in simp_all)
  then show ?case
    by (simp only: iovec_slots.simps Let_def, intro flagged_cond flagged_none flagged_read) auto
qed

lemma flagged_base_payloads:
  "flagged k 273 (\<lambda>off ef. capture_iovec_base_payloads_tlv_direct_for_arg k off arg up count ef)"
  "flagged k 200 (\<lambda>off ef. capture_iovec_base_exit_payloads_tlv_direct_for_arg k off arg up count ef)"
proof -
  let ?c = "\<lambda>i base len off ef. capture_iovec_base_tlv_direct k off (iovec_base_payload_arg_index arg i) 0 base len ef"
  let ?d = "\<lambda>i base len off ef. capture_iovec_base_exit_tlv_direct k off (iovec_base_payload_arg_index arg i) base len ef"
  have c: "flagged k 273 (\<lambda>off ef. iovec_slots k ?c up count [0..<7] off ef)"
    using flagged_iovec_slots [of k 39 ?c "[0..<7]" up count, OF flagged_iovec_base] by simp
  have d: "flagged k 200 (\<lambda>off ef. iovec_slots k ?d up count [0..<5] off ef)"
    using flagged_iovec_slots [of k 40 ?d "[0..<5]" up count, OF flagged_iovec_base_exit] by simp
  show "flagged k 273 (\<lambda>off ef. capture_iovec_base_payloads_tlv_direct_for_arg k off arg up count ef)"
    unfolding capture_iovec_base_payloads_tlv_direct_for_arg_def by (intro flagged_cond flagged_none c)
  show "flagged k 200 (\<lambda>off ef. capture_iovec_base_exit_payloads_tlv_direct_for_arg k off arg up count ef)"
    unfolding capture_iovec_base_exit_payloads_tlv_direct_for_arg_def by (intro flagged_cond flagged_none d)
qed

lemma iovec_emitters [emitter_intros]:
  "emitter k (emit_iovec_enter_event_v2_direct k pid tid sys_id ctx ts)"
  "emitter k (emit_iovec_base_enter_event_v2_direct k pid tid sys_id ctx ts)"
proof -
  show "emitter k (emit_iovec_enter_event_v2_direct k pid tid sys_id ctx ts)"
    unfolding emit_iovec_enter_event_v2_direct_def capture_iovec_payloads_tlv_direct_def Let_def
    by (cases "is_process_vm_iovec_direct_syscall sys_id"; simp only: if_True if_False;
        intro emitter_enter_flagged flagged_sections_cons [OF flagged_iovec] flagged_sections_nil; simp)
  show "emitter k (emit_iovec_base_enter_event_v2_direct k pid tid sys_id ctx ts)"
    unfolding emit_iovec_base_enter_event_v2_direct_def capture_iovec_base_payloads_tlv_direct_def
    by (rule emitter_enter_flagged) (simp_all add: flagged_base_payloads)
qed

lemma iovec_exit_emitter [emitter_intros]: "emitter k (emit_iovec_base_exit_event_v2_direct k p ret dur)"
proof -
  have e: "(80 :: nat) + 88 = 168" by simp
  let ?cap = "200 :: nat" and ?c = "capture_iovec_base_exit_payloads_tlv_direct k 168 (arg1 (ps_args p)) (arg2 (ps_args p)) 0"
  have c: "captures k 168 ?cap fst ?c"
    using flagged_base_payloads(2) [of k 1 "arg1 (ps_args p)" "arg2 (ps_args p)"]
    by (simp add: flagged_def capture_iovec_base_exit_payloads_tlv_direct_def)
  let ?B = "\<lambda>x d. fst x \<le> ?cap \<and> holds_payload (168 + ?cap) 168 (fst x) d"
  let ?tail = "\<lambda>sequence n flags now. commit_event k
     (init_syscall_event_v2_header_direct k (zero_header sequence) EVENT_TYPE_EXIT (payload_flags n flags)
        (ps_pid p) (ps_tid p) (ps_sys_id p) (168 + ?cap) now)
     (do { b \<leftarrow> init_syscall_exit_event_v2_from_pending k p ret dur (of_nat n); return (enc_exit_body b) })"
  have t: "emits_on k sequence (\<lambda>d. n \<le> ?cap \<and> holds_payload (168 + ?cap) 168 n d) (do { now \<leftarrow> bpf_ktime_get_ns k; ?tail sequence n flags now })"
    for n flags sequence
    by (rule emits_on_bind [OF silent_helpers(1), where B = "\<lambda>_ d. n \<le> ?cap \<and> holds_payload (168 + ?cap) 168 n d"],
        simp add: wp_ktime, rule emits_exit_tail, simp)
  have "emits_on k sequence (\<lambda>d. length d = 168 + ?cap) (do { (n, flags) \<leftarrow> ?c; now \<leftarrow> bpf_ktime_get_ns k; ?tail sequence n flags now })" for sequence
  proof (rule emits_on_bind [OF captures_frame(1) [OF c], where B = ?B])
    show "wp ?c (\<lambda>x t. \<exists>d'. reservation t = Some d' \<and> ?B x d') s"
      if "reservation s = Some d" "length d = 168 + ?cap" for s d
      by (rule captures_holds [OF c that])
  qed (use t in \<open>auto split: prod.split\<close>)
  then show ?thesis
    unfolding emitter_def emit_iovec_base_exit_event_v2_direct_def Let_def e
    by (auto simp: emits_eq_on intro!: accounted_with_reservation reports_rules reports_intros captures_frame(2) [OF c])
qed

lemma read_fields_frame [silent_intros, reports_intros, above_intros]:
  "silent k (read_fields k' p a n b)"
  "reports (read_fields k' p a n b)"
  "above off (read_fields k' p a n b)"
  unfolding read_fields_def
  by (intro silent_rules silent_intros reports_rules reports_intros above_rules above_intros)+

lemma msg_read_frame [silent_intros, reports_intros, above_intros]:
  "silent k (msg_direct_read_iov k' p)" "reports (msg_direct_read_iov k' p)" "above off (msg_direct_read_iov k' p)"
  "silent k (msg_direct_read_name k' p)" "reports (msg_direct_read_name k' p)" "above off (msg_direct_read_name k' p)"
  "silent k (msg_direct_read_control k' p)" "reports (msg_direct_read_control k' p)" "above off (msg_direct_read_control k' p)"
  unfolding msg_direct_read_iov_def msg_direct_read_name_def msg_direct_read_control_def
  by (intro silent_rules silent_intros reports_rules reports_intros above_rules above_intros)+

lemma flagged_option:
  assumes "flagged k cap (\<lambda>off ef. c off ef)" "\<And>x. flagged k cap (\<lambda>off ef. d x off ef)"
  shows "flagged k cap (\<lambda>off ef. case y of None \<Rightarrow> c off ef | Some x \<Rightarrow> d x off ef)"
  using assms by (cases y) simp_all

lemma flagged_msg_control: "flagged k 288 (\<lambda>off ef. capture_msg_control_tlv_direct k off fl p ef)"
  unfolding capture_msg_control_tlv_direct_def Let_def
  by (intro flagged_pre msg_read_frame flagged_option flagged_none flagged_cond flagged_truncating_section [where m = 256]
      copies_clamped) (simp_all add: payloadKindFromTLV_def)

lemma flagged_msg_name: "flagged k 160 (\<lambda>off ef. capture_msg_name_tlv_direct k off p limit ef)"
  unfolding capture_msg_name_tlv_direct_def Let_def
  by (intro flagged_pre msg_read_frame flagged_option flagged_none flagged_cond flagged_truncating_section [where m = 128]
      copies_user) (simp_all add: payloadKindFromTLV_def word_less_nat_alt)

lemma flagged_with_iov:
  "(\<And>iov. flagged k cap (\<lambda>off ef. c iov off ef)) \<Longrightarrow> flagged k cap (with_iov k p c)"
  unfolding with_iov_def by (intro flagged_pre msg_read_frame flagged_option flagged_none)

lemma captures_msghdr: "captures k off 88 (\<lambda>n. n) (capture_msghdr_tlv_direct k off fl p)"
  unfolding capture_msghdr_tlv_direct_def by (rule captures_struct_section) simp_all

lemma flagged_single_msg:
  "flagged k 664 (\<lambda>off ef. capture_single_msg_enter_payloads_tlv_direct k off ctx ef)"
  "flagged k 288 (\<lambda>off ef. capture_single_msg_exit_payloads_tlv_direct k off p ef)"
  "flagged k 273 (\<lambda>off ef. capture_sendmsg_base_enter_payloads_tlv_direct k off ctx ef)"
proof -
  note s = flagged_sections_cons [OF flagged_unmarked [OF captures_msghdr]] flagged_sections_one flagged_with_iov
    flagged_sections_cons [OF flagged_iovec]
  show "flagged k 664 (\<lambda>off ef. capture_single_msg_enter_payloads_tlv_direct k off ctx ef)"
    unfolding capture_single_msg_enter_payloads_tlv_direct_def Let_def
    by (intro s flagged_mono [OF flagged_msg_control]) simp_all
  show "flagged k 288 (\<lambda>off ef. capture_single_msg_exit_payloads_tlv_direct k off p ef)"
    unfolding capture_single_msg_exit_payloads_tlv_direct_def Let_def capture_iovec_base_exit_payloads_tlv_direct_def
    by (intro s flagged_mono [OF flagged_base_payloads(2)]) simp_all
  have "flagged k 273 (with_iov k (arg1 (sec_args ctx))
      (\<lambda>iov off ef. capture_iovec_base_payloads_tlv_direct k off (mdi_ptr iov) (mdi_count iov) ef))"
    unfolding capture_iovec_base_payloads_tlv_direct_def by (intro flagged_with_iov flagged_base_payloads)
  then show "flagged k 273 (\<lambda>off ef. capture_sendmsg_base_enter_payloads_tlv_direct k off ctx ef)"
    by (simp add: capture_sendmsg_base_enter_payloads_tlv_direct_def)
qed

lemma flagged_mmsghdr: "flagged k 288 (\<lambda>off ef. capture_mmsghdr_tlv_direct k off fl p count ef)"
proof -
  have "captures k off 288 fst (capture_mmsghdr_tlv_direct k off fl p count ef)" for off ef
    unfolding capture_mmsghdr_tlv_direct_def Let_def
    by (rule captures_if, simp add: captures_return, rule captures_pre_any)
       (auto intro!: silent_rules silent_intros reports_rules reports_intros above_rules above_intros extends_return
         captures_then [OF captures_copied_section [where m = 256]] copies_user simp: payloadKindFromTLV_def)
  moreover have "gives (capture_mmsghdr_tlv_direct k off fl p count ef) (\<lambda>(n, f). \<not> has_flag f EVENT_FLAG_COMPACT_ENTER)"
    if "\<not> has_flag ef EVENT_FLAG_COMPACT_ENTER" for off ef
    using that unfolding capture_mmsghdr_tlv_direct_def Let_def
    by (auto intro!: gives_bind_any gives_return gives_if)
  ultimately show ?thesis by (simp add: flagged_def)
qed

lemma flagged_mmsg:
  "flagged k 336 (\<lambda>off ef. capture_mmsg_enter_payloads_tlv_direct k off ctx ef)"
  "flagged k 336 (\<lambda>off ef. capture_mmsg_exit_payloads_tlv_direct k off p ret ef)"
proof -
  have t: "captures k off 48 (\<lambda>n. n) (capture_mmsg_timespec_tlv_direct k off fl q)" for off fl q
    unfolding capture_mmsg_timespec_tlv_direct_def by (rule captures_struct_section) simp_all
  have s: "flagged k 336 (\<lambda>off ef. flag_sections ((\<lambda>off ef. capture_mmsghdr_tlv_direct k off fl q c ef) #
      (if b then [unmarked (\<lambda>off. capture_mmsg_timespec_tlv_direct k off fl r)] else [])) off ef)" for fl q c b r
    by (cases b; simp only: if_True if_False;
        intro flagged_sections_cons [OF flagged_mmsghdr] flagged_sections_cons [OF flagged_unmarked [OF t]]
          flagged_sections_nil; simp)
  show "flagged k 336 (\<lambda>off ef. capture_mmsg_enter_payloads_tlv_direct k off ctx ef)"
    unfolding capture_mmsg_enter_payloads_tlv_direct_def Let_def by (intro flagged_cond flagged_none s)
  show "flagged k 336 (\<lambda>off ef. capture_mmsg_exit_payloads_tlv_direct k off p ret ef)"
    unfolding capture_mmsg_exit_payloads_tlv_direct_def Let_def by (intro flagged_cond flagged_none s)
qed

lemma flagged_mmsg_slots:
  "flagged k 288 (\<lambda>off ef. capture_mmsg_base_slot_enter_payloads_tlv_direct k off ctx slot ef)"
  "flagged k 273 (\<lambda>off ef. capture_mmsg_bytes_base_slot_enter_payloads_tlv_direct k off ctx slot ef)"
  "flagged k 200 (\<lambda>off ef. capture_recvmmsg_base_slot_exit_payloads_tlv_direct k off p slot ef)"
  unfolding capture_mmsg_base_slot_enter_payloads_tlv_direct_def capture_mmsg_iovec_tlv_direct_def
    capture_mmsg_bytes_base_slot_enter_payloads_tlv_direct_def capture_recvmmsg_base_slot_exit_payloads_tlv_direct_def
  by (rule flagged_cond, rule flagged_none, rule flagged_with_iov, rule flagged_iovec flagged_base_payloads)+

lemma msg_enter_emitters [emitter_intros]:
  "emitter k (emit_msg_enter_event_v2_direct k pid tid sys_id ctx ts)"
  "emitter k (emit_sendmsg_base_enter_event_v2_direct k pid tid sys_id ctx ts)"
  "emitter k (emit_mmsg_enter_event_v2_direct k pid tid sys_id ctx ts)"
  unfolding emit_msg_enter_event_v2_direct_def emit_sendmsg_base_enter_event_v2_direct_def
    emit_mmsg_enter_event_v2_direct_def
  by (rule emitter_enter_flagged; simp add: flagged_single_msg flagged_mmsg)+

lemma mmsg_slot_emitters [emitter_intros]:
  "emitter k (emit_mmsg_base0_enter_event_v2_direct k pid tid sys_id ctx ts)"
  "emitter k (emit_mmsg_base1_enter_event_v2_direct k pid tid sys_id ctx ts)"
  "emitter k (emit_mmsg_base2_enter_event_v2_direct k pid tid sys_id ctx ts)"
  "emitter k (emit_mmsg_base3_enter_event_v2_direct k pid tid sys_id ctx ts)"
  "emitter k (emit_mmsg_bytes_base0_enter_event_v2_direct k pid tid sys_id ctx ts)"
  "emitter k (emit_mmsg_bytes_base1_enter_event_v2_direct k pid tid sys_id ctx ts)"
  "emitter k (emit_mmsg_bytes_base2_enter_event_v2_direct k pid tid sys_id ctx ts)"
  "emitter k (emit_mmsg_bytes_base3_enter_event_v2_direct k pid tid sys_id ctx ts)"
  unfolding emit_mmsg_base0_enter_event_v2_direct_def capture_mmsg_base0_enter_payloads_tlv_direct_def
    emit_mmsg_base1_enter_event_v2_direct_def capture_mmsg_base1_enter_payloads_tlv_direct_def
    emit_mmsg_base2_enter_event_v2_direct_def capture_mmsg_base2_enter_payloads_tlv_direct_def
    emit_mmsg_base3_enter_event_v2_direct_def capture_mmsg_base3_enter_payloads_tlv_direct_def
    emit_mmsg_bytes_base0_enter_event_v2_direct_def capture_mmsg_bytes_base0_enter_payloads_tlv_direct_def
    emit_mmsg_bytes_base1_enter_event_v2_direct_def capture_mmsg_bytes_base1_enter_payloads_tlv_direct_def
    emit_mmsg_bytes_base2_enter_event_v2_direct_def capture_mmsg_bytes_base2_enter_payloads_tlv_direct_def
    emit_mmsg_bytes_base3_enter_event_v2_direct_def capture_mmsg_bytes_base3_enter_payloads_tlv_direct_def
  by (rule emitter_enter_flagged; simp add: flagged_mmsg_slots)+

lemma emitter_exit_fragment:
  "flagged k cap (\<lambda>off ef. c off ef) \<Longrightarrow> cap < 2 ^ 31 \<Longrightarrow> emitter k (emit_exit_fragment k p ret dur cap c)"
  unfolding emit_exit_fragment_def flagged_def by (intro emitter_exit_tlv) auto

lemma emitter_syscall_exit [emitter_intros]: "emitter k (emit_syscall_exit_event_v2_direct k p ret dur fl)"
  by (simp add: emitter_def accounted_intros reports_intros)

lemma recvmsg_emitters [emitter_intros]:
  "emitter k (emit_recvmsg_control_exit_fragment_event_v2_direct k p ret dur)"
  "emitter k (emit_recvmsg_name_exit_fragment_event_v2_direct k p ret dur)"
  "emitter k (emit_single_msg_exit_event_v2_direct k p ret dur)"
  "emitter k (emit_mmsg_exit_event_v2_direct k p ret dur)"
proof -
  have n: "flagged k 160 (\<lambda>off ef. do {
      aux0 \<leftarrow> lookup_pending_syscall_aux0 k (ps_tid p); capture_msg_name_tlv_direct k off (arg1 (ps_args p)) aux0 ef })"
    by (intro flagged_pre silent_intros reports_intros above_intros flagged_msg_name)
  show "emitter k (emit_recvmsg_control_exit_fragment_event_v2_direct k p ret dur)"
    "emitter k (emit_recvmsg_name_exit_fragment_event_v2_direct k p ret dur)"
    unfolding emit_recvmsg_control_exit_fragment_event_v2_direct_def emit_recvmsg_name_exit_fragment_event_v2_direct_def
    by (intro emitter_rules emitter_exit_fragment flagged_msg_control flagged_mono [OF n]; simp)+
  show "emitter k (emit_single_msg_exit_event_v2_direct k p ret dur)" "emitter k (emit_mmsg_exit_event_v2_direct k p ret dur)"
    unfolding emit_single_msg_exit_event_v2_direct_def emit_mmsg_exit_event_v2_direct_def
    by (intro emitter_rules emitter_intros emitter_exit_flagged; simp add: flagged_single_msg flagged_mmsg)+
qed

lemma recvmmsg_emitters [emitter_intros]:
  "emitter k (emit_recvmmsg_base0_exit_fragment_event_v2_direct k p ret dur)"
  "emitter k (emit_recvmmsg_base1_exit_fragment_event_v2_direct k p ret dur)"
  "emitter k (emit_recvmmsg_base2_exit_fragment_event_v2_direct k p ret dur)"
  "emitter k (emit_recvmmsg_base3_exit_fragment_event_v2_direct k p ret dur)"
  unfolding emit_recvmmsg_base0_exit_fragment_event_v2_direct_def capture_recvmmsg_base0_exit_payloads_tlv_direct_def
    emit_recvmmsg_base1_exit_fragment_event_v2_direct_def capture_recvmmsg_base1_exit_payloads_tlv_direct_def
    emit_recvmmsg_base2_exit_fragment_event_v2_direct_def capture_recvmmsg_base2_exit_payloads_tlv_direct_def
    emit_recvmmsg_base3_exit_fragment_event_v2_direct_def capture_recvmmsg_base3_exit_payloads_tlv_direct_def
  by (intro emitter_rules emitter_exit_fragment; simp add: flagged_mmsg_slots)+

end
