(* ===== verification/Aio_Events.thy ===== *)
theory Aio_Events
  imports Message_Events
begin

text \<open>
  Asynchronous I/O: \<^verbatim>\<open>bpf/syscall_aio_{core,capture,cancel_capture,emit}_direct_event_v2.h\<close> and
  \<^verbatim>\<open>syscall_aio_getevents_{,capture_,emit_}direct_event_v2.h\<close>.  A submission is three records: the array
  of control blocks, the scatter/gather lists of its vectored blocks, and a prefix of the data of its writes.
\<close>

abbreviation (input) AIO_SETUP_DIRECT_CTX_SIZE :: nat where "AIO_SETUP_DIRECT_CTX_SIZE \<equiv> 8"
abbreviation (input) AIO_SUBMIT_DIRECT_POINTER_SIZE :: nat where "AIO_SUBMIT_DIRECT_POINTER_SIZE \<equiv> 8"
abbreviation (input) AIO_SUBMIT_DIRECT_POINTERS_MAX :: nat where "AIO_SUBMIT_DIRECT_POINTERS_MAX \<equiv> 64"
abbreviation (input) AIO_SUBMIT_DIRECT_POINTER_SLOT_MAX :: nat where "AIO_SUBMIT_DIRECT_POINTER_SLOT_MAX \<equiv> 8"
abbreviation (input) AIO_SUBMIT_DIRECT_IOCB_MAX :: nat where "AIO_SUBMIT_DIRECT_IOCB_MAX \<equiv> 5"
abbreviation (input) AIO_SUBMIT_DIRECT_IOCB_ARG_BASE :: u16 where "AIO_SUBMIT_DIRECT_IOCB_ARG_BASE \<equiv> 20"
abbreviation (input) AIO_SUBMIT_DIRECT_IOCB_SIZE :: nat where "AIO_SUBMIT_DIRECT_IOCB_SIZE \<equiv> 64"
abbreviation (input) AIO_SUBMIT_DIRECT_IOVEC_MAX :: nat where "AIO_SUBMIT_DIRECT_IOVEC_MAX \<equiv> 2"
abbreviation (input) AIO_SUBMIT_DIRECT_IOVEC_SIZE :: nat where "AIO_SUBMIT_DIRECT_IOVEC_SIZE \<equiv> 16"
abbreviation (input) AIO_SUBMIT_DIRECT_IOVEC_ARG_BASE :: u16 where "AIO_SUBMIT_DIRECT_IOVEC_ARG_BASE \<equiv> 40"
abbreviation (input) AIO_SUBMIT_DIRECT_BUF_ARG_BASE :: u16 where "AIO_SUBMIT_DIRECT_BUF_ARG_BASE \<equiv> 60"
abbreviation (input) AIO_SUBMIT_DIRECT_BUF_MAX :: nat where "AIO_SUBMIT_DIRECT_BUF_MAX \<equiv> 32"
abbreviation (input) AIO_SUBMIT_DIRECT_NESTED_IOCB_MAX :: nat where "AIO_SUBMIT_DIRECT_NESTED_IOCB_MAX \<equiv> 4"
abbreviation (input) AIO_SUBMIT_DIRECT_MAX_PAYLOAD :: nat where
  "AIO_SUBMIT_DIRECT_MAX_PAYLOAD \<equiv> PAYLOAD_TLV_HEADER_SIZE + AIO_SUBMIT_DIRECT_POINTERS_MAX +
     AIO_SUBMIT_DIRECT_IOCB_MAX * (PAYLOAD_TLV_HEADER_SIZE + AIO_SUBMIT_DIRECT_IOCB_SIZE +
       PAYLOAD_TLV_HEADER_SIZE + AIO_SUBMIT_DIRECT_IOVEC_MAX * AIO_SUBMIT_DIRECT_IOVEC_SIZE)"
abbreviation (input) AIO_CANCEL_DIRECT_IOCB_SIZE :: nat where "AIO_CANCEL_DIRECT_IOCB_SIZE \<equiv> 64"
abbreviation (input) AIO_GETEVENTS_DIRECT_TIMEOUT_SIZE :: nat where "AIO_GETEVENTS_DIRECT_TIMEOUT_SIZE \<equiv> 16"
abbreviation (input) AIO_GETEVENTS_DIRECT_EVENT_SIZE :: nat where "AIO_GETEVENTS_DIRECT_EVENT_SIZE \<equiv> 32"
abbreviation (input) AIO_GETEVENTS_DIRECT_EVENTS_MAX :: nat where "AIO_GETEVENTS_DIRECT_EVENTS_MAX \<equiv> 512"
abbreviation (input) AIO_GETEVENTS_DIRECT_EVENT_SLOT_MAX :: nat where "AIO_GETEVENTS_DIRECT_EVENT_SLOT_MAX \<equiv> 16"
abbreviation (input) AIO_PGETEVENTS_DIRECT_SIGSET_SIZE :: nat where "AIO_PGETEVENTS_DIRECT_SIGSET_SIZE \<equiv> 16"
abbreviation (input) AIO_PGETEVENTS_DIRECT_SIGMASK_MAX :: nat where "AIO_PGETEVENTS_DIRECT_SIGMASK_MAX \<equiv> 8"
abbreviation (input) AIO_PGETEVENTS_DIRECT_MAX_PAYLOAD :: nat where
  "AIO_PGETEVENTS_DIRECT_MAX_PAYLOAD \<equiv> PAYLOAD_TLV_HEADER_SIZE + AIO_GETEVENTS_DIRECT_TIMEOUT_SIZE +
     PAYLOAD_TLV_HEADER_SIZE + AIO_PGETEVENTS_DIRECT_SIGSET_SIZE +
     PAYLOAD_TLV_HEADER_SIZE + AIO_PGETEVENTS_DIRECT_SIGMASK_MAX"

section \<open>Classification\<close>

definition is_aio_setup_direct_syscall :: "u32 \<Rightarrow> bool" where
  "is_aio_setup_direct_syscall sys_id \<longleftrightarrow> sys_id = SYS_IO_SETUP"

definition is_aio_submit_direct_syscall :: "u32 \<Rightarrow> bool" where
  "is_aio_submit_direct_syscall sys_id \<longleftrightarrow> sys_id = SYS_IO_SUBMIT"

definition is_aio_cancel_direct_syscall :: "u32 \<Rightarrow> bool" where
  "is_aio_cancel_direct_syscall sys_id \<longleftrightarrow> sys_id = SYS_IO_CANCEL"

definition is_aio_getevents_direct_syscall :: "u32 \<Rightarrow> bool" where
  "is_aio_getevents_direct_syscall sys_id \<longleftrightarrow> sys_id = SYS_IO_GETEVENTS \<or> sys_id = SYS_IO_PGETEVENTS"

definition is_aio_pgetevents_direct_syscall :: "u32 \<Rightarrow> bool" where
  "is_aio_pgetevents_direct_syscall sys_id \<longleftrightarrow> sys_id = SYS_IO_PGETEVENTS"

definition is_aio_direct_syscall :: "u32 \<Rightarrow> bool" where
  "is_aio_direct_syscall sys_id \<longleftrightarrow>
     is_aio_setup_direct_syscall sys_id \<or> is_aio_getevents_direct_syscall sys_id \<or>
     is_aio_submit_direct_syscall sys_id \<or> is_aio_cancel_direct_syscall sys_id"

section \<open>Submission\<close>

definition capture_aio_setup_ctx_tlv_direct :: "kernel \<Rightarrow> nat \<Rightarrow> u64 \<Rightarrow> nat bpf" where
  "capture_aio_setup_ctx_tlv_direct k payload_offset user_ptr =
     struct_section k payload_offset 1 PAYLOAD_TLV_FLAG_DIRECTION_OUT user_ptr AIO_SETUP_DIRECT_CTX_SIZE
       AIO_SETUP_DIRECT_CTX_SIZE AIO_SETUP_DIRECT_CTX_SIZE"

definition capture_aio_cancel_iocb_tlv_direct :: "kernel \<Rightarrow> nat \<Rightarrow> u64 \<Rightarrow> nat bpf" where
  "capture_aio_cancel_iocb_tlv_direct k payload_offset user_ptr =
     struct_section k payload_offset 1 0 user_ptr AIO_CANCEL_DIRECT_IOCB_SIZE AIO_CANCEL_DIRECT_IOCB_SIZE
       AIO_CANCEL_DIRECT_IOCB_SIZE"

definition aio_submit_pointer_user_len :: "s64 \<Rightarrow> u32" where
  "aio_submit_pointer_user_len count =
     (if sint count \<le> 0 then 0
      else if sint count > 0x1fffffff then 0xffffffff
      else ucast count * of_nat AIO_SUBMIT_DIRECT_POINTER_SIZE)"

definition aio_submit_pointer_copy_len :: "s64 \<Rightarrow> nat" where
  "aio_submit_pointer_copy_len count =
     (if sint count \<le> 0 then 0
      else if sint count > int (AIO_SUBMIT_DIRECT_POINTERS_MAX div AIO_SUBMIT_DIRECT_POINTER_SIZE)
      then AIO_SUBMIT_DIRECT_POINTERS_MAX
      else unat count * AIO_SUBMIT_DIRECT_POINTER_SIZE)"

definition capture_aio_submit_pointers_tlv_direct :: "kernel \<Rightarrow> nat \<Rightarrow> sys_enter_ctx \<Rightarrow> nat bpf" where
  "capture_aio_submit_pointers_tlv_direct k payload_offset ctx =
     (let count = arg1 (sec_args ctx); user_len = aio_submit_pointer_user_len count;
          target_len = aio_submit_pointer_copy_len count; user_ptr = arg2 (sec_args ctx)
      in if user_len = 0 \<or> user_ptr = 0 then return 0
         else copied_section k payload_offset PAYLOAD_TLV_KIND_STRUCT 2 0 user_len user_ptr
           (copy_slots k user_ptr AIO_SUBMIT_DIRECT_POINTER_SIZE target_len [0..<AIO_SUBMIT_DIRECT_POINTER_SLOT_MAX] 0))"

text \<open>A section whose header is written before its data: \<open>err\<close> is the result of the read of \<open>bs\<close>.\<close>

definition header_first :: "kernel \<Rightarrow> nat \<Rightarrow> u16 \<Rightarrow> u16 \<Rightarrow> u32 \<Rightarrow> u64 \<Rightarrow> int \<Rightarrow> bytes \<Rightarrow> nat bpf" where
  "header_first k payload_offset kind arg_index user_len user_ptr err bs = do {
     ok \<leftarrow> payload_tlv_write_header_direct k payload_offset kind arg_index 0 user_len
       (if err < 0 then 0 else of_nat (length bs)) (if err < 0 then of_int err else 0) user_ptr;
     if \<not> ok then return 0
     else if err < 0 then return PAYLOAD_TLV_HEADER_SIZE
     else do {
       ok \<leftarrow> bpf_dynptr_write (payload_offset + PAYLOAD_TLV_HEADER_SIZE) bs;
       if \<not> ok then do { record_ringbuf_copy_fail k; return PAYLOAD_TLV_HEADER_SIZE }
       else return (PAYLOAD_TLV_HEADER_SIZE + length bs) } }"

definition capture_aio_submit_iocb_tlv_direct :: "kernel \<Rightarrow> nat \<Rightarrow> nat \<Rightarrow> u64 \<Rightarrow> nat bpf" where
  "capture_aio_submit_iocb_tlv_direct k payload_offset index iocb_ptr =
     (if iocb_ptr = 0 \<or> index \<ge> AIO_SUBMIT_DIRECT_IOCB_MAX then return 0
      else do {
        (err, iocb_out) \<leftarrow> bpf_probe_read_user k AIO_SUBMIT_DIRECT_IOCB_SIZE iocb_ptr;
        header_first k payload_offset PAYLOAD_TLV_KIND_STRUCT (AIO_SUBMIT_DIRECT_IOCB_ARG_BASE + of_nat index)
          (of_nat AIO_SUBMIT_DIRECT_IOCB_SIZE) iocb_ptr err iocb_out })"

definition iocb_word :: "bytes \<Rightarrow> nat \<Rightarrow> u64" where
  "iocb_word iocb_data i = le_word (bslice (8 * i) 8 iocb_data)"

definition capture_aio_submit_iocb_iovec_tlv_direct :: "kernel \<Rightarrow> nat \<Rightarrow> nat \<Rightarrow> bytes \<Rightarrow> nat bpf" where
  "capture_aio_submit_iocb_iovec_tlv_direct k payload_offset index iocb_data =
     (let opcode = (ucast (iocb_word iocb_data 2 AND 0xffff) :: u16);
          iov_ptr = iocb_word iocb_data 3; iov_count = iocb_word iocb_data 4
      in if opcode \<noteq> 7 \<and> opcode \<noteq> 8 then return 0
         else if iov_ptr = 0 \<or> iov_count = 0 \<or> index \<ge> AIO_SUBMIT_DIRECT_NESTED_IOCB_MAX then return 0
         else let n = (if iov_count > of_nat AIO_SUBMIT_DIRECT_IOVEC_MAX then AIO_SUBMIT_DIRECT_IOVEC_MAX else unat iov_count)
           in copied_section k payload_offset PAYLOAD_TLV_KIND_IOVEC (AIO_SUBMIT_DIRECT_IOVEC_ARG_BASE + of_nat index) 0
                (of_nat (n * AIO_SUBMIT_DIRECT_IOVEC_SIZE)) iov_ptr
                (copy_slots k iov_ptr AIO_SUBMIT_DIRECT_IOVEC_SIZE (n * AIO_SUBMIT_DIRECT_IOVEC_SIZE)
                  [0..<AIO_SUBMIT_DIRECT_IOVEC_MAX] 0))"

text \<open>The read is of the full local buffer, whatever the length of the application's.\<close>

definition capture_aio_submit_iocb_buf_tlv_direct :: "kernel \<Rightarrow> nat \<Rightarrow> nat \<Rightarrow> bytes \<Rightarrow> nat bpf" where
  "capture_aio_submit_iocb_buf_tlv_direct k payload_offset index iocb_data =
     (let opcode = (ucast (iocb_word iocb_data 2 AND 0xffff) :: u16);
          buf_ptr = iocb_word iocb_data 3; buf_len = iocb_word iocb_data 4
      in if opcode \<noteq> 1 then return 0
         else if buf_ptr = 0 \<or> buf_len = 0 \<or> index \<ge> AIO_SUBMIT_DIRECT_NESTED_IOCB_MAX then return 0
         else do {
           let n = (if buf_len > of_nat AIO_SUBMIT_DIRECT_BUF_MAX then AIO_SUBMIT_DIRECT_BUF_MAX else unat buf_len);
           (err, buf_data) \<leftarrow> bpf_probe_read_user k AIO_SUBMIT_DIRECT_BUF_MAX buf_ptr;
           header_first k payload_offset PAYLOAD_TLV_KIND_BYTES (AIO_SUBMIT_DIRECT_BUF_ARG_BASE + of_nat index)
             (of_nat n) buf_ptr err (take n buf_data) })"

text \<open>The loop over the array of pointers; one that cannot be read is skipped.\<close>

primrec aio_slots :: "kernel \<Rightarrow> (nat \<Rightarrow> u64 \<Rightarrow> nat \<Rightarrow> nat bpf) \<Rightarrow> s64 \<Rightarrow> u64 \<Rightarrow> nat list \<Rightarrow> nat \<Rightarrow> nat bpf" where
  "aio_slots k capture count array [] = (\<lambda>payload_offset. return 0)"
| "aio_slots k capture count array (i # is) = (\<lambda>payload_offset.
     if sint count \<le> int i then return 0
     else do {
       (err, iocb_ptr) \<leftarrow> bpf_probe_read_user k AIO_SUBMIT_DIRECT_POINTER_SIZE
         (array + of_nat (i * AIO_SUBMIT_DIRECT_POINTER_SIZE));
       if err < 0 then aio_slots k capture count array is payload_offset
       else sections payload_offset [capture i (le_word iocb_ptr), aio_slots k capture count array is] })"

definition read_iocb :: "kernel \<Rightarrow> (bytes \<Rightarrow> nat bpf) \<Rightarrow> u64 \<Rightarrow> nat bpf" where
  "read_iocb k capture iocb_ptr =
     (if iocb_ptr = 0 then return 0
      else do {
        (err, iocb_buf) \<leftarrow> bpf_probe_read_user k AIO_SUBMIT_DIRECT_IOCB_SIZE iocb_ptr;
        if err < 0 then return 0 else capture iocb_buf })"

definition capture_aio_submit_iocbs_tlv_direct :: "kernel \<Rightarrow> nat \<Rightarrow> sys_enter_ctx \<Rightarrow> nat bpf" where
  "capture_aio_submit_iocbs_tlv_direct k payload_offset ctx =
     (let count = arg1 (sec_args ctx); array = arg2 (sec_args ctx)
      in if sint count \<le> 0 \<or> array = 0 then return 0
         else aio_slots k (\<lambda>i iocb_ptr off. capture_aio_submit_iocb_tlv_direct k off i iocb_ptr) count array
           [0..<AIO_SUBMIT_DIRECT_IOCB_MAX] payload_offset)"

definition capture_aio_submit_iocbs_iovec_tlv_direct :: "kernel \<Rightarrow> nat \<Rightarrow> sys_enter_ctx \<Rightarrow> nat bpf" where
  "capture_aio_submit_iocbs_iovec_tlv_direct k payload_offset ctx =
     (let count = arg1 (sec_args ctx); array = arg2 (sec_args ctx)
      in if sint count \<le> 0 \<or> array = 0 then return 0
         else aio_slots k
           (\<lambda>i iocb_ptr off. read_iocb k (capture_aio_submit_iocb_iovec_tlv_direct k off i) iocb_ptr) count array
           [0..<AIO_SUBMIT_DIRECT_NESTED_IOCB_MAX] payload_offset)"

definition capture_aio_submit_iocbs_buf_tlv_direct :: "kernel \<Rightarrow> nat \<Rightarrow> sys_enter_ctx \<Rightarrow> nat bpf" where
  "capture_aio_submit_iocbs_buf_tlv_direct k payload_offset ctx =
     (let count = arg1 (sec_args ctx); array = arg2 (sec_args ctx)
      in if sint count \<le> 0 \<or> array = 0 then return 0
         else aio_slots k
           (\<lambda>i iocb_ptr off. read_iocb k (capture_aio_submit_iocb_buf_tlv_direct k off i) iocb_ptr) count array
           [0..<AIO_SUBMIT_DIRECT_NESTED_IOCB_MAX] payload_offset)"

section \<open>Completion\<close>

definition aio_getevents_user_len :: "s64 \<Rightarrow> u32" where
  "aio_getevents_user_len count =
     (if sint count \<le> 0 then 0
      else if sint count > 0x07ffffff then 0xffffffff
      else ucast count * of_nat AIO_GETEVENTS_DIRECT_EVENT_SIZE)"

definition aio_getevents_copy_len :: "s64 \<Rightarrow> nat" where
  "aio_getevents_copy_len count =
     (if sint count \<le> 0 then 0
      else if sint count > int AIO_GETEVENTS_DIRECT_EVENT_SLOT_MAX then AIO_GETEVENTS_DIRECT_EVENTS_MAX
      else unat count * AIO_GETEVENTS_DIRECT_EVENT_SIZE)"

definition capture_aio_getevents_timeout_tlv_direct :: "kernel \<Rightarrow> nat \<Rightarrow> u64 \<Rightarrow> nat bpf" where
  "capture_aio_getevents_timeout_tlv_direct k payload_offset user_ptr =
     struct_section k payload_offset 4 0 user_ptr AIO_GETEVENTS_DIRECT_TIMEOUT_SIZE AIO_GETEVENTS_DIRECT_TIMEOUT_SIZE
       AIO_GETEVENTS_DIRECT_TIMEOUT_SIZE"

definition capture_aio_getevents_events_tlv_direct ::
    "kernel \<Rightarrow> nat \<Rightarrow> pending_syscall \<Rightarrow> s64 \<Rightarrow> u16 \<Rightarrow> (nat \<times> u16) bpf" where
  "capture_aio_getevents_events_tlv_direct k payload_offset p ret_value event_flags =
     (let user_ptr = arg3 (ps_args p); user_len = aio_getevents_user_len ret_value;
          target_len = aio_getevents_copy_len ret_value
      in if user_len = 0 \<or> user_ptr = 0 then return (0, event_flags)
         else truncating_section k payload_offset PAYLOAD_TLV_KIND_STRUCT 3 PAYLOAD_TLV_FLAG_DIRECTION_OUT event_flags
           user_len user_ptr
           (copy_slots k user_ptr AIO_GETEVENTS_DIRECT_EVENT_SIZE target_len [0..<AIO_GETEVENTS_DIRECT_EVENT_SLOT_MAX] 0))"

text \<open>A read into a local buffer that is then written into the record.\<close>

definition copy_local :: "kernel \<Rightarrow> nat \<Rightarrow> int \<Rightarrow> bytes \<Rightarrow> nat \<Rightarrow> (nat \<times> s32) bpf" where
  "copy_local k n err bs data_offset =
     (if err < 0 then return (0, of_int err)
      else do {
        ok \<leftarrow> bpf_dynptr_write data_offset bs;
        if \<not> ok then do { record_ringbuf_copy_fail k; return (0, - E2BIG) }
        else return (n, 0) })"

definition capture_aio_pgetevents_sigset_tlv_direct :: "kernel \<Rightarrow> nat \<Rightarrow> u64 \<Rightarrow> (nat \<times> u64 \<times> u64) bpf" where
  "capture_aio_pgetevents_sigset_tlv_direct k payload_offset user_ptr =
     (if user_ptr = 0 then return (0, 0, 0)
      else do {
        (err, sigset_data) \<leftarrow> bpf_probe_read_user k AIO_PGETEVENTS_DIRECT_SIGSET_SIZE user_ptr;
        (copied_len, probe_ret) \<leftarrow> copy_local k AIO_PGETEVENTS_DIRECT_SIGSET_SIZE err sigset_data
          (payload_offset + PAYLOAD_TLV_HEADER_SIZE);
        ok \<leftarrow> payload_tlv_write_header_direct k payload_offset PAYLOAD_TLV_KIND_STRUCT 5 0
          (of_nat AIO_PGETEVENTS_DIRECT_SIGSET_SIZE) (of_nat copied_len) probe_ret user_ptr;
        return (if ok then PAYLOAD_TLV_HEADER_SIZE + copied_len else 0,
                if copied_len = 0 then (0, 0) else (iocb_word sigset_data 0, iocb_word sigset_data 1)) })"

definition capture_aio_pgetevents_sigmask_tlv_direct :: "kernel \<Rightarrow> nat \<Rightarrow> u64 \<Rightarrow> u64 \<Rightarrow> nat bpf" where
  "capture_aio_pgetevents_sigmask_tlv_direct k payload_offset user_ptr user_len =
     (if user_ptr = 0 \<or> user_len = 0 \<or> user_len > of_nat AIO_PGETEVENTS_DIRECT_SIGMASK_MAX then return 0
      else do {
        (err, sigmask_data) \<leftarrow> bpf_probe_read_user k (unat user_len) user_ptr;
        copied_section k payload_offset PAYLOAD_TLV_KIND_BYTES 5 0 (ucast user_len) user_ptr
          (copy_local k (unat user_len) err sigmask_data) })"

section \<open>Records\<close>

definition emit_aio_submit_iovec_enter_event_v2_direct ::
    "kernel \<Rightarrow> u32 \<Rightarrow> u32 \<Rightarrow> u32 \<Rightarrow> sys_enter_ctx \<Rightarrow> u64 \<Rightarrow> unit bpf" where
  "emit_aio_submit_iovec_enter_event_v2_direct k pid tid sys_id ctx ts_ns =
     emit_enter_sections k pid tid sys_id (sec_args ctx) ts_ns
       (AIO_SUBMIT_DIRECT_NESTED_IOCB_MAX * (PAYLOAD_TLV_HEADER_SIZE +
          AIO_SUBMIT_DIRECT_IOVEC_MAX * AIO_SUBMIT_DIRECT_IOVEC_SIZE))
       [\<lambda>off. capture_aio_submit_iocbs_iovec_tlv_direct k off ctx]"

definition emit_aio_submit_buf_enter_event_v2_direct ::
    "kernel \<Rightarrow> u32 \<Rightarrow> u32 \<Rightarrow> u32 \<Rightarrow> sys_enter_ctx \<Rightarrow> u64 \<Rightarrow> unit bpf" where
  "emit_aio_submit_buf_enter_event_v2_direct k pid tid sys_id ctx ts_ns =
     emit_enter_sections k pid tid sys_id (sec_args ctx) ts_ns
       (AIO_SUBMIT_DIRECT_NESTED_IOCB_MAX * (PAYLOAD_TLV_HEADER_SIZE + AIO_SUBMIT_DIRECT_BUF_MAX))
       [\<lambda>off. capture_aio_submit_iocbs_buf_tlv_direct k off ctx]"

definition emit_aio_submit_enter_event_v2_direct ::
    "kernel \<Rightarrow> u32 \<Rightarrow> u32 \<Rightarrow> u32 \<Rightarrow> sys_enter_ctx \<Rightarrow> u64 \<Rightarrow> unit bpf" where
  "emit_aio_submit_enter_event_v2_direct k pid tid sys_id ctx ts_ns =
     emit_enter_sections k pid tid sys_id (sec_args ctx) ts_ns AIO_SUBMIT_DIRECT_MAX_PAYLOAD
       [\<lambda>off. capture_aio_submit_pointers_tlv_direct k off ctx,
        \<lambda>off. capture_aio_submit_iocbs_tlv_direct k off ctx]"

definition emit_aio_cancel_enter_event_v2_direct ::
    "kernel \<Rightarrow> u32 \<Rightarrow> u32 \<Rightarrow> u32 \<Rightarrow> sys_enter_ctx \<Rightarrow> u64 \<Rightarrow> unit bpf" where
  "emit_aio_cancel_enter_event_v2_direct k pid tid sys_id ctx ts_ns =
     emit_enter_sections k pid tid sys_id (sec_args ctx) ts_ns (PAYLOAD_TLV_HEADER_SIZE + AIO_CANCEL_DIRECT_IOCB_SIZE)
       [\<lambda>off. capture_aio_cancel_iocb_tlv_direct k off (arg1 (sec_args ctx))]"

definition emit_aio_getevents_enter_event_v2_direct ::
    "kernel \<Rightarrow> u32 \<Rightarrow> u32 \<Rightarrow> u32 \<Rightarrow> sys_enter_ctx \<Rightarrow> u64 \<Rightarrow> unit bpf" where
  "emit_aio_getevents_enter_event_v2_direct k pid tid sys_id ctx ts_ns =
     emit_enter_sections k pid tid sys_id (sec_args ctx) ts_ns
       (PAYLOAD_TLV_HEADER_SIZE + AIO_GETEVENTS_DIRECT_TIMEOUT_SIZE)
       [\<lambda>off. capture_aio_getevents_timeout_tlv_direct k off (arg4 (sec_args ctx))]"

definition emit_aio_pgetevents_enter_event_v2_direct ::
    "kernel \<Rightarrow> u32 \<Rightarrow> u32 \<Rightarrow> u32 \<Rightarrow> sys_enter_ctx \<Rightarrow> u64 \<Rightarrow> unit bpf" where
  "emit_aio_pgetevents_enter_event_v2_direct k pid tid sys_id ctx ts_ns =
     emit_enter_sections k pid tid sys_id (sec_args ctx) ts_ns AIO_PGETEVENTS_DIRECT_MAX_PAYLOAD
       [\<lambda>off. capture_aio_getevents_timeout_tlv_direct k off (arg4 (sec_args ctx)),
        \<lambda>off. do {
          (n, sigmask_ptr, sigset_size) \<leftarrow> capture_aio_pgetevents_sigset_tlv_direct k off (arg5 (sec_args ctx));
          m \<leftarrow> capture_aio_pgetevents_sigmask_tlv_direct k (off + n) sigmask_ptr sigset_size;
          return (n + m) }]"

definition emit_aio_enter_event_v2_direct ::
    "kernel \<Rightarrow> u32 \<Rightarrow> u32 \<Rightarrow> u32 \<Rightarrow> sys_enter_ctx \<Rightarrow> u32 option \<Rightarrow> u64 \<Rightarrow> unit bpf" where
  "emit_aio_enter_event_v2_direct k pid tid sys_id ctx cfg ts_ns =
     (if is_aio_pgetevents_direct_syscall sys_id then emit_aio_pgetevents_enter_event_v2_direct k pid tid sys_id ctx ts_ns
      else if is_aio_getevents_direct_syscall sys_id then emit_aio_getevents_enter_event_v2_direct k pid tid sys_id ctx ts_ns
      else if is_aio_submit_direct_syscall sys_id then emit_aio_submit_enter_event_v2_direct k pid tid sys_id ctx ts_ns
      else if is_aio_cancel_direct_syscall sys_id then emit_aio_cancel_enter_event_v2_direct k pid tid sys_id ctx ts_ns
      else emit_no_payload_enter_event_v2_direct k pid tid sys_id ctx cfg ts_ns)"

definition emit_aio_setup_exit_event_v2_direct :: "kernel \<Rightarrow> pending_syscall \<Rightarrow> s64 \<Rightarrow> u64 \<Rightarrow> unit bpf" where
  "emit_aio_setup_exit_event_v2_direct k p ret_value duration =
     emit_exit_sections k p ret_value duration (PAYLOAD_TLV_HEADER_SIZE + AIO_SETUP_DIRECT_CTX_SIZE)
       (if 0 \<le> sint ret_value then [\<lambda>off. capture_aio_setup_ctx_tlv_direct k off (arg1 (ps_args p))] else [])"

definition emit_aio_getevents_exit_event_v2_direct :: "kernel \<Rightarrow> pending_syscall \<Rightarrow> s64 \<Rightarrow> u64 \<Rightarrow> unit bpf" where
  "emit_aio_getevents_exit_event_v2_direct k p ret_value duration =
     emit_exit_flagged k p ret_value duration (PAYLOAD_TLV_HEADER_SIZE + AIO_GETEVENTS_DIRECT_EVENTS_MAX)
       (\<lambda>off ef. capture_aio_getevents_events_tlv_direct k off p ret_value ef)"

section \<open>Accounting\<close>

lemma poke_header_section:
  assumes "off + 32 + length bs \<le> length d" "length h = 32"
  shows "take (32 + length bs) (drop off (poke (poke d off h) (off + 32) bs)) = h @ bs"
  using assms by (simp add: poke_def min_def)

text \<open>There is room for the data whenever there was room for the section, so the early header is right.\<close>

lemma captures_header_first:
  assumes "payloadKindFromTLV kind \<noteq> None" "32 + length bs \<le> cap" "cap < 2 ^ 32"
  shows "captures k off cap (\<lambda>n. n) (header_first k off kind arg ul up err bs)"
  unfolding captures_def extends_def
proof (intro conjI allI impI)
  let ?m = "header_first k off kind arg ul up err bs"
  show "silent k ?m" "reports ?m" "above (off + 0) ?m"
    unfolding header_first_def
    by (intro silent_rules silent_intros reports_rules reports_intros above_rules above_intros above_store above_header; simp)+
  fix s :: machine and d assume s: "reservation s = Some d" "off + 0 + cap \<le> length d" "parses (take 0 (drop off d))"
  let ?h = "\<lambda>n pr. enc_tlv_header \<lparr>tlv_kind = kind, tlv_arg_index = arg, tlv_flags = 0, tlv_reserved = 0,
     tlv_user_len = ul, tlv_copied_len = n, tlv_probe_ret = pr, tlv_reserved2 = 0, tlv_user_ptr = up\<rparr>"
  have n: "unat (of_nat (length bs) :: u32) = length bs" using assms by (simp add: unat_of_nat take_bit_nat_eq_self)
  have "parses (take (32 + length bs) (drop off (poke (poke d off (?h (of_nat (length bs)) 0)) (off + 32) bs)))"
    by (subst poke_header_section, use assms s in simp, simp, rule parses_section, use assms in simp, use n in simp)
  moreover have "parses (take 32 (drop off (poke d off (?h 0 pr))))" for pr
    using parses_section [of _ "[]"] assms s by (simp add: poke_def)
  ultimately show "wp ?m (\<lambda>x t. x \<le> 0 + cap \<and> (\<exists>d'. reservation t = Some d' \<and> parses (take x (drop off d')))) s"
    using s assms by (simp add: header_first_def payload_tlv_write_header_direct_def wp_simps)
qed

lemma captures_after_read:
  assumes "\<And>err bs. length bs = n \<Longrightarrow> captures k off cap sz (g err bs)"
  shows "captures k off cap sz (do { (err, bs) \<leftarrow> bpf_probe_read_user k n p; g err bs })"
proof (rule captures_pre [where P = "\<lambda>x. length (snd x) = n"])
  show "gives (bpf_probe_read_user k n p) (\<lambda>x. length (snd x) = n)"
    by (simp add: gives_def bpf_probe_read_user_def run_bind_parts del: run_state_bind)
qed (use assms in \<open>auto intro: silent_intros reports_intros above_intros\<close>)

lemma captures_aio_slots:
  assumes "\<And>i p off. captures k off a (\<lambda>n. n) (c i p off)"
  shows "captures k off (length is * a) (\<lambda>n. n) (aio_slots k c count array is off)"
proof (induction "is" arbitrary: off)
  case Nil then show ?case by (simp add: captures_return)
next
  case (Cons i "is")
  have "fits k (length (i # is) * a) [c i p, aio_slots k c count array is]" for p
    by (rule fits_cons [OF assms], simp, rule fits_one) (use Cons in simp)
  then show ?case
    by (simp only: aio_slots.simps)
       (intro captures_if captures_return captures_after_read captures_mono [OF Cons], simp_all add: fits_def)
qed

lemma captures_aio_submit:
  "captures k off 96 (\<lambda>n. n) (capture_aio_submit_pointers_tlv_direct k off ctx)"
  "captures k off 480 (\<lambda>n. n) (capture_aio_submit_iocbs_tlv_direct k off ctx)"
  "captures k off 256 (\<lambda>n. n) (capture_aio_submit_iocbs_iovec_tlv_direct k off ctx)"
  "captures k off 256 (\<lambda>n. n) (capture_aio_submit_iocbs_buf_tlv_direct k off ctx)"
proof -
  show "captures k off 96 (\<lambda>n. n) (capture_aio_submit_pointers_tlv_direct k off ctx)"
    unfolding capture_aio_submit_pointers_tlv_direct_def Let_def
    by (intro captures_if captures_return captures_copied_section [where m = 64] copies_slots)
       (simp_all add: payloadKindFromTLV_def)
  let ?c = "\<lambda>i p off. capture_aio_submit_iocb_tlv_direct k off i p"
  have c: "captures k off 96 (\<lambda>n. n) (?c i p off)" for i p off
    unfolding capture_aio_submit_iocb_tlv_direct_def
    by (intro captures_if captures_return captures_after_read captures_header_first) (simp_all add: payloadKindFromTLV_def)
  let ?d = "\<lambda>i p off. read_iocb k (capture_aio_submit_iocb_iovec_tlv_direct k off i) p"
  have d: "captures k off 64 (\<lambda>n. n) (?d i p off)" for i p off
    unfolding read_iocb_def capture_aio_submit_iocb_iovec_tlv_direct_def Let_def
    by (intro captures_if captures_return captures_after_read captures_copied_section [where m = 32] copies_slots)
       (simp_all add: payloadKindFromTLV_def)
  let ?e = "\<lambda>i p off. read_iocb k (capture_aio_submit_iocb_buf_tlv_direct k off i) p"
  have e: "captures k off 64 (\<lambda>n. n) (?e i p off)" for i p off
    unfolding read_iocb_def capture_aio_submit_iocb_buf_tlv_direct_def Let_def
    by (intro captures_if captures_return captures_after_read captures_header_first) (simp_all add: payloadKindFromTLV_def)
  have s: "captures k off 480 (\<lambda>n. n) (aio_slots k ?c count array [0..<5] off)"
    "captures k off 256 (\<lambda>n. n) (aio_slots k ?d count array [0..<4] off)"
    "captures k off 256 (\<lambda>n. n) (aio_slots k ?e count array [0..<4] off)" for count array
    using captures_aio_slots [of k 96 ?c off "[0..<5]" count array, OF c]
      captures_aio_slots [of k 64 ?d off "[0..<4]" count array, OF d]
      captures_aio_slots [of k 64 ?e off "[0..<4]" count array, OF e] by simp_all
  show "captures k off 480 (\<lambda>n. n) (capture_aio_submit_iocbs_tlv_direct k off ctx)"
    "captures k off 256 (\<lambda>n. n) (capture_aio_submit_iocbs_iovec_tlv_direct k off ctx)"
    "captures k off 256 (\<lambda>n. n) (capture_aio_submit_iocbs_buf_tlv_direct k off ctx)"
    unfolding capture_aio_submit_iocbs_tlv_direct_def capture_aio_submit_iocbs_iovec_tlv_direct_def
      capture_aio_submit_iocbs_buf_tlv_direct_def Let_def
    by (intro captures_if captures_return refl s)+
qed

lemma copies_local [copies_intros]: "n \<le> m \<Longrightarrow> copies k off m (copy_local k n err bs off)"
  unfolding copy_local_def
  by (rule copies_step copies_if copies_return silent_intros reports_intros above_intros above_store | simp)+

lemma captures_sigset: "captures k off 48 fst (capture_aio_pgetevents_sigset_tlv_direct k off up)"
  unfolding capture_aio_pgetevents_sigset_tlv_direct_def
  by (intro captures_if captures_return captures_after_read, simp,
      rule captures_copy [OF copies_local [OF order_refl]], rule captures_header_nat)
     (simp_all add: payloadKindFromTLV_def)

lemma captures_pgetevents_mask: "captures k off 40 (\<lambda>n. n) (capture_aio_pgetevents_sigmask_tlv_direct k off up len)"
  unfolding capture_aio_pgetevents_sigmask_tlv_direct_def
  by (intro captures_if captures_return captures_after_read captures_copied_section [where m = 8] copies_local)
     (simp_all add: payloadKindFromTLV_def word_less_nat_alt)

lemma captures_pgetevents_sigset:
  "captures k off 88 (\<lambda>n. n) (do {
     (n, p, sz) \<leftarrow> capture_aio_pgetevents_sigset_tlv_direct k off up;
     m \<leftarrow> capture_aio_pgetevents_sigmask_tlv_direct k (off + n) p sz;
     return (n + m) })"
  by (rule captures_then [OF captures_sigset], simp)
     (auto simp: split_beta intro!: extends_capture [OF captures_pgetevents_mask] extends_return)

lemma captures_aio_structs:
  "captures k off 48 (\<lambda>n. n) (capture_aio_getevents_timeout_tlv_direct k off up)"
  "captures k off 40 (\<lambda>n. n) (capture_aio_setup_ctx_tlv_direct k off up)"
  "captures k off 96 (\<lambda>n. n) (capture_aio_cancel_iocb_tlv_direct k off up)"
  unfolding capture_aio_getevents_timeout_tlv_direct_def capture_aio_setup_ctx_tlv_direct_def
    capture_aio_cancel_iocb_tlv_direct_def
  by (rule captures_struct_section; simp)+

lemma aio_fragment_emitters [emitter_intros]:
  "emitter k (emit_aio_submit_iovec_enter_event_v2_direct k pid tid sys_id ctx ts)"
  "emitter k (emit_aio_submit_buf_enter_event_v2_direct k pid tid sys_id ctx ts)"
  unfolding emit_aio_submit_iovec_enter_event_v2_direct_def emit_aio_submit_buf_enter_event_v2_direct_def
  by (rule emitter_enter_list, rule fits_one; simp add: captures_aio_submit)+

lemma emitter_no_payload_enter [emitter_intros]:
  "emitter k (emit_no_payload_enter_event_v2_direct k pid tid sys_id ctx cfg ts)"
  by (simp add: emitter_def accounted_intros reports_intros)

lemma aio_submit_emitter [emitter_intros]: "emitter k (emit_aio_submit_enter_event_v2_direct k pid tid sys_id ctx ts)"
  unfolding emit_aio_submit_enter_event_v2_direct_def
  by (intro emitter_enter_list fits_cons [OF captures_aio_submit(1)] fits_cons [OF captures_aio_submit(2)] fits_nil; simp)

lemma aio_enter_emitter [emitter_intros]: "emitter k (emit_aio_enter_event_v2_direct k pid tid sys_id ctx cfg ts)"
  unfolding emit_aio_enter_event_v2_direct_def
    emit_aio_cancel_enter_event_v2_direct_def emit_aio_getevents_enter_event_v2_direct_def
    emit_aio_pgetevents_enter_event_v2_direct_def
  by (intro emitter_rules emitter_enter_list fits_cons [OF captures_aio_structs(1)] fits_cons [OF captures_aio_structs(3)]
      fits_cons [OF captures_pgetevents_sigset] fits_nil emitter_intros; simp)

lemma aio_exit_emitters [emitter_intros]:
  "emitter k (emit_aio_setup_exit_event_v2_direct k p ret dur)"
  "emitter k (emit_aio_getevents_exit_event_v2_direct k p ret dur)"
proof -
  show "emitter k (emit_aio_setup_exit_event_v2_direct k p ret dur)"
    unfolding emit_aio_setup_exit_event_v2_direct_def
    by (intro emitter_exit_list fits_if fits_one fits_nil captures_mono [OF captures_aio_structs(2)]) simp_all
  show "emitter k (emit_aio_getevents_exit_event_v2_direct k p ret dur)"
    unfolding emit_aio_getevents_exit_event_v2_direct_def capture_aio_getevents_events_tlv_direct_def Let_def
    by (intro emitter_exit_flagged flagged_cond flagged_none flagged_truncating_section [where m = 512] copies_slots)
       (simp_all add: payloadKindFromTLV_def)
qed

end
