(* ===== verification/Bpf_Command_Abi.thy ===== *)
theory Bpf_Command_Abi
  imports Aio_Events
begin

text \<open>
  What the captures of \<^verbatim>\<open>bpf(2)\<close> read of the command's attribute block and of the maps it names:
  \<^verbatim>\<open>bpf/syscall_bpf_{nested,map_common,map_input,map_key,map_lookup,delete,get_next_key}_direct_event_v2.h\<close>.
  An attribute field lies outside the block when the caller passed a shorter one; such a field cannot be
  read, which is the value \<open>None\<close>.
\<close>

section \<open>Constants\<close>

abbreviation (input) BPF_DIRECT_LICENSE_MAX :: nat where "BPF_DIRECT_LICENSE_MAX \<equiv> 64"
abbreviation (input) BPF_DIRECT_INSNS_MAX :: nat where "BPF_DIRECT_INSNS_MAX \<equiv> 64"
abbreviation (input) BPF_DIRECT_LOG_BUF_MAX :: nat where "BPF_DIRECT_LOG_BUF_MAX \<equiv> 256"
abbreviation (input) BPF_DIRECT_SIGNATURE_MAX :: nat where "BPF_DIRECT_SIGNATURE_MAX \<equiv> 256"
abbreviation (input) BPF_DIRECT_OBJ_PATH_MAX :: nat where "BPF_DIRECT_OBJ_PATH_MAX \<equiv> 512"
abbreviation (input) BPF_DIRECT_RAW_TRACEPOINT_NAME_MAX :: nat where "BPF_DIRECT_RAW_TRACEPOINT_NAME_MAX \<equiv> 512"
abbreviation (input) BPF_DIRECT_BTF_MAX :: nat where "BPF_DIRECT_BTF_MAX \<equiv> 256"
abbreviation (input) BPF_DIRECT_LINK_ITER_INFO_MAX :: nat where "BPF_DIRECT_LINK_ITER_INFO_MAX \<equiv> 20"
abbreviation (input) BPF_DIRECT_STREAM_BUF_MAX :: nat where "BPF_DIRECT_STREAM_BUF_MAX \<equiv> 512"
abbreviation (input) BPF_DIRECT_KPROBE_MULTI_MAX_ENTRIES :: nat where "BPF_DIRECT_KPROBE_MULTI_MAX_ENTRIES \<equiv> 4"
abbreviation (input) BPF_DIRECT_KPROBE_SYM_DATA_MAX :: nat where "BPF_DIRECT_KPROBE_SYM_DATA_MAX \<equiv> 40"
abbreviation (input) BPF_DIRECT_MULTI_MAX_ENTRIES :: nat where "BPF_DIRECT_MULTI_MAX_ENTRIES \<equiv> 4"
abbreviation (input) BPF_DIRECT_MULTI_COUNT_LIMIT :: u32 where "BPF_DIRECT_MULTI_COUNT_LIMIT \<equiv> 1024"
abbreviation (input) BPF_DIRECT_MAP_LOOKUP_ELEM :: u64 where "BPF_DIRECT_MAP_LOOKUP_ELEM \<equiv> 1"
abbreviation (input) BPF_DIRECT_MAP_LOOKUP_AND_DELETE_ELEM :: u64 where "BPF_DIRECT_MAP_LOOKUP_AND_DELETE_ELEM \<equiv> 21"
abbreviation (input) BPF_DIRECT_MAP_DELETE_ELEM :: u64 where "BPF_DIRECT_MAP_DELETE_ELEM \<equiv> 3"
abbreviation (input) BPF_DIRECT_MAP_GET_NEXT_KEY :: u64 where "BPF_DIRECT_MAP_GET_NEXT_KEY \<equiv> 4"
abbreviation (input) BPF_DIRECT_MAP_LOOKUP_BATCH :: u64 where "BPF_DIRECT_MAP_LOOKUP_BATCH \<equiv> 24"
abbreviation (input) BPF_DIRECT_MAP_LOOKUP_AND_DELETE_BATCH :: u64 where "BPF_DIRECT_MAP_LOOKUP_AND_DELETE_BATCH \<equiv> 25"
abbreviation (input) BPF_DIRECT_MAP_UPDATE_BATCH :: u64 where "BPF_DIRECT_MAP_UPDATE_BATCH \<equiv> 26"
abbreviation (input) BPF_DIRECT_MAP_DELETE_BATCH :: u64 where "BPF_DIRECT_MAP_DELETE_BATCH \<equiv> 27"
abbreviation (input) BPF_DIRECT_PROG_LOAD :: u64 where "BPF_DIRECT_PROG_LOAD \<equiv> 5"
abbreviation (input) BPF_DIRECT_PROG_TEST_RUN :: u64 where "BPF_DIRECT_PROG_TEST_RUN \<equiv> 10"
abbreviation (input) BPF_DIRECT_PROG_QUERY :: u64 where "BPF_DIRECT_PROG_QUERY \<equiv> 16"
abbreviation (input) BPF_DIRECT_OBJ_PIN :: u64 where "BPF_DIRECT_OBJ_PIN \<equiv> 6"
abbreviation (input) BPF_DIRECT_OBJ_GET :: u64 where "BPF_DIRECT_OBJ_GET \<equiv> 7"
abbreviation (input) BPF_DIRECT_RAW_TRACEPOINT_OPEN :: u64 where "BPF_DIRECT_RAW_TRACEPOINT_OPEN \<equiv> 17"
abbreviation (input) BPF_DIRECT_BTF_LOAD :: u64 where "BPF_DIRECT_BTF_LOAD \<equiv> 18"
abbreviation (input) BPF_DIRECT_LINK_CREATE :: u64 where "BPF_DIRECT_LINK_CREATE \<equiv> 28"
abbreviation (input) BPF_DIRECT_PROG_STREAM_READ_BY_FD :: u64 where "BPF_DIRECT_PROG_STREAM_READ_BY_FD \<equiv> 37"
abbreviation (input) BPF_DIRECT_TRACE_ITER_ATTACH :: u32 where "BPF_DIRECT_TRACE_ITER_ATTACH \<equiv> 28"
abbreviation (input) BPF_DIRECT_TRACE_KPROBE_MULTI_ATTACH :: u32 where "BPF_DIRECT_TRACE_KPROBE_MULTI_ATTACH \<equiv> 42"
abbreviation (input) BPF_DIRECT_TRACE_FENTRY_MULTI_ATTACH :: u32 where "BPF_DIRECT_TRACE_FENTRY_MULTI_ATTACH \<equiv> 59"
abbreviation (input) BPF_DIRECT_TRACE_FEXIT_MULTI_ATTACH :: u32 where "BPF_DIRECT_TRACE_FEXIT_MULTI_ATTACH \<equiv> 60"
abbreviation (input) BPF_DIRECT_TRACE_FSESSION_MULTI_ATTACH :: u32 where "BPF_DIRECT_TRACE_FSESSION_MULTI_ATTACH \<equiv> 61"
abbreviation (input) BPF_DIRECT_PROG_LOAD_LICENSE_ARG :: u16 where "BPF_DIRECT_PROG_LOAD_LICENSE_ARG \<equiv> 101"
abbreviation (input) BPF_DIRECT_PROG_LOAD_LOG_BUF_ARG :: u16 where "BPF_DIRECT_PROG_LOAD_LOG_BUF_ARG \<equiv> 102"
abbreviation (input) BPF_DIRECT_PROG_LOAD_SIGNATURE_ARG :: u16 where "BPF_DIRECT_PROG_LOAD_SIGNATURE_ARG \<equiv> 103"
abbreviation (input) BPF_DIRECT_PROG_LOAD_INSNS_ARG :: u16 where "BPF_DIRECT_PROG_LOAD_INSNS_ARG \<equiv> 112"
abbreviation (input) BPF_DIRECT_PROG_LOAD_FD_ARRAY_ARG :: u16 where "BPF_DIRECT_PROG_LOAD_FD_ARRAY_ARG \<equiv> 141"
abbreviation (input) BPF_DIRECT_PROG_LOAD_FUNC_INFO_ARG :: u16 where "BPF_DIRECT_PROG_LOAD_FUNC_INFO_ARG \<equiv> 142"
abbreviation (input) BPF_DIRECT_PROG_LOAD_LINE_INFO_ARG :: u16 where "BPF_DIRECT_PROG_LOAD_LINE_INFO_ARG \<equiv> 143"
abbreviation (input) BPF_DIRECT_PROG_LOAD_CORE_RELOS_ARG :: u16 where "BPF_DIRECT_PROG_LOAD_CORE_RELOS_ARG \<equiv> 144"
abbreviation (input) BPF_DIRECT_OBJ_PATHNAME_ARG :: u16 where "BPF_DIRECT_OBJ_PATHNAME_ARG \<equiv> 104"
abbreviation (input) BPF_DIRECT_RAW_TRACEPOINT_NAME_ARG :: u16 where "BPF_DIRECT_RAW_TRACEPOINT_NAME_ARG \<equiv> 105"
abbreviation (input) BPF_DIRECT_BTF_ARG :: u16 where "BPF_DIRECT_BTF_ARG \<equiv> 106"
abbreviation (input) BPF_DIRECT_BTF_LOG_BUF_ARG :: u16 where "BPF_DIRECT_BTF_LOG_BUF_ARG \<equiv> 114"
abbreviation (input) BPF_DIRECT_TEST_RUN_DATA_ARG :: u16 where "BPF_DIRECT_TEST_RUN_DATA_ARG \<equiv> 115"
abbreviation (input) BPF_DIRECT_TEST_RUN_CTX_ARG :: u16 where "BPF_DIRECT_TEST_RUN_CTX_ARG \<equiv> 116"
abbreviation (input) BPF_DIRECT_LINK_ITER_INFO_ARG :: u16 where "BPF_DIRECT_LINK_ITER_INFO_ARG \<equiv> 107"
abbreviation (input) BPF_DIRECT_KPROBE_MULTI_SYMS_ARG :: u16 where "BPF_DIRECT_KPROBE_MULTI_SYMS_ARG \<equiv> 108"
abbreviation (input) BPF_DIRECT_KPROBE_MULTI_ADDRS_ARG :: u16 where "BPF_DIRECT_KPROBE_MULTI_ADDRS_ARG \<equiv> 109"
abbreviation (input) BPF_DIRECT_KPROBE_MULTI_COOKIES_ARG :: u16 where "BPF_DIRECT_KPROBE_MULTI_COOKIES_ARG \<equiv> 110"
abbreviation (input) BPF_DIRECT_PROG_STREAM_BUF_ARG :: u16 where "BPF_DIRECT_PROG_STREAM_BUF_ARG \<equiv> 111"
abbreviation (input) BPF_DIRECT_PROG_LOAD_LICENSE_OFF :: u64 where "BPF_DIRECT_PROG_LOAD_LICENSE_OFF \<equiv> 16"
abbreviation (input) BPF_DIRECT_PROG_LOAD_INSN_CNT_OFF :: u64 where "BPF_DIRECT_PROG_LOAD_INSN_CNT_OFF \<equiv> 4"
abbreviation (input) BPF_DIRECT_PROG_LOAD_INSNS_OFF :: u64 where "BPF_DIRECT_PROG_LOAD_INSNS_OFF \<equiv> 8"
abbreviation (input) BPF_DIRECT_PROG_LOAD_LOG_SIZE_OFF :: u64 where "BPF_DIRECT_PROG_LOAD_LOG_SIZE_OFF \<equiv> 28"
abbreviation (input) BPF_DIRECT_PROG_LOAD_LOG_BUF_OFF :: u64 where "BPF_DIRECT_PROG_LOAD_LOG_BUF_OFF \<equiv> 32"
abbreviation (input) BPF_DIRECT_PROG_LOAD_LOG_TRUE_SIZE_OFF :: u64 where "BPF_DIRECT_PROG_LOAD_LOG_TRUE_SIZE_OFF \<equiv> 140"
abbreviation (input) BPF_DIRECT_PROG_LOAD_LOG_MAX :: nat where "BPF_DIRECT_PROG_LOAD_LOG_MAX \<equiv> 256"
abbreviation (input) BPF_DIRECT_PROG_LOAD_SIGNATURE_OFF :: u64 where "BPF_DIRECT_PROG_LOAD_SIGNATURE_OFF \<equiv> 152"
abbreviation (input) BPF_DIRECT_PROG_LOAD_SIGNATURE_SIZE_OFF :: u64 where "BPF_DIRECT_PROG_LOAD_SIGNATURE_SIZE_OFF \<equiv> 160"
abbreviation (input) BPF_DIRECT_PROG_LOAD_FD_ARRAY_OFF :: u64 where "BPF_DIRECT_PROG_LOAD_FD_ARRAY_OFF \<equiv> 120"
abbreviation (input) BPF_DIRECT_PROG_LOAD_FD_ARRAY_CNT_OFF :: u64 where "BPF_DIRECT_PROG_LOAD_FD_ARRAY_CNT_OFF \<equiv> 148"
abbreviation (input) BPF_DIRECT_PROG_LOAD_FD_ARRAY_MAX :: nat where "BPF_DIRECT_PROG_LOAD_FD_ARRAY_MAX \<equiv> 512"
abbreviation (input) BPF_DIRECT_PROG_LOAD_FUNC_INFO_REC_SIZE_OFF :: u64 where "BPF_DIRECT_PROG_LOAD_FUNC_INFO_REC_SIZE_OFF \<equiv> 76"
abbreviation (input) BPF_DIRECT_PROG_LOAD_FUNC_INFO_OFF :: u64 where "BPF_DIRECT_PROG_LOAD_FUNC_INFO_OFF \<equiv> 80"
abbreviation (input) BPF_DIRECT_PROG_LOAD_FUNC_INFO_CNT_OFF :: u64 where "BPF_DIRECT_PROG_LOAD_FUNC_INFO_CNT_OFF \<equiv> 88"
abbreviation (input) BPF_DIRECT_PROG_LOAD_FUNC_INFO_MAX :: nat where "BPF_DIRECT_PROG_LOAD_FUNC_INFO_MAX \<equiv> 512"
abbreviation (input) BPF_DIRECT_PROG_LOAD_LINE_INFO_REC_SIZE_OFF :: u64 where "BPF_DIRECT_PROG_LOAD_LINE_INFO_REC_SIZE_OFF \<equiv> 92"
abbreviation (input) BPF_DIRECT_PROG_LOAD_LINE_INFO_OFF :: u64 where "BPF_DIRECT_PROG_LOAD_LINE_INFO_OFF \<equiv> 96"
abbreviation (input) BPF_DIRECT_PROG_LOAD_LINE_INFO_CNT_OFF :: u64 where "BPF_DIRECT_PROG_LOAD_LINE_INFO_CNT_OFF \<equiv> 104"
abbreviation (input) BPF_DIRECT_PROG_LOAD_LINE_INFO_MAX :: nat where "BPF_DIRECT_PROG_LOAD_LINE_INFO_MAX \<equiv> 512"
abbreviation (input) BPF_DIRECT_PROG_LOAD_CORE_RELO_CNT_OFF :: u64 where "BPF_DIRECT_PROG_LOAD_CORE_RELO_CNT_OFF \<equiv> 116"
abbreviation (input) BPF_DIRECT_PROG_LOAD_CORE_RELOS_OFF :: u64 where "BPF_DIRECT_PROG_LOAD_CORE_RELOS_OFF \<equiv> 128"
abbreviation (input) BPF_DIRECT_PROG_LOAD_CORE_RELO_REC_SIZE_OFF :: u64 where "BPF_DIRECT_PROG_LOAD_CORE_RELO_REC_SIZE_OFF \<equiv> 136"
abbreviation (input) BPF_DIRECT_PROG_LOAD_CORE_RELOS_MAX :: nat where "BPF_DIRECT_PROG_LOAD_CORE_RELOS_MAX \<equiv> 512"
abbreviation (input) BPF_DIRECT_BTF_SIZE_OFF :: u64 where "BPF_DIRECT_BTF_SIZE_OFF \<equiv> 16"
abbreviation (input) BPF_DIRECT_BTF_LOG_BUF_OFF :: u64 where "BPF_DIRECT_BTF_LOG_BUF_OFF \<equiv> 8"
abbreviation (input) BPF_DIRECT_BTF_LOG_SIZE_OFF :: u64 where "BPF_DIRECT_BTF_LOG_SIZE_OFF \<equiv> 20"
abbreviation (input) BPF_DIRECT_BTF_LOG_TRUE_SIZE_OFF :: u64 where "BPF_DIRECT_BTF_LOG_TRUE_SIZE_OFF \<equiv> 28"
abbreviation (input) BPF_DIRECT_BTF_LOG_MAX :: nat where "BPF_DIRECT_BTF_LOG_MAX \<equiv> 256"
abbreviation (input) BPF_DIRECT_MAP_FD_OFF :: u64 where "BPF_DIRECT_MAP_FD_OFF \<equiv> 0"
abbreviation (input) BPF_DIRECT_MAP_KEY_OFF :: u64 where "BPF_DIRECT_MAP_KEY_OFF \<equiv> 8"
abbreviation (input) BPF_DIRECT_MAP_VALUE_OFF :: u64 where "BPF_DIRECT_MAP_VALUE_OFF \<equiv> 16"
abbreviation (input) BPF_DIRECT_MAP_VALUE_ARG :: u16 where "BPF_DIRECT_MAP_VALUE_ARG \<equiv> 117"
abbreviation (input) BPF_DIRECT_MAP_VALUE_MAX :: nat where "BPF_DIRECT_MAP_VALUE_MAX \<equiv> 512"
abbreviation (input) BPF_DIRECT_MAP_BATCH_OUT_BATCH_OFF :: u64 where "BPF_DIRECT_MAP_BATCH_OUT_BATCH_OFF \<equiv> 8"
abbreviation (input) BPF_DIRECT_MAP_BATCH_KEYS_OFF :: u64 where "BPF_DIRECT_MAP_BATCH_KEYS_OFF \<equiv> 16"
abbreviation (input) BPF_DIRECT_MAP_BATCH_VALUES_OFF :: u64 where "BPF_DIRECT_MAP_BATCH_VALUES_OFF \<equiv> 24"
abbreviation (input) BPF_DIRECT_MAP_BATCH_COUNT_OFF :: u64 where "BPF_DIRECT_MAP_BATCH_COUNT_OFF \<equiv> 32"
abbreviation (input) BPF_DIRECT_MAP_BATCH_FD_OFF :: u64 where "BPF_DIRECT_MAP_BATCH_FD_OFF \<equiv> 36"
abbreviation (input) BPF_DIRECT_MAP_BATCH_ELEM_FLAGS_OFF :: u64 where "BPF_DIRECT_MAP_BATCH_ELEM_FLAGS_OFF \<equiv> 40"
abbreviation (input) BPF_DIRECT_MAP_ELEM_FLAGS_OFF :: u64 where "BPF_DIRECT_MAP_ELEM_FLAGS_OFF \<equiv> 24"
abbreviation (input) BPF_DIRECT_MAP_BATCH_OUT_BATCH_ARG :: u16 where "BPF_DIRECT_MAP_BATCH_OUT_BATCH_ARG \<equiv> 120"
abbreviation (input) BPF_DIRECT_MAP_BATCH_KEYS_ARG :: u16 where "BPF_DIRECT_MAP_BATCH_KEYS_ARG \<equiv> 118"
abbreviation (input) BPF_DIRECT_MAP_BATCH_VALUES_ARG :: u16 where "BPF_DIRECT_MAP_BATCH_VALUES_ARG \<equiv> 119"
abbreviation (input) BPF_DIRECT_MAP_BATCH_KEYS_IN_ARG :: u16 where "BPF_DIRECT_MAP_BATCH_KEYS_IN_ARG \<equiv> 121"
abbreviation (input) BPF_DIRECT_MAP_BATCH_VALUES_IN_ARG :: u16 where "BPF_DIRECT_MAP_BATCH_VALUES_IN_ARG \<equiv> 122"
abbreviation (input) BPF_DIRECT_MAP_DELETE_KEY_IN_ARG :: u16 where "BPF_DIRECT_MAP_DELETE_KEY_IN_ARG \<equiv> 123"
abbreviation (input) BPF_DIRECT_MAP_GET_NEXT_KEY_KEY_IN_ARG :: u16 where "BPF_DIRECT_MAP_GET_NEXT_KEY_KEY_IN_ARG \<equiv> 124"
abbreviation (input) BPF_DIRECT_MAP_GET_NEXT_KEY_NEXT_OUT_ARG :: u16 where "BPF_DIRECT_MAP_GET_NEXT_KEY_NEXT_OUT_ARG \<equiv> 125"
abbreviation (input) BPF_DIRECT_PROG_QUERY_PROG_IDS_ARG :: u16 where "BPF_DIRECT_PROG_QUERY_PROG_IDS_ARG \<equiv> 128"
abbreviation (input) BPF_DIRECT_PROG_QUERY_PROG_ATTACH_FLAGS_ARG :: u16 where "BPF_DIRECT_PROG_QUERY_PROG_ATTACH_FLAGS_ARG \<equiv> 129"
abbreviation (input) BPF_DIRECT_PROG_QUERY_LINK_IDS_ARG :: u16 where "BPF_DIRECT_PROG_QUERY_LINK_IDS_ARG \<equiv> 130"
abbreviation (input) BPF_DIRECT_PROG_QUERY_LINK_ATTACH_FLAGS_ARG :: u16 where "BPF_DIRECT_PROG_QUERY_LINK_ATTACH_FLAGS_ARG \<equiv> 131"
abbreviation (input) BPF_DIRECT_PROG_QUERY_PROG_CNT_OUT_ARG :: u16 where "BPF_DIRECT_PROG_QUERY_PROG_CNT_OUT_ARG \<equiv> 132"
abbreviation (input) BPF_DIRECT_MAP_NEXT_KEY_OFF :: u64 where "BPF_DIRECT_MAP_NEXT_KEY_OFF \<equiv> 16"
abbreviation (input) BPF_DIRECT_TEST_RUN_DATA_SIZE_OUT_OFF :: u64 where "BPF_DIRECT_TEST_RUN_DATA_SIZE_OUT_OFF \<equiv> 12"
abbreviation (input) BPF_DIRECT_TEST_RUN_DATA_OUT_OFF :: u64 where "BPF_DIRECT_TEST_RUN_DATA_OUT_OFF \<equiv> 24"
abbreviation (input) BPF_DIRECT_TEST_RUN_CTX_SIZE_OUT_OFF :: u64 where "BPF_DIRECT_TEST_RUN_CTX_SIZE_OUT_OFF \<equiv> 44"
abbreviation (input) BPF_DIRECT_TEST_RUN_CTX_OUT_OFF :: u64 where "BPF_DIRECT_TEST_RUN_CTX_OUT_OFF \<equiv> 56"
abbreviation (input) BPF_DIRECT_TEST_RUN_OUTPUT_MAX :: nat where "BPF_DIRECT_TEST_RUN_OUTPUT_MAX \<equiv> 512"
abbreviation (input) BPF_DIRECT_PROG_QUERY_PROG_IDS_OFF :: u64 where "BPF_DIRECT_PROG_QUERY_PROG_IDS_OFF \<equiv> 16"
abbreviation (input) BPF_DIRECT_PROG_QUERY_PROG_CNT_OFF :: u64 where "BPF_DIRECT_PROG_QUERY_PROG_CNT_OFF \<equiv> 24"
abbreviation (input) BPF_DIRECT_PROG_QUERY_PROG_ATTACH_FLAGS_OFF :: u64 where "BPF_DIRECT_PROG_QUERY_PROG_ATTACH_FLAGS_OFF \<equiv> 32"
abbreviation (input) BPF_DIRECT_PROG_QUERY_LINK_IDS_OFF :: u64 where "BPF_DIRECT_PROG_QUERY_LINK_IDS_OFF \<equiv> 40"
abbreviation (input) BPF_DIRECT_PROG_QUERY_LINK_ATTACH_FLAGS_OFF :: u64 where "BPF_DIRECT_PROG_QUERY_LINK_ATTACH_FLAGS_OFF \<equiv> 48"
abbreviation (input) BPF_DIRECT_PROG_QUERY_ARRAY_MAX :: nat where "BPF_DIRECT_PROG_QUERY_ARRAY_MAX \<equiv> 512"
abbreviation (input) BPF_DIRECT_PROG_STREAM_BUF_OFF :: u64 where "BPF_DIRECT_PROG_STREAM_BUF_OFF \<equiv> 0"
abbreviation (input) BPF_DIRECT_PROG_STREAM_BUF_LEN_OFF :: u64 where "BPF_DIRECT_PROG_STREAM_BUF_LEN_OFF \<equiv> 8"
abbreviation (input) BPF_DIRECT_LINK_CREATE_ATTACH_TYPE_OFF :: u64 where "BPF_DIRECT_LINK_CREATE_ATTACH_TYPE_OFF \<equiv> 8"
abbreviation (input) BPF_DIRECT_LINK_CREATE_ITER_INFO_OFF :: u64 where "BPF_DIRECT_LINK_CREATE_ITER_INFO_OFF \<equiv> 16"
abbreviation (input) BPF_DIRECT_LINK_CREATE_ITER_INFO_LEN_OFF :: u64 where "BPF_DIRECT_LINK_CREATE_ITER_INFO_LEN_OFF \<equiv> 24"
abbreviation (input) BPF_DIRECT_LINK_CREATE_KPROBE_CNT_OFF :: u64 where "BPF_DIRECT_LINK_CREATE_KPROBE_CNT_OFF \<equiv> 20"
abbreviation (input) BPF_DIRECT_LINK_CREATE_KPROBE_SYMS_OFF :: u64 where "BPF_DIRECT_LINK_CREATE_KPROBE_SYMS_OFF \<equiv> 24"
abbreviation (input) BPF_DIRECT_LINK_CREATE_KPROBE_ADDRS_OFF :: u64 where "BPF_DIRECT_LINK_CREATE_KPROBE_ADDRS_OFF \<equiv> 32"
abbreviation (input) BPF_DIRECT_LINK_CREATE_KPROBE_COOKIES_OFF :: u64 where "BPF_DIRECT_LINK_CREATE_KPROBE_COOKIES_OFF \<equiv> 40"
abbreviation (input) BPF_DIRECT_LINK_CREATE_TRACING_MULTI_IDS_OFF :: u64 where "BPF_DIRECT_LINK_CREATE_TRACING_MULTI_IDS_OFF \<equiv> 16"
abbreviation (input) BPF_DIRECT_LINK_CREATE_TRACING_MULTI_COOKIES_OFF :: u64 where "BPF_DIRECT_LINK_CREATE_TRACING_MULTI_COOKIES_OFF \<equiv> 24"
abbreviation (input) BPF_DIRECT_LINK_CREATE_TRACING_MULTI_CNT_OFF :: u64 where "BPF_DIRECT_LINK_CREATE_TRACING_MULTI_CNT_OFF \<equiv> 32"
abbreviation (input) BPF_DIRECT_TRACE_UPROBE_MULTI_ATTACH :: u32 where "BPF_DIRECT_TRACE_UPROBE_MULTI_ATTACH \<equiv> 48"
abbreviation (input) BPF_DIRECT_UPROBE_MULTI_PATH_ARG :: u16 where "BPF_DIRECT_UPROBE_MULTI_PATH_ARG \<equiv> 133"
abbreviation (input) BPF_DIRECT_UPROBE_MULTI_OFFSETS_ARG :: u16 where "BPF_DIRECT_UPROBE_MULTI_OFFSETS_ARG \<equiv> 134"
abbreviation (input) BPF_DIRECT_UPROBE_MULTI_REF_CTR_OFFSETS_ARG :: u16 where "BPF_DIRECT_UPROBE_MULTI_REF_CTR_OFFSETS_ARG \<equiv> 135"
abbreviation (input) BPF_DIRECT_UPROBE_MULTI_COOKIES_ARG :: u16 where "BPF_DIRECT_UPROBE_MULTI_COOKIES_ARG \<equiv> 136"
abbreviation (input) BPF_DIRECT_TRACING_MULTI_IDS_ARG :: u16 where "BPF_DIRECT_TRACING_MULTI_IDS_ARG \<equiv> 145"
abbreviation (input) BPF_DIRECT_TRACING_MULTI_COOKIES_ARG :: u16 where "BPF_DIRECT_TRACING_MULTI_COOKIES_ARG \<equiv> 146"
abbreviation (input) BPF_DIRECT_LINK_CREATE_UPROBE_PATH_OFF :: u64 where "BPF_DIRECT_LINK_CREATE_UPROBE_PATH_OFF \<equiv> 16"
abbreviation (input) BPF_DIRECT_LINK_CREATE_UPROBE_OFFSETS_OFF :: u64 where "BPF_DIRECT_LINK_CREATE_UPROBE_OFFSETS_OFF \<equiv> 24"
abbreviation (input) BPF_DIRECT_LINK_CREATE_UPROBE_REF_CTR_OFFSETS_OFF :: u64 where "BPF_DIRECT_LINK_CREATE_UPROBE_REF_CTR_OFFSETS_OFF \<equiv> 32"
abbreviation (input) BPF_DIRECT_LINK_CREATE_UPROBE_COOKIES_OFF :: u64 where "BPF_DIRECT_LINK_CREATE_UPROBE_COOKIES_OFF \<equiv> 40"
abbreviation (input) BPF_DIRECT_LINK_CREATE_UPROBE_CNT_OFF :: u64 where "BPF_DIRECT_LINK_CREATE_UPROBE_CNT_OFF \<equiv> 48"

abbreviation (input) BPF_DIRECT_MAP_UPDATE_ELEM :: u64 where "BPF_DIRECT_MAP_UPDATE_ELEM \<equiv> 2"
abbreviation (input) BPF_DIRECT_MAP_UPDATE_KEY_IN_ARG :: u16 where "BPF_DIRECT_MAP_UPDATE_KEY_IN_ARG \<equiv> 126"
abbreviation (input) BPF_DIRECT_MAP_UPDATE_VALUE_IN_ARG :: u16 where "BPF_DIRECT_MAP_UPDATE_VALUE_IN_ARG \<equiv> 127"
abbreviation (input) BPF_DIRECT_MAP_LOOKUP_KEY_IN_ARG :: u16 where "BPF_DIRECT_MAP_LOOKUP_KEY_IN_ARG \<equiv> 139"
abbreviation (input) BPF_DIRECT_BYTES_BUCKET_20 :: nat where "BPF_DIRECT_BYTES_BUCKET_20 \<equiv> 20"
abbreviation (input) BPF_DIRECT_BYTES_BUCKET_64 :: nat where "BPF_DIRECT_BYTES_BUCKET_64 \<equiv> 64"
abbreviation (input) BPF_DIRECT_BYTES_BUCKET_256 :: nat where "BPF_DIRECT_BYTES_BUCKET_256 \<equiv> 256"
abbreviation (input) BPF_DIRECT_BYTES_BUCKET_512 :: nat where "BPF_DIRECT_BYTES_BUCKET_512 \<equiv> 512"
abbreviation (input) BPF_DIRECT_MAP_BATCH_CURSOR_MIN :: u32 where "BPF_DIRECT_MAP_BATCH_CURSOR_MIN \<equiv> 4"
abbreviation (input) BPF_DIRECT_MAP_TYPE_HASH :: u32 where "BPF_DIRECT_MAP_TYPE_HASH \<equiv> 1"
abbreviation (input) BPF_DIRECT_MAP_TYPE_PERCPU_HASH :: u32 where "BPF_DIRECT_MAP_TYPE_PERCPU_HASH \<equiv> 5"
abbreviation (input) BPF_DIRECT_MAP_TYPE_PERCPU_ARRAY :: u32 where "BPF_DIRECT_MAP_TYPE_PERCPU_ARRAY \<equiv> 6"
abbreviation (input) BPF_DIRECT_MAP_TYPE_LRU_HASH :: u32 where "BPF_DIRECT_MAP_TYPE_LRU_HASH \<equiv> 9"
abbreviation (input) BPF_DIRECT_MAP_TYPE_LRU_PERCPU_HASH :: u32 where "BPF_DIRECT_MAP_TYPE_LRU_PERCPU_HASH \<equiv> 10"
abbreviation (input) BPF_DIRECT_MAP_TYPE_PERCPU_CGROUP_STORAGE :: u32 where "BPF_DIRECT_MAP_TYPE_PERCPU_CGROUP_STORAGE \<equiv> 21"
abbreviation (input) BPF_DIRECT_MAP_FLAG_CPU :: u64 where "BPF_DIRECT_MAP_FLAG_CPU \<equiv> 8"
abbreviation (input) BPF_DIRECT_MAP_FLAG_ALL_CPUS :: u64 where "BPF_DIRECT_MAP_FLAG_ALL_CPUS \<equiv> 16"

section \<open>Attribute fields\<close>

definition is_bpf_direct_syscall :: "u32 \<Rightarrow> bool" where
  "is_bpf_direct_syscall sys_id \<longleftrightarrow> sys_id = SYS_BPF"

definition bpf_attr_read_u32_direct :: "kernel \<Rightarrow> u64 \<Rightarrow> u64 \<Rightarrow> u64 \<Rightarrow> u32 option bpf" where
  "bpf_attr_read_u32_direct k attr_ptr requested_len offset =
     (if attr_ptr = 0 \<or> requested_len < offset + 4 then return None
      else do {
        (err, bs) \<leftarrow> bpf_probe_read_user k 4 (attr_ptr + offset);
        return (if err = 0 then Some (le_word bs) else None) })"

definition bpf_attr_read_u64_direct :: "kernel \<Rightarrow> u64 \<Rightarrow> u64 \<Rightarrow> u64 \<Rightarrow> u64 option bpf" where
  "bpf_attr_read_u64_direct k attr_ptr requested_len offset =
     (if attr_ptr = 0 \<or> requested_len < offset + 8 then return None
      else do {
        (err, bs) \<leftarrow> bpf_probe_read_user k 8 (attr_ptr + offset);
        return (if err = 0 then Some (le_word bs) else None) })"

text \<open>The shape of a guard \<^verbatim>\<open>if (!bpf_attr_read_..(..)) { otherwise }\<close>.\<close>

definition with_field :: "'f option bpf \<Rightarrow> 'a bpf \<Rightarrow> ('f \<Rightarrow> 'a bpf) \<Rightarrow> 'a bpf" where
  "with_field field otherwise body = do { x \<leftarrow> field; case x of None \<Rightarrow> otherwise | Some v \<Rightarrow> body v }"

section \<open>Maps\<close>

definition lookup_current_bpf_map_direct :: "kernel \<Rightarrow> s32 \<Rightarrow> u64 bpf" where
  "lookup_current_bpf_map_direct k map_fd = do {
     file \<leftarrow> lookup_current_fd_file k map_fd;
     if file = 0 then return 0 else core_read k ''private_data'' file }"

definition bpf_map_type_is_percpu_direct :: "u32 \<Rightarrow> bool" where
  "bpf_map_type_is_percpu_direct map_type \<longleftrightarrow>
     map_type = BPF_DIRECT_MAP_TYPE_PERCPU_HASH \<or> map_type = BPF_DIRECT_MAP_TYPE_PERCPU_ARRAY \<or>
     map_type = BPF_DIRECT_MAP_TYPE_LRU_PERCPU_HASH \<or> map_type = BPF_DIRECT_MAP_TYPE_PERCPU_CGROUP_STORAGE"

definition bpf_runtime_possible_cpu_count_direct :: "u32 bpf" where
  "bpf_runtime_possible_cpu_count_direct = do {
     count \<leftarrow> gets runtime_meta_map;
     return (case count of None \<Rightarrow> 0 | Some c \<Rightarrow> if c = 0 then 0 else c) }"

text \<open>The products are formed at 64 bits and clamped to what the section header can record.\<close>

definition clamped_total :: "u64 \<Rightarrow> u32" where
  "clamped_total n = (if n > 0xffffffff then 0xffffffff else ucast n)"

definition bpf_map_effective_value_size_direct :: "kernel \<Rightarrow> u64 \<Rightarrow> u32 \<Rightarrow> u64 \<Rightarrow> u32 bpf" where
  "bpf_map_effective_value_size_direct k bmap value_size flags = do {
     map_type \<leftarrow> core_read k ''map_type'' bmap;
     if \<not> bpf_map_type_is_percpu_direct (ucast map_type) \<or>
        flags AND (BPF_DIRECT_MAP_FLAG_CPU OR BPF_DIRECT_MAP_FLAG_ALL_CPUS) \<noteq> 0
     then return value_size
     else do {
       possible_cpus \<leftarrow> bpf_runtime_possible_cpu_count_direct;
       if possible_cpus = 0 then return 0
       else let stride = (ucast value_size + 7 :: u64) AND NOT 7
            in return (clamped_total (stride * ucast possible_cpus)) } }"

definition bpf_map_batch_buffer_len_direct :: "u32 \<Rightarrow> u32 \<Rightarrow> u32" where
  "bpf_map_batch_buffer_len_direct count element_size = clamped_total (ucast count * ucast element_size)"

section \<open>Requests\<close>

text \<open>The event flags of the request are passed to the capture beside it.\<close>

record bpf_nested_bytes_capture_request =
  nbr_user_ptr :: u64
  nbr_user_len :: u32
  nbr_max_len :: nat
  nbr_storage_len :: nat
  nbr_arg_index :: u16

definition no_bytes_request :: bpf_nested_bytes_capture_request where
  "no_bytes_request = \<lparr>nbr_user_ptr = 0, nbr_user_len = 0, nbr_max_len = 0, nbr_storage_len = 0, nbr_arg_index = 0\<rparr>"

definition set_bpf_map_input_request_direct ::
    "bpf_nested_bytes_capture_request \<Rightarrow> u64 \<Rightarrow> u32 \<Rightarrow> u16 \<Rightarrow> bpf_nested_bytes_capture_request" where
  "set_bpf_map_input_request_direct request user_ptr user_len arg_index =
     (if user_ptr = 0 \<or> user_len = 0 then request
      else \<lparr>nbr_user_ptr = user_ptr, nbr_user_len = user_len, nbr_max_len = BPF_DIRECT_MAP_VALUE_MAX,
            nbr_storage_len = BPF_DIRECT_BYTES_BUCKET_512, nbr_arg_index = arg_index\<rparr>)"

text \<open>\<^verbatim>\<open>return request->user_ptr != 0\<close>, the request itself being an output.\<close>

definition filled_request :: "bpf_nested_bytes_capture_request \<Rightarrow> bpf_nested_bytes_capture_request option" where
  "filled_request request = (if nbr_user_ptr request \<noteq> 0 then Some request else None)"

definition read_bpf_map_key_input_request_direct ::
    "kernel \<Rightarrow> u64 \<Rightarrow> u64 \<Rightarrow> u16 \<Rightarrow> bpf_nested_bytes_capture_request option bpf" where
  "read_bpf_map_key_input_request_direct k attr_ptr attr_size arg_index =
     with_field (bpf_attr_read_u32_direct k attr_ptr attr_size BPF_DIRECT_MAP_FD_OFF) (return None) (\<lambda>map_fd.
     with_field (bpf_attr_read_u64_direct k attr_ptr attr_size BPF_DIRECT_MAP_KEY_OFF) (return None) (\<lambda>key.
       if key = 0 then return None
       else do {
         bmap \<leftarrow> lookup_current_bpf_map_direct k map_fd;
         if bmap = 0 then return None
         else do {
           key_size \<leftarrow> core_read k ''key_size'' bmap;
           return (filled_request (set_bpf_map_input_request_direct no_bytes_request key (ucast key_size) arg_index)) } }))"

definition read_bpf_map_lookup_key_input_request_direct ::
    "kernel \<Rightarrow> u64 \<Rightarrow> u64 \<Rightarrow> bpf_nested_bytes_capture_request option bpf" where
  "read_bpf_map_lookup_key_input_request_direct k attr_ptr attr_size =
     read_bpf_map_key_input_request_direct k attr_ptr attr_size BPF_DIRECT_MAP_LOOKUP_KEY_IN_ARG"

definition read_bpf_map_delete_elem_input_request_direct ::
    "kernel \<Rightarrow> u64 \<Rightarrow> u64 \<Rightarrow> bpf_nested_bytes_capture_request option bpf" where
  "read_bpf_map_delete_elem_input_request_direct k attr_ptr attr_size =
     read_bpf_map_key_input_request_direct k attr_ptr attr_size BPF_DIRECT_MAP_DELETE_KEY_IN_ARG"

definition read_bpf_map_delete_batch_input_request_direct ::
    "kernel \<Rightarrow> u64 \<Rightarrow> u64 \<Rightarrow> bpf_nested_bytes_capture_request option bpf" where
  "read_bpf_map_delete_batch_input_request_direct k attr_ptr attr_size =
     with_field (bpf_attr_read_u64_direct k attr_ptr attr_size BPF_DIRECT_MAP_BATCH_KEYS_OFF) (return None) (\<lambda>keys.
     with_field (bpf_attr_read_u32_direct k attr_ptr attr_size BPF_DIRECT_MAP_BATCH_COUNT_OFF) (return None) (\<lambda>count.
     with_field (bpf_attr_read_u32_direct k attr_ptr attr_size BPF_DIRECT_MAP_BATCH_FD_OFF) (return None) (\<lambda>map_fd.
       if count = 0 then return None
       else do {
         bmap \<leftarrow> lookup_current_bpf_map_direct k map_fd;
         if bmap = 0 then return None
         else do {
           key_size \<leftarrow> core_read k ''key_size'' bmap;
           return (filled_request (set_bpf_map_input_request_direct no_bytes_request keys
             (bpf_map_batch_buffer_len_direct count (ucast key_size)) BPF_DIRECT_MAP_BATCH_KEYS_IN_ARG)) } })))"

definition bpf_map_get_next_key_key_size_direct :: "kernel \<Rightarrow> u64 \<Rightarrow> u64 \<Rightarrow> u32 bpf" where
  "bpf_map_get_next_key_key_size_direct k attr_ptr attr_size =
     with_field (bpf_attr_read_u32_direct k attr_ptr attr_size BPF_DIRECT_MAP_FD_OFF) (return 0) (\<lambda>map_fd. do {
       bmap \<leftarrow> lookup_current_bpf_map_direct k map_fd;
       if bmap = 0 then return 0
       else do { key_size \<leftarrow> core_read k ''key_size'' bmap; return (ucast key_size) } })"

definition read_bpf_map_get_next_key_input_request_direct ::
    "kernel \<Rightarrow> u64 \<Rightarrow> u64 \<Rightarrow> bpf_nested_bytes_capture_request option bpf" where
  "read_bpf_map_get_next_key_input_request_direct k attr_ptr attr_size =
     with_field (bpf_attr_read_u32_direct k attr_ptr attr_size BPF_DIRECT_MAP_FD_OFF) (return None) (\<lambda>map_fd.
     with_field (bpf_attr_read_u64_direct k attr_ptr attr_size BPF_DIRECT_MAP_KEY_OFF) (return None) (\<lambda>key.
       if key = 0 then return None
       else do {
         key_size \<leftarrow> bpf_map_get_next_key_key_size_direct k attr_ptr attr_size;
         return (if key_size = 0 then None
           else filled_request (set_bpf_map_input_request_direct no_bytes_request key key_size
             BPF_DIRECT_MAP_GET_NEXT_KEY_KEY_IN_ARG)) }))"

record bpf_map_batch_input_requests =
  mbi_keys :: bpf_nested_bytes_capture_request
  mbi_values :: bpf_nested_bytes_capture_request

record bpf_map_elem_input_requests =
  mei_key :: bpf_nested_bytes_capture_request
  mei_value :: bpf_nested_bytes_capture_request

definition read_bpf_map_batch_input_requests_direct ::
    "kernel \<Rightarrow> u64 \<Rightarrow> u64 \<Rightarrow> bpf_map_batch_input_requests option bpf" where
  "read_bpf_map_batch_input_requests_direct k attr_ptr attr_size =
     with_field (bpf_attr_read_u64_direct k attr_ptr attr_size BPF_DIRECT_MAP_BATCH_KEYS_OFF) (return None) (\<lambda>keys.
     with_field (bpf_attr_read_u64_direct k attr_ptr attr_size BPF_DIRECT_MAP_BATCH_VALUES_OFF) (return None) (\<lambda>vals.
     with_field (bpf_attr_read_u32_direct k attr_ptr attr_size BPF_DIRECT_MAP_BATCH_COUNT_OFF) (return None) (\<lambda>count.
     with_field (bpf_attr_read_u32_direct k attr_ptr attr_size BPF_DIRECT_MAP_BATCH_FD_OFF) (return None) (\<lambda>map_fd.
     with_field (bpf_attr_read_u64_direct k attr_ptr attr_size BPF_DIRECT_MAP_BATCH_ELEM_FLAGS_OFF) (return None) (\<lambda>elem_flags.
       if count = 0 then return None
       else do {
         bmap \<leftarrow> lookup_current_bpf_map_direct k map_fd;
         if bmap = 0 then return None
         else do {
           key_size \<leftarrow> core_read k ''key_size'' bmap;
           value_size \<leftarrow> core_read k ''value_size'' bmap;
           effective_value_size \<leftarrow> bpf_map_effective_value_size_direct k bmap (ucast value_size) elem_flags;
           return (if effective_value_size = 0 then None
             else let key_request = set_bpf_map_input_request_direct no_bytes_request keys
                        (bpf_map_batch_buffer_len_direct count (ucast key_size)) BPF_DIRECT_MAP_BATCH_KEYS_IN_ARG;
                      value_request = set_bpf_map_input_request_direct no_bytes_request vals
                        (bpf_map_batch_buffer_len_direct count effective_value_size) BPF_DIRECT_MAP_BATCH_VALUES_IN_ARG
                  in if nbr_user_ptr key_request \<noteq> 0 \<or> nbr_user_ptr value_request \<noteq> 0
                     then Some \<lparr>mbi_keys = key_request, mbi_values = value_request\<rparr> else None) } })))))"

definition read_bpf_map_update_elem_input_requests_direct ::
    "kernel \<Rightarrow> u64 \<Rightarrow> u64 \<Rightarrow> bpf_map_elem_input_requests option bpf" where
  "read_bpf_map_update_elem_input_requests_direct k attr_ptr attr_size =
     with_field (bpf_attr_read_u32_direct k attr_ptr attr_size BPF_DIRECT_MAP_FD_OFF) (return None) (\<lambda>map_fd.
     with_field (bpf_attr_read_u64_direct k attr_ptr attr_size BPF_DIRECT_MAP_KEY_OFF) (return None) (\<lambda>key.
     with_field (bpf_attr_read_u64_direct k attr_ptr attr_size BPF_DIRECT_MAP_VALUE_OFF) (return None) (\<lambda>v. do {
       bmap \<leftarrow> lookup_current_bpf_map_direct k map_fd;
       if bmap = 0 then return None
       else do {
         key_size \<leftarrow> core_read k ''key_size'' bmap;
         value_size \<leftarrow> core_read k ''value_size'' bmap;
         effective_value_size \<leftarrow> bpf_map_effective_value_size_direct k bmap (ucast value_size) 0;
         return (if (ucast key_size :: u32) = 0 \<or> effective_value_size = 0 then None
           else let key_request = set_bpf_map_input_request_direct no_bytes_request key (ucast key_size)
                      BPF_DIRECT_MAP_UPDATE_KEY_IN_ARG;
                    value_request = set_bpf_map_input_request_direct no_bytes_request v effective_value_size
                      BPF_DIRECT_MAP_UPDATE_VALUE_IN_ARG
                in if nbr_user_ptr key_request \<noteq> 0 \<or> nbr_user_ptr value_request \<noteq> 0
                   then Some \<lparr>mei_key = key_request, mei_value = value_request\<rparr> else None) } })))"

section \<open>Frame\<close>

lemma with_field_frame [silent_intros, reports_intros, above_intros]:
  "silent k m \<Longrightarrow> silent k e \<Longrightarrow> (\<And>v. silent k (f v)) \<Longrightarrow> silent k (with_field m e f)"
  "reports m \<Longrightarrow> reports e \<Longrightarrow> (\<And>v. reports (f v)) \<Longrightarrow> reports (with_field m e f)"
  "above off m \<Longrightarrow> above off e \<Longrightarrow> (\<And>v. above off (f v)) \<Longrightarrow> above off (with_field m e f)"
  unfolding with_field_def by (intro silent_rules reports_rules above_rules | assumption)+

lemma attr_read_frame [silent_intros, reports_intros, above_intros]:
  "silent k (bpf_attr_read_u32_direct k' p n i)" "silent k (bpf_attr_read_u64_direct k' p n i)"
  "reports (bpf_attr_read_u32_direct k' p n i)" "reports (bpf_attr_read_u64_direct k' p n i)"
  "above off (bpf_attr_read_u32_direct k' p n i)" "above off (bpf_attr_read_u64_direct k' p n i)"
  unfolding bpf_attr_read_u32_direct_def bpf_attr_read_u64_direct_def
  by (intro silent_rules silent_intros reports_rules reports_intros above_rules above_intros)+

lemma map_lookup_frame [silent_intros, reports_intros, above_intros]:
  "silent k (lookup_current_bpf_map_direct k' fd)"
  "silent k (bpf_map_effective_value_size_direct k' m n fl)"
  "silent k (bpf_map_get_next_key_key_size_direct k' p len)"
  "reports (lookup_current_bpf_map_direct k' fd)"
  "reports (bpf_map_effective_value_size_direct k' m n fl)"
  "reports (bpf_map_get_next_key_key_size_direct k' p len)"
  "above off (lookup_current_bpf_map_direct k' fd)"
  "above off (bpf_map_effective_value_size_direct k' m n fl)"
  "above off (bpf_map_get_next_key_key_size_direct k' p len)"
  unfolding bpf_map_get_next_key_key_size_direct_def lookup_current_bpf_map_direct_def
    bpf_map_effective_value_size_direct_def bpf_runtime_possible_cpu_count_direct_def Let_def
  by (intro silent_rules silent_intros reports_rules reports_intros above_rules above_intros)+

lemma key_request_frame [silent_intros, reports_intros, above_intros]:
  "silent k (read_bpf_map_key_input_request_direct k' p n arg)"
  "reports (read_bpf_map_key_input_request_direct k' p n arg)"
  "above off (read_bpf_map_key_input_request_direct k' p n arg)"
  "silent k (read_bpf_map_get_next_key_input_request_direct k' p n)"
  "reports (read_bpf_map_get_next_key_input_request_direct k' p n)"
  "above off (read_bpf_map_get_next_key_input_request_direct k' p n)"
  "silent k (read_bpf_map_delete_batch_input_request_direct k' p n)"
  "reports (read_bpf_map_delete_batch_input_request_direct k' p n)"
  "above off (read_bpf_map_delete_batch_input_request_direct k' p n)"
  unfolding read_bpf_map_key_input_request_direct_def read_bpf_map_get_next_key_input_request_direct_def
    read_bpf_map_delete_batch_input_request_direct_def
  by (intro silent_rules silent_intros reports_rules reports_intros above_rules above_intros)+

lemma map_request_frame [silent_intros, reports_intros, above_intros]:
  "silent k (read_bpf_map_lookup_key_input_request_direct k' p n)"
  "reports (read_bpf_map_lookup_key_input_request_direct k' p n)"
  "above off (read_bpf_map_lookup_key_input_request_direct k' p n)"
  "silent k (read_bpf_map_delete_elem_input_request_direct k' p n)"
  "reports (read_bpf_map_delete_elem_input_request_direct k' p n)"
  "above off (read_bpf_map_delete_elem_input_request_direct k' p n)"
  "silent k (read_bpf_map_batch_input_requests_direct k' p n)"
  "reports (read_bpf_map_batch_input_requests_direct k' p n)"
  "above off (read_bpf_map_batch_input_requests_direct k' p n)"
  "silent k (read_bpf_map_update_elem_input_requests_direct k' p n)"
  "reports (read_bpf_map_update_elem_input_requests_direct k' p n)"
  "above off (read_bpf_map_update_elem_input_requests_direct k' p n)"
  unfolding read_bpf_map_lookup_key_input_request_direct_def read_bpf_map_delete_elem_input_request_direct_def
    read_bpf_map_batch_input_requests_direct_def read_bpf_map_update_elem_input_requests_direct_def
  by (intro silent_rules silent_intros reports_rules reports_intros above_rules above_intros)+

end
