(* ===== verification/Bpf_Command_Enter.thy ===== *)
theory Bpf_Command_Enter
  imports Bpf_Command_Abi
begin

text \<open>
  The enter records of \<^verbatim>\<open>bpf(2)\<close>: \<^verbatim>\<open>bpf/syscall_bpf_{,nested_,nested_capture_,prog_load_,multi_array_,
  kprobe_multi_,uprobe_multi_,tracing_multi_}direct_event_v2.h\<close>.  A record holds the attribute block of the
  command and what the pointers in it refer to.  These emitters fill header and body in place; the
  reservation they reach is the same as if both had been built on the stack and copied.
\<close>

abbreviation (input) BPF_DIRECT_ATTR_MAX :: nat where "BPF_DIRECT_ATTR_MAX \<equiv> 512"
abbreviation (input) BPF_DIRECT_KPROBE_SYM_RECORD_SIZE :: nat where
  "BPF_DIRECT_KPROBE_SYM_RECORD_SIZE \<equiv> 8 + 4 + BPF_DIRECT_KPROBE_SYM_DATA_MAX"
abbreviation (input) BPF_DIRECT_KPROBE_SYMS_MAX :: nat where
  "BPF_DIRECT_KPROBE_SYMS_MAX \<equiv> BPF_DIRECT_KPROBE_MULTI_MAX_ENTRIES * BPF_DIRECT_KPROBE_SYM_RECORD_SIZE"
abbreviation (input) BPF_DIRECT_MULTI_U32_ARRAY_MAX :: nat where
  "BPF_DIRECT_MULTI_U32_ARRAY_MAX \<equiv> BPF_DIRECT_MULTI_MAX_ENTRIES * 4"
abbreviation (input) BPF_DIRECT_MULTI_U64_ARRAY_MAX :: nat where
  "BPF_DIRECT_MULTI_U64_ARRAY_MAX \<equiv> BPF_DIRECT_MULTI_MAX_ENTRIES * 8"
abbreviation (input) BPF_DIRECT_NESTED_CAPACITY :: nat where
  "BPF_DIRECT_NESTED_CAPACITY \<equiv> 16 * PAYLOAD_TLV_HEADER_SIZE + BPF_DIRECT_OBJ_PATH_MAX +
     BPF_DIRECT_RAW_TRACEPOINT_NAME_MAX + BPF_DIRECT_BTF_MAX + BPF_DIRECT_LINK_ITER_INFO_MAX +
     BPF_DIRECT_KPROBE_SYMS_MAX + 2 * BPF_DIRECT_MULTI_U64_ARRAY_MAX + 2 * BPF_DIRECT_MAP_VALUE_MAX"
abbreviation (input) BPF_DIRECT_PROG_LOAD_BASE_CAPACITY :: nat where
  "BPF_DIRECT_PROG_LOAD_BASE_CAPACITY \<equiv> 4 * PAYLOAD_TLV_HEADER_SIZE + BPF_DIRECT_INSNS_MAX +
     BPF_DIRECT_LICENSE_MAX + BPF_DIRECT_LOG_BUF_MAX + BPF_DIRECT_SIGNATURE_MAX"
abbreviation (input) BPF_DIRECT_PROG_LOAD_DEBUG_CAPACITY :: nat where
  "BPF_DIRECT_PROG_LOAD_DEBUG_CAPACITY \<equiv> 4 * PAYLOAD_TLV_HEADER_SIZE + BPF_DIRECT_PROG_LOAD_FD_ARRAY_MAX +
     BPF_DIRECT_PROG_LOAD_FUNC_INFO_MAX + BPF_DIRECT_PROG_LOAD_LINE_INFO_MAX + BPF_DIRECT_PROG_LOAD_CORE_RELOS_MAX"
abbreviation (input) BPF_DIRECT_UPROBE_MULTI_PATH_MAX :: nat where
  "BPF_DIRECT_UPROBE_MULTI_PATH_MAX \<equiv> BPF_DIRECT_OBJ_PATH_MAX"
abbreviation (input) BPF_DIRECT_UPROBE_MULTI_CAPACITY :: nat where
  "BPF_DIRECT_UPROBE_MULTI_CAPACITY \<equiv> 4 * PAYLOAD_TLV_HEADER_SIZE + BPF_DIRECT_UPROBE_MULTI_PATH_MAX +
     3 * BPF_DIRECT_MULTI_U64_ARRAY_MAX"
abbreviation (input) BPF_DIRECT_TRACING_MULTI_CAPACITY :: nat where
  "BPF_DIRECT_TRACING_MULTI_CAPACITY \<equiv> 2 * PAYLOAD_TLV_HEADER_SIZE + BPF_DIRECT_MULTI_U32_ARRAY_MAX +
     BPF_DIRECT_MULTI_U64_ARRAY_MAX"

section \<open>Bytes and strings\<close>

definition capture_bpf_attr_tlv_direct :: "kernel \<Rightarrow> nat \<Rightarrow> u64 \<Rightarrow> u64 \<Rightarrow> u16 \<Rightarrow> (nat \<times> u16) bpf" where
  "capture_bpf_attr_tlv_direct k payload_offset user_ptr requested_len event_flags =
     (if user_ptr = 0 \<or> requested_len = 0 then return (0, event_flags)
      else let copied_len = unat (payload_tlv_copy_len requested_len (of_nat BPF_DIRECT_ATTR_MAX))
           in truncating_section k payload_offset PAYLOAD_TLV_KIND_BYTES 1 0 event_flags
                (payload_tlv_clamp_u32 requested_len) user_ptr
                (copy_user k BPF_DIRECT_ATTR_MAX copied_len copied_len user_ptr))"

definition capture_bpf_license_tlv_direct :: "kernel \<Rightarrow> nat \<Rightarrow> u64 \<Rightarrow> nat bpf" where
  "capture_bpf_license_tlv_direct k payload_offset user_ptr =
     (if user_ptr = 0 then return 0
      else sized_section k payload_offset PAYLOAD_TLV_KIND_STRING BPF_DIRECT_PROG_LOAD_LICENSE_ARG 0 user_ptr
        (copy_string k BPF_DIRECT_LICENSE_MAX BPF_DIRECT_LICENSE_MAX user_ptr))"

text \<open>The window is one of the buckets, so that its size is constant; any other request has none.\<close>

definition bpf_nested_bytes_storage_direct :: "nat \<Rightarrow> nat \<Rightarrow> bool bpf" where
  "bpf_nested_bytes_storage_direct data_offset storage_len =
     (if storage_len = BPF_DIRECT_BYTES_BUCKET_20 then bpf_dynptr_data data_offset BPF_DIRECT_BYTES_BUCKET_20
      else if storage_len = BPF_DIRECT_BYTES_BUCKET_64 then bpf_dynptr_data data_offset BPF_DIRECT_BYTES_BUCKET_64
      else if storage_len = BPF_DIRECT_BYTES_BUCKET_256 then bpf_dynptr_data data_offset BPF_DIRECT_BYTES_BUCKET_256
      else if storage_len = BPF_DIRECT_BYTES_BUCKET_512 then bpf_dynptr_data data_offset BPF_DIRECT_BYTES_BUCKET_512
      else return False)"

definition copy_bucket :: "kernel \<Rightarrow> nat \<Rightarrow> nat \<Rightarrow> u64 \<Rightarrow> nat \<Rightarrow> (nat \<times> s32) bpf" where
  "copy_bucket k storage_len copied_len user_ptr data_offset = do {
     payload_data \<leftarrow> bpf_nested_bytes_storage_direct data_offset storage_len;
     if \<not> payload_data then do { record_ringbuf_copy_fail k; return (0, -1) }
     else do {
       let n = min (min copied_len BPF_DIRECT_BYTES_BUCKET_512) storage_len;
       (err, bs) \<leftarrow> bpf_probe_read_user k n user_ptr;
       mem_store data_offset bs;
       if err < 0 then return (0, of_int err) else return (n, 0) } }"

definition capture_bpf_bytes_tlv_direct ::
    "kernel \<Rightarrow> nat \<Rightarrow> bpf_nested_bytes_capture_request \<Rightarrow> u16 \<Rightarrow> (nat \<times> u16) bpf" where
  "capture_bpf_bytes_tlv_direct k payload_offset request event_flags =
     (if nbr_user_ptr request = 0 \<or> nbr_user_len request = 0 \<or> nbr_max_len request = 0 \<or>
         nbr_storage_len request < nbr_max_len request
      then return (0, event_flags)
      else truncating_section k payload_offset PAYLOAD_TLV_KIND_BYTES (nbr_arg_index request) 0 event_flags
        (nbr_user_len request) (nbr_user_ptr request)
        (copy_bucket k (nbr_storage_len request)
          (unat (payload_tlv_copy_len (ucast (nbr_user_len request)) (of_nat (nbr_max_len request))))
          (nbr_user_ptr request)))"

definition capture_bpf_string_tlv_direct :: "kernel \<Rightarrow> nat \<Rightarrow> u64 \<Rightarrow> nat \<Rightarrow> u16 \<Rightarrow> nat bpf" where
  "capture_bpf_string_tlv_direct k payload_offset user_ptr max_len arg_index =
     (if user_ptr = 0 then return 0
      else sized_section k payload_offset PAYLOAD_TLV_KIND_STRING arg_index 0 user_ptr
        (copy_string k (if max_len = BPF_DIRECT_OBJ_PATH_MAX then BPF_DIRECT_OBJ_PATH_MAX
                        else BPF_DIRECT_RAW_TRACEPOINT_NAME_MAX) max_len user_ptr))"

definition capture_bpf_obj_pathname_tlv_direct :: "kernel \<Rightarrow> nat \<Rightarrow> u64 \<Rightarrow> u64 \<Rightarrow> nat bpf" where
  "capture_bpf_obj_pathname_tlv_direct k payload_offset attr_ptr attr_size =
     with_field (bpf_attr_read_u64_direct k attr_ptr attr_size 0) (return 0) (\<lambda>pathname.
       if pathname = 0 then return 0
       else capture_bpf_string_tlv_direct k payload_offset pathname BPF_DIRECT_OBJ_PATH_MAX BPF_DIRECT_OBJ_PATHNAME_ARG)"

definition capture_bpf_raw_tracepoint_name_tlv_direct :: "kernel \<Rightarrow> nat \<Rightarrow> u64 \<Rightarrow> u64 \<Rightarrow> nat bpf" where
  "capture_bpf_raw_tracepoint_name_tlv_direct k payload_offset attr_ptr attr_size =
     with_field (bpf_attr_read_u64_direct k attr_ptr attr_size 0) (return 0) (\<lambda>name.
       if name = 0 then return 0
       else capture_bpf_string_tlv_direct k payload_offset name BPF_DIRECT_RAW_TRACEPOINT_NAME_MAX
         BPF_DIRECT_RAW_TRACEPOINT_NAME_ARG)"

text \<open>A field of the attribute block that a section with flags depends on; nothing when it cannot be read.\<close>

definition on_field :: "'f option bpf \<Rightarrow> ('f \<Rightarrow> flag_capture) \<Rightarrow> flag_capture" where
  "on_field field body = (\<lambda>payload_offset event_flags.
     with_field field (return (0, event_flags)) (\<lambda>v. body v payload_offset event_flags))"

definition no_section :: flag_capture where
  "no_section = (\<lambda>payload_offset event_flags. return (0, event_flags))"

definition bytes_of :: "kernel \<Rightarrow> bpf_nested_bytes_capture_request \<Rightarrow> flag_capture" where
  "bytes_of k request = (\<lambda>payload_offset event_flags. capture_bpf_bytes_tlv_direct k payload_offset request event_flags)"

definition capture_bpf_btf_tlv_direct :: "kernel \<Rightarrow> nat \<Rightarrow> u64 \<Rightarrow> u64 \<Rightarrow> u16 \<Rightarrow> (nat \<times> u16) bpf" where
  "capture_bpf_btf_tlv_direct k payload_offset attr_ptr attr_size event_flags =
     on_field (bpf_attr_read_u64_direct k attr_ptr attr_size 0) (\<lambda>btf.
     on_field (bpf_attr_read_u32_direct k attr_ptr attr_size BPF_DIRECT_BTF_SIZE_OFF) (\<lambda>btf_size.
       if btf = 0 \<or> btf_size = 0 then no_section
       else bytes_of k \<lparr>nbr_user_ptr = btf, nbr_user_len = btf_size, nbr_max_len = BPF_DIRECT_BTF_MAX,
         nbr_storage_len = BPF_DIRECT_BYTES_BUCKET_256, nbr_arg_index = BPF_DIRECT_BTF_ARG\<rparr>))
     payload_offset event_flags"

definition capture_bpf_link_iter_info_tlv_direct :: "kernel \<Rightarrow> nat \<Rightarrow> u64 \<Rightarrow> u64 \<Rightarrow> u16 \<Rightarrow> (nat \<times> u16) bpf" where
  "capture_bpf_link_iter_info_tlv_direct k payload_offset attr_ptr attr_size event_flags =
     on_field (bpf_attr_read_u32_direct k attr_ptr attr_size BPF_DIRECT_LINK_CREATE_ATTACH_TYPE_OFF) (\<lambda>attach_type.
       if attach_type \<noteq> BPF_DIRECT_TRACE_ITER_ATTACH then no_section
       else
     on_field (bpf_attr_read_u64_direct k attr_ptr attr_size BPF_DIRECT_LINK_CREATE_ITER_INFO_OFF) (\<lambda>iter_info.
     on_field (bpf_attr_read_u32_direct k attr_ptr attr_size BPF_DIRECT_LINK_CREATE_ITER_INFO_LEN_OFF) (\<lambda>iter_info_len.
       if iter_info = 0 \<or> iter_info_len = 0 then no_section
       else if iter_info_len > 0x3fffffff then no_section
       else bytes_of k \<lparr>nbr_user_ptr = iter_info, nbr_user_len = iter_info_len * 4,
         nbr_max_len = BPF_DIRECT_LINK_ITER_INFO_MAX, nbr_storage_len = BPF_DIRECT_BYTES_BUCKET_20,
         nbr_arg_index = BPF_DIRECT_LINK_ITER_INFO_ARG\<rparr>)))
     payload_offset event_flags"

section \<open>Arrays of attach points\<close>

record bpf_multi_u64_array_capture_request =
  mu64_user_ptr :: u64
  mu64_count :: u32
  mu64_arg_index :: u16

record bpf_multi_u32_array_capture_request =
  mu32_user_ptr :: u64
  mu32_count :: u32
  mu32_arg_index :: u16

definition bpf_direct_multi_user_len :: "u32 \<Rightarrow> u32 \<Rightarrow> u32" where
  "bpf_direct_multi_user_len count elem_size =
     (if elem_size \<noteq> 0 \<and> count > 0xffffffff div elem_size then 0xffffffff else count * elem_size)"

definition bpf_direct_multi_copy_entries :: "u32 \<Rightarrow> u32" where
  "bpf_direct_multi_copy_entries count =
     (if count > of_nat BPF_DIRECT_MULTI_MAX_ENTRIES then of_nat BPF_DIRECT_MULTI_MAX_ENTRIES else count)"

definition multi_array :: "kernel \<Rightarrow> u32 \<Rightarrow> nat \<Rightarrow> u64 \<Rightarrow> u32 \<Rightarrow> u16 \<Rightarrow> flag_capture" where
  "multi_array k elem_size window user_ptr count arg_index = (\<lambda>payload_offset event_flags.
     if user_ptr = 0 \<or> count = 0 \<or> count > BPF_DIRECT_MULTI_COUNT_LIMIT then return (0, event_flags)
     else let copied_len = unat (bpf_direct_multi_copy_entries count * elem_size)
          in truncating_section k payload_offset PAYLOAD_TLV_KIND_BYTES arg_index 0 event_flags
               (bpf_direct_multi_user_len count elem_size) user_ptr
               (copy_user k window copied_len copied_len user_ptr))"

definition capture_bpf_multi_u32_array_tlv_direct ::
    "kernel \<Rightarrow> nat \<Rightarrow> bpf_multi_u32_array_capture_request \<Rightarrow> u16 \<Rightarrow> (nat \<times> u16) bpf" where
  "capture_bpf_multi_u32_array_tlv_direct k payload_offset request event_flags =
     multi_array k 4 BPF_DIRECT_MULTI_U32_ARRAY_MAX (mu32_user_ptr request) (mu32_count request)
       (mu32_arg_index request) payload_offset event_flags"

definition capture_bpf_multi_u64_array_tlv_direct ::
    "kernel \<Rightarrow> nat \<Rightarrow> bpf_multi_u64_array_capture_request \<Rightarrow> u16 \<Rightarrow> (nat \<times> u16) bpf" where
  "capture_bpf_multi_u64_array_tlv_direct k payload_offset request event_flags =
     multi_array k 8 BPF_DIRECT_MULTI_U64_ARRAY_MAX (mu64_user_ptr request) (mu64_count request)
       (mu64_arg_index request) payload_offset event_flags"

record bpf_direct_kprobe_sym_record =
  ksr_ptr :: u64
  ksr_len :: s32
  ksr_data :: bytes

definition enc_kprobe_sym :: "bpf_direct_kprobe_sym_record \<Rightarrow> bytes" where
  "enc_kprobe_sym r = le_bytes 8 (ksr_ptr r) @ le_bytes 4 (ksr_len r) @
     pad_bytes BPF_DIRECT_KPROBE_SYM_DATA_MAX (ksr_data r)"

text \<open>The record of the symbol in one slot: its address and the string there, or the error of the probe.\<close>

definition kprobe_sym :: "kernel \<Rightarrow> u64 \<Rightarrow> bpf_direct_kprobe_sym_record bpf" where
  "kprobe_sym k slot = do {
     (err, bs) \<leftarrow> bpf_probe_read_user k 8 slot;
     if err < 0 then return \<lparr>ksr_ptr = 0, ksr_len = of_int err, ksr_data = []\<rparr>
     else let sym_ptr = le_word bs
          in if sym_ptr = 0 then return \<lparr>ksr_ptr = sym_ptr, ksr_len = 0, ksr_data = []\<rparr>
             else do {
               (n, data) \<leftarrow> bpf_probe_read_user_str k BPF_DIRECT_KPROBE_SYM_DATA_MAX sym_ptr;
               return \<lparr>ksr_ptr = sym_ptr, ksr_len = of_int n, ksr_data = data\<rparr> } }"

text \<open>The unrolled loop; \<open>False\<close> when a record does not fit.\<close>

primrec kprobe_syms_loop :: "kernel \<Rightarrow> u64 \<Rightarrow> u32 \<Rightarrow> nat \<Rightarrow> nat list \<Rightarrow> bool bpf" where
  "kprobe_syms_loop k syms copied_entries data_offset [] = return True"
| "kprobe_syms_loop k syms copied_entries data_offset (i # is) =
     (if of_nat i < copied_entries then do {
        sym \<leftarrow> kprobe_sym k (syms + of_nat i * 8);
        ok \<leftarrow> bpf_dynptr_write (data_offset + i * BPF_DIRECT_KPROBE_SYM_RECORD_SIZE) (enc_kprobe_sym sym);
        if \<not> ok then do { record_ringbuf_copy_fail k; return False }
        else kprobe_syms_loop k syms copied_entries data_offset is }
      else kprobe_syms_loop k syms copied_entries data_offset is)"

definition capture_bpf_kprobe_syms_tlv_direct ::
    "kernel \<Rightarrow> nat \<Rightarrow> u64 \<Rightarrow> u32 \<Rightarrow> u16 \<Rightarrow> (nat \<times> u16) bpf" where
  "capture_bpf_kprobe_syms_tlv_direct k payload_offset syms count event_flags =
     (if syms = 0 \<or> count = 0 \<or> count > BPF_DIRECT_MULTI_COUNT_LIMIT then return (0, event_flags)
      else do {
        let copied_entries = bpf_direct_multi_copy_entries count;
        let copied_len = unat (copied_entries * of_nat BPF_DIRECT_KPROBE_SYM_RECORD_SIZE);
        ok \<leftarrow> kprobe_syms_loop k syms copied_entries (payload_offset + PAYLOAD_TLV_HEADER_SIZE)
          [0..<BPF_DIRECT_KPROBE_MULTI_MAX_ENTRIES];
        if \<not> ok then return (0, event_flags)
        else truncating_section k payload_offset PAYLOAD_TLV_KIND_BYTES BPF_DIRECT_KPROBE_MULTI_SYMS_ARG 0 event_flags
          (bpf_direct_multi_user_len count (of_nat BPF_DIRECT_KPROBE_SYM_RECORD_SIZE)) syms
          (\<lambda>data_offset. return (copied_len, 0)) })"

definition capture_bpf_kprobe_multi_tlv_direct :: "kernel \<Rightarrow> nat \<Rightarrow> u64 \<Rightarrow> u64 \<Rightarrow> u16 \<Rightarrow> (nat \<times> u16) bpf" where
  "capture_bpf_kprobe_multi_tlv_direct k payload_offset attr_ptr attr_size event_flags =
     on_field (bpf_attr_read_u32_direct k attr_ptr attr_size BPF_DIRECT_LINK_CREATE_ATTACH_TYPE_OFF) (\<lambda>attach_type.
       if attach_type \<noteq> BPF_DIRECT_TRACE_KPROBE_MULTI_ATTACH then no_section
       else
     on_field (bpf_attr_read_u32_direct k attr_ptr attr_size BPF_DIRECT_LINK_CREATE_KPROBE_CNT_OFF) (\<lambda>count.
     on_field (bpf_attr_read_u64_direct k attr_ptr attr_size BPF_DIRECT_LINK_CREATE_KPROBE_SYMS_OFF) (\<lambda>syms.
     on_field (bpf_attr_read_u64_direct k attr_ptr attr_size BPF_DIRECT_LINK_CREATE_KPROBE_ADDRS_OFF) (\<lambda>addrs.
     on_field (bpf_attr_read_u64_direct k attr_ptr attr_size BPF_DIRECT_LINK_CREATE_KPROBE_COOKIES_OFF) (\<lambda>cookies.
       flag_sections
         [\<lambda>off ef. capture_bpf_kprobe_syms_tlv_direct k off syms count ef,
          \<lambda>off ef. capture_bpf_multi_u64_array_tlv_direct k off
            \<lparr>mu64_user_ptr = addrs, mu64_count = count, mu64_arg_index = BPF_DIRECT_KPROBE_MULTI_ADDRS_ARG\<rparr> ef,
          \<lambda>off ef. capture_bpf_multi_u64_array_tlv_direct k off
            \<lparr>mu64_user_ptr = cookies, mu64_count = count, mu64_arg_index = BPF_DIRECT_KPROBE_MULTI_COOKIES_ARG\<rparr> ef])))))
     payload_offset event_flags"

definition is_bpf_uprobe_multi_enter_direct :: "kernel \<Rightarrow> sys_enter_ctx \<Rightarrow> bool bpf" where
  "is_bpf_uprobe_multi_enter_direct k ctx =
     (if arg0 (sec_args ctx) \<noteq> BPF_DIRECT_LINK_CREATE then return False
      else with_field (bpf_attr_read_u32_direct k (arg1 (sec_args ctx)) (arg2 (sec_args ctx))
          BPF_DIRECT_LINK_CREATE_ATTACH_TYPE_OFF) (return False)
        (\<lambda>attach_type. return (attach_type = BPF_DIRECT_TRACE_UPROBE_MULTI_ATTACH)))"

definition capture_bpf_uprobe_multi_path_tlv_direct :: "kernel \<Rightarrow> nat \<Rightarrow> u64 \<Rightarrow> u64 \<Rightarrow> nat bpf" where
  "capture_bpf_uprobe_multi_path_tlv_direct k payload_offset attr_ptr attr_size =
     with_field (bpf_attr_read_u64_direct k attr_ptr attr_size BPF_DIRECT_LINK_CREATE_UPROBE_PATH_OFF) (return 0) (\<lambda>path.
       if path = 0 then return 0
       else capture_bpf_string_tlv_direct k payload_offset path BPF_DIRECT_UPROBE_MULTI_PATH_MAX
         BPF_DIRECT_UPROBE_MULTI_PATH_ARG)"

definition capture_bpf_uprobe_multi_tlv_direct :: "kernel \<Rightarrow> nat \<Rightarrow> u64 \<Rightarrow> u64 \<Rightarrow> u16 \<Rightarrow> (nat \<times> u16) bpf" where
  "capture_bpf_uprobe_multi_tlv_direct k payload_offset attr_ptr attr_size event_flags =
     on_field (bpf_attr_read_u32_direct k attr_ptr attr_size BPF_DIRECT_LINK_CREATE_ATTACH_TYPE_OFF) (\<lambda>attach_type.
       if attach_type \<noteq> BPF_DIRECT_TRACE_UPROBE_MULTI_ATTACH then no_section
       else
     on_field (bpf_attr_read_u32_direct k attr_ptr attr_size BPF_DIRECT_LINK_CREATE_UPROBE_CNT_OFF) (\<lambda>count.
     on_field (bpf_attr_read_u64_direct k attr_ptr attr_size BPF_DIRECT_LINK_CREATE_UPROBE_OFFSETS_OFF) (\<lambda>offsets.
     on_field (bpf_attr_read_u64_direct k attr_ptr attr_size BPF_DIRECT_LINK_CREATE_UPROBE_REF_CTR_OFFSETS_OFF) (\<lambda>ref_ctr_offsets.
     on_field (bpf_attr_read_u64_direct k attr_ptr attr_size BPF_DIRECT_LINK_CREATE_UPROBE_COOKIES_OFF) (\<lambda>cookies.
       flag_sections
         [unmarked (\<lambda>off. capture_bpf_uprobe_multi_path_tlv_direct k off attr_ptr attr_size),
          \<lambda>off ef. capture_bpf_multi_u64_array_tlv_direct k off
            \<lparr>mu64_user_ptr = offsets, mu64_count = count, mu64_arg_index = BPF_DIRECT_UPROBE_MULTI_OFFSETS_ARG\<rparr> ef,
          \<lambda>off ef. capture_bpf_multi_u64_array_tlv_direct k off
            \<lparr>mu64_user_ptr = ref_ctr_offsets, mu64_count = count,
             mu64_arg_index = BPF_DIRECT_UPROBE_MULTI_REF_CTR_OFFSETS_ARG\<rparr> ef,
          \<lambda>off ef. capture_bpf_multi_u64_array_tlv_direct k off
            \<lparr>mu64_user_ptr = cookies, mu64_count = count, mu64_arg_index = BPF_DIRECT_UPROBE_MULTI_COOKIES_ARG\<rparr> ef])))))
     payload_offset event_flags"

definition is_tracing_multi_attach :: "u32 \<Rightarrow> bool" where
  "is_tracing_multi_attach attach_type \<longleftrightarrow>
     attach_type = BPF_DIRECT_TRACE_FENTRY_MULTI_ATTACH \<or> attach_type = BPF_DIRECT_TRACE_FEXIT_MULTI_ATTACH \<or>
     attach_type = BPF_DIRECT_TRACE_FSESSION_MULTI_ATTACH"

definition is_bpf_tracing_multi_enter_direct :: "kernel \<Rightarrow> sys_enter_ctx \<Rightarrow> bool bpf" where
  "is_bpf_tracing_multi_enter_direct k ctx =
     (if arg0 (sec_args ctx) \<noteq> BPF_DIRECT_LINK_CREATE then return False
      else with_field (bpf_attr_read_u32_direct k (arg1 (sec_args ctx)) (arg2 (sec_args ctx))
          BPF_DIRECT_LINK_CREATE_ATTACH_TYPE_OFF) (return False)
        (\<lambda>attach_type. return (is_tracing_multi_attach attach_type)))"

definition capture_bpf_tracing_multi_tlv_direct :: "kernel \<Rightarrow> nat \<Rightarrow> u64 \<Rightarrow> u64 \<Rightarrow> u16 \<Rightarrow> (nat \<times> u16) bpf" where
  "capture_bpf_tracing_multi_tlv_direct k payload_offset attr_ptr attr_size event_flags =
     on_field (bpf_attr_read_u32_direct k attr_ptr attr_size BPF_DIRECT_LINK_CREATE_ATTACH_TYPE_OFF) (\<lambda>attach_type.
       if \<not> is_tracing_multi_attach attach_type then no_section
       else
     on_field (bpf_attr_read_u64_direct k attr_ptr attr_size BPF_DIRECT_LINK_CREATE_TRACING_MULTI_IDS_OFF) (\<lambda>ids.
     on_field (bpf_attr_read_u64_direct k attr_ptr attr_size BPF_DIRECT_LINK_CREATE_TRACING_MULTI_COOKIES_OFF) (\<lambda>cookies.
     on_field (bpf_attr_read_u32_direct k attr_ptr attr_size BPF_DIRECT_LINK_CREATE_TRACING_MULTI_CNT_OFF) (\<lambda>count.
       flag_sections
         [\<lambda>off ef. capture_bpf_multi_u32_array_tlv_direct k off
            \<lparr>mu32_user_ptr = ids, mu32_count = count, mu32_arg_index = BPF_DIRECT_TRACING_MULTI_IDS_ARG\<rparr> ef,
          \<lambda>off ef. capture_bpf_multi_u64_array_tlv_direct k off
            \<lparr>mu64_user_ptr = cookies, mu64_count = count, mu64_arg_index = BPF_DIRECT_TRACING_MULTI_COOKIES_ARG\<rparr> ef]))))
     payload_offset event_flags"

section \<open>Program loads\<close>

definition is_bpf_prog_load_enter_direct :: "sys_enter_ctx \<Rightarrow> bool" where
  "is_bpf_prog_load_enter_direct ctx \<longleftrightarrow> arg0 (sec_args ctx) = BPF_DIRECT_PROG_LOAD"

definition capture_bpf_prog_load_insns_tlv_direct ::
    "kernel \<Rightarrow> nat \<Rightarrow> u64 \<Rightarrow> u32 \<Rightarrow> u16 \<Rightarrow> (nat \<times> u16) bpf" where
  "capture_bpf_prog_load_insns_tlv_direct k payload_offset insns insn_cnt event_flags =
     (if insns = 0 \<or> insn_cnt = 0 \<or> insn_cnt > 0x1fffffff then return (0, event_flags)
      else capture_bpf_bytes_tlv_direct k payload_offset
        \<lparr>nbr_user_ptr = insns, nbr_user_len = insn_cnt * 8, nbr_max_len = BPF_DIRECT_INSNS_MAX,
         nbr_storage_len = BPF_DIRECT_BYTES_BUCKET_512, nbr_arg_index = BPF_DIRECT_PROG_LOAD_INSNS_ARG\<rparr> event_flags)"

definition capture_bpf_prog_load_fd_array_tlv_direct ::
    "kernel \<Rightarrow> nat \<Rightarrow> u64 \<Rightarrow> u64 \<Rightarrow> u16 \<Rightarrow> (nat \<times> u16) bpf" where
  "capture_bpf_prog_load_fd_array_tlv_direct k payload_offset attr_ptr attr_size event_flags =
     on_field (bpf_attr_read_u64_direct k attr_ptr attr_size BPF_DIRECT_PROG_LOAD_FD_ARRAY_OFF) (\<lambda>fd_array.
     on_field (bpf_attr_read_u32_direct k attr_ptr attr_size BPF_DIRECT_PROG_LOAD_FD_ARRAY_CNT_OFF) (\<lambda>fd_array_cnt.
       if fd_array = 0 \<or> fd_array_cnt = 0 \<or> fd_array_cnt > 0xffffffff div 4 then no_section
       else bytes_of k \<lparr>nbr_user_ptr = fd_array, nbr_user_len = fd_array_cnt * 4,
         nbr_max_len = BPF_DIRECT_PROG_LOAD_FD_ARRAY_MAX, nbr_storage_len = BPF_DIRECT_BYTES_BUCKET_512,
         nbr_arg_index = BPF_DIRECT_PROG_LOAD_FD_ARRAY_ARG\<rparr>))
     payload_offset event_flags"

text \<open>
  The arrays of debug records: record size, pointer and count are read in this order; the length is their
  product, and a product above 32 bits drops the section.
\<close>

definition debug_records ::
    "kernel \<Rightarrow> u64 \<Rightarrow> u64 \<Rightarrow> u64 \<Rightarrow> u64 \<Rightarrow> u64 \<Rightarrow> u32 \<Rightarrow> nat \<Rightarrow> u16 \<Rightarrow> flag_capture" where
  "debug_records k attr_ptr attr_size rec_size_off ptr_off count_off min_size max_len arg_index =
     on_field (bpf_attr_read_u32_direct k attr_ptr attr_size rec_size_off) (\<lambda>rec_size.
     on_field (bpf_attr_read_u64_direct k attr_ptr attr_size ptr_off) (\<lambda>records.
     on_field (bpf_attr_read_u32_direct k attr_ptr attr_size count_off) (\<lambda>count.
       if records = 0 \<or> rec_size < min_size \<or> count = 0 then no_section
       else let user_len = (ucast rec_size * ucast count :: u64)
            in if user_len > 0xffffffff then no_section
               else bytes_of k \<lparr>nbr_user_ptr = records, nbr_user_len = ucast user_len, nbr_max_len = max_len,
                 nbr_storage_len = BPF_DIRECT_BYTES_BUCKET_512, nbr_arg_index = arg_index\<rparr>)))"

definition capture_bpf_prog_load_func_info_tlv_direct ::
    "kernel \<Rightarrow> nat \<Rightarrow> u64 \<Rightarrow> u64 \<Rightarrow> u16 \<Rightarrow> (nat \<times> u16) bpf" where
  "capture_bpf_prog_load_func_info_tlv_direct k payload_offset attr_ptr attr_size event_flags =
     debug_records k attr_ptr attr_size BPF_DIRECT_PROG_LOAD_FUNC_INFO_REC_SIZE_OFF BPF_DIRECT_PROG_LOAD_FUNC_INFO_OFF
       BPF_DIRECT_PROG_LOAD_FUNC_INFO_CNT_OFF 1 BPF_DIRECT_PROG_LOAD_FUNC_INFO_MAX BPF_DIRECT_PROG_LOAD_FUNC_INFO_ARG
       payload_offset event_flags"

definition capture_bpf_prog_load_line_info_tlv_direct ::
    "kernel \<Rightarrow> nat \<Rightarrow> u64 \<Rightarrow> u64 \<Rightarrow> u16 \<Rightarrow> (nat \<times> u16) bpf" where
  "capture_bpf_prog_load_line_info_tlv_direct k payload_offset attr_ptr attr_size event_flags =
     debug_records k attr_ptr attr_size BPF_DIRECT_PROG_LOAD_LINE_INFO_REC_SIZE_OFF BPF_DIRECT_PROG_LOAD_LINE_INFO_OFF
       BPF_DIRECT_PROG_LOAD_LINE_INFO_CNT_OFF 16 BPF_DIRECT_PROG_LOAD_LINE_INFO_MAX BPF_DIRECT_PROG_LOAD_LINE_INFO_ARG
       payload_offset event_flags"

definition capture_bpf_prog_load_core_relos_tlv_direct ::
    "kernel \<Rightarrow> nat \<Rightarrow> u64 \<Rightarrow> u64 \<Rightarrow> u16 \<Rightarrow> (nat \<times> u16) bpf" where
  "capture_bpf_prog_load_core_relos_tlv_direct k payload_offset attr_ptr attr_size event_flags =
     debug_records k attr_ptr attr_size BPF_DIRECT_PROG_LOAD_CORE_RELO_REC_SIZE_OFF BPF_DIRECT_PROG_LOAD_CORE_RELOS_OFF
       BPF_DIRECT_PROG_LOAD_CORE_RELO_CNT_OFF 16 BPF_DIRECT_PROG_LOAD_CORE_RELOS_MAX BPF_DIRECT_PROG_LOAD_CORE_RELOS_ARG
       payload_offset event_flags"

text \<open>A buffer given by a length field and a pointer field, read in this order.\<close>

definition sized_buffer ::
    "kernel \<Rightarrow> u64 \<Rightarrow> u64 \<Rightarrow> u64 \<Rightarrow> u64 \<Rightarrow> (u64 \<Rightarrow> u32 \<Rightarrow> flag_capture) \<Rightarrow> flag_capture" where
  "sized_buffer k attr_ptr attr_size len_off ptr_off body =
     on_field (bpf_attr_read_u32_direct k attr_ptr attr_size len_off) (\<lambda>len.
     on_field (bpf_attr_read_u64_direct k attr_ptr attr_size ptr_off) (\<lambda>buf. body buf len))"

definition capture_bpf_prog_load_nested_tlv_direct ::
    "kernel \<Rightarrow> nat \<Rightarrow> u64 \<Rightarrow> u64 \<Rightarrow> u16 \<Rightarrow> (nat \<times> u16) bpf" where
  "capture_bpf_prog_load_nested_tlv_direct k payload_offset attr_ptr attr_size event_flags =
     flag_sections
       [sized_buffer k attr_ptr attr_size BPF_DIRECT_PROG_LOAD_INSN_CNT_OFF BPF_DIRECT_PROG_LOAD_INSNS_OFF
          (\<lambda>insns insn_cnt off ef. capture_bpf_prog_load_insns_tlv_direct k off insns insn_cnt ef),
        on_field (bpf_attr_read_u64_direct k attr_ptr attr_size BPF_DIRECT_PROG_LOAD_LICENSE_OFF) (\<lambda>license_ptr.
          unmarked (\<lambda>off. capture_bpf_license_tlv_direct k off license_ptr)),
        sized_buffer k attr_ptr attr_size BPF_DIRECT_PROG_LOAD_LOG_SIZE_OFF BPF_DIRECT_PROG_LOAD_LOG_BUF_OFF
          (\<lambda>log_buf log_size. bytes_of k \<lparr>nbr_user_ptr = log_buf, nbr_user_len = log_size,
             nbr_max_len = BPF_DIRECT_LOG_BUF_MAX, nbr_storage_len = BPF_DIRECT_BYTES_BUCKET_256,
             nbr_arg_index = BPF_DIRECT_PROG_LOAD_LOG_BUF_ARG\<rparr>),
        sized_buffer k attr_ptr attr_size BPF_DIRECT_PROG_LOAD_SIGNATURE_SIZE_OFF BPF_DIRECT_PROG_LOAD_SIGNATURE_OFF
          (\<lambda>signature signature_size. bytes_of k \<lparr>nbr_user_ptr = signature, nbr_user_len = signature_size,
             nbr_max_len = BPF_DIRECT_SIGNATURE_MAX, nbr_storage_len = BPF_DIRECT_BYTES_BUCKET_256,
             nbr_arg_index = BPF_DIRECT_PROG_LOAD_SIGNATURE_ARG\<rparr>)]
       payload_offset event_flags"

definition capture_bpf_prog_load_debug_nested_tlv_direct ::
    "kernel \<Rightarrow> nat \<Rightarrow> u64 \<Rightarrow> u64 \<Rightarrow> u16 \<Rightarrow> (nat \<times> u16) bpf" where
  "capture_bpf_prog_load_debug_nested_tlv_direct k payload_offset attr_ptr attr_size event_flags =
     flag_sections
       [\<lambda>off ef. capture_bpf_prog_load_fd_array_tlv_direct k off attr_ptr attr_size ef,
        \<lambda>off ef. capture_bpf_prog_load_func_info_tlv_direct k off attr_ptr attr_size ef,
        \<lambda>off ef. capture_bpf_prog_load_line_info_tlv_direct k off attr_ptr attr_size ef,
        \<lambda>off ef. capture_bpf_prog_load_core_relos_tlv_direct k off attr_ptr attr_size ef]
       payload_offset event_flags"

section \<open>Map inputs\<close>

definition capture_bpf_map_lookup_key_input_tlv_direct ::
    "kernel \<Rightarrow> nat \<Rightarrow> bpf_nested_bytes_capture_request \<Rightarrow> u16 \<Rightarrow> (nat \<times> u16) bpf" where
  "capture_bpf_map_lookup_key_input_tlv_direct k payload_offset request event_flags =
     capture_bpf_bytes_tlv_direct k payload_offset request event_flags"

definition capture_bpf_map_delete_batch_input_tlv_direct ::
    "kernel \<Rightarrow> nat \<Rightarrow> bpf_nested_bytes_capture_request \<Rightarrow> u16 \<Rightarrow> (nat \<times> u16) bpf" where
  "capture_bpf_map_delete_batch_input_tlv_direct k payload_offset request event_flags =
     capture_bpf_bytes_tlv_direct k payload_offset request event_flags"

definition capture_bpf_map_delete_elem_input_tlv_direct ::
    "kernel \<Rightarrow> nat \<Rightarrow> bpf_nested_bytes_capture_request \<Rightarrow> u16 \<Rightarrow> (nat \<times> u16) bpf" where
  "capture_bpf_map_delete_elem_input_tlv_direct k payload_offset request event_flags =
     capture_bpf_bytes_tlv_direct k payload_offset request event_flags"

definition capture_bpf_map_batch_inputs_tlv_direct ::
    "kernel \<Rightarrow> nat \<Rightarrow> bpf_map_batch_input_requests \<Rightarrow> u16 \<Rightarrow> (nat \<times> u16) bpf" where
  "capture_bpf_map_batch_inputs_tlv_direct k payload_offset requests event_flags =
     flag_sections [bytes_of k (mbi_keys requests), bytes_of k (mbi_values requests)] payload_offset event_flags"

definition capture_bpf_map_batch_input_tlv_direct ::
    "kernel \<Rightarrow> nat \<Rightarrow> u64 \<Rightarrow> u64 \<Rightarrow> u16 \<Rightarrow> (nat \<times> u16) bpf" where
  "capture_bpf_map_batch_input_tlv_direct k payload_offset attr_ptr attr_size event_flags =
     on_field (read_bpf_map_batch_input_requests_direct k attr_ptr attr_size) (\<lambda>requests off ef.
       capture_bpf_map_batch_inputs_tlv_direct k off requests ef) payload_offset event_flags"

definition capture_bpf_map_update_elem_inputs_tlv_direct ::
    "kernel \<Rightarrow> nat \<Rightarrow> bpf_map_elem_input_requests \<Rightarrow> u16 \<Rightarrow> (nat \<times> u16) bpf" where
  "capture_bpf_map_update_elem_inputs_tlv_direct k payload_offset requests event_flags =
     flag_sections [bytes_of k (mei_key requests), bytes_of k (mei_value requests)] payload_offset event_flags"

definition capture_bpf_nested_tlv_direct :: "kernel \<Rightarrow> nat \<Rightarrow> u64 \<Rightarrow> u64 \<Rightarrow> u64 \<Rightarrow> u16 \<Rightarrow> (nat \<times> u16) bpf" where
  "capture_bpf_nested_tlv_direct k payload_offset cmd attr_ptr attr_size event_flags =
     (if cmd = BPF_DIRECT_OBJ_PIN \<or> cmd = BPF_DIRECT_OBJ_GET then
        unmarked (\<lambda>off. capture_bpf_obj_pathname_tlv_direct k off attr_ptr attr_size)
      else if cmd = BPF_DIRECT_RAW_TRACEPOINT_OPEN then
        unmarked (\<lambda>off. capture_bpf_raw_tracepoint_name_tlv_direct k off attr_ptr attr_size)
      else if cmd = BPF_DIRECT_BTF_LOAD then
        (\<lambda>off ef. capture_bpf_btf_tlv_direct k off attr_ptr attr_size ef)
      else if cmd = BPF_DIRECT_LINK_CREATE then
        flag_sections
          [\<lambda>off ef. capture_bpf_link_iter_info_tlv_direct k off attr_ptr attr_size ef,
           \<lambda>off ef. capture_bpf_kprobe_multi_tlv_direct k off attr_ptr attr_size ef]
      else if cmd = BPF_DIRECT_MAP_GET_NEXT_KEY then
        on_field (read_bpf_map_get_next_key_input_request_direct k attr_ptr attr_size) (bytes_of k)
      else if cmd = BPF_DIRECT_MAP_LOOKUP_ELEM \<or> cmd = BPF_DIRECT_MAP_LOOKUP_AND_DELETE_ELEM then
        on_field (read_bpf_map_lookup_key_input_request_direct k attr_ptr attr_size) (\<lambda>request off ef.
          capture_bpf_map_lookup_key_input_tlv_direct k off request ef)
      else if cmd = BPF_DIRECT_MAP_UPDATE_ELEM then
        on_field (read_bpf_map_update_elem_input_requests_direct k attr_ptr attr_size) (\<lambda>requests off ef.
          capture_bpf_map_update_elem_inputs_tlv_direct k off requests ef)
      else if cmd = BPF_DIRECT_MAP_UPDATE_BATCH then
        (\<lambda>off ef. capture_bpf_map_batch_input_tlv_direct k off attr_ptr attr_size ef)
      else if cmd = BPF_DIRECT_MAP_DELETE_BATCH then
        on_field (read_bpf_map_delete_batch_input_request_direct k attr_ptr attr_size) (\<lambda>request off ef.
          capture_bpf_map_delete_batch_input_tlv_direct k off request ef)
      else if cmd = BPF_DIRECT_MAP_DELETE_ELEM then
        on_field (read_bpf_map_delete_elem_input_request_direct k attr_ptr attr_size) (\<lambda>request off ef.
          capture_bpf_map_delete_elem_input_tlv_direct k off request ef)
      else no_section)
     payload_offset event_flags"

section \<open>Records\<close>

text \<open>
  The end of an emitter that fills the header in place.  The body is written through a pointer into the
  reservation, one store per assignment of \<^verbatim>\<open>init_syscall_enter_event_v2_from_ctx\<close>, or copied from the stack.
\<close>

definition init_syscall_enter_event_v2_in_place :: "nat \<Rightarrow> sys_enter_ctx \<Rightarrow> u32 \<Rightarrow> s64 \<Rightarrow> s32 \<Rightarrow> s32 \<Rightarrow> unit bpf" where
  "init_syscall_enter_event_v2_in_place body ctx payload_size ret_value probe_ret_enter probe_ret_exit = do {
     mem_store body (le_bytes 8 ret_value);
     mem_store (body + 8) (le_bytes 4 probe_ret_enter);
     mem_store (body + 12) (le_bytes 4 probe_ret_exit);
     mem_store (body + 16) (le_bytes 8 (arg0 (sec_args ctx)));
     mem_store (body + 24) (le_bytes 8 (arg1 (sec_args ctx)));
     mem_store (body + 32) (le_bytes 8 (arg2 (sec_args ctx)));
     mem_store (body + 40) (le_bytes 8 (arg3 (sec_args ctx)));
     mem_store (body + 48) (le_bytes 8 (arg4 (sec_args ctx)));
     mem_store (body + 56) (le_bytes 8 (arg5 (sec_args ctx)));
     mem_store (body + 64) (le_bytes 4 payload_size);
     mem_store (body + 68) (le_bytes 4 (0 :: u32)) }"

definition body_in_place :: "kernel \<Rightarrow> sys_enter_ctx \<Rightarrow> u32 \<Rightarrow> unit bpf" where
  "body_in_place k ctx payload_size = do {
     ok \<leftarrow> bpf_dynptr_data EVENT_V2_HEADER_LEN EVENT_V2_ENTER_BODY_LEN;
     if \<not> ok then do { record_ringbuf_copy_fail k; bpf_ringbuf_discard }
     else do {
       init_syscall_enter_event_v2_in_place EVENT_V2_HEADER_LEN ctx payload_size 0 (-1) (-1);
       bpf_ringbuf_submit } }"

definition body_by_copy :: "kernel \<Rightarrow> sys_enter_ctx \<Rightarrow> u32 \<Rightarrow> unit bpf" where
  "body_by_copy k ctx payload_size = do {
     ok \<leftarrow> bpf_dynptr_write EVENT_V2_HEADER_LEN
       (enc_enter_body (init_syscall_enter_event_v2_from_ctx ctx payload_size 0 (-1) (-1)));
     if \<not> ok then do { record_ringbuf_copy_fail k; bpf_ringbuf_discard }
     else bpf_ringbuf_submit }"

definition commit_in_place :: "kernel \<Rightarrow> u64 \<Rightarrow> unit bpf \<Rightarrow> unit bpf \<Rightarrow> unit bpf" where
  "commit_in_place k sequence init finish = do {
     ok \<leftarrow> event_v2_header_from_dynptr_direct k sequence;
     if \<not> ok then bpf_ringbuf_discard else do { init; finish } }"

definition emit_enter_in_place ::
    "(kernel \<Rightarrow> sys_enter_ctx \<Rightarrow> u32 \<Rightarrow> unit bpf) \<Rightarrow> kernel \<Rightarrow> u32 \<Rightarrow> u32 \<Rightarrow> u32 \<Rightarrow> sys_enter_ctx \<Rightarrow> u64 \<Rightarrow> u16 \<Rightarrow> nat \<Rightarrow>
       flag_capture \<Rightarrow> unit bpf" where
  "emit_enter_in_place finish k pid tid sys_id ctx ts_ns enter_flags payload_capacity capture =
     (let payload_offset = EVENT_V2_HEADER_LEN + EVENT_V2_ENTER_BODY_LEN;
          out_size = payload_offset + payload_capacity
      in with_reservation k out_size (\<lambda>sequence. do {
           (payload_size, flags) \<leftarrow> capture payload_offset enter_flags;
           commit_in_place k sequence
             (init_syscall_event_v2_header_in_place k EVENT_TYPE_ENTER (payload_flags payload_size flags)
                pid tid sys_id out_size ts_ns)
             (finish k ctx (of_nat payload_size)) }))"

definition emit_bpf_enter_event_v2_direct ::
    "kernel \<Rightarrow> u32 \<Rightarrow> u32 \<Rightarrow> u32 \<Rightarrow> sys_enter_ctx \<Rightarrow> u64 \<Rightarrow> unit bpf" where
  "emit_bpf_enter_event_v2_direct k pid tid sys_id ctx ts_ns =
     (let cmd = arg0 (sec_args ctx); attr_ptr = arg1 (sec_args ctx); attr_size = arg2 (sec_args ctx)
      in emit_enter_in_place body_in_place k pid tid sys_id ctx ts_ns EVENT_FLAG_GENERIC_ENTER
        (PAYLOAD_TLV_HEADER_SIZE + BPF_DIRECT_ATTR_MAX + BPF_DIRECT_NESTED_CAPACITY)
        (flag_sections
          [\<lambda>off ef. capture_bpf_attr_tlv_direct k off attr_ptr attr_size ef,
           \<lambda>off ef. capture_bpf_nested_tlv_direct k off cmd attr_ptr attr_size ef]))"

definition emit_bpf_prog_load_enter_event_v2_direct ::
    "kernel \<Rightarrow> u32 \<Rightarrow> u32 \<Rightarrow> u32 \<Rightarrow> sys_enter_ctx \<Rightarrow> u64 \<Rightarrow> unit bpf" where
  "emit_bpf_prog_load_enter_event_v2_direct k pid tid sys_id ctx ts_ns =
     (let attr_ptr = arg1 (sec_args ctx); attr_size = arg2 (sec_args ctx)
      in emit_enter_in_place body_in_place k pid tid sys_id ctx ts_ns EVENT_FLAG_GENERIC_ENTER
        (PAYLOAD_TLV_HEADER_SIZE + BPF_DIRECT_ATTR_MAX + BPF_DIRECT_PROG_LOAD_BASE_CAPACITY)
        (flag_sections
          [\<lambda>off ef. capture_bpf_attr_tlv_direct k off attr_ptr attr_size ef,
           \<lambda>off ef. capture_bpf_prog_load_nested_tlv_direct k off attr_ptr attr_size ef]))"

definition emit_bpf_prog_load_debug_enter_fragment_event_v2_direct ::
    "kernel \<Rightarrow> u32 \<Rightarrow> u32 \<Rightarrow> u32 \<Rightarrow> sys_enter_ctx \<Rightarrow> u64 \<Rightarrow> unit bpf" where
  "emit_bpf_prog_load_debug_enter_fragment_event_v2_direct k pid tid sys_id ctx ts_ns =
     (let attr_ptr = arg1 (sec_args ctx); attr_size = arg2 (sec_args ctx)
      in emit_enter_in_place body_in_place k pid tid sys_id ctx ts_ns EVENT_FLAG_ENTER_FRAGMENT
        BPF_DIRECT_PROG_LOAD_DEBUG_CAPACITY
        (\<lambda>off ef. capture_bpf_prog_load_debug_nested_tlv_direct k off attr_ptr attr_size ef))"

definition emit_bpf_uprobe_multi_enter_event_v2_direct ::
    "kernel \<Rightarrow> u32 \<Rightarrow> u32 \<Rightarrow> u32 \<Rightarrow> sys_enter_ctx \<Rightarrow> u64 \<Rightarrow> unit bpf" where
  "emit_bpf_uprobe_multi_enter_event_v2_direct k pid tid sys_id ctx ts_ns =
     (let attr_ptr = arg1 (sec_args ctx); attr_size = arg2 (sec_args ctx)
      in emit_enter_in_place body_in_place k pid tid sys_id ctx ts_ns EVENT_FLAG_GENERIC_ENTER
        (PAYLOAD_TLV_HEADER_SIZE + BPF_DIRECT_ATTR_MAX + BPF_DIRECT_UPROBE_MULTI_CAPACITY)
        (flag_sections
          [\<lambda>off ef. capture_bpf_attr_tlv_direct k off attr_ptr attr_size ef,
           \<lambda>off ef. capture_bpf_uprobe_multi_tlv_direct k off attr_ptr attr_size ef]))"

definition emit_bpf_tracing_multi_enter_event_v2_direct ::
    "kernel \<Rightarrow> u32 \<Rightarrow> u32 \<Rightarrow> u32 \<Rightarrow> sys_enter_ctx \<Rightarrow> u64 \<Rightarrow> unit bpf" where
  "emit_bpf_tracing_multi_enter_event_v2_direct k pid tid sys_id ctx ts_ns =
     (let attr_ptr = arg1 (sec_args ctx); attr_size = arg2 (sec_args ctx)
      in emit_enter_in_place body_by_copy k pid tid sys_id ctx ts_ns EVENT_FLAG_GENERIC_ENTER
        (PAYLOAD_TLV_HEADER_SIZE + BPF_DIRECT_ATTR_MAX + BPF_DIRECT_TRACING_MULTI_CAPACITY)
        (flag_sections
          [\<lambda>off ef. capture_bpf_attr_tlv_direct k off attr_ptr attr_size ef,
           \<lambda>off ef. capture_bpf_tracing_multi_tlv_direct k off attr_ptr attr_size ef]))"

section \<open>In place or by copy\<close>

text \<open>
  The stores of the fields, in the order of the code, leave no byte of the stale buffer inside the structure: they are one store of the
  encoded structure.  A buffer is taken apart into its fields; a store then replaces the field at its offset.
\<close>

lemma run_bind: "run_state (State_Monad.bind m f) s = run_state (f (result m s)) (exec m s)"
  by (simp split: prod.split)

lemma split_fields: "sum_list ns \<le> length d \<Longrightarrow> \<exists>fs rest. map length fs = ns \<and> d = concat fs @ rest"
proof (induction ns arbitrary: d)
  case (Cons n ns)
  then obtain fs rest where "map length fs = ns" "drop n d = concat fs @ rest"
    using Cons.IH [of "drop n d"] by fastforce
  then have "map length (take n d # fs) = n # ns" "d = concat (take n d # fs) @ rest"
    using Cons.prems append_take_drop_id [of n d] by (auto simp del: append_take_drop_id)
  then show ?case by (intro exI conjI)
qed simp

lemma poke_skip: "length a \<le> off \<Longrightarrow> poke (a @ xs) off b = a @ poke xs (off - length a) b"
  by (simp add: poke_def)

lemma poke_field: "length a = length b \<Longrightarrow> poke (a @ xs) 0 b = b @ xs" "length a = length b \<Longrightarrow> poke a 0 b = b"
  "length a = length b \<Longrightarrow> poke (a @ xs) 0 (b @ ys) = b @ poke xs 0 ys"
  by (simp_all add: poke_def)

lemmas field_stores = poke_skip poke_field

lemma header_in_place:
  assumes "reservation s = Some d" "80 \<le> length d"
  shows "exec (do { mem_store 24 (le_bytes 8 sequence); init_syscall_event_v2_header_in_place k t fl pid tid sys_id n ts }) s =
    exec (mem_store 0 (enc_header (result (init_syscall_event_v2_header_direct k (zero_header sequence) t fl pid tid sys_id n ts) s))) s"
proof -
  obtain fs rest where fs: "map length fs = [2, 2, 2, 2, 4, 4, 4, 4, 8, 8, 16, 4, 4, 8, 8]" "d = concat fs @ rest"
    using split_fields [of "[2, 2, 2, 2, 4, 4, 4, 4, 8, 8, 16, 4, 4, 8, 8]" d] assms(2) by force
  obtain a b c e f g h i j l m p q r u where d: "d = a @ b @ c @ e @ f @ g @ h @ i @ j @ l @ m @ p @ q @ r @ u @ rest"
    "length a = 2" "length b = 2" "length c = 2" "length e = 2" "length f = 4" "length g = 4" "length h = 4" "length i = 4"
    "length j = 8" "length l = 8" "length m = 16" "length p = 4" "length q = 4" "length r = 8" "length u = 8"
    using fs by (auto simp: map_eq_Cons_conv)
  show ?thesis
    using assms(1)
    by (simp add: mem_store_def init_syscall_event_v2_header_in_place_def capture_event_integrity_in_place_def
        capture_event_v2_comm_in_place_def init_syscall_event_v2_header_direct_def capture_event_integrity_def
        capture_event_v2_comm_def zero_header_def run_bind_parts only_if_def d field_stores enc_header_def pad_bytes_def
        del: run_state_bind split: option.split)
qed

lemma body_fields_in_place:
  assumes "reservation s = Some d" "152 \<le> length d"
  shows "exec (init_syscall_enter_event_v2_in_place 80 ctx n r p q) s =
    exec (mem_store 80 (enc_enter_body (init_syscall_enter_event_v2_from_ctx ctx n r p q))) s"
proof -
  obtain fs rest where fs: "map length fs = [80, 8, 4, 4, 8, 8, 8, 8, 8, 8, 4, 4]" "d = concat fs @ rest"
    using split_fields [of "[80, 8, 4, 4, 8, 8, 8, 8, 8, 8, 4, 4]" d] assms(2) by force
  obtain a b c e f g h i j l m u where d: "d = a @ b @ c @ e @ f @ g @ h @ i @ j @ l @ m @ u @ rest"
    "length a = 80" "length b = 8" "length c = 4" "length e = 4" "length f = 8" "length g = 8" "length h = 8" "length i = 8"
    "length j = 8" "length l = 8" "length m = 4" "length u = 4"
    using fs by (auto simp: map_eq_Cons_conv)
  show ?thesis
    using assms(1)
    by (cases "sec_args ctx")
       (simp add: mem_store_def init_syscall_enter_event_v2_in_place_def init_syscall_enter_event_v2_from_ctx_def
        run_bind_parts d field_stores enc_enter_body_def enc_args_def args_list_def del: run_state_bind)
qed

lemma unit_run: "exec m s = exec n s \<Longrightarrow> run_state m s = run_state (n :: unit bpf) s"
  by (simp add: prod_eq_iff)

lemma body_in_place_copy: "body_in_place k ctx n = body_by_copy k ctx n"
proof (rule state.expand, rule ext, rule unit_run)
  fix s
  show "exec (body_in_place k ctx n) s = exec (body_by_copy k ctx n) s"
  proof (cases "dynptr_fits (reservation s) 80 72")
    case True
    then obtain d where d: "reservation s = Some d" "152 \<le> length d" by (auto simp: dynptr_fits_def split: option.splits)
    from True body_fields_in_place [OF d] show ?thesis
      by (simp add: body_in_place_def body_by_copy_def bpf_dynptr_write_def bpf_dynptr_data_def run_bind_parts del: run_state_bind)
  qed (simp add: body_in_place_def body_by_copy_def bpf_dynptr_write_def bpf_dynptr_data_def run_bind_parts del: run_state_bind)
qed

lemma init_header_exec: "exec (init_syscall_event_v2_header_direct k h t fl pid tid sys_id n ts) s = s"
  by (simp add: init_syscall_event_v2_header_direct_def capture_event_integrity_def capture_event_v2_comm_def
      run_bind_parts del: run_state_bind)

lemma commit_in_place_event:
  "commit_in_place k sequence (init_syscall_event_v2_header_in_place k t fl pid tid sys_id n ts) (body_by_copy k ctx m) =
   commit_event k (init_syscall_event_v2_header_direct k (zero_header sequence) t fl pid tid sys_id n ts)
     (return (enc_enter_body (init_syscall_enter_event_v2_from_ctx ctx m 0 (-1) (-1))))"
  (is "?l = ?r")
proof (rule state.expand, rule ext, rule unit_run)
  fix s
  show "exec ?l s = exec ?r s"
  proof (cases "dynptr_fits (reservation s) 0 80")
    case True
    then obtain d where d: "reservation s = Some d" "80 \<le> length d" by (auto simp: dynptr_fits_def split: option.splits)
    from True header_in_place [OF d, of sequence k t fl pid tid sys_id n ts] show ?thesis
      by (simp add: commit_in_place_def commit_event_def event_v2_header_from_dynptr_direct_def body_by_copy_def
          bpf_dynptr_write_def bpf_dynptr_data_def run_bind_parts init_header_exec del: run_state_bind)
  qed (simp add: commit_in_place_def commit_event_def event_v2_header_from_dynptr_direct_def body_by_copy_def
       bpf_dynptr_write_def bpf_dynptr_data_def run_bind_parts init_header_exec del: run_state_bind)
qed

lemma emit_in_place_tlv:
  "emit_enter_in_place body_by_copy k pid tid sys_id ctx ts fl cap c =
     emit_enter_tlv k pid tid sys_id (sec_args ctx) ts 0 (-1) cap (\<lambda>off. c off fl)"
  "emit_enter_in_place body_in_place k pid tid sys_id ctx ts fl cap c =
     emit_enter_in_place body_by_copy k pid tid sys_id ctx ts fl cap c"
proof -
  have b: "init_syscall_enter_event_v2_from_ctx ctx n r p q = init_syscall_enter_event_v2_from_args (sec_args ctx) n r p q"
    for n r p q by (simp add: init_syscall_enter_event_v2_from_ctx_def init_syscall_enter_event_v2_from_args_def)
  show "emit_enter_in_place body_by_copy k pid tid sys_id ctx ts fl cap c =
     emit_enter_tlv k pid tid sys_id (sec_args ctx) ts 0 (-1) cap (\<lambda>off. c off fl)"
    by (simp add: emit_enter_in_place_def emit_enter_tlv_def commit_in_place_event b)
  show "emit_enter_in_place body_in_place k pid tid sys_id ctx ts fl cap c =
     emit_enter_in_place body_by_copy k pid tid sys_id ctx ts fl cap c"
    by (simp add: emit_enter_in_place_def body_in_place_copy)
qed

lemma emitter_enter_in_place:
  assumes "flagged k cap c" "cap < 2 ^ 31" "\<not> has_flag fl EVENT_FLAG_COMPACT_ENTER"
  shows "emitter k (emit_enter_in_place body_by_copy k pid tid sys_id ctx ts fl cap c)"
    "emitter k (emit_enter_in_place body_in_place k pid tid sys_id ctx ts fl cap c)"
proof -
  have "emitter k (emit_enter_tlv k pid tid sys_id (sec_args ctx) ts 0 (-1) cap (\<lambda>off. c off fl))"
    by (rule emitter_enter_tlv) (use assms in \<open>auto simp: flagged_def\<close>)
  then show "emitter k (emit_enter_in_place body_by_copy k pid tid sys_id ctx ts fl cap c)"
    "emitter k (emit_enter_in_place body_in_place k pid tid sys_id ctx ts fl cap c)"
    by (simp_all add: emit_in_place_tlv)
qed

section \<open>Accounting\<close>

lemma flagged_on_field:
  assumes "silent k m" "reports m" "\<And>off. above off m" "\<And>v. flagged k cap (c v)"
  shows "flagged k cap (on_field m c)"
  unfolding on_field_def with_field_def
  by (intro flagged_pre flagged_option flagged_none assms)

lemma flagged_no_section: "flagged k cap no_section"
  unfolding no_section_def by (rule flagged_none)

lemma storage_frame [silent_intros, reports_intros, above_intros]:
  "silent k (bpf_nested_bytes_storage_direct off n)"
  "reports (bpf_nested_bytes_storage_direct off n)"
  "above i (bpf_nested_bytes_storage_direct off n)"
  unfolding bpf_nested_bytes_storage_direct_def
  by (intro silent_rules silent_intros reports_rules reports_intros above_rules above_intros)+

lemma copies_bucket: "n \<le> m \<Longrightarrow> copies k off m (copy_bucket k w n up off)"
  unfolding copy_bucket_def Let_def
  by (rule copies_step copies_case_prod copies_if copies_return silent_intros reports_intros above_intros
      above_store | simp)+

lemma flagged_bytes_of:
  assumes "nbr_max_len r \<le> m" "32 + m \<le> cap" "cap < 2 ^ 32"
  shows "flagged k cap (bytes_of k r)"
proof -
  have n: "unat (payload_tlv_copy_len v (of_nat (nbr_max_len r))) \<le> m" for v
    using copy_len_le [of v "of_nat (nbr_max_len r)"] assms by (simp add: unat_of_nat take_bit_nat_eq_self)
  show ?thesis
    unfolding bytes_of_def capture_bpf_bytes_tlv_direct_def
    by (intro flagged_cond flagged_none flagged_truncating_section [where m = m] copies_bucket n)
       (use assms in \<open>simp_all add: payloadKindFromTLV_def\<close>)
qed

lemmas flagged_bytes = flagged_bytes_of [unfolded bytes_of_def]

lemma flagged_bpf_attr: "flagged k 544 (\<lambda>off ef. capture_bpf_attr_tlv_direct k off up len ef)"
  unfolding capture_bpf_attr_tlv_direct_def Let_def
  by (intro flagged_cond flagged_none flagged_truncating_section [where m = 512] copies_clamped)
     (simp_all add: payloadKindFromTLV_def)

lemma captures_with_field:
  assumes "silent k m" "reports m" "above off m" "\<And>v. captures k off cap (\<lambda>n. n) (f v)"
  shows "captures k off cap (\<lambda>n. n) (with_field m (return 0) f)"
  unfolding with_field_def
  by (rule captures_pre_any [OF assms(1-3)]) (auto intro: captures_return assms(4) split: option.split)

lemma captures_bpf_string:
  "m \<le> 512 \<Longrightarrow> captures k off 544 (\<lambda>n. n) (capture_bpf_string_tlv_direct k off up m arg)"
  unfolding capture_bpf_string_tlv_direct_def
  by (intro captures_if captures_return captures_sized_section [where m = 512] copies_copy_string)
     (simp_all add: payloadKindFromTLV_def)

lemma captures_bpf_license: "captures k off 96 (\<lambda>n. n) (capture_bpf_license_tlv_direct k off up)"
  unfolding capture_bpf_license_tlv_direct_def
  by (intro captures_if captures_return captures_sized_section [where m = 64] copies_copy_string)
     (simp_all add: payloadKindFromTLV_def)

lemma captures_bpf_paths:
  "captures k off 544 (\<lambda>n. n) (capture_bpf_obj_pathname_tlv_direct k off p n)"
  "captures k off 544 (\<lambda>n. n) (capture_bpf_raw_tracepoint_name_tlv_direct k off p n)"
  "captures k off 544 (\<lambda>n. n) (capture_bpf_uprobe_multi_path_tlv_direct k off p n)"
  unfolding capture_bpf_obj_pathname_tlv_direct_def capture_bpf_raw_tracepoint_name_tlv_direct_def
    capture_bpf_uprobe_multi_path_tlv_direct_def
  by (intro captures_with_field silent_intros reports_intros above_intros captures_if captures_return captures_bpf_string;
      simp)+

lemma multi_entries_le: "unat (bpf_direct_multi_copy_entries c) \<le> 4"
  by (simp add: bpf_direct_multi_copy_entries_def word_less_nat_alt)

lemma multi_copy_le:
  assumes "unat e \<le> 52"
  shows "unat (bpf_direct_multi_copy_entries c * e) \<le> 4 * unat e"
proof -
  have "unat (bpf_direct_multi_copy_entries c) * unat e \<le> 4 * unat e" using multi_entries_le by (rule mult_le_mono1)
  moreover have "unat (bpf_direct_multi_copy_entries c * e) \<le> unat (bpf_direct_multi_copy_entries c) * unat e"
    by (simp add: unat_word_ariths)
  ultimately show ?thesis by linarith
qed

lemma flagged_multi_array:
  assumes "32 + 4 * unat e \<le> cap" "cap < 2 ^ 31" "unat e \<le> 52"
  shows "flagged k cap (multi_array k e w up c arg)"
  unfolding multi_array_def Let_def
  by (intro flagged_cond flagged_none flagged_truncating_section [where m = "4 * unat e"] copies_user multi_copy_le)
     (use assms in \<open>simp_all add: payloadKindFromTLV_def\<close>)

lemma flagged_multi:
  "flagged k 64 (\<lambda>off ef. capture_bpf_multi_u64_array_tlv_direct k off r ef)"
  "flagged k 48 (\<lambda>off ef. capture_bpf_multi_u32_array_tlv_direct k off r' ef)"
  unfolding capture_bpf_multi_u64_array_tlv_direct_def capture_bpf_multi_u32_array_tlv_direct_def
  using flagged_multi_array by auto

lemma kprobe_sym_frame [silent_intros, reports_intros, above_intros]:
  "silent k (kprobe_sym k' slot)" "reports (kprobe_sym k' slot)" "above off (kprobe_sym k' slot)"
  unfolding kprobe_sym_def Let_def
  by (intro silent_rules silent_intros reports_rules reports_intros above_rules above_intros)+

lemma kprobe_loop_frame [silent_intros, reports_intros]:
  "silent k (kprobe_syms_loop k syms n off is)" "reports (kprobe_syms_loop k syms n off is)"
  by (induction "is") (auto intro!: silent_rules silent_intros reports_rules reports_intros)

lemma above_kprobe_loop: "i \<le> off \<Longrightarrow> above i (kprobe_syms_loop k syms n off is)"
  by (induction "is") (auto intro!: above_rules above_intros above_store)

lemma flagged_kprobe_syms: "flagged k 240 (\<lambda>off ef. capture_bpf_kprobe_syms_tlv_direct k off syms count ef)"
proof -
  let ?n = "unat (bpf_direct_multi_copy_entries count * of_nat (8 + 4 + 40))"
  have n: "?n \<le> 208" using multi_copy_le [of "of_nat (8 + 4 + 40)" count] by simp
  have t: "flagged k 240 (\<lambda>off ef. truncating_section k off PAYLOAD_TLV_KIND_BYTES arg 0 ef ul up (\<lambda>_. return (?n, 0)))"
    for arg ul up
    by (intro flagged_truncating_section [where m = 208] copies_return n) (simp_all add: payloadKindFromTLV_def)
  let ?loop = "\<lambda>off. kprobe_syms_loop k syms (bpf_direct_multi_copy_entries count) (off + 32) [0..<4]"
  have "captures k off 240 fst (do { ok \<leftarrow> ?loop off; if \<not> ok then return (0, ef)
      else truncating_section k off PAYLOAD_TLV_KIND_BYTES arg 0 ef ul up (\<lambda>_. return (?n, 0)) })" for off ef arg ul up
    by (rule captures_pre_any) (use t in \<open>auto intro!: silent_intros reports_intros above_kprobe_loop captures_return
      simp: flagged_def simp del: upt_rec_numeral\<close>)
  moreover have "gives (do { ok \<leftarrow> ?loop off; if \<not> ok then return (0, ef)
      else truncating_section k off PAYLOAD_TLV_KIND_BYTES arg 0 ef ul up (\<lambda>_. return (?n, 0)) })
      (\<lambda>(n, f). \<not> has_flag f EVENT_FLAG_COMPACT_ENTER)" if "\<not> has_flag ef EVENT_FLAG_COMPACT_ENTER" for off ef arg ul up
    by (rule gives_bind_any) (use t that in \<open>auto simp: flagged_def intro: gives_return\<close>)
  ultimately show ?thesis
    unfolding capture_bpf_kprobe_syms_tlv_direct_def Let_def
    by (auto simp: flagged_def captures_return gives_return)
qed

lemmas on_field_rules = flagged_on_field flagged_no_section flagged_if silent_intros reports_intros above_intros

lemma flagged_bpf_btf: "flagged k 288 (\<lambda>off ef. capture_bpf_btf_tlv_direct k off p n ef)"
  unfolding capture_bpf_btf_tlv_direct_def by (intro on_field_rules flagged_bytes_of [where m = 256]; simp)

lemma flagged_link_iter: "flagged k 52 (\<lambda>off ef. capture_bpf_link_iter_info_tlv_direct k off p n ef)"
  unfolding capture_bpf_link_iter_info_tlv_direct_def by (intro on_field_rules flagged_bytes_of [where m = 20]; simp)

lemma flagged_kprobe_multi: "flagged k 368 (\<lambda>off ef. capture_bpf_kprobe_multi_tlv_direct k off p n ef)"
  unfolding capture_bpf_kprobe_multi_tlv_direct_def
  by (intro on_field_rules flagged_sections_cons [OF flagged_kprobe_syms] flagged_sections_cons [OF flagged_multi(1)]
      flagged_sections_nil; simp)

lemma flagged_uprobe_multi: "flagged k 736 (\<lambda>off ef. capture_bpf_uprobe_multi_tlv_direct k off p n ef)"
  unfolding capture_bpf_uprobe_multi_tlv_direct_def
  by (intro on_field_rules flagged_sections_cons [OF flagged_unmarked [OF captures_bpf_paths(3)]]
      flagged_sections_cons [OF flagged_multi(1)] flagged_sections_nil; simp)

lemma flagged_tracing_multi: "flagged k 112 (\<lambda>off ef. capture_bpf_tracing_multi_tlv_direct k off p n ef)"
  unfolding capture_bpf_tracing_multi_tlv_direct_def
  by (intro on_field_rules flagged_sections_cons [OF flagged_multi(2)] flagged_sections_cons [OF flagged_multi(1)]
      flagged_sections_nil; simp)

lemma flagged_prog_load_insns: "flagged k 96 (\<lambda>off ef. capture_bpf_prog_load_insns_tlv_direct k off insns c ef)"
  unfolding capture_bpf_prog_load_insns_tlv_direct_def
  by (intro flagged_cond flagged_none flagged_bytes [where m = 64]) simp_all

lemma flagged_debug_records: "m \<le> 512 \<Longrightarrow> flagged k 544 (debug_records k p n a b c d m arg)"
  unfolding debug_records_def Let_def
  by (intro on_field_rules flagged_bytes_of [where m = 512]; simp)

lemma flagged_prog_load_debug:
  "flagged k 2176 (\<lambda>off ef. capture_bpf_prog_load_debug_nested_tlv_direct k off p n ef)"
proof -
  have a: "flagged k 544 (\<lambda>off ef. capture_bpf_prog_load_fd_array_tlv_direct k off p n ef)"
    unfolding capture_bpf_prog_load_fd_array_tlv_direct_def
    by (intro on_field_rules flagged_bytes_of [where m = 512]; simp)
  have b: "flagged k 544 (\<lambda>off ef. capture_bpf_prog_load_func_info_tlv_direct k off p n ef)"
    "flagged k 544 (\<lambda>off ef. capture_bpf_prog_load_line_info_tlv_direct k off p n ef)"
    "flagged k 544 (\<lambda>off ef. capture_bpf_prog_load_core_relos_tlv_direct k off p n ef)"
    unfolding capture_bpf_prog_load_func_info_tlv_direct_def capture_bpf_prog_load_line_info_tlv_direct_def
      capture_bpf_prog_load_core_relos_tlv_direct_def
    using flagged_debug_records [of 512 k p n] by simp_all
  show ?thesis
    unfolding capture_bpf_prog_load_debug_nested_tlv_direct_def
    by (intro flagged_sections_cons [OF a] flagged_sections_cons [OF b(1)] flagged_sections_cons [OF b(2)]
        flagged_sections_cons [OF b(3)] flagged_sections_nil) simp_all
qed

lemma flagged_sized_buffer: "(\<And>b l. flagged k cap (c b l)) \<Longrightarrow> flagged k cap (sized_buffer k p n i j c)"
  unfolding sized_buffer_def by (intro on_field_rules)

lemma flagged_prog_load_nested: "flagged k 768 (\<lambda>off ef. capture_bpf_prog_load_nested_tlv_direct k off p n ef)"
proof -
  have b: "flagged k 288 (bytes_of k \<lparr>nbr_user_ptr = q, nbr_user_len = l, nbr_max_len = 256, nbr_storage_len = 256,
      nbr_arg_index = arg\<rparr>)" for q l arg
    by (rule flagged_bytes_of [where m = 256]) simp_all
  have l: "flagged k 96 (on_field (bpf_attr_read_u64_direct k p n 16) (\<lambda>q. unmarked (\<lambda>off. capture_bpf_license_tlv_direct k off q)))"
    by (intro on_field_rules flagged_unmarked captures_bpf_license)
  show ?thesis
    unfolding capture_bpf_prog_load_nested_tlv_direct_def
    by (intro flagged_sections_cons [OF flagged_sized_buffer [OF flagged_prog_load_insns]]
        flagged_sections_cons [OF l] flagged_sections_cons [OF flagged_sized_buffer [OF b]] flagged_sections_nil) simp_all
qed

text \<open>The bucket bounds what a request can copy, whatever the request says.\<close>

lemma flagged_map_bytes: "flagged k 544 (bytes_of k r)"
proof -
  have "copies k off 512 (copy_bucket k w n up off)" for off w n up
    unfolding copy_bucket_def Let_def
    by (rule copies_step copies_case_prod copies_if copies_return silent_intros reports_intros above_intros
        above_store | simp)+
  then show ?thesis
    unfolding bytes_of_def capture_bpf_bytes_tlv_direct_def
    by (intro flagged_cond flagged_none flagged_truncating_section [where m = 512]) (simp_all add: payloadKindFromTLV_def)
qed

lemmas flagged_map_capture = flagged_map_bytes [unfolded bytes_of_def]

lemma flagged_two_bytes: "flagged k 1088 (flag_sections [bytes_of k r, bytes_of k r'])"
  by (intro flagged_sections_cons [OF flagged_map_bytes] flagged_sections_nil) simp_all

lemma flagged_map_inputs:
  "flagged k 1088 (\<lambda>off ef. capture_bpf_map_batch_inputs_tlv_direct k off rs ef)"
  "flagged k 1088 (\<lambda>off ef. capture_bpf_map_update_elem_inputs_tlv_direct k off rs' ef)"
  "flagged k 1088 (\<lambda>off ef. capture_bpf_map_batch_input_tlv_direct k off p n ef)"
proof -
  show a: "flagged k 1088 (\<lambda>off ef. capture_bpf_map_batch_inputs_tlv_direct k off rs ef)" for rs
    unfolding capture_bpf_map_batch_inputs_tlv_direct_def by (rule flagged_two_bytes)
  show "flagged k 1088 (\<lambda>off ef. capture_bpf_map_update_elem_inputs_tlv_direct k off rs' ef)"
    unfolding capture_bpf_map_update_elem_inputs_tlv_direct_def by (rule flagged_two_bytes)
  show "flagged k 1088 (\<lambda>off ef. capture_bpf_map_batch_input_tlv_direct k off p n ef)"
    unfolding capture_bpf_map_batch_input_tlv_direct_def by (intro on_field_rules a)
qed

lemma flagged_map_keys:
  "flagged k 544 (on_field (read_bpf_map_get_next_key_input_request_direct k p n) (bytes_of k))"
  "flagged k 544 (on_field (read_bpf_map_lookup_key_input_request_direct k p n)
     (\<lambda>r off ef. capture_bpf_map_lookup_key_input_tlv_direct k off r ef))"
  "flagged k 544 (on_field (read_bpf_map_delete_batch_input_request_direct k p n)
     (\<lambda>r off ef. capture_bpf_map_delete_batch_input_tlv_direct k off r ef))"
  "flagged k 544 (on_field (read_bpf_map_delete_elem_input_request_direct k p n)
     (\<lambda>r off ef. capture_bpf_map_delete_elem_input_tlv_direct k off r ef))"
  unfolding capture_bpf_map_lookup_key_input_tlv_direct_def capture_bpf_map_delete_batch_input_tlv_direct_def
    capture_bpf_map_delete_elem_input_tlv_direct_def
  by (intro on_field_rules flagged_map_bytes flagged_map_capture)+

lemma on_field_map_update:
  "flagged k 1088 (on_field (read_bpf_map_update_elem_input_requests_direct k p n)
     (\<lambda>rs off ef. capture_bpf_map_update_elem_inputs_tlv_direct k off rs ef))"
  by (intro on_field_rules flagged_map_inputs)

lemma flagged_link_create:
  "flagged k 420 (flag_sections
     [\<lambda>off ef. capture_bpf_link_iter_info_tlv_direct k off p n ef, \<lambda>off ef. capture_bpf_kprobe_multi_tlv_direct k off p n ef])"
  by (intro flagged_sections_cons [OF flagged_link_iter] flagged_sections_cons [OF flagged_kprobe_multi] flagged_sections_nil)
     simp_all

lemma flagged_bpf_nested: "flagged k 2596 (\<lambda>off ef. capture_bpf_nested_tlv_direct k off cmd p n ef)"
  unfolding capture_bpf_nested_tlv_direct_def
  by (intro flagged_if flagged_mono [OF flagged_unmarked [OF captures_bpf_paths(1)]]
      flagged_mono [OF flagged_unmarked [OF captures_bpf_paths(2)]] flagged_mono [OF flagged_bpf_btf]
      flagged_mono [OF flagged_link_create] flagged_mono [OF flagged_map_keys(1)] flagged_mono [OF flagged_map_keys(2)]
      flagged_mono [OF flagged_map_keys(3)] flagged_mono [OF flagged_map_keys(4)]
      flagged_mono [OF on_field_map_update] flagged_mono [OF flagged_map_inputs(3)] flagged_no_section) simp_all

lemma bpf_enter_emitters [emitter_intros]:
  "emitter k (emit_bpf_enter_event_v2_direct k pid tid sys_id ctx ts)"
  "emitter k (emit_bpf_prog_load_enter_event_v2_direct k pid tid sys_id ctx ts)"
  "emitter k (emit_bpf_prog_load_debug_enter_fragment_event_v2_direct k pid tid sys_id ctx ts)"
  "emitter k (emit_bpf_uprobe_multi_enter_event_v2_direct k pid tid sys_id ctx ts)"
  "emitter k (emit_bpf_tracing_multi_enter_event_v2_direct k pid tid sys_id ctx ts)"
  unfolding emit_bpf_enter_event_v2_direct_def emit_bpf_prog_load_enter_event_v2_direct_def
    emit_bpf_prog_load_debug_enter_fragment_event_v2_direct_def emit_bpf_uprobe_multi_enter_event_v2_direct_def
    emit_bpf_tracing_multi_enter_event_v2_direct_def Let_def
  by (intro emitter_enter_in_place flagged_sections_cons [OF flagged_bpf_attr] flagged_sections_one
      flagged_mono [OF flagged_bpf_nested] flagged_mono [OF flagged_prog_load_nested] flagged_mono [OF flagged_prog_load_debug]
      flagged_mono [OF flagged_uprobe_multi] flagged_mono [OF flagged_tracing_multi]; simp add: has_flag_def)+

end
