(* ===== verification/Bpf_Command_Exit.thy ===== *)
theory Bpf_Command_Exit
  imports Bpf_Command_Enter
begin

text \<open>
  The exit records of \<^verbatim>\<open>bpf(2)\<close>: \<^verbatim>\<open>bpf/syscall_bpf_{exit,map_exit,next_id_exit,prog_query_exit,
  task_fd_query_exit,test_run_exit}_direct_event_v2.h\<close>.  An emitter says whether it took the exit; the
  caller emits a plain exit record when it did not.
\<close>

abbreviation (input) BPF_DIRECT_OBJ_GET_INFO_BY_FD :: u64 where "BPF_DIRECT_OBJ_GET_INFO_BY_FD \<equiv> 15"
abbreviation (input) BPF_DIRECT_OBJ_INFO_ARG :: u16 where "BPF_DIRECT_OBJ_INFO_ARG \<equiv> 113"
abbreviation (input) BPF_DIRECT_OBJ_INFO_MAX :: nat where "BPF_DIRECT_OBJ_INFO_MAX \<equiv> 512"
abbreviation (input) BPF_DIRECT_OBJ_INFO_LEN_OFF :: u64 where "BPF_DIRECT_OBJ_INFO_LEN_OFF \<equiv> 4"
abbreviation (input) BPF_DIRECT_OBJ_INFO_PTR_OFF :: u64 where "BPF_DIRECT_OBJ_INFO_PTR_OFF \<equiv> 8"
abbreviation (input) BPF_DIRECT_PROG_GET_NEXT_ID :: u64 where "BPF_DIRECT_PROG_GET_NEXT_ID \<equiv> 11"
abbreviation (input) BPF_DIRECT_MAP_GET_NEXT_ID :: u64 where "BPF_DIRECT_MAP_GET_NEXT_ID \<equiv> 12"
abbreviation (input) BPF_DIRECT_BTF_GET_NEXT_ID :: u64 where "BPF_DIRECT_BTF_GET_NEXT_ID \<equiv> 23"
abbreviation (input) BPF_DIRECT_LINK_GET_NEXT_ID :: u64 where "BPF_DIRECT_LINK_GET_NEXT_ID \<equiv> 31"
abbreviation (input) BPF_DIRECT_GET_NEXT_ID_NEXT_ID_OFF :: u64 where "BPF_DIRECT_GET_NEXT_ID_NEXT_ID_OFF \<equiv> 4"
abbreviation (input) BPF_DIRECT_GET_NEXT_ID_NEXT_ID_SIZE :: nat where "BPF_DIRECT_GET_NEXT_ID_NEXT_ID_SIZE \<equiv> 4"
abbreviation (input) BPF_DIRECT_GET_NEXT_ID_OUTPUT_ARG :: u16 where "BPF_DIRECT_GET_NEXT_ID_OUTPUT_ARG \<equiv> 140"
abbreviation (input) BPF_DIRECT_PROG_QUERY_ARRAY_ELEM_SIZE :: u64 where "BPF_DIRECT_PROG_QUERY_ARRAY_ELEM_SIZE \<equiv> 4"
abbreviation (input) BPF_DIRECT_PROG_QUERY_OUTPUT_SECTIONS :: nat where "BPF_DIRECT_PROG_QUERY_OUTPUT_SECTIONS \<equiv> 5"
abbreviation (input) BPF_DIRECT_TASK_FD_QUERY :: u64 where "BPF_DIRECT_TASK_FD_QUERY \<equiv> 20"
abbreviation (input) BPF_DIRECT_TASK_FD_QUERY_BUF_OUT_ARG :: u16 where "BPF_DIRECT_TASK_FD_QUERY_BUF_OUT_ARG \<equiv> 137"
abbreviation (input) BPF_DIRECT_TASK_FD_QUERY_ATTR_OUT_ARG :: u16 where "BPF_DIRECT_TASK_FD_QUERY_ATTR_OUT_ARG \<equiv> 138"
abbreviation (input) BPF_DIRECT_TASK_FD_QUERY_ATTR_MAX :: nat where "BPF_DIRECT_TASK_FD_QUERY_ATTR_MAX \<equiv> 64"
abbreviation (input) BPF_DIRECT_TASK_FD_QUERY_BUF_LEN_OFF :: u64 where "BPF_DIRECT_TASK_FD_QUERY_BUF_LEN_OFF \<equiv> 12"
abbreviation (input) BPF_DIRECT_TASK_FD_QUERY_BUF_OFF :: u64 where "BPF_DIRECT_TASK_FD_QUERY_BUF_OFF \<equiv> 16"
abbreviation (input) BPF_DIRECT_TASK_FD_QUERY_BUF_MAX :: nat where "BPF_DIRECT_TASK_FD_QUERY_BUF_MAX \<equiv> 512"
abbreviation (input) ENOENT :: s64 where "ENOENT \<equiv> 2"

section \<open>One buffer\<close>

record bpf_exit_bytes_request =
  xbr_user_ptr :: u64
  xbr_user_len :: u32
  xbr_max_len :: nat
  xbr_storage_len :: nat
  xbr_arg_index :: u16

definition no_exit_bytes :: bpf_exit_bytes_request where
  "no_exit_bytes = \<lparr>xbr_user_ptr = 0, xbr_user_len = 0, xbr_max_len = 0, xbr_storage_len = 0, xbr_arg_index = 0\<rparr>"

text \<open>
  Unlike at enter, a window that does not fit and a read that faults leave no section at all.
\<close>

definition capture_bpf_exit_bytes_tlv_direct ::
    "kernel \<Rightarrow> nat \<Rightarrow> bpf_exit_bytes_request \<Rightarrow> u16 \<Rightarrow> (nat \<times> u16) bpf" where
  "capture_bpf_exit_bytes_tlv_direct k payload_offset request event_flags =
     (if xbr_user_ptr request = 0 \<or> xbr_user_len request = 0 \<or> xbr_max_len request = 0 \<or>
         xbr_max_len request > BPF_DIRECT_OBJ_INFO_MAX \<or> xbr_storage_len request < xbr_max_len request \<or>
         xbr_storage_len request \<noteq> BPF_DIRECT_BYTES_BUCKET_512
      then return (0, event_flags)
      else do {
        let user_len = payload_tlv_clamp_u32 (ucast (xbr_user_len request));
        let data_offset = payload_offset + PAYLOAD_TLV_HEADER_SIZE;
        payload_data \<leftarrow> bpf_dynptr_data data_offset BPF_DIRECT_OBJ_INFO_MAX;
        if \<not> payload_data then do { record_ringbuf_copy_fail k; return (0, event_flags) }
        else do {
          let copied_len = min BPF_DIRECT_OBJ_INFO_MAX
            (unat (payload_tlv_copy_len (ucast (xbr_user_len request)) (of_nat (xbr_max_len request))));
          (err, bs) \<leftarrow> bpf_probe_read_user k copied_len (xbr_user_ptr request);
          mem_store data_offset bs;
          if err < 0 then return (0, event_flags)
          else flagged_section k payload_offset PAYLOAD_TLV_KIND_BYTES (xbr_arg_index request)
            PAYLOAD_TLV_FLAG_DIRECTION_OUT event_flags user_len (xbr_user_ptr request)
            (\<lambda>n probe_ret. of_nat n < user_len) (\<lambda>data_offset. return (copied_len, 0)) } })"

definition exit_bytes_of :: "kernel \<Rightarrow> bpf_exit_bytes_request \<Rightarrow> flag_capture" where
  "exit_bytes_of k request = (\<lambda>payload_offset event_flags.
     capture_bpf_exit_bytes_tlv_direct k payload_offset request event_flags)"

definition emit_bpf_exit_bytes_event_v2_direct ::
    "kernel \<Rightarrow> pending_syscall \<Rightarrow> s64 \<Rightarrow> u64 \<Rightarrow> bpf_exit_bytes_request \<Rightarrow> bool bpf" where
  "emit_bpf_exit_bytes_event_v2_direct k p ret_value duration request =
     (if xbr_max_len request = 0 \<or> xbr_max_len request > BPF_DIRECT_OBJ_INFO_MAX \<or>
         xbr_storage_len request < xbr_max_len request \<or>
         xbr_storage_len request \<noteq> BPF_DIRECT_BYTES_BUCKET_512
      then return False
      else do {
        emit_exit_flagged k p ret_value duration (PAYLOAD_TLV_HEADER_SIZE + BPF_DIRECT_OBJ_INFO_MAX) (exit_bytes_of k request);
        return True })"

definition emit_bpf_obj_info_exit_event_v2_direct ::
    "kernel \<Rightarrow> pending_syscall \<Rightarrow> s64 \<Rightarrow> u64 \<Rightarrow> u64 \<Rightarrow> u32 \<Rightarrow> bool bpf" where
  "emit_bpf_obj_info_exit_event_v2_direct k p ret_value duration info_ptr info_len =
     emit_bpf_exit_bytes_event_v2_direct k p ret_value duration
       \<lparr>xbr_user_ptr = info_ptr, xbr_user_len = info_len, xbr_max_len = BPF_DIRECT_OBJ_INFO_MAX,
        xbr_storage_len = BPF_DIRECT_BYTES_BUCKET_512, xbr_arg_index = BPF_DIRECT_OBJ_INFO_ARG\<rparr>"

text \<open>The verifier log of a failed load: the attribute fields in the order size, buffer, true size.\<close>

definition emit_load_log ::
    "kernel \<Rightarrow> pending_syscall \<Rightarrow> s64 \<Rightarrow> u64 \<Rightarrow> u64 \<Rightarrow> u64 \<Rightarrow> u64 \<Rightarrow> nat \<Rightarrow> u16 \<Rightarrow> bool bpf" where
  "emit_load_log k p ret_value duration size_off buf_off true_size_off max_len arg_index =
     (let attr_ptr = arg1 (ps_args p); attr_size = arg2 (ps_args p) in
      with_field (bpf_attr_read_u32_direct k attr_ptr attr_size size_off) (return False) (\<lambda>log_size.
      with_field (bpf_attr_read_u64_direct k attr_ptr attr_size buf_off) (return False) (\<lambda>log_buf.
      with_field (bpf_attr_read_u32_direct k attr_ptr attr_size true_size_off) (return False) (\<lambda>log_true_size.
        if log_buf = 0 \<or> log_size = 0 \<or> log_true_size = 0 then return False
        else let requested_len = (if log_true_size > log_size then log_size else log_true_size)
             in emit_bpf_exit_bytes_event_v2_direct k p ret_value duration
                  \<lparr>xbr_user_ptr = log_buf, xbr_user_len = requested_len, xbr_max_len = max_len,
                   xbr_storage_len = BPF_DIRECT_BYTES_BUCKET_512, xbr_arg_index = arg_index\<rparr>))))"

definition emit_bpf_prog_load_log_exit_event_v2_direct ::
    "kernel \<Rightarrow> pending_syscall \<Rightarrow> s64 \<Rightarrow> u64 \<Rightarrow> bool bpf" where
  "emit_bpf_prog_load_log_exit_event_v2_direct k p ret_value duration =
     (if \<not> is_bpf_direct_syscall (ps_sys_id p) \<or> arg0 (ps_args p) \<noteq> BPF_DIRECT_PROG_LOAD \<or> 0 \<le> sint ret_value
      then return False
      else emit_load_log k p ret_value duration BPF_DIRECT_PROG_LOAD_LOG_SIZE_OFF BPF_DIRECT_PROG_LOAD_LOG_BUF_OFF
        BPF_DIRECT_PROG_LOAD_LOG_TRUE_SIZE_OFF BPF_DIRECT_PROG_LOAD_LOG_MAX BPF_DIRECT_PROG_LOAD_LOG_BUF_ARG)"

definition emit_bpf_btf_load_log_exit_event_v2_direct ::
    "kernel \<Rightarrow> pending_syscall \<Rightarrow> s64 \<Rightarrow> u64 \<Rightarrow> bool bpf" where
  "emit_bpf_btf_load_log_exit_event_v2_direct k p ret_value duration =
     (if \<not> is_bpf_direct_syscall (ps_sys_id p) \<or> arg0 (ps_args p) \<noteq> BPF_DIRECT_BTF_LOAD \<or> 0 \<le> sint ret_value
      then return False
      else emit_load_log k p ret_value duration BPF_DIRECT_BTF_LOG_SIZE_OFF BPF_DIRECT_BTF_LOG_BUF_OFF
        BPF_DIRECT_BTF_LOG_TRUE_SIZE_OFF BPF_DIRECT_BTF_LOG_MAX BPF_DIRECT_BTF_LOG_BUF_ARG)"

definition emit_bpf_prog_stream_read_exit_event_v2_direct ::
    "kernel \<Rightarrow> pending_syscall \<Rightarrow> s64 \<Rightarrow> u64 \<Rightarrow> bool bpf" where
  "emit_bpf_prog_stream_read_exit_event_v2_direct k p ret_value duration =
     (let attr_ptr = arg1 (ps_args p); attr_size = arg2 (ps_args p) in
      if \<not> is_bpf_direct_syscall (ps_sys_id p) \<or> arg0 (ps_args p) \<noteq> BPF_DIRECT_PROG_STREAM_READ_BY_FD then return False
      else
      with_field (bpf_attr_read_u64_direct k attr_ptr attr_size BPF_DIRECT_PROG_STREAM_BUF_OFF) (return False) (\<lambda>stream_buf.
      with_field (bpf_attr_read_u32_direct k attr_ptr attr_size BPF_DIRECT_PROG_STREAM_BUF_LEN_OFF) (return False) (\<lambda>stream_buf_len.
        if stream_buf = 0 \<or> stream_buf_len = 0 then return False
        else emit_bpf_exit_bytes_event_v2_direct k p ret_value duration
          \<lparr>xbr_user_ptr = stream_buf, xbr_user_len = stream_buf_len, xbr_max_len = BPF_DIRECT_STREAM_BUF_MAX,
           xbr_storage_len = BPF_DIRECT_BYTES_BUCKET_512, xbr_arg_index = BPF_DIRECT_PROG_STREAM_BUF_ARG\<rparr>)))"

definition is_bpf_get_next_id_command_direct :: "u64 \<Rightarrow> bool" where
  "is_bpf_get_next_id_command_direct command \<longleftrightarrow>
     command = BPF_DIRECT_PROG_GET_NEXT_ID \<or> command = BPF_DIRECT_MAP_GET_NEXT_ID \<or>
     command = BPF_DIRECT_BTF_GET_NEXT_ID \<or> command = BPF_DIRECT_LINK_GET_NEXT_ID"

definition emit_bpf_get_next_id_exit_event_v2_direct ::
    "kernel \<Rightarrow> pending_syscall \<Rightarrow> s64 \<Rightarrow> u64 \<Rightarrow> bool bpf" where
  "emit_bpf_get_next_id_exit_event_v2_direct k p ret_value duration =
     (if \<not> is_bpf_direct_syscall (ps_sys_id p) \<or> \<not> is_bpf_get_next_id_command_direct (arg0 (ps_args p)) \<or>
         ret_value \<noteq> 0 \<or> arg1 (ps_args p) = 0 \<or>
         arg2 (ps_args p) < BPF_DIRECT_GET_NEXT_ID_NEXT_ID_OFF + of_nat BPF_DIRECT_GET_NEXT_ID_NEXT_ID_SIZE \<or>
         arg1 (ps_args p) > 0xffffffffffffffff - BPF_DIRECT_GET_NEXT_ID_NEXT_ID_OFF
      then return False
      else emit_bpf_exit_bytes_event_v2_direct k p ret_value duration
        \<lparr>xbr_user_ptr = arg1 (ps_args p) + BPF_DIRECT_GET_NEXT_ID_NEXT_ID_OFF,
         xbr_user_len = of_nat BPF_DIRECT_GET_NEXT_ID_NEXT_ID_SIZE, xbr_max_len = BPF_DIRECT_GET_NEXT_ID_NEXT_ID_SIZE,
         xbr_storage_len = BPF_DIRECT_BYTES_BUCKET_512, xbr_arg_index = BPF_DIRECT_GET_NEXT_ID_OUTPUT_ARG\<rparr>)"

section \<open>Map outputs\<close>

definition read_bpf_map_lookup_output_request_direct :: "kernel \<Rightarrow> u64 \<Rightarrow> u64 \<Rightarrow> bpf_exit_bytes_request option bpf" where
  "read_bpf_map_lookup_output_request_direct k attr_ptr attr_size =
     with_field (bpf_attr_read_u32_direct k attr_ptr attr_size BPF_DIRECT_MAP_FD_OFF) (return None) (\<lambda>map_fd.
     with_field (bpf_attr_read_u64_direct k attr_ptr attr_size BPF_DIRECT_MAP_VALUE_OFF) (return None) (\<lambda>value_ptr.
     with_field (bpf_attr_read_u64_direct k attr_ptr attr_size BPF_DIRECT_MAP_ELEM_FLAGS_OFF) (return None) (\<lambda>elem_flags.
       if value_ptr = 0 then return None
       else do {
         bmap \<leftarrow> lookup_current_bpf_map_direct k map_fd;
         if bmap = 0 then return None
         else do {
           value_size \<leftarrow> core_read k ''value_size'' bmap;
           effective_value_size \<leftarrow> bpf_map_effective_value_size_direct k bmap (ucast value_size) elem_flags;
           return (if effective_value_size = 0 then None
             else Some \<lparr>xbr_user_ptr = value_ptr, xbr_user_len = effective_value_size,
               xbr_max_len = BPF_DIRECT_MAP_VALUE_MAX, xbr_storage_len = BPF_DIRECT_BYTES_BUCKET_512,
               xbr_arg_index = BPF_DIRECT_MAP_VALUE_ARG\<rparr>) } })))"

definition emit_bpf_map_lookup_exit_event_v2_direct ::
    "kernel \<Rightarrow> pending_syscall \<Rightarrow> s64 \<Rightarrow> u64 \<Rightarrow> bool bpf" where
  "emit_bpf_map_lookup_exit_event_v2_direct k p ret_value duration =
     (if \<not> is_bpf_direct_syscall (ps_sys_id p) \<or> ret_value \<noteq> 0 \<or>
         (arg0 (ps_args p) \<noteq> BPF_DIRECT_MAP_LOOKUP_ELEM \<and> arg0 (ps_args p) \<noteq> BPF_DIRECT_MAP_LOOKUP_AND_DELETE_ELEM)
      then return False
      else with_field (read_bpf_map_lookup_output_request_direct k (arg1 (ps_args p)) (arg2 (ps_args p))) (return False)
        (emit_bpf_exit_bytes_event_v2_direct k p ret_value duration))"

definition read_bpf_map_get_next_key_output_request_direct ::
    "kernel \<Rightarrow> u64 \<Rightarrow> u64 \<Rightarrow> u32 \<Rightarrow> bpf_exit_bytes_request option bpf" where
  "read_bpf_map_get_next_key_output_request_direct k attr_ptr attr_size key_size =
     with_field (bpf_attr_read_u64_direct k attr_ptr attr_size BPF_DIRECT_MAP_NEXT_KEY_OFF) (return None) (\<lambda>next_key.
       return (if next_key = 0 \<or> key_size = 0 then None
         else Some \<lparr>xbr_user_ptr = next_key, xbr_user_len = key_size, xbr_max_len = BPF_DIRECT_MAP_VALUE_MAX,
           xbr_storage_len = BPF_DIRECT_BYTES_BUCKET_512, xbr_arg_index = BPF_DIRECT_MAP_GET_NEXT_KEY_NEXT_OUT_ARG\<rparr>))"

definition emit_bpf_map_get_next_key_exit_event_v2_direct ::
    "kernel \<Rightarrow> pending_syscall \<Rightarrow> s64 \<Rightarrow> u64 \<Rightarrow> bool bpf" where
  "emit_bpf_map_get_next_key_exit_event_v2_direct k p ret_value duration =
     (if \<not> is_bpf_direct_syscall (ps_sys_id p) \<or> ret_value \<noteq> 0 \<or> arg0 (ps_args p) \<noteq> BPF_DIRECT_MAP_GET_NEXT_KEY
      then return False
      else do {
        key_size \<leftarrow> lookup_pending_syscall_aux0 k (ps_tid p);
        with_field (read_bpf_map_get_next_key_output_request_direct k (arg1 (ps_args p)) (arg2 (ps_args p)) key_size)
          (return False) (emit_bpf_exit_bytes_event_v2_direct k p ret_value duration) })"

record bpf_map_batch_output_requests =
  mbo_out_batch :: bpf_exit_bytes_request
  mbo_keys :: bpf_exit_bytes_request
  mbo_values :: bpf_exit_bytes_request

definition bpf_map_batch_cursor_len_direct :: "kernel \<Rightarrow> u64 \<Rightarrow> u32 \<Rightarrow> u32 bpf" where
  "bpf_map_batch_cursor_len_direct k bmap key_size = do {
     map_type \<leftarrow> core_read k ''map_type'' bmap;
     return (if key_size < BPF_DIRECT_MAP_BATCH_CURSOR_MIN \<and>
         ((ucast map_type :: u32) = BPF_DIRECT_MAP_TYPE_HASH \<or> (ucast map_type :: u32) = BPF_DIRECT_MAP_TYPE_PERCPU_HASH \<or>
          (ucast map_type :: u32) = BPF_DIRECT_MAP_TYPE_LRU_HASH \<or> (ucast map_type :: u32) = BPF_DIRECT_MAP_TYPE_LRU_PERCPU_HASH)
       then BPF_DIRECT_MAP_BATCH_CURSOR_MIN else key_size) }"

definition set_bpf_map_batch_output_request_direct ::
    "bpf_exit_bytes_request \<Rightarrow> u64 \<Rightarrow> u32 \<Rightarrow> u16 \<Rightarrow> bpf_exit_bytes_request" where
  "set_bpf_map_batch_output_request_direct request user_ptr user_len arg_index =
     (if user_ptr = 0 \<or> user_len = 0 then request
      else \<lparr>xbr_user_ptr = user_ptr, xbr_user_len = user_len, xbr_max_len = BPF_DIRECT_MAP_VALUE_MAX,
            xbr_storage_len = BPF_DIRECT_BYTES_BUCKET_512, xbr_arg_index = arg_index\<rparr>)"

definition read_bpf_map_batch_output_requests_direct ::
    "kernel \<Rightarrow> u64 \<Rightarrow> u64 \<Rightarrow> bpf_map_batch_output_requests option bpf" where
  "read_bpf_map_batch_output_requests_direct k attr_ptr attr_size =
     with_field (bpf_attr_read_u64_direct k attr_ptr attr_size BPF_DIRECT_MAP_BATCH_OUT_BATCH_OFF) (return None) (\<lambda>out_batch.
     with_field (bpf_attr_read_u64_direct k attr_ptr attr_size BPF_DIRECT_MAP_BATCH_KEYS_OFF) (return None) (\<lambda>keys.
     with_field (bpf_attr_read_u64_direct k attr_ptr attr_size BPF_DIRECT_MAP_BATCH_VALUES_OFF) (return None) (\<lambda>vals.
     with_field (bpf_attr_read_u32_direct k attr_ptr attr_size BPF_DIRECT_MAP_BATCH_COUNT_OFF) (return None) (\<lambda>count.
     with_field (bpf_attr_read_u32_direct k attr_ptr attr_size BPF_DIRECT_MAP_BATCH_FD_OFF) (return None) (\<lambda>map_fd.
     with_field (bpf_attr_read_u64_direct k attr_ptr attr_size BPF_DIRECT_MAP_BATCH_ELEM_FLAGS_OFF) (return None) (\<lambda>elem_flags.
       if count = 0 then return None
       else do {
         bmap \<leftarrow> lookup_current_bpf_map_direct k map_fd;
         if bmap = 0 then return None
         else do {
           key_size \<leftarrow> core_read k ''key_size'' bmap;
           value_size \<leftarrow> core_read k ''value_size'' bmap;
           effective_value_size \<leftarrow> bpf_map_effective_value_size_direct k bmap (ucast value_size) elem_flags;
           if effective_value_size = 0 then return None
           else do {
             cursor_size \<leftarrow> bpf_map_batch_cursor_len_direct k bmap (ucast key_size);
             let requests = \<lparr>
               mbo_out_batch = set_bpf_map_batch_output_request_direct no_exit_bytes out_batch cursor_size
                 BPF_DIRECT_MAP_BATCH_OUT_BATCH_ARG,
               mbo_keys = set_bpf_map_batch_output_request_direct no_exit_bytes keys
                 (bpf_map_batch_buffer_len_direct count (ucast key_size)) BPF_DIRECT_MAP_BATCH_KEYS_ARG,
               mbo_values = set_bpf_map_batch_output_request_direct no_exit_bytes vals
                 (bpf_map_batch_buffer_len_direct count effective_value_size) BPF_DIRECT_MAP_BATCH_VALUES_ARG\<rparr>;
             return (if xbr_user_ptr (mbo_out_batch requests) \<noteq> 0 \<or> xbr_user_ptr (mbo_keys requests) \<noteq> 0 \<or>
                 xbr_user_ptr (mbo_values requests) \<noteq> 0 then Some requests else None) } } }))))))"

definition capture_bpf_map_batch_outputs_direct ::
    "kernel \<Rightarrow> nat \<Rightarrow> bpf_map_batch_output_requests \<Rightarrow> u16 \<Rightarrow> (nat \<times> u16) bpf" where
  "capture_bpf_map_batch_outputs_direct k payload_offset requests event_flags =
     flag_sections [exit_bytes_of k (mbo_out_batch requests), exit_bytes_of k (mbo_keys requests),
       exit_bytes_of k (mbo_values requests)] payload_offset event_flags"

definition emit_bpf_map_batch_lookup_exit_event_v2_direct ::
    "kernel \<Rightarrow> pending_syscall \<Rightarrow> s64 \<Rightarrow> u64 \<Rightarrow> bool bpf" where
  "emit_bpf_map_batch_lookup_exit_event_v2_direct k p ret_value duration =
     (if \<not> is_bpf_direct_syscall (ps_sys_id p) \<or> (ret_value \<noteq> 0 \<and> ret_value \<noteq> - ENOENT) \<or>
         (arg0 (ps_args p) \<noteq> BPF_DIRECT_MAP_LOOKUP_BATCH \<and> arg0 (ps_args p) \<noteq> BPF_DIRECT_MAP_LOOKUP_AND_DELETE_BATCH)
      then return False
      else with_field (read_bpf_map_batch_output_requests_direct k (arg1 (ps_args p)) (arg2 (ps_args p))) (return False)
        (\<lambda>requests. do {
           emit_exit_flagged k p ret_value duration (3 * (PAYLOAD_TLV_HEADER_SIZE + BPF_DIRECT_MAP_VALUE_MAX))
             (\<lambda>off ef. capture_bpf_map_batch_outputs_direct k off requests ef);
           return True }))"

section \<open>Program queries\<close>

definition bpf_prog_query_array_len_direct :: "u32 \<Rightarrow> u32" where
  "bpf_prog_query_array_len_direct count = clamped_total (ucast count * BPF_DIRECT_PROG_QUERY_ARRAY_ELEM_SIZE)"

definition set_bpf_prog_query_array_request_direct ::
    "bpf_exit_bytes_request \<Rightarrow> u64 \<Rightarrow> u32 \<Rightarrow> u16 \<Rightarrow> bpf_exit_bytes_request" where
  "set_bpf_prog_query_array_request_direct request user_ptr user_len arg_index =
     (if user_ptr = 0 \<or> user_len = 0 then request
      else \<lparr>xbr_user_ptr = user_ptr, xbr_user_len = user_len, xbr_max_len = BPF_DIRECT_PROG_QUERY_ARRAY_MAX,
            xbr_storage_len = BPF_DIRECT_BYTES_BUCKET_512, xbr_arg_index = arg_index\<rparr>)"

text \<open>One of the four arrays; its request stays empty when the pointer cannot be read.\<close>

definition query_array :: "kernel \<Rightarrow> u64 \<Rightarrow> u64 \<Rightarrow> u32 \<Rightarrow> u64 \<Rightarrow> u16 \<Rightarrow> bpf_exit_bytes_request bpf" where
  "query_array k attr_ptr attr_size prog_cnt ptr_off arg_index =
     with_field (bpf_attr_read_u64_direct k attr_ptr attr_size ptr_off) (return no_exit_bytes) (\<lambda>user_ptr.
       return (set_bpf_prog_query_array_request_direct no_exit_bytes user_ptr
         (bpf_prog_query_array_len_direct prog_cnt) arg_index))"

definition read_bpf_prog_query_output_requests_direct ::
    "kernel \<Rightarrow> u64 \<Rightarrow> u64 \<Rightarrow> bpf_exit_bytes_request list option bpf" where
  "read_bpf_prog_query_output_requests_direct k attr_ptr attr_size =
     with_field (bpf_attr_read_u32_direct k attr_ptr attr_size BPF_DIRECT_PROG_QUERY_PROG_CNT_OFF) (return None) (\<lambda>prog_cnt. do {
       let r0 = \<lparr>xbr_user_ptr = attr_ptr + BPF_DIRECT_PROG_QUERY_PROG_CNT_OFF, xbr_user_len = 4, xbr_max_len = 4,
         xbr_storage_len = BPF_DIRECT_BYTES_BUCKET_512, xbr_arg_index = BPF_DIRECT_PROG_QUERY_PROG_CNT_OUT_ARG\<rparr>;
       r1 \<leftarrow> query_array k attr_ptr attr_size prog_cnt BPF_DIRECT_PROG_QUERY_PROG_IDS_OFF
         BPF_DIRECT_PROG_QUERY_PROG_IDS_ARG;
       r2 \<leftarrow> query_array k attr_ptr attr_size prog_cnt BPF_DIRECT_PROG_QUERY_PROG_ATTACH_FLAGS_OFF
         BPF_DIRECT_PROG_QUERY_PROG_ATTACH_FLAGS_ARG;
       r3 \<leftarrow> query_array k attr_ptr attr_size prog_cnt BPF_DIRECT_PROG_QUERY_LINK_IDS_OFF
         BPF_DIRECT_PROG_QUERY_LINK_IDS_ARG;
       r4 \<leftarrow> query_array k attr_ptr attr_size prog_cnt BPF_DIRECT_PROG_QUERY_LINK_ATTACH_FLAGS_OFF
         BPF_DIRECT_PROG_QUERY_LINK_ATTACH_FLAGS_ARG;
       return (Some [r0, r1, r2, r3, r4]) })"

definition capture_bpf_prog_query_outputs_direct ::
    "kernel \<Rightarrow> nat \<Rightarrow> bpf_exit_bytes_request list \<Rightarrow> u16 \<Rightarrow> (nat \<times> u16) bpf" where
  "capture_bpf_prog_query_outputs_direct k payload_offset requests event_flags =
     flag_sections (map (exit_bytes_of k) (take BPF_DIRECT_PROG_QUERY_OUTPUT_SECTIONS requests)) payload_offset event_flags"

definition emit_bpf_prog_query_record_v2_direct ::
    "kernel \<Rightarrow> pending_syscall \<Rightarrow> s64 \<Rightarrow> u64 \<Rightarrow> bpf_exit_bytes_request list \<Rightarrow> bool bpf" where
  "emit_bpf_prog_query_record_v2_direct k p ret_value duration requests = do {
     emit_exit_flagged k p ret_value duration
       (BPF_DIRECT_PROG_QUERY_OUTPUT_SECTIONS * (PAYLOAD_TLV_HEADER_SIZE + BPF_DIRECT_PROG_QUERY_ARRAY_MAX))
       (\<lambda>off ef. capture_bpf_prog_query_outputs_direct k off requests ef);
     return True }"

definition emit_bpf_prog_query_exit_event_v2_direct ::
    "kernel \<Rightarrow> pending_syscall \<Rightarrow> s64 \<Rightarrow> u64 \<Rightarrow> bool bpf" where
  "emit_bpf_prog_query_exit_event_v2_direct k p ret_value duration =
     (if \<not> is_bpf_direct_syscall (ps_sys_id p) \<or> arg0 (ps_args p) \<noteq> BPF_DIRECT_PROG_QUERY \<or> ret_value \<noteq> 0
      then return False
      else with_field (read_bpf_prog_query_output_requests_direct k (arg1 (ps_args p)) (arg2 (ps_args p))) (return False)
        (emit_bpf_prog_query_record_v2_direct k p ret_value duration))"

section \<open>Test runs\<close>

record bpf_test_run_output_spec =
  tro_size_offset :: u64
  tro_ptr_offset :: u64
  tro_arg_index :: u16

text \<open>The request is left as it was, all zero, when there is no output.\<close>

definition read_bpf_test_run_output_request_direct ::
    "kernel \<Rightarrow> u64 \<Rightarrow> u64 \<Rightarrow> bpf_test_run_output_spec \<Rightarrow> bpf_exit_bytes_request bpf" where
  "read_bpf_test_run_output_request_direct k attr_ptr attr_size spec =
     with_field (bpf_attr_read_u32_direct k attr_ptr attr_size (tro_size_offset spec)) (return no_exit_bytes) (\<lambda>user_len.
     with_field (bpf_attr_read_u64_direct k attr_ptr attr_size (tro_ptr_offset spec)) (return no_exit_bytes) (\<lambda>user_ptr.
       return (if user_ptr = 0 \<or> user_len = 0 then no_exit_bytes
         else \<lparr>xbr_user_ptr = user_ptr, xbr_user_len = user_len, xbr_max_len = BPF_DIRECT_TEST_RUN_OUTPUT_MAX,
           xbr_storage_len = BPF_DIRECT_BYTES_BUCKET_512, xbr_arg_index = tro_arg_index spec\<rparr>)))"

definition has_output :: "bpf_exit_bytes_request \<Rightarrow> bool" where
  "has_output request \<longleftrightarrow> xbr_user_ptr request \<noteq> 0 \<and> xbr_user_len request \<noteq> 0"

definition capture_bpf_test_run_outputs_direct ::
    "kernel \<Rightarrow> nat \<Rightarrow> bpf_exit_bytes_request \<Rightarrow> bpf_exit_bytes_request \<Rightarrow> u16 \<Rightarrow> (nat \<times> u16) bpf" where
  "capture_bpf_test_run_outputs_direct k payload_offset data_request ctx_request event_flags =
     flag_sections
       [if has_output data_request then exit_bytes_of k data_request else no_section,
        if has_output ctx_request then exit_bytes_of k ctx_request else no_section]
       payload_offset event_flags"

definition emit_bpf_prog_test_run_record_v2_direct ::
    "kernel \<Rightarrow> pending_syscall \<Rightarrow> s64 \<Rightarrow> u64 \<Rightarrow> bpf_exit_bytes_request \<Rightarrow> bpf_exit_bytes_request \<Rightarrow> bool bpf" where
  "emit_bpf_prog_test_run_record_v2_direct k p ret_value duration data_request ctx_request = do {
     emit_exit_flagged k p ret_value duration (2 * (PAYLOAD_TLV_HEADER_SIZE + BPF_DIRECT_TEST_RUN_OUTPUT_MAX))
       (\<lambda>off ef. capture_bpf_test_run_outputs_direct k off data_request ctx_request ef);
     return True }"

definition emit_bpf_prog_test_run_exit_event_v2_direct ::
    "kernel \<Rightarrow> pending_syscall \<Rightarrow> s64 \<Rightarrow> u64 \<Rightarrow> bool bpf" where
  "emit_bpf_prog_test_run_exit_event_v2_direct k p ret_value duration =
     (if \<not> is_bpf_direct_syscall (ps_sys_id p) \<or> arg0 (ps_args p) \<noteq> BPF_DIRECT_PROG_TEST_RUN \<or> ret_value \<noteq> 0
      then return False
      else do {
        data_request \<leftarrow> read_bpf_test_run_output_request_direct k (arg1 (ps_args p)) (arg2 (ps_args p))
          \<lparr>tro_size_offset = BPF_DIRECT_TEST_RUN_DATA_SIZE_OUT_OFF, tro_ptr_offset = BPF_DIRECT_TEST_RUN_DATA_OUT_OFF,
           tro_arg_index = BPF_DIRECT_TEST_RUN_DATA_ARG\<rparr>;
        ctx_request \<leftarrow> read_bpf_test_run_output_request_direct k (arg1 (ps_args p)) (arg2 (ps_args p))
          \<lparr>tro_size_offset = BPF_DIRECT_TEST_RUN_CTX_SIZE_OUT_OFF, tro_ptr_offset = BPF_DIRECT_TEST_RUN_CTX_OUT_OFF,
           tro_arg_index = BPF_DIRECT_TEST_RUN_CTX_ARG\<rparr>;
        if \<not> has_output data_request \<and> \<not> has_output ctx_request then return False
        else emit_bpf_prog_test_run_record_v2_direct k p ret_value duration data_request ctx_request })"

section \<open>Task file descriptor queries\<close>

record bpf_task_fd_query_string_request =
  tfq_user_ptr :: u64
  tfq_user_len :: u32
  tfq_arg_index :: u16

definition read_bpf_task_fd_query_output_attr_direct :: "pending_syscall \<Rightarrow> bpf_exit_bytes_request option" where
  "read_bpf_task_fd_query_output_attr_direct p =
     (let attr_len = (ucast (arg2 (ps_args p)) :: u32) in
      if arg1 (ps_args p) = 0 \<or> attr_len = 0 then None
      else Some \<lparr>xbr_user_ptr = arg1 (ps_args p),
        xbr_user_len = (if attr_len > of_nat BPF_DIRECT_TASK_FD_QUERY_ATTR_MAX
                        then of_nat BPF_DIRECT_TASK_FD_QUERY_ATTR_MAX else attr_len),
        xbr_max_len = BPF_DIRECT_TASK_FD_QUERY_ATTR_MAX, xbr_storage_len = BPF_DIRECT_BYTES_BUCKET_512,
        xbr_arg_index = BPF_DIRECT_TASK_FD_QUERY_ATTR_OUT_ARG\<rparr>)"

definition read_bpf_task_fd_query_string_request_direct ::
    "kernel \<Rightarrow> pending_syscall \<Rightarrow> bpf_task_fd_query_string_request option bpf" where
  "read_bpf_task_fd_query_string_request_direct k p = do {
     enter_buf_len \<leftarrow> lookup_pending_syscall_aux0 k (ps_tid p);
     if enter_buf_len = 0 then return None
     else
     with_field (bpf_attr_read_u64_direct k (arg1 (ps_args p)) (arg2 (ps_args p)) BPF_DIRECT_TASK_FD_QUERY_BUF_OFF)
       (return None) (\<lambda>exit_buf.
     with_field (bpf_attr_read_u32_direct k (arg1 (ps_args p)) (arg2 (ps_args p)) BPF_DIRECT_TASK_FD_QUERY_BUF_LEN_OFF)
       (return None) (\<lambda>exit_buf_len.
       let bounded_len = (if exit_buf_len < enter_buf_len then exit_buf_len else enter_buf_len);
           bounded_len = (if bounded_len > of_nat BPF_DIRECT_TASK_FD_QUERY_BUF_MAX
                          then of_nat BPF_DIRECT_TASK_FD_QUERY_BUF_MAX else bounded_len)
       in return (if exit_buf = 0 \<or> bounded_len = 0 then None
            else Some \<lparr>tfq_user_ptr = exit_buf, tfq_user_len = bounded_len,
              tfq_arg_index = BPF_DIRECT_TASK_FD_QUERY_BUF_OUT_ARG\<rparr>))) }"

definition capture_bpf_task_fd_query_string_tlv_direct ::
    "kernel \<Rightarrow> nat \<Rightarrow> bpf_task_fd_query_string_request \<Rightarrow> u16 \<Rightarrow> (nat \<times> u16) bpf" where
  "capture_bpf_task_fd_query_string_tlv_direct k payload_offset request event_flags =
     (if tfq_user_ptr request = 0 \<or> tfq_user_len request = 0 then return (0, event_flags)
      else flagged_section k payload_offset PAYLOAD_TLV_KIND_STRING (tfq_arg_index request)
        PAYLOAD_TLV_FLAG_DIRECTION_OUT event_flags (tfq_user_len request) (tfq_user_ptr request)
        (\<lambda>copied_len probe_ret. probe_ret = 0 \<and> copied_len = BPF_DIRECT_TASK_FD_QUERY_BUF_MAX \<and>
           tfq_user_len request > of_nat copied_len)
        (copy_string k BPF_DIRECT_TASK_FD_QUERY_BUF_MAX BPF_DIRECT_TASK_FD_QUERY_BUF_MAX (tfq_user_ptr request)))"

text \<open>A section for a request that may be absent.\<close>

definition optional_section :: "('r \<Rightarrow> flag_capture) \<Rightarrow> 'r option \<Rightarrow> flag_capture" where
  "optional_section capture request = (case request of None \<Rightarrow> no_section | Some r \<Rightarrow> capture r)"

definition emit_bpf_task_fd_query_exit_event_v2_direct ::
    "kernel \<Rightarrow> pending_syscall \<Rightarrow> s64 \<Rightarrow> u64 \<Rightarrow> bool bpf" where
  "emit_bpf_task_fd_query_exit_event_v2_direct k p ret_value duration =
     (if \<not> is_bpf_direct_syscall (ps_sys_id p) \<or> arg0 (ps_args p) \<noteq> BPF_DIRECT_TASK_FD_QUERY \<or> ret_value \<noteq> 0
      then return False
      else do {
        let attr_request = read_bpf_task_fd_query_output_attr_direct p;
        string_request \<leftarrow> read_bpf_task_fd_query_string_request_direct k p;
        if attr_request = None \<and> string_request = None then return False
        else do {
          emit_exit_flagged k p ret_value duration (2 * (PAYLOAD_TLV_HEADER_SIZE + BPF_DIRECT_TASK_FD_QUERY_BUF_MAX))
            (flag_sections
              [optional_section (exit_bytes_of k) attr_request,
               optional_section (\<lambda>r off ef. capture_bpf_task_fd_query_string_tlv_direct k off r ef) string_request]);
          return True } })"

section \<open>The exit of a command\<close>

definition emit_bpf_exit_event_v2_direct :: "kernel \<Rightarrow> pending_syscall \<Rightarrow> s64 \<Rightarrow> u64 \<Rightarrow> bool bpf" where
  "emit_bpf_exit_event_v2_direct k p ret_value duration =
     (let cmd = arg0 (ps_args p); attr_ptr = arg1 (ps_args p); attr_size = arg2 (ps_args p) in
      if \<not> is_bpf_direct_syscall (ps_sys_id p) then return False
      else if cmd = BPF_DIRECT_MAP_GET_NEXT_KEY then emit_bpf_map_get_next_key_exit_event_v2_direct k p ret_value duration
      else if cmd = BPF_DIRECT_PROG_QUERY then emit_bpf_prog_query_exit_event_v2_direct k p ret_value duration
      else if cmd = BPF_DIRECT_MAP_LOOKUP_ELEM \<or> cmd = BPF_DIRECT_MAP_LOOKUP_AND_DELETE_ELEM
        then emit_bpf_map_lookup_exit_event_v2_direct k p ret_value duration
      else if cmd = BPF_DIRECT_MAP_LOOKUP_BATCH \<or> cmd = BPF_DIRECT_MAP_LOOKUP_AND_DELETE_BATCH
        then emit_bpf_map_batch_lookup_exit_event_v2_direct k p ret_value duration
      else if is_bpf_get_next_id_command_direct cmd then emit_bpf_get_next_id_exit_event_v2_direct k p ret_value duration
      else if cmd = BPF_DIRECT_OBJ_GET_INFO_BY_FD then
        if ret_value \<noteq> 0 then return False
        else
        with_field (bpf_attr_read_u32_direct k attr_ptr attr_size BPF_DIRECT_OBJ_INFO_LEN_OFF) (return False) (\<lambda>info_len.
        with_field (bpf_attr_read_u64_direct k attr_ptr attr_size BPF_DIRECT_OBJ_INFO_PTR_OFF) (return False) (\<lambda>info_ptr.
          if info_ptr = 0 \<or> info_len = 0 then return False
          else emit_bpf_obj_info_exit_event_v2_direct k p ret_value duration info_ptr info_len))
      else if cmd = BPF_DIRECT_BTF_LOAD then emit_bpf_btf_load_log_exit_event_v2_direct k p ret_value duration
      else if cmd = BPF_DIRECT_PROG_STREAM_READ_BY_FD
        then emit_bpf_prog_stream_read_exit_event_v2_direct k p ret_value duration
      else if cmd = BPF_DIRECT_PROG_TEST_RUN then emit_bpf_prog_test_run_exit_event_v2_direct k p ret_value duration
      else if cmd = BPF_DIRECT_TASK_FD_QUERY then emit_bpf_task_fd_query_exit_event_v2_direct k p ret_value duration
      else emit_bpf_prog_load_log_exit_event_v2_direct k p ret_value duration)"

section \<open>Accounting\<close>

lemma flagged_exit_bytes: "flagged k 544 (exit_bytes_of k r)"
proof -
  let ?n = "min 512 (unat (payload_tlv_copy_len (ucast (xbr_user_len r)) (of_nat (xbr_max_len r))))"
  let ?u = "payload_tlv_clamp_u32 (ucast (xbr_user_len r))"
  let ?sec = "\<lambda>off ef. flagged_section k off PAYLOAD_TLV_KIND_BYTES (xbr_arg_index r) PAYLOAD_TLV_FLAG_DIRECTION_OUT ef
     ?u (xbr_user_ptr r) (\<lambda>n pr. of_nat n < ?u) (\<lambda>_. return (?n, 0))"
  have t: "flagged k 544 ?sec"
    by (intro flagged_flagged_section [where m = 512] copies_return) (simp_all add: payloadKindFromTLV_def)
  let ?rest = "\<lambda>off ef. do { (err, bs) \<leftarrow> bpf_probe_read_user k ?n (xbr_user_ptr r); mem_store (off + 32) bs;
     if err < 0 then return (0, ef) else ?sec off ef }"
  have c: "captures k off 544 fst (?rest off ef)" for off ef
    by (rule captures_pre_any, rule silent_intros, rule reports_intros, rule above_intros, rule captures_case_prod,
        rule captures_pre_any) (use t in \<open>auto intro!: silent_intros reports_intros above_store captures_return
          simp: flagged_def\<close>)
  have g: "gives (?rest off ef) (\<lambda>(n, f). \<not> has_flag f EVENT_FLAG_COMPACT_ENTER)"
    if "\<not> has_flag ef EVENT_FLAG_COMPACT_ENTER" for off ef
    by (intro gives_bind_any gives_case_prod) (use t that in \<open>auto simp: flagged_def intro!: gives_bind_any gives_return\<close>)
  have "captures k off 544 fst (capture_bpf_exit_bytes_tlv_direct k off r ef)" for off ef
    unfolding capture_bpf_exit_bytes_tlv_direct_def Let_def
    by (rule captures_if, rule captures_return, simp, rule captures_pre_any, rule silent_intros, rule reports_intros,
        rule above_intros, rule captures_if, rule captures_pre_any)
       (auto intro!: silent_intros reports_intros above_intros captures_return c)
  moreover have "gives (capture_bpf_exit_bytes_tlv_direct k off r ef) (\<lambda>(n, f). \<not> has_flag f EVENT_FLAG_COMPACT_ENTER)"
    if "\<not> has_flag ef EVENT_FLAG_COMPACT_ENTER" for off ef
    unfolding capture_bpf_exit_bytes_tlv_direct_def Let_def
    by (rule gives_if, rule gives_return, use that in simp, rule gives_bind_any, rule gives_if, rule gives_bind_any,
        rule gives_return) (use that g in auto)
  ultimately show ?thesis by (simp add: flagged_def exit_bytes_of_def)
qed

lemma emitter_flagged_true: "emitter k m \<Longrightarrow> emitter k (do { m; return True })"
  by (intro emitter_rules)

lemma emitter_with_field:
  "silent k m \<Longrightarrow> reports m \<Longrightarrow> emitter k e \<Longrightarrow> (\<And>v. emitter k (f v)) \<Longrightarrow> emitter k (with_field m e f)"
  unfolding with_field_def by (assumption | rule emitter_rules | rule silent_emitter)+

lemmas field_rules = emitter_with_field emitter_rules

lemma emitter_exit_bytes [emitter_intros]: "emitter k (emit_bpf_exit_bytes_event_v2_direct k p ret dur r)"
  unfolding emit_bpf_exit_bytes_event_v2_direct_def
  by (intro emitter_rules emitter_exit_flagged) (simp_all add: flagged_exit_bytes)

lemma bpf_log_emitters [emitter_intros]:
  "emitter k (emit_bpf_obj_info_exit_event_v2_direct k p ret dur ip il)"
  "emitter k (emit_bpf_prog_load_log_exit_event_v2_direct k p ret dur)"
  "emitter k (emit_bpf_btf_load_log_exit_event_v2_direct k p ret dur)"
  "emitter k (emit_bpf_prog_stream_read_exit_event_v2_direct k p ret dur)"
  "emitter k (emit_bpf_get_next_id_exit_event_v2_direct k p ret dur)"
  unfolding emit_bpf_obj_info_exit_event_v2_direct_def emit_bpf_prog_load_log_exit_event_v2_direct_def
    emit_bpf_btf_load_log_exit_event_v2_direct_def emit_bpf_prog_stream_read_exit_event_v2_direct_def
    emit_bpf_get_next_id_exit_event_v2_direct_def emit_load_log_def Let_def
  by (intro field_rules silent_intros reports_intros emitter_intros)+

lemma output_request_frame [silent_intros, reports_intros]:
  "silent k (read_bpf_map_lookup_output_request_direct k' a n)"
  "reports (read_bpf_map_lookup_output_request_direct k' a n)"
  "silent k (read_bpf_map_get_next_key_output_request_direct k' a n sz)"
  "reports (read_bpf_map_get_next_key_output_request_direct k' a n sz)"
  "silent k (read_bpf_map_batch_output_requests_direct k' a n)"
  "reports (read_bpf_map_batch_output_requests_direct k' a n)"
  unfolding read_bpf_map_lookup_output_request_direct_def read_bpf_map_get_next_key_output_request_direct_def
    read_bpf_map_batch_output_requests_direct_def bpf_map_batch_cursor_len_direct_def Let_def
  by (intro silent_rules silent_intros reports_rules reports_intros)+

lemma query_request_frame [silent_intros, reports_intros]:
  "silent k (read_bpf_prog_query_output_requests_direct k' a n)"
  "reports (read_bpf_prog_query_output_requests_direct k' a n)"
  "silent k (read_bpf_test_run_output_request_direct k' a n spec)"
  "reports (read_bpf_test_run_output_request_direct k' a n spec)"
  "silent k (read_bpf_task_fd_query_string_request_direct k p)"
  "reports (read_bpf_task_fd_query_string_request_direct k p)"
  unfolding read_bpf_prog_query_output_requests_direct_def query_array_def read_bpf_test_run_output_request_direct_def
    read_bpf_task_fd_query_string_request_direct_def Let_def
  by (intro silent_rules silent_intros reports_rules reports_intros)+

lemma flagged_sections_map:
  assumes "\<And>r. flagged k a (f r)" "length rs * a \<le> cap"
  shows "flagged k cap (flag_sections (map f rs))"
  using assms(2)
proof (induction rs arbitrary: cap)
  case Nil then show ?case by (simp add: flagged_none)
next
  case (Cons r rs)
  then show ?case
    by (simp only: list.map, intro flagged_sections_cons [OF assms(1)] Cons.IH) simp_all
qed

lemma flagged_exit_map: "length rs \<le> 5 \<Longrightarrow> flagged k 2720 (flag_sections (map (exit_bytes_of k) rs))"
  by (rule flagged_sections_map [OF flagged_exit_bytes]) simp

lemma bpf_map_emitters [emitter_intros]:
  "emitter k (emit_bpf_map_lookup_exit_event_v2_direct k p ret dur)"
  "emitter k (emit_bpf_map_get_next_key_exit_event_v2_direct k p ret dur)"
  "emitter k (emit_bpf_map_batch_lookup_exit_event_v2_direct k p ret dur)"
proof -
  have b: "flagged k 1632 (\<lambda>off ef. capture_bpf_map_batch_outputs_direct k off rs ef)" for rs
    unfolding capture_bpf_map_batch_outputs_direct_def
    by (intro flagged_sections_cons [OF flagged_exit_bytes] flagged_sections_nil) simp_all
  show "emitter k (emit_bpf_map_lookup_exit_event_v2_direct k p ret dur)"
    "emitter k (emit_bpf_map_get_next_key_exit_event_v2_direct k p ret dur)"
    unfolding emit_bpf_map_lookup_exit_event_v2_direct_def emit_bpf_map_get_next_key_exit_event_v2_direct_def
    by (rule emitter_intros field_rules silent_intros reports_intros | rule silent_emitter)+
  show "emitter k (emit_bpf_map_batch_lookup_exit_event_v2_direct k p ret dur)"
    unfolding emit_bpf_map_batch_lookup_exit_event_v2_direct_def
    by (intro field_rules silent_intros reports_intros emitter_exit_flagged) (simp_all add: b)
qed

lemma flagged_optional: "(\<And>r. flagged k cap (c r)) \<Longrightarrow> flagged k cap (optional_section c r)"
  unfolding optional_section_def by (cases r) (simp_all add: flagged_no_section)

lemma flagged_query_string: "flagged k 544 (\<lambda>off ef. capture_bpf_task_fd_query_string_tlv_direct k off r ef)"
  unfolding capture_bpf_task_fd_query_string_tlv_direct_def
  by (intro flagged_cond flagged_none flagged_flagged_section [where m = 512] copies_copy_string)
     (simp_all add: payloadKindFromTLV_def)

lemma bpf_query_emitters [emitter_intros]:
  "emitter k (emit_bpf_prog_query_exit_event_v2_direct k p ret dur)"
  "emitter k (emit_bpf_prog_test_run_exit_event_v2_direct k p ret dur)"
  "emitter k (emit_bpf_task_fd_query_exit_event_v2_direct k p ret dur)"
proof -
  show "emitter k (emit_bpf_prog_query_exit_event_v2_direct k p ret dur)"
    unfolding emit_bpf_prog_query_exit_event_v2_direct_def emit_bpf_prog_query_record_v2_direct_def
      capture_bpf_prog_query_outputs_direct_def
    by (intro field_rules silent_intros reports_intros emitter_exit_flagged) (simp_all add: flagged_exit_map)
  have t: "flagged k 1088 (\<lambda>off ef. capture_bpf_test_run_outputs_direct k off r r' ef)" for r r'
    unfolding capture_bpf_test_run_outputs_direct_def
    by (intro flagged_sections_cons [where a = 544] flagged_sections_one flagged_if flagged_exit_bytes flagged_no_section)
       (simp_all add: flagged_exit_bytes)
  show "emitter k (emit_bpf_prog_test_run_exit_event_v2_direct k p ret dur)"
    unfolding emit_bpf_prog_test_run_exit_event_v2_direct_def emit_bpf_prog_test_run_record_v2_direct_def
    by (rule emitter_rules | rule silent_emitter, rule silent_intros, rule reports_intros | rule emitter_exit_flagged
        | simp add: t)+
  have q: "flagged k 1088 (flag_sections [optional_section (exit_bytes_of k) a,
      optional_section (\<lambda>r off ef. capture_bpf_task_fd_query_string_tlv_direct k off r ef) b])" for a b
    by (intro flagged_sections_cons [OF flagged_optional [OF flagged_exit_bytes]]
        flagged_sections_cons [OF flagged_optional [OF flagged_query_string]] flagged_sections_nil) simp_all
  show "emitter k (emit_bpf_task_fd_query_exit_event_v2_direct k p ret dur)"
    unfolding emit_bpf_task_fd_query_exit_event_v2_direct_def Let_def
    by (rule emitter_rules | rule silent_emitter, rule silent_intros, rule reports_intros
        | rule emitter_exit_flagged, rule flagged_mono [OF q])+ (simp_all add: emitter_rules)
qed

lemma bpf_exit_emitter [emitter_intros]: "emitter k (emit_bpf_exit_event_v2_direct k p ret dur)"
  unfolding emit_bpf_exit_event_v2_direct_def Let_def by (intro field_rules silent_intros reports_intros emitter_intros)


section \<open>Lengths\<close>

lemma clamped_total_unat: "unat (clamped_total n) = min (2 ^ 32 - 1) (unat n)"
proof (cases "n > 0xffffffff")
  case True
  then show ?thesis by (simp add: clamped_total_def word_less_nat_alt)
next
  case False
  then have "unat n < 2 ^ 32" by (simp add: word_less_nat_alt)
  then show ?thesis using False by (simp add: clamped_total_def word_less_nat_alt unsigned_ucast_eq take_bit_nat_eq_self)
qed

lemma unat_mult_small:
  fixes a b :: u64
  assumes "unat a * unat b < 2 ^ 64"
  shows "unat (a * b) = unat a * unat b"
  using assms by (simp add: unat_word_ariths)

lemma unat_widen: "unat (ucast (x :: u32) :: u64) = unat x"
  by (simp add: unsigned_ucast_eq take_bit_nat_eq_self order.strict_trans2 [OF unsigned_less])

lemma u32_le: "unat (x :: u32) \<le> 2 ^ 32 - 1"
  using unsigned_less [of x, where 'a = nat] by simp

lemma stride_unat: "unat ((ucast (v :: u32) + 7 :: u64) AND NOT 7) = (unat v + 7) div 8 * 8"
proof -
  have m: "(7 :: u64) = mask 3" by (simp add: mask_eq_exp_minus_1)
  have "(x :: u64) AND NOT 7 = push_bit 3 (drop_bit 3 x)" for x
    by (rule bit_word_eqI) (auto simp: m bit_simps)
  moreover have "unat (push_bit 3 (drop_bit 3 x)) = unat x div 8 * 8" for x :: u64
  proof -
    have "unat x div 8 * 8 \<le> unat x" by simp
    then have "unat x div 8 * 8 < 2 ^ 64" using unsigned_less [of x, where 'a = nat] by simp
    then show ?thesis
      by (simp add: push_bit_eq_mult drop_bit_eq_div unat_word_ariths unat_div_distrib)
  qed
  moreover have "unat (ucast v + 7 :: u64) = unat v + 7"
    using u32_le [of v] by (simp add: unat_word_ariths unat_widen)
  ultimately show ?thesis by simp
qed

lemma batch_len_unat: "unat (bpf_map_batch_buffer_len_direct c e) = min (2 ^ 32 - 1) (unat c * unat e)"
proof -
  have "unat c * unat e \<le> (2 ^ 32 - 1) * (2 ^ 32 - 1)" using u32_le by (intro mult_le_mono)
  then have "unat (ucast c :: u64) * unat (ucast e :: u64) < 2 ^ 64" by (simp add: unat_widen)
  then show ?thesis
    by (simp only: bpf_map_batch_buffer_len_direct_def clamped_total_unat unat_mult_small unat_widen)
qed

lemma percpu_len_unat:
  "unat (clamped_total (((ucast (v :: u32) + 7 :: u64) AND NOT 7) * ucast (c :: u32))) =
     min (2 ^ 32 - 1) ((unat v + 7) div 8 * 8 * unat c)"
proof -
  have "(unat v + 7) div 8 * 8 * unat c \<le> 2 ^ 32 * (2 ^ 32 - 1)"
    using u32_le [of v] u32_le [of c] by (intro mult_le_mono) auto
  then have "unat ((ucast v + 7 :: u64) AND NOT 7) * unat (ucast c :: u64) < 2 ^ 64"
    by (simp only: unat_widen stride_unat) simp
  then show ?thesis by (simp only: clamped_total_unat unat_mult_small unat_widen stride_unat)
qed

text \<open>
  C40: the lengths computed from a map's element size and a count never wrap: the batch buffer and the value of
  a per-CPU map have the length of the mathematical product, and only a length that the 32-bit field of the
  section header cannot hold is recorded as the largest one.
\<close>

theorem bpf_map_lengths_exact:
  "unat (bpf_map_batch_buffer_len_direct count elem_size) = min (2 ^ 32 - 1) (unat count * unat elem_size) \<and>
   unat (result (bpf_map_effective_value_size_direct k bmap value_size flags) s) =
     (if bpf_map_type_is_percpu_direct (ucast (k_core k (tick s) ''map_type'' bmap)) \<and> flags AND 24 = 0
      then case runtime_meta_map s of None \<Rightarrow> 0
        | Some cpus \<Rightarrow> min (2 ^ 32 - 1) ((unat value_size + 7) div 8 * 8 * unat cpus)
      else unat value_size)"
  using percpu_len_unat [of value_size]
  by (auto simp: batch_len_unat bpf_map_effective_value_size_direct_def bpf_runtime_possible_cpu_count_direct_def
      core_read_def next_tick_def Let_def run_bind_parts simp del: run_state_bind split: option.split)

section \<open>Truncation of the task query string\<close>

text \<open>
  The length of a task query string is clamped to the size of the window before it is compared with it, so
  the truncation mark is never set, however much longer the string in the buffer is.
\<close>

lemma task_fd_query_string_bound:
  "gives (read_bpf_task_fd_query_string_request_direct k p) (\<lambda>r. \<forall>x. r = Some x \<longrightarrow> unat (tfq_user_len x) \<le> 512)"
  unfolding read_bpf_task_fd_query_string_request_direct_def with_field_def Let_def
  by (intro gives_bind_any gives_if gives_case_option gives_return)
     (auto simp: word_less_nat_alt split: if_splits)

lemma task_fd_query_string_unmarked:
  "unat (tfq_user_len r) \<le> 512 \<Longrightarrow>
     gives (capture_bpf_task_fd_query_string_tlv_direct k off r ef) (\<lambda>(n, f). f = ef)"
  unfolding capture_bpf_task_fd_query_string_tlv_direct_def flagged_section_def
  by (intro gives_if gives_return gives_bind_any gives_case_prod) (auto simp: word_less_nat_alt)

end
