(* ===== verification/Route_Manifest.thy ===== *)
theory Route_Manifest
  imports Syscall_Numbers
begin

text \<open>
  The capture manifest: the slots of the program arrays (\<^verbatim>\<open>bpf/capture_manifest_generated.h\<close>), the
  route of every syscall (\<^verbatim>\<open>bpfRouteCapabilities\<close> of \<^verbatim>\<open>bpf_capture_manifest_generated.go\<close>) and
  how the loader turns it into the route arrays (\<^verbatim>\<open>bpf_routes.go\<close>, \<^verbatim>\<open>bpf_program_selection.go\<close>).
  The manifest names the syscalls; here they are given by their amd64 numbers.
\<close>

section \<open>Program arrays\<close>

datatype enter_prog_index =
    ENTER_PROG_TERMINATING | ENTER_PROG_EXEC | ENTER_PROG_PATH_STAT | ENTER_PROG_PATH_ONLY
  | ENTER_PROG_DUAL_PATH | ENTER_PROG_OPENAT2 | ENTER_PROG_READLINK | ENTER_PROG_MISC_STRUCT
  | ENTER_PROG_SMALL_STRUCT | ENTER_PROG_ITIMER | ENTER_PROG_TIME_STRUCT | ENTER_PROG_SIGNAL
  | ENTER_PROG_FILE_TIME | ENTER_PROG_SLEEP | ENTER_PROG_FUTEX | ENTER_PROG_CACHESTAT
  | ENTER_PROG_CAPABILITY | ENTER_PROG_MEMFD | ENTER_PROG_PRCTL | ENTER_PROG_CLONE3 | ENTER_PROG_BPF
  | ENTER_PROG_IOVEC | ENTER_PROG_MSG | ENTER_PROG_MMSG | ENTER_PROG_FCNTL | ENTER_PROG_IOCTL
  | ENTER_PROG_NETWORK | ENTER_PROG_KEY | ENTER_PROG_XATTR | ENTER_PROG_FS | ENTER_PROG_AIO
  | ENTER_PROG_POLL | ENTER_PROG_SELECT | ENTER_PROG_EPOLL | ENTER_PROG_NO_PAYLOAD_DIRECT
  | ENTER_PROG_PAYLOAD_DIRECT | ENTER_PROG_IOVEC_BASE | ENTER_PROG_SENDMSG_BASE | ENTER_PROG_MMSG_BASE01
  | ENTER_PROG_MMSG_BASE2 | ENTER_PROG_MMSG_BASE3 | ENTER_PROG_AIO_IOVEC | ENTER_PROG_AIO_BUF
  | ENTER_PROG_QUOTA | ENTER_PROG_MOUNT_PATH | ENTER_PROG_NO_PAYLOAD_GENERIC | ENTER_PROG_NESTED_FD_PATH0
  | ENTER_PROG_NESTED_FD_PATH1 | ENTER_PROG_NESTED_FD_PATH2 | ENTER_PROG_NESTED_FD_PATH3
  | ENTER_PROG_BPF_UPROBE_MULTI | ENTER_PROG_BPF_PROG_LOAD | ENTER_PROG_BPF_PROG_LOAD_DEBUG
  | ENTER_PROG_BPF_TRACING_MULTI

datatype exit_prog_index =
    EXIT_PROG_GENERIC | EXIT_PROG_IOVEC_BASE | EXIT_PROG_MSG | EXIT_PROG_MMSG_FINAL
  | EXIT_PROG_RECVMMSG_BASE01 | EXIT_PROG_RECVMMSG_BASE23 | EXIT_PROG_QUOTA | EXIT_PROG_MOUNT_QUERY
  | EXIT_PROG_PATH | EXIT_PROG_FD_TIME | EXIT_PROG_STRUCT | EXIT_PROG_ASYNC | EXIT_PROG_IO
  | EXIT_PROG_CONTROL | EXIT_PROG_NESTED_FD_PATH0 | EXIT_PROG_NESTED_FD_PATH1 | EXIT_PROG_NESTED_FD_PATH2
  | EXIT_PROG_NESTED_FD_PATH3 | EXIT_PROG_NAMESPACE | EXIT_PROG_PID_NAMESPACE

datatype recvmsg_prog_index =
    RECVMSG_PROG_NAME | RECVMSG_PROG_CONTROL | RECVMSG_PROG_FINAL

datatype mmsg_bytes_prog_index =
    MMSG_BYTES_PROG_BASE0 | MMSG_BYTES_PROG_BASE1 | MMSG_BYTES_PROG_BASE2 | MMSG_BYTES_PROG_BASE3

text \<open>
  The PROG_ARRAY maps of \<^verbatim>\<open>runtime_abi.h\<close> as the loader left them.  A route entry holds the handler
  of one of the slots; a slot array tells which handlers are there.
\<close>

record prog_arrays =
  pa_enter_routes :: "u32 \<Rightarrow> enter_prog_index option"
  pa_exit_routes :: "u32 \<Rightarrow> exit_prog_index option"
  pa_enter_progs :: "enter_prog_index \<Rightarrow> bool"
  pa_exit_progs :: "exit_prog_index \<Rightarrow> bool"
  pa_recvmsg_progs :: "recvmsg_prog_index \<Rightarrow> bool"
  pa_mmsg_bytes_progs :: "mmsg_bytes_prog_index \<Rightarrow> bool"

section \<open>Routes\<close>

text \<open>\<^verbatim>\<open>bpfRouteCapabilities\<close>: syscall, enter slot, exit slot; \<open>None\<close> is the zero slot.\<close>

type_synonym route_capability = "u32 \<times> enter_prog_index option \<times> exit_prog_index option"

definition bpfRouteCapabilities_a_f :: "route_capability list" where
  "bpfRouteCapabilities_a_f = [
     (SYS_ACCEPT, Some ENTER_PROG_NETWORK, Some EXIT_PROG_CONTROL),
     (SYS_ACCEPT4, Some ENTER_PROG_NETWORK, Some EXIT_PROG_CONTROL),
     (SYS_ACCESS, Some ENTER_PROG_PATH_ONLY, Some EXIT_PROG_PATH),
     (SYS_ACCT, Some ENTER_PROG_PATH_ONLY, Some EXIT_PROG_PATH),
     (SYS_ADD_KEY, Some ENTER_PROG_KEY, None),
     (SYS_ADJTIMEX, None, Some EXIT_PROG_FD_TIME),
     (SYS_ARCH_PRCTL, None, Some EXIT_PROG_ASYNC),
     (SYS_BIND, Some ENTER_PROG_NETWORK, Some EXIT_PROG_CONTROL),
     (SYS_BPF, Some ENTER_PROG_BPF, Some EXIT_PROG_IO),
     (SYS_CACHESTAT, Some ENTER_PROG_CACHESTAT, Some EXIT_PROG_ASYNC),
     (SYS_CAPGET, Some ENTER_PROG_CAPABILITY, Some EXIT_PROG_ASYNC),
     (SYS_CAPSET, Some ENTER_PROG_CAPABILITY, Some EXIT_PROG_ASYNC),
     (SYS_CHDIR, Some ENTER_PROG_PATH_ONLY, Some EXIT_PROG_PATH),
     (SYS_CHMOD, Some ENTER_PROG_PATH_ONLY, Some EXIT_PROG_PATH),
     (SYS_CHOWN, Some ENTER_PROG_PATH_ONLY, Some EXIT_PROG_PATH),
     (SYS_CHROOT, Some ENTER_PROG_PATH_ONLY, Some EXIT_PROG_PATH),
     (SYS_CLOCK_ADJTIME, None, Some EXIT_PROG_FD_TIME),
     (SYS_CLOCK_GETRES, None, Some EXIT_PROG_FD_TIME),
     (SYS_CLOCK_GETTIME, None, Some EXIT_PROG_FD_TIME),
     (SYS_CLOCK_NANOSLEEP, Some ENTER_PROG_SLEEP, Some EXIT_PROG_FD_TIME),
     (SYS_CLOCK_SETTIME, Some ENTER_PROG_TIME_STRUCT, None),
     (SYS_CLONE3, Some ENTER_PROG_CLONE3, None),
     (SYS_CONNECT, Some ENTER_PROG_NETWORK, Some EXIT_PROG_CONTROL),
     (SYS_COPY_FILE_RANGE, Some ENTER_PROG_SMALL_STRUCT, None),
     (SYS_CREAT, Some ENTER_PROG_PAYLOAD_DIRECT, Some EXIT_PROG_PATH),
     (SYS_DUP, None, Some EXIT_PROG_FD_TIME),
     (SYS_DUP2, None, Some EXIT_PROG_FD_TIME),
     (SYS_DUP3, None, Some EXIT_PROG_FD_TIME),
     (SYS_EPOLL_CREATE, None, Some EXIT_PROG_FD_TIME),
     (SYS_EPOLL_CREATE1, None, Some EXIT_PROG_FD_TIME),
     (SYS_EPOLL_CTL, Some ENTER_PROG_EPOLL, None),
     (SYS_EPOLL_PWAIT, None, Some EXIT_PROG_IO),
     (SYS_EPOLL_PWAIT2, Some ENTER_PROG_EPOLL, Some EXIT_PROG_IO),
     (SYS_EPOLL_WAIT, None, Some EXIT_PROG_IO),
     (SYS_EVENTFD, None, Some EXIT_PROG_FD_TIME),
     (SYS_EVENTFD2, None, Some EXIT_PROG_FD_TIME),
     (SYS_EXECVE, Some ENTER_PROG_EXEC, Some EXIT_PROG_IO),
     (SYS_EXECVEAT, Some ENTER_PROG_EXEC, Some EXIT_PROG_IO),
     (SYS_EXIT, Some ENTER_PROG_TERMINATING, None),
     (SYS_EXIT_GROUP, Some ENTER_PROG_TERMINATING, None),
     (SYS_FACCESSAT, Some ENTER_PROG_PATH_ONLY, Some EXIT_PROG_PATH),
     (SYS_FACCESSAT2, Some ENTER_PROG_PATH_ONLY, Some EXIT_PROG_PATH),
     (SYS_FCHMODAT, Some ENTER_PROG_PATH_ONLY, Some EXIT_PROG_PATH),
     (SYS_FCHOWNAT, Some ENTER_PROG_PATH_ONLY, Some EXIT_PROG_PATH),
     (SYS_FCNTL, Some ENTER_PROG_FCNTL, Some EXIT_PROG_CONTROL),
     (SYS_FGETXATTR, Some ENTER_PROG_XATTR, Some EXIT_PROG_IO),
     (SYS_FILE_GETATTR, Some ENTER_PROG_PATH_ONLY, Some EXIT_PROG_STRUCT),
     (SYS_FILE_SETATTR, Some ENTER_PROG_FS, None),
     (SYS_FLISTXATTR, Some ENTER_PROG_XATTR, Some EXIT_PROG_IO),
     (SYS_FREMOVEXATTR, Some ENTER_PROG_XATTR, None),
     (SYS_FSCONFIG, Some ENTER_PROG_FS, None),
     (SYS_FSETXATTR, Some ENTER_PROG_XATTR, None),
     (SYS_FSOPEN, Some ENTER_PROG_PATH_ONLY, Some EXIT_PROG_PATH),
     (SYS_FSPICK, Some ENTER_PROG_PATH_ONLY, Some EXIT_PROG_PATH),
     (SYS_FSTAT, None, Some EXIT_PROG_STRUCT),
     (SYS_FSTATFS, None, Some EXIT_PROG_STRUCT),
     (SYS_FUTEX, Some ENTER_PROG_FUTEX, None),
     (SYS_FUTEX_REQUEUE, Some ENTER_PROG_FUTEX, None),
     (SYS_FUTEX_WAIT, Some ENTER_PROG_FUTEX, None),
     (SYS_FUTEX_WAITV, Some ENTER_PROG_FUTEX, None),
     (SYS_FUTIMESAT, Some ENTER_PROG_FILE_TIME, None)]"

definition bpfRouteCapabilities_g_p :: "route_capability list" where
  "bpfRouteCapabilities_g_p = [
     (SYS_GET_ROBUST_LIST, None, Some EXIT_PROG_ASYNC),
     (SYS_GETCWD, None, Some EXIT_PROG_STRUCT),
     (SYS_GETDENTS, None, Some EXIT_PROG_IO),
     (SYS_GETDENTS64, None, Some EXIT_PROG_IO),
     (SYS_GETITIMER, None, Some EXIT_PROG_FD_TIME),
     (SYS_GETPEERNAME, Some ENTER_PROG_NETWORK, Some EXIT_PROG_CONTROL),
     (SYS_GETRLIMIT, None, Some EXIT_PROG_STRUCT),
     (SYS_GETSOCKNAME, Some ENTER_PROG_NETWORK, Some EXIT_PROG_CONTROL),
     (SYS_GETSOCKOPT, Some ENTER_PROG_NETWORK, Some EXIT_PROG_CONTROL),
     (SYS_GETTIMEOFDAY, None, Some EXIT_PROG_FD_TIME),
     (SYS_GETXATTR, Some ENTER_PROG_XATTR, Some EXIT_PROG_IO),
     (SYS_INOTIFY_INIT, None, Some EXIT_PROG_FD_TIME),
     (SYS_INOTIFY_INIT1, None, Some EXIT_PROG_FD_TIME),
     (SYS_IO_CANCEL, Some ENTER_PROG_AIO, None),
     (SYS_IO_GETEVENTS, Some ENTER_PROG_AIO, Some EXIT_PROG_ASYNC),
     (SYS_IO_PGETEVENTS, Some ENTER_PROG_AIO, Some EXIT_PROG_ASYNC),
     (SYS_IO_SETUP, Some ENTER_PROG_AIO, Some EXIT_PROG_ASYNC),
     (SYS_IO_SUBMIT, Some ENTER_PROG_AIO, None),
     (SYS_IOCTL, Some ENTER_PROG_IOCTL, Some EXIT_PROG_CONTROL),
     (SYS_KEYCTL, Some ENTER_PROG_KEY, Some EXIT_PROG_IO),
     (SYS_LCHOWN, Some ENTER_PROG_PATH_ONLY, Some EXIT_PROG_PATH),
     (SYS_LGETXATTR, Some ENTER_PROG_XATTR, Some EXIT_PROG_IO),
     (SYS_LINK, Some ENTER_PROG_DUAL_PATH, Some EXIT_PROG_PATH),
     (SYS_LINKAT, Some ENTER_PROG_DUAL_PATH, Some EXIT_PROG_PATH),
     (SYS_LISTMOUNT, Some ENTER_PROG_FS, Some EXIT_PROG_MOUNT_QUERY),
     (SYS_LISTXATTR, Some ENTER_PROG_XATTR, Some EXIT_PROG_IO),
     (SYS_LLISTXATTR, Some ENTER_PROG_XATTR, Some EXIT_PROG_IO),
     (SYS_LREMOVEXATTR, Some ENTER_PROG_XATTR, None),
     (SYS_LSETXATTR, Some ENTER_PROG_XATTR, None),
     (SYS_LSTAT, Some ENTER_PROG_PATH_STAT, Some EXIT_PROG_STRUCT),
     (SYS_MEMFD_CREATE, Some ENTER_PROG_MEMFD, None),
     (SYS_MKDIR, Some ENTER_PROG_PATH_ONLY, Some EXIT_PROG_PATH),
     (SYS_MKDIRAT, Some ENTER_PROG_PATH_ONLY, Some EXIT_PROG_PATH),
     (SYS_MKNOD, Some ENTER_PROG_PATH_ONLY, Some EXIT_PROG_PATH),
     (SYS_MKNODAT, Some ENTER_PROG_PATH_ONLY, Some EXIT_PROG_PATH),
     (SYS_MOUNT, Some ENTER_PROG_FS, None),
     (SYS_MOUNT_SETATTR, Some ENTER_PROG_FS, None),
     (SYS_MOVE_MOUNT, Some ENTER_PROG_MOUNT_PATH, None),
     (SYS_NANOSLEEP, Some ENTER_PROG_SLEEP, Some EXIT_PROG_FD_TIME),
     (SYS_NEWFSTATAT, Some ENTER_PROG_PATH_STAT, Some EXIT_PROG_STRUCT),
     (SYS_OPEN, Some ENTER_PROG_PAYLOAD_DIRECT, Some EXIT_PROG_PATH),
     (SYS_OPEN_TREE, Some ENTER_PROG_PATH_ONLY, Some EXIT_PROG_PATH),
     (SYS_OPENAT, Some ENTER_PROG_PAYLOAD_DIRECT, Some EXIT_PROG_PATH),
     (SYS_OPENAT2, Some ENTER_PROG_OPENAT2, Some EXIT_PROG_PATH),
     (SYS_PIDFD_OPEN, None, Some EXIT_PROG_FD_TIME),
     (SYS_PIPE, None, Some EXIT_PROG_STRUCT),
     (SYS_PIPE2, None, Some EXIT_PROG_STRUCT),
     (SYS_POLL, Some ENTER_PROG_POLL, Some EXIT_PROG_ASYNC),
     (SYS_PPOLL, Some ENTER_PROG_POLL, Some EXIT_PROG_ASYNC),
     (SYS_PRCTL, Some ENTER_PROG_PRCTL, Some EXIT_PROG_ASYNC),
     (SYS_PREAD64, None, Some EXIT_PROG_FD_TIME),
     (SYS_PREADV, Some ENTER_PROG_IOVEC, Some EXIT_PROG_IOVEC_BASE),
     (SYS_PREADV2, Some ENTER_PROG_IOVEC, Some EXIT_PROG_IOVEC_BASE),
     (SYS_PRLIMIT64, Some ENTER_PROG_MISC_STRUCT, Some EXIT_PROG_STRUCT),
     (SYS_PROCESS_MADVISE, Some ENTER_PROG_IOVEC, None),
     (SYS_PROCESS_VM_READV, Some ENTER_PROG_IOVEC, Some EXIT_PROG_IOVEC_BASE),
     (SYS_PROCESS_VM_WRITEV, Some ENTER_PROG_IOVEC, None),
     (SYS_PSELECT6, Some ENTER_PROG_SELECT, Some EXIT_PROG_IO),
     (SYS_PWRITE64, Some ENTER_PROG_PAYLOAD_DIRECT, None),
     (SYS_PWRITEV, Some ENTER_PROG_IOVEC, None),
     (SYS_PWRITEV2, Some ENTER_PROG_IOVEC, None)]"

definition bpfRouteCapabilities_q_w :: "route_capability list" where
  "bpfRouteCapabilities_q_w = [
     (SYS_QUOTACTL, Some ENTER_PROG_QUOTA, Some EXIT_PROG_QUOTA),
     (SYS_QUOTACTL_FD, Some ENTER_PROG_QUOTA, Some EXIT_PROG_QUOTA),
     (SYS_READ, None, Some EXIT_PROG_FD_TIME),
     (SYS_READLINK, Some ENTER_PROG_READLINK, Some EXIT_PROG_STRUCT),
     (SYS_READLINKAT, Some ENTER_PROG_READLINK, Some EXIT_PROG_STRUCT),
     (SYS_READV, Some ENTER_PROG_IOVEC, Some EXIT_PROG_IOVEC_BASE),
     (SYS_RECVFROM, Some ENTER_PROG_NETWORK, Some EXIT_PROG_CONTROL),
     (SYS_RECVMMSG, Some ENTER_PROG_MMSG, Some EXIT_PROG_RECVMMSG_BASE01),
     (SYS_RECVMSG, Some ENTER_PROG_MSG, Some EXIT_PROG_MSG),
     (SYS_REMOVEXATTR, Some ENTER_PROG_XATTR, None),
     (SYS_RENAME, Some ENTER_PROG_DUAL_PATH, Some EXIT_PROG_PATH),
     (SYS_RENAMEAT, Some ENTER_PROG_DUAL_PATH, Some EXIT_PROG_PATH),
     (SYS_RENAMEAT2, Some ENTER_PROG_DUAL_PATH, Some EXIT_PROG_PATH),
     (SYS_REQUEST_KEY, Some ENTER_PROG_KEY, None),
     (SYS_RMDIR, Some ENTER_PROG_PATH_ONLY, Some EXIT_PROG_PATH),
     (SYS_RT_SIGACTION, Some ENTER_PROG_SIGNAL, Some EXIT_PROG_STRUCT),
     (SYS_RT_SIGPROCMASK, Some ENTER_PROG_SIGNAL, Some EXIT_PROG_STRUCT),
     (SYS_RT_SIGSUSPEND, Some ENTER_PROG_SIGNAL, Some EXIT_PROG_STRUCT),
     (SYS_SELECT, Some ENTER_PROG_SELECT, Some EXIT_PROG_IO),
     (SYS_SENDFILE, Some ENTER_PROG_SMALL_STRUCT, Some EXIT_PROG_ASYNC),
     (SYS_SENDMMSG, Some ENTER_PROG_MMSG, Some EXIT_PROG_MMSG_FINAL),
     (SYS_SENDMSG, Some ENTER_PROG_MSG, Some EXIT_PROG_MSG),
     (SYS_SENDTO, Some ENTER_PROG_NETWORK, Some EXIT_PROG_CONTROL),
     (SYS_SETITIMER, Some ENTER_PROG_ITIMER, Some EXIT_PROG_FD_TIME),
     (SYS_SETRLIMIT, Some ENTER_PROG_MISC_STRUCT, Some EXIT_PROG_STRUCT),
     (SYS_SETSOCKOPT, Some ENTER_PROG_NETWORK, Some EXIT_PROG_CONTROL),
     (SYS_SETTIMEOFDAY, Some ENTER_PROG_TIME_STRUCT, None),
     (SYS_SETXATTR, Some ENTER_PROG_XATTR, None),
     (SYS_SIGNALFD, Some ENTER_PROG_SIGNAL, Some EXIT_PROG_FD_TIME),
     (SYS_SIGNALFD4, Some ENTER_PROG_SIGNAL, Some EXIT_PROG_FD_TIME),
     (SYS_SOCKET, None, Some EXIT_PROG_FD_TIME),
     (SYS_SOCKETPAIR, None, Some EXIT_PROG_STRUCT),
     (SYS_STAT, Some ENTER_PROG_PATH_STAT, Some EXIT_PROG_STRUCT),
     (SYS_STATFS, Some ENTER_PROG_PATH_STAT, Some EXIT_PROG_STRUCT),
     (SYS_STATMOUNT, Some ENTER_PROG_FS, Some EXIT_PROG_MOUNT_QUERY),
     (SYS_STATX, Some ENTER_PROG_PATH_STAT, Some EXIT_PROG_STRUCT),
     (SYS_SWAPOFF, Some ENTER_PROG_PATH_ONLY, Some EXIT_PROG_PATH),
     (SYS_SWAPON, Some ENTER_PROG_PATH_ONLY, Some EXIT_PROG_PATH),
     (SYS_SYMLINK, Some ENTER_PROG_DUAL_PATH, Some EXIT_PROG_PATH),
     (SYS_SYMLINKAT, Some ENTER_PROG_DUAL_PATH, Some EXIT_PROG_PATH),
     (SYS_SYSINFO, None, Some EXIT_PROG_STRUCT),
     (SYS_TIME, None, Some EXIT_PROG_FD_TIME),
     (SYS_TIMERFD_CREATE, None, Some EXIT_PROG_FD_TIME),
     (SYS_TRUNCATE, Some ENTER_PROG_PATH_ONLY, Some EXIT_PROG_PATH),
     (SYS_UMOUNT2, Some ENTER_PROG_FS, None),
     (SYS_UNAME, None, Some EXIT_PROG_STRUCT),
     (SYS_UNLINK, Some ENTER_PROG_PATH_ONLY, Some EXIT_PROG_PATH),
     (SYS_UNLINKAT, Some ENTER_PROG_PATH_ONLY, Some EXIT_PROG_PATH),
     (SYS_UTIME, Some ENTER_PROG_FILE_TIME, None),
     (SYS_UTIMENSAT, Some ENTER_PROG_FILE_TIME, None),
     (SYS_UTIMES, Some ENTER_PROG_FILE_TIME, None),
     (SYS_VMSPLICE, Some ENTER_PROG_IOVEC, None),
     (SYS_WAITID, None, Some EXIT_PROG_STRUCT),
     (SYS_WRITE, Some ENTER_PROG_PAYLOAD_DIRECT, None),
     (SYS_WRITEV, Some ENTER_PROG_IOVEC, None)]"

definition bpfRouteCapabilities :: "route_capability list" where
  "bpfRouteCapabilities = bpfRouteCapabilities_a_f @ bpfRouteCapabilities_g_p @ bpfRouteCapabilities_q_w"

text \<open>
  \<^verbatim>\<open>newBPFRoutePlanWithCapabilities\<close>: the plan routes every syscall of the table; a zero slot means the
  generic handler.
\<close>

definition plan_enter :: "u32 \<Rightarrow> enter_prog_index" where
  "plan_enter sys_id = (case map_of bpfRouteCapabilities sys_id of
     Some (Some slot, _) \<Rightarrow> slot | _ \<Rightarrow> ENTER_PROG_NO_PAYLOAD_DIRECT)"

definition plan_exit :: "u32 \<Rightarrow> exit_prog_index" where
  "plan_exit sys_id = (case map_of bpfRouteCapabilities sys_id of
     Some (_, Some slot) \<Rightarrow> slot | _ \<Rightarrow> EXIT_PROG_GENERIC)"

text \<open>The part of \<^verbatim>\<open>traceBPFConfig\<close> that selects routes; \<open>tbc_ids\<close> is a positive syscall filter.\<close>

record traceBPFConfig =
  tbc_ids :: "u32 list option"
  tbc_fdState :: bool
  tbc_namespaceNew :: bool
  tbc_decodePIDsPIDNS :: bool

text \<open>\<^verbatim>\<open>selectBPFRoutePlan\<close> for the syscalls of \<open>table\<close>, one entry of either map at a time.\<close>

definition route_selected :: "traceBPFConfig \<Rightarrow> (u32 \<Rightarrow> bool) \<Rightarrow> u32 \<Rightarrow> bool" where
  "route_selected config table sys_id \<longleftrightarrow> table sys_id \<and>
     (case tbc_ids config of None \<Rightarrow> True | Some ids \<Rightarrow> tbc_fdState config \<or> sys_id \<in> set ids)"

definition select_enter :: "traceBPFConfig \<Rightarrow> (u32 \<Rightarrow> bool) \<Rightarrow> u32 \<Rightarrow> enter_prog_index option" where
  "select_enter config table sys_id =
     (if \<not> route_selected config table sys_id then None
      else let slot = plan_enter sys_id in
        Some (if \<not> tbc_fdState config \<and> slot = ENTER_PROG_NO_PAYLOAD_DIRECT then ENTER_PROG_NO_PAYLOAD_GENERIC else slot))"

definition select_exit :: "traceBPFConfig \<Rightarrow> (u32 \<Rightarrow> bool) \<Rightarrow> u32 \<Rightarrow> exit_prog_index option" where
  "select_exit config table sys_id =
     (if \<not> route_selected config table sys_id then None
      else if tbc_decodePIDsPIDNS config \<and> sys_id \<in> {SYS_GETPID, SYS_GETTID, SYS_FORK, SYS_VFORK} then Some EXIT_PROG_PID_NAMESPACE
      else if tbc_namespaceNew config \<and> sys_id \<in> {SYS_CLONE, SYS_CLONE3, SYS_SETNS, SYS_UNSHARE} then Some EXIT_PROG_NAMESPACE
      else Some (plan_exit sys_id))"

section \<open>Rules for the plan\<close>

lemma plan_enter_all:
  assumes "list_all (\<lambda>(sys_id, e, _). case e of None \<Rightarrow> True | Some slot \<Rightarrow> P slot sys_id) bpfRouteCapabilities"
    and "\<And>sys_id. P ENTER_PROG_NO_PAYLOAD_DIRECT sys_id"
  shows "P (plan_enter sys_id) sys_id"
  using assms(2) map_of_SomeD [of bpfRouteCapabilities sys_id] assms(1)
  by (fastforce simp: plan_enter_def list_all_iff split: option.split option.split_asm)

lemma plan_exit_all:
  assumes "list_all (\<lambda>(sys_id, _, x). case x of None \<Rightarrow> True | Some slot \<Rightarrow> P slot sys_id) bpfRouteCapabilities"
    and "\<And>sys_id. P EXIT_PROG_GENERIC sys_id"
  shows "P (plan_exit sys_id) sys_id"
  using assms(2) map_of_SomeD [of bpfRouteCapabilities sys_id] assms(1)
  by (fastforce simp: plan_exit_def list_all_iff split: option.split option.split_asm)

end
