(* ===== verification/Enter_Dispatch.thy ===== *)
theory Enter_Dispatch
  imports Bpf_Command_Exit Route_Manifest
begin

text \<open>
  The raw syscall enter: the handlers of \<^verbatim>\<open>enter_dispatch.h\<close>, \<^verbatim>\<open>enter_fragment_dispatch.h\<close>,
  \<^verbatim>\<open>mmsg_enter_dispatch.h\<close>, \<^verbatim>\<open>nested_fd_path_dispatch.h\<close>, \<^verbatim>\<open>quota_dispatch.h\<close> and
  \<^verbatim>\<open>mount_path_dispatch.h\<close>, their prologue (\<^verbatim>\<open>enter_runtime.h\<close>) and the dispatcher
  \<^verbatim>\<open>trace_sys_enter\<close> of \<^verbatim>\<open>strace.c\<close>.

  Tail calls never return: a chained handler is the continuation of its caller, and the code behind
  the call runs only when the slot of the program array is empty.  Which slots the loader filled is
  the argument \<open>pa\<close> of every handler that makes a tail call.
\<close>

section \<open>Tail calls\<close>

definition bpf_tail_call :: "bool \<Rightarrow> 'a bpf \<Rightarrow> 'a bpf \<Rightarrow> 'a bpf" where
  "bpf_tail_call loaded target rest = (if loaded then target else rest)"

section \<open>Prologue and fallback\<close>

definition cfg_has :: "u32 option \<Rightarrow> u32 \<Rightarrow> bool" where
  "cfg_has cfg flag = (case cfg of None \<Rightarrow> False | Some c \<Rightarrow> has_flag c flag)"

definition capture_stack_id :: "kernel \<Rightarrow> u32 option \<Rightarrow> s32 bpf" where
  "capture_stack_id k cfg = (if cfg_has cfg CONFIG_CAPTURE_STACK then bpf_get_stackid k else return (-1))"

text \<open>The variables the macro declares are the arguments of the body that follows it.\<close>

definition ENTER_PROLOGUE ::
    "kernel \<Rightarrow> sys_enter_ctx \<Rightarrow> (u32 \<Rightarrow> u32 \<Rightarrow> u32 \<Rightarrow> u64 \<Rightarrow> u32 option \<Rightarrow> s32 \<Rightarrow> unit bpf) \<Rightarrow> unit bpf" where
  "ENTER_PROLOGUE k ctx body = do {
     enter_time \<leftarrow> bpf_ktime_get_ns k;
     cfg \<leftarrow> gets config_map;
     stack_id \<leftarrow> capture_stack_id k cfg;
     body (ucast (sec_id ctx)) (cur_tid k) (cur_pid k) enter_time cfg stack_id }"

definition emit_enter_dispatch_fallback :: "kernel \<Rightarrow> sys_enter_ctx \<Rightarrow> u32 \<Rightarrow> u32 \<Rightarrow> u32 option \<Rightarrow> unit bpf" where
  "emit_enter_dispatch_fallback k ctx pid tid cfg = (let sys_id = ucast (sec_id ctx) in do {
     enter_time \<leftarrow> bpf_ktime_get_ns k;
     stack_id \<leftarrow> capture_stack_id k cfg;
     emit_plain_no_payload_enter_event_v2_direct k pid tid sys_id ctx cfg enter_time;
     save_pending_syscall_args k tid pid sys_id ctx enter_time stack_id })"

section \<open>Handlers\<close>

definition enter_terminating :: "kernel \<Rightarrow> sys_enter_ctx \<Rightarrow> unit bpf" where
  "enter_terminating k ctx = ENTER_PROLOGUE k ctx (\<lambda>sys_id tid pid enter_time cfg stack_id. do {
     only_if (tid = pid) (do {
       ok \<leftarrow> bpf_map_update k (\<lambda>s. s\<lparr>main_exited_map := (main_exited_map s)(pid \<mapsto> 1)\<rparr>);
       only_if (\<not> ok) (record_lifecycle_map_update_fail k) });
     emit_no_payload_enter_event_v2_direct k pid tid sys_id ctx cfg enter_time;
     emit_terminating_exit_event_v2_direct k pid tid sys_id ctx enter_time stack_id })"

definition enter_exec :: "kernel \<Rightarrow> sys_enter_ctx \<Rightarrow> unit bpf" where
  "enter_exec k ctx = ENTER_PROLOGUE k ctx (\<lambda>sys_id tid pid enter_time cfg stack_id. do {
     exited \<leftarrow> gets (\<lambda>s. main_exited_map s pid);
     let probe_ret_enter = (if exited = Some 1 then 1 else 0);
     emit_exec_enter_event_v2_direct k pid tid sys_id ctx cfg enter_time probe_ret_enter;
     save_pending_syscall_args k tid pid sys_id ctx enter_time stack_id;
     only_if (tid \<noteq> pid) (do {
       ok \<leftarrow> bpf_map_update k (\<lambda>s. s\<lparr>pending_exec_map := (pending_exec_map s)(pid \<mapsto> tid)\<rparr>);
       only_if (\<not> ok) (record_lifecycle_map_update_fail k) }) })"

definition enter_path_stat :: "kernel \<Rightarrow> sys_enter_ctx \<Rightarrow> unit bpf" where
  "enter_path_stat k ctx = ENTER_PROLOGUE k ctx (\<lambda>sys_id tid pid enter_time cfg stack_id. do {
     emit_path_stat_enter_event_v2_direct k pid tid sys_id ctx enter_time;
     save_pending_syscall_args k tid pid sys_id ctx enter_time stack_id })"

definition enter_path_only :: "kernel \<Rightarrow> sys_enter_ctx \<Rightarrow> unit bpf" where
  "enter_path_only k ctx = ENTER_PROLOGUE k ctx (\<lambda>sys_id tid pid enter_time cfg stack_id. do {
     emit_path_only_enter_event_v2_direct k pid tid sys_id ctx enter_time;
     save_pending_syscall_args k tid pid sys_id ctx enter_time stack_id })"

definition enter_dual_path :: "kernel \<Rightarrow> sys_enter_ctx \<Rightarrow> unit bpf" where
  "enter_dual_path k ctx = ENTER_PROLOGUE k ctx (\<lambda>sys_id tid pid enter_time cfg stack_id. do {
     emit_dual_path_enter_event_v2_direct k pid tid sys_id ctx enter_time;
     save_pending_syscall_args k tid pid sys_id ctx enter_time stack_id })"

definition enter_openat2 :: "kernel \<Rightarrow> sys_enter_ctx \<Rightarrow> unit bpf" where
  "enter_openat2 k ctx = ENTER_PROLOGUE k ctx (\<lambda>sys_id tid pid enter_time cfg stack_id. do {
     emit_openat2_enter_event_v2_direct k pid tid sys_id ctx cfg enter_time;
     save_pending_syscall_args k tid pid sys_id ctx enter_time stack_id })"

definition enter_readlink :: "kernel \<Rightarrow> sys_enter_ctx \<Rightarrow> unit bpf" where
  "enter_readlink k ctx = ENTER_PROLOGUE k ctx (\<lambda>sys_id tid pid enter_time cfg stack_id. do {
     emit_readlink_enter_event_v2_direct k pid tid sys_id ctx enter_time;
     save_pending_syscall_args k tid pid sys_id ctx enter_time stack_id })"

definition enter_misc_struct :: "kernel \<Rightarrow> sys_enter_ctx \<Rightarrow> unit bpf" where
  "enter_misc_struct k ctx = ENTER_PROLOGUE k ctx (\<lambda>sys_id tid pid enter_time cfg stack_id. do {
     emit_misc_struct_enter_event_v2_direct k pid tid sys_id ctx enter_time;
     save_pending_syscall_args k tid pid sys_id ctx enter_time stack_id })"

definition enter_small_struct :: "kernel \<Rightarrow> sys_enter_ctx \<Rightarrow> unit bpf" where
  "enter_small_struct k ctx = ENTER_PROLOGUE k ctx (\<lambda>sys_id tid pid enter_time cfg stack_id. do {
     emit_small_struct_enter_event_v2_direct k pid tid sys_id ctx enter_time;
     save_pending_syscall_args k tid pid sys_id ctx enter_time stack_id })"

definition enter_itimer :: "kernel \<Rightarrow> sys_enter_ctx \<Rightarrow> unit bpf" where
  "enter_itimer k ctx = ENTER_PROLOGUE k ctx (\<lambda>sys_id tid pid enter_time cfg stack_id. do {
     emit_itimer_enter_event_v2_direct k pid tid sys_id ctx enter_time;
     save_pending_syscall_args k tid pid sys_id ctx enter_time stack_id })"

definition enter_time_struct :: "kernel \<Rightarrow> sys_enter_ctx \<Rightarrow> unit bpf" where
  "enter_time_struct k ctx = ENTER_PROLOGUE k ctx (\<lambda>sys_id tid pid enter_time cfg stack_id. do {
     emit_time_struct_enter_event_v2_direct k pid tid sys_id ctx enter_time;
     save_pending_syscall_args k tid pid sys_id ctx enter_time stack_id })"

definition enter_signal :: "kernel \<Rightarrow> sys_enter_ctx \<Rightarrow> unit bpf" where
  "enter_signal k ctx = ENTER_PROLOGUE k ctx (\<lambda>sys_id tid pid enter_time cfg stack_id. do {
     emit_signal_enter_event_v2_direct k pid tid sys_id ctx enter_time (-1);
     save_pending_syscall_args k tid pid sys_id ctx enter_time stack_id;
     only_if (sys_id = SYS_RT_SIGSUSPEND) (do {
       mark \<leftarrow> should_emit_signal_sigsuspend_marker k tid pid;
       only_if mark (emit_signal_sigsuspend_marker_event_v2_direct k pid tid sys_id ctx enter_time) }) })"

definition enter_file_time :: "kernel \<Rightarrow> sys_enter_ctx \<Rightarrow> unit bpf" where
  "enter_file_time k ctx = ENTER_PROLOGUE k ctx (\<lambda>sys_id tid pid enter_time cfg stack_id. do {
     emit_file_time_enter_event_v2_direct k pid tid sys_id ctx enter_time;
     save_pending_syscall_args k tid pid sys_id ctx enter_time stack_id })"

definition enter_sleep :: "kernel \<Rightarrow> sys_enter_ctx \<Rightarrow> unit bpf" where
  "enter_sleep k ctx = ENTER_PROLOGUE k ctx (\<lambda>sys_id tid pid enter_time cfg stack_id.
     if sys_id = SYS_NANOSLEEP then do {
       emit_sleep_enter_event_v2_direct k pid tid sys_id ctx enter_time 0 (arg0 (sec_args ctx)) (-1);
       save_pending_syscall_args k tid pid sys_id ctx enter_time stack_id;
       mark \<leftarrow> should_emit_nanosleep_suspended_marker k tid pid;
       only_if mark (emit_sleep_enter_event_v2_direct k pid tid sys_id ctx enter_time 0 (arg0 (sec_args ctx)) 3) }
     else only_if (sys_id = SYS_CLOCK_NANOSLEEP) (do {
       emit_sleep_enter_event_v2_direct k pid tid sys_id ctx enter_time 2 (arg2 (sec_args ctx)) (-1);
       save_pending_syscall_args k tid pid sys_id ctx enter_time stack_id }))"

definition enter_futex :: "kernel \<Rightarrow> sys_enter_ctx \<Rightarrow> unit bpf" where
  "enter_futex k ctx = ENTER_PROLOGUE k ctx (\<lambda>sys_id tid pid enter_time cfg stack_id.
     if sys_id = SYS_FUTEX then do {
       emit_futex_enter_event_v2_direct k pid tid sys_id ctx enter_time;
       save_pending_syscall_args k tid pid sys_id ctx enter_time stack_id }
     else if sys_id = SYS_FUTEX_WAIT then do {
       emit_futex_wait_enter_event_v2_direct k pid tid sys_id ctx enter_time;
       save_pending_syscall_args k tid pid sys_id ctx enter_time stack_id }
     else if sys_id = SYS_FUTEX_WAITV then do {
       emit_futex_waitv_enter_event_v2_direct k pid tid sys_id ctx enter_time;
       save_pending_syscall_args k tid pid sys_id ctx enter_time stack_id }
     else only_if (sys_id = SYS_FUTEX_REQUEUE) (do {
       emit_futex_requeue_enter_event_v2_direct k pid tid sys_id ctx enter_time;
       save_pending_syscall_args k tid pid sys_id ctx enter_time stack_id }))"

definition enter_cachestat :: "kernel \<Rightarrow> sys_enter_ctx \<Rightarrow> unit bpf" where
  "enter_cachestat k ctx = ENTER_PROLOGUE k ctx (\<lambda>sys_id tid pid enter_time cfg stack_id. do {
     emit_cachestat_enter_event_v2_direct k pid tid sys_id ctx cfg enter_time;
     save_pending_syscall_args k tid pid sys_id ctx enter_time stack_id })"

definition enter_capability :: "kernel \<Rightarrow> sys_enter_ctx \<Rightarrow> unit bpf" where
  "enter_capability k ctx = ENTER_PROLOGUE k ctx (\<lambda>sys_id tid pid enter_time cfg stack_id. do {
     emit_capability_enter_event_v2_direct k pid tid sys_id ctx enter_time;
     save_pending_syscall_args k tid pid sys_id ctx enter_time stack_id })"

definition enter_memfd :: "kernel \<Rightarrow> sys_enter_ctx \<Rightarrow> unit bpf" where
  "enter_memfd k ctx = ENTER_PROLOGUE k ctx (\<lambda>sys_id tid pid enter_time cfg stack_id. do {
     emit_memfd_create_enter_event_v2_direct k pid tid sys_id ctx enter_time;
     save_pending_syscall_args k tid pid sys_id ctx enter_time stack_id })"

definition enter_prctl :: "kernel \<Rightarrow> sys_enter_ctx \<Rightarrow> unit bpf" where
  "enter_prctl k ctx = ENTER_PROLOGUE k ctx (\<lambda>sys_id tid pid enter_time cfg stack_id. do {
     emit_prctl_enter_event_v2_direct k pid tid sys_id ctx enter_time;
     save_pending_syscall_args k tid pid sys_id ctx enter_time stack_id })"

definition enter_clone3 :: "kernel \<Rightarrow> sys_enter_ctx \<Rightarrow> unit bpf" where
  "enter_clone3 k ctx = ENTER_PROLOGUE k ctx (\<lambda>sys_id tid pid enter_time cfg stack_id. do {
     emit_clone3_enter_event_v2_direct k pid tid sys_id ctx enter_time;
     save_pending_syscall_args k tid pid sys_id ctx enter_time stack_id })"

definition enter_bpf_uprobe_multi :: "kernel \<Rightarrow> sys_enter_ctx \<Rightarrow> unit bpf" where
  "enter_bpf_uprobe_multi k ctx = ENTER_PROLOGUE k ctx (\<lambda>sys_id tid pid enter_time cfg stack_id. do {
     emit_bpf_uprobe_multi_enter_event_v2_direct k pid tid sys_id ctx enter_time;
     save_pending_syscall_args k tid pid sys_id ctx enter_time stack_id })"

definition enter_bpf_tracing_multi :: "kernel \<Rightarrow> sys_enter_ctx \<Rightarrow> unit bpf" where
  "enter_bpf_tracing_multi k ctx = ENTER_PROLOGUE k ctx (\<lambda>sys_id tid pid enter_time cfg stack_id. do {
     emit_bpf_tracing_multi_enter_event_v2_direct k pid tid sys_id ctx enter_time;
     save_pending_syscall_args k tid pid sys_id ctx enter_time stack_id })"

definition enter_bpf_prog_load_debug :: "kernel \<Rightarrow> sys_enter_ctx \<Rightarrow> unit bpf" where
  "enter_bpf_prog_load_debug k ctx = ENTER_PROLOGUE k ctx (\<lambda>sys_id tid pid enter_time cfg stack_id.
     emit_bpf_prog_load_debug_enter_fragment_event_v2_direct k pid tid sys_id ctx enter_time)"

definition enter_bpf_prog_load :: "kernel \<Rightarrow> prog_arrays \<Rightarrow> sys_enter_ctx \<Rightarrow> unit bpf" where
  "enter_bpf_prog_load k pa ctx = ENTER_PROLOGUE k ctx (\<lambda>sys_id tid pid enter_time cfg stack_id. do {
     emit_bpf_prog_load_enter_event_v2_direct k pid tid sys_id ctx enter_time;
     save_pending_syscall_args k tid pid sys_id ctx enter_time stack_id;
     bpf_tail_call (pa_enter_progs pa ENTER_PROG_BPF_PROG_LOAD_DEBUG) (enter_bpf_prog_load_debug k ctx) (return ()) })"

definition enter_bpf :: "kernel \<Rightarrow> prog_arrays \<Rightarrow> sys_enter_ctx \<Rightarrow> unit bpf" where
  "enter_bpf k pa ctx = ENTER_PROLOGUE k ctx (\<lambda>sys_id tid pid enter_time cfg stack_id. do {
     is_uprobe_multi \<leftarrow> is_bpf_uprobe_multi_enter_direct k ctx;
     is_tracing_multi \<leftarrow> is_bpf_tracing_multi_enter_direct k ctx;
     bpf_tail_call (is_bpf_prog_load_enter_direct ctx \<and> pa_enter_progs pa ENTER_PROG_BPF_PROG_LOAD)
       (enter_bpf_prog_load k pa ctx)
     (bpf_tail_call (is_uprobe_multi \<and> pa_enter_progs pa ENTER_PROG_BPF_UPROBE_MULTI)
       (enter_bpf_uprobe_multi k ctx)
     (bpf_tail_call (is_tracing_multi \<and> pa_enter_progs pa ENTER_PROG_BPF_TRACING_MULTI)
       (enter_bpf_tracing_multi k ctx)
     (do {
       emit_bpf_enter_event_v2_direct k pid tid sys_id ctx enter_time;
       save_pending_syscall_args k tid pid sys_id ctx enter_time stack_id;
       if arg0 (sec_args ctx) = BPF_DIRECT_MAP_GET_NEXT_KEY then do {
         key_size \<leftarrow> bpf_map_get_next_key_key_size_direct k (arg1 (sec_args ctx)) (arg2 (sec_args ctx));
         only_if (0 < key_size) (save_pending_syscall_aux k tid key_size) }
       else only_if (arg0 (sec_args ctx) = BPF_DIRECT_TASK_FD_QUERY) (do {
         buf_len \<leftarrow> bpf_attr_read_u32_direct k (arg1 (sec_args ctx)) (arg2 (sec_args ctx))
           BPF_DIRECT_TASK_FD_QUERY_BUF_LEN_OFF;
         case buf_len of None \<Rightarrow> return () | Some n \<Rightarrow> save_pending_syscall_aux k tid n }) }))) })"

section \<open>Chained fragments\<close>

definition enter_iovec_base :: "kernel \<Rightarrow> sys_enter_ctx \<Rightarrow> unit bpf" where
  "enter_iovec_base k ctx = ENTER_PROLOGUE k ctx (\<lambda>sys_id tid pid enter_time cfg stack_id. only_if (is_iovec_base_enter_direct_syscall sys_id) (do {
     emit_iovec_base_enter_event_v2_direct k pid tid sys_id ctx enter_time }))"

definition enter_sendmsg_base :: "kernel \<Rightarrow> sys_enter_ctx \<Rightarrow> unit bpf" where
  "enter_sendmsg_base k ctx = ENTER_PROLOGUE k ctx (\<lambda>sys_id tid pid enter_time cfg stack_id. only_if (sys_id = SYS_SENDMSG) (do {
     emit_sendmsg_base_enter_event_v2_direct k pid tid sys_id ctx enter_time }))"

definition enter_aio_buf :: "kernel \<Rightarrow> sys_enter_ctx \<Rightarrow> unit bpf" where
  "enter_aio_buf k ctx = ENTER_PROLOGUE k ctx (\<lambda>sys_id tid pid enter_time cfg stack_id. only_if (sys_id = SYS_IO_SUBMIT) (do {
     emit_aio_submit_buf_enter_event_v2_direct k pid tid sys_id ctx enter_time }))"

definition enter_aio_iovec :: "kernel \<Rightarrow> prog_arrays \<Rightarrow> sys_enter_ctx \<Rightarrow> unit bpf" where
  "enter_aio_iovec k pa ctx = ENTER_PROLOGUE k ctx (\<lambda>sys_id tid pid enter_time cfg stack_id. only_if (sys_id = SYS_IO_SUBMIT) (do {
     emit_aio_submit_iovec_enter_event_v2_direct k pid tid sys_id ctx enter_time;
     bpf_tail_call (pa_enter_progs pa ENTER_PROG_AIO_BUF) (enter_aio_buf k ctx) (return ()) }))"

definition enter_mmsg_bytes3 :: "kernel \<Rightarrow> sys_enter_ctx \<Rightarrow> unit bpf" where
  "enter_mmsg_bytes3 k ctx = ENTER_PROLOGUE k ctx (\<lambda>sys_id tid pid enter_time cfg stack_id. only_if (sys_id = SYS_SENDMMSG) (do {
     emit_mmsg_bytes_base3_enter_event_v2_direct k pid tid sys_id ctx enter_time }))"

definition enter_mmsg_bytes2 :: "kernel \<Rightarrow> prog_arrays \<Rightarrow> sys_enter_ctx \<Rightarrow> unit bpf" where
  "enter_mmsg_bytes2 k pa ctx = ENTER_PROLOGUE k ctx (\<lambda>sys_id tid pid enter_time cfg stack_id. only_if (sys_id = SYS_SENDMMSG) (do {
     emit_mmsg_bytes_base2_enter_event_v2_direct k pid tid sys_id ctx enter_time;
     bpf_tail_call (pa_mmsg_bytes_progs pa MMSG_BYTES_PROG_BASE3) (enter_mmsg_bytes3 k ctx) (return ()) }))"

definition enter_mmsg_bytes1 :: "kernel \<Rightarrow> prog_arrays \<Rightarrow> sys_enter_ctx \<Rightarrow> unit bpf" where
  "enter_mmsg_bytes1 k pa ctx = ENTER_PROLOGUE k ctx (\<lambda>sys_id tid pid enter_time cfg stack_id. only_if (sys_id = SYS_SENDMMSG) (do {
     emit_mmsg_bytes_base1_enter_event_v2_direct k pid tid sys_id ctx enter_time;
     bpf_tail_call (pa_mmsg_bytes_progs pa MMSG_BYTES_PROG_BASE2) (enter_mmsg_bytes2 k pa ctx) (return ()) }))"

definition enter_mmsg_bytes0 :: "kernel \<Rightarrow> prog_arrays \<Rightarrow> sys_enter_ctx \<Rightarrow> unit bpf" where
  "enter_mmsg_bytes0 k pa ctx = ENTER_PROLOGUE k ctx (\<lambda>sys_id tid pid enter_time cfg stack_id. only_if (sys_id = SYS_SENDMMSG) (do {
     emit_mmsg_bytes_base0_enter_event_v2_direct k pid tid sys_id ctx enter_time;
     bpf_tail_call (pa_mmsg_bytes_progs pa MMSG_BYTES_PROG_BASE1) (enter_mmsg_bytes1 k pa ctx) (return ()) }))"

definition enter_mmsg_base3 :: "kernel \<Rightarrow> prog_arrays \<Rightarrow> sys_enter_ctx \<Rightarrow> unit bpf" where
  "enter_mmsg_base3 k pa ctx = ENTER_PROLOGUE k ctx (\<lambda>sys_id tid pid enter_time cfg stack_id. only_if (is_mmsg_direct_syscall sys_id) (do {
     emit_mmsg_base3_enter_event_v2_direct k pid tid sys_id ctx enter_time;
     only_if (sys_id = SYS_SENDMMSG)
       (bpf_tail_call (pa_mmsg_bytes_progs pa MMSG_BYTES_PROG_BASE0) (enter_mmsg_bytes0 k pa ctx) (return ())) }))"

definition enter_mmsg_base2 :: "kernel \<Rightarrow> prog_arrays \<Rightarrow> sys_enter_ctx \<Rightarrow> unit bpf" where
  "enter_mmsg_base2 k pa ctx = ENTER_PROLOGUE k ctx (\<lambda>sys_id tid pid enter_time cfg stack_id. only_if (is_mmsg_direct_syscall sys_id) (do {
     emit_mmsg_base2_enter_event_v2_direct k pid tid sys_id ctx enter_time;
     bpf_tail_call (pa_enter_progs pa ENTER_PROG_MMSG_BASE3) (enter_mmsg_base3 k pa ctx) (return ()) }))"

definition enter_mmsg_base01 :: "kernel \<Rightarrow> prog_arrays \<Rightarrow> sys_enter_ctx \<Rightarrow> unit bpf" where
  "enter_mmsg_base01 k pa ctx = ENTER_PROLOGUE k ctx (\<lambda>sys_id tid pid enter_time cfg stack_id. only_if (is_mmsg_direct_syscall sys_id) (do {
     emit_mmsg_base0_enter_event_v2_direct k pid tid sys_id ctx enter_time;
     emit_mmsg_base1_enter_event_v2_direct k pid tid sys_id ctx enter_time;
     bpf_tail_call (pa_enter_progs pa ENTER_PROG_MMSG_BASE2) (enter_mmsg_base2 k pa ctx) (return ()) }))"

subsection \<open>Nested descriptor paths\<close>

text \<open>
  \<open>load_nested_fd_path_fragment_context\<close> returns the two pointers of the fragment: the syscall in
  flight and the scratch area with the candidates.
\<close>

definition load_nested_fd_path_fragment_context ::
    "kernel \<Rightarrow> sys_enter_ctx \<Rightarrow> (pending_syscall \<times> fd_path_scratch) option bpf" where
  "load_nested_fd_path_fragment_context k ctx = (let sys_id = ucast (sec_id ctx) in
     if sys_id \<noteq> SYS_SELECT \<and> \<not> is_poll_direct_syscall sys_id then return None
     else do {
       cfg \<leftarrow> gets config_map;
       if \<not> cfg_has cfg CONFIG_FD_STATE then return None
       else do {
         pending \<leftarrow> current_pending_syscall k;
         case pending of
           None \<Rightarrow> return None
         | Some p \<Rightarrow>
             if ps_pid p \<noteq> cur_pid k \<or> ps_tid p \<noteq> cur_tid k \<or> ps_sys_id p \<noteq> sys_id then return None
             else do {
               scratch \<leftarrow> lookup_fd_path_scratch k;
               return (case scratch of
                   None \<Rightarrow> None
                 | Some x \<Rightarrow> if fps_nested_fd_count x = 0 \<or> fps_nested_fd_count x > FD_PATH_NESTED_MAX then None
                             else Some (p, x)) } } })"

text \<open>
  The body of the four fragment programs: fragment \<open>i\<close> runs when there are more than \<open>i\<close>
  candidates and chains to the next one when there are more than \<open>i + 1\<close>.  The candidate count is read
  again behind the emission, which may have used the scratch area.
\<close>

definition nested_fd_path_fragment ::
    "kernel \<Rightarrow> sys_enter_ctx \<Rightarrow> u32 \<Rightarrow> (fd_path_scratch \<Rightarrow> s32) \<Rightarrow> unit bpf \<Rightarrow> unit bpf" where
  "nested_fd_path_fragment k ctx i fd chain = do {
     fragment \<leftarrow> load_nested_fd_path_fragment_context k ctx;
     case fragment of
       None \<Rightarrow> return ()
     | Some (p, scratch) \<Rightarrow>
         only_if (i < fps_nested_fd_count scratch) (do {
           emit_nested_fd_path_fragment_event_v2_direct k p (fd scratch);
           after \<leftarrow> lookup_fd_path_scratch k;
           only_if (case after of None \<Rightarrow> False | Some x \<Rightarrow> i + 1 < fps_nested_fd_count x) chain }) }"

definition enter_nested_fd_path3 :: "kernel \<Rightarrow> sys_enter_ctx \<Rightarrow> unit bpf" where
  "enter_nested_fd_path3 k ctx = nested_fd_path_fragment k ctx 3 fps_nested_fd3 (return ())"

definition enter_nested_fd_path2 :: "kernel \<Rightarrow> prog_arrays \<Rightarrow> sys_enter_ctx \<Rightarrow> unit bpf" where
  "enter_nested_fd_path2 k pa ctx = nested_fd_path_fragment k ctx 2 fps_nested_fd2
     (bpf_tail_call (pa_enter_progs pa ENTER_PROG_NESTED_FD_PATH3) (enter_nested_fd_path3 k ctx) (return ()))"

definition enter_nested_fd_path1 :: "kernel \<Rightarrow> prog_arrays \<Rightarrow> sys_enter_ctx \<Rightarrow> unit bpf" where
  "enter_nested_fd_path1 k pa ctx = nested_fd_path_fragment k ctx 1 fps_nested_fd1
     (bpf_tail_call (pa_enter_progs pa ENTER_PROG_NESTED_FD_PATH2) (enter_nested_fd_path2 k pa ctx) (return ()))"

definition enter_nested_fd_path0 :: "kernel \<Rightarrow> prog_arrays \<Rightarrow> sys_enter_ctx \<Rightarrow> unit bpf" where
  "enter_nested_fd_path0 k pa ctx = nested_fd_path_fragment k ctx 0 fps_nested_fd0
     (bpf_tail_call (pa_enter_progs pa ENTER_PROG_NESTED_FD_PATH1) (enter_nested_fd_path1 k pa ctx) (return ()))"

section \<open>Handlers that chain\<close>

definition enter_iovec :: "kernel \<Rightarrow> prog_arrays \<Rightarrow> sys_enter_ctx \<Rightarrow> unit bpf" where
  "enter_iovec k pa ctx = ENTER_PROLOGUE k ctx (\<lambda>sys_id tid pid enter_time cfg stack_id. do {
     emit_iovec_enter_event_v2_direct k pid tid sys_id ctx enter_time;
     save_pending_syscall_args k tid pid sys_id ctx enter_time stack_id;
     only_if (is_iovec_base_enter_direct_syscall sys_id)
       (bpf_tail_call (pa_enter_progs pa ENTER_PROG_IOVEC_BASE) (enter_iovec_base k ctx) (return ())) })"

definition enter_msg :: "kernel \<Rightarrow> prog_arrays \<Rightarrow> sys_enter_ctx \<Rightarrow> unit bpf" where
  "enter_msg k pa ctx = ENTER_PROLOGUE k ctx (\<lambda>sys_id tid pid enter_time cfg stack_id. do {
     emit_msg_enter_event_v2_direct k pid tid sys_id ctx enter_time;
     save_pending_msg_syscall_args k tid pid sys_id ctx enter_time stack_id;
     only_if (sys_id = SYS_SENDMSG)
       (bpf_tail_call (pa_enter_progs pa ENTER_PROG_SENDMSG_BASE) (enter_sendmsg_base k ctx) (return ())) })"

definition enter_mmsg :: "kernel \<Rightarrow> prog_arrays \<Rightarrow> sys_enter_ctx \<Rightarrow> unit bpf" where
  "enter_mmsg k pa ctx = ENTER_PROLOGUE k ctx (\<lambda>sys_id tid pid enter_time cfg stack_id. do {
     emit_mmsg_enter_event_v2_direct k pid tid sys_id ctx enter_time;
     save_pending_syscall_args k tid pid sys_id ctx enter_time stack_id;
     bpf_tail_call (pa_enter_progs pa ENTER_PROG_MMSG_BASE01) (enter_mmsg_base01 k pa ctx) (return ()) })"

definition enter_fcntl :: "kernel \<Rightarrow> sys_enter_ctx \<Rightarrow> unit bpf" where
  "enter_fcntl k ctx = ENTER_PROLOGUE k ctx (\<lambda>sys_id tid pid enter_time cfg stack_id. do {
     emit_fcntl_enter_event_v2_direct k pid tid sys_id ctx enter_time;
     save_pending_syscall_args k tid pid sys_id ctx enter_time stack_id })"

definition enter_ioctl :: "kernel \<Rightarrow> sys_enter_ctx \<Rightarrow> unit bpf" where
  "enter_ioctl k ctx = ENTER_PROLOGUE k ctx (\<lambda>sys_id tid pid enter_time cfg stack_id. do {
     emit_ioctl_enter_event_v2_direct k pid tid sys_id ctx enter_time;
     save_pending_syscall_args k tid pid sys_id ctx enter_time stack_id })"

definition enter_network :: "kernel \<Rightarrow> sys_enter_ctx \<Rightarrow> unit bpf" where
  "enter_network k ctx = ENTER_PROLOGUE k ctx (\<lambda>sys_id tid pid enter_time cfg stack_id. do {
     sockaddr_len \<leftarrow> emit_network_enter_event_v2_direct k pid tid sys_id (sec_args ctx) enter_time 0;
     save_pending_network_syscall_args k tid pid sys_id (sec_args ctx) enter_time stack_id sockaddr_len })"

definition enter_key :: "kernel \<Rightarrow> sys_enter_ctx \<Rightarrow> unit bpf" where
  "enter_key k ctx = ENTER_PROLOGUE k ctx (\<lambda>sys_id tid pid enter_time cfg stack_id. do {
     emit_key_enter_event_v2_direct k pid tid sys_id ctx enter_time;
     save_pending_syscall_args k tid pid sys_id ctx enter_time stack_id })"

definition enter_xattr :: "kernel \<Rightarrow> sys_enter_ctx \<Rightarrow> unit bpf" where
  "enter_xattr k ctx = ENTER_PROLOGUE k ctx (\<lambda>sys_id tid pid enter_time cfg stack_id. do {
     emit_xattr_enter_event_v2_direct k pid tid sys_id ctx enter_time;
     save_pending_syscall_args k tid pid sys_id ctx enter_time stack_id })"

definition enter_fs :: "kernel \<Rightarrow> sys_enter_ctx \<Rightarrow> unit bpf" where
  "enter_fs k ctx = ENTER_PROLOGUE k ctx (\<lambda>sys_id tid pid enter_time cfg stack_id. do {
     emit_fs_enter_event_v2_direct k pid tid sys_id ctx cfg enter_time;
     save_pending_syscall_args k tid pid sys_id ctx enter_time stack_id })"

definition enter_aio :: "kernel \<Rightarrow> prog_arrays \<Rightarrow> sys_enter_ctx \<Rightarrow> unit bpf" where
  "enter_aio k pa ctx = ENTER_PROLOGUE k ctx (\<lambda>sys_id tid pid enter_time cfg stack_id.
     if sys_id = SYS_IO_SUBMIT then do {
       emit_aio_submit_enter_event_v2_direct k pid tid sys_id ctx enter_time;
       save_pending_syscall_args k tid pid sys_id ctx enter_time stack_id;
       bpf_tail_call (pa_enter_progs pa ENTER_PROG_AIO_IOVEC) (enter_aio_iovec k pa ctx) (return ()) }
     else do {
       emit_aio_enter_event_v2_direct k pid tid sys_id ctx cfg enter_time;
       save_pending_syscall_args k tid pid sys_id ctx enter_time stack_id })"

definition enter_poll :: "kernel \<Rightarrow> prog_arrays \<Rightarrow> sys_enter_ctx \<Rightarrow> unit bpf" where
  "enter_poll k pa ctx = ENTER_PROLOGUE k ctx (\<lambda>sys_id tid pid enter_time cfg stack_id. do {
     fd_path_count \<leftarrow> (if cfg_has cfg CONFIG_FD_STATE
       then collect_poll_fd_path_candidates_direct k sys_id (arg0 (sec_args ctx)) (arg1 (sec_args ctx))
       else return 0);
     emit_poll_enter_event_v2_direct k pid tid sys_id ctx enter_time;
     save_pending_syscall_args k tid pid sys_id ctx enter_time stack_id;
     only_if (0 < fd_path_count)
       (bpf_tail_call (pa_enter_progs pa ENTER_PROG_NESTED_FD_PATH0) (enter_nested_fd_path0 k pa ctx) (return ())) })"

definition enter_select :: "kernel \<Rightarrow> prog_arrays \<Rightarrow> sys_enter_ctx \<Rightarrow> unit bpf" where
  "enter_select k pa ctx = ENTER_PROLOGUE k ctx (\<lambda>sys_id tid pid enter_time cfg stack_id. do {
     fd_path_count \<leftarrow> (if cfg_has cfg CONFIG_FD_STATE
       then collect_select_fd_path_candidates_direct k (arg0 (sec_args ctx)) (arg1 (sec_args ctx))
              (arg2 (sec_args ctx)) (arg3 (sec_args ctx))
       else return 0);
     emit_select_enter_event_v2_direct k ctx pid tid enter_time;
     save_pending_syscall_args k tid pid sys_id ctx enter_time stack_id;
     only_if (0 < fd_path_count)
       (bpf_tail_call (pa_enter_progs pa ENTER_PROG_NESTED_FD_PATH0) (enter_nested_fd_path0 k pa ctx) (return ())) })"

definition enter_epoll :: "kernel \<Rightarrow> sys_enter_ctx \<Rightarrow> unit bpf" where
  "enter_epoll k ctx = ENTER_PROLOGUE k ctx (\<lambda>sys_id tid pid enter_time cfg stack_id.
     if is_epoll_ctl_direct_syscall sys_id then do {
       emit_epoll_ctl_enter_event_v2_direct k pid tid sys_id ctx cfg enter_time;
       save_pending_syscall_args k tid pid sys_id ctx enter_time stack_id }
     else only_if (is_epoll_pwait2_direct_syscall sys_id) (do {
       emit_epoll_pwait2_enter_event_v2_direct k pid tid sys_id ctx cfg enter_time;
       save_pending_syscall_args k tid pid sys_id ctx enter_time stack_id }))"

definition enter_no_payload_direct :: "kernel \<Rightarrow> sys_enter_ctx \<Rightarrow> unit bpf" where
  "enter_no_payload_direct k ctx = ENTER_PROLOGUE k ctx (\<lambda>sys_id tid pid enter_time cfg stack_id. do {
     emit_fd_path_or_no_payload_enter_event_v2_direct k pid tid ctx cfg enter_time;
     save_pending_syscall_args k tid pid sys_id ctx enter_time stack_id })"

definition enter_no_payload_generic :: "kernel \<Rightarrow> sys_enter_ctx \<Rightarrow> unit bpf" where
  "enter_no_payload_generic k ctx = ENTER_PROLOGUE k ctx (\<lambda>sys_id tid pid enter_time cfg stack_id. do {
     emit_plain_no_payload_enter_event_v2_direct k pid tid sys_id ctx cfg enter_time;
     save_pending_syscall_args k tid pid sys_id ctx enter_time stack_id })"

definition enter_payload_direct :: "kernel \<Rightarrow> sys_enter_ctx \<Rightarrow> unit bpf" where
  "enter_payload_direct k ctx = ENTER_PROLOGUE k ctx (\<lambda>sys_id tid pid enter_time cfg stack_id. do {
     emit_payload_enter_event_v2_direct k pid tid sys_id ctx enter_time;
     save_pending_syscall_args k tid pid sys_id ctx enter_time stack_id })"

definition enter_quota :: "kernel \<Rightarrow> sys_enter_ctx \<Rightarrow> unit bpf" where
  "enter_quota k ctx = ENTER_PROLOGUE k ctx (\<lambda>sys_id tid pid enter_time cfg stack_id. only_if (is_quota_direct_syscall sys_id) (do {
     emit_quota_enter_event_v2_direct k pid tid sys_id ctx enter_time;
     save_pending_syscall_args k tid pid sys_id ctx enter_time stack_id }))"

definition enter_mount_path :: "kernel \<Rightarrow> sys_enter_ctx \<Rightarrow> unit bpf" where
  "enter_mount_path k ctx = ENTER_PROLOGUE k ctx (\<lambda>sys_id tid pid enter_time cfg stack_id. only_if (is_mount_path_direct_syscall sys_id) (do {
     emit_mount_path_enter_event_v2_direct k pid tid sys_id ctx enter_time;
     save_pending_syscall_args k tid pid sys_id ctx enter_time stack_id }))"

section \<open>The dispatcher\<close>

text \<open>The program in each slot: \<^verbatim>\<open>bpfEnterProgramCatalog\<close> of the capture manifest.\<close>

fun enter_program :: "kernel \<Rightarrow> prog_arrays \<Rightarrow> enter_prog_index \<Rightarrow> sys_enter_ctx \<Rightarrow> unit bpf" where
  "enter_program k pa ENTER_PROG_TERMINATING = enter_terminating k"
| "enter_program k pa ENTER_PROG_EXEC = enter_exec k"
| "enter_program k pa ENTER_PROG_PATH_STAT = enter_path_stat k"
| "enter_program k pa ENTER_PROG_PATH_ONLY = enter_path_only k"
| "enter_program k pa ENTER_PROG_DUAL_PATH = enter_dual_path k"
| "enter_program k pa ENTER_PROG_OPENAT2 = enter_openat2 k"
| "enter_program k pa ENTER_PROG_READLINK = enter_readlink k"
| "enter_program k pa ENTER_PROG_MISC_STRUCT = enter_misc_struct k"
| "enter_program k pa ENTER_PROG_SMALL_STRUCT = enter_small_struct k"
| "enter_program k pa ENTER_PROG_ITIMER = enter_itimer k"
| "enter_program k pa ENTER_PROG_TIME_STRUCT = enter_time_struct k"
| "enter_program k pa ENTER_PROG_SIGNAL = enter_signal k"
| "enter_program k pa ENTER_PROG_FILE_TIME = enter_file_time k"
| "enter_program k pa ENTER_PROG_SLEEP = enter_sleep k"
| "enter_program k pa ENTER_PROG_FUTEX = enter_futex k"
| "enter_program k pa ENTER_PROG_CACHESTAT = enter_cachestat k"
| "enter_program k pa ENTER_PROG_CAPABILITY = enter_capability k"
| "enter_program k pa ENTER_PROG_MEMFD = enter_memfd k"
| "enter_program k pa ENTER_PROG_PRCTL = enter_prctl k"
| "enter_program k pa ENTER_PROG_CLONE3 = enter_clone3 k"
| "enter_program k pa ENTER_PROG_BPF = enter_bpf k pa"
| "enter_program k pa ENTER_PROG_IOVEC = enter_iovec k pa"
| "enter_program k pa ENTER_PROG_MSG = enter_msg k pa"
| "enter_program k pa ENTER_PROG_MMSG = enter_mmsg k pa"
| "enter_program k pa ENTER_PROG_FCNTL = enter_fcntl k"
| "enter_program k pa ENTER_PROG_IOCTL = enter_ioctl k"
| "enter_program k pa ENTER_PROG_NETWORK = enter_network k"
| "enter_program k pa ENTER_PROG_KEY = enter_key k"
| "enter_program k pa ENTER_PROG_XATTR = enter_xattr k"
| "enter_program k pa ENTER_PROG_FS = enter_fs k"
| "enter_program k pa ENTER_PROG_AIO = enter_aio k pa"
| "enter_program k pa ENTER_PROG_POLL = enter_poll k pa"
| "enter_program k pa ENTER_PROG_SELECT = enter_select k pa"
| "enter_program k pa ENTER_PROG_EPOLL = enter_epoll k"
| "enter_program k pa ENTER_PROG_NO_PAYLOAD_DIRECT = enter_no_payload_direct k"
| "enter_program k pa ENTER_PROG_PAYLOAD_DIRECT = enter_payload_direct k"
| "enter_program k pa ENTER_PROG_IOVEC_BASE = enter_iovec_base k"
| "enter_program k pa ENTER_PROG_SENDMSG_BASE = enter_sendmsg_base k"
| "enter_program k pa ENTER_PROG_MMSG_BASE01 = enter_mmsg_base01 k pa"
| "enter_program k pa ENTER_PROG_MMSG_BASE2 = enter_mmsg_base2 k pa"
| "enter_program k pa ENTER_PROG_MMSG_BASE3 = enter_mmsg_base3 k pa"
| "enter_program k pa ENTER_PROG_AIO_IOVEC = enter_aio_iovec k pa"
| "enter_program k pa ENTER_PROG_AIO_BUF = enter_aio_buf k"
| "enter_program k pa ENTER_PROG_QUOTA = enter_quota k"
| "enter_program k pa ENTER_PROG_MOUNT_PATH = enter_mount_path k"
| "enter_program k pa ENTER_PROG_NO_PAYLOAD_GENERIC = enter_no_payload_generic k"
| "enter_program k pa ENTER_PROG_NESTED_FD_PATH0 = enter_nested_fd_path0 k pa"
| "enter_program k pa ENTER_PROG_NESTED_FD_PATH1 = enter_nested_fd_path1 k pa"
| "enter_program k pa ENTER_PROG_NESTED_FD_PATH2 = enter_nested_fd_path2 k pa"
| "enter_program k pa ENTER_PROG_NESTED_FD_PATH3 = enter_nested_fd_path3 k"
| "enter_program k pa ENTER_PROG_BPF_UPROBE_MULTI = enter_bpf_uprobe_multi k"
| "enter_program k pa ENTER_PROG_BPF_PROG_LOAD = enter_bpf_prog_load k pa"
| "enter_program k pa ENTER_PROG_BPF_PROG_LOAD_DEBUG = enter_bpf_prog_load_debug k"
| "enter_program k pa ENTER_PROG_BPF_TRACING_MULTI = enter_bpf_tracing_multi k"

text \<open>
  \<^verbatim>\<open>trace_sys_enter\<close>.  \<open>enter_route\<close> is its tail call with the fallback behind it, \<open>dispatch_enter\<close>
  its part behind the task filter, with the routing as an argument.
\<close>

definition enter_route :: "kernel \<Rightarrow> prog_arrays \<Rightarrow> u32 option \<Rightarrow> sys_enter_ctx \<Rightarrow> unit bpf" where
  "enter_route k pa cfg ctx =
     (case pa_enter_routes pa (ucast (sec_id ctx)) of
        Some slot \<Rightarrow> enter_program k pa slot ctx
      | None \<Rightarrow> emit_enter_dispatch_fallback k ctx (cur_pid k) (cur_tid k) cfg)"

definition dispatch_enter ::
    "kernel \<Rightarrow> (u32 option \<Rightarrow> sys_enter_ctx \<Rightarrow> unit bpf) \<Rightarrow> sys_enter_ctx \<Rightarrow> u32 \<Rightarrow> unit bpf" where
  "dispatch_enter k route ctx flags = (let sys_id = ucast (sec_id ctx); tid = cur_tid k; pid = cur_pid k in do {
     arm_pending_exec_replacement k pid tid sys_id;
     if is_pre_exec_suppressed_syscall (Some flags) sys_id then return ()
     else do {
       capture_pending_fork_flags k tid sys_id ctx;
       cfg \<leftarrow> gets config_map;
       selected \<leftarrow> should_trace_syscall sys_id cfg;
       if \<not> selected \<and> \<not> is_fd_state_tracked sys_id cfg then return () else route cfg ctx } })"

definition trace_sys_enter :: "kernel \<Rightarrow> prog_arrays \<Rightarrow> sys_enter_ctx \<Rightarrow> unit bpf" where
  "trace_sys_enter k pa ctx = (let sys_id = ucast (sec_id ctx); tid = cur_tid k; pid = cur_pid k in do {
     capture_tracer_pid_namespace k ctx sys_id;
     filter_flags \<leftarrow> lookup_lifecycle_task_filter_flags pid tid;
     case filter_flags of
       None \<Rightarrow> return ()
     | Some flags \<Rightarrow> do {
         rejected \<leftarrow> reject_unsupported_syscall_abi k pid tid sys_id;
         if rejected then return ()
         else if sys_id = SYS_RT_SIGRETURN then return ()
         else dispatch_enter k (enter_route k pa) ctx flags } })"

section \<open>Accounting of the handlers\<close>

lemma core_emitters [emitter_intros]:
  "emitter k (emit_compact_syscall_enter_event_v2_direct k pid tid sys_id ctx ts)"
  "emitter k (emit_plain_no_payload_enter_event_v2_direct k pid tid sys_id ctx cfg ts)"
  "emitter k (emit_terminating_exit_event_v2_direct k pid tid sys_id ctx ts stack_id)"
  "emitter k (emit_fd_path_or_no_payload_enter_event_v2_direct k pid tid ctx cfg ts)"
  "emitter k (emit_nested_fd_path_fragment_event_v2_direct k p fd)"
  "emitter k (emit_exec_enter_event_v2_direct k pid tid sys_id ctx cfg ts pr)"
  "emitter k (emit_payload_enter_event_v2_direct k pid tid sys_id ctx ts)"
  "emitter k (emit_syscall_exit_event_v2_direct k p ret dur fl)"
  "emitter k (emit_exec_exit_event_v2_direct k p ret dur)"
  "emitter k (emit_fd_state_exit_event_v2_direct k p ret dur)"
  "emitter k (emit_namespace_exit_event_v2_direct k p ret dur)"
  "emitter k (emit_pid_namespace_exit_event_v2_direct k p ret dur)"
  "emitter k (emit_open_creat_fd_state_path_exit_event_v2_direct k p ret dur)"
  "emitter k (emit_payload_exit_event_v2_direct k p ret dur)"
  by (simp_all add: emitter_def accounted_intros reports_intros)

lemma scan_silent:
  "silent k (epoll_fd_path_scan_callback k' up n is x)"
  "reports (epoll_fd_path_scan_callback k' up n is x)"
  "silent k (poll_fd_path_scan_callback k' up n is x)"
  "reports (poll_fd_path_scan_callback k' up n is x)"
  by (induction "is" arbitrary: x)
     (auto intro!: silent_rules silent_intros reports_rules reports_intros simp: Let_def)

lemma collect_silent [silent_intros]:
  "silent k (collect_epoll_fd_path_candidates_direct k' p ret)"
  "silent k (collect_poll_fd_path_candidates_direct k' sys_id up n)"
  "silent k (collect_select_fd_path_candidates_direct k' n r w e)"
  unfolding collect_epoll_fd_path_candidates_direct_def collect_poll_fd_path_candidates_direct_def
    collect_select_fd_path_candidates_direct_def collect_select_fdset_candidates_direct_def
    read_select_fdset_candidates_direct_def Let_def
  by (intro silent_rules silent_intros scan_silent)+

lemma collect_reports [reports_intros]:
  "reports (collect_epoll_fd_path_candidates_direct k' p ret)"
  "reports (collect_poll_fd_path_candidates_direct k' sys_id up n)"
  "reports (collect_select_fd_path_candidates_direct k' n r w e)"
  unfolding collect_epoll_fd_path_candidates_direct_def collect_poll_fd_path_candidates_direct_def
    collect_select_fd_path_candidates_direct_def collect_select_fdset_candidates_direct_def
    read_select_fdset_candidates_direct_def Let_def
  by (intro reports_rules reports_intros scan_silent)+

lemma marker_silent [silent_intros]:
  "silent k (should_emit_signal_sigsuspend_marker k' tid pid)"
  "silent k (should_emit_nanosleep_suspended_marker k' tid pid)"
  "silent k (is_bpf_uprobe_multi_enter_direct k' ctx)"
  "silent k (is_bpf_tracing_multi_enter_direct k' ctx)"
  "silent k (capture_stack_id k' cfg)"
  unfolding should_emit_signal_sigsuspend_marker_def should_emit_nanosleep_suspended_marker_def
    is_bpf_uprobe_multi_enter_direct_def is_bpf_tracing_multi_enter_direct_def with_field_def capture_stack_id_def
  by (intro silent_rules silent_intros)+

lemma marker_reports [reports_intros]:
  "reports (should_emit_signal_sigsuspend_marker k' tid pid)"
  "reports (should_emit_nanosleep_suspended_marker k' tid pid)"
  "reports (is_bpf_uprobe_multi_enter_direct k' ctx)"
  "reports (is_bpf_tracing_multi_enter_direct k' ctx)"
  "reports (capture_stack_id k' cfg)"
  unfolding should_emit_signal_sigsuspend_marker_def should_emit_nanosleep_suspended_marker_def
    is_bpf_uprobe_multi_enter_direct_def is_bpf_tracing_multi_enter_direct_def with_field_def capture_stack_id_def
  by (intro reports_rules reports_intros)+

lemma save_pending_silent [silent_intros]:
  "silent k (save_pending_network_syscall_args k tid pid sys_id args ts stack_id len)"
  "silent k (save_pending_msg_syscall_args k tid pid sys_id ctx ts stack_id)"
  unfolding save_pending_network_syscall_args_def save_pending_msg_syscall_args_def msg_direct_read_name_def Let_def
  by (intro silent_rules silent_intros)+

lemma emitter_gets: "emitter k (gets f)"
  by (simp add: emitter_def accounted_gets reports_gets)

lemma emitter_case_prod: "(\<And>a b. emitter k (h a b)) \<Longrightarrow> emitter k (case z of (a, b) \<Rightarrow> h a b)"
  by (cases z) simp

lemma emitter_prologue:
  assumes "\<And>sys_id tid pid ts cfg st. emitter k (body sys_id tid pid ts cfg st)"
  shows "emitter k (ENTER_PROLOGUE k ctx body)"
  unfolding ENTER_PROLOGUE_def
  by (rule assms emitter_gets emitter_rules | rule silent_emitter, rule silent_intros, rule reports_intros)+

lemma accounted_prologue:
  assumes "\<And>sys_id tid pid ts cfg st. accounted k (body sys_id tid pid ts cfg st)"
  shows "accounted k (ENTER_PROLOGUE k ctx body)"
  unfolding ENTER_PROLOGUE_def
  by (rule assms accounted_rules | rule silent_accounted, rule silent_intros)+

lemma tail_call_rules:
  "emitter k m \<Longrightarrow> emitter k n \<Longrightarrow> emitter k (bpf_tail_call b m n)"
  "accounted k u \<Longrightarrow> accounted k v \<Longrightarrow> accounted k (bpf_tail_call b u v)"
  by (simp_all add: bpf_tail_call_def)

text \<open>Chained fragments only emit: they neither save nor consume pending state.\<close>

lemma fragment_emitters [emitter_intros]:
  "emitter k (enter_bpf_prog_load_debug k ctx)"
  "emitter k (enter_iovec_base k ctx)"
  "emitter k (enter_sendmsg_base k ctx)"
  "emitter k (enter_aio_buf k ctx)"
  "emitter k (enter_mmsg_bytes3 k ctx)"
  unfolding enter_bpf_prog_load_debug_def enter_iovec_base_def enter_sendmsg_base_def enter_aio_buf_def
    enter_mmsg_bytes3_def
  by (intro emitter_prologue emitter_rules emitter_intros)+

lemma aio_chain [emitter_intros]: "emitter k (enter_aio_iovec k pa ctx)"
  unfolding enter_aio_iovec_def by (intro emitter_prologue emitter_rules tail_call_rules emitter_intros)

lemma emitter_enter_mmsg_bytes2 [emitter_intros]: "emitter k (enter_mmsg_bytes2 k pa ctx)"
  unfolding enter_mmsg_bytes2_def by (intro emitter_prologue emitter_rules tail_call_rules emitter_intros)

lemma emitter_enter_mmsg_bytes1 [emitter_intros]: "emitter k (enter_mmsg_bytes1 k pa ctx)"
  unfolding enter_mmsg_bytes1_def by (intro emitter_prologue emitter_rules tail_call_rules emitter_intros)

lemma emitter_enter_mmsg_bytes0 [emitter_intros]: "emitter k (enter_mmsg_bytes0 k pa ctx)"
  unfolding enter_mmsg_bytes0_def by (intro emitter_prologue emitter_rules tail_call_rules emitter_intros)

lemma emitter_enter_mmsg_base3 [emitter_intros]: "emitter k (enter_mmsg_base3 k pa ctx)"
  unfolding enter_mmsg_base3_def by (intro emitter_prologue emitter_rules tail_call_rules emitter_intros)

lemma emitter_enter_mmsg_base2 [emitter_intros]: "emitter k (enter_mmsg_base2 k pa ctx)"
  unfolding enter_mmsg_base2_def by (intro emitter_prologue emitter_rules tail_call_rules emitter_intros)

lemma emitter_enter_mmsg_base01 [emitter_intros]: "emitter k (enter_mmsg_base01 k pa ctx)"
  unfolding enter_mmsg_base01_def by (intro emitter_prologue emitter_rules tail_call_rules emitter_intros)

lemma emitter_nested_fragment:
  assumes "emitter k chain"
  shows "emitter k (nested_fd_path_fragment k ctx i fd chain)"
  unfolding nested_fd_path_fragment_def load_nested_fd_path_fragment_context_def Let_def
  by (rule assms emitter_gets emitter_case_prod emitter_rules emitter_intros | rule silent_emitter, rule silent_intros, rule reports_intros)+

lemma nested_chain [emitter_intros]:
  "emitter k (enter_nested_fd_path3 k ctx)"
  "emitter k (enter_nested_fd_path2 k pa ctx)"
  "emitter k (enter_nested_fd_path1 k pa ctx)"
  "emitter k (enter_nested_fd_path0 k pa ctx)"
  unfolding enter_nested_fd_path3_def enter_nested_fd_path2_def enter_nested_fd_path1_def enter_nested_fd_path0_def
  by (intro emitter_nested_fragment tail_call_rules emitter_rules)+

text \<open>The handlers that emit one record and save the call.\<close>

lemma accounted_simple_handlers [accounted_intros]:
  "accounted k (enter_path_stat k ctx)"
  "accounted k (enter_path_only k ctx)"
  "accounted k (enter_dual_path k ctx)"
  "accounted k (enter_openat2 k ctx)"
  "accounted k (enter_readlink k ctx)"
  "accounted k (enter_misc_struct k ctx)"
  "accounted k (enter_small_struct k ctx)"
  "accounted k (enter_itimer k ctx)"
  "accounted k (enter_time_struct k ctx)"
  "accounted k (enter_file_time k ctx)"
  "accounted k (enter_cachestat k ctx)"
  "accounted k (enter_capability k ctx)"
  "accounted k (enter_memfd k ctx)"
  "accounted k (enter_prctl k ctx)"
  "accounted k (enter_clone3 k ctx)"
  "accounted k (enter_bpf_uprobe_multi k ctx)"
  "accounted k (enter_bpf_tracing_multi k ctx)"
  "accounted k (enter_fcntl k ctx)"
  "accounted k (enter_ioctl k ctx)"
  "accounted k (enter_key k ctx)"
  "accounted k (enter_xattr k ctx)"
  "accounted k (enter_fs k ctx)"
  "accounted k (enter_no_payload_direct k ctx)"
  "accounted k (enter_no_payload_generic k ctx)"
  "accounted k (enter_payload_direct k ctx)"
  unfolding enter_path_stat_def enter_path_only_def enter_dual_path_def enter_openat2_def
    enter_readlink_def enter_misc_struct_def enter_small_struct_def enter_itimer_def
    enter_time_struct_def enter_file_time_def enter_cachestat_def enter_capability_def enter_memfd_def
    enter_prctl_def enter_clone3_def enter_bpf_uprobe_multi_def enter_bpf_tracing_multi_def
    enter_fcntl_def enter_ioctl_def enter_key_def enter_xattr_def enter_fs_def
    enter_no_payload_direct_def enter_no_payload_generic_def enter_payload_direct_def
  by (rule accounted_prologue, rule accounted_bind, rule emitter_accounted, rule emitter_intros,
      rule silent_accounted, rule silent_intros)+

lemma update_or_fail_silent:
  "silent k (bpf_map_update k (\<lambda>s. s\<lparr>main_exited_map := f s\<rparr>))"
  "silent k (bpf_map_update k (\<lambda>s. s\<lparr>pending_exec_map := g s\<rparr>))"
  by (rule silent_map_update; simp)+

lemma accounted_guarded_handlers [accounted_intros]:
  "accounted k (enter_terminating k ctx)"
  "accounted k (enter_exec k ctx)"
  "accounted k (enter_signal k ctx)"
  "accounted k (enter_sleep k ctx)"
  "accounted k (enter_futex k ctx)"
  "accounted k (enter_epoll k ctx)"
  "accounted k (enter_quota k ctx)"
  "accounted k (enter_mount_path k ctx)"
  "accounted k (enter_network k ctx)"
  unfolding enter_terminating_def enter_exec_def enter_signal_def enter_sleep_def enter_futex_def
    enter_epoll_def enter_quota_def enter_mount_path_def enter_network_def Let_def
  by (rule accounted_prologue accounted_rules | rule emitter_accounted, rule emitter_intros
      | rule silent_accounted, rule silent_intros update_or_fail_silent)+

lemma accounted_bpf_prog_load [accounted_intros]: "accounted k (enter_bpf_prog_load k pa ctx)"
  unfolding enter_bpf_prog_load_def
  by (rule accounted_prologue accounted_rules tail_call_rules(2) | rule emitter_accounted, rule emitter_intros
      | rule silent_accounted, rule silent_intros)+

lemma accounted_chaining_handlers [accounted_intros]:
  "accounted k (enter_bpf k pa ctx)"
  "accounted k (enter_iovec k pa ctx)"
  "accounted k (enter_msg k pa ctx)"
  "accounted k (enter_mmsg k pa ctx)"
  "accounted k (enter_aio k pa ctx)"
  "accounted k (enter_poll k pa ctx)"
  "accounted k (enter_select k pa ctx)"
  unfolding enter_bpf_def enter_iovec_def enter_msg_def enter_mmsg_def enter_aio_def enter_poll_def
    enter_select_def
  by (rule accounted_prologue accounted_rules accounted_intros tail_call_rules(2) | rule emitter_accounted, rule emitter_intros
      | rule silent_accounted, rule silent_intros)+

section \<open>What a handler leaves behind\<close>

text \<open>
  \<open>pending_of k ctx p\<close>: the pending entry \<open>p\<close> describes the syscall \<open>ctx\<close> of the running thread.
  \<open>ready k s\<close>: the task has its storage or can get it.  \<open>opens k ctx m\<close>: started ready, the
  program leaves exactly this syscall in flight.  \<open>holds k m\<close>: the program leaves what is in flight alone.
\<close>

definition pending_of :: "kernel \<Rightarrow> sys_enter_ctx \<Rightarrow> pending_syscall \<Rightarrow> bool" where
  "pending_of k ctx p \<longleftrightarrow> ps_sys_id p = ucast (sec_id ctx) \<and> ps_tid p = cur_tid k \<and> ps_pid p = cur_pid k \<and>
     ps_args p = sec_args ctx"

definition ready :: "kernel \<Rightarrow> machine \<Rightarrow> bool" where
  "ready k s \<longleftrightarrow> k_task k \<noteq> 0 \<and> (pending_task_storage s (k_task k) \<noteq> None \<or> (\<forall>t. k_storage_create k t))"

definition opens :: "kernel \<Rightarrow> sys_enter_ctx \<Rightarrow> 'a bpf \<Rightarrow> bool" where
  "opens k ctx m \<longleftrightarrow> (\<forall>s. ready k s \<longrightarrow> (\<exists>p. in_flight k (exec m s) = Some p \<and> pending_of k ctx p))"

definition holds :: "kernel \<Rightarrow> 'a bpf \<Rightarrow> bool" where
  "holds k m \<longleftrightarrow> state_io_rel (same (in_flight k)) m"

named_theorems holds_intros \<open>programs that leave the syscall in flight alone\<close>

lemma holds_rules:
  "holds k (return x)"
  "holds k (gets f)"
  "holds k m \<Longrightarrow> (\<And>x. holds k (g x)) \<Longrightarrow> holds k (State_Monad.bind m g)"
  "(b \<Longrightarrow> holds k u) \<Longrightarrow> (\<not> b \<Longrightarrow> holds k v) \<Longrightarrow> holds k (if b then u else v)"
  "(b \<Longrightarrow> holds k w) \<Longrightarrow> holds k (only_if b w)"
  "(y = None \<Longrightarrow> holds k q) \<Longrightarrow> (\<And>x. y = Some x \<Longrightarrow> holds k (r x)) \<Longrightarrow>
     holds k (case y of None \<Rightarrow> q | Some x \<Rightarrow> r x)"
  "holds k t \<Longrightarrow> holds k t' \<Longrightarrow> holds k (bpf_tail_call b t t')"
  unfolding holds_def bpf_tail_call_def by (auto intro: same.io_rules split: option.split)

lemma reports_holds: "reports m \<Longrightarrow> holds k m"
  unfolding holds_def by (rule reports_same) (auto simp: in_flight_eq dest: control_fields(3))

lemma emitter_holds: "emitter k m \<Longrightarrow> holds k m"
  by (rule reports_holds [OF emitter_reports])

lemma holds_map_update [holds_intros]:
  "holds k (bpf_map_update k' (\<lambda>s. s\<lparr>pending_exec_map := f s\<rparr>))"
  "holds k (bpf_map_update k' (\<lambda>s. s\<lparr>pending_fork_flags_map := g s\<rparr>))"
  "holds k (bpf_map_update k' (\<lambda>s. s\<lparr>main_exited_map := h s\<rparr>))"
  unfolding holds_def by (rule io_map_update; simp add: in_flight_eq)+

lemma holds_aux [holds_intros]: "holds k (save_pending_syscall_aux k tid aux)"
  by (auto simp: holds_def state_io_rel_wp same_def save_pending_syscall_aux_def wp_simps in_flight_eq pending_defs
      split: option.splits intro!: wp_reports reports_intros dest: control_fields(3))

lemma opens_after:
  assumes "reports m" "\<And>x. opens k ctx (g x)"
  shows "opens k ctx (State_Monad.bind m g)"
proof -
  have "ready k (exec m s) = ready k s" for s
    using control_fields(3) [OF reports_control [OF assms(1), of s]] by (simp add: ready_def)
  then show ?thesis using assms(2) by (simp add: opens_def run_bind_parts del: run_state_bind)
qed

lemma opens_then:
  assumes "opens k ctx m" "\<And>x. holds k (g x)"
  shows "opens k ctx (State_Monad.bind m g)"
proof -
  have "in_flight k (exec (g x) s) = in_flight k s" for x s
    using assms(2) [of x] unfolding holds_def by (rule same_exec)
  then show ?thesis using assms(1) by (simp add: opens_def run_bind_parts del: run_state_bind)
qed

lemma opens_save_value:
  assumes "\<And>cpu. pending_of k ctx (p\<lparr>ps_cpu_enter_time := cpu\<rparr>)"
  shows "opens k ctx (save_pending_syscall_value k p)"
  unfolding opens_def
proof (intro allI impI)
  fix s assume r: "ready k s"
  then have "wp (save_pending_syscall_value k p) (\<lambda>ok t. ok \<and> (\<exists>cpu. pending_task_storage t (k_task k) =
      Some \<lparr>pts_syscall = p\<lparr>ps_cpu_enter_time := cpu\<rparr>, pts_namespace_snapshot = zero_namespace_snapshot,
        pts_aux0 = 0, pts_valid = 1\<rparr>)) s"
    by (intro wp_mono [OF save_pending_value_spec]) (auto simp: ready_def)
  then show "\<exists>q. in_flight k (exec (save_pending_syscall_value k p) s) = Some q \<and> pending_of k ctx q"
    using r assms by (auto simp: wp_def in_flight_eq ready_def)
qed

lemma opens_save:
  "opens k ctx (save_pending_syscall_args k (cur_tid k) (cur_pid k) (ucast (sec_id ctx)) ctx ts st)"
  "opens k ctx (save_pending_msg_syscall_args k (cur_tid k) (cur_pid k) (ucast (sec_id ctx)) ctx ts st)"
  "opens k ctx (save_pending_network_syscall_args k (cur_tid k) (cur_pid k) (ucast (sec_id ctx)) (sec_args ctx) ts st len)"
  unfolding save_pending_syscall_args_def save_pending_msg_syscall_args_def save_pending_network_syscall_args_def
    msg_direct_read_name_def Let_def
  by (rule opens_then, rule opens_save_value, simp add: pending_of_def zero_pending_syscall_def, rule holds_rules holds_intros
      | rule opens_after | rule holds_rules holds_intros reports_rules reports_intros)+

lemma opens_prologue:
  assumes "\<And>ts cfg st. opens k ctx (body (ucast (sec_id ctx)) (cur_tid k) (cur_pid k) ts cfg st)"
  shows "opens k ctx (ENTER_PROLOGUE k ctx body)"
  unfolding ENTER_PROLOGUE_def by (rule assms opens_after reports_gets reports_intros)+

lemma opens_if:
  "(b \<Longrightarrow> opens k ctx m) \<Longrightarrow> (\<not> b \<Longrightarrow> opens k ctx n) \<Longrightarrow> opens k ctx (if b then m else n)"
  by simp

lemma opens_only_if: "b \<Longrightarrow> opens k ctx m \<Longrightarrow> opens k ctx (only_if b m)"
  by (simp add: only_if_def)

lemma opens_tail_call:
  "(b \<Longrightarrow> opens k ctx m) \<Longrightarrow> (\<not> b \<Longrightarrow> opens k ctx n) \<Longrightarrow> opens k ctx (bpf_tail_call b m n)"
  by (simp add: bpf_tail_call_def)

lemma opens_emit:
  assumes "emitter k m" "opens k ctx n"
  shows "opens k ctx (do { m; n })"
  by (rule opens_after [OF emitter_reports [OF assms(1)] assms(2)])

lemma opens_simple_handlers:
  "opens k ctx (enter_path_stat k ctx)"
  "opens k ctx (enter_path_only k ctx)"
  "opens k ctx (enter_dual_path k ctx)"
  "opens k ctx (enter_openat2 k ctx)"
  "opens k ctx (enter_readlink k ctx)"
  "opens k ctx (enter_misc_struct k ctx)"
  "opens k ctx (enter_small_struct k ctx)"
  "opens k ctx (enter_itimer k ctx)"
  "opens k ctx (enter_time_struct k ctx)"
  "opens k ctx (enter_file_time k ctx)"
  "opens k ctx (enter_cachestat k ctx)"
  "opens k ctx (enter_capability k ctx)"
  "opens k ctx (enter_memfd k ctx)"
  "opens k ctx (enter_prctl k ctx)"
  "opens k ctx (enter_clone3 k ctx)"
  "opens k ctx (enter_bpf_uprobe_multi k ctx)"
  "opens k ctx (enter_bpf_tracing_multi k ctx)"
  "opens k ctx (enter_fcntl k ctx)"
  "opens k ctx (enter_ioctl k ctx)"
  "opens k ctx (enter_key k ctx)"
  "opens k ctx (enter_xattr k ctx)"
  "opens k ctx (enter_fs k ctx)"
  "opens k ctx (enter_no_payload_direct k ctx)"
  "opens k ctx (enter_no_payload_generic k ctx)"
  "opens k ctx (enter_payload_direct k ctx)"
  unfolding enter_path_stat_def enter_path_only_def enter_dual_path_def enter_openat2_def
    enter_readlink_def enter_misc_struct_def enter_small_struct_def enter_itimer_def
    enter_time_struct_def enter_file_time_def enter_cachestat_def enter_capability_def enter_memfd_def
    enter_prctl_def enter_clone3_def enter_bpf_uprobe_multi_def enter_bpf_tracing_multi_def
    enter_fcntl_def enter_ioctl_def enter_key_def enter_xattr_def enter_fs_def
    enter_no_payload_direct_def enter_no_payload_generic_def enter_payload_direct_def
  by (rule opens_prologue, rule opens_emit, rule emitter_intros, rule opens_save)+

lemma opens_exec: "opens k ctx (enter_exec k ctx)"
  unfolding enter_exec_def Let_def
  by (rule opens_prologue, rule opens_after, rule reports_gets, rule opens_emit, rule emitter_intros,
      rule opens_then, rule opens_save, (rule holds_rules holds_intros | rule reports_holds, rule reports_intros)+)

lemma opens_signal: "opens k ctx (enter_signal k ctx)"
  unfolding enter_signal_def
  by (rule opens_prologue, rule opens_emit, rule emitter_intros, rule opens_then, rule opens_save,
      (rule holds_rules | rule reports_holds, rule reports_intros | rule emitter_holds, rule emitter_intros)+)

lemma opens_network: "opens k ctx (enter_network k ctx)"
  unfolding enter_network_def
  by (rule opens_prologue, rule opens_after, rule emitter_reports, rule emitter_intros, rule opens_save)

lemma opens_guarded_handlers:
  "is_quota_direct_syscall (ucast (sec_id ctx)) \<Longrightarrow> opens k ctx (enter_quota k ctx)"
  "is_mount_path_direct_syscall (ucast (sec_id ctx)) \<Longrightarrow> opens k ctx (enter_mount_path k ctx)"
  unfolding enter_quota_def enter_mount_path_def
  by (rule opens_prologue, rule opens_only_if, assumption, rule opens_emit, rule emitter_intros, rule opens_save)+

lemma opens_epoll:
  "is_epoll_ctl_direct_syscall (ucast (sec_id ctx)) \<or> is_epoll_pwait2_direct_syscall (ucast (sec_id ctx)) \<Longrightarrow>
     opens k ctx (enter_epoll k ctx)"
  unfolding enter_epoll_def
  by (rule opens_prologue, rule opens_if opens_only_if, simp, rule opens_emit, rule emitter_intros, rule opens_save)
     (auto simp: only_if_def intro!: opens_emit emitter_intros opens_save)

lemma opens_futex:
  "ucast (sec_id ctx) \<in> {SYS_FUTEX, SYS_FUTEX_WAIT, SYS_FUTEX_WAITV, SYS_FUTEX_REQUEUE} \<Longrightarrow>
     opens k ctx (enter_futex k ctx)"
  unfolding enter_futex_def
  by (rule opens_prologue, (rule opens_if, rule opens_emit, rule emitter_intros, rule opens_save)+,
      rule opens_only_if, blast, rule opens_emit, rule emitter_intros, rule opens_save)

lemma opens_sleep:
  "ucast (sec_id ctx) \<in> {SYS_NANOSLEEP, SYS_CLOCK_NANOSLEEP} \<Longrightarrow> opens k ctx (enter_sleep k ctx)"
  unfolding enter_sleep_def
  by (rule opens_prologue, rule opens_if, rule opens_emit, rule emitter_intros, rule opens_then, rule opens_save,
      (rule holds_rules | rule reports_holds, rule reports_intros | rule emitter_holds, rule emitter_intros)+,
      rule opens_only_if, blast, rule opens_emit, rule emitter_intros, rule opens_save)

text \<open>The handlers that chain to fragments, which leave the saved call alone.\<close>

lemma opens_bpf_prog_load: "opens k ctx (enter_bpf_prog_load k pa ctx)"
  unfolding enter_bpf_prog_load_def
  by (rule opens_prologue, rule opens_emit, rule emitter_intros, rule opens_then, rule opens_save,
      (rule holds_rules | rule emitter_holds, rule emitter_intros)+)

lemma opens_chaining_handlers:
  "opens k ctx (enter_iovec k pa ctx)"
  "opens k ctx (enter_msg k pa ctx)"
  "opens k ctx (enter_mmsg k pa ctx)"
  unfolding enter_iovec_def enter_msg_def enter_mmsg_def
  by (rule opens_prologue, rule opens_emit, rule emitter_intros, rule opens_then, rule opens_save,
      (rule holds_rules | rule emitter_holds, rule emitter_intros)+)+

lemma opens_scanning_handlers:
  "opens k ctx (enter_poll k pa ctx)"
  "opens k ctx (enter_select k pa ctx)"
  unfolding enter_poll_def enter_select_def
  by (rule opens_prologue, rule opens_after, (rule reports_rules reports_intros)+, rule opens_emit, rule emitter_intros,
      rule opens_then, rule opens_save, (rule holds_rules | rule emitter_holds, rule emitter_intros)+)+

lemma opens_aio: "opens k ctx (enter_aio k pa ctx)"
  unfolding enter_aio_def
  by (rule opens_prologue, rule opens_if, rule opens_emit, rule emitter_intros, rule opens_then, rule opens_save,
      (rule holds_rules | rule emitter_holds, rule emitter_intros)+, rule opens_emit, rule emitter_intros, rule opens_save)

lemma opens_bpf: "opens k ctx (enter_bpf k pa ctx)"
  unfolding enter_bpf_def
  by (rule opens_prologue, rule opens_after, rule reports_intros, rule opens_after, rule reports_intros,
      rule opens_tail_call, rule opens_bpf_prog_load, rule opens_tail_call, rule opens_simple_handlers,
      rule opens_tail_call, rule opens_simple_handlers, rule opens_emit, rule emitter_intros, rule opens_then, rule opens_save,
      (rule holds_rules holds_intros | rule reports_holds, rule reports_intros)+)

lemma opens_fallback: "opens k ctx (emit_enter_dispatch_fallback k ctx (cur_pid k) (cur_tid k) cfg)"
  unfolding emit_enter_dispatch_fallback_def Let_def
  by (rule opens_after, rule reports_intros, rule opens_after, rule reports_intros, rule opens_emit, rule emitter_intros,
      rule opens_save)

section \<open>The contract of the enter handlers\<close>

text \<open>The syscalls whose entry the handler in a slot saves; fragments and terminating calls save none.\<close>

fun enter_serves :: "enter_prog_index \<Rightarrow> u32 \<Rightarrow> bool" where
  "enter_serves ENTER_PROG_SLEEP sys_id = (sys_id \<in> {SYS_NANOSLEEP, SYS_CLOCK_NANOSLEEP})"
| "enter_serves ENTER_PROG_FUTEX sys_id =
     (sys_id \<in> {SYS_FUTEX, SYS_FUTEX_WAIT, SYS_FUTEX_WAITV, SYS_FUTEX_REQUEUE})"
| "enter_serves ENTER_PROG_EPOLL sys_id = (is_epoll_ctl_direct_syscall sys_id \<or> is_epoll_pwait2_direct_syscall sys_id)"
| "enter_serves ENTER_PROG_QUOTA sys_id = is_quota_direct_syscall sys_id"
| "enter_serves ENTER_PROG_MOUNT_PATH sys_id = is_mount_path_direct_syscall sys_id"
| "enter_serves slot sys_id = (slot \<notin> {ENTER_PROG_TERMINATING, ENTER_PROG_IOVEC_BASE, ENTER_PROG_SENDMSG_BASE,
     ENTER_PROG_MMSG_BASE01, ENTER_PROG_MMSG_BASE2, ENTER_PROG_MMSG_BASE3, ENTER_PROG_AIO_IOVEC, ENTER_PROG_AIO_BUF,
     ENTER_PROG_NESTED_FD_PATH0, ENTER_PROG_NESTED_FD_PATH1, ENTER_PROG_NESTED_FD_PATH2, ENTER_PROG_NESTED_FD_PATH3,
     ENTER_PROG_BPF_PROG_LOAD_DEBUG})"

text \<open>What the dispatchers decide on, and the parts of the prefix that leave it alone.\<close>

definition gate_view :: "machine \<Rightarrow> (u64 \<rightharpoonup> pending_task_state) \<times> (u32 \<rightharpoonup> u32) \<times> u32 option \<times> (u32 \<rightharpoonup> u32)" where
  "gate_view s = (pending_task_storage s, filter_map s, config_map s, syscall_filter_map s)"

lemma reports_gate: "reports m \<Longrightarrow> state_io_rel (same gate_view) m"
  by (rule reports_same) (auto simp: gate_view_def dest: control_fields)

lemma gate_frames:
  "state_io_rel (same gate_view) (arm_pending_exec_replacement k pid tid sys_id)"
  "state_io_rel (same gate_view) (capture_pending_fork_flags k tid sys_id ctx)"
  "state_io_rel (same gate_view) (clear_pending_fork_flags tid sys_id)"
  "state_io_rel (same gate_view) (capture_tracer_pid_namespace k ctx sys_id)"
  unfolding arm_pending_exec_replacement_def capture_pending_fork_flags_def update_or_record_def
    clear_pending_fork_flags_def delete_pending_fork_flags_def capture_tracer_pid_namespace_def Let_def
  by (rule same.io_rules | rule reports_gate, rule reports_intros | rule io_map_update same.io_modify; simp add: gate_view_def same_def)+

lemma gate_exec:
  assumes "state_io_rel (same gate_view) m"
  shows "pending_task_storage (exec m s) = pending_task_storage s" "filter_map (exec m s) = filter_map s"
    "config_map (exec m s) = config_map s" "syscall_filter_map (exec m s) = syscall_filter_map s"
  using same_exec [OF assms, of s] by (simp_all add: gate_view_def)

text \<open>The decision of the syscall filter, as a function of the state.\<close>

definition selects :: "machine \<Rightarrow> u32 \<Rightarrow> bool" where
  "selects s sys_id \<longleftrightarrow> result (should_trace_syscall sys_id (config_map s)) s \<or> is_fd_state_tracked sys_id (config_map s)"

lemma selects_gate: "gate_view t = gate_view s \<Longrightarrow> selects t sys_id = selects s sys_id"
  by (auto simp: selects_def gate_view_def should_trace_syscall_def run_bind_parts split: option.split)

locale enter_contract =
  fixes k :: kernel
    and run :: "u32 option \<Rightarrow> sys_enter_ctx \<Rightarrow> unit bpf"
    and serves :: "u32 \<Rightarrow> bool"
  assumes books: "accounted k (run cfg ctx)"
    and saves: "serves (ucast (sec_id ctx)) \<Longrightarrow> opens k ctx (run cfg ctx)"
begin

lemma dispatch_books: "accounted k (dispatch_enter k run ctx flags)"
  unfolding dispatch_enter_def Let_def
  by (rule books accounted_rules | rule silent_accounted, rule silent_intros)+

lemma dispatch_saves:
  assumes "serves (ucast (sec_id ctx))" "ready k s" "selects s (ucast (sec_id ctx))"
    and "\<not> is_pre_exec_suppressed_syscall (Some flags) (ucast (sec_id ctx))"
  shows "\<exists>p. in_flight k (exec (dispatch_enter k run ctx flags) s) = Some p \<and> pending_of k ctx p"
proof -
  let ?id = "ucast (sec_id ctx) :: u32"
  define t where "t = exec (capture_pending_fork_flags k (cur_tid k) ?id ctx)
    (exec (arm_pending_exec_replacement k (cur_pid k) (cur_tid k) ?id) s)"
  have g: "gate_view t = gate_view s"
    by (simp add: t_def same_exec [OF gate_frames(2)] same_exec [OF gate_frames(1)])
  then have "ready k t" using assms(2) by (simp add: gate_view_def ready_def)
  then have "\<exists>p. in_flight k (exec (run (config_map t) ctx) t) = Some p \<and> pending_of k ctx p"
    using saves [OF assms(1)] by (simp add: opens_def)
  moreover have "selects t ?id" using assms(3) selects_gate [OF g] by simp
  ultimately show ?thesis
    using assms(4) by (auto simp: dispatch_enter_def Let_def run_bind_parts t_def [symmetric] selects_def simp del: run_state_bind)
qed

end

lemmas opens_handlers = opens_simple_handlers opens_exec opens_signal opens_network opens_bpf_prog_load
  opens_chaining_handlers opens_scanning_handlers opens_aio opens_bpf opens_guarded_handlers opens_epoll
  opens_futex opens_sleep

interpretation slot: enter_contract k "\<lambda>_. enter_program k pa slot" "enter_serves slot"
proof
  fix ctx
  show "accounted k (enter_program k pa slot ctx)"
    by (cases slot) (simp_all add: accounted_intros emitter_accounted emitter_intros)
  show "opens k ctx (enter_program k pa slot ctx)" if "enter_serves slot (ucast (sec_id ctx))"
    using that by (cases slot) (simp_all add: opens_handlers)
qed

lemma accounted_fallback [accounted_intros]: "accounted k (emit_enter_dispatch_fallback k ctx pid tid cfg)"
  unfolding emit_enter_dispatch_fallback_def Let_def
  by (rule accounted_rules | rule emitter_accounted, rule emitter_intros | rule silent_accounted, rule silent_intros)+

definition enter_route_serves :: "prog_arrays \<Rightarrow> u32 \<Rightarrow> bool" where
  "enter_route_serves pa sys_id = (case pa_enter_routes pa sys_id of None \<Rightarrow> True | Some slot \<Rightarrow> enter_serves slot sys_id)"

interpretation enter: enter_contract k "enter_route k pa" "enter_route_serves pa"
  by unfold_locales
    (auto simp: enter_route_def enter_route_serves_def slot.books slot.saves accounted_fallback opens_fallback
      split: option.split option.split_asm)

lemma accounted_sys_enter [accounted_intros]: "accounted k (trace_sys_enter k pa ctx)"
  unfolding trace_sys_enter_def Let_def
  by (rule enter.dispatch_books accounted_rules accounted_intros | rule silent_accounted, rule silent_intros)+

section \<open>Properties\<close>

text \<open>A task the tracer accepts: tracked with filter word \<open>flags\<close> and running native syscalls.\<close>

definition traced :: "kernel \<Rightarrow> machine \<Rightarrow> u32 \<Rightarrow> u32 \<Rightarrow> bool" where
  "traced k s sys_id flags \<longleftrightarrow>
     result (lookup_lifecycle_task_filter_flags (cur_pid k) (cur_tid k)) s = Some flags \<and>
     (\<forall>t. result (current_syscall_has_native_abi k sys_id) t) \<and>
     sys_id \<noteq> SYS_RT_SIGRETURN \<and> \<not> is_pre_exec_suppressed_syscall (Some flags) sys_id \<and> selects s sys_id"

lemma native_reject:
  assumes "\<forall>t. result (current_syscall_has_native_abi k sys_id) t"
  shows "result (reject_unsupported_syscall_abi k pid tid sys_id) s = False"
    "control (exec (reject_unsupported_syscall_abi k pid tid sys_id) s) = control s"
    "events (exec (reject_unsupported_syscall_abi k pid tid sys_id) s) = events s"
proof -
  have "reports (current_syscall_has_native_abi k sys_id)" by (rule reports_intros)
  then show "result (reject_unsupported_syscall_abi k pid tid sys_id) s = False"
    "control (exec (reject_unsupported_syscall_abi k pid tid sys_id) s) = control s"
    using assms by (simp_all add: reject_unsupported_syscall_abi_def run_bind_parts reports_control del: run_state_bind)
  show "events (exec (reject_unsupported_syscall_abi k pid tid sys_id) s) = events s"
    using assms by (simp add: reject_unsupported_syscall_abi_def current_syscall_has_native_abi_def run_bind_parts
        core_read_into_def next_tick_def split_beta del: run_state_bind)
qed

lemma lookup_filter_gate:
  "gate_view t = gate_view s \<Longrightarrow>
     result (lookup_lifecycle_task_filter_flags pid tid) t = result (lookup_lifecycle_task_filter_flags pid tid) s"
  by (auto simp: lookup_lifecycle_task_filter_flags_def gate_view_def split: option.split)

lemma enter_opens_routed:
  assumes "traced k s (ucast (sec_id ctx)) flags" "ready k s" "enter_route_serves pa (ucast (sec_id ctx))"
  shows "\<exists>p. in_flight k (exec (trace_sys_enter k pa ctx) s) = Some p \<and> pending_of k ctx p"
proof -
  let ?id = "ucast (sec_id ctx) :: u32"
  define t where "t = exec (capture_tracer_pid_namespace k ctx ?id) s"
  define u where "u = exec (reject_unsupported_syscall_abi k (cur_pid k) (cur_tid k) ?id) t"
  have a: "\<forall>t. result (current_syscall_has_native_abi k ?id) t" using assms(1) by (simp add: traced_def)
  have g: "gate_view t = gate_view s" unfolding t_def by (rule same_exec [OF gate_frames(4)])
  moreover have "gate_view u = gate_view t"
    using native_reject(2) [OF a] by (auto simp: u_def gate_view_def dest: control_fields)
  ultimately have "gate_view u = gate_view s" by simp
  then have "ready k u" "selects u ?id" using assms(1,2) selects_gate [of u s]
    by (simp_all add: traced_def ready_def gate_view_def)
  then have "\<exists>p. in_flight k (exec (dispatch_enter k (enter_route k pa) ctx flags) u) = Some p \<and> pending_of k ctx p"
    using assms by (intro enter.dispatch_saves) (simp_all add: traced_def)
  moreover have "result (lookup_lifecycle_task_filter_flags (cur_pid k) (cur_tid k)) t = Some flags"
    using lookup_filter_gate [OF g] assms(1) by (simp add: traced_def)
  ultimately show ?thesis
    using assms(1) native_reject(1) [OF a]
    by (simp add: trace_sys_enter_def Let_def run_bind_parts t_def [symmetric] u_def [symmetric] traced_def del: run_state_bind)
qed

definition enter_plan_ok :: "enter_prog_index \<Rightarrow> u32 \<Rightarrow> bool" where
  "enter_plan_ok slot sys_id \<longleftrightarrow> enter_serves slot sys_id \<or> is_terminating_direct_syscall sys_id"

lemma enter_capabilities_ok:
  "list_all (\<lambda>(sys_id, e, _). case e of None \<Rightarrow> True | Some slot \<Rightarrow> enter_plan_ok slot sys_id) bpfRouteCapabilities"
  unfolding bpfRouteCapabilities_def list_all_append
  by (intro conjI; simp add: bpfRouteCapabilities_a_f_def bpfRouteCapabilities_g_p_def bpfRouteCapabilities_q_w_def
      enter_plan_ok_def is_terminating_direct_syscall_def is_epoll_ctl_direct_syscall_def
      is_epoll_pwait2_direct_syscall_def is_quota_direct_syscall_def is_mount_path_direct_syscall_def)

lemma plan_enter_ok: "enter_plan_ok (plan_enter sys_id) sys_id"
  by (rule plan_enter_all [OF enter_capabilities_ok]) (simp add: enter_plan_ok_def)

lemma select_enter_ok: "select_enter config table sys_id = Some slot \<Longrightarrow> enter_plan_ok slot sys_id"
  using plan_enter_ok [of sys_id]
  by (auto simp: select_enter_def Let_def enter_plan_ok_def split: if_splits)

lemma enter_opens_planned:
  assumes "traced k s (ucast (sec_id ctx)) flags" "ready k s"
    and "\<not> is_terminating_direct_syscall (ucast (sec_id ctx))"
    and "pa_enter_routes pa = select_enter config table"
  shows "\<exists>p. in_flight k (exec (trace_sys_enter k pa ctx) s) = Some p \<and> pending_of k ctx p"
  using assms select_enter_ok [of config table]
  by (intro enter_opens_routed [OF assms(1,2)]) (auto simp: enter_route_serves_def enter_plan_ok_def split: option.split)

text \<open>
  C6: A selected syscall is in flight after its enter.  With the routes the loader installs, for every
  configuration and syscall table, every traced syscall that returns leaves a pending entry with its number,
  thread, process and six arguments, provided the task has (or gets) its storage.
\<close>

theorem sys_enter_in_flight:
  assumes "traced k s (ucast (sec_id ctx)) flags" "ready k s"
    and "\<not> is_terminating_direct_syscall (ucast (sec_id ctx))"
    and "pa_enter_routes pa = select_enter config table"
  shows "\<exists>p. in_flight k (exec (trace_sys_enter k pa ctx) s) = Some p \<and> pending_of k ctx p"
  by (rule enter_opens_planned [OF assms])

text \<open>A loaded tracer: every slot filled, the given configuration, every number below 512 in the table.\<close>

definition sample_arrays :: "traceBPFConfig \<Rightarrow> prog_arrays" where
  "sample_arrays config = \<lparr>pa_enter_routes = select_enter config (\<lambda>n. n < 512),
     pa_exit_routes = select_exit config (\<lambda>n. n < 512), pa_enter_progs = (\<lambda>_. True), pa_exit_progs = (\<lambda>_. True),
     pa_recvmsg_progs = (\<lambda>_. True), pa_mmsg_bytes_progs = (\<lambda>_. True)\<rparr>"

definition sample_config :: traceBPFConfig where
  "sample_config = \<lparr>tbc_ids = None, tbc_fdState = False, tbc_namespaceNew = False, tbc_decodePIDsPIDNS = False\<rparr>"

definition sample_machine :: machine where
  "sample_machine = (boot_machine CONFIG_EMIT_ENTER)\<lparr>filter_map := [7 \<mapsto> FILTER_TASK_TRACKED]\<rparr>"

lemma sample_core [simp]:
  "k_core (sample_kernel pid tid) t f p = 0" "k_core_fault (sample_kernel pid tid) t f p = 0"
  by (simp_all add: sample_kernel_def)

lemma sample_traced:
  "traced (sample_kernel 7 7) sample_machine 3 FILTER_TASK_TRACKED" "ready (sample_kernel 7 7) sample_machine"
  by (simp_all add: traced_def sample_machine_def lookup_lifecycle_task_filter_flags_def tracked_flags_def
      current_syscall_has_native_abi_def core_read_into_def next_tick_def selects_def
      should_trace_syscall_def is_pre_exec_suppressed_syscall_def has_flag_def boot_machine_def ready_def)

theorem sys_enter_in_flight_witness:
  "\<exists>p. in_flight (sample_kernel 7 7) (exec (trace_sys_enter (sample_kernel 7 7) (sample_arrays sample_config)
     \<lparr>sec_id = 3, sec_args = Args 5 0 0 0 0 0\<rparr>) sample_machine) = Some p \<and>
     pending_of (sample_kernel 7 7) \<lparr>sec_id = 3, sec_args = Args 5 0 0 0 0 0\<rparr> p"
  using sys_enter_in_flight [of "sample_kernel 7 7" sample_machine "\<lparr>sec_id = 3, sec_args = Args 5 0 0 0 0 0\<rparr>"
      FILTER_TASK_TRACKED "sample_arrays sample_config" sample_config "\<lambda>n. n < 512"] sample_traced
  by (simp add: sample_arrays_def is_terminating_direct_syscall_def)

end
