(* ===== verification/Nested_Fd_Path.thy ===== *)
theory Nested_Fd_Path
  imports Bpf_Command_Exit
begin

text \<open>
  The candidates of the nested descriptor paths between the programs of a fragment chain: collecting
  stores at most four of them in the scratch area, and emitting the path of one leaves them there for the
  next program of the chain, although the path walk uses the same area.
\<close>

section \<open>Programs that keep the candidates\<close>

definition candidates :: "kernel \<Rightarrow> machine \<Rightarrow> (u32 \<times> s32 \<times> s32 \<times> s32 \<times> s32) option" where
  "candidates k s = map_option (\<lambda>x. (fps_nested_fd_count x, fps_nested_fd0 x, fps_nested_fd1 x, fps_nested_fd2 x,
     fps_nested_fd3 x)) (fd_path_scratch_map s (k_cpu k))"

definition keeps_candidates :: "kernel \<Rightarrow> 'a bpf \<Rightarrow> bool" where
  "keeps_candidates k m \<longleftrightarrow> state_io_rel (same (candidates k)) m"

named_theorems candidate_intros \<open>programs that keep the candidates\<close>

lemma candidate_rules:
  "keeps_candidates k (return x)"
  "keeps_candidates k (gets f)"
  "keeps_candidates k m \<Longrightarrow> (\<And>x. keeps_candidates k (g x)) \<Longrightarrow> keeps_candidates k (State_Monad.bind m g)"
  "(b \<Longrightarrow> keeps_candidates k u) \<Longrightarrow> (\<not> b \<Longrightarrow> keeps_candidates k v) \<Longrightarrow> keeps_candidates k (if b then u else v)"
  "(b \<Longrightarrow> keeps_candidates k w) \<Longrightarrow> keeps_candidates k (only_if b w)"
  "(y = None \<Longrightarrow> keeps_candidates k q) \<Longrightarrow> (\<And>x. y = Some x \<Longrightarrow> keeps_candidates k (r x)) \<Longrightarrow>
     keeps_candidates k (case y of None \<Rightarrow> q | Some x \<Rightarrow> r x)"
  "(\<And>c d. keeps_candidates k (h c d)) \<Longrightarrow> keeps_candidates k (case z of (c, d) \<Rightarrow> h c d)"
  unfolding keeps_candidates_def by (auto intro: same.io_rules split: option.split prod.split)

lemma candidate_modify:
  "(\<And>s. fd_path_scratch_map (f s) = fd_path_scratch_map s) \<Longrightarrow> keeps_candidates k (modify f)"
  unfolding keeps_candidates_def by (rule same.io_modify) (simp add: same_def candidates_def)

lemma candidate_tick [candidate_intros]: "keeps_candidates k next_tick"
  unfolding next_tick_def by (intro candidate_rules candidate_modify) simp

lemma candidate_helpers [candidate_intros]:
  "keeps_candidates k (bpf_ktime_get_ns k')"
  "keeps_candidates k (core_read k' f p)"
  "keeps_candidates k (core_read_pair k' f f1 f2 p)"
  "keeps_candidates k (bpf_probe_read_kernel k' n p)"
  "keeps_candidates k (mem_store off bs)"
  "keeps_candidates k (bpf_ringbuf_reserve k' n)"
  "keeps_candidates k bpf_ringbuf_submit"
  "keeps_candidates k bpf_ringbuf_discard"
  "keeps_candidates k (lookup_stats k')"
  "keeps_candidates k (store_stats k' st)"
  unfolding bpf_ktime_get_ns_def core_read_def core_read_pair_def bpf_probe_read_kernel_def mem_store_def
    bpf_ringbuf_reserve_def bpf_ringbuf_submit_def bpf_ringbuf_discard_def lookup_stats_def store_stats_def
  by (rule candidate_rules candidate_intros | rule candidate_modify; simp split: option.split)+

lemma candidate_records [candidate_intros]:
  "keeps_candidates k (bpf_dynptr_write off bs)"
  "keeps_candidates k (next_event_sequence k')"
  "keeps_candidates k (record_ringbuf_copy_fail k')"
  "keeps_candidates k (record_ringbuf_reserve_fail k')"
  unfolding bpf_dynptr_write_def next_event_sequence_def record_ringbuf_copy_fail_def record_ringbuf_reserve_fail_def
    record_event_integrity_loss_def bump_stats_def
  by (rule candidate_rules candidate_intros | rule candidate_modify; simp)+

lemma candidate_emission [candidate_intros]:
  "(\<And>sequence. keeps_candidates k (body sequence)) \<Longrightarrow> keeps_candidates k (with_reservation k' n body)"
  "keeps_candidates k header \<Longrightarrow> keeps_candidates k content \<Longrightarrow> keeps_candidates k (commit_event k' header content)"
  unfolding with_reservation_def attempt_def commit_event_def
  by (assumption | rule candidate_rules candidate_intros)+

lemma candidate_bodies [candidate_intros]:
  "keeps_candidates k (init_syscall_event_v2_header_direct k' h ty flags pid tid sys_id n ts)"
  "keeps_candidates k (init_syscall_exit_event_v2_from_pending k' p ret dur m)"
  "keeps_candidates k (payload_tlv_write_header_direct k' off kind arg fl ul cl pr up)"
  "keeps_candidates k (lookup_current_fd_file k' fd)"
  "keeps_candidates k (read_fd_state_snapshot_from_file k' file fd)"
  unfolding init_syscall_event_v2_header_direct_def capture_event_integrity_def capture_event_v2_comm_def
    init_syscall_exit_event_v2_from_pending_def pending_syscall_cpu_duration_def current_task_cpu_runtime_def
    payload_tlv_write_header_direct_def lookup_current_fd_file_def read_fd_state_snapshot_from_file_def
  by (rule candidate_rules candidate_intros)+

lemma candidate_push [candidate_intros]: "keeps_candidates k (push_dentry_component k i d)"
  by (auto simp: keeps_candidates_def state_io_rel_wp same_def candidates_def push_dentry_component_def
      lookup_fd_path_scratch_def store_fd_path_scratch_def wp_simps split: option.split)

lemma candidate_walk [candidate_intros]: "keeps_candidates k (dentry_walk k n dentry mnt root c)"
proof (induction n arbitrary: dentry mnt root c)
  case 0
  show ?case by (simp add: candidate_rules)
next
  case (Suc n)
  show ?case unfolding dentry_walk.simps Let_def by (rule Suc.IH candidate_rules candidate_intros)+
qed

lemma candidate_name [candidate_intros]: "keeps_candidates k (append_dentry_name_direct k off len d)"
  unfolding append_dentry_name_direct_def Let_def by (rule candidate_rules candidate_intros)+

lemma candidate_names [candidate_intros]: "keeps_candidates k (dentry_names k off c n len)"
proof (induction n arbitrary: len)
  case 0
  show ?case by (simp add: candidate_rules)
next
  case (Suc n)
  show ?case unfolding dentry_names.simps Let_def scratch_components_def lookup_fd_path_scratch_def
    by (rule Suc.IH candidate_rules candidate_intros)+
qed

lemma candidate_path [candidate_intros]:
  "keeps_candidates k (read_dentry_path_direct k off dentry mnt)"
  "keeps_candidates k (failed_path_section k off arg pr)"
  unfolding read_dentry_path_direct_def failed_path_section_def lookup_fd_path_scratch_def
  by (rule candidate_rules candidate_intros)+

lemma candidate_capture [candidate_intros]: "keeps_candidates k (capture_fd_path_tlv_direct k off arg fd)"
  unfolding capture_fd_path_tlv_direct_def capture_fd_cwd_path_tlv_direct_def Let_def
  by (rule candidate_rules candidate_intros)+

lemma candidate_fragment [candidate_intros]: "keeps_candidates k (emit_nested_fd_path_fragment_event_v2_direct k p fd)"
  unfolding emit_nested_fd_path_fragment_event_v2_direct_def Let_def
  by (rule candidate_rules candidate_intros)+

lemma fragment_candidates:
  "candidates k (exec (emit_nested_fd_path_fragment_event_v2_direct k p fd) s) = candidates k s"
  using candidate_fragment unfolding keeps_candidates_def by (rule same_exec)

section \<open>What collecting stores\<close>

lemma add_candidate_bound:
  "fps_nested_fd_count x \<le> 4 \<Longrightarrow> fps_nested_fd_count (fd_path_nested_add_candidate x fd) \<le> 4"
  "fps_nested_fd_count x \<le> 4 \<Longrightarrow> fps_nested_fd_count (fd_path_nested_add_window_candidate x fd) \<le> 4"
  by (auto simp: fd_path_nested_add_candidate_def fd_path_nested_add_window_candidate_def Let_def
      word_le_nat_alt unat_word_ariths)

lemma epoll_scan_bound:
  "fps_nested_fd_count x \<le> 4 \<Longrightarrow>
     fps_nested_fd_count (result (epoll_fd_path_scan_callback k up n is x) s) \<le> 4"
  by (induction "is" arbitrary: x s)
     (auto simp: run_bind_parts Let_def add_candidate_bound simp del: run_state_bind split: prod.split)

text \<open>When the collection announces candidates they are in the scratch area, one to four of them.\<close>

lemma collect_epoll_candidates:
  assumes "0 < result (collect_epoll_fd_path_candidates_direct k p ret) s"
  shows "\<exists>n a b c d. candidates k (exec (collect_epoll_fd_path_candidates_direct k p ret) s) = Some (n, a, b, c, d) \<and>
     0 < n \<and> n \<le> 4"
  using assms epoll_scan_bound [of "x\<lparr>fps_nested_fd_count := 0\<rparr>" for x]
  by (auto simp: collect_epoll_fd_path_candidates_direct_def candidates_def run_bind_parts Let_def
      lookup_fd_path_scratch_def store_fd_path_scratch_def simp del: run_state_bind split: if_splits option.splits)

end
