(* ===== verification/Exit_Dispatch.thy ===== *)
theory Exit_Dispatch
  imports Enter_Dispatch Nested_Fd_Path
begin

text \<open>
  The raw syscall exit: the handlers of \<^verbatim>\<open>exit_dispatch.h\<close>, \<^verbatim>\<open>exit_direct_dispatch.h\<close>,
  \<^verbatim>\<open>nested_fd_path_exit_dispatch.h\<close>, \<^verbatim>\<open>quota_dispatch.h\<close> and \<^verbatim>\<open>mount_query_dispatch.h\<close>, the
  kretprobe chain of \<^verbatim>\<open>recvmsg_kretprobe_dispatch.h\<close> and the dispatcher \<^verbatim>\<open>trace_sys_exit\<close> of
  \<^verbatim>\<open>strace.c\<close>.  Every handler looks its pending entry up, checks it, emits and consumes it.
\<close>

section \<open>Prologue and fallback\<close>

text \<open>
  The variables the macro declares are the arguments of the body that follows it: \<open>ret_value\<close>, \<open>tid\<close>,
  \<open>pid\<close>, \<open>p\<close>, \<open>is_pending_lookup\<close>, \<open>pending_tid\<close>, \<open>duration\<close>.
\<close>

definition EXIT_PROLOGUE ::
    "kernel \<Rightarrow> sys_exit_ctx \<Rightarrow> (s64 \<Rightarrow> u32 \<Rightarrow> u32 \<Rightarrow> pending_syscall \<Rightarrow> bool \<Rightarrow> u32 \<Rightarrow> u64 \<Rightarrow> unit bpf) \<Rightarrow> unit bpf" where
  "EXIT_PROLOGUE k ctx body =
     (let ret_value = sxc_ret ctx; exit_sys_id = ucast (sxc_id ctx); tid = cur_tid k; pid = cur_pid k in do {
        (pending, pending_tid, is_pending_lookup) \<leftarrow> lookup_pending_syscall_for_exit k pid tid ret_value;
        case pending of
          None \<Rightarrow> record_unmatched_exit_if_needed k pid tid exit_sys_id ret_value
        | Some p \<Rightarrow> do {
            ok \<leftarrow> validate_pending_syscall_exit k p exit_sys_id pid pending_tid;
            if \<not> ok then return ()
            else do {
              duration \<leftarrow> pending_syscall_duration k p;
              body ret_value tid pid p is_pending_lookup pending_tid duration } } })"

definition emit_exit_dispatch_fallback :: "kernel \<Rightarrow> u32 \<Rightarrow> u32 \<Rightarrow> u32 \<Rightarrow> s64 \<Rightarrow> unit bpf" where
  "emit_exit_dispatch_fallback k pid tid sys_id ret_value = do {
     (pending, pending_tid, pending_exec_lookup) \<leftarrow> lookup_pending_syscall_for_exit k pid tid ret_value;
     case pending of
       None \<Rightarrow> record_unmatched_exit_if_needed k pid tid sys_id ret_value
     | Some p \<Rightarrow> do {
         ok \<leftarrow> validate_pending_syscall_exit k p sys_id pid pending_tid;
         if \<not> ok then return ()
         else do {
           duration \<leftarrow> pending_syscall_duration k p;
           emit_syscall_exit_event_v2_direct k p ret_value duration 0;
           consume_pending_syscall k pid pending_tid p pending_exec_lookup } } }"

section \<open>Event selection of the direct families\<close>

text \<open>Each says whether it emitted the exit record.\<close>

definition emit_generic_exit_fd_time_event :: "kernel \<Rightarrow> pending_syscall \<Rightarrow> s64 \<Rightarrow> u64 \<Rightarrow> bool bpf" where
  "emit_generic_exit_fd_time_event k p ret_value duration =
     (if is_fd_state_exit_direct_syscall (ps_sys_id p) \<and> 0 \<le> sint ret_value then do {
          emit_fd_state_exit_event_v2_direct k p ret_value duration; return True }
      else if is_exit_payload_direct_syscall (ps_sys_id p) \<and> 0 < sint ret_value then do {
          emit_payload_exit_event_v2_direct k p ret_value duration; return True }
      else if is_time_direct_syscall (ps_sys_id p) \<and> 0 \<le> sint ret_value then do {
          emit_time_exit_event_v2_direct k p ret_value duration; return True }
      else if is_gettimeofday_direct_syscall (ps_sys_id p) \<and> 0 \<le> sint ret_value then do {
          emit_gettimeofday_exit_event_v2_direct k p ret_value duration; return True }
      else if is_clock_time_struct_direct_syscall (ps_sys_id p) \<and> 0 \<le> sint ret_value then do {
          emit_time_struct_exit_event_v2_direct k p ret_value duration; return True }
      else if is_itimer_exit_direct_syscall (ps_sys_id p) \<and> 0 \<le> sint ret_value then do {
          emit_itimer_exit_event_v2_direct k p ret_value duration; return True }
      else if is_timex_exit_direct_syscall (ps_sys_id p) \<and> 0 \<le> sint ret_value then do {
          emit_timex_exit_event_v2_direct k p ret_value duration; return True }
      else if is_sleep_direct_syscall (ps_sys_id p) then do {
          emit_sleep_exit_event_v2_direct k p ret_value duration; return True }
      else return False)"

definition emit_generic_exit_struct_event :: "kernel \<Rightarrow> pending_syscall \<Rightarrow> s64 \<Rightarrow> u64 \<Rightarrow> bool bpf" where
  "emit_generic_exit_struct_event k p ret_value duration =
     (if is_stat_struct_direct_syscall (ps_sys_id p) \<and> 0 \<le> sint ret_value then do {
          emit_stat_struct_exit_event_v2_direct k p ret_value duration; return True }
      else if is_waitid_direct_syscall (ps_sys_id p) \<and> 0 \<le> sint ret_value then do {
          emit_waitid_exit_event_v2_direct k p ret_value duration; return True }
      else if is_signal_direct_syscall (ps_sys_id p) \<and> 0 \<le> sint ret_value then do {
          emit_signal_exit_event_v2_direct k p ret_value duration; return True }
      else if is_getcwd_direct_syscall (ps_sys_id p) \<and> 0 < sint ret_value then do {
          emit_getcwd_exit_event_v2_direct k p ret_value duration; return True }
      else if is_readlink_direct_syscall (ps_sys_id p) \<and> 0 < sint ret_value then do {
          emit_readlink_exit_event_v2_direct k p ret_value duration; return True }
      else if is_fd_array_direct_syscall (ps_sys_id p) \<and> ret_value = 0 then do {
          emit_fd_array_exit_event_v2_direct k p ret_value duration; return True }
      else if is_misc_struct_exit_direct_syscall (ps_sys_id p) \<and> 0 \<le> sint ret_value then do {
          emit_misc_struct_exit_event_v2_direct k p ret_value duration; return True }
      else return False)"

definition emit_generic_exit_async_event :: "kernel \<Rightarrow> pending_syscall \<Rightarrow> s64 \<Rightarrow> u64 \<Rightarrow> bool bpf" where
  "emit_generic_exit_async_event k p ret_value duration =
     (if is_small_struct_exit_direct_syscall (ps_sys_id p) \<and> 0 \<le> sint ret_value then do {
          emit_small_struct_exit_event_v2_direct k p ret_value duration; return True }
      else if is_cachestat_direct_syscall (ps_sys_id p) \<and> 0 \<le> sint ret_value then do {
          emit_cachestat_exit_event_v2_direct k p ret_value duration; return True }
      else if ps_sys_id p = SYS_CAPGET \<and> 0 \<le> sint ret_value then do {
          emit_capability_exit_event_v2_direct k p ret_value duration; return True }
      else if is_prctl_direct_syscall (ps_sys_id p) \<and> 0 \<le> sint ret_value then do {
          emit_prctl_exit_event_v2_direct k p ret_value duration; return True }
      else if is_aio_getevents_direct_syscall (ps_sys_id p) \<and> 0 < sint ret_value then do {
          emit_aio_getevents_exit_event_v2_direct k p ret_value duration; return True }
      else if is_aio_setup_direct_syscall (ps_sys_id p) \<and> 0 \<le> sint ret_value then do {
          emit_aio_setup_exit_event_v2_direct k p ret_value duration; return True }
      else if is_poll_direct_syscall (ps_sys_id p) \<and> 0 < sint ret_value then do {
          emit_poll_exit_event_v2_direct k p ret_value duration; return True }
      else return False)"

definition emit_generic_exit_io_event :: "kernel \<Rightarrow> pending_syscall \<Rightarrow> s64 \<Rightarrow> u64 \<Rightarrow> bool bpf" where
  "emit_generic_exit_io_event k p ret_value duration =
     do {
       taken \<leftarrow> (if is_bpf_direct_syscall (ps_sys_id p) then emit_bpf_exit_event_v2_direct k p ret_value duration else return False);
       if taken then return True
       else do {
       taken \<leftarrow> (if is_keyctl_direct_syscall (ps_sys_id p) then emit_keyctl_exit_event_v2_direct k p ret_value duration else return False);
       if taken then return True
       else if is_select_direct_syscall (ps_sys_id p) \<and> 0 \<le> sint ret_value then do {
          emit_select_exit_event_v2_direct k p ret_value duration; return True }
       else if is_epoll_wait_direct_syscall (ps_sys_id p) \<and> 0 < sint ret_value then do {
          emit_epoll_wait_exit_event_v2_direct k p ret_value duration; return True }
       else if is_getdents_direct_syscall (ps_sys_id p) \<and> 0 < sint ret_value then do {
          emit_getdents_exit_event_v2_direct k p ret_value duration; return True }
       else if is_exec_payload_direct_syscall (ps_sys_id p) \<and> ret_value \<noteq> 0 then do {
          emit_exec_exit_event_v2_direct k p ret_value duration; return True }
       else if is_xattr_get_direct_syscall (ps_sys_id p) \<and> 0 < sint ret_value then do {
          emit_xattr_get_exit_event_v2_direct k p ret_value duration; return True }
       else if is_xattr_list_direct_syscall (ps_sys_id p) \<and> 0 < sint ret_value then do {
          emit_xattr_list_exit_event_v2_direct k p ret_value duration; return True }
       else return False } }"

definition emit_generic_exit_control_event :: "kernel \<Rightarrow> pending_syscall \<Rightarrow> s64 \<Rightarrow> u64 \<Rightarrow> bool bpf" where
  "emit_generic_exit_control_event k p ret_value duration =
     (if is_fcntl_direct_syscall (ps_sys_id p) then do {
          emit_fcntl_exit_event_v2_direct k p ret_value duration; return True }
      else if is_ioctl_direct_syscall (ps_sys_id p) then do {
          emit_ioctl_exit_event_v2_direct k p ret_value duration; return True }
      else if is_network_direct_syscall (ps_sys_id p) then do {
          emit_network_exit_event_v2_direct k p ret_value duration; return True }
      else return False)"

definition emit_generic_exit_event :: "kernel \<Rightarrow> pending_syscall \<Rightarrow> s64 \<Rightarrow> u64 \<Rightarrow> unit bpf" where
  "emit_generic_exit_event k p ret_value duration = emit_syscall_exit_event_v2_direct k p ret_value duration 0"

section \<open>Handlers\<close>

definition exit_generic :: "kernel \<Rightarrow> sys_exit_ctx \<Rightarrow> unit bpf" where
  "exit_generic k ctx = EXIT_PROLOGUE k ctx (\<lambda>ret_value tid pid p is_pending_lookup pending_tid duration. do {
     emit_generic_exit_event k p ret_value duration;
     consume_pending_syscall k pid pending_tid p is_pending_lookup })"

definition exit_namespace :: "kernel \<Rightarrow> sys_exit_ctx \<Rightarrow> unit bpf" where
  "exit_namespace k ctx = (let sys_id = (ucast (sxc_id ctx) :: u32) in
     if sys_id \<noteq> SYS_CLONE \<and> sys_id \<noteq> SYS_CLONE3 \<and> sys_id \<noteq> SYS_SETNS \<and> sys_id \<noteq> SYS_UNSHARE then return ()
     else EXIT_PROLOGUE k ctx (\<lambda>ret_value tid pid p is_pending_lookup pending_tid duration. do {
     emit_namespace_exit_event_v2_direct k p ret_value duration;
     consume_pending_syscall k pid pending_tid p is_pending_lookup }))"

definition exit_pid_namespace :: "kernel \<Rightarrow> sys_exit_ctx \<Rightarrow> unit bpf" where
  "exit_pid_namespace k ctx = (let sys_id = (ucast (sxc_id ctx) :: u32) in
     if sys_id \<noteq> SYS_GETPID \<and> sys_id \<noteq> SYS_GETTID \<and> sys_id \<noteq> SYS_FORK \<and> sys_id \<noteq> SYS_VFORK then return ()
     else EXIT_PROLOGUE k ctx (\<lambda>ret_value tid pid p is_pending_lookup pending_tid duration. do {
     emit_pid_namespace_exit_event_v2_direct k p ret_value duration;
     consume_pending_syscall k pid pending_tid p is_pending_lookup }))"

definition is_exit_path_syscall :: "u32 \<Rightarrow> bool" where
  "is_exit_path_syscall sys_id \<longleftrightarrow> is_path_only_direct_syscall sys_id \<or> is_dual_path_direct_syscall sys_id \<or>
     is_open_creat_path_direct_syscall sys_id \<or> is_openat2_direct_syscall sys_id"

definition exit_path :: "kernel \<Rightarrow> sys_exit_ctx \<Rightarrow> unit bpf" where
  "exit_path k ctx =
     (if \<not> is_exit_path_syscall (ucast (sxc_id ctx)) then return ()
      else EXIT_PROLOGUE k ctx (\<lambda>ret_value tid pid p is_pending_lookup pending_tid duration.
     only_if (is_exit_path_syscall (ps_sys_id p)) (do {
       (if is_path_only_direct_syscall (ps_sys_id p) then emit_path_only_exit_event_v2_direct k p ret_value duration
       else if is_dual_path_direct_syscall (ps_sys_id p) then emit_dual_path_exit_event_v2_direct k p ret_value duration
       else if is_openat2_direct_syscall (ps_sys_id p) then emit_openat2_exit_event_v2_direct k p ret_value duration
       else emit_open_creat_fd_state_path_exit_event_v2_direct k p ret_value duration);
       consume_pending_syscall k pid pending_tid p is_pending_lookup })))"

definition exit_iovec_base :: "kernel \<Rightarrow> sys_exit_ctx \<Rightarrow> unit bpf" where
  "exit_iovec_base k ctx =
     (if \<not> is_iovec_base_exit_direct_syscall (ucast (sxc_id ctx)) then return ()
      else EXIT_PROLOGUE k ctx (\<lambda>ret_value tid pid p is_pending_lookup pending_tid duration.
     only_if (is_iovec_base_exit_direct_syscall (ps_sys_id p)) (do {
       (if 0 < sint ret_value then emit_iovec_base_exit_event_v2_direct k p ret_value duration
       else emit_syscall_exit_event_v2_direct k p ret_value duration 0);
       consume_pending_syscall k pid pending_tid p is_pending_lookup })))"

definition exit_msg :: "kernel \<Rightarrow> sys_exit_ctx \<Rightarrow> unit bpf" where
  "exit_msg k ctx =
     (if ucast (sxc_id ctx) \<noteq> SYS_SENDMSG then return ()
      else EXIT_PROLOGUE k ctx (\<lambda>ret_value tid pid p is_pending_lookup pending_tid duration.
     only_if (ps_sys_id p = SYS_SENDMSG) (do {
       emit_single_msg_exit_event_v2_direct k p ret_value duration;
       consume_pending_syscall k pid pending_tid p is_pending_lookup })))"

definition exit_mmsg_final :: "kernel \<Rightarrow> sys_exit_ctx \<Rightarrow> unit bpf" where
  "exit_mmsg_final k ctx =
     (if \<not> is_mmsg_direct_syscall (ucast (sxc_id ctx)) then return ()
      else EXIT_PROLOGUE k ctx (\<lambda>ret_value tid pid p is_pending_lookup pending_tid duration.
     only_if (is_mmsg_direct_syscall (ps_sys_id p)) (do {
       emit_mmsg_exit_event_v2_direct k p ret_value duration;
       consume_pending_syscall k pid pending_tid p is_pending_lookup })))"

definition exit_recvmmsg_base23 :: "kernel \<Rightarrow> prog_arrays \<Rightarrow> sys_exit_ctx \<Rightarrow> unit bpf" where
  "exit_recvmmsg_base23 k pa ctx =
     (if ucast (sxc_id ctx) \<noteq> SYS_RECVMMSG then return ()
      else EXIT_PROLOGUE k ctx (\<lambda>ret_value tid pid p is_pending_lookup pending_tid duration.
     only_if (ps_sys_id p = SYS_RECVMMSG) (do {
       emit_recvmmsg_base2_exit_fragment_event_v2_direct k p ret_value duration;
       emit_recvmmsg_base3_exit_fragment_event_v2_direct k p ret_value duration;
       bpf_tail_call (pa_exit_progs pa EXIT_PROG_MMSG_FINAL) (exit_mmsg_final k ctx) (do {
         emit_mmsg_exit_event_v2_direct k p ret_value duration;
         consume_pending_syscall k pid pending_tid p is_pending_lookup }) })))"

definition exit_recvmmsg_base01 :: "kernel \<Rightarrow> prog_arrays \<Rightarrow> sys_exit_ctx \<Rightarrow> unit bpf" where
  "exit_recvmmsg_base01 k pa ctx =
     (if ucast (sxc_id ctx) \<noteq> SYS_RECVMMSG then return ()
      else EXIT_PROLOGUE k ctx (\<lambda>ret_value tid pid p is_pending_lookup pending_tid duration.
     only_if (ps_sys_id p = SYS_RECVMMSG) (do {
       emit_recvmmsg_base0_exit_fragment_event_v2_direct k p ret_value duration;
       emit_recvmmsg_base1_exit_fragment_event_v2_direct k p ret_value duration;
       bpf_tail_call (pa_exit_progs pa EXIT_PROG_RECVMMSG_BASE23) (exit_recvmmsg_base23 k pa ctx) (do {
         emit_mmsg_exit_event_v2_direct k p ret_value duration;
         consume_pending_syscall k pid pending_tid p is_pending_lookup }) })))"

subsection \<open>Direct families\<close>

definition exit_fd_time :: "kernel \<Rightarrow> sys_exit_ctx \<Rightarrow> unit bpf" where
  "exit_fd_time k ctx = EXIT_PROLOGUE k ctx (\<lambda>ret_value tid pid p is_pending_lookup pending_tid duration. do {
     taken \<leftarrow> emit_generic_exit_fd_time_event k p ret_value duration;
     only_if (\<not> taken) (emit_syscall_exit_event_v2_direct k p ret_value duration 0);
     consume_pending_syscall k pid pending_tid p is_pending_lookup })"

definition exit_struct :: "kernel \<Rightarrow> sys_exit_ctx \<Rightarrow> unit bpf" where
  "exit_struct k ctx = EXIT_PROLOGUE k ctx (\<lambda>ret_value tid pid p is_pending_lookup pending_tid duration. do {
     taken \<leftarrow> emit_generic_exit_struct_event k p ret_value duration;
     only_if (\<not> taken) (emit_syscall_exit_event_v2_direct k p ret_value duration 0);
     consume_pending_syscall k pid pending_tid p is_pending_lookup })"

definition exit_async :: "kernel \<Rightarrow> sys_exit_ctx \<Rightarrow> unit bpf" where
  "exit_async k ctx = EXIT_PROLOGUE k ctx (\<lambda>ret_value tid pid p is_pending_lookup pending_tid duration. do {
     taken \<leftarrow> emit_generic_exit_async_event k p ret_value duration;
     only_if (\<not> taken) (emit_syscall_exit_event_v2_direct k p ret_value duration 0);
     consume_pending_syscall k pid pending_tid p is_pending_lookup })"

text \<open>
  \<^verbatim>\<open>load_nested_fd_path_exit_context\<close>; the fields \<open>tid\<close> and \<open>ret_value\<close> of the fragment are those of the
  program that loads it.
\<close>

record nested_fd_path_exit_fragment_context =
  nfx_pending :: pending_syscall
  nfx_scratch :: fd_path_scratch
  nfx_pid :: u32
  nfx_tid :: u32
  nfx_pending_tid :: u32
  nfx_pending_exec_lookup :: bool
  nfx_nested_fd_count :: u32
  nfx_ret_value :: s64
  nfx_duration :: u64

definition load_nested_fd_path_exit_context ::
    "kernel \<Rightarrow> sys_exit_ctx \<Rightarrow> nested_fd_path_exit_fragment_context option bpf" where
  "load_nested_fd_path_exit_context k ctx = (let sys_id = ucast (sxc_id ctx); tid = cur_tid k; pid = cur_pid k in
     if \<not> is_epoll_wait_direct_syscall sys_id then return None
     else do {
       (found, pending_tid, pending_exec_lookup) \<leftarrow> lookup_pending_syscall_for_exit k pid tid (sxc_ret ctx);
       case found of
         None \<Rightarrow> do { record_unmatched_exit_if_needed k pid tid sys_id (sxc_ret ctx); return None }
       | Some pending \<Rightarrow> do {
           ok \<leftarrow> validate_pending_syscall_exit k pending sys_id pid pending_tid;
           if \<not> ok then return None
           else do {
             scratch \<leftarrow> lookup_fd_path_scratch k;
             case scratch of
               None \<Rightarrow> return None
             | Some x \<Rightarrow>
                 if fps_nested_fd_count x = 0 \<or> fps_nested_fd_count x > FD_PATH_NESTED_MAX then return None
                 else do {
                   duration \<leftarrow> pending_syscall_duration k pending;
                   return (Some \<lparr>nfx_pending = pending, nfx_scratch = x, nfx_pid = pid, nfx_tid = tid,
                     nfx_pending_tid = pending_tid, nfx_pending_exec_lookup = pending_exec_lookup,
                     nfx_nested_fd_count = fps_nested_fd_count x, nfx_ret_value = sxc_ret ctx,
                     nfx_duration = duration\<rparr>) } } } })"

definition finish_nested_fd_path_exit :: "kernel \<Rightarrow> nested_fd_path_exit_fragment_context \<Rightarrow> unit bpf" where
  "finish_nested_fd_path_exit k fragment = do {
     emit_epoll_wait_exit_event_v2_direct k (nfx_pending fragment) (nfx_ret_value fragment) (nfx_duration fragment);
     consume_pending_syscall k (nfx_pid fragment) (nfx_pending_tid fragment) (nfx_pending fragment)
       (nfx_pending_exec_lookup fragment) }"

text \<open>
  The body of the four fragment programs: fragment \<open>i\<close> runs when there are more than \<open>i\<close> candidates,
  hands over to the next one when there are more than \<open>i + 1\<close>, and finishes the exit when there is none or the
  handover fails.
\<close>

definition nested_fd_path_exit ::
    "kernel \<Rightarrow> sys_exit_ctx \<Rightarrow> u32 \<Rightarrow> (fd_path_scratch \<Rightarrow> s32) \<Rightarrow> bool \<Rightarrow> unit bpf \<Rightarrow> unit bpf" where
  "nested_fd_path_exit k ctx i fd loaded next = do {
     loaded_context \<leftarrow> load_nested_fd_path_exit_context k ctx;
     case loaded_context of
       None \<Rightarrow> return ()
     | Some fragment \<Rightarrow>
         only_if (i < nfx_nested_fd_count fragment) (do {
           emit_nested_fd_path_fragment_event_v2_direct k (nfx_pending fragment) (fd (nfx_scratch fragment));
           bpf_tail_call (i + 1 < nfx_nested_fd_count fragment \<and> loaded) next
             (finish_nested_fd_path_exit k fragment) }) }"

definition exit_nested_fd_path3 :: "kernel \<Rightarrow> sys_exit_ctx \<Rightarrow> unit bpf" where
  "exit_nested_fd_path3 k ctx = nested_fd_path_exit k ctx 3 fps_nested_fd3 False (return ())"

definition exit_nested_fd_path2 :: "kernel \<Rightarrow> prog_arrays \<Rightarrow> sys_exit_ctx \<Rightarrow> unit bpf" where
  "exit_nested_fd_path2 k pa ctx = nested_fd_path_exit k ctx 2 fps_nested_fd2
     (pa_exit_progs pa EXIT_PROG_NESTED_FD_PATH3) (exit_nested_fd_path3 k ctx)"

definition exit_nested_fd_path1 :: "kernel \<Rightarrow> prog_arrays \<Rightarrow> sys_exit_ctx \<Rightarrow> unit bpf" where
  "exit_nested_fd_path1 k pa ctx = nested_fd_path_exit k ctx 1 fps_nested_fd1
     (pa_exit_progs pa EXIT_PROG_NESTED_FD_PATH2) (exit_nested_fd_path2 k pa ctx)"

definition exit_nested_fd_path0 :: "kernel \<Rightarrow> prog_arrays \<Rightarrow> sys_exit_ctx \<Rightarrow> unit bpf" where
  "exit_nested_fd_path0 k pa ctx = nested_fd_path_exit k ctx 0 fps_nested_fd0
     (pa_exit_progs pa EXIT_PROG_NESTED_FD_PATH1) (exit_nested_fd_path1 k pa ctx)"

definition exit_io :: "kernel \<Rightarrow> prog_arrays \<Rightarrow> sys_exit_ctx \<Rightarrow> unit bpf" where
  "exit_io k pa ctx = EXIT_PROLOGUE k ctx (\<lambda>ret_value tid pid p is_pending_lookup pending_tid duration.
     if is_epoll_wait_direct_syscall (ps_sys_id p) \<and> 0 < sint ret_value then do {
       nested_fd_count \<leftarrow> collect_epoll_fd_path_candidates_direct k p ret_value;
       bpf_tail_call (0 < nested_fd_count \<and> pa_exit_progs pa EXIT_PROG_NESTED_FD_PATH0) (exit_nested_fd_path0 k pa ctx) (do {
         emit_epoll_wait_exit_event_v2_direct k p ret_value duration;
         consume_pending_syscall k pid pending_tid p is_pending_lookup }) }
     else do {
       taken \<leftarrow> emit_generic_exit_io_event k p ret_value duration;
       only_if (\<not> taken) (emit_syscall_exit_event_v2_direct k p ret_value duration 0);
       consume_pending_syscall k pid pending_tid p is_pending_lookup })"

definition exit_control :: "kernel \<Rightarrow> sys_exit_ctx \<Rightarrow> unit bpf" where
  "exit_control k ctx = EXIT_PROLOGUE k ctx (\<lambda>ret_value tid pid p is_pending_lookup pending_tid duration. do {
     taken \<leftarrow> emit_generic_exit_control_event k p ret_value duration;
     only_if (\<not> taken) (emit_syscall_exit_event_v2_direct k p ret_value duration 0);
     consume_pending_syscall k pid pending_tid p is_pending_lookup })"

definition exit_mount_query :: "kernel \<Rightarrow> sys_exit_ctx \<Rightarrow> unit bpf" where
  "exit_mount_query k ctx = EXIT_PROLOGUE k ctx (\<lambda>ret_value tid pid p is_pending_lookup pending_tid duration.
     only_if (is_mount_query_direct_syscall (ps_sys_id p)) (do {
       (if 0 \<le> sint ret_value then emit_mount_query_exit_event_v2_direct k p ret_value duration
       else emit_syscall_exit_event_v2_direct k p ret_value duration 0);
       consume_pending_syscall k pid pending_tid p is_pending_lookup }))"

definition exit_quota :: "kernel \<Rightarrow> sys_exit_ctx \<Rightarrow> unit bpf" where
  "exit_quota k ctx = EXIT_PROLOGUE k ctx (\<lambda>ret_value tid pid p is_pending_lookup pending_tid duration.
     only_if (is_quota_direct_syscall (ps_sys_id p)) (do {
       let command = quota_direct_pending_command p;
       (if 0 \<le> sint ret_value \<and> quota_direct_has_exit_payload command
       then emit_quota_exit_event_v2_direct k p ret_value duration
       else emit_syscall_exit_event_v2_direct k p ret_value duration 0);
       consume_pending_syscall k pid pending_tid p is_pending_lookup }))"

section \<open>The kretprobe of recvmsg\<close>

text \<open>\<open>pt_regs\<close> is the address of the saved registers; on amd64 the return value is in \<^verbatim>\<open>ax\<close>.\<close>

definition native_kretprobe_return :: "kernel \<Rightarrow> u64 \<Rightarrow> s64 bpf" where
  "native_kretprobe_return k pt_regs = core_read k ''ax'' pt_regs"

definition trace_kretprobe_recvmsg_final :: "kernel \<Rightarrow> u64 \<Rightarrow> unit bpf" where
  "trace_kretprobe_recvmsg_final k pt_regs = do {
     ret_value \<leftarrow> native_kretprobe_return k pt_regs;
     pending \<leftarrow> current_pending_syscall k;
     case pending of
       None \<Rightarrow> return ()
     | Some p \<Rightarrow> only_if (ps_sys_id p = SYS_RECVMSG) (do {
         duration \<leftarrow> pending_syscall_duration k p;
         emit_single_msg_exit_event_v2_direct k p ret_value duration;
         consume_pending_syscall k (cur_pid k) (cur_tid k) p False }) }"

definition trace_kretprobe_recvmsg_control :: "kernel \<Rightarrow> prog_arrays \<Rightarrow> u64 \<Rightarrow> unit bpf" where
  "trace_kretprobe_recvmsg_control k pa pt_regs = do {
     ret_value \<leftarrow> native_kretprobe_return k pt_regs;
     pending \<leftarrow> current_pending_syscall k;
     case pending of
       None \<Rightarrow> return ()
     | Some p \<Rightarrow> only_if (ps_sys_id p = SYS_RECVMSG) (do {
         duration \<leftarrow> pending_syscall_duration k p;
         emit_recvmsg_control_exit_fragment_event_v2_direct k p ret_value duration;
         bpf_tail_call (pa_recvmsg_progs pa RECVMSG_PROG_FINAL) (trace_kretprobe_recvmsg_final k pt_regs) (return ()) }) }"

definition trace_kretprobe_recvmsg_name :: "kernel \<Rightarrow> prog_arrays \<Rightarrow> u64 \<Rightarrow> unit bpf" where
  "trace_kretprobe_recvmsg_name k pa pt_regs = do {
     ret_value \<leftarrow> native_kretprobe_return k pt_regs;
     pending \<leftarrow> current_pending_syscall k;
     case pending of
       None \<Rightarrow> return ()
     | Some p \<Rightarrow> only_if (ps_sys_id p = SYS_RECVMSG) (do {
         duration \<leftarrow> pending_syscall_duration k p;
         emit_recvmsg_name_exit_fragment_event_v2_direct k p ret_value duration;
         bpf_tail_call (pa_recvmsg_progs pa RECVMSG_PROG_CONTROL) (trace_kretprobe_recvmsg_control k pa pt_regs) (return ()) }) }"

definition trace_kretprobe_recvmsg_dispatch :: "kernel \<Rightarrow> prog_arrays \<Rightarrow> u64 \<Rightarrow> unit bpf" where
  "trace_kretprobe_recvmsg_dispatch k pa pt_regs =
     bpf_tail_call (pa_recvmsg_progs pa RECVMSG_PROG_NAME) (trace_kretprobe_recvmsg_name k pa pt_regs) (return ())"

section \<open>The dispatcher\<close>

text \<open>The program in each slot: \<^verbatim>\<open>bpfExitProgramCatalog\<close> of the capture manifest.\<close>

fun exit_program :: "kernel \<Rightarrow> prog_arrays \<Rightarrow> exit_prog_index \<Rightarrow> sys_exit_ctx \<Rightarrow> unit bpf" where
  "exit_program k pa EXIT_PROG_GENERIC = exit_generic k"
| "exit_program k pa EXIT_PROG_IOVEC_BASE = exit_iovec_base k"
| "exit_program k pa EXIT_PROG_MSG = exit_msg k"
| "exit_program k pa EXIT_PROG_MMSG_FINAL = exit_mmsg_final k"
| "exit_program k pa EXIT_PROG_RECVMMSG_BASE01 = exit_recvmmsg_base01 k pa"
| "exit_program k pa EXIT_PROG_RECVMMSG_BASE23 = exit_recvmmsg_base23 k pa"
| "exit_program k pa EXIT_PROG_QUOTA = exit_quota k"
| "exit_program k pa EXIT_PROG_MOUNT_QUERY = exit_mount_query k"
| "exit_program k pa EXIT_PROG_PATH = exit_path k"
| "exit_program k pa EXIT_PROG_FD_TIME = exit_fd_time k"
| "exit_program k pa EXIT_PROG_STRUCT = exit_struct k"
| "exit_program k pa EXIT_PROG_ASYNC = exit_async k"
| "exit_program k pa EXIT_PROG_IO = exit_io k pa"
| "exit_program k pa EXIT_PROG_CONTROL = exit_control k"
| "exit_program k pa EXIT_PROG_NESTED_FD_PATH0 = exit_nested_fd_path0 k pa"
| "exit_program k pa EXIT_PROG_NESTED_FD_PATH1 = exit_nested_fd_path1 k pa"
| "exit_program k pa EXIT_PROG_NESTED_FD_PATH2 = exit_nested_fd_path2 k pa"
| "exit_program k pa EXIT_PROG_NESTED_FD_PATH3 = exit_nested_fd_path3 k"
| "exit_program k pa EXIT_PROG_NAMESPACE = exit_namespace k"
| "exit_program k pa EXIT_PROG_PID_NAMESPACE = exit_pid_namespace k"

text \<open>\<^verbatim>\<open>trace_sys_exit\<close>, in the parts of the enter side.\<close>

definition exit_route :: "kernel \<Rightarrow> prog_arrays \<Rightarrow> sys_exit_ctx \<Rightarrow> unit bpf" where
  "exit_route k pa ctx =
     (case pa_exit_routes pa (ucast (sxc_id ctx)) of
        Some slot \<Rightarrow> exit_program k pa slot ctx
      | None \<Rightarrow> emit_exit_dispatch_fallback k (cur_pid k) (cur_tid k) (ucast (sxc_id ctx)) (sxc_ret ctx))"

definition dispatch_exit :: "kernel \<Rightarrow> (sys_exit_ctx \<Rightarrow> unit bpf) \<Rightarrow> sys_exit_ctx \<Rightarrow> u32 \<Rightarrow> unit bpf" where
  "dispatch_exit k route ctx flags = (let sys_id = ucast (sxc_id ctx) in
     if is_pre_exec_suppressed_syscall (Some flags) sys_id then return ()
     else do {
       clear_pending_fork_flags (cur_tid k) sys_id;
       cfg \<leftarrow> gets config_map;
       selected \<leftarrow> should_trace_syscall sys_id cfg;
       if \<not> selected \<and> \<not> is_fd_state_tracked sys_id cfg then return () else route ctx })"

definition trace_sys_exit :: "kernel \<Rightarrow> prog_arrays \<Rightarrow> sys_exit_ctx \<Rightarrow> unit bpf" where
  "trace_sys_exit k pa ctx =
     (if sint (sxc_id ctx) < 0 then return ()
      else let sys_id = ucast (sxc_id ctx); tid = cur_tid k; pid = cur_pid k in do {
        filter_flags \<leftarrow> lookup_lifecycle_task_filter_flags pid tid;
        case filter_flags of
          None \<Rightarrow> return ()
        | Some flags \<Rightarrow> do {
            rejected \<leftarrow> reject_unsupported_syscall_abi k pid tid sys_id;
            if rejected then return ()
            else if sys_id = SYS_RT_SIGRETURN then return ()
            else dispatch_exit k (exit_route k pa) ctx flags } })"

section \<open>Accounting of the handlers\<close>

lemma accounted_exit_prologue:
  assumes "\<And>ret tid pid p lk ptid dur. accounted k (body ret tid pid p lk ptid dur)"
  shows "accounted k (EXIT_PROLOGUE k ctx body)"
  unfolding EXIT_PROLOGUE_def Let_def
  by (rule assms accounted_rules | rule silent_accounted, rule silent_intros)+

lemma generic_exit_emitters [emitter_intros]:
  "emitter k (emit_generic_exit_fd_time_event k p ret dur)"
  "emitter k (emit_generic_exit_struct_event k p ret dur)"
  "emitter k (emit_generic_exit_async_event k p ret dur)"
  "emitter k (emit_generic_exit_io_event k p ret dur)"
  "emitter k (emit_generic_exit_control_event k p ret dur)"
  "emitter k (emit_generic_exit_event k p ret dur)"
  unfolding emit_generic_exit_fd_time_event_def emit_generic_exit_struct_event_def emit_generic_exit_async_event_def
    emit_generic_exit_io_event_def emit_generic_exit_control_event_def emit_generic_exit_event_def
  by (rule emitter_rules emitter_intros)+

lemma accounted_exit_handlers [accounted_intros]:
  "accounted k (exit_generic k ctx)"
  "accounted k (exit_namespace k ctx)"
  "accounted k (exit_pid_namespace k ctx)"
  "accounted k (exit_path k ctx)"
  "accounted k (exit_iovec_base k ctx)"
  "accounted k (exit_msg k ctx)"
  "accounted k (exit_mmsg_final k ctx)"
  "accounted k (exit_fd_time k ctx)"
  "accounted k (exit_struct k ctx)"
  "accounted k (exit_async k ctx)"
  "accounted k (exit_control k ctx)"
  "accounted k (exit_mount_query k ctx)"
  "accounted k (exit_quota k ctx)"
  unfolding exit_generic_def exit_namespace_def exit_pid_namespace_def exit_path_def exit_iovec_base_def exit_msg_def
    exit_mmsg_final_def exit_fd_time_def exit_struct_def exit_async_def exit_control_def exit_mount_query_def
    exit_quota_def Let_def
  by (rule accounted_exit_prologue accounted_rules | rule emitter_accounted, rule emitter_intros
      | rule silent_accounted, rule silent_intros)+

lemma accounted_recvmmsg23 [accounted_intros]: "accounted k (exit_recvmmsg_base23 k pa ctx)"
  unfolding exit_recvmmsg_base23_def
  by (rule accounted_exit_prologue accounted_rules tail_call_rules(2) accounted_intros
      | rule emitter_accounted, rule emitter_intros | rule silent_accounted, rule silent_intros)+

lemma accounted_recvmmsg01 [accounted_intros]: "accounted k (exit_recvmmsg_base01 k pa ctx)"
  unfolding exit_recvmmsg_base01_def
  by (rule accounted_exit_prologue accounted_rules tail_call_rules(2) accounted_intros
      | rule emitter_accounted, rule emitter_intros | rule silent_accounted, rule silent_intros)+

lemma accounted_finish [accounted_intros]: "accounted k (finish_nested_fd_path_exit k fragment)"
  unfolding finish_nested_fd_path_exit_def
  by (rule accounted_rules | rule emitter_accounted, rule emitter_intros | rule silent_accounted, rule silent_intros)+

lemma accounted_nested_exit:
  assumes "accounted k next"
  shows "accounted k (nested_fd_path_exit k ctx i fd loaded next)"
  unfolding nested_fd_path_exit_def load_nested_fd_path_exit_context_def Let_def
  by (rule assms accounted_rules tail_call_rules(2) accounted_finish | rule emitter_accounted, rule emitter_intros
      | rule silent_accounted, rule silent_intros)+

lemma accounted_nested_chain [accounted_intros]:
  "accounted k (exit_nested_fd_path3 k ctx)"
  "accounted k (exit_nested_fd_path2 k pa ctx)"
  "accounted k (exit_nested_fd_path1 k pa ctx)"
  "accounted k (exit_nested_fd_path0 k pa ctx)"
  unfolding exit_nested_fd_path3_def exit_nested_fd_path2_def exit_nested_fd_path1_def exit_nested_fd_path0_def
  by (intro accounted_nested_exit accounted_return)+

lemma accounted_exit_io [accounted_intros]: "accounted k (exit_io k pa ctx)"
  unfolding exit_io_def
  by (rule accounted_exit_prologue accounted_rules tail_call_rules(2) accounted_nested_chain
      | rule emitter_accounted, rule emitter_intros | rule silent_accounted, rule silent_intros)+

lemma accounted_exit_fallback [accounted_intros]: "accounted k (emit_exit_dispatch_fallback k pid tid sys_id ret)"
  unfolding emit_exit_dispatch_fallback_def
  by (rule accounted_rules | rule emitter_accounted, rule emitter_intros | rule silent_accounted, rule silent_intros)+

lemma silent_kretprobe [silent_intros]: "silent k (native_kretprobe_return k' regs)"
  and reports_kretprobe [reports_intros]: "reports (native_kretprobe_return k' regs)"
  unfolding native_kretprobe_return_def by (rule silent_intros reports_intros)+

lemma accounted_recvmsg_final [accounted_intros]: "accounted k (trace_kretprobe_recvmsg_final k regs)"
  unfolding trace_kretprobe_recvmsg_final_def
  by (rule accounted_rules | rule emitter_accounted, rule emitter_intros | rule silent_accounted, rule silent_intros)+

lemma accounted_recvmsg_control [accounted_intros]: "accounted k (trace_kretprobe_recvmsg_control k pa regs)"
  unfolding trace_kretprobe_recvmsg_control_def
  by (rule accounted_rules accounted_intros tail_call_rules(2) | rule emitter_accounted, rule emitter_intros
      | rule silent_accounted, rule silent_intros)+

lemma accounted_recvmsg_name [accounted_intros]: "accounted k (trace_kretprobe_recvmsg_name k pa regs)"
  unfolding trace_kretprobe_recvmsg_name_def
  by (rule accounted_rules accounted_intros tail_call_rules(2) | rule emitter_accounted, rule emitter_intros
      | rule silent_accounted, rule silent_intros)+

lemma accounted_recvmsg [accounted_intros]: "accounted k (trace_kretprobe_recvmsg_dispatch k pa regs)"
  unfolding trace_kretprobe_recvmsg_dispatch_def by (rule accounted_intros tail_call_rules(2) accounted_return)+

section \<open>Closing a syscall\<close>

text \<open>\<open>shuts k P m\<close>: started in a state with \<open>P\<close>, the program leaves no syscall in flight.\<close>

definition shuts :: "kernel \<Rightarrow> (machine \<Rightarrow> bool) \<Rightarrow> 'a bpf \<Rightarrow> bool" where
  "shuts k P m \<longleftrightarrow> (\<forall>s. P s \<longrightarrow> in_flight k (exec m s) = None)"

abbreviation closes_syscall :: "kernel \<Rightarrow> 'a bpf \<Rightarrow> bool" where
  "closes_syscall k m \<equiv> shuts k (\<lambda>_. True) m"

lemma reports_in_flight: "reports m \<Longrightarrow> in_flight k (exec m s) = in_flight k s"
  using reports_holds unfolding holds_def by (rule same_exec)

lemma shuts_consume: "shuts k P (consume_pending_syscall k pid ptid p lk)"
  by (simp add: shuts_def consume_pending_syscall_def run_bind_parts delete_pending_exec_def delete_main_exited_def
      only_if_def clear_pending_in_flight in_flight_update del: run_state_bind)

lemma consume_in_flight: "in_flight k (exec (consume_pending_syscall k pid ptid p lk) s) = None"
  using shuts_consume [of k "\<lambda>_. True"] by (simp add: shuts_def)

lemma shuts_last: "(\<And>x. closes_syscall k (g x)) \<Longrightarrow> shuts k P (State_Monad.bind m g)"
  by (simp add: shuts_def run_bind_parts del: run_state_bind)

lemma shuts_if: "(b \<Longrightarrow> shuts k P m) \<Longrightarrow> (\<not> b \<Longrightarrow> shuts k P n) \<Longrightarrow> shuts k P (if b then m else n)"
  by simp

lemma shuts_only_if: "b \<Longrightarrow> shuts k P m \<Longrightarrow> shuts k P (only_if b m)"
  by (simp add: only_if_def)

lemma shuts_tail_call: "shuts k P m \<Longrightarrow> shuts k P n \<Longrightarrow> shuts k P (bpf_tail_call b m n)"
  by (simp add: bpf_tail_call_def)

lemma validate_cases:
  "(ps_sys_id p = sys_id \<and> ps_tid p = ptid \<and> result (validate_pending_syscall_exit k p sys_id pid ptid) s \<and>
     exec (validate_pending_syscall_exit k p sys_id pid ptid) s = s) \<or>
   (\<not> result (validate_pending_syscall_exit k p sys_id pid ptid) s \<and>
     in_flight k (exec (validate_pending_syscall_exit k p sys_id pid ptid) s) = None)"
  by (simp add: validate_pending_syscall_exit_def run_bind_parts delete_pending_exec_def clear_pending_in_flight
      in_flight_update del: run_state_bind)

lemma lookup_for_exit_state: "exec (lookup_pending_syscall_for_exit k pid tid ret) s = s"
  using wp_lookup_for_exit [of k pid tid ret "\<lambda>_ t. t = s" s] by (auto simp: wp_def split: option.splits)

lemma lookup_for_exit_none:
  "fst (result (lookup_pending_syscall_for_exit k pid tid ret) s) = in_flight k s"
  using wp_lookup_for_exit [of k pid tid ret "\<lambda>r _. fst r = in_flight k s" s] by (auto simp: wp_def split: option.splits)

text \<open>
  The common opening of the exits: without a pending entry, or with one of another syscall, nothing is left in
  flight; otherwise the state is as it was.
\<close>

lemma shuts_exit_opening:
  assumes "\<And>p ptid lk s. P s \<Longrightarrow> in_flight k s = Some p \<Longrightarrow> ps_sys_id p = sys_id \<Longrightarrow> in_flight k (exec (body p ptid lk) s) = None"
    and "\<And>s. in_flight k s = None \<Longrightarrow> in_flight k (exec none s) = None"
    and "\<And>s. in_flight k s = None \<Longrightarrow> in_flight k (exec bad s) = None"
  shows "shuts k P (do {
     (pending, ptid, lk) \<leftarrow> lookup_pending_syscall_for_exit k pid tid ret;
     case pending of
       None \<Rightarrow> none
     | Some p \<Rightarrow> do {
         ok \<leftarrow> validate_pending_syscall_exit k p sys_id pid ptid;
         if \<not> ok then bad else body p ptid lk } })"
  unfolding shuts_def
proof (intro allI impI)
  fix s assume P: "P s"
  obtain pending ptid lk where r: "result (lookup_pending_syscall_for_exit k pid tid ret) s = (pending, ptid, lk)"
    by (metis prod_cases3)
  have i: "in_flight k s = pending" using lookup_for_exit_none [of k pid tid ret s] r by simp
  show "in_flight k (exec (do {
     (pending, ptid, lk) \<leftarrow> lookup_pending_syscall_for_exit k pid tid ret;
     case pending of
       None \<Rightarrow> none
     | Some p \<Rightarrow> do {
         ok \<leftarrow> validate_pending_syscall_exit k p sys_id pid ptid;
         if \<not> ok then bad else body p ptid lk } }) s) = None"
  proof (cases pending)
    case None
    then show ?thesis using i assms(2) [of s] by (simp add: run_bind_parts lookup_for_exit_state r del: run_state_bind)
  next
    case (Some p)
    then show ?thesis
      using validate_cases [of p sys_id ptid k pid s] assms(1) [OF P, of p ptid lk] assms(3) i
      by (auto simp: run_bind_parts lookup_for_exit_state r simp del: run_state_bind)
  qed
qed

lemma shuts_prologue:
  assumes "\<And>ret tid pid (p :: pending_syscall) lk ptid dur. ps_sys_id p = ucast (sxc_id ctx) \<Longrightarrow> closes_syscall k (body ret tid pid p lk ptid dur)"
  shows "closes_syscall k (EXIT_PROLOGUE k ctx body)"
  unfolding EXIT_PROLOGUE_def Let_def
proof (rule shuts_exit_opening)
  fix p :: pending_syscall and ptid lk s assume "ps_sys_id p = ucast (sxc_id ctx)"
  then show "in_flight k (exec (do { dur \<leftarrow> pending_syscall_duration k p;
      body (sxc_ret ctx) (cur_tid k) (cur_pid k) p lk ptid dur }) s) = None"
    using assms by (simp add: shuts_def run_bind_parts del: run_state_bind)
qed (simp_all add: reports_in_flight reports_pending)

lemma shuts_exit_fallback: "closes_syscall k (emit_exit_dispatch_fallback k pid tid sys_id ret)"
  unfolding emit_exit_dispatch_fallback_def
  by (rule shuts_exit_opening)
     (simp_all add: reports_in_flight reports_pending run_bind_parts consume_in_flight
       del: run_state_bind)

lemma shuts_unguarded:
  "closes_syscall k (exit_generic k ctx)"
  "closes_syscall k (exit_fd_time k ctx)"
  "closes_syscall k (exit_struct k ctx)"
  "closes_syscall k (exit_async k ctx)"
  "closes_syscall k (exit_control k ctx)"
  unfolding exit_generic_def exit_fd_time_def exit_struct_def exit_async_def exit_control_def
  by (rule shuts_prologue shuts_last shuts_consume)+

lemma shuts_guarded:
  "ucast (sxc_id ctx) \<in> {SYS_CLONE, SYS_CLONE3, SYS_SETNS, SYS_UNSHARE} \<Longrightarrow> closes_syscall k (exit_namespace k ctx)"
  "ucast (sxc_id ctx) \<in> {SYS_GETPID, SYS_GETTID, SYS_FORK, SYS_VFORK} \<Longrightarrow> closes_syscall k (exit_pid_namespace k ctx)"
  "is_exit_path_syscall (ucast (sxc_id ctx)) \<Longrightarrow> closes_syscall k (exit_path k ctx)"
  "is_iovec_base_exit_direct_syscall (ucast (sxc_id ctx)) \<Longrightarrow> closes_syscall k (exit_iovec_base k ctx)"
  "ucast (sxc_id ctx) = SYS_SENDMSG \<Longrightarrow> closes_syscall k (exit_msg k ctx)"
  "is_mmsg_direct_syscall (ucast (sxc_id ctx)) \<Longrightarrow> closes_syscall k (exit_mmsg_final k ctx)"
  "is_mount_query_direct_syscall (ucast (sxc_id ctx)) \<Longrightarrow> closes_syscall k (exit_mount_query k ctx)"
  "is_quota_direct_syscall (ucast (sxc_id ctx)) \<Longrightarrow> closes_syscall k (exit_quota k ctx)"
  unfolding exit_namespace_def exit_pid_namespace_def exit_path_def exit_iovec_base_def exit_msg_def exit_mmsg_final_def
    exit_mount_query_def exit_quota_def Let_def
  by (auto intro!: shuts_prologue shuts_only_if shuts_last shuts_consume)

lemma recvmmsg_final: "ucast (sxc_id ctx) = SYS_RECVMMSG \<Longrightarrow> closes_syscall k (exit_mmsg_final k ctx)"
  by (rule shuts_guarded) (simp add: is_mmsg_direct_syscall_def)

lemma shuts_recvmmsg23: "ucast (sxc_id ctx) = SYS_RECVMMSG \<Longrightarrow> closes_syscall k (exit_recvmmsg_base23 k pa ctx)"
  unfolding exit_recvmmsg_base23_def
  by (auto intro!: shuts_prologue shuts_only_if shuts_last shuts_tail_call recvmmsg_final shuts_consume)

lemma shuts_recvmmsg01: "ucast (sxc_id ctx) = SYS_RECVMMSG \<Longrightarrow> closes_syscall k (exit_recvmmsg_base01 k pa ctx)"
  unfolding exit_recvmmsg_base01_def
  by (auto intro!: shuts_prologue shuts_only_if shuts_last shuts_tail_call shuts_recvmmsg23 shuts_consume)

subsection \<open>The nested chain\<close>

definition has_candidates :: "kernel \<Rightarrow> u32 \<Rightarrow> machine \<Rightarrow> bool" where
  "has_candidates k i s \<longleftrightarrow> (\<exists>n a b c d. candidates k s = Some (n, a, b, c, d) \<and> i < n \<and> n \<le> 4)"

lemma has_candidates_eq:
  "has_candidates k i s \<longleftrightarrow> (\<exists>x. fd_path_scratch_map s (k_cpu k) = Some x \<and> i < fps_nested_fd_count x \<and> fps_nested_fd_count x \<le> 4)"
  by (auto simp: has_candidates_def candidates_def)

lemma duration_scratch: "fd_path_scratch_map (exec (pending_syscall_duration k p) s) = fd_path_scratch_map s"
  by (simp add: pending_syscall_duration_def run_bind_parts bpf_ktime_get_ns_def next_tick_def del: run_state_bind)

lemma finish_shuts: "in_flight k (exec (finish_nested_fd_path_exit k fragment) s) = None"
  by (simp add: finish_nested_fd_path_exit_def run_bind_parts consume_in_flight del: run_state_bind)

text \<open>Loading the fragment either finds nothing to close or yields the candidates of the scratch area.\<close>

lemma load_nested_exit_cases:
  assumes "is_epoll_wait_direct_syscall (ucast (sxc_id ctx))" "has_candidates k i s"
  defines "r \<equiv> result (load_nested_fd_path_exit_context k ctx) s" and "t \<equiv> exec (load_nested_fd_path_exit_context k ctx) s"
  shows "(r = None \<and> in_flight k t = None) \<or>
    (\<exists>fragment. r = Some fragment \<and> i < nfx_nested_fd_count fragment \<and>
      (\<forall>j. j < nfx_nested_fd_count fragment \<longrightarrow> has_candidates k j t))"
proof -
  obtain pending ptid lk where l: "result (lookup_pending_syscall_for_exit k (cur_pid k) (cur_tid k) (sxc_ret ctx)) s =
      (pending, ptid, lk)" by (metis prod_cases3)
  have fl: "in_flight k s = pending" using lookup_for_exit_none [of k "cur_pid k" "cur_tid k" "sxc_ret ctx" s] l by simp
  obtain x where x: "fd_path_scratch_map s (k_cpu k) = Some x" "i < fps_nested_fd_count x" "fps_nested_fd_count x \<le> 4"
    using assms(2) by (auto simp: has_candidates_eq)
  have n0: "fps_nested_fd_count x \<noteq> 0" "\<not> 4 < fps_nested_fd_count x" using x(2,3) by auto
  show ?thesis
  proof (cases pending)
    case None
    then show ?thesis
      using fl assms(1) by (simp add: r_def t_def load_nested_fd_path_exit_context_def run_bind_parts lookup_for_exit_state l
        reports_in_flight reports_pending Let_def del: run_state_bind)
  next
    case (Some p)
    show ?thesis
      using validate_cases [of p "ucast (sxc_id ctx)" ptid k "cur_pid k" s] assms(1) Some x n0
      by (auto simp: r_def t_def load_nested_fd_path_exit_context_def run_bind_parts lookup_for_exit_state l Let_def
        lookup_fd_path_scratch_def has_candidates_eq duration_scratch simp del: run_state_bind)
  qed
qed

lemma shuts_nested_exit:
  assumes "is_epoll_wait_direct_syscall (ucast (sxc_id ctx))" "loaded \<Longrightarrow> shuts k (has_candidates k (i + 1)) next"
  shows "shuts k (has_candidates k i) (nested_fd_path_exit k ctx i fd loaded next)"
  unfolding shuts_def
proof (intro allI impI)
  fix s assume s: "has_candidates k i s"
  let ?load = "load_nested_fd_path_exit_context k ctx"
  consider "result ?load s = None" "in_flight k (exec ?load s) = None"
    | fragment where "result ?load s = Some fragment" "i < nfx_nested_fd_count fragment"
        "\<forall>j. j < nfx_nested_fd_count fragment \<longrightarrow> has_candidates k j (exec ?load s)"
    using load_nested_exit_cases [OF assms(1) s] by (elim disjE exE conjE)
  then show "in_flight k (exec (nested_fd_path_exit k ctx i fd loaded next) s) = None"
  proof cases
    case 1
    then show ?thesis by (simp add: nested_fd_path_exit_def run_bind_parts del: run_state_bind)
  next
    case (2 fragment)
    let ?t = "exec (emit_nested_fd_path_fragment_event_v2_direct k (nfx_pending fragment) (fd (nfx_scratch fragment))) (exec ?load s)"
    have "has_candidates k (i + 1) ?t" if "i + 1 < nfx_nested_fd_count fragment"
      using 2(3) that by (simp add: has_candidates_def fragment_candidates)
    then show ?thesis
      using 2(1,2) assms(2) by (auto simp: nested_fd_path_exit_def run_bind_parts finish_shuts bpf_tail_call_def only_if_def
          shuts_def simp del: run_state_bind)
  qed
qed

lemma shuts_nested_chain:
  assumes "is_epoll_wait_direct_syscall (ucast (sxc_id ctx))"
  shows "shuts k (has_candidates k 0) (exit_nested_fd_path0 k pa ctx)"
    "shuts k (has_candidates k 1) (exit_nested_fd_path1 k pa ctx)"
    "shuts k (has_candidates k 2) (exit_nested_fd_path2 k pa ctx)"
    "shuts k (has_candidates k 3) (exit_nested_fd_path3 k ctx)"
proof -
  show c3: "shuts k (has_candidates k 3) (exit_nested_fd_path3 k ctx)"
    unfolding exit_nested_fd_path3_def by (rule shuts_nested_exit [OF assms]) simp
  show c2: "shuts k (has_candidates k 2) (exit_nested_fd_path2 k pa ctx)"
    unfolding exit_nested_fd_path2_def by (rule shuts_nested_exit [OF assms]) (simp add: c3)
  show c1: "shuts k (has_candidates k 1) (exit_nested_fd_path1 k pa ctx)"
    unfolding exit_nested_fd_path1_def by (rule shuts_nested_exit [OF assms]) (simp add: c2)
  show "shuts k (has_candidates k 0) (exit_nested_fd_path0 k pa ctx)"
    unfolding exit_nested_fd_path0_def by (rule shuts_nested_exit [OF assms]) (simp add: c1)
qed

lemma shuts_io: "closes_syscall k (exit_io k pa ctx)"
  unfolding exit_io_def
proof (rule shuts_prologue)
  fix ret tid pid lk ptid dur and p :: pending_syscall
  assume id: "ps_sys_id p = ucast (sxc_id ctx)"
  let ?close = "do { emit_epoll_wait_exit_event_v2_direct k p ret dur; consume_pending_syscall k pid ptid p lk }"
  have "in_flight k (exec (do {
       n \<leftarrow> collect_epoll_fd_path_candidates_direct k p ret;
       bpf_tail_call (0 < n \<and> pa_exit_progs pa EXIT_PROG_NESTED_FD_PATH0) (exit_nested_fd_path0 k pa ctx) ?close }) s) = None"
    if e: "is_epoll_wait_direct_syscall (ps_sys_id p)" for s
    using collect_epoll_candidates [of k p ret s] shuts_nested_chain(1) [of ctx k pa] e id
    by (auto simp: run_bind_parts bpf_tail_call_def consume_in_flight shuts_def has_candidates_def simp del: run_state_bind)
  then show "closes_syscall k (if is_epoll_wait_direct_syscall (ps_sys_id p) \<and> 0 < sint ret then do {
       n \<leftarrow> collect_epoll_fd_path_candidates_direct k p ret;
       bpf_tail_call (0 < n \<and> pa_exit_progs pa EXIT_PROG_NESTED_FD_PATH0) (exit_nested_fd_path0 k pa ctx) ?close }
     else do {
       taken \<leftarrow> emit_generic_exit_io_event k p ret dur;
       only_if (\<not> taken) (emit_syscall_exit_event_v2_direct k p ret dur 0);
       consume_pending_syscall k pid ptid p lk })"
    by (auto simp: shuts_def run_bind_parts consume_in_flight simp del: run_state_bind)
qed

section \<open>The contract of the exit handlers\<close>

text \<open>The syscalls whose exit the handler in a slot closes; chained fragments close nothing on their own.\<close>

fun exit_serves :: "exit_prog_index \<Rightarrow> u32 \<Rightarrow> bool" where
  "exit_serves EXIT_PROG_IOVEC_BASE sys_id = is_iovec_base_exit_direct_syscall sys_id"
| "exit_serves EXIT_PROG_MSG sys_id = (sys_id = SYS_SENDMSG)"
| "exit_serves EXIT_PROG_MMSG_FINAL sys_id = is_mmsg_direct_syscall sys_id"
| "exit_serves EXIT_PROG_RECVMMSG_BASE01 sys_id = (sys_id = SYS_RECVMMSG)"
| "exit_serves EXIT_PROG_RECVMMSG_BASE23 sys_id = (sys_id = SYS_RECVMMSG)"
| "exit_serves EXIT_PROG_QUOTA sys_id = is_quota_direct_syscall sys_id"
| "exit_serves EXIT_PROG_MOUNT_QUERY sys_id = is_mount_query_direct_syscall sys_id"
| "exit_serves EXIT_PROG_PATH sys_id = is_exit_path_syscall sys_id"
| "exit_serves EXIT_PROG_NAMESPACE sys_id = (sys_id \<in> {SYS_CLONE, SYS_CLONE3, SYS_SETNS, SYS_UNSHARE})"
| "exit_serves EXIT_PROG_PID_NAMESPACE sys_id = (sys_id \<in> {SYS_GETPID, SYS_GETTID, SYS_FORK, SYS_VFORK})"
| "exit_serves slot sys_id = (slot \<notin> {EXIT_PROG_NESTED_FD_PATH0, EXIT_PROG_NESTED_FD_PATH1, EXIT_PROG_NESTED_FD_PATH2,
     EXIT_PROG_NESTED_FD_PATH3})"

locale exit_contract =
  fixes k :: kernel
    and run :: "sys_exit_ctx \<Rightarrow> unit bpf"
    and serves :: "u32 \<Rightarrow> bool"
  assumes exit_books: "accounted k (run ctx)"
    and exit_closes: "serves (ucast (sxc_id ctx)) \<Longrightarrow> closes_syscall k (run ctx)"
begin

lemma dispatch_exit_books: "accounted k (dispatch_exit k run ctx flags)"
  unfolding dispatch_exit_def Let_def
  by (rule exit_books accounted_rules | rule silent_accounted, rule silent_intros)+

lemma dispatch_closes:
  assumes "serves (ucast (sxc_id ctx))" "selects s (ucast (sxc_id ctx))"
    and "\<not> is_pre_exec_suppressed_syscall (Some flags) (ucast (sxc_id ctx))"
  shows "in_flight k (exec (dispatch_exit k run ctx flags) s) = None"
proof -
  let ?id = "ucast (sxc_id ctx) :: u32"
  define t where "t = exec (clear_pending_fork_flags (cur_tid k) ?id) s"
  have g: "gate_view t = gate_view s" unfolding t_def by (rule same_exec [OF gate_frames(3)])
  have "selects t ?id" using assms(2) selects_gate [OF g] by simp
  then have "result (should_trace_syscall ?id (config_map t)) t \<or> is_fd_state_tracked ?id (config_map t)"
    by (simp add: selects_def)
  moreover have "in_flight k (exec (run ctx) t) = None" using exit_closes [OF assms(1)] by (simp add: shuts_def)
  ultimately show ?thesis
    using assms(3) by (auto simp: dispatch_exit_def Let_def run_bind_parts t_def [symmetric] simp del: run_state_bind)
qed

end

lemmas shuts_handlers = shuts_unguarded shuts_guarded shuts_recvmmsg01 shuts_recvmmsg23 shuts_io

interpretation exit_slot: exit_contract k "exit_program k pa slot" "exit_serves slot"
proof
  fix ctx
  show "accounted k (exit_program k pa slot ctx)" by (cases slot) (simp_all add: accounted_intros)
  show "closes_syscall k (exit_program k pa slot ctx)" if "exit_serves slot (ucast (sxc_id ctx))"
    using that by (cases slot) (simp_all add: shuts_handlers)
qed

definition exit_route_serves :: "prog_arrays \<Rightarrow> u32 \<Rightarrow> bool" where
  "exit_route_serves pa sys_id = (case pa_exit_routes pa sys_id of None \<Rightarrow> True | Some slot \<Rightarrow> exit_serves slot sys_id)"

interpretation exits: exit_contract k "exit_route k pa" "exit_route_serves pa"
  by unfold_locales
    (auto simp: exit_route_def exit_route_serves_def exit_slot.exit_books exit_slot.exit_closes accounted_exit_fallback
      shuts_exit_fallback split: option.split option.split_asm)

lemma accounted_sys_exit [accounted_intros]: "accounted k (trace_sys_exit k pa ctx)"
  unfolding trace_sys_exit_def Let_def
  by (rule exits.dispatch_exit_books accounted_rules accounted_intros | rule silent_accounted, rule silent_intros)+

text \<open>A traced task reaches the dispatcher with the state it started in, but for the helper calls counted.\<close>

lemma sys_exit_reaches:
  assumes "traced k s (ucast (sxc_id ctx)) flags" "0 \<le> sint (sxc_id ctx)"
  obtains t where "exec (trace_sys_exit k pa ctx) s = exec (dispatch_exit k (exit_route k pa) ctx flags) t"
    "control t = control s" "events t = events s"
proof
  let ?id = "ucast (sxc_id ctx) :: u32"
  let ?t = "exec (reject_unsupported_syscall_abi k (cur_pid k) (cur_tid k) ?id) s"
  have a: "\<forall>t. result (current_syscall_has_native_abi k ?id) t" using assms(1) by (simp add: traced_def)
  show "control ?t = control s" by (rule native_reject(2) [OF a])
  show "events ?t = events s" by (rule native_reject(3) [OF a])
  show "exec (trace_sys_exit k pa ctx) s = exec (dispatch_exit k (exit_route k pa) ctx flags) ?t"
    using assms native_reject(1) [OF a]
    by (simp add: trace_sys_exit_def Let_def run_bind_parts traced_def del: run_state_bind)
qed

lemma control_gate: "control t = control s \<Longrightarrow> gate_view t = gate_view s"
  by (auto simp: gate_view_def dest: control_fields)

lemma exit_closes_routed:
  assumes "traced k s (ucast (sxc_id ctx)) flags" "0 \<le> sint (sxc_id ctx)" "exit_route_serves pa (ucast (sxc_id ctx))"
  shows "in_flight k (exec (trace_sys_exit k pa ctx) s) = None"
proof -
  obtain t where t: "exec (trace_sys_exit k pa ctx) s = exec (dispatch_exit k (exit_route k pa) ctx flags) t"
    "control t = control s" using sys_exit_reaches [OF assms(1,2)] .
  have "selects t (ucast (sxc_id ctx))"
    using selects_gate [OF control_gate [OF t(2)]] assms(1) by (simp add: traced_def)
  then show ?thesis
    unfolding t(1) using assms by (intro exits.dispatch_closes) (simp_all add: traced_def)
qed

section \<open>Routes and handlers fit\<close>

definition exit_plan_ok :: "exit_prog_index \<Rightarrow> u32 \<Rightarrow> bool" where
  "exit_plan_ok slot sys_id \<longleftrightarrow> exit_serves slot sys_id \<or> sys_id = SYS_RECVMSG"

lemma exit_capabilities_ok:
  "list_all (\<lambda>(sys_id, _, x). case x of None \<Rightarrow> True | Some slot \<Rightarrow> exit_plan_ok slot sys_id) bpfRouteCapabilities"
  unfolding bpfRouteCapabilities_def list_all_append
  by (intro conjI; simp add: bpfRouteCapabilities_a_f_def bpfRouteCapabilities_g_p_def bpfRouteCapabilities_q_w_def
      exit_plan_ok_def is_quota_direct_syscall_def is_mount_query_direct_syscall_def is_exit_path_syscall_def
      is_path_only_direct_syscall_def is_path_only_arg0_direct_syscall_def is_path_only_arg1_direct_syscall_def
      is_dual_path_direct_syscall_def is_dual_path_0_1_direct_syscall_def is_dual_path_0_2_direct_syscall_def
      is_dual_path_1_3_direct_syscall_def is_open_creat_path_direct_syscall_def is_openat2_direct_syscall_def
      is_iovec_base_exit_direct_syscall_def is_mmsg_direct_syscall_def)

lemma plan_exit_ok: "exit_plan_ok (plan_exit sys_id) sys_id"
  by (rule plan_exit_all [OF exit_capabilities_ok]) (simp add: exit_plan_ok_def)

lemma select_exit_ok: "select_exit config table sys_id = Some slot \<Longrightarrow> exit_plan_ok slot sys_id"
  using plan_exit_ok [of sys_id] by (auto simp: select_exit_def exit_plan_ok_def split: if_splits)

section \<open>Properties\<close>

text \<open>
  C7: A traced exit leaves nothing in flight.  With the routes the loader installs, whatever the task's pending entry
  held before, after the exit of any traced syscall other than recvmsg the task has no syscall in flight, also when
  program-array slots of the fragment chains are empty.
\<close>

theorem sys_exit_closes:
  assumes "traced k s (ucast (sxc_id ctx)) flags" "0 \<le> sint (sxc_id ctx)" "ucast (sxc_id ctx) \<noteq> SYS_RECVMSG"
    and "pa_exit_routes pa = select_exit config table"
  shows "in_flight k (exec (trace_sys_exit k pa ctx) s) = None"
  using assms select_exit_ok [of config table]
  by (intro exit_closes_routed [OF assms(1,2)]) (auto simp: exit_route_serves_def exit_plan_ok_def split: option.split)

theorem sys_exit_closes_witness:
  "in_flight (sample_kernel 7 7) (exec (trace_sys_exit (sample_kernel 7 7) (sample_arrays sample_config)
     \<lparr>sxc_id = 3, sxc_ret = 0\<rparr>) sample_machine) = None"
  using sys_exit_closes [of "sample_kernel 7 7" sample_machine "\<lparr>sxc_id = 3, sxc_ret = 0\<rparr>" FILTER_TASK_TRACKED
      "sample_arrays sample_config" sample_config "\<lambda>n. n < 512"] sample_traced
  by (simp add: sample_arrays_def)

text \<open>An exit that finds the entry its own enter saved runs its body on that entry.\<close>

lemma matched_exit:
  assumes "in_flight k s = Some p" "ps_sys_id p = ucast (sxc_id ctx)" "ps_tid p = cur_tid k"
  shows "exec (EXIT_PROLOGUE k ctx body) s =
     exec (do { dur \<leftarrow> pending_syscall_duration k p;
       body (sxc_ret ctx) (cur_tid k) (cur_pid k) p False (cur_tid k) dur }) s"
proof -
  have "result (lookup_pending_syscall_for_exit k (cur_pid k) (cur_tid k) (sxc_ret ctx)) s = (Some p, cur_tid k, False)"
    using wp_lookup_for_exit [of k "cur_pid k" "cur_tid k" "sxc_ret ctx"
        "\<lambda>r _. r = (Some p, cur_tid k, False)" s] assms by (simp add: wp_def)
  then show ?thesis
    using assms by (simp add: EXIT_PROLOGUE_def Let_def run_bind_parts lookup_for_exit_state
        validate_pending_syscall_exit_def del: run_state_bind)
qed

text \<open>A failed tail call of the dispatcher does what the generic handler does.\<close>

lemma fallback_is_generic:
  "exec (emit_exit_dispatch_fallback k (cur_pid k) (cur_tid k) (ucast (sxc_id ctx)) (sxc_ret ctx)) s =
     exec (exit_generic k ctx) s"
  by (simp add: emit_exit_dispatch_fallback_def exit_generic_def EXIT_PROLOGUE_def Let_def emit_generic_exit_event_def)

lemma consume_events: "events (exec (consume_pending_syscall k pid ptid p lk) s) = events s"
  by (simp add: consume_pending_syscall_def run_bind_parts delete_pending_exec_def delete_main_exited_def only_if_def
      clear_pending_frame_exec del: run_state_bind)

lemma duration_events: "events (exec (pending_syscall_duration k p) s) = events s"
  by (simp add: pending_syscall_duration_def run_bind_parts bpf_ktime_get_ns_def next_tick_def del: run_state_bind)

text \<open>What a consumer reads from the plain exit record of the pending syscall \<open>p\<close>.\<close>

definition exit_record_of :: "pending_syscall \<Rightarrow> s64 \<Rightarrow> bytes \<Rightarrow> bool" where
  "exit_record_of p ret r \<longleftrightarrow> (\<exists>env. decodeTraceEventV2Envelope r = Some env \<and> env_event_type env = EVENT_TYPE_EXIT \<and>
     env_pid env = ps_pid p \<and> env_tid env = ps_tid p \<and> env_sys_id env = ps_sys_id p \<and> env_args env = ps_args p \<and>
     env_ret env = ret)"

lemma generic_exit_record:
  assumes "in_flight k s = Some p" "ps_sys_id p = ucast (sxc_id ctx)" "ps_tid p = cur_tid k" "\<And>t. k_reserve k t 168"
  shows "\<exists>r. events (exec (exit_generic k ctx) s) = events s @ [r] \<and> exit_record_of p (sxc_ret ctx) r"
proof -
  let ?dur = "result (pending_syscall_duration k p) s" and ?t = "exec (pending_syscall_duration k p) s"
  obtain r h b where r: "events (exec (emit_syscall_exit_event_v2_direct k p (sxc_ret ctx) ?dur 0) ?t) = events ?t @ [r]"
    "header_spec EVENT_TYPE_EXIT 0 (ps_pid p) (ps_tid p) (ps_sys_id p) 168 (ps_enter_time p + ?dur) (next_seq k ?t) h"
    "exit_body_spec p (sxc_ret ctx) ?dur 0 b" "decodeTraceEventV2Envelope r = Some (exit_view h b [])"
    using syscall_exit_content [OF assms(4), where s = ?t and p = p and ret = "sxc_ret ctx" and dur = ?dur and fl = 0] by blast
  then have "exit_record_of p (sxc_ret ctx) r"
    by (simp add: exit_record_of_def header_spec_def exit_body_spec_def exit_view_def)
  then show ?thesis
    using r(1) by (simp add: exit_generic_def emit_generic_exit_event_def matched_exit [OF assms(1-3)] run_bind_parts
        consume_events duration_events del: run_state_bind)
qed

text \<open>
  C5: A traced call is reported with the arguments of its enter.  The thread enters a syscall whose exit the generic
  handler (or, with no route installed, the fallback) reports; other tasks may run in between; when the same thread returns and the ring buffer has
  room, exactly one record is appended, from which the consumer reads the process, the thread, the syscall number and the
  six arguments of the enter together with the return value, and the call is no longer in flight.
\<close>

theorem sys_call_roundtrip:
  assumes enter: "traced k s (ucast (sec_id ctx)) flags" "ready k s" "\<not> is_terminating_direct_syscall (ucast (sec_id ctx))"
      "pa_enter_routes pa = select_enter config table"
    and thread: "k_task k' = k_task k" "cur_pid k' = cur_pid k" "cur_tid k' = cur_tid k"
    and between: "in_flight k' u = in_flight k (exec (trace_sys_enter k pa ctx) s)"
    and exit: "traced k' u (ucast (sxc_id x)) flags'" "ucast (sxc_id x) = (ucast (sec_id ctx) :: u32)" "0 \<le> sint (sxc_id x)"
      "pa_exit_routes pa (ucast (sxc_id x)) \<in> {None, Some EXIT_PROG_GENERIC}" "\<And>t. k_reserve k' t 168"
  shows "\<exists>r env. events (exec (trace_sys_exit k' pa x) u) = events u @ [r] \<and>
     decodeTraceEventV2Envelope r = Some env \<and> env_event_type env = EVENT_TYPE_EXIT \<and>
     env_pid env = cur_pid k \<and> env_tid env = cur_tid k \<and> env_sys_id env = ucast (sec_id ctx) \<and>
     env_args env = sec_args ctx \<and> env_ret env = sxc_ret x \<and>
     in_flight k' (exec (trace_sys_exit k' pa x) u) = None"
proof -
  obtain p where p: "in_flight k' u = Some p" "pending_of k ctx p"
    using enter_opens_planned [OF enter] between by auto
  obtain v where v: "exec (trace_sys_exit k' pa x) u = exec (dispatch_exit k' (exit_route k' pa) x flags') v"
    "control v = control u" "events v = events u" using sys_exit_reaches [OF exit(1,3)] .
  define w where "w = exec (clear_pending_fork_flags (cur_tid k') (ucast (sxc_id x))) v"
  have g: "gate_view w = gate_view u"
    unfolding w_def by (simp add: same_exec [OF gate_frames(3)] control_gate [OF v(2)])
  have ev: "events w = events u"
    by (simp add: w_def v(3) clear_pending_fork_flags_def only_if_def delete_pending_fork_flags_def)
  have fl: "in_flight k' w = Some p" using g p(1) by (auto simp: gate_view_def in_flight_eq split: if_splits)
  have "selects w (ucast (sxc_id x))" using selects_gate [OF g] exit(1) by (simp add: traced_def)
  then have run: "exec (trace_sys_exit k' pa x) u = exec (exit_route k' pa x) w"
    using exit(1) by (auto simp: v(1) dispatch_exit_def Let_def run_bind_parts w_def [symmetric] traced_def selects_def
        simp del: run_state_bind)
  have "exec (exit_route k' pa x) w = exec (exit_generic k' x) w"
    using exit(4) by (auto simp: exit_route_def fallback_is_generic)
  moreover have "in_flight k' (exec (exit_generic k' x) w) = None"
    using shuts_unguarded(1) by (simp add: shuts_def)
  moreover obtain r where "events (exec (exit_generic k' x) w) = events w @ [r]" "exit_record_of p (sxc_ret x) r"
    using generic_exit_record [OF fl, of x] p(2) exit(2,5) thread by (auto simp: pending_of_def)
  ultimately show ?thesis
    using p(2) exit(2) by (auto simp: run ev exit_record_of_def pending_of_def)
qed

lemma plan_exit_close: "plan_exit SYS_CLOSE = EXIT_PROG_GENERIC"
  by (simp add: plan_exit_def bpfRouteCapabilities_def bpfRouteCapabilities_a_f_def bpfRouteCapabilities_g_p_def
      bpfRouteCapabilities_q_w_def)

lemma sample_traced_pending:
  "traced (sample_kernel 7 7) (sample_machine\<lparr>pending_task_storage := m\<rparr>) 3 FILTER_TASK_TRACKED"
  by (simp add: traced_def sample_machine_def lookup_lifecycle_task_filter_flags_def tracked_flags_def
      current_syscall_has_native_abi_def core_read_into_def next_tick_def selects_def
      should_trace_syscall_def is_pre_exec_suppressed_syscall_def has_flag_def boot_machine_def)

theorem sys_call_roundtrip_witness:
  "let k = sample_kernel 7 7; pa = sample_arrays sample_config; ctx = \<lparr>sec_id = 3, sec_args = Args 5 0 0 0 0 0\<rparr>;
       u = sample_machine\<lparr>pending_task_storage := pending_task_storage (exec (trace_sys_enter k pa ctx) sample_machine)\<rparr>
   in \<exists>r env. events (exec (trace_sys_exit k pa \<lparr>sxc_id = 3, sxc_ret = 0\<rparr>) u) = [] @ [r] \<and>
        decodeTraceEventV2Envelope r = Some env \<and> env_tid env = 7 \<and> env_args env = Args 5 0 0 0 0 0"
proof -
  let ?k = "sample_kernel 7 7" and ?pa = "sample_arrays sample_config"
    and ?ctx = "\<lparr>sec_id = 3, sec_args = Args 5 0 0 0 0 0\<rparr>" and ?x = "\<lparr>sxc_id = 3, sxc_ret = 0\<rparr>"
  let ?u = "sample_machine\<lparr>pending_task_storage := pending_task_storage (exec (trace_sys_enter ?k ?pa ?ctx) sample_machine)\<rparr>"
  have "\<exists>r env. events (exec (trace_sys_exit ?k ?pa ?x) ?u) = events ?u @ [r] \<and>
     decodeTraceEventV2Envelope r = Some env \<and> env_event_type env = EVENT_TYPE_EXIT \<and>
     env_pid env = cur_pid ?k \<and> env_tid env = cur_tid ?k \<and> env_sys_id env = ucast (sec_id ?ctx) \<and>
     env_args env = sec_args ?ctx \<and> env_ret env = sxc_ret ?x \<and> in_flight ?k (exec (trace_sys_exit ?k ?pa ?x) ?u) = None"
  proof (rule sys_call_roundtrip)
    show "traced ?k sample_machine (ucast (sec_id ?ctx)) FILTER_TASK_TRACKED" "ready ?k sample_machine"
      using sample_traced by simp_all
    show "traced ?k ?u (ucast (sxc_id ?x)) FILTER_TASK_TRACKED" using sample_traced_pending by simp
    show "pa_enter_routes ?pa = select_enter sample_config (\<lambda>n. n < 512)" by (simp add: sample_arrays_def)
    show "pa_exit_routes ?pa (ucast (sxc_id ?x)) \<in> {None, Some EXIT_PROG_GENERIC}"
      using plan_exit_close by (simp add: sample_arrays_def select_exit_def)
  qed (simp_all add: is_terminating_direct_syscall_def in_flight_eq)
  moreover have "events ?u = []" by (simp add: sample_machine_def)
  ultimately show ?thesis by (auto simp: Let_def)
qed

section \<open>The recvmsg chain\<close>

lemma recvmsg_final_in_flight:
  assumes "in_flight k s = Some p" "ps_sys_id p = SYS_RECVMSG"
  shows "in_flight k (exec (trace_kretprobe_recvmsg_final k regs) s) = None"
proof -
  have "in_flight k (exec (native_kretprobe_return k regs) s) = Some p"
    using assms(1) by (simp add: reports_in_flight reports_kretprobe)
  then show ?thesis
    using assms(2) by (simp add: trace_kretprobe_recvmsg_final_def run_bind_parts in_flight_def [symmetric] consume_in_flight
        only_if_def del: run_state_bind)
qed

lemma recvmsg_step:
  assumes "in_flight k s = Some p" "ps_sys_id p = SYS_RECVMSG" "\<And>q dur ret. emitter k (emit q dur ret)"
  shows "\<exists>t. exec (do {
     ret \<leftarrow> native_kretprobe_return k regs;
     pending \<leftarrow> current_pending_syscall k;
     case pending of
       None \<Rightarrow> return ()
     | Some q \<Rightarrow> only_if (ps_sys_id q = SYS_RECVMSG) (do {
         dur \<leftarrow> pending_syscall_duration k q;
         emit q ret dur;
         next }) }) s = exec next t \<and> in_flight k t = Some p"
proof -
  let ?u = "exec (native_kretprobe_return k regs) s"
  let ?v = "exec (pending_syscall_duration k p) ?u"
  let ?w = "exec (emit p (result (native_kretprobe_return k regs) s) (result (pending_syscall_duration k p) ?u)) ?v"
  have "in_flight k ?w = Some p" and u: "in_flight k ?u = Some p"
    using assms(1) by (simp_all add: reports_in_flight reports_kretprobe reports_pending emitter_reports [OF assms(3)])
  with assms(2) show ?thesis
    by (intro exI [of _ ?w]) (simp add: run_bind_parts in_flight_def [symmetric] only_if_def del: run_state_bind)
qed

lemma recvmsg_control_in_flight:
  assumes "in_flight k s = Some p" "ps_sys_id p = SYS_RECVMSG"
  shows "in_flight k (exec (trace_kretprobe_recvmsg_control k pa regs) s) =
    (if pa_recvmsg_progs pa RECVMSG_PROG_FINAL then None else Some p)"
proof -
  obtain t where "exec (trace_kretprobe_recvmsg_control k pa regs) s =
      exec (bpf_tail_call (pa_recvmsg_progs pa RECVMSG_PROG_FINAL) (trace_kretprobe_recvmsg_final k regs) (return ())) t"
    "in_flight k t = Some p"
    using recvmsg_step [OF assms, of "\<lambda>q ret dur. emit_recvmsg_control_exit_fragment_event_v2_direct k q ret dur"]
    unfolding trace_kretprobe_recvmsg_control_def by (metis emitter_intros)
  then show ?thesis using recvmsg_final_in_flight [of k t p regs] assms(2) by (simp add: bpf_tail_call_def)
qed

lemma recvmsg_name_in_flight:
  assumes "in_flight k s = Some p" "ps_sys_id p = SYS_RECVMSG"
  shows "in_flight k (exec (trace_kretprobe_recvmsg_name k pa regs) s) =
    (if pa_recvmsg_progs pa RECVMSG_PROG_CONTROL \<and> pa_recvmsg_progs pa RECVMSG_PROG_FINAL then None else Some p)"
proof -
  obtain t where "exec (trace_kretprobe_recvmsg_name k pa regs) s =
      exec (bpf_tail_call (pa_recvmsg_progs pa RECVMSG_PROG_CONTROL) (trace_kretprobe_recvmsg_control k pa regs) (return ())) t"
    "in_flight k t = Some p"
    using recvmsg_step [OF assms, of "\<lambda>q ret dur. emit_recvmsg_name_exit_fragment_event_v2_direct k q ret dur"]
    unfolding trace_kretprobe_recvmsg_name_def by (metis emitter_intros)
  then show ?thesis using recvmsg_control_in_flight [of k t p pa regs] assms(2) by (simp add: bpf_tail_call_def)
qed

text \<open>
  C37: The recvmsg chain closes the call exactly when its three programs are loaded: after the kretprobe and the
  raw exit of a recvmsg routed to \<^verbatim>\<open>exit_msg\<close>, the call is still in flight, its exit unreported, whenever one of the
  three slots is empty (the recvmmsg chain closes its call in that case).
\<close>

theorem recvmsg_chain_in_flight:
  assumes "in_flight k s = Some p" "ps_sys_id p = SYS_RECVMSG" "ucast (sxc_id ctx) = SYS_RECVMSG"
  shows "in_flight k (exec (do { trace_kretprobe_recvmsg_dispatch k pa regs; exit_msg k ctx }) s) =
    (if pa_recvmsg_progs pa RECVMSG_PROG_NAME \<and> pa_recvmsg_progs pa RECVMSG_PROG_CONTROL \<and>
        pa_recvmsg_progs pa RECVMSG_PROG_FINAL then None else Some p)"
  using assms recvmsg_name_in_flight [OF assms(1,2), of pa regs]
  by (simp add: trace_kretprobe_recvmsg_dispatch_def bpf_tail_call_def exit_msg_def run_bind_parts del: run_state_bind)

theorem recvmsg_chain_in_flight_witness:
  "let k = sample_kernel 7 7; pa = (sample_arrays sample_config)\<lparr>pa_recvmsg_progs := (\<lambda>i. i \<noteq> RECVMSG_PROG_FINAL)\<rparr>;
       p = zero_pending_syscall\<lparr>ps_sys_id := SYS_RECVMSG\<rparr>;
       s = sample_machine\<lparr>pending_task_storage := [k_task k \<mapsto> zero_pending_task_state\<lparr>pts_syscall := p, pts_valid := 1\<rparr>]\<rparr>
   in in_flight k (exec (do { trace_kretprobe_recvmsg_dispatch k pa 0; exit_msg k \<lparr>sxc_id = 47, sxc_ret = 3\<rparr> }) s) = Some p"
proof -
  let ?k = "sample_kernel 7 7" and ?p = "zero_pending_syscall\<lparr>ps_sys_id := SYS_RECVMSG\<rparr>"
  let ?s = "sample_machine\<lparr>pending_task_storage := [k_task ?k \<mapsto> zero_pending_task_state\<lparr>pts_syscall := ?p, pts_valid := 1\<rparr>]\<rparr>"
  have "in_flight ?k ?s = Some ?p" by (simp add: in_flight_eq)
  then show ?thesis
    using recvmsg_chain_in_flight [of ?k ?s ?p "\<lparr>sxc_id = 47, sxc_ret = 3\<rparr>"
        "(sample_arrays sample_config)\<lparr>pa_recvmsg_progs := (\<lambda>i. i \<noteq> RECVMSG_PROG_FINAL)\<rparr>" 0]
    by (simp add: Let_def)
qed

section \<open>Tasks the tracer does not follow\<close>

lemma handshake_quiet:
  "events (exec (capture_tracer_pid_namespace k ctx sys_id) s) = events s"
  "stats_map (exec (capture_tracer_pid_namespace k ctx sys_id) s) = stats_map s"
  by (auto simp: capture_tracer_pid_namespace_def run_bind_parts core_read_def bpf_probe_read_kernel_def next_tick_def Let_def
      split_beta simp del: run_state_bind split: option.split)

text \<open>
  C18: A task without a filter entry leaves no trace: its syscall exits change nothing at all, and its enters
  change nothing the tracer decides on and emit nothing (only the tracer's own namespace handshake may be recorded).
\<close>

theorem untracked_task_invisible:
  assumes "result (lookup_lifecycle_task_filter_flags (cur_pid k) (cur_tid k)) s = None"
  shows "exec (trace_sys_exit k pa xctx) s = s \<and>
    (let t = exec (trace_sys_enter k pa ctx) s in
      events t = events s \<and> gate_view t = gate_view s \<and> stats_map t = stats_map s)"
proof -
  let ?t = "exec (capture_tracer_pid_namespace k ctx (ucast (sec_id ctx))) s"
  have g: "gate_view ?t = gate_view s" by (rule same_exec [OF gate_frames(4)])
  have "result (lookup_lifecycle_task_filter_flags (cur_pid k) (cur_tid k)) ?t = None"
    using lookup_filter_gate [OF g] assms by simp
  then show ?thesis
    using assms g handshake_quiet [of k ctx "ucast (sec_id ctx)" s] by (simp add: trace_sys_exit_def trace_sys_enter_def Let_def run_bind_parts del: run_state_bind)
qed

theorem untracked_task_invisible_witness:
  "exec (trace_sys_exit (sample_kernel 9 9) (sample_arrays sample_config) \<lparr>sxc_id = 3, sxc_ret = 0\<rparr>) sample_machine =
     sample_machine"
  using untracked_task_invisible [of "sample_kernel 9 9" sample_machine "sample_arrays sample_config" "\<lparr>sxc_id = 3, sxc_ret = 0\<rparr>"]
  by (simp add: sample_machine_def lookup_lifecycle_task_filter_flags_def tracked_flags_def)

text \<open>
  C20: Before its exec a launched child is silent: while its filter entry carries the pre-exec mark, no syscall other
  than an exec emits a record or changes what is in flight, neither at its enter nor at its exit.
\<close>

theorem pre_exec_suppressed:
  assumes "result (lookup_lifecycle_task_filter_flags (cur_pid k) (cur_tid k)) s = Some flags"
    and "has_flag flags FILTER_TASK_PRE_EXEC" "\<not> is_exec_payload_direct_syscall sys_id"
    and "\<forall>t. result (current_syscall_has_native_abi k sys_id) t"
    and "ucast (sec_id ctx) = sys_id" "ucast (sxc_id xctx) = sys_id"
  shows "(let t = exec (trace_sys_enter k pa ctx) s in events t = events s \<and> in_flight k t = in_flight k s) \<and>
    (let t = exec (trace_sys_exit k pa xctx) s in events t = events s \<and> in_flight k t = in_flight k s)"
proof
  let ?c = "exec (capture_tracer_pid_namespace k ctx sys_id) s"
  let ?r = "reject_unsupported_syscall_abi k (cur_pid k) (cur_tid k) sys_id"
  have g: "gate_view ?c = gate_view s" by (rule same_exec [OF gate_frames(4)])
  have fl: "in_flight k (exec ?r u) = in_flight k u" for u
    using control_fields(3) [OF native_reject(2) [OF assms(4), of "cur_pid k" "cur_tid k" u]] by (simp add: in_flight_eq)
  have "in_flight k ?c = in_flight k s" using g by (simp add: gate_view_def in_flight_eq)
  then show "let t = exec (trace_sys_enter k pa ctx) s in events t = events s \<and> in_flight k t = in_flight k s"
    using assms lookup_filter_gate [OF g] native_reject [OF assms(4)] fl [of ?c]
    by (auto simp: trace_sys_enter_def dispatch_enter_def Let_def run_bind_parts is_pre_exec_suppressed_syscall_def
        arm_pending_exec_replacement_def handshake_quiet simp del: run_state_bind)
  show "let t = exec (trace_sys_exit k pa xctx) s in events t = events s \<and> in_flight k t = in_flight k s"
    using assms native_reject [OF assms(4)] fl [of s]
    by (auto simp: trace_sys_exit_def dispatch_exit_def Let_def run_bind_parts is_pre_exec_suppressed_syscall_def
        simp del: run_state_bind)
qed

theorem pre_exec_suppressed_witness:
  "let k = sample_kernel 7 7; s = sample_machine\<lparr>filter_map := [7 \<mapsto> 3]\<rparr> in
     events (exec (trace_sys_enter k (sample_arrays sample_config) \<lparr>sec_id = 3, sec_args = Args 5 0 0 0 0 0\<rparr>) s) = []"
proof -
  let ?s = "sample_machine\<lparr>filter_map := [7 \<mapsto> 3]\<rparr>"
  have "result (lookup_lifecycle_task_filter_flags (cur_pid (sample_kernel 7 7)) (cur_tid (sample_kernel 7 7))) ?s = Some 3"
    by (simp add: lookup_lifecycle_task_filter_flags_def tracked_flags_def has_flag_def)
  moreover have "events ?s = []" by (simp add: sample_machine_def)
  ultimately show ?thesis
    using pre_exec_suppressed [of "sample_kernel 7 7" ?s 3 3 "\<lparr>sec_id = 3, sec_args = Args 5 0 0 0 0 0\<rparr>"
        "\<lparr>sxc_id = 3, sxc_ret = 0\<rparr>" "sample_arrays sample_config"]
    by (simp add: Let_def has_flag_def is_exec_payload_direct_syscall_def current_syscall_has_native_abi_def
        core_read_into_def next_tick_def)
qed

section \<open>Exec and exit of threads\<close>

text \<open>
  C19: A thread's exec is handed over to its process.  When a thread that is not the leader enters an exec, the
  lookup at the successful return, where the thread has taken over the identity of the leader, finds the entry the
  thread saved, names the old thread and reports that the handoff was used.
\<close>

theorem exec_handoff:
  assumes "ready k s" "cur_tid k \<noteq> cur_pid k" "is_exec_payload_direct_syscall (ucast (sec_id ctx))"
    and "\<forall>t. k_map_update k t" "k_task k' = k_task k"
  shows "\<exists>p. pending_of k ctx p \<and>
    result (lookup_pending_syscall_for_exit k' (cur_pid k) (cur_pid k) 0) (exec (enter_exec k ctx) s) = (Some p, cur_tid k, True)"
proof -
  let ?t = "exec (enter_exec k ctx) s"
  obtain p where p: "in_flight k ?t = Some p" "pending_of k ctx p"
    using opens_exec [of k ctx] assms(1) unfolding opens_def by blast
  have h: "pending_exec_map ?t (cur_pid k) = Some (cur_tid k)"
    using assms(2,4) by (simp add: enter_exec_def ENTER_PROLOGUE_def Let_def run_bind_parts bpf_map_update_def next_tick_def
        only_if_def del: run_state_bind)
  have "in_flight k' ?t = Some p" using p(1) assms(5) by (auto simp: in_flight_eq split: if_splits)
  then show ?thesis
    using wp_lookup_for_exit [of k' "cur_pid k" "cur_pid k" 0 "\<lambda>r _. r = (Some p, cur_tid k, True)" ?t] assms(2,3) p(2) h
    by (auto simp: wp_def pending_of_def)
qed

theorem exec_handoff_witness:
  "\<exists>p. ps_tid p = 8 \<and> result (lookup_pending_syscall_for_exit (sample_kernel 7 8) 7 7 0)
     (exec (enter_exec (sample_kernel 7 8) \<lparr>sec_id = 59, sec_args = Args 1 2 3 0 0 0\<rparr>) sample_machine) = (Some p, 8, True)"
proof -
  have "ready (sample_kernel 7 8) sample_machine" by (simp add: ready_def)
  then show ?thesis
    using exec_handoff [of "sample_kernel 7 8" sample_machine "\<lparr>sec_id = 59, sec_args = Args 1 2 3 0 0 0\<rparr>" "sample_kernel 7 8"]
    by (auto simp: is_exec_payload_direct_syscall_def pending_of_def)
qed

lemma prologue_reaches:
  obtains t ts st where "exec (ENTER_PROLOGUE k ctx body) s =
      exec (body (ucast (sec_id ctx)) (cur_tid k) (cur_pid k) ts (config_map s) st) t" "control t = control s"
proof
  let ?u = "exec (bpf_ktime_get_ns k) s"
  let ?t = "exec (capture_stack_id k (config_map s)) ?u"
  have u: "control ?u = control s" and t: "control ?t = control ?u" by (rule reports_control, rule reports_intros)+
  then show "control ?t = control s" by simp
  show "exec (ENTER_PROLOGUE k ctx body) s = exec (body (ucast (sec_id ctx)) (cur_tid k) (cur_pid k)
      (result (bpf_ktime_get_ns k) s) (config_map s) (result (capture_stack_id k (config_map s)) ?u)) ?t"
    using control_fields(1) [OF u] by (simp add: ENTER_PROLOGUE_def run_bind_parts del: run_state_bind)
qed

definition task_view :: "machine \<Rightarrow> (u32 \<rightharpoonup> u32) \<times> (u32 \<rightharpoonup> u32) \<times> (u64 \<rightharpoonup> pending_task_state)" where
  "task_view s = (main_exited_map s, filter_map s, pending_task_storage s)"

lemma reports_task_view:
  assumes "reports m"
  shows "task_view (exec m s) = task_view s"
  using control_fields [OF reports_control [OF assms, of s]] by (simp add: task_view_def)

text \<open>
  A terminating syscall never waits for an exit: whatever was in flight stays as it was, the tracked tasks stay
  as they were, and the process is marked as having lost its leader exactly when the caller is the leader and the
  kernel accepts the mark.
\<close>

theorem enter_terminating_spec:
  "\<exists>n. let t = exec (enter_terminating k ctx) s in
     in_flight k t = in_flight k s \<and> filter_map t = filter_map s \<and>
     main_exited_map t = (if cur_tid k = cur_pid k \<and> k_map_update k n then (main_exited_map s)(cur_pid k \<mapsto> 1)
       else main_exited_map s)"
proof -
  obtain u ts st where e: "exec (enter_terminating k ctx) s =
      exec ((\<lambda>sys_id tid pid ts cfg st. do {
        only_if (tid = pid) (do {
          ok \<leftarrow> bpf_map_update k (\<lambda>s. s\<lparr>main_exited_map := (main_exited_map s)(pid \<mapsto> 1)\<rparr>);
          only_if (\<not> ok) (record_lifecycle_map_update_fail k) });
        emit_no_payload_enter_event_v2_direct k pid tid sys_id ctx cfg ts;
        emit_terminating_exit_event_v2_direct k pid tid sys_id ctx ts st })
      (ucast (sec_id ctx)) (cur_tid k) (cur_pid k) ts (config_map s) st) u" and u: "control u = control s"
    unfolding enter_terminating_def by (rule prologue_reaches)
  have tail: "task_view (exec (emit_terminating_exit_event_v2_direct k pid tid sys_id ctx ts st)
      (exec (emit_no_payload_enter_event_v2_direct k pid tid sys_id ctx cfg ts) v)) = task_view v" for pid tid sys_id cfg v
    by (simp add: reports_task_view reports_intros)
  let ?v = "exec (only_if (cur_tid k = cur_pid k) (do {
          ok \<leftarrow> bpf_map_update k (\<lambda>s. s\<lparr>main_exited_map := (main_exited_map s)(cur_pid k \<mapsto> 1)\<rparr>);
          only_if (\<not> ok) (record_lifecycle_map_update_fail k) })) u"
  have "task_view (exec (record_lifecycle_map_update_fail k) w) = task_view w" for w
    by (rule reports_task_view) (rule reports_intros)
  then have "task_view ?v = (if cur_tid k = cur_pid k \<and> k_map_update k (tick u) then (main_exited_map u)(cur_pid k \<mapsto> 1)
      else main_exited_map u, filter_map u, pending_task_storage u)"
    by (simp add: only_if_def bpf_map_update_def next_tick_def run_bind_parts task_view_def del: run_state_bind)
  then have "task_view (exec (enter_terminating k ctx) s) =
      (if cur_tid k = cur_pid k \<and> k_map_update k (tick u) then (main_exited_map u)(cur_pid k \<mapsto> 1)
       else main_exited_map u, filter_map u, pending_task_storage u)"
    by (simp add: e run_bind_parts tail del: run_state_bind)
  then show ?thesis
    using control_fields [OF u] by (intro exI [of _ "tick u"]) (simp add: Let_def task_view_def in_flight_eq)
qed

text \<open>The fragment chain does nothing for pselect6, although \<^verbatim>\<open>enter_select\<close> collects its candidates and calls it.\<close>

lemma pselect6_fragments_dropped:
  assumes "ucast (sec_id ctx) = SYS_PSELECT6"
  shows "exec (enter_nested_fd_path0 k pa ctx) s = s"
  using assms by (simp add: enter_nested_fd_path0_def nested_fd_path_fragment_def load_nested_fd_path_fragment_context_def
      is_poll_direct_syscall_def is_ppoll_direct_syscall_def run_bind_parts Let_def del: run_state_bind)

end
