(* ===== verification/Probe_System.thy ===== *)
theory Probe_System
  imports Exit_Dispatch "HOL-Library.Multiset"
begin

text \<open>
  The loaded tracer as a whole: the programs attached to the kernel, run in any order, on any CPU and for any
  task, between writes of user space to the maps it owns.  The effect of a program on the maps is one step.  The order of the
  records is not the order of these steps: a program takes the number of a record before it reserves the space
  (\<^verbatim>\<open>bpf/event_integrity.h\<close>: the allocation \<open>does not order reservations\<close>), so a program that interrupts it on its CPU,
  or one that runs on another CPU, can have its records in the buffer first.  The system therefore has a step
  of its own in which a record is overtaken by its neighbour; every order of the records can be reached by such steps.
\<close>

section \<open>Steps\<close>

datatype probe =
    Sys_Enter sys_enter_ctx
  | Sys_Exit sys_exit_ctx
  | Kretprobe_Recvmsg u64
  | Sched_Process_Fork sched_process_fork_ctx
  | Sched_Process_Exec sched_process_exec_ctx
  | Sched_Process_Exit sched_process_template_ctx
  | Sched_Process_Free sched_process_template_ctx
  | Namespace_Fork u64
  | Signal_Deliver signal_ctx
  | Signal_Generate signal_ctx
  | Kvm_Userspace_Exit kvm_userspace_exit_tracepoint

fun run_probe :: "kernel \<Rightarrow> prog_arrays \<Rightarrow> probe \<Rightarrow> unit bpf" where
  "run_probe k pa (Sys_Enter ctx) = trace_sys_enter k pa ctx"
| "run_probe k pa (Sys_Exit ctx) = trace_sys_exit k pa ctx"
| "run_probe k pa (Kretprobe_Recvmsg regs) = trace_kretprobe_recvmsg_dispatch k pa regs"
| "run_probe k pa (Sched_Process_Fork ctx) = trace_sched_process_fork k ctx"
| "run_probe k pa (Sched_Process_Exec ctx) = trace_sched_process_exec k ctx"
| "run_probe k pa (Sched_Process_Exit ctx) = trace_sched_process_exit k ctx"
| "run_probe k pa (Sched_Process_Free ctx) = trace_sched_process_free k ctx"
| "run_probe k pa (Namespace_Fork child) = trace_namespace_fork k child"
| "run_probe k pa (Signal_Deliver ctx) = trace_signal_deliver k ctx"
| "run_probe k pa (Signal_Generate ctx) = trace_signal_generate k ctx"
| "run_probe k pa (Kvm_Userspace_Exit ctx) = trace_kvm_userspace_exit k ctx"

text \<open>
  User space reads the ring buffer and writes its maps (the configuration, the filters, the attached tasks);
  it never touches the records, the counters or the loss cell.
\<close>

definition user_write :: "machine \<Rightarrow> machine \<Rightarrow> bool" where
  "user_write s t \<longleftrightarrow> events t = events s \<and> reservation t = reservation s \<and> stats_map t = stats_map s \<and>
     event_loss_map t = event_loss_map s"

inductive probe_step :: "u32 set \<Rightarrow> prog_arrays \<Rightarrow> machine \<Rightarrow> machine \<Rightarrow> bool" for cpus pa where
  program: "k_cpu k \<in> cpus \<Longrightarrow> probe_step cpus pa s (exec (run_probe k pa p) s)"
| user: "user_write s t \<Longrightarrow> probe_step cpus pa s t"
| overtake: "events s = xs @ x # y # ys \<Longrightarrow> probe_step cpus pa s (s\<lparr>events := xs @ y # x # ys\<rparr>)"

inductive reachable :: "u32 set \<Rightarrow> prog_arrays \<Rightarrow> machine \<Rightarrow> bool" for cpus pa where
  boot: "reachable cpus pa (boot_machine config)"
| step: "reachable cpus pa s \<Longrightarrow> probe_step cpus pa s t \<Longrightarrow> reachable cpus pa t"

inductive_cases probe_stepE: "probe_step cpus pa s t"

section \<open>Every program keeps the books\<close>

lemma accounted_probe: "accounted k (run_probe k pa p)"
  by (cases p) (simp_all add: accounted_intros silent_accounted silent_intros)

section \<open>The history of a run\<close>

text \<open>
  The counters of the machine are words; the tally counts the same things without wrap-around, as a history variable:
  the attempts, failed reservations and discarded records of every CPU, and the failures recorded in all.
\<close>

record tally =
  attempts :: "u32 \<Rightarrow> nat"
  no_room :: "u32 \<Rightarrow> nat"
  discarded :: "u32 \<Rightarrow> nat"
  recorded :: nat

definition zero_tally :: tally where
  "zero_tally = \<lparr>attempts = \<lambda>_. 0, no_room = \<lambda>_. 0, discarded = \<lambda>_. 0, recorded = 0\<rparr>"

definition add_entry :: "u32 \<Rightarrow> nat \<Rightarrow> nat \<Rightarrow> nat \<Rightarrow> nat \<Rightarrow> tally \<Rightarrow> tally" where
  "add_entry c n rf disc m b = \<lparr>attempts = (attempts b)(c := attempts b c + (n + rf + disc)),
     no_room = (no_room b)(c := no_room b c + rf), discarded = (discarded b)(c := discarded b c + disc),
     recorded = recorded b + m\<rparr>"

inductive history :: "u32 set \<Rightarrow> prog_arrays \<Rightarrow> tally \<Rightarrow> machine \<Rightarrow> bool" for cpus pa where
  boot: "history cpus pa zero_tally (boot_machine config)"
| program: "history cpus pa b s \<Longrightarrow> k_cpu k \<in> cpus \<Longrightarrow> t = exec (run_probe k pa p) s \<Longrightarrow>
    entry (k_cpu k) new rf disc m s t \<Longrightarrow> history cpus pa (add_entry (k_cpu k) (length new) rf disc m b) t"
| user: "history cpus pa b s \<Longrightarrow> user_write s t \<Longrightarrow> history cpus pa b t"
| overtake: "history cpus pa b s \<Longrightarrow> events s = xs @ x # y # ys \<Longrightarrow> history cpus pa b (s\<lparr>events := xs @ y # x # ys\<rparr>)"

lemma program_ledger: "ledger (k_cpu k) s (exec (run_probe k pa p) s)"
  "loss_balance (k_cpu k) (exec (run_probe k pa p) s) = loss_balance (k_cpu k) s"
  using accounted_probe [of k pa p] by (auto simp: accounted_def same_exec dest: state_io_rel_exec)

lemma program_entry: "\<exists>new rf disc m. entry (k_cpu k) new rf disc m s (exec (run_probe k pa p) s)"
  using program_ledger(1) by (auto simp: ledger_def)

lemma reachable_history: "reachable cpus pa s \<Longrightarrow> \<exists>b. history cpus pa b s"
proof (induction rule: reachable.induct)
  case (boot config)
  then show ?case using history.boot by blast
next
  case (step s t)
  then obtain b where b: "history cpus pa b s" by blast
  from step(2) show ?case
  proof (cases rule: probe_step.cases)
    case (program k p)
    with b program_entry [of k s pa p] show ?thesis by (blast intro: history.program)
  qed (use b in \<open>blast intro: history.user history.overtake\<close>)+
qed

lemma history_reachable: "history cpus pa b s \<Longrightarrow> reachable cpus pa s"
  by (induction rule: history.induct) (auto intro: reachable.intros probe_step.intros)

text \<open>Every order of the records of a history is an order of that history.\<close>

lemma history_bubble:
  "history cpus pa b (s\<lparr>events := ps @ us @ x # vs\<rparr>) \<Longrightarrow> history cpus pa b (s\<lparr>events := ps @ x # us @ vs\<rparr>)"
proof (induction us arbitrary: vs rule: rev_induct)
  case (snoc u us)
  then have "history cpus pa b (s\<lparr>events := ps @ us @ x # u # vs\<rparr>)"
    using history.overtake [OF snoc.prems, of "ps @ us" u x vs] by simp
  then show ?case using snoc.IH [of "u # vs"] by simp
qed simp

lemma history_reorder_behind:
  "history cpus pa b (s\<lparr>events := ps @ rs\<rparr>) \<Longrightarrow> mset rs = mset rs' \<Longrightarrow> history cpus pa b (s\<lparr>events := ps @ rs'\<rparr>)"
proof (induction rs' arbitrary: ps rs)
  case (Cons x xs)
  then have "x \<in> set rs" by (metis list.set_intros(1) mset_eq_setD)
  then obtain us vs where rs: "rs = us @ x # vs" by (auto simp: in_set_conv_decomp)
  then have "history cpus pa b (s\<lparr>events := (ps @ [x]) @ us @ vs\<rparr>)"
    using Cons.prems(1) history_bubble by simp
  moreover have "mset (us @ vs) = mset xs" using Cons.prems(2) rs by simp
  ultimately show ?case using Cons.IH [of "ps @ [x]" "us @ vs"] by simp
qed simp

lemma history_reorder: "history cpus pa b s \<Longrightarrow> mset rs = mset (events s) \<Longrightarrow> history cpus pa b (s\<lparr>events := rs\<rparr>)"
  using history_reorder_behind [where ps = "[]" and rs = "events s" and rs' = rs] by simp

section \<open>The invariant of the system\<close>

definition cpu_records :: "u32 \<Rightarrow> machine \<Rightarrow> bytes list" where
  "cpu_records c s = filter (\<lambda>r. rd32 56 r = c) (events s)"

text \<open>
  \<open>books s b\<close>: the counters hold the tally (modulo their width), and on every CPU the records, the failed reservations and the
  discarded records make up the attempts, the records carrying different numbers of those attempts, in any order.
\<close>

definition cpu_books :: "tally \<Rightarrow> u32 \<Rightarrow> machine \<Rightarrow> bpf_stats \<Rightarrow> bool" where
  "cpu_books b c s st \<longleftrightarrow> st_event_seq st = of_nat (attempts b c) \<and> st_ringbuf_reserve_fail st = of_nat (no_room b c) \<and>
     (\<exists>cf\<ge>discarded b c. st_ringbuf_copy_fail st = of_nat cf) \<and>
     (recorded b = 0 \<longrightarrow> fail_view st = replicate 7 0) \<and>
     length (cpu_records c s) + no_room b c + discarded b c = attempts b c \<and>
     numbered c (attempts b c) 0 (cpu_records c s)"

definition books :: "tally \<Rightarrow> machine \<Rightarrow> bool" where
  "books b s \<longleftrightarrow> (\<forall>c. \<exists>st. stats_map s c = Some st \<and> cpu_books b c s st)"

definition failures :: "machine \<Rightarrow> u32 \<Rightarrow> u64" where
  "failures s c = (case stats_map s c of None \<Rightarrow> 0 | Some st \<Rightarrow> fail_total st)"

definition loss_books :: "tally \<Rightarrow> machine \<Rightarrow> bool" where
  "loss_books b s \<longleftrightarrow> list_all (dated {} (recorded b) (0, 0)) (events s) \<and>
     (\<exists>l. event_loss_map s = Some l \<and> els_epoch l = of_nat (recorded b) \<and> (recorded b = 0 \<longrightarrow> els_first_time_ns l = 0))"

definition system_inv :: "u32 set \<Rightarrow> tally \<Rightarrow> machine \<Rightarrow> bool" where
  "system_inv cpus b s \<longleftrightarrow> reservation s = None \<and> list_all accepted (events s) \<and> books b s \<and> loss_books b s \<and>
     (\<Sum>c\<in>cpus. no_room b c + discarded b c) \<le> recorded b \<and>
     (\<forall>c. c \<notin> cpus \<longrightarrow> attempts b c = 0) \<and>
     (\<Sum>c\<in>cpus. failures s c) = of_nat (recorded b)"

lemma sum_add_at:
  assumes "finite A" "c \<in> A"
  shows "(\<Sum>x\<in>A. (f(c := f c + n)) x) = (\<Sum>x\<in>A. f x) + (n :: nat)"
  using assms by (simp add: sum.remove [of A c])

lemma system_inv_boot: "finite cpus \<Longrightarrow> system_inv cpus zero_tally (boot_machine config)"
  unfolding system_inv_def books_def cpu_books_def loss_books_def
  by (auto simp: failures_def zero_stats_def fail_total_def fail_view_def zero_tally_def cpu_records_def numbered_Nil
      eval_nat_numeral intro: exI [of _ 0])

lemma numbered_cpu: "numbered c a base new \<Longrightarrow> r \<in> set new \<Longrightarrow> rd32 56 r = c"
  unfolding numbered_def by (auto simp: in_set_conv_nth list_all2_conv_all_nth stamped_def)

lemma cpu_records_entry:
  assumes "entry c new rf disc m s t" "stats_map s c \<noteq> None"
  shows "cpu_records c' t = cpu_records c' s @ (if c' = c then new else [])"
proof -
  have "\<forall>r\<in>set new. rd32 56 r = c" using assms numbered_cpu by (auto simp: entry_def)
  then show ?thesis
    using assms by (auto simp: cpu_records_def entry_def flow_def filter_empty_conv)
qed

lemma books_entry:
  assumes "books b s" "entry c new rf disc m s t"
  shows "books (add_entry c (length new) rf disc m b) t"
  unfolding books_def
proof
  fix c'
  obtain st where st: "stats_map s c = Some st" "cpu_books b c s st" using assms(1) by (auto simp: books_def)
  have f: "flow c (length new + rf + disc) new rf disc m s t" using assms(2) by (simp add: entry_def)
  have recs: "cpu_records c'' t = cpu_records c'' s @ (if c'' = c then new else [])" for c''
    using cpu_records_entry [OF assms(2)] st(1) by simp
  show "\<exists>st. stats_map t c' = Some st \<and> cpu_books (add_entry c (length new) rf disc m b) c' t st"
  proof (cases "c' = c")
    case False
    obtain st' where "stats_map s c' = Some st'" "cpu_books b c' s st'" using assms(1) by (auto simp: books_def)
    moreover have "stats_map t c' = stats_map s c'" using f False by (simp add: flow_def)
    ultimately show ?thesis using False by (simp add: cpu_books_def add_entry_def recs)
  next
    case True
    obtain q cf cf' where q: "stats_map t c = Some q" "st_event_seq q = st_event_seq st + of_nat (length new + rf + disc)"
      "st_ringbuf_reserve_fail q = st_ringbuf_reserve_fail st + of_nat rf" "cf' \<ge> disc"
      "st_ringbuf_copy_fail q = st_ringbuf_copy_fail st + of_nat cf'" "m = 0 \<longrightarrow> fail_view q = fail_view st"
      "cf \<ge> discarded b c" "st_ringbuf_copy_fail st = of_nat cf"
      using f st by (auto simp: flow_def stats_flow_def cpu_books_def split: option.splits)
    have "\<exists>n\<ge>discarded b c + disc. st_ringbuf_copy_fail q = of_nat n"
      using q by (intro exI [of _ "cf + cf'"]) (simp add: add_mono)
    moreover have "numbered c (attempts b c + (length new + rf + disc)) 0 (cpu_records c s @ new)"
      using assms(2) st
      by (intro numbered_append) (simp_all add: cpu_books_def entry_def seq_base_def)
    ultimately show ?thesis
      using True q(1,2,3,6) st(2) by (simp add: cpu_books_def add_entry_def recs)
  qed
qed

lemma failures_entry:
  assumes "flow c a new rf d m s t" "loss_balance c t = loss_balance c s" "finite cpus" "c \<in> cpus"
    and "event_loss_map s = Some l" "stats_map s c = Some st"
  shows "(\<Sum>c\<in>cpus. failures t c) = (\<Sum>c\<in>cpus. failures s c) + of_nat m"
proof -
  obtain l' st' where t: "event_loss_map t = Some l'" "stats_map t c = Some st'" "els_epoch l' = els_epoch l + of_nat m"
    "els_epoch l' - fail_total st' = els_epoch l - fail_total st"
    using assms(1,2,5,6) by (auto simp: flow_def loss_flow_def stats_flow_def loss_balance_def split: option.splits)
  have "(\<Sum>x\<in>cpus - {c}. failures t x) = (\<Sum>x\<in>cpus - {c}. failures s x)"
    using assms(1) by (intro sum.cong) (auto simp: flow_def failures_def)
  moreover have "failures t c = failures s c + of_nat m"
    using t assms(6) by (simp add: failures_def algebra_simps)
  ultimately show ?thesis
    using assms(3,4) by (simp add: sum.remove [of cpus c])
qed

lemma loss_books_entry:
  assumes "loss_books b s" "entry c new rf disc m s t"
  shows "loss_books (add_entry c (length new) rf disc m b) t"
proof -
  obtain l where l: "event_loss_map s = Some l" "els_epoch l = of_nat (recorded b)" "recorded b = 0 \<longrightarrow> els_first_time_ns l = 0"
    and old: "list_all (dated {} (recorded b) (0, 0)) (events s)" using assms(1) by (auto simp: loss_books_def)
  have f: "flow c (length new + rf + disc) new rf disc m s t" "list_all (dated {} m (cell s)) new"
    using assms(2) by (auto simp: entry_def)
  have "later (recorded b) (0, 0) (cell s)" using l by (auto simp: later_def cell_def)
  note shift = dated_shift [OF this]
  have "list_all (dated {} (recorded b + m) (0, 0)) (events t)"
    using f old shift by (auto simp: flow_def list_all_iff intro: dated_mono)
  then show ?thesis
    using f(1) l by (auto simp: loss_books_def add_entry_def flow_def loss_flow_def split: option.splits)
qed

lemma system_inv_entry:
  assumes "system_inv cpus b s" "finite cpus" "k_cpu k \<in> cpus" "t = exec (run_probe k pa p) s"
    and e: "entry (k_cpu k) new rf disc m s t"
  shows "system_inv cpus (add_entry (k_cpu k) (length new) rf disc m b) t"
proof -
  have "loss_balance (k_cpu k) t = loss_balance (k_cpu k) s" "reservation t = None"
    using program_ledger(1) [of k s pa p] program_ledger(2) [of k pa p s] assms(1,4) by (auto simp: ledger_def system_inv_def)
  moreover obtain l st where "event_loss_map s = Some l" "stats_map s (k_cpu k) = Some st"
    using assms(1) unfolding system_inv_def books_def loss_books_def by blast
  moreover have f: "flow (k_cpu k) (length new + rf + disc) new rf disc m s t" using e by (simp add: entry_def)
  ultimately have "reservation t = None" "(\<Sum>c\<in>cpus. failures t c) = (\<Sum>c\<in>cpus. failures s c) + of_nat m"
    using failures_entry assms(2,3) by blast+
  moreover have "list_all accepted (events t)" using e assms(1) by (simp add: entry_def flow_def system_inv_def)
  moreover have "(\<Sum>c\<in>cpus. no_room (add_entry (k_cpu k) (length new) rf disc m b) c + discarded (add_entry (k_cpu k) (length new) rf disc m b) c)
      \<le> recorded (add_entry (k_cpu k) (length new) rf disc m b)"
    using assms(1) sum_add_at [OF assms(2,3)] f
    by (simp add: add_entry_def sum.distrib system_inv_def flow_def del: fun_upd_apply)
  ultimately show ?thesis
    using assms(1,3) books_entry [OF _ e] loss_books_entry [OF _ e]
    by (auto simp: system_inv_def add_entry_def)
qed

lemma cpu_records_overtake:
  assumes "events s = xs @ x # y # ys"
  shows "length (cpu_records c (s\<lparr>events := xs @ y # x # ys\<rparr>)) = length (cpu_records c s)"
    "numbered c a base (cpu_records c s) \<Longrightarrow> numbered c a base (cpu_records c (s\<lparr>events := xs @ y # x # ys\<rparr>))"
  using assms numbered_swap by (auto simp: cpu_records_def)

lemma system_inv_overtake:
  assumes "system_inv cpus b s" "events s = xs @ x # y # ys"
  shows "system_inv cpus b (s\<lparr>events := xs @ y # x # ys\<rparr>)"
proof -
  let ?t = "s\<lparr>events := xs @ y # x # ys\<rparr>"
  have "cpu_books b c ?t st" if "cpu_books b c s st" for c st
    using that cpu_records_overtake [OF assms(2)] by (simp add: cpu_books_def)
  then have "books b ?t" using assms(1) by (fastforce simp: system_inv_def books_def)
  moreover have "failures ?t = failures s" by (rule ext) (simp add: failures_def)
  ultimately show ?thesis using assms by (auto simp: system_inv_def loss_books_def)
qed

lemma history_inv: "history cpus pa b s \<Longrightarrow> finite cpus \<Longrightarrow> system_inv cpus b s"
proof (induction rule: history.induct)
  case (user b s t)
  then show ?case
    by (simp add: system_inv_def books_def cpu_books_def loss_books_def failures_def user_write_def cpu_records_def)
qed (auto intro: system_inv_boot system_inv_entry system_inv_overtake)

end
