(* ===== verification/Trace_Integrity.thy ===== *)
theory Trace_Integrity
  imports Runtime_Stats Event_Decoder
begin

text \<open>
  The consumer's integrity tracker: \<^verbatim>\<open>cmd/strace-go/event_integrity.go\<close>, \<^verbatim>\<open>event_integrity_sequence.go\<close>,
  \<^verbatim>\<open>event_integrity_recovery.go\<close> and the sums of \<^verbatim>\<open>bpf_stats.go\<close>.  It watches the sequence numbers and the loss cell that
  every record carries and decides whether the stream is complete.

  Go's \<^verbatim>\<open>*traceSequenceGapGroup\<close> pointers, shared between the pieces of one gap, are indices into the list \<open>ti_groups\<close>
  (allocation appends to it).  The order in which \<^verbatim>\<open>range\<close> visits a Go map is not determined: the functions that range
  over a map take the visited keys as a list.  The objects behind \<^verbatim>\<open>traceHistoryInvalidator\<close> are the state \<open>ti_state\<close> and the
  function \<open>taint_history\<close>; the calls of \<^verbatim>\<open>notify\<close> are logged in
  \<open>ti_notices\<close>, with the snapshot before \<open>Snapshot\<close> adds the task counts.
\<close>

section \<open>Data\<close>

record trace_sequence_gap_group =
  grp_remaining :: u64
  grp_detected_record :: u64
  grp_previous_record :: u64
  grp_expected :: u64
  grp_observed :: u64
  grp_timestamp_ns :: u64
  grp_pid :: u32
  grp_tid :: u32
  grp_cpu :: u32
  grp_confirmed :: bool

record trace_sequence_gap =
  gap_first :: u64
  gap_last :: u64
  gap_group :: "nat option"

record trace_cpu_sequence =
  csq_sequence :: u64
  csq_record :: u64
  csq_gaps :: "trace_sequence_gap list"

record trace_sequence_observation =
  sqo_expected :: u64
  sqo_previous_record :: u64
  sqo_gap :: "nat option"
  sqo_invalid :: bool

record trace_task_integrity =
  tki_pid :: u32
  tki_epoch :: u64
  tki_clean :: bool
  tki_candidate :: bool
  tki_sys_id :: u32
  tki_enter_time :: u64
  tki_args :: args6

record trace_integrity_snapshot =
  snp_epoch :: u64
  snp_stream_gaps :: u64
  snp_estimated_lost :: u64
  snp_sequence_reorders :: u64
  snp_taint_transitions :: u64
  snp_recovered_domains :: u64
  snp_tainted_tasks :: u64
  snp_correlation_tainted_tasks :: u64
  snp_unobserved_tail :: u64
  snp_tainted_processes :: u64
  snp_domains :: "string list"
  snp_legacy_records :: u64
  snp_pid :: u32
  snp_tid :: u32
  snp_timestamp_ns :: u64
  snp_lost_count :: u64
  snp_tainted :: bool
  snp_scope :: string
  snp_reason :: string
  snp_detected_at_record :: u64
  snp_previous_cpu_record :: u64
  snp_cpu :: u32
  snp_expected_sequence :: u64
  snp_observed_sequence :: u64
  snp_loss_epoch :: u64
  snp_first_loss_time_ns :: u64
  snp_discontinuities :: u64

record 'st trace_integrity =
  ti_tasks :: "u32 \<rightharpoonup> trace_task_integrity"
  ti_cpus :: "u32 \<rightharpoonup> trace_cpu_sequence"
  ti_records :: u64
  ti_snapshot :: trace_integrity_snapshot
  ti_groups :: "trace_sequence_gap_group list"
  ti_state :: 'st
  ti_notices :: "trace_integrity_snapshot list"

text \<open>The fields of the envelope that the tracker fills.\<close>

record observed_envelope = trace_event_envelope +
  obs_record_index :: u64
  obs_tainted :: bool
  obs_integrity_epoch :: u64
  obs_correlation_tainted :: bool

definition zero_cpu_sequence :: trace_cpu_sequence where
  "zero_cpu_sequence = \<lparr>csq_sequence = 0, csq_record = 0, csq_gaps = []\<rparr>"

definition zero_task_integrity :: trace_task_integrity where
  "zero_task_integrity = \<lparr>tki_pid = 0, tki_epoch = 0, tki_clean = False, tki_candidate = False, tki_sys_id = 0,
     tki_enter_time = 0, tki_args = Args 0 0 0 0 0 0\<rparr>"

definition zero_snapshot :: trace_integrity_snapshot where
  "zero_snapshot = \<lparr>snp_epoch = 0, snp_stream_gaps = 0, snp_estimated_lost = 0, snp_sequence_reorders = 0,
     snp_taint_transitions = 0, snp_recovered_domains = 0, snp_tainted_tasks = 0, snp_correlation_tainted_tasks = 0,
     snp_unobserved_tail = 0, snp_tainted_processes = 0, snp_domains = [], snp_legacy_records = 0, snp_pid = 0,
     snp_tid = 0, snp_timestamp_ns = 0, snp_lost_count = 0, snp_tainted = False, snp_scope = ''session'',
     snp_reason = '''', snp_detected_at_record = 0, snp_previous_cpu_record = 0, snp_cpu = 0,
     snp_expected_sequence = 0, snp_observed_sequence = 0, snp_loss_epoch = 0, snp_first_loss_time_ns = 0,
     snp_discontinuities = 0\<rparr>"

definition newTraceIntegrity :: "'st \<Rightarrow> 'st trace_integrity" where
  "newTraceIntegrity st = \<lparr>ti_tasks = Map.empty, ti_cpus = Map.empty, ti_records = 0, ti_snapshot = zero_snapshot,
     ti_groups = [], ti_state = st, ti_notices = []\<rparr>"

definition snap :: "(trace_integrity_snapshot \<Rightarrow> trace_integrity_snapshot) \<Rightarrow> 'st trace_integrity \<Rightarrow> 'st trace_integrity" where
  "snap f i = i\<lparr>ti_snapshot := f (ti_snapshot i)\<rparr>"

definition set_cpu :: "u32 \<Rightarrow> trace_cpu_sequence \<Rightarrow> 'st trace_integrity \<Rightarrow> 'st trace_integrity" where
  "set_cpu c st i = i\<lparr>ti_cpus := (ti_cpus i)(c \<mapsto> st)\<rparr>"

definition set_group :: "nat \<Rightarrow> trace_sequence_gap_group \<Rightarrow> 'st trace_integrity \<Rightarrow> 'st trace_integrity" where
  "set_group g grp i = i\<lparr>ti_groups := (ti_groups i)[g := grp]\<rparr>"

abbreviation (input) traceSequenceForwardLimit :: u64 where "traceSequenceForwardLimit \<equiv> 0x8000000000000000"

section \<open>Sequence numbers\<close>

definition integrityTimestamp :: "'a trace_event_envelope_scheme \<Rightarrow> u64" where
  "integrityTimestamp ev = (if env_record_time ev \<noteq> 0 then env_record_time ev else env_enter_time ev)"

definition addSequenceGap :: "trace_cpu_sequence \<Rightarrow> 'a trace_event_envelope_scheme \<Rightarrow> u64 \<Rightarrow> u64 \<Rightarrow> 'st trace_integrity \<Rightarrow>
    nat \<times> trace_cpu_sequence \<times> 'st trace_integrity" where
  "addSequenceGap state ev expected delta i =
     (let g = length (ti_groups i);
          group = \<lparr>grp_remaining = delta, grp_detected_record = ti_records i, grp_previous_record = csq_record state,
            grp_expected = expected, grp_observed = env_seq ev, grp_timestamp_ns = integrityTimestamp ev,
            grp_pid = env_pid ev, grp_tid = env_tid ev, grp_cpu = env_cpu ev, grp_confirmed = False\<rparr>;
          last = env_seq ev - 1;
          gaps = (if expected \<le> last then [\<lparr>gap_first = expected, gap_last = last, gap_group = Some g\<rparr>]
                  else [\<lparr>gap_first = expected, gap_last = -1, gap_group = Some g\<rparr>,
                        \<lparr>gap_first = 0, gap_last = last, gap_group = Some g\<rparr>])
      in (g, state\<lparr>csq_gaps := csq_gaps state @ gaps\<rparr>,
          snap (\<lambda>sn. sn\<lparr>snp_stream_gaps := snp_stream_gaps sn + 1, snp_estimated_lost := snp_estimated_lost sn + delta,
            snp_lost_count := delta\<rparr>) (i\<lparr>ti_groups := ti_groups i @ [group]\<rparr>)))"

definition removeSequenceFromGap :: "trace_sequence_gap list \<Rightarrow> nat \<Rightarrow> u64 \<Rightarrow> trace_sequence_gap list" where
  "removeSequenceFromGap gaps index sequence =
     (let gap = gaps ! index
      in if gap_first gap = gap_last gap then take index gaps @ drop (Suc index) gaps
         else if sequence = gap_first gap then gaps[index := gap\<lparr>gap_first := gap_first gap + 1\<rparr>]
         else if sequence = gap_last gap then gaps[index := gap\<lparr>gap_last := gap_last gap - 1\<rparr>]
         else gaps[index := gap\<lparr>gap_last := sequence - 1\<rparr>] @
           [\<lparr>gap_first = sequence + 1, gap_last = gap_last gap, gap_group = gap_group gap\<rparr>])"

text \<open>The loop of \<^verbatim>\<open>resolveSequenceGap\<close> stops at the first gap that holds the number.\<close>

fun gap_index :: "u64 \<Rightarrow> trace_sequence_gap list \<Rightarrow> nat option" where
  "gap_index sequence [] = None"
| "gap_index sequence (gap # gaps) =
     (if sequence < gap_first gap \<or> sequence > gap_last gap then map_option Suc (gap_index sequence gaps) else Some 0)"

definition resolveSequenceGap :: "trace_cpu_sequence \<Rightarrow> u64 \<Rightarrow> 'st trace_integrity \<Rightarrow>
    bool \<times> trace_cpu_sequence \<times> 'st trace_integrity" where
  "resolveSequenceGap state sequence i =
     (case gap_index sequence (csq_gaps state) of
        None \<Rightarrow> (False, state, i)
      | Some index \<Rightarrow>
          let gap = csq_gaps state ! index;
              state' = state\<lparr>csq_gaps := removeSequenceFromGap (csq_gaps state) index sequence\<rparr>
          in case gap_group gap of
               None \<Rightarrow> (True, state', i)
             | Some g \<Rightarrow>
                 let group = ti_groups i ! g
                 in if grp_remaining group = 0 then (True, state', i)
                    else
                      let group' = group\<lparr>grp_remaining := grp_remaining group - 1\<rparr>;
                          i' = snap (\<lambda>sn. if snp_estimated_lost sn \<noteq> 0
                                 then sn\<lparr>snp_estimated_lost := snp_estimated_lost sn - 1\<rparr> else sn) (set_group g group' i)
                      in (True, state',
                          if grp_remaining group' = 0
                          then snap (\<lambda>sn. if snp_stream_gaps sn \<noteq> 0
                                 then sn\<lparr>snp_stream_gaps := snp_stream_gaps sn - 1\<rparr> else sn) i'
                          else i'))"

definition observeSequence :: "'a trace_event_envelope_scheme \<Rightarrow> 'st trace_integrity \<Rightarrow>
    trace_sequence_observation \<times> 'st trace_integrity" where
  "observeSequence ev i =
     (let state = (case ti_cpus i (env_cpu ev) of None \<Rightarrow> zero_cpu_sequence | Some state \<Rightarrow> state);
          expected = (case ti_cpus i (env_cpu ev) of None \<Rightarrow> 1 | Some state \<Rightarrow> csq_sequence state + 1);
          observation = \<lparr>sqo_expected = expected, sqo_previous_record = csq_record state, sqo_gap = None, sqo_invalid = False\<rparr>
      in if env_seq ev = expected
         then (observation, set_cpu (env_cpu ev) (state\<lparr>csq_sequence := env_seq ev, csq_record := ti_records i\<rparr>) i)
         else
           let i1 = snap (\<lambda>sn. sn\<lparr>snp_discontinuities := snp_discontinuities sn + 1\<rparr>) i;
               delta = env_seq ev - expected
           in if delta < traceSequenceForwardLimit
              then case addSequenceGap state ev expected delta i1 of (g, state', i2) \<Rightarrow>
                     (observation\<lparr>sqo_gap := Some g\<rparr>,
                      set_cpu (env_cpu ev) (state'\<lparr>csq_sequence := env_seq ev, csq_record := ti_records i\<rparr>) i2)
              else
                let i2 = snap (\<lambda>sn. sn\<lparr>snp_sequence_reorders := snp_sequence_reorders sn + 1\<rparr>) i1
                in case resolveSequenceGap state (env_seq ev) i2 of (found, state', i3) \<Rightarrow>
                     if found then (observation, set_cpu (env_cpu ev) state' i3)
                     else (observation\<lparr>sqo_invalid := True\<rparr>, i3))"

section \<open>Taint\<close>

definition observeLossTime :: "u64 \<Rightarrow> 'st trace_integrity \<Rightarrow> 'st trace_integrity" where
  "observeLossTime ns i =
     (if ns \<noteq> 0 \<and> (snp_first_loss_time_ns (ti_snapshot i) = 0 \<or> ns < snp_first_loss_time_ns (ti_snapshot i))
      then snap (\<lambda>sn. sn\<lparr>snp_first_loss_time_ns := ns\<rparr>) i else i)"

definition taintAt :: "('st \<Rightarrow> 'st) \<Rightarrow> string \<Rightarrow> u64 \<Rightarrow> 'st trace_integrity \<Rightarrow> 'st trace_integrity" where
  "taintAt taint_history reason detected_record i =
     (let first = \<not> snp_tainted (ti_snapshot i);
          i1 = snap (\<lambda>sn. sn\<lparr>snp_epoch := snp_epoch sn + 1, snp_taint_transitions := snp_taint_transitions sn + 1,
            snp_tainted := True, snp_reason := reason, snp_detected_at_record := detected_record\<rparr>) i;
          i2 = i1\<lparr>ti_state := taint_history (ti_state i1)\<rparr>
      in if first then i2\<lparr>ti_notices := ti_notices i2 @ [ti_snapshot i2]\<rparr> else i2)"

definition taint :: "('st \<Rightarrow> 'st) \<Rightarrow> string \<Rightarrow> 'st trace_integrity \<Rightarrow> 'st trace_integrity" where
  "taint taint_history reason i = taintAt taint_history reason (ti_records i) i"

definition InvalidRecord :: "('st \<Rightarrow> 'st) \<Rightarrow> 'st trace_integrity \<Rightarrow> 'st trace_integrity" where
  "InvalidRecord taint_history i = taint taint_history ''invalid_record'' (i\<lparr>ti_records := ti_records i + 1\<rparr>)"

definition setSequenceLocation :: "'a trace_event_envelope_scheme \<Rightarrow> trace_sequence_observation \<Rightarrow> 'st trace_integrity \<Rightarrow>
    'st trace_integrity" where
  "setSequenceLocation ev observation i = snap (\<lambda>sn. sn\<lparr>snp_cpu := env_cpu ev,
     snp_expected_sequence := sqo_expected observation, snp_observed_sequence := env_seq ev,
     snp_previous_cpu_record := sqo_previous_record observation, snp_pid := env_pid ev, snp_tid := env_tid ev,
     snp_timestamp_ns := integrityTimestamp ev\<rparr>) i"

definition setSequenceGapLocation :: "trace_sequence_gap_group \<Rightarrow> 'st trace_integrity \<Rightarrow> 'st trace_integrity" where
  "setSequenceGapLocation gap i = snap (\<lambda>sn. sn\<lparr>snp_cpu := grp_cpu gap, snp_expected_sequence := grp_expected gap,
     snp_observed_sequence := grp_observed gap, snp_previous_cpu_record := grp_previous_record gap,
     snp_pid := grp_pid gap, snp_tid := grp_tid gap, snp_timestamp_ns := grp_timestamp_ns gap,
     snp_detected_at_record := grp_detected_record gap, snp_lost_count := grp_remaining gap\<rparr>) i"

section \<open>Tasks\<close>

definition correlationTainted :: "u32 \<Rightarrow> 'st trace_integrity \<Rightarrow> bool" where
  "correlationTainted tid i =
     (if \<not> snp_tainted (ti_snapshot i) then False
      else case ti_tasks i tid of None \<Rightarrow> True
           | Some task \<Rightarrow> tki_epoch task \<noteq> snp_epoch (ti_snapshot i) \<or> \<not> tki_clean task)"

definition set_task :: "u32 \<Rightarrow> trace_task_integrity \<Rightarrow> 'st trace_integrity \<Rightarrow> 'st trace_integrity" where
  "set_task tid task i = i\<lparr>ti_tasks := (ti_tasks i)(tid \<mapsto> task)\<rparr>"

definition delete_task :: "u32 \<Rightarrow> 'st trace_integrity \<Rightarrow> 'st trace_integrity" where
  "delete_task tid i = i\<lparr>ti_tasks := (ti_tasks i)(tid := None)\<rparr>"

definition observeTaskLifecycle :: "'a trace_event_envelope_scheme \<Rightarrow> 'st trace_integrity \<Rightarrow> 'st trace_integrity" where
  "observeTaskLifecycle ev i =
     (let action = env_lifecycle_action ev;
          fresh = zero_task_integrity\<lparr>tki_epoch := snp_epoch (ti_snapshot i), tki_clean := \<not> snp_tainted (ti_snapshot i)\<rparr>
      in if action = LIFECYCLE_EXIT \<or> action = LIFECYCLE_FREE then delete_task (env_tid ev) i
         else if action = LIFECYCLE_EXEC then
           let tid = (if (ucast (arg1 (env_args ev)) :: u32) = 0 then env_tid ev else ucast (arg1 (env_args ev)))
           in set_task tid (fresh\<lparr>tki_pid := env_pid ev\<rparr>) (delete_task (ucast (arg0 (env_args ev))) i)
         else if action = LIFECYCLE_FORK then
           let child = (ucast (arg1 (env_args ev)) :: u32)
           in if child \<noteq> 0 then set_task child fresh i else i
         else i)"

definition is_generic_enter :: "'a trace_event_envelope_scheme \<Rightarrow> bool" where
  "is_generic_enter ev \<longleftrightarrow> env_event_type ev = EVENT_TYPE_ENTER \<and> has_flag (env_event_flags ev) EVENT_FLAG_GENERIC_ENTER"

definition is_enter_fragment :: "'a trace_event_envelope_scheme \<Rightarrow> bool" where
  "is_enter_fragment ev \<longleftrightarrow> env_event_type ev = EVENT_TYPE_ENTER \<and> has_flag (env_event_flags ev) EVENT_FLAG_ENTER_FRAGMENT"

definition is_exit :: "'a trace_event_envelope_scheme \<Rightarrow> bool" where
  "is_exit ev \<longleftrightarrow> env_event_type ev = EVENT_TYPE_EXIT"

definition is_exit_fragment :: "'a trace_event_envelope_scheme \<Rightarrow> bool" where
  "is_exit_fragment ev \<longleftrightarrow> is_exit ev \<and> has_flag (env_event_flags ev) EVENT_FLAG_EXIT_FRAGMENT"

definition observeTask :: "'a trace_event_envelope_scheme \<Rightarrow> 'st trace_integrity \<Rightarrow> 'st trace_integrity" where
  "observeTask ev i =
     (if env_tid ev = 0 then i
      else if env_event_type ev = EVENT_TYPE_LIFECYCLE then observeTaskLifecycle ev i
      else
        let task0 = (case ti_tasks i (env_tid ev) of None \<Rightarrow> zero_task_integrity | Some task \<Rightarrow> task);
            task1 = (if tki_epoch task0 \<noteq> snp_epoch (ti_snapshot i)
                     then zero_task_integrity\<lparr>tki_epoch := snp_epoch (ti_snapshot i)\<rparr> else task0);
            task2 = task1\<lparr>tki_pid := env_pid ev\<rparr>;
            task3 = (if \<not> snp_tainted (ti_snapshot i) then task2\<lparr>tki_clean := True\<rparr> else task2)
        in if is_generic_enter ev
           then set_task (env_tid ev) (task3\<lparr>tki_candidate := True, tki_sys_id := env_sys_id ev,
                  tki_enter_time := env_enter_time ev, tki_args := env_args ev\<rparr>) i
           else if is_exit ev \<and> \<not> is_exit_fragment ev then
             let matched = (tki_candidate task3 \<and> tki_sys_id task3 = env_sys_id ev \<and>
                   tki_enter_time task3 = env_enter_time ev \<and> tki_args task3 = env_args ev)
             in if matched \<and> \<not> tki_clean task3
                then set_task (env_tid ev) (task3\<lparr>tki_clean := True, tki_candidate := False\<rparr>)
                       (snap (\<lambda>sn. sn\<lparr>snp_recovered_domains := snp_recovered_domains sn + 1\<rparr>) i)
                else set_task (env_tid ev) (task3\<lparr>tki_candidate := False\<rparr>) i
           else set_task (env_tid ev) task3 i)"

section \<open>One record\<close>

definition marked :: "trace_event_envelope \<Rightarrow> 'st trace_integrity \<Rightarrow> observed_envelope" where
  "marked ev i = trace_event_envelope.extend ev \<lparr>obs_record_index = ti_records i, obs_tainted = snp_tainted (ti_snapshot i),
     obs_integrity_epoch = snp_epoch (ti_snapshot i), obs_correlation_tainted = correlationTainted (env_tid ev) i\<rparr>"

definition confirm_gap :: "nat option \<Rightarrow> 'st trace_integrity \<Rightarrow> 'st trace_integrity" where
  "confirm_gap gap i = (case gap of None \<Rightarrow> i | Some g \<Rightarrow> set_group g ((ti_groups i ! g)\<lparr>grp_confirmed := True\<rparr>) i)"

definition Observe :: "('st \<Rightarrow> 'st) \<Rightarrow> trace_event_envelope \<Rightarrow> 'st trace_integrity \<Rightarrow> observed_envelope \<times> 'st trace_integrity" where
  "Observe taint_history ev i =
     (let i0 = i\<lparr>ti_records := ti_records i + 1\<rparr>
      in if env_legacy_integrity ev
         then let i1 = snap (\<lambda>sn. sn\<lparr>snp_legacy_records := snp_legacy_records sn + 1\<rparr>) i0 in (marked ev i1, i1)
         else
           case observeSequence ev (snap (\<lambda>sn. sn\<lparr>snp_lost_count := 0\<rparr>) i0) of (sequence, i1) \<Rightarrow>
           let new_loss = (env_loss_epoch ev > snp_loss_epoch (ti_snapshot i1));
               i2 = (if new_loss then snap (\<lambda>sn. sn\<lparr>snp_loss_epoch := env_loss_epoch ev\<rparr>) i1 else i1);
               i3 = observeLossTime (env_loss_time_ns ev) i2;
               producer_loss = (new_loss \<or> (env_loss_time_ns ev \<noteq> 0 \<and> \<not> snp_tainted (ti_snapshot i3)));
               i4 = (if producer_loss then confirm_gap (sqo_gap sequence) i3 else i3);
               reason = (if producer_loss then ''producer_loss''
                         else if sqo_invalid sequence then ''sequence_discontinuity'' else '''');
               i5 = (if reason \<noteq> '''' then taint taint_history reason (setSequenceLocation ev sequence i4) else i4);
               i6 = observeTask ev i5
           in (marked ev i6, i6))"

section \<open>The end of a session\<close>

record bpf_runtime_stats =
  brs_integrity_first_time_ns :: u64
  brs_event_sequences :: "u64 list"
  brs_ringbuf_reserve_fail :: u64
  brs_ringbuf_copy_fail :: u64
  brs_payload_truncated_events :: u64
  brs_pending_update_fail :: u64
  brs_orphan_exit :: u64
  brs_orphan_first_pid :: u64
  brs_orphan_first_tid :: u64
  brs_orphan_first_sys_id :: u64
  brs_orphan_first_ret :: s64
  brs_orphan_first_reason :: u64
  brs_orphan_first_time_ns :: u64
  brs_orphan_last_pid :: u64
  brs_orphan_last_tid :: u64
  brs_orphan_last_sys_id :: u64
  brs_orphan_last_ret :: s64
  brs_orphan_last_reason :: u64
  brs_orphan_last_time_ns :: u64
  brs_pending_mismatch :: u64
  brs_lifecycle_map_update_fail :: u64
  brs_lifecycle_fork_seen :: u64
  brs_lifecycle_fork_tracked :: u64
  brs_lifecycle_fork_untracked :: u64
  brs_lifecycle_fork_installed :: u64
  brs_lifecycle_fork_failed :: u64
  brs_lifecycle_exec_seen :: u64
  brs_lifecycle_exec_untracked :: u64
  brs_lifecycle_exit_seen :: u64
  brs_lifecycle_exit_untracked :: u64
  brs_available :: bool
  brs_error :: string

definition unavailableBPFStats :: "string \<Rightarrow> bpf_runtime_stats" where
  "unavailableBPFStats message = \<lparr>brs_integrity_first_time_ns = 0, brs_event_sequences = [], brs_ringbuf_reserve_fail = 0,
     brs_ringbuf_copy_fail = 0, brs_payload_truncated_events = 0, brs_pending_update_fail = 0, brs_orphan_exit = 0,
     brs_orphan_first_pid = 0, brs_orphan_first_tid = 0, brs_orphan_first_sys_id = 0, brs_orphan_first_ret = 0,
     brs_orphan_first_reason = 0, brs_orphan_first_time_ns = 0, brs_orphan_last_pid = 0, brs_orphan_last_tid = 0,
     brs_orphan_last_sys_id = 0, brs_orphan_last_ret = 0, brs_orphan_last_reason = 0, brs_orphan_last_time_ns = 0,
     brs_pending_mismatch = 0, brs_lifecycle_map_update_fail = 0, brs_lifecycle_fork_seen = 0,
     brs_lifecycle_fork_tracked = 0, brs_lifecycle_fork_untracked = 0, brs_lifecycle_fork_installed = 0,
     brs_lifecycle_fork_failed = 0, brs_lifecycle_exec_seen = 0, brs_lifecycle_exec_untracked = 0,
     brs_lifecycle_exit_seen = 0, brs_lifecycle_exit_untracked = 0, brs_available = False, brs_error = message\<rparr>"

definition add_orphans :: "bpf_stats \<Rightarrow> bpf_runtime_stats \<Rightarrow> bpf_runtime_stats" where
  "add_orphans v stats =
     (let s1 = (if st_orphan_first_time_ns v > 0 \<and>
              (brs_orphan_first_time_ns stats = 0 \<or> st_orphan_first_time_ns v < brs_orphan_first_time_ns stats)
            then stats\<lparr>brs_orphan_first_pid := st_orphan_first_pid v, brs_orphan_first_tid := st_orphan_first_tid v,
              brs_orphan_first_sys_id := st_orphan_first_sys_id v, brs_orphan_first_ret := st_orphan_first_ret v,
              brs_orphan_first_reason := st_orphan_first_reason v, brs_orphan_first_time_ns := st_orphan_first_time_ns v\<rparr>
            else stats)
      in if st_orphan_last_time_ns v > brs_orphan_last_time_ns s1
         then s1\<lparr>brs_orphan_last_pid := st_orphan_last_pid v, brs_orphan_last_tid := st_orphan_last_tid v,
              brs_orphan_last_sys_id := st_orphan_last_sys_id v, brs_orphan_last_ret := st_orphan_last_ret v,
              brs_orphan_last_reason := st_orphan_last_reason v, brs_orphan_last_time_ns := st_orphan_last_time_ns v\<rparr>
         else s1)"

definition add_cpu_stats :: "bpf_stats \<Rightarrow> bpf_runtime_stats \<Rightarrow> bpf_runtime_stats" where
  "add_cpu_stats v stats =
     (let s1 = stats\<lparr>brs_event_sequences := brs_event_sequences stats @ [st_event_seq v]\<rparr>;
          s2 = (if st_integrity_first_time_ns v \<noteq> 0 \<and> (brs_integrity_first_time_ns s1 = 0 \<or>
                    st_integrity_first_time_ns v < brs_integrity_first_time_ns s1)
                then s1\<lparr>brs_integrity_first_time_ns := st_integrity_first_time_ns v\<rparr> else s1);
          s3 = add_orphans v s2
      in s3\<lparr>
        brs_ringbuf_reserve_fail := brs_ringbuf_reserve_fail s3 + st_ringbuf_reserve_fail v,
        brs_ringbuf_copy_fail := brs_ringbuf_copy_fail s3 + st_ringbuf_copy_fail v,
        brs_payload_truncated_events := brs_payload_truncated_events s3 + st_payload_truncated_events v,
        brs_pending_update_fail := brs_pending_update_fail s3 + st_pending_update_fail v,
        brs_orphan_exit := brs_orphan_exit s3 + st_orphan_exit v,
        brs_pending_mismatch := brs_pending_mismatch s3 + st_pending_mismatch v,
        brs_lifecycle_map_update_fail := brs_lifecycle_map_update_fail s3 + st_lifecycle_map_update_fail v,
        brs_lifecycle_fork_seen := brs_lifecycle_fork_seen s3 + st_lifecycle_fork_seen v,
        brs_lifecycle_fork_tracked := brs_lifecycle_fork_tracked s3 + st_lifecycle_fork_parent_tracked v,
        brs_lifecycle_fork_untracked := brs_lifecycle_fork_untracked s3 + st_lifecycle_fork_parent_untracked v,
        brs_lifecycle_fork_installed := brs_lifecycle_fork_installed s3 + st_lifecycle_fork_child_filter_installed v,
        brs_lifecycle_fork_failed := brs_lifecycle_fork_failed s3 + st_lifecycle_fork_child_filter_failed v,
        brs_lifecycle_exec_seen := brs_lifecycle_exec_seen s3 + st_lifecycle_exec_seen v,
        brs_lifecycle_exec_untracked := brs_lifecycle_exec_untracked s3 + st_lifecycle_exec_untracked v,
        brs_lifecycle_exit_seen := brs_lifecycle_exit_seen s3 + st_lifecycle_exit_seen v,
        brs_lifecycle_exit_untracked := brs_lifecycle_exit_untracked s3 + st_lifecycle_exit_untracked v\<rparr>)"

definition sumBPFStatsValues :: "bpf_stats list \<Rightarrow> bpf_runtime_stats" where
  "sumBPFStatsValues values = fold add_cpu_stats values ((unavailableBPFStats '''')\<lparr>brs_available := True\<rparr>)"

definition unresolved_of :: "'st trace_integrity \<Rightarrow> trace_sequence_gap \<Rightarrow> trace_sequence_gap_group option \<Rightarrow>
    trace_sequence_gap_group option" where
  "unresolved_of i gap first =
     (case gap_group gap of None \<Rightarrow> first
      | Some g \<Rightarrow>
          let group = ti_groups i ! g
          in if grp_remaining group = 0 then first
             else case first of None \<Rightarrow> Some group
                  | Some f \<Rightarrow> if grp_detected_record group < grp_detected_record f then Some group else Some f)"

definition cpu_gaps :: "'st trace_integrity \<Rightarrow> u32 \<Rightarrow> trace_sequence_gap list" where
  "cpu_gaps i c = (case ti_cpus i c of None \<Rightarrow> [] | Some state \<Rightarrow> csq_gaps state)"

definition firstUnresolvedSequenceGap :: "u32 list \<Rightarrow> 'st trace_integrity \<Rightarrow> trace_sequence_gap_group option" where
  "firstUnresolvedSequenceGap order i = fold (unresolved_of i) (concat (map (cpu_gaps i) order)) None"

definition discardSequenceGapGroup :: "nat option \<Rightarrow> nat set \<times> 'st trace_integrity \<Rightarrow> nat set \<times> 'st trace_integrity" where
  "discardSequenceGapGroup ptr st = (case st of (gone, i) \<Rightarrow>
     (case ptr of None \<Rightarrow> (gone, i)
      | Some g \<Rightarrow>
          if g \<in> gone then (gone, i)
          else
            let left = grp_remaining (ti_groups i ! g)
            in (insert g gone,
                snap (\<lambda>sn. if left \<le> snp_estimated_lost sn then sn\<lparr>snp_estimated_lost := snp_estimated_lost sn - left\<rparr>
                   else sn\<lparr>snp_estimated_lost := 0\<rparr>)
                (snap (\<lambda>sn. if snp_stream_gaps sn \<noteq> 0 then sn\<lparr>snp_stream_gaps := snp_stream_gaps sn - 1\<rparr> else sn) i))))"

definition gap_confirmed :: "'st trace_integrity \<Rightarrow> trace_sequence_gap \<Rightarrow> bool" where
  "gap_confirmed i gap = (case gap_group gap of None \<Rightarrow> False | Some g \<Rightarrow> grp_confirmed (ti_groups i ! g))"

definition abandon_cpu :: "u32 \<Rightarrow> nat set \<times> 'st trace_integrity \<Rightarrow> nat set \<times> 'st trace_integrity" where
  "abandon_cpu c st =
     (case ti_cpus (snd st) c of None \<Rightarrow> st
      | Some state \<Rightarrow>
          let kept = filter (gap_confirmed (snd st)) (csq_gaps state);
              (gone, i) = fold (\<lambda>gap. discardSequenceGapGroup (gap_group gap))
                 (filter (\<lambda>gap. \<not> gap_confirmed (snd st) gap) (csq_gaps state)) st
          in (gone, set_cpu c (state\<lparr>csq_gaps := kept\<rparr>) i))"

definition detectedSequenceGapLostCount :: "u32 list \<Rightarrow> 'st trace_integrity \<Rightarrow> u64" where
  "detectedSequenceGapLostCount order i =
     (case filter (\<lambda>gap. case gap_group gap of None \<Rightarrow> False
             | Some g \<Rightarrow> grp_detected_record (ti_groups i ! g) = snp_detected_at_record (ti_snapshot i))
           (concat (map (cpu_gaps i) order)) of
        [] \<Rightarrow> 0
      | gap # _ \<Rightarrow> grp_remaining (ti_groups i ! the (gap_group gap)))"

definition abandonUnconfirmedSequenceGaps :: "u32 list \<Rightarrow> 'st trace_integrity \<Rightarrow> 'st trace_integrity" where
  "abandonUnconfirmedSequenceGaps order i =
     (let i1 = snd (fold abandon_cpu order ({}, i))
      in snap (\<lambda>sn. sn\<lparr>snp_lost_count := detectedSequenceGapLostCount order i1\<rparr>) i1)"

fun count_tail :: "nat \<Rightarrow> u64 list \<Rightarrow> bool \<times> 'st trace_integrity \<Rightarrow> bool \<times> 'st trace_integrity" where
  "count_tail cpu [] st = st"
| "count_tail cpu (sequence # rest) (tail, i) =
     (let delta = sequence - (case ti_cpus i (of_nat cpu) of None \<Rightarrow> 0 | Some state \<Rightarrow> csq_sequence state)
      in count_tail (Suc cpu) rest
           (if delta \<noteq> 0 \<and> delta < traceSequenceForwardLimit
            then (True, snap (\<lambda>sn. sn\<lparr>snp_unobserved_tail := snp_unobserved_tail sn + delta\<rparr>) i)
            else (tail, i)))"

definition producer_failed :: "bpf_runtime_stats \<Rightarrow> bool" where
  "producer_failed stats \<longleftrightarrow> brs_integrity_first_time_ns stats \<noteq> 0 \<or> brs_ringbuf_reserve_fail stats \<noteq> 0 \<or>
     brs_ringbuf_copy_fail stats \<noteq> 0 \<or> brs_pending_update_fail stats \<noteq> 0 \<or> brs_pending_mismatch stats \<noteq> 0 \<or>
     brs_lifecycle_map_update_fail stats \<noteq> 0 \<or> brs_lifecycle_fork_failed stats \<noteq> 0"

definition finalize :: "('st \<Rightarrow> 'st) \<Rightarrow> u32 list \<Rightarrow> bpf_runtime_stats \<Rightarrow> 'st trace_integrity \<Rightarrow> 'st trace_integrity" where
  "finalize taint_history order stats i =
     (let i1 = observeLossTime (brs_integrity_first_time_ns stats) i
      in if \<not> brs_available stats then taint taint_history ''final_stats_unavailable'' i1
         else
           let i2 = (if \<not> snp_tainted (ti_snapshot i1) \<and> producer_failed stats
                     then taint taint_history ''producer_loss_at_finalization'' i1 else i1);
               i3 = (case firstUnresolvedSequenceGap order i2 of None \<Rightarrow> i2
                     | Some gap \<Rightarrow> if \<not> snp_tainted (ti_snapshot i2)
                         then taintAt taint_history ''sequence_gap_at_finalization'' (grp_detected_record gap)
                                (setSequenceGapLocation gap i2)
                         else i2);
               (tail, i4) = count_tail 0 (brs_event_sequences stats) (False, i3)
           in if tail then taint taint_history ''sequence_tail_at_finalization'' i4 else i4)"

definition FinalizeAtIntentionalStop :: "u32 list \<Rightarrow> 'st trace_integrity \<Rightarrow> 'st trace_integrity" where
  "FinalizeAtIntentionalStop order i = abandonUnconfirmedSequenceGaps order i"

definition Snapshot :: "u32 list \<Rightarrow> 'st trace_integrity \<Rightarrow> trace_integrity_snapshot" where
  "Snapshot order i =
     (let snapshot = ti_snapshot i
      in if \<not> snp_tainted snapshot then snapshot
         else
           let pids = filter (\<lambda>p. p \<noteq> 0) (map (\<lambda>tid. case ti_tasks i tid of None \<Rightarrow> 0 | Some task \<Rightarrow> tki_pid task) order);
               unsure = filter (\<lambda>tid. correlationTainted tid i) order
           in snapshot\<lparr>snp_tainted_tasks := snp_tainted_tasks snapshot + of_nat (length order),
                snp_correlation_tainted_tasks := snp_correlation_tainted_tasks snapshot + of_nat (length unsure),
                snp_tainted_processes := of_nat (length (remdups pids)),
                snp_domains := [''fd_state'', ''lifecycle'', ''output_state''] @
                  (if snp_correlation_tainted_tasks snapshot + of_nat (length unsure) \<noteq> 0
                   then [''syscall_correlation''] else [])\<rparr>)"

end
