(* ===== verification/Integrity_Tracking.thy ===== *)
theory Integrity_Tracking
  imports Trace_Integrity
begin

text \<open>
  What the integrity tracker computes.  The gap list of a CPU represents the set of numbers that are missing below the
  highest one seen; the counters of the snapshot are the sizes of these sets.  The order in which records arrive does not
  matter.
\<close>

section \<open>Gap lists as sets\<close>

definition gap_nums :: "trace_sequence_gap \<Rightarrow> nat set" where
  "gap_nums g = {unat (gap_first g)..unat (gap_last g)}"

definition missing :: "trace_sequence_gap list \<Rightarrow> nat set" where
  "missing gaps = (\<Union>g\<in>set gaps. gap_nums g)"

definition gaps_ok :: "trace_sequence_gap list \<Rightarrow> bool" where
  "gaps_ok gaps \<longleftrightarrow> (\<forall>g\<in>set gaps. gap_first g \<le> gap_last g) \<and>
     sorted_wrt (\<lambda>g h. gap_nums g \<inter> gap_nums h = {}) gaps"

definition held_by :: "nat option \<Rightarrow> trace_sequence_gap list \<Rightarrow> nat" where
  "held_by p gaps = (\<Sum>g\<leftarrow>gaps. if gap_group g = p then card (gap_nums g) else 0)"

lemma missing_simps [simp]:
  "missing [] = {}" "missing (g # gaps) = gap_nums g \<union> missing gaps" "missing (xs @ ys) = missing xs \<union> missing ys"
  by (auto simp: missing_def)

lemma finite_missing [simp]: "finite (missing gaps)"
  by (auto simp: missing_def gap_nums_def)

lemma held_by_simps [simp]:
  "held_by p [] = 0" "held_by p (xs @ ys) = held_by p xs + held_by p ys"
  "held_by p (g # gaps) = (if gap_group g = p then card (gap_nums g) else 0) + held_by p gaps"
  by (simp_all add: held_by_def)

lemma gaps_ok_append:
  "gaps_ok (xs @ ys) \<longleftrightarrow> gaps_ok xs \<and> gaps_ok ys \<and> missing xs \<inter> missing ys = {}"
  by (auto simp: gaps_ok_def sorted_wrt_append missing_def)

lemma gaps_ok_one [simp]: "gaps_ok [] " "gaps_ok [g] \<longleftrightarrow> gap_first g \<le> gap_last g"
  by (simp_all add: gaps_ok_def)

lemma gaps_ok_Cons: "gaps_ok (g # gaps) \<longleftrightarrow> gap_first g \<le> gap_last g \<and> gaps_ok gaps \<and> gap_nums g \<inter> missing gaps = {}"
  using gaps_ok_append [of "[g]" gaps] by simp

text \<open>A number below the highest one that was not seen is found, in exactly one gap.\<close>

lemma gap_index_None: "gap_index q gaps = None \<longleftrightarrow> unat q \<notin> missing gaps"
  by (induction gaps) (auto simp: gap_nums_def word_less_nat_alt)

lemma gap_index_Some:
  "gap_index q gaps = Some n \<Longrightarrow>
     \<exists>xs g ys. gaps = xs @ g # ys \<and> length xs = n \<and> unat q \<in> gap_nums g"
proof (induction gaps arbitrary: n)
  case (Cons g gaps)
  show ?case
  proof (cases "unat q \<in> gap_nums g")
    case True
    then have "n = 0" using Cons.prems by (auto simp: gap_nums_def word_less_nat_alt split: if_splits)
    then show ?thesis using True by (intro exI [of _ "[]"]) auto
  next
    case False
    then obtain m where "gap_index q gaps = Some m" "n = Suc m"
      using Cons.prems by (auto simp: gap_nums_def word_less_nat_alt split: if_splits)
    with Cons.IH [of m] obtain xs h ys where "gaps = xs @ h # ys" "length xs = m" "unat q \<in> gap_nums h" by auto
    then show ?thesis using \<open>n = Suc m\<close> by (intro exI [of _ "g # xs"]) auto
  qed
qed simp

text \<open>Taking one number out of a gap leaves at most two pieces: one in its place and one at the end of the list.\<close>

definition rest_in_place :: "u64 \<Rightarrow> trace_sequence_gap \<Rightarrow> trace_sequence_gap list" where
  "rest_in_place q g =
     (if gap_first g = gap_last g then []
      else if q = gap_first g then [g\<lparr>gap_first := gap_first g + 1\<rparr>]
      else if q = gap_last g then [g\<lparr>gap_last := gap_last g - 1\<rparr>]
      else [g\<lparr>gap_last := q - 1\<rparr>])"

definition rest_at_end :: "u64 \<Rightarrow> trace_sequence_gap \<Rightarrow> trace_sequence_gap list" where
  "rest_at_end q g =
     (if gap_first g = gap_last g \<or> q = gap_first g \<or> q = gap_last g then []
      else [\<lparr>gap_first = q + 1, gap_last = gap_last g, gap_group = gap_group g\<rparr>])"

lemma remove_form:
  "removeSequenceFromGap (xs @ g # ys) (length xs) q = xs @ rest_in_place q g @ ys @ rest_at_end q g"
  by (simp add: removeSequenceFromGap_def rest_in_place_def rest_at_end_def Let_def list_update_append)

lemma unat_pred: "x \<noteq> 0 \<Longrightarrow> unat (x - 1 :: u64) = unat x - 1"
  by (simp add: unat_minus_one)

lemma unat_succ: "x < y \<Longrightarrow> unat (x + 1 :: u64) = unat x + 1"
proof -
  assume "x < y"
  then have "unat x < unat y" by (simp add: word_less_nat_alt)
  moreover have "unat y < 2 ^ 64" using unsigned_less [of y] by simp
  ultimately have "unat x + 1 < 2 ^ 64" by simp
  then show ?thesis by (simp add: unat_add_lem [THEN iffD1])
qed

lemma pieces:
  assumes "unat q \<in> gap_nums g"
  shows "gaps_ok (rest_in_place q g @ rest_at_end q g)"
    and "missing (rest_in_place q g @ rest_at_end q g) = gap_nums g - {unat q}"
    and "held_by p (rest_in_place q g @ rest_at_end q g) = (if gap_group g = p then card (gap_nums g) - 1 else 0)"
    and "\<forall>h\<in>set (rest_in_place q g @ rest_at_end q g). gap_group h = gap_group g"
proof -
  have q: "unat (gap_first g) \<le> unat q" "unat q \<le> unat (gap_last g)" using assms by (auto simp: gap_nums_def)
  consider (one) "gap_first g = gap_last g" | (low) "gap_first g \<noteq> gap_last g" "q = gap_first g"
    | (high) "q \<noteq> gap_first g" "q = gap_last g" "gap_first g \<noteq> gap_last g"
    | (mid) "q \<noteq> gap_first g" "q \<noteq> gap_last g" "gap_first g \<noteq> gap_last g" by blast
  then have "gaps_ok (rest_in_place q g @ rest_at_end q g) \<and>
     missing (rest_in_place q g @ rest_at_end q g) = gap_nums g - {unat q} \<and>
     held_by p (rest_in_place q g @ rest_at_end q g) = (if gap_group g = p then card (gap_nums g) - 1 else 0) \<and>
     (\<forall>h\<in>set (rest_in_place q g @ rest_at_end q g). gap_group h = gap_group g)"
  proof cases
    case one
    then show ?thesis using q by (auto simp: rest_in_place_def rest_at_end_def gap_nums_def)
  next
    case low
    then have less: "q < gap_last g" using q by (auto simp: word_less_nat_alt word_unat_eq_iff)
    have "unat (q + 1) = unat q + 1" using unat_succ [OF less] .
    then show ?thesis
      using low less q by (auto simp: rest_in_place_def rest_at_end_def gap_nums_def word_le_nat_alt word_less_nat_alt)
  next
    case high
    then have less: "gap_first g < q" using q by (auto simp: word_less_nat_alt word_unat_eq_iff)
    then have "unat (q - 1) = unat q - 1" by (intro unat_pred) auto
    then show ?thesis
      using high less q by (auto simp: rest_in_place_def rest_at_end_def gap_nums_def word_le_nat_alt word_less_nat_alt)
  next
    case mid
    then have less: "gap_first g < q" "q < gap_last g" using q by (auto simp: word_less_nat_alt word_unat_eq_iff)
    have u: "unat (q - 1) = unat q - 1" using less(1) by (intro unat_pred) auto
    have u': "unat (q + 1) = unat q + 1" using unat_succ [OF less(2)] .
    have l: "unat (gap_first g) < unat q" "unat q < unat (gap_last g)" using less by (simp_all add: word_less_nat_alt)
    then show ?thesis
      using mid u u' by (auto simp: rest_in_place_def rest_at_end_def gap_nums_def gaps_ok_Cons word_le_nat_alt)
  qed
  then show "gaps_ok (rest_in_place q g @ rest_at_end q g)"
    and "missing (rest_in_place q g @ rest_at_end q g) = gap_nums g - {unat q}"
    and "held_by p (rest_in_place q g @ rest_at_end q g) = (if gap_group g = p then card (gap_nums g) - 1 else 0)"
    and "\<forall>h\<in>set (rest_in_place q g @ rest_at_end q g). gap_group h = gap_group g" by auto
qed

lemma remove_sequence:
  assumes "gaps_ok gaps" "gap_index q gaps = Some n"
  shows "gaps_ok (removeSequenceFromGap gaps n q)"
    and "missing (removeSequenceFromGap gaps n q) = missing gaps - {unat q}"
    and "held_by p gaps = held_by p (removeSequenceFromGap gaps n q) + (if gap_group (gaps ! n) = p then 1 else 0)"
    and "set (map gap_group (removeSequenceFromGap gaps n q)) \<subseteq> set (map gap_group gaps)"
proof -
  obtain xs g ys where s: "gaps = xs @ g # ys" "length xs = n" "unat q \<in> gap_nums g"
    using gap_index_Some [OF assms(2)] by blast
  have r: "removeSequenceFromGap gaps n q = xs @ rest_in_place q g @ ys @ rest_at_end q g"
    using remove_form [of xs g ys q] s by simp
  note p = pieces [OF s(3)]
  have ok: "gaps_ok xs" "gaps_ok ys" "missing xs \<inter> gap_nums g = {}" "missing xs \<inter> missing ys = {}" "gap_nums g \<inter> missing ys = {}"
    using assms(1) by (auto simp: s(1) gaps_ok_append gaps_ok_Cons)
  have pm: "missing (rest_in_place q g) \<subseteq> gap_nums g" "missing (rest_at_end q g) \<subseteq> gap_nums g" using p(2) by auto
  show "gaps_ok (removeSequenceFromGap gaps n q)"
    using ok p(1) pm unfolding r by (auto simp: gaps_ok_append)
  show "missing (removeSequenceFromGap gaps n q) = missing gaps - {unat q}"
    using ok p(2) s(3) unfolding r unfolding s(1) by auto
  have "0 < card (gap_nums g)" using s(3) by (auto simp: card_gt_0_iff gap_nums_def)
  then show "held_by p gaps = held_by p (removeSequenceFromGap gaps n q) + (if gap_group (gaps ! n) = p then 1 else 0)" for p
    using pieces(3) [OF s(3), of p] s(2) unfolding r unfolding s(1) by (auto simp: nth_append)
  show "set (map gap_group (removeSequenceFromGap gaps n q)) \<subseteq> set (map gap_group gaps)"
    using p(4) unfolding r unfolding s(1) by auto
qed

lemma held_sum:
  assumes "gaps_ok gaps" "gap_group ` set gaps \<subseteq> Some ` {..<n}"
  shows "(\<Sum>g<n. held_by (Some g) gaps) = card (missing gaps)"
  using assms
proof (induction gaps)
  case (Cons h gaps)
  then obtain g where g: "gap_group h = Some g" "g < n" by auto
  have "(\<Sum>x<n. held_by (Some x) (h # gaps)) = (\<Sum>x<n. if x = g then card (gap_nums h) else 0) + (\<Sum>x<n. held_by (Some x) gaps)"
    using g(1) unfolding sum.distrib [symmetric] by (intro sum.cong) auto
  also have "\<dots> = card (gap_nums h) + card (missing gaps)"
    using Cons g by (simp add: gaps_ok_Cons)
  also have "\<dots> = card (missing (h # gaps))"
    using Cons.prems(1) by (simp add: gaps_ok_Cons card_Un_disjoint gap_nums_def)
  finally show ?case .
qed simp


section \<open>The invariant\<close>

definition highest :: "nat set \<Rightarrow> nat" where
  "highest S = Max (insert 0 S)"

definition cpu_state :: "'st trace_integrity \<Rightarrow> u32 \<Rightarrow> trace_cpu_sequence" where
  "cpu_state i c = (case ti_cpus i c of None \<Rightarrow> zero_cpu_sequence | Some state \<Rightarrow> state)"

text \<open>The numbers seen on every CPU are so few that no counter wraps.\<close>

definition low :: "(u32 \<Rightarrow> nat set) \<Rightarrow> bool" where
  "low seen \<longleftrightarrow> (\<forall>c. finite (seen c) \<and> 0 \<notin> seen c) \<and> (\<Sum>c\<in>UNIV. highest (seen c)) < 2 ^ 63"

definition cpu_tracks :: "nat \<Rightarrow> nat set \<Rightarrow> trace_cpu_sequence \<Rightarrow> bool" where
  "cpu_tracks n S state \<longleftrightarrow> csq_sequence state = of_nat (highest S) \<and> gaps_ok (csq_gaps state) \<and>
     missing (csq_gaps state) = {1..highest S} - S \<and> gap_group ` set (csq_gaps state) \<subseteq> Some ` {..<n}"

definition held :: "'st trace_integrity \<Rightarrow> nat \<Rightarrow> nat" where
  "held i g = (\<Sum>c\<in>UNIV. held_by (Some g) (cpu_gaps i c))"

definition lost :: "'st trace_integrity \<Rightarrow> nat" where
  "lost i = (\<Sum>c\<in>UNIV. card (missing (cpu_gaps i c)))"

definition open_groups :: "'st trace_integrity \<Rightarrow> nat set" where
  "open_groups i = {g. g < length (ti_groups i) \<and> grp_remaining (ti_groups i ! g) \<noteq> 0}"

definition tracking :: "(u32 \<Rightarrow> nat set) \<Rightarrow> 'st trace_integrity \<Rightarrow> bool" where
  "tracking seen i \<longleftrightarrow> low seen \<and> (\<forall>c. cpu_tracks (length (ti_groups i)) (seen c) (cpu_state i c)) \<and>
     (\<forall>g<length (ti_groups i). grp_remaining (ti_groups i ! g) = of_nat (held i g)) \<and>
     snp_estimated_lost (ti_snapshot i) = of_nat (lost i) \<and>
     snp_stream_gaps (ti_snapshot i) = of_nat (card (open_groups i))"

lemma cpu_gaps_state: "cpu_gaps i c = csq_gaps (cpu_state i c)"
  by (simp add: cpu_gaps_def cpu_state_def zero_cpu_sequence_def split: option.split)

lemma expected_state:
  "(case ti_cpus i c of None \<Rightarrow> 1 | Some state \<Rightarrow> csq_sequence state + 1) = csq_sequence (cpu_state i c) + 1"
  by (simp add: cpu_state_def zero_cpu_sequence_def split: option.split)

lemma observeSequence_state:
  "observeSequence ev i =
     (let state = cpu_state i (env_cpu ev);
          expected = csq_sequence state + 1;
          observation = \<lparr>sqo_expected = expected, sqo_previous_record = csq_record state, sqo_gap = None, sqo_invalid = False\<rparr>
      in if env_seq ev = expected
         then (observation, set_cpu (env_cpu ev) (state\<lparr>csq_sequence := env_seq ev, csq_record := ti_records i\<rparr>) i)
         else
           let i1 = snap (\<lambda>sn. sn\<lparr>snp_discontinuities := snp_discontinuities sn + 1\<rparr>) i;
               delta = env_seq ev - expected
           in if delta < traceSequenceForwardLimit
              then case addSequenceGap state ev expected delta i1 of (g, state', i2) \<Rightarrow>
                     (observation\<lparr>sqo_gap := Some g\<rparr>,
                      set_cpu (env_cpu ev) (state'\<lparr>csq_sequence := env_seq ev, csq_record := ti_records i\<rparr>) i2)
              else
                let i2 = snap (\<lambda>sn. sn\<lparr>snp_sequence_reorders := snp_sequence_reorders sn + 1\<rparr>) i1
                in case resolveSequenceGap state (env_seq ev) i2 of (found, state', i3) \<Rightarrow>
                     if found then (observation, set_cpu (env_cpu ev) state' i3)
                     else (observation\<lparr>sqo_invalid := True\<rparr>, i3))"
  by (simp only: observeSequence_def expected_state cpu_state_def [symmetric] Let_def)

lemma highest_insert: "finite S \<Longrightarrow> highest (insert q S) = max q (highest S)"
  unfolding highest_def by (subst insert_commute) simp

lemma highest_le: "finite S \<Longrightarrow> q \<in> S \<Longrightarrow> q \<le> highest S"
  unfolding highest_def by simp

lemma highest_mem: "finite S \<Longrightarrow> highest S = 0 \<or> highest S \<in> S"
  unfolding highest_def using Max_in [of "insert 0 S"] by auto

lemma highest_bound: "low seen \<Longrightarrow> highest (seen c) < 2 ^ 63"
  unfolding low_def using member_le_sum [of c UNIV "\<lambda>c. highest (seen c)"] by auto

lemma sum_swap_at:
  assumes "\<And>x. x \<noteq> c \<Longrightarrow> f x = g x"
  shows "(\<Sum>x\<in>(UNIV :: u32 set). f x) + g c = (\<Sum>x\<in>UNIV. g x) + (f c :: nat)"
proof -
  have "(\<Sum>x\<in>UNIV - {c}. f x) = (\<Sum>x\<in>UNIV - {c}. g x)" using assms by (intro sum.cong) auto
  then show ?thesis by (simp add: sum.remove [of UNIV c])
qed

lemma lost_bound:
  assumes "tracking seen i"
  shows "lost i < 2 ^ 63"
proof -
  have "card (missing (cpu_gaps i c)) \<le> highest (seen c)" for c
  proof -
    have "missing (cpu_gaps i c) \<subseteq> {1..highest (seen c)}"
      using assms by (auto simp: tracking_def cpu_tracks_def cpu_gaps_state)
    from card_mono [OF _ this] show ?thesis by simp
  qed
  then have "lost i \<le> (\<Sum>c\<in>UNIV. highest (seen c))" unfolding lost_def by (intro sum_mono) auto
  then show ?thesis using assms by (simp add: tracking_def low_def)
qed

lemma held_total:
  assumes "tracking seen i"
  shows "(\<Sum>g<length (ti_groups i). held i g) = lost i"
proof -
  have "(\<Sum>g<length (ti_groups i). held i g) = (\<Sum>c\<in>UNIV. \<Sum>g<length (ti_groups i). held_by (Some g) (cpu_gaps i c))"
    unfolding held_def by (rule sum.swap)
  also have "\<dots> = lost i"
    unfolding lost_def using assms by (intro sum.cong held_sum) (auto simp: tracking_def cpu_tracks_def cpu_gaps_state)
  finally show ?thesis .
qed

lemma held_le_lost: "tracking seen i \<Longrightarrow> g < length (ti_groups i) \<Longrightarrow> held i g \<le> lost i"
  using held_total member_le_sum [of g "{..<length (ti_groups i)}" "held i"] by fastforce

lemma of_nat_eq_0: "n < 2 ^ 63 \<Longrightarrow> (of_nat n :: u64) = 0 \<longleftrightarrow> n = 0"
  by (simp add: of_nat_eq_0_iff [symmetric] word_unat_eq_iff unat_of_nat take_bit_nat_eq_self)

lemma unat_low: "n < 2 ^ 63 \<Longrightarrow> unat (of_nat n :: u64) = n"
  by (simp add: unat_of_nat take_bit_nat_eq_self)

lemma remaining_held:
  assumes "tracking seen i" "g < length (ti_groups i)"
  shows "unat (grp_remaining (ti_groups i ! g)) = held i g"
proof -
  have "held i g < 2 ^ 63" using held_le_lost [OF assms] lost_bound [OF assms(1)] by simp
  then show ?thesis using assms unat_low by (simp add: tracking_def)
qed

lemma open_groups_held:
  assumes "tracking seen i"
  shows "open_groups i = {g. g < length (ti_groups i) \<and> held i g \<noteq> 0}"
  unfolding open_groups_def using remaining_held [OF assms] by (auto simp: unat_eq_0 [symmetric])

lemma open_groups_bound:
  assumes "tracking seen i"
  shows "card (open_groups i) < 2 ^ 63"
proof -
  have f: "finite (open_groups i)" by (simp add: open_groups_def)
  have "card (open_groups i) \<le> (\<Sum>g\<in>open_groups i. held i g)"
    unfolding card_eq_sum by (intro sum_mono) (auto simp: open_groups_held [OF assms])
  also have "\<dots> \<le> (\<Sum>g<length (ti_groups i). held i g)"
    by (intro sum_mono2) (auto simp: open_groups_def)
  finally show ?thesis using held_total [OF assms] lost_bound [OF assms] by simp
qed


section \<open>Observing a number\<close>

lemma snap_simps [simp]:
  "ti_cpus (snap f i) = ti_cpus i" "ti_groups (snap f i) = ti_groups i" "ti_snapshot (snap f i) = f (ti_snapshot i)"
  "ti_records (snap f i) = ti_records i" "ti_tasks (snap f i) = ti_tasks i" "ti_state (snap f i) = ti_state i"
  "ti_notices (snap f i) = ti_notices i"
  by (simp_all add: snap_def)

lemma set_cpu_simps [simp]:
  "ti_cpus (set_cpu c st i) = (ti_cpus i)(c \<mapsto> st)" "ti_groups (set_cpu c st i) = ti_groups i"
  "ti_snapshot (set_cpu c st i) = ti_snapshot i" "ti_records (set_cpu c st i) = ti_records i"
  "ti_tasks (set_cpu c st i) = ti_tasks i" "ti_state (set_cpu c st i) = ti_state i"
  "ti_notices (set_cpu c st i) = ti_notices i"
  by (simp_all add: set_cpu_def)

lemma set_group_simps [simp]:
  "ti_cpus (set_group g x i) = ti_cpus i" "ti_groups (set_group g x i) = (ti_groups i)[g := x]"
  "ti_snapshot (set_group g x i) = ti_snapshot i" "ti_records (set_group g x i) = ti_records i"
  "ti_tasks (set_group g x i) = ti_tasks i" "ti_state (set_group g x i) = ti_state i"
  "ti_notices (set_group g x i) = ti_notices i"
  by (simp_all add: set_group_def)

lemma cpu_state_upd: "ti_cpus i' = (ti_cpus i)(c \<mapsto> st) \<Longrightarrow> cpu_state i' c' = (if c' = c then st else cpu_state i c')"
  by (simp add: cpu_state_def)

lemma cpu_tracks_mono: "cpu_tracks n S st \<Longrightarrow> n \<le> m \<Longrightarrow> cpu_tracks m S st"
  using image_mono [of "{..<n}" "{..<m}" Some] by (auto simp: cpu_tracks_def)

lemma tracking_at:
  assumes "tracking seen i" "low (seen(c := S))" "ti_cpus i' = (ti_cpus i)(c \<mapsto> st)"
    and "cpu_tracks (length (ti_groups i')) S st" "length (ti_groups i) \<le> length (ti_groups i')"
    and "\<And>g. g < length (ti_groups i') \<Longrightarrow> grp_remaining (ti_groups i' ! g) = of_nat (held i' g)"
    and "snp_estimated_lost (ti_snapshot i') = of_nat (lost i')"
    and "snp_stream_gaps (ti_snapshot i') = of_nat (card (open_groups i'))"
  shows "tracking (seen(c := S)) i'"
proof -
  have "cpu_tracks (length (ti_groups i')) (seen c') (cpu_state i c')" for c'
    using assms(1) by (intro cpu_tracks_mono [OF _ assms(5)]) (simp add: tracking_def)
  then show ?thesis
    using assms(2,4,6-8) cpu_state_upd [OF assms(3)] by (simp add: tracking_def)
qed

lemma held_upd:
  assumes "ti_cpus i' = (ti_cpus i)(c \<mapsto> st)"
  shows "held i' g + held_by (Some g) (cpu_gaps i c) = held i g + held_by (Some g) (csq_gaps st)"
    and "lost i' + card (missing (cpu_gaps i c)) = lost i + card (missing (csq_gaps st))"
  unfolding held_def lost_def
  using sum_swap_at [of c "\<lambda>c. held_by (Some g) (cpu_gaps i' c)" "\<lambda>c. held_by (Some g) (cpu_gaps i c)"]
    sum_swap_at [of c "\<lambda>c. card (missing (cpu_gaps i' c))" "\<lambda>c. card (missing (cpu_gaps i c))"]
    cpu_state_upd [OF assms]
  by (simp_all add: cpu_gaps_state)

text \<open>The next number of the CPU.\<close>

lemma observe_next:
  assumes "tracking seen i" "env_seq ev = of_nat (Suc (highest (seen c)))" "c = env_cpu ev"
    and "low (seen(c := insert (Suc (highest (seen c))) (seen c)))"
  shows "tracking (seen(c := insert (Suc (highest (seen c))) (seen c))) (snd (observeSequence ev i)) \<and>
    \<not> sqo_invalid (fst (observeSequence ev i))"
proof -
  let ?st = "cpu_state i c" and ?q = "Suc (highest (seen c))"
  have f: "finite (seen c)" using assms(1) by (simp add: tracking_def low_def)
  have t: "cpu_tracks (length (ti_groups i)) (seen c) ?st" using assms(1) by (simp add: tracking_def)
  then have "env_seq ev = csq_sequence ?st + 1" using assms(2) by (simp add: cpu_tracks_def)
  then have o: "snd (observeSequence ev i) = set_cpu c (?st\<lparr>csq_sequence := env_seq ev, csq_record := ti_records i\<rparr>) i"
    "\<not> sqo_invalid (fst (observeSequence ev i))"
    using assms(3) unfolding observeSequence_state by (simp_all add: Let_def)
  let ?i = "snd (observeSequence ev i)" and ?st' = "?st\<lparr>csq_sequence := env_seq ev, csq_record := ti_records i\<rparr>"
  have u: "ti_cpus ?i = (ti_cpus i)(c \<mapsto> ?st')" "ti_groups ?i = ti_groups i" "ti_snapshot ?i = ti_snapshot i"
    by (simp_all add: o(1))
  have h: "held ?i g = held i g" "lost ?i = lost i" for g
    using held_upd(1) [OF u(1), of g] held_upd(2) [OF u(1)] by (simp_all add: cpu_gaps_state)
  have "highest (insert ?q (seen c)) = ?q" using highest_insert [OF f] by simp
  moreover have "{1..?q} - insert ?q (seen c) = {1..highest (seen c)} - seen c"
    using highest_le [OF f] by (auto simp: le_Suc_eq)
  ultimately have "cpu_tracks (length (ti_groups i)) (insert ?q (seen c)) ?st'"
    using t assms(2) by (simp add: cpu_tracks_def)
  then have "tracking (seen(c := insert ?q (seen c))) ?i"
    using assms(1) by (intro tracking_at [OF assms(1,4) u(1)]) (simp_all add: u(2,3) h tracking_def open_groups_def)
  then show ?thesis using o(2) by blast
qed

lemma word_delta:
  assumes "t < q" "q < 2 ^ 63"
  shows "(of_nat q :: u64) - (of_nat t + 1) = of_nat (q - Suc t)"
proof -
  have "(of_nat q :: u64) = of_nat (q - Suc t) + of_nat (Suc t)"
    using assms(1) unfolding of_nat_add [symmetric] by simp
  then show ?thesis by simp
qed

text \<open>A jump forward opens a gap.\<close>

lemma observe_jump:
  assumes "tracking seen i" "env_seq ev = of_nat q" "c = env_cpu ev" "Suc (highest (seen c)) < q"
    and "low (seen(c := insert q (seen c)))"
  shows "tracking (seen(c := insert q (seen c))) (snd (observeSequence ev i)) \<and> \<not> sqo_invalid (fst (observeSequence ev i))"
proof -
  let ?st = "cpu_state i c" and ?t = "highest (seen c)" and ?n = "length (ti_groups i)"
  have f: "finite (seen c)" using assms(1) by (simp add: tracking_def low_def)
  have tq: "highest (insert q (seen c)) = q" using highest_insert [OF f] assms(4) by simp
  have qb: "q < 2 ^ 63" using highest_bound [OF assms(5), of c] tq by simp
  have t: "cpu_tracks ?n (seen c) ?st" using assms(1) by (simp add: tracking_def)
  then have e: "csq_sequence ?st + 1 = of_nat (Suc ?t)" by (simp add: cpu_tracks_def)
  have ne: "env_seq ev \<noteq> csq_sequence ?st + 1"
  proof
    assume "env_seq ev = csq_sequence ?st + 1"
    then have "unat (of_nat q :: u64) = unat (of_nat (Suc ?t) :: u64)" using assms(2) unfolding e by simp
    then show False using assms(4) qb by (simp add: unat_low del: of_nat_Suc)
  qed
  have d: "env_seq ev - (csq_sequence ?st + 1) = of_nat (q - Suc ?t)"
    using word_delta [of ?t q] assms(2,4) qb unfolding e by simp
  have dl: "(of_nat (q - Suc ?t) :: u64) < 0x8000000000000000"
    using qb by (simp add: word_less_nat_alt unat_low)
  have q1: "(of_nat q :: u64) - 1 = of_nat (q - 1)" using assms(4) by (simp add: of_nat_diff)
  have u1: "unat ((of_nat q :: u64) - 1) = q - 1" unfolding q1 using qb by (intro unat_low) simp
  have us: "unat (of_nat (Suc ?t) :: u64) = Suc ?t" using assms(4) qb by (intro unat_low) simp
  have le: "(of_nat (Suc ?t) :: u64) \<le> of_nat q - 1"
    unfolding word_le_nat_alt u1 us using assms(4) by simp
  define x where "x = csq_sequence ?st + 1"
  let ?new = "[\<lparr>gap_first = x, gap_last = of_nat q - 1, gap_group = Some ?n\<rparr>]"
  let ?st' = "?st\<lparr>csq_gaps := csq_gaps ?st @ ?new, csq_sequence := env_seq ev, csq_record := ti_records i\<rparr>"
  let ?i = "snd (observeSequence ev i)"
  have o: "ti_cpus ?i = (ti_cpus i)(c \<mapsto> ?st')" "\<exists>x. ti_groups ?i = ti_groups i @ [x] \<and> grp_remaining x = of_nat (q - Suc ?t)"
    "snp_estimated_lost (ti_snapshot ?i) = snp_estimated_lost (ti_snapshot i) + of_nat (q - Suc ?t)"
    "snp_stream_gaps (ti_snapshot ?i) = snp_stream_gaps (ti_snapshot i) + 1" "\<not> sqo_invalid (fst (observeSequence ev i))"
    using ne d dl le assms(3) unfolding observeSequence_state addSequenceGap_def x_def e [symmetric] assms(2) [symmetric]
    by (simp_all add: Let_def)
  obtain y where y: "ti_groups ?i = ti_groups i @ [y]" "grp_remaining y = of_nat (q - Suc ?t)" using o(2) by blast
  have nums: "missing ?new = {Suc ?t..q - 1}"
    using u1 us unfolding x_def e by (simp add: gap_nums_def del: of_nat_Suc)
  have gs: "missing (csq_gaps ?st) = {1..?t} - seen c" "gaps_ok (csq_gaps ?st)"
    "gap_group ` set (csq_gaps ?st) \<subseteq> Some ` {..<?n}" using t by (auto simp: cpu_tracks_def)
  have ok: "gaps_ok (csq_gaps ?st @ ?new)"
    using gs(1,2) nums le unfolding x_def e by (auto simp: gaps_ok_append)
  have m: "missing (csq_gaps ?st @ ?new) = {1..q} - insert q (seen c)"
    using gs(1) nums highest_le [OF f] assms(4) by (force simp: missing_simps)
  have held_new: "held_by (Some g) (csq_gaps ?st @ ?new) = held_by (Some g) (csq_gaps ?st) + (if g = ?n then q - Suc ?t else 0)" for g
    using nums assms(4) by simp
  have h: "held ?i g = held i g + (if g = ?n then q - Suc ?t else 0)" for g
    using held_upd(1) [OF o(1), of g] held_new [of g] by (simp add: cpu_gaps_state)
  have "card (missing (csq_gaps ?st @ ?new)) = card (missing (csq_gaps ?st)) + (q - Suc ?t)"
    using ok nums assms(4) by (simp add: gaps_ok_append card_Un_disjoint)
  then have l: "lost ?i = lost i + (q - Suc ?t)"
    using held_upd(2) [OF o(1)] by (simp add: cpu_gaps_state)
  have hn: "held i ?n = 0"
  proof -
    have "held_by (Some ?n) gaps = 0" if "gap_group ` set gaps \<subseteq> Some ` {..<?n}" for gaps
      using that by (induction gaps) auto
    then show ?thesis
      using assms(1) unfolding held_def by (simp add: tracking_def cpu_tracks_def cpu_gaps_state)
  qed
  have "grp_remaining y \<noteq> 0" using y(2) assms(4) qb by (subst y(2), subst of_nat_eq_0) auto
  then have "open_groups ?i = insert ?n (open_groups i)"
    unfolding open_groups_def y(1) by (auto simp: nth_append less_Suc_eq)
  then have og: "card (open_groups ?i) = Suc (card (open_groups i))"
    by (simp add: open_groups_def)
  have "cpu_tracks (length (ti_groups ?i)) (insert q (seen c)) ?st'"
    unfolding cpu_tracks_def using ok m tq gs(3) assms(2) by (auto simp: y(1) less_Suc_eq)
  moreover have "grp_remaining (ti_groups ?i ! g) = of_nat (held ?i g)" if "g < length (ti_groups ?i)" for g
    using that assms(1) h [of g] hn y by (auto simp: tracking_def nth_append less_Suc_eq)
  ultimately have "tracking (seen(c := insert q (seen c))) ?i"
    using assms(1) y(1) o(3,4) l og
    by (intro tracking_at [OF assms(1,5) o(1)]) (simp_all add: tracking_def)
  then show ?thesis using o(5) by blast
qed

text \<open>A late number fills its gap.\<close>

lemma observe_late:
  assumes "tracking seen i" "env_seq ev = of_nat q" "c = env_cpu ev" "0 < q" "q \<le> highest (seen c)" "q \<notin> seen c"
  shows "tracking (seen(c := insert q (seen c))) (snd (observeSequence ev i)) \<and> \<not> sqo_invalid (fst (observeSequence ev i))"
proof -
  let ?st = "cpu_state i c" and ?t = "highest (seen c)" and ?n = "length (ti_groups i)"
  have lw: "low seen" and f: "finite (seen c)" using assms(1) by (simp_all add: tracking_def low_def)
  have tb: "?t < 2 ^ 63" by (rule highest_bound [OF lw])
  have t: "cpu_tracks ?n (seen c) ?st" using assms(1) by (simp add: tracking_def)
  then have e: "csq_sequence ?st + 1 = of_nat (Suc ?t)" by (simp add: cpu_tracks_def)
  have uq: "unat (of_nat q :: u64) = q" using assms(5) tb by (simp add: unat_low)
  have ne: "env_seq ev \<noteq> csq_sequence ?st + 1"
  proof
    assume "env_seq ev = csq_sequence ?st + 1"
    then have "unat (of_nat (Suc ?t) :: u64) = q" using e assms(2) uq by simp
    then show False using assms(5) tb by (simp add: unat_of_nat take_bit_nat_eq_self del: of_nat_Suc)
  qed
  have far: "\<not> env_seq ev - (csq_sequence ?st + 1) < 0x8000000000000000"
  proof
    let ?d = "env_seq ev - (csq_sequence ?st + 1)"
    assume "?d < 0x8000000000000000"
    then have "unat ?d < 2 ^ 63" by (simp add: word_less_nat_alt)
    moreover have "unat (of_nat (Suc ?t) :: u64) = Suc ?t" using tb by (simp add: unat_of_nat take_bit_nat_eq_self del: of_nat_Suc)
    moreover have "of_nat q = ?d + of_nat (Suc ?t)" using e assms(2) by simp
    then have "q = (unat ?d + unat (of_nat (Suc ?t) :: u64)) mod 2 ^ 64"
      using uq unat_word_ariths(1) [of ?d "of_nat (Suc ?t)"] by simp
    ultimately have "q = unat ?d + Suc ?t" using tb by simp
    then show False using assms(5) by simp
  qed
  have gs: "missing (csq_gaps ?st) = {1..?t} - seen c" "gaps_ok (csq_gaps ?st)"
    "gap_group ` set (csq_gaps ?st) \<subseteq> Some ` {..<?n}" using t by (auto simp: cpu_tracks_def)
  obtain ix where ix: "gap_index (env_seq ev) (csq_gaps ?st) = Some ix"
    using gap_index_None [of "env_seq ev" "csq_gaps ?st"] gs(1) assms uq by (cases "gap_index (env_seq ev) (csq_gaps ?st)") auto
  obtain xs h ys where sp: "csq_gaps ?st = xs @ h # ys" "length xs = ix" using gap_index_Some [OF ix] by blast
  then obtain g where g: "gap_group (csq_gaps ?st ! ix) = Some g" "g < ?n" using gs(3) by (auto simp: nth_append)
  note rm = remove_sequence [OF gs(2) ix]
  let ?gaps = "removeSequenceFromGap (csq_gaps ?st) ix (env_seq ev)"
  let ?st' = "?st\<lparr>csq_gaps := ?gaps\<rparr>" and ?i = "snd (observeSequence ev i)"
  have one: "held i g > 0"
  proof -
    have "held_by (Some g) (csq_gaps ?st) > 0" using rm(3) [of "Some g"] g(1) by simp
    then show ?thesis
      unfolding held_def using member_le_sum [of c UNIV "\<lambda>c. held_by (Some g) (cpu_gaps i c)"]
      by (simp add: cpu_gaps_state)
  qed
  have rem: "unat (grp_remaining (ti_groups i ! g)) = held i g" by (rule remaining_held [OF assms(1) g(2)])
  then have rem0: "grp_remaining (ti_groups i ! g) \<noteq> 0" using one by (auto simp: unat_eq_0 [symmetric])
  have est0: "snp_estimated_lost (ti_snapshot i) \<noteq> 0"
    using assms(1) lost_bound [OF assms(1)] held_le_lost [OF assms(1) g(2)] one of_nat_eq_0 [of "lost i"]
    by (simp add: tracking_def)
  have open0: "g \<in> open_groups i" "finite (open_groups i)" using rem0 g(2) by (simp_all add: open_groups_def)
  have str0: "snp_stream_gaps (ti_snapshot i) \<noteq> 0"
    using assms(1) open_groups_bound [OF assms(1)] open0 of_nat_eq_0 [of "card (open_groups i)"]
    by (auto simp: tracking_def)
  let ?r = "grp_remaining (ti_groups i ! g) - 1"
  have o: "ti_cpus ?i = (ti_cpus i)(c \<mapsto> ?st')" "ti_groups ?i = (ti_groups i)[g := (ti_groups i ! g)\<lparr>grp_remaining := ?r\<rparr>]"
    "snp_estimated_lost (ti_snapshot ?i) = snp_estimated_lost (ti_snapshot i) - 1"
    "snp_stream_gaps (ti_snapshot ?i) = (if ?r = 0 then snp_stream_gaps (ti_snapshot i) - 1 else snp_stream_gaps (ti_snapshot i))"
    "\<not> sqo_invalid (fst (observeSequence ev i))"
    using assms(3) ne far ix g(1) rem0 est0 str0
    unfolding observeSequence_state resolveSequenceGap_def
    by (simp_all add: Let_def)
  have h: "held i x = held ?i x + (if x = g then 1 else 0)" for x
    using held_upd(1) [OF o(1), of x] rm(3) [of "Some x"] g(1) by (simp add: cpu_gaps_state split: if_splits)
  have "card (missing (csq_gaps ?st)) = Suc (card (missing ?gaps))"
    using card_Suc_Diff1 [of "missing (csq_gaps ?st)" q] rm(2) gs(1) assms uq by simp
  then have l: "lost i = Suc (lost ?i)"
    using held_upd(2) [OF o(1)] by (simp add: cpu_gaps_state)
  have rw: "?r = of_nat (held ?i g)"
    using assms(1) g(2) h [of g] by (simp add: tracking_def)
  have hb: "held ?i g < 2 ^ 63" using h [of g] held_le_lost [OF assms(1) g(2)] lost_bound [OF assms(1)] by simp
  have og: "open_groups ?i = (if ?r = 0 then open_groups i - {g} else open_groups i)"
    using rem0 g(2) unfolding open_groups_def o(2) by (auto simp: nth_list_update)
  have cards: "of_nat (card (open_groups ?i)) = snp_stream_gaps (ti_snapshot ?i)"
  proof -
    have "card (open_groups i) = Suc (card (open_groups i - {g}))" using card_Suc_Diff1 [OF open0(2,1)] by simp
    then have "snp_stream_gaps (ti_snapshot i) - 1 = of_nat (card (open_groups i - {g}))"
      using assms(1) by (simp add: tracking_def del: card_Diff_insert)
    then show ?thesis using assms(1) unfolding og o(4) by (simp add: tracking_def del: card_Diff_insert)
  qed
  have tq: "highest (insert q (seen c)) = ?t" using highest_insert [OF f] assms(5) by simp
  have "gap_group ` set ?gaps \<subseteq> Some ` {..<?n}" using order_trans [OF rm(4) [unfolded set_map] gs(3)] .
  moreover have "missing ?gaps = {1..?t} - insert q (seen c)" using rm(2) gs(1) assms(2) uq by auto
  ultimately have "cpu_tracks (length (ti_groups ?i)) (insert q (seen c)) ?st'"
    using rm(1) t tq by (simp add: cpu_tracks_def o(2))
  moreover have "low (seen(c := insert q (seen c)))"
    using lw tq assms(4) sum_swap_at [of c "\<lambda>x. highest ((seen(c := insert q (seen c))) x)" "\<lambda>x. highest (seen x)"]
    by (auto simp: low_def)
  moreover have "grp_remaining (ti_groups ?i ! x) = of_nat (held ?i x)" if "x < length (ti_groups ?i)" for x
    using that assms(1) h [of x] rw unfolding o(2) by (cases "x = g") (simp_all add: tracking_def)
  ultimately have "tracking (seen(c := insert q (seen c))) ?i"
    using assms(1) o(3) l cards
    by (intro tracking_at [OF assms(1) _ o(1)]) (simp_all add: tracking_def o(2))
  then show ?thesis using o(5) by blast
qed


lemma observe_new:
  assumes "tracking seen i" "env_seq ev = of_nat q" "c = env_cpu ev" "0 < q" "q \<notin> seen c" "low (seen(c := insert q (seen c)))"
  shows "tracking (seen(c := insert q (seen c))) (snd (observeSequence ev i)) \<and> \<not> sqo_invalid (fst (observeSequence ev i))"
proof -
  consider "q = Suc (highest (seen c))" | "Suc (highest (seen c)) < q" | "q \<le> highest (seen c)" by linarith
  then show ?thesis
    using observe_next [of seen i ev c] observe_jump [of seen i ev q c] observe_late [of seen i ev q c] assms by cases auto
qed

section \<open>What the rest of the tracker leaves alone\<close>

definition seq_view :: "'st trace_integrity \<Rightarrow> (u32 \<rightharpoonup> trace_cpu_sequence) \<times> u64 list \<times> u64 \<times> u64" where
  "seq_view i = (ti_cpus i, map grp_remaining (ti_groups i), snp_estimated_lost (ti_snapshot i), snp_stream_gaps (ti_snapshot i))"

lemma tracking_view:
  assumes "seq_view i' = seq_view i"
  shows "tracking seen i' = tracking seen i"
proof -
  have v: "ti_cpus i' = ti_cpus i" "map grp_remaining (ti_groups i') = map grp_remaining (ti_groups i)"
    "snp_estimated_lost (ti_snapshot i') = snp_estimated_lost (ti_snapshot i)"
    "snp_stream_gaps (ti_snapshot i') = snp_stream_gaps (ti_snapshot i)"
    using assms by (simp_all add: seq_view_def)
  have len: "length (ti_groups i') = length (ti_groups i)" using arg_cong [OF v(2), of length] by simp
  have nth: "grp_remaining (ti_groups i' ! g) = grp_remaining (ti_groups i ! g)" if "g < length (ti_groups i)" for g
    using arg_cong [OF v(2), of "\<lambda>l. l ! g"] that len by simp
  have "cpu_state i' = cpu_state i" "held i' = held i" "lost i' = lost i" "open_groups i' = open_groups i"
    using nth len by (auto simp: fun_eq_iff cpu_state_def held_def lost_def cpu_gaps_def open_groups_def v(1))
  then show ?thesis using nth len v by (simp add: tracking_def cong: conj_cong)
qed

lemma seq_view_simps [simp]:
  "seq_view (i\<lparr>ti_records := n\<rparr>) = seq_view i" "seq_view (i\<lparr>ti_state := st\<rparr>) = seq_view i"
  "seq_view (i\<lparr>ti_notices := ns\<rparr>) = seq_view i" "seq_view (i\<lparr>ti_tasks := ts\<rparr>) = seq_view i"
  by (simp_all add: seq_view_def)

lemma seq_view_snap:
  "(\<And>sn. snp_estimated_lost (f sn) = snp_estimated_lost sn \<and> snp_stream_gaps (f sn) = snp_stream_gaps sn) \<Longrightarrow>
     seq_view (snap f i) = seq_view i"
  by (simp add: seq_view_def)

lemma seq_view_confirm [simp]: "seq_view (confirm_gap p i) = seq_view i"
proof (cases p)
  case (Some g)
  have "(map grp_remaining (ti_groups i))[g := grp_remaining (ti_groups i ! g)] = map grp_remaining (ti_groups i)"
    by (metis list_update_id map_update)
  then show ?thesis using Some by (simp add: seq_view_def confirm_gap_def map_update)
qed (simp add: confirm_gap_def)

lemma seq_view_taint [simp]: "seq_view (taintAt th reason n i) = seq_view i" "seq_view (taint th reason i) = seq_view i"
  by (simp_all add: taint_def taintAt_def Let_def seq_view_snap)

lemma seq_view_tasks [simp]: "seq_view (set_task t x i) = seq_view i" "seq_view (delete_task t i) = seq_view i"
  by (simp_all add: set_task_def delete_task_def)

lemma seq_view_observeTask [simp]: "seq_view (observeTask ev i) = seq_view i"
  by (simp add: observeTask_def observeTaskLifecycle_def Let_def seq_view_snap)

lemma seq_view_location [simp]:
  "seq_view (setSequenceLocation ev ob i) = seq_view i" "seq_view (setSequenceGapLocation gap i) = seq_view i"
  "seq_view (observeLossTime ns i) = seq_view i"
  by (simp_all add: setSequenceLocation_def setSequenceGapLocation_def observeLossTime_def seq_view_snap)

lemma seq_view_Observe:
  "\<not> env_legacy_integrity ev \<Longrightarrow>
     seq_view (snd (Observe th ev i)) =
       seq_view (snd (observeSequence ev (snap (\<lambda>sn. sn\<lparr>snp_lost_count := 0\<rparr>) (i\<lparr>ti_records := ti_records i + 1\<rparr>))))"
  by (simp add: Observe_def Let_def split_beta seq_view_snap)

section \<open>The tracker as a set of numbers\<close>

text \<open>
  What a client of the tracker may rely on, for records that carry pairwise different numbers: the state keeps
  representing the numbers seen.  The law is for one record; the run of any list of records follows, in any order.
\<close>

definition numbers_of :: "('e \<Rightarrow> u32) \<Rightarrow> ('e \<Rightarrow> u64) \<Rightarrow> 'e list \<Rightarrow> u32 \<Rightarrow> nat set" where
  "numbers_of cpu seq es c = {unat (seq e) |e. e \<in> set es \<and> cpu e = c}"

locale sequence_tracker =
  fixes observe :: "'e \<Rightarrow> 's \<Rightarrow> 's" and cpu :: "'e \<Rightarrow> u32" and seq :: "'e \<Rightarrow> u64" and usable :: "'e \<Rightarrow> bool"
    and represents :: "(u32 \<Rightarrow> nat set) \<Rightarrow> 's \<Rightarrow> bool"
  assumes observe_represents: "represents seen s \<Longrightarrow> usable e \<Longrightarrow> seq e \<noteq> 0 \<Longrightarrow> unat (seq e) \<notin> seen (cpu e) \<Longrightarrow>
      low (seen(cpu e := insert (unat (seq e)) (seen (cpu e)))) \<Longrightarrow>
      represents (seen(cpu e := insert (unat (seq e)) (seen (cpu e)))) (observe e s)"
begin

lemma low_mono:
  assumes "low seen" "\<And>c. seen' c \<subseteq> seen c"
  shows "low seen'"
proof -
  have "highest (seen' c) \<le> highest (seen c)" for c
    using assms by (auto simp: low_def highest_def intro!: Max_mono)
  then have "(\<Sum>c\<in>UNIV. highest (seen' c)) \<le> (\<Sum>c\<in>UNIV. highest (seen c))" by (intro sum_mono) auto
  moreover have "finite (seen' c) \<and> 0 \<notin> seen' c" for c
    using assms unfolding low_def by (meson finite_subset subsetD)
  ultimately show ?thesis using assms(1) by (simp add: low_def)
qed

lemma run_represents:
  assumes "represents (\<lambda>_. {}) s" "list_all usable es" "distinct (map (\<lambda>e. (cpu e, seq e)) es)"
    and "\<forall>e\<in>set es. seq e \<noteq> 0" "low (numbers_of cpu seq es)"
  shows "represents (numbers_of cpu seq es) (fold observe es s)"
  using assms(2-5)
proof (induction es rule: rev_induct)
  case Nil
  then show ?case using assms(1) by (simp add: numbers_of_def)
next
  case (snoc e es)
  let ?seen = "numbers_of cpu seq es"
  have n: "numbers_of cpu seq (es @ [e]) = ?seen(cpu e := insert (unat (seq e)) (?seen (cpu e)))"
    by (auto simp: numbers_of_def fun_eq_iff)
  have "low ?seen" using snoc.prems(4) by (rule low_mono) (auto simp: n)
  then have "represents ?seen (fold observe es s)" using snoc by auto
  moreover have "unat (seq e) \<notin> ?seen (cpu e)"
    using snoc.prems(2) by (auto simp: numbers_of_def word_unat_eq_iff rev_image_eqI)
  moreover have "low (?seen(cpu e := insert (unat (seq e)) (?seen (cpu e))))" using snoc.prems(4) unfolding n .
  ultimately have "represents (?seen(cpu e := insert (unat (seq e)) (?seen (cpu e)))) (observe e (fold observe es s))"
    using snoc.prems(1,3) by (intro observe_represents) simp_all
  then show ?case by (simp only: n fold_append fold.simps comp_apply id_apply)
qed

end

lemma tracking_new: "low (\<lambda>_. {}) \<Longrightarrow> tracking (\<lambda>_. {}) (newTraceIntegrity st)"
  by (simp add: tracking_def newTraceIntegrity_def cpu_tracks_def cpu_state_def zero_cpu_sequence_def highest_def
      lost_def cpu_gaps_def open_groups_def zero_snapshot_def)

lemma low_empty: "low (\<lambda>_. {})"
  by (simp add: low_def highest_def)

interpretation observing: sequence_tracker "\<lambda>ev i. snd (Observe th ev i)" env_cpu env_seq "\<lambda>ev. \<not> env_legacy_integrity ev" tracking
proof
  fix seen and i :: "'a trace_integrity" and ev :: trace_event_envelope
  assume a: "tracking seen i" "\<not> env_legacy_integrity ev" "env_seq ev \<noteq> 0" "unat (env_seq ev) \<notin> seen (env_cpu ev)"
    "low (seen(env_cpu ev := insert (unat (env_seq ev)) (seen (env_cpu ev))))"
  let ?i = "snap (\<lambda>sn. sn\<lparr>snp_lost_count := 0\<rparr>) (i\<lparr>ti_records := ti_records i + 1\<rparr>)"
  have "seq_view ?i = seq_view i" by (simp add: seq_view_snap)
  then have "tracking seen ?i" using a(1) tracking_view by blast
  then have "tracking (seen(env_cpu ev := insert (unat (env_seq ev)) (seen (env_cpu ev)))) (snd (observeSequence ev ?i))"
    using observe_new [of seen ?i ev "unat (env_seq ev)" "env_cpu ev"] a by (simp add: unat_gt_0)
  then show "tracking (seen(env_cpu ev := insert (unat (env_seq ev)) (seen (env_cpu ev)))) (snd (Observe th ev i))"
    using tracking_view [OF seq_view_Observe [OF a(2), of th i]] by simp
qed

text \<open>
  C33: The gap bookkeeping is exact, in whatever order the records of a CPU arrive.  The tracker keeps gap lists that it
  splits, shrinks and closes as late records come in; after any sequence of records with pairwise different numbers, every
  CPU's gap list holds exactly the numbers below the highest one that were not seen, and the estimated loss is their count
  over all CPUs.
\<close>

theorem tracker_gaps_exact:
  assumes "list_all (\<lambda>ev. \<not> env_legacy_integrity ev \<and> env_seq ev \<noteq> 0) evs" "distinct (map (\<lambda>ev. (env_cpu ev, env_seq ev)) evs)"
    and "(\<Sum>c\<in>env_cpu ` set evs. highest (numbers_of env_cpu env_seq evs c)) < 2 ^ 63"
  shows "let i = fold (\<lambda>ev i. snd (Observe th ev i)) evs (newTraceIntegrity st); seen = numbers_of env_cpu env_seq evs in
    (\<forall>c. csq_sequence (cpu_state i c) = of_nat (highest (seen c)) \<and> missing (cpu_gaps i c) = {1..highest (seen c)} - seen c) \<and>
    unat (snp_estimated_lost (ti_snapshot i)) = (\<Sum>c\<in>env_cpu ` set evs. card ({1..highest (seen c)} - seen c))"
proof -
  let ?seen = "numbers_of env_cpu env_seq evs" and ?i = "fold (\<lambda>ev i. snd (Observe th ev i)) evs (newTraceIntegrity st)"
  have none: "?seen c = {}" if "c \<notin> env_cpu ` set evs" for c using that by (auto simp: numbers_of_def)
  then have hi: "highest (?seen c) = 0" if "c \<notin> env_cpu ` set evs" for c using that by (simp add: highest_def)
  have "(\<Sum>c\<in>UNIV. highest (?seen c)) = (\<Sum>c\<in>env_cpu ` set evs. highest (?seen c))"
    using hi by (intro sum.mono_neutral_right) auto
  moreover have "finite (?seen c) \<and> 0 \<notin> ?seen c" for c
  proof
    have "?seen c \<subseteq> (\<lambda>e. unat (env_seq e)) ` set evs" by (auto simp: numbers_of_def)
    then show "finite (?seen c)" by (rule finite_subset) simp
    show "0 \<notin> ?seen c" using assms(1) by (auto simp: numbers_of_def list_all_iff unat_eq_0)
  qed
  ultimately have "low ?seen" using assms(3) by (simp add: low_def)
  then have t: "tracking ?seen ?i"
    using assms(1,2) by (intro observing.run_represents tracking_new low_empty) (auto simp: list_all_iff)
  then have c: "csq_sequence (cpu_state ?i c) = of_nat (highest (?seen c))" "missing (cpu_gaps ?i c) = {1..highest (?seen c)} - ?seen c" for c
    by (simp_all add: tracking_def cpu_tracks_def cpu_gaps_state)
  moreover have "lost ?i = (\<Sum>c\<in>env_cpu ` set evs. card ({1..highest (?seen c)} - ?seen c))"
    unfolding lost_def c(2) using hi by (intro sum.mono_neutral_right) auto
  moreover have "unat (snp_estimated_lost (ti_snapshot ?i)) = lost ?i" using t lost_bound [OF t] by (simp add: tracking_def unat_low)
  ultimately show ?thesis by (simp add: Let_def)
qed

theorem tracker_gaps_exact_witness:
  "let evs = map (\<lambda>q. zero_envelope\<lparr>env_seq := q\<rparr>) [1, 4, 2] in
     missing (cpu_gaps (fold (\<lambda>ev i. snd (Observe id ev i)) evs (newTraceIntegrity ())) 0) = {3}"
proof -
  let ?evs = "map (\<lambda>q. zero_envelope\<lparr>env_seq := q\<rparr>) [1, 4, 2]"
  have "numbers_of env_cpu env_seq evs 0 = set (map (\<lambda>e. unat (env_seq e)) (filter (\<lambda>e. env_cpu e = 0) evs))" for evs :: "trace_event_envelope list"
    by (auto simp: numbers_of_def)
  then have n: "numbers_of env_cpu env_seq ?evs 0 = {1, 2, 4}" by (simp only:) (auto simp: zero_envelope_def)
  then have "highest (numbers_of env_cpu env_seq ?evs 0) = 4" by (simp add: highest_def)
  moreover have "{1..4} - {1, 2, 4} = {3 :: nat}" by auto
  moreover have "env_cpu ` set ?evs = {0}" by (simp add: zero_envelope_def)
  ultimately show ?thesis
    using tracker_gaps_exact [of ?evs id "()"] n by (simp add: zero_envelope_def Let_def)
qed

end
