(* ===== verification/Event_Reader.thy ===== *)
theory Event_Reader
  imports Integrity_Tracking
begin

text \<open>
  The synchronous reader of the ring buffer (\<^verbatim>\<open>cmd/strace-go/event_reader.go\<close>): it decodes every record, feeds the
  integrity tracker and hands the marked envelope to the sink.  The record type is that of the ring-buffer library; waiting,
  deadlines and the timing measurements are left out.  \<^verbatim>\<open>Drain\<close> reads until the library reports that the flushed
  buffer is empty, so it is a recursion over the records that are left.  The sink acts on the state whose history the
  tracker invalidates.
\<close>

record ringbuf_record =
  raw_sample :: bytes
  remaining :: int

record 'st trace_event_reader =
  rdr_terminal_err :: "(u32 \<times> u32 \<times> u32) option"
  rdr_integrity :: "'st trace_integrity"
  rdr_records_read :: u64
  rdr_records_decoded :: u64
  rdr_records_invalid :: u64
  rdr_records_routed :: u64
  rdr_bytes_read :: u64
  rdr_max_record_bytes :: u64
  rdr_min_remaining_bytes :: u64
  rdr_max_remaining_bytes :: u64

definition newTraceEventReader :: "'st trace_integrity \<Rightarrow> 'st trace_event_reader" where
  "newTraceEventReader i = \<lparr>rdr_terminal_err = None, rdr_integrity = i, rdr_records_read = 0, rdr_records_decoded = 0,
     rdr_records_invalid = 0, rdr_records_routed = 0, rdr_bytes_read = 0, rdr_max_record_bytes = 0,
     rdr_min_remaining_bytes = 0, rdr_max_remaining_bytes = 0\<rparr>"

definition recordRead :: "ringbuf_record \<Rightarrow> 'st trace_event_reader \<Rightarrow> 'st trace_event_reader" where
  "recordRead rec r =
     (let record_bytes = of_nat (length (raw_sample rec));
          left = (of_int (remaining rec) :: u64);
          r1 = r\<lparr>rdr_records_read := rdr_records_read r + 1, rdr_bytes_read := rdr_bytes_read r + record_bytes,
            rdr_max_record_bytes := (if record_bytes > rdr_max_record_bytes r then record_bytes else rdr_max_record_bytes r)\<rparr>;
          r2 = (if remaining rec > 0 \<and> left > rdr_max_remaining_bytes r1 then r1\<lparr>rdr_max_remaining_bytes := left\<rparr> else r1)
      in if remaining rec \<ge> 0 \<and> (rdr_records_read r2 = 1 \<or> left < rdr_min_remaining_bytes r2)
         then r2\<lparr>rdr_min_remaining_bytes := left\<rparr> else r2)"

definition observe_and_route :: "('st \<Rightarrow> 'st) \<Rightarrow> (observed_envelope \<Rightarrow> 'st \<Rightarrow> 'st) \<Rightarrow> trace_event_envelope \<Rightarrow>
    'st trace_integrity \<Rightarrow> 'st trace_integrity" where
  "observe_and_route taint_history sink env i =
     (case Observe taint_history env i of (ev, i') \<Rightarrow> i'\<lparr>ti_state := sink ev (ti_state i')\<rparr>)"

definition HandleRecord :: "('st \<Rightarrow> 'st) \<Rightarrow> (observed_envelope \<Rightarrow> 'st \<Rightarrow> 'st) \<Rightarrow> ringbuf_record \<Rightarrow>
    'st trace_event_reader \<Rightarrow> bool \<times> 'st trace_event_reader" where
  "HandleRecord taint_history sink rec r =
     (if rdr_terminal_err r \<noteq> None then (False, r)
      else case decodeTraceEventV2Envelope (raw_sample rec) of
             None \<Rightarrow> (False, r\<lparr>rdr_records_invalid := rdr_records_invalid r + 1,
                rdr_integrity := InvalidRecord taint_history (rdr_integrity r)\<rparr>)
           | Some env \<Rightarrow>
               if env_event_type env = EVENT_TYPE_UNSUPPORTED_ABI
               then (False, r\<lparr>rdr_terminal_err := Some (env_pid env, env_tid env, env_sys_id env)\<rparr>)
               else (True, r\<lparr>rdr_records_decoded := rdr_records_decoded r + 1,
                  rdr_integrity := observe_and_route taint_history sink env (rdr_integrity r),
                  rdr_records_routed := rdr_records_routed r + 1\<rparr>))"

fun Drain :: "('st \<Rightarrow> 'st) \<Rightarrow> (observed_envelope \<Rightarrow> 'st \<Rightarrow> 'st) \<Rightarrow> ringbuf_record list \<Rightarrow>
    'st trace_event_reader \<Rightarrow> 'st trace_event_reader" where
  "Drain taint_history sink [] r = r"
| "Drain taint_history sink (rec # recs) r =
     (if rdr_terminal_err r \<noteq> None then r
      else Drain taint_history sink recs (snd (HandleRecord taint_history sink rec (recordRead rec r))))"

definition producerAttemptLowerBound :: "bpf_runtime_stats \<Rightarrow> u64 \<Rightarrow> u64" where
  "producerAttemptLowerBound stats records_read =
     (if \<not> brs_available stats then 0
      else if records_read > -1 - brs_ringbuf_reserve_fail stats then -1
      else records_read + brs_ringbuf_reserve_fail stats)"

section \<open>Reading a buffer\<close>

lemma recordRead_simps [simp]:
  "rdr_terminal_err (recordRead rec r) = rdr_terminal_err r" "rdr_integrity (recordRead rec r) = rdr_integrity r"
  "rdr_records_read (recordRead rec r) = rdr_records_read r + 1"
  by (simp_all add: recordRead_def Let_def)

lemma Drain_terminal: "rdr_terminal_err r \<noteq> None \<Longrightarrow> Drain th sink recs r = r"
  by (cases recs) auto

text \<open>A buffer that is read to its end without the terminal error went through the tracker record by record.\<close>

definition decoded :: "bytes \<Rightarrow> trace_event_envelope" where
  "decoded r = the (decodeTraceEventV2Envelope r)"

lemma Drain_reads:
  assumes "list_all (\<lambda>rec. decodeTraceEventV2Envelope (raw_sample rec) \<noteq> None) recs"
    and "rdr_terminal_err (Drain th sink recs r) = None"
  shows "rdr_integrity (Drain th sink recs r) =
      fold (\<lambda>raw. observe_and_route th sink (decoded raw)) (map raw_sample recs) (rdr_integrity r) \<and>
    rdr_records_read (Drain th sink recs r) = rdr_records_read r + of_nat (length recs)"
  using assms
proof (induction recs arbitrary: r)
  case (Cons rec recs)
  let ?r = "snd (HandleRecord th sink rec (recordRead rec r))"
  have r: "rdr_terminal_err r = None" using Cons.prems(2) Drain_terminal [of r] by (cases "rdr_terminal_err r") auto
  obtain env where env: "decodeTraceEventV2Envelope (raw_sample rec) = Some env" using Cons.prems(1) by auto
  have ok: "env_event_type env \<noteq> EVENT_TYPE_UNSUPPORTED_ABI"
  proof
    assume "env_event_type env = EVENT_TYPE_UNSUPPORTED_ABI"
    then have "rdr_terminal_err ?r \<noteq> None" using env r by (simp add: HandleRecord_def)
    then show False using Cons.prems(2) r Drain_terminal [of ?r] by simp
  qed
  have step: "rdr_integrity ?r = observe_and_route th sink (decoded (raw_sample rec)) (rdr_integrity r)"
    "rdr_records_read ?r = rdr_records_read r + 1"
    using env r ok by (simp_all add: HandleRecord_def decoded_def)
  have "Drain th sink (rec # recs) r = Drain th sink recs ?r" using r by simp
  then show ?case using Cons.IH [of ?r] Cons.prems step by simp
qed simp

text \<open>What the envelope of a record with the full header says is what the header bytes say.\<close>

lemma decoded_stamps:
  assumes "decodeTraceEventV2Envelope raw = Some env" "rd16 6 raw = 80"
  shows "env_seq env = rd64 24 raw \<and> env_cpu env = rd32 56 raw \<and> \<not> env_legacy_integrity env \<and>
    env_loss_epoch env = rd64 64 raw \<and> env_loss_time_ns env = rd64 72 raw"
  using assms
  by (auto simp: decodeTraceEventV2Envelope_def decodeTraceEventV2Header_def Let_def split: option.splits if_splits)

definition readable_record :: "bytes \<Rightarrow> bool" where
  "readable_record raw \<longleftrightarrow> decodeTraceEventV2Envelope raw \<noteq> None \<and> rd16 6 raw = 80"

lemma readable_stamps:
  assumes "readable_record raw"
  shows "env_seq (decoded raw) = rd64 24 raw" "env_cpu (decoded raw) = rd32 56 raw" "\<not> env_legacy_integrity (decoded raw)"
    "env_loss_epoch (decoded raw) = rd64 64 raw" "env_loss_time_ns (decoded raw) = rd64 72 raw"
  using assms decoded_stamps by (auto simp: readable_record_def decoded_def)

lemma seq_view_route: "seq_view (observe_and_route th sink env i) = seq_view (snd (Observe th env i))"
  by (simp add: observe_and_route_def split_beta)

interpretation reading: sequence_tracker "\<lambda>raw. observe_and_route th sink (decoded raw)" "rd32 56" "rd64 24" readable_record tracking
proof
  fix seen and i :: "'a trace_integrity" and raw :: bytes
  assume a: "tracking seen i" "readable_record raw" "rd64 24 raw \<noteq> 0" "unat (rd64 24 raw) \<notin> seen (rd32 56 raw)"
    "low (seen(rd32 56 raw := insert (unat (rd64 24 raw)) (seen (rd32 56 raw))))"
  then show "tracking (seen(rd32 56 raw := insert (unat (rd64 24 raw)) (seen (rd32 56 raw)))) (observe_and_route th sink (decoded raw) i)"
    unfolding tracking_view [OF seq_view_route]
    using observing.observe_represents [of seen i "decoded raw" th] readable_stamps [OF a(2)] by simp
qed


section \<open>A stream without failures\<close>

lemma tainted_observeSequence [simp]:
  "snp_tainted (ti_snapshot (snd (observeSequence ev i))) = snp_tainted (ti_snapshot i)"
  "snp_loss_epoch (ti_snapshot (snd (observeSequence ev i))) = snp_loss_epoch (ti_snapshot i)"
  by (simp_all add: observeSequence_state addSequenceGap_def resolveSequenceGap_def Let_def split: option.split)

lemma tainted_observeTask [simp]: "snp_tainted (ti_snapshot (observeTask ev i)) = snp_tainted (ti_snapshot i)"
  by (simp add: observeTask_def observeTaskLifecycle_def set_task_def delete_task_def Let_def)

lemma Observe_calm:
  assumes "\<not> env_legacy_integrity ev" "env_loss_epoch ev = 0" "env_loss_time_ns ev = 0" "\<not> snp_tainted (ti_snapshot i)"
    and "\<not> sqo_invalid (fst (observeSequence ev (snap (\<lambda>sn. sn\<lparr>snp_lost_count := 0\<rparr>) (i\<lparr>ti_records := ti_records i + 1\<rparr>))))"
  shows "\<not> snp_tainted (ti_snapshot (snd (Observe th ev i)))"
  using assms by (simp add: Observe_def Let_def split_beta observeLossTime_def)

definition calm_record :: "bytes \<Rightarrow> bool" where
  "calm_record raw \<longleftrightarrow> readable_record raw \<and> rd64 64 raw = 0 \<and> rd64 72 raw = 0"

interpretation calm: sequence_tracker "\<lambda>raw. observe_and_route th sink (decoded raw)" "rd32 56" "rd64 24" calm_record
  "\<lambda>seen i. tracking seen i \<and> \<not> snp_tainted (ti_snapshot i)"
proof
  fix seen and i :: "'a trace_integrity" and raw :: bytes
  let ?seen = "seen(rd32 56 raw := insert (unat (rd64 24 raw)) (seen (rd32 56 raw)))"
  assume a: "tracking seen i \<and> \<not> snp_tainted (ti_snapshot i)" "calm_record raw" "rd64 24 raw \<noteq> 0"
    "unat (rd64 24 raw) \<notin> seen (rd32 56 raw)" "low ?seen"
  then have r: "readable_record raw" by (simp add: calm_record_def)
  note st = readable_stamps [OF r]
  let ?i = "snap (\<lambda>sn. sn\<lparr>snp_lost_count := 0\<rparr>) (i\<lparr>ti_records := ti_records i + 1\<rparr>)"
  have "seq_view ?i = seq_view i" by (simp add: seq_view_snap)
  then have "tracking seen ?i" using a(1) tracking_view by blast
  then have "\<not> sqo_invalid (fst (observeSequence (decoded raw) ?i))"
    using observe_new [of seen ?i "decoded raw" "unat (rd64 24 raw)" "rd32 56 raw"] a st by (simp add: unat_gt_0)
  then have "\<not> snp_tainted (ti_snapshot (snd (Observe th (decoded raw) i)))"
    using Observe_calm [of "decoded raw" i th] a(1,2) st by (simp add: calm_record_def)
  then show "tracking ?seen (observe_and_route th sink (decoded raw) i) \<and>
      \<not> snp_tainted (ti_snapshot (observe_and_route th sink (decoded raw) i))"
    using reading.observe_represents [of seen i raw th sink] a r by (simp add: observe_and_route_def split_beta)
qed

section \<open>Finalization\<close>

lemma count_tail_spec:
  assumes "\<And>j. j < length seqs \<Longrightarrow> seqs ! j = csq_sequence (cpu_state i (of_nat (k + j))) + of_nat (d j) \<and> d j < 2 ^ 63"
  shows "fst (count_tail k seqs (t, i)) = (t \<or> (\<exists>j<length seqs. d j \<noteq> 0)) \<and>
    seq_view (snd (count_tail k seqs (t, i))) = seq_view i \<and>
    snp_tainted (ti_snapshot (snd (count_tail k seqs (t, i)))) = snp_tainted (ti_snapshot i) \<and>
    snp_unobserved_tail (ti_snapshot (snd (count_tail k seqs (t, i)))) =
      snp_unobserved_tail (ti_snapshot i) + of_nat (\<Sum>j<length seqs. d j)"
  using assms
proof (induction seqs arbitrary: k t i d)
  case (Cons sequence seqs)
  let ?c = "of_nat k :: u32"
  have d: "sequence - csq_sequence (cpu_state i ?c) = of_nat (d 0)" "d 0 < 2 ^ 63" using Cons.prems [of 0] by simp_all
  have st: "(case ti_cpus i ?c of None \<Rightarrow> 0 | Some state \<Rightarrow> csq_sequence state) = csq_sequence (cpu_state i ?c)"
    by (simp add: cpu_state_def zero_cpu_sequence_def split: option.split)
  define b where "b = ((of_nat (d 0) :: u64) \<noteq> 0 \<and> (of_nat (d 0) :: u64) < 0x8000000000000000)"
  have b: "b \<longleftrightarrow> d 0 \<noteq> 0" using of_nat_eq_0 [OF d(2)] d(2) by (auto simp: b_def word_less_nat_alt unat_low)
  define i' where "i' = (if b then snap (\<lambda>sn. sn\<lparr>snp_unobserved_tail := snp_unobserved_tail sn + of_nat (d 0)\<rparr>) i else i)"
  have c: "count_tail k (sequence # seqs) (t, i) = count_tail (Suc k) seqs (b \<or> t, i')"
    unfolding count_tail.simps st d(1) Let_def b_def [symmetric] by (cases b) (simp_all add: i'_def)
  have v: "seq_view i' = seq_view i" "cpu_state i' = cpu_state i" "snp_tainted (ti_snapshot i') = snp_tainted (ti_snapshot i)"
    "snp_unobserved_tail (ti_snapshot i') = snp_unobserved_tail (ti_snapshot i) + of_nat (d 0)"
    using b by (auto simp: i'_def seq_view_snap cpu_state_def fun_eq_iff)
  have "(\<exists>j<length (sequence # seqs). d j \<noteq> 0) \<longleftrightarrow> d 0 \<noteq> 0 \<or> (\<exists>j<length seqs. d (Suc j) \<noteq> 0)"
    by (auto simp: less_Suc_eq_0_disj)
  then show ?case
    using Cons.IH [of i' "Suc k" "\<lambda>j. d (Suc j)" "b \<or> t"] Cons.prems [of "Suc _"] b v
    unfolding c by (auto simp: sum.lessThan_Suc_shift simp del: sum.lessThan_Suc)
qed simp

lemma tainted_taintAt [simp]:
  "snp_tainted (ti_snapshot (taintAt th reason n i))" "snp_tainted (ti_snapshot (taint th reason i))"
  "snp_unobserved_tail (ti_snapshot (taintAt th reason n i)) = snp_unobserved_tail (ti_snapshot i)"
  "snp_unobserved_tail (ti_snapshot (taint th reason i)) = snp_unobserved_tail (ti_snapshot i)"
  by (simp_all add: taint_def taintAt_def Let_def)

lemma tail_before [simp]:
  "snp_unobserved_tail (ti_snapshot (snd (observeSequence ev i))) = snp_unobserved_tail (ti_snapshot i)"
  "snp_unobserved_tail (ti_snapshot (observeTask ev i)) = snp_unobserved_tail (ti_snapshot i)"
  "snp_unobserved_tail (ti_snapshot (confirm_gap p i)) = snp_unobserved_tail (ti_snapshot i)"
  by (simp_all add: observeSequence_state addSequenceGap_def resolveSequenceGap_def observeTask_def observeTaskLifecycle_def
      set_task_def delete_task_def confirm_gap_def Let_def split: option.split)

lemma tail_observed:
  "snp_unobserved_tail (ti_snapshot (fold (\<lambda>raw. observe_and_route th sink (decoded raw)) raws i)) =
     snp_unobserved_tail (ti_snapshot i)"
  by (induction raws arbitrary: i)
     (simp_all add: observe_and_route_def Observe_def observeLossTime_def setSequenceLocation_def Let_def split_beta)

lemma finalize_spec:
  assumes "brs_available stats"
    and "\<And>j. j < length (brs_event_sequences stats) \<Longrightarrow>
      brs_event_sequences stats ! j = csq_sequence (cpu_state i (of_nat j)) + of_nat (d j) \<and> d j < 2 ^ 63"
  shows "seq_view (finalize th order stats i) = seq_view i \<and>
    snp_unobserved_tail (ti_snapshot (finalize th order stats i)) =
      snp_unobserved_tail (ti_snapshot i) + of_nat (\<Sum>j<length (brs_event_sequences stats). d j) \<and>
    (snp_tainted (ti_snapshot (finalize th order stats i)) \<longleftrightarrow> snp_tainted (ti_snapshot i) \<or> producer_failed stats \<or>
       firstUnresolvedSequenceGap order i \<noteq> None \<or> (\<exists>j<length (brs_event_sequences stats). d j \<noteq> 0))"
proof -
  define i1 where "i1 = observeLossTime (brs_integrity_first_time_ns stats) i"
  define i2 where "i2 = (if \<not> snp_tainted (ti_snapshot i1) \<and> producer_failed stats
      then taint th ''producer_loss_at_finalization'' i1 else i1)"
  define i3 where "i3 = (case firstUnresolvedSequenceGap order i2 of None \<Rightarrow> i2
      | Some gap \<Rightarrow> if \<not> snp_tainted (ti_snapshot i2)
          then taintAt th ''sequence_gap_at_finalization'' (grp_detected_record gap) (setSequenceGapLocation gap i2) else i2)"
  have v: "seq_view i1 = seq_view i" "seq_view i2 = seq_view i" "seq_view i3 = seq_view i"
    by (simp_all add: i1_def i2_def i3_def split: option.split)
  have g: "ti_groups i2 = ti_groups i" "ti_cpus i2 = ti_cpus i"
    by (simp_all add: i1_def i2_def observeLossTime_def taint_def taintAt_def Let_def)
  then have "unresolved_of i2 = unresolved_of i" "cpu_gaps i2 = cpu_gaps i"
    by (auto simp: fun_eq_iff unresolved_of_def cpu_gaps_def split: option.split)
  then have gap: "firstUnresolvedSequenceGap order i2 = firstUnresolvedSequenceGap order i"
    by (simp add: firstUnresolvedSequenceGap_def)
  have u: "snp_unobserved_tail (ti_snapshot i3) = snp_unobserved_tail (ti_snapshot i)"
    by (simp add: i1_def i2_def i3_def observeLossTime_def setSequenceGapLocation_def split: option.split)
  have t: "snp_tainted (ti_snapshot i3) \<longleftrightarrow> snp_tainted (ti_snapshot i) \<or> producer_failed stats \<or> firstUnresolvedSequenceGap order i \<noteq> None"
    unfolding i3_def gap by (auto simp: i1_def i2_def observeLossTime_def setSequenceGapLocation_def split: option.split)
  have cs: "cpu_state i3 = cpu_state i" using v(3) by (simp add: seq_view_def cpu_state_def fun_eq_iff)
  have f: "finalize th order stats i = (let (tail, i4) = count_tail 0 (brs_event_sequences stats) (False, i3)
      in if tail then taint th ''sequence_tail_at_finalization'' i4 else i4)"
    using assms(1) unfolding finalize_def i3_def i2_def i1_def Let_def by simp
  show ?thesis
    using count_tail_spec [of "brs_event_sequences stats" i3 0 d False] assms(2) v(3) u t
    unfolding f cs by (auto simp: split_beta Let_def)
qed

lemma no_gaps:
  assumes "tracking seen i" "lost i = 0"
  shows "firstUnresolvedSequenceGap order i = None"
proof -
  have "cpu_gaps i c = []" for c
  proof -
    have "missing (cpu_gaps i c) = {}" using assms(2) by (simp add: lost_def)
    moreover have "gaps_ok (cpu_gaps i c)" using assms(1) by (simp add: tracking_def cpu_tracks_def cpu_gaps_state)
    ultimately show ?thesis by (cases "cpu_gaps i c") (auto simp: gaps_ok_Cons gap_nums_def word_le_nat_alt)
  qed
  then have "concat (map (cpu_gaps i) order) = []" by simp
  then show ?thesis unfolding firstUnresolvedSequenceGap_def by (simp only: fold.simps id_apply)
qed

section \<open>The sums of the statistics\<close>

definition sum_field :: "(bpf_stats \<Rightarrow> u64) \<Rightarrow> bpf_stats list \<Rightarrow> u64" where
  "sum_field f vs = (\<Sum>v\<leftarrow>vs. f v)"

lemma add_orphans_simps [simp]:
  "brs_event_sequences (add_orphans v st) = brs_event_sequences st"
  "brs_integrity_first_time_ns (add_orphans v st) = brs_integrity_first_time_ns st"
  "brs_ringbuf_reserve_fail (add_orphans v st) = brs_ringbuf_reserve_fail st"
  "brs_ringbuf_copy_fail (add_orphans v st) = brs_ringbuf_copy_fail st"
  "brs_pending_update_fail (add_orphans v st) = brs_pending_update_fail st"
  "brs_pending_mismatch (add_orphans v st) = brs_pending_mismatch st"
  "brs_lifecycle_map_update_fail (add_orphans v st) = brs_lifecycle_map_update_fail st"
  "brs_lifecycle_fork_failed (add_orphans v st) = brs_lifecycle_fork_failed st"
  "brs_available (add_orphans v st) = brs_available st"
  by (simp_all add: add_orphans_def Let_def)

lemma fold_stats:
  "brs_event_sequences (fold add_cpu_stats vs st) = brs_event_sequences st @ map st_event_seq vs"
  "brs_ringbuf_reserve_fail (fold add_cpu_stats vs st) = brs_ringbuf_reserve_fail st + sum_field st_ringbuf_reserve_fail vs"
  "brs_ringbuf_copy_fail (fold add_cpu_stats vs st) = brs_ringbuf_copy_fail st + sum_field st_ringbuf_copy_fail vs"
  "brs_pending_update_fail (fold add_cpu_stats vs st) = brs_pending_update_fail st + sum_field st_pending_update_fail vs"
  "brs_pending_mismatch (fold add_cpu_stats vs st) = brs_pending_mismatch st + sum_field st_pending_mismatch vs"
  "brs_lifecycle_map_update_fail (fold add_cpu_stats vs st) =
     brs_lifecycle_map_update_fail st + sum_field st_lifecycle_map_update_fail vs"
  "brs_lifecycle_fork_failed (fold add_cpu_stats vs st) =
     brs_lifecycle_fork_failed st + sum_field st_lifecycle_fork_child_filter_failed vs"
  "brs_available (fold add_cpu_stats vs st) = brs_available st"
  "(\<forall>v\<in>set vs. st_integrity_first_time_ns v = 0) \<Longrightarrow>
     brs_integrity_first_time_ns (fold add_cpu_stats vs st) = brs_integrity_first_time_ns st"
  by (induction vs arbitrary: st) (simp_all add: add_cpu_stats_def Let_def sum_field_def algebra_simps)

lemma stats_sums:
  "brs_event_sequences (sumBPFStatsValues vs) = map st_event_seq vs"
  "brs_ringbuf_reserve_fail (sumBPFStatsValues vs) = sum_field st_ringbuf_reserve_fail vs"
  "brs_ringbuf_copy_fail (sumBPFStatsValues vs) = sum_field st_ringbuf_copy_fail vs"
  "brs_pending_update_fail (sumBPFStatsValues vs) = sum_field st_pending_update_fail vs"
  "brs_pending_mismatch (sumBPFStatsValues vs) = sum_field st_pending_mismatch vs"
  "brs_lifecycle_map_update_fail (sumBPFStatsValues vs) = sum_field st_lifecycle_map_update_fail vs"
  "brs_lifecycle_fork_failed (sumBPFStatsValues vs) = sum_field st_lifecycle_fork_child_filter_failed vs"
  "brs_available (sumBPFStatsValues vs)"
  "(\<forall>v\<in>set vs. st_integrity_first_time_ns v = 0) \<Longrightarrow> brs_integrity_first_time_ns (sumBPFStatsValues vs) = 0"
  by (simp_all add: sumBPFStatsValues_def fold_stats unavailableBPFStats_def)

end
