(* ===== verification/Consumer_System.thy ===== *)
theory Consumer_System
  imports Probe_System Event_Reader
begin

text \<open>
  Probes and consumer together: what the reader and its integrity tracker conclude from the records of a run of the tracer,
  compared with what the probes did.
\<close>

section \<open>The numbers in the ring buffer\<close>






section \<open>Losses are counted exactly\<close>


















section \<open>A run that loses a record\<close>






definition sample_tally :: tally where
  "sample_tally = add_entry 0 1 0 0 0 (add_entry 0 0 1 0 1 zero_tally)"











lemma sample_tally_sel [simp]: "attempts sample_tally 0 = 2" "no_room sample_tally 0 = 1" "discarded sample_tally 0 = 0"
  "recorded sample_tally = 1"
  by (simp_all add: sample_tally_def add_entry_def zero_tally_def)

section \<open>What the user is told\<close>








end
