(* ===== verification/Trace_State.thy ===== *)
theory Trace_State
  imports Trace_Integrity Route_Manifest "HOL-Library.Product_Lexorder" "HOL-Library.Sublist"
begin

text \<open>
  The consumer's memory between records: the syscalls in flight and the exits that wait for their enter
  (\<^verbatim>\<open>event_syscall_correlation.go\<close>, \<^verbatim>\<open>event_payload_storage.go\<close>, \<^verbatim>\<open>event_state_snapshot.go\<close>), the calls to
  report as unfinished (\<^verbatim>\<open>event_unfinished_state.go\<close>), the tasks (\<^verbatim>\<open>event_task_lifecycle.go\<close>), the attached roots
  (\<^verbatim>\<open>event_attach_state.go\<close>) and the handling of an envelope (\<^verbatim>\<open>event_state.go\<close>,
  \<^verbatim>\<open>event_state_dispatch.go\<close>, \<^verbatim>\<open>event_history_taint.go\<close>), all under \<^verbatim>\<open>cmd/strace-go\<close>.

  The pools of reusable objects are left out: an object that Go takes from a pool is overwritten before it is used, so the
  entries of the maps are values.  A Go map with empty values is a set.  Syscalls that Go tells apart by name are given
  by their amd64 numbers, as in the route manifest.
\<close>

section \<open>Views of an envelope\<close>

record trace_record_integrity =
  tri_epoch :: u64
  tri_correlation_tainted :: bool
  tri_unsequenced :: bool
  tri_cpu :: u32
  tri_sequence :: u64
  tri_loss_epoch :: u64
  tri_record :: u64
  tri_tainted :: bool
  tri_domains :: "string list option"

record syscall_event_view =
  sv_integrity :: trace_record_integrity
  sv_event_version :: u16
  sv_pid :: u32
  sv_tid :: u32
  sv_sys_id :: u32
  sv_event_type :: u16
  sv_event_flags :: u16
  sv_args :: args6
  sv_ret :: s64
  sv_duration :: u64
  sv_cpu_duration :: u64
  sv_enter_time :: u64
  sv_stack_id :: s32
  sv_kvm_exit_reason :: u32
  sv_probe_ret_enter :: s32
  sv_probe_ret_exit :: s32
  sv_comm :: bytes

record lifecycle_event_view =
  lv_integrity :: trace_record_integrity
  lv_event_version :: u16
  lv_event_type :: u16
  lv_event_flags :: u16
  lv_action :: u32
  lv_pid :: u32
  lv_tid :: u32
  lv_args :: args6
  lv_enter_time :: u64
  lv_snapshot_text :: bytes
  lv_comm :: bytes

record signal_event_view =
  gv_pid :: u32
  gv_tid :: u32
  gv_enter_time :: u64
  gv_signo :: u32
  gv_error :: s32
  gv_code :: s32
  gv_sender_pid :: u32
  gv_sender_uid :: u32
  gv_stack_id :: s32
  gv_address :: u64
  gv_status :: s32
  gv_user_time :: s64
  gv_system_time :: s64

definition integrityRecordDomains :: "bool \<Rightarrow> bool \<Rightarrow> string list option" where
  "integrityRecordDomains tainted correlation =
     (if \<not> tainted then None
      else Some ([''fd_state'', ''lifecycle'', ''output_state''] @ (if correlation then [''syscall_correlation''] else [])))"

definition recordIntegrity :: "observed_envelope \<Rightarrow> trace_record_integrity" where
  "recordIntegrity ev = \<lparr>tri_epoch = obs_integrity_epoch ev, tri_correlation_tainted = obs_correlation_tainted ev,
     tri_unsequenced = env_legacy_integrity ev, tri_cpu = env_cpu ev, tri_sequence = env_seq ev,
     tri_loss_epoch = env_loss_epoch ev, tri_record = obs_record_index ev, tri_tainted = obs_tainted ev,
     tri_domains = integrityRecordDomains (obs_tainted ev) (obs_correlation_tainted ev)\<rparr>"

definition syscallView :: "observed_envelope \<Rightarrow> syscall_event_view" where
  "syscallView ev = \<lparr>sv_integrity = recordIntegrity ev, sv_event_version = env_event_version ev, sv_pid = env_pid ev,
     sv_tid = env_tid ev, sv_sys_id = env_sys_id ev, sv_event_type = env_event_type ev,
     sv_event_flags = env_event_flags ev, sv_args = env_args ev, sv_ret = env_ret ev, sv_duration = env_duration ev,
     sv_cpu_duration = env_cpu_duration ev, sv_enter_time = env_enter_time ev, sv_stack_id = env_stack_id ev,
     sv_kvm_exit_reason = env_kvm_exit_reason ev, sv_probe_ret_enter = env_probe_ret_enter ev,
     sv_probe_ret_exit = env_probe_ret_exit ev, sv_comm = env_comm ev\<rparr>"

definition lifecycleView :: "observed_envelope \<Rightarrow> lifecycle_event_view" where
  "lifecycleView ev = \<lparr>lv_integrity = recordIntegrity ev, lv_event_version = env_event_version ev,
     lv_event_type = env_event_type ev, lv_event_flags = env_event_flags ev, lv_action = env_lifecycle_action ev,
     lv_pid = env_pid ev, lv_tid = env_tid ev, lv_args = env_args ev, lv_enter_time = env_enter_time ev,
     lv_snapshot_text = env_snapshot_text ev, lv_comm = env_comm ev\<rparr>"

definition signalView :: "observed_envelope \<Rightarrow> signal_event_view" where
  "signalView ev = \<lparr>gv_pid = env_pid ev, gv_tid = env_tid ev, gv_enter_time = env_enter_time ev,
     gv_signo = env_signal ev, gv_error = env_signal_err ev, gv_code = env_signal_code ev,
     gv_sender_pid = env_sender_pid ev, gv_sender_uid = env_sender_uid ev, gv_stack_id = env_stack_id ev,
     gv_address = env_signal_address ev, gv_status = env_signal_status ev, gv_user_time = env_signal_user_time ev,
     gv_system_time = env_signal_system_time ev\<rparr>"

definition isGenericEnterView :: "syscall_event_view \<Rightarrow> bool" where
  "isGenericEnterView view \<longleftrightarrow> sv_event_type view = EVENT_TYPE_ENTER \<and> has_flag (sv_event_flags view) EVENT_FLAG_GENERIC_ENTER"

definition isEnterFragmentView :: "syscall_event_view \<Rightarrow> bool" where
  "isEnterFragmentView view \<longleftrightarrow> sv_event_type view = EVENT_TYPE_ENTER \<and> has_flag (sv_event_flags view) EVENT_FLAG_ENTER_FRAGMENT"

definition isExitView :: "syscall_event_view \<Rightarrow> bool" where
  "isExitView view \<longleftrightarrow> sv_event_type view = EVENT_TYPE_EXIT"

definition isExitFragmentView :: "syscall_event_view \<Rightarrow> bool" where
  "isExitFragmentView view \<longleftrightarrow> isExitView view \<and> has_flag (sv_event_flags view) EVENT_FLAG_EXIT_FRAGMENT"

section \<open>Payload sections of one call\<close>

text \<open>
  \<^verbatim>\<open>DecodeFDPathSnapshot\<close> (\<^verbatim>\<open>pkg/handler/fd_path.go\<close>) as far as \<^verbatim>\<open>nestedFDPathSnapshotFD\<close> needs it: the
  descriptor of the observation in front of a path that is not empty.
\<close>

definition trim_zeros :: "bytes \<Rightarrow> bytes" where
  "trim_zeros data = rev (dropWhile (\<lambda>b. b = 0) (rev data))"

definition nestedFDPathSnapshotFD :: "payload_section \<Rightarrow> s32 option" where
  "nestedFDPathSnapshotFD sect =
     (let data = sec_data sect;
          observed = (48 \<le> length data \<and> 0 \<le> sint (rd32 0 data) \<and> rd32 4 data AND NOT 3 = 0)
      in if \<not> observed \<or> trim_zeros (drop 48 data) = [] then None else Some (rd32 0 data))"

definition nestedFDPathIdentityMatches :: "payload_section \<Rightarrow> payload_section \<Rightarrow> bool" where
  "nestedFDPathIdentityMatches left right =
     (if sec_kind left \<noteq> PayloadKindFDPath \<or> sec_arg_index left \<noteq> 0xfffd then True
      else nestedFDPathSnapshotFD left = nestedFDPathSnapshotFD right)"

definition hasEquivalentPayloadSection :: "payload_section list \<Rightarrow> payload_section \<Rightarrow> bool" where
  "hasEquivalentPayloadSection sects want = list_ex (\<lambda>sect. sec_kind sect = sec_kind want \<and>
     sec_direction sect = sec_direction want \<and> sec_arg_index sect = sec_arg_index want \<and>
     sec_user_ptr sect = sec_user_ptr want \<and> nestedFDPathIdentityMatches sect want) sects"

definition mergePayloadSectionsIntoStorage :: "payload_section list \<Rightarrow> payload_section list \<Rightarrow> payload_section list" where
  "mergePayloadSectionsIntoStorage storage next =
     fold (\<lambda>sect acc. if hasEquivalentPayloadSection acc sect then acc else acc @ [sect]) next storage"

text \<open>What the output sees of an enter and a later record: the sections of the enter that the record does not bring anew, then its own.\<close>

definition mergeView :: "payload_section list \<Rightarrow> payload_section list \<Rightarrow> payload_section list" where
  "mergeView storage current =
     (if current = [] then storage else filter (\<lambda>sect. \<not> hasEquivalentPayloadSection current sect) storage @ current)"

section \<open>Correlation\<close>

record pending_syscall_state =
  pnd_pid :: u32
  pnd_tid :: u32
  pnd_sys_id :: u32
  pnd_enter_time :: u64
  pnd_args :: args6
  pnd_probe_ret_enter :: s32
  pnd_generic_enter_raw :: bool
  pnd_unfinished_printed :: bool
  pnd_payload :: "payload_section list"

record pending_exit_state =
  pex_view :: syscall_event_view
  pex_payload :: "payload_section list"

record trace_syscall_correlation_state =
  pending_syscalls :: "u32 \<rightharpoonup> pending_syscall_state"
  pending_exits :: "u32 \<rightharpoonup> pending_exit_state"
  pending_exec_args :: "int \<rightharpoonup> string"
  suspended_syscalls :: "int \<rightharpoonup> string"

type_synonym correlation = trace_syscall_correlation_state

definition zero_correlation :: correlation where
  "zero_correlation = \<lparr>pending_syscalls = Map.empty, pending_exits = Map.empty, pending_exec_args = Map.empty,
     suspended_syscalls = Map.empty\<rparr>"

definition new_pending :: "syscall_event_view \<Rightarrow> payload_section list \<Rightarrow> pending_syscall_state" where
  "new_pending view payload = \<lparr>pnd_pid = sv_pid view, pnd_tid = sv_tid view, pnd_sys_id = sv_sys_id view,
     pnd_enter_time = sv_enter_time view, pnd_args = sv_args view, pnd_probe_ret_enter = sv_probe_ret_enter view,
     pnd_generic_enter_raw = isGenericEnterView view, pnd_unfinished_printed = 2 \<le> sint (sv_probe_ret_enter view),
     pnd_payload = payload\<rparr>"

definition set_pending :: "u32 \<Rightarrow> pending_syscall_state option \<Rightarrow> correlation \<Rightarrow> correlation" where
  "set_pending tid p c = c\<lparr>pending_syscalls := (pending_syscalls c)(tid := p)\<rparr>"

text \<open>The result tells whether a new entry was made.\<close>

definition rememberEnterEvent :: "syscall_event_view \<Rightarrow> payload_section list \<Rightarrow> correlation \<Rightarrow> bool \<times> correlation" where
  "rememberEnterEvent view payload c =
     (case pending_syscalls c (sv_tid view) of
        Some p \<Rightarrow>
          if pnd_sys_id p = sv_sys_id view
          then (False, set_pending (sv_tid view) (Some (p\<lparr>
             pnd_generic_enter_raw := pnd_generic_enter_raw p \<or> isGenericEnterView view,
             pnd_unfinished_printed := pnd_unfinished_printed p \<or> 2 \<le> sint (sv_probe_ret_enter view),
             pnd_payload := mergePayloadSectionsIntoStorage (pnd_payload p) payload\<rparr>)) c)
          else (True, set_pending (sv_tid view) (Some (new_pending view payload)) c)
      | None \<Rightarrow> (True, set_pending (sv_tid view) (Some (new_pending view payload)) c))"

definition rememberPayloadFragment :: "syscall_event_view \<Rightarrow> payload_section list \<Rightarrow> correlation \<Rightarrow> correlation" where
  "rememberPayloadFragment view payload c =
     (case pending_syscalls c (sv_tid view) of
        None \<Rightarrow> c
      | Some p \<Rightarrow>
          if pnd_sys_id p \<noteq> sv_sys_id view then c
          else set_pending (sv_tid view) (Some (p\<lparr>pnd_payload := mergePayloadSectionsIntoStorage (pnd_payload p) payload\<rparr>)) c)"

definition rememberPendingExit :: "syscall_event_view \<Rightarrow> payload_section list \<Rightarrow> correlation \<Rightarrow> correlation" where
  "rememberPendingExit view payload c =
     c\<lparr>pending_exits := (pending_exits c)(sv_tid view \<mapsto> \<lparr>pex_view = view, pex_payload = payload\<rparr>)\<rparr>"

definition takePendingExitForTID :: "u32 \<Rightarrow> correlation \<Rightarrow> pending_exit_state option \<times> correlation" where
  "takePendingExitForTID tid c = (pending_exits c tid, c\<lparr>pending_exits := (pending_exits c)(tid := None)\<rparr>)"

definition takePendingExit :: "syscall_event_view \<Rightarrow> correlation \<Rightarrow> pending_exit_state option \<times> correlation" where
  "takePendingExit view c =
     (case takePendingExitForTID (sv_tid view) c of
        (None, c') \<Rightarrow> (None, c')
      | (Some e, c') \<Rightarrow>
          if sv_sys_id (pex_view e) \<noteq> sv_sys_id view \<or> sv_enter_time (pex_view e) \<noteq> sv_enter_time view
          then (None, c') else (Some e, c'))"

text \<open>\<^verbatim>\<open>pendingSyscallSnapshot\<close> has the fields of the pending entry: the snapshot is the entry itself.\<close>

definition consumeEnterEvent :: "syscall_event_view \<Rightarrow> correlation \<Rightarrow> pending_syscall_state option \<times> correlation" where
  "consumeEnterEvent view c =
     (if \<not> isExitView view then (None, c)
      else (case pending_syscalls c (sv_tid view) of
              None \<Rightarrow> None
            | Some p \<Rightarrow> if pnd_sys_id p \<noteq> sv_sys_id view then None else Some p,
            set_pending (sv_tid view) None c))"

definition synthesizeGenericEnter :: "syscall_event_view \<Rightarrow> pending_syscall_state" where
  "synthesizeGenericEnter view = \<lparr>pnd_pid = sv_pid view, pnd_tid = sv_tid view, pnd_sys_id = sv_sys_id view,
     pnd_enter_time = sv_enter_time view, pnd_args = sv_args view, pnd_probe_ret_enter = -1,
     pnd_generic_enter_raw = True, pnd_unfinished_printed = False, pnd_payload = []\<rparr>"

definition rememberPendingExecArgs :: "int \<Rightarrow> string \<Rightarrow> correlation \<Rightarrow> correlation" where
  "rememberPendingExecArgs tid arg_line c = c\<lparr>pending_exec_args := (pending_exec_args c)(tid \<mapsto> arg_line)\<rparr>"

definition takePendingExecArgs :: "int \<Rightarrow> correlation \<Rightarrow> string option \<times> correlation" where
  "takePendingExecArgs tid c = (pending_exec_args c tid, c\<lparr>pending_exec_args := (pending_exec_args c)(tid := None)\<rparr>)"

definition deletePendingExecArgs :: "int \<Rightarrow> correlation \<Rightarrow> correlation" where
  "deletePendingExecArgs tid c = c\<lparr>pending_exec_args := (pending_exec_args c)(tid := None)\<rparr>"

definition rememberSuspendedSyscall :: "int \<Rightarrow> string \<Rightarrow> correlation \<Rightarrow> correlation" where
  "rememberSuspendedSyscall tid name c = c\<lparr>suspended_syscalls := (suspended_syscalls c)(tid \<mapsto> name)\<rparr>"

definition deleteSuspendedSyscall :: "int \<Rightarrow> correlation \<Rightarrow> correlation" where
  "deleteSuspendedSyscall tid c = c\<lparr>suspended_syscalls := (suspended_syscalls c)(tid := None)\<rparr>"

definition consumeSuspendedSyscall :: "int \<Rightarrow> correlation \<Rightarrow> bool \<times> correlation" where
  "consumeSuspendedSyscall tid c = (suspended_syscalls c tid \<noteq> None, deleteSuspendedSyscall tid c)"

definition markUnfinishedPrinted :: "u32 \<Rightarrow> correlation \<Rightarrow> correlation" where
  "markUnfinishedPrinted tid c =
     (case pending_syscalls c tid of None \<Rightarrow> c | Some p \<Rightarrow> set_pending tid (Some (p\<lparr>pnd_unfinished_printed := True\<rparr>)) c)"

definition clearTask :: "u32 \<Rightarrow> correlation \<Rightarrow> correlation" where
  "clearTask tid c = \<lparr>pending_syscalls = (pending_syscalls c)(tid := None), pending_exits = (pending_exits c)(tid := None),
     pending_exec_args = (pending_exec_args c)(uint tid := None), suspended_syscalls = (suspended_syscalls c)(uint tid := None)\<rparr>"

section \<open>Calls to report as unfinished\<close>

record trace_unfinished_state =
  unf_enabled :: bool
  unf_unqueued :: "u32 set"
  unf_in_flight :: "u32 set"

record unfinished_syscall_view =
  ufv_pid :: u32
  ufv_tid :: u32
  ufv_sys_id :: u32
  ufv_enter_time :: u64
  ufv_args :: args6
  ufv_probe_ret_enter :: s32
  ufv_payload :: "payload_section list"

definition unfinishedView :: "pending_syscall_state \<Rightarrow> unfinished_syscall_view" where
  "unfinishedView p = \<lparr>ufv_pid = pnd_pid p, ufv_tid = pnd_tid p, ufv_sys_id = pnd_sys_id p,
     ufv_enter_time = pnd_enter_time p, ufv_args = pnd_args p, ufv_probe_ret_enter = pnd_probe_ret_enter p,
     ufv_payload = pnd_payload p\<rparr>"

text \<open>\<^verbatim>\<open>isStableNonBlockingSyscall\<close> on the amd64 table, in the order of the names in the source.\<close>

definition isStableNonBlockingSyscall :: "u32 \<Rightarrow> bool" where
  "isStableNonBlockingSyscall sys_id \<longleftrightarrow> sys_id \<in> {39, 186, 110, 102, 107, 104, 108, 118, 120, 111, 121, 124, 309, 96, 201,
     228, 229, 158, 274, 218, 273, 334}"

definition shouldTrackUnfinishedSyscall :: "u32 \<Rightarrow> bool" where
  "shouldTrackUnfinishedSyscall sys_id \<longleftrightarrow> \<not> isStableNonBlockingSyscall sys_id"

definition unfinished_candidate :: "pending_syscall_state option \<Rightarrow> bool" where
  "unfinished_candidate pending = (case pending of None \<Rightarrow> False
     | Some p \<Rightarrow> \<not> pnd_unfinished_printed p \<and> sint (pnd_probe_ret_enter p) < 2 \<and> shouldTrackUnfinishedSyscall (pnd_sys_id p))"

definition setEnabled :: "bool \<Rightarrow> correlation \<Rightarrow> trace_unfinished_state" where
  "setEnabled enabled c = \<lparr>unf_enabled = enabled,
     unf_unqueued = (if enabled then {tid \<in> dom (pending_syscalls c). unfinished_candidate (pending_syscalls c tid)} else {}),
     unf_in_flight = {}\<rparr>"

definition enqueue :: "u32 \<Rightarrow> u32 \<Rightarrow> trace_unfinished_state \<Rightarrow> trace_unfinished_state" where
  "enqueue tid sys_id u =
     (if \<not> unf_enabled u \<or> tid = 0 \<or> \<not> shouldTrackUnfinishedSyscall sys_id then u
      else u\<lparr>unf_unqueued := insert tid (unf_unqueued u)\<rparr>)"

definition deleteCandidate :: "u32 \<Rightarrow> trace_unfinished_state \<Rightarrow> trace_unfinished_state" where
  "deleteCandidate tid u =
     (if \<not> unf_enabled u then u
      else u\<lparr>unf_unqueued := unf_unqueued u - {tid}, unf_in_flight := unf_in_flight u - {tid}\<rparr>)"

text \<open>
  The loop over \<^verbatim>\<open>unqueued\<close> visits every candidate once and its order is lost in the sort; here it is the order of the
  thread ids.
\<close>

definition collect_candidate :: "correlation \<Rightarrow> u32 \<Rightarrow> unfinished_syscall_view list \<times> trace_unfinished_state \<Rightarrow>
    unfinished_syscall_view list \<times> trace_unfinished_state" where
  "collect_candidate c pending_tid st =
     (case pending_syscalls c pending_tid of
        Some p \<Rightarrow> if unfinished_candidate (Some p)
          then (fst st @ [unfinishedView p], (snd st)\<lparr>unf_unqueued := unf_unqueued (snd st) - {pending_tid},
             unf_in_flight := insert pending_tid (unf_in_flight (snd st))\<rparr>)
          else (fst st, deleteCandidate pending_tid (snd st))
      | None \<Rightarrow> (fst st, deleteCandidate pending_tid (snd st)))"

definition pendingForOtherTID :: "u32 \<Rightarrow> correlation \<Rightarrow> trace_unfinished_state \<Rightarrow>
    unfinished_syscall_view list \<times> trace_unfinished_state" where
  "pendingForOtherTID tid c u =
     (if \<not> unf_enabled u \<or> tid = 0 \<or> unf_unqueued u \<subseteq> {tid} then ([], u)
      else case fold (collect_candidate c) (sorted_list_of_set (unf_unqueued u - {tid})) ([], u) of (candidates, u') \<Rightarrow>
        (sort_key (\<lambda>v. (ufv_enter_time v, ufv_tid v)) candidates, u'))"

definition requeue :: "u32 \<Rightarrow> correlation \<Rightarrow> trace_unfinished_state \<Rightarrow> trace_unfinished_state" where
  "requeue tid c u =
     (if unfinished_candidate (pending_syscalls c tid)
      then u\<lparr>unf_in_flight := unf_in_flight u - {tid}, unf_unqueued := insert tid (unf_unqueued u)\<rparr>
      else u\<lparr>unf_in_flight := unf_in_flight u - {tid}, unf_unqueued := unf_unqueued u - {tid}\<rparr>)"

section \<open>Tasks\<close>

record task_state =
  tsk_tid :: u32
  tsk_tgid :: u32
  tsk_parent_tid :: u32
  tsk_alive :: bool
  tsk_execed :: bool
  tsk_exec_replaced :: bool
  tsk_executable :: bytes
  tsk_last_action :: string
  tsk_last_seen_ns :: u64

record process_state_inheritance =
  inh_parent_tgid :: u32
  inh_child_tgid :: u32

text \<open>\<^verbatim>\<open>pendingForkState\<close> is one field, the parent's process.\<close>

record trace_task_lifecycle_state =
  lc_track_fork_identity :: bool
  lc_history_tainted :: bool
  lc_tasks :: "u32 \<rightharpoonup> task_state"
  lc_pending_forks :: "u32 \<rightharpoonup> u32"
  lc_lifecycle_pending :: "u32 set"
  lc_command_target_pid :: u32
  lc_lifecycle_exited :: "u32 set"

type_synonym lifecycle = trace_task_lifecycle_state

definition zero_task :: "u32 \<Rightarrow> task_state" where
  "zero_task tid = \<lparr>tsk_tid = tid, tsk_tgid = 0, tsk_parent_tid = 0, tsk_alive = False, tsk_execed = False,
     tsk_exec_replaced = False, tsk_executable = [], tsk_last_action = '''', tsk_last_seen_ns = 0\<rparr>"

definition store_task :: "u32 \<Rightarrow> task_state \<Rightarrow> lifecycle \<Rightarrow> lifecycle" where
  "store_task tid task l = l\<lparr>lc_tasks := (lc_tasks l)(tid \<mapsto> task)\<rparr>"

definition markLifecyclePending :: "u32 \<Rightarrow> lifecycle \<Rightarrow> lifecycle" where
  "markLifecyclePending tid l = (if tid = 0 then l else l\<lparr>lc_lifecycle_pending := insert tid (lc_lifecycle_pending l)\<rparr>)"

definition clearLifecyclePending :: "u32 \<Rightarrow> lifecycle \<Rightarrow> lifecycle" where
  "clearLifecyclePending tid l = l\<lparr>lc_lifecycle_pending := lc_lifecycle_pending l - {tid}\<rparr>"

definition setCommandTargetPID :: "int \<Rightarrow> lifecycle \<Rightarrow> lifecycle" where
  "setCommandTargetPID pid l = (if pid \<le> 0 then l else l\<lparr>lc_command_target_pid := of_int pid\<rparr>)"

definition rememberLifecycleExit :: "u32 \<Rightarrow> u32 \<Rightarrow> lifecycle \<Rightarrow> lifecycle" where
  "rememberLifecycleExit pid tid l =
     (if lc_command_target_pid l = 0 \<or> (lc_command_target_pid l \<noteq> pid \<and> lc_command_target_pid l \<noteq> tid) then l
      else l\<lparr>lc_lifecycle_exited := lc_lifecycle_exited l \<union> ({pid, tid} - {0})\<rparr>)"

definition lifecycleEventObserved :: "u32 \<Rightarrow> lifecycle \<Rightarrow> bool" where
  "lifecycleEventObserved pid l \<longleftrightarrow> pid \<noteq> 0 \<and> pid \<in> lc_lifecycle_exited l"

definition quiescent :: "u32 \<Rightarrow> lifecycle \<Rightarrow> bool" where
  "quiescent pid l \<longleftrightarrow> pid \<noteq> 0 \<and> \<not> (\<exists>task\<in>ran (lc_tasks l). tsk_alive task) \<and> lc_lifecycle_pending l = {} \<and>
     \<not> (\<exists>parent\<in>ran (lc_pending_forks l). parent = pid) \<and> \<not> (lc_track_fork_identity l \<and> lc_history_tainted l)"

text \<open>\<^verbatim>\<open>ensureTaskState\<close> returns a pointer into the map: here the entry, which the caller stores back.\<close>

definition ensured_task :: "u32 \<Rightarrow> u32 \<Rightarrow> lifecycle \<Rightarrow> task_state" where
  "ensured_task tid tgid l =
     (let task = (case lc_tasks l tid of None \<Rightarrow> zero_task tid | Some task \<Rightarrow> task)
      in if tgid \<noteq> 0 then task\<lparr>tsk_tgid := tgid\<rparr> else task)"

definition taskTIDForSyscall :: "syscall_event_view \<Rightarrow> u32" where
  "taskTIDForSyscall view =
     (if \<not> isExitView view \<or> sv_ret view \<noteq> 0 \<or> sv_pid view = 0 \<or> sv_pid view = sv_tid view then sv_tid view
      else if sv_sys_id view = SYS_EXECVE \<or> sv_sys_id view = SYS_EXECVEAT then sv_pid view
      else sv_tid view)"

definition noteSyscallTask :: "syscall_event_view \<Rightarrow> lifecycle \<Rightarrow> lifecycle" where
  "noteSyscallTask view l =
     (if sv_tid view = 0 then l
      else let tid = taskTIDForSyscall view
           in store_task tid ((ensured_task tid (sv_pid view) l)\<lparr>tsk_alive := True, tsk_last_seen_ns := sv_enter_time view\<rparr>) l)"

definition resolveForkIdentity :: "u32 \<Rightarrow> u32 \<Rightarrow> lifecycle \<Rightarrow> process_state_inheritance option \<times> lifecycle" where
  "resolveForkIdentity tid tgid l =
     (if tid = 0 then (None, l)
      else case lc_pending_forks l tid of
             None \<Rightarrow> (None, l)
           | Some parent \<Rightarrow>
               if tgid = 0 then (None, l)
               else (if tgid \<noteq> tid then None else Some \<lparr>inh_parent_tgid = parent, inh_child_tgid = tgid\<rparr>,
                     l\<lparr>lc_pending_forks := (lc_pending_forks l)(tid := None)\<rparr>))"

definition applyFork :: "lifecycle_event_view \<Rightarrow> lifecycle \<Rightarrow>
    task_state option \<times> process_state_inheritance option \<times> lifecycle" where
  "applyFork view l =
     (let parent_tid = (if lv_tid view = 0 then ucast (arg0 (lv_args view)) else lv_tid view);
          parent_tgid = (if lv_pid view = 0 then ucast (arg0 (lv_args view)) else lv_pid view);
          child_tid = (ucast (arg1 (lv_args view)) :: u32);
          parent = (ensured_task parent_tid parent_tgid l)\<lparr>tsk_alive := True, tsk_last_action := ''fork'',
            tsk_last_seen_ns := lv_enter_time view\<rparr>;
          l1 = store_task parent_tid parent l;
          child0 = (if lc_track_fork_identity l1 then ensured_task child_tid 0 l1 else zero_task child_tid);
          child1 = (if \<not> lc_history_tainted l1
            then child0\<lparr>tsk_parent_tid := parent_tid, tsk_executable := tsk_executable parent\<rparr> else child0);
          child = child1\<lparr>tsk_alive := True, tsk_last_action := ''fork'', tsk_last_seen_ns := lv_enter_time view\<rparr>;
          l2 = (if lc_track_fork_identity l1 then store_task child_tid child l1 else l1);
          l3 = (if lc_track_fork_identity l2 \<and> \<not> lc_history_tainted l2
            then l2\<lparr>lc_pending_forks := (lc_pending_forks l2)(child_tid \<mapsto> parent_tgid)\<rparr> else l2);
          (inherit, l4) = resolveForkIdentity child_tid (tsk_tgid child) l3
      in (Some child, inherit, l4))"

definition exec_task :: "u32 \<Rightarrow> u32 \<Rightarrow> u32 \<Rightarrow> lifecycle \<Rightarrow> task_state \<times> lifecycle" where
  "exec_task old_tid tid tgid l =
     (if old_tid = 0 \<or> old_tid = tid then (ensured_task tid tgid l, l)
      else
        let l1 = l\<lparr>lc_tasks := (lc_tasks l)(old_tid := None)\<rparr>
        in case lc_tasks l tid of
             Some task \<Rightarrow> (if tgid \<noteq> 0 then task\<lparr>tsk_tgid := tgid\<rparr> else task, l1)
           | None \<Rightarrow>
               (case lc_tasks l old_tid of
                  None \<Rightarrow> (ensured_task tid tgid l1, l1)
                | Some old \<Rightarrow> (if tgid \<noteq> 0 then old\<lparr>tsk_tid := tid, tsk_tgid := tgid\<rparr> else old\<lparr>tsk_tid := tid\<rparr>, l1)))"

definition applyExec :: "lifecycle_event_view \<Rightarrow> lifecycle \<Rightarrow>
    task_state option \<times> process_state_inheritance option \<times> lifecycle" where
  "applyExec view l =
     (let tid = (if (ucast (arg1 (lv_args view)) :: u32) = 0 then lv_tid view else ucast (arg1 (lv_args view)));
          old_tid = (ucast (arg0 (lv_args view)) :: u32);
          (inherit, l1) = resolveForkIdentity (if old_tid \<noteq> 0 then old_tid else tid) (lv_pid view) l;
          (task0, l2) = exec_task old_tid tid (lv_pid view) l1;
          task = task0\<lparr>tsk_execed := True, tsk_exec_replaced := (old_tid \<noteq> 0 \<and> old_tid \<noteq> tid),
            tsk_executable := lv_snapshot_text view, tsk_alive := True, tsk_last_action := ''exec'',
            tsk_last_seen_ns := lv_enter_time view\<rparr>
      in (Some task, inherit, store_task tid task l2))"

definition applyTaskExit :: "lifecycle_event_view \<Rightarrow> lifecycle \<Rightarrow>
    task_state option \<times> process_state_inheritance option \<times> lifecycle" where
  "applyTaskExit view l =
     (let (inherit, l1) = resolveForkIdentity (lv_tid view) (lv_pid view) l;
          task = (ensured_task (lv_tid view) (lv_pid view) l1)\<lparr>tsk_alive := False,
            tsk_last_action := (if lv_action view = LIFECYCLE_EXIT then ''exit'' else ''free''),
            tsk_last_seen_ns := lv_enter_time view\<rparr>
      in (Some task, inherit, store_task (lv_tid view) task l1))"

definition apply_lifecycle :: "lifecycle_event_view \<Rightarrow> lifecycle \<Rightarrow>
    task_state option \<times> process_state_inheritance option \<times> lifecycle" where
  "apply_lifecycle view l =
     (let action = lv_action view
      in if action = LIFECYCLE_UNKNOWN_DETACH \<or> action = LIFECYCLE_UNKNOWN_EXIT then (None, None, l)
         else if action = LIFECYCLE_FORK then applyFork view l
         else if action = LIFECYCLE_EXEC then applyExec view l
         else if action = LIFECYCLE_EXIT \<or> action = LIFECYCLE_FREE then applyTaskExit view l
         else
           let (inherit, l1) = resolveForkIdentity (lv_tid view) (lv_pid view) l;
               task = (ensured_task (lv_tid view) (lv_pid view) l1)\<lparr>tsk_last_action := ''unknown'',
                 tsk_last_seen_ns := lv_enter_time view\<rparr>
           in (Some task, inherit, store_task (lv_tid view) task l1))"

section \<open>Attached roots\<close>

text \<open>\<open>is_exited\<close> answers \<^verbatim>\<open>IsExited\<close> of the exit reader, \<open>None\<close> when the lookup fails.\<close>

record trace_attach_state =
  att_targets :: "u32 set"
  att_has_reader :: bool
  att_reader_enabled :: bool

definition seedTargets :: "int list \<Rightarrow> trace_attach_state \<Rightarrow> trace_attach_state" where
  "seedTargets pids a = a\<lparr>att_targets := att_targets a \<union> of_int ` {pid \<in> set pids. pid > 0}\<rparr>"

definition targetsDone :: "trace_attach_state \<Rightarrow> bool" where
  "targetsDone a \<longleftrightarrow> att_targets a = {}"

definition setExitReader :: "bool \<Rightarrow> trace_attach_state \<Rightarrow> trace_attach_state" where
  "setExitReader has_reader a = a\<lparr>att_has_reader := has_reader, att_reader_enabled := True\<rparr>"

datatype attach_error = Reader_Unavailable | Refresh_Failed u32

definition targetExitFact :: "(u32 \<Rightarrow> bool option) \<Rightarrow> u32 \<Rightarrow> trace_attach_state \<Rightarrow> attach_error + bool" where
  "targetExitFact is_exited pid a =
     (if pid = 0 then Inr False
      else if \<not> att_has_reader a then (if att_reader_enabled a then Inl Reader_Unavailable else Inr False)
      else case is_exited pid of None \<Rightarrow> Inl (Refresh_Failed pid) | Some exited \<Rightarrow> Inr exited)"

fun refresh_loop :: "(u32 \<Rightarrow> bool option) \<Rightarrow> u32 list \<Rightarrow> trace_attach_state \<Rightarrow> attach_error option \<times> trace_attach_state" where
  "refresh_loop is_exited [] a = (None, a)"
| "refresh_loop is_exited (pid # pids) a =
     (case is_exited pid of
        None \<Rightarrow> (Some (Refresh_Failed pid), a)
      | Some exited \<Rightarrow> refresh_loop is_exited pids (if exited then a\<lparr>att_targets := att_targets a - {pid}\<rparr> else a))"

text \<open>\<open>order\<close> lists the targets in the order in which \<^verbatim>\<open>range\<close> visits them.\<close>

definition refreshTargets :: "(u32 \<Rightarrow> bool option) \<Rightarrow> u32 list \<Rightarrow> trace_attach_state \<Rightarrow> attach_error option \<times> trace_attach_state" where
  "refreshTargets is_exited order a =
     (if att_targets a = {} then (None, a)
      else if \<not> att_has_reader a then (if att_reader_enabled a then Some Reader_Unavailable else None, a)
      else refresh_loop is_exited order a)"

definition markTargetExited :: "u32 \<Rightarrow> u32 \<Rightarrow> trace_attach_state \<Rightarrow> trace_attach_state" where
  "markTargetExited pid tid a = a\<lparr>att_targets := att_targets a - (if tid \<noteq> 0 then {tid} else {}) -
     (if pid \<noteq> 0 \<and> pid = tid then {pid} else {})\<rparr>"

definition markTargetTerminated :: "syscall_event_view \<Rightarrow> trace_attach_state \<Rightarrow> trace_attach_state" where
  "markTargetTerminated view a =
     (let a1 = markTargetExited (sv_pid view) (sv_tid view) a
      in if sv_pid view \<noteq> 0 \<and> sv_sys_id view = SYS_EXIT_GROUP then a1\<lparr>att_targets := att_targets a1 - {sv_pid view}\<rparr> else a1)"

section \<open>The state and its handling of an envelope\<close>

record syscall_lifecycle_ids =
  lid_exit :: u32
  lid_exit_group :: u32
  lid_has_exit :: bool
  lid_has_exit_group :: bool

record trace_state =
  ts_tainted :: bool
  ts_defer_unmatched_exits :: bool
  ts_elide_plain_enter :: bool
  ts_elide_non_blocking :: bool
  ts_lifecycle_ids :: syscall_lifecycle_ids
  ts_correlation :: correlation
  ts_unfinished :: trace_unfinished_state
  ts_lifecycle :: lifecycle
  ts_attach :: trace_attach_state

datatype trace_state_event_kind =
    StateSyscallExit | StateSyscallEnter | StateLifecycle | StateSignal | StateSyscallFragment

record trace_deferred_exit =
  dfx_view :: syscall_event_view
  dfx_payload :: "payload_section list"
  dfx_pending_enter :: "pending_syscall_state option"

text \<open>
  Of the three views of \<^verbatim>\<open>TraceStateUpdate\<close> the one of the kind is set: they are one field each, \<open>None\<close> when Go leaves
  the zero value.  \<^verbatim>\<open>deferredExit.valid\<close> is whether there is one.
\<close>

record trace_state_update =
  upd_kind :: trace_state_event_kind
  upd_deferred :: bool
  upd_syscall_view :: "syscall_event_view option"
  upd_lifecycle_view :: "lifecycle_event_view option"
  upd_signal_view :: "signal_event_view option"
  upd_payload :: "payload_section list"
  upd_pending_enter :: "pending_syscall_state option"
  upd_lifecycle_task :: "task_state option"
  upd_process_inherit :: "process_state_inheritance option"
  upd_unfinished :: "unfinished_syscall_view list"
  upd_deferred_exit :: "trace_deferred_exit option"

definition zero_update :: trace_state_update where
  "zero_update = \<lparr>upd_kind = StateSyscallExit, upd_deferred = False, upd_syscall_view = None, upd_lifecycle_view = None,
     upd_signal_view = None, upd_payload = [], upd_pending_enter = None, upd_lifecycle_task = None,
     upd_process_inherit = None, upd_unfinished = [], upd_deferred_exit = None\<rparr>"

definition with_correlation :: "(correlation \<Rightarrow> correlation) \<Rightarrow> trace_state \<Rightarrow> trace_state" where
  "with_correlation f st = st\<lparr>ts_correlation := f (ts_correlation st)\<rparr>"

definition with_unfinished :: "(trace_unfinished_state \<Rightarrow> trace_unfinished_state) \<Rightarrow> trace_state \<Rightarrow> trace_state" where
  "with_unfinished f st = st\<lparr>ts_unfinished := f (ts_unfinished st)\<rparr>"

definition with_lifecycle :: "(lifecycle \<Rightarrow> lifecycle) \<Rightarrow> trace_state \<Rightarrow> trace_state" where
  "with_lifecycle f st = st\<lparr>ts_lifecycle := f (ts_lifecycle st)\<rparr>"

definition with_attach :: "(trace_attach_state \<Rightarrow> trace_attach_state) \<Rightarrow> trace_state \<Rightarrow> trace_state" where
  "with_attach f st = st\<lparr>ts_attach := f (ts_attach st)\<rparr>"

definition PendingStaleCount :: "trace_state \<Rightarrow> nat" where
  "PendingStaleCount st = card (dom (pending_syscalls (ts_correlation st)))"

definition TargetLifecycleExited :: "(u32 \<Rightarrow> bool option) \<Rightarrow> u32 \<Rightarrow> trace_state \<Rightarrow> attach_error + bool" where
  "TargetLifecycleExited is_exited pid st =
     (if pid = 0 then Inr False
      else if lifecycleEventObserved pid (ts_lifecycle st) then Inr True
      else targetExitFact is_exited pid (ts_attach st))"

definition isTerminatingSyscall :: "syscall_event_view \<Rightarrow> trace_state \<Rightarrow> bool" where
  "isTerminatingSyscall view st =
     (let ids = ts_lifecycle_ids st
      in if \<not> (lid_has_exit ids \<or> lid_has_exit_group ids) then sv_sys_id view = SYS_EXIT \<or> sv_sys_id view = SYS_EXIT_GROUP
         else (lid_has_exit ids \<and> sv_sys_id view = lid_exit ids) \<or>
              (lid_has_exit_group ids \<and> sv_sys_id view = lid_exit_group ids))"

definition clearTaskPending :: "u32 \<Rightarrow> trace_state \<Rightarrow> trace_state" where
  "clearTaskPending tid st = with_lifecycle (\<lambda>l. l\<lparr>lc_pending_forks := (lc_pending_forks l)(tid := None)\<rparr>)
     (with_correlation (clearTask tid) (with_unfinished (deleteCandidate tid) st))"

definition retireTask :: "u32 \<Rightarrow> trace_state \<Rightarrow> trace_state" where
  "retireTask tid st =
     (if tid = 0 then st
      else with_lifecycle (\<lambda>l. l\<lparr>lc_tasks := (lc_tasks l)(tid := None)\<rparr>) (clearTaskPending tid st))"

definition state_rememberEnterEvent :: "syscall_event_view \<Rightarrow> payload_section list \<Rightarrow> trace_state \<Rightarrow> trace_state" where
  "state_rememberEnterEvent view payload st =
     (case rememberEnterEvent view payload (ts_correlation st) of (new, c) \<Rightarrow>
        let st1 = st\<lparr>ts_correlation := c\<rparr>
        in if \<not> new then st1
           else with_unfinished (\<lambda>u. enqueue (sv_tid view) (sv_sys_id view) (deleteCandidate (sv_tid view) u)) st1)"

definition state_rememberPayloadFragment :: "syscall_event_view \<Rightarrow> payload_section list \<Rightarrow> trace_state \<Rightarrow> trace_state" where
  "state_rememberPayloadFragment view payload st =
     (if ts_tainted st \<and> (case pending_syscalls (ts_correlation st) (sv_tid view) of None \<Rightarrow> True
           | Some p \<Rightarrow> pnd_enter_time p \<noteq> sv_enter_time view \<or> pnd_args p \<noteq> sv_args view)
      then st else with_correlation (rememberPayloadFragment view payload) st)"

definition state_consumeEnterEvent :: "syscall_event_view \<Rightarrow> trace_state \<Rightarrow> pending_syscall_state option \<times> trace_state" where
  "state_consumeEnterEvent view st =
     (let st1 = (if ts_tainted st \<and> (case pending_syscalls (ts_correlation st) (sv_tid view) of None \<Rightarrow> False
              | Some p \<Rightarrow> pnd_enter_time p \<noteq> sv_enter_time view \<or> pnd_args p \<noteq> sv_args view)
            then with_correlation (clearTask (sv_tid view)) st else st)
      in case consumeEnterEvent view (ts_correlation st1) of (snapshot, c) \<Rightarrow>
           (snapshot, with_unfinished (deleteCandidate (sv_tid view)) (st1\<lparr>ts_correlation := c\<rparr>)))"

definition state_markUnfinishedPrinted :: "u32 \<Rightarrow> trace_state \<Rightarrow> trace_state" where
  "state_markUnfinishedPrinted tid st = with_unfinished (deleteCandidate tid) (with_correlation (markUnfinishedPrinted tid) st)"

definition setUnfinishedEnabled :: "bool \<Rightarrow> trace_state \<Rightarrow> trace_state" where
  "setUnfinishedEnabled enabled st = with_unfinished (\<lambda>_. setEnabled enabled (ts_correlation st)) st"

definition requeueUnfinished :: "u32 \<Rightarrow> trace_state \<Rightarrow> trace_state" where
  "requeueUnfinished tid st = with_unfinished (requeue tid (ts_correlation st)) st"

definition state_rememberPendingExecArgs :: "int \<Rightarrow> string \<Rightarrow> trace_state \<Rightarrow> trace_state" where
  "state_rememberPendingExecArgs tid arg_line st =
     (if ts_tainted st then st else with_correlation (rememberPendingExecArgs tid arg_line) st)"

definition state_rememberSuspendedSyscall :: "int \<Rightarrow> string \<Rightarrow> trace_state \<Rightarrow> trace_state" where
  "state_rememberSuspendedSyscall tid name st =
     (if ts_tainted st then st else with_correlation (rememberSuspendedSyscall tid name) st)"

definition isPlainGenericEnterExitRoute :: "u32 \<Rightarrow> bool" where
  "isPlainGenericEnterExitRoute sys_id =
     (case map_of bpfRouteCapabilities sys_id of None \<Rightarrow> True | Some (enter_slot, exit_slot) \<Rightarrow> enter_slot = None \<and> exit_slot = None)"

text \<open>The five routes with \<^verbatim>\<open>standaloneExitElision\<close> are arch_prctl, clock_getres, clock_gettime, get_robust_list, gettimeofday.\<close>

definition isStandaloneExitElisionRoute :: "u32 \<Rightarrow> bool" where
  "isStandaloneExitElisionRoute sys_id =
     (case map_of bpfRouteCapabilities sys_id of None \<Rightarrow> False
      | Some (enter_slot, exit_slot) \<Rightarrow> enter_slot = None \<and> exit_slot \<noteq> None \<and> sys_id \<in> {158, 229, 228, 274, 96})"

definition shouldElidePlainEnterForSyscall :: "u32 \<Rightarrow> bool \<Rightarrow> bool" where
  "shouldElidePlainEnterForSyscall sys_id non_blocking_only =
     (if non_blocking_only
      then \<not> shouldTrackUnfinishedSyscall sys_id \<and> (isPlainGenericEnterExitRoute sys_id \<or> isStandaloneExitElisionRoute sys_id)
      else isPlainGenericEnterExitRoute sys_id)"

definition shouldSynthesizeElidedPlainEnter :: "u32 \<Rightarrow> trace_state \<Rightarrow> bool" where
  "shouldSynthesizeElidedPlainEnter sys_id st \<longleftrightarrow> ts_elide_plain_enter st \<and>
     shouldElidePlainEnterForSyscall sys_id (ts_elide_non_blocking st)"

definition terminate :: "syscall_event_view \<Rightarrow> trace_state \<Rightarrow> trace_state" where
  "terminate view st =
     (if isTerminatingSyscall view st
      then clearTaskPending (sv_tid view) (with_lifecycle (markLifecyclePending (sv_tid view)) (with_attach (markTargetTerminated view) st))
      else st)"

definition attachDeferredExit :: "pending_exit_state \<Rightarrow> trace_state_update \<times> trace_state \<Rightarrow> trace_state_update \<times> trace_state" where
  "attachDeferredExit e ust = (case ust of (update, st) \<Rightarrow>
     (case state_consumeEnterEvent (pex_view e) st of
        (None, st1) \<Rightarrow> (update, st1)
      | (Some p, st1) \<Rightarrow>
          (update\<lparr>upd_deferred_exit := Some \<lparr>dfx_view = pex_view e, dfx_payload = pex_payload e, dfx_pending_enter = Some p\<rparr>\<rparr>,
           terminate (pex_view e) st1)))"

definition handleSyscallEnter :: "syscall_event_view \<Rightarrow> payload_section list \<Rightarrow> trace_state_update \<times> trace_state \<Rightarrow>
    trace_state_update \<times> trace_state" where
  "handleSyscallEnter view payload ust = (case ust of (update, st) \<Rightarrow>
     (let update1 = update\<lparr>upd_kind := StateSyscallEnter, upd_payload := payload\<rparr>;
          st1 = (if ts_tainted st then with_correlation (clearTask (sv_tid view)) st else st);
          st2 = state_rememberEnterEvent view payload st1
      in case takePendingExit view (ts_correlation st2) of
           (None, c) \<Rightarrow> (update1, st2\<lparr>ts_correlation := c\<rparr>)
         | (Some e, c) \<Rightarrow> attachDeferredExit e (update1, st2\<lparr>ts_correlation := c\<rparr>)))"

definition handleSyscallFragment :: "syscall_event_view \<Rightarrow> payload_section list \<Rightarrow> trace_state_update \<times> trace_state \<Rightarrow>
    trace_state_update \<times> trace_state" where
  "handleSyscallFragment view payload ust = (case ust of (update, st) \<Rightarrow>
     (update\<lparr>upd_kind := StateSyscallFragment, upd_payload := payload\<rparr>, state_rememberPayloadFragment view payload st))"

definition handleSyscallExit :: "syscall_event_view \<Rightarrow> payload_section list \<Rightarrow> trace_state_update \<times> trace_state \<Rightarrow>
    trace_state_update \<times> trace_state" where
  "handleSyscallExit view payload ust = (case ust of (update, st) \<Rightarrow>
     (case state_consumeEnterEvent view st of (consumed, st1) \<Rightarrow>
        let elided = (consumed = None \<and> shouldSynthesizeElidedPlainEnter (sv_sys_id view) st1);
            st2 = (if consumed = None \<and> \<not> elided then with_lifecycle (noteSyscallTask view) st1 else st1);
            enter = (if elided then Some (synthesizeGenericEnter view) else consumed);
            update1 = update\<lparr>upd_kind := StateSyscallExit, upd_payload := payload\<rparr>
        in if enter = None \<and> ts_defer_unmatched_exits st2 \<and> \<not> ts_tainted st2
           then (update1\<lparr>upd_deferred := True\<rparr>, with_correlation (rememberPendingExit view payload) st2)
           else (update1\<lparr>upd_pending_enter := enter\<rparr>, terminate view st2)))"

definition handleSyscallEnvelope :: "observed_envelope \<Rightarrow> unfinished_syscall_view list \<Rightarrow> trace_state \<Rightarrow>
    trace_state_update \<times> trace_state" where
  "handleSyscallEnvelope ev unfinished st =
     (let view = syscallView ev;
          (inherit, l) = resolveForkIdentity (sv_tid view) (sv_pid view) (ts_lifecycle st);
          st1 = st\<lparr>ts_lifecycle := l\<rparr>;
          update = zero_update\<lparr>upd_syscall_view := Some view, upd_unfinished := unfinished, upd_process_inherit := inherit\<rparr>
      in if isGenericEnterView view
         then handleSyscallEnter view (env_payload ev) (update, with_lifecycle (noteSyscallTask view) st1)
         else if isEnterFragmentView view \<or> isExitFragmentView view
         then handleSyscallFragment view (env_payload ev) (update, with_lifecycle (noteSyscallTask view) st1)
         else handleSyscallExit view (env_payload ev) (update, st1))"

definition exec_target :: "lifecycle_event_view \<Rightarrow> u32" where
  "exec_target view = (if (ucast (arg1 (lv_args view)) :: u32) = 0 then lv_tid view else ucast (arg1 (lv_args view)))"

definition applyLifecycleEvent :: "lifecycle_event_view \<Rightarrow> trace_state \<Rightarrow>
    task_state option \<times> process_state_inheritance option \<times> trace_state" where
  "applyLifecycleEvent view st =
     (let old_tid = (ucast (arg0 (lv_args view)) :: u32);
          st1 = (if lv_action view = LIFECYCLE_EXEC \<and> old_tid \<noteq> 0 \<and> old_tid \<noteq> exec_target view
                 then clearTaskPending (exec_target view) st else st)
      in case apply_lifecycle view (ts_lifecycle st1) of (task, inherit, l) \<Rightarrow> (task, inherit, st1\<lparr>ts_lifecycle := l\<rparr>))"

definition handleLifecycleEnvelope :: "observed_envelope \<Rightarrow> unfinished_syscall_view list \<Rightarrow> trace_state \<Rightarrow>
    trace_state_update \<times> trace_state" where
  "handleLifecycleEnvelope ev unfinished st =
     (let view = lifecycleView ev;
          st1 = (if ts_tainted st \<and> lv_action view = LIFECYCLE_EXEC
                 then clearTaskPending (ucast (arg1 (lv_args view))) (clearTaskPending (ucast (arg0 (lv_args view)))
                        (clearTaskPending (lv_tid view) st))
                 else st);
          (task, inherit, st2) = applyLifecycleEvent view st1;
          update = zero_update\<lparr>upd_kind := StateLifecycle, upd_lifecycle_view := Some view, upd_lifecycle_task := task,
            upd_process_inherit := (if ts_tainted st2 then None else inherit), upd_unfinished := unfinished\<rparr>
      in if lv_action view \<noteq> LIFECYCLE_EXIT \<and> lv_action view \<noteq> LIFECYCLE_FREE then (update, st2)
         else
           let st3 = with_attach (markTargetExited (lv_pid view) (lv_tid view)) (with_lifecycle (\<lambda>l.
                 clearLifecyclePending (lv_tid view) (rememberLifecycleExit (lv_pid view) (lv_tid view) l)) st2);
               (e, c) = takePendingExitForTID (lv_tid view) (ts_correlation st3)
           in (update\<lparr>upd_deferred_exit := map_option (\<lambda>e. \<lparr>dfx_view = pex_view e, dfx_payload = pex_payload e,
                 dfx_pending_enter = None\<rparr>) e\<rparr>,
               retireTask (lv_tid view) (st3\<lparr>ts_correlation := c\<rparr>)))"

definition handleEnvelope :: "observed_envelope \<Rightarrow> trace_state \<Rightarrow> trace_state_update \<times> trace_state" where
  "handleEnvelope ev st =
     (case pendingForOtherTID (env_tid ev) (ts_correlation st) (ts_unfinished st) of (unfinished, u) \<Rightarrow>
        let st1 = st\<lparr>ts_unfinished := u\<rparr>
        in if env_event_type ev = EVENT_TYPE_SIGNAL
           then (zero_update\<lparr>upd_kind := StateSignal, upd_signal_view := Some (signalView ev), upd_unfinished := unfinished\<rparr>, st1)
           else if env_event_type ev = EVENT_TYPE_LIFECYCLE then handleLifecycleEnvelope ev unfinished st1
           else handleSyscallEnvelope ev unfinished st1)"

text \<open>Clearing every task that has an entry empties the maps, whatever the order.\<close>

definition TaintHistory :: "trace_state \<Rightarrow> trace_state" where
  "TaintHistory st = st\<lparr>ts_tainted := True, ts_correlation := zero_correlation,
     ts_unfinished := setEnabled False zero_correlation,
     ts_lifecycle := (ts_lifecycle st)\<lparr>lc_pending_forks := Map.empty, lc_history_tainted := True,
       lc_tasks := (\<lambda>tid. map_option (\<lambda>task. task\<lparr>tsk_parent_tid := 0, tsk_executable := [], tsk_execed := False,
         tsk_exec_replaced := False\<rparr>) (lc_tasks (ts_lifecycle st) tid))\<rparr>\<rparr>"

section \<open>Routing\<close>

record trace_scope =
  scp_target_pid :: int
  scp_attach_pids :: "int list"
  scp_follow_fork :: bool

definition directlyMatches :: "trace_scope \<Rightarrow> int \<Rightarrow> bool" where
  "directlyMatches scope pid =
     (if scp_attach_pids scope \<noteq> [] then pid \<in> set (scp_attach_pids scope) else pid = scp_target_pid scope)"

definition AllowsPID :: "trace_scope \<Rightarrow> u32 \<Rightarrow> bool" where
  "AllowsPID scope pid = (if pid = 0 then False else directlyMatches scope (uint pid) \<or> scp_follow_fork scope)"

definition AllowsEvent :: "trace_scope \<Rightarrow> u32 \<Rightarrow> u32 \<Rightarrow> bool" where
  "AllowsEvent scope pid tid =
     (if pid = 0 \<and> tid = 0 then False
      else (pid \<noteq> 0 \<and> directlyMatches scope (uint pid)) \<or> (tid \<noteq> 0 \<and> directlyMatches scope (uint tid)) \<or> scp_follow_fork scope)"

text \<open>\<open>dispatch\<close> stands for the output side, which may use the operations above on the state it is given.\<close>

definition Handle :: "trace_scope \<Rightarrow> (observed_envelope \<Rightarrow> trace_state_update \<Rightarrow> trace_state \<Rightarrow> trace_state) \<Rightarrow> observed_envelope \<Rightarrow>
    trace_state \<Rightarrow> trace_state" where
  "Handle scope dispatch ev st =
     (if \<not> AllowsEvent scope (env_pid ev) (env_tid ev) then st
      else case handleEnvelope ev st of (update, st') \<Rightarrow> dispatch ev update st')"

end
