(* ===== verification/Trace_Correlation.thy ===== *)
theory Trace_Correlation
  imports Trace_State "HOL-Library.Multiset"
begin

text \<open>
  What the consumer's memory is for: an exit is shown together with the enter of the same call, whatever the other tasks do in
  between and whichever of the two records comes first, and after a loss only what is certain is used.
\<close>

section \<open>What an operation leaves alone\<close>

definition policy :: "trace_state \<Rightarrow> bool \<times> bool \<times> bool \<times> bool \<times> syscall_lifecycle_ids" where
  "policy st = (ts_tainted st, ts_defer_unmatched_exits st, ts_elide_plain_enter st, ts_elide_non_blocking st, ts_lifecycle_ids st)"

definition waiting :: "trace_state \<Rightarrow> u32 \<Rightarrow> pending_syscall_state option" where
  "waiting st t = pending_syscalls (ts_correlation st) t"

definition waiting_exit :: "trace_state \<Rightarrow> u32 \<Rightarrow> pending_exit_state option" where
  "waiting_exit st t = pending_exits (ts_correlation st) t"

definition same_for :: "u32 \<Rightarrow> trace_state \<Rightarrow> trace_state \<Rightarrow> bool" where
  "same_for t st st' \<longleftrightarrow> policy st' = policy st \<and> waiting st' t = waiting st t \<and> waiting_exit st' t = waiting_exit st t"

text \<open>The threads an envelope is about.\<close>

definition subjects :: "observed_envelope \<Rightarrow> u32 set" where
  "subjects ev = insert (env_tid ev)
     (if env_event_type ev = EVENT_TYPE_LIFECYCLE \<and> env_lifecycle_action ev = LIFECYCLE_EXEC
      then {ucast (arg0 (env_args ev)), ucast (arg1 (env_args ev))} else {})"

lemma same_for_refl [simp]: "same_for t st st"
  by (simp add: same_for_def)

lemma same_for_trans: "same_for t a b \<Longrightarrow> same_for t b c \<Longrightarrow> same_for t a c"
  by (simp add: same_for_def)

lemma same_for_parts [simp]:
  "same_for t st (with_unfinished f st') = same_for t st st'" "same_for t st (with_lifecycle g st') = same_for t st st'"
  "same_for t st (with_attach h st') = same_for t st st'" "same_for t st (st'\<lparr>ts_lifecycle := l\<rparr>) = same_for t st st'"
  "same_for t st (st'\<lparr>ts_unfinished := u\<rparr>) = same_for t st st'"
  by (simp_all add: same_for_def policy_def waiting_def waiting_exit_def with_unfinished_def with_lifecycle_def with_attach_def)

lemma same_for_correlation:
  "same_for t st (st\<lparr>ts_correlation := c\<rparr>) \<longleftrightarrow> pending_syscalls c t = waiting st t \<and> pending_exits c t = waiting_exit st t"
  "same_for t st (with_correlation f st) \<longleftrightarrow>
     pending_syscalls (f (ts_correlation st)) t = waiting st t \<and> pending_exits (f (ts_correlation st)) t = waiting_exit st t"
  by (auto simp: same_for_def policy_def waiting_def waiting_exit_def with_correlation_def)

lemma same_for_clear [simp]: "tid \<noteq> t \<Longrightarrow> same_for t st (with_correlation (clearTask tid) st)"
  by (simp add: same_for_correlation clearTask_def waiting_def waiting_exit_def)

lemma same_for_clearTaskPending: "tid \<noteq> t \<Longrightarrow> same_for t st (clearTaskPending tid st)"
  unfolding clearTaskPending_def same_for_parts
  by (rule same_for_trans [OF _ same_for_clear]) simp_all

lemma same_for_retire: "tid \<noteq> t \<Longrightarrow> same_for t st (retireTask tid st)"
  by (simp add: retireTask_def same_for_clearTaskPending)

lemma same_for_terminate: "sv_tid view \<noteq> t \<Longrightarrow> same_for t st (terminate view st)"
  unfolding terminate_def by (auto intro: same_for_trans [OF _ same_for_clearTaskPending])

lemma same_for_enter: "sv_tid view \<noteq> t \<Longrightarrow> same_for t st (state_rememberEnterEvent view payload st)"
  by (auto simp: state_rememberEnterEvent_def rememberEnterEvent_def same_for_correlation set_pending_def waiting_def waiting_exit_def
      Let_def split: option.split)

lemma same_for_fragment: "sv_tid view \<noteq> t \<Longrightarrow> same_for t st (state_rememberPayloadFragment view payload st)"
  by (auto simp: state_rememberPayloadFragment_def rememberPayloadFragment_def same_for_correlation set_pending_def waiting_def
      waiting_exit_def split: option.split)

lemma same_for_consume: "sv_tid view \<noteq> t \<Longrightarrow> same_for t st (snd (state_consumeEnterEvent view st))"
proof -
  assume t: "sv_tid view \<noteq> t"
  have c: "same_for t st (st\<lparr>ts_correlation := snd (consumeEnterEvent view (ts_correlation st))\<rparr>)" for st
    using t by (simp add: same_for_correlation consumeEnterEvent_def set_pending_def waiting_def waiting_exit_def)
  show ?thesis
    using t by (auto simp: state_consumeEnterEvent_def Let_def split_beta intro: c same_for_trans [OF same_for_clear c])
qed

lemma same_for_deferred:
  "sv_tid (pex_view e) \<noteq> t \<Longrightarrow> same_for t st (snd (attachDeferredExit e (u, st)))"
  using same_for_consume [of "pex_view e" t st]
  by (auto simp: attachDeferredExit_def split: prod.splits option.splits intro: same_for_trans [OF _ same_for_terminate])

section \<open>Every entry is filed under its own thread\<close>

definition filed_in :: "correlation \<Rightarrow> bool" where
  "filed_in c \<longleftrightarrow> (\<forall>t p. pending_syscalls c t = Some p \<longrightarrow> pnd_tid p = t) \<and>
     (\<forall>t e. pending_exits c t = Some e \<longrightarrow> sv_tid (pex_view e) = t)"

abbreviation filed :: "trace_state \<Rightarrow> bool" where
  "filed st \<equiv> filed_in (ts_correlation st)"

lemma filed_parts [simp]:
  "filed (with_unfinished f st) = filed st" "filed (with_lifecycle g st) = filed st" "filed (with_attach h st) = filed st"
  "filed (with_correlation k st) = filed_in (k (ts_correlation st))"
  by (simp_all add: with_unfinished_def with_lifecycle_def with_attach_def with_correlation_def)

lemma filed_operations:
  "filed_in zero_correlation" "filed_in c \<Longrightarrow> filed_in (clearTask tid c)" "filed_in c \<Longrightarrow> filed_in (snd (rememberEnterEvent view payload c))"
  "filed_in c \<Longrightarrow> filed_in (rememberPayloadFragment view payload c)" "filed_in c \<Longrightarrow> filed_in (rememberPendingExit view payload c)"
  "filed_in c \<Longrightarrow> filed_in (snd (takePendingExitForTID tid c))" "filed_in c \<Longrightarrow> filed_in (snd (takePendingExit view c))"
  "filed_in c \<Longrightarrow> filed_in (snd (consumeEnterEvent view c))" "filed_in c \<Longrightarrow> filed_in (markUnfinishedPrinted tid c)"
  by (auto simp: filed_in_def zero_correlation_def clearTask_def rememberEnterEvent_def rememberPayloadFragment_def rememberPendingExit_def
      takePendingExitForTID_def takePendingExit_def consumeEnterEvent_def markUnfinishedPrinted_def set_pending_def new_pending_def
      split: option.splits if_splits)

lemma filed_clears: "filed st \<Longrightarrow> filed (clearTaskPending tid st)" "filed st \<Longrightarrow> filed (retireTask tid st)"
  "filed st \<Longrightarrow> filed (terminate view st)"
  by (simp_all add: clearTaskPending_def retireTask_def terminate_def filed_operations with_unfinished_def with_lifecycle_def
      with_correlation_def with_attach_def)

lemma filed_enter: "filed st \<Longrightarrow> filed (state_rememberEnterEvent view payload st)"
  using filed_operations(3) [of "ts_correlation st" view payload]
  by (auto simp: state_rememberEnterEvent_def Let_def split: prod.split)

lemma filed_consume: "filed st \<Longrightarrow> filed (snd (state_consumeEnterEvent view st))"
  by (simp add: state_consumeEnterEvent_def Let_def split_beta filed_operations with_correlation_def)

lemma filed_deferred: "filed st \<Longrightarrow> filed (snd (attachDeferredExit e (u, st)))"
  using filed_consume [of st "pex_view e"] by (auto simp: attachDeferredExit_def filed_clears split: prod.split option.split)

lemma filed_handlers:
  "filed st \<Longrightarrow> filed (snd (handleSyscallEnter view payload (u, st)))"
  "filed st \<Longrightarrow> filed (snd (handleSyscallFragment view payload (u, st)))"
  "filed st \<Longrightarrow> filed (snd (handleSyscallExit view payload (u, st)))"
proof -
  assume f: "filed st"
  let ?st = "state_rememberEnterEvent view payload (if ts_tainted st then with_correlation (clearTask (sv_tid view)) st else st)"
  have "filed ?st" using f by (simp add: filed_enter filed_operations)
  then have "filed (?st\<lparr>ts_correlation := snd (takePendingExit view (ts_correlation ?st))\<rparr>)" by (simp add: filed_operations)
  then show "filed (snd (handleSyscallEnter view payload (u, st)))"
    by (auto simp: handleSyscallEnter_def Let_def intro!: filed_deferred split: prod.split option.split)
  show "filed (snd (handleSyscallFragment view payload (u, st)))"
    using f by (simp add: handleSyscallFragment_def state_rememberPayloadFragment_def filed_operations)
  show "filed (snd (handleSyscallExit view payload (u, st)))"
    using filed_consume [OF f, of view]
    by (auto simp: handleSyscallExit_def Let_def filed_operations filed_clears split: prod.split)
qed

lemma filed_lifecycle: "filed st \<Longrightarrow> filed (snd (handleLifecycleEnvelope ev us st))"
  by (simp add: handleLifecycleEnvelope_def applyLifecycleEvent_def Let_def split_beta filed_clears filed_operations with_lifecycle_def
      with_attach_def)

lemma filed_handleEnvelope: "filed st \<Longrightarrow> filed (snd (handleEnvelope ev st))"
  by (auto simp: handleEnvelope_def handleSyscallEnvelope_def Let_def split_beta intro!: filed_handlers filed_lifecycle)

section \<open>An envelope about other threads\<close>

lemma same_for_handlers:
  assumes "filed st" "sv_tid view \<noteq> t"
  shows "same_for t st (snd (handleSyscallEnter view payload (u, st)))" "same_for t st (snd (handleSyscallFragment view payload (u, st)))"
    "same_for t st (snd (handleSyscallExit view payload (u, st)))"
proof -
  let ?st1 = "if ts_tainted st then with_correlation (clearTask (sv_tid view)) st else st"
  let ?st2 = "state_rememberEnterEvent view payload ?st1"
  let ?st3 = "?st2\<lparr>ts_correlation := snd (takePendingExit view (ts_correlation ?st2))\<rparr>"
  have f: "filed ?st2" using assms(1) by (simp add: filed_enter filed_operations)
  have "same_for t st ?st1" using assms(2) by simp
  moreover have "same_for t ?st1 ?st2" by (rule same_for_enter [OF assms(2)])
  moreover have "same_for t ?st2 ?st3"
    using assms(2) by (auto simp: same_for_correlation takePendingExit_def takePendingExitForTID_def waiting_def waiting_exit_def split: option.split)
  ultimately have s: "same_for t st ?st3" by (blast intro: same_for_trans)
  have "sv_tid (pex_view e) \<noteq> t" if "fst (takePendingExit view (ts_correlation ?st2)) = Some e" for e
    using that f assms(2) by (auto simp: filed_in_def takePendingExit_def takePendingExitForTID_def split: option.splits if_splits)
  then show "same_for t st (snd (handleSyscallEnter view payload (u, st)))"
    using s same_for_trans [OF s same_for_deferred]
    by (auto simp: handleSyscallEnter_def Let_def split: prod.splits option.splits)
  show "same_for t st (snd (handleSyscallFragment view payload (u, st)))"
    using assms(2) by (simp add: handleSyscallFragment_def same_for_fragment)
  have c: "same_for t st (snd (state_consumeEnterEvent view st))" by (rule same_for_consume [OF assms(2)])
  have d: "same_for t st' (with_correlation (rememberPendingExit view payload) st')" for st'
    using assms(2) by (simp add: same_for_correlation rememberPendingExit_def waiting_def waiting_exit_def)
  show "same_for t st (snd (handleSyscallExit view payload (u, st)))"
    using c assms(2)
    by (auto simp: handleSyscallExit_def Let_def split_beta intro: same_for_trans [OF _ d] same_for_trans [OF _ same_for_terminate])
qed

lemma same_for_lifecycle:
  assumes "t \<notin> subjects ev" "env_event_type ev = EVENT_TYPE_LIFECYCLE"
  shows "same_for t st (snd (handleLifecycleEnvelope ev us st))"
proof -
  let ?view = "lifecycleView ev"
  have tid: "lv_tid ?view \<noteq> t" using assms(1) by (auto simp: subjects_def lifecycleView_def)
  have ex: "ucast (arg0 (lv_args ?view)) \<noteq> t" "ucast (arg1 (lv_args ?view)) \<noteq> t" "exec_target ?view \<noteq> t"
    if "lv_action ?view = LIFECYCLE_EXEC"
    using assms that by (auto simp: subjects_def lifecycleView_def exec_target_def)
  let ?st1 = "if ts_tainted st \<and> lv_action ?view = LIFECYCLE_EXEC
     then clearTaskPending (ucast (arg1 (lv_args ?view))) (clearTaskPending (ucast (arg0 (lv_args ?view))) (clearTaskPending (lv_tid ?view) st)) else st"
  have s1: "same_for t st ?st1"
    using tid ex by (auto intro!: same_for_trans [OF same_for_trans [OF same_for_clearTaskPending same_for_clearTaskPending] same_for_clearTaskPending])
  have s2: "same_for t st' (snd (snd (applyLifecycleEvent ?view st')))" for st'
    using ex by (auto simp: applyLifecycleEvent_def Let_def split_beta same_for_clearTaskPending)
  have take: "same_for t st' (st'\<lparr>ts_correlation := snd (takePendingExitForTID (lv_tid ?view) (ts_correlation st'))\<rparr>)" for st'
    using tid by (simp add: same_for_correlation takePendingExitForTID_def waiting_def waiting_exit_def)
  show ?thesis
    unfolding handleLifecycleEnvelope_def Let_def split_beta
    using same_for_trans [OF s1 s2] tid
    by (auto intro!: same_for_trans [OF same_for_trans [OF _ take] same_for_retire])
qed

lemma same_for_other:
  assumes "filed st" "t \<notin> subjects ev"
  shows "same_for t st (snd (handleEnvelope ev st))"
proof -
  have tid: "sv_tid (syscallView ev) \<noteq> t" using assms(2) by (auto simp: subjects_def syscallView_def)
  have base: "same_for t st (st\<lparr>ts_unfinished := u\<rparr>)" "filed (st\<lparr>ts_unfinished := u\<rparr>)" for u using assms(1) by simp_all
  have sys: "same_for t st' (snd (handleSyscallEnvelope ev us st'))" if "filed st'" for us st'
    unfolding handleSyscallEnvelope_def Let_def split_beta
    using that tid by (auto intro!: same_for_trans [OF _ same_for_handlers(1)] same_for_trans [OF _ same_for_handlers(2)] same_for_trans [OF _ same_for_handlers(3)])
  show ?thesis
    unfolding handleEnvelope_def Let_def split_beta
    using assms(2) base by (auto intro: same_for_trans [OF base(1) sys] same_for_trans [OF base(1) same_for_lifecycle])
qed

section \<open>Runs of the consumer\<close>

text \<open>What the output side does with the state between two records.\<close>

datatype state_op =
    MarkUnfinishedPrinted u32 | RequeueUnfinished u32 | SetUnfinishedEnabled bool
  | RememberPendingExecArgs int string | TakePendingExecArgs int | DeletePendingExecArgs int
  | RememberSuspendedSyscall int string | DeleteSuspendedSyscall int | ConsumeSuspendedSyscall int

fun apply_op :: "state_op \<Rightarrow> trace_state \<Rightarrow> trace_state" where
  "apply_op (MarkUnfinishedPrinted tid) st = state_markUnfinishedPrinted tid st"
| "apply_op (RequeueUnfinished tid) st = requeueUnfinished tid st"
| "apply_op (SetUnfinishedEnabled b) st = setUnfinishedEnabled b st"
| "apply_op (RememberPendingExecArgs tid arg_line) st = state_rememberPendingExecArgs tid arg_line st"
| "apply_op (TakePendingExecArgs tid) st = with_correlation (\<lambda>c. snd (takePendingExecArgs tid c)) st"
| "apply_op (DeletePendingExecArgs tid) st = with_correlation (deletePendingExecArgs tid) st"
| "apply_op (RememberSuspendedSyscall tid name) st = state_rememberSuspendedSyscall tid name st"
| "apply_op (DeleteSuspendedSyscall tid) st = with_correlation (deleteSuspendedSyscall tid) st"
| "apply_op (ConsumeSuspendedSyscall tid) st = with_correlation (\<lambda>c. snd (consumeSuspendedSyscall tid c)) st"

lemmas op_defs = state_markUnfinishedPrinted_def requeueUnfinished_def setUnfinishedEnabled_def state_rememberPendingExecArgs_def
  takePendingExecArgs_def deletePendingExecArgs_def state_rememberSuspendedSyscall_def deleteSuspendedSyscall_def
  consumeSuspendedSyscall_def rememberPendingExecArgs_def rememberSuspendedSyscall_def

text \<open>A session starts without memory and takes envelopes, operations and the loss of trust in any order.\<close>

definition fresh :: "trace_state \<Rightarrow> bool" where
  "fresh st \<longleftrightarrow> \<not> ts_tainted st \<and> ts_correlation st = zero_correlation"

inductive consumer_state :: "trace_state \<Rightarrow> bool" where
  start: "fresh st \<Longrightarrow> consumer_state st"
| envelope: "consumer_state st \<Longrightarrow> consumer_state (snd (handleEnvelope ev st))"
| operation: "consumer_state st \<Longrightarrow> consumer_state (apply_op op st)"
| tainted: "consumer_state st \<Longrightarrow> consumer_state (TaintHistory st)"

lemma filed_op: "filed st \<Longrightarrow> filed (apply_op op st)"
  by (cases op) (auto simp: op_defs filed_operations, auto simp: filed_in_def)

lemma consumer_filed: "consumer_state st \<Longrightarrow> filed st"
  by (induction rule: consumer_state.induct)
     (auto simp: fresh_def filed_operations TaintHistory_def intro: filed_handleEnvelope filed_op)

section \<open>A call in flight\<close>

definition same_call :: "pending_syscall_state \<Rightarrow> pending_syscall_state \<Rightarrow> bool" where
  "same_call p q \<longleftrightarrow> pnd_pid q = pnd_pid p \<and> pnd_tid q = pnd_tid p \<and> pnd_sys_id q = pnd_sys_id p \<and>
     pnd_enter_time q = pnd_enter_time p \<and> pnd_args q = pnd_args p \<and> pnd_probe_ret_enter q = pnd_probe_ret_enter p \<and>
     pnd_generic_enter_raw q = pnd_generic_enter_raw p \<and> prefix (pnd_payload p) (pnd_payload q)"

lemma same_call_refl [simp]: "same_call p p"
  by (simp add: same_call_def)

lemma same_call_trans: "same_call p q \<Longrightarrow> same_call q r \<Longrightarrow> same_call p r"
  by (auto simp: same_call_def intro: prefix_order.trans)

lemma merge_prefix: "prefix storage (mergePayloadSectionsIntoStorage storage next)"
  unfolding mergePayloadSectionsIntoStorage_def
proof (induction "next" arbitrary: storage)
  case (Cons sect sects)
  show ?case
    using Cons [of storage] Cons [of "storage @ [sect]"] by (auto dest: append_prefixD)
qed simp

text \<open>Between the two records of a call: other threads, fragments of the call, signals, and the output side.\<close>

inductive between :: "u32 \<Rightarrow> u32 \<Rightarrow> trace_state \<Rightarrow> trace_state \<Rightarrow> bool" for t n where
  other: "t \<notin> subjects ev \<Longrightarrow> between t n st (snd (handleEnvelope ev st))"
| signal: "env_event_type ev = EVENT_TYPE_SIGNAL \<Longrightarrow> between t n st (snd (handleEnvelope ev st))"
| fragment: "env_tid ev = t \<Longrightarrow> env_sys_id ev = n \<Longrightarrow> \<not> isGenericEnterView (syscallView ev) \<Longrightarrow>
    isEnterFragmentView (syscallView ev) \<or> isExitFragmentView (syscallView ev) \<Longrightarrow> between t n st (snd (handleEnvelope ev st))"
| operation: "between t n st (apply_op op st)"

lemma between_op:
  "policy (apply_op op st) = policy st \<and> waiting_exit (apply_op op st) t = waiting_exit st t \<and>
   (case waiting st t of None \<Rightarrow> waiting (apply_op op st) t = None
    | Some p \<Rightarrow> \<exists>q. waiting (apply_op op st) t = Some q \<and> same_call p q)"
  by (cases op) (auto simp: op_defs policy_def waiting_def waiting_exit_def with_correlation_def with_unfinished_def
      markUnfinishedPrinted_def set_pending_def same_call_def split: option.split)

lemma handle_fragment:
  assumes "\<not> isGenericEnterView (syscallView ev)" "isEnterFragmentView (syscallView ev) \<or> isExitFragmentView (syscallView ev)"
  obtains st' where "same_for t st st'"
    "snd (handleEnvelope ev st) = state_rememberPayloadFragment (syscallView ev) (env_payload ev) st'"
proof -
  have ty: "env_event_type ev \<noteq> EVENT_TYPE_SIGNAL" "env_event_type ev \<noteq> EVENT_TYPE_LIFECYCLE"
    using assms(2) by (auto simp: isEnterFragmentView_def isExitFragmentView_def isExitView_def syscallView_def)
  show thesis
    using assms ty by (intro that) (auto simp: handleEnvelope_def handleSyscallEnvelope_def handleSyscallFragment_def Let_def split_beta)
qed

lemma between_step:
  assumes "between t n st st'" "filed st" "\<not> ts_tainted st"
  shows "filed st' \<and> policy st' = policy st \<and> waiting_exit st' t = waiting_exit st t \<and>
    (case waiting st t of None \<Rightarrow> waiting st' t = None
     | Some p \<Rightarrow> \<exists>q. waiting st' t = Some q \<and> (pnd_sys_id p = n \<longrightarrow> same_call p q) \<and> pnd_sys_id q = pnd_sys_id p)"
  using assms(1)
proof cases
  case (other ev)
  then show ?thesis
    using same_for_other [OF assms(2) other(2)] filed_handleEnvelope [OF assms(2)]
    by (auto simp: same_for_def split: option.split)
next
  case (signal ev)
  then have "same_for t st st'" by (simp add: handleEnvelope_def Let_def split_beta)
  then show ?thesis using signal(1) filed_handleEnvelope [OF assms(2)] by (auto simp: same_for_def split: option.split)
next
  case (fragment ev)
  obtain u where u: "same_for t st u" "st' = state_rememberPayloadFragment (syscallView ev) (env_payload ev) u"
    using handle_fragment [OF fragment(4,5)] fragment(1) by metis
  have "\<not> ts_tainted u" using u(1) assms(3) by (simp add: same_for_def policy_def)
  then show ?thesis
    using u fragment filed_handleEnvelope [OF assms(2), of ev] merge_prefix
    by (auto simp: same_for_def policy_def state_rememberPayloadFragment_def rememberPayloadFragment_def waiting_def waiting_exit_def
        with_correlation_def set_pending_def syscallView_def same_call_def split: option.splits)
next
  case (operation op)
  then show ?thesis
    using between_op [where st = st and t = t and op = op] filed_op [OF assms(2)]
    by (auto simp: same_call_def split: option.splits)
qed

lemma between_run:
  assumes "(between t n)\<^sup>*\<^sup>* st st'" "filed st" "\<not> ts_tainted st" "\<And>p. waiting st t = Some p \<Longrightarrow> pnd_sys_id p = n"
  shows "filed st' \<and> policy st' = policy st \<and> waiting_exit st' t = waiting_exit st t \<and>
    (case waiting st t of None \<Rightarrow> waiting st' t = None | Some p \<Rightarrow> \<exists>q. waiting st' t = Some q \<and> same_call p q)"
  using assms
proof (induction rule: rtranclp_induct)
  case (step st1 st2)
  then have "filed st1" "\<not> ts_tainted st1" by (auto simp: policy_def)
  from between_step [OF step.hyps(2) this] step show ?case
    by (auto simp: same_call_def split: option.splits intro: prefix_order.trans)
qed (auto split: option.split)

section \<open>Enter and exit\<close>

definition generic_enter :: "observed_envelope \<Rightarrow> bool" where
  "generic_enter ev \<longleftrightarrow> isGenericEnterView (syscallView ev)"

definition plain_exit :: "observed_envelope \<Rightarrow> bool" where
  "plain_exit ev \<longleftrightarrow> isExitView (syscallView ev) \<and> \<not> isExitFragmentView (syscallView ev)"

text \<open>The state and the update with which the handlers start, after the unfinished calls and the fork are taken care of.\<close>

definition begin_state :: "observed_envelope \<Rightarrow> trace_state \<Rightarrow> trace_state" where
  "begin_state ev st = st\<lparr>ts_unfinished := snd (pendingForOtherTID (env_tid ev) (ts_correlation st) (ts_unfinished st)),
     ts_lifecycle := snd (resolveForkIdentity (env_tid ev) (env_pid ev) (ts_lifecycle st))\<rparr>"

definition begin_update :: "observed_envelope \<Rightarrow> trace_state \<Rightarrow> trace_state_update" where
  "begin_update ev st = zero_update\<lparr>upd_syscall_view := Some (syscallView ev),
     upd_unfinished := fst (pendingForOtherTID (env_tid ev) (ts_correlation st) (ts_unfinished st)),
     upd_process_inherit := fst (resolveForkIdentity (env_tid ev) (env_pid ev) (ts_lifecycle st))\<rparr>"

lemma begin_state_same [simp]: "same_for t st (begin_state ev st)"
  by (simp add: begin_state_def)

lemma begin_update_sel [simp]: "upd_syscall_view (begin_update ev st) = Some (syscallView ev)" "upd_deferred_exit (begin_update ev st) = None"
  by (simp_all add: begin_update_def zero_update_def)

lemma handle_enter:
  assumes "generic_enter ev"
  shows "handleEnvelope ev st = handleSyscallEnter (syscallView ev) (env_payload ev)
    (begin_update ev st, with_lifecycle (noteSyscallTask (syscallView ev)) (begin_state ev st))"
proof -
  have "env_event_type ev = EVENT_TYPE_ENTER" "sv_tid (syscallView ev) = env_tid ev" "sv_pid (syscallView ev) = env_pid ev"
    using assms by (simp_all add: generic_enter_def isGenericEnterView_def syscallView_def)
  then show ?thesis
    using assms by (simp add: generic_enter_def handleEnvelope_def handleSyscallEnvelope_def Let_def split_beta begin_state_def begin_update_def)
qed

lemma handle_exit:
  assumes "plain_exit ev"
  shows "handleEnvelope ev st = handleSyscallExit (syscallView ev) (env_payload ev) (begin_update ev st, begin_state ev st)"
proof -
  have "env_event_type ev = EVENT_TYPE_EXIT" "sv_tid (syscallView ev) = env_tid ev" "sv_pid (syscallView ev) = env_pid ev"
    using assms by (simp_all add: plain_exit_def isExitView_def syscallView_def)
  moreover from this have "\<not> isGenericEnterView (syscallView ev)" "\<not> isEnterFragmentView (syscallView ev)"
    by (simp_all add: isGenericEnterView_def isEnterFragmentView_def syscallView_def)
  ultimately show ?thesis
    using assms by (simp add: plain_exit_def handleEnvelope_def handleSyscallEnvelope_def Let_def split_beta begin_state_def begin_update_def)
qed

lemma enter_waits:
  assumes "generic_enter ev" "env_tid ev = t" "\<not> ts_tainted st" "waiting_exit st t = None"
    and "\<And>p. waiting st t = Some p \<Longrightarrow> pnd_sys_id p \<noteq> env_sys_id ev"
  shows "waiting (snd (handleEnvelope ev st)) t = Some (new_pending (syscallView ev) (env_payload ev)) \<and>
    waiting_exit (snd (handleEnvelope ev st)) t = None \<and> policy (snd (handleEnvelope ev st)) = policy st"
proof -
  define st' where "st' = with_lifecycle (noteSyscallTask (syscallView ev)) (begin_state ev st)"
  have "same_for t st st'" by (simp add: st'_def)
  then have s: "policy st' = policy st" "pending_syscalls (ts_correlation st') t = waiting st t" "pending_exits (ts_correlation st') t = None"
    "\<not> ts_tainted st'"
    using assms(3,4) by (simp_all add: same_for_def waiting_def waiting_exit_def policy_def)
  have v: "sv_tid (syscallView ev) = t" "sv_sys_id (syscallView ev) = env_sys_id ev" using assms(2) by (simp_all add: syscallView_def)
  have "waiting (state_rememberEnterEvent (syscallView ev) (env_payload ev) st') t = Some (new_pending (syscallView ev) (env_payload ev)) \<and>
      pending_exits (ts_correlation (state_rememberEnterEvent (syscallView ev) (env_payload ev) st')) t = None \<and>
      policy (state_rememberEnterEvent (syscallView ev) (env_payload ev) st') = policy st"
    using s v assms(5)
    by (auto simp: state_rememberEnterEvent_def rememberEnterEvent_def set_pending_def waiting_def with_unfinished_def policy_def Let_def
        split: option.splits)
  then show ?thesis
    unfolding handle_enter [OF assms(1)] st'_def [symmetric] using s v
    by (simp add: handleSyscallEnter_def takePendingExit_def takePendingExitForTID_def waiting_def waiting_exit_def policy_def Let_def)
qed

lemma terminate_task:
  "sv_tid view = t \<Longrightarrow> waiting st t = None \<Longrightarrow> waiting_exit st t = x \<Longrightarrow> waiting (terminate view st) t = None \<and>
     (x = None \<longrightarrow> waiting_exit (terminate view st) t = None)"
  by (auto simp: terminate_def clearTaskPending_def clearTask_def waiting_def waiting_exit_def with_lifecycle_def with_correlation_def
      with_unfinished_def with_attach_def)

text \<open>A session in which a call of thread 7 overlaps one of thread 8.\<close>

definition sample_state :: trace_state where
  "sample_state = \<lparr>ts_tainted = False, ts_defer_unmatched_exits = True, ts_elide_plain_enter = False, ts_elide_non_blocking = False,
     ts_lifecycle_ids = \<lparr>lid_exit = 60, lid_exit_group = 231, lid_has_exit = True, lid_has_exit_group = True\<rparr>,
     ts_correlation = zero_correlation, ts_unfinished = setEnabled False zero_correlation,
     ts_lifecycle = \<lparr>lc_track_fork_identity = True, lc_history_tainted = False, lc_tasks = Map.empty, lc_pending_forks = Map.empty,
       lc_lifecycle_pending = {}, lc_command_target_pid = 7, lc_lifecycle_exited = {}\<rparr>,
     ts_attach = \<lparr>att_targets = {}, att_has_reader = False, att_reader_enabled = False\<rparr>\<rparr>"

definition sample_envelope :: "u16 \<Rightarrow> u32 \<Rightarrow> observed_envelope" where
  "sample_envelope event_type tid = trace_event_envelope.extend (zero_envelope\<lparr>env_event_type := event_type,
     env_event_flags := (if event_type = EVENT_TYPE_ENTER then EVENT_FLAG_GENERIC_ENTER else 0), env_pid := 7, env_tid := tid,
     env_sys_id := SYS_READ, env_enter_time := 50, env_args := Args 3 0x1000 16 0 0 0\<rparr>)
     \<lparr>obs_record_index = 1, obs_tainted = False, obs_integrity_epoch = 0, obs_correlation_tainted = False\<rparr>"

lemma sample_state_reached: "consumer_state sample_state" "\<not> ts_tainted sample_state" "ts_defer_unmatched_exits sample_state"
  "waiting sample_state t = None" "waiting_exit sample_state t = None" "\<not> shouldSynthesizeElidedPlainEnter n sample_state"
  by (simp_all add: sample_state_def consumer_state.start fresh_def waiting_def waiting_exit_def zero_correlation_def
      shouldSynthesizeElidedPlainEnter_def)

lemma sample_envelope_sel [simp]: "env_tid (sample_envelope ty tid) = tid" "env_sys_id (sample_envelope ty tid) = SYS_READ"
  "env_enter_time (sample_envelope ty tid) = 50" "env_args (sample_envelope ty tid) = Args 3 0x1000 16 0 0 0"
  "generic_enter (sample_envelope EVENT_TYPE_ENTER tid)" "plain_exit (sample_envelope EVENT_TYPE_EXIT tid)"
  "env_event_type (sample_envelope ty tid) = ty"
  by (simp_all add: sample_envelope_def trace_event_envelope.defs zero_envelope_def generic_enter_def plain_exit_def isGenericEnterView_def
      isExitView_def isExitFragmentView_def syscallView_def has_flag_def)

lemma sample_between: "between 7 n st (snd (handleEnvelope (sample_envelope ty 8) st))" if "ty \<noteq> EVENT_TYPE_LIFECYCLE"
  by (rule between.other) (use that in \<open>simp add: subjects_def\<close>)

text \<open>
  C8: An exit is shown with its own enter.  Once the enter of a call is seen in a trustworthy stream, whatever records of other
  tasks, fragments, signals and operations of the output side come in between, the exit of that thread and number finds
  the process, the enter time, the arguments and the payload of the enter, with the sections of later fragments behind
  them, and the call is no longer in flight.
\<close>

theorem exit_finds_enter:
  assumes "consumer_state st" "\<not> ts_tainted st" "waiting_exit st t = None"
    and "generic_enter enter" "env_tid enter = t" "\<And>p. waiting st t = Some p \<Longrightarrow> pnd_sys_id p \<noteq> env_sys_id enter"
    and "(between t (env_sys_id enter))\<^sup>*\<^sup>* (snd (handleEnvelope enter st)) st'"
    and "plain_exit exit" "env_tid exit = t" "env_sys_id exit = env_sys_id enter"
  shows "\<exists>p. upd_pending_enter (fst (handleEnvelope exit st')) = Some p \<and> same_call (new_pending (syscallView enter) (env_payload enter)) p \<and>
    upd_syscall_view (fst (handleEnvelope exit st')) = Some (syscallView exit) \<and> waiting (snd (handleEnvelope exit st')) t = None"
proof -
  let ?p = "new_pending (syscallView enter) (env_payload enter)" and ?st = "snd (handleEnvelope enter st)"
  have w: "waiting ?st t = Some ?p" "waiting_exit ?st t = None" "policy ?st = policy st"
    using enter_waits [OF assms(4,5,2,3,6)] by blast+
  have "filed ?st" by (rule filed_handleEnvelope [OF consumer_filed [OF assms(1)]])
  moreover have "\<not> ts_tainted ?st" using w(3) assms(2) by (simp add: policy_def)
  ultimately obtain q where q: "waiting st' t = Some q" "same_call ?p q" "policy st' = policy st"
    using between_run [OF assms(7)] w by (auto simp: new_pending_def syscallView_def)
  then have id: "pnd_sys_id q = env_sys_id exit" using assms(10) by (simp add: same_call_def new_pending_def syscallView_def)
  show ?thesis
  proof -
    define st2 where "st2 = begin_state exit st'"
    have "same_for t st' st2" by (simp add: st2_def)
    then have st2: "pending_syscalls (ts_correlation st2) t = Some q" "\<not> ts_tainted st2"
      using q assms(2) by (simp_all add: same_for_def waiting_def policy_def)
    have view: "sv_tid (syscallView exit) = t" "sv_sys_id (syscallView exit) = env_sys_id exit" "isExitView (syscallView exit)"
      using assms(8,9) by (simp_all add: syscallView_def plain_exit_def)
    have c: "fst (state_consumeEnterEvent (syscallView exit) st2) = Some q"
      "waiting (snd (state_consumeEnterEvent (syscallView exit) st2)) t = None"
      using st2 view id
      by (auto simp: state_consumeEnterEvent_def consumeEnterEvent_def set_pending_def waiting_def with_unfinished_def Let_def split_beta)
    show ?thesis
      unfolding handle_exit [OF assms(8)] st2_def [symmetric] using c q(2) view terminate_task [OF view(1) c(2)]
      by (simp add: handleSyscallExit_def Let_def split_beta)
  qed
qed

theorem exit_finds_enter_witness:
  "let st = snd (handleEnvelope (sample_envelope EVENT_TYPE_ENTER 8) (snd (handleEnvelope (sample_envelope EVENT_TYPE_ENTER 7) sample_state)))
   in \<exists>p. upd_pending_enter (fst (handleEnvelope (sample_envelope EVENT_TYPE_EXIT 7) st)) = Some p \<and> pnd_tid p = 7 \<and>
     pnd_args p = Args 3 0x1000 16 0 0 0"
proof -
  let ?st = "snd (handleEnvelope (sample_envelope EVENT_TYPE_ENTER 7) sample_state)"
  have "(between 7 SYS_READ)\<^sup>*\<^sup>* ?st (snd (handleEnvelope (sample_envelope EVENT_TYPE_ENTER 8) ?st))"
    by (rule r_into_rtranclp) (rule sample_between, simp)
  then show ?thesis
    using exit_finds_enter [OF sample_state_reached(1,2,5), of "sample_envelope EVENT_TYPE_ENTER 7" 7 _ "sample_envelope EVENT_TYPE_EXIT 7"]
      sample_state_reached(4)
    by (fastforce simp: Let_def same_call_def new_pending_def syscallView_def)
qed

lemma exit_waits:
  assumes "plain_exit ev" "env_tid ev = t" "\<not> ts_tainted st" "ts_defer_unmatched_exits st" "waiting st t = None"
    and "\<not> shouldSynthesizeElidedPlainEnter (env_sys_id ev) st"
  shows "upd_deferred (fst (handleEnvelope ev st)) \<and> waiting (snd (handleEnvelope ev st)) t = None \<and>
    waiting_exit (snd (handleEnvelope ev st)) t = Some \<lparr>pex_view = syscallView ev, pex_payload = env_payload ev\<rparr> \<and>
    policy (snd (handleEnvelope ev st)) = policy st"
proof -
  have "same_for t st (begin_state ev st)" by simp
  then have st: "policy (begin_state ev st) = policy st" "pending_syscalls (ts_correlation (begin_state ev st)) t = None"
    using assms(5) by (simp_all add: same_for_def waiting_def)
  have view: "sv_tid (syscallView ev) = t" "sv_sys_id (syscallView ev) = env_sys_id ev"
    using assms(1,2) by (simp_all add: syscallView_def)
  have c: "fst (state_consumeEnterEvent (syscallView ev) (begin_state ev st)) = None"
    "policy (snd (state_consumeEnterEvent (syscallView ev) (begin_state ev st))) = policy st"
    "waiting (snd (state_consumeEnterEvent (syscallView ev) (begin_state ev st))) t = None"
    using st view
    by (auto simp: state_consumeEnterEvent_def consumeEnterEvent_def set_pending_def waiting_def policy_def with_unfinished_def Let_def
        split_beta)
  have "\<not> ts_tainted (snd (state_consumeEnterEvent (syscallView ev) (begin_state ev st)))"
    "ts_defer_unmatched_exits (snd (state_consumeEnterEvent (syscallView ev) (begin_state ev st)))"
    "\<not> shouldSynthesizeElidedPlainEnter (env_sys_id ev) (snd (state_consumeEnterEvent (syscallView ev) (begin_state ev st)))"
    using c(2) assms(3,4,6) by (auto simp: policy_def shouldSynthesizeElidedPlainEnter_def)
  then show ?thesis
    unfolding handle_exit [OF assms(1)] using c view
    by (simp add: handleSyscallExit_def Let_def split_beta with_lifecycle_def with_correlation_def rememberPendingExit_def waiting_def
        waiting_exit_def policy_def)
qed

lemma enter_takes_exit:
  assumes "generic_enter ev" "env_tid ev = t" "\<not> ts_tainted st" "waiting st t = None" "waiting_exit st t = Some e"
    and "sv_tid (pex_view e) = t" "isExitView (pex_view e)" "sv_sys_id (pex_view e) = env_sys_id ev" "sv_enter_time (pex_view e) = env_enter_time ev"
  shows "upd_deferred_exit (fst (handleEnvelope ev st)) = Some \<lparr>dfx_view = pex_view e, dfx_payload = pex_payload e,
      dfx_pending_enter = Some (new_pending (syscallView ev) (env_payload ev))\<rparr> \<and>
    waiting (snd (handleEnvelope ev st)) t = None \<and> waiting_exit (snd (handleEnvelope ev st)) t = None"
proof -
  let ?v = "syscallView ev" and ?p = "new_pending (syscallView ev) (env_payload ev)"
  define st' where "st' = with_lifecycle (noteSyscallTask ?v) (begin_state ev st)"
  have "same_for t st st'" by (simp add: st'_def)
  then have s: "pending_syscalls (ts_correlation st') t = None" "pending_exits (ts_correlation st') t = Some e" "\<not> ts_tainted st'"
    using assms(3-5) by (simp_all add: same_for_def waiting_def waiting_exit_def policy_def)
  have v: "sv_tid ?v = t" "sv_sys_id ?v = env_sys_id ev" "sv_enter_time ?v = env_enter_time ev" using assms(2) by (simp_all add: syscallView_def)
  define r where "r = state_rememberEnterEvent ?v (env_payload ev) st'"
  have r: "pending_syscalls (ts_correlation r) t = Some ?p" "pending_exits (ts_correlation r) t = Some e" "\<not> ts_tainted r"
    using s v by (auto simp: r_def state_rememberEnterEvent_def rememberEnterEvent_def set_pending_def with_unfinished_def Let_def)
  have take: "takePendingExit ?v (ts_correlation r) = (Some e, (ts_correlation r)\<lparr>pending_exits := (pending_exits (ts_correlation r))(t := None)\<rparr>)"
    using r(2) v assms(8,9) by (simp add: takePendingExit_def takePendingExitForTID_def)
  define q where "q = r\<lparr>ts_correlation := (ts_correlation r)\<lparr>pending_exits := (pending_exits (ts_correlation r))(t := None)\<rparr>\<rparr>"
  have id: "pnd_sys_id ?p = env_sys_id ev" by (simp add: new_pending_def v)
  have c: "fst (state_consumeEnterEvent (pex_view e) q) = Some ?p" "waiting (snd (state_consumeEnterEvent (pex_view e) q)) t = None"
    "waiting_exit (snd (state_consumeEnterEvent (pex_view e) q)) t = None"
    using r assms(6-8) id
    by (auto simp: q_def state_consumeEnterEvent_def consumeEnterEvent_def set_pending_def waiting_def waiting_exit_def with_unfinished_def
        Let_def split_beta)
  have "handleEnvelope ev st = attachDeferredExit e ((begin_update ev st)\<lparr>upd_kind := StateSyscallEnter, upd_payload := env_payload ev\<rparr>, q)"
    unfolding handle_enter [OF assms(1)] st'_def [symmetric] using s(3) take
    by (simp add: handleSyscallEnter_def r_def [symmetric] q_def Let_def)
  then show ?thesis
    using c terminate_task [OF assms(6) c(2,3)]
    by (auto simp: attachDeferredExit_def split: prod.splits option.splits)
qed

text \<open>
  C9: The order of arrival does not matter.  The records of a call may be read from the buffers of two CPUs, the exit first: it is
  then kept back, and when the enter with the same number and enter time arrives, however many other records later, the
  two are delivered together, with everything both carried, and nothing of the call is left behind.
\<close>

theorem enter_finds_deferred_exit:
  assumes "consumer_state st" "\<not> ts_tainted st" "ts_defer_unmatched_exits st" "waiting st t = None"
    and "plain_exit exit" "env_tid exit = t" "\<not> shouldSynthesizeElidedPlainEnter (env_sys_id exit) st"
    and "(between t n)\<^sup>*\<^sup>* (snd (handleEnvelope exit st)) st'"
    and "generic_enter enter" "env_tid enter = t" "env_sys_id enter = env_sys_id exit" "env_enter_time enter = env_enter_time exit"
  shows "upd_deferred (fst (handleEnvelope exit st)) \<and>
    upd_deferred_exit (fst (handleEnvelope enter st')) = Some \<lparr>dfx_view = syscallView exit, dfx_payload = env_payload exit,
      dfx_pending_enter = Some (new_pending (syscallView enter) (env_payload enter))\<rparr> \<and>
    waiting (snd (handleEnvelope enter st')) t = None \<and> waiting_exit (snd (handleEnvelope enter st')) t = None"
proof -
  let ?st = "snd (handleEnvelope exit st)" and ?e = "\<lparr>pex_view = syscallView exit, pex_payload = env_payload exit\<rparr>"
  have w: "upd_deferred (fst (handleEnvelope exit st))" "waiting ?st t = None" "waiting_exit ?st t = Some ?e" "policy ?st = policy st"
    using exit_waits [OF assms(5,6,2,3,4,7)] by blast+
  have "filed ?st" by (rule filed_handleEnvelope [OF consumer_filed [OF assms(1)]])
  moreover have "\<not> ts_tainted ?st" using w(4) assms(2) by (simp add: policy_def)
  ultimately have r: "waiting st' t = None" "waiting_exit st' t = Some ?e" "policy st' = policy st"
    using between_run [OF assms(8)] w by auto
  have "sv_tid (pex_view ?e) = t" "isExitView (pex_view ?e)" "sv_sys_id (pex_view ?e) = env_sys_id enter"
    "sv_enter_time (pex_view ?e) = env_enter_time enter"
    using assms(5,6,11,12) by (simp_all add: syscallView_def plain_exit_def)
  moreover have "\<not> ts_tainted st'" using r(3) assms(2) by (simp add: policy_def)
  ultimately show ?thesis using w(1) enter_takes_exit [OF assms(9,10) _ r(1,2)] by simp
qed

theorem enter_finds_deferred_exit_witness:
  "let st = snd (handleEnvelope (sample_envelope EVENT_TYPE_ENTER 8) (snd (handleEnvelope (sample_envelope EVENT_TYPE_EXIT 7) sample_state)))
   in \<exists>d p. upd_deferred_exit (fst (handleEnvelope (sample_envelope EVENT_TYPE_ENTER 7) st)) = Some d \<and> dfx_pending_enter d = Some p \<and>
     pnd_args p = Args 3 0x1000 16 0 0 0"
proof -
  let ?st = "snd (handleEnvelope (sample_envelope EVENT_TYPE_EXIT 7) sample_state)"
  have "(between 7 SYS_READ)\<^sup>*\<^sup>* ?st (snd (handleEnvelope (sample_envelope EVENT_TYPE_ENTER 8) ?st))"
    by (rule r_into_rtranclp) (rule sample_between, simp)
  then show ?thesis
    using enter_finds_deferred_exit [OF sample_state_reached(1-4), of "sample_envelope EVENT_TYPE_EXIT 7" 7 SYS_READ _
        "sample_envelope EVENT_TYPE_ENTER 7"] sample_state_reached(6)
    by (simp add: Let_def new_pending_def syscallView_def)
qed

section \<open>After a loss\<close>

text \<open>
  C10: Once a loss is known, nothing is guessed.  Losing trust empties the memory of the calls in flight, and from then on an exit is
  shown with an enter only when number, enter time and arguments of the two agree; otherwise it is shown without one.
\<close>

theorem tainted_enter_exact:
  "ts_tainted (TaintHistory st) \<and> waiting (TaintHistory st) t = None \<and> waiting_exit (TaintHistory st) t = None \<and>
   (ts_tainted st \<longrightarrow> (case upd_pending_enter (fst (handleEnvelope ev st)) of None \<Rightarrow> True
      | Some p \<Rightarrow> pnd_sys_id p = env_sys_id ev \<and> pnd_enter_time p = env_enter_time ev \<and> pnd_args p = env_args ev))"
proof (intro conjI impI)
  show "ts_tainted (TaintHistory st)" "waiting (TaintHistory st) t = None" "waiting_exit (TaintHistory st) t = None"
    by (simp_all add: TaintHistory_def waiting_def waiting_exit_def zero_correlation_def)
  assume t: "ts_tainted st"
  let ?v = "syscallView ev"
  have v: "sv_sys_id ?v = env_sys_id ev" "sv_enter_time ?v = env_enter_time ev" "sv_args ?v = env_args ev" by (simp_all add: syscallView_def)
  have c: "case fst (state_consumeEnterEvent ?v st') of None \<Rightarrow> True
      | Some p \<Rightarrow> pnd_sys_id p = env_sys_id ev \<and> pnd_enter_time p = env_enter_time ev \<and> pnd_args p = env_args ev" if "ts_tainted st'" for st'
    using that v by (auto simp: state_consumeEnterEvent_def consumeEnterEvent_def with_correlation_def clearTask_def Let_def split_beta
        split: option.splits if_splits)
  have x: "case upd_pending_enter (fst (handleSyscallExit ?v payload (u, st'))) of None \<Rightarrow> True
      | Some p \<Rightarrow> pnd_sys_id p = env_sys_id ev \<and> pnd_enter_time p = env_enter_time ev \<and> pnd_args p = env_args ev"
    if "ts_tainted st'" "upd_pending_enter u = None" for st' u payload
    using c [OF that(1)] that(2) v
    by (auto simp: handleSyscallExit_def Let_def split_beta synthesizeGenericEnter_def split: option.splits)
  show "case upd_pending_enter (fst (handleEnvelope ev st)) of None \<Rightarrow> True
      | Some p \<Rightarrow> pnd_sys_id p = env_sys_id ev \<and> pnd_enter_time p = env_enter_time ev \<and> pnd_args p = env_args ev"
    using t x by (auto simp: handleEnvelope_def handleLifecycleEnvelope_def handleSyscallEnvelope_def handleSyscallEnter_def
        handleSyscallFragment_def attachDeferredExit_def zero_update_def Let_def split_beta split: option.splits prod.splits)
qed

theorem tainted_enter_exact_witness:
  "let st = snd (handleEnvelope (sample_envelope EVENT_TYPE_ENTER 7) (TaintHistory sample_state)) in
     ts_tainted st \<and> (case upd_pending_enter (fst (handleEnvelope (sample_envelope EVENT_TYPE_EXIT 7) st)) of None \<Rightarrow> False
       | Some p \<Rightarrow> pnd_args p = Args 3 0x1000 16 0 0 0)"
proof -
  let ?st = "snd (handleEnvelope (sample_envelope EVENT_TYPE_ENTER 7) (TaintHistory sample_state))"
  have "ts_tainted ?st" "upd_pending_enter (fst (handleEnvelope (sample_envelope EVENT_TYPE_EXIT 7) ?st)) \<noteq> None" by code_simp+
  then show ?thesis
    using tainted_enter_exact [of ?st 7 "sample_envelope EVENT_TYPE_EXIT 7"] by (auto simp: Let_def)
qed

section \<open>The end of a task\<close>

lemma deleteCandidate_gone:
  "unf_enabled (deleteCandidate t u) \<Longrightarrow> t \<notin> unf_unqueued (deleteCandidate t u) \<and> t \<notin> unf_in_flight (deleteCandidate t u)"
  by (auto simp: deleteCandidate_def split: if_splits)

text \<open>The end of a task as the lifecycle table takes it: it concerns the table of tasks and unresolved forks only.\<close>

lemma task_end_frame:
  assumes "lv_action view = LIFECYCLE_EXIT \<or> lv_action view = LIFECYCLE_FREE"
  defines "f \<equiv> \<lambda>st. snd (snd (applyLifecycleEvent view st))"
  shows "ts_correlation (f st) = ts_correlation st" "ts_attach (f st) = ts_attach st"
    "lc_lifecycle_exited (ts_lifecycle (f st)) = lc_lifecycle_exited (ts_lifecycle st)"
    "lc_command_target_pid (ts_lifecycle (f st)) = lc_command_target_pid (ts_lifecycle st)"
  using assms(1) unfolding f_def
  by (auto simp: applyLifecycleEvent_def apply_lifecycle_def applyTaskExit_def resolveForkIdentity_def store_task_def Let_def
      split: prod.splits option.splits if_splits)

text \<open>
  C25: The end of a thread clears its entries.  After the exit or the freeing of a thread no entry under its number is left among the
  pending enters, kept-back exits, exec arguments and suspended calls, in the index of unfinished calls, among the tasks, unresolved
  forks, expected ends and attached roots, or among the tasks of the integrity tracker; an exit that was kept back for it
  is delivered with the event.  What is remembered is the end itself, and only of the command target: \<^verbatim>\<open>lifecycleExited\<close> gains
  the process and the thread of the event when one of them is the command, and no other number.
\<close>

theorem task_exit_forgotten:
  assumes "env_event_type ev = EVENT_TYPE_LIFECYCLE" "env_lifecycle_action ev = LIFECYCLE_EXIT \<or> env_lifecycle_action ev = LIFECYCLE_FREE"
    and "env_tid ev = t" "t \<noteq> 0"
  shows "let (u, st') = handleEnvelope ev st; l = ts_lifecycle st' in
    waiting st' t = None \<and> waiting_exit st' t = None \<and> pending_exec_args (ts_correlation st') (uint t) = None \<and>
    suspended_syscalls (ts_correlation st') (uint t) = None \<and> lc_tasks l t = None \<and> lc_pending_forks l t = None \<and>
    t \<notin> lc_lifecycle_pending l \<and> t \<notin> att_targets (ts_attach st') \<and>
    (unf_enabled (ts_unfinished st') \<longrightarrow> t \<notin> unf_unqueued (ts_unfinished st') \<and> t \<notin> unf_in_flight (ts_unfinished st')) \<and>
    ti_tasks (observeTask ev i) t = None \<and>
    lc_lifecycle_exited l = lc_lifecycle_exited (ts_lifecycle st) \<union>
      (if lc_command_target_pid (ts_lifecycle st) \<noteq> 0 \<and> lc_command_target_pid (ts_lifecycle st) \<in> {env_pid ev, t}
       then {env_pid ev, t} - {0} else {}) \<and>
    upd_deferred_exit u = map_option (\<lambda>e. \<lparr>dfx_view = pex_view e, dfx_payload = pex_payload e, dfx_pending_enter = None\<rparr>) (waiting_exit st t)"
proof -
  let ?view = "lifecycleView ev" and ?st = "st\<lparr>ts_unfinished := snd (pendingForOtherTID (env_tid ev) (ts_correlation st) (ts_unfinished st))\<rparr>"
  have v: "lv_tid ?view = t" "lv_pid ?view = env_pid ev" "lv_action ?view = env_lifecycle_action ev"
    using assms(3) by (simp_all add: lifecycleView_def)
  then have act: "lv_action ?view = LIFECYCLE_EXIT \<or> lv_action ?view = LIFECYCLE_FREE" "lv_action ?view \<noteq> LIFECYCLE_EXEC"
    using assms(2) by auto
  note f = task_end_frame [OF act(1), of ?st]
  define st2 where "st2 = snd (snd (applyLifecycleEvent ?view ?st))"
  define st3 where "st3 = with_attach (markTargetExited (env_pid ev) t) (with_lifecycle (\<lambda>l.
      clearLifecyclePending t (rememberLifecycleExit (env_pid ev) t l)) st2)"
  have s': "snd (handleEnvelope ev st) = retireTask t (st3\<lparr>ts_correlation := snd (takePendingExitForTID t (ts_correlation st))\<rparr>)"
    "upd_deferred_exit (fst (handleEnvelope ev st)) = map_option (\<lambda>e. \<lparr>dfx_view = pex_view e, dfx_payload = pex_payload e,
       dfx_pending_enter = None\<rparr>) (fst (takePendingExitForTID t (ts_correlation st)))"
    using assms(1) act v f(1)
    by (auto simp: handleEnvelope_def handleLifecycleEnvelope_def Let_def split_beta st2_def st3_def with_attach_def with_lifecycle_def)
  have "lc_lifecycle_exited (ts_lifecycle st3) = lc_lifecycle_exited (ts_lifecycle st) \<union>
      (if lc_command_target_pid (ts_lifecycle st) \<noteq> 0 \<and> lc_command_target_pid (ts_lifecycle st) \<in> {env_pid ev, t}
       then {env_pid ev, t} - {0} else {})"
    using f(3,4) by (auto simp: st3_def with_attach_def with_lifecycle_def clearLifecyclePending_def rememberLifecycleExit_def
        simp flip: st2_def)
  moreover have "t \<notin> lc_lifecycle_pending (ts_lifecycle st3)" "t \<notin> att_targets (ts_attach st3)"
    using assms(4) by (simp_all add: st3_def with_attach_def with_lifecycle_def clearLifecyclePending_def markTargetExited_def)
  moreover have "ti_tasks (observeTask ev i) t = None"
    using assms by (auto simp: observeTask_def observeTaskLifecycle_def delete_task_def Let_def)
  ultimately show ?thesis
    using assms(4) deleteCandidate_gone [of t "ts_unfinished st3"] unfolding split_beta Let_def s'
    by (simp add: retireTask_def clearTaskPending_def clearTask_def waiting_def waiting_exit_def takePendingExitForTID_def
        with_lifecycle_def with_correlation_def with_unfinished_def)
qed

theorem task_exit_forgotten_witness:
  "let ev = (sample_envelope EVENT_TYPE_LIFECYCLE 7)\<lparr>env_lifecycle_action := LIFECYCLE_EXIT\<rparr>;
       st = snd (handleEnvelope (sample_envelope EVENT_TYPE_ENTER 7) sample_state) in
     waiting st 7 \<noteq> None \<and> waiting (snd (handleEnvelope ev st)) 7 = None \<and> lc_tasks (ts_lifecycle (snd (handleEnvelope ev st))) 7 = None"
proof -
  let ?ev = "(sample_envelope EVENT_TYPE_LIFECYCLE 7)\<lparr>env_lifecycle_action := LIFECYCLE_EXIT\<rparr>"
  have e: "env_event_type ?ev = EVENT_TYPE_LIFECYCLE" "env_lifecycle_action ?ev = LIFECYCLE_EXIT \<or> env_lifecycle_action ?ev = LIFECYCLE_FREE"
    "env_tid ?ev = 7" "(7 :: u32) \<noteq> 0" by (simp_all add: sample_envelope_def trace_event_envelope.defs)
  have "waiting (snd (handleEnvelope (sample_envelope EVENT_TYPE_ENTER 7) sample_state)) 7 \<noteq> None" by code_simp
  then show ?thesis
    using task_exit_forgotten [OF e, of "snd (handleEnvelope (sample_envelope EVENT_TYPE_ENTER 7) sample_state)"]
    unfolding Let_def split_beta by blast
qed

section \<open>Unfinished calls\<close>

lemma collect_candidates:
  assumes "unf_enabled u"
  shows "fold (collect_candidate c) ts (vs, u) = (vs @ map (\<lambda>t. unfinishedView (the (pending_syscalls c t)))
      (filter (\<lambda>t. unfinished_candidate (pending_syscalls c t)) ts),
    u\<lparr>unf_unqueued := unf_unqueued u - set ts,
      unf_in_flight := (unf_in_flight u - {t \<in> set ts. \<not> unfinished_candidate (pending_syscalls c t)}) \<union>
        {t \<in> set ts. unfinished_candidate (pending_syscalls c t)}\<rparr>)"
  using assms
proof (induction ts arbitrary: vs u)
  case (Cons t ts)
  let ?b = "unfinished_candidate (pending_syscalls c t)"
  let ?u = "if ?b then u\<lparr>unf_unqueued := unf_unqueued u - {t}, unf_in_flight := insert t (unf_in_flight u)\<rparr>
     else u\<lparr>unf_unqueued := unf_unqueued u - {t}, unf_in_flight := unf_in_flight u - {t}\<rparr>"
  have step: "collect_candidate c t (vs, u) = (if ?b then vs @ [unfinishedView (the (pending_syscalls c t))] else vs, ?u)"
    using Cons.prems by (auto simp: collect_candidate_def deleteCandidate_def unfinished_candidate_def split: option.splits)
  have e: "unf_enabled ?u" using Cons.prems by simp
  show ?case
    unfolding fold_simps step Cons.IH [OF e] by (cases ?b) (auto intro!: trace_unfinished_state.equality)
qed simp

lemma pending_none: "unf_unqueued u \<subseteq> {tid} \<Longrightarrow> fst (pendingForOtherTID tid c u) = []"
  by (simp add: pendingForOtherTID_def)

text \<open>
  C26: A call that is still running is reported as unfinished once.  When a record of another task arrives, the calls to report
  are exactly the candidates in flight that are not printed yet, each once and in the order of their start, with the data
  of their enter; the next record finds none of them again.
\<close>

theorem unfinished_reported_once:
  assumes "filed_in c" "unf_enabled u" "tid \<noteq> 0" "finite (unf_unqueued u)"
  shows "let (views, u') = pendingForOtherTID tid c u in
    sorted (map (\<lambda>v. (ufv_enter_time v, ufv_tid v)) views) \<and> distinct (map ufv_tid views) \<and>
    set views = {unfinishedView p |p t. t \<in> unf_unqueued u - {tid} \<and> pending_syscalls c t = Some p \<and> unfinished_candidate (Some p)} \<and>
    fst (pendingForOtherTID tid c u') = []"
proof (cases "unf_unqueued u \<subseteq> {tid}")
  case True
  then show ?thesis by (auto simp: pendingForOtherTID_def Let_def)
next
  case False
  let ?ts = "sorted_list_of_set (unf_unqueued u - {tid})" and ?b = "\<lambda>t. unfinished_candidate (pending_syscalls c t)"
  let ?us = "map (\<lambda>t. unfinishedView (the (pending_syscalls c t))) (filter ?b ?ts)"
  let ?key = "\<lambda>v. (ufv_enter_time v, ufv_tid v)"
  let ?u = "u\<lparr>unf_unqueued := unf_unqueued u - set ?ts, unf_in_flight := (unf_in_flight u - {t \<in> set ?ts. \<not> ?b t}) \<union> {t \<in> set ?ts. ?b t}\<rparr>"
  have r: "pendingForOtherTID tid c u = (sort_key ?key ?us, ?u)"
    using False assms(2,3) by (simp add: pendingForOtherTID_def collect_candidates)
  have ts: "set ?ts = unf_unqueued u - {tid}" "distinct ?ts" using assms(4) by simp_all
  have some: "\<exists>p. pending_syscalls c t = Some p \<and> unfinished_candidate (Some p)" if "?b t" for t
    using that by (cases "pending_syscalls c t") (auto simp: unfinished_candidate_def)
  have tid: "ufv_tid (unfinishedView (the (pending_syscalls c t))) = t" if "?b t" for t
    using some [OF that] assms(1) by (auto simp: filed_in_def unfinishedView_def)
  have "map ufv_tid ?us = filter ?b ?ts" using tid by (auto simp: comp_def intro!: map_idI)
  then have d: "distinct (map ufv_tid ?us)" using ts(2) by simp
  have "mset (map ufv_tid (sort_key ?key ?us)) = mset (map ufv_tid ?us)" by (simp only: mset_map mset_sort)
  then have "distinct (map ufv_tid (sort_key ?key ?us))" using d mset_eq_imp_distinct_iff by blast
  moreover have "set ?us = {unfinishedView p |p t. t \<in> unf_unqueued u - {tid} \<and> pending_syscalls c t = Some p \<and> unfinished_candidate (Some p)}"
    using ts(1) some by (force simp: image_iff)
  moreover have "unf_unqueued ?u \<subseteq> {tid}" using ts(1) by auto
  then have "fst (pendingForOtherTID tid c ?u) = []" by (rule pending_none)
  ultimately show ?thesis by (simp add: r Let_def)
qed

theorem unfinished_reported_once_witness:
  "let st = setUnfinishedEnabled True (snd (handleEnvelope (sample_envelope EVENT_TYPE_ENTER 7) sample_state)) in
     fst (pendingForOtherTID 8 (ts_correlation st) (snd (pendingForOtherTID 8 (ts_correlation st) (ts_unfinished st)))) = []"
proof -
  let ?st = "snd (handleEnvelope (sample_envelope EVENT_TYPE_ENTER 7) sample_state)"
  have "filed_in (ts_correlation (setUnfinishedEnabled True ?st))"
    using consumer_filed [OF consumer_state.operation [OF consumer_state.envelope [OF sample_state_reached(1)], of "SetUnfinishedEnabled True"]] by simp
  moreover have "unf_enabled (ts_unfinished (setUnfinishedEnabled True ?st))" "finite (unf_unqueued (ts_unfinished (setUnfinishedEnabled True ?st)))"
    by (simp_all add: setUnfinishedEnabled_def setEnabled_def with_unfinished_def)
  ultimately show ?thesis
    using unfinished_reported_once [of "ts_correlation (setUnfinishedEnabled True ?st)" "ts_unfinished (setUnfinishedEnabled True ?st)" 8]
    by (simp add: Let_def split_beta)
qed

end
