(* ===== verification/Trace_Session.thy ===== *)
theory Trace_Session
  imports Consumer_System Trace_Correlation
begin

text \<open>
  The whole path of a record: probes, ring buffer, reader, integrity tracker and the memory of the consumer
  (\<^verbatim>\<open>session_composition.go\<close> connects them: the reader's sink is the router, the tracker's invalidator the state).  The output
  side sees every update and uses the state through its operations only.
\<close>

definition dispatch_ops :: "(observed_envelope \<Rightarrow> trace_state_update \<Rightarrow> state_op list) \<Rightarrow> observed_envelope \<Rightarrow> trace_state_update \<Rightarrow>
    trace_state \<Rightarrow> trace_state" where
  "dispatch_ops ops ev update st = fold apply_op (ops ev update) st"

abbreviation route :: "trace_scope \<Rightarrow> (observed_envelope \<Rightarrow> trace_state_update \<Rightarrow> state_op list) \<Rightarrow> observed_envelope \<Rightarrow> trace_state \<Rightarrow> trace_state" where
  "route scope ops \<equiv> Handle scope (dispatch_ops ops)"

section \<open>Routing never changes the trust\<close>

lemma apply_op_tainted [simp]: "ts_tainted (apply_op op st) = ts_tainted st"
  using between_op [where op = op and st = st] by (simp add: policy_def)

lemma fold_op_tainted [simp]: "ts_tainted (fold apply_op ops st) = ts_tainted st"
  by (induction ops arbitrary: st) simp_all

lemma part_tainted [simp]:
  "ts_tainted (with_unfinished f st) = ts_tainted st" "ts_tainted (with_lifecycle g st) = ts_tainted st"
  "ts_tainted (with_attach h st) = ts_tainted st" "ts_tainted (with_correlation k st) = ts_tainted st"
  "ts_tainted (clearTaskPending tid st) = ts_tainted st" "ts_tainted (retireTask tid st) = ts_tainted st"
  "ts_tainted (terminate view st) = ts_tainted st"
  by (simp_all add: with_unfinished_def with_lifecycle_def with_attach_def with_correlation_def clearTaskPending_def retireTask_def terminate_def)

lemma step_tainted [simp]:
  "ts_tainted (state_rememberEnterEvent view payload st) = ts_tainted st"
  "ts_tainted (state_rememberPayloadFragment view payload st) = ts_tainted st"
  "ts_tainted (snd (state_consumeEnterEvent view st)) = ts_tainted st"
  "ts_tainted (snd (snd (applyLifecycleEvent lview st))) = ts_tainted st"
  by (simp_all add: state_rememberEnterEvent_def state_rememberPayloadFragment_def state_consumeEnterEvent_def applyLifecycleEvent_def
      Let_def split_beta)

lemma handler_tainted [simp]:
  "ts_tainted (snd (attachDeferredExit e (u, st))) = ts_tainted st"
  "ts_tainted (snd (handleSyscallExit view payload (u, st))) = ts_tainted st"
  "ts_tainted (snd (handleSyscallFragment view payload (u, st))) = ts_tainted st"
  "ts_tainted (snd (handleLifecycleEnvelope ev us st)) = ts_tainted st"
  using step_tainted(3) [of "pex_view e" st]
  by (auto simp: attachDeferredExit_def handleSyscallExit_def handleSyscallFragment_def handleLifecycleEnvelope_def Let_def split_beta
      split: prod.splits option.splits)

lemma enter_tainted [simp]: "ts_tainted (snd (handleSyscallEnter view payload (u, st))) = ts_tainted st"
  by (auto simp: handleSyscallEnter_def Let_def split: prod.splits option.splits)

lemma handle_tainted [simp]: "ts_tainted (snd (handleEnvelope ev st)) = ts_tainted st"
  by (auto simp: handleEnvelope_def handleSyscallEnvelope_def Let_def split_beta)

lemma route_tainted [simp]: "ts_tainted (route scope ops ev st) = ts_tainted st"
  by (simp add: Handle_def dispatch_ops_def split_beta)


section \<open>Tracker and memory agree\<close>












section \<open>The session as a whole\<close>



end
