(* ===== verification/Payload_Content.thy ===== *)
theory Payload_Content
  imports Bpf_Command_Exit
begin

text \<open>
  What the consumer reads of a payload.  The lemmas of the families so far say that a payload parses; here a
  capture is described by the sections it lays behind each other when user memory is stable and readable.  The
  description composes over the sections of a record, and a record whose capture lays a list of sections decodes to
  exactly that list.
\<close>

section \<open>Sections as the producer writes them and as the consumer sees them\<close>

record laid_section =
  ls_kind :: u16
  ls_arg :: u16
  ls_flags :: u16
  ls_user_len :: u32
  ls_user_ptr :: u64
  ls_data :: bytes

definition section_header :: "laid_section \<Rightarrow> payload_tlv_header" where
  "section_header x = \<lparr>tlv_kind = ls_kind x, tlv_arg_index = ls_arg x, tlv_flags = ls_flags x, tlv_reserved = 0,
     tlv_user_len = ls_user_len x, tlv_copied_len = of_nat (length (ls_data x)), tlv_probe_ret = 0,
     tlv_reserved2 = 0, tlv_user_ptr = ls_user_ptr x\<rparr>"

definition section_image :: "laid_section \<Rightarrow> bytes" where
  "section_image x = enc_tlv_header (section_header x) @ ls_data x"

definition section_view :: "laid_section \<Rightarrow> payload_section" where
  "section_view x = tlv_section (section_header x) (ls_data x) (the (payloadKindFromTLV (ls_kind x)))"

definition well_laid :: "laid_section \<Rightarrow> bool" where
  "well_laid x \<longleftrightarrow> payloadKindFromTLV (ls_kind x) \<noteq> None \<and> length (ls_data x) < 2 ^ 31"

definition images :: "laid_section list \<Rightarrow> bytes" where
  "images xs = concat (map section_image xs)"

lemma images_simps [simp]: "images [] = []" "images (x # xs) = section_image x @ images xs"
  by (simp_all add: images_def)

lemma images_append [simp]: "images (xs @ ys) = images xs @ images ys"
  by (simp add: images_def)

lemma length_section_image [simp]: "length (section_image x) = 32 + length (ls_data x)"
  by (simp add: section_image_def)

lemma decode_images: "list_all well_laid xs \<Longrightarrow> decodePayloadTLVSections (images xs) = Some (map section_view xs)"
proof (induction xs)
  case Nil
  then show ?case by (simp add: decodePayloadTLVSections.simps)
next
  case (Cons x xs)
  then obtain kind where "payloadKindFromTLV (ls_kind x) = Some kind" "length (ls_data x) < 2 ^ 31" by (auto simp: well_laid_def)
  with Cons show ?case
    using decode_tlv_cons [of "section_header x" kind "ls_data x" "images xs"]
    by (simp add: section_image_def section_view_def section_header_def unat_of_nat take_bit_nat_eq_self)
qed

section \<open>Captures that lay sections\<close>

text \<open>
  \<open>lays c0 cap c ef fl xs\<close>: started with the event flags \<open>ef\<close> in a state with control part \<open>c0\<close> and with \<open>cap\<close> bytes left
  in the reservation, \<open>c\<close> writes the sections \<open>xs\<close> at its offset, keeps what stands before it and returns their length and
  the flags \<open>fl\<close>.
\<close>

definition lays :: "machine \<Rightarrow> nat \<Rightarrow> flag_capture \<Rightarrow> u16 \<Rightarrow> u16 \<Rightarrow> laid_section list \<Rightarrow> bool" where
  "lays c0 cap c ef fl xs \<longleftrightarrow> (\<forall>off u d. reservation u = Some d \<and> off + cap \<le> length d \<and> control u = c0 \<longrightarrow>
     wp (c off ef) (\<lambda>x t. x = (length (images xs), fl) \<and> events t = events u \<and> control t = c0 \<and>
       (\<exists>d'. reservation t = Some d' \<and> length d' = length d \<and>
         take (off + length (images xs)) d' = take off d @ images xs)) u)"

lemma laysI:
  assumes "\<And>off u d. reservation u = Some d \<Longrightarrow> off + cap \<le> length d \<Longrightarrow> control u = c0 \<Longrightarrow>
     wp (c off ef) (\<lambda>x t. x = (length (images xs), fl) \<and> events t = events u \<and> control t = c0 \<and>
       (\<exists>d'. reservation t = Some d' \<and> length d' = length d \<and>
         take (off + length (images xs)) d' = take off d @ images xs)) u"
  shows "lays c0 cap c ef fl xs"
  unfolding lays_def using assms by blast

lemma laysD:
  assumes "lays c0 cap c ef fl xs" "reservation u = Some d" "off + cap \<le> length d" "control u = c0"
  shows "wp (c off ef) (\<lambda>x t. x = (length (images xs), fl) \<and> events t = events u \<and> control t = c0 \<and>
       (\<exists>d'. reservation t = Some d' \<and> length d' = length d \<and>
         take (off + length (images xs)) d' = take off d @ images xs)) u"
  using assms unfolding lays_def by blast

lemma lays_none: "lays c0 cap (\<lambda>off ef. return (0, ef)) ef ef []"
  by (auto intro!: laysI simp: wp_simps)

lemma lays_mono: "lays c0 a c ef fl xs \<Longrightarrow> a \<le> b \<Longrightarrow> lays c0 b c ef fl xs"
  by (rule laysI, erule laysD) auto

lemma lays_then:
  assumes "lays c0 a c ef fl xs" "lays c0 b e fl gl ys" "a \<le> cap" "length (images xs) + b \<le> cap"
  shows "lays c0 cap (\<lambda>off ef. do { (n, fl) \<leftarrow> c off ef; (m, fl) \<leftarrow> e (off + n) fl; return (n + m, fl) }) ef gl (xs @ ys)"
proof (rule laysI)
  fix off u d
  assume u: "reservation u = Some d" "off + cap \<le> length d" "control u = c0"
  let ?n = "length (images xs)" and ?m = "length (images ys)"
  let ?Q = "\<lambda>x t. x = (?n + ?m, gl) \<and> events t = events u \<and> control t = c0 \<and>
    (\<exists>d'. reservation t = Some d' \<and> length d' = length d \<and> take (off + (?n + ?m)) d' = take off d @ images xs @ images ys)"
  have 1: "wp (c off ef) (\<lambda>x t. x = (?n, fl) \<and> events t = events u \<and> control t = c0 \<and>
      (\<exists>d'. reservation t = Some d' \<and> length d' = length d \<and> take (off + ?n) d' = take off d @ images xs)) u"
    using laysD [OF assms(1) u(1) _ u(3)] assms(3) u(2) by simp
  have "wp (do { (n, fl) \<leftarrow> c off ef; (m, fl) \<leftarrow> e (off + n) fl; return (n + m, fl) }) ?Q u"
    unfolding wp_bind
  proof (rule wp_mono [OF 1], elim conjE exE)
    fix x t d'
    assume t: "x = (?n, fl)" "events t = events u" "control t = c0" "reservation t = Some d'" "length d' = length d"
      "take (off + ?n) d' = take off d @ images xs"
    have 2: "wp (e (off + ?n) fl) (\<lambda>x v. x = (?m, gl) \<and> events v = events t \<and> control v = c0 \<and>
        (\<exists>d''. reservation v = Some d'' \<and> length d'' = length d' \<and>
           take (off + ?n + ?m) d'' = take (off + ?n) d' @ images ys)) t"
      using laysD [OF assms(2) t(4) _ t(3), of "off + ?n"] assms(4) t(5) u(2) by simp
    show "wp (case x of (n, fl) \<Rightarrow> do { (m, fl) \<leftarrow> e (off + n) fl; return (n + m, fl) }) ?Q t"
      unfolding t(1) prod.case wp_bind
      by (rule wp_mono [OF 2]) (auto simp: wp_simps t add.assoc)
  qed
  then show "wp (do { (n, fl) \<leftarrow> c off ef; (m, fl) \<leftarrow> e (off + n) fl; return (n + m, fl) })
     (\<lambda>x t. x = (length (images (xs @ ys)), gl) \<and> events t = events u \<and> control t = c0 \<and>
       (\<exists>d'. reservation t = Some d' \<and> length d' = length d \<and>
         take (off + length (images (xs @ ys))) d' = take off d @ images (xs @ ys))) u"
    by simp
qed

lemma lays_sections_nil: "lays c0 cap (flag_sections []) ef ef []"
  by (simp add: lays_none)

lemma lays_sections_cons:
  assumes "lays c0 a c ef fl xs" "lays c0 b (flag_sections cs) fl gl ys" "a \<le> cap" "length (images xs) + b \<le> cap"
  shows "lays c0 cap (flag_sections (c # cs)) ef gl (xs @ ys)"
  using lays_then [OF assms] by simp

lemma flag_sections_unmarked: "flag_sections (map unmarked cs) off ef = with_flags ef (sections off cs)"
  by (induction cs arbitrary: off) (simp_all add: unmarked_def with_flags_def)

section \<open>Sections of user memory\<close>

text \<open>User memory that does not change while the program runs and can be read.\<close>

definition readable :: "kernel \<Rightarrow> (u64 \<Rightarrow> u8) \<Rightarrow> bool" where
  "readable k M \<longleftrightarrow> (\<forall>t. k_user_mem k t = M) \<and> (\<forall>t p n. 0 \<le> k_user_fault k t p n)"

lemma readableD:
  "readable k M \<Longrightarrow> k_user_mem k t = M"
  "readable k M \<Longrightarrow> \<not> k_user_fault k t p n < 0"
  by (simp_all add: readable_def not_less)

lemma take_probe_bytes: "n \<le> r \<Longrightarrow> take n (probe_bytes M p r) = probe_bytes M p n"
  by (simp add: probe_bytes_def take_map)

text \<open>\<open>copies_to w copy bs\<close>: with \<open>w\<close> bytes of room, \<open>copy\<close> stores \<open>bs\<close> at its offset and reports its length.\<close>

definition copies_to :: "nat \<Rightarrow> (nat \<Rightarrow> (nat \<times> s32) bpf) \<Rightarrow> bytes \<Rightarrow> bool" where
  "copies_to w copy bs \<longleftrightarrow> (\<forall>off u d. reservation u = Some d \<and> off + w \<le> length d \<longrightarrow>
     wp (copy off) (\<lambda>x t. x = (length bs, 0) \<and> events t = events u \<and> control t = control u \<and>
       (\<exists>d'. reservation t = Some d' \<and> length d' = length d \<and> take (off + length bs) d' = take off d @ bs)) u)"

lemma copies_toD:
  assumes "copies_to w copy bs" "reservation u = Some d" "off + w \<le> length d"
  shows "wp (copy off) (\<lambda>x t. x = (length bs, 0) \<and> events t = events u \<and> control t = control u \<and>
       (\<exists>d'. reservation t = Some d' \<and> length d' = length d \<and> take (off + length bs) d' = take off d @ bs)) u"
  using assms unfolding copies_to_def by blast

lemma control_tick_reservation [simp]:
  "control (s\<lparr>tick := n\<rparr>) = control s" "control (s\<lparr>reservation := r\<rparr>) = control s"
  by (simp_all add: control_def)

lemma take_poke:
  "off + length ys \<le> length xs \<Longrightarrow> n \<le> length ys \<Longrightarrow> take (off + n) (poke xs off ys) = take off xs @ take n ys"
  by (simp add: poke_def min_def)

lemma copies_to_user:
  assumes "readable k M" "n \<le> r" "r \<le> w"
  shows "copies_to w (copy_user k w r n up) (probe_bytes M up n)"
  unfolding copies_to_def
proof (intro allI impI, elim conjE)
  fix off and u :: machine and d
  assume u: "reservation u = Some d" "off + w \<le> length d"
  have "take (off + n) (poke d off (probe_bytes M up r)) = take off d @ probe_bytes M up n"
    using u(2) assms by (simp add: take_poke take_probe_bytes)
  then show "wp (copy_user k w r n up off) (\<lambda>x t. x = (length (probe_bytes M up n), 0) \<and> events t = events u \<and>
     control t = control u \<and> (\<exists>d'. reservation t = Some d' \<and> length d' = length d \<and>
       take (off + length (probe_bytes M up n)) d' = take off d @ probe_bytes M up n)) u"
    using u assms(2,3) by (simp add: copy_user_def wp_simps readableD [OF assms(1)])
qed

lemma copies_to_user_checked:
  "readable k M \<Longrightarrow> n \<le> w \<Longrightarrow> up \<noteq> 0 \<Longrightarrow> copies_to w (copy_user_checked k w n up) (probe_bytes M up n)"
  by (simp add: copy_user_checked_def [abs_def] copies_to_user)

lemma take_poke_header:
  assumes "take (off + 32 + length bs) d' = take (off + 32) d @ bs" "length d' = length d" "off + 32 + length bs \<le> length d"
    and "length hb = 32"
  shows "take (off + (32 + length bs)) (poke d' off hb) = take off d @ hb @ bs"
proof -
  have "drop (off + 32) (take (off + 32 + length bs) d') = bs" using assms by simp
  then have "take (length bs) (drop (off + 32) d') = bs" by (simp add: drop_take)
  moreover have "take off d' = take off d" 
  proof -
    have "take off (take (off + 32 + length bs) d') = take off (take (off + 32) d @ bs)" by (simp only: assms(1))
    then show ?thesis using assms(2,3) by (simp add: min_def)
  qed
  ultimately show ?thesis using assms by (simp add: poke_def add.commute)
qed

lemma lays_flagged_section:
  assumes "copies_to w copy bs" "length bs \<le> w"
  shows "lays c0 (32 + w) (\<lambda>off ef. flagged_section k off kind arg dir ef ul up tr copy) ef
    (if tr (length bs) 0 then ef OR EVENT_FLAG_TRUNCATED else ef)
    [\<lparr>ls_kind = kind, ls_arg = arg, ls_flags = dir, ls_user_len = ul, ls_user_ptr = up, ls_data = bs\<rparr>]"
    (is "lays _ _ _ _ ?fl [?x]")
proof (rule laysI)
  fix off and u :: machine and d
  assume u: "reservation u = Some d" "off + (32 + w) \<le> length d" "control u = c0"
  let ?Q = "\<lambda>x t. x = (length (images [?x]), ?fl) \<and> events t = events u \<and> control t = c0 \<and>
    (\<exists>d'. reservation t = Some d' \<and> length d' = length d \<and> take (off + length (images [?x])) d' = take off d @ images [?x])"
  have c: "wp (copy (off + 32)) (\<lambda>x t. x = (length bs, 0) \<and> events t = events u \<and> control t = control u \<and>
      (\<exists>d'. reservation t = Some d' \<and> length d' = length d \<and> take (off + 32 + length bs) d' = take (off + 32) d @ bs)) u"
    using u by (intro copies_toD [OF assms(1)]) simp_all
  show "wp (flagged_section k off kind arg dir ef ul up tr copy) ?Q u"
    unfolding flagged_section_def wp_bind
  proof (rule wp_mono [OF c], elim conjE exE)
    fix x :: "nat \<times> s32" and t d'
    assume t: "x = (length bs, 0)" "events t = events u" "control t = control u" "reservation t = Some d'"
      "length d' = length d" "take (off + 32 + length bs) d' = take (off + 32) d @ bs"
    let ?r = "only_if (tr (length bs) 0) (record_payload_truncated_event k)"
    have r: "reservation (exec ?r t) = Some d'" "events (exec ?r t) = events u" "control (exec ?r t) = c0"
      using t u(3) by (simp_all add: keeps_only_if keeps_recorders reports_control reports_only_if reports_intros)
    have h: "take (off + (32 + length bs)) (poke d' off (enc_tlv_header (section_header ?x))) =
        take off d @ enc_tlv_header (section_header ?x) @ bs"
      by (rule take_poke_header [OF t(6,5)]) (use u(2) assms(2) in simp_all)
    show "wp (case x of (copied_len, probe_ret) \<Rightarrow> do {
         only_if (tr copied_len probe_ret) (record_payload_truncated_event k);
         ok \<leftarrow> payload_tlv_write_header_direct k off kind arg dir ul (of_nat copied_len) probe_ret up;
         return (if ok then 32 + copied_len else 0,
           if tr copied_len probe_ret then ef OR EVENT_FLAG_TRUNCATED else ef) }) ?Q t"
      using r h u(2) t(5)
      by (simp add: t(1) wp_def run_bind_parts payload_tlv_write_header_direct_def bpf_dynptr_write_def mem_store_def
          section_image_def section_header_def del: run_state_bind)
  qed
qed

lemma unmarked_copied_section:
  "unmarked (\<lambda>off. copied_section k off kind arg dir ul up copy) =
     (\<lambda>off ef. flagged_section k off kind arg dir ef ul up (\<lambda>_ _. False) copy)"
  by (simp add: unmarked_def with_flags_def copied_section_def flagged_section_def only_if_def case_prod_unfold fun_eq_iff)

lemma lays_copied_section:
  assumes "copies_to w copy bs" "length bs \<le> w"
  shows "lays c0 (32 + w) (unmarked (\<lambda>off. copied_section k off kind arg dir ul up copy)) ef ef
    [\<lparr>ls_kind = kind, ls_arg = arg, ls_flags = dir, ls_user_len = ul, ls_user_ptr = up, ls_data = bs\<rparr>]"
  using lays_flagged_section [OF assms, where tr = "\<lambda>_ _. False"] by (simp add: unmarked_copied_section)

lemma lays_truncating_section:
  assumes "copies_to w copy bs" "length bs \<le> w"
  shows "lays c0 (32 + w) (\<lambda>off ef. truncating_section k off kind arg dir ef ul up copy) ef
    (if 0 < length bs \<and> of_nat (length bs) < ul then ef OR EVENT_FLAG_TRUNCATED else ef)
    [\<lparr>ls_kind = kind, ls_arg = arg, ls_flags = dir, ls_user_len = ul, ls_user_ptr = up, ls_data = bs\<rparr>]"
  using lays_flagged_section [OF assms, of c0 k kind arg dir ul up
      "\<lambda>copied_len probe_ret. probe_ret = 0 \<and> copied_len > 0 \<and> of_nat copied_len < ul" ef]
  by (simp add: truncating_section_def)

text \<open>The section of a structure of \<open>n\<close> bytes.\<close>

definition struct_at :: "(u64 \<Rightarrow> u8) \<Rightarrow> u16 \<Rightarrow> u16 \<Rightarrow> u64 \<Rightarrow> nat \<Rightarrow> laid_section" where
  "struct_at M arg dir up n = \<lparr>ls_kind = PAYLOAD_TLV_KIND_STRUCT, ls_arg = arg, ls_flags = dir, ls_user_len = of_nat n,
     ls_user_ptr = up, ls_data = probe_bytes M up n\<rparr>"

lemma well_laid_struct [simp]: "n < 2 ^ 31 \<Longrightarrow> well_laid (struct_at M arg dir up n)"
  by (simp add: struct_at_def well_laid_def payloadKindFromTLV_def)

lemma length_struct_data [simp]: "length (ls_data (struct_at M arg dir up n)) = n"
  by (simp add: struct_at_def)

lemma lays_struct_section:
  assumes "readable k M" "n \<le> r" "r \<le> w"
  shows "lays c0 (32 + w) (unmarked (\<lambda>off. struct_section k off arg dir up w r n)) ef ef
    (if up = 0 then [] else [struct_at M arg dir up n])"
proof (cases "up = 0")
  case True
  then show ?thesis
    using lays_none by (simp add: struct_section_def unmarked_def with_flags_def)
next
  case False
  then show ?thesis
    using lays_copied_section [OF copies_to_user [OF assms]] assms by (simp add: struct_section_def struct_at_def)
qed

section \<open>Records\<close>

text \<open>The fields every exit record takes from its pending entry.\<close>

definition exit_of :: "pending_syscall \<Rightarrow> s64 \<Rightarrow> trace_event_envelope \<Rightarrow> bool" where
  "exit_of p ret env \<longleftrightarrow> env_event_type env = EVENT_TYPE_EXIT \<and> env_pid env = ps_pid p \<and> env_tid env = ps_tid p \<and>
     env_sys_id env = ps_sys_id p \<and> env_args env = ps_args p \<and> env_ret env = ret"

lemma exit_flagged_content:
  assumes "lays (control s) cap c 0 fl xs" "list_all well_laid xs" "length (images xs) \<le> cap" "cap < 2 ^ 31"
    and "k_reserve k (tick s) (168 + cap)"
  shows "\<exists>r env. events (exec (emit_exit_flagged k p ret dur cap c) s) = events s @ [r] \<and>
     decodeTraceEventV2Envelope r = Some env \<and> exit_of p ret env \<and> env_payload env = map section_view xs \<and>
     (has_flag (env_event_flags env) EVENT_FLAG_TRUNCATED \<longleftrightarrow> has_flag fl EVENT_FLAG_TRUNCATED)"
proof -
  let ?n = "length (images xs)"
  have "wp (c 168 0) (captured cap 168 ?n fl (images xs) u) u"
    if "reservation u = Some d" "length d = 168 + cap" "control u = control s" for u d
  proof (rule wp_mono [OF laysD [OF assms(1) that(1)]], use that in simp, use that in simp, elim conjE exE)
    fix x and t :: machine and d'
    assume t: "x = (?n, fl)" "events t = events u" "reservation t = Some d'" "length d' = length d"
      "take (168 + ?n) d' = take 168 d @ images xs"
    have "drop 168 (take (168 + ?n) d') = images xs" using that(2) by (simp only: t(5)) simp
    then show "captured cap 168 ?n fl (images xs) u x t" using t(1-4) that(2) by (simp add: captured_def drop_take)
  qed
  then have "\<exists>r h b. events (exec (emit_exit_flagged k p ret dur cap c) s) = events s @ [r] \<and>
     header_spec EVENT_TYPE_EXIT (payload_flags ?n fl) (ps_pid p) (ps_tid p) (ps_sys_id p) (168 + cap)
       (ps_enter_time p + dur) (next_seq k s) h \<and>
     exit_body_spec p ret dur (of_nat ?n) b \<and> decodeTraceEventV2Envelope r = Some (exit_view h b (images xs))"
    unfolding emit_exit_flagged_def by (intro exit_tlv_content [OF assms(5,4,3)]) blast
  then obtain r h b where r: "events (exec (emit_exit_flagged k p ret dur cap c) s) = events s @ [r]"
    "header_spec EVENT_TYPE_EXIT (payload_flags ?n fl) (ps_pid p) (ps_tid p) (ps_sys_id p) (168 + cap)
       (ps_enter_time p + dur) (next_seq k s) h" "exit_body_spec p ret dur (of_nat ?n) b"
    "decodeTraceEventV2Envelope r = Some (exit_view h b (images xs))" by blast
  have t: "has_flag EVENT_FLAG_PAYLOAD_TLV EVENT_FLAG_PAYLOAD_TLV" by (simp add: has_flag_def)
  have "payloadSectionsForRawPayloadEvent (hdr_flags h) (images xs) = map section_view xs"
    using t r(2) decode_images [OF assms(2)]
    by (cases xs) (auto simp: payloadSectionsForRawPayloadEvent_def header_spec_def payload_flags_def has_flag_or)
  moreover have "has_flag (hdr_flags h) EVENT_FLAG_TRUNCATED \<longleftrightarrow> has_flag fl EVENT_FLAG_TRUNCATED"
    using r(2) by (auto simp: header_spec_def payload_flags_def has_flag_or) (auto simp: has_flag_def)
  ultimately show ?thesis
    using r by (auto simp: exit_view_def exit_of_def exit_body_spec_def header_spec_def)
qed

lemma exit_sections_flagged:
  "emit_exit_sections k p ret dur cap cs = emit_exit_flagged k p ret dur cap (flag_sections (map unmarked cs))"
  by (simp add: emit_exit_sections_def emit_exit_flagged_def flag_sections_unmarked)

section \<open>Properties\<close>

text \<open>What the consumer reads of a structure the kernel wrote.\<close>

definition out_struct :: "(u64 \<Rightarrow> u8) \<Rightarrow> nat \<Rightarrow> u64 \<Rightarrow> nat \<Rightarrow> payload_section" where
  "out_struct M arg up n = \<lparr>sec_kind = PayloadKindStruct, sec_direction = PayloadDirectionOut, sec_arg_index = arg,
     sec_user_ptr = up, sec_user_len = of_nat n, sec_copied_len = of_nat n, sec_probe_ret = 0,
     sec_data = probe_bytes M up n\<rparr>"

lemma view_struct [simp]:
  "section_view (struct_at M arg PAYLOAD_TLV_FLAG_DIRECTION_OUT up n) = out_struct M (unat arg) up n"
  by (simp add: section_view_def struct_at_def out_struct_def tlv_section_def section_header_def payloadKindFromTLV_def
      payloadDirectionFromTLV_def has_flag_def)

lemma sample_readable: "readable (sample_kernel pid tid) (\<lambda>a. ucast a)"
  by (simp add: readable_def fun_eq_iff)

text \<open>
  The attributes a stat call returns reach the consumer.  With room in the ring buffer and readable memory, the exit
  record of a successful stat, lstat, fstat, newfstatat, statx, statfs or fstatfs carries one structure: all bytes of the
  structure of that call, read from the argument that points to it.
\<close>

theorem stat_exit_roundtrip:
  assumes "readable k M" "k_reserve k (tick s) 456" "0 \<le> sint ret" "stat_direct_struct_user_ptr p \<noteq> 0"
  shows "\<exists>r env. events (exec (emit_stat_struct_exit_event_v2_direct k p ret dur) s) = events s @ [r] \<and>
     decodeTraceEventV2Envelope r = Some env \<and> exit_of p ret env \<and>
     env_payload env = [out_struct M (unat (stat_direct_struct_arg_index (ps_sys_id p))) (stat_direct_struct_user_ptr p)
       (stat_direct_struct_size (ps_sys_id p))]"
proof -
  let ?n = "stat_direct_struct_size (ps_sys_id p)" and ?up = "stat_direct_struct_user_ptr p"
  let ?x = "struct_at M (stat_direct_struct_arg_index (ps_sys_id p)) PAYLOAD_TLV_FLAG_DIRECTION_OUT ?up ?n"
  have n: "?n \<le> 256" by (simp add: stat_direct_struct_size_def)
  have e: "capture_stat_struct_tlv_direct k off p =
      struct_section k off (stat_direct_struct_arg_index (ps_sys_id p)) PAYLOAD_TLV_FLAG_DIRECTION_OUT ?up 256 ?n ?n" for off
    by (simp add: capture_stat_struct_tlv_direct_def stat_direct_struct_size_def)
  have "lays c0 288 (unmarked (\<lambda>off. capture_stat_struct_tlv_direct k off p)) 0 0 [?x]" for c0
    using lays_struct_section [OF assms(1), of ?n ?n 256 c0 "stat_direct_struct_arg_index (ps_sys_id p)"
        PAYLOAD_TLV_FLAG_DIRECTION_OUT ?up 0] n assms(4) by (simp add: e)
  then have "lays (control s) 288 (flag_sections (map unmarked [\<lambda>off. capture_stat_struct_tlv_direct k off p])) 0 0 ([?x] @ [])"
    unfolding list.map by (rule lays_sections_cons [OF _ lays_sections_nil [of _ 0]]) (use n in simp_all)
  from exit_flagged_content [OF this, of k p ret dur] show ?thesis
    using assms(2,3) n by (simp add: emit_stat_struct_exit_event_v2_direct_def exit_sections_flagged) blast
qed

theorem stat_exit_roundtrip_witness:
  "let p = zero_pending_syscall\<lparr>ps_sys_id := SYS_FSTAT, ps_args := Args 3 0x40 0 0 0 0\<rparr> in
   \<exists>r env. events (exec (emit_stat_struct_exit_event_v2_direct (sample_kernel 1 2) p 0 5) (boot_machine 4)) = [] @ [r] \<and>
     decodeTraceEventV2Envelope r = Some env \<and> (\<exists>sec. env_payload env = [sec] \<and> length (sec_data sec) = 144)"
  using stat_exit_roundtrip [OF sample_readable, of 1 2 "boot_machine 4" 0
      "zero_pending_syscall\<lparr>ps_sys_id := SYS_FSTAT, ps_args := Args 3 0x40 0 0 0 0\<rparr>" 5]
  by (fastforce simp: Let_def stat_direct_struct_user_ptr_def stat_direct_struct_size_def out_struct_def)

text \<open>
  Both structures of a gettimeofday reach the consumer, in the order of the arguments; a null pointer leaves its
  structure out and does not disturb the other one.
\<close>

theorem gettimeofday_exit_roundtrip:
  assumes "readable k M" "k_reserve k (tick s) 256" "0 \<le> sint ret"
  shows "\<exists>r env. events (exec (emit_gettimeofday_exit_event_v2_direct k p ret dur) s) = events s @ [r] \<and>
     decodeTraceEventV2Envelope r = Some env \<and> exit_of p ret env \<and>
     env_payload env = (if arg0 (ps_args p) = 0 then [] else [out_struct M 0 (arg0 (ps_args p)) 16]) @
       (if arg1 (ps_args p) = 0 then [] else [out_struct M 1 (arg1 (ps_args p)) 8])"
proof -
  let ?a = "if arg0 (ps_args p) = 0 then [] else [struct_at M 0 PAYLOAD_TLV_FLAG_DIRECTION_OUT (arg0 (ps_args p)) 16]"
  let ?b = "if arg1 (ps_args p) = 0 then [] else [struct_at M 1 PAYLOAD_TLV_FLAG_DIRECTION_OUT (arg1 (ps_args p)) 8]"
  have a: "arg_at (ps_args p) 0 = arg0 (ps_args p)" "arg_at (ps_args p) (Suc 0) = arg1 (ps_args p)"
    by (simp_all add: arg_at_def args_list_def)
  have 1: "lays c0 48 (unmarked (\<lambda>off. capture_time_struct_tlv_direct k off p 0 16)) 0 0 ?a"
    "lays c0 40 (unmarked (\<lambda>off. capture_time_struct_tlv_direct k off p 1 8)) 0 0 ?b" for c0
    using lays_struct_section [OF assms(1), of 16 16 16 c0 0 PAYLOAD_TLV_FLAG_DIRECTION_OUT "arg0 (ps_args p)" 0]
      lays_struct_section [OF assms(1), of 8 8 8 c0 1 PAYLOAD_TLV_FLAG_DIRECTION_OUT "arg1 (ps_args p)" 0]
    by (simp_all add: capture_time_struct_tlv_direct_def capture_time_struct_tlv_direct_from_ptr_def a)
  have "lays (control s) 88 (flag_sections (map unmarked [\<lambda>off. capture_time_struct_tlv_direct k off p 0 16,
      \<lambda>off. capture_time_struct_tlv_direct k off p 1 8])) 0 0 (?a @ ?b @ [])"
    unfolding list.map
    by (rule lays_sections_cons [OF 1(1), where b = 40], rule lays_sections_cons [OF 1(2) lays_sections_nil [of _ 0]]) auto
  from exit_flagged_content [OF this, of k p ret dur] show ?thesis
    using assms(2,3) by (auto simp: emit_gettimeofday_exit_event_v2_direct_def exit_sections_flagged split: if_splits)
qed

theorem gettimeofday_exit_roundtrip_witness:
  "let p = zero_pending_syscall\<lparr>ps_sys_id := SYS_GETTIMEOFDAY, ps_args := Args 0x40 0 0 0 0 0\<rparr> in
   \<exists>r env. events (exec (emit_gettimeofday_exit_event_v2_direct (sample_kernel 1 2) p 0 5) (boot_machine 4)) = [] @ [r] \<and>
     decodeTraceEventV2Envelope r = Some env \<and> (\<exists>sec. env_payload env = [sec] \<and> length (sec_data sec) = 16)"
  using gettimeofday_exit_roundtrip [OF sample_readable, of 1 2 "boot_machine 4" 0
      "zero_pending_syscall\<lparr>ps_sys_id := SYS_GETTIMEOFDAY, ps_args := Args 0x40 0 0 0 0 0\<rparr>" 5]
  by (fastforce simp: Let_def out_struct_def)

text \<open>A capture that first reads something that depends on the control state and user memory only.\<close>

lemma lays_pre:
  assumes "\<And>u. control u = c0 \<Longrightarrow> wp m (\<lambda>x t. x = v \<and> reservation t = reservation u \<and> events t = events u \<and> control t = c0) u"
    and "lays c0 cap (c v) ef fl xs"
  shows "lays c0 cap (\<lambda>off ef. do { x \<leftarrow> m; c x off ef }) ef fl xs"
proof (rule laysI)
  fix off and u :: machine and d
  assume u: "reservation u = Some d" "off + cap \<le> length d" "control u = c0"
  show "wp (do { x \<leftarrow> m; c x off ef }) (\<lambda>x t. x = (length (images xs), fl) \<and> events t = events u \<and> control t = c0 \<and>
       (\<exists>d'. reservation t = Some d' \<and> length d' = length d \<and>
         take (off + length (images xs)) d' = take off d @ images xs)) u"
    unfolding wp_bind
  proof (rule wp_mono [OF assms(1) [OF u(3)]], elim conjE)
    fix x and t :: machine
    assume t: "x = v" "reservation t = reservation u" "events t = events u" "control t = c0"
    show "wp (c x off ef) (\<lambda>x t. x = (length (images xs), fl) \<and> events t = events u \<and> control t = c0 \<and>
       (\<exists>d'. reservation t = Some d' \<and> length d' = length d \<and>
         take (off + length (images xs)) d' = take off d @ images xs)) t"
      using laysD [OF assms(2), of t d off] u t by simp
  qed
qed

definition bytes_at :: "(u64 \<Rightarrow> u8) \<Rightarrow> u16 \<Rightarrow> u16 \<Rightarrow> u32 \<Rightarrow> u64 \<Rightarrow> nat \<Rightarrow> laid_section" where
  "bytes_at M arg dir ul up n = \<lparr>ls_kind = PAYLOAD_TLV_KIND_BYTES, ls_arg = arg, ls_flags = dir, ls_user_len = ul,
     ls_user_ptr = up, ls_data = probe_bytes M up n\<rparr>"

lemma bytes_at_sel [simp]:
  "length (ls_data (bytes_at M arg dir ul up n)) = n"
  "n < 2 ^ 31 \<Longrightarrow> well_laid (bytes_at M arg dir ul up n)"
  by (simp_all add: bytes_at_def well_laid_def payloadKindFromTLV_def)

definition out_bytes :: "(u64 \<Rightarrow> u8) \<Rightarrow> nat \<Rightarrow> u32 \<Rightarrow> u64 \<Rightarrow> nat \<Rightarrow> payload_section" where
  "out_bytes M arg ul up n = \<lparr>sec_kind = PayloadKindBytes, sec_direction = PayloadDirectionOut, sec_arg_index = arg,
     sec_user_ptr = up, sec_user_len = ul, sec_copied_len = of_nat n, sec_probe_ret = 0, sec_data = probe_bytes M up n\<rparr>"

lemma view_bytes [simp]:
  "section_view (bytes_at M arg PAYLOAD_TLV_FLAG_DIRECTION_OUT ul up n) = out_bytes M (unat arg) ul up n"
  by (simp add: section_view_def bytes_at_def out_bytes_def tlv_section_def section_header_def payloadKindFromTLV_def
      payloadDirectionFromTLV_def has_flag_def)

section \<open>Sockets\<close>

lemma min_u32: "unat (network_direct_min_u32 a b) = min (unat a) (unat b)"
  by (simp add: network_direct_min_u32_def word_less_nat_alt min_def)

lemma lays_network_section:
  assumes "readable k M" "ntr_user_len q \<noteq> 0" "ntr_user_ptr q \<noteq> 0" "ntr_storage_max q \<in> {512, 128}"
    and "n = min (min (unat (ntr_copy_len q)) (ntr_storage_max q)) (unat (ntr_user_len q))"
  shows "lays c0 (32 + ntr_storage_max q) (\<lambda>off ef. capture_network_tlv_direct k off q ef) ef
    (if 0 < n \<and> n < unat (ntr_user_len q) then ef OR EVENT_FLAG_TRUNCATED else ef)
    [\<lparr>ls_kind = ntr_kind q, ls_arg = ntr_arg_index q, ls_flags = ntr_tlv_flags q, ls_user_len = ntr_user_len q,
      ls_user_ptr = ntr_user_ptr q, ls_data = probe_bytes M (ntr_user_ptr q) n\<rparr>]"
proof -
  have u: "unat (network_direct_min_u32 (network_direct_min_u32 (ntr_copy_len q) (of_nat (ntr_storage_max q))) (ntr_user_len q)) = n"
    using assms(4,5) by (auto simp: min_u32 unat_of_nat take_bit_nat_eq_self)
  have w: "network_direct_payload_data (ntr_storage_max q) = ntr_storage_max q"
    using assms(4) by (auto simp: network_direct_payload_data_def)
  have n: "n \<le> ntr_storage_max q" "unat (of_nat n :: u32) = n"
    using assms(4,5) by (auto simp: unat_of_nat take_bit_nat_eq_self)
  have "copies_to (ntr_storage_max q) (copy_user k (ntr_storage_max q) n n (ntr_user_ptr q)) (probe_bytes M (ntr_user_ptr q) n)"
    using n by (intro copies_to_user assms(1)) simp_all
  from lays_truncating_section [OF this] show ?thesis
    using assms(2,3) n by (simp add: capture_network_tlv_direct_def Let_def u w word_less_nat_alt)
qed

lemma bit_le_word: "bit (le_word bs :: 'a::len word) i \<Longrightarrow> i < 8 * length bs"
proof (induction bs arbitrary: i)
  case (Cons b bs)
  then show ?case
    using bit_imp_le_length [of b i] by (auto simp: bit_or_iff bit_push_bit_iff bit_ucast_iff dest!: Cons.IH)
qed simp

lemma le_bytes_le_word: "8 * length bs \<le> LENGTH('a) \<Longrightarrow> le_bytes (length bs) (le_word bs :: 'a::len word) = bs"
proof (induction bs)
  case (Cons b bs)
  have "ucast (le_word (b # bs) :: 'a word) = b"
    by (rule bit_word_eqI) (use Cons.prems in \<open>auto simp: bit_or_iff bit_push_bit_iff bit_ucast_iff\<close>)
  moreover have "drop_bit 8 (le_word (b # bs) :: 'a word) = le_word bs"
    by (rule bit_word_eqI)
       (use Cons.prems in \<open>auto simp: bit_drop_bit_eq bit_or_iff bit_push_bit_iff bit_ucast_iff dest: bit_le_word bit_imp_le_length\<close>)
  ultimately show ?case using Cons by simp
qed simp

lemma copies_to_write:
  assumes "length bs = n" "n \<le> w"
  shows "copies_to w (\<lambda>off. do { ok \<leftarrow> bpf_dynptr_write off bs; if \<not> ok then m else return (n, 0) }) bs"
  unfolding copies_to_def
  using assms by (auto simp: wp_simps take_poke)

lemma wp_read_socklen:
  assumes "readable k M" "up \<noteq> 0"
  shows "wp (network_direct_read_socklen k up) Q u = Q (0, le_word (probe_bytes M up 4)) (u\<lparr>tick := Suc (tick u)\<rparr>)"
  using assms(2) by (simp add: network_direct_read_socklen_def wp_simps readableD [OF assms(1)])

lemma lays_socklen:
  assumes "readable k M" "up \<noteq> 0"
  shows "lays c0 36 (unmarked (out_socklen k arg up v)) ef ef [bytes_at M arg PAYLOAD_TLV_FLAG_DIRECTION_OUT 4 up 4]"
proof -
  let ?c = "\<lambda>x. unmarked (\<lambda>off. copied_section k off PAYLOAD_TLV_KIND_BYTES arg PAYLOAD_TLV_FLAG_DIRECTION_OUT 4 up
     (\<lambda>data_offset. if fst x = 0 then do {
          ok \<leftarrow> bpf_dynptr_write data_offset (le_bytes 4 (snd x :: u32));
          if \<not> ok then do { record_ringbuf_copy_fail k; return (0, - E2BIG) } else return (4, 0) }
        else return (0, of_int (fst x))))"
  let ?w = "le_word (probe_bytes M up 4) :: u32"
  have e: "unmarked (out_socklen k arg up v) = (\<lambda>off ef. do { x \<leftarrow> network_direct_read_socklen k up; ?c x off ef })"
    using assms(2)
    by (simp add: out_socklen_def capture_network_socklen_tlv_direct_def unmarked_def with_flags_def case_prod_unfold fun_eq_iff)
  have "le_bytes 4 ?w = probe_bytes M up 4" using le_bytes_le_word [of "probe_bytes M up 4", where ?'a = 32] by simp
  then have "lays c0 36 (?c (0, ?w)) ef ef [bytes_at M arg PAYLOAD_TLV_FLAG_DIRECTION_OUT 4 up 4]"
    using lays_copied_section [OF copies_to_write [of "probe_bytes M up 4" 4 4]] by (simp add: bytes_at_def)
  then show ?thesis
    unfolding e by (intro lays_pre [where v = "(0, ?w)"]) (simp_all add: wp_read_socklen [OF assms])
qed

lemma wp_aux0:
  "wp (lookup_pending_syscall_aux0 k tid) Q u = Q (result (lookup_pending_syscall_aux0 k tid) u) u"
  by (simp add: wp_def lookup_pending_syscall_aux0_def run_bind_parts pending_defs del: run_state_bind split: option.split)

lemma aux0_control:
  assumes "control u = control s"
  shows "result (lookup_pending_syscall_aux0 k tid) u = result (lookup_pending_syscall_aux0 k tid) s"
proof -
  have "pending_task_storage u = pending_task_storage s"
    using arg_cong [OF assms, of pending_task_storage] by (simp add: control_def)
  then show ?thesis
    by (simp add: lookup_pending_syscall_aux0_def run_bind_parts pending_defs del: run_state_bind split: option.split)
qed

text \<open>The length of the peer address that is captured: what the kernel wrote, within the room the caller gave.\<close>

definition address_len :: "u32 \<Rightarrow> u32 \<Rightarrow> nat" where
  "address_len room len = min (if 0 < room \<and> room < len then unat room else unat len) 128"

text \<open>The two sections of \<^verbatim>\<open>out_sockaddr\<close> for a recvfrom, once the lengths are known.\<close>

definition peer_sections :: "kernel \<Rightarrow> pending_syscall \<Rightarrow> u32 \<Rightarrow> u32 \<Rightarrow> flag_capture" where
  "peer_sections k p room len =
     (let copy = network_direct_min_u32 (if 0 < room \<and> room < len then room else len) 128 in
      flag_sections
       [\<lambda>off ef. if copy > 0 then capture_network_tlv_direct k off
          \<lparr>ntr_kind = PAYLOAD_TLV_KIND_STRUCT, ntr_arg_index = 4, ntr_tlv_flags = PAYLOAD_TLV_FLAG_DIRECTION_OUT,
           ntr_user_ptr = arg4 (ps_args p), ntr_user_len = copy, ntr_copy_len = copy, ntr_storage_max = 128\<rparr> ef
          else return (0, ef),
        unmarked (out_socklen k 5 (arg5 (ps_args p)) len)])"

lemma out_sockaddr_recvfrom:
  assumes "ps_sys_id p = SYS_RECVFROM"
  shows "out_sockaddr k p = (\<lambda>off ef. do { room \<leftarrow> lookup_pending_syscall_aux0 k (ps_tid p);
     (\<lambda>off ef. do { x \<leftarrow> network_direct_read_socklen k (arg5 (ps_args p)); peer_sections k p room (snd x) off ef }) off ef })"
  using assms by (simp add: out_sockaddr_def peer_sections_def network_direct_out_socklen_arg_def
      network_direct_out_sockaddr_arg_def network_direct_pending_arg_def Let_def case_prod_unfold fun_eq_iff
      cong: if_cong del: flag_sections.simps)

lemma lays_peer_sections:
  assumes "readable k M" "arg4 (ps_args p) \<noteq> 0" "arg5 (ps_args p) \<noteq> 0" "0 < len"
  shows "lays c0 196 (peer_sections k p room len) ef ef
    [struct_at M 4 PAYLOAD_TLV_FLAG_DIRECTION_OUT (arg4 (ps_args p)) (address_len room len),
     bytes_at M 5 PAYLOAD_TLV_FLAG_DIRECTION_OUT 4 (arg5 (ps_args p)) 4]"
proof -
  define copy where "copy = network_direct_min_u32 (if 0 < room \<and> room < len then room else len) 128"
  let ?q = "\<lparr>ntr_kind = PAYLOAD_TLV_KIND_STRUCT, ntr_arg_index = 4, ntr_tlv_flags = PAYLOAD_TLV_FLAG_DIRECTION_OUT,
     ntr_user_ptr = arg4 (ps_args p), ntr_user_len = copy, ntr_copy_len = copy, ntr_storage_max = 128\<rparr>"
  have c: "unat copy = address_len room len" by (simp add: min_u32 address_len_def copy_def)
  have pos: "0 < copy" using assms(4) by (auto simp: word_less_nat_alt min_u32 copy_def)
  have le: "address_len room len \<le> 128" by (simp add: address_len_def)
  have a: "of_nat (address_len room len) = copy" by (simp add: c [symmetric])
  have "lays c0 160 (\<lambda>off ef. if copy > 0 then capture_network_tlv_direct k off ?q ef else return (0, ef)) ef ef
      [struct_at M 4 PAYLOAD_TLV_FLAG_DIRECTION_OUT (arg4 (ps_args p)) (address_len room len)]"
    using lays_network_section [OF assms(1), of ?q "address_len room len" c0 ef] pos assms(2) c le
    by (auto simp: struct_at_def a min_def)
  then have "lays c0 196 (peer_sections k p room len) ef ef
     ([struct_at M 4 PAYLOAD_TLV_FLAG_DIRECTION_OUT (arg4 (ps_args p)) (address_len room len)] @
      [bytes_at M 5 PAYLOAD_TLV_FLAG_DIRECTION_OUT 4 (arg5 (ps_args p)) 4] @ [])"
    unfolding peer_sections_def Let_def copy_def
    by (rule lays_sections_cons [where b = 36], intro lays_sections_cons [OF lays_socklen lays_sections_nil [of _ 0]] assms)
       (simp_all add: address_len_def)
  then show ?thesis by simp
qed

lemma lays_out_sockaddr:
  assumes "readable k M" "ps_sys_id p = SYS_RECVFROM" "arg4 (ps_args p) \<noteq> 0" "arg5 (ps_args p) \<noteq> 0"
    and "room = result (lookup_pending_syscall_aux0 k (ps_tid p)) s" "len = le_word (probe_bytes M (arg5 (ps_args p)) 4)" "0 < len"
  shows "lays (control s) 196 (out_sockaddr k p) ef ef
    [struct_at M 4 PAYLOAD_TLV_FLAG_DIRECTION_OUT (arg4 (ps_args p)) (address_len room len),
     bytes_at M 5 PAYLOAD_TLV_FLAG_DIRECTION_OUT 4 (arg5 (ps_args p)) 4]"
proof -
  have w: "wp (lookup_pending_syscall_aux0 k (ps_tid p))
      (\<lambda>x t. x = room \<and> reservation t = reservation u \<and> events t = events u \<and> control t = control s) u"
    if "control u = control s" for u
    using aux0_control [OF that] that by (simp add: wp_aux0 assms(5))
  show ?thesis
    unfolding out_sockaddr_recvfrom [OF assms(2)]
    by (rule lays_pre [OF w], assumption, rule lays_pre [where v = "(0, len)"])
       (simp_all add: wp_read_socklen [OF assms(1,4)] assms(6) [symmetric] lays_peer_sections [OF assms(1,3,4,7)])
qed

lemma recvfrom_len:
  "min (min (unat (if payload_tlv_clamp_u32 count < payload_tlv_clamp_u32 ret then payload_tlv_clamp_u32 count
       else payload_tlv_clamp_u32 ret)) 512) (unat (payload_tlv_clamp_u32 ret)) = min (min (unat ret) (unat count)) 512"
  by (auto simp: word_less_nat_alt unat_clamp min_def)

lemma lays_recvfrom_bytes:
  assumes "readable k M" "ps_sys_id p = SYS_RECVFROM" "0 < sint ret" "arg1 (ps_args p) \<noteq> 0"
    and "n = min (min (unat ret) (unat (arg2 (ps_args p)))) 512"
  shows "lays c0 544 (recvfrom_bytes k p ret) ef
    (if 0 < n \<and> n < unat (payload_tlv_clamp_u32 ret) then ef OR EVENT_FLAG_TRUNCATED else ef)
    [bytes_at M 1 PAYLOAD_TLV_FLAG_DIRECTION_OUT (payload_tlv_clamp_u32 ret) (arg1 (ps_args p)) n]"
proof -
  define ul where "ul = payload_tlv_clamp_u32 ret"
  define cl where "cl = (if payload_tlv_clamp_u32 (arg2 (ps_args p)) < ul then payload_tlv_clamp_u32 (arg2 (ps_args p)) else ul)"
  let ?q = "\<lparr>ntr_kind = PAYLOAD_TLV_KIND_BYTES, ntr_arg_index = 1, ntr_tlv_flags = PAYLOAD_TLV_FLAG_DIRECTION_OUT,
     ntr_user_ptr = arg1 (ps_args p), ntr_user_len = ul, ntr_copy_len = cl, ntr_storage_max = 512\<rparr>"
  have n: "n = min (min (unat cl) 512) (unat ul)" by (simp only: assms(5) cl_def ul_def recvfrom_len)
  have "unat ul \<noteq> 0" using sint_pos [OF assms(3)] by (simp only: ul_def unat_clamp) simp
  then have "ul \<noteq> 0" by auto
  then have "lays c0 (32 + ntr_storage_max ?q) (\<lambda>off ef. capture_network_tlv_direct k off ?q ef) ef
    (if 0 < n \<and> n < unat (ntr_user_len ?q) then ef OR EVENT_FLAG_TRUNCATED else ef)
    [\<lparr>ls_kind = ntr_kind ?q, ls_arg = ntr_arg_index ?q, ls_flags = ntr_tlv_flags ?q, ls_user_len = ntr_user_len ?q,
      ls_user_ptr = ntr_user_ptr ?q, ls_data = probe_bytes M (ntr_user_ptr ?q) n\<rparr>]"
    using assms(4) by (intro lays_network_section assms(1)) (simp_all add: n)
  moreover have "recvfrom_bytes k p ret = (\<lambda>off ef. capture_network_tlv_direct k off ?q ef)"
    using assms(2,3) by (simp add: recvfrom_bytes_def Let_def cl_def ul_def)
  ultimately show ?thesis
    by (cases "0 < n \<and> n < unat ul") (auto simp: bytes_at_def ul_def [symmetric])
qed

text \<open>
  C15: The data of a recvfrom and its sender reach the consumer in one record: the first bytes of the buffer (as many as
  were received, at most as many as the caller asked for and at most 512), then the peer address, cut to the room the
  caller gave at the enter (which the pending entry carries to the exit) and to 128 bytes, then the length the kernel
  wrote.  The record is marked truncated exactly when some but not all of the received bytes are in it.
\<close>

theorem recvfrom_exit_roundtrip:
  assumes "readable k M" "k_reserve k (tick s) 908" "ps_sys_id p = SYS_RECVFROM" "0 < sint ret"
    and "arg1 (ps_args p) \<noteq> 0" "arg4 (ps_args p) \<noteq> 0" "arg5 (ps_args p) \<noteq> 0"
    and "room = result (lookup_pending_syscall_aux0 k (ps_tid p)) s" "len = le_word (probe_bytes M (arg5 (ps_args p)) 4)" "0 < len"
  shows "\<exists>r env. events (exec (emit_network_exit_event_v2_direct k p ret dur) s) = events s @ [r] \<and>
     decodeTraceEventV2Envelope r = Some env \<and> exit_of p ret env \<and>
     env_payload env =
       [out_bytes M 1 (payload_tlv_clamp_u32 ret) (arg1 (ps_args p)) (min (min (unat ret) (unat (arg2 (ps_args p)))) 512),
        out_struct M 4 (arg4 (ps_args p)) (address_len room len), out_bytes M 5 4 (arg5 (ps_args p)) 4] \<and>
     (has_flag (env_event_flags env) EVENT_FLAG_TRUNCATED \<longleftrightarrow>
        0 < unat (arg2 (ps_args p)) \<and> min (unat (arg2 (ps_args p))) 512 < unat ret)"
proof -
  let ?n = "min (min (unat ret) (unat (arg2 (ps_args p)))) 512" and ?ul = "payload_tlv_clamp_u32 ret"
  let ?fl = "if 0 < ?n \<and> ?n < unat ?ul then 0 OR EVENT_FLAG_TRUNCATED else 0"
  let ?xs = "[bytes_at M 1 PAYLOAD_TLV_FLAG_DIRECTION_OUT ?ul (arg1 (ps_args p)) ?n,
     struct_at M 4 PAYLOAD_TLV_FLAG_DIRECTION_OUT (arg4 (ps_args p)) (address_len room len),
     bytes_at M 5 PAYLOAD_TLV_FLAG_DIRECTION_OUT 4 (arg5 (ps_args p)) 4]"
  have pos: "0 < unat ret" using sint_pos [OF assms(4)] .
  have b: "lays c0 544 (recvfrom_bytes k p ret) 0 ?fl [bytes_at M 1 PAYLOAD_TLV_FLAG_DIRECTION_OUT ?ul (arg1 (ps_args p)) ?n]" for c0
    by (rule lays_recvfrom_bytes [OF assms(1,3-5) refl])
  have a: "lays (control s) 196 (flag_sections [out_sockaddr k p]) ?fl ?fl (drop 1 ?xs)"
    using lays_sections_cons [OF lays_out_sockaddr [OF assms(1,3,6-10)] lays_sections_nil [of _ 0], of 196 ?fl]
    by (simp add: address_len_def)
  have "lays (control s) 740 (\<lambda>off ef. capture_network_exit_payloads_tlv_direct k off p ret ef) 0 ?fl
      ([bytes_at M 1 PAYLOAD_TLV_FLAG_DIRECTION_OUT ?ul (arg1 (ps_args p)) ?n] @ drop 1 ?xs)"
    using lays_sections_cons [OF b a, of 740] assms(3,4)
    by (simp add: capture_network_exit_payloads_tlv_direct_def is_network_sockopt_direct_syscall_def del: flag_sections.simps)
  note rec = exit_flagged_content [OF this, of k p ret dur]
  have f: "has_flag ?fl EVENT_FLAG_TRUNCATED \<longleftrightarrow> 0 < unat (arg2 (ps_args p)) \<and> min (unat (arg2 (ps_args p))) 512 < unat ret"
    using pos by (auto simp: has_flag_def unat_clamp min_def)
  have "address_len room len \<le> 128" by (simp add: address_len_def)
  then show ?thesis
    using rec [unfolded f] assms(2) by (simp add: emit_network_exit_event_v2_direct_def)
qed

theorem recvfrom_exit_roundtrip_witness:
  "let p = zero_pending_syscall\<lparr>ps_sys_id := SYS_RECVFROM, ps_args := Args 3 0x40 4 0 0x60 0x80\<rparr> in
   \<exists>r env. events (exec (emit_network_exit_event_v2_direct (sample_kernel 1 2) p 9 5) (boot_machine 4)) = [] @ [r] \<and>
     decodeTraceEventV2Envelope r = Some env \<and>
     (\<exists>a b c. env_payload env = [a, b, c] \<and> length (sec_data a) = 4 \<and> length (sec_data b) = 128) \<and>
     has_flag (env_event_flags env) EVENT_FLAG_TRUNCATED"
proof -
  let ?p = "zero_pending_syscall\<lparr>ps_sys_id := SYS_RECVFROM, ps_args := Args 3 0x40 4 0 0x60 0x80\<rparr>"
  let ?len = "le_word (probe_bytes (\<lambda>a. ucast a) 0x80 4) :: u32"
  have len: "?len = 0x83828180" by (simp add: probe_bytes_def upt_rec)
  have room: "result (lookup_pending_syscall_aux0 (sample_kernel 1 2) tid) (boot_machine 4) = 0" for tid
    by (simp add: lookup_pending_syscall_aux0_def run_bind_parts pending_defs del: run_state_bind)
  have al: "address_len 0 ?len = 128" by (simp add: len address_len_def)
  obtain r env where "events (exec (emit_network_exit_event_v2_direct (sample_kernel 1 2) ?p 9 5) (boot_machine 4)) = [] @ [r]"
    "decodeTraceEventV2Envelope r = Some env" "has_flag (env_event_flags env) EVENT_FLAG_TRUNCATED"
    "env_payload env = [out_bytes (\<lambda>a. ucast a) 1 (payload_tlv_clamp_u32 9) 0x40 4, out_struct (\<lambda>a. ucast a) 4 0x60 128,
       out_bytes (\<lambda>a. ucast a) 5 4 0x80 4]"
    using recvfrom_exit_roundtrip [OF sample_readable, of 1 2 "boot_machine 4" ?p 9 0 ?len 5] room al len by auto
  then show ?thesis by (auto simp: Let_def out_bytes_def out_struct_def)
qed

section \<open>Arrays copied slot by slot\<close>

text \<open>With readable memory, the loop over the slots stores what one copy of the whole array would store.\<close>

lemma copy_slots_from:
  assumes "readable k M" "target = n * sz" "n \<le> m" "0 < sz" "i \<le> n"
    and "reservation u = Some d" "off + m * sz \<le> length d"
  shows "wp (copy_slots k up sz target [i..<m] (i * sz) off) (\<lambda>x t. x = (target, 0) \<and> events t = events u \<and>
     control t = control u \<and> (\<exists>d'. reservation t = Some d' \<and> length d' = length d \<and>
       take (off + target) d' = take (off + i * sz) d @ probe_bytes M (up + of_nat (i * sz)) ((n - i) * sz))) u"
  using assms(5-7)
proof (induction "n - i" arbitrary: i u d)
  case 0
  then have "i = n" by simp
  with 0 assms(2,4) show ?case
    by (cases "i < m") (simp_all add: upt_conv_Cons wp_simps probe_bytes_def)
next
  case (Suc j)
  then have i: "i < n" "i < m" "Suc i \<le> n" "j = n - Suc i" using assms(3) by simp_all
  let ?q = "up + of_nat (i * sz)" and ?o = "off + i * sz"
  let ?d = "poke d ?o (probe_bytes M ?q sz)"
  have "Suc i * sz \<le> m * sz" using i(2) by (intro mult_le_mono1) simp
  then have room: "?o + sz \<le> length d" using Suc.prems(3) by simp
  have d: "take (off + Suc i * sz) ?d = take ?o d @ probe_bytes M ?q sz" "length ?d = length d"
    using take_poke [of ?o "probe_bytes M ?q sz" d sz] room by (simp_all add: algebra_simps)
  have "(n - i) * sz = sz + (n - Suc i) * sz" using i(1) by (simp flip: mult_Suc add: Suc_diff_Suc)
  then have join: "probe_bytes M ?q sz @ probe_bytes M (up + of_nat (Suc i * sz)) ((n - Suc i) * sz) = probe_bytes M ?q ((n - i) * sz)"
    by (simp add: probe_bytes_append algebra_simps)
  have "i * sz < target" using i(1) assms(2,4) by simp
  then show ?case
    using Suc.hyps(1) [OF i(4) i(3), of "u\<lparr>tick := Suc (tick u), reservation := Some ?d\<rparr>" ?d] Suc.prems(2,3) i(2) room d join
    by (simp add: upt_rec [of i m] wp_simps readableD [OF assms(1)] add.commute)
qed

lemma copies_to_slots:
  assumes "readable k M" "target = n * sz" "n \<le> m" "0 < sz"
  shows "copies_to (m * sz) (copy_slots k up sz target [0..<m] 0) (probe_bytes M up target)"
  unfolding copies_to_def using copy_slots_from [OF assms, of 0] assms(2) by simp

lemma unat_epoll_user_len:
  assumes "0 < sint ret"
  shows "unat (epoll_events_user_len ret) = (if 357913941 < unat ret then 2 ^ 32 - 1 else unat ret * 12)"
proof (cases "357913941 < unat ret")
  case True
  then show ?thesis using assms by (simp add: epoll_events_user_len_def word_less_nat_alt)
next
  case False
  then have "unat (ucast ret :: u32) = unat ret" by (simp add: unsigned_ucast_eq take_bit_nat_eq_self)
  with False show ?thesis using assms by (simp add: epoll_events_user_len_def word_less_nat_alt unat_mult_lem [THEN iffD1])
qed

lemma epoll_lengths:
  assumes "0 < sint ret"
  shows "epoll_events_copy_len ret = min (unat ret) 42 * 12"
    "of_nat (min (unat ret) 42 * 12) < epoll_events_user_len ret \<longleftrightarrow> 42 < unat ret" "epoll_events_user_len ret \<noteq> 0"
proof -
  have pos: "0 < unat ret" using sint_pos [OF assms] .
  show "epoll_events_copy_len ret = min (unat ret) 42 * 12"
    using assms by (auto simp: epoll_events_copy_len_def word_less_nat_alt min_def)
  show "of_nat (min (unat ret) 42 * 12) < epoll_events_user_len ret \<longleftrightarrow> 42 < unat ret" "epoll_events_user_len ret \<noteq> 0"
    using pos unat_epoll_user_len [OF assms]
    by (auto simp: word_less_nat_alt unat_of_nat take_bit_nat_eq_self unat_eq_zero [symmetric] simp del: unat_eq_zero of_nat_mult)
qed

text \<open>
  C16: The events an epoll wait returns reach the consumer.  The slots are copied one by one, but the section holds exactly
  the bytes of the first 42 events (or all of them) with the length of the whole array beside it, and the record is
  marked truncated exactly when there were more.
\<close>

theorem epoll_wait_exit_roundtrip:
  assumes "readable k M" "k_reserve k (tick s) 704" "0 < sint ret" "arg1 (ps_args p) \<noteq> 0"
  shows "\<exists>r env. events (exec (emit_epoll_wait_exit_event_v2_direct k p ret dur) s) = events s @ [r] \<and>
     decodeTraceEventV2Envelope r = Some env \<and> exit_of p ret env \<and>
     env_payload env = [(out_struct M 1 (arg1 (ps_args p)) (min (unat ret) 42 * 12))
       \<lparr>sec_user_len := epoll_events_user_len ret\<rparr>] \<and>
     (has_flag (env_event_flags env) EVENT_FLAG_TRUNCATED \<longleftrightarrow> 42 < unat ret)"
proof -
  define n where "n = min (unat ret) 42"
  let ?x = "\<lparr>ls_kind = PAYLOAD_TLV_KIND_STRUCT, ls_arg = 1, ls_flags = PAYLOAD_TLV_FLAG_DIRECTION_OUT,
     ls_user_len = epoll_events_user_len ret, ls_user_ptr = arg1 (ps_args p), ls_data = probe_bytes M (arg1 (ps_args p)) (n * 12)\<rparr>"
  have n: "0 < n" "n \<le> 42" using sint_pos [OF assms(3)] by (simp_all add: n_def)
  have "lays (control s) (32 + 42 * 12) (\<lambda>off ef. capture_epoll_events_tlv_direct k off p ret ef) 0
      (if 42 < unat ret then EVENT_FLAG_TRUNCATED else 0) [?x]"
    using lays_truncating_section [OF copies_to_slots [OF assms(1) refl n(2), where sz = 12 and up = "arg1 (ps_args p)"],
        where ?c0.0 = "control s" and kind = PAYLOAD_TLV_KIND_STRUCT and arg = 1 and dir = PAYLOAD_TLV_FLAG_DIRECTION_OUT
        and ul = "epoll_events_user_len ret" and up = "arg1 (ps_args p)" and ef = 0 and k = k] n assms(4) epoll_lengths [OF assms(3)]
    by (cases "42 < unat ret") (simp_all add: capture_epoll_events_tlv_direct_def Let_def n_def [symmetric])
  from exit_flagged_content [OF this, of k p ret dur] show ?thesis
    using assms(2) n
    by (cases "42 < unat ret") (auto simp: emit_epoll_wait_exit_event_v2_direct_def n_def well_laid_def payloadKindFromTLV_def
        section_view_def section_header_def tlv_section_def out_struct_def payloadDirectionFromTLV_def has_flag_def)
qed

theorem epoll_wait_exit_roundtrip_witness:
  "let p = zero_pending_syscall\<lparr>ps_sys_id := SYS_EPOLL_WAIT, ps_args := Args 3 0x40 50 0 0 0\<rparr> in
   \<exists>r env. events (exec (emit_epoll_wait_exit_event_v2_direct (sample_kernel 1 2) p 50 5) (boot_machine 4)) = [] @ [r] \<and>
     decodeTraceEventV2Envelope r = Some env \<and> (\<exists>sec. env_payload env = [sec] \<and> length (sec_data sec) = 504) \<and>
     has_flag (env_event_flags env) EVENT_FLAG_TRUNCATED"
  using epoll_wait_exit_roundtrip [OF sample_readable, of 1 2 "boot_machine 4" 50
      "zero_pending_syscall\<lparr>ps_sys_id := SYS_EPOLL_WAIT, ps_args := Args 3 0x40 50 0 0 0\<rparr>" 5]
  by (fastforce simp: Let_def out_struct_def)

end
