(* ===== verification/Route_Families.thy ===== *)
theory Route_Families
  imports Exit_Dispatch
begin

text \<open>
  The route manifest and the probes' own classification of syscalls are written separately, in Go and in C; this theory compares them.
\<close>

section \<open>Families of syscalls\<close>


















section \<open>Properties\<close>


end
