(* ===== verification/Spec2Isabelle.thy ===== *)
theory Spec2Isabelle
  imports Trace_Session Payload_Content Route_Families
begin

text \<open>
  \<^bold>\<open>The probes of strace-go.\<close>  strace-go traces system calls with eBPF programs only: probe programs loaded into
  the kernel take bounded snapshots at the enter and the exit of a syscall, at forks, execs, exits and
  signals, and send them as event-v2 records with TLV payloads through one ring buffer; a Go consumer
  decodes, correlates and prints them.  This development verifies the probe programs of \<^verbatim>\<open>bpf/\<close>, the consumer from
  the bytes of a record to the update that is printed (decoder, reader, integrity tracker, event state, router), and
  the table that decides which program serves which syscall.

  \<^bold>\<open>Parts and how they interact.\<close>  The kernel runs \<^verbatim>\<open>trace_sys_enter\<close> (\<^verbatim>\<open>bpf/strace.c\<close>) at every syscall.
  It checks the filter maps and tail-calls the handler that the loader installed for the syscall
  number; when there is none it does the generic handler's work itself.  The handler emits an enter record with what the arguments point to and saves
  the call in task storage (\<^verbatim>\<open>struct pending_task_state\<close>).  \<^verbatim>\<open>trace_sys_exit\<close> tail-calls the exit
  handler, which matches the exit with the pending entry, emits the exit record with what the kernel
  wrote to user memory and the duration, and consumes the entry.  The scheduler tracepoints maintain who
  is traced (\<^verbatim>\<open>filter_map\<close> and its companions) and hand an exec of a thread over to its process.  Every
  emission takes a number of its CPU's sequence, and every failure is counted and moves the shared loss
  epoch that is stamped into all later records.  The consumer's reader decodes every record, shows it to the integrity
  tracker, which watches the numbers and the loss epoch, and hands it to the router; the event state joins enter and exit of
  a call, keeps tasks and unfinished calls, and drops what it knows when the tracker reports a loss.  At the end the tracker compares what it
  saw with the statistics of the probes.

  \<^bold>\<open>Machine and kernel.\<close>  \<open>Prelude\<close> has C's integer types as words, little-endian bytes, and the library's
  state monad with a weakest-precondition calculus and the locale \<open>step_relation\<close>, which lifts a reflexive and
  transitive relation on states through programs.  \<open>Bpf_Runtime\<close> has the state \<open>machine\<close> (one field per BPF
  map of \<^verbatim>\<open>runtime_abi.h\<close>, the submitted records, the one open reservation) and the BPF helpers.  The
  kernel is not in the repository: it is the parameter \<open>kernel\<close>, a record of functions that answer every helper
  call (user memory, kernel objects, clock, task, ring-buffer room) at every tick, so that nothing is
  assumed about memory that changes between two reads, faults, or room in the buffer.  Theorems hold for every
  \<open>kernel\<close>; where one needs room in the ring buffer or a stable clock, it is a premise of the theorem,
  and its witness instantiates it by \<open>sample_kernel\<close>.

  \<^bold>\<open>Theories and sources\<close> (under \<^verbatim>\<open>src/bpf\<close> unless said otherwise):
  \<^item> \<open>Syscall_Numbers\<close>, \<open>Event_Abi\<close>: \<^verbatim>\<open>syscall_numbers_amd64_generated.h\<close>, \<^verbatim>\<open>event_abi_generated.h\<close>, the
    wire structures of \<^verbatim>\<open>runtime_abi.h\<close> and \<^verbatim>\<open>payload_tlv.h\<close> with their byte images; the
    \<^verbatim>\<open>_Static_assert\<close> lines are lemmas on sizes and offsets.
  \<^item> \<open>Runtime_Stats\<close>: \<^verbatim>\<open>runtime_stats.h\<close>, \<^verbatim>\<open>event_integrity.h\<close> (filter, counters, sequence, loss epoch).
  \<^item> \<open>Event_Decoder\<close>: \<^verbatim>\<open>cmd/strace-go/trace_event_v2_decoder.go\<close>, \<^verbatim>\<open>event_payload_tlv.go\<close>.
  \<^item> \<open>Accounting\<close>: no code; the contract of the producers (\<open>accounted\<close>, \<open>silent\<close>) as step relations.
  \<^item> \<open>Syscall_Event_Core\<close>, \<open>Lifecycle_Event\<close>, \<open>Pending_State\<close>, \<open>Lifecycle_State\<close>, \<open>Fd_State\<close>, \<open>Namespace\<close>: the state of
    the syscall in flight, records without payload, lifecycle and signal programs, matching of exits,
    the scheduler programs, descriptor state, namespaces, and the KVM tracepoint.
  \<^item> \<open>Tlv_Emit\<close>, \<open>Tlv_Capture\<close>: what the payload emitters share (reserve, capture behind the header, commit), as
    functions over the capture, with one emitter lemma each.
  \<^item> \<open>Syscall_Payload\<close>, \<open>Fd_Path\<close>, \<open>Path\<close>, \<open>Struct_Events\<close>, \<open>Time_Events\<close>, \<open>Control_Events\<close>, \<open>File_System_Events\<close>,
    \<open>Poll_Events\<close>, \<open>Network_Events\<close>, \<open>Message_Events\<close>, \<open>Aio_Events\<close>, \<open>Bpf_Command_Abi\<close>, \<open>Bpf_Command_Enter\<close>,
    \<open>Bpf_Command_Exit\<close>: the capture families, \<^verbatim>\<open>syscall_*_direct_event_v2.h\<close>, one definition per C function.
  \<^item> \<open>Payload_Content\<close>: no code; what the captures write into a payload, section by section, and what the
    consumer reads of it (\<open>lays\<close>, with rules for every shape of section and for sequences of sections).
  \<^item> \<open>Route_Manifest\<close>: \<^verbatim>\<open>capture_manifest_generated.h\<close> and the Go manifest and loader that fill the
    program arrays.
  \<^item> \<open>Route_Families\<close>: no code; the manifest against the syscall predicates of the C handlers.
  \<^item> \<open>Enter_Dispatch\<close>, \<open>Nested_Fd_Path\<close>, \<open>Exit_Dispatch\<close>: all tail-called handlers and the two dispatchers.
  \<^item> \<open>Probe_System\<close>: the programs as steps of one system, with reachability and its invariant; a further step lets a record
    overtake its neighbour in the buffer, because numbers are taken before space is reserved.  A run has a history variable, the
    \<open>tally\<close>, that counts attempts and failures without wrap-around; \<open>history\<close> are the runs with their tally, and every
    reachable state has one.
  \<^item> \<open>Trace_Integrity\<close> (under \<^verbatim>\<open>src/cmd/strace-go\<close>, as the following): \<^verbatim>\<open>event_integrity.go\<close>,
    \<^verbatim>\<open>event_integrity_sequence.go\<close>, \<^verbatim>\<open>event_integrity_recovery.go\<close>, \<^verbatim>\<open>bpf_stats.go\<close>.
  \<^item> \<open>Integrity_Tracking\<close>: no code; the gap lists as sets of numbers, the invariant \<open>tracking\<close> and the locale
    \<open>sequence_tracker\<close> of what a client may rely on.
  \<^item> \<open>Event_Reader\<close>: \<^verbatim>\<open>event_reader.go\<close>, \<^verbatim>\<open>producer_accounting.go\<close>.
  \<^item> \<open>Consumer_System\<close>: no code; the reader after a run of the probes, and the losses it reports.
  \<^item> \<open>Trace_State\<close>: \<^verbatim>\<open>event_state.go\<close>, \<^verbatim>\<open>event_state_dispatch.go\<close>, \<^verbatim>\<open>event_syscall_correlation.go\<close>,
    \<^verbatim>\<open>event_payload_storage.go\<close>, \<^verbatim>\<open>event_state_snapshot.go\<close>, \<^verbatim>\<open>event_unfinished_state.go\<close>,
    \<^verbatim>\<open>event_task_lifecycle.go\<close>, \<^verbatim>\<open>event_attach_state.go\<close>, \<^verbatim>\<open>event_history_taint.go\<close>, \<^verbatim>\<open>trace_scope.go\<close>,
    \<^verbatim>\<open>event_router.go\<close>.
  \<^item> \<open>Trace_Correlation\<close>, \<open>Trace_Session\<close>: no code; enter and exit find each other, and the session as a whole.

  \<^bold>\<open>How state and operations correspond.\<close>  A C function is a definition of the same name in the monad; an out
  parameter is a further result; a null pointer is \<open>None\<close>; every early return is a branch.  A dynptr write
  outside the reservation fails as in C and its return value is tested where C tests it.  Tail calls never
  return: a chained handler is the continuation of its caller, and the code behind the call runs when
  the array slot is empty.  Unsigned arithmetic wraps (\<^typ>\<open>'a::len word\<close>); lengths that C keeps below a constant are
  natural numbers.  Signed comparisons read the word with \<open>sint\<close>.  \<^verbatim>\<open>bpf_loop\<close> and the unrolled loops are structural
  recursions over their constant bounds, so there is no fuel; the consumer's section loop terminates by the length of what
  is left.  A Go method is a function on the receiver's state; a pointer shared between entries is an index into a list,
  a pointer with one owner is the value; the order in which \<^verbatim>\<open>range\<close> visits a map is a list argument where it can show.

  \<^bold>\<open>What the lemmas show.\<close>
  \<^item> Accounting: every program, whatever the kernel answers, appends only records the consumer accepts, closes its
    reservation, and books each attempt; by rule induction this is an invariant of the running tracer
    (\<open>reachable_accounted\<close>, \<open>probe_appends\<close>), in whatever order the records are reserved.
  \<^item> Protocol: with the arrays the loader installs, a traced call is in flight after its enter (\<open>sys_enter_in_flight\<close>),
    its exit ends it (\<open>sys_exit_closes\<close>) and reports it (\<open>sys_call_roundtrip\<close>); calls of other tasks leave no
    trace; forks, execs and exits keep the filter maps (\<open>armed_fork_then_exec\<close>, \<open>process_exit_clears\<close>, \<open>exec_handoff\<close>).
    The locales \<open>enter_contract\<close> and \<open>exit_contract\<close> state what a dispatcher relies on and are interpreted for the
    program arrays and for the dispatchers.
  \<^item> Content: records decode to what was captured (\<open>syscall_exit_roundtrip\<close>, \<open>read_payload_roundtrip\<close>,
    \<open>path_only_roundtrip\<close>, \<open>stat_exit_roundtrip\<close>, \<open>recvfrom_exit_roundtrip\<close>, \<open>epoll_wait_exit_roundtrip\<close>, \<open>clone_namespace_roundtrip\<close>, \<open>kvm_exit_reason_roundtrip\<close> and others).
  \<^item> Integrity: whatever the order of arrival, the gap lists of the tracker are exactly the numbers not seen (\<open>tracker_gaps_exact\<close>);
    after a run of the probes the losses it reports are the records that were lost (\<open>consumer_loss_exact\<close>), its
    verdict is exact (\<open>consumer_verdict_exact\<close>) and so is the trust of the event state (\<open>session_trust_exact\<close>).  The locale
    \<open>sequence_tracker\<close> is interpreted for the tracker alone, for the reader, and for streams without failures.
  \<^item> Correlation: exits find their enters across other tasks' records (\<open>exit_finds_enter\<close>), also when they come first
    (\<open>enter_finds_deferred_exit\<close>), and only exact matches count after a loss (\<open>tainted_enter_exact\<close>).
  \<^item> Errors: which exits are orphans or mismatches, what an empty array slot does, where a chain ends without an
    exit record.

  A shape that several C functions share (reserve, header, sections, submit around one capture) is one definition over
  that capture; each function with the shape is an instance of it.

  \<^bold>\<open>Not modelled.\<close>  \<^verbatim>\<open>vmlinux.h\<close> (generated kernel types: the fields the programs read are answers of \<open>kernel\<close>),
  the arm64 numbers and the arm64 variants in \<^verbatim>\<open>native_task_abi.h\<close> and \<^verbatim>\<open>native_abi_layout.h\<close>, numbers that no probe names,
  the verifier and the loader's object handling, and of the Go user space the command line, the session control, the
  descriptor store, the handlers and the printing: what the output side does to the event state is a list of its operations,
  given by a function of the update.  The reader's waiting and time measurements are left out.  The effect of a program on the maps is one step: that another
  CPU, or a program that interrupts it on its own CPU, changes a map between two of its instructions is not modelled (task storage and
  the hash maps are keyed by the task or process the program runs for; counters, sequence and loss cell are updated by atomic
  instructions).  What such overlapping does to the order of the records is modelled, by the step \<open>overtake\<close>: nothing is claimed about the order of
  the numbers in the buffer.
\<close>

section \<open>Properties\<close>




text \<open>
  C11: Records are never withdrawn or changed: a program only appends to the ring buffer, whatever the state it starts in,
  and every record it appends is one the consumer accepts.
\<close>

theorem probe_appends:
  "\<exists>new. events (exec (run_probe k pa p) s) = events s @ new \<and> list_all accepted new"
proof -
  have "ledger (k_cpu k) s (exec (run_probe k pa p) s)"
    using accounted_probe [of k pa p] by (auto simp: accounted_def dest: state_io_rel_exec)
  then show ?thesis by (auto simp: ledger_def entry_def flow_def)
qed

text \<open>Decoding\<close>

lemma section_consumes:
  "32 \<le> length data \<Longrightarrow> decodePayloadTLVSection data = Some (sect, rest) \<Longrightarrow>
     length data = 32 + length (sec_data sect) + length rest"
  by (auto simp: decodePayloadTLVSection_def Let_def bslice_def split: option.splits if_splits)

text \<open>
  C38: The consumer's section loop ends: it takes at least the header from what is left at every turn, so a payload that
  parses has consumed all its bytes, and no more sections come out than headers fit into it.
\<close>

theorem decode_sections_consume:
  "case decodePayloadTLVSections data of None \<Rightarrow> True
   | Some sects \<Rightarrow> (\<Sum>sect\<leftarrow>sects. 32 + length (sec_data sect)) = length data \<and> 32 * length sects \<le> length data"
proof (induction data rule: decodePayloadTLVSections.induct)
  case (1 data)
  show ?case
  proof (cases "data = [] \<or> length data < 32 \<or> decodePayloadTLVSection data = None")
    case True
    then show ?thesis by (auto simp: decodePayloadTLVSections.simps [of data])
  next
    case False
    then obtain sect rest where s: "decodePayloadTLVSection data = Some (sect, rest)" "data \<noteq> []" "32 \<le> length data" by auto
    with 1 [of "(sect, rest)" sect rest] section_consumes [of data sect rest] show ?thesis
      by (simp add: decodePayloadTLVSections.simps [of data] split: option.splits)
  qed
qed

lemma mask_reason: "(0x80000000 OR (r AND 0x7fffffff)) AND 0x80000000 \<noteq> (0 :: u32)"
  "(0x80000000 OR (r AND 0x7fffffff)) AND 0x7fffffff = (r AND 0x7fffffff :: u32)"
  by (simp_all add: bit.conj_disj_distrib2 and.assoc)

text \<open>
  C36: The reason of a virtual-machine exit reaches the record of the ioctl it interrupted: what the tracepoint program
  stores between enter and exit of a KVM_RUN, the exit reads back, without its top bit, and it reads nothing when the
  run ended with an error; the call stays in flight.
\<close>

theorem kvm_exit_reason_roundtrip:
  assumes "in_flight k s = Some p" "ps_sys_id p = SYS_IOCTL" "arg1 (ps_args p) = KVM_RUN_IOCTL"
    and "config_map s = Some c" "has_flag c CONFIG_KVM_EXIT" "0 \<le> sint ret"
  shows "let t = exec (trace_kvm_userspace_exit k ctx) s in in_flight k t = Some p \<and>
    result (ioctl_kvm_exit_reason k p ret) t =
      (if sint (kvm_error ctx) < 0 then None else Some (kvm_reason ctx AND KVM_EXIT_AUX_REASON_MASK))"
proof -
  obtain st where "k_task k \<noteq> 0" "pending_task_storage s (k_task k) = Some st" "pts_valid st \<noteq> 0" "pts_syscall st = p"
    using assms(1) by (auto simp: in_flight_eq split: if_splits option.splits)
  then show ?thesis
    using assms(2-6) mask_reason [of "kvm_reason ctx"]
    by (simp add: trace_kvm_userspace_exit_def ioctl_kvm_exit_reason_def lookup_pending_syscall_aux0_def
        in_flight_eq pending_defs run_bind_parts Let_def has_flag_def del: run_state_bind)
qed

theorem kvm_exit_reason_roundtrip_witness:
  "let k = sample_kernel 1 2;
       p = zero_pending_syscall\<lparr>ps_sys_id := SYS_IOCTL, ps_args := Args 3 KVM_RUN_IOCTL 0 0 0 0\<rparr>;
       s = boot_machine CONFIG_KVM_EXIT \<lparr>pending_task_storage := [0x1002 \<mapsto> zero_pending_task_state\<lparr>pts_syscall := p, pts_valid := 1\<rparr>]\<rparr>
   in result (ioctl_kvm_exit_reason k p 0) (exec (trace_kvm_userspace_exit k \<lparr>kvm_reason = 2, kvm_error = 0\<rparr>) s) = Some 2"
proof -
  define p where "p = zero_pending_syscall\<lparr>ps_sys_id := SYS_IOCTL, ps_args := Args 3 KVM_RUN_IOCTL 0 0 0 0\<rparr>"
  define s where "s = boot_machine CONFIG_KVM_EXIT \<lparr>pending_task_storage := [0x1002 \<mapsto> zero_pending_task_state\<lparr>pts_syscall := p, pts_valid := 1\<rparr>]\<rparr>"
  have "in_flight (sample_kernel 1 2) s = Some p" by (simp add: in_flight_eq s_def)
  then show ?thesis
    using kvm_exit_reason_roundtrip [of "sample_kernel 1 2" s p CONFIG_KVM_EXIT 0 "\<lparr>kvm_reason = 2, kvm_error = 0\<rparr>"]
    by (simp add: Let_def p_def s_def has_flag_def)
qed

section \<open>Equivalences\<close>

lemma unit_bpf_eqI:
  assumes "\<And>s. exec m s = exec n s"
  shows "m = (n :: unit bpf)"
  using assms by (intro state.expand ext) (simp add: prod_eq_iff)

text \<open>
  C31: An exit route that is not installed costs nothing: when the tail call of the dispatcher fails, the exit is handled
  exactly as by the generic exit program, on every path and with the same effect on every map and on the records.
\<close>

theorem missing_exit_route_is_generic:
  "trace_sys_exit k (pa\<lparr>pa_exit_routes := (pa_exit_routes pa)(ucast (sxc_id ctx) := None)\<rparr>) ctx =
     trace_sys_exit k (pa\<lparr>pa_exit_routes := (pa_exit_routes pa)(ucast (sxc_id ctx) \<mapsto> EXIT_PROG_GENERIC)\<rparr>) ctx"
proof -
  have "emit_exit_dispatch_fallback k (cur_pid k) (cur_tid k) (ucast (sxc_id ctx)) (sxc_ret ctx) = exit_generic k ctx"
    by (rule unit_bpf_eqI) (rule fallback_is_generic)
  then have r: "exit_route k (pa\<lparr>pa_exit_routes := (pa_exit_routes pa)(ucast (sxc_id ctx) := None)\<rparr>) ctx =
      exit_route k (pa\<lparr>pa_exit_routes := (pa_exit_routes pa)(ucast (sxc_id ctx) \<mapsto> EXIT_PROG_GENERIC)\<rparr>) ctx"
    by (simp add: exit_route_def)
  show ?thesis by (simp only: trace_sys_exit_def dispatch_exit_def Let_def r)
qed

text \<open>
  C32: Filling header and body in place leaves nothing of the old buffer in the record.  The enter record of bpf(2) is written field by field
  through pointers into a reservation that holds arbitrary stale bytes, after the sections are captured; the result is, byte for byte and
  with the same counters, that of the common emitter, which builds zeroed structures on the stack, fills them and copies them: no field
  is missed, written at a wrong offset or overwritten.
\<close>

theorem bpf_enter_in_place_equiv:
  "emit_bpf_enter_event_v2_direct k pid tid sys_id ctx ts =
     emit_enter_tlv k pid tid sys_id (sec_args ctx) ts 0 (-1)
       (PAYLOAD_TLV_HEADER_SIZE + BPF_DIRECT_ATTR_MAX + BPF_DIRECT_NESTED_CAPACITY)
       (\<lambda>off. flag_sections
          [\<lambda>off ef. capture_bpf_attr_tlv_direct k off (arg1 (sec_args ctx)) (arg2 (sec_args ctx)) ef,
           \<lambda>off ef. capture_bpf_nested_tlv_direct k off (arg0 (sec_args ctx)) (arg1 (sec_args ctx)) (arg2 (sec_args ctx)) ef]
          off EVENT_FLAG_GENERIC_ENTER)"
  by (simp only: emit_bpf_enter_event_v2_direct_def emit_in_place_tlv Let_def)

end
